(* ===== verification/Prelude.thy ===== *)
theory Prelude
  imports Main "HOL-Library.Char_ord" "HOL-Library.List_Lexorder"
    "HOL-Library.Code_Target_Nat"
begin

text \<open>
  The part of the library every component shares: Python exceptions as values, the error
  monad in which each modelled function runs, dictionaries as association lists in
  insertion order, and the lemma collections that carry the component proofs.
\<close>

section \<open>Exceptions as values\<close>

text \<open>
  The exception classes the modelled code raises or catches. \<open>is_a\<close> is the subclass
  relation the \<open>except\<close> clauses of the code rely on: \<open>json.JSONDecodeError\<close>,
  \<open>UnicodeEncodeError\<close>, \<open>UnicodeDecodeError\<close>, pydantic's \<open>ValidationError\<close>,
  \<open>CanonicalizationError\<close>, \<open>DetectionRuleLoadError\<close>, \<open>ObserverAttestationError\<close>,
  \<open>TenantIsolationError\<close> and \<open>LocalDurabilityPolicyError\<close> are \<open>ValueError\<close>s; \<open>EventParseError\<close> is an \<open>ActionLineageError\<close>, a
  \<open>RuntimeError\<close>, as are the journal and redaction errors.
\<close>

datatype exn_class =
    ValueError | TypeError | KeyError | IndexError | OverflowError | RuntimeError
  | UnicodeDecodeError | UnicodeEncodeError | JSONDecodeError | OutOfFuel
  | ValidationError | CanonicalizationError | DetectionRuleLoadError
  | ObserverAttestationError
  | ActionLineageError | ActionLineageValidationError | EventParseError
  | RedactionError | JournalError | JournalAppendError | JournalLockError
  | JournalStoragePermissionError | JournalAnchorError | OSError
  | TenantIsolationError | ServiceAuthError | JwtLibraryUnavailable | BlockingIOError
  | AttributeError | FileExistsError | SqliteDatabaseError | SqliteIntegrityError
  | SqliteOperationalError | ProjectionError | ProjectionSchemaError | ProjectionIndexError
  | ProjectionQueryError | ProjectionRebuildError | ServiceRuntimeConfigError
  | ServiceDependencyError | LocalDurabilityPolicyError

datatype exn = Raise (exn_kind: exn_class) (exn_message: string)

fun is_a :: "exn_class \<Rightarrow> exn_class \<Rightarrow> bool" where
  "is_a c ValueError \<longleftrightarrow>
     c \<in> {ValueError, UnicodeDecodeError, UnicodeEncodeError, JSONDecodeError, OutOfFuel,
          ValidationError, CanonicalizationError, DetectionRuleLoadError,
          ObserverAttestationError, TenantIsolationError, LocalDurabilityPolicyError}"
| "is_a c ActionLineageError \<longleftrightarrow>
     c \<in> {ActionLineageError, ActionLineageValidationError, EventParseError}"
| "is_a c ActionLineageValidationError \<longleftrightarrow>
     c \<in> {ActionLineageValidationError, EventParseError}"
| "is_a c JournalError \<longleftrightarrow>
     c \<in> {JournalError, JournalAppendError, JournalLockError, JournalStoragePermissionError}"
| "is_a c ServiceAuthError \<longleftrightarrow> c \<in> {ServiceAuthError, JwtLibraryUnavailable}"
| "is_a c OSError \<longleftrightarrow> c \<in> {OSError, BlockingIOError, FileExistsError}"
| "is_a c SqliteDatabaseError \<longleftrightarrow>
     c \<in> {SqliteDatabaseError, SqliteIntegrityError, SqliteOperationalError}"
| "is_a c ProjectionError \<longleftrightarrow>
     c \<in> {ProjectionError, ProjectionSchemaError, ProjectionIndexError, ProjectionQueryError,
          ProjectionRebuildError}"
| "is_a c d \<longleftrightarrow> c = d"

text \<open>The result of a function that may raise.\<close>

type_synonym 'a res = "exn + 'a"

abbreviation raise :: "exn_class \<Rightarrow> string \<Rightarrow> 'a res" where
  "raise c m \<equiv> Inl (Raise c m)"

definition bnd :: "'e + 'a \<Rightarrow> ('a \<Rightarrow> 'e + 'b) \<Rightarrow> 'e + 'b" where
  "bnd r f = (case r of Inl e \<Rightarrow> Inl e | Inr x \<Rightarrow> f x)"

text \<open>\<open>require c e\<close> is the early raise \<open>if not c: raise e\<close>.\<close>

definition require :: "bool \<Rightarrow> exn_class \<Rightarrow> string \<Rightarrow> unit res" where
  "require c k m = (if c then Inr () else raise k m)"

named_theorems res_simps \<open>evaluation of the error monad\<close>

lemma bnd_simps [simp, res_simps]:
  "bnd (Inl e) f = Inl e"
  "bnd (Inr x) f = f x"
  by (simp_all add: bnd_def)

lemma bnd_Inr_iff [res_simps]: "bnd r f = Inr y \<longleftrightarrow> (\<exists>x. r = Inr x \<and> f x = Inr y)"
  by (cases r) auto

lemma bnd_Inl_iff: "bnd r f = Inl e \<longleftrightarrow> r = Inl e \<or> (\<exists>x. r = Inr x \<and> f x = Inl e)"
  by (cases r) auto

lemma bnd_cong [fundef_cong]:
  "r = r' \<Longrightarrow> (\<And>x. r' = Inr x \<Longrightarrow> f x = g x) \<Longrightarrow> bnd r f = bnd r' g"
  by (cases r') auto

lemma bnd_assoc: "bnd (bnd r f) g = bnd r (\<lambda>x. bnd (f x) g)"
  by (cases r) auto

lemma require_simps [simp, res_simps]:
  "require True k m = Inr ()"
  "require False k m = raise k m"
  by (simp_all add: require_def)

lemma require_Inr_iff [simp, res_simps]: "require c k m = Inr u \<longleftrightarrow> c"
  by (simp add: require_def)

text \<open>A loop that calls a function on each element and stops at the first exception.\<close>

fun traverse :: "('a \<Rightarrow> 'e + 'b) \<Rightarrow> 'a list \<Rightarrow> 'e + 'b list" where
  "traverse f [] = Inr []"
| "traverse f (x # xs) = bnd (f x) (\<lambda>y. bnd (traverse f xs) (\<lambda>ys. Inr (y # ys)))"

lemma traverse_cong [fundef_cong]:
  "xs = ys \<Longrightarrow> (\<And>x. x \<in> set ys \<Longrightarrow> f x = g x) \<Longrightarrow> traverse f xs = traverse g ys"
proof (induction ys arbitrary: xs)
  case (Cons y ys)
  then show ?case by (cases "g y") auto
qed simp

lemma traverse_Inr_iff:
  "traverse f xs = Inr ys \<longleftrightarrow> list_all2 (\<lambda>x y. f x = Inr y) xs ys"
  by (induction xs arbitrary: ys) (auto simp: bnd_Inr_iff list_all2_Cons1)

lemma traverse_length: "traverse f xs = Inr ys \<Longrightarrow> length ys = length xs"
  by (auto simp: traverse_Inr_iff dest: list_all2_lengthD)

lemma traverse_map: "traverse f (map g xs) = traverse (\<lambda>x. f (g x)) xs"
  by (induction xs) auto

lemma traverse_Inr_map: "traverse (\<lambda>x. Inr (f x)) xs = Inr (map f xs)"
  by (induction xs) auto

lemma traverse_all_Inr:
  "(\<And>x. x \<in> set xs \<Longrightarrow> f x = Inr (g x)) \<Longrightarrow> traverse f xs = Inr (map g xs)"
  by (induction xs) auto

section \<open>Dictionaries\<close>

text \<open>
  A Python dict is an association list in insertion order: \<open>dget\<close> is \<open>d.get(k)\<close>,
  \<open>dset\<close> is \<open>d[k] = v\<close> (in place when the key is present, at the end otherwise).
\<close>

fun dget :: "('k \<times> 'v) list \<Rightarrow> 'k \<Rightarrow> 'v option" where
  "dget [] k = None"
| "dget ((k', v) # d) k = (if k' = k then Some v else dget d k)"

fun dset :: "('k \<times> 'v) list \<Rightarrow> 'k \<Rightarrow> 'v \<Rightarrow> ('k \<times> 'v) list" where
  "dset [] k v = [(k, v)]"
| "dset ((k', v') # d) k v = (if k' = k then (k, v) # d else (k', v') # dset d k v)"

abbreviation keys :: "('k \<times> 'v) list \<Rightarrow> 'k list" where
  "keys d \<equiv> map fst d"

lemma dget_map_of: "dget d k = map_of d k"
  by (induction d k rule: dget.induct) auto

lemma dget_dset [simp]: "dget (dset d k v) k' = (if k' = k then Some v else dget d k')"
  by (induction d) auto

lemma dget_None_iff: "dget d k = None \<longleftrightarrow> k \<notin> set (keys d)"
  by (simp add: dget_map_of map_of_eq_None_iff)

lemma dget_Some_in: "dget d k = Some v \<Longrightarrow> (k, v) \<in> set d"
  by (simp add: dget_map_of map_of_SomeD)

lemma keys_dset_list:
  "keys (dset d k v) = (if k \<in> set (keys d) then keys d else keys d @ [k])"
proof (induction d)
  case (Cons p d)
  then show ?case by (cases p) (auto simp del: set_map)
qed simp

lemma keys_dset: "set (keys (dset d k v)) = insert k (set (keys d))"
  by (auto simp add: keys_dset_list simp del: set_map)

lemma distinct_dset: "distinct (keys d) \<Longrightarrow> distinct (keys (dset d k v))"
  by (simp add: keys_dset_list del: set_map)

lemma dset_new: "k \<notin> set (keys d) \<Longrightarrow> dset d k v = d @ [(k, v)]"
  by (induction d) auto

lemma map_snd_dget:
  "dget (map (\<lambda>(k, v). (k, f v)) d) k = map_option f (dget d k)"
  by (induction d k rule: dget.induct) auto

section \<open>Sorting by key\<close>

text \<open>
  Python's \<open>sorted\<close> is stable; so is \<open>sort_key\<close>. Sorting association lists with distinct
  keys commutes with mapping the values.
\<close>

lemma insort_key_map:
  "(\<And>x. f (g x) = f' x) \<Longrightarrow> insort_key f (g x) (map g xs) = map g (insort_key f' x xs)"
  by (induction xs) auto

lemma sort_key_map:
  "(\<And>x. f (g x) = f' x) \<Longrightarrow> sort_key f (map g xs) = map g (sort_key f' xs)"
proof (induction xs)
  case (Cons x xs)
  then show ?case by (simp add: insort_key_map [where f' = f'])
qed simp

lemma sorted_sort_key_id: "sorted (map f xs) \<Longrightarrow> sort_key f xs = xs"
  by (induction xs) (auto simp: insort_is_Cons)

end
