(* ===== verification/PyText.thy ===== *)
theory PyText
  imports Prelude
begin

text \<open>
  Python's \<open>str\<close> and \<open>bytes\<close>. A \<open>str\<close> is modelled by its UTF-8 bytes (a lone
  surrogate, which \<open>json.loads\<close> may produce, by its three generalised-UTF-8 bytes), so
  equality, concatenation, prefixes and the code-point order of \<open>sorted\<close> are those of the
  byte string, and \<open>encode\<close> is the identity that raises on a surrogate. \<open>len\<close> and slices
  count code points, so \<open>py_len\<close> and \<open>py_take\<close> skip continuation bytes. Case mapping
  and white space are those of the ASCII characters.
\<close>

section \<open>Bytes and UTF-8\<close>

type_synonym bytes = string

definition byte :: "char \<Rightarrow> nat" where
  "byte c = of_char c"

definition cont_byte :: "char \<Rightarrow> bool" where
  "cont_byte c \<longleftrightarrow> 128 \<le> byte c \<and> byte c < 192"

lemma byte_less [simp]: "byte c < 256"
  by (simp add: byte_def)

lemma char_of_byte [simp]: "char_of (byte c) = c"
  by (simp add: byte_def)

lemma byte_char_of [simp]: "n < 256 \<Longrightarrow> byte (char_of n) = n"
  by (simp add: byte_def)

lemma byte_inj [simp]: "byte c = byte d \<longleftrightarrow> c = d"
  by (metis char_of_byte)

text \<open>
  \<open>utf8_ok sp s\<close>: is \<open>s\<close> well-formed UTF-8, with surrogates allowed when \<open>sp\<close>
  (the \<open>surrogatepass\<close> error handler of \<open>json.loads\<close> on bytes).
\<close>

fun utf8_ok :: "bool \<Rightarrow> bytes \<Rightarrow> bool" where
  "utf8_ok sp [] = True"
| "utf8_ok sp (c # cs) =
     (let b = byte c in
      if b < 128 then utf8_ok sp cs
      else if 194 \<le> b \<and> b < 224 then
        (case cs of c1 # r \<Rightarrow> cont_byte c1 \<and> utf8_ok sp r | _ \<Rightarrow> False)
      else if 224 \<le> b \<and> b < 240 then
        (case cs of c1 # c2 # r \<Rightarrow>
             cont_byte c1 \<and> cont_byte c2
             \<and> (b = 224 \<longrightarrow> 160 \<le> byte c1)
             \<and> (b = 237 \<and> \<not> sp \<longrightarrow> byte c1 < 160)
             \<and> utf8_ok sp r
         | _ \<Rightarrow> False)
      else if 240 \<le> b \<and> b < 245 then
        (case cs of c1 # c2 # c3 # r \<Rightarrow>
             cont_byte c1 \<and> cont_byte c2 \<and> cont_byte c3
             \<and> (b = 240 \<longrightarrow> 144 \<le> byte c1)
             \<and> (b = 244 \<longrightarrow> byte c1 < 144)
             \<and> utf8_ok sp r
         | _ \<Rightarrow> False)
      else False)"

lemma utf8_ok_surrogatepass: "utf8_ok False s \<Longrightarrow> utf8_ok True s"
proof (induction "False" s rule: utf8_ok.induct)
  case (2 c cs)
  define b where "b = byte c"
  have ok: "utf8_ok False (c # cs)" by fact
  consider "b < 128" | "194 \<le> b" "b < 224" | "224 \<le> b" "b < 240" | "240 \<le> b" "b < 245"
    | "\<not> b < 128" "\<not> (194 \<le> b \<and> b < 224)" "\<not> (224 \<le> b \<and> b < 240)" "\<not> (240 \<le> b \<and> b < 245)"
    by linarith
  then show ?case
  proof cases
    case 1
    with ok "2.hyps" [OF refl] show ?thesis by (simp add: b_def)
  next
    case 2
    with ok "2.hyps" [OF refl] show ?thesis
      by (auto simp: b_def split: list.splits)
  next
    case 3
    with ok "2.hyps" [OF refl] show ?thesis
      by (auto simp: b_def Let_def split: list.splits)
  next
    case 4
    with ok "2.hyps" [OF refl] show ?thesis
      by (auto simp: b_def Let_def split: list.splits)
  next
    case 5
    with ok show ?thesis by (auto simp: b_def Let_def split: if_split_asm)
  qed
qed simp

text \<open>The UTF-8 bytes of one code point (surrogates included).\<close>

definition utf8_of_cp :: "nat \<Rightarrow> bytes" where
  "utf8_of_cp n =
     (if n < 128 then [char_of n]
      else if n < 2048 then [char_of (192 + n div 64), char_of (128 + n mod 64)]
      else if n < 65536 then
        [char_of (224 + n div 4096), char_of (128 + n div 64 mod 64), char_of (128 + n mod 64)]
      else
        [char_of (240 + n div 262144), char_of (128 + n div 4096 mod 64),
         char_of (128 + n div 64 mod 64), char_of (128 + n mod 64)])"

text \<open>\<open>s.encode("utf-8")\<close>.\<close>

definition py_encode :: "string \<Rightarrow> bytes res" where
  "py_encode s = (if utf8_ok False s then Inr s
     else raise UnicodeEncodeError ''surrogates not allowed'')"

lemma py_encode_Inr [simp]: "py_encode s = Inr b \<longleftrightarrow> b = s \<and> utf8_ok False s"
  by (auto simp: py_encode_def)

definition py_len :: "string \<Rightarrow> nat" where
  "py_len s = length (filter (\<lambda>c. \<not> cont_byte c) s)"

fun py_take :: "nat \<Rightarrow> string \<Rightarrow> string" where
  "py_take n [] = []"
| "py_take n (c # cs) =
     (if cont_byte c then c # py_take n cs
      else (case n of 0 \<Rightarrow> [] | Suc m \<Rightarrow> c # py_take m cs))"

lemma py_len_simps [simp]:
  "py_len [] = 0"
  "py_len (c # cs) = (if cont_byte c then py_len cs else Suc (py_len cs))"
  by (simp_all add: py_len_def)

lemma py_len_append: "py_len (a @ b) = py_len a + py_len b"
  by (simp add: py_len_def)

lemma py_len_le_length: "py_len s \<le> length s"
  by (simp add: py_len_def)

lemma py_len_take: "py_len (py_take n s) = min n (py_len s)"
  by (induction n s rule: py_take.induct) (auto split: nat.splits)

lemma py_take_all: "py_len s \<le> n \<Longrightarrow> py_take n s = s"
proof (induction n s rule: py_take.induct)
  case (2 n c cs)
  then show ?case by (cases "cont_byte c"; cases n) auto
qed simp

lemma py_take_prefix: "\<exists>t. s = py_take n s @ t"
proof (induction n s rule: py_take.induct)
  case (2 n c cs)
  then show ?case by (cases "cont_byte c"; cases n) auto
qed simp

section \<open>String operations\<close>

definition lower_char :: "char \<Rightarrow> char" where
  "lower_char c = (if 65 \<le> byte c \<and> byte c \<le> 90 then char_of (byte c + 32) else c)"

definition py_lower :: "string \<Rightarrow> string" where
  "py_lower = map lower_char"

lemma lower_char_idem [simp]: "lower_char (lower_char c) = lower_char c"
  by (simp add: lower_char_def)

lemma py_lower_idem [simp]: "py_lower (py_lower s) = py_lower s"
  by (simp add: py_lower_def)

lemma py_lower_append: "py_lower (a @ b) = py_lower a @ py_lower b"
  by (simp add: py_lower_def)

definition replace_char :: "char \<Rightarrow> char \<Rightarrow> string \<Rightarrow> string" where
  "replace_char a b = map (\<lambda>c. if c = a then b else c)"

definition is_space :: "char \<Rightarrow> bool" where
  "is_space c \<longleftrightarrow> byte c = 32 \<or> (9 \<le> byte c \<and> byte c \<le> 13) \<or> (28 \<le> byte c \<and> byte c \<le> 31)"

definition py_strip :: "string \<Rightarrow> string" where
  "py_strip s = rev (dropWhile is_space (rev (dropWhile is_space s)))"

fun split_on :: "char \<Rightarrow> string \<Rightarrow> string list" where
  "split_on d [] = [[]]"
| "split_on d (c # cs) =
     (if c = d then [] # split_on d cs
      else (case split_on d cs of [] \<Rightarrow> [[c]] | w # ws \<Rightarrow> (c # w) # ws))"

fun join_with :: "string \<Rightarrow> string list \<Rightarrow> string" where
  "join_with sep [] = []"
| "join_with sep [x] = x"
| "join_with sep (x # y # ys) = x @ sep @ join_with sep (y # ys)"

lemma split_on_ne [simp]: "split_on d s \<noteq> []"
  by (induction s) (auto split: list.splits)

lemma join_split: "join_with [d] (split_on d s) = s"
proof (induction s)
  case (Cons c cs)
  show ?case
  proof (cases "split_on d cs")
    case Nil
    then show ?thesis by simp
  next
    case (Cons w ws)
    then show ?thesis using Cons.IH by (cases ws) auto
  qed
qed simp

definition py_startswith :: "string \<Rightarrow> string \<Rightarrow> bool" where
  "py_startswith s p \<longleftrightarrow> take (length p) s = p"

definition py_endswith :: "string \<Rightarrow> string \<Rightarrow> bool" where
  "py_endswith s p \<longleftrightarrow> length p \<le> length s \<and> drop (length s - length p) s = p"

lemma py_startswith_simps [simp]:
  "py_startswith s []"
  "\<not> py_startswith [] (d # p)"
  "py_startswith (c # s) (d # p) \<longleftrightarrow> c = d \<and> py_startswith s p"
  by (auto simp: py_startswith_def)

lemma py_startswith_iff: "py_startswith s p \<longleftrightarrow> (\<exists>t. s = p @ t)"
  by (metis append_eq_conv_conj append_take_drop_id py_startswith_def)

lemma py_endswith_iff: "py_endswith s p \<longleftrightarrow> (\<exists>t. s = t @ p)"
proof
  assume "py_endswith s p"
  then have "s = take (length s - length p) s @ p"
    by (metis append_take_drop_id py_endswith_def)
  then show "\<exists>t. s = t @ p" ..
qed (auto simp: py_endswith_def)

section \<open>Decimal numerals\<close>

definition digit_char :: "nat \<Rightarrow> char" where
  "digit_char d = char_of (48 + d)"

definition is_digit :: "char \<Rightarrow> bool" where
  "is_digit c \<longleftrightarrow> 48 \<le> byte c \<and> byte c \<le> 57"

definition digit_val :: "char \<Rightarrow> nat" where
  "digit_val c = byte c - 48"

lemma digit_char_props [simp]:
  "d < 10 \<Longrightarrow> is_digit (digit_char d)"
  "d < 10 \<Longrightarrow> digit_val (digit_char d) = d"
  by (simp_all add: digit_char_def is_digit_def digit_val_def)

lemma digit_val_less: "is_digit c \<Longrightarrow> digit_val c < 10"
  by (auto simp: is_digit_def digit_val_def)

lemma digit_char_val: "is_digit c \<Longrightarrow> digit_char (digit_val c) = c"
  by (auto simp: is_digit_def digit_val_def digit_char_def)

fun nat_repr :: "nat \<Rightarrow> string" where
  "nat_repr n = (if n < 10 then [digit_char n] else nat_repr (n div 10) @ [digit_char (n mod 10)])"

declare nat_repr.simps [simp del]

definition nat_of_digits :: "string \<Rightarrow> nat" where
  "nat_of_digits = foldl (\<lambda>n c. 10 * n + digit_val c) 0"

definition int_repr :: "int \<Rightarrow> string" where
  "int_repr i = (if i < 0 then CHR ''-'' # nat_repr (nat (- i)) else nat_repr (nat i))"

lemma nat_of_digits_snoc: "nat_of_digits (s @ [c]) = 10 * nat_of_digits s + digit_val c"
  by (simp add: nat_of_digits_def)

lemma nat_of_digits_repr [simp]: "nat_of_digits (nat_repr n) = n"
proof (induction n rule: nat_repr.induct)
  case (1 n)
  show ?case
  proof (cases "n < 10")
    case True
    then show ?thesis by (simp add: nat_repr.simps [of n] nat_of_digits_def)
  next
    case False
    then show ?thesis using "1" by (simp add: nat_repr.simps [of n] nat_of_digits_snoc)
  qed
qed

lemma nat_repr_digits: "c \<in> set (nat_repr n) \<Longrightarrow> is_digit c"
proof (induction n rule: nat_repr.induct)
  case (1 n)
  then show ?case by (subst (asm) (2) nat_repr.simps) (auto split: if_splits)
qed

lemma nat_repr_ne [simp]: "nat_repr n \<noteq> []"
  by (subst nat_repr.simps) simp

text \<open>A numeral has no leading zero unless it is \<open>0\<close>.\<close>

lemma nat_repr_hd: "0 < n \<Longrightarrow> \<exists>d ds. nat_repr n = digit_char d # ds \<and> 0 < d \<and> d < 10"
proof (induction n rule: nat_repr.induct)
  case (1 n)
  show ?case
  proof (cases "n < 10")
    case True
    then show ?thesis using "1.prems" by (auto simp: nat_repr.simps [of n])
  next
    case False
    then have "0 < n div 10" by auto
    then obtain d ds where "nat_repr (n div 10) = digit_char d # ds" "0 < d" "d < 10"
      using "1.IH" False by blast
    then show ?thesis using False by (auto simp: nat_repr.simps [of n])
  qed
qed

lemma nat_repr_0: "nat_repr 0 = ''0''"
  by code_simp

lemma nat_repr_inj [simp]: "nat_repr m = nat_repr n \<longleftrightarrow> m = n"
  by (metis nat_of_digits_repr)

text \<open>Zero-padded numerals of a fixed width, as \<open>isoformat\<close> writes them.\<close>

fun pad_repr :: "nat \<Rightarrow> nat \<Rightarrow> string" where
  "pad_repr 0 n = []"
| "pad_repr (Suc w) n = pad_repr w (n div 10) @ [digit_char (n mod 10)]"

lemma length_pad_repr [simp]: "length (pad_repr w n) = w"
  by (induction w arbitrary: n) auto

lemma pad_repr_digits: "c \<in> set (pad_repr w n) \<Longrightarrow> is_digit c"
  by (induction w arbitrary: n) auto

lemma nat_of_digits_pad: "n < 10 ^ w \<Longrightarrow> nat_of_digits (pad_repr w n) = n"
proof (induction w arbitrary: n)
  case 0
  then show ?case by (simp add: nat_of_digits_def)
next
  case (Suc w)
  have "n div 10 < 10 ^ w" using Suc.prems by (simp add: less_mult_imp_div_less mult.commute)
  then show ?case by (simp add: nat_of_digits_snoc Suc.IH)
qed

end
