(* ===== verification/PyFloat.thy ===== *)
theory PyFloat
  imports Complex_Main PyText
begin

text \<open>
  Python's \<open>float\<close>: IEEE double precision. A finite double is a sign, a mantissa and a
  binary exponent; its value is a rational. \<open>fl_round\<close> is correct rounding (half to even)
  from a rational, the one operation behind \<open>float(text)\<close>, \<open>float(int)\<close>, true division
  and multiplication; \<open>float_repr\<close> is the shortest decimal that rounds back to the double,
  written as \<open>repr\<close> writes it.
\<close>

section \<open>Doubles\<close>

datatype pyfloat = PNan | PInf bool | PFin (neg: bool) (mant: nat) (expo: int)

fun is_finite :: "pyfloat \<Rightarrow> bool" where
  "is_finite (PFin s m e) = True"
| "is_finite _ = False"

definition pos_val :: "nat \<Rightarrow> int \<Rightarrow> rat" where
  "pos_val m e = of_nat m * 2 powi e"

fun float_val :: "pyfloat \<Rightarrow> rat" where
  "float_val (PFin s m e) = (if s then - pos_val m e else pos_val m e)"
| "float_val _ = 0"

text \<open>The representations that occur: normal, subnormal, and the two zeros.\<close>

definition canonical_fin :: "nat \<Rightarrow> int \<Rightarrow> bool" where
  "canonical_fin m e \<longleftrightarrow>
     m = 0 \<and> e = 0
     \<or> 2 ^ 52 \<le> m \<and> m < 2 ^ 53 \<and> -1074 \<le> e \<and> e \<le> 971
     \<or> 0 < m \<and> m < 2 ^ 52 \<and> e = -1074"

fun float_ok :: "pyfloat \<Rightarrow> bool" where
  "float_ok (PFin s m e) = canonical_fin m e"
| "float_ok _ = True"

section \<open>Rounding\<close>

fun bit_len :: "nat \<Rightarrow> nat" where
  "bit_len n = (if n = 0 then 0 else Suc (bit_len (n div 2)))"

declare bit_len.simps [simp del]

lemma bit_len_upper: "n < 2 ^ bit_len n"
proof (induction n rule: bit_len.induct)
  case (1 n)
  then show ?case by (cases "n = 0") (auto simp: bit_len.simps [of n])
qed

lemma bit_len_lower: "0 < n \<Longrightarrow> 2 ^ (bit_len n - 1) \<le> n"
proof (induction n rule: bit_len.induct)
  case (1 n)
  show ?case
  proof (cases "n div 2 = 0")
    case True
    with "1.prems" have "n = 1" by linarith
    then show ?thesis by (simp add: bit_len.simps [of "Suc 0"] bit_len.simps [of 0])
  next
    case False
    with 1 have IH: "2 ^ (bit_len (n div 2) - 1) \<le> n div 2" by simp
    have "bit_len (n div 2) = Suc (bit_len (n div 2) - 1)"
      using False by (simp add: bit_len.simps [of "n div 2"])
    then have "2 ^ bit_len (n div 2) \<le> 2 * (n div 2)"
      by (metis IH mult_le_mono2 power_Suc)
    then show ?thesis using "1.prems" by (simp add: bit_len.simps [of n])
  qed
qed

text \<open>The binary exponent that scales \<open>x > 0\<close> to a 53-bit integer part.\<close>

definition fl_exp :: "rat \<Rightarrow> int" where
  "fl_exp x =
     (let (n, d) = quotient_of x;
          e = int (bit_len (nat n)) - int (bit_len (nat d)) - 53
      in if x / 2 powi e < 2 ^ 53 then e else e + 1)"

definition round_half_even :: "rat \<Rightarrow> int" where
  "round_half_even y =
     (let q = \<lfloor>y\<rfloor>; f = y - of_int q
      in if f < 1 / 2 then q
         else if 1 / 2 < f then q + 1
         else if even q then q else q + 1)"

definition fl_round :: "bool \<Rightarrow> rat \<Rightarrow> pyfloat" where
  "fl_round s x =
     (if x = 0 then PFin s 0 0
      else
        let e = max (- 1074) (fl_exp x);
            q = nat (round_half_even (x / 2 powi e));
            (m, e') = (if q = 2 ^ 53 then (2 ^ 52, e + 1) else (q, e))
        in if m = 0 then PFin s 0 0
           else if 971 < e' then PInf s
           else PFin s m e')"

definition float_of_rat :: "rat \<Rightarrow> pyfloat" where
  "float_of_rat x = (if x < 0 then fl_round True (- x) else fl_round False x)"

text \<open>\<open>float(i)\<close> raises when the integer is too large for a double.\<close>

definition float_of_int :: "int \<Rightarrow> pyfloat res" where
  "float_of_int i =
     (case float_of_rat (of_int i) of
        PInf s \<Rightarrow> raise OverflowError ''int too large to convert to float''
      | f \<Rightarrow> Inr f)"

lemma fl_exp_unique:
  assumes "2 ^ 52 \<le> x / 2 powi e" "x / 2 powi e < (2 ^ 53 :: rat)"
    and "2 ^ 52 \<le> x / 2 powi f" "x / 2 powi f < (2 ^ 53 :: rat)"
  shows "e = f"
proof -
  have le: "e \<le> f" if "2 ^ 52 \<le> x / 2 powi e" "x / 2 powi f < (2 ^ 53 :: rat)" for e f
  proof (rule ccontr)
    assume "\<not> e \<le> f"
    then have "f + 1 \<le> e" by simp
    then have "(2 :: rat) powi (f + 1) \<le> 2 powi e" by (simp add: power_int_increasing)
    moreover have "(2 :: rat) ^ 52 * 2 powi e \<le> x" "x < 2 ^ 53 * 2 powi f"
      using that by (simp_all add: field_simps)
    moreover have "(2 :: rat) powi (f + 1) = 2 * 2 powi f" by (simp add: power_int_add)
    ultimately show False by simp
  qed
  show ?thesis using le [of e f] le [of f e] assms by simp
qed

lemma fl_exp_bounds:
  assumes "0 < x"
  shows "2 ^ 52 \<le> x / 2 powi (fl_exp x)" and "x / 2 powi (fl_exp x) < (2 ^ 53 :: rat)"
proof -
  obtain n d where q: "quotient_of x = (n, d)" by (cases "quotient_of x")
  define a where "a = nat n" define b where "b = nat d"
  have d: "0 < d" using q by (rule quotient_of_denom_pos)
  have x: "x = of_int n / of_int d" using q by (rule quotient_of_div)
  with assms d have n: "0 < n" by (simp add: zero_less_divide_iff)
  have xab: "x = of_nat a / of_nat b" using n d x by (simp add: a_def b_def)
  have ab: "0 < a" "0 < b" using n d by (simp_all add: a_def b_def)
  define e where "e = int (bit_len a) - int (bit_len b) - 53"
  obtain ka kb where k: "bit_len a = Suc ka" "bit_len b = Suc kb"
    using ab bit_len.simps [of a] bit_len.simps [of b] by auto
  have a1: "(of_nat a :: rat) < 2 * 2 ^ ka"
    using bit_len_upper [of a] k(1) by (metis of_nat_less_iff of_nat_numeral of_nat_power power_Suc)
  have a2: "(2 :: rat) ^ ka \<le> of_nat a"
    using bit_len_lower [OF ab(1)] k(1)
    by (metis diff_Suc_1 of_nat_le_iff of_nat_numeral of_nat_power)
  have b1: "(of_nat b :: rat) < 2 * 2 ^ kb"
    using bit_len_upper [of b] k(2) by (metis of_nat_less_iff of_nat_numeral of_nat_power power_Suc)
  have b2: "(2 :: rat) ^ kb \<le> of_nat b"
    using bit_len_lower [OF ab(2)] k(2)
    by (metis diff_Suc_1 of_nat_le_iff of_nat_numeral of_nat_power)
  have pe: "(2 :: rat) powi e = 2 ^ ka / 2 ^ kb / 2 ^ 53"
    by (simp add: e_def k power_int_diff)
  define y where "y = (of_nat a * 2 ^ kb) / (2 ^ ka * of_nat b :: rat)"
  have sc: "x / 2 powi e = y * 2 ^ 53"
    by (simp add: y_def xab pe field_simps)
  have lo: "2 ^ 52 \<le> x / 2 powi e"
  proof -
    have "2 ^ ka * of_nat b \<le> of_nat a * (2 * (2 :: rat) ^ kb)"
      using a2 b1 by (intro mult_mono) auto
    then have "1 / 2 \<le> y"
      using ab by (simp add: y_def field_simps)
    then show ?thesis by (simp add: sc)
  qed
  have hi: "x / 2 powi e < 2 ^ 54"
  proof -
    have "of_nat a * 2 ^ kb < (2 * 2 ^ ka) * (2 ^ kb :: rat)"
      using a1 by simp
    also have "\<dots> \<le> (2 * 2 ^ ka) * of_nat b" using b2 by simp
    finally have "y < 2"
      using ab by (simp add: y_def field_simps)
    then show ?thesis by (simp add: sc)
  qed
  have fe: "fl_exp x = (if x / 2 powi e < 2 ^ 53 then e else e + 1)"
    by (simp add: fl_exp_def q e_def a_def b_def)
  have half: "x / 2 powi (e + 1) = x / 2 powi e / 2" by (simp add: power_int_add)
  show "2 ^ 52 \<le> x / 2 powi (fl_exp x)" using lo by (auto simp: fe half)
  show "x / 2 powi (fl_exp x) < (2 ^ 53 :: rat)" using hi by (auto simp: fe half)
qed

lemma round_half_even_of_nat [simp]: "round_half_even (of_nat m) = int m"
  by (simp add: round_half_even_def)

text \<open>A value a double represents exactly rounds to that double.\<close>

lemma fl_round_exact:
  assumes "canonical_fin m e"
  shows "fl_round s (pos_val m e) = PFin s m e"
proof (cases "m = 0")
  case True
  with assms show ?thesis by (auto simp: canonical_fin_def fl_round_def pos_val_def)
next
  case False
  let ?x = "pos_val m e"
  have x0: "0 < ?x" using False by (simp add: pos_val_def)
  have max_e: "max (- 1074) (fl_exp ?x) = e"
  proof (cases "2 ^ 52 \<le> m")
    case True
    with assms False have m: "m < 2 ^ 53" "- 1074 \<le> e" by (auto simp: canonical_fin_def)
    have xe: "?x / 2 powi e = of_nat m" by (simp add: pos_val_def)
    have r: "(2 ^ 52 :: rat) \<le> of_nat m" "of_nat m < (2 ^ 53 :: rat)"
      using True m(1) by (metis of_nat_le_iff of_nat_numeral of_nat_power)
        (metis m(1) of_nat_less_iff of_nat_numeral of_nat_power)
    have "fl_exp ?x = e"
      by (rule fl_exp_unique [of ?x]) (use fl_exp_bounds [OF x0] r xe in simp_all)
    with m show ?thesis by simp
  next
    case f: False
    with assms False have m: "m < 2 ^ 52" "e = - 1074" by (auto simp: canonical_fin_def)
    have "fl_exp ?x \<le> - 1074"
    proof (rule ccontr)
      assume "\<not> fl_exp ?x \<le> - 1074"
      then have "(2 :: rat) powi e \<le> 2 powi (fl_exp ?x)"
        by (intro power_int_increasing) (use m in simp_all)
      moreover have "2 ^ 52 * 2 powi (fl_exp ?x) \<le> ?x"
        using fl_exp_bounds(1) [OF x0] by (simp add: field_simps)
      moreover have "?x < 2 ^ 52 * 2 powi e"
        using m(1) by (simp add: pos_val_def)
      ultimately show False by simp
    qed
    then show ?thesis using m by simp
  qed
  have xe: "?x / 2 powi e = of_nat m" by (simp add: pos_val_def)
  have "m < 2 ^ 53" "e \<le> 971" using assms False by (auto simp: canonical_fin_def)
  then show ?thesis using x0 False by (simp add: fl_round_def max_e xe Let_def)
qed

text \<open>Rounding gives a double in canonical form.\<close>

lemma round_half_even_bounds:
  assumes "of_int a \<le> y" "y \<le> of_int b"
  shows "a \<le> round_half_even y" "round_half_even y \<le> b"
proof -
  have l: "a \<le> \<lfloor>y\<rfloor>" using assms(1) by (simp add: le_floor_iff)
  then show "a \<le> round_half_even y" by (auto simp: round_half_even_def Let_def)
  show "round_half_even y \<le> b"
  proof (cases "\<lfloor>y\<rfloor> < b")
    case True
    then show ?thesis by (auto simp: round_half_even_def Let_def)
  next
    case False
    then have "y = of_int b" using assms(2) by (metis floor_mono floor_of_int le_less of_int_floor_le
          order_antisym)
    then show ?thesis by (simp add: round_half_even_def)
  qed
qed

lemma fl_round_ok:
  assumes "0 \<le> x"
  shows "float_ok (fl_round s x)"
proof (cases "x = 0")
  case True
  then show ?thesis by (simp add: fl_round_def canonical_fin_def)
next
  case False
  then have x: "0 < x" using assms by simp
  define e where "e = max (- 1074) (fl_exp x)"
  define y where "y = x / 2 powi e"
  define q where "q = nat (round_half_even y)"
  have y0: "0 \<le> y" using x by (simp add: y_def)
  have q: "q \<le> 2 ^ 53 \<and> (q < 2 ^ 52 \<longrightarrow> e = - 1074)"
  proof (cases "- 1074 \<le> fl_exp x")
    case True
    then have e: "e = fl_exp x" by (simp add: e_def)
    have b: "of_int (2 ^ 52) \<le> y" "y \<le> of_int (2 ^ 53)"
      using fl_exp_bounds [OF x] by (simp_all add: y_def e)
    have "2 ^ 52 \<le> round_half_even y" "round_half_even y \<le> 2 ^ 53"
      using round_half_even_bounds [OF b] .
    then show ?thesis by (simp add: q_def nat_le_iff zless_nat_eq_int_zless) linarith
  next
    case False
    then have e: "e = - 1074" by (simp add: e_def)
    have "(2 :: rat) powi (fl_exp x) \<le> 2 powi e"
      using False by (intro power_int_increasing) (simp_all add: e)
    then have "x / 2 powi e \<le> x / 2 powi (fl_exp x)"
      using x by (intro divide_left_mono) auto
    then have "y \<le> of_int (2 ^ 53)" using fl_exp_bounds(2) [OF x] by (simp add: y_def)
    then have "round_half_even y \<le> 2 ^ 53" using round_half_even_bounds [of 0 y] y0 by simp
    then show ?thesis by (simp add: q_def e)
  qed
  have "- 1074 \<le> e" by (simp add: e_def)
  have eq: "fl_round s x = (let (m, e') = (if q = 2 ^ 53 then (2 ^ 52, e + 1) else (q, e))
        in if m = 0 then PFin s 0 0 else if 971 < e' then PInf s else PFin s m e')"
    using False by (simp add: fl_round_def e_def [symmetric] y_def [symmetric] q_def [symmetric]
      Let_def)
  show ?thesis
  proof (cases "q = 2 ^ 53")
    case True
    then show ?thesis using \<open>- 1074 \<le> e\<close> by (simp add: eq canonical_fin_def)
  next
    case False
    then show ?thesis using q \<open>- 1074 \<le> e\<close> by (auto simp: eq canonical_fin_def)
  qed
qed

section \<open>The shortest decimal\<close>

text \<open>
  \<open>dec_val D k\<close> is the value of the decimal \<open>D\<cdot>10^k\<close>. For each number of digits, the
  two neighbours of the double are tried, the nearer first; the exact binary expansion, which
  always rounds back, closes the list (17 digits are enough, so it is never reached for a
  double, but nothing below depends on that).
\<close>

definition dec_val :: "nat \<Rightarrow> int \<Rightarrow> rat" where
  "dec_val D k = of_nat D * 10 powi k"

text \<open>The number of digits before the decimal point: \<open>10^(p-1) \<le> x < 10^p\<close>.\<close>

fun count_up :: "nat \<Rightarrow> rat \<Rightarrow> int \<Rightarrow> int" where
  "count_up 0 x p = p"
| "count_up (Suc n) x p = (if 10 powi p \<le> x then count_up n x (p + 1) else p)"

fun count_down :: "nat \<Rightarrow> rat \<Rightarrow> int \<Rightarrow> int" where
  "count_down 0 x p = p"
| "count_down (Suc n) x p = (if x < 10 powi (p - 1) then count_down n x (p - 1) else p)"

definition dec_point :: "rat \<Rightarrow> int" where
  "dec_point x = (if 1 \<le> x then count_up 400 x 0 else count_down 400 x 0)"

definition neighbours :: "rat \<Rightarrow> int \<Rightarrow> nat \<Rightarrow> (nat \<times> int) list" where
  "neighbours x p nd =
     (let k = p - int nd; y = x / 10 powi k; lo = nat \<lfloor>y\<rfloor>
      in if y - of_nat lo \<le> 1 / 2 then [(lo, k), (Suc lo, k)] else [(Suc lo, k), (lo, k)])"

definition exact_dec :: "nat \<Rightarrow> int \<Rightarrow> nat \<times> int" where
  "exact_dec m e = (if 0 \<le> e then (m * 2 ^ nat e, 0) else (m * 5 ^ nat (- e), e))"

definition rounds_to :: "nat \<Rightarrow> int \<Rightarrow> nat \<times> int \<Rightarrow> bool" where
  "rounds_to m e = (\<lambda>(D, k). 0 < D \<and> fl_round False (dec_val D k) = PFin False m e)"

definition shortest_dec :: "nat \<Rightarrow> int \<Rightarrow> nat \<times> int" where
  "shortest_dec m e =
     (let x = pos_val m e; p = dec_point x
      in case List.find (rounds_to m e) (concat (map (neighbours x p) [1..<18])) of
           Some Dk \<Rightarrow> Dk
         | None \<Rightarrow> exact_dec m e)"

lemma exact_dec_val: "exact_dec m e = (D, k) \<Longrightarrow> dec_val D k = pos_val m e"
proof (cases "0 \<le> e")
  case True
  assume "exact_dec m e = (D, k)"
  with True show ?thesis by (auto simp: exact_dec_def dec_val_def pos_val_def power_int_def)
next
  case False
  assume "exact_dec m e = (D, k)"
  with False have D: "D = m * 5 ^ nat (- e)" "k = - int (nat (- e))"
    by (auto simp: exact_dec_def)
  define n where "n = nat (- e)"
  have e: "e = - int n" using False by (simp add: n_def)
  have "(10 :: rat) ^ n = 5 ^ n * 2 ^ n" by (simp add: power_mult_distrib [symmetric])
  then show ?thesis by (simp add: D e dec_val_def pos_val_def power_int_minus field_simps)
qed

lemma fl_round_sign: "fl_round False x = PFin False m e \<Longrightarrow> fl_round s x = PFin s m e"
  by (auto simp: fl_round_def Let_def split: if_splits prod.splits)

lemma shortest_dec_rounds:
  assumes "canonical_fin m e" "0 < m" "shortest_dec m e = (D, k)"
  shows "0 < D" and "fl_round s (dec_val D k) = PFin s m e"
proof -
  have "rounds_to m e (D, k)"
  proof (cases "List.find (rounds_to m e)
      (concat (map (neighbours (pos_val m e) (dec_point (pos_val m e))) [1..<18]))")
    case None
    with assms(3) have ex: "exact_dec m e = (D, k)" by (simp add: shortest_dec_def Let_def)
    then have "0 < D" using assms(2) by (auto simp: exact_dec_def split: if_splits)
    then show ?thesis
      using fl_round_exact [OF assms(1)] exact_dec_val [OF ex] by (simp add: rounds_to_def)
  next
    case (Some Dk)
    with assms(3) have "Dk = (D, k)" by (simp add: shortest_dec_def Let_def)
    with Some show ?thesis by (auto simp: find_Some_iff)
  qed
  then show "0 < D" "fl_round s (dec_val D k) = PFin s m e"
    by (auto simp: rounds_to_def intro: fl_round_sign)
qed

text \<open>Trailing zeros move into the exponent.\<close>

fun strip_zeros :: "nat \<Rightarrow> nat \<Rightarrow> int \<Rightarrow> nat \<times> int" where
  "strip_zeros 0 D k = (D, k)"
| "strip_zeros (Suc n) D k =
     (if 0 < D \<and> D mod 10 = 0 then strip_zeros n (D div 10) (k + 1) else (D, k))"

lemma strip_zeros_val:
  "strip_zeros n D k = (D', k') \<Longrightarrow> dec_val D' k' = dec_val D k \<and> (0 < D \<longrightarrow> 0 < D')"
proof (induction n D k rule: strip_zeros.induct)
  case (2 n D k)
  show ?case
  proof (cases "0 < D \<and> D mod 10 = 0")
    case True
    then obtain q where q: "D = 10 * q" by (auto simp: mod_eq_0_iff_dvd elim: dvdE)
    with True have "0 < q" by simp
    moreover have "dec_val q (k + 1) = dec_val D k"
      by (simp add: dec_val_def q power_int_add)
    ultimately show ?thesis using 2 True q by simp
  next
    case False
    with 2 show ?thesis by auto
  qed
qed auto

section \<open>The text of a float\<close>

text \<open>
  \<open>repr(float)\<close> from the shortest digits: positional for decimal exponents from -4 to 15,
  scientific with at least two exponent digits otherwise.
\<close>

definition exp_repr :: "int \<Rightarrow> string" where
  "exp_repr x =
     (let n = nat \<bar>x\<bar>; ds = (if n < 10 then ''0'' @ nat_repr n else nat_repr n)
      in ''e'' @ (if x < 0 then ''-'' else ''+'') @ ds)"

definition dec_repr :: "nat \<Rightarrow> int \<Rightarrow> string" where
  "dec_repr D k =
     (let ds = nat_repr D; n = length ds; pt = int n + k
      in if - 4 < pt \<and> pt \<le> 16 then
           (if pt \<le> 0 then ''0.'' @ replicate (nat (- pt)) (CHR ''0'') @ ds
            else if int n \<le> pt then ds @ replicate (nat k) (CHR ''0'') @ ''.0''
            else take (nat pt) ds @ ''.'' @ drop (nat pt) ds)
         else if n = 1 then ds @ exp_repr (pt - 1)
         else take 1 ds @ ''.'' @ drop 1 ds @ exp_repr (pt - 1))"

fun float_repr :: "pyfloat \<Rightarrow> string" where
  "float_repr PNan = ''nan''"
| "float_repr (PInf s) = (if s then ''-inf'' else ''inf'')"
| "float_repr (PFin s m e) =
     (if s then ''-'' else []) @
     (if m = 0 then ''0.0''
      else (case shortest_dec m e of (D, k) \<Rightarrow>
        (case strip_zeros 800 D k of (D', k') \<Rightarrow> dec_repr D' k')))"

end
