(* ===== verification/PyTime.thy ===== *)
theory PyTime
  imports PyText
begin

text \<open>
  Python's \<open>datetime\<close> and \<open>date\<close>: the proleptic Gregorian calendar of the \<open>datetime\<close>
  module (\<open>_ymd2ord\<close>, \<open>_ord2ymd\<close>), aware instants in microseconds, \<open>astimezone(UTC)\<close>,
  \<open>isoformat\<close> and the extended ISO 8601 forms of \<open>fromisoformat\<close> (the basic and week-date
  forms it also reads are not modelled: they are refused here).
\<close>

section \<open>Dates\<close>

record date =
  d_year :: nat
  d_month :: nat
  d_day :: nat

record datetime = date +
  dt_hour :: nat
  dt_minute :: nat
  dt_second :: nat
  dt_micro :: nat
  dt_offset :: "int option"   \<comment> \<open>the UTC offset in microseconds; \<open>None\<close>: naive\<close>

definition is_leap :: "nat \<Rightarrow> bool" where
  "is_leap y \<longleftrightarrow> y mod 4 = 0 \<and> (y mod 100 \<noteq> 0 \<or> y mod 400 = 0)"

definition days_in_month :: "nat \<Rightarrow> nat \<Rightarrow> nat" where
  "days_in_month y m =
     (if m = 2 then (if is_leap y then 29 else 28)
      else if m = 4 \<or> m = 6 \<or> m = 9 \<or> m = 11 then 30 else 31)"

definition date_ok :: "nat \<Rightarrow> nat \<Rightarrow> nat \<Rightarrow> bool" where
  "date_ok y m d \<longleftrightarrow>
     1 \<le> y \<and> y \<le> 9999 \<and> 1 \<le> m \<and> m \<le> 12 \<and> 1 \<le> d \<and> d \<le> days_in_month y m"

definition time_ok :: "nat \<Rightarrow> nat \<Rightarrow> nat \<Rightarrow> nat \<Rightarrow> bool" where
  "time_ok h mi s us \<longleftrightarrow> h < 24 \<and> mi < 60 \<and> s < 60 \<and> us < 1000000"

definition dt_ok :: "datetime \<Rightarrow> bool" where
  "dt_ok t \<longleftrightarrow> date_ok (d_year t) (d_month t) (d_day t)
     \<and> time_ok (dt_hour t) (dt_minute t) (dt_second t) (dt_micro t)
     \<and> (case dt_offset t of None \<Rightarrow> True | Some off \<Rightarrow> \<bar>off\<bar> < 86400000000)"

definition days_before_year :: "nat \<Rightarrow> int" where
  "days_before_year y =
     (let p = int y - 1 in p * 365 + p div 4 - p div 100 + p div 400)"

definition days_before_month :: "nat \<Rightarrow> nat \<Rightarrow> nat" where
  "days_before_month y m = sum_list (map (days_in_month y) [1..<m])"

definition ymd2ord :: "nat \<Rightarrow> nat \<Rightarrow> nat \<Rightarrow> int" where
  "ymd2ord y m d = days_before_year y + int (days_before_month y m) + int d"

text \<open>\<open>_ord2ymd\<close>: the month is found by walking the months of the year.\<close>

fun find_month :: "nat \<Rightarrow> nat list \<Rightarrow> nat \<Rightarrow> nat \<times> nat" where
  "find_month y [] n = (12, n + 1)"
| "find_month y (m # ms) n =
     (if n < days_in_month y m then (m, n + 1) else find_month y ms (n - days_in_month y m))"

definition ord2ymd :: "int \<Rightarrow> nat \<times> nat \<times> nat" where
  "ord2ymd ord =
     (let n = ord - 1;
          n400 = n div 146097; n = n mod 146097;
          n100 = n div 36524; n = n mod 36524;
          n4 = n div 1461; n = n mod 1461;
          n1 = n div 365; n = n mod 365;
          y = n400 * 400 + 1 + n100 * 100 + n4 * 4 + n1
      in if n1 = 4 \<or> n100 = 4 then (nat (y - 1), 12, 31)
         else (case find_month (nat y) [1..<13] (nat n) of (m, d) \<Rightarrow> (nat y, m, d)))"

definition date_of_ord :: "int \<Rightarrow> date" where
  "date_of_ord n = (case ord2ymd n of (y, m, d) \<Rightarrow> \<lparr>d_year = y, d_month = m, d_day = d\<rparr>)"

definition date_ord :: "('a) date_scheme \<Rightarrow> int" where
  "date_ord d = ymd2ord (d_year d) (d_month d) (d_day d)"

text \<open>\<open>date.__lt__\<close> compares year, month and day.\<close>

definition date_less :: "date \<Rightarrow> date \<Rightarrow> bool" where
  "date_less a b \<longleftrightarrow>
     d_year a < d_year b
     \<or> d_year a = d_year b \<and> (d_month a < d_month b
        \<or> d_month a = d_month b \<and> d_day a < d_day b)"

section \<open>Instants\<close>

text \<open>Microseconds since the start of year 1, in the datetime's own clock and in UTC.\<close>

definition local_micros :: "datetime \<Rightarrow> int" where
  "local_micros t =
     (((date_ord t * 24 + int (dt_hour t)) * 60 + int (dt_minute t)) * 60 + int (dt_second t))
       * 1000000 + int (dt_micro t)"

definition dt_instant :: "datetime \<Rightarrow> int" where
  "dt_instant t = local_micros t - (case dt_offset t of None \<Rightarrow> 0 | Some off \<Rightarrow> off)"

definition dt_of_micros :: "int \<Rightarrow> int option \<Rightarrow> datetime" where
  "dt_of_micros us off =
     (let s = us div 1000000; mi = s div 60; h = mi div 60
      in case ord2ymd (h div 24) of (y, m, d) \<Rightarrow>
        \<lparr>d_year = y, d_month = m, d_day = d, dt_hour = nat (h mod 24), dt_minute = nat (mi mod 60),
         dt_second = nat (s mod 60), dt_micro = nat (us mod 1000000), dt_offset = off\<rparr>)"

text \<open>
  \<open>value.astimezone(UTC)\<close> of an aware datetime: unchanged when the offset is zero,
  otherwise the offset is subtracted, which raises outside the years 1 to 9999.
\<close>

definition utc_of_aware :: "datetime \<Rightarrow> int \<Rightarrow> datetime res" where
  "utc_of_aware t off =
     (if off = 0 then Inr t
      else
        let us = local_micros t - off
        in if us < 86400000000 \<or> 3652060 * 86400000000 \<le> us
           then raise OverflowError ''date value out of range''
           else Inr (dt_of_micros us (Some 0)))"

definition is_utc :: "datetime \<Rightarrow> bool" where
  "is_utc t \<longleftrightarrow> dt_ok t \<and> dt_offset t = Some 0"

lemma utc_of_aware_utc [simp]: "utc_of_aware t 0 = Inr t"
  by (simp add: utc_of_aware_def)

section \<open>ISO 8601 text\<close>

definition iso_date :: "('a) date_scheme \<Rightarrow> string" where
  "iso_date d = pad_repr 4 (d_year d) @ ''-'' @ pad_repr 2 (d_month d) @ ''-'' @ pad_repr 2 (d_day d)"

definition iso_offset :: "int \<Rightarrow> string" where
  "iso_offset off =
     (let a = nat \<bar>off\<bar>; us = a mod 1000000; s = a div 1000000
      in (if off < 0 then ''-'' else ''+'') @
         pad_repr 2 (s div 3600) @ '':'' @ pad_repr 2 (s div 60 mod 60) @
         (if s mod 60 \<noteq> 0 \<or> us \<noteq> 0 then '':'' @ pad_repr 2 (s mod 60) else []) @
         (if us \<noteq> 0 then ''.'' @ pad_repr 6 us else []))"

definition iso_time :: "datetime \<Rightarrow> string" where
  "iso_time t =
     pad_repr 2 (dt_hour t) @ '':'' @ pad_repr 2 (dt_minute t) @ '':'' @ pad_repr 2 (dt_second t) @
     (if dt_micro t \<noteq> 0 then ''.'' @ pad_repr 6 (dt_micro t) else [])"

definition isoformat :: "datetime \<Rightarrow> string" where
  "isoformat t = iso_date t @ ''T'' @ iso_time t @
     (case dt_offset t of None \<Rightarrow> [] | Some off \<Rightarrow> iso_offset off)"

text \<open>Readers of fixed-width fields.\<close>

definition read_nat :: "nat \<Rightarrow> string \<Rightarrow> (nat \<times> string) option" where
  "read_nat w s =
     (if w \<le> length s \<and> list_all is_digit (take w s)
      then Some (nat_of_digits (take w s), drop w s) else None)"

definition read_char :: "char \<Rightarrow> string \<Rightarrow> string option" where
  "read_char c s = (case s of [] \<Rightarrow> None | d # r \<Rightarrow> if d = c then Some r else None)"

definition read_frac :: "string \<Rightarrow> (nat \<times> string) option" where
  "read_frac s =
     (let ds = takeWhile is_digit s
      in if ds = [] then None
         else Some (nat_of_digits (take 6 (ds @ ''000000'')), dropWhile is_digit s))"

text \<open>\<open>HH[:MM[:SS[.f+]]]\<close>, with what follows it.\<close>

definition read_hms :: "string \<Rightarrow> (nat \<times> nat \<times> nat \<times> nat \<times> string) option" where
  "read_hms s =
     Option.bind (read_nat 2 s) (\<lambda>(h, s1).
     case read_char (CHR '':'') s1 of
       None \<Rightarrow> Some (h, 0, 0, 0, s1)
     | Some s2 \<Rightarrow>
         Option.bind (read_nat 2 s2) (\<lambda>(mi, s3).
         case read_char (CHR '':'') s3 of
           None \<Rightarrow> Some (h, mi, 0, 0, s3)
         | Some s4 \<Rightarrow>
             Option.bind (read_nat 2 s4) (\<lambda>(se, s5).
             case read_char (CHR ''.'') s5 of
               None \<Rightarrow> Some (h, mi, se, 0, s5)
             | Some s6 \<Rightarrow>
                 Option.bind (read_frac s6) (\<lambda>(us, s7). Some (h, mi, se, us, s7)))))"

definition read_offset :: "string \<Rightarrow> int option option" where
  "read_offset s =
     (case s of
        [] \<Rightarrow> Some None
      | c # r \<Rightarrow>
          if c = CHR ''Z'' \<and> r = [] then Some (Some 0)
          else if c = CHR ''+'' \<or> c = CHR ''-'' then
            (case read_hms r of
               Some (h, mi, se, us, []) \<Rightarrow>
                 (let off = ((int h * 60 + int mi) * 60 + int se) * 1000000 + int us
                  in if mi < 60 \<and> se < 60 \<and> off < 86400000000
                     then Some (Some (if c = CHR ''-'' then - off else off)) else None)
             | _ \<Rightarrow> None)
          else None)"

definition read_date :: "string \<Rightarrow> (nat \<times> nat \<times> nat \<times> string) option" where
  "read_date s =
     Option.bind (read_nat 4 s) (\<lambda>(y, s1).
     Option.bind (read_char (CHR ''-'') s1) (\<lambda>s2.
     Option.bind (read_nat 2 s2) (\<lambda>(m, s3).
     Option.bind (read_char (CHR ''-'') s3) (\<lambda>s4.
     Option.bind (read_nat 2 s4) (\<lambda>(d, s5). Some (y, m, d, s5))))))"

definition mk_datetime ::
  "nat \<Rightarrow> nat \<Rightarrow> nat \<Rightarrow> nat \<Rightarrow> nat \<Rightarrow> nat \<Rightarrow> nat \<Rightarrow> int option \<Rightarrow> datetime option" where
  "mk_datetime y m d h mi se us off =
     (if date_ok y m d \<and> time_ok h mi se us
      then Some \<lparr>d_year = y, d_month = m, d_day = d, dt_hour = h, dt_minute = mi,
                 dt_second = se, dt_micro = us, dt_offset = off\<rparr>
      else None)"

definition iso_parse :: "string \<Rightarrow> datetime option" where
  "iso_parse s =
     Option.bind (read_date s) (\<lambda>(y, m, d, r).
     case r of
       [] \<Rightarrow> mk_datetime y m d 0 0 0 0 None
     | sep # r1 \<Rightarrow>
         Option.bind (read_hms r1) (\<lambda>(h, mi, se, us, r2).
         Option.bind (read_offset r2) (\<lambda>off. mk_datetime y m d h mi se us off)))"

definition fromisoformat :: "string \<Rightarrow> datetime res" where
  "fromisoformat s =
     (case iso_parse s of
        Some t \<Rightarrow> Inr t
      | None \<Rightarrow> raise ValueError (''Invalid isoformat string: '' @ s))"

definition date_fromisoformat :: "string \<Rightarrow> date res" where
  "date_fromisoformat s =
     (case read_date s of
        Some (y, m, d, []) \<Rightarrow>
          if date_ok y m d then Inr \<lparr>d_year = y, d_month = m, d_day = d\<rparr>
          else raise ValueError (''Invalid isoformat string: '' @ s)
      | _ \<Rightarrow> raise ValueError (''Invalid isoformat string: '' @ s))"

subsection \<open>Reading back what was written\<close>

lemma read_nat_pad [simp]: "n < 10 ^ w \<Longrightarrow> read_nat w (pad_repr w n @ r) = Some (n, r)"
  by (auto simp: read_nat_def list_all_iff nat_of_digits_pad dest: pad_repr_digits)

lemma read_char_simps [simp]:
  "read_char c (d # r) = (if d = c then Some r else None)"
  "read_char c [] = None"
  by (simp_all add: read_char_def)

lemma read_date_iso:
  "d_year d < 10000 \<Longrightarrow> d_month d < 100 \<Longrightarrow> d_day d < 100 \<Longrightarrow>
   read_date (iso_date d @ r) = Some (d_year d, d_month d, d_day d, r)"
  by (simp add: read_date_def iso_date_def)

lemma takeWhile_pad:
  "r = [] \<or> \<not> is_digit (hd r) \<Longrightarrow> takeWhile is_digit (pad_repr w n @ r) = pad_repr w n"
  by (cases r) (simp_all add: takeWhile_append2 pad_repr_digits takeWhile_eq_all_conv)

lemma dropWhile_pad:
  "r = [] \<or> \<not> is_digit (hd r) \<Longrightarrow> dropWhile is_digit (pad_repr w n @ r) = r"
  by (cases r) (simp_all add: dropWhile_append2 pad_repr_digits)

lemma read_frac_pad:
  assumes "n < 1000000" "r = [] \<or> \<not> is_digit (hd r)"
  shows "read_frac (pad_repr 6 n @ r) = Some (n, r)"
proof -
  have "pad_repr 6 n \<noteq> []" by (metis length_pad_repr list.size(3) zero_neq_numeral)
  then show ?thesis
    using assms takeWhile_pad [OF assms(2), of 6 n] dropWhile_pad [OF assms(2), of 6 n]
    by (simp add: read_frac_def nat_of_digits_pad)
qed

lemma read_hms_iso:
  assumes "time_ok (dt_hour t) (dt_minute t) (dt_second t) (dt_micro t)"
    and "r = [] \<or> hd r = CHR ''+'' \<or> hd r = CHR ''-'' \<or> hd r = CHR ''Z''"
  shows "read_hms (iso_time t @ r)
    = Some (dt_hour t, dt_minute t, dt_second t, dt_micro t, r)"
proof -
  have nd: "\<not> is_digit (CHR ''+'')" "\<not> is_digit (CHR ''-'')" "\<not> is_digit (CHR ''Z'')"
    by (simp_all add: is_digit_def byte_def)
  then have r: "r = [] \<or> \<not> is_digit (hd r)" using assms(2) by metis
  have r2: "read_char (CHR ''.'') r = None" using assms(2) by (cases r) auto
  show ?thesis
  proof (cases "dt_micro t = 0")
    case True
    then show ?thesis using assms(1) r2 by (simp add: read_hms_def iso_time_def time_ok_def)
  next
    case False
    then show ?thesis
      using assms(1) r by (simp add: read_hms_def iso_time_def time_ok_def read_frac_pad)
  qed
qed

lemma read_offset_Z [simp]: "read_offset ''Z'' = Some (Some 0)"
  by (simp add: read_offset_def)

lemma iso_offset_0: "iso_offset 0 = ''+00:00''"
  by code_simp

lemma read_offset_0 [simp]: "read_offset ''+00:00'' = Some (Some 0)"
  by code_simp

lemma mk_datetime_ok:
  "dt_ok t \<Longrightarrow> mk_datetime (d_year t) (d_month t) (d_day t) (dt_hour t) (dt_minute t) (dt_second t)
     (dt_micro t) (dt_offset t) = Some t"
  by (simp add: mk_datetime_def dt_ok_def)

lemma date_ok_less: "date_ok y m d \<Longrightarrow> y < 10000 \<and> m < 100 \<and> d < 100"
  by (auto simp: date_ok_def days_in_month_def split: if_splits)

lemma iso_parse_utc:
  assumes "is_utc t" "z = ''Z'' \<or> z = ''+00:00''"
  shows "iso_parse (iso_date t @ sep # iso_time t @ z) = Some t"
proof -
  have ok: "dt_ok t" "dt_offset t = Some 0" using assms(1) by (simp_all add: is_utc_def)
  then have tok: "time_ok (dt_hour t) (dt_minute t) (dt_second t) (dt_micro t)"
    and d: "d_year t < 10000" "d_month t < 100" "d_day t < 100"
    using date_ok_less [of "d_year t" "d_month t" "d_day t"] by (auto simp: dt_ok_def)
  have "read_offset z = Some (Some 0)" using assms(2) by auto
  moreover have "read_hms (iso_time t @ z)
      = Some (dt_hour t, dt_minute t, dt_second t, dt_micro t, z)"
    using assms(2) by (intro read_hms_iso [OF tok]) auto
  ultimately show ?thesis
    using mk_datetime_ok [OF ok(1)] ok(2) by (simp add: iso_parse_def read_date_iso d)
qed

lemma fromisoformat_isoformat: "is_utc t \<Longrightarrow> fromisoformat (isoformat t) = Inr t"
  using iso_parse_utc [of t "''+00:00''" "CHR ''T''"]
  by (simp add: fromisoformat_def isoformat_def is_utc_def iso_offset_0)

section \<open>Dates stay in range\<close>

lemma find_month_ok:
  "n < sum_list (map (days_in_month y) ms) \<Longrightarrow> find_month y ms n = (m, d) \<Longrightarrow>
   m \<in> set ms \<and> 1 \<le> d \<and> d \<le> days_in_month y m"
  by (induction y ms n rule: find_month.induct) (auto split: if_splits)

lemma year_length: "365 \<le> sum_list (map (days_in_month y) [1..<13])"
  by (simp add: upt_rec days_in_month_def)

lemma year_bound:
  fixes n a r b s c t d u :: int
  assumes "0 \<le> n" "n < 3652059"
    and "n = 146097 * a + r" "0 \<le> r" "r < 146097" "0 \<le> a"
    and "r = 36524 * b + s" "0 \<le> s" "s < 36524" "0 \<le> b"
    and "s = 1461 * c + t" "0 \<le> t" "t < 1461" "0 \<le> c"
    and "t = 365 * d + u" "0 \<le> u" "u < 365" "0 \<le> d"
  shows "a * 400 + 1 + b * 100 + c * 4 + d \<le> 9999"
proof -
  have a: "a \<le> 24" and b: "b \<le> 4" and c: "c \<le> 24" and d: "d \<le> 4" using assms by linarith+
  consider "a \<le> 23" | "a = 24" "b \<le> 2" | "a = 24" "b \<ge> 3" "c \<le> 23" | "a = 24" "b \<ge> 3" "c = 24"
    using a c by linarith
  then show ?thesis
  proof cases
    case 1 then show ?thesis using b c d by linarith
  next
    case 2 then show ?thesis using c d by linarith
  next
    case 3
    then have "b = 3" using assms by linarith
    then show ?thesis using 3 d by linarith
  next
    case 4
    then have "b = 3" using assms by linarith
    then have "d \<le> 2" using 4 assms by linarith
    then show ?thesis using 4 \<open>b = 3\<close> by linarith
  qed
qed

lemma ord2ymd_ok:
  assumes "1 \<le> ord" "ord < 3652060" "ord2ymd ord = (y, m, d)"
  shows "date_ok y m d"
proof -
  define n where "n = ord - 1"
  define r where "r = n mod 146097"
  define s where "s = r mod 36524"
  define t where "t = s mod 1461"
  define u where "u = t mod 365"
  let ?y = "n div 146097 * 400 + 1 + r div 36524 * 100 + s div 1461 * 4 + t div 365"
  have eqs: "n = 146097 * (n div 146097) + r" "r = 36524 * (r div 36524) + s"
    "s = 1461 * (s div 1461) + t" "t = 365 * (t div 365) + u"
    by (simp_all add: r_def s_def t_def u_def)
  have bnds: "0 \<le> r" "r < 146097" "0 \<le> s" "s < 36524" "0 \<le> t" "t < 1461" "0 \<le> u" "u < 365"
    by (simp_all add: r_def s_def t_def u_def)
  have n: "0 \<le> n" "n < 3652059" using assms by (simp_all add: n_def)
  have q: "0 \<le> n div 146097" "0 \<le> r div 36524" "0 \<le> s div 1461" "0 \<le> t div 365"
    using n bnds by (simp_all add: pos_imp_zdiv_nonneg_iff)
  have ymax: "?y \<le> 9999"
    by (rule year_bound [OF n eqs(1) bnds(1,2) q(1) eqs(2) bnds(3,4) q(2) eqs(3) bnds(5,6) q(3)
          eqs(4) bnds(7,8) q(4)])
  have yd: "ord2ymd ord = (if t div 365 = 4 \<or> r div 36524 = 4 then (nat (?y - 1), 12, 31)
     else (case find_month (nat ?y) [1..<13] (nat u) of (m, d) \<Rightarrow> (nat ?y, m, d)))"
    by (simp only: ord2ymd_def Let_def n_def [symmetric] r_def [symmetric] s_def [symmetric]
        t_def [symmetric] u_def [symmetric])
  show ?thesis
  proof (cases "t div 365 = 4 \<or> r div 36524 = 4")
    case True
    then have "2 \<le> ?y" using q by linarith
    then show ?thesis using True yd assms(3) ymax
      by (simp add: date_ok_def days_in_month_def nat_le_iff) linarith
  next
    case False
    obtain m' d' where f: "find_month (nat ?y) [1..<13] (nat u) = (m', d')" by fastforce
    have "nat u < sum_list (map (days_in_month (nat ?y)) [1..<13])"
      using year_length [of "nat ?y"] bnds by linarith
    from find_month_ok [OF this f]
    have "m' \<in> set [1..<13]" "1 \<le> d'" "d' \<le> days_in_month (nat ?y) m'" by auto
    moreover have "1 \<le> ?y" using q by linarith
    ultimately show ?thesis using False yd f assms(3) ymax
      by (auto simp: date_ok_def nat_le_iff le_nat_iff)
  qed
qed

lemma dt_of_micros_ok:
  assumes "86400000000 \<le> us" "us < 3652060 * 86400000000"
  shows "is_utc (dt_of_micros us (Some 0))"
proof -
  let ?o = "us div 1000000 div 60 div 60 div 24"
  obtain y m d where o: "ord2ymd ?o = (y, m, d)" by (metis prod_cases3)
  have "?o = us div 86400000000" by (simp add: div_mult2_eq [symmetric] zdiv_zmult2_eq [symmetric])
  then have "1 \<le> ?o" "?o < 3652060" using assms by simp_all
  then have "date_ok y m d" using o by (rule ord2ymd_ok)
  then show ?thesis
    by (simp add: is_utc_def dt_ok_def dt_of_micros_def Let_def o time_ok_def nat_less_iff)
qed

lemma utc_of_aware_is_utc:
  assumes "dt_ok t" "dt_offset t = Some off" "utc_of_aware t off = Inr u"
  shows "is_utc u"
  using assms dt_of_micros_ok [of "local_micros t - off"]
  by (auto simp: utc_of_aware_def is_utc_def Let_def split: if_splits)

lemma iso_parse_ok: "iso_parse s = Some t \<Longrightarrow> dt_ok t"
proof -
  have off: "read_offset r = Some q \<Longrightarrow> \<forall>z. q = Some z \<longrightarrow> \<bar>z\<bar> < 86400000000" for r q
    by (auto simp: read_offset_def Let_def split: list.splits if_splits option.splits)
  have mk: "mk_datetime y m d h mi se us off = Some t \<Longrightarrow>
      (\<forall>z. off = Some z \<longrightarrow> \<bar>z\<bar> < 86400000000) \<Longrightarrow> dt_ok t" for y m d h mi se us off
    by (auto simp: mk_datetime_def dt_ok_def split: if_splits option.splits)
  assume p: "iso_parse s = Some t"
  then obtain y m d r where r: "read_date s = Some (y, m, d, r)"
    by (auto simp: iso_parse_def bind_eq_Some_conv)
  show ?thesis
  proof (cases r)
    case Nil
    then show ?thesis using p r mk by (simp add: iso_parse_def)
  next
    case (Cons c r')
    then show ?thesis
      using p r by (auto simp: iso_parse_def bind_eq_Some_conv elim: mk [OF _ off])
  qed
qed

section \<open>The order of dates\<close>

lemma days_before_year_Suc:
  "days_before_year (Suc (Suc p)) = days_before_year (Suc p) + (if is_leap (Suc p) then 366 else 365)"
proof -
  have dvd: "Suc p mod 400 = 0 \<Longrightarrow> Suc p mod 100 = 0" "Suc p mod 100 = 0 \<Longrightarrow> Suc p mod 4 = 0"
    by presburger+
  have "days_before_year (Suc n) = int n * 365 + int (n div 4) - int (n div 100) + int (n div 400)" for n
    by (simp add: days_before_year_def Let_def zdiv_int)
  then show ?thesis using dvd by (auto simp: div_Suc is_leap_def)
qed

lemma days_before_month_Suc:
  "1 \<le> m \<Longrightarrow> days_before_month y (Suc m) = days_before_month y m + days_in_month y m"
  by (simp add: days_before_month_def)

lemma days_before_month_mono:
  assumes "1 \<le> m" "m \<le> m'"
  shows "days_before_month y m \<le> days_before_month y m'"
  using assms(2) assms(1) by (induction rule: dec_induct) (auto simp: days_before_month_Suc)

lemma days_before_month_13: "days_before_month y 13 = (if is_leap y then 366 else 365)"
  by (simp add: days_before_month_def upt_rec days_in_month_def)

lemma days_before_year_mono:
  assumes "1 \<le> y" "y \<le> y'"
  shows "days_before_year y \<le> days_before_year y'"
  using assms(2)
proof (induction rule: dec_induct)
  case (step n)
  then obtain p where "n = Suc p" using assms(1) by (cases n) auto
  then show ?case using step by (simp add: days_before_year_Suc)
qed simp

lemma date_within_year:
  assumes "date_ok y m d"
  shows "days_before_month y m + d \<le> days_before_month y 13"
  using assms days_before_month_Suc [of m y] days_before_month_mono [of "Suc m" 13 y]
  by (simp add: date_ok_def)

lemma ymd2ord_less_year:
  assumes "date_ok y m d" "y < y'" "1 \<le> d'"
  shows "ymd2ord y m d < ymd2ord y' m' d'"
proof -
  obtain p where y: "y = Suc p" using assms by (cases y) (auto simp: date_ok_def)
  have "days_before_year (Suc y) \<le> days_before_year y'"
    using assms by (intro days_before_year_mono) auto
  moreover have "int (days_before_month y m + d) \<le> days_before_year (Suc y) - days_before_year y"
    using date_within_year [OF assms(1)] days_before_year_Suc [of p] y
    by (cases "is_leap y") (simp_all add: days_before_month_13)
  ultimately show ?thesis using assms(3) by (simp add: ymd2ord_def)
qed

lemma ymd2ord_less_month:
  assumes "date_ok y m d" "m < m'" "1 \<le> d'"
  shows "ymd2ord y m d < ymd2ord y m' d'"
  using assms days_before_month_Suc [of m y] days_before_month_mono [of "Suc m" m' y]
  by (simp add: ymd2ord_def date_ok_def)

definition cal_ok :: "('a) date_scheme \<Rightarrow> bool" where
  "cal_ok d \<longleftrightarrow> date_ok (d_year d) (d_month d) (d_day d)"

lemma date_less_ord:
  assumes "cal_ok a" "cal_ok b"
  shows "date_less a b \<longleftrightarrow> date_ord a < date_ord b"
proof -
  have imp: "date_less a b \<Longrightarrow> date_ord a < date_ord b" if "cal_ok a" "cal_ok b" for a b :: date
    using that ymd2ord_less_year [of "d_year a" "d_month a" "d_day a" "d_year b" "d_day b" "d_month b"]
      ymd2ord_less_month [of "d_year a" "d_month a" "d_day a" "d_month b" "d_day b"]
    by (auto simp: date_less_def date_ord_def cal_ok_def date_ok_def ymd2ord_def)
  have tri: "date_less a b \<or> date_less b a \<or> a = b"
    by (cases a; cases b) (auto simp: date_less_def)
  show ?thesis using imp [OF assms] imp [OF assms(2,1)] tri by fastforce
qed

lemma date_fromisoformat_iso: "cal_ok d \<Longrightarrow> date_fromisoformat (iso_date d) = Inr (date.truncate d)"
  using read_date_iso [of d "[]"] date_ok_less
  by (auto simp: date_fromisoformat_def cal_ok_def date.truncate_def)

end
