(* ===== verification/PyValue.thy ===== *)
theory PyValue
  imports PyFloat PyTime
begin

text \<open>
  The Python values the modelled code handles: one datatype, since the code tests types at run
  time. Dictionaries are association lists in insertion order; a key that is not a string is
  kept by its type's name only (\<open>KOther\<close>), a value of any other type by its type's name
  (\<open>VOther\<close>). \<open>VFrozenDict\<close> and \<open>VFrozenList\<close> are the immutable containers of
  \<open>domain/events.py\<close>.
\<close>

datatype pykey = KStr (key_str: string) | KOther (key_type: string)

datatype pyv =
    VNone
  | VBool bool
  | VInt int
  | VFloat pyfloat
  | VStr string
  | VBytes bytes
  | VDatetime datetime
  | VList "pyv list"
  | VTuple "pyv list"
  | VFrozenList "pyv list"
  | VDict "(pykey \<times> pyv) list"
  | VFrozenDict "(pykey \<times> pyv) list"
  | VOther string

type_synonym pydict = "(pykey \<times> pyv) list"

abbreviation obj_items :: "(string \<times> pyv) list \<Rightarrow> pydict" where
  "obj_items \<equiv> map (\<lambda>(k, v). (KStr k, v))"

abbreviation obj :: "(string \<times> pyv) list \<Rightarrow> pyv" where
  "obj kvs \<equiv> VDict (obj_items kvs)"

text \<open>\<open>d.get(k)\<close> on a dict with string keys: \<open>None\<close> when absent.\<close>

definition get_item :: "pydict \<Rightarrow> string \<Rightarrow> pyv option" where
  "get_item d k = dget d (KStr k)"

definition get_or_none :: "pydict \<Rightarrow> string \<Rightarrow> pyv" where
  "get_or_none d k = (case get_item d k of None \<Rightarrow> VNone | Some v \<Rightarrow> v)"

lemma get_item_obj [simp]: "get_item (obj_items kvs) k = dget kvs k"
  by (induction kvs k rule: dget.induct) (auto simp: get_item_def)

lemma get_item_Nil [simp]: "get_item [] k = None"
  by (simp add: get_item_def)

lemma get_item_Cons [simp]:
  "get_item ((KStr k', v) # d) k = (if k' = k then Some v else get_item d k)"
  by (simp add: get_item_def)

text \<open>\<open>type(v).__name__\<close>, for error messages.\<close>

fun type_name :: "pyv \<Rightarrow> string" where
  "type_name VNone = ''NoneType''"
| "type_name (VBool b) = ''bool''"
| "type_name (VInt i) = ''int''"
| "type_name (VFloat f) = ''float''"
| "type_name (VStr s) = ''str''"
| "type_name (VBytes s) = ''bytes''"
| "type_name (VDatetime t) = ''datetime''"
| "type_name (VList xs) = ''list''"
| "type_name (VTuple xs) = ''tuple''"
| "type_name (VFrozenList xs) = ''FrozenJsonList''"
| "type_name (VDict d) = ''dict''"
| "type_name (VFrozenDict d) = ''FrozenJsonDict''"
| "type_name (VOther t) = t"

fun opt_str :: "string option \<Rightarrow> pyv" where
  "opt_str None = VNone"
| "opt_str (Some s) = VStr s"

fun is_str :: "pyv \<Rightarrow> bool" where
  "is_str (VStr s) = True"
| "is_str _ = False"

section \<open>JSON-shaped values\<close>

text \<open>
  What \<open>json.loads\<close> produces: plain containers, string keys without duplicates, doubles in
  canonical form.
\<close>

fun is_json :: "pyv \<Rightarrow> bool" where
  "is_json (VFloat f) = float_ok f"
| "is_json (VList xs) = list_all is_json xs"
| "is_json (VDict d) =
     (list_all (\<lambda>p. case p of (KStr k, v) \<Rightarrow> is_json v | _ \<Rightarrow> False) d \<and> distinct (keys d))"
| "is_json VNone = True"
| "is_json (VBool b) = True"
| "is_json (VInt i) = True"
| "is_json (VStr s) = True"
| "is_json _ = False"

text \<open>
  The normal form of a JSON value: every object's members sorted by key. Python's dict equality
  ignores the order of members, so a value and its normal form are equal to the program.
\<close>

fun canon :: "pyv \<Rightarrow> pyv" where
  "canon (VList xs) = VList (map canon xs)"
| "canon (VTuple xs) = VList (map canon xs)"
| "canon (VDict d) = VDict (sort_key (\<lambda>p. key_str (fst p)) (map (\<lambda>(k, v). (k, canon v)) d))"
| "canon v = v"

lemma sort_key_idem [simp]: "sort_key f (sort_key f xs) = sort_key f xs"
  by (rule sorted_sort_key_id) simp

lemma canon_idem [simp]: "canon (canon v) = canon v"
proof (induction v rule: canon.induct)
  case (3 d)
  let ?f = "\<lambda>p :: pykey \<times> pyv. key_str (fst p)"
  have "map (\<lambda>(k, v). (k, canon v)) (sort_key ?f (map (\<lambda>(k, v). (k, canon v)) d))
      = sort_key ?f (map (\<lambda>(k, v). (k, canon v)) (map (\<lambda>(k, v). (k, canon v)) d))"
    by (rule sort_key_map [symmetric]) auto
  also have "map (\<lambda>(k, v). (k, canon v)) (map (\<lambda>(k, v). (k, canon v)) d)
      = map (\<lambda>(k, v). (k, canon v)) d"
    using 3 by auto
  finally show ?case by simp
qed auto

section \<open>Equality\<close>

text \<open>
  \<open>v == w\<close>: numbers by their value (\<open>True == 1 == 1.0\<close>), a dict or frozen dict by its
  members whatever their order, a list or frozen list item by item; a tuple equals a tuple or a
  frozen list (\<open>FrozenJsonList.__eq__\<close> compares with any sequence). Instants of two aware
  datetimes are compared in UTC.
\<close>

fun num_val :: "pyv \<Rightarrow> rat option" where
  "num_val (VBool b) = Some (if b then 1 else 0)"
| "num_val (VInt i) = Some (of_int i)"
| "num_val (VFloat f) = (if is_finite f then Some (float_val f) else None)"
| "num_val v = None"

definition scalar_eq :: "pyv \<Rightarrow> pyv \<Rightarrow> bool" where
  "scalar_eq v w =
     (case (num_val v, num_val w) of
        (Some a, Some b) \<Rightarrow> a = b
      | (None, None) \<Rightarrow>
          (case (v, w) of
             (VNone, VNone) \<Rightarrow> True
           | (VStr a, VStr b) \<Rightarrow> a = b
           | (VBytes a, VBytes b) \<Rightarrow> a = b
           | (VFloat (PInf a), VFloat (PInf b)) \<Rightarrow> a = b
           | (VDatetime a, VDatetime b) \<Rightarrow>
               (dt_offset a = None) = (dt_offset b = None) \<and> dt_instant a = dt_instant b
           | _ \<Rightarrow> False)
      | _ \<Rightarrow> False)"

fun seq_kind :: "pyv \<Rightarrow> (nat \<times> pyv list) option" where
  "seq_kind (VList xs) = Some (0, xs)"
| "seq_kind (VTuple xs) = Some (1, xs)"
| "seq_kind (VFrozenList xs) = Some (2, xs)"
| "seq_kind v = None"

fun map_items :: "pyv \<Rightarrow> pydict option" where
  "map_items (VDict d) = Some d"
| "map_items (VFrozenDict d) = Some d"
| "map_items v = None"

definition seq_match :: "nat \<Rightarrow> nat \<Rightarrow> bool" where
  "seq_match a b \<longleftrightarrow> a = b \<or> a = 2 \<or> b = 2"

fun py_eq :: "pyv \<Rightarrow> pyv \<Rightarrow> bool"
  and py_eq_items :: "pyv list \<Rightarrow> pyv list \<Rightarrow> bool"
  and py_eq_members :: "pydict \<Rightarrow> pydict \<Rightarrow> bool" where
  "py_eq (VList xs) w =
     (case seq_kind w of Some (k, ys) \<Rightarrow> seq_match 0 k \<and> py_eq_items xs ys | None \<Rightarrow> False)"
| "py_eq (VTuple xs) w =
     (case seq_kind w of Some (k, ys) \<Rightarrow> seq_match 1 k \<and> py_eq_items xs ys | None \<Rightarrow> False)"
| "py_eq (VFrozenList xs) w =
     (case seq_kind w of Some (k, ys) \<Rightarrow> py_eq_items xs ys | None \<Rightarrow> False)"
| "py_eq (VDict d) w =
     (case map_items w of Some e \<Rightarrow> length d = length e \<and> py_eq_members d e | None \<Rightarrow> False)"
| "py_eq (VFrozenDict d) w =
     (case map_items w of Some e \<Rightarrow> length d = length e \<and> py_eq_members d e | None \<Rightarrow> False)"
| "py_eq v w = scalar_eq v w"
| "py_eq_items [] ys = (ys = [])"
| "py_eq_items (x # xs) ys = (case ys of [] \<Rightarrow> False | y # ys' \<Rightarrow> py_eq x y \<and> py_eq_items xs ys')"
| "py_eq_members [] e = True"
| "py_eq_members ((k, v) # d) e =
     (case dget e k of None \<Rightarrow> False | Some w \<Rightarrow> py_eq v w \<and> py_eq_members d e)"

text \<open>A value that contains no NaN, the only value of the model that differs from itself.\<close>

fun no_nan :: "pyv \<Rightarrow> bool" where
  "no_nan (VFloat f) = (f \<noteq> PNan)"
| "no_nan (VList xs) = list_all no_nan xs"
| "no_nan (VTuple xs) = list_all no_nan xs"
| "no_nan (VFrozenList xs) = list_all no_nan xs"
| "no_nan (VDict d) = list_all (\<lambda>(k, v). no_nan v) d"
| "no_nan (VFrozenDict d) = list_all (\<lambda>(k, v). no_nan v) d"
| "no_nan (VOther t) = False"
| "no_nan v = True"

end
