(* ===== verification/PyJsonLoads.thy ===== *)
theory PyJsonLoads
  imports PyJsonRound
begin

text \<open>
  The round trip of whole values (\<open>loads_dumps\<close>), the parser's progress and fuel
  (\<open>loads_no_fuel_error\<close>), and \<open>json.loads\<close> on bytes, which detects the encoding first. CPython's parser also
  raises \<open>RecursionError\<close> where values are nested too deeply for the interpreter; that limit is not
  modelled.
\<close>

section \<open>Values\<close>

lemma num_start_float:
  assumes "is_finite f" "float_ok f"
  shows "num_start (float_repr f)"
proof -
  obtain ng m e where f: "f = PFin ng m e" using assms(1) by (cases f) auto
  show ?thesis
  proof (cases "m = 0")
    case True
    have "float_repr f = sign_text ng @ ''0'' @ ''.0''" by (simp add: f True sign_text_def)
    then show ?thesis using num_start_sign [of "''0''" ng "''.0''"] by (simp add: int_part_def)
  next
    case False
    moreover have "canonical_fin m e" using assms f by simp
    ultimately obtain ip fr ex where
      "float_repr (PFin ng m e) = sign_text ng @ ip @ frac_text fr @ exp_text ex" "int_part ip"
      using float_repr_text by blast
    then show ?thesis using num_start_sign [of ip ng "frac_text fr @ exp_text ex"] f
      by (simp del: float_repr.simps)
  qed
qed

lemma join_start:
  "list_all2 (item_ok st) ss vs \<Longrightarrow> ss \<noteq> [] \<Longrightarrow> \<exists>c t. join_with sep ss = c # t \<and> starter c"
  by (cases ss; cases "tl ss") (auto simp: list_all2_Cons1 item_ok_def neq_Nil_conv)

definition member_ok :: "bool \<Rightarrow> string \<times> string \<Rightarrow> string \<times> pyv \<Rightarrow> bool" where
  "member_ok st p q \<longleftrightarrow> fst p = fst q \<and> item_ok st (snd p) (snd q)"

lemma member_text: "json_member (k, s) @ t = dquote # tl (json_str k) @ CHR '':'' # s @ t"
  by (simp add: json_member_def json_str_def)

lemma p_members_join:
  assumes "list_all2 (member_ok st) ps kvs" "ps \<noteq> []"
    and "length (join_with '','' (map json_member ps)) + 1 < n"
  shows "p_members st n (join_with '','' (map json_member ps) @ ''}'' @ r) = Inr (kvs, r)"
  using assms
proof (induction ps arbitrary: kvs n)
  case (Cons p ps)
  obtain k s where p: "p = (k, s)" by (cases p)
  from Cons.prems(1) obtain q kvs' where q: "kvs = q # kvs'" "member_ok st p q"
    "list_all2 (member_ok st) ps kvs'"
    by (rule list_all2_ConsE1)
  define v where "v = snd q"
  have v: "kvs = (k, v) # kvs'" "item_ok st s v" "list_all2 (member_ok st) ps kvs'"
    using q by (auto simp: p member_ok_def v_def prod_eq_iff)
  obtain m where n: "n = Suc m" using Cons.prems by (cases n) auto
  have ls: "length s < length (json_member p)" by (simp add: p json_member_def)
  have head: "p_members st n (json_member p @ t)
      = bnd (p_val st m (s @ t)) (\<lambda>(v, r3).
          (case skip_ws r3 of
             [] \<Rightarrow> json_error ''Expecting , delimiter''
           | e # r4 \<Rightarrow>
               if e = CHR ''}'' then Inr ([(k, v)], r4)
               else if e = CHR '','' then
                 bnd (p_members st m (skip_ws r4)) (\<lambda>(kvs, rest). Inr ((k, v) # kvs, rest))
               else json_error ''Expecting , delimiter''))" for t
    using v(2) by (simp add: p member_text n scan_json_str item_ok_skip)
  show ?case
  proof (cases ps)
    case Nil
    then have "length s < m" using Cons.prems ls by (simp add: n)
    then have "p_val st m (s @ CHR ''}'' # r) = Inr (v, CHR ''}'' # r)"
      using v by (intro reads_backD) (auto simp: item_ok_def)
    then show ?thesis using Nil v head by simp
  next
    case (Cons p2 ps')
    let ?rest = "join_with '','' (map json_member ps) @ ''}'' @ r"
    have len: "length s < m" "length (join_with '','' (map json_member ps)) + 1 < m"
      using Cons.prems ls by (auto simp: n Cons)
    have pv: "p_val st m (s @ CHR '','' # ?rest) = Inr (v, CHR '','' # ?rest)"
      using v len by (intro reads_backD) (auto simp: item_ok_def)
    have "\<exists>t. ?rest = dquote # t"
      using member_text [of "fst p2" "snd p2"] by (cases ps') (auto simp: Cons)
    then have sk: "skip_ws ?rest = ?rest" by auto
    have "p_members st m ?rest = Inr (kvs', r)"
      using Cons.IH v(3) len by (simp add: Cons)
    with pv sk head show ?thesis by (simp add: v Cons)
  qed
qed simp

lemma list_all2_insort:
  assumes "list_all2 R xs ys" "R x y" "\<And>x y. R x y \<Longrightarrow> f x = g y"
  shows "list_all2 R (insort_key f x xs) (insort_key g y ys)"
  using assms(1)
proof (induction rule: list_all2_induct)
  case (Cons a xs b ys)
  moreover have "f a = g b" "f x = g y" using Cons assms by blast+
  ultimately show ?case using assms(2) by simp
qed (simp add: assms(2))

lemma list_all2_sort_key:
  assumes "list_all2 R xs ys" "\<And>x y. R x y \<Longrightarrow> f x = g y"
  shows "list_all2 R (sort_key f xs) (sort_key g ys)"
  using assms by (induction rule: list_all2_induct) (auto intro: list_all2_insort)

text \<open>The members of a JSON object, with plain string keys and normalised values.\<close>

definition plain_members :: "pydict \<Rightarrow> (string \<times> pyv) list" where
  "plain_members d = map (\<lambda>(k, v). (key_str k, canon v)) d"

lemma is_json_memberD:
  "is_json (VDict d) \<Longrightarrow> (k, v) \<in> set d \<Longrightarrow> k = KStr (key_str k) \<and> is_json v"
  by (cases k) (auto simp: list_all_iff split: pykey.splits)

lemma canon_obj:
  assumes "is_json (VDict d)"
  shows "canon (VDict d) = obj (key_sort (plain_members d))"
    and "distinct (map fst (key_sort (plain_members d)))"
proof -
  have "map (\<lambda>(k, v). (k, canon v)) d = obj_items (plain_members d)"
    using is_json_memberD [OF assms] by (auto simp: plain_members_def)
  moreover have "sort_key (\<lambda>p. key_str (fst p)) (obj_items (plain_members d))
      = obj_items (sort_key fst (plain_members d))"
    by (rule sort_key_map) auto
  ultimately show "canon (VDict d) = obj (key_sort (plain_members d))"
    by (simp add: key_sort_def)
  have "map fst (plain_members d) = map key_str (keys d)" by (auto simp: plain_members_def)
  moreover have "inj_on key_str (set (keys d))"
    using is_json_memberD [OF assms] by (intro inj_onI) (metis (no_types, lifting) fst_conv imageE list.set_map prod.collapse)
  ultimately have "distinct (map fst (plain_members d))"
    using assms by (simp add: distinct_map del: map_map)
  then show "distinct (map fst (key_sort (plain_members d)))"
    by (simp add: key_sort_def distinct_map)
qed

lemma members_start:
  "ps \<noteq> [] \<Longrightarrow> \<exists>t. join_with sep (map json_member ps) = dquote # t"
  by (cases ps; cases "tl ps") (auto simp: json_member_def json_str_def)

lemma dquote_neq [simp]: "CHR ''{'' \<noteq> dquote" "dquote \<noteq> CHR ''}''" "CHR ''['' \<noteq> dquote"
  by (simp_all add: dquote_def)

theorem dumps_reads_back:
  assumes "dumps v = Inr s" "is_json v"
  shows "reads_back st s (canon v)"
  using assms
proof (induction v arbitrary: s)
  case (VInt i)
  then have t: "py_int_str i = Inr s" by simp
  then have "s = sign_text (i < 0) @ nat_repr (nat \<bar>i\<bar>) @ []"
    by (auto simp: py_int_str_def int_repr_text split: if_splits)
  then have ns: "num_start s" using num_start_sign [OF int_part_nat_repr] by metis
  show ?case
    by (rule reads_backI)
       (simp add: p_val_number [OF num_start_append [OF ns]] scan_number_int [OF t] del: p_val.simps)
next
  case (VFloat f)
  then have f: "is_finite f" "float_ok f" "s = float_repr f" by (auto split: if_splits)
  then have ns: "num_start s" using num_start_float by simp
  have "scan_number (s @ r) = Inr (VFloat f, r)" if "delim r" for r
    using scan_number_float [OF f(2) f(1) that] f(3) by simp
  then show ?case
    by (intro reads_backI) (simp add: p_val_number [OF num_start_append [OF ns]] del: p_val.simps)
next
  case (VStr t)
  then have s: "s = dquote # tl (json_str t)" using json_str_hd [of t] by simp
  show ?case
    by (rule reads_backI) (subst s, simp add: scan_json_str)
next
  case (VList xs)
  then obtain ss where ss: "list_all2 (\<lambda>x s. dumps x = Inr s) xs ss"
      "s = ''['' @ join_with '','' ss @ '']''"
    by (auto simp: bnd_Inr_iff dumps_list_Inr_iff)
  have items: "list_all2 (item_ok st) ss (map canon xs)"
    using ss(1) VList by (auto simp: list_all2_conv_all_nth list_all_length item_ok_def dumps_start)
  show ?case
  proof (rule reads_backI)
    fix n r
    assume n: "length s \<le> n"
    show "p_val st (Suc n) (s @ r) = Inr (canon (VList xs), r)"
    proof (cases "ss = []")
      case True
      then show ?thesis using items by (simp add: ss(2) dquote_def)
    next
      case False
      then have "p_items st n (join_with '','' ss @ '']'' @ r) = Inr (map canon xs, r)"
        using p_items_join [OF items] n by (simp add: ss(2))
      moreover obtain c t where ct: "join_with '','' ss = c # t" "starter c"
        using join_start [OF items False] by blast
      ultimately show ?thesis
        by (auto simp: ss(2) dquote_def skip_ws_starter starter_def)
    qed
  qed
next
  case (VDict d)
  then obtain ps where ps: "list_all2 dumps_member d ps"
      "s = ''{'' @ join_with '','' (map json_member (key_sort ps)) @ ''}''"
    by (auto simp: bnd_Inr_iff dumps_members_Inr_iff)
  let ?qs = "key_sort ps" and ?kvs = "key_sort (plain_members d)"
  have "list_all2 (member_ok st) ps (plain_members d)"
    unfolding list_all2_conv_all_nth
  proof (intro conjI allI impI)
    show l: "length ps = length (plain_members d)"
      using ps(1) by (simp add: plain_members_def list_all2_lengthD)
    fix i
    assume i: "i < length ps"
    obtain k v where kv: "d ! i = (k, v)" by fastforce
    have in_d: "(k, v) \<in> set d" using i l kv by (metis length_map nth_mem plain_members_def)
    have dm: "dumps_member (k, v) (ps ! i)"
      using ps(1) i kv by (metis list_all2_nthD2)
    have js: "is_json v" "k = KStr (key_str k)" using is_json_memberD [OF VDict.prems(2) in_d] by auto
    have "reads_back st (snd (ps ! i)) (canon v)"
      using VDict.IH [OF in_d, of v] dm js by (simp add: dumps_member_def)
    then have "item_ok st (snd (ps ! i)) (canon v)"
      using dm js dumps_start [of v "snd (ps ! i)"] by (simp add: dumps_member_def item_ok_def)
    moreover have "plain_members d ! i = (key_str k, canon v)"
      using i l kv by (simp add: plain_members_def)
    ultimately show "member_ok st (ps ! i) (plain_members d ! i)"
      using dm by (simp add: member_ok_def dumps_member_def)
  qed
  then have ms: "list_all2 (member_ok st) ?qs ?kvs"
    unfolding key_sort_def by (rule list_all2_sort_key) (simp add: member_ok_def)
  have mk: "mk_dict st ?kvs = Inr (canon (VDict d))"
    using canon_obj [OF VDict.prems(2)] by (simp add: mk_dict_def del: canon.simps)
  show ?case
  proof (rule reads_backI)
    fix n r
    assume n: "length s \<le> n"
    show "p_val st (Suc n) (s @ r) = Inr (canon (VDict d), r)"
    proof (cases "?qs = []")
      case True
      then have "?kvs = []" using ms by simp
      with True mk show ?thesis by (simp add: ps(2) dquote_def del: canon.simps)
    next
      case False
      then have "p_members st n (join_with '','' (map json_member ?qs) @ ''}'' @ r) = Inr (?kvs, r)"
        using p_members_join [OF ms] n by (simp add: ps(2))
      moreover obtain t where "join_with '','' (map json_member ?qs) = dquote # t"
        using members_start [OF False] by blast
      ultimately show ?thesis
        using mk by (simp add: ps(2) Let_def del: canon.simps)
    qed
  qed
qed (auto intro!: reads_backI simp: dquote_def)

theorem loads_dumps:
  assumes "dumps v = Inr s" "is_json v"
  shows "loads st s = Inr (canon v)"
proof -
  obtain c t where s: "s = c # t" "starter c" using dumps_start [OF assms] by (cases s) auto
  have "p_val st (Suc (2 * length s)) (s @ []) = Inr (canon v, [])"
    using dumps_reads_back [OF assms] by (rule reads_backD) auto
  then show ?thesis
    using skip_ws_starter [OF s(2), of t] by (simp add: loads_def s(1) skip_ws_def del: p_val.simps)
qed

section \<open>Enough fuel\<close>

lemma skip_ws_length: "length (skip_ws s) \<le> length s"
  by (simp add: skip_ws_def length_dropWhile_le)

lemma scan_str_length: "scan_str s = Inr (t, r) \<Longrightarrow> length r < length s"
proof (induction s arbitrary: t r rule: length_induct)
  case (1 s)
  have IH: "length r' < length s" if "scan_str u = Inr (a, r')" "length u < length s" for u a r'
    using 1 that by (meson less_trans)
  show ?case
  proof (cases s)
    case (Cons c cs)
    show ?thesis
      using "1.prems" unfolding Cons
      by (subst (asm) scan_str.simps)
         ((auto simp: bnd_Inr_iff split: if_split_asm list.split_asm option.split_asm);
          (frule scan_unicode_length)?; drule IH; simp add: Cons)
  qed (use "1.prems" in simp)
qed

lemma span_digits_length: "span_digits s = (a, b) \<Longrightarrow> length b \<le> length s"
  by (auto simp: span_digits_def length_dropWhile_le)

lemma scan_int_part_length: "scan_int_part s = Some (a, b) \<Longrightarrow> length b < length s"
  by (auto simp: scan_int_part_def span_digits_def less_Suc_eq_le length_dropWhile_le
      split: list.splits if_splits)

lemma scan_frac_length: "scan_frac s = (a, b) \<Longrightarrow> length b \<le> length s"
  by (auto simp: scan_frac_def dest!: span_digits_length split: list.splits if_splits)

lemma scan_exp_length: "scan_exp s = (a, b) \<Longrightarrow> length b \<le> length s"
  by (auto simp: scan_exp_def Let_def dest!: span_digits_length
      split: list.splits if_splits prod.splits)

lemma scan_number_length: "scan_number s = Inr (v, r) \<Longrightarrow> length r < length s"
proof -
  assume a: "scan_number s = Inr (v, r)"
  define s1 where "s1 = (if (case s of c # _ \<Rightarrow> c = CHR ''-'' | [] \<Rightarrow> False) then tl s else s)"
  have l1: "length s1 \<le> length s" by (simp add: s1_def)
  from a obtain ip s2 where i: "scan_int_part s1 = Some (ip, s2)"
    by (auto simp: scan_number_def Let_def s1_def split: option.split_asm)
  obtain fr s3 where f: "scan_frac s2 = (fr, s3)" by fastforce
  obtain ex s4 where e: "scan_exp s3 = (ex, s4)" by fastforce
  have "r = s4" using a i f e by (auto simp: scan_number_def Let_def s1_def bnd_Inr_iff)
  then show ?thesis
    using l1 scan_int_part_length [OF i] scan_frac_length [OF f] scan_exp_length [OF e] by simp
qed

lemma nonfinite_token_Inr: "nonfinite_token st f u = Inr (v, r) \<Longrightarrow> r = u"
  by (simp add: nonfinite_token_def split: if_splits)

lemma skip_ws_Cons_length: "skip_ws s = c # r \<Longrightarrow> length r < length s"
  using skip_ws_length [of s] by simp

lemma startswith_length: "py_startswith s p \<Longrightarrow> length p \<le> length s"
  by (auto simp: py_startswith_iff)

text \<open>Every parser consumes at least one character.\<close>

lemma parse_length:
  "p_val st n s = Inr (v, r) \<Longrightarrow> length r < length s"
  "p_items st n s = Inr (vs, r) \<Longrightarrow> length r < length s"
  "p_members st n s = Inr (kvs, r) \<Longrightarrow> length r < length s"
proof (induction st n s and st n s and st n s arbitrary: v r and vs r and kvs r
    rule: p_val_p_items_p_members.induct)
  case (2 st n s)
  show ?case
  proof (cases s)
    case (Cons c t)
    have sk: "length (skip_ws t) \<le> length t" by (rule skip_ws_length)
    have mem: "length r' < length (skip_ws t)" if "p_members st n (skip_ws t) = Inr (x, r')"
        "c = CHR ''{''" "\<not> py_startswith (skip_ws t) ''}''" for x r'
      using 2(1) [OF Cons _ _ refl] that by (auto simp: dquote_def)
    have it: "length r' < length (skip_ws t)" if "p_items st n (skip_ws t) = Inr (x, r')"
        "c = CHR ''[''" "\<not> py_startswith (skip_ws t) '']''" for x r'
      using 2(2) [OF Cons _ _ _ refl] that by (auto simp: dquote_def)
    show ?thesis
      using 2(3) sk
      by (auto simp: Cons bnd_Inr_iff Let_def dest!: scan_str_length nonfinite_token_Inr mem it
          scan_number_length split: if_split_asm)
  qed (use 2 in simp)
next
  case (4 st n s)
  from "4.prems" obtain x u where p: "p_val st n s = Inr (x, u)" by (auto simp: bnd_Inr_iff)
  have u: "length u < length s" using "4.IH"(1) p .
  obtain c t where c: "skip_ws u = c # t"
    using "4.prems" p by (cases "skip_ws u") auto
  have t: "length t < length u" using c by (rule skip_ws_Cons_length)
  show ?case
  proof (cases "c = CHR '']''")
    case True
    with "4.prems" p c u t show ?thesis by auto
  next
    case False
    with "4.prems" p c obtain ws where q: "p_items st n (skip_ws t) = Inr (ws, r)" "c = CHR '',''"
      by (auto simp: bnd_Inr_iff split: if_split_asm)
    have "length r < length (skip_ws t)"
      using "4.IH"(2) [OF p refl c False q(2) q(1)] .
    then show ?thesis using skip_ws_length [of t] u t by simp
  qed
next
  case (6 st n s)
  from "6.prems" obtain t where s: "s = dquote # t" by (auto split: list.splits if_splits)
  from "6.prems" obtain k r1 where k: "scan_str t = Inr (k, r1)" by (auto simp: s bnd_Inr_iff)
  have l1: "length r1 < length t" using k by (rule scan_str_length)
  obtain r2 where c: "skip_ws r1 = CHR '':'' # r2"
    using "6.prems" s k by (auto split: list.splits if_splits)
  have l2: "length r2 < length r1" using c by (rule skip_ws_Cons_length)
  obtain x u where p: "p_val st n (skip_ws r2) = Inr (x, u)"
    using "6.prems" s k c by (auto simp: bnd_Inr_iff)
  have l3: "length u < length (skip_ws r2)"
    using "6.IH"(1) [OF s _ k refl c _ p] by simp
  obtain e r4 where e: "skip_ws u = e # r4"
    using "6.prems" s k c p by (cases "skip_ws u") auto
  have l4: "length r4 < length u" using e by (rule skip_ws_Cons_length)
  have base: "length r4 < length s"
    using l1 l2 l3 l4 skip_ws_length [of r2] by (simp add: s)
  show ?case
  proof (cases "e = CHR ''}''")
    case True
    then show ?thesis using "6.prems" s k c p e base by auto
  next
    case False
    with "6.prems" s k c p e obtain ws where q: "p_members st n (skip_ws r4) = Inr (ws, r)"
        "e = CHR '',''"
      by (auto simp: bnd_Inr_iff split: if_split_asm)
    have "length r < length (skip_ws r4)"
      using "6.IH"(2) [OF s _ k refl c _ p refl e False q(2) q(1)] by simp
    then show ?thesis using skip_ws_length [of r4] base by simp
  qed
qed simp_all

definition fuel_ok :: "'a res \<Rightarrow> bool" where
  "fuel_ok r \<longleftrightarrow> (\<forall>m. r \<noteq> Inl (Raise OutOfFuel m))"

lemma fuel_ok_simps [simp]:
  "fuel_ok (Inr x)"
  "fuel_ok (raise k m) \<longleftrightarrow> k \<noteq> OutOfFuel"
  by (auto simp: fuel_ok_def)

lemma fuel_ok_bnd:
  "fuel_ok r \<Longrightarrow> (\<And>x. r = Inr x \<Longrightarrow> fuel_ok (f x)) \<Longrightarrow> fuel_ok (bnd r f)"
  by (cases r) (auto simp: fuel_ok_def)

lemma fuel_ok_bnd_Inr [simp]:
  "fuel_ok (bnd r (\<lambda>(s, rest). Inr (g s rest))) \<longleftrightarrow> fuel_ok r"
  by (cases r) (auto simp: fuel_ok_def)

lemma scan_unicode_fuel: "fuel_ok (scan_unicode s)"
  by (simp add: scan_unicode_def split: list.split option.split)

lemma scan_str_fuel: "fuel_ok (scan_str s)"
proof (induction s rule: scan_str.induct)
  case (2 c cs)
  then show ?case
    by (auto simp: scan_str.simps(2) scan_unicode_fuel split: list.split option.split
        intro!: fuel_ok_bnd)
qed simp

lemma scan_number_fuel: "fuel_ok (scan_number s)"
  by (auto simp: scan_number_def number_value_def Let_def split: option.split prod.split)

lemma mk_dict_fuel: "fuel_ok (mk_dict st kvs)"
  by (simp add: mk_dict_def)

lemma nonfinite_fuel: "fuel_ok (nonfinite_token st f r)"
  by (simp add: nonfinite_token_def)

lemma parse_fuel:
  "2 * length s < n \<Longrightarrow> fuel_ok (p_val st n s)"
  "2 * length s + 1 < n \<Longrightarrow> fuel_ok (p_items st n s)"
  "2 * length s + 1 < n \<Longrightarrow> fuel_ok (p_members st n s)"
proof (induction st n s and st n s and st n s rule: p_val_p_items_p_members.induct)
  case (2 st n s)
  show ?case
  proof (cases s)
    case (Cons c t)
    have sk: "length (skip_ws t) \<le> length t" by (rule skip_ws_length)
    have n: "2 * length (skip_ws t) + 1 < n" using 2(3) sk by (simp add: Cons)
    have mem: "fuel_ok (p_members st n (skip_ws t))"
      if "c = CHR ''{''" "\<not> py_startswith (skip_ws t) ''}''"
      using 2(1) [OF Cons _ _ refl] that n by simp
    have it: "fuel_ok (p_items st n (skip_ws t))"
      if "c = CHR ''[''" "\<not> py_startswith (skip_ws t) '']''"
      using 2(2) [OF Cons _ _ _ refl] that n by simp
    have str: "fuel_ok (bnd (scan_str t) (\<lambda>(t, rest). Inr (VStr t, rest)))"
      by (rule fuel_ok_bnd) (auto simp: scan_str_fuel)
    have dict: "fuel_ok (bnd (mk_dict st kvs) (\<lambda>v. Inr (f v)))" for kvs f
      by (rule fuel_ok_bnd) (auto simp: mk_dict_fuel)
    have mem': "fuel_ok (bnd (p_members st n (skip_ws t)) (\<lambda>(kvs, rest).
        bnd (mk_dict st kvs) (\<lambda>v. Inr (v, rest))))"
      if "c = CHR ''{''" "\<not> py_startswith (skip_ws t) ''}''"
      using mem [OF that] by (rule fuel_ok_bnd) (auto simp: dict)
    have it': "fuel_ok (bnd (p_items st n (skip_ws t)) (\<lambda>(xs, rest). Inr (VList xs, rest)))"
      if "c = CHR ''[''" "\<not> py_startswith (skip_ws t) '']''"
      using it [OF that] by (rule fuel_ok_bnd) auto
    show ?thesis
      using mem' it'
      by (simp add: Cons Let_def scan_number_fuel nonfinite_fuel dict str scan_str_fuel
          del: py_startswith_simps bnd_simps)
  qed simp
next
  case (4 st n s)
  show ?case
    unfolding p_items.simps
  proof (rule fuel_ok_bnd)
    show "fuel_ok (p_val st n s)" using 4 by simp
    fix xu
    assume p: "p_val st n s = Inr xu"
    obtain x u where xu: "xu = (x, u)" by fastforce
    have u: "length u < length s" using parse_length(1) p xu by blast
    have "fuel_ok (p_items st n (skip_ws t))"
      if "skip_ws u = CHR '','' # t" for t
      using "4.IH"(2) [OF p xu [symmetric] that] "4.prems" u skip_ws_Cons_length [OF that]
        skip_ws_length [of t] by simp
    then show "fuel_ok ((\<lambda>(v, r). case skip_ws r of [] \<Rightarrow> json_error ''Expecting , delimiter''
        | c # r1 \<Rightarrow> if c = CHR '']'' then Inr ([v], r1)
            else if c = CHR '','' then
              bnd (p_items st n (skip_ws r1)) (\<lambda>(vs, rest). Inr (v # vs, rest))
            else json_error ''Expecting , delimiter'') xu)"
      by (auto simp: xu split: list.split intro!: fuel_ok_bnd)
  qed
next
  case (6 st n s)
  show ?case
  proof (cases "\<exists>t. s = dquote # t")
    case False
    then show ?thesis by (auto split: list.split)
  next
    case True
    then obtain t where s: "s = dquote # t" by blast
    have body: "fuel_ok (case skip_ws r1 of [] \<Rightarrow> json_error ''Expecting : delimiter''
        | c # r2 \<Rightarrow>
            if c \<noteq> CHR '':'' then json_error ''Expecting : delimiter''
            else bnd (p_val st n (skip_ws r2)) (\<lambda>(v, r3).
              (case skip_ws r3 of
                 [] \<Rightarrow> json_error ''Expecting , delimiter''
               | e # r4 \<Rightarrow>
                   if e = CHR ''}'' then Inr ([(k, v)], r4)
                   else if e = CHR '','' then
                     bnd (p_members st n (skip_ws r4)) (\<lambda>(kvs, rest). Inr ((k, v) # kvs, rest))
                   else json_error ''Expecting , delimiter'')))"
      if k: "scan_str t = Inr (k, r1)" for k r1
    proof (cases "\<exists>r2. skip_ws r1 = CHR '':'' # r2")
      case False
      then show ?thesis by (auto split: list.split)
    next
      case True
      then obtain r2 where c: "skip_ws r1 = CHR '':'' # r2" by blast
      have len: "length r2 < length t"
        using scan_str_length [OF k] skip_ws_Cons_length [OF c] by simp
      have pv: "fuel_ok (p_val st n (skip_ws r2))"
        using "6.IH"(1) [OF s _ k refl c] "6.prems" len skip_ws_length [of r2] by (simp add: s)
      have rest: "fuel_ok (p_members st n (skip_ws r4))"
        if p: "p_val st n (skip_ws r2) = Inr (x, u)" and e: "skip_ws u = CHR '','' # r4"
        for x u r4
        using "6.IH"(2) [OF s _ k refl c _ p refl e] "6.prems" len
          parse_length(1) [OF p] skip_ws_length [of r2] skip_ws_Cons_length [OF e]
          skip_ws_length [of r4] by (simp add: s)
      show ?thesis unfolding c
        by (simp, rule fuel_ok_bnd [OF pv]) (auto split: list.split intro: rest)
    qed
    show ?thesis unfolding s
      by (simp, rule fuel_ok_bnd) (auto simp: scan_str_fuel body simp del: not_None_eq)
  qed
qed simp_all

theorem loads_no_fuel_error: "fuel_ok (loads st s)"
  unfolding loads_def
  using skip_ws_length [of s]
  by (intro fuel_ok_bnd parse_fuel(1)) (auto simp del: p_val.simps)

section \<open>Bytes\<close>

text \<open>
  \<open>json.detect_encoding\<close> and the decoding it selects, with the \<open>surrogatepass\<close> error
  handler: UTF-8 bytes are kept as they are, UTF-16 and UTF-32 code units become UTF-8.
\<close>

fun code_units :: "nat \<Rightarrow> bool \<Rightarrow> nat \<Rightarrow> bytes \<Rightarrow> nat list option" where
  "code_units 0 be w s = (if s = [] then Some [] else None)"
| "code_units (Suc n) be w s =
     (if s = [] then Some []
      else if length s < w then None
      else
        let u = take w s;
            v = foldl (\<lambda>a c. a * 256 + byte c) 0 (if be then u else rev u)
        in map_option (\<lambda>us. v # us) (code_units n be w (drop w s)))"

fun join_surrogates :: "nat list \<Rightarrow> nat list" where
  "join_surrogates (u # v # us) =
     (if 55296 \<le> u \<and> u < 56320 \<and> 56320 \<le> v \<and> v < 57344
      then (65536 + (u - 55296) * 1024 + (v - 56320)) # join_surrogates us
      else u # join_surrogates (v # us))"
| "join_surrogates us = us"

definition decode_error :: "string res" where
  "decode_error = raise UnicodeDecodeError ''invalid data''"

definition decode_utf8 :: "bytes \<Rightarrow> string res" where
  "decode_utf8 s = (if utf8_ok True s then Inr s else decode_error)"

definition decode_utf16 :: "bool \<Rightarrow> bytes \<Rightarrow> string res" where
  "decode_utf16 be s =
     (case code_units (length s) be 2 s of
        None \<Rightarrow> decode_error
      | Some us \<Rightarrow> Inr (concat (map utf8_of_cp (join_surrogates us))))"

definition decode_utf32 :: "bool \<Rightarrow> bytes \<Rightarrow> string res" where
  "decode_utf32 be s =
     (case code_units (length s) be 4 s of
        None \<Rightarrow> decode_error
      | Some us \<Rightarrow>
          if list_all (\<lambda>u. u < 1114112) us then Inr (concat (map utf8_of_cp us))
          else decode_error)"

definition json_decode :: "bytes \<Rightarrow> string res" where
  "json_decode s =
     (let b = map byte (take 4 s); n = length s;
          b0 = b ! 0; b1 = b ! 1; b2 = b ! 2; b3 = b ! 3
      in if 4 \<le> n \<and> b = [0, 0, 254, 255] then decode_utf32 True (drop 4 s)
         else if 4 \<le> n \<and> b = [255, 254, 0, 0] then decode_utf32 False (drop 4 s)
         else if 2 \<le> n \<and> take 2 b = [254, 255] then decode_utf16 True (drop 2 s)
         else if 2 \<le> n \<and> take 2 b = [255, 254] then decode_utf16 False (drop 2 s)
         else if 3 \<le> n \<and> take 3 b = [239, 187, 191] then decode_utf8 (drop 3 s)
         else if 4 \<le> n then
           (if b0 = 0 then (if b1 \<noteq> 0 then decode_utf16 True s else decode_utf32 True s)
            else if b1 = 0 then
              (if b2 \<noteq> 0 \<or> b3 \<noteq> 0 then decode_utf16 False s else decode_utf32 False s)
            else decode_utf8 s)
         else if n = 2 then
           (if b0 = 0 then decode_utf16 True s
            else if b1 = 0 then decode_utf16 False s
            else decode_utf8 s)
         else decode_utf8 s)"

definition loads_bytes :: "bool \<Rightarrow> bytes \<Rightarrow> pyv res" where
  "loads_bytes strict s = bnd (json_decode s) (loads strict)"

lemma json_decode_ascii:
  assumes "utf8_ok True (c # d # r)" "0 < byte c" "byte c < 128" "0 < byte d" "byte d < 128"
  shows "json_decode (c # d # r) = Inr (c # d # r)"
proof -
  have ok: "decode_utf8 (c # d # r) = Inr (c # d # r)"
    using assms(1) by (simp add: decode_utf8_def del: utf8_ok.simps)
  show ?thesis
    using assms(2-) ok by (auto simp: json_decode_def Let_def)
qed

text \<open>What \<open>dumps\<close> and \<open>encode\<close> made of an object is read back from its bytes.\<close>

theorem loads_bytes_dumps:
  assumes "dumps (VDict d) = Inr s" "is_json (VDict d)" "utf8_ok True s"
  shows "loads_bytes st s = Inr (canon (VDict d))"
proof -
  obtain ps where s: "s = ''{'' @ join_with '','' (map json_member (key_sort ps)) @ ''}''"
    using assms(1) by (auto simp: bnd_Inr_iff)
  have "\<exists>c r. s = CHR ''{'' # c # r \<and> 0 < byte c \<and> byte c < 128"
    using members_start [of "key_sort ps" "'',''"]
    by (cases "key_sort ps = []") (auto simp: s byte_def dquote_def)
  then obtain c r where c: "s = CHR ''{'' # c # r" "0 < byte c" "byte c < 128" by blast
  have "json_decode s = Inr s"
    using assms(3) c unfolding c(1) by (intro json_decode_ascii) (auto simp: byte_def)
  then show ?thesis
    using loads_dumps [OF assms(1,2)] by (simp add: loads_bytes_def)
qed

section \<open>What parsing produces\<close>

lemma dec_val_nonneg: "0 \<le> dec_val D k"
  by (simp add: dec_val_def)

lemma scan_number_json: "scan_number s = Inr (v, r) \<Longrightarrow> is_json v"
  by (auto simp: scan_number_def number_value_def bnd_Inr_iff Let_def fl_round_ok dec_val_nonneg
      split: option.splits prod.splits if_splits)

lemma keys_obj_items: "map fst (obj_items kvs) = map KStr (map fst kvs)"
  by (induction kvs) auto

lemma dset_subset: "set (dset c k v) \<subseteq> insert (k, v) (set c)"
proof (induction c)
  case (Cons p c)
  then show ?case by (cases p) (simp, blast)
qed simp

definition json_members :: "pydict \<Rightarrow> bool" where
  "json_members d \<longleftrightarrow> (\<forall>p\<in>set d. is_json (snd p) \<and> (\<exists>s. fst p = KStr s)) \<and> distinct (keys d)"

lemma json_members_dset:
  assumes "json_members d" "is_json v"
  shows "json_members (dset d (KStr k) v)"
proof -
  have "\<forall>p\<in>insert (KStr k, v) (set d). is_json (snd p) \<and> (\<exists>s. fst p = KStr s)"
    using assms by (simp add: json_members_def)
  then show ?thesis
    using assms(1) dset_subset [of d "KStr k" v] by (meson distinct_dset json_members_def subsetD)
qed

lemma json_members_foldl:
  "json_members d \<Longrightarrow> \<forall>p\<in>set l. is_json (snd p) \<Longrightarrow>
   json_members (foldl (\<lambda>d (k, v). dset d (KStr k) v) d l)"
  by (induction l arbitrary: d) (auto simp: json_members_dset)

lemma json_members_dict: "json_members d \<Longrightarrow> is_json (VDict d)"
proof -
  have "\<forall>p\<in>set d. is_json (snd p) \<and> (\<exists>s. fst p = KStr s) \<Longrightarrow>
    list_all (\<lambda>p. case p of (KStr k, v) \<Rightarrow> is_json v | _ \<Rightarrow> False) d"
    by (auto simp: list_all_iff)
  then show "json_members d \<Longrightarrow> is_json (VDict d)" by (simp add: json_members_def)
qed

lemma json_members_obj:
  "distinct (map fst kvs) \<Longrightarrow> \<forall>p\<in>set kvs. is_json (snd p) \<Longrightarrow> json_members (obj_items kvs)"
  by (auto simp: json_members_def keys_obj_items distinct_map inj_on_def simp del: map_map)

lemma mk_dict_json:
  assumes "mk_dict st kvs = Inr v" "\<forall>p\<in>set kvs. is_json (snd p)"
  shows "is_json v"
proof (cases "distinct (map fst kvs)")
  case True
  then show ?thesis
    using assms json_members_dict [OF json_members_obj [OF True assms(2)]]
    by (simp add: mk_dict_def)
next
  case False
  have "json_members []" by (simp add: json_members_def)
  then show ?thesis
    using False assms json_members_dict [OF json_members_foldl [OF _ assms(2), of "[]"]]
    by (auto simp: mk_dict_def split: if_splits)
qed

lemma parse_json:
  "p_val st n s = Inr (v, r) \<Longrightarrow> is_json v"
  "p_items st n s = Inr (vs, r) \<Longrightarrow> list_all is_json vs"
  "p_members st n s = Inr (kvs, r) \<Longrightarrow> \<forall>p\<in>set kvs. is_json (snd p)"
proof (induction st n s and st n s and st n s arbitrary: v r and vs r and kvs r
    rule: p_val_p_items_p_members.induct)
  case (2 st n s)
  show ?case
  proof (cases s)
    case (Cons c t)
    have mem: "\<forall>p\<in>set x. is_json (snd p)" if "p_members st n (skip_ws t) = Inr (x, r')"
        "c = CHR ''{''" "\<not> py_startswith (skip_ws t) ''}''" for x r'
      using 2(1) [OF Cons _ _ refl] that by (auto simp: dquote_def)
    have it: "list_all is_json x" if "p_items st n (skip_ws t) = Inr (x, r')"
        "c = CHR ''[''" "\<not> py_startswith (skip_ws t) '']''" for x r'
      using 2(2) [OF Cons _ _ _ refl] that by (auto simp: dquote_def)
    have nf: "nonfinite_token st f u = Inr (w, r') \<Longrightarrow> float_ok f \<Longrightarrow> is_json w" for f u w r'
      by (auto simp: nonfinite_token_def split: if_splits)
    show ?thesis
      using 2(3)
      by (auto simp: Cons bnd_Inr_iff Let_def dest: mem it mk_dict_json scan_number_json nf
          split: if_split_asm)
  qed (use 2 in simp)
next
  case (4 st n s)
  from "4.prems" obtain x u where p: "p_val st n s = Inr (x, u)" by (auto simp: bnd_Inr_iff)
  have x: "is_json x" using "4.IH"(1) p .
  obtain c t where c: "skip_ws u = c # t"
    using "4.prems" p by (cases "skip_ws u") auto
  show ?case
  proof (cases "c = CHR '']''")
    case True
    with "4.prems" p c x show ?thesis by auto
  next
    case False
    with "4.prems" p c obtain ws where q: "p_items st n (skip_ws t) = Inr (ws, r)" "c = CHR '',''"
      "vs = x # ws"
      by (auto simp: bnd_Inr_iff split: if_split_asm)
    have "list_all is_json ws"
      using "4.IH"(2) [OF p refl c False q(2) q(1)] .
    then show ?thesis using q x by simp
  qed
next
  case (6 st n s)
  from "6.prems" obtain t where s: "s = dquote # t" by (auto split: list.splits if_splits)
  from "6.prems" obtain k r1 where k: "scan_str t = Inr (k, r1)" by (auto simp: s bnd_Inr_iff)
  obtain r2 where c: "skip_ws r1 = CHR '':'' # r2"
    using "6.prems" s k by (auto split: list.splits if_splits)
  obtain x u where p: "p_val st n (skip_ws r2) = Inr (x, u)"
    using "6.prems" s k c by (auto simp: bnd_Inr_iff)
  have x: "is_json x"
    using "6.IH"(1) [OF s _ k refl c _ p] by simp
  obtain e r4 where e: "skip_ws u = e # r4"
    using "6.prems" s k c p by (cases "skip_ws u") auto
  show ?case
  proof (cases "e = CHR ''}''")
    case True
    then show ?thesis using "6.prems" s k c p e x by auto
  next
    case False
    with "6.prems" s k c p e obtain ws where q: "p_members st n (skip_ws r4) = Inr (ws, r)"
        "e = CHR '',''" "kvs = (k, x) # ws"
      by (auto simp: bnd_Inr_iff split: if_split_asm)
    have "\<forall>p\<in>set ws. is_json (snd p)"
      using "6.IH"(2) [OF s _ k refl c _ p refl e False q(2) q(1)] by simp
    then show ?thesis using q x by simp
  qed
qed simp_all

theorem loads_is_json: "loads st s = Inr v \<Longrightarrow> is_json v"
  by (auto simp: loads_def bnd_Inr_iff simp del: p_val.simps dest: parse_json(1) split: if_splits)

lemma loads_bytes_is_json: "loads_bytes st s = Inr v \<Longrightarrow> is_json v"
  by (auto simp: loads_bytes_def bnd_Inr_iff dest: loads_is_json)

section \<open>Serialized text\<close>

text \<open>No control character is written: a serialized value is one line.\<close>

definition printable :: "string \<Rightarrow> bool" where
  "printable s \<longleftrightarrow> (\<forall>c\<in>set s. 32 \<le> byte c)"

lemma printable_simps [simp]:
  "printable []" "printable (c # s) \<longleftrightarrow> 32 \<le> byte c \<and> printable s"
  "printable (s @ t) \<longleftrightarrow> printable s \<and> printable t"
  by (auto simp: printable_def)

lemma printable_chars [simp]: "32 \<le> byte dquote" "32 \<le> byte bslash"
  by (simp_all add: dquote_def bslash_def byte_def)

lemma printable_digits: "list_all is_digit s \<Longrightarrow> printable s"
  by (auto simp: printable_def list_all_iff is_digit_def)

lemma printable_nat_repr [simp]: "printable (nat_repr n)"
  by (rule printable_digits) (auto simp: list_all_iff nat_repr_digits)

lemma printable_int_repr [simp]: "printable (int_repr i)"
  by (simp add: int_repr_def byte_def)

lemma printable_take [simp]: "printable s \<Longrightarrow> printable (take n s)"
  by (auto simp: printable_def dest: in_set_takeD)

lemma printable_drop [simp]: "printable s \<Longrightarrow> printable (drop n s)"
  by (auto simp: printable_def dest: in_set_dropD)

lemma printable_replicate [simp]: "32 \<le> byte c \<Longrightarrow> printable (replicate n c)"
  by (auto simp: printable_def)

lemma printable_dec_repr [simp]: "printable (dec_repr D k)"
  by (simp add: dec_repr_def exp_repr_def Let_def byte_def)

lemma printable_float_repr: "printable (float_repr f)"
  by (cases f) (auto simp: byte_def split: prod.splits)

lemma byte_hex_char: "d < 16 \<Longrightarrow> 32 \<le> byte (hex_char d)"
  by (simp add: hex_char_def byte_def)

lemma printable_json_char: "printable (json_char c)"
proof -
  have "byte c < 32 \<Longrightarrow> byte c div 16 < 16 \<and> byte c mod 16 < 16" by simp
  then show ?thesis by (auto simp: json_char_def byte_hex_char) (auto simp: byte_def)
qed

lemma printable_json_str [simp]: "printable (json_str s)"
proof -
  have "printable (concat (map json_char s))"
    by (induction s) (auto simp: printable_json_char)
  then show ?thesis by (simp add: json_str_def)
qed

lemma printable_join: "printable sep \<Longrightarrow> \<forall>s\<in>set ss. printable s \<Longrightarrow> printable (join_with sep ss)"
  by (induction sep ss rule: join_with.induct) auto

lemma set_key_sort [simp]: "set (key_sort ps) = set ps"
  by (simp add: key_sort_def)

lemma printable_dumps:
  "dumps v = Inr s \<Longrightarrow> printable s"
  "dumps_list xs = Inr ss \<Longrightarrow> \<forall>s\<in>set ss. printable s"
  "dumps_members d = Inr ps \<Longrightarrow> \<forall>p\<in>set ps. printable (snd p)"
proof (induction v and xs and d arbitrary: s and ss and ps
    rule: dumps_dumps_list_dumps_members.induct)
  case (8 d)
  then obtain ps where ps: "dumps_members d = Inr ps"
    "s = ''{'' @ join_with '','' (map json_member (key_sort ps)) @ ''}''"
    by (auto simp: bnd_Inr_iff)
  have "\<forall>p\<in>set ps. printable (snd p)" using 8(1) ps(1) .
  then have "printable (join_with '','' (map json_member (key_sort ps)))"
    by (intro printable_join) (auto simp: json_member_def byte_def)
  then show ?case by (simp add: ps(2) byte_def)
next
  case (13 k v d)
  then obtain k' t qs where q: "k = KStr k'" "dumps v = Inr t" "dumps_members d = Inr qs"
    "ps = (k', t) # qs"
    by (cases k) (auto simp: bnd_Inr_iff)
  have "printable t" using 13(1) q(1,2) .
  moreover have "\<forall>p\<in>set qs. printable (snd p)" using 13(2) q(1-3) .
  ultimately show ?case using q(4) by simp
qed (auto simp: bnd_Inr_iff byte_def printable_float_repr py_int_str_def
    intro!: printable_join split: if_splits pykey.splits simp del: float_repr.simps)

end
