(* ===== verification/PyHash.thy ===== *)
theory PyHash
  imports PyText "HOL-Library.Word"
begin

text \<open>
  \<open>hashlib.sha256\<close>, \<open>hmac.new(key, msg, sha256)\<close> and \<open>base64.b64encode\<close>, as FIPS 180-4,
  RFC 2104 and RFC 4648 define them, on byte strings. Proofs about the program never unfold the
  compression function: what they need of a digest is its length, or they name the two byte
  strings that collide.
\<close>

unbundle bit_operations_syntax

section \<open>SHA-256\<close>

type_synonym u32 = "32 word"

definition rotr :: "nat \<Rightarrow> u32 \<Rightarrow> u32" where
  "rotr n x = drop_bit n x OR push_bit (32 - n) x"

definition sha_ch :: "u32 \<Rightarrow> u32 \<Rightarrow> u32 \<Rightarrow> u32" where
  "sha_ch x y z = (x AND y) XOR (NOT x AND z)"

definition sha_maj :: "u32 \<Rightarrow> u32 \<Rightarrow> u32 \<Rightarrow> u32" where
  "sha_maj x y z = (x AND y) XOR (x AND z) XOR (y AND z)"

definition big_sigma0 :: "u32 \<Rightarrow> u32" where
  "big_sigma0 x = rotr 2 x XOR rotr 13 x XOR rotr 22 x"

definition big_sigma1 :: "u32 \<Rightarrow> u32" where
  "big_sigma1 x = rotr 6 x XOR rotr 11 x XOR rotr 25 x"

definition small_sigma0 :: "u32 \<Rightarrow> u32" where
  "small_sigma0 x = rotr 7 x XOR rotr 18 x XOR drop_bit 3 x"

definition small_sigma1 :: "u32 \<Rightarrow> u32" where
  "small_sigma1 x = rotr 17 x XOR rotr 19 x XOR drop_bit 10 x"

definition sha_k :: "u32 list" where
  "sha_k =
    [1116352408, 1899447441, 3049323471, 3921009573, 961987163, 1508970993, 2453635748, 2870763221,
     3624381080, 310598401, 607225278, 1426881987, 1925078388, 2162078206, 2614888103, 3248222580,
     3835390401, 4022224774, 264347078, 604807628, 770255983, 1249150122, 1555081692, 1996064986,
     2554220882, 2821834349, 2952996808, 3210313671, 3336571891, 3584528711, 113926993, 338241895,
     666307205, 773529912, 1294757372, 1396182291, 1695183700, 1986661051, 2177026350, 2456956037,
     2730485921, 2820302411, 3259730800, 3345764771, 3516065817, 3600352804, 4094571909, 275423344,
     430227734, 506948616, 659060556, 883997877, 958139571, 1322822218, 1537002063, 1747873779,
     1955562222, 2024104815, 2227730452, 2361852424, 2428436474, 2756734187, 3204031479, 3329325298]"

definition sha_init :: "u32 list" where
  "sha_init =
    [1779033703, 3144134277, 1013904242, 2773480762, 1359893119, 2600822924, 528734635, 1541459225]"

definition word_of_bytes :: "bytes \<Rightarrow> u32" where
  "word_of_bytes s = foldl (\<lambda>w c. push_bit 8 w OR of_nat (byte c)) 0 s"

definition bytes_of_word :: "u32 \<Rightarrow> bytes" where
  "bytes_of_word w =
     map (\<lambda>i. char_of (unat (drop_bit i w AND 255))) [24, 16, 8, 0]"

fun chunks :: "nat \<Rightarrow> nat \<Rightarrow> 'a list \<Rightarrow> 'a list list" where
  "chunks 0 w xs = []"
| "chunks (Suc n) w xs = take w xs # chunks n w (drop w xs)"

definition sha_pad :: "bytes \<Rightarrow> bytes" where
  "sha_pad s =
     (let n = length s; z = (119 - n mod 64) mod 64
      in s @ [char_of (128::nat)] @ replicate z (char_of (0::nat)) @
         map (\<lambda>i. char_of (8 * n div 256 ^ i mod 256)) [7, 6, 5, 4, 3, 2, 1, 0])"

text \<open>The message schedule, newest word first.\<close>

fun schedule :: "nat \<Rightarrow> u32 list \<Rightarrow> u32 list" where
  "schedule 0 ws = ws"
| "schedule (Suc n) ws =
     schedule n ((small_sigma1 (ws ! 1) + ws ! 6 + small_sigma0 (ws ! 14) + ws ! 15) # ws)"

fun sha_round :: "u32 list \<Rightarrow> u32 \<times> u32 \<Rightarrow> u32 list" where
  "sha_round [a, b, c, d, e, f, g, h] (k, w) =
     (let t1 = h + big_sigma1 e + sha_ch e f g + k + w;
          t2 = big_sigma0 a + sha_maj a b c
      in [t1 + t2, a, b, c, d + t1, e, f, g])"
| "sha_round st kw = st"

definition sha_block :: "u32 list \<Rightarrow> bytes \<Rightarrow> u32 list" where
  "sha_block h blk =
     (let ws = rev (schedule 48 (rev (map word_of_bytes (chunks 16 4 blk))))
      in map2 (+) h (foldl sha_round h (zip sha_k ws)))"

definition sha256 :: "bytes \<Rightarrow> bytes" where
  "sha256 s =
     (let p = sha_pad s
      in concat (map bytes_of_word (foldl sha_block sha_init (chunks (length p div 64) 64 p))))"

section \<open>Hexadecimal, HMAC, base64\<close>

definition hex_digit :: "nat \<Rightarrow> char" where
  "hex_digit d = (if d < 10 then char_of (48 + d) else char_of (87 + d))"

definition hexdigest :: "bytes \<Rightarrow> string" where
  "hexdigest s = concat (map (\<lambda>c. [hex_digit (byte c div 16), hex_digit (byte c mod 16)]) s)"

definition sha256_hex :: "bytes \<Rightarrow> string" where
  "sha256_hex s = hexdigest (sha256 s)"

definition xor_byte :: "nat \<Rightarrow> char \<Rightarrow> char" where
  "xor_byte k c = char_of (k XOR byte c)"

definition hmac_sha256 :: "bytes \<Rightarrow> bytes \<Rightarrow> bytes" where
  "hmac_sha256 key msg =
     (let k0 = (if 64 < length key then sha256 key else key);
          k = k0 @ replicate (64 - length k0) (char_of (0::nat))
      in sha256 (map (xor_byte 92) k @ sha256 (map (xor_byte 54) k @ msg)))"

definition b64_char :: "nat \<Rightarrow> char" where
  "b64_char n =
     (if n < 26 then char_of (65 + n) else if n < 52 then char_of (71 + n)
      else if n < 62 then char_of (n - 4) else if n = 62 then CHR ''+'' else CHR ''/'')"

fun b64encode :: "bytes \<Rightarrow> string" where
  "b64encode [] = []"
| "b64encode [a] =
     [b64_char (byte a div 4), b64_char (byte a mod 4 * 16), CHR ''='', CHR ''='']"
| "b64encode [a, b] =
     [b64_char (byte a div 4), b64_char (byte a mod 4 * 16 + byte b div 16),
      b64_char (byte b mod 16 * 4), CHR ''='']"
| "b64encode (a # b # c # r) =
     b64_char (byte a div 4) # b64_char (byte a mod 4 * 16 + byte b div 16)
     # b64_char (byte b mod 16 * 4 + byte c div 64) # b64_char (byte c mod 64) # b64encode r"

subsection \<open>Lengths and alphabets\<close>

lemma length_sha_round [simp]: "length (sha_round st kw) = length st"
  by (induction st kw rule: sha_round.induct) (auto simp: Let_def)

lemma length_sha_rounds [simp]: "length (foldl sha_round st kws) = length st"
  by (induction kws arbitrary: st) auto

lemma length_sha_blocks [simp]: "length (foldl sha_block st bs) = length st"
  by (induction bs arbitrary: st) (auto simp: sha_block_def Let_def)

lemma length_sha256 [simp]: "length (sha256 s) = 32"
  by (simp add: sha256_def Let_def length_concat comp_def bytes_of_word_def sum_list_triv sha_init_def)

lemma length_sha256_hex [simp]: "length (sha256_hex s) = 64"
  by (simp add: sha256_hex_def hexdigest_def length_concat comp_def sum_list_triv)

lemma hex_digit_ascii: "d < 16 \<Longrightarrow> byte (hex_digit d) < 128 \<and> \<not> cont_byte (hex_digit d)"
  by (simp add: hex_digit_def cont_byte_def)

lemma sha256_hex_ne [simp]: "sha256_hex s \<noteq> []"
  by (metis length_sha256_hex list.size(3) zero_neq_numeral)

definition is_hex_char :: "char \<Rightarrow> bool" where
  "is_hex_char c \<longleftrightarrow> 48 \<le> byte c \<and> byte c \<le> 57 \<or> 97 \<le> byte c \<and> byte c \<le> 102"

lemma hex_digit_hex: "d < 16 \<Longrightarrow> is_hex_char (hex_digit d)"
  by (simp add: hex_digit_def is_hex_char_def)

lemma byte_less_256 [simp]: "byte c < 256"
  by (simp add: byte_def)

lemma hexdigest_hex: "c \<in> set (hexdigest s) \<Longrightarrow> is_hex_char c"
proof (induction s)
  case (Cons d s)
  have "byte d < 256" by simp
  then have "byte d div 16 < 16" "byte d mod 16 < 16"
    by (simp_all add: less_mult_imp_div_less)
  then show ?case using Cons by (auto simp: hexdigest_def hex_digit_hex)
qed (simp add: hexdigest_def)

lemma sha256_hex_hex: "c \<in> set (sha256_hex s) \<Longrightarrow> is_hex_char c"
  by (simp add: sha256_hex_def hexdigest_hex)

lemma utf8_ok_ascii: "\<forall>c\<in>set s. byte c < 128 \<Longrightarrow> utf8_ok sp s"
  by (induction s) (auto simp: Let_def)

end
