(* ===== verification/Events.thy ===== *)
theory Events
  imports PyJsonLoads PyHash
begin

text \<open>
  \<open>domain/events.py\<close> and \<open>domain/canonicalization.py\<close>: the enumerations, the immutable value
  objects, the JSON payload checks, and the validation of the event envelope.

  The models are pydantic classes. What the classes declare (required fields, defaults, minimum
  lengths, bounds, \<open>extra="forbid"\<close>, the validators) is written out here; what pydantic itself
  decides, how a value of another type is coerced to a field's type and how a datetime is dumped,
  is the record \<open>pydantic\<close>, an argument of the definitions that need it. \<open>pydantic_laws\<close> states
  what the proofs rely on.
\<close>

section \<open>Canonicalization labels\<close>

definition CANONICALIZATION_VERSION :: string where
  "CANONICALIZATION_VERSION = ''actionlineage.dev/json-deterministic-v0''"

definition PLANNED_CANONICALIZATION_VERSION :: string where
  "PLANNED_CANONICALIZATION_VERSION = ''actionlineage.dev/json-canonicalization-v1''"

definition SUPPORTED_PERSISTED_EVENT_CANONICALIZATIONS :: "string list" where
  "SUPPORTED_PERSISTED_EVENT_CANONICALIZATIONS = [CANONICALIZATION_VERSION]"

definition is_supported_persisted_event_canonicalization :: "string \<Rightarrow> bool" where
  "is_supported_persisted_event_canonicalization label \<longleftrightarrow>
     label \<in> set SUPPORTED_PERSISTED_EVENT_CANONICALIZATIONS"

definition require_supported_persisted_event_canonicalization :: "string \<Rightarrow> unit res" where
  "require_supported_persisted_event_canonicalization label =
     (if is_supported_persisted_event_canonicalization label then Inr ()
      else raise CanonicalizationError
        (''unsupported persisted event canonicalization: '' @ label
         @ ''; supported persisted event hash labels: ''
         @ join_with '', '' (sort SUPPORTED_PERSISTED_EVENT_CANONICALIZATIONS) @ ''; ''
         @ PLANNED_CANONICALIZATION_VERSION @ '' requires a migration ADR before use''))"

section \<open>Enumerations\<close>

datatype EventType =
    AGENT_INTENT_RECORDED | AGENT_RUN_STARTED | AGENT_RUN_COMPLETED | AGENT_RUN_FAILED
  | AGENT_TOOL_DISCOVERED | AGENT_TOOL_SCHEMA_CHANGED | AGENT_TOOL_CALL_REQUESTED
  | AGENT_TOOL_CALL_STARTED | AGENT_TOOL_CALL_COMPLETED | AGENT_TOOL_CALL_FAILED
  | AGENT_TOOL_CALL_DENIED | POLICY_EVALUATION_STARTED | POLICY_DECISION | APPROVAL_REQUESTED
  | APPROVAL_RESOLVED | TOOL_EXECUTION_REQUESTED | TOOL_EXECUTION_AUTHORIZED
  | TOOL_EXECUTION_DISPATCHED | TOOL_EXECUTION_ACKNOWLEDGED | TOOL_EXECUTION_NOT_DISPATCHED
  | SIDE_EFFECT_OBSERVED | SIDE_EFFECT_VERIFIED | SIDE_EFFECT_UNVERIFIED | SIDE_EFFECT_TIMED_OUT
  | SIDE_EFFECT_CONFLICT_DETECTED | RESOURCE_OBSERVED | ACTION_NORMALIZED | LINEAGE_ALERT_CREATED
  | RECORDER_DEGRADED | PROJECTION_REBUILT | INTEGRITY_VERIFICATION_FAILED

fun EventType_value :: "EventType \<Rightarrow> string" where
  "EventType_value AGENT_INTENT_RECORDED = ''agent.intent.recorded''"
| "EventType_value AGENT_RUN_STARTED = ''agent.run.started''"
| "EventType_value AGENT_RUN_COMPLETED = ''agent.run.completed''"
| "EventType_value AGENT_RUN_FAILED = ''agent.run.failed''"
| "EventType_value AGENT_TOOL_DISCOVERED = ''agent.tool.discovered''"
| "EventType_value AGENT_TOOL_SCHEMA_CHANGED = ''agent.tool.schema_changed''"
| "EventType_value AGENT_TOOL_CALL_REQUESTED = ''agent.tool.call.requested''"
| "EventType_value AGENT_TOOL_CALL_STARTED = ''agent.tool.call.started''"
| "EventType_value AGENT_TOOL_CALL_COMPLETED = ''agent.tool.call.completed''"
| "EventType_value AGENT_TOOL_CALL_FAILED = ''agent.tool.call.failed''"
| "EventType_value AGENT_TOOL_CALL_DENIED = ''agent.tool.call.denied''"
| "EventType_value POLICY_EVALUATION_STARTED = ''policy.evaluation.started''"
| "EventType_value POLICY_DECISION = ''policy.decision''"
| "EventType_value APPROVAL_REQUESTED = ''approval.requested''"
| "EventType_value APPROVAL_RESOLVED = ''approval.resolved''"
| "EventType_value TOOL_EXECUTION_REQUESTED = ''tool.execution.requested''"
| "EventType_value TOOL_EXECUTION_AUTHORIZED = ''tool.execution.authorized''"
| "EventType_value TOOL_EXECUTION_DISPATCHED = ''tool.execution.dispatched''"
| "EventType_value TOOL_EXECUTION_ACKNOWLEDGED = ''tool.execution.acknowledged''"
| "EventType_value TOOL_EXECUTION_NOT_DISPATCHED = ''tool.execution.not_dispatched''"
| "EventType_value SIDE_EFFECT_OBSERVED = ''side_effect.observed''"
| "EventType_value SIDE_EFFECT_VERIFIED = ''side_effect.verified''"
| "EventType_value SIDE_EFFECT_UNVERIFIED = ''side_effect.unverified''"
| "EventType_value SIDE_EFFECT_TIMED_OUT = ''side_effect.timed_out''"
| "EventType_value SIDE_EFFECT_CONFLICT_DETECTED = ''side_effect.conflict_detected''"
| "EventType_value RESOURCE_OBSERVED = ''resource.observed''"
| "EventType_value ACTION_NORMALIZED = ''action.normalized''"
| "EventType_value LINEAGE_ALERT_CREATED = ''lineage.alert.created''"
| "EventType_value RECORDER_DEGRADED = ''recorder.degraded''"
| "EventType_value PROJECTION_REBUILT = ''projection.rebuilt''"
| "EventType_value INTEGRITY_VERIFICATION_FAILED = ''integrity.verification.failed''"

text \<open>The type \<open>EventType | str\<close>, read by \<open>event_type_value\<close>.\<close>

datatype event_type_arg = Known EventType | Other string

fun event_type_value :: "event_type_arg \<Rightarrow> string" where
  "event_type_value (Known t) = EventType_value t"
| "event_type_value (Other s) = s"

datatype PrincipalType =
  PT_HUMAN | PT_SERVICE | PT_AGENT | PT_MODEL | PT_WORKLOAD | PT_CREDENTIAL | PT_UNKNOWN

fun PrincipalType_value :: "PrincipalType \<Rightarrow> string" where
  "PrincipalType_value PT_HUMAN = ''human''"
| "PrincipalType_value PT_SERVICE = ''service''"
| "PrincipalType_value PT_AGENT = ''agent''"
| "PrincipalType_value PT_MODEL = ''model''"
| "PrincipalType_value PT_WORKLOAD = ''workload''"
| "PrincipalType_value PT_CREDENTIAL = ''credential''"
| "PrincipalType_value PT_UNKNOWN = ''unknown''"

datatype ResourceType =
  RT_FILE | RT_URL | RT_NETWORK_DESTINATION | RT_PROCESS | RT_HOST | RT_IDENTITY
| RT_CLOUD_RESOURCE | RT_DATABASE_RECORD | RT_MESSAGE | RT_SECRET | RT_UNKNOWN

fun ResourceType_value :: "ResourceType \<Rightarrow> string" where
  "ResourceType_value RT_FILE = ''file''"
| "ResourceType_value RT_URL = ''url''"
| "ResourceType_value RT_NETWORK_DESTINATION = ''network_destination''"
| "ResourceType_value RT_PROCESS = ''process''"
| "ResourceType_value RT_HOST = ''host''"
| "ResourceType_value RT_IDENTITY = ''identity''"
| "ResourceType_value RT_CLOUD_RESOURCE = ''cloud_resource''"
| "ResourceType_value RT_DATABASE_RECORD = ''database_record''"
| "ResourceType_value RT_MESSAGE = ''message''"
| "ResourceType_value RT_SECRET = ''secret''"
| "ResourceType_value RT_UNKNOWN = ''unknown''"

datatype Sensitivity =
  SE_PUBLIC | SE_INTERNAL | SE_CONFIDENTIAL | SE_RESTRICTED | SE_SECRET | SE_UNKNOWN

fun Sensitivity_value :: "Sensitivity \<Rightarrow> string" where
  "Sensitivity_value SE_PUBLIC = ''public''"
| "Sensitivity_value SE_INTERNAL = ''internal''"
| "Sensitivity_value SE_CONFIDENTIAL = ''confidential''"
| "Sensitivity_value SE_RESTRICTED = ''restricted''"
| "Sensitivity_value SE_SECRET = ''secret''"
| "Sensitivity_value SE_UNKNOWN = ''unknown''"

datatype TrustLevel = TR_TRUSTED | TR_UNTRUSTED | TR_LOCAL | TR_EXTERNAL | TR_UNKNOWN

fun TrustLevel_value :: "TrustLevel \<Rightarrow> string" where
  "TrustLevel_value TR_TRUSTED = ''trusted''"
| "TrustLevel_value TR_UNTRUSTED = ''untrusted''"
| "TrustLevel_value TR_LOCAL = ''local''"
| "TrustLevel_value TR_EXTERNAL = ''external''"
| "TrustLevel_value TR_UNKNOWN = ''unknown''"

datatype VerificationStatus =
  VS_UNKNOWN | VS_UNVERIFIED | VS_TIMED_OUT | VS_CONFLICTING | VS_OBSERVED | VS_VERIFIED

fun VerificationStatus_value :: "VerificationStatus \<Rightarrow> string" where
  "VerificationStatus_value VS_UNKNOWN = ''unknown''"
| "VerificationStatus_value VS_UNVERIFIED = ''unverified''"
| "VerificationStatus_value VS_TIMED_OUT = ''timed_out''"
| "VerificationStatus_value VS_CONFLICTING = ''conflicting''"
| "VerificationStatus_value VS_OBSERVED = ''observed''"
| "VerificationStatus_value VS_VERIFIED = ''verified''"

datatype EvidenceRelationship = CORROBORATES | CONTRADICTS | OBSERVES | LIMITS

fun EvidenceRelationship_value :: "EvidenceRelationship \<Rightarrow> string" where
  "EvidenceRelationship_value CORROBORATES = ''corroborates''"
| "EvidenceRelationship_value CONTRADICTS = ''contradicts''"
| "EvidenceRelationship_value OBSERVES = ''observes''"
| "EvidenceRelationship_value LIMITS = ''limits''"

datatype CorroborationType =
  INDEPENDENT_OBSERVER | POST_ACTION_READBACK | FIXTURE_ORACLE | SELF_REPORTED | CT_UNKNOWN

fun CorroborationType_value :: "CorroborationType \<Rightarrow> string" where
  "CorroborationType_value INDEPENDENT_OBSERVER = ''independent_observer''"
| "CorroborationType_value POST_ACTION_READBACK = ''post_action_readback''"
| "CorroborationType_value FIXTURE_ORACLE = ''fixture_oracle''"
| "CorroborationType_value SELF_REPORTED = ''self_reported''"
| "CorroborationType_value CT_UNKNOWN = ''unknown''"

text \<open>\<open>StrEnum(value)\<close>: the member with that value.\<close>

definition enum_of :: "('a \<Rightarrow> string) \<Rightarrow> 'a list \<Rightarrow> string \<Rightarrow> 'a option" where
  "enum_of val members s = List.find (\<lambda>m. val m = s) members"

definition all_PrincipalType :: "PrincipalType list" where
  "all_PrincipalType =
     [PT_HUMAN, PT_SERVICE, PT_AGENT, PT_MODEL, PT_WORKLOAD, PT_CREDENTIAL, PT_UNKNOWN]"

definition all_Sensitivity :: "Sensitivity list" where
  "all_Sensitivity =
     [SE_PUBLIC, SE_INTERNAL, SE_CONFIDENTIAL, SE_RESTRICTED, SE_SECRET, SE_UNKNOWN]"

definition all_TrustLevel :: "TrustLevel list" where
  "all_TrustLevel = [TR_TRUSTED, TR_UNTRUSTED, TR_LOCAL, TR_EXTERNAL, TR_UNKNOWN]"

lemma enum_of_PrincipalType [simp]:
  "enum_of PrincipalType_value all_PrincipalType (PrincipalType_value p) = Some p"
  by (cases p) (simp_all add: enum_of_def all_PrincipalType_def)

lemma enum_of_Sensitivity [simp]:
  "enum_of Sensitivity_value all_Sensitivity (Sensitivity_value p) = Some p"
  by (cases p) (simp_all add: enum_of_def all_Sensitivity_def)

lemma enum_of_TrustLevel [simp]:
  "enum_of TrustLevel_value all_TrustLevel (TrustLevel_value p) = Some p"
  by (cases p) (simp_all add: enum_of_def all_TrustLevel_def)

section \<open>JSON payload values\<close>

definition DEFAULT_JSON_MAX_DEPTH :: nat where "DEFAULT_JSON_MAX_DEPTH = 64"
definition DEFAULT_JSON_MAX_OBJECT_MEMBERS :: nat where "DEFAULT_JSON_MAX_OBJECT_MEMBERS = 4096"
definition DEFAULT_JSON_MAX_ARRAY_LENGTH :: nat where "DEFAULT_JSON_MAX_ARRAY_LENGTH = 4096"

record json_limits =
  max_depth :: nat
  max_object_members :: nat
  max_array_length :: nat

definition default_limits :: json_limits where
  "default_limits =
     \<lparr>max_depth = DEFAULT_JSON_MAX_DEPTH, max_object_members = DEFAULT_JSON_MAX_OBJECT_MEMBERS,
      max_array_length = DEFAULT_JSON_MAX_ARRAY_LENGTH\<rparr>"

text \<open>
  \<open>validate_json_value\<close>: the depth is checked before anything else, then a non-finite float,
  the scalars, sequences (never \<open>str\<close>, \<open>bytes\<close>), mappings.
\<close>

fun validate_json_value :: "json_limits \<Rightarrow> nat \<Rightarrow> pyv \<Rightarrow> unit res"
  and validate_json_items :: "json_limits \<Rightarrow> nat \<Rightarrow> pyv list \<Rightarrow> unit res"
  and validate_json_members :: "json_limits \<Rightarrow> nat \<Rightarrow> pydict \<Rightarrow> unit res" where
  "validate_json_value l n v =
     (if max_depth l < n then raise ValueError (''payload JSON depth exceeds '' @ nat_repr (max_depth l))
      else
        (case v of
           VFloat f \<Rightarrow>
             if is_finite f then Inr ()
             else raise ValueError ''payload contains non-finite JSON number''
         | VNone \<Rightarrow> Inr ()
         | VStr s \<Rightarrow> Inr ()
         | VInt i \<Rightarrow> Inr ()
         | VBool b \<Rightarrow> Inr ()
         | VList xs \<Rightarrow>
             if max_array_length l < length xs
             then raise ValueError (''payload JSON array exceeds '' @ nat_repr (max_array_length l) @ '' items'')
             else validate_json_items l n xs
         | VTuple xs \<Rightarrow>
             if max_array_length l < length xs
             then raise ValueError (''payload JSON array exceeds '' @ nat_repr (max_array_length l) @ '' items'')
             else validate_json_items l n xs
         | VFrozenList xs \<Rightarrow>
             if max_array_length l < length xs
             then raise ValueError (''payload JSON array exceeds '' @ nat_repr (max_array_length l) @ '' items'')
             else validate_json_items l n xs
         | VDict d \<Rightarrow>
             if max_object_members l < length d
             then raise ValueError (''payload JSON object exceeds '' @ nat_repr (max_object_members l) @ '' members'')
             else validate_json_members l n d
         | VFrozenDict d \<Rightarrow>
             if max_object_members l < length d
             then raise ValueError (''payload JSON object exceeds '' @ nat_repr (max_object_members l) @ '' members'')
             else validate_json_members l n d
         | _ \<Rightarrow> raise ValueError (''payload contains unsupported JSON value type: '' @ type_name v)))"
| "validate_json_items l n [] = Inr ()"
| "validate_json_items l n (x # xs) =
     bnd (validate_json_value l (Suc n) x) (\<lambda>_. validate_json_items l n xs)"
| "validate_json_members l n [] = Inr ()"
| "validate_json_members l n ((k, v) # d) =
     (case k of
        KOther t \<Rightarrow> raise ValueError ''payload object keys must be strings''
      | KStr s \<Rightarrow> bnd (validate_json_value l (Suc n) v) (\<lambda>_. validate_json_members l n d))"

declare validate_json_value.simps [simp del]

text \<open>
  \<open>freeze_json_value\<close>. The constructors \<open>FrozenJsonDict\<close> and \<open>FrozenJsonList\<close> freeze their
  items once more, which changes nothing: freezing a frozen value returns it
  (\<open>freeze_frozen\<close>).
\<close>

fun freeze_json_value :: "pyv \<Rightarrow> pyv res"
  and freeze_items :: "pyv list \<Rightarrow> pyv list res"
  and freeze_members :: "pydict \<Rightarrow> pydict res" where
  "freeze_json_value VNone = Inr VNone"
| "freeze_json_value (VStr s) = Inr (VStr s)"
| "freeze_json_value (VInt i) = Inr (VInt i)"
| "freeze_json_value (VFloat f) = Inr (VFloat f)"
| "freeze_json_value (VBool b) = Inr (VBool b)"
| "freeze_json_value (VDict d) = bnd (freeze_members d) (\<lambda>d. Inr (VFrozenDict d))"
| "freeze_json_value (VFrozenDict d) = bnd (freeze_members d) (\<lambda>d. Inr (VFrozenDict d))"
| "freeze_json_value (VList xs) = bnd (freeze_items xs) (\<lambda>xs. Inr (VFrozenList xs))"
| "freeze_json_value (VTuple xs) = bnd (freeze_items xs) (\<lambda>xs. Inr (VFrozenList xs))"
| "freeze_json_value (VFrozenList xs) = bnd (freeze_items xs) (\<lambda>xs. Inr (VFrozenList xs))"
| "freeze_json_value v =
     raise ValueError (''payload contains unsupported JSON value type: '' @ type_name v)"
| "freeze_items [] = Inr []"
| "freeze_items (x # xs) =
     bnd (freeze_json_value x) (\<lambda>y. bnd (freeze_items xs) (\<lambda>ys. Inr (y # ys)))"
| "freeze_members [] = Inr []"
| "freeze_members ((k, v) # d) =
     bnd (freeze_json_value v) (\<lambda>w. bnd (freeze_members d) (\<lambda>e. Inr ((k, w) # e)))"

fun thaw_json_value :: "pyv \<Rightarrow> pyv" where
  "thaw_json_value (VDict d) = VDict (map (\<lambda>(k, v). (k, thaw_json_value v)) d)"
| "thaw_json_value (VFrozenDict d) = VDict (map (\<lambda>(k, v). (k, thaw_json_value v)) d)"
| "thaw_json_value (VList xs) = VList (map thaw_json_value xs)"
| "thaw_json_value (VTuple xs) = VList (map thaw_json_value xs)"
| "thaw_json_value (VFrozenList xs) = VList (map thaw_json_value xs)"
| "thaw_json_value v = v"

section \<open>Frozen values\<close>

text \<open>
  What a payload holds once the constructor has frozen it: immutable containers with string keys
  only. \<open>py_ok\<close> holds of every value Python can build: a dict has no key twice, a double is in
  the canonical form of its model, a datetime is in range.
\<close>

fun frozen_json :: "pyv \<Rightarrow> bool" where
  "frozen_json (VFloat f) = float_ok f"
| "frozen_json (VFrozenList xs) = list_all frozen_json xs"
| "frozen_json (VFrozenDict d) =
     (list_all (\<lambda>p. case p of (KStr k, v) \<Rightarrow> frozen_json v | _ \<Rightarrow> False) d \<and> distinct (keys d))"
| "frozen_json VNone = True"
| "frozen_json (VBool b) = True"
| "frozen_json (VInt i) = True"
| "frozen_json (VStr s) = True"
| "frozen_json _ = False"

definition str_keys :: "pydict \<Rightarrow> pykey list" where
  "str_keys d = filter (\<lambda>k. case k of KStr s \<Rightarrow> True | KOther t \<Rightarrow> False) (keys d)"

fun py_ok :: "pyv \<Rightarrow> bool" where
  "py_ok (VFloat f) = float_ok f"
| "py_ok (VDatetime t) = dt_ok t"
| "py_ok (VList xs) = list_all py_ok xs"
| "py_ok (VTuple xs) = list_all py_ok xs"
| "py_ok (VFrozenList xs) = list_all py_ok xs"
| "py_ok (VDict d) = (list_all (\<lambda>(k, v). py_ok v) d \<and> distinct (str_keys d))"
| "py_ok (VFrozenDict d) = (list_all (\<lambda>(k, v). py_ok v) d \<and> distinct (str_keys d))"
| "py_ok _ = True"

text \<open>Objects whose keys are strings, member by member.\<close>

lemma str_members_iff:
  "list_all (\<lambda>p. case p of (KStr k, v) \<Rightarrow> P v | _ \<Rightarrow> False) d
     \<longleftrightarrow> (\<forall>p\<in>set d. P (snd p) \<and> (\<exists>s. fst p = KStr s))"
proof (induction d)
  case (Cons p d)
  then show ?case by (cases p; cases "fst p") auto
qed simp

lemma all_members_iff: "list_all (\<lambda>(k, v). P v) d \<longleftrightarrow> (\<forall>p\<in>set d. P (snd p))"
  by (induction d) auto

lemma str_keys_all: "\<forall>p\<in>set d. \<exists>s. fst p = KStr s \<Longrightarrow> str_keys d = keys d"
  by (induction d) (auto simp: str_keys_def)

lemma str_keys_distinct: "distinct (keys d) \<Longrightarrow> distinct (str_keys d)"
  by (simp add: str_keys_def)

lemma members_IH:
  assumes "\<And>p k v s. p \<in> set d \<Longrightarrow> (k, v) = p \<Longrightarrow> k = KStr s \<Longrightarrow> P v \<Longrightarrow> Q v"
    and "\<forall>p\<in>set d. P (snd p) \<and> (\<exists>s. fst p = KStr s)"
  shows "\<forall>p\<in>set d. Q (snd p)"
  using assms by (metis prod.collapse)

lemma is_json_py_ok: "is_json v \<Longrightarrow> py_ok v"
proof (induction v rule: is_json.induct)
  case (3 d)
  have "\<forall>p\<in>set d. py_ok (snd p)"
    using 3 by (intro members_IH [of d is_json]) (auto simp: str_members_iff)
  then show ?case using 3(2) by (simp add: all_members_iff str_keys_distinct)
qed (auto simp: list_all_iff)

lemma frozen_json_py_ok: "frozen_json v \<Longrightarrow> py_ok v"
proof (induction v rule: frozen_json.induct)
  case (3 d)
  have "\<forall>p\<in>set d. py_ok (snd p)"
    using 3 by (intro members_IH [of d frozen_json]) (auto simp: str_members_iff)
  then show ?case using 3(2) by (simp add: all_members_iff str_keys_distinct)
qed (auto simp: list_all_iff)

lemma keys_thaw [simp]: "map (fst \<circ> (\<lambda>(k, v). (k, f v))) d = map fst d"
  by (induction d) auto

lemma thaw_json: "frozen_json w \<Longrightarrow> is_json (thaw_json_value w)"
proof (induction w rule: frozen_json.induct)
  case (3 d)
  have "\<forall>p\<in>set d. is_json (thaw_json_value (snd p))"
    using 3 by (intro members_IH [of d frozen_json]) (auto simp: str_members_iff)
  then show ?case using 3(2) by (auto simp: str_members_iff)
qed (auto simp: list_all_iff)

lemma freeze_items_id:
  "\<forall>x\<in>set xs. freeze_json_value (f x) = Inr x \<Longrightarrow> freeze_items (map f xs) = Inr xs"
  by (induction xs) auto

lemma freeze_members_id:
  "\<forall>p\<in>set d. freeze_json_value (f (snd p)) = Inr (snd p) \<Longrightarrow>
   freeze_members (map (\<lambda>(k, v). (k, f v)) d) = Inr d"
  by (induction d) auto

lemma freeze_thaw: "frozen_json w \<Longrightarrow> freeze_json_value (thaw_json_value w) = Inr w"
proof (induction w rule: frozen_json.induct)
  case (2 xs)
  then show ?case by (simp add: freeze_items_id list_all_iff)
next
  case (3 d)
  have "\<forall>p\<in>set d. freeze_json_value (thaw_json_value (snd p)) = Inr (snd p)"
    using 3 by (intro members_IH [of d frozen_json]) (auto simp: str_members_iff)
  then show ?case by (simp add: freeze_members_id)
qed auto

text \<open>Freezing a frozen value returns it: the second pass of the constructors is the identity.\<close>

lemma freeze_frozen: "frozen_json w \<Longrightarrow> freeze_json_value w = Inr w"
proof (induction w rule: frozen_json.induct)
  case (2 xs)
  then show ?case using freeze_items_id [of xs "\<lambda>x. x"] by (simp add: list_all_iff)
next
  case (3 d)
  have "\<forall>p\<in>set d. freeze_json_value (snd p) = Inr (snd p)"
    using 3 by (intro members_IH [of d frozen_json]) (auto simp: str_members_iff)
  then show ?case using freeze_members_id [of d "\<lambda>x. x"] by simp
qed auto

text \<open>A value that validates freezes, to a frozen value that thaws to the same plain value.\<close>

lemma thaw_frozen_eq:
  "freeze_json_value v = Inr w \<Longrightarrow> thaw_json_value w = thaw_json_value v"
  "freeze_items xs = Inr ys \<Longrightarrow> map thaw_json_value ys = map thaw_json_value xs"
  "freeze_members d = Inr e \<Longrightarrow>
     map (\<lambda>(k, v). (k, thaw_json_value v)) e = map (\<lambda>(k, v). (k, thaw_json_value v)) d"
  by (induction v and xs and d arbitrary: w and ys and e
      rule: freeze_json_value_freeze_items_freeze_members.induct)
     (auto simp: bnd_Inr_iff)

lemma freeze_keys: "freeze_members d = Inr e \<Longrightarrow> keys e = keys d"
  by (induction d arbitrary: e) (auto simp: bnd_Inr_iff)

lemma validate_items_iff:
  "validate_json_items l n xs = Inr u \<longleftrightarrow> (\<forall>x\<in>set xs. validate_json_value l (Suc n) x = Inr ())"
  by (induction xs) (auto simp: bnd_Inr_iff)

lemma validate_members_iff:
  "validate_json_members l n d = Inr u \<longleftrightarrow>
     (\<forall>p\<in>set d. (\<exists>s. fst p = KStr s) \<and> validate_json_value l (Suc n) (snd p) = Inr ())"
proof (induction d)
  case (Cons p d)
  then show ?case by (cases p; cases "fst p") (auto simp: bnd_Inr_iff)
qed simp

text \<open>When a value of each type is accepted.\<close>

lemma validate_simps [simp]:
  "validate_json_value l n VNone = Inr u \<longleftrightarrow> n \<le> max_depth l"
  "validate_json_value l n (VBool b) = Inr u \<longleftrightarrow> n \<le> max_depth l"
  "validate_json_value l n (VInt i) = Inr u \<longleftrightarrow> n \<le> max_depth l"
  "validate_json_value l n (VStr s) = Inr u \<longleftrightarrow> n \<le> max_depth l"
  "validate_json_value l n (VFloat f) = Inr u \<longleftrightarrow> n \<le> max_depth l \<and> is_finite f"
  "validate_json_value l n (VBytes bs) = Inr u \<longleftrightarrow> False"
  "validate_json_value l n (VDatetime t) = Inr u \<longleftrightarrow> False"
  "validate_json_value l n (VOther x) = Inr u \<longleftrightarrow> False"
  by (auto simp: validate_json_value.simps)

lemma validate_containers:
  "validate_json_value l n (VList xs) = Inr u \<longleftrightarrow>
     n \<le> max_depth l \<and> length xs \<le> max_array_length l
     \<and> (\<forall>x\<in>set xs. validate_json_value l (Suc n) x = Inr ())"
  "validate_json_value l n (VTuple xs) = Inr u \<longleftrightarrow>
     n \<le> max_depth l \<and> length xs \<le> max_array_length l
     \<and> (\<forall>x\<in>set xs. validate_json_value l (Suc n) x = Inr ())"
  "validate_json_value l n (VFrozenList xs) = Inr u \<longleftrightarrow>
     n \<le> max_depth l \<and> length xs \<le> max_array_length l
     \<and> (\<forall>x\<in>set xs. validate_json_value l (Suc n) x = Inr ())"
  "validate_json_value l n (VDict d) = Inr u \<longleftrightarrow>
     n \<le> max_depth l \<and> length d \<le> max_object_members l
     \<and> (\<forall>p\<in>set d. (\<exists>s. fst p = KStr s) \<and> validate_json_value l (Suc n) (snd p) = Inr ())"
  "validate_json_value l n (VFrozenDict d) = Inr u \<longleftrightarrow>
     n \<le> max_depth l \<and> length d \<le> max_object_members l
     \<and> (\<forall>p\<in>set d. (\<exists>s. fst p = KStr s) \<and> validate_json_value l (Suc n) (snd p) = Inr ())"
  by (simp_all add: validate_json_value.simps [of l n] validate_items_iff validate_members_iff)

definition freezes_ok :: "json_limits \<Rightarrow> nat \<Rightarrow> pyv \<Rightarrow> bool" where
  "freezes_ok l n v \<longleftrightarrow>
     (\<exists>w. freeze_json_value v = Inr w \<and> frozen_json w \<and> validate_json_value l n w = Inr ())"

lemma freeze_items_ok:
  "\<forall>x\<in>set xs. freezes_ok l n x \<Longrightarrow>
   \<exists>ys. freeze_items xs = Inr ys \<and> length ys = length xs \<and> list_all frozen_json ys
     \<and> (\<forall>y\<in>set ys. validate_json_value l n y = Inr ())"
  by (induction xs) (auto simp: freezes_ok_def)

lemma freeze_members_ok:
  "\<forall>p\<in>set d. freezes_ok l n (snd p) \<and> (\<exists>s. fst p = KStr s) \<Longrightarrow>
   \<exists>e. freeze_members d = Inr e \<and>
     (\<forall>p\<in>set e. frozen_json (snd p) \<and> (\<exists>s. fst p = KStr s)
        \<and> validate_json_value l n (snd p) = Inr ())"
  by (induction d) (auto simp: freezes_ok_def)

lemma freezes_ok_list:
  assumes "\<forall>x\<in>set xs. freezes_ok l (Suc n) x"
    and "n \<le> max_depth l" "length xs \<le> max_array_length l"
  shows "freezes_ok l n (VList xs)" "freezes_ok l n (VTuple xs)" "freezes_ok l n (VFrozenList xs)"
  using freeze_items_ok [OF assms(1)] assms(2,3)
  by (auto simp: freezes_ok_def validate_containers)

lemma freezes_ok_dict:
  assumes "\<forall>p\<in>set d. freezes_ok l (Suc n) (snd p) \<and> (\<exists>s. fst p = KStr s)"
    and "n \<le> max_depth l" "length d \<le> max_object_members l" "distinct (str_keys d)"
  shows "freezes_ok l n (VDict d)" "freezes_ok l n (VFrozenDict d)"
proof -
  obtain e where e: "freeze_members d = Inr e"
    "\<forall>p\<in>set e. frozen_json (snd p) \<and> (\<exists>s. fst p = KStr s)
        \<and> validate_json_value l (Suc n) (snd p) = Inr ()"
    using freeze_members_ok [OF assms(1)] by blast
  have "keys e = keys d" by (rule freeze_keys [OF e(1)])
  moreover have "distinct (keys d)" using assms(1,4) by (simp add: str_keys_all)
  moreover have "length e = length d" using \<open>keys e = keys d\<close> by (metis length_map)
  ultimately show "freezes_ok l n (VDict d)" "freezes_ok l n (VFrozenDict d)"
    using e assms(2,3)
    by (auto simp: freezes_ok_def validate_containers str_members_iff)
qed

lemma validate_freezes:
  "validate_json_value l n v = Inr () \<Longrightarrow> py_ok v \<Longrightarrow> freezes_ok l n v"
proof (induction v arbitrary: n rule: py_ok.induct)
  case (1 f)
  then show ?case by (simp add: freezes_ok_def)
next
  case (3 xs)
  then show ?case
    by (intro freezes_ok_list) (auto simp: validate_containers list_all_iff)
next
  case (4 xs)
  then show ?case
    by (intro freezes_ok_list) (auto simp: validate_containers list_all_iff)
next
  case (5 xs)
  then show ?case
    by (intro freezes_ok_list) (auto simp: validate_containers list_all_iff)
next
  case (6 d)
  then have "\<forall>p\<in>set d. freezes_ok l (Suc n) (snd p)"
    by (metis validate_containers(4) py_ok.simps(6) all_members_iff prod.collapse)
  then show ?case using 6(2,3) by (intro freezes_ok_dict) (auto simp: validate_containers)
next
  case (7 d)
  then have "\<forall>p\<in>set d. freezes_ok l (Suc n) (snd p)"
    by (metis validate_containers(5) py_ok.simps(7) all_members_iff prod.collapse)
  then show ?case using 7(2,3) by (intro freezes_ok_dict) (auto simp: validate_containers)
qed (simp_all add: freezes_ok_def)

text \<open>Thawing a frozen value changes no limit the validation looks at.\<close>

lemma validate_thaw:
  "frozen_json w \<Longrightarrow> validate_json_value l n w = Inr () \<Longrightarrow>
   validate_json_value l n (thaw_json_value w) = Inr ()"
proof (induction w arbitrary: n rule: frozen_json.induct)
  case (2 xs)
  then show ?case by (auto simp: validate_containers list_all_iff)
next
  case (3 d)
  have "\<forall>p\<in>set d. validate_json_value l (Suc n) (thaw_json_value (snd p)) = Inr ()"
  proof
    fix p assume p: "p \<in> set d"
    then obtain s v where "p = (KStr s, v)" "frozen_json v"
      using 3(2) by (metis prod.collapse str_members_iff frozen_json.simps(3))
    then show "validate_json_value l (Suc n) (thaw_json_value (snd p)) = Inr ()"
      using 3(1) [OF p] 3(3) p
      by (auto simp: validate_containers)
  qed
  then show ?case
    using 3(3) by (auto simp: validate_containers)
qed auto

section \<open>The immutable containers\<close>

text \<open>
  \<open>FrozenJsonDict\<close> and \<open>FrozenJsonList\<close>. The mutators a dict or a list has are there, each
  raising \<open>TypeError\<close>; reading, comparing, copying and pickling are ordinary.
\<close>

datatype dict_mutation =
    DictSetAttr string pyv | DictDelAttr string | DictSetItem pykey pyv | DictDelItem pykey
  | DictClear | DictPop pykey | DictPopItem | DictSetDefault pykey pyv | DictUpdate pydict
  | DictIor pydict

definition FrozenJsonDict_immutable :: "'a res" where
  "FrozenJsonDict_immutable = raise TypeError ''event payload JSON objects are immutable''"

fun FrozenJsonDict_mutate :: "dict_mutation \<Rightarrow> pydict \<Rightarrow> (pyv \<times> pydict) res" where
  "FrozenJsonDict_mutate (DictSetAttr n v) d = FrozenJsonDict_immutable"
| "FrozenJsonDict_mutate (DictDelAttr n) d = FrozenJsonDict_immutable"
| "FrozenJsonDict_mutate (DictSetItem k v) d = FrozenJsonDict_immutable"
| "FrozenJsonDict_mutate (DictDelItem k) d = FrozenJsonDict_immutable"
| "FrozenJsonDict_mutate DictClear d = FrozenJsonDict_immutable"
| "FrozenJsonDict_mutate (DictPop k) d = FrozenJsonDict_immutable"
| "FrozenJsonDict_mutate DictPopItem d = FrozenJsonDict_immutable"
| "FrozenJsonDict_mutate (DictSetDefault k v) d = FrozenJsonDict_immutable"
| "FrozenJsonDict_mutate (DictUpdate e) d = FrozenJsonDict_immutable"
| "FrozenJsonDict_mutate (DictIor e) d = FrozenJsonDict_immutable"

definition FrozenJsonDict_init :: "pydict \<Rightarrow> pydict res" where
  "FrozenJsonDict_init values = freeze_members values"

definition FrozenJsonDict_getitem :: "pydict \<Rightarrow> string \<Rightarrow> pyv res" where
  "FrozenJsonDict_getitem d k =
     (case get_item d k of Some v \<Rightarrow> Inr v | None \<Rightarrow> raise KeyError k)"

definition FrozenJsonDict_iter :: "pydict \<Rightarrow> pykey list" where
  "FrozenJsonDict_iter d = keys d"

definition FrozenJsonDict_len :: "pydict \<Rightarrow> nat" where
  "FrozenJsonDict_len d = length d"

definition FrozenJsonDict_eq :: "pydict \<Rightarrow> pyv \<Rightarrow> bool" where
  "FrozenJsonDict_eq d w =
     (case map_items w of
        Some e \<Rightarrow> length d = length e \<and> py_eq_members d e
      | None \<Rightarrow> False)"

definition FrozenJsonDict_copy :: "pydict \<Rightarrow> pyv" where
  "FrozenJsonDict_copy d = thaw_json_value (VFrozenDict d)"

text \<open>\<open>__reduce__\<close>: the argument the constructor is called with on unpickling.\<close>

definition FrozenJsonDict_reduce :: "pydict \<Rightarrow> pydict" where
  "FrozenJsonDict_reduce d = map (\<lambda>(k, v). (k, thaw_json_value v)) d"

datatype list_mutation =
    ListSetAttr string pyv | ListDelAttr string | ListSetItem pyv pyv | ListDelItem pyv
  | ListAppend pyv | ListClear | ListExtend "pyv list" | ListInsert int pyv | ListPop int
  | ListRemove pyv | ListReverse | ListSort | ListIadd "pyv list" | ListImul int

definition FrozenJsonList_immutable :: "'a res" where
  "FrozenJsonList_immutable = raise TypeError ''event payload JSON arrays are immutable''"

fun FrozenJsonList_mutate :: "list_mutation \<Rightarrow> pyv list \<Rightarrow> (pyv \<times> pyv list) res" where
  "FrozenJsonList_mutate (ListSetAttr n v) xs = FrozenJsonList_immutable"
| "FrozenJsonList_mutate (ListDelAttr n) xs = FrozenJsonList_immutable"
| "FrozenJsonList_mutate (ListSetItem i v) xs = FrozenJsonList_immutable"
| "FrozenJsonList_mutate (ListDelItem i) xs = FrozenJsonList_immutable"
| "FrozenJsonList_mutate (ListAppend v) xs = FrozenJsonList_immutable"
| "FrozenJsonList_mutate ListClear xs = FrozenJsonList_immutable"
| "FrozenJsonList_mutate (ListExtend ys) xs = FrozenJsonList_immutable"
| "FrozenJsonList_mutate (ListInsert i v) xs = FrozenJsonList_immutable"
| "FrozenJsonList_mutate (ListPop i) xs = FrozenJsonList_immutable"
| "FrozenJsonList_mutate (ListRemove v) xs = FrozenJsonList_immutable"
| "FrozenJsonList_mutate ListReverse xs = FrozenJsonList_immutable"
| "FrozenJsonList_mutate ListSort xs = FrozenJsonList_immutable"
| "FrozenJsonList_mutate (ListIadd ys) xs = FrozenJsonList_immutable"
| "FrozenJsonList_mutate (ListImul i) xs = FrozenJsonList_immutable"

definition FrozenJsonList_init :: "pyv list \<Rightarrow> pyv list res" where
  "FrozenJsonList_init values = freeze_items values"

text \<open>\<open>self._items[index]\<close> for an integer index, negative from the end.\<close>

definition FrozenJsonList_getitem :: "pyv list \<Rightarrow> int \<Rightarrow> pyv res" where
  "FrozenJsonList_getitem xs i =
     (let j = (if i < 0 then i + int (length xs) else i)
      in if 0 \<le> j \<and> j < int (length xs) then Inr (xs ! nat j)
         else raise IndexError ''tuple index out of range'')"

definition FrozenJsonList_iter :: "pyv list \<Rightarrow> pyv list" where
  "FrozenJsonList_iter xs = xs"

definition FrozenJsonList_len :: "pyv list \<Rightarrow> nat" where
  "FrozenJsonList_len xs = length xs"

definition FrozenJsonList_eq :: "pyv list \<Rightarrow> pyv \<Rightarrow> bool" where
  "FrozenJsonList_eq xs w =
     (case seq_kind w of Some (k, ys) \<Rightarrow> py_eq_items xs ys | None \<Rightarrow> False)"

definition FrozenJsonList_copy :: "pyv list \<Rightarrow> pyv" where
  "FrozenJsonList_copy xs = thaw_json_value (VFrozenList xs)"

definition FrozenJsonList_reduce :: "pyv list \<Rightarrow> pyv list" where
  "FrozenJsonList_reduce xs = map thaw_json_value xs"

lemma py_eq_items_map:
  "\<forall>x\<in>set xs. py_eq x (f x) \<Longrightarrow> py_eq_items xs (map f xs)"
  by (induction xs) auto

lemma py_eq_members_map:
  assumes "\<forall>p\<in>set d. py_eq (snd p) (f (snd p))" "distinct (keys d)"
  shows "py_eq_members d (map (\<lambda>(k, v). (k, f v)) d)"
proof -
  have *: "py_eq_members c (map (\<lambda>(k, v). (k, f v)) d)"
    if "set c \<subseteq> set d" for c
    using that
  proof (induction c)
    case (Cons p c)
    then have "dget d (fst p) = Some (snd p)"
      using assms(2) by (simp add: dget_map_of)
    then show ?case using Cons assms(1) by (cases p) (auto simp: map_snd_dget)
  qed simp
  show ?thesis by (rule *) simp
qed

lemma finite_float_eq: "is_finite f \<Longrightarrow> scalar_eq (VFloat f) (VFloat f)"
  by (simp add: scalar_eq_def)

lemma py_eq_thaw:
  "frozen_json w \<Longrightarrow> validate_json_value l n w = Inr () \<Longrightarrow> py_eq w (thaw_json_value w)"
proof (induction w arbitrary: n rule: frozen_json.induct)
  case (2 xs)
  then have "\<forall>x\<in>set xs. py_eq x (thaw_json_value x)"
    by (metis validate_containers(3) frozen_json.simps(2) list_all_iff)
  then show ?case by (simp add: py_eq_items_map)
next
  case (3 d)
  have "\<forall>p\<in>set d. py_eq (snd p) (thaw_json_value (snd p))"
  proof
    fix p assume p: "p \<in> set d"
    then obtain s v where "p = (KStr s, v)" "frozen_json v"
      using 3(2) by (metis prod.collapse str_members_iff frozen_json.simps(3))
    then show "py_eq (snd p) (thaw_json_value (snd p))"
      using 3(1) [OF p] 3(3) p by (auto simp: validate_containers)
  qed
  then show ?case using 3(2) by (auto intro: py_eq_members_map)
qed (auto simp: scalar_eq_def)

lemma FrozenJsonDict_mutate_raises:
  "FrozenJsonDict_mutate m d = raise TypeError ''event payload JSON objects are immutable''"
  by (cases m) (simp_all add: FrozenJsonDict_immutable_def)

lemma FrozenJsonList_mutate_raises:
  "FrozenJsonList_mutate m xs = raise TypeError ''event payload JSON arrays are immutable''"
  by (cases m) (simp_all add: FrozenJsonList_immutable_def)

text \<open>Unpickling a frozen object builds the object that was pickled.\<close>

lemma FrozenJsonDict_pickle:
  "frozen_json (VFrozenDict d) \<Longrightarrow> FrozenJsonDict_init (FrozenJsonDict_reduce d) = Inr d"
  using freeze_thaw [of "VFrozenDict d"]
  by (auto simp: FrozenJsonDict_init_def FrozenJsonDict_reduce_def bnd_Inr_iff)

lemma FrozenJsonList_pickle:
  "frozen_json (VFrozenList xs) \<Longrightarrow> FrozenJsonList_init (FrozenJsonList_reduce xs) = Inr xs"
  using freeze_thaw [of "VFrozenList xs"]
  by (auto simp: FrozenJsonList_init_def FrozenJsonList_reduce_def bnd_Inr_iff)

end
