(* ===== verification/Envelope.thy ===== *)
theory Envelope
  imports Events
begin

text \<open>
  The event envelope of \<open>domain/events.py\<close> and its validation.

  The models are pydantic classes. What the classes declare (fields, defaults, minimum lengths,
  bounds, \<open>extra="forbid"\<close>, validators and serializers) is written out. What pydantic itself
  decides, how an input of another type is coerced to a declared type and how a datetime is
  dumped, is the record \<open>pydantic\<close>, an argument of the definitions; \<open>pydantic_laws\<close> is the
  documented behaviour the proofs rely on, and \<open>strict_pydantic\<close> an instance of it built on the
  modelled standard library.

  One simplification: \<open>event_type\<close>, declared as \<open>EventType | str\<close> with a minimum length, is read as the
  other texts are, so a lone surrogate in it is refused; pydantic checks the encoding of a text only
  where the constraint is on the \<open>str\<close> itself.
\<close>

section \<open>Value objects\<close>

record source =
  src_component :: string
  src_instance_id :: string
  src_version :: string

record correlation =
  trace_id :: string
  run_id :: string
  span_id :: "string option"
  session_id :: "string option"

record causality =
  root_event_id :: string
  sequence :: int
  parent_event_id :: "string option"

record principal =
  principal_id :: string
  principal_type :: PrincipalType
  on_behalf_of :: "string option"
  model_id :: "string option"
  credential_id :: "string option"

record classification =
  sensitivity :: Sensitivity
  trust :: TrustLevel

record integrity =
  canonicalization :: string
  previous_event_hash :: "string option"
  event_hash :: "string option"

record evidence_link =
  subject_event_id :: string
  relationship :: EvidenceRelationship
  evidence_event_id :: string
  corroboration_type :: CorroborationType
  observer_identity :: string
  confidence :: pyfloat
  verification_status :: VerificationStatus
  limitations :: "string list"

record event =
  spec_version :: string
  event_id :: string
  event_type :: string   \<comment> \<open>the string value of the \<open>EventType | str\<close> union\<close>
  occurred_at :: datetime
  observed_at :: datetime
  ev_source :: source
  ev_correlation :: correlation
  ev_causality :: causality
  ev_principal :: principal
  ev_classification :: classification
  payload :: pyv
  ev_integrity :: integrity

definition SPEC_VERSION :: string where
  "SPEC_VERSION = ''actionlineage.dev/v1alpha1''"

section \<open>Pydantic\<close>

record pydantic =
  pd_fields :: "pyv \<Rightarrow> pydict option"    \<comment> \<open>the input of a model\<close>
  pd_mapping :: "pyv \<Rightarrow> pydict option"   \<comment> \<open>a field of type \<open>Mapping[str, Any]\<close>\<close>
  pd_str :: "pyv \<Rightarrow> string option"       \<comment> \<open>a field of type \<open>str\<close>\<close>
  pd_int :: "pyv \<Rightarrow> int option"          \<comment> \<open>a field of type \<open>int\<close>\<close>
  pd_float :: "pyv \<Rightarrow> pyfloat option"    \<comment> \<open>a field of type \<open>float\<close>\<close>
  pd_list :: "pyv \<Rightarrow> pyv list option"    \<comment> \<open>a field of type \<open>tuple[str, ...]\<close>, its items\<close>
  pd_datetime :: "pyv \<Rightarrow> datetime option"
  pd_dump_datetime :: "datetime \<Rightarrow> string"   \<comment> \<open>\<open>model_dump(mode="json")\<close> of a datetime\<close>

definition validation_error :: "'a res" where
  "validation_error = raise ValidationError ''validation error''"

text \<open>Readers of one field: \<open>None\<close> is a validation error.\<close>

definition field :: "pydict \<Rightarrow> string \<Rightarrow> (pyv \<Rightarrow> 'a option) \<Rightarrow> 'a option" where
  "field d k f = (case get_item d k of None \<Rightarrow> None | Some v \<Rightarrow> f v)"

definition field_default :: "pydict \<Rightarrow> string \<Rightarrow> (pyv \<Rightarrow> 'a option) \<Rightarrow> 'a \<Rightarrow> 'a option" where
  "field_default d k f dflt = (case get_item d k of None \<Rightarrow> Some dflt | Some v \<Rightarrow> f v)"

definition only_fields :: "string list \<Rightarrow> pydict \<Rightarrow> bool" where
  "only_fields names d \<longleftrightarrow> (\<forall>p\<in>set d. fst p \<in> KStr ` set names)"

text \<open>
  A \<open>str\<close> with \<open>min_length=1\<close>: pydantic reads the text of a constrained string, so one with
  a lone surrogate is refused (\<open>string_unicode\<close>).
\<close>

definition min1_str :: "pydantic \<Rightarrow> pyv \<Rightarrow> string option" where
  "min1_str pd v =
     (case pd_str pd v of
        None \<Rightarrow> None
      | Some s \<Rightarrow> if s = [] \<or> \<not> utf8_ok False s then None else Some s)"

definition opt_min1_str :: "pydantic \<Rightarrow> pyv \<Rightarrow> string option option" where
  "opt_min1_str pd v =
     (if v = VNone then Some None else map_option Some (min1_str pd v))"

definition enum_field :: "pydantic \<Rightarrow> ('a \<Rightarrow> string) \<Rightarrow> 'a list \<Rightarrow> pyv \<Rightarrow> 'a option" where
  "enum_field pd val members v = Option.bind (pd_str pd v) (enum_of val members)"

definition model_fields :: "pydantic \<Rightarrow> string list \<Rightarrow> (pydict \<Rightarrow> 'a option) \<Rightarrow> pyv \<Rightarrow> 'a option" where
  "model_fields pd names f v =
     (case pd_fields pd v of
        None \<Rightarrow> None
      | Some d \<Rightarrow> if only_fields names d then f d else None)"

section \<open>Validation\<close>

definition source_fields :: "string list" where
  "source_fields = [''component'', ''instance_id'', ''version'']"

definition validate_source :: "pydantic \<Rightarrow> pyv \<Rightarrow> source option" where
  "validate_source pd = model_fields pd source_fields (\<lambda>d.
     Option.bind (field d ''component'' (min1_str pd)) (\<lambda>c.
     Option.bind (field d ''instance_id'' (min1_str pd)) (\<lambda>i.
     Option.bind (field d ''version'' (min1_str pd)) (\<lambda>v.
       Some \<lparr>src_component = c, src_instance_id = i, src_version = v\<rparr>))))"

definition correlation_fields :: "string list" where
  "correlation_fields = [''trace_id'', ''run_id'', ''span_id'', ''session_id'']"

definition validate_correlation :: "pydantic \<Rightarrow> pyv \<Rightarrow> correlation option" where
  "validate_correlation pd = model_fields pd correlation_fields (\<lambda>d.
     Option.bind (field d ''trace_id'' (min1_str pd)) (\<lambda>t.
     Option.bind (field d ''run_id'' (min1_str pd)) (\<lambda>r.
     Option.bind (field_default d ''span_id'' (opt_min1_str pd) None) (\<lambda>sp.
     Option.bind (field_default d ''session_id'' (opt_min1_str pd) None) (\<lambda>se.
       Some \<lparr>trace_id = t, run_id = r, span_id = sp, session_id = se\<rparr>)))))"

definition causality_fields :: "string list" where
  "causality_fields = [''root_event_id'', ''sequence'', ''parent_event_id'']"

definition nonneg_int :: "pydantic \<Rightarrow> pyv \<Rightarrow> int option" where
  "nonneg_int pd v =
     (case pd_int pd v of None \<Rightarrow> None | Some i \<Rightarrow> if 0 \<le> i then Some i else None)"

definition validate_causality_fields :: "pydantic \<Rightarrow> pyv \<Rightarrow> causality option" where
  "validate_causality_fields pd = model_fields pd causality_fields (\<lambda>d.
     Option.bind (field d ''root_event_id'' (min1_str pd)) (\<lambda>r.
     Option.bind (field d ''sequence'' (nonneg_int pd)) (\<lambda>s.
     Option.bind (field_default d ''parent_event_id'' (opt_min1_str pd) None) (\<lambda>p.
       Some \<lparr>root_event_id = r, sequence = s, parent_event_id = p\<rparr>))))"

definition principal_fields :: "string list" where
  "principal_fields =
     [''principal_id'', ''principal_type'', ''on_behalf_of'', ''model_id'', ''credential_id'']"

definition validate_principal :: "pydantic \<Rightarrow> pyv \<Rightarrow> principal option" where
  "validate_principal pd = model_fields pd principal_fields (\<lambda>d.
     Option.bind (field d ''principal_id'' (min1_str pd)) (\<lambda>i.
     Option.bind (field d ''principal_type''
       (enum_field pd PrincipalType_value all_PrincipalType)) (\<lambda>t.
     Option.bind (field_default d ''on_behalf_of'' (opt_min1_str pd) None) (\<lambda>b.
     Option.bind (field_default d ''model_id'' (opt_min1_str pd) None) (\<lambda>m.
     Option.bind (field_default d ''credential_id'' (opt_min1_str pd) None) (\<lambda>c.
       Some \<lparr>principal_id = i, principal_type = t, on_behalf_of = b, model_id = m,
             credential_id = c\<rparr>))))))"

definition classification_fields :: "string list" where
  "classification_fields = [''sensitivity'', ''trust'']"

definition validate_classification :: "pydantic \<Rightarrow> pyv \<Rightarrow> classification option" where
  "validate_classification pd = model_fields pd classification_fields (\<lambda>d.
     Option.bind (field_default d ''sensitivity''
       (enum_field pd Sensitivity_value all_Sensitivity) SE_UNKNOWN) (\<lambda>s.
     Option.bind (field_default d ''trust''
       (enum_field pd TrustLevel_value all_TrustLevel) TR_UNKNOWN) (\<lambda>t.
       Some \<lparr>sensitivity = s, trust = t\<rparr>)))"

definition integrity_fields :: "string list" where
  "integrity_fields = [''canonicalization'', ''previous_event_hash'', ''event_hash'']"

definition default_integrity :: integrity where
  "default_integrity =
     \<lparr>canonicalization = CANONICALIZATION_VERSION, previous_event_hash = None, event_hash = None\<rparr>"

definition validate_integrity :: "pydantic \<Rightarrow> pyv \<Rightarrow> integrity option" where
  "validate_integrity pd = model_fields pd integrity_fields (\<lambda>d.
     Option.bind (field_default d ''canonicalization'' (pd_str pd) CANONICALIZATION_VERSION) (\<lambda>c.
     Option.bind (field_default d ''previous_event_hash'' (opt_min1_str pd) None) (\<lambda>p.
     Option.bind (field_default d ''event_hash'' (opt_min1_str pd) None) (\<lambda>h.
       Some \<lparr>canonicalization = c, previous_event_hash = p, event_hash = h\<rparr>))))"

text \<open>\<open>IntegrityMetadata(canonicalization=..., ...)\<close>, called with strings.\<close>

definition IntegrityMetadata_new ::
  "string \<Rightarrow> string option \<Rightarrow> string option \<Rightarrow> integrity res" where
  "IntegrityMetadata_new c p h =
     (if p = Some [] \<or> h = Some [] then validation_error
      else Inr \<lparr>canonicalization = c, previous_event_hash = p, event_hash = h\<rparr>)"

text \<open>
  \<open>require_aware_utc\<close>. A rejected value is a validation error; the \<open>OverflowError\<close> of
  \<open>astimezone\<close> is not a \<open>ValueError\<close>, so pydantic lets it through.
\<close>

definition require_aware_utc :: "datetime \<Rightarrow> datetime option res" where
  "require_aware_utc t =
     (case dt_offset t of
        None \<Rightarrow> Inr None
      | Some off \<Rightarrow> bnd (utc_of_aware t off) (\<lambda>u. Inr (Some u)))"

definition timestamp_field :: "pydantic \<Rightarrow> pydict \<Rightarrow> string \<Rightarrow> datetime option res" where
  "timestamp_field pd d k =
     (case field d k (pd_datetime pd) of
        None \<Rightarrow> Inr None
      | Some t \<Rightarrow> require_aware_utc t)"

definition require_json_payload :: "pydict \<Rightarrow> pyv option" where
  "require_json_payload m =
     (case validate_json_value default_limits 0 (VDict m) of
        Inl e \<Rightarrow> None
      | Inr _ \<Rightarrow> (case freeze_json_value (VDict m) of Inl e \<Rightarrow> None | Inr w \<Rightarrow> Some w))"

definition validate_payload :: "pydantic \<Rightarrow> pyv \<Rightarrow> pyv option" where
  "validate_payload pd v = Option.bind (pd_mapping pd v) require_json_payload"

definition literal_spec_version :: "pyv \<Rightarrow> string option" where
  "literal_spec_version v = (if v = VStr SPEC_VERSION then Some SPEC_VERSION else None)"

definition documented_root_event_types :: "string list" where
  "documented_root_event_types =
     [EventType_value AGENT_INTENT_RECORDED, EventType_value AGENT_RUN_STARTED,
      EventType_value RECORDER_DEGRADED]"

definition validate_causality :: "event \<Rightarrow> bool" where
  "validate_causality e \<longleftrightarrow>
     \<not> (parent_event_id (ev_causality e) = None
         \<and> event_type e \<notin> set documented_root_event_types)
     \<and> \<not> (parent_event_id (ev_causality e) = None
            \<and> root_event_id (ev_causality e) \<noteq> event_id e)"

definition event_fields :: "string list" where
  "event_fields =
     [''spec_version'', ''event_id'', ''event_type'', ''occurred_at'', ''observed_at'', ''source'',
      ''correlation'', ''causality'', ''principal'', ''classification'', ''payload'', ''integrity'']"

text \<open>
  The fields of an event, the timestamps already read. A missing payload is the default
  \<open>dict()\<close>, which pydantic does not validate: it stays a plain, mutable dict.
\<close>

definition build_event ::
  "pydantic \<Rightarrow> datetime option \<Rightarrow> datetime option \<Rightarrow> pydict \<Rightarrow> event option" where
  "build_event pd occ obs d =
     Option.bind occ (\<lambda>occ.
     Option.bind obs (\<lambda>obs.
     Option.bind (field_default d ''spec_version'' literal_spec_version SPEC_VERSION) (\<lambda>sv.
     Option.bind (field d ''event_id'' (min1_str pd)) (\<lambda>i.
     Option.bind (field d ''event_type'' (min1_str pd)) (\<lambda>t.
     Option.bind (field d ''source'' (validate_source pd)) (\<lambda>src.
     Option.bind (field d ''correlation'' (validate_correlation pd)) (\<lambda>cor.
     Option.bind (field d ''causality'' (validate_causality_fields pd)) (\<lambda>cau.
     Option.bind (field d ''principal'' (validate_principal pd)) (\<lambda>pri.
     Option.bind (field d ''classification'' (validate_classification pd)) (\<lambda>cla.
     Option.bind (field_default d ''payload'' (validate_payload pd) (VDict [])) (\<lambda>pay.
     Option.bind (field_default d ''integrity'' (validate_integrity pd) default_integrity) (\<lambda>int.
       Some \<lparr>spec_version = sv, event_id = i, event_type = t, occurred_at = occ,
             observed_at = obs, ev_source = src, ev_correlation = cor, ev_causality = cau,
             ev_principal = pri, ev_classification = cla, payload = pay,
             ev_integrity = int\<rparr>))))))))))))"

definition model_validate :: "pydantic \<Rightarrow> pyv \<Rightarrow> event res" where
  "model_validate pd v =
     (case pd_fields pd v of
        None \<Rightarrow> validation_error
      | Some d \<Rightarrow>
          bnd (timestamp_field pd d ''occurred_at'') (\<lambda>occ.
          bnd (timestamp_field pd d ''observed_at'') (\<lambda>obs.
          if \<not> only_fields event_fields d then validation_error
          else (case build_event pd occ obs d of
                  None \<Rightarrow> validation_error
                | Some e \<Rightarrow> if validate_causality e then Inr e else validation_error))))"

definition model_construct :: "pydantic \<Rightarrow> pydict \<Rightarrow> event res" where
  "model_construct pd values = model_validate pd (VDict values)"

section \<open>Dumping\<close>

text \<open>
  \<open>model_dump\<close>: the fields in the order of their declaration, the payload thawed by its
  serializer. \<open>tm\<close> dumps a timestamp: unchanged in python mode, text in JSON mode.
\<close>

definition source_dump :: "source \<Rightarrow> (string \<times> pyv) list" where
  "source_dump s =
     [(''component'', VStr (src_component s)), (''instance_id'', VStr (src_instance_id s)),
      (''version'', VStr (src_version s))]"

definition correlation_dump :: "correlation \<Rightarrow> (string \<times> pyv) list" where
  "correlation_dump c =
     [(''trace_id'', VStr (trace_id c)), (''run_id'', VStr (run_id c)),
      (''span_id'', opt_str (span_id c)), (''session_id'', opt_str (session_id c))]"

definition causality_dump :: "causality \<Rightarrow> (string \<times> pyv) list" where
  "causality_dump c =
     [(''root_event_id'', VStr (root_event_id c)), (''sequence'', VInt (sequence c)),
      (''parent_event_id'', opt_str (parent_event_id c))]"

definition principal_dump :: "principal \<Rightarrow> (string \<times> pyv) list" where
  "principal_dump p =
     [(''principal_id'', VStr (principal_id p)),
      (''principal_type'', VStr (PrincipalType_value (principal_type p))),
      (''on_behalf_of'', opt_str (on_behalf_of p)), (''model_id'', opt_str (model_id p)),
      (''credential_id'', opt_str (credential_id p))]"

definition classification_dump :: "classification \<Rightarrow> (string \<times> pyv) list" where
  "classification_dump c =
     [(''sensitivity'', VStr (Sensitivity_value (sensitivity c))),
      (''trust'', VStr (TrustLevel_value (trust c)))]"

definition integrity_dump :: "integrity \<Rightarrow> (string \<times> pyv) list" where
  "integrity_dump i =
     [(''canonicalization'', VStr (canonicalization i)),
      (''previous_event_hash'', opt_str (previous_event_hash i)),
      (''event_hash'', opt_str (event_hash i))]"

definition event_dump :: "(datetime \<Rightarrow> pyv) \<Rightarrow> event \<Rightarrow> (string \<times> pyv) list" where
  "event_dump tm e =
     [(''spec_version'', VStr (spec_version e)), (''event_id'', VStr (event_id e)),
      (''event_type'', VStr (event_type e)), (''occurred_at'', tm (occurred_at e)),
      (''observed_at'', tm (observed_at e)), (''source'', obj (source_dump (ev_source e))),
      (''correlation'', obj (correlation_dump (ev_correlation e))),
      (''causality'', obj (causality_dump (ev_causality e))),
      (''principal'', obj (principal_dump (ev_principal e))),
      (''classification'', obj (classification_dump (ev_classification e))),
      (''payload'', thaw_json_value (payload e)),
      (''integrity'', obj (integrity_dump (ev_integrity e)))]"

definition model_dump_python :: "event \<Rightarrow> pyv" where
  "model_dump_python e = obj (event_dump VDatetime e)"

definition model_json :: "pydantic \<Rightarrow> event \<Rightarrow> pyv" where
  "model_json pd e = obj (event_dump (\<lambda>t. VStr (pd_dump_datetime pd t)) e)"

text \<open>\<open>model_copy(update={"integrity": ...})\<close>: the copy is dumped and validated again.\<close>

definition model_copy_integrity :: "pydantic \<Rightarrow> event \<Rightarrow> integrity \<Rightarrow> event res" where
  "model_copy_integrity pd e i =
     model_validate pd (model_dump_python (e\<lparr>ev_integrity := i\<rparr>))"

section \<open>What the proofs use of pydantic\<close>

locale pydantic_laws =
  fixes pd :: pydantic
  assumes pd_fields_dict: "pd_fields pd (VDict d) = Some d"
    and pd_mapping_dict: "(\<forall>p\<in>set d. \<exists>s. fst p = KStr s) \<Longrightarrow> pd_mapping pd (VDict d) = Some d"
    and pd_str_str: "pd_str pd (VStr s) = Some s"
    and pd_int_int: "pd_int pd (VInt i) = Some i"
    and pd_datetime_datetime: "pd_datetime pd (VDatetime t) = Some t"
    and pd_datetime_dumped: "is_utc t \<Longrightarrow> pd_datetime pd (VStr (pd_dump_datetime pd t)) = Some t"
    and pd_dump_utf8: "is_utc t \<Longrightarrow> utf8_ok False (pd_dump_datetime pd t)"
    and pd_fields_ok: "pd_fields pd v = Some d \<Longrightarrow> py_ok v \<Longrightarrow> py_ok (VDict d)"
    and pd_mapping_ok: "pd_mapping pd v = Some d \<Longrightarrow> py_ok v \<Longrightarrow> py_ok (VDict d)"
    and pd_datetime_ok: "pd_datetime pd v = Some t \<Longrightarrow> py_ok v \<Longrightarrow> dt_ok t"

section \<open>Well-formed events\<close>

text \<open>The invariant of the model's instances: what validation establishes and keeps.\<close>

definition wf_str :: "string \<Rightarrow> bool" where
  "wf_str s \<longleftrightarrow> s \<noteq> [] \<and> utf8_ok False s"

definition wf_opt :: "string option \<Rightarrow> bool" where
  "wf_opt o1 \<longleftrightarrow> (case o1 of None \<Rightarrow> True | Some s \<Rightarrow> wf_str s)"

definition wf_source :: "source \<Rightarrow> bool" where
  "wf_source s \<longleftrightarrow> wf_str (src_component s) \<and> wf_str (src_instance_id s) \<and> wf_str (src_version s)"

definition wf_correlation :: "correlation \<Rightarrow> bool" where
  "wf_correlation c \<longleftrightarrow>
     wf_str (trace_id c) \<and> wf_str (run_id c) \<and> wf_opt (span_id c) \<and> wf_opt (session_id c)"

definition wf_causality :: "causality \<Rightarrow> bool" where
  "wf_causality c \<longleftrightarrow> wf_str (root_event_id c) \<and> 0 \<le> sequence c \<and> wf_opt (parent_event_id c)"

definition wf_principal :: "principal \<Rightarrow> bool" where
  "wf_principal p \<longleftrightarrow>
     wf_str (principal_id p) \<and> wf_opt (on_behalf_of p) \<and> wf_opt (model_id p)
     \<and> wf_opt (credential_id p)"

definition wf_integrity :: "integrity \<Rightarrow> bool" where
  "wf_integrity i \<longleftrightarrow> wf_opt (previous_event_hash i) \<and> wf_opt (event_hash i)"

fun is_frozen_dict :: "pyv \<Rightarrow> bool" where
  "is_frozen_dict (VFrozenDict d) = True"
| "is_frozen_dict v = False"

lemma is_frozen_dict_iff [simp]: "is_frozen_dict w \<longleftrightarrow> (\<exists>d. w = VFrozenDict d)"
  by (cases w) auto

definition wf_payload :: "pyv \<Rightarrow> bool" where
  "wf_payload w \<longleftrightarrow>
     w = VDict []
     \<or> is_frozen_dict w \<and> frozen_json w \<and> validate_json_value default_limits 0 w = Inr ()"

definition wf_event :: "event \<Rightarrow> bool" where
  "wf_event e \<longleftrightarrow>
     spec_version e = SPEC_VERSION \<and> wf_str (event_id e) \<and> wf_str (event_type e)
     \<and> is_utc (occurred_at e) \<and> is_utc (observed_at e) \<and> wf_source (ev_source e)
     \<and> wf_correlation (ev_correlation e) \<and> wf_causality (ev_causality e)
     \<and> wf_principal (ev_principal e) \<and> wf_payload (payload e) \<and> wf_integrity (ev_integrity e)
     \<and> validate_causality e"

subsection \<open>Fields read back\<close>

text \<open>
  \<open>same_dict d kvs\<close>: the dict \<open>d\<close> holds the members \<open>kvs\<close> and nothing else, in some order.
\<close>

definition same_dict :: "pydict \<Rightarrow> (string \<times> pyv) list \<Rightarrow> bool" where
  "same_dict d kvs \<longleftrightarrow> (\<forall>k. get_item d k = dget kvs k) \<and> only_fields (map fst kvs) d"

lemma same_dict_obj: "same_dict (obj_items kvs) kvs"
  by (auto simp: same_dict_def only_fields_def image_iff) force

lemma dget_sort_key:
  assumes "distinct (keys d)"
  shows "dget (sort_key f d) k = dget d k"
proof -
  have d: "distinct (keys (sort_key f d))"
    using assms by (simp add: distinct_map)
  have "dget (sort_key f d) k = Some v \<longleftrightarrow> dget d k = Some v" for v
    using map_of_eq_Some_iff [OF d, of k v] map_of_eq_Some_iff [OF assms, of k v]
    by (simp add: dget_map_of)
  then show ?thesis by (metis option.exhaust)
qed

lemma only_fields_sort [simp]: "only_fields names (sort_key f d) \<longleftrightarrow> only_fields names d"
  by (simp add: only_fields_def)

lemma map_obj_items: "map (\<lambda>(k, v). (k, g v)) (obj_items kvs) = obj_items (map (\<lambda>(k, v). (k, g v)) kvs)"
  by (induction kvs) auto

lemma same_dict_sort:
  assumes "distinct (map fst kvs)"
  shows "same_dict (sort_key f (obj_items kvs)) kvs"
proof -
  have "distinct (keys (obj_items kvs))"
    using assms by (simp add: keys_obj_items distinct_map inj_on_def del: map_map)
  then show ?thesis
    using same_dict_obj [of kvs] by (simp add: same_dict_def get_item_def dget_sort_key)
qed

lemma canon_obj_same:
  assumes "distinct (map fst kvs)"
  obtains d where "canon (obj kvs) = VDict d" "same_dict d (map (\<lambda>(k, v). (k, canon v)) kvs)"
proof
  show "canon (obj kvs) = VDict (sort_key (\<lambda>p. key_str (fst p))
      (obj_items (map (\<lambda>(k, v). (k, canon v)) kvs)))"
    by (simp only: canon.simps map_obj_items)
  show "same_dict (sort_key (\<lambda>p. key_str (fst p)) (obj_items (map (\<lambda>(k, v). (k, canon v)) kvs)))
      (map (\<lambda>(k, v). (k, canon v)) kvs)"
    using assms by (intro same_dict_sort) simp
qed

subsection \<open>The normal form of a payload\<close>

text \<open>
  Reading a serialized event back gives its payload with the members of every object sorted.
  Python's equality does not see the difference.
\<close>

definition canon_payload :: "pyv \<Rightarrow> pyv" where
  "canon_payload w =
     (case freeze_json_value (canon (thaw_json_value w)) of Inr x \<Rightarrow> x | Inl err \<Rightarrow> w)"

definition event_canon :: "event \<Rightarrow> event" where
  "event_canon e = e\<lparr>payload := canon_payload (payload e)\<rparr>"

lemma is_json_dict_iff: "is_json (VDict d) \<longleftrightarrow> json_members d"
  by (auto simp: json_members_def str_members_iff)

lemma canon_keys_distinct:
  "distinct (keys d) \<Longrightarrow> distinct (keys (sort_key f (map (\<lambda>(k, v). (k, canon v)) d)))"
proof -
  assume "distinct (keys d)"
  then have "distinct (keys (map (\<lambda>(k, v). (k, canon v)) d))" by simp
  then show ?thesis by (simp add: distinct_map del: map_map)
qed

lemma is_json_canon: "is_json v \<Longrightarrow> is_json (canon v)"
proof (induction v rule: is_json.induct)
  case (3 d)
  have "\<forall>p\<in>set d. is_json (canon (snd p))"
    using 3 by (intro members_IH [of d is_json]) (auto simp: str_members_iff)
  then show ?case using 3(2)
    by (auto simp: is_json_dict_iff json_members_def canon_keys_distinct simp del: is_json.simps)
qed (auto simp: list_all_iff)

lemma validate_canon_iff:
  "is_json v \<Longrightarrow> validate_json_value l n (canon v) = Inr () \<longleftrightarrow> validate_json_value l n v = Inr ()"
proof (induction v arbitrary: n rule: is_json.induct)
  case (2 xs)
  then show ?case by (auto simp: validate_containers list_all_iff)
next
  case (3 d)
  have "\<forall>p\<in>set d. validate_json_value l (Suc n) (canon (snd p)) = Inr ()
      \<longleftrightarrow> validate_json_value l (Suc n) (snd p) = Inr ()"
  proof
    fix p assume p: "p \<in> set d"
    then obtain s v where "p = (KStr s, v)" "is_json v"
      using 3(2) by (metis prod.collapse str_members_iff is_json.simps(3))
    then show "validate_json_value l (Suc n) (canon (snd p)) = Inr ()
        \<longleftrightarrow> validate_json_value l (Suc n) (snd p) = Inr ()"
      using 3(1) [OF p] by auto
  qed
  then show ?case by (simp add: validate_containers split_beta)
qed simp_all

lemmas validate_canon = validate_canon_iff [THEN iffD2]

lemma wf_payload_thaw:
  assumes "wf_payload w"
  obtains d where "thaw_json_value w = VDict d" "is_json (VDict d)"
    "validate_json_value default_limits 0 (VDict d) = Inr ()"
proof -
  have "\<exists>d. thaw_json_value w = VDict d" using assms by (auto simp: wf_payload_def)
  moreover have "is_json (thaw_json_value w)"
    using assms thaw_json by (auto simp: wf_payload_def)
  moreover have "validate_json_value default_limits 0 (thaw_json_value w) = Inr ()"
  proof (cases "w = VDict []")
    case True
    then show ?thesis by (simp add: validate_containers)
  next
    case False
    then show ?thesis using assms validate_thaw by (simp add: wf_payload_def)
  qed
  ultimately show ?thesis using that by metis
qed

lemma require_json_payload_ok:
  assumes "py_ok (VDict d)" "validate_json_value default_limits 0 (VDict d) = Inr ()"
  obtains w where "freeze_json_value (VDict d) = Inr w" "require_json_payload d = Some w"
    "wf_payload w"
proof -
  obtain w where w: "freeze_json_value (VDict d) = Inr w" "frozen_json w"
    "validate_json_value default_limits 0 w = Inr ()"
    using validate_freezes [OF assms(2,1)] by (auto simp: freezes_ok_def)
  moreover have "\<exists>e. w = VFrozenDict e" using w(1) by (auto simp: bnd_Inr_iff)
  ultimately show ?thesis
    using that [OF w(1)] assms(2)
    by (auto simp: require_json_payload_def wf_payload_def simp del: freeze_json_value.simps)
qed

lemma require_json_payload_wf:
  assumes "require_json_payload d = Some w" "py_ok (VDict d)"
  shows "wf_payload w"
proof -
  have "validate_json_value default_limits 0 (VDict d) = Inr ()"
    using assms(1) by (auto simp: require_json_payload_def split: sum.splits)
  then show ?thesis
    using require_json_payload_ok [OF assms(2)] assms(1) by (metis option.inject)
qed

lemma canon_payload_wf:
  assumes "wf_payload w"
  shows "\<exists>d. canon (thaw_json_value w) = VDict d \<and> require_json_payload d = Some (canon_payload w)
    \<and> is_json (VDict d)"
    and "wf_payload (canon_payload w)"
proof -
  obtain d where d: "thaw_json_value w = VDict d" "is_json (VDict d)"
    "validate_json_value default_limits 0 (VDict d) = Inr ()"
    using wf_payload_thaw [OF assms] by blast
  obtain e where e: "canon (VDict d) = VDict e" by simp
  have j: "is_json (VDict e)" using is_json_canon [OF d(2)] by (simp only: e)
  have v: "validate_json_value default_limits 0 (VDict e) = Inr ()"
    using validate_canon [OF d(2,3)] by (simp only: e)
  obtain x where x: "freeze_json_value (VDict e) = Inr x" "require_json_payload e = Some x"
    "wf_payload x"
    using require_json_payload_ok [OF is_json_py_ok [OF j] v] by blast
  have "canon_payload w = x" using x(1) by (simp only: canon_payload_def d(1) e sum.case)
  then show "\<exists>d. canon (thaw_json_value w) = VDict d \<and> require_json_payload d = Some (canon_payload w)
      \<and> is_json (VDict d)" "wf_payload (canon_payload w)"
    using x j d(1) e by (simp_all del: canon.simps)
qed

text \<open>The payload read back thaws to the sorted payload, and is its own normal form.\<close>

lemma thaw_canon_payload:
  assumes "wf_payload w"
  shows "thaw_json_value (canon_payload w) = canon (thaw_json_value w)"
proof -
  obtain d where d: "canon (thaw_json_value w) = VDict d"
    "require_json_payload d = Some (canon_payload w)" "is_json (VDict d)"
    using canon_payload_wf(1) [OF assms] by blast
  have "freeze_json_value (VDict d) = Inr (canon_payload w)"
    using d(2) by (auto simp: require_json_payload_def split: sum.splits)
  then have "thaw_json_value (canon_payload w) = thaw_json_value (VDict d)"
    by (rule thaw_frozen_eq)
  also have "\<dots> = VDict d"
  proof -
    have "is_json v \<Longrightarrow> thaw_json_value v = v" for v
    proof (induction v rule: is_json.induct)
      case (2 xs)
      then show ?case by (auto simp: list_all_iff intro: map_idI)
    next
      case (3 d)
      have "\<forall>p\<in>set d. thaw_json_value (snd p) = snd p"
        using 3 by (intro members_IH [of d is_json]) (auto simp: str_members_iff)
      then show ?case by (simp add: map_idI split_beta)
    qed simp_all
    then show ?thesis using d(3) .
  qed
  finally show ?thesis using d(1) by simp
qed

text \<open>The copy through \<open>model_dump\<close> freezes the default payload.\<close>

definition refreeze :: "pyv \<Rightarrow> pyv" where
  "refreeze w = (if w = VDict [] then VFrozenDict [] else w)"

lemma wf_refreeze [simp]: "wf_payload w \<Longrightarrow> wf_payload (refreeze w)"
  by (auto simp: wf_payload_def refreeze_def validate_containers)

lemma thaw_refreeze [simp]: "thaw_json_value (refreeze w) = thaw_json_value w"
  by (simp add: refreeze_def)

lemma canon_opt_str [simp]: "canon (opt_str s) = opt_str s"
  by (cases s) auto

lemma canon_payload_idem: "wf_payload w \<Longrightarrow> canon_payload (canon_payload w) = canon_payload w"
  using canon_payload_wf [of w] canon_payload_wf(1) [of "canon_payload w"]
  by (auto simp: thaw_canon_payload)

lemma event_canon_idem: "wf_event e \<Longrightarrow> event_canon (event_canon e) = event_canon e"
  by (simp add: event_canon_def wf_event_def canon_payload_idem)

lemma event_canon_wf: "wf_event e \<Longrightarrow> wf_event (event_canon e)"
  by (simp add: event_canon_def wf_event_def canon_payload_wf(2) validate_causality_def)

subsection \<open>Reading a dumped event\<close>

context pydantic_laws begin

lemma min1_wf [simp]: "wf_str s \<Longrightarrow> min1_str pd (VStr s) = Some s"
  by (simp add: min1_str_def wf_str_def pd_str_str)

lemma opt_min1_wf [simp]: "wf_opt o1 \<Longrightarrow> opt_min1_str pd (opt_str o1) = Some o1"
  by (cases o1) (simp_all add: opt_min1_str_def wf_opt_def)

lemma enum_PrincipalType [simp]:
  "enum_field pd PrincipalType_value all_PrincipalType (VStr (PrincipalType_value t)) = Some t"
  by (simp add: enum_field_def pd_str_str)

lemma enum_Sensitivity [simp]:
  "enum_field pd Sensitivity_value all_Sensitivity (VStr (Sensitivity_value t)) = Some t"
  by (simp add: enum_field_def pd_str_str)

lemma enum_TrustLevel [simp]:
  "enum_field pd TrustLevel_value all_TrustLevel (VStr (TrustLevel_value t)) = Some t"
  by (simp add: enum_field_def pd_str_str)

lemma nonneg_int_int [simp]: "0 \<le> i \<Longrightarrow> nonneg_int pd (VInt i) = Some i"
  by (simp add: nonneg_int_def pd_int_int)

lemma model_fields_dict [simp]:
  "model_fields pd names f (VDict d) = (if only_fields names d then f d else None)"
  by (simp add: model_fields_def pd_fields_dict)

lemmas reads = field_def field_default_def same_dict_def

lemma validate_source_reads:
  "wf_source s \<Longrightarrow> same_dict d (source_dump s) \<Longrightarrow> validate_source pd (VDict d) = Some s"
  by (simp add: validate_source_def reads source_dump_def source_fields_def wf_source_def)

lemma validate_correlation_reads:
  "wf_correlation s \<Longrightarrow> same_dict d (correlation_dump s) \<Longrightarrow> validate_correlation pd (VDict d) = Some s"
  by (simp add: validate_correlation_def reads correlation_dump_def correlation_fields_def
      wf_correlation_def)

lemma validate_causality_reads:
  "wf_causality s \<Longrightarrow> same_dict d (causality_dump s) \<Longrightarrow>
   validate_causality_fields pd (VDict d) = Some s"
  by (simp add: validate_causality_fields_def reads causality_dump_def causality_fields_def
      wf_causality_def)

lemma validate_principal_reads:
  "wf_principal s \<Longrightarrow> same_dict d (principal_dump s) \<Longrightarrow> validate_principal pd (VDict d) = Some s"
  by (simp add: validate_principal_def reads principal_dump_def principal_fields_def
      wf_principal_def)

lemma validate_classification_reads:
  "same_dict d (classification_dump s) \<Longrightarrow> validate_classification pd (VDict d) = Some s"
  by (simp add: validate_classification_def reads classification_dump_def classification_fields_def)

lemma validate_integrity_reads:
  "wf_integrity s \<Longrightarrow> same_dict d (integrity_dump s) \<Longrightarrow> validate_integrity pd (VDict d) = Some s"
  by (simp add: validate_integrity_def reads integrity_dump_def integrity_fields_def
      wf_integrity_def pd_str_str)

lemma validate_payload_canon:
  "wf_payload w \<Longrightarrow> validate_payload pd (canon (thaw_json_value w)) = Some (canon_payload w)"
  using canon_payload_wf(1) [of w]
  by (auto simp: validate_payload_def pd_mapping_dict is_json_dict_iff json_members_def
      simp del: canon.simps is_json.simps)

text \<open>A dict that holds the dumped members of an event, in any order at every level.\<close>

definition holds_event :: "pydict \<Rightarrow> (datetime \<Rightarrow> pyv) \<Rightarrow> event \<Rightarrow> pyv \<Rightarrow> bool" where
  "holds_event d tm e pay \<longleftrightarrow> (\<exists>d1 d2 d3 d4 d5 d6.
     same_dict d1 (source_dump (ev_source e)) \<and> same_dict d2 (correlation_dump (ev_correlation e))
     \<and> same_dict d3 (causality_dump (ev_causality e))
     \<and> same_dict d4 (principal_dump (ev_principal e))
     \<and> same_dict d5 (classification_dump (ev_classification e))
     \<and> same_dict d6 (integrity_dump (ev_integrity e))
     \<and> same_dict d
        [(''spec_version'', VStr (spec_version e)), (''event_id'', VStr (event_id e)),
         (''event_type'', VStr (event_type e)), (''occurred_at'', tm (occurred_at e)),
         (''observed_at'', tm (observed_at e)), (''source'', VDict d1), (''correlation'', VDict d2),
         (''causality'', VDict d3), (''principal'', VDict d4), (''classification'', VDict d5),
         (''payload'', pay), (''integrity'', VDict d6)])"

lemma model_validate_reads:
  assumes wf: "wf_event e"
    and tm: "\<And>t. is_utc t \<Longrightarrow> pd_datetime pd (tm t) = Some t"
    and h: "holds_event d tm e pay"
    and pay: "validate_payload pd pay = Some w"
  shows "model_validate pd (VDict d) = Inr (e\<lparr>payload := w\<rparr>)"
proof -
  obtain d1 d2 d3 d4 d5 d6 where ds:
    "same_dict d1 (source_dump (ev_source e))" "same_dict d2 (correlation_dump (ev_correlation e))"
    "same_dict d3 (causality_dump (ev_causality e))"
    "same_dict d4 (principal_dump (ev_principal e))"
    "same_dict d5 (classification_dump (ev_classification e))"
    "same_dict d6 (integrity_dump (ev_integrity e))"
    and sd: "same_dict d
        [(''spec_version'', VStr (spec_version e)), (''event_id'', VStr (event_id e)),
         (''event_type'', VStr (event_type e)), (''occurred_at'', tm (occurred_at e)),
         (''observed_at'', tm (observed_at e)), (''source'', VDict d1), (''correlation'', VDict d2),
         (''causality'', VDict d3), (''principal'', VDict d4), (''classification'', VDict d5),
         (''payload'', pay), (''integrity'', VDict d6)]"
    using h by (auto simp: holds_event_def)
  note w = wf [unfolded wf_event_def]
  have nested: "validate_source pd (VDict d1) = Some (ev_source e)"
    "validate_correlation pd (VDict d2) = Some (ev_correlation e)"
    "validate_causality_fields pd (VDict d3) = Some (ev_causality e)"
    "validate_principal pd (VDict d4) = Some (ev_principal e)"
    "validate_classification pd (VDict d5) = Some (ev_classification e)"
    "validate_integrity pd (VDict d6) = Some (ev_integrity e)"
    using w ds by (simp_all add: validate_source_reads validate_correlation_reads
        validate_causality_reads validate_principal_reads validate_classification_reads
        validate_integrity_reads)
  have off: "dt_offset (occurred_at e) = Some 0" "dt_offset (observed_at e) = Some 0"
    using w by (simp_all add: is_utc_def)
  have ts: "timestamp_field pd d ''occurred_at'' = Inr (Some (occurred_at e))"
    "timestamp_field pd d ''observed_at'' = Inr (Some (observed_at e))"
    using sd w off by (simp_all add: timestamp_field_def field_def same_dict_def tm
        require_aware_utc_def)
  have only: "only_fields event_fields d"
    using sd by (simp add: same_dict_def event_fields_def)
  have "build_event pd (Some (occurred_at e)) (Some (observed_at e)) d = Some (e\<lparr>payload := w\<rparr>)"
    using sd w nested pay
    by (simp add: build_event_def field_def field_default_def same_dict_def literal_spec_version_def)
  moreover have "validate_causality (e\<lparr>payload := w\<rparr>)"
    using w by (simp add: validate_causality_def)
  ultimately show ?thesis
    using ts only by (simp add: model_validate_def pd_fields_dict)
qed

text \<open>Python mode: a model dumped and validated again is itself, its payload frozen.\<close>

lemma validate_payload_thaw:
  "wf_payload w \<Longrightarrow> validate_payload pd (thaw_json_value w) = Some (refreeze w)"
proof -
  assume wf: "wf_payload w"
  obtain d where d: "thaw_json_value w = VDict d" "is_json (VDict d)"
    "validate_json_value default_limits 0 (VDict d) = Inr ()"
    using wf_payload_thaw [OF wf] by blast
  have "freeze_json_value (VDict d) = Inr (refreeze w)"
    using wf freeze_thaw [of w] d(1) by (auto simp: wf_payload_def refreeze_def)
  moreover have "pd_mapping pd (VDict d) = Some d"
    using d(2) by (intro pd_mapping_dict) (auto simp: is_json_dict_iff json_members_def
        simp del: is_json.simps)
  ultimately show ?thesis
    using d by (simp add: validate_payload_def require_json_payload_def
        del: freeze_json_value.simps)
qed

lemma holds_event_dump: "holds_event (obj_items (event_dump tm e)) tm e (thaw_json_value (payload e))"
  unfolding holds_event_def event_dump_def
  by (intro exI conjI; rule same_dict_obj)

lemma model_validate_dump_python:
  "wf_event e \<Longrightarrow>
   model_validate pd (model_dump_python e) = Inr (e\<lparr>payload := refreeze (payload e)\<rparr>)"
  unfolding model_dump_python_def
  by (rule model_validate_reads [OF _ _ holds_event_dump])
     (auto simp: pd_datetime_datetime wf_event_def validate_payload_thaw)

lemma model_copy_integrity_eq:
  assumes "wf_event e" "wf_integrity i"
  shows "model_copy_integrity pd e i
    = Inr (e\<lparr>ev_integrity := i, payload := refreeze (payload e)\<rparr>)"
proof -
  have "wf_event (e\<lparr>ev_integrity := i\<rparr>)"
    using assms by (simp add: wf_event_def validate_causality_def)
  from model_validate_dump_python [OF this] show ?thesis by (simp add: model_copy_integrity_def)
qed

text \<open>JSON mode: the dump sorted at every level, as it is read back from canonical bytes.\<close>

lemma canon_dumps [simp]:
  "map (\<lambda>(k, v). (k, canon v)) (source_dump s) = source_dump s"
  "map (\<lambda>(k, v). (k, canon v)) (correlation_dump c) = correlation_dump c"
  "map (\<lambda>(k, v). (k, canon v)) (causality_dump u) = causality_dump u"
  "map (\<lambda>(k, v). (k, canon v)) (principal_dump p) = principal_dump p"
  "map (\<lambda>(k, v). (k, canon v)) (classification_dump l) = classification_dump l"
  "map (\<lambda>(k, v). (k, canon v)) (integrity_dump i) = integrity_dump i"
  by (simp_all add: source_dump_def correlation_dump_def causality_dump_def principal_dump_def
      classification_dump_def integrity_dump_def canon_opt_str)

lemma distinct_dumps [simp]:
  "distinct (map fst (source_dump s))" "distinct (map fst (correlation_dump c))"
  "distinct (map fst (causality_dump u))" "distinct (map fst (principal_dump p))"
  "distinct (map fst (classification_dump l))" "distinct (map fst (integrity_dump i))"
  "distinct (map fst (event_dump tm e))"
  by (simp_all add: source_dump_def correlation_dump_def causality_dump_def principal_dump_def
      classification_dump_def integrity_dump_def event_dump_def)

lemma holds_event_canon:
  assumes "\<And>t. canon (tm t) = tm t"
  obtains d where "canon (obj (event_dump tm e)) = VDict d"
    "holds_event d tm e (canon (thaw_json_value (payload e)))"
proof -
  obtain d1 where d1: "canon (obj (source_dump (ev_source e))) = VDict d1"
    "same_dict d1 (source_dump (ev_source e))"
    using canon_obj_same [of "source_dump (ev_source e)"] by auto
  obtain d2 where d2: "canon (obj (correlation_dump (ev_correlation e))) = VDict d2"
    "same_dict d2 (correlation_dump (ev_correlation e))"
    using canon_obj_same [of "correlation_dump (ev_correlation e)"] by auto
  obtain d3 where d3: "canon (obj (causality_dump (ev_causality e))) = VDict d3"
    "same_dict d3 (causality_dump (ev_causality e))"
    using canon_obj_same [of "causality_dump (ev_causality e)"] by auto
  obtain d4 where d4: "canon (obj (principal_dump (ev_principal e))) = VDict d4"
    "same_dict d4 (principal_dump (ev_principal e))"
    using canon_obj_same [of "principal_dump (ev_principal e)"] by auto
  obtain d5 where d5: "canon (obj (classification_dump (ev_classification e))) = VDict d5"
    "same_dict d5 (classification_dump (ev_classification e))"
    using canon_obj_same [of "classification_dump (ev_classification e)"] by auto
  obtain d6 where d6: "canon (obj (integrity_dump (ev_integrity e))) = VDict d6"
    "same_dict d6 (integrity_dump (ev_integrity e))"
    using canon_obj_same [of "integrity_dump (ev_integrity e)"] by auto
  obtain d where d: "canon (obj (event_dump tm e)) = VDict d"
    "same_dict d (map (\<lambda>(k, v). (k, canon v)) (event_dump tm e))"
    using canon_obj_same [of "event_dump tm e"] by auto
  have str: "canon (VStr s) = VStr s" for s by simp
  have "map (\<lambda>(k, v). (k, canon v)) (event_dump tm e) =
        [(''spec_version'', VStr (spec_version e)), (''event_id'', VStr (event_id e)),
         (''event_type'', VStr (event_type e)), (''occurred_at'', tm (occurred_at e)),
         (''observed_at'', tm (observed_at e)), (''source'', VDict d1), (''correlation'', VDict d2),
         (''causality'', VDict d3), (''principal'', VDict d4), (''classification'', VDict d5),
         (''payload'', canon (thaw_json_value (payload e))), (''integrity'', VDict d6)]"
    by (simp only: event_dump_def list.map prod.case str assms d1(1) d2(1) d3(1) d4(1) d5(1) d6(1))
  then have "holds_event d tm e (canon (thaw_json_value (payload e)))"
    unfolding holds_event_def using d1(2) d2(2) d3(2) d4(2) d5(2) d6(2) d(2)
    by (intro exI conjI) (assumption | simp)+
  then show ?thesis using that d(1) by blast
qed

lemma model_validate_canon_json:
  assumes "wf_event e"
  shows "model_validate pd (canon (model_json pd e)) = Inr (event_canon e)"
proof -
  obtain d where d: "canon (model_json pd e) = VDict d"
    "holds_event d (\<lambda>t. VStr (pd_dump_datetime pd t)) e (canon (thaw_json_value (payload e)))"
    using holds_event_canon [of "\<lambda>t. VStr (pd_dump_datetime pd t)" e]
    unfolding model_json_def by auto
  show ?thesis
    unfolding d(1) event_canon_def
    by (rule model_validate_reads [OF assms _ d(2)])
       (use assms in \<open>auto simp: pd_datetime_dumped wf_event_def validate_payload_canon\<close>)
qed

end

subsection \<open>Validation establishes the invariant\<close>

lemma min1_strD: "min1_str pd v = Some s \<Longrightarrow> wf_str s"
  by (auto simp: min1_str_def wf_str_def split: option.splits if_splits)

lemma opt_min1_strD: "opt_min1_str pd v = Some o1 \<Longrightarrow> wf_opt o1"
  by (auto simp: opt_min1_str_def wf_opt_def dest: min1_strD split: if_splits)

lemma fieldD: "field d k f = Some x \<Longrightarrow> \<exists>v. f v = Some x"
  by (auto simp: field_def split: option.splits)

lemma field_str_wf: "field d k (min1_str pd) = Some s \<Longrightarrow> wf_str s"
  using fieldD min1_strD by metis

lemma field_opt_wf: "field_default d k (opt_min1_str pd) None = Some o1 \<Longrightarrow> wf_opt o1"
  by (auto simp: field_default_def dest: opt_min1_strD split: option.splits)
     (simp add: wf_opt_def)

lemmas field_wf = field_str_wf field_opt_wf

lemma model_fieldsD: "model_fields pd names f v = Some x \<Longrightarrow> \<exists>d. f d = Some x"
  by (auto simp: model_fields_def split: option.splits if_splits)

lemma validate_source_wf: "validate_source pd v = Some s \<Longrightarrow> wf_source s"
  unfolding validate_source_def
  by (drule model_fieldsD) (auto simp: wf_source_def bind_eq_Some_conv dest: field_wf)

lemma validate_correlation_wf: "validate_correlation pd v = Some s \<Longrightarrow> wf_correlation s"
  unfolding validate_correlation_def
  by (drule model_fieldsD) (auto simp: wf_correlation_def bind_eq_Some_conv dest: field_wf)

lemma nonneg_intD: "field d k (nonneg_int pd) = Some i \<Longrightarrow> 0 \<le> i"
  by (drule fieldD) (auto simp: nonneg_int_def split: option.splits if_splits)

lemma validate_causality_fields_wf: "validate_causality_fields pd v = Some s \<Longrightarrow> wf_causality s"
  unfolding validate_causality_fields_def
  by (drule model_fieldsD)
     (auto simp: wf_causality_def bind_eq_Some_conv dest: field_wf nonneg_intD)

lemma validate_principal_wf: "validate_principal pd v = Some s \<Longrightarrow> wf_principal s"
  unfolding validate_principal_def
  by (drule model_fieldsD) (auto simp: wf_principal_def bind_eq_Some_conv dest: field_wf)

lemma validate_integrity_wf: "validate_integrity pd v = Some s \<Longrightarrow> wf_integrity s"
  unfolding validate_integrity_def
  by (drule model_fieldsD) (auto simp: wf_integrity_def bind_eq_Some_conv dest: field_wf)

lemma wf_default_integrity: "wf_integrity default_integrity"
  by (simp add: wf_integrity_def default_integrity_def wf_opt_def)

lemma field_default_integrity_wf:
  "field_default d k (validate_integrity pd) default_integrity = Some i \<Longrightarrow> wf_integrity i"
  by (auto simp: field_default_def wf_default_integrity dest: validate_integrity_wf
      split: option.splits)

lemma literal_spec_versionD:
  "field_default d k literal_spec_version SPEC_VERSION = Some sv \<Longrightarrow> sv = SPEC_VERSION"
  by (auto simp: field_default_def literal_spec_version_def split: option.splits if_splits)

lemma py_ok_get_item: "py_ok (VDict d) \<Longrightarrow> get_item d k = Some v \<Longrightarrow> py_ok v"
  by (auto simp: get_item_def list_all_iff dest!: dget_Some_in)

context pydantic_laws begin

lemma validate_payload_wf: "validate_payload pd v = Some w \<Longrightarrow> py_ok v \<Longrightarrow> wf_payload w"
  by (auto simp: validate_payload_def bind_eq_Some_conv
      intro: require_json_payload_wf pd_mapping_ok simp del: py_ok.simps)

lemma field_payload_wf:
  "field_default d k (validate_payload pd) (VDict []) = Some w \<Longrightarrow> py_ok (VDict d) \<Longrightarrow> wf_payload w"
  by (auto simp: field_default_def simp del: py_ok.simps
      dest: py_ok_get_item validate_payload_wf split: option.splits)
     (simp add: wf_payload_def)

lemma timestamp_field_utc:
  assumes "timestamp_field pd d k = Inr (Some u)" "py_ok (VDict d)"
  shows "is_utc u"
proof -
  obtain v t where t: "get_item d k = Some v" "pd_datetime pd v = Some t"
    "require_aware_utc t = Inr (Some u)"
    using assms(1) by (auto simp: timestamp_field_def field_def split: option.splits)
  have "dt_ok t" using t py_ok_get_item [OF assms(2)] pd_datetime_ok by blast
  then show ?thesis
    using t(3) utc_of_aware_is_utc
    by (auto simp: require_aware_utc_def bnd_Inr_iff split: option.splits)
qed

lemma build_event_wf:
  assumes "build_event pd (Some occ) (Some obs) d = Some e" "py_ok (VDict d)"
    and "is_utc occ" "is_utc obs" "validate_causality e"
  shows "wf_event e"
proof -
  have f: "field d k (validate_source pd) = Some s \<Longrightarrow> wf_source s"
    "field d k (validate_correlation pd) = Some c \<Longrightarrow> wf_correlation c"
    "field d k (validate_causality_fields pd) = Some u \<Longrightarrow> wf_causality u"
    "field d k (validate_principal pd) = Some p \<Longrightarrow> wf_principal p" for k s c u p
    using fieldD validate_source_wf validate_correlation_wf validate_causality_fields_wf
      validate_principal_wf by metis+
  show ?thesis
    using assms
    by (auto simp: build_event_def bind_eq_Some_conv wf_event_def simp del: py_ok.simps
        intro: f field_str_wf field_payload_wf field_default_integrity_wf
        dest: literal_spec_versionD)
qed

lemma model_validate_wf:
  assumes "model_validate pd v = Inr e" "py_ok v"
  shows "wf_event e"
proof -
  obtain d where d: "pd_fields pd v = Some d"
    using assms(1) by (auto simp: model_validate_def validation_error_def split: option.splits)
  have ok: "py_ok (VDict d)" using d assms(2) by (rule pd_fields_ok)
  obtain occ obs where ts: "timestamp_field pd d ''occurred_at'' = Inr occ"
    "timestamp_field pd d ''observed_at'' = Inr obs"
    and b: "build_event pd occ obs d = Some e" "validate_causality e"
    using assms(1) d
    by (auto simp: model_validate_def validation_error_def bnd_Inr_iff split: option.splits if_splits)
  obtain t u where tu: "occ = Some t" "obs = Some u"
    using b(1) by (auto simp: build_event_def bind_eq_Some_conv)
  show ?thesis
    using build_event_wf [of t u d e] b ts ok timestamp_field_utc [OF _ ok] by (simp add: tu)
qed

end

section \<open>An instance\<close>

text \<open>
  Strict validation over the modelled standard library: each declared type accepts its own
  Python type, a timestamp also its ISO 8601 text (\<open>fromisoformat\<close>), and a datetime is dumped
  as \<open>canonical_timestamp\<close> writes it, in UTC with a final \<open>Z\<close>.
\<close>

definition iso_z :: "datetime \<Rightarrow> string" where
  "iso_z t = iso_date t @ ''T'' @ iso_time t @ ''Z''"

fun is_KStr :: "pykey \<Rightarrow> bool" where
  "is_KStr (KStr s) = True"
| "is_KStr (KOther t) = False"

definition strict_pydantic :: pydantic where
  "strict_pydantic =
     \<lparr>pd_fields = map_items,
      pd_mapping = (\<lambda>v. case map_items v of
         None \<Rightarrow> None | Some d \<Rightarrow> if list_all (\<lambda>(k, v). is_KStr k) d then Some d else None),
      pd_str = (\<lambda>v. case v of VStr s \<Rightarrow> Some s | _ \<Rightarrow> None),
      pd_int = (\<lambda>v. case v of VInt i \<Rightarrow> Some i | _ \<Rightarrow> None),
      pd_float = (\<lambda>v. case v of VFloat f \<Rightarrow> Some f | _ \<Rightarrow> None),
      pd_list = (\<lambda>v. case seq_kind v of Some (k, xs) \<Rightarrow> Some xs | None \<Rightarrow> None),
      pd_datetime = (\<lambda>v. case v of VDatetime t \<Rightarrow> Some t | VStr s \<Rightarrow> iso_parse s | _ \<Rightarrow> None),
      pd_dump_datetime = iso_z\<rparr>"

lemma map_items_ok: "map_items v = Some d \<Longrightarrow> py_ok v \<Longrightarrow> py_ok (VDict d)"
  by (cases v) auto

interpretation strict: pydantic_laws strict_pydantic
proof
  fix d :: pydict
  assume "\<forall>p\<in>set d. \<exists>s. fst p = KStr s"
  then show "pd_mapping strict_pydantic (VDict d) = Some d"
    by (auto simp: strict_pydantic_def list_all_iff)
next
  fix t :: datetime
  assume "is_utc t"
  then show "pd_datetime strict_pydantic (VStr (pd_dump_datetime strict_pydantic t)) = Some t"
    using iso_parse_utc [of t "''Z''" "CHR ''T''"] by (simp add: strict_pydantic_def iso_z_def)
next
  fix t :: datetime
  have d: "c \<in> set (pad_repr w n) \<Longrightarrow> byte c < 128" for c w n
    using pad_repr_digits [of c w n] by (simp add: is_digit_def)
  have "\<forall>c\<in>set (iso_z t). byte c < 128"
    by (auto simp: iso_z_def iso_date_def iso_time_def dest: d) (auto simp: byte_def)
  then show "utf8_ok False (pd_dump_datetime strict_pydantic t)"
    by (simp add: strict_pydantic_def utf8_ok_ascii)
next
  fix v d
  assume "pd_mapping strict_pydantic v = Some d" "py_ok v"
  then show "py_ok (VDict d)"
    using map_items_ok by (auto simp: strict_pydantic_def split: option.splits if_splits)
next
  fix v d
  assume "pd_fields strict_pydantic v = Some d" "py_ok v"
  then show "py_ok (VDict d)"
    using map_items_ok by (auto simp: strict_pydantic_def)
next
  fix v t
  assume "pd_datetime strict_pydantic v = Some t" "py_ok v"
  then show "dt_ok t"
    by (auto simp: strict_pydantic_def dest: iso_parse_ok split: pyv.splits)
qed (simp_all add: strict_pydantic_def)

end
