(* ===== verification/Serialization.thy ===== *)
theory Serialization
  imports Envelope
begin

text \<open>
  \<open>domain/serialization.py\<close> and the exceptions of \<open>errors.py\<close> it raises: the normalisation of an
  event to JSON values, the deterministic bytes, and the strict parser. The redaction boundary of
  \<open>serialize_event_for_persistence\<close> is a function argument here; \<open>Redaction\<close> models the policy
  the code passes.

  The interpreter's recursion limit is not modelled: where the nesting of a text exceeds it,
  \<open>json.loads\<close> raises \<open>RecursionError\<close>, here the text is parsed at any depth.

  The main results are the round trip \<open>event_from_json_serialize\<close>, that serialization depends
  only on the normal form (\<open>serialize_event_canon\<close>), and when it succeeds
  (\<open>event_to_dict_Inr_iff\<close>).
\<close>

section \<open>Timestamps\<close>

text \<open>\<open>s.replace(old, new)\<close>.\<close>

function py_replace :: "string \<Rightarrow> string \<Rightarrow> string \<Rightarrow> string" where
  "py_replace old new s =
     (if old \<noteq> [] \<and> py_startswith s old then new @ py_replace old new (drop (length old) s)
      else case s of [] \<Rightarrow> [] | c # r \<Rightarrow> c # py_replace old new r)"
  by auto
termination
  by (relation "measure (\<lambda>(old, new, s). length s)")
     (auto dest: startswith_length simp: neq_Nil_conv)

declare py_replace.simps [simp del]

definition canonical_timestamp :: "datetime \<Rightarrow> string res" where
  "canonical_timestamp value =
     (case dt_offset value of
        None \<Rightarrow> raise ValueError ''timestamp must be timezone-aware''
      | Some off \<Rightarrow>
          bnd (utc_of_aware value off) (\<lambda>utc_value.
            Inr (py_replace ''+00:00'' ''Z'' (isoformat utc_value))))"

lemma py_replace_absent:
  "CHR ''+'' \<notin> set s \<Longrightarrow> py_replace (CHR ''+'' # p) new (s @ CHR ''+'' # p) = s @ new"
proof (induction s)
  case Nil
  then show ?case
    by (simp add: py_replace.simps [of _ _ "CHR ''+'' # p"] py_replace.simps [of _ _ "[]"]
        py_startswith_def)
next
  case (Cons c s)
  then have "c \<noteq> CHR ''+''" by auto
  with Cons show ?case
    by (simp add: py_replace.simps [of _ _ "c # s @ CHR ''+'' # p"])
qed

lemma no_plus_pad: "CHR ''+'' \<notin> set (pad_repr w n)"
proof
  assume "CHR ''+'' \<in> set (pad_repr w n)"
  then have "is_digit (CHR ''+'')" by (rule pad_repr_digits)
  then show False by (simp add: is_digit_def byte_def)
qed

lemma canonical_timestamp_utc: "is_utc t \<Longrightarrow> canonical_timestamp t = Inr (iso_z t)"
  using py_replace_absent [of "iso_date t @ ''T'' @ iso_time t" "''00:00''" "''Z''"]
  by (simp add: canonical_timestamp_def is_utc_def isoformat_def iso_z_def iso_offset_0
      iso_date_def iso_time_def no_plus_pad)

section \<open>Normalisation\<close>

text \<open>\<open>normalize_json\<close>; the sequences it accepts are \<open>list\<close> and \<open>tuple\<close>.\<close>

fun normalize_json :: "json_limits \<Rightarrow> nat \<Rightarrow> pyv \<Rightarrow> pyv res"
  and normalize_items :: "json_limits \<Rightarrow> nat \<Rightarrow> pyv list \<Rightarrow> pyv list res"
  and normalize_members :: "json_limits \<Rightarrow> nat \<Rightarrow> pydict \<Rightarrow> pydict res" where
  "normalize_json l n v =
     (if max_depth l < n then raise TypeError (''JSON depth exceeds '' @ nat_repr (max_depth l))
      else
        (case v of
           VDatetime t \<Rightarrow> bnd (canonical_timestamp t) (\<lambda>s. Inr (VStr s))
         | VDict d \<Rightarrow>
             if max_object_members l < length d
             then raise TypeError (''JSON object exceeds '' @ nat_repr (max_object_members l) @ '' members'')
             else bnd (normalize_members l n d) (\<lambda>d. Inr (VDict d))
         | VFrozenDict d \<Rightarrow>
             if max_object_members l < length d
             then raise TypeError (''JSON object exceeds '' @ nat_repr (max_object_members l) @ '' members'')
             else bnd (normalize_members l n d) (\<lambda>d. Inr (VDict d))
         | VList xs \<Rightarrow>
             if max_array_length l < length xs
             then raise TypeError (''JSON array exceeds '' @ nat_repr (max_array_length l) @ '' items'')
             else bnd (normalize_items l n xs) (\<lambda>xs. Inr (VList xs))
         | VTuple xs \<Rightarrow>
             if max_array_length l < length xs
             then raise TypeError (''JSON array exceeds '' @ nat_repr (max_array_length l) @ '' items'')
             else bnd (normalize_items l n xs) (\<lambda>xs. Inr (VList xs))
         | VFloat f \<Rightarrow>
             if is_finite f then Inr v else raise TypeError ''JSON numbers must be finite''
         | VNone \<Rightarrow> Inr v
         | VStr s \<Rightarrow> Inr v
         | VInt i \<Rightarrow> Inr v
         | VBool b \<Rightarrow> Inr v
         | _ \<Rightarrow> raise TypeError (''unsupported JSON value type: '' @ type_name v)))"
| "normalize_items l n [] = Inr []"
| "normalize_items l n (x # xs) =
     bnd (normalize_json l (Suc n) x) (\<lambda>y. bnd (normalize_items l n xs) (\<lambda>ys. Inr (y # ys)))"
| "normalize_members l n [] = Inr []"
| "normalize_members l n ((k, v) # d) =
     (case k of
        KOther t \<Rightarrow> raise TypeError ''JSON object keys must be strings''
      | KStr s \<Rightarrow>
          bnd (normalize_json l (Suc n) v) (\<lambda>w.
          bnd (normalize_members l n d) (\<lambda>e. Inr ((KStr s, w) # e))))"

declare normalize_json.simps [simp del]

lemma normalize_items_id:
  "normalize_items l n xs = Inr ys \<longleftrightarrow> list_all2 (\<lambda>x y. normalize_json l (Suc n) x = Inr y) xs ys"
  by (induction xs arbitrary: ys) (auto simp: bnd_Inr_iff list_all2_Cons1)

lemma normalize_members_id:
  "normalize_members l n d = Inr e \<longleftrightarrow>
     list_all2 (\<lambda>p q. fst q = fst p \<and> (\<exists>s. fst p = KStr s)
       \<and> normalize_json l (Suc n) (snd p) = Inr (snd q)) d e"
proof (induction d arbitrary: e)
  case (Cons p d)
  then show ?case
    by (cases p; cases "fst p") (auto simp: bnd_Inr_iff list_all2_Cons1)
qed auto

text \<open>
  On plain JSON values \<open>normalize_json\<close> is the identity, and it succeeds exactly when
  \<open>validate_json_value\<close> does at the same depth.
\<close>

lemma list_all2_id:
  "(\<And>x y. x \<in> set xs \<Longrightarrow> R x y \<longleftrightarrow> P x \<and> y = x) \<Longrightarrow>
   list_all2 R xs ys \<longleftrightarrow> (\<forall>x\<in>set xs. P x) \<and> ys = xs"
  by (induction xs arbitrary: ys) (auto simp: list_all2_Cons1)

lemma normalize_json_iff:
  "is_json v \<Longrightarrow>
   normalize_json l n v = Inr w \<longleftrightarrow> validate_json_value l n v = Inr () \<and> w = v"
proof (induction v arbitrary: n w rule: is_json.induct)
  case (2 xs)
  have "normalize_items l n xs = Inr ys
      \<longleftrightarrow> (\<forall>x\<in>set xs. validate_json_value l (Suc n) x = Inr ()) \<and> ys = xs" for ys
    unfolding normalize_items_id using 2 by (intro list_all2_id) (auto simp: list_all_iff)
  then show ?case by (auto simp: normalize_json.simps [of l n] validate_containers bnd_Inr_iff)
next
  case (3 d)
  have "normalize_members l n d = Inr e \<longleftrightarrow>
      (\<forall>p\<in>set d. (\<exists>s. fst p = KStr s) \<and> validate_json_value l (Suc n) (snd p) = Inr ()) \<and> e = d" for e
    unfolding normalize_members_id
  proof (rule list_all2_id)
    fix p q assume p: "p \<in> set d"
    then obtain s v where "p = (KStr s, v)" "is_json v"
      using 3(2) by (metis prod.collapse str_members_iff is_json.simps(3))
    then show "(fst q = fst p \<and> (\<exists>s. fst p = KStr s)
        \<and> normalize_json l (Suc n) (snd p) = Inr (snd q)) \<longleftrightarrow>
        ((\<exists>s. fst p = KStr s) \<and> validate_json_value l (Suc n) (snd p) = Inr ()) \<and> q = p"
      using 3(1) [OF p, of "KStr s" v s] by (cases q) auto
  qed
  then show ?case by (auto simp: normalize_json.simps [of l n] validate_containers bnd_Inr_iff)
qed (auto simp: normalize_json.simps)

section \<open>Bytes\<close>

definition deterministic_json_bytes :: "pyv \<Rightarrow> bytes res" where
  "deterministic_json_bytes v = bnd (dumps v) py_encode"

definition event_to_dict :: "pydantic \<Rightarrow> event \<Rightarrow> pyv res" where
  "event_to_dict pd e = normalize_json default_limits 0 (model_json pd e)"

definition serialize_event :: "pydantic \<Rightarrow> event \<Rightarrow> bytes res" where
  "serialize_event pd e = bnd (event_to_dict pd e) deterministic_json_bytes"

text \<open>
  \<open>serialize_event_for_persistence\<close>: any exception of the redaction, and a result that is not
  a dict, become a \<open>RedactionError\<close>. \<open>apply_policy\<close> is \<open>policy.apply\<close>.
\<close>

definition redact_event_dict :: "pydantic \<Rightarrow> (pyv \<Rightarrow> pyv res) \<Rightarrow> event \<Rightarrow> pyv res" where
  "redact_event_dict pd apply_policy e =
     (case bnd (event_to_dict pd e) apply_policy of
        Inl err \<Rightarrow> raise RedactionError ''redaction failed before event serialization''
      | Inr redacted \<Rightarrow>
          (case redacted of
             VDict d \<Rightarrow> Inr redacted
           | _ \<Rightarrow> raise RedactionError ''event redaction produced a non-object value''))"

definition serialize_event_for_persistence ::
  "pydantic \<Rightarrow> (pyv \<Rightarrow> pyv res) \<Rightarrow> event \<Rightarrow> bytes res" where
  "serialize_event_for_persistence pd apply_policy e =
     bnd (redact_event_dict pd apply_policy e) deterministic_json_bytes"

section \<open>Parsing\<close>

definition strict_json_loads :: "bytes \<Rightarrow> pyv res" where
  "strict_json_loads data = loads_bytes True data"

definition event_from_json :: "pydantic \<Rightarrow> bytes \<Rightarrow> event res" where
  "event_from_json pd data = bnd (strict_json_loads data) (model_validate pd)"

text \<open>
  \<open>EventParseError\<close> of \<open>errors.py\<close>. The field path pydantic reports for a validation error is
  not modelled; the message is the one without a path.
\<close>

definition EventParseError_new :: "string option \<Rightarrow> exn" where
  "EventParseError_new first_error_path =
     Raise EventParseError
       (''event data is not a valid ActionLineage event'' @
        (case first_error_path of None \<Rightarrow> [] | Some p \<Rightarrow> ''; first invalid field: '' @ p))"

definition parse_event :: "pydantic \<Rightarrow> bytes \<Rightarrow> event res" where
  "parse_event pd data =
     (case event_from_json pd data of
        Inl err \<Rightarrow>
          if is_a (exn_kind err) ValueError then Inl (EventParseError_new None) else Inl err
      | Inr e \<Rightarrow> Inr e)"

lemma parse_event_Inr_iff [simp]: "parse_event pd data = Inr e \<longleftrightarrow> event_from_json pd data = Inr e"
  by (auto simp: parse_event_def split: sum.splits)

section \<open>When serialization succeeds\<close>

lemma is_json_opt_str [simp]: "is_json (opt_str s)"
  by (cases s) auto

lemma is_json_obj:
  "distinct (map fst kvs) \<Longrightarrow> \<forall>p\<in>set kvs. is_json (snd p) \<Longrightarrow> is_json (obj kvs)"
  using json_members_obj [of kvs] json_members_dict by blast

lemma is_json_dumps [simp]:
  "is_json (obj (source_dump s))" "is_json (obj (correlation_dump c))"
  "is_json (obj (causality_dump u))" "is_json (obj (principal_dump p))"
  "is_json (obj (classification_dump l))" "is_json (obj (integrity_dump i))"
  by (rule is_json_obj; simp add: source_dump_def correlation_dump_def causality_dump_def
      principal_dump_def classification_dump_def integrity_dump_def)+

lemma wf_payload_is_json: "wf_payload w \<Longrightarrow> is_json (thaw_json_value w)"
  using thaw_json by (auto simp: wf_payload_def)

lemma is_json_model_json: "wf_event e \<Longrightarrow> is_json (model_json pd e)"
  unfolding model_json_def
  by (rule is_json_obj; simp add: event_dump_def wf_event_def wf_payload_is_json
      del: is_json.simps(2,3))

text \<open>
  The payload is validated as the root of its own document, and serialized one level below the
  root of the event: an event serializes to a dict exactly when its payload is valid one level
  deeper.
\<close>

lemma validate_obj_iff:
  "validate_json_value default_limits n (obj kvs) = Inr u \<longleftrightarrow>
     n \<le> 64 \<and> length kvs \<le> 4096
     \<and> (\<forall>p\<in>set kvs. validate_json_value default_limits (Suc n) (snd p) = Inr ())"
  by (auto simp: validate_containers default_limits_def DEFAULT_JSON_MAX_DEPTH_def
      DEFAULT_JSON_MAX_OBJECT_MEMBERS_def)

lemma validate_opt_str [simp]:
  "validate_json_value l n (opt_str s) = Inr u \<longleftrightarrow> n \<le> max_depth l"
  by (cases s) auto

lemma depth_64 [simp]: "max_depth default_limits = 64"
  by (simp add: default_limits_def DEFAULT_JSON_MAX_DEPTH_def)

lemma validate_dumps [simp]:
  "validate_json_value default_limits 1 (obj (source_dump s)) = Inr ()"
  "validate_json_value default_limits 1 (obj (correlation_dump c)) = Inr ()"
  "validate_json_value default_limits 1 (obj (causality_dump u)) = Inr ()"
  "validate_json_value default_limits 1 (obj (principal_dump p)) = Inr ()"
  "validate_json_value default_limits 1 (obj (classification_dump l)) = Inr ()"
  "validate_json_value default_limits 1 (obj (integrity_dump i)) = Inr ()"
  by (simp only: validate_obj_iff; simp add: source_dump_def correlation_dump_def
      causality_dump_def principal_dump_def classification_dump_def integrity_dump_def)+

lemma event_to_dict_iff:
  assumes "wf_event e"
  shows "event_to_dict pd e = Inr w \<longleftrightarrow>
     validate_json_value default_limits 1 (thaw_json_value (payload e)) = Inr () \<and> w = model_json pd e"
proof -
  have "validate_json_value default_limits 0 (model_json pd e) = Inr () \<longleftrightarrow>
      validate_json_value default_limits 1 (thaw_json_value (payload e)) = Inr ()"
    unfolding model_json_def validate_obj_iff
    using validate_dumps by (simp add: event_dump_def)
  then show ?thesis
    using normalize_json_iff [OF is_json_model_json [OF assms], of default_limits 0 pd w]
    by (simp add: event_to_dict_def)
qed

section \<open>Serialization depends on the normal form only\<close>

lemma ex_list_all2: "(\<exists>ys. list_all2 R xs ys) \<longleftrightarrow> (\<forall>x\<in>set xs. \<exists>y. R x y)"
  by (induction xs) (auto simp: list_all2_Cons1)

lemma ex_dumps_list: "(\<exists>ss. dumps_list xs = Inr ss) \<longleftrightarrow> (\<forall>x\<in>set xs. \<exists>s. dumps x = Inr s)"
  by (simp add: dumps_list_Inr_iff ex_list_all2)

lemma ex_dumps_members:
  "(\<exists>ps. dumps_members d = Inr ps) \<longleftrightarrow>
     (\<forall>p\<in>set d. (\<exists>k. fst p = KStr k) \<and> (\<exists>s. dumps (snd p) = Inr s))"
  by (simp add: dumps_members_Inr_iff ex_list_all2 dumps_member_def)

lemma ex_dumps_container:
  "(\<exists>s. dumps (VList xs) = Inr s) \<longleftrightarrow> (\<forall>x\<in>set xs. \<exists>s. dumps x = Inr s)"
  "(\<exists>s. dumps (VDict d) = Inr s) \<longleftrightarrow>
     (\<forall>p\<in>set d. (\<exists>k. fst p = KStr k) \<and> (\<exists>s. dumps (snd p) = Inr s))"
  by (simp_all add: bnd_Inr_iff flip: ex_dumps_list ex_dumps_members)

lemma ex_dumps_canon:
  "is_json v \<Longrightarrow> (\<exists>s. dumps (canon v) = Inr s) \<longleftrightarrow> (\<exists>s. dumps v = Inr s)"
proof (induction v rule: is_json.induct)
  case (2 xs)
  then show ?case
    by (simp add: ex_dumps_container list_all_iff del: dumps.simps)
next
  case (3 d)
  have "(\<exists>s. dumps (canon (snd p)) = Inr s) \<longleftrightarrow> (\<exists>s. dumps (snd p) = Inr s)" if p: "p \<in> set d" for p
  proof -
    obtain s v where "p = (KStr s, v)" "is_json v"
      using 3(2) p by (metis prod.collapse str_members_iff is_json.simps(3))
    then show ?thesis using 3(1) [OF p, of "KStr s" v s] by simp
  qed
  then have "(\<forall>p\<in>set d. (\<exists>k. fst p = KStr k) \<and> (\<exists>s. dumps (canon (snd p)) = Inr s)) \<longleftrightarrow>
      (\<forall>p\<in>set d. (\<exists>k. fst p = KStr k) \<and> (\<exists>s. dumps (snd p) = Inr s))" by blast
  then show ?case
    by (simp add: ex_dumps_container split_beta del: dumps.simps)
qed simp_all

lemma dumps_canon_list:
  "\<forall>x\<in>set xs. \<forall>s. dumps x = Inr s \<longrightarrow> dumps (f x) = Inr s \<Longrightarrow> dumps_list xs = Inr ss \<Longrightarrow>
   dumps_list (map f xs) = Inr ss"
  by (induction xs arbitrary: ss) (auto simp: bnd_Inr_iff)

lemma dumps_canon_members:
  assumes "\<forall>p\<in>set d. \<forall>s. dumps (snd p) = Inr s \<longrightarrow> dumps (canon (snd p)) = Inr s"
    and "dumps_members d = Inr ps"
  shows "dumps_members (sort_key (\<lambda>p. key_str (fst p)) (map (\<lambda>(k, v). (k, canon v)) d))
    = Inr (key_sort ps)"
proof -
  have "list_all2 dumps_member (map (\<lambda>(k, v). (k, canon v)) d) ps"
    unfolding list_all2_map1
    using assms(2) [unfolded dumps_members_Inr_iff]
    by (rule list.rel_mono_strong) (use assms(1) in \<open>auto simp: dumps_member_def\<close>)
  then show ?thesis
    unfolding dumps_members_Inr_iff key_sort_def
    by (rule list_all2_sort_key) (auto simp: dumps_member_def)
qed

lemma dumps_canon: "is_json v \<Longrightarrow> dumps v = Inr s \<Longrightarrow> dumps (canon v) = Inr s"
proof (induction v arbitrary: s rule: is_json.induct)
  case (2 xs)
  from 2(3) obtain ss where ss: "dumps_list xs = Inr ss" "s = ''['' @ join_with '','' ss @ '']''"
    by (auto simp: bnd_Inr_iff)
  have "\<forall>x\<in>set xs. \<forall>s. dumps x = Inr s \<longrightarrow> dumps (canon x) = Inr s"
    using 2 by (simp add: list_all_iff)
  then show ?case using ss dumps_canon_list by simp
next
  case (3 d)
  from 3(3) obtain ps where ps: "dumps_members d = Inr ps"
    "s = ''{'' @ join_with '','' (map json_member (key_sort ps)) @ ''}''"
    by (auto simp: bnd_Inr_iff)
  have "\<forall>p\<in>set d. \<forall>s. dumps (snd p) = Inr s \<longrightarrow> dumps (canon (snd p)) = Inr s"
  proof
    fix p assume p: "p \<in> set d"
    then obtain s v where "p = (KStr s, v)" "is_json v"
      using 3(2) by (metis prod.collapse str_members_iff is_json.simps(3))
    then show "\<forall>s. dumps (snd p) = Inr s \<longrightarrow> dumps (canon (snd p)) = Inr s"
      using 3(1) [OF p, of "KStr s" v s] by simp
  qed
  from dumps_canon_members [OF this ps(1)] show ?case
    using ps(2) by (simp add: key_sort_def)
qed simp_all

lemma dumps_canon_iff: "is_json v \<Longrightarrow> dumps (canon v) = Inr s \<longleftrightarrow> dumps v = Inr s"
  using ex_dumps_canon dumps_canon by (metis sum.inject(2))

section \<open>When the bytes exist\<close>

lemma utf8_ok_append: "utf8_ok sp s \<Longrightarrow> utf8_ok sp (s @ t) \<longleftrightarrow> utf8_ok sp t"
proof (induction sp s rule: utf8_ok.induct)
  case (2 sp c cs)
  define b where "b = byte c"
  have ok: "utf8_ok sp (c # cs)" by fact
  consider "b < 128" | "194 \<le> b" "b < 224" | "224 \<le> b" "b < 240" | "240 \<le> b" "b < 245"
    | "\<not> b < 128" "\<not> (194 \<le> b \<and> b < 224)" "\<not> (224 \<le> b \<and> b < 240)" "\<not> (240 \<le> b \<and> b < 245)"
    by linarith
  then show ?case
  proof cases
    case 1
    with ok "2.IH" show ?thesis by (simp add: b_def)
  next
    case 2
    with ok "2.IH" show ?thesis by (auto simp: b_def split: list.splits)
  next
    case 3
    with ok "2.IH" show ?thesis by (auto simp: b_def Let_def split: list.splits)
  next
    case 4
    with ok "2.IH" show ?thesis by (auto simp: b_def Let_def split: list.splits)
  next
    case 5
    with ok show ?thesis by (auto simp: b_def Let_def split: if_split_asm)
  qed
qed simp

lemma utf8_ok_ascii_Cons: "byte c < 128 \<Longrightarrow> utf8_ok sp (c # s) \<longleftrightarrow> utf8_ok sp s"
  by simp

lemma json_char_ascii: "byte c < 128 \<Longrightarrow> \<forall>d\<in>set (json_char c). byte d < 128"
proof -
  assume c: "byte c < 128"
  have "byte c < 32 \<Longrightarrow> byte c div 16 < 16 \<and> byte c mod 16 < 16" by simp
  moreover have "d < 16 \<Longrightarrow> byte (hex_char d) < 128" for d by (simp add: hex_char_def)
  ultimately show ?thesis
    using c by (auto simp: json_char_def dquote_def bslash_def) (auto simp: byte_def)
qed

lemma json_char_high: "\<not> byte c < 128 \<Longrightarrow> json_char c = [c]"
  by (auto simp: json_char_def dquote_def bslash_def byte_def)

lemma cont_byte_high: "cont_byte c \<Longrightarrow> \<not> byte c < 128"
  by (simp add: cont_byte_def)

lemma utf8_ok_json_chars: "utf8_ok sp s \<Longrightarrow> utf8_ok sp (concat (map json_char s))"
proof (induction sp s rule: utf8_ok.induct)
  case (2 sp c cs)
  define b where "b = byte c"
  have ok: "utf8_ok sp (c # cs)" by fact
  consider "b < 128" | "194 \<le> b" "b < 224" | "224 \<le> b" "b < 240" | "240 \<le> b" "b < 245"
    | "\<not> b < 128" "\<not> (194 \<le> b \<and> b < 224)" "\<not> (224 \<le> b \<and> b < 240)" "\<not> (240 \<le> b \<and> b < 245)"
    by linarith
  then show ?case
  proof cases
    case 1
    then have "utf8_ok sp (json_char c)" using json_char_ascii utf8_ok_ascii by (simp add: b_def)
    with 1 ok "2.IH" show ?thesis by (simp add: b_def utf8_ok_append)
  next
    case 2
    with ok "2.IH" show ?thesis
      by (auto simp: b_def json_char_high cont_byte_high split: list.splits)
  next
    case 3
    with ok "2.IH" show ?thesis
      by (auto simp: b_def Let_def json_char_high cont_byte_high split: list.splits)
  next
    case 4
    with ok "2.IH" show ?thesis
      by (auto simp: b_def Let_def json_char_high cont_byte_high split: list.splits)
  next
    case 5
    with ok show ?thesis by (auto simp: b_def Let_def split: if_split_asm)
  qed
qed simp

lemma utf8_ok_json_str: "utf8_ok sp s \<Longrightarrow> utf8_ok sp (json_str s)"
  by (simp add: json_str_def dquote_def byte_def utf8_ok_append utf8_ok_json_chars
      del: utf8_ok.simps(2) add: utf8_ok_ascii_Cons)

lemma utf8_ok_join: "utf8_ok sp sep \<Longrightarrow> \<forall>s\<in>set ss. utf8_ok sp s \<Longrightarrow> utf8_ok sp (join_with sep ss)"
  by (induction sep ss rule: join_with.induct) (auto simp: utf8_ok_append)

text \<open>
  A value whose bytes exist: its strings have no lone surrogate, its integers are short enough
  to print, its floats finite.
\<close>

fun encodable :: "pyv \<Rightarrow> bool" where
  "encodable VNone = True"
| "encodable (VBool b) = True"
| "encodable (VInt i) = (length (nat_repr (nat \<bar>i\<bar>)) \<le> max_int_digits)"
| "encodable (VFloat f) = is_finite f"
| "encodable (VStr s) = utf8_ok False s"
| "encodable (VList xs) = list_all encodable xs"
| "encodable (VTuple xs) = list_all encodable xs"
| "encodable (VDict d) =
     list_all (\<lambda>p. case p of (KStr k, v) \<Rightarrow> utf8_ok False k \<and> encodable v | _ \<Rightarrow> False) d"
| "encodable v = False"

definition encodes :: "pyv \<Rightarrow> bool" where
  "encodes v \<longleftrightarrow> (\<exists>s. dumps v = Inr s \<and> utf8_ok False s)"

lemma encodes_list: "\<forall>x\<in>set xs. encodes x \<Longrightarrow>
   \<exists>ss. dumps_list xs = Inr ss \<and> (\<forall>s\<in>set ss. utf8_ok False s)"
  by (induction xs) (auto simp: encodes_def)

lemma encodes_members: "\<forall>p\<in>set d. (\<exists>k. fst p = KStr k \<and> utf8_ok False k) \<and> encodes (snd p) \<Longrightarrow>
   \<exists>ps. dumps_members d = Inr ps \<and> (\<forall>p\<in>set ps. utf8_ok False (fst p) \<and> utf8_ok False (snd p))"
  by (induction d) (auto simp: encodes_def)

definition ascii :: "string \<Rightarrow> bool" where
  "ascii s \<longleftrightarrow> (\<forall>c\<in>set s. byte c < 128)"

lemma ascii_simps [simp]:
  "ascii []" "ascii (c # s) \<longleftrightarrow> byte c < 128 \<and> ascii s" "ascii (s @ t) \<longleftrightarrow> ascii s \<and> ascii t"
  by (auto simp: ascii_def)

lemma ascii_utf8: "ascii s \<Longrightarrow> utf8_ok sp s"
  by (simp add: ascii_def utf8_ok_ascii)

lemma ascii_nat_repr [simp]: "ascii (nat_repr n)"
  using nat_repr_digits [of _ n] by (fastforce simp: ascii_def is_digit_def)

lemma ascii_take_drop [simp]: "ascii s \<Longrightarrow> ascii (take n s)" "ascii s \<Longrightarrow> ascii (drop n s)"
  by (auto simp: ascii_def dest: in_set_takeD in_set_dropD)

lemma ascii_replicate [simp]: "byte c < 128 \<Longrightarrow> ascii (replicate n c)"
  by (auto simp: ascii_def)

lemma ascii_dec_repr [simp]: "ascii (dec_repr D k)"
  by (simp add: dec_repr_def exp_repr_def Let_def byte_def)

lemma ascii_float_repr: "ascii (float_repr f)"
  by (cases f) (auto simp: byte_def split: prod.splits)

lemma ascii_int_repr: "ascii (int_repr i)"
  by (simp add: int_repr_def byte_def)

lemma utf8_ok_key_member:
  "utf8_ok False k \<Longrightarrow> utf8_ok False s \<Longrightarrow> utf8_ok False (json_member (k, s))"
  using utf8_ok_json_str [of False k] by (simp add: json_member_def utf8_ok_append byte_def)

lemma encodes_VDict:
  assumes "\<forall>p\<in>set d. (\<exists>k. fst p = KStr k \<and> utf8_ok False k) \<and> encodes (snd p)"
  shows "encodes (VDict d)"
proof -
  obtain ps where ps: "dumps_members d = Inr ps"
    "\<forall>p\<in>set ps. utf8_ok False (fst p) \<and> utf8_ok False (snd p)"
    using encodes_members [OF assms] by blast
  have "utf8_ok False (join_with '','' (map json_member (key_sort ps)))"
    using ps(2) by (intro utf8_ok_join) (auto simp: utf8_ok_key_member byte_def)
  then show ?thesis
    using ps(1) by (simp add: encodes_def utf8_ok_append byte_def)
qed

lemma encodes_VList:
  assumes "\<forall>x\<in>set xs. encodes x"
  shows "encodes (VList xs)" "encodes (VTuple xs)"
proof -
  obtain ss where ss: "dumps_list xs = Inr ss" "\<forall>s\<in>set ss. utf8_ok False s"
    using encodes_list [OF assms] by blast
  have "utf8_ok False (join_with '','' ss)"
    using ss(2) by (intro utf8_ok_join) (auto simp: byte_def)
  then show "encodes (VList xs)" "encodes (VTuple xs)"
    using ss(1) by (simp_all add: encodes_def utf8_ok_append byte_def)
qed

lemma encodable_encodes: "encodable v \<Longrightarrow> encodes v"
proof (induction v rule: encodable.induct)
  case (3 i)
  then show ?case using ascii_utf8 [OF ascii_int_repr] by (simp add: encodes_def py_int_str_def)
next
  case (4 f)
  then show ?case using ascii_utf8 [OF ascii_float_repr]
    by (simp add: encodes_def del: float_repr.simps)
next
  case (5 s)
  then show ?case using utf8_ok_json_str by (simp add: encodes_def)
next
  case (6 xs)
  then show ?case by (intro encodes_VList) (auto simp: list_all_iff)
next
  case (7 xs)
  then show ?case by (intro encodes_VList) (auto simp: list_all_iff)
next
  case (8 d)
  show ?case
  proof (rule encodes_VDict, rule ballI)
    fix p assume p: "p \<in> set d"
    then have "case p of (KStr k, v) \<Rightarrow> utf8_ok False k \<and> encodable v | _ \<Rightarrow> False"
      using 8(2) by (auto simp: list_all_iff)
    then obtain k v where "p = (KStr k, v)" "utf8_ok False k" "encodable v"
      by (cases p; cases "fst p") auto
    then show "(\<exists>k. fst p = KStr k \<and> utf8_ok False k) \<and> encodes (snd p)"
      using 8(1) [OF p, of "KStr k" v k] by simp
  qed
qed (simp_all add: encodes_def byte_def)

text \<open>An event whose bytes exist.\<close>

lemma encodable_obj: "encodable (obj kvs) \<longleftrightarrow> (\<forall>p\<in>set kvs. utf8_ok False (fst p) \<and> encodable (snd p))"
  by (auto simp: list_all_iff)

definition serializable :: "event \<Rightarrow> bool" where
  "serializable e \<longleftrightarrow>
     encodable (thaw_json_value (payload e))
     \<and> validate_json_value default_limits 1 (thaw_json_value (payload e)) = Inr ()
     \<and> utf8_ok False (canonicalization (ev_integrity e))
     \<and> length (nat_repr (nat \<bar>sequence (ev_causality e)\<bar>)) \<le> max_int_digits"

section \<open>Events through their bytes\<close>

lemma serialize_event_iff:
  "wf_event e \<Longrightarrow> serialize_event pd e = Inr bs \<longleftrightarrow>
     validate_json_value default_limits 1 (thaw_json_value (payload e)) = Inr ()
     \<and> dumps (model_json pd e) = Inr bs \<and> utf8_ok False bs"
  by (auto simp: serialize_event_def deterministic_json_bytes_def bnd_Inr_iff event_to_dict_iff)

lemma canon_model_json:
  "wf_event e \<Longrightarrow> canon (model_json pd (event_canon e)) = canon (model_json pd e)"
  by (simp add: model_json_def event_dump_def event_canon_def thaw_canon_payload wf_event_def)

lemma serialize_event_canon:
  assumes "wf_event e"
  shows "serialize_event pd (event_canon e) = Inr bs \<longleftrightarrow> serialize_event pd e = Inr bs"
proof -
  have j: "is_json (thaw_json_value (payload e))" "wf_payload (payload e)"
    using assms wf_payload_is_json by (auto simp: wf_event_def)
  have t: "thaw_json_value (payload (event_canon e)) = canon (thaw_json_value (payload e))"
    using j by (simp add: event_canon_def thaw_canon_payload)
  have d: "dumps (model_json pd (event_canon e)) = Inr bs \<longleftrightarrow> dumps (model_json pd e) = Inr bs"
    using dumps_canon_iff [OF is_json_model_json [OF assms]]
      dumps_canon_iff [OF is_json_model_json [OF event_canon_wf [OF assms]]]
      canon_model_json [OF assms] by metis
  have "validate_json_value default_limits 1 (canon (thaw_json_value (payload e))) = Inr ()
    \<longleftrightarrow> validate_json_value default_limits 1 (thaw_json_value (payload e)) = Inr ()"
    using validate_canon_iff [OF j(1)] .
  then show ?thesis
    unfolding serialize_event_iff [OF assms] serialize_event_iff [OF event_canon_wf [OF assms]] t d
    by simp
qed

context pydantic_laws begin

theorem event_from_json_serialize:
  assumes "wf_event e" "serialize_event pd e = Inr bs"
  shows "event_from_json pd bs = Inr (event_canon e)"
proof -
  have d: "dumps (model_json pd e) = Inr bs" "utf8_ok False bs"
    using assms serialize_event_iff by blast+
  have "strict_json_loads bs = Inr (canon (model_json pd e))"
    using loads_bytes_dumps [of _ bs True] d(1) utf8_ok_surrogatepass [OF d(2)]
      is_json_model_json [OF assms(1), of pd]
    by (simp add: strict_json_loads_def model_json_def)
  then show ?thesis
    using model_validate_canon_json [OF assms(1)] by (simp add: event_from_json_def)
qed

text \<open>The text of an event parses back even where its bytes could not be written.\<close>

lemma event_from_json_dumps:
  assumes "wf_event e" "dumps (model_json pd e) = Inr s" "utf8_ok True s"
  shows "event_from_json pd s = Inr (event_canon e)"
proof -
  have "strict_json_loads s = Inr (canon (model_json pd e))"
    using loads_bytes_dumps [of _ s True] assms(2,3) is_json_model_json [OF assms(1), of pd]
    by (simp add: strict_json_loads_def model_json_def)
  then show ?thesis
    using model_validate_canon_json [OF assms(1)] by (simp add: event_from_json_def)
qed

lemma event_from_json_wf: "event_from_json pd bs = Inr e \<Longrightarrow> wf_event e"
  by (auto simp: event_from_json_def strict_json_loads_def bnd_Inr_iff
      intro: model_validate_wf is_json_py_ok dest: loads_bytes_is_json)

lemma serializable_bytes:
  assumes "wf_event e" "serializable e"
  obtains bs where "serialize_event pd e = Inr bs"
proof -
  note w = assms(1) [unfolded wf_event_def wf_source_def wf_correlation_def wf_causality_def
      wf_principal_def wf_integrity_def wf_str_def]
  have opt: "wf_opt o1 \<Longrightarrow> encodable (opt_str o1)" for o1
    by (cases o1) (auto simp: wf_opt_def wf_str_def)
  have enums: "utf8_ok False (PrincipalType_value p)" for p by (cases p) (simp_all add: byte_def)
  have enums2: "utf8_ok False (Sensitivity_value q)" for q by (cases q) (simp_all add: byte_def)
  have enums3: "utf8_ok False (TrustLevel_value r)" for r by (cases r) (simp_all add: byte_def)
  have nested: "encodable (obj (source_dump (ev_source e)))"
    "encodable (obj (correlation_dump (ev_correlation e)))"
    "encodable (obj (causality_dump (ev_causality e)))"
    "encodable (obj (principal_dump (ev_principal e)))"
    "encodable (obj (classification_dump (ev_classification e)))"
    "encodable (obj (integrity_dump (ev_integrity e)))"
    unfolding encodable_obj
    using w assms(2) opt enums enums2 enums3
    by (simp_all add: source_dump_def correlation_dump_def causality_dump_def principal_dump_def
        classification_dump_def integrity_dump_def serializable_def byte_def)
  have "encodable (model_json pd e)"
    unfolding model_json_def encodable_obj
    using w assms(2) nested
    by (simp add: event_dump_def serializable_def pd_dump_utf8 SPEC_VERSION_def byte_def
        del: encodable.simps(8))
  then obtain s where "dumps (model_json pd e) = Inr s" "utf8_ok False s"
    using encodable_encodes encodes_def by blast
  then show ?thesis
    using that assms serialize_event_iff [OF assms(1)] by (auto simp: serializable_def)
qed

end

end
