(* ===== verification/DomainClaims.thy ===== *)
theory DomainClaims
  imports Serialization
begin

text \<open>
  The properties of the event model and its serialization: validation and its invariant, the
  immutable payload, canonical bytes and their round trip, and what parsing may raise.
\<close>

section \<open>What parsing raises\<close>

definition value_errors :: "'a res \<Rightarrow> bool" where
  "value_errors r \<longleftrightarrow> (case r of Inl e \<Rightarrow> is_a (exn_kind e) ValueError | Inr _ \<Rightarrow> True)"

lemma value_errors_simps [simp]:
  "value_errors (Inr x)" "value_errors (raise k m) \<longleftrightarrow> is_a k ValueError"
  by (simp_all add: value_errors_def)

lemma value_errors_bnd:
  "value_errors r \<Longrightarrow> (\<And>x. r = Inr x \<Longrightarrow> value_errors (f x)) \<Longrightarrow> value_errors (bnd r f)"
  by (cases r) (auto simp: value_errors_def)

lemma value_errors_cases:
  "value_errors a \<Longrightarrow> value_errors b \<Longrightarrow> value_errors (if c then a else b)"
  "value_errors a \<Longrightarrow> (\<And>x xs'. value_errors (f x xs')) \<Longrightarrow>
   value_errors (case xs of [] \<Rightarrow> a | x # xs' \<Rightarrow> f x xs')"
  "value_errors a \<Longrightarrow> (\<And>x. value_errors (g x)) \<Longrightarrow>
   value_errors (case oo of None \<Rightarrow> a | Some x \<Rightarrow> g x)"
  "(\<And>x y. value_errors (h x y)) \<Longrightarrow> value_errors (case p of (x, y) \<Rightarrow> h x y)"
  "value_errors (k z) \<Longrightarrow> value_errors (let x = z in k x)"
  by (auto split: list.split option.split prod.split)

lemmas value_errors_intros = value_errors_bnd value_errors_cases

lemma scan_unicode_errors: "value_errors (scan_unicode s)"
  by (auto simp: scan_unicode_def split: list.split option.split)

lemma scan_str_errors: "value_errors (scan_str s)"
proof (induction "length s" arbitrary: s rule: less_induct)
  case less
  show ?case
  proof (cases s)
    case (Cons c cs)
    have IH: "length t < length s \<Longrightarrow> value_errors (scan_str t)" for t using less by blast
    have esc: "value_errors (bnd (scan_unicode r) (\<lambda>(u, r2).
        bnd (scan_str r2) (\<lambda>(t, rest). Inr (utf8_of_cp u @ t, rest))))"
      if "cs = e # r" for e r
    proof (rule value_errors_bnd [OF scan_unicode_errors])
      fix x assume x: "scan_unicode r = Inr x"
      obtain u r2 where u: "x = (u, r2)" by fastforce
      have "value_errors (scan_str r2)"
        using scan_unicode_length [of r u r2] x u that Cons by (intro IH) simp
      then show "value_errors ((\<lambda>(u, r2).
          bnd (scan_str r2) (\<lambda>(t, rest). Inr (utf8_of_cp u @ t, rest))) x)"
        unfolding u by (simp, intro value_errors_bnd) (simp_all split: prod.split)
    qed
    have plain: "value_errors (bnd (scan_str t) (\<lambda>(u, rest). Inr (d # u, rest)))"
      if "length t < length s" for t d
      by (intro value_errors_bnd IH [OF that]) (simp split: prod.split)
    show ?thesis
      unfolding Cons scan_str.simps(2)
      using Cons by (cases cs) (auto intro!: value_errors_cases esc plain)
  qed simp
qed

lemma scan_number_errors: "value_errors (scan_number s)"
  unfolding scan_number_def number_value_def
  by (intro value_errors_intros; simp)

lemma mk_dict_errors: "value_errors (mk_dict st kvs)"
  by (simp add: mk_dict_def)

lemma nonfinite_errors: "value_errors (nonfinite_token st f r)"
  by (simp add: nonfinite_token_def)

lemma parse_errors:
  "value_errors (p_val st n s) \<and> value_errors (p_items st n s) \<and> value_errors (p_members st n s)"
proof (induction n arbitrary: s)
  case (Suc n)
  have v: "value_errors (p_val st n s)" "value_errors (p_items st n s)"
    "value_errors (p_members st n s)" for s
    using Suc by simp_all
  show ?case
    unfolding p_val.simps p_items.simps p_members.simps
    by (intro conjI value_errors_intros scan_str_errors mk_dict_errors scan_number_errors
        nonfinite_errors v; simp)
qed simp

lemma strict_json_loads_errors: "value_errors (strict_json_loads bs)"
proof -
  have u: "value_errors (decode_utf8 s)" "value_errors (decode_utf16 be s)"
    "value_errors (decode_utf32 be s)" for s be
    by (auto simp: decode_utf8_def decode_utf16_def decode_utf32_def decode_error_def
        split: option.split)
  have d: "value_errors (json_decode bs)"
    by (simp add: json_decode_def Let_def u)
  show ?thesis
    unfolding strict_json_loads_def loads_bytes_def loads_def
    by (intro value_errors_bnd d conjunct1 [OF parse_errors]) (simp split: prod.split)
qed

text \<open>What validation itself may raise.\<close>

lemma timestamp_field_errors:
  "timestamp_field pd d k = Inl e \<Longrightarrow> exn_kind e = OverflowError"
  by (auto simp: timestamp_field_def require_aware_utc_def utc_of_aware_def bnd_Inl_iff Let_def
      split: option.splits if_splits)

lemma model_validate_errors:
  "model_validate pd v = Inl e \<Longrightarrow> exn_kind e = ValidationError \<or> exn_kind e = OverflowError"
  by (auto simp: model_validate_def validation_error_def bnd_Inl_iff dest: timestamp_field_errors
      split: option.splits if_splits)

section \<open>The normal form is equal to the value\<close>

lemma py_eq_members_iff:
  "py_eq_members c d \<longleftrightarrow> (\<forall>p\<in>set c. \<exists>w. dget d (fst p) = Some w \<and> py_eq (snd p) w)"
  by (induction c) (auto split: option.splits)

lemma py_eq_items_map_left: "\<forall>x\<in>set xs. py_eq (f x) x \<Longrightarrow> py_eq_items (map f xs) xs"
  by (induction xs) auto

lemma py_eq_canon: "is_json v \<Longrightarrow> validate_json_value l n v = Inr () \<Longrightarrow> py_eq (canon v) v"
proof (induction v arbitrary: n rule: is_json.induct)
  case (2 xs)
  then have "\<forall>x\<in>set xs. py_eq (canon x) x"
    by (metis is_json.simps(2) list_all_iff validate_containers(1))
  then show ?case by (simp add: py_eq_items_map_left seq_match_def)
next
  case (3 d)
  have eq: "py_eq (canon (snd p)) (snd p)" if p: "p \<in> set d" for p
  proof -
    obtain s v where "p = (KStr s, v)" "is_json v"
      using 3(2) p by (metis prod.collapse str_members_iff is_json.simps(3))
    then show ?thesis using 3(1) [OF p] 3(3) p by (auto simp: validate_containers)
  qed
  have "dget d (fst p) = Some (snd p)" if "p \<in> set d" for p
    using 3(2) that by (simp add: dget_map_of)
  then have "py_eq_members (sort_key (\<lambda>p. key_str (fst p)) (map (\<lambda>(k, v). (k, canon v)) d)) d"
    using eq by (auto simp: py_eq_members_iff)
  then show ?case by simp
qed (auto simp: scalar_eq_def)

section \<open>Sample values\<close>

definition sample_utc :: datetime where
  "sample_utc = \<lparr>d_year = 2026, d_month = 1, d_day = 2, dt_hour = 3, dt_minute = 4, dt_second = 5,
     dt_micro = 678, dt_offset = Some 0\<rparr>"

definition root_event :: "pyv \<Rightarrow> event" where
  "root_event pay =
     \<lparr>spec_version = SPEC_VERSION, event_id = ''e'', event_type = ''agent.run.started'',
      occurred_at = sample_utc, observed_at = sample_utc,
      ev_source = \<lparr>src_component = ''c'', src_instance_id = ''i'', src_version = ''1''\<rparr>,
      ev_correlation = \<lparr>trace_id = ''t'', run_id = ''r'', span_id = Some ''s'', session_id = None\<rparr>,
      ev_causality = \<lparr>root_event_id = ''e'', sequence = 0, parent_event_id = None\<rparr>,
      ev_principal = \<lparr>principal_id = ''p'', principal_type = PT_AGENT, on_behalf_of = None,
        model_id = None, credential_id = None\<rparr>,
      ev_classification = \<lparr>sensitivity = SE_INTERNAL, trust = TR_LOCAL\<rparr>,
      payload = pay, ev_integrity = default_integrity\<rparr>"

definition sample_payload :: pyv where
  "sample_payload = VFrozenDict [(KStr ''b'', VInt 2), (KStr ''a'', VFrozenList [VBool True, VNone])]"

lemma wf_root_event: "wf_payload pay \<Longrightarrow> wf_event (root_event pay)"
proof -
  have "wf_event (root_event (VDict []))" by code_simp
  then show "wf_payload pay \<Longrightarrow> ?thesis"
    by (simp add: wf_event_def root_event_def validate_causality_def)
qed

lemma wf_sample_payload: "wf_payload sample_payload"
  by code_simp

lemma serializable_root_event:
  "encodable (thaw_json_value pay) \<Longrightarrow>
   validate_json_value default_limits 1 (thaw_json_value pay) = Inr () \<Longrightarrow>
   serializable (root_event pay)"
proof -
  have "serializable (root_event (VDict []))" by code_simp
  then show "encodable (thaw_json_value pay) \<Longrightarrow>
      validate_json_value default_limits 1 (thaw_json_value pay) = Inr () \<Longrightarrow> ?thesis"
    by (simp add: serializable_def root_event_def)
qed

lemma serializable_sample: "serializable (root_event sample_payload)"
  by (rule serializable_root_event) code_simp+

definition dquoted :: "string \<Rightarrow> string \<Rightarrow> string \<Rightarrow> string \<Rightarrow> string" where
  "dquoted k v k' v' =
     ''{'' @ dquote # k @ dquote # '':'' @ v @ '','' @ dquote # k' @ dquote # '':'' @ v' @ ''}''"

section \<open>Properties\<close>

text \<open>C11. Round trip: the canonical bytes of an event parse back to the event with its payload
  in normal form, which has the same canonical bytes.\<close>
theorem event_round_trip:
  assumes "pydantic_laws pd" "wf_event e" "serialize_event pd e = Inr bs"
  shows "event_from_json pd bs = Inr (event_canon e) \<and> serialize_event pd (event_canon e) = Inr bs
    \<and> py_eq (thaw_json_value (payload (event_canon e))) (thaw_json_value (payload e))"
proof -
  have w: "wf_payload (payload e)" using assms(2) by (simp add: wf_event_def)
  have "py_eq (canon (thaw_json_value (payload e))) (thaw_json_value (payload e))"
    by (rule wf_payload_thaw [OF w]) (metis py_eq_canon)
  then show ?thesis
    using pydantic_laws.event_from_json_serialize [OF assms] serialize_event_canon [OF assms(2)]
      assms(3) w by (simp add: event_canon_def thaw_canon_payload)
qed

theorem event_round_trip_witness:
  "\<exists>bs. serialize_event strict_pydantic (root_event sample_payload) = Inr bs
    \<and> event_from_json strict_pydantic bs = Inr (event_canon (root_event sample_payload))"
proof -
  have w: "wf_event (root_event sample_payload)" by (rule wf_root_event [OF wf_sample_payload])
  obtain bs where "serialize_event strict_pydantic (root_event sample_payload) = Inr bs"
    by (rule strict.serializable_bytes [OF w serializable_sample])
  then show ?thesis using event_round_trip [OF strict.pydantic_laws_axioms w] by blast
qed

text \<open>C12. Validation establishes the invariant of the model: an event that \<open>model_validate\<close>
  accepts, from any Python value, has non-empty identifiers, UTC timestamps, a non-negative
  sequence number, a parent or a documented root type with itself as root, and a frozen payload
  within the limits; and an event with the invariant, dumped and validated again, is accepted.\<close>
theorem model_validate_invariant:
  assumes "pydantic_laws pd" "py_ok v" "model_validate pd v = Inr e"
  shows "wf_event e
    \<and> model_validate pd (model_dump_python e) = Inr (e\<lparr>payload := refreeze (payload e)\<rparr>)"
  using pydantic_laws.model_validate_wf [OF assms(1,3,2)]
    pydantic_laws.model_validate_dump_python [OF assms(1)] by blast

theorem model_validate_invariant_witness:
  "wf_event (root_event sample_payload)
    \<and> model_validate strict_pydantic (model_dump_python (root_event sample_payload))
      = Inr ((root_event sample_payload)\<lparr>payload := refreeze (payload (root_event sample_payload))\<rparr>)"
proof -
  have "model_validate strict_pydantic (model_dump_python (root_event sample_payload))
      = Inr (root_event sample_payload)"
    by code_simp
  moreover have "py_ok (model_dump_python (root_event sample_payload))" by code_simp
  ultimately show ?thesis
    using model_validate_invariant [OF strict.pydantic_laws_axioms] by blast
qed

text \<open>Canonical bytes are canonical: two JSON values have the same bytes exactly when their
  normal forms are the same, that is when they differ in the order of object members only.\<close>
theorem canonical_bytes_iff:
  assumes "is_json v" "is_json w" "deterministic_json_bytes v = Inr bs"
  shows "deterministic_json_bytes w = Inr bs \<longleftrightarrow> canon v = canon w"
proof -
  have d: "dumps v = Inr bs" "utf8_ok False bs"
    using assms(3) by (auto simp: deterministic_json_bytes_def bnd_Inr_iff)
  have "dumps w = Inr bs \<longleftrightarrow> canon v = canon w"
    using loads_dumps [OF d(1) assms(1), of True] loads_dumps [of w bs True] assms(2)
      dumps_canon_iff [OF assms(1)] dumps_canon_iff [OF assms(2)] d(1)
    by (metis sum.inject(2))
  then show ?thesis using d by (auto simp: deterministic_json_bytes_def bnd_Inr_iff)
qed

theorem canonical_bytes_iff_witness:
  "deterministic_json_bytes (obj [(''b'', VInt 1), (''a'', VNone)]) = Inr (dquoted ''a'' ''null'' ''b'' ''1'')
    \<and> deterministic_json_bytes (obj [(''a'', VNone), (''b'', VInt 1)]) = Inr (dquoted ''a'' ''null'' ''b'' ''1'')"
proof -
  have a: "deterministic_json_bytes (obj [(''b'', VInt 1), (''a'', VNone)])
      = Inr (dquoted ''a'' ''null'' ''b'' ''1'')"
    by code_simp
  have c: "canon (obj [(''b'', VInt 1), (''a'', VNone)]) = canon (obj [(''a'', VNone), (''b'', VInt 1)])"
    "is_json (obj [(''b'', VInt 1), (''a'', VNone)])" "is_json (obj [(''a'', VNone), (''b'', VInt 1)])"
    by code_simp+
  show ?thesis using canonical_bytes_iff [OF c(2,3) a] a c(1) by blast
qed

text \<open>Within the recursion limit of the interpreter (which is not modelled: beyond it \<open>json.loads\<close> raises
  \<open>RecursionError\<close>, which \<open>parse_event\<close> does not catch), whatever the bytes, \<open>parse_event\<close> returns a
  well-formed event or raises an \<open>EventParseError\<close>, or the \<open>OverflowError\<close> of a timestamp whose UTC time
  leaves the years 1 to 9999.\<close>
theorem parse_event_outcome:
  assumes "pydantic_laws pd"
  shows "(\<exists>e. parse_event pd bs = Inr e \<and> wf_event e)
    \<or> (\<exists>err. parse_event pd bs = Inl err
         \<and> (exn_kind err = EventParseError \<or> exn_kind err = OverflowError))"
proof (cases "event_from_json pd bs")
  case (Inr e)
  then show ?thesis using pydantic_laws.event_from_json_wf [OF assms] by auto
next
  case (Inl err)
  then have "is_a (exn_kind err) ValueError \<or> exn_kind err = OverflowError"
    using strict_json_loads_errors [of bs] model_validate_errors
    by (auto simp: event_from_json_def bnd_Inl_iff value_errors_def)
  then show ?thesis using Inl by (auto simp: parse_event_def EventParseError_new_def)
qed

theorem parse_event_outcome_witness:
  "(\<exists>e. parse_event strict_pydantic ''{}'' = Inr e \<and> wf_event e)
    \<or> (\<exists>err. parse_event strict_pydantic ''{}'' = Inl err
         \<and> (exn_kind err = EventParseError \<or> exn_kind err = OverflowError))"
  using parse_event_outcome [OF strict.pydantic_laws_axioms] by blast

lemma freeze_dict_frozen: "freeze_json_value (VDict d) = Inr x \<Longrightarrow> is_frozen_dict x"
  by (auto simp: bnd_Inr_iff)

lemma validate_payload_frozen: "validate_payload pd w = Some x \<Longrightarrow> is_frozen_dict x"
proof -
  assume "validate_payload pd w = Some x"
  then obtain m where m: "require_json_payload m = Some x"
    by (auto simp: validate_payload_def bind_eq_Some_conv)
  then have "freeze_json_value (VDict m) = Inr x"
    unfolding require_json_payload_def
    by (cases "validate_json_value default_limits 0 (VDict m)"; cases "freeze_json_value (VDict m)")
      (auto simp del: freeze_json_value.simps split: sum.splits)
  then show ?thesis by (rule freeze_dict_frozen)
qed

text \<open>The payload of a validated event is immutable exactly when it was given: a given
  payload becomes a frozen object, on which every mutation raises \<open>TypeError\<close>; an omitted one is
  the unvalidated default, a plain dict.\<close>
theorem payload_immutable_iff_given:
  assumes "model_validate pd v = Inr e" "pd_fields pd v = Some d"
  shows "(get_item d ''payload'' \<noteq> None \<longleftrightarrow> is_frozen_dict (payload e))
    \<and> (get_item d ''payload'' = None \<longrightarrow> payload e = VDict [])
    \<and> FrozenJsonDict_mutate m fd = raise TypeError ''event payload JSON objects are immutable''"
proof -
  obtain occ obs where b: "build_event pd occ obs d = Some e"
    using assms by (auto simp: model_validate_def validation_error_def bnd_Inr_iff
        split: option.splits if_splits)
  then have p: "field_default d ''payload'' (validate_payload pd) (VDict []) = Some (payload e)"
    by (auto simp: build_event_def bind_eq_Some_conv)
  then show ?thesis
    by (cases "get_item d ''payload''")
      (auto simp: field_default_def FrozenJsonDict_mutate_raises dest: validate_payload_frozen)
qed

definition root_fields :: pydict where
  "root_fields = (case model_json strict_pydantic (root_event sample_payload) of VDict d \<Rightarrow> d | _ \<Rightarrow> [])"

definition omit_payload :: "pydict \<Rightarrow> pydict" where
  "omit_payload = filter (\<lambda>p. fst p \<noteq> KStr ''payload'')"

definition validated :: "pydict \<Rightarrow> bool" where
  "validated d = (case model_validate strict_pydantic (VDict d) of Inr e \<Rightarrow> True | Inl err \<Rightarrow> False)"

theorem payload_immutable_iff_given_witness:
  "(\<exists>e. model_validate strict_pydantic (VDict root_fields) = Inr e \<and> is_frozen_dict (payload e))
    \<and> (\<exists>e. model_validate strict_pydantic (VDict (omit_payload root_fields)) = Inr e
          \<and> payload e = VDict [])"
proof -
  have "validated root_fields" "validated (omit_payload root_fields)"
    "get_item root_fields ''payload'' \<noteq> None" "get_item (omit_payload root_fields) ''payload'' = None"
    by code_simp+
  moreover have "pd_fields strict_pydantic (VDict d) = Some d" for d
    by (rule strict.pd_fields_dict)
  ultimately show ?thesis
    using payload_immutable_iff_given [of strict_pydantic "VDict root_fields"]
      payload_immutable_iff_given [of strict_pydantic "VDict (omit_payload root_fields)"]
    by (simp add: validated_def split: sum.splits)
qed

end
