(* ===== verification/PyOps.thy ===== *)
theory PyOps
  imports PyJsonLoads "HOL-Library.Product_Lexorder"
begin

text \<open>
  Operations on Python values that several components use: \<open>repr\<close> and \<open>str\<close>, truth, comparison
  and multiplication of doubles, membership in a list. Characters outside ASCII count as printable,
  and \<open>isdecimal\<close> knows the ASCII digits only.
\<close>

section \<open>Text of values\<close>

text \<open>\<open>repr\<close> of a string: single quotes unless the text has one and no double quote.\<close>

definition py_str_repr :: "string \<Rightarrow> string" where
  "py_str_repr s =
     (let q = (if CHR 0x27 \<in> set s \<and> dquote \<notin> set s then dquote else CHR 0x27)
      in q # concat (map (\<lambda>c. if c = q \<or> c = bslash then [bslash, c]
           else if c = CHR 0x0A then [bslash, CHR ''n'']
           else if c = CHR 0x0D then [bslash, CHR ''r'']
           else if c = CHR 0x09 then [bslash, CHR ''t'']
           else if byte c < 32 \<or> byte c = 127
             then [bslash, CHR ''x'', hex_char (byte c div 16), hex_char (byte c mod 16)]
           else [c]) s) @ [q])"

fun py_repr :: "pyv \<Rightarrow> string res"
  and py_repr_items :: "pyv list \<Rightarrow> string list res"
  and py_repr_members :: "pydict \<Rightarrow> string list res" where
  "py_repr VNone = Inr ''None''"
| "py_repr (VBool b) = Inr (if b then ''True'' else ''False'')"
| "py_repr (VInt i) = py_int_str i"
| "py_repr (VFloat f) =
     Inr (case f of PNan \<Rightarrow> ''nan'' | PInf s \<Rightarrow> (if s then ''-inf'' else ''inf'')
          | PFin s m e \<Rightarrow> float_repr f)"
| "py_repr (VStr s) = Inr (py_str_repr s)"
| "py_repr (VList xs) = bnd (py_repr_items xs) (\<lambda>ss. Inr (''['' @ join_with '', '' ss @ '']''))"
| "py_repr (VDict d) = bnd (py_repr_members d) (\<lambda>ss. Inr (''{'' @ join_with '', '' ss @ ''}''))"
| "py_repr v = raise TypeError (''no text for '' @ type_name v)"
| "py_repr_items [] = Inr []"
| "py_repr_items (x # xs) = bnd (py_repr x) (\<lambda>s. bnd (py_repr_items xs) (\<lambda>ss. Inr (s # ss)))"
| "py_repr_members [] = Inr []"
| "py_repr_members ((k, v) # d) =
     bnd (py_repr v) (\<lambda>s. bnd (py_repr_members d) (\<lambda>ss.
       Inr (((case k of KStr t \<Rightarrow> py_str_repr t | KOther t \<Rightarrow> t) @ '': '' @ s) # ss)))"

text \<open>\<open>str(v)\<close> of a JSON value.\<close>

definition py_str :: "pyv \<Rightarrow> string res" where
  "py_str v = (case v of VStr s \<Rightarrow> Inr s | _ \<Rightarrow> py_repr v)"

section \<open>Truth\<close>

fun truthy :: "pyv \<Rightarrow> bool" where
  "truthy VNone = False"
| "truthy (VBool b) = b"
| "truthy (VInt i) = (i \<noteq> 0)"
| "truthy (VFloat f) = (case f of PFin s m e \<Rightarrow> m \<noteq> 0 | _ \<Rightarrow> True)"
| "truthy (VStr s) = (s \<noteq> [])"
| "truthy (VBytes s) = (s \<noteq> [])"
| "truthy (VList xs) = (xs \<noteq> [])"
| "truthy (VTuple xs) = (xs \<noteq> [])"
| "truthy (VFrozenList xs) = (xs \<noteq> [])"
| "truthy (VDict d) = (d \<noteq> [])"
| "truthy (VFrozenDict d) = (d \<noteq> [])"
| "truthy _ = True"

section \<open>Doubles\<close>

fun fl_less :: "pyfloat \<Rightarrow> pyfloat \<Rightarrow> bool" where
  "fl_less PNan b = False"
| "fl_less a PNan = False"
| "fl_less (PInf s) (PInf t) = (s \<and> \<not> t)"
| "fl_less (PInf s) b = s"
| "fl_less a (PInf t) = (\<not> t)"
| "fl_less a b = (float_val a < float_val b)"

fun fl_equal :: "pyfloat \<Rightarrow> pyfloat \<Rightarrow> bool" where
  "fl_equal PNan b = False"
| "fl_equal a PNan = False"
| "fl_equal (PInf s) (PInf t) = (s = t)"
| "fl_equal (PInf s) b = False"
| "fl_equal a (PInf t) = False"
| "fl_equal a b = (float_val a = float_val b)"

definition fl_le :: "pyfloat \<Rightarrow> pyfloat \<Rightarrow> bool" where
  "fl_le a b \<longleftrightarrow> fl_less a b \<or> fl_equal a b"

text \<open>Product of two non-negative doubles, the second finite and positive.\<close>

definition fl_scale :: "pyfloat \<Rightarrow> pyfloat \<Rightarrow> pyfloat" where
  "fl_scale a b = (if is_finite a then fl_round False (float_val a * float_val b) else a)"

text \<open>\<open>text.isdecimal()\<close> and \<open>int(text)\<close> on decimal text.\<close>

definition is_decimal :: "string \<Rightarrow> bool" where
  "is_decimal s \<longleftrightarrow> s \<noteq> [] \<and> list_all is_digit s"

definition int_of_decimal :: "string \<Rightarrow> nat res" where
  "int_of_decimal s =
     (if length s \<le> max_int_digits then Inr (nat_of_digits s)
      else raise ValueError ''Exceeds the limit (4300 digits) for integer string conversion'')"

definition py_in :: "pyv \<Rightarrow> pyv list \<Rightarrow> bool" where
  "py_in v xs = list_ex (\<lambda>x. py_eq x v) xs"

end
