(* ===== verification/Support.thy ===== *)
theory Support
  imports Envelope PyOps
begin

text \<open>
  The small modules the components share: \<open>domain/ids.py\<close> (injectable identifier generators),
  \<open>domain/time.py\<close> (injectable clocks), \<open>compatibility.py\<close> (which event streams this version
  reads and interprets), the typed evidence link of \<open>domain/events.py\<close>, and the interface of an
  identifier generator as the event factories rely on it.
\<close>

section \<open>Identifier generators\<close>

record FixedIdGenerator =
  ig_values :: "string list"
  ig_index :: nat

definition FixedIdGenerator_new_id ::
  "FixedIdGenerator \<Rightarrow> string \<Rightarrow> string res \<times> FixedIdGenerator" where
  "FixedIdGenerator_new_id g prefix =
     (if length (ig_values g) \<le> ig_index g
      then (raise IndexError ''fixed ID generator exhausted'', g)
      else
        let value = ig_values g ! ig_index g
        in if \<not> py_startswith value (prefix @ ''_'')
           then (raise ValueError
                   (''fixed ID '' @ py_str_repr value @ '' does not match prefix '' @ py_str_repr prefix), g)
           else (Inr value, g\<lparr>ig_index := ig_index g + 1\<rparr>))"

text \<open>\<open>PrefixedUuidGenerator\<close>; \<open>hex\<close> is the text of the random identifier drawn.\<close>

definition PrefixedUuidGenerator_new_id :: "string \<Rightarrow> string \<Rightarrow> string" where
  "PrefixedUuidGenerator_new_id hex prefix = prefix @ ''_'' @ hex"

text \<open>
  What an event factory relies on: identifiers are new (never one issued before), whatever the
  state of the generator. \<open>used g\<close> is the set of identifiers the generator has issued.
\<close>

locale fresh_ids =
  fixes new_id :: "'g \<Rightarrow> string \<Rightarrow> string res \<times> 'g"
    and used :: "'g \<Rightarrow> string set"
    and ok :: "'g \<Rightarrow> bool"
  assumes new_id_fresh: "ok g \<Longrightarrow> new_id g p = (Inr i, g') \<Longrightarrow> i \<notin> used g \<and> used g' = insert i (used g)"
    and new_id_failed: "ok g \<Longrightarrow> new_id g p = (Inl err, g') \<Longrightarrow> used g' = used g"
    and new_id_ok: "ok g \<Longrightarrow> new_id g p = (r, g') \<Longrightarrow> ok g'"
begin

fun draw :: "'g \<Rightarrow> string list \<Rightarrow> string list \<times> 'g" where
  "draw g [] = ([], g)"
| "draw g (p # ps) =
     (case new_id g p of
        (Inl err, g') \<Rightarrow> draw g' ps
      | (Inr i, g') \<Rightarrow> (case draw g' ps of (is, h) \<Rightarrow> (i # is, h)))"

lemma draw_distinct:
  "ok g \<Longrightarrow> draw g ps = (is, h) \<Longrightarrow>
   distinct is \<and> set is \<inter> used g = {} \<and> used h = used g \<union> set is \<and> ok h"
proof (induction ps arbitrary: g "is")
  case (Cons p ps)
  obtain r g' where n: "new_id g p = (r, g')" by (cases "new_id g p")
  have g': "ok g'" using new_id_ok [OF Cons.prems(1) n] .
  show ?case
  proof (cases r)
    case (Inl err)
    then have "used g' = used g" using new_id_failed Cons.prems(1) n by blast
    moreover have "draw g' ps = (is, h)" using Cons.prems(2) n Inl by simp
    ultimately show ?thesis using Cons.IH [OF g'] by metis
  next
    case (Inr i)
    then have u: "i \<notin> used g" "used g' = insert i (used g)"
      using new_id_fresh Cons.prems(1) n by blast+
    obtain js where d: "draw g' ps = (js, h)" and js: "is = i # js"
      using Cons.prems(2) n Inr by (auto split: prod.splits)
    show ?thesis using Cons.IH [OF g' d] u js by auto
  qed
qed simp

end

text \<open>The generator of the tests provides it when its values are distinct.\<close>

interpretation fixed_ids: fresh_ids FixedIdGenerator_new_id
  "\<lambda>g. set (take (ig_index g) (ig_values g))" "\<lambda>g. distinct (ig_values g)"
proof
  fix g :: FixedIdGenerator and p i g'
  assume "distinct (ig_values g)" "FixedIdGenerator_new_id g p = (Inr i, g')"
  then show "i \<notin> set (take (ig_index g) (ig_values g))
      \<and> set (take (ig_index g') (ig_values g')) = insert i (set (take (ig_index g) (ig_values g)))"
    by (auto simp: FixedIdGenerator_new_id_def Let_def take_Suc_conv_app_nth in_set_conv_nth
        nth_eq_iff_index_eq split: if_splits) blast
qed (auto simp: FixedIdGenerator_new_id_def Let_def split: if_splits)

section \<open>Clocks\<close>

definition FixedClock_now :: "datetime \<Rightarrow> datetime res" where
  "FixedClock_now value =
     (case dt_offset value of
        None \<Rightarrow> raise ValueError ''fixed clock value must be timezone-aware''
      | Some off \<Rightarrow> utc_of_aware value off)"

section \<open>Compatibility\<close>

definition COMPATIBILITY_POLICY_VERSION :: string where
  "COMPATIBILITY_POLICY_VERSION = ''actionlineage.dev/compatibility-policy-v1''"

definition SUPPORTED_EVENT_SPEC_VERSIONS :: "string list" where
  "SUPPORTED_EVENT_SPEC_VERSIONS = [SPEC_VERSION]"

definition READABLE_EVENT_SPEC_VERSIONS :: "string list" where
  "READABLE_EVENT_SPEC_VERSIONS = SUPPORTED_EVENT_SPEC_VERSIONS"

definition all_EventType :: "EventType list" where
  "all_EventType =
     [AGENT_INTENT_RECORDED, AGENT_RUN_STARTED, AGENT_RUN_COMPLETED, AGENT_RUN_FAILED,
      AGENT_TOOL_DISCOVERED, AGENT_TOOL_SCHEMA_CHANGED, AGENT_TOOL_CALL_REQUESTED,
      AGENT_TOOL_CALL_STARTED, AGENT_TOOL_CALL_COMPLETED, AGENT_TOOL_CALL_FAILED,
      AGENT_TOOL_CALL_DENIED, POLICY_EVALUATION_STARTED, POLICY_DECISION, APPROVAL_REQUESTED,
      APPROVAL_RESOLVED, TOOL_EXECUTION_REQUESTED, TOOL_EXECUTION_AUTHORIZED,
      TOOL_EXECUTION_DISPATCHED, TOOL_EXECUTION_ACKNOWLEDGED, TOOL_EXECUTION_NOT_DISPATCHED,
      SIDE_EFFECT_OBSERVED, SIDE_EFFECT_VERIFIED, SIDE_EFFECT_UNVERIFIED, SIDE_EFFECT_TIMED_OUT,
      SIDE_EFFECT_CONFLICT_DETECTED, RESOURCE_OBSERVED, ACTION_NORMALIZED, LINEAGE_ALERT_CREATED,
      RECORDER_DEGRADED, PROJECTION_REBUILT, INTEGRITY_VERIFICATION_FAILED]"

definition KNOWN_EVENT_TYPES :: "string list" where
  "KNOWN_EVENT_TYPES = map EventType_value all_EventType"

datatype CompatibilityStatus = SUPPORTED_KNOWN_EVENT | SUPPORTED_UNKNOWN_EVENT

fun CompatibilityStatus_value :: "CompatibilityStatus \<Rightarrow> string" where
  "CompatibilityStatus_value SUPPORTED_KNOWN_EVENT = ''supported_known_event''"
| "CompatibilityStatus_value SUPPORTED_UNKNOWN_EVENT = ''supported_unknown_event''"

record CompatibilityAssessment =
  ca_policy_version :: string
  ca_spec_version :: string
  ca_event_type :: string
  ca_status :: CompatibilityStatus
  ca_can_read :: bool
  ca_can_interpret_semantics :: bool
  ca_notes :: "string list"

definition CompatibilityAssessment_as_dict :: "CompatibilityAssessment \<Rightarrow> pyv" where
  "CompatibilityAssessment_as_dict a =
     obj [(''policy_version'', VStr (ca_policy_version a)),
          (''spec_version'', VStr (ca_spec_version a)),
          (''event_type'', VStr (ca_event_type a)),
          (''status'', VStr (CompatibilityStatus_value (ca_status a))),
          (''can_read'', VBool (ca_can_read a)),
          (''can_interpret_semantics'', VBool (ca_can_interpret_semantics a)),
          (''notes'', VList (map VStr (ca_notes a)))]"

definition is_supported_spec_version :: "string \<Rightarrow> bool" where
  "is_supported_spec_version v \<longleftrightarrow> v \<in> set READABLE_EVENT_SPEC_VERSIONS"

definition is_known_event_type :: "event_type_arg \<Rightarrow> bool" where
  "is_known_event_type t \<longleftrightarrow> event_type_value t \<in> set KNOWN_EVENT_TYPES"

definition assess_event_compatibility :: "event \<Rightarrow> CompatibilityAssessment" where
  "assess_event_compatibility e =
     (if is_known_event_type (Other (event_type e))
      then \<lparr>ca_policy_version = COMPATIBILITY_POLICY_VERSION, ca_spec_version = spec_version e,
            ca_event_type = event_type e, ca_status = SUPPORTED_KNOWN_EVENT, ca_can_read = True,
            ca_can_interpret_semantics = True,
            ca_notes = [''event type has documented v1alpha1 semantics'']\<rparr>
      else \<lparr>ca_policy_version = COMPATIBILITY_POLICY_VERSION, ca_spec_version = spec_version e,
            ca_event_type = event_type e, ca_status = SUPPORTED_UNKNOWN_EVENT, ca_can_read = True,
            ca_can_interpret_semantics = False,
            ca_notes = [''event type is preserved as evidence but not interpreted as safe behavior'']\<rparr>)"

lemma all_EventType_complete: "t \<in> set all_EventType"
  by (cases t) (simp_all add: all_EventType_def)

lemma is_known_event_type_iff: "is_known_event_type (Other s) \<longleftrightarrow> (\<exists>t. s = EventType_value t)"
  using all_EventType_complete by (auto simp: is_known_event_type_def KNOWN_EVENT_TYPES_def)

lemma wf_event_supported: "wf_event e \<Longrightarrow> is_supported_spec_version (spec_version e)"
  by (simp add: wf_event_def is_supported_spec_version_def READABLE_EVENT_SPEC_VERSIONS_def
      SUPPORTED_EVENT_SPEC_VERSIONS_def)

section \<open>Evidence links\<close>

text \<open>
  The constructor \<open>EvidenceLink(...)\<close> called with typed values: the validators of the fields,
  and \<open>require_nonempty_limitations\<close>.
\<close>

definition EvidenceLink_new ::
  "string \<Rightarrow> EvidenceRelationship \<Rightarrow> string \<Rightarrow> CorroborationType \<Rightarrow> string \<Rightarrow> pyfloat
     \<Rightarrow> VerificationStatus \<Rightarrow> string list \<Rightarrow> evidence_link res" where
  "EvidenceLink_new subject rel evidence corr observer conf status lims =
     (if subject = [] \<or> \<not> utf8_ok False subject \<or> evidence = [] \<or> \<not> utf8_ok False evidence
         \<or> observer = [] \<or> \<not> utf8_ok False observer
         \<or> \<not> (is_finite conf \<and> 0 \<le> float_val conf \<and> float_val conf \<le> 1)
         \<or> [] \<in> set lims
      then validation_error
      else Inr \<lparr>subject_event_id = subject, relationship = rel, evidence_event_id = evidence,
                corroboration_type = corr, observer_identity = observer, confidence = conf,
                verification_status = status, limitations = lims\<rparr>)"

definition EvidenceLink_as_payload :: "evidence_link \<Rightarrow> pyv" where
  "EvidenceLink_as_payload l =
     obj [(''subject_event_id'', VStr (subject_event_id l)),
          (''relationship'', VStr (EvidenceRelationship_value (relationship l))),
          (''evidence_event_id'', VStr (evidence_event_id l)),
          (''corroboration_type'', VStr (CorroborationType_value (corroboration_type l))),
          (''observer_identity'', VStr (observer_identity l)),
          (''confidence'', VFloat (confidence l)),
          (''verification_status'', VStr (VerificationStatus_value (verification_status l))),
          (''limitations'', VList (map VStr (limitations l)))]"

definition wf_link :: "evidence_link \<Rightarrow> bool" where
  "wf_link l \<longleftrightarrow> wf_str (subject_event_id l) \<and> wf_str (evidence_event_id l)
     \<and> wf_str (observer_identity l) \<and> [] \<notin> set (limitations l)
     \<and> is_finite (confidence l) \<and> 0 \<le> float_val (confidence l) \<and> float_val (confidence l) \<le> 1"

lemma EvidenceLink_new_wf: "EvidenceLink_new s r e c ob conf st ls = Inr l \<Longrightarrow> wf_link l"
  by (auto simp: EvidenceLink_new_def wf_link_def wf_str_def validation_error_def split: if_splits)

end
