(* ===== verification/Detection.thy ===== *)
theory Detection
  imports Serialization Support
begin

text \<open>
  The matching engine of \<open>detection/sequence.py\<close>: predicates over event fields, grouping,
  ordered and unordered sequences, windows, suppression and the explanations. The rule loader is
  \<open>DetectionRules\<close>.

  The \<open>regex\<close> operator hands the rule author's pattern to Python's \<open>re\<close>; \<open>rx pattern text\<close> is
  \<open>re.search(pattern, text) is not None\<close>, \<open>None\<close> when the pattern raises \<open>re.error\<close>.
\<close>

type_synonym regex_search = "string \<Rightarrow> string \<Rightarrow> bool option"

record SequenceStage =
  st_event_type :: string
  st_where :: "(string \<times> pyv) list"
  st_name :: "string option"

record SequenceRule =
  sr_name :: string
  sr_stages :: "SequenceStage list"
  sr_rule_id :: "string option"
  sr_version :: string
  sr_severity :: string
  sr_tags :: "string list"
  sr_rationale :: string
  sr_references :: "string list"
  sr_required_evidence_quality :: "string list"
  sr_group_by :: "string list"
  sr_ordered :: bool
  sr_within_seconds :: "pyfloat option"
  sr_deduplicate :: bool
  sr_suppression_seconds :: "pyfloat option"
  sr_suppression_key :: "string list"

record DetectionMatch =
  dm_rule_name :: string
  dm_event_ids :: "string list"
  dm_group_key :: "string list"
  dm_rule_id :: "string option"
  dm_severity :: string

definition DetectionMatch_as_dict :: "DetectionMatch \<Rightarrow> pyv" where
  "DetectionMatch_as_dict m =
     obj [(''evidence'', VList (map (\<lambda>(i, e). obj [(''event_id'', VStr e), (''stage_index'', VInt (int i))])
             (enumerate 0 (dm_event_ids m)))),
          (''rule_id'', opt_str (dm_rule_id m)), (''rule_name'', VStr (dm_rule_name m)),
          (''severity'', VStr (dm_severity m)), (''event_ids'', VList (map VStr (dm_event_ids m))),
          (''group_key'', VList (map VStr (dm_group_key m)))]"

record StageExplanation =
  se_stage_index :: nat
  se_event_type :: string
  se_candidate_event_ids :: "string list"
  se_stage_name :: "string option"

definition StageExplanation_as_dict :: "StageExplanation \<Rightarrow> pyv" where
  "StageExplanation_as_dict s =
     obj [(''candidate_count'', VInt (int (length (se_candidate_event_ids s)))),
          (''candidate_event_ids'', VList (map VStr (se_candidate_event_ids s))),
          (''event_type'', VStr (se_event_type s)), (''stage_index'', VInt (int (se_stage_index s))),
          (''stage_name'', opt_str (se_stage_name s))]"

record GroupExplanation =
  ge_group_key :: "string list"
  ge_event_count :: nat
  ge_stages :: "StageExplanation list"

definition GroupExplanation_as_dict :: "GroupExplanation \<Rightarrow> pyv" where
  "GroupExplanation_as_dict g =
     obj [(''event_count'', VInt (int (ge_event_count g))),
          (''group_key'', VList (map VStr (ge_group_key g))),
          (''stages'', VList (map StageExplanation_as_dict (ge_stages g)))]"

record RuleExplanation =
  re_rule_name :: string
  re_rule_id :: "string option"
  re_total_events :: nat
  re_matches :: "DetectionMatch list"
  re_groups :: "GroupExplanation list"

definition RuleExplanation_as_dict :: "RuleExplanation \<Rightarrow> pyv" where
  "RuleExplanation_as_dict r =
     obj [(''groups'', VList (map GroupExplanation_as_dict (re_groups r))),
          (''matched'', VBool (re_matches r \<noteq> [])),
          (''matches'', VList (map DetectionMatch_as_dict (re_matches r))),
          (''rule_id'', opt_str (re_rule_id r)), (''rule_name'', VStr (re_rule_name r)),
          (''total_events'', VInt (int (re_total_events r)))]"

section \<open>Paths\<close>

fun get_path :: "pyv \<Rightarrow> string list \<Rightarrow> pyv res" where
  "get_path current [] = Inr current"
| "get_path current (part # parts) =
     (case current of
        VDict d \<Rightarrow> get_path (get_or_none d part) parts
      | VList xs \<Rightarrow>
          if is_decimal part
          then bnd (int_of_decimal part) (\<lambda>index.
                 if length xs \<le> index then Inr VNone else get_path (xs ! index) parts)
          else Inr VNone
      | _ \<Rightarrow> Inr VNone)"

definition path_value :: "pyv \<Rightarrow> string \<Rightarrow> pyv res" where
  "path_value event_object path =
     bnd (get_path event_object (split_on (CHR ''.'') path)) (\<lambda>value.
       if value \<noteq> VNone then Inr value
       else get_path event_object (split_on (CHR ''.'') (''payload.'' @ path)))"

section \<open>Comparisons\<close>

definition number :: "pyv \<Rightarrow> pyfloat option res" where
  "number value =
     (case value of
        VInt i \<Rightarrow> bnd (float_of_int i) (\<lambda>f. Inr (Some f))
      | VBool b \<Rightarrow> bnd (float_of_int (if b then 1 else 0)) (\<lambda>f. Inr (Some f))
      | VFloat f \<Rightarrow> Inr (Some f)
      | _ \<Rightarrow> Inr None)"

definition datetime_value :: "pyv \<Rightarrow> datetime option" where
  "datetime_value value =
     (case value of
        VStr s \<Rightarrow>
          iso_parse (if py_endswith s ''Z'' then take (length s - 1) s @ ''+00:00'' else s)
      | _ \<Rightarrow> None)"

datatype comparison = GT | GTE | LT | LTE

fun comparison_name :: "comparison \<Rightarrow> string" where
  "comparison_name GT = ''gt''"
| "comparison_name GTE = ''gte''"
| "comparison_name LT = ''lt''"
| "comparison_name LTE = ''lte''"

fun compare_numbers :: "pyfloat \<Rightarrow> pyfloat \<Rightarrow> comparison \<Rightarrow> bool" where
  "compare_numbers a b GT = fl_less b a"
| "compare_numbers a b GTE = fl_le b a"
| "compare_numbers a b LT = fl_less a b"
| "compare_numbers a b LTE = fl_le a b"

text \<open>Python refuses to order an aware and a naive datetime.\<close>

definition compare_datetimes :: "datetime \<Rightarrow> datetime \<Rightarrow> comparison \<Rightarrow> bool res" where
  "compare_datetimes a b operator =
     (if (dt_offset a = None) \<noteq> (dt_offset b = None)
      then raise TypeError ''can't compare offset-naive and offset-aware datetimes''
      else Inr (case operator of
             GT \<Rightarrow> dt_instant b < dt_instant a
           | GTE \<Rightarrow> dt_instant b \<le> dt_instant a
           | LT \<Rightarrow> dt_instant a < dt_instant b
           | LTE \<Rightarrow> dt_instant a \<le> dt_instant b))"

definition compare :: "pyv \<Rightarrow> pyv \<Rightarrow> comparison \<Rightarrow> bool res" where
  "compare actual expected operator =
     bnd (number actual) (\<lambda>actual_number.
     bnd (number expected) (\<lambda>expected_number.
     case (actual_number, expected_number) of
       (Some a, Some b) \<Rightarrow> Inr (compare_numbers a b operator)
     | _ \<Rightarrow>
         (case (datetime_value actual, datetime_value expected) of
            (Some a, Some b) \<Rightarrow> compare_datetimes a b operator
          | _ \<Rightarrow> Inr False)))"

definition safe_regex_match :: "regex_search \<Rightarrow> pyv \<Rightarrow> string \<Rightarrow> bool" where
  "safe_regex_match rx actual pattern =
     (case actual of
        VStr s \<Rightarrow>
          if 256 < py_len pattern \<or> 4096 < py_len s then False
          else (case rx pattern s of None \<Rightarrow> False | Some b \<Rightarrow> b)
      | _ \<Rightarrow> False)"

text \<open>The \<open>gt\<close>, \<open>gte\<close>, \<open>lt\<close>, \<open>lte\<close> loop: the first operator present decides.\<close>

fun compare_operators :: "pyv \<Rightarrow> pydict \<Rightarrow> comparison list \<Rightarrow> bool res" where
  "compare_operators actual expected [] = Inr False"
| "compare_operators actual expected (c # cs) =
     (let threshold = get_or_none expected (comparison_name c)
      in if threshold \<noteq> VNone then compare actual threshold c
         else compare_operators actual expected cs)"

text \<open>\<open>isinstance\<close> tests.\<close>

fun as_list :: "pyv \<Rightarrow> pyv list option" where
  "as_list (VList xs) = Some xs"
| "as_list _ = None"

fun as_bool :: "pyv \<Rightarrow> bool option" where
  "as_bool (VBool b) = Some b"
| "as_bool _ = None"

fun as_str :: "pyv \<Rightarrow> string option" where
  "as_str (VStr s) = Some s"
| "as_str _ = None"

fun dict_of :: "pyv \<Rightarrow> pydict option" where
  "dict_of (VDict d) = Some d"
| "dict_of _ = None"

text \<open>\<open>str.startswith\<close> and \<open>str.endswith\<close> on a value that may not be a string.\<close>

definition str_test :: "(string \<Rightarrow> bool) \<Rightarrow> pyv \<Rightarrow> bool" where
  "str_test p actual = (case actual of VStr s \<Rightarrow> p s | _ \<Rightarrow> False)"

text \<open>The operators that decide without recursion, in the order of the code.\<close>

definition value_operator :: "regex_search \<Rightarrow> pyv \<Rightarrow> pydict \<Rightarrow> bool option" where
  "value_operator rx actual expected =
     (case as_list (get_or_none expected ''in'') of Some allowed \<Rightarrow> Some (py_in actual allowed) | None \<Rightarrow>
     (case as_bool (get_or_none expected ''exists'') of Some b \<Rightarrow> Some ((actual \<noteq> VNone) = b) | None \<Rightarrow>
     (case as_str (get_or_none expected ''prefix'') of
        Some p \<Rightarrow> Some (str_test (\<lambda>s. py_startswith s p) actual) | None \<Rightarrow>
     (case as_str (get_or_none expected ''suffix'') of
        Some p \<Rightarrow> Some (str_test (\<lambda>s. py_endswith s p) actual) | None \<Rightarrow>
     map_option (safe_regex_match rx actual) (as_str (get_or_none expected ''regex''))))))"

lemma size_dget:
  assumes "dict_of expected = Some d" "get_item d k = Some v"
  shows "size v < size expected"
proof -
  have "(KStr k, v) \<in> set d" using assms(2) by (simp add: get_item_def dget_Some_in)
  then have "size_prod (\<lambda>_. 0) size (KStr k, v) \<le> size_list (size_prod (\<lambda>_. 0) size) d"
    by (rule size_list_estimation') simp
  then show ?thesis using assms(1) by (cases expected) auto
qed

function matches_expected :: "regex_search \<Rightarrow> pyv \<Rightarrow> pyv \<Rightarrow> bool res" where
  "matches_expected rx actual expected =
     (case dict_of expected of
        None \<Rightarrow> Inr (py_eq actual expected)
      | Some d \<Rightarrow>
          (case value_operator rx actual d of
             Some b \<Rightarrow> Inr b
           | None \<Rightarrow>
               (case get_item d ''not'' of
                  Some not_expected \<Rightarrow>
                    if actual = VNone then Inr False
                    else bnd (matches_expected rx actual not_expected) (\<lambda>b. Inr (\<not> b))
                | None \<Rightarrow> compare_operators actual d [GT, GTE, LT, LTE])))"
  by auto
termination
  by (relation "measure (\<lambda>(rx, actual, expected). size expected)") (auto dest: size_dget)

declare matches_expected.simps [simp del]

section \<open>Stages and groups\<close>

fun all_where :: "regex_search \<Rightarrow> pyv \<Rightarrow> (string \<times> pyv) list \<Rightarrow> bool res" where
  "all_where rx event_object [] = Inr True"
| "all_where rx event_object ((path, expected) # ws) =
     bnd (path_value event_object path) (\<lambda>actual.
     bnd (matches_expected rx actual expected) (\<lambda>b.
       if \<not> b then Inr False else all_where rx event_object ws))"

definition event_matches_stage :: "pydantic \<Rightarrow> regex_search \<Rightarrow> event \<Rightarrow> SequenceStage \<Rightarrow> bool res" where
  "event_matches_stage pd rx e stage =
     (if event_type e \<noteq> st_event_type stage then Inr False
      else bnd (event_to_dict pd e) (\<lambda>event_object. all_where rx event_object (st_where stage)))"

definition key_value :: "pyv \<Rightarrow> string \<Rightarrow> string res" where
  "key_value event_object path =
     bnd (path_value event_object path) (\<lambda>v. if truthy v then py_str v else Inr [])"

definition event_key :: "pydantic \<Rightarrow> string list \<Rightarrow> event \<Rightarrow> string list res" where
  "event_key pd paths e = bnd (event_to_dict pd e) (\<lambda>event_object. traverse (key_value event_object) paths)"

text \<open>\<open>grouped.setdefault(key, []).append(event)\<close>\<close>

fun group_append :: "('k \<times> 'a list) list \<Rightarrow> 'k \<Rightarrow> 'a \<Rightarrow> ('k \<times> 'a list) list" where
  "group_append [] k e = [(k, [e])]"
| "group_append ((k', es) # g) k e =
     (if k' = k then (k', es @ [e]) # g else (k', es) # group_append g k e)"

fun group_loop ::
  "pydantic \<Rightarrow> string list \<Rightarrow> event list \<Rightarrow> (string list \<times> event list) list
     \<Rightarrow> (string list \<times> event list) list res" where
  "group_loop pd group_by [] grouped = Inr grouped"
| "group_loop pd group_by (e # es) grouped =
     bnd (event_key pd group_by e) (\<lambda>key. group_loop pd group_by es (group_append grouped key e))"

definition group_events ::
  "pydantic \<Rightarrow> event list \<Rightarrow> string list \<Rightarrow> (string list \<times> event list) list res" where
  "group_events pd events group_by = group_loop pd group_by events []"

text \<open>\<open>(occurred_at, sequence, event_id)\<close>; timestamps of events are in UTC.\<close>

definition order_key :: "event \<Rightarrow> int \<times> int \<times> string" where
  "order_key e = (dt_instant (occurred_at e), sequence (ev_causality e), event_id e)"

definition order_events :: "event list \<Rightarrow> event list" where
  "order_events = sort_key order_key"

section \<open>Windows\<close>

definition seconds_between :: "datetime \<Rightarrow> datetime \<Rightarrow> pyfloat" where
  "seconds_between start end1 =
     float_of_rat (of_int (dt_instant end1 - dt_instant start) / 1000000)"

fun min_time :: "datetime \<Rightarrow> datetime list \<Rightarrow> datetime" where
  "min_time m [] = m"
| "min_time m (t # ts) = min_time (if dt_instant t < dt_instant m then t else m) ts"

fun max_time :: "datetime \<Rightarrow> datetime list \<Rightarrow> datetime" where
  "max_time m [] = m"
| "max_time m (t # ts) = max_time (if dt_instant m < dt_instant t then t else m) ts"

definition within_window :: "event list \<Rightarrow> pyfloat option \<Rightarrow> bool" where
  "within_window events window =
     (case (window, map occurred_at events) of
        (Some w, t # u # ts) \<Rightarrow>
          fl_le (seconds_between (min_time t (u # ts)) (max_time t (u # ts))) w
      | _ \<Rightarrow> True)"

section \<open>Ordered sequences\<close>

text \<open>
  The inner loop of \<open>_match_ordered\<close>: the events that complete the stages from the start index
  on, first match first, and the events after the last of them.
\<close>

fun complete_stages ::
  "(event \<Rightarrow> SequenceStage \<Rightarrow> bool res) \<Rightarrow> event list \<Rightarrow> SequenceStage list
     \<Rightarrow> (event list \<times> event list) option res" where
  "complete_stages m es [] = Inr None"
| "complete_stages m [] (s # ss) = Inr None"
| "complete_stages m (e # es) (s # ss) =
     bnd (m e s) (\<lambda>b.
       if \<not> b then complete_stages m es (s # ss)
       else if ss = [] then Inr (Some ([e], es))
       else bnd (complete_stages m es ss) (\<lambda>r. Inr (map_option (\<lambda>(ms, rest). (e # ms, rest)) r)))"

lemma complete_stages_length:
  "complete_stages m es ss = Inr (Some (ms, rest)) \<Longrightarrow> length rest < length es"
proof (induction m es ss arbitrary: ms rest rule: complete_stages.induct)
  case (3 m e es s ss)
  obtain b where b: "m e s = Inr b" using 3(3) by (auto simp: bnd_Inr_iff)
  show ?case
  proof (cases "b \<and> ss \<noteq> []")
    case True
    then obtain ms' where "complete_stages m es ss = Inr (Some (ms', rest))"
      using 3(3) b by (auto simp: bnd_Inr_iff)
    then show ?thesis using 3(2) True b by fastforce
  next
    case False
    then show ?thesis using 3(1,3) b by (cases b) fastforce+
  qed
qed auto

function match_ordered ::
  "(event \<Rightarrow> SequenceStage \<Rightarrow> bool res) \<Rightarrow> SequenceStage list \<Rightarrow> pyfloat option \<Rightarrow> event list
     \<Rightarrow> event list list res" where
  "match_ordered m stages window events =
     (if events = [] then Inr []
      else bnd (complete_stages m events stages) (\<lambda>r.
        case r of
          None \<Rightarrow> Inr []
        | Some (matched, rest) \<Rightarrow>
            bnd (match_ordered m stages window rest) (\<lambda>ms.
              Inr (if within_window matched window then matched # ms else ms))))"
  by auto
termination
  by (relation "measure (\<lambda>(m, stages, window, events). length events)")
    (auto dest: complete_stages_length)

declare match_ordered.simps [simp del]

section \<open>Unordered sequences\<close>

fun take_match ::
  "(event \<Rightarrow> SequenceStage \<Rightarrow> bool res) \<Rightarrow> SequenceStage \<Rightarrow> event list \<Rightarrow> (event \<times> event list) option res" where
  "take_match m s [] = Inr None"
| "take_match m s (e # es) =
     bnd (m e s) (\<lambda>b.
       if b then Inr (Some (e, es))
       else bnd (take_match m s es) (\<lambda>r. Inr (map_option (\<lambda>(f, fs). (f, e # fs)) r)))"

fun match_stages ::
  "(event \<Rightarrow> SequenceStage \<Rightarrow> bool res) \<Rightarrow> SequenceStage list \<Rightarrow> event list \<Rightarrow> event list option res" where
  "match_stages m [] remaining = Inr (Some [])"
| "match_stages m (s # ss) remaining =
     bnd (take_match m s remaining) (\<lambda>r.
       case r of
         None \<Rightarrow> Inr None
       | Some (e, rest) \<Rightarrow> bnd (match_stages m ss rest) (\<lambda>r. Inr (map_option ((#) e) r)))"

definition match_unordered ::
  "(event \<Rightarrow> SequenceStage \<Rightarrow> bool res) \<Rightarrow> SequenceStage list \<Rightarrow> pyfloat option \<Rightarrow> event list
     \<Rightarrow> event list list res" where
  "match_unordered m stages window events =
     bnd (match_stages m stages events) (\<lambda>r.
       case r of
         None \<Rightarrow> Inr []
       | Some matched \<Rightarrow> Inr (if within_window matched window then [matched] else []))"

section \<open>Suppression\<close>

definition suppression_key ::
  "pydantic \<Rightarrow> SequenceRule \<Rightarrow> string list \<Rightarrow> event list \<Rightarrow> string list res" where
  "suppression_key pd rule group_key matched =
     (case (sr_suppression_key rule, matched) of
        ([], _) \<Rightarrow> Inr group_key
      | (_, []) \<Rightarrow> Inr group_key
      | (paths, e # _) \<Rightarrow> event_key pd paths e)"

record suppress_state =
  su_seen :: "string list list"
  su_last :: "(string list \<times> datetime) list"

text \<open>One matched sequence: is it emitted, and what is remembered.\<close>

definition suppress_step ::
  "pydantic \<Rightarrow> SequenceRule \<Rightarrow> string list \<Rightarrow> suppress_state \<Rightarrow> event list \<Rightarrow> (bool \<times> suppress_state) res" where
  "suppress_step pd rule group_key st matched =
     (let event_ids = map event_id matched
      in if sr_deduplicate rule \<and> event_ids \<in> set (su_seen st) then Inr (False, st)
         else
           let st = st\<lparr>su_seen := event_ids # su_seen st\<rparr>
           in bnd (suppression_key pd rule group_key matched) (\<lambda>key.
              case map occurred_at matched of
                [] \<Rightarrow> raise ValueError ''min() iterable argument is empty''
              | t # ts \<Rightarrow>
                  let first = min_time t ts
                  in if (case (sr_suppression_seconds rule, dget (su_last st) key) of
                           (Some secs, Some last1) \<Rightarrow> fl_le (seconds_between last1 first) secs
                         | _ \<Rightarrow> False)
                     then Inr (False, st)
                     else Inr (True, st\<lparr>su_last := dset (su_last st) key first\<rparr>)))"

fun suppress_loop ::
  "pydantic \<Rightarrow> SequenceRule \<Rightarrow> string list \<Rightarrow> suppress_state \<Rightarrow> event list list \<Rightarrow> event list list res" where
  "suppress_loop pd rule group_key st [] = Inr []"
| "suppress_loop pd rule group_key st (matched # rest) =
     bnd (suppress_step pd rule group_key st matched) (\<lambda>(emit, st').
     bnd (suppress_loop pd rule group_key st' rest) (\<lambda>out.
       Inr (if emit then matched # out else out)))"

definition suppress_and_dedupe ::
  "pydantic \<Rightarrow> SequenceRule \<Rightarrow> string list \<Rightarrow> event list list \<Rightarrow> event list list res" where
  "suppress_and_dedupe pd rule group_key =
     suppress_loop pd rule group_key \<lparr>su_seen = [], su_last = []\<rparr>"

section \<open>Rules\<close>

definition rule_match :: "SequenceRule \<Rightarrow> string list \<Rightarrow> event list \<Rightarrow> DetectionMatch" where
  "rule_match rule group_key matched =
     \<lparr>dm_rule_name = sr_name rule, dm_event_ids = map event_id matched, dm_group_key = group_key,
      dm_rule_id = sr_rule_id rule, dm_severity = sr_severity rule\<rparr>"

definition match_group ::
  "pydantic \<Rightarrow> regex_search \<Rightarrow> SequenceRule \<Rightarrow> string list \<times> event list \<Rightarrow> DetectionMatch list res" where
  "match_group pd rx rule = (\<lambda>(group_key, group).
     bnd ((if sr_ordered rule then match_ordered else match_unordered)
            (event_matches_stage pd rx) (sr_stages rule) (sr_within_seconds rule)
            (order_events group)) (\<lambda>sequences.
     bnd (suppress_and_dedupe pd rule group_key sequences) (\<lambda>out.
       Inr (map (rule_match rule group_key) out))))"

definition evaluate_sequence_rule ::
  "pydantic \<Rightarrow> regex_search \<Rightarrow> event list \<Rightarrow> SequenceRule \<Rightarrow> DetectionMatch list res" where
  "evaluate_sequence_rule pd rx events rule =
     (if sr_stages rule = [] then Inr []
      else bnd (group_events pd events (sr_group_by rule)) (\<lambda>groups.
           bnd (traverse (match_group pd rx rule) groups) (\<lambda>ms. Inr (concat ms))))"

fun filter_res :: "('a \<Rightarrow> bool res) \<Rightarrow> 'a list \<Rightarrow> 'a list res" where
  "filter_res p [] = Inr []"
| "filter_res p (x # xs) =
     bnd (p x) (\<lambda>b. bnd (filter_res p xs) (\<lambda>ys. Inr (if b then x # ys else ys)))"

definition explain_stage ::
  "pydantic \<Rightarrow> regex_search \<Rightarrow> event list \<Rightarrow> nat \<times> SequenceStage \<Rightarrow> StageExplanation res" where
  "explain_stage pd rx ordered_events = (\<lambda>(index, stage).
     bnd (filter_res (\<lambda>e. event_matches_stage pd rx e stage) ordered_events) (\<lambda>candidates.
       Inr \<lparr>se_stage_index = index, se_event_type = st_event_type stage,
            se_candidate_event_ids = map event_id candidates, se_stage_name = st_name stage\<rparr>))"

definition explain_group ::
  "pydantic \<Rightarrow> regex_search \<Rightarrow> SequenceRule \<Rightarrow> string list \<times> event list \<Rightarrow> GroupExplanation res" where
  "explain_group pd rx rule = (\<lambda>(group_key, group).
     bnd (traverse (explain_stage pd rx (order_events group)) (enumerate 0 (sr_stages rule))) (\<lambda>stages.
       Inr \<lparr>ge_group_key = group_key, ge_event_count = length group, ge_stages = stages\<rparr>))"

definition explain_sequence_rule ::
  "pydantic \<Rightarrow> regex_search \<Rightarrow> event list \<Rightarrow> SequenceRule \<Rightarrow> RuleExplanation res" where
  "explain_sequence_rule pd rx events rule =
     bnd (evaluate_sequence_rule pd rx events rule) (\<lambda>matches.
     bnd (group_events pd events (sr_group_by rule)) (\<lambda>groups.
     bnd (traverse (explain_group pd rx rule) (sort_key fst groups)) (\<lambda>gs.
       Inr \<lparr>re_rule_name = sr_name rule, re_rule_id = sr_rule_id rule,
            re_total_events = length events, re_matches = matches, re_groups = gs\<rparr>)))"

end
