(* ===== verification/DetectionRules.thy ===== *)
theory DetectionRules
  imports Detection
begin

text \<open>
  The rule loader of \<open>detection/sequence.py\<close>: rule packs in JSON or YAML, the packaged form with
  \<open>kind\<close>, \<open>metadata\<close> and \<open>spec\<close>, the validation of every field, and the starter rules of
  \<open>detection/rules.py\<close>. The YAML library is not part of the repository: \<open>yaml\<close> is its
  \<open>safe_load\<close>, \<open>None\<close> when the package is not installed.
\<close>

abbreviation load_error :: "string \<Rightarrow> 'a res" where
  "load_error m \<equiv> raise DetectionRuleLoadError m"

definition string_keyed_mapping :: "pydict \<Rightarrow> string \<Rightarrow> pydict res" where
  "string_keyed_mapping data fld =
     (if list_ex (\<lambda>p. case fst p of KStr s \<Rightarrow> s = [] | KOther t \<Rightarrow> True) data
      then load_error (fld @ '' keys must be non-empty strings'') else Inr data)"

section \<open>Fields\<close>

definition required_string :: "pydict \<Rightarrow> string \<Rightarrow> string res" where
  "required_string data fld =
     (case as_str (get_or_none data fld) of
        None \<Rightarrow> load_error (''sequence rule field is required: '' @ fld)
      | Some s \<Rightarrow>
          if s = [] then load_error (''sequence rule field is required: '' @ fld) else Inr s)"

definition optional_string :: "pydict \<Rightarrow> string \<Rightarrow> string option res" where
  "optional_string data fld =
     (if get_or_none data fld = VNone then Inr None
      else
        (case as_str (get_or_none data fld) of
           None \<Rightarrow> load_error (''sequence rule field must be a non-empty string: '' @ fld)
         | Some s \<Rightarrow>
             if s = [] then load_error (''sequence rule field must be a non-empty string: '' @ fld)
             else Inr (Some s)))"

definition optional_text :: "pydict \<Rightarrow> string \<Rightarrow> string option res" where
  "optional_text data fld =
     (if get_or_none data fld = VNone then Inr None
      else
        (case as_str (get_or_none data fld) of
           None \<Rightarrow> load_error (''sequence rule field must be text: '' @ fld)
         | Some s \<Rightarrow> Inr (Some s)))"

definition string_tuple :: "pyv \<Rightarrow> string \<Rightarrow> string list res" where
  "string_tuple value fld =
     (if value = VNone then Inr []
      else
        (case as_list value of
           None \<Rightarrow> load_error (''sequence rule field must be an array of strings: '' @ fld)
         | Some xs \<Rightarrow>
             if list_all (\<lambda>v. case v of VStr s \<Rightarrow> s \<noteq> [] | _ \<Rightarrow> False) xs
             then Inr (map (\<lambda>v. case v of VStr s \<Rightarrow> s | _ \<Rightarrow> []) xs)
             else load_error (''sequence rule field must be an array of strings: '' @ fld)))"

definition bool_value :: "pyv \<Rightarrow> bool \<Rightarrow> string \<Rightarrow> bool res" where
  "bool_value value default1 fld =
     (if value = VNone then Inr default1
      else
        (case as_bool value of
           None \<Rightarrow> load_error (''sequence rule field must be boolean: '' @ fld)
         | Some b \<Rightarrow> Inr b))"

definition optional_float :: "pyv \<Rightarrow> string \<Rightarrow> pyfloat option res" where
  "optional_float value fld =
     (case value of
        VNone \<Rightarrow> Inr None
      | VInt i \<Rightarrow> bnd (float_of_int i) (\<lambda>f. Inr (Some f))
      | VFloat f \<Rightarrow> Inr (Some f)
      | _ \<Rightarrow> load_error (''sequence rule field must be numeric: '' @ fld))"

text \<open>
  \<open>re.fullmatch(r"([0-9]+(?:\\.[0-9]+)?)(ms|s|m|h)?", text)\<close>: the digits before and after the
  point, and the unit.
\<close>

definition duration_match :: "string \<Rightarrow> (string \<times> string \<times> string) option" where
  "duration_match s =
     (let ip = takeWhile is_digit s; r = dropWhile is_digit s;
          fr = (case r of c # r' \<Rightarrow> if c = CHR ''.'' then takeWhile is_digit r' else [] | [] \<Rightarrow> []);
          unit1 = (if fr = [] then r else drop (Suc (length fr)) r)
      in if ip \<noteq> [] \<and> unit1 \<in> {[], ''ms'', ''s'', ''m'', ''h''} then Some (ip, fr, unit1) else None)"

definition unit_multiplier :: "string \<Rightarrow> pyfloat" where
  "unit_multiplier unit1 =
     float_of_rat (if unit1 = ''ms'' then 1 / 1000 else if unit1 = ''m'' then 60
                   else if unit1 = ''h'' then 3600 else 1)"

definition duration_seconds :: "pyv \<Rightarrow> string \<Rightarrow> pyfloat option res" where
  "duration_seconds value fld =
     (case value of
        VNone \<Rightarrow> Inr None
      | VInt i \<Rightarrow> bnd (float_of_int i) (\<lambda>f. Inr (Some f))
      | VFloat f \<Rightarrow> Inr (Some f)
      | VStr s \<Rightarrow>
          (case duration_match (py_strip s) of
             None \<Rightarrow> load_error (''sequence rule duration field is invalid: '' @ fld)
           | Some (ip, fr, unit1) \<Rightarrow>
               Inr (Some (fl_scale
                 (fl_round False (dec_val (nat_of_digits (ip @ fr)) (- int (length fr))))
                 (unit_multiplier unit1))))
      | _ \<Rightarrow> load_error (''sequence rule duration field is invalid: '' @ fld))"

section \<open>Predicates and stages\<close>

definition allowed_operators :: "string list" where
  "allowed_operators =
     [''in'', ''exists'', ''prefix'', ''suffix'', ''regex'', ''not'', ''gt'', ''gte'', ''lt'', ''lte'']"

definition validate_operator :: "pykey \<times> pyv \<Rightarrow> unit res" where
  "validate_operator = (\<lambda>(k, value).
     let operator = key_str k
     in if operator \<notin> set allowed_operators
        then load_error ''sequence stage predicate has unsupported operator''
        else if operator = ''in'' \<and> as_list value = None
        then load_error ''sequence stage predicate in operator must use an array''
        else if operator = ''exists'' \<and> as_bool value = None
        then load_error ''sequence stage predicate exists operator must be boolean''
        else if operator \<in> {''prefix'', ''suffix'', ''regex''} then
          (case as_str value of
             None \<Rightarrow> load_error ''sequence stage predicate string operator is invalid''
           | Some s \<Rightarrow>
               if operator = ''regex'' \<and> 256 < py_len s
               then load_error ''sequence stage predicate regex operator is too long'' else Inr ())
        else Inr ())"

definition validate_predicate :: "pyv \<Rightarrow> unit res" where
  "validate_predicate expected =
     (case dict_of expected of
        None \<Rightarrow> Inr ()
      | Some d \<Rightarrow>
          bnd (string_keyed_mapping d ''sequence stage predicate'') (\<lambda>operators.
          bnd (traverse validate_operator operators) (\<lambda>_. Inr ())))"

definition validated_where :: "pyv \<Rightarrow> (string \<times> pyv) list res" where
  "validated_where value =
     (if value = VNone then Inr []
      else
        (case dict_of value of
           None \<Rightarrow> load_error ''sequence stage where must be an object''
         | Some d \<Rightarrow>
             bnd (string_keyed_mapping d ''sequence stage where'') (\<lambda>where1.
             bnd (traverse validate_predicate (map snd where1)) (\<lambda>_.
               Inr (map (\<lambda>(k, v). (key_str k, v)) where1)))))"

definition get_or :: "pydict \<Rightarrow> string \<Rightarrow> pyv \<Rightarrow> pyv" where
  "get_or d k v = (case get_item d k of None \<Rightarrow> v | Some w \<Rightarrow> w)"

definition sequence_stage_from_dict :: "pyv \<Rightarrow> SequenceStage res" where
  "sequence_stage_from_dict data =
     (case dict_of data of
        None \<Rightarrow> load_error ''sequence stage must be an object''
      | Some d \<Rightarrow>
          bnd (string_keyed_mapping d ''sequence stage'') (\<lambda>stage_data.
          bnd (validated_where (get_or stage_data ''where'' (VDict []))) (\<lambda>where1.
          bnd (optional_string stage_data ''name'') (\<lambda>name.
          bnd (required_string stage_data ''event_type'') (\<lambda>etype.
            Inr \<lparr>st_event_type = etype, st_where = where1, st_name = name\<rparr>)))))"

section \<open>Packaged rules\<close>

fun first_name :: "pydict \<Rightarrow> string list \<Rightarrow> pyv option" where
  "first_name d [] = None"
| "first_name d (n # ns) = (case get_item d n of Some v \<Rightarrow> Some v | None \<Rightarrow> first_name d ns)"

fun first_field :: "pydict list \<Rightarrow> string list \<Rightarrow> pyv" where
  "first_field [] names = VNone"
| "first_field (d # ds) names =
     (case first_name d names of Some v \<Rightarrow> v | None \<Rightarrow> first_field ds names)"

definition package_stage_mapping :: "pyv \<Rightarrow> pyv res" where
  "package_stage_mapping data =
     (case dict_of data of
        None \<Rightarrow> load_error ''rule package stage must be an object''
      | Some d \<Rightarrow>
          bnd (string_keyed_mapping d ''rule package stage'') (\<lambda>stage_data.
            Inr (obj [(''name'', get_or_none stage_data ''name''),
                      (''event_type'', first_field [stage_data] [''event_type'', ''eventType'']),
                      (''where'', get_or stage_data ''where'' (VDict []))])))"

definition opt_float :: "pyfloat option \<Rightarrow> pyv" where
  "opt_float f = (case f of None \<Rightarrow> VNone | Some x \<Rightarrow> VFloat x)"

definition package_rule_mapping :: "pydict \<Rightarrow> pydict res" where
  "package_rule_mapping data =
     (if get_or_none data ''kind'' \<noteq> VStr ''SequenceDetection''
      then load_error ''rule package kind must be SequenceDetection''
      else
        (case dict_of (get_or_none data ''spec'') of
           None \<Rightarrow> load_error ''rule package spec must be an object''
         | Some spec \<Rightarrow>
        (case (if get_or_none data ''metadata'' = VNone then Some []
               else dict_of (get_or_none data ''metadata'')) of
           None \<Rightarrow> load_error ''rule package metadata must be an object''
         | Some metadata \<Rightarrow>
        bnd (string_keyed_mapping spec ''rule package spec'') (\<lambda>spec.
        bnd (string_keyed_mapping metadata ''rule package metadata'') (\<lambda>metadata.
        (case as_list (get_or_none spec ''stages'') of
           None \<Rightarrow> load_error ''rule package spec.stages must be an array''
         | Some stages \<Rightarrow>
        bnd (duration_seconds (first_field [spec] [''within_seconds'', ''withinSeconds'', ''within''])
               ''within'') (\<lambda>window.
        bnd (duration_seconds (first_field [spec] [''suppression_seconds'', ''suppressionSeconds''])
               ''suppression_seconds'') (\<lambda>suppression.
        bnd (traverse package_stage_mapping stages) (\<lambda>stages.
          Inr (obj_items
            [(''rule_id'', first_field [metadata, spec] [''rule_id'', ''ruleId'', ''id'']),
             (''name'', first_field [metadata, spec] [''name'']),
             (''version'', first_field [metadata, spec] [''version'']),
             (''severity'', first_field [spec] [''severity'']),
             (''tags'', first_field [spec, metadata] [''tags'']),
             (''rationale'', first_field [spec] [''rationale'']),
             (''references'', first_field [spec] [''references'']),
             (''required_evidence_quality'',
                first_field [spec] [''required_evidence_quality'', ''requiredEvidenceQuality'']),
             (''group_by'', first_field [spec] [''group_by'', ''groupBy'']),
             (''ordered'', first_field [spec] [''ordered'']),
             (''within_seconds'', opt_float window),
             (''deduplicate'', first_field [spec] [''deduplicate'']),
             (''suppression_seconds'', opt_float suppression),
             (''suppression_key'', first_field [spec] [''suppression_key'', ''suppressionKey'']),
             (''stages'', VList stages)]))))))))))"

definition canonical_rule_mapping :: "pydict \<Rightarrow> pydict res" where
  "canonical_rule_mapping data =
     (if get_or_none data ''kind'' = VStr ''SequenceDetection'' \<or> get_item data ''spec'' \<noteq> None
      then package_rule_mapping data
      else string_keyed_mapping data ''sequence rule'')"

section \<open>Rules\<close>

text \<open>The fields of a rule, once the mapping is canonical and has stages.\<close>

definition rule_from_mapping :: "pydict \<Rightarrow> pyv list \<Rightarrow> SequenceRule res" where
  "rule_from_mapping rule_data stages_data =
     bnd (optional_string rule_data ''rule_id'') (\<lambda>rule_id.
     bnd (required_string rule_data ''name'') (\<lambda>name.
     bnd (optional_string rule_data ''version'') (\<lambda>version.
     bnd (optional_string rule_data ''severity'') (\<lambda>severity.
     bnd (string_tuple (get_or_none rule_data ''tags'') ''tags'') (\<lambda>tags.
     bnd (optional_text rule_data ''rationale'') (\<lambda>rationale.
     bnd (string_tuple (get_or_none rule_data ''references'') ''references'') (\<lambda>references.
     bnd (string_tuple (get_or_none rule_data ''required_evidence_quality'')
            ''required_evidence_quality'') (\<lambda>quality.
     bnd (string_tuple (get_or_none rule_data ''group_by'') ''group_by'') (\<lambda>group_by.
     bnd (bool_value (get_or_none rule_data ''ordered'') True ''ordered'') (\<lambda>ordered.
     bnd (optional_float (get_or_none rule_data ''within_seconds'') ''within_seconds'') (\<lambda>window.
     bnd (bool_value (get_or_none rule_data ''deduplicate'') True ''deduplicate'') (\<lambda>dedup.
     bnd (optional_float (get_or_none rule_data ''suppression_seconds'')
            ''suppression_seconds'') (\<lambda>suppression.
     bnd (string_tuple (get_or_none rule_data ''suppression_key'') ''suppression_key'') (\<lambda>skey.
     bnd (traverse sequence_stage_from_dict stages_data) (\<lambda>stages.
       Inr \<lparr>sr_name = name, sr_stages = stages, sr_rule_id = rule_id,
            sr_version = (case version of None \<Rightarrow> ''1'' | Some v \<Rightarrow> v),
            sr_severity = (case severity of None \<Rightarrow> ''medium'' | Some v \<Rightarrow> v),
            sr_tags = tags,
            sr_rationale = (case rationale of None \<Rightarrow> [] | Some t \<Rightarrow> t),
            sr_references = references, sr_required_evidence_quality = quality,
            sr_group_by = (if group_by = [] then [''correlation.run_id''] else group_by),
            sr_ordered = ordered, sr_within_seconds = window, sr_deduplicate = dedup,
            sr_suppression_seconds = suppression,
            sr_suppression_key = skey\<rparr>)))))))))))))))"

definition sequence_rule_from_dict :: "pyv \<Rightarrow> SequenceRule res" where
  "sequence_rule_from_dict data =
     (case dict_of data of
        None \<Rightarrow> load_error ''sequence rule must be an object''
      | Some d \<Rightarrow>
          bnd (canonical_rule_mapping d) (\<lambda>rule_data.
          (case as_list (get_or_none rule_data ''stages'') of
             None \<Rightarrow> load_error ''sequence rule must include at least one stage''
           | Some stages_data \<Rightarrow>
               if stages_data = []
               then load_error ''sequence rule must include at least one stage''
               else rule_from_mapping rule_data stages_data)))"

definition stage_to_dict :: "SequenceStage \<Rightarrow> pyv" where
  "stage_to_dict s =
     obj [(''name'', opt_str (st_name s)), (''event_type'', VStr (st_event_type s)),
          (''where'', obj (st_where s))]"

definition sequence_rule_to_dict :: "SequenceRule \<Rightarrow> pyv" where
  "sequence_rule_to_dict r =
     obj [(''rule_id'', opt_str (sr_rule_id r)), (''name'', VStr (sr_name r)),
          (''version'', VStr (sr_version r)), (''severity'', VStr (sr_severity r)),
          (''tags'', VList (map VStr (sr_tags r))), (''rationale'', VStr (sr_rationale r)),
          (''references'', VList (map VStr (sr_references r))),
          (''required_evidence_quality'', VList (map VStr (sr_required_evidence_quality r))),
          (''group_by'', VList (map VStr (sr_group_by r))), (''ordered'', VBool (sr_ordered r)),
          (''within_seconds'', opt_float (sr_within_seconds r)),
          (''deduplicate'', VBool (sr_deduplicate r)),
          (''suppression_seconds'', opt_float (sr_suppression_seconds r)),
          (''suppression_key'', VList (map VStr (sr_suppression_key r))),
          (''stages'', VList (map stage_to_dict (sr_stages r)))]"

section \<open>Rule packs\<close>

definition rule_objects_from_data :: "pyv \<Rightarrow> pyv list res" where
  "rule_objects_from_data data =
     (case data of
        VList xs \<Rightarrow> Inr xs
      | VDict d \<Rightarrow>
          (case get_or_none d ''rules'' of
             VNone \<Rightarrow> Inr [data]
           | VDict r \<Rightarrow> Inr [VDict r]
           | VList xs \<Rightarrow> Inr xs
           | _ \<Rightarrow> load_error ''rule pack rules field must be an array or object'')
      | _ \<Rightarrow> load_error ''rule pack must contain a rules array or rule object'')"

text \<open>\<open>path.read_text(encoding="utf-8")\<close>\<close>

definition read_text :: "bytes \<Rightarrow> string res" where
  "read_text content =
     (if utf8_ok False content then Inr content
      else raise UnicodeDecodeError ''invalid utf-8'')"

definition load_rule_data ::
  "(string \<Rightarrow> pyv res) option \<Rightarrow> string \<Rightarrow> bytes \<Rightarrow> pyv res" where
  "load_rule_data yaml suffix content =
     (if py_lower suffix = ''.json'' then bnd (read_text content) (loads False)
      else if py_lower suffix = ''.yaml'' \<or> py_lower suffix = ''.yml'' then
        (case yaml of
           None \<Rightarrow> load_error ''install actionlineage[adapters] or PyYAML to load YAML rule packs''
         | Some safe_load \<Rightarrow> bnd (read_text content) safe_load)
      else load_error ''rule pack must be .json, .yaml, or .yml'')"

definition load_sequence_rules ::
  "(string \<Rightarrow> pyv res) option \<Rightarrow> string \<Rightarrow> bytes \<Rightarrow> SequenceRule list res" where
  "load_sequence_rules yaml suffix content =
     bnd (load_rule_data yaml suffix content) (\<lambda>data.
     bnd (rule_objects_from_data data) (traverse sequence_rule_from_dict))"

section \<open>Starter rules\<close>

definition stage :: "string \<Rightarrow> (string \<times> pyv) list \<Rightarrow> string option \<Rightarrow> SequenceStage" where
  "stage etype where1 name = \<lparr>st_event_type = etype, st_where = where1, st_name = name\<rparr>"

definition starter_rule ::
  "string \<Rightarrow> string \<Rightarrow> string \<Rightarrow> string list \<Rightarrow> string \<Rightarrow> string list \<Rightarrow> SequenceStage list \<Rightarrow> SequenceRule" where
  "starter_rule rule_id name severity tags rationale quality stages =
     \<lparr>sr_name = name, sr_stages = stages, sr_rule_id = Some rule_id, sr_version = ''1'',
      sr_severity = severity, sr_tags = tags, sr_rationale = rationale, sr_references = [],
      sr_required_evidence_quality = quality, sr_group_by = [''correlation.run_id''],
      sr_ordered = True, sr_within_seconds = None, sr_deduplicate = True,
      sr_suppression_seconds = None, sr_suppression_key = []\<rparr>"

definition built_in_sequence_rules :: "SequenceRule list" where
  "built_in_sequence_rules =
     [starter_rule ''AL-DET-001'' ''restricted-read-followed-by-verified-untrusted-send'' ''high''
        [''exfiltration'', ''verified-side-effect'']
        ''Restricted reads followed by verified untrusted sends need review.'' [''verified'']
        [stage ''action.normalized''
           [(''action.resources.0.attributes.sensitivity'', VStr ''restricted'')] (Some ''restricted-read''),
         stage ''side_effect.verified''
           [(''evidence_link.verification_status'', VStr ''verified'')] (Some ''verified-send'')],
      starter_rule ''AL-DET-002'' ''descriptor-drift-before-sensitive-action'' ''medium''
        [''descriptor-drift'', ''tool-identity'']
        ''Descriptor drift before sensitive actions can invalidate prior review.'' []
        [stage ''agent.tool.schema_changed'' [] None, stage ''action.normalized'' [] None],
      starter_rule ''AL-DET-003'' ''acknowledged-high-risk-action-not-observed'' ''medium''
        [''unverified'', ''side-effect'']
        ''Acknowledged high-risk actions without observations remain unverified.'' []
        [stage ''tool.execution.acknowledged''
           [(''tool_identity.name'', VStr ''safe_http.send''),
            (''acknowledgement.status'',
               obj [(''in'', VList [VStr ''success'', VStr ''succeeded''])])] None,
         stage ''side_effect.unverified''
           [(''evidence_link.verification_status'',
               obj [(''in'', VList [VStr ''unverified'', VStr ''timed_out''])])] None],
      starter_rule ''AL-DET-004'' ''conflicting-observer-evidence'' ''high'' [''conflict'', ''observer'']
        ''Conflicting side-effect evidence should be triaged explicitly.'' []
        [stage ''side_effect.conflict_detected'' [] None],
      starter_rule ''AL-DET-005'' ''policy-failure-before-dispatch'' ''high'' [''policy'', ''dispatch'']
        ''Policy failures before dispatch require explicit fail behavior.'' []
        [stage ''policy.decision''
           [(''outcome'', obj [(''in'', VList [VStr ''deny'', VStr ''error''])])] None,
         stage ''tool.execution.not_dispatched''
           [(''not_dispatched.downstream_forwarded'', VBool False)] None]]"

end
