(* ===== verification/DetectionClaims.thy ===== *)
theory DetectionClaims
  imports DetectionRules DomainClaims "HOL-Library.Sublist" "HOL-Library.Multiset"
begin

text \<open>
  The properties of the detection engine: every match is made of events of one group that satisfy
  the stages (soundness), an ordered rule without a window misses nothing (completeness), what a
  window can miss, loaded rules print and load to themselves, and what suppression keeps.
\<close>

section \<open>Ordered sequences\<close>

lemma subseq_set: "subseq xs ys \<Longrightarrow> set xs \<subseteq> set ys"
  by (auto elim: list_emb_set)

lemma subseq_mset: "subseq xs ys \<Longrightarrow> mset xs \<subseteq># mset ys"
  by (induction rule: list_emb.induct) (auto intro: subset_mset.order_trans)

abbreviation satisfies ::
  "(event \<Rightarrow> SequenceStage \<Rightarrow> bool res) \<Rightarrow> event list \<Rightarrow> SequenceStage list \<Rightarrow> bool" where
  "satisfies m \<equiv> list_all2 (\<lambda>e s. m e s = Inr True)"

lemma complete_stages_sound:
  "complete_stages m es ss = Inr (Some (ms, rest)) \<Longrightarrow> satisfies m ms ss \<and> subseq (ms @ rest) es"
proof (induction m es ss arbitrary: ms rest rule: complete_stages.induct)
  case (3 m e es s ss)
  obtain b where b: "m e s = Inr b" using 3(3) by (auto simp: bnd_Inr_iff)
  consider "\<not> b" | "b" "ss = []" | "b" "ss \<noteq> []" by blast
  then show ?case
  proof cases
    case 1
    then show ?thesis using 3(1,3) b by fastforce
  next
    case 2
    then show ?thesis using 3(3) b by auto
  next
    case 3
    then obtain ms' where "complete_stages m es ss = Inr (Some (ms', rest))" "ms = e # ms'"
      using "3.prems" b by (auto simp: bnd_Inr_iff)
    then show ?thesis using "3.IH"(2) 3 b by fastforce
  qed
qed auto

lemma match_ordered_sound:
  "match_ordered m ss w es = Inr mss \<Longrightarrow>
   subseq (concat mss) es \<and> (\<forall>ms\<in>set mss. satisfies m ms ss \<and> within_window ms w)"
proof (induction m ss w es arbitrary: mss rule: match_ordered.induct)
  case (1 m ss w es)
  show ?case
  proof (cases "es = []")
    case True
    then show ?thesis using 1(2) by (simp add: match_ordered.simps)
  next
    case False
    then obtain r where r: "complete_stages m es ss = Inr r"
      and mss: "(case r of None \<Rightarrow> Inr [] | Some (matched, rest) \<Rightarrow>
            bnd (match_ordered m ss w rest) (\<lambda>ms.
              Inr (if within_window matched w then matched # ms else ms))) = Inr mss"
      using 1(2) by (auto simp: match_ordered.simps [of m ss w es] bnd_Inr_iff)
    show ?thesis
    proof (cases r)
      case None
      then show ?thesis using mss by simp
    next
      case (Some p)
      obtain ms rest where p: "p = (ms, rest)" by (cases p)
      obtain mss' where rec: "match_ordered m ss w rest = Inr mss'"
        and mss': "mss = (if within_window ms w then ms # mss' else mss')"
        using mss Some p by (auto simp: bnd_Inr_iff)
      have s: "satisfies m ms ss" "subseq (ms @ rest) es"
        using complete_stages_sound r Some p by blast+
      have IH: "subseq (concat mss') rest" "\<forall>ms\<in>set mss'. satisfies m ms ss \<and> within_window ms w"
        using 1(1) [OF False r Some p [symmetric] rec] by blast+
      have "subseq (ms @ concat mss') es"
        using s(2) IH(1) by (meson list_emb_append_mono subseq_order.order_trans subseq_order.order_refl)
      moreover have "subseq (concat mss') (ms @ concat mss')"
        by (metis list_emb_append2 subseq_order.order_refl)
      ultimately show ?thesis using mss' s(1) IH(2) by (auto intro: subseq_order.order_trans)
    qed
  qed
qed

lemma complete_stages_None:
  assumes "\<And>e s. e \<in> set es \<Longrightarrow> s \<in> set ss \<Longrightarrow> m e s = Inr (p e s)" "ss \<noteq> []"
  shows "(\<exists>r. complete_stages m es ss = Inr r)
    \<and> (complete_stages m es ss = Inr None \<longleftrightarrow> \<not> (\<exists>ms. subseq ms es \<and> list_all2 p ms ss))"
  using assms
proof (induction m es ss rule: complete_stages.induct)
  case (2 m s ss)
  then show ?case by (auto dest!: list_emb_Nil2)
next
  case (3 m e es s ss)
  have m: "m e s = Inr (p e s)" using 3(3) by simp
  have split: "(\<exists>ms. subseq ms (e # es) \<and> list_all2 p ms (s # ss)) \<longleftrightarrow>
      (\<exists>ms. subseq ms es \<and> list_all2 p ms (s # ss))
      \<or> p e s \<and> (\<exists>ms. subseq ms es \<and> list_all2 p ms ss)"
  proof
    assume "\<exists>ms. subseq ms (e # es) \<and> list_all2 p ms (s # ss)"
    then obtain x xs where "subseq (x # xs) (e # es)" "p x s" "list_all2 p xs ss"
      by (auto simp: list_all2_Cons2)
    then show "(\<exists>ms. subseq ms es \<and> list_all2 p ms (s # ss))
      \<or> p e s \<and> (\<exists>ms. subseq ms es \<and> list_all2 p ms ss)"
      by (cases "x = e") (metis list_all2_Cons subseq_Cons2', metis list_all2_Cons subseq_Cons2_neq)
  next
    assume "(\<exists>ms. subseq ms es \<and> list_all2 p ms (s # ss))
      \<or> p e s \<and> (\<exists>ms. subseq ms es \<and> list_all2 p ms ss)"
    then show "\<exists>ms. subseq ms (e # es) \<and> list_all2 p ms (s # ss)"
      by (meson list_all2_Cons subseq_Cons2 list_emb_Cons)
  qed
  have tail: "\<exists>ms. subseq ms es \<and> list_all2 p ms (s # ss) \<Longrightarrow> \<exists>ms. subseq ms es \<and> list_all2 p ms ss"
    by (auto simp: list_all2_Cons2) (meson subseq_Cons')
  consider "\<not> p e s" | "p e s" "ss = []" | "p e s" "ss \<noteq> []" by blast
  then show ?case
  proof cases
    case 1
    then show ?thesis using 3(1) [OF m] 3(3) split m by auto
  next
    case 2
    then show ?thesis using split m by auto
  next
    case 3
    then have "(\<exists>r. complete_stages m es ss = Inr r)
        \<and> (complete_stages m es ss = Inr None \<longleftrightarrow> \<not> (\<exists>ms. subseq ms es \<and> list_all2 p ms ss))"
      using "3.IH"(2) [OF m] "3.prems" by auto
    then show ?thesis using 3 m split tail by (auto simp: bnd_Inr_iff)
  qed
qed simp

lemma match_ordered_Nil_iff:
  assumes "\<And>e s. e \<in> set es \<Longrightarrow> s \<in> set ss \<Longrightarrow> m e s = Inr (p e s)" "ss \<noteq> []"
  shows "(\<exists>mss. match_ordered m ss None es = Inr mss)
    \<and> (match_ordered m ss None es = Inr [] \<longleftrightarrow> \<not> (\<exists>ms. subseq ms es \<and> list_all2 p ms ss))"
  using assms
proof (induction m ss "None :: pyfloat option" es rule: match_ordered.induct)
  case (1 m ss es)
  show ?case
  proof (cases "es = []")
    case True
    then show ?thesis using 1(3) by (auto simp: match_ordered.simps dest!: list_emb_Nil2)
  next
    case False
    have c: "(\<exists>r. complete_stages m es ss = Inr r)
        \<and> (complete_stages m es ss = Inr None \<longleftrightarrow> \<not> (\<exists>ms. subseq ms es \<and> list_all2 p ms ss))"
      using 1(2,3) by (rule complete_stages_None)
    then obtain r where r: "complete_stages m es ss = Inr r" by blast
    then have none: "r = None \<longleftrightarrow> \<not> (\<exists>ms. subseq ms es \<and> list_all2 p ms ss)"
      using c by simp
    show ?thesis
    proof (cases r)
      case None
      then have "match_ordered m ss None es = Inr []"
        using r False by (simp add: match_ordered.simps [of m ss _ es])
      then show ?thesis using none None by blast
    next
      case (Some q)
      obtain ms rest where q: "q = (ms, rest)" by (cases q)
      have "subseq (ms @ rest) es" using complete_stages_sound r Some q by blast
      then have "set rest \<subseteq> set es" by (metis Un_subset_iff set_append subseq_set)
      then obtain mss where "match_ordered m ss None rest = Inr mss"
        using 1(1) [OF False r Some q [symmetric]] 1(2,3) by blast
      then have "match_ordered m ss None es = Inr (ms # mss)"
        using r False Some q by (simp add: match_ordered.simps [of m ss _ es] within_window_def)
      then show ?thesis using none Some by auto
    qed
  qed
qed

section \<open>Unordered sequences\<close>

lemma take_match_sound:
  "take_match m s es = Inr (Some (e, rest)) \<Longrightarrow> m e s = Inr True \<and> mset es = add_mset e (mset rest)"
proof (induction es arbitrary: e rest)
  case (Cons f es)
  obtain b where "m f s = Inr b" using Cons.prems by (auto simp: bnd_Inr_iff)
  then show ?case using Cons by (cases b) (auto simp: bnd_Inr_iff)
qed simp

lemma match_stages_sound:
  "match_stages m ss es = Inr (Some ms) \<Longrightarrow> satisfies m ms ss \<and> mset ms \<subseteq># mset es"
proof (induction ss arbitrary: es ms)
  case (Cons s ss)
  then obtain e rest ms' where t: "take_match m s es = Inr (Some (e, rest))"
    "match_stages m ss rest = Inr (Some ms')" "ms = e # ms'"
    by (auto simp: bnd_Inr_iff split: option.splits)
  then show ?case using Cons.IH [OF t(2)] take_match_sound [OF t(1)] by auto
qed simp

lemma match_unordered_sound:
  assumes "match_unordered m ss w es = Inr mss" "ms \<in> set mss"
  shows "satisfies m ms ss \<and> mset ms \<subseteq># mset es \<and> within_window ms w"
proof -
  obtain r where "match_stages m ss es = Inr r" using assms by (auto simp: match_unordered_def bnd_Inr_iff)
  then show ?thesis
    using assms match_stages_sound
    by (auto simp: match_unordered_def split: option.splits if_splits)
qed

section \<open>Suppression\<close>

lemma suppress_step_seen:
  assumes "suppress_step pd rule key st ms = Inr (emit, st')"
  shows "if sr_deduplicate rule \<and> map event_id ms \<in> set (su_seen st)
    then \<not> emit \<and> st' = st else su_seen st' = map event_id ms # su_seen st"
proof (cases "sr_deduplicate rule \<and> map event_id ms \<in> set (su_seen st)")
  case True
  then show ?thesis using assms by (simp add: suppress_step_def Let_def)
next
  case False
  then obtain k where "suppression_key pd rule key ms = Inr k"
    using assms by (auto simp: suppress_step_def Let_def bnd_Inr_iff)
  then show ?thesis
    using False assms
    by (cases "map occurred_at ms") (auto simp: suppress_step_def Let_def split: if_split_asm)
qed

lemma suppress_loop_sound:
  "suppress_loop pd rule key st mss = Inr out \<Longrightarrow>
   subseq out mss
   \<and> (sr_deduplicate rule \<longrightarrow>
        distinct (map (map event_id) out) \<and> set (map (map event_id) out) \<inter> set (su_seen st) = {})"
proof (induction mss arbitrary: st out)
  case (Cons ms mss)
  obtain emit st' out' where step: "suppress_step pd rule key st ms = Inr (emit, st')"
    and rec: "suppress_loop pd rule key st' mss = Inr out'"
    and out: "out = (if emit then ms # out' else out')"
    using Cons.prems by (auto simp: bnd_Inr_iff)
  note seen = suppress_step_seen [OF step]
  show ?case using Cons.IH [OF rec] out seen by (auto simp: disjoint_iff split: if_split_asm)
qed simp

section \<open>Groups\<close>

definition group_of :: "('k \<times> 'a list) list \<Rightarrow> 'k \<Rightarrow> 'a list" where
  "group_of g k = (case dget g k of None \<Rightarrow> [] | Some es \<Rightarrow> es)"

lemma group_of_append:
  "group_of (group_append g k e) k' = group_of g k' @ (if k' = k then [e] else [])"
  by (induction g k e rule: group_append.induct) (auto simp: group_of_def)

lemma keys_group_append:
  "keys (group_append g k e) = (if k \<in> set (keys g) then keys g else keys g @ [k])"
  by (induction g k e rule: group_append.induct) (auto simp del: set_map)

lemma group_loop_groups:
  "group_loop pd paths es g = Inr groups \<Longrightarrow> distinct (keys g) \<Longrightarrow>
   distinct (keys groups)
   \<and> group_of groups k = group_of g k @ filter (\<lambda>e. event_key pd paths e = Inr k) es"
proof (induction pd paths es g rule: group_loop.induct)
  case (2 pd paths e es g)
  then obtain key where key: "event_key pd paths e = Inr key"
    "group_loop pd paths es (group_append g key e) = Inr groups"
    by (auto simp: bnd_Inr_iff)
  have "distinct (keys (group_append g key e))"
    using "2.prems"(2) by (simp add: keys_group_append del: set_map)
  then show ?case using "2.IH" [OF key(1,2)] key(1) by (auto simp: group_of_append)
qed simp

lemma group_events_filter:
  assumes "group_events pd events paths = Inr groups" "(k, es) \<in> set groups"
  shows "es = filter (\<lambda>e. event_key pd paths e = Inr k) events"
proof -
  have "distinct (keys groups)" "group_of groups k = filter (\<lambda>e. event_key pd paths e = Inr k) events"
    using group_loop_groups [of pd paths events "[]" groups k] assms(1)
    by (simp_all add: group_events_def group_of_def)
  then show ?thesis using assms(2) by (simp add: group_of_def dget_map_of)
qed

section \<open>Matches\<close>

lemma match_group_sound:
  assumes "match_group pd rx rule (key, grp) = Inr dms" "dm \<in> set dms"
  shows "\<exists>matched. dm = rule_match rule key matched
    \<and> satisfies (event_matches_stage pd rx) matched (sr_stages rule)
    \<and> mset matched \<subseteq># mset grp \<and> within_window matched (sr_within_seconds rule)
    \<and> (sr_ordered rule \<longrightarrow> subseq matched (order_events grp))"
proof -
  obtain mss out where mss: "(if sr_ordered rule then match_ordered else match_unordered)
            (event_matches_stage pd rx) (sr_stages rule) (sr_within_seconds rule)
            (order_events grp) = Inr mss"
    and out: "suppress_and_dedupe pd rule key mss = Inr out" "dms = map (rule_match rule key) out"
    using assms(1) by (auto simp: match_group_def bnd_Inr_iff)
  then obtain matched where m: "matched \<in> set mss" "dm = rule_match rule key matched"
    using assms(2) suppress_loop_sound [of pd rule key _ mss out] subseq_set
    unfolding suppress_and_dedupe_def by fastforce
  have mset: "mset (order_events grp) = mset grp" by (simp add: order_events_def)
  show ?thesis
  proof (cases "sr_ordered rule")
    case True
    then have "subseq (concat mss) (order_events grp)"
      "satisfies (event_matches_stage pd rx) matched (sr_stages rule)"
      "within_window matched (sr_within_seconds rule)"
      using mss m(1) match_ordered_sound by fastforce+
    moreover have "subseq matched (concat mss)"
      using m(1) by (metis concat.simps(2) concat_append list_emb_append2 list_emb_prefix
          split_list subseq_order.order_refl)
    ultimately show ?thesis
      using m(2) True mset subseq_mset subseq_order.order_trans by metis
  next
    case False
    then show ?thesis using mss m match_unordered_sound mset by fastforce
  qed
qed

text \<open>Three events of one run and a rule over them, for the instances below.\<close>

definition run_event :: "string \<Rightarrow> string \<Rightarrow> nat \<Rightarrow> event" where
  "run_event i etype seconds =
     (root_event (VFrozenDict []))\<lparr>event_id := i, event_type := etype,
        occurred_at := sample_utc\<lparr>dt_second := seconds\<rparr>\<rparr>"

definition run_rule :: "pyfloat option \<Rightarrow> SequenceRule" where
  "run_rule window =
     (starter_rule ''R1'' ''read-then-send'' ''high'' [] [] []
       [stage ''action.normalized'' [] None, stage ''side_effect.verified'' [] None])
       \<lparr>sr_within_seconds := window\<rparr>"

definition ten_seconds :: pyfloat where
  "ten_seconds = float_of_rat 10"

definition no_regex :: regex_search where
  "no_regex pattern text = None"

definition e1 :: event where "e1 = run_event ''e1'' ''action.normalized'' 0"
definition e2 :: event where "e2 = run_event ''e2'' ''action.normalized'' 30"
definition e3 :: event where "e3 = run_event ''e3'' ''side_effect.verified'' 31"

lemma run_events_keys:
  "event_key strict_pydantic [''correlation.run_id''] e1 = Inr [''r'']"
  "event_key strict_pydantic [''correlation.run_id''] e2 = Inr [''r'']"
  "event_key strict_pydantic [''correlation.run_id''] e3 = Inr [''r'']"
  "order_key e1 < order_key e2" "order_key e2 < order_key e3"
  "map event_id [e1, e2, e3] = [''e1'', ''e2'', ''e3'']"
  by code_simp+

lemma run_events_stages:
  "event_matches_stage strict_pydantic no_regex e1 (stage ''action.normalized'' [] None) = Inr True"
  "event_matches_stage strict_pydantic no_regex e2 (stage ''action.normalized'' [] None) = Inr True"
  "event_matches_stage strict_pydantic no_regex e3 (stage ''action.normalized'' [] None) = Inr False"
  "event_matches_stage strict_pydantic no_regex e1 (stage ''side_effect.verified'' [] None) = Inr False"
  "event_matches_stage strict_pydantic no_regex e2 (stage ''side_effect.verified'' [] None) = Inr False"
  "event_matches_stage strict_pydantic no_regex e3 (stage ''side_effect.verified'' [] None) = Inr True"
  by code_simp+

lemma run_instants:
  "dt_instant (occurred_at e2) = dt_instant (occurred_at e1) + 30000000"
  "dt_instant (occurred_at e3) = dt_instant (occurred_at e1) + 31000000"
  by code_simp+

lemma run_windows:
  "\<not> within_window [e1, e3] (Some ten_seconds)" "within_window [e2, e3] (Some ten_seconds)"
proof -
  have "\<not> fl_le (float_of_rat 31) ten_seconds" "fl_le (float_of_rat 1) ten_seconds" by code_simp+
  then show "\<not> within_window [e1, e3] (Some ten_seconds)" "within_window [e2, e3] (Some ten_seconds)"
    by (simp_all add: within_window_def seconds_between_def run_instants)
qed

lemma run_order:
  "order_events [e1, e2, e3] = [e1, e2, e3]" "order_events [e2, e3] = [e2, e3]"
  using run_events_keys(4,5) by (auto intro!: sorted_sort_key_id simp: order_events_def)

lemma run_rule_fields:
  "sr_stages (run_rule w) =
     [stage ''action.normalized'' [] None, stage ''side_effect.verified'' [] None]"
  "sr_group_by (run_rule w) = [''correlation.run_id'']" "sr_ordered (run_rule w)"
  "sr_within_seconds (run_rule w) = w" "sr_suppression_key (run_rule w) = []"
  "sr_suppression_seconds (run_rule w) = None"
  by (simp_all add: run_rule_def starter_rule_def)

lemma match_ordered_code:
  "match_ordered m ss w [] = Inr []"
  "match_ordered m ss w (e # es) =
     bnd (complete_stages m (e # es) ss) (\<lambda>r.
       case r of
         None \<Rightarrow> Inr []
       | Some (matched, rest) \<Rightarrow>
           bnd (match_ordered m ss w rest) (\<lambda>ms.
             Inr (if within_window matched w then matched # ms else ms)))"
  by (subst match_ordered.simps, simp)+

lemmas run_simps = evaluate_sequence_rule_def group_events_def match_group_def
  match_ordered_code suppress_and_dedupe_def suppress_step_def suppression_key_def Let_def
  rule_match_def run_events_keys run_events_stages run_windows run_order run_rule_fields

lemma run_examples:
  "evaluate_sequence_rule strict_pydantic no_regex [e1, e2, e3] (run_rule (Some ten_seconds)) = Inr []"
  "evaluate_sequence_rule strict_pydantic no_regex [e2, e3] (run_rule (Some ten_seconds))
     = Inr [rule_match (run_rule (Some ten_seconds)) [''r''] [e2, e3]]"
  by (simp_all add: run_simps)

text \<open>C14. Soundness of a rule: every reported match is a list of events of the input, no event
  twice, all with the reported group key, in the order of the stages, each satisfying its stage,
  within the window; for an ordered rule they occur in that order in the sorted group.\<close>
theorem detection_match_sound:
  assumes "evaluate_sequence_rule pd rx events rule = Inr dms" "dm \<in> set dms"
  shows "\<exists>matched. dm_event_ids dm = map event_id matched
    \<and> mset matched \<subseteq># mset events
    \<and> (\<forall>e\<in>set matched. event_key pd (sr_group_by rule) e = Inr (dm_group_key dm))
    \<and> satisfies (event_matches_stage pd rx) matched (sr_stages rule)
    \<and> within_window matched (sr_within_seconds rule)
    \<and> (sr_ordered rule \<longrightarrow> subseq matched
         (order_events (filter (\<lambda>e. event_key pd (sr_group_by rule) e = Inr (dm_group_key dm)) events)))"
proof -
  obtain groups mss where g: "group_events pd events (sr_group_by rule) = Inr groups"
    "traverse (match_group pd rx rule) groups = Inr mss" "dms = concat mss"
    using assms by (auto simp: evaluate_sequence_rule_def bnd_Inr_iff split: if_split_asm)
  then obtain ms where "ms \<in> set mss" "dm \<in> set ms" using assms(2) by auto
  then obtain key grp where kg: "(key, grp) \<in> set groups" "match_group pd rx rule (key, grp) = Inr ms"
    using g(2) by (auto simp: traverse_Inr_iff list_all2_conv_all_nth in_set_conv_nth) (metis prod.collapse)
  obtain matched where m: "dm = rule_match rule key matched"
    "satisfies (event_matches_stage pd rx) matched (sr_stages rule)"
    "mset matched \<subseteq># mset grp" "within_window matched (sr_within_seconds rule)"
    "sr_ordered rule \<longrightarrow> subseq matched (order_events grp)"
    using match_group_sound [OF kg(2) \<open>dm \<in> set ms\<close>] by blast
  have grp: "grp = filter (\<lambda>e. event_key pd (sr_group_by rule) e = Inr key) events"
    using group_events_filter [OF g(1) kg(1)] .
  have "mset matched \<subseteq># mset events"
    using m(3) grp by (metis mset_filter multiset_filter_subset subset_mset.order_trans)
  moreover have "set matched \<subseteq> set grp" using m(3) by (metis set_mset_mono set_mset_mset)
  ultimately show ?thesis using m grp by (intro exI [of _ matched]) (auto simp: rule_match_def)
qed

text \<open>C15. Completeness of an ordered rule without a window: when every stage test returns, the group
  produces no match exactly when no subsequence of its events satisfies the stages.\<close>
theorem ordered_rule_complete:
  assumes "\<And>e s. e \<in> set events \<Longrightarrow> s \<in> set stages \<Longrightarrow> event_matches_stage pd rx e s = Inr (p e s)"
    and "stages \<noteq> []"
  shows "match_ordered (event_matches_stage pd rx) stages None events = Inr []
    \<longleftrightarrow> \<not> (\<exists>matched. subseq matched events \<and> list_all2 p matched stages)"
  using match_ordered_Nil_iff [of events stages "event_matches_stage pd rx" p] assms by blast

theorem detection_match_sound_witness:
  "\<exists>matched. dm_event_ids (rule_match (run_rule (Some ten_seconds)) [''r''] [e2, e3]) = map event_id matched
    \<and> mset matched \<subseteq># mset [e2, e3]
    \<and> within_window matched (Some ten_seconds)"
  using detection_match_sound [OF run_examples(2), of "rule_match (run_rule (Some ten_seconds)) [''r''] [e2, e3]"]
  by (auto simp: run_rule_fields)

theorem ordered_rule_complete_witness:
  "match_ordered (event_matches_stage strict_pydantic no_regex) (sr_stages (run_rule None)) None [e1, e2, e3]
     \<noteq> Inr []"
proof -
  let ?m = "event_matches_stage strict_pydantic no_regex"
  have m: "?m e s = Inr (?m e s = Inr True)"
    if "e \<in> set [e1, e2, e3]" "s \<in> set (sr_stages (run_rule None))" for e s
    using that by (auto simp: run_rule_fields run_events_stages)
  have "sr_stages (run_rule None) \<noteq> []" by (simp add: run_rule_fields)
  moreover have "subseq [e1, e3] [e1, e2, e3]"
    "list_all2 (\<lambda>e s. ?m e s = Inr True) [e1, e3] (sr_stages (run_rule None))"
    by (simp_all add: run_rule_fields run_events_stages)
  ultimately show ?thesis using ordered_rule_complete [OF m] by blast
qed

text \<open>A rule with a window can miss a sequence that lies inside it: the matcher takes the first
  event for every stage, and when the sequence it completed is too long it goes on after its last
  event. Here \<open>e2\<close> and \<open>e3\<close> satisfy the stages one second apart, and nothing is reported.\<close>
theorem windowed_match_missed:
  "evaluate_sequence_rule strict_pydantic no_regex [e1, e2, e3] (run_rule (Some ten_seconds)) = Inr []
   \<and> subseq [e2, e3] (order_events [e1, e2, e3])
   \<and> satisfies (event_matches_stage strict_pydantic no_regex) [e2, e3]
        (sr_stages (run_rule (Some ten_seconds)))
   \<and> within_window [e2, e3] (sr_within_seconds (run_rule (Some ten_seconds)))"
  using run_examples(1)
  by (simp add: run_order run_rule_fields run_events_stages run_windows)

text \<open>A comparison of an aware timestamp with a naive threshold raises \<open>TypeError\<close> out of the
  evaluation; the loader does not look at thresholds, so it accepts such a rule.\<close>
theorem naive_threshold_raises:
  assumes "datetime_value (VStr actual) = Some a" "dt_offset a \<noteq> None"
    and "datetime_value (VStr threshold) = Some t" "dt_offset t = None"
    and "operator \<in> {GT, GTE, LT, LTE}"
  shows "matches_expected rx (VStr actual) (obj [(comparison_name operator, VStr threshold)])
      = raise TypeError ''can't compare offset-naive and offset-aware datetimes''
    \<and> validate_predicate (obj [(comparison_name operator, VStr threshold)]) = Inr ()"
  using assms
  by (cases operator)
    (simp_all add: matches_expected.simps value_operator_def get_or_none_def compare_def number_def
      compare_datetimes_def validate_predicate_def string_keyed_mapping_def validate_operator_def
      allowed_operators_def Let_def)

theorem naive_threshold_raises_witness:
  "matches_expected no_regex (VStr ''2026-01-02T03:04:00Z'') (obj [(''gt'', VStr ''2026-01-01'')])
      = raise TypeError ''can't compare offset-naive and offset-aware datetimes''
    \<and> validate_predicate (obj [(''gt'', VStr ''2026-01-01'')]) = Inr ()"
proof -
  have "datetime_value (VStr ''2026-01-02T03:04:00Z'') =
      Some \<lparr>d_year = 2026, d_month = 1, d_day = 2, dt_hour = 3, dt_minute = 4, dt_second = 0,
            dt_micro = 0, dt_offset = Some 0\<rparr>"
    "datetime_value (VStr ''2026-01-01'') =
      Some \<lparr>d_year = 2026, d_month = 1, d_day = 1, dt_hour = 0, dt_minute = 0, dt_second = 0,
            dt_micro = 0, dt_offset = None\<rparr>"
    by code_simp+
  then show ?thesis
    using naive_threshold_raises [where operator = GT and rx = no_regex] by simp
qed

section \<open>Loaded rules\<close>

definition wf_stage :: "SequenceStage \<Rightarrow> bool" where
  "wf_stage s \<longleftrightarrow> st_event_type s \<noteq> [] \<and> st_name s \<noteq> Some []
     \<and> [] \<notin> fst ` set (st_where s) \<and> (\<forall>p\<in>set (st_where s). validate_predicate (snd p) = Inr ())"

definition wf_rule :: "SequenceRule \<Rightarrow> bool" where
  "wf_rule r \<longleftrightarrow> sr_name r \<noteq> [] \<and> sr_rule_id r \<noteq> Some [] \<and> sr_version r \<noteq> [] \<and> sr_severity r \<noteq> []
     \<and> [] \<notin> set (sr_tags r) \<and> [] \<notin> set (sr_references r)
     \<and> [] \<notin> set (sr_required_evidence_quality r) \<and> [] \<notin> set (sr_group_by r) \<and> sr_group_by r \<noteq> []
     \<and> [] \<notin> set (sr_suppression_key r) \<and> sr_stages r \<noteq> [] \<and> (\<forall>s\<in>set (sr_stages r). wf_stage s)"

lemma nonempty_strings_iff:
  "list_all (\<lambda>v. case v of VStr s \<Rightarrow> s \<noteq> [] | _ \<Rightarrow> False) xs \<longleftrightarrow>
     (\<exists>ss. xs = map VStr ss \<and> [] \<notin> set ss)"
proof (induction xs)
  case (Cons x xs)
  show ?case
  proof (cases x)
    case (VStr s)
    have "(\<exists>ss. x # xs = map VStr ss \<and> [] \<notin> set ss) \<longleftrightarrow>
        s \<noteq> [] \<and> (\<exists>ss. xs = map VStr ss \<and> [] \<notin> set ss)"
      using VStr by (auto simp: Cons_eq_map_conv intro: exI [of _ "s # _"])
    then show ?thesis using Cons VStr by simp
  qed (auto simp: Cons_eq_map_conv)
qed simp

lemma string_tuple_Inr:
  assumes "string_tuple v f = Inr ss"
  shows "[] \<notin> set ss"
proof (cases "v = VNone")
  case False
  then obtain xs where xs: "v = VList xs" "list_all (\<lambda>v. case v of VStr s \<Rightarrow> s \<noteq> [] | _ \<Rightarrow> False) xs"
    "ss = map (\<lambda>v. case v of VStr s \<Rightarrow> s | _ \<Rightarrow> []) xs"
    using assms by (cases v) (auto simp: string_tuple_def split: if_splits)
  then obtain ts where "xs = map VStr ts" "[] \<notin> set ts" using nonempty_strings_iff by blast
  then show ?thesis using xs(3) by (simp add: comp_def)
qed (use assms in \<open>simp add: string_tuple_def\<close>)

lemma string_tuple_strings: "[] \<notin> set ss \<Longrightarrow> string_tuple (VList (map VStr ss)) f = Inr ss"
  by (auto simp: string_tuple_def nonempty_strings_iff comp_def)

lemma required_string_Inr: "required_string d f = Inr s \<Longrightarrow> s \<noteq> []"
  by (auto simp: required_string_def split: option.splits if_splits)

lemma optional_string_Inr: "optional_string d f = Inr s \<Longrightarrow> s \<noteq> Some []"
  by (auto simp: optional_string_def split: option.splits if_splits)

lemma bad_key_iff:
  "(case k of KStr s \<Rightarrow> s = [] | KOther t \<Rightarrow> True) \<longleftrightarrow> \<not> (\<exists>s. k = KStr s \<and> s \<noteq> [])"
  by (cases k) auto

lemma string_keyed_Inr: "string_keyed_mapping d f = Inr e \<longleftrightarrow>
    e = d \<and> (\<forall>p\<in>set d. \<exists>k. fst p = KStr k \<and> k \<noteq> [])"
  by (auto simp: string_keyed_mapping_def list_ex_iff bad_key_iff simp del: not_ex)

lemma traverse_unit: "traverse f xs = Inr (us :: unit list) \<Longrightarrow> x \<in> set xs \<Longrightarrow> f x = Inr ()"
  by (induction xs arbitrary: us) (auto simp: bnd_Inr_iff)

lemma validated_where_Inr:
  assumes "validated_where v = Inr w"
  shows "[] \<notin> fst ` set w \<and> (\<forall>p\<in>set w. validate_predicate (snd p) = Inr ())"
proof (cases "v = VNone")
  case False
  then obtain d us where d: "\<forall>p\<in>set d. \<exists>k. fst p = KStr k \<and> k \<noteq> []"
    "traverse validate_predicate (map snd d) = Inr us" "w = map (\<lambda>(k, v). (key_str k, v)) d"
    using assms by (auto simp: validated_where_def bnd_Inr_iff string_keyed_Inr split: option.splits)
  have "validate_predicate (snd p) = Inr ()" if "p \<in> set d" for p
    using traverse_unit [OF d(2)] that by simp
  moreover have "key_str (fst p) \<noteq> []" if "p \<in> set d" for p using d(1) that by force
  ultimately show ?thesis using d(3) by (auto simp: case_prod_beta image_iff) metis
qed (use assms in \<open>simp add: validated_where_def\<close>)

lemma stage_from_dict_wf:
  assumes "sequence_stage_from_dict v = Inr s"
  shows "wf_stage s"
proof -
  obtain d w n t where "validated_where (get_or d ''where'' (VDict [])) = Inr w"
    "optional_string d ''name'' = Inr n" "required_string d ''event_type'' = Inr t"
    "s = \<lparr>st_event_type = t, st_where = w, st_name = n\<rparr>"
    using assms by (auto simp: sequence_stage_from_dict_def bnd_Inr_iff split: option.splits)
  then show ?thesis
    using validated_where_Inr required_string_Inr optional_string_Inr
    by (auto simp: wf_stage_def)
qed

lemma traverse_all: "traverse f xs = Inr ys \<Longrightarrow> y \<in> set ys \<Longrightarrow> \<exists>x\<in>set xs. f x = Inr y"
  by (induction xs arbitrary: ys) (auto simp: bnd_Inr_iff)

lemma bndE:
  assumes "bnd a f = Inr y"
  obtains x where "a = Inr x" "f x = Inr y"
  using assms by (auto simp: bnd_Inr_iff)

lemma rule_from_mapping_wf:
  assumes "rule_from_mapping rd stages_data = Inr r" "stages_data \<noteq> []"
  shows "wf_rule r"
  using assms(1) unfolding rule_from_mapping_def
proof (elim bndE)
  fix rule_id name version severity tags rationale references quality group_by ordered window dedup
    suppression skey stages
  assume d: "optional_string rd ''rule_id'' = Inr rule_id" "required_string rd ''name'' = Inr name"
    "optional_string rd ''version'' = Inr version" "optional_string rd ''severity'' = Inr severity"
    "string_tuple (get_or_none rd ''tags'') ''tags'' = Inr tags"
    "string_tuple (get_or_none rd ''references'') ''references'' = Inr references"
    "string_tuple (get_or_none rd ''required_evidence_quality'') ''required_evidence_quality''
       = Inr quality"
    "string_tuple (get_or_none rd ''group_by'') ''group_by'' = Inr group_by"
    "string_tuple (get_or_none rd ''suppression_key'') ''suppression_key'' = Inr skey"
    "traverse sequence_stage_from_dict stages_data = Inr stages"
    and r: "Inr \<lparr>sr_name = name, sr_stages = stages, sr_rule_id = rule_id,
          sr_version = (case version of None \<Rightarrow> ''1'' | Some v \<Rightarrow> v),
          sr_severity = (case severity of None \<Rightarrow> ''medium'' | Some v \<Rightarrow> v),
          sr_tags = tags, sr_rationale = (case rationale of None \<Rightarrow> [] | Some t \<Rightarrow> t),
          sr_references = references, sr_required_evidence_quality = quality,
          sr_group_by = (if group_by = [] then [''correlation.run_id''] else group_by),
          sr_ordered = ordered, sr_within_seconds = window, sr_deduplicate = dedup,
          sr_suppression_seconds = suppression, sr_suppression_key = skey\<rparr> = Inr r"
  have "stages \<noteq> []" using d(10) assms(2) by (auto dest: traverse_length)
  moreover have "\<forall>s\<in>set stages. wf_stage s" using traverse_all [OF d(10)] stage_from_dict_wf by blast
  moreover have "(case version of None \<Rightarrow> ''1'' | Some v \<Rightarrow> v) \<noteq> []"
    "(case severity of None \<Rightarrow> ''medium'' | Some v \<Rightarrow> v) \<noteq> []"
    using optional_string_Inr [OF d(3)] optional_string_Inr [OF d(4)] by (auto split: option.split)
  moreover note required_string_Inr [OF d(2)] optional_string_Inr [OF d(1)]
    d(5-9) [THEN string_tuple_Inr]
  ultimately show "wf_rule r" using r by (auto simp: wf_rule_def split: if_splits)
qed

lemma rule_from_dict_wf: "sequence_rule_from_dict v = Inr r \<Longrightarrow> wf_rule r"
  using rule_from_mapping_wf
  by (auto simp: sequence_rule_from_dict_def bnd_Inr_iff split: option.splits if_split_asm)

lemma stage_round_trip:
  assumes "wf_stage s"
  shows "sequence_stage_from_dict (stage_to_dict s) = Inr s"
proof -
  have w: "validated_where (obj (st_where s)) = Inr (st_where s)"
  proof -
    have "string_keyed_mapping (obj_items (st_where s)) ''sequence stage where'' = Inr (obj_items (st_where s))"
      using assms by (auto simp: string_keyed_Inr wf_stage_def image_iff)
    moreover have "traverse validate_predicate (map snd (obj_items (st_where s)))
        = Inr (map (\<lambda>_. ()) (map snd (obj_items (st_where s))))"
      using assms by (intro traverse_all_Inr) (auto simp: wf_stage_def)
    ultimately show ?thesis by (simp add: validated_where_def comp_def case_prod_beta)
  qed
  have "sequence_stage_from_dict (stage_to_dict s) =
      Inr \<lparr>st_event_type = st_event_type s, st_where = st_where s, st_name = st_name s\<rparr>"
    using assms w
    by (cases "st_name s")
      (simp_all add: sequence_stage_from_dict_def stage_to_dict_def string_keyed_mapping_def
        get_or_def get_or_none_def optional_string_def required_string_def wf_stage_def)
  then show ?thesis by simp
qed

lemma rule_from_printed:
  assumes "sequence_rule_to_dict r = VDict d" "wf_rule r"
    and "traverse sequence_stage_from_dict (map stage_to_dict (sr_stages r)) = Inr (sr_stages r)"
  shows "rule_from_mapping d (map stage_to_dict (sr_stages r)) = Inr r"
proof -
  have get: "get_or_none d ''rule_id'' = opt_str (sr_rule_id r)"
    "get_or_none d ''name'' = VStr (sr_name r)" "get_or_none d ''version'' = VStr (sr_version r)"
    "get_or_none d ''severity'' = VStr (sr_severity r)"
    "get_or_none d ''tags'' = VList (map VStr (sr_tags r))"
    "get_or_none d ''rationale'' = VStr (sr_rationale r)"
    "get_or_none d ''references'' = VList (map VStr (sr_references r))"
    "get_or_none d ''required_evidence_quality'' = VList (map VStr (sr_required_evidence_quality r))"
    "get_or_none d ''group_by'' = VList (map VStr (sr_group_by r))"
    "get_or_none d ''ordered'' = VBool (sr_ordered r)"
    "get_or_none d ''within_seconds'' = opt_float (sr_within_seconds r)"
    "get_or_none d ''deduplicate'' = VBool (sr_deduplicate r)"
    "get_or_none d ''suppression_seconds'' = opt_float (sr_suppression_seconds r)"
    "get_or_none d ''suppression_key'' = VList (map VStr (sr_suppression_key r))"
    using assms(1) by (auto simp: sequence_rule_to_dict_def get_or_none_def)
  have "optional_float (opt_float w) f = Inr w" for w f
    by (cases w) (simp_all add: optional_float_def opt_float_def)
  moreover have "optional_string d ''rule_id'' = Inr (sr_rule_id r)"
    using assms(2) get(1) by (cases "sr_rule_id r") (auto simp: optional_string_def wf_rule_def)
  moreover have "sr_name r \<noteq> []" "sr_version r \<noteq> []" "sr_severity r \<noteq> []" "sr_group_by r \<noteq> []"
    "[] \<notin> set (sr_tags r)" "[] \<notin> set (sr_references r)"
    "[] \<notin> set (sr_required_evidence_quality r)" "[] \<notin> set (sr_group_by r)"
    "[] \<notin> set (sr_suppression_key r)"
    using assms(2) by (simp_all add: wf_rule_def)
  ultimately show ?thesis
    by (simp add: rule_from_mapping_def get assms(3) optional_string_def required_string_def
        string_tuple_strings optional_text_def bool_value_def)
qed

text \<open>C18. Every rule the loader returns is well formed, and is a fixed point of printing and loading:
  written with \<open>sequence_rule_to_dict\<close> and loaded again, it is the same rule.\<close>
theorem loaded_rule_round_trip:
  assumes "sequence_rule_from_dict v = Inr r"
  shows "wf_rule r \<and> sequence_rule_from_dict (sequence_rule_to_dict r) = Inr r"
proof -
  have wf: "wf_rule r" using assms by (rule rule_from_dict_wf)
  have st: "traverse sequence_stage_from_dict (map stage_to_dict (sr_stages r)) = Inr (sr_stages r)"
    using wf stage_round_trip by (simp add: traverse_map wf_rule_def traverse_all_Inr [where g = "\<lambda>x. x"])
  obtain d where d: "sequence_rule_to_dict r = VDict d" by (simp add: sequence_rule_to_dict_def)
  have "canonical_rule_mapping d = Inr d"
    using d by (auto simp: sequence_rule_to_dict_def canonical_rule_mapping_def get_or_none_def
        string_keyed_mapping_def)
  moreover have "rule_from_mapping d (map stage_to_dict (sr_stages r)) = Inr r"
    by (rule rule_from_printed [OF d wf st])
  ultimately show ?thesis
    using d wf
    by (auto simp: sequence_rule_from_dict_def sequence_rule_to_dict_def get_or_none_def wf_rule_def)
qed

theorem loaded_rule_round_trip_witness:
  "\<exists>r. sequence_rule_from_dict (sequence_rule_to_dict (hd built_in_sequence_rules)) = Inr r \<and> wf_rule r"
proof -
  have "sequence_rule_from_dict (sequence_rule_to_dict (hd built_in_sequence_rules))
      = Inr (hd built_in_sequence_rules)" by code_simp
  then show ?thesis using loaded_rule_round_trip by blast
qed

end
