(* ===== verification/Attestation.thy ===== *)
theory Attestation
  imports Support
begin

text \<open>
  \<open>observers/attestation.py\<close>, \<open>observers/verification.py\<close> and the observation outcomes of
  \<open>observers/local.py\<close>: reviewed declarations that scope what an observer may claim, the reasons
  an independence claim is refused, and the verification decisions built from observations.

  A declaration parsed from JSON has no date objects, so \<open>_mapping_date\<close> is modelled on text;
  \<open>today\<close> is \<open>reference_date or date.today()\<close>.
\<close>

section \<open>Observations\<close>

datatype ObserverOutcome = OC_OBSERVED | OC_UNVERIFIED | OC_TIMED_OUT | OC_CONFLICTING | OC_UNAVAILABLE

fun ObserverOutcome_value :: "ObserverOutcome \<Rightarrow> string" where
  "ObserverOutcome_value OC_OBSERVED = ''observed''"
| "ObserverOutcome_value OC_UNVERIFIED = ''unverified''"
| "ObserverOutcome_value OC_TIMED_OUT = ''timed_out''"
| "ObserverOutcome_value OC_CONFLICTING = ''conflicting''"
| "ObserverOutcome_value OC_UNAVAILABLE = ''unavailable''"

record ObservationOutcome =
  oo_observer_identity :: string
  oo_resource_type :: ResourceType
  oo_resource_identifier :: string
  oo_outcome :: ObserverOutcome
  oo_observed_state :: pyv
  oo_limitations :: "string list"
  oo_trust :: TrustLevel

fun ObservationOutcome_verification_status :: "ObserverOutcome \<Rightarrow> VerificationStatus" where
  "ObservationOutcome_verification_status OC_OBSERVED = VS_OBSERVED"
| "ObservationOutcome_verification_status OC_TIMED_OUT = VS_TIMED_OUT"
| "ObservationOutcome_verification_status OC_CONFLICTING = VS_CONFLICTING"
| "ObservationOutcome_verification_status _ = VS_UNVERIFIED"

fun ObservationOutcome_event_type :: "ObserverOutcome \<Rightarrow> EventType" where
  "ObservationOutcome_event_type OC_OBSERVED = SIDE_EFFECT_OBSERVED"
| "ObservationOutcome_event_type OC_TIMED_OUT = SIDE_EFFECT_TIMED_OUT"
| "ObservationOutcome_event_type OC_CONFLICTING = SIDE_EFFECT_CONFLICT_DETECTED"
| "ObservationOutcome_event_type _ = SIDE_EFFECT_UNVERIFIED"

definition ObservationOutcome_as_payload :: "ObservationOutcome \<Rightarrow> pyv" where
  "ObservationOutcome_as_payload o1 =
     obj [(''observer_identity'', VStr (oo_observer_identity o1)),
          (''resource'', obj
             [(''resource_type'', VStr (ResourceType_value (oo_resource_type o1))),
              (''identifier'', VStr (oo_resource_identifier o1))]),
          (''observed_state'', oo_observed_state o1),
          (''verification_status'', VStr (VerificationStatus_value
             (ObservationOutcome_verification_status (oo_outcome o1)))),
          (''limitations'', VList (map VStr (oo_limitations o1))),
          (''trust'', VStr (TrustLevel_value (oo_trust o1)))]"

section \<open>Declarations\<close>

definition DEFAULT_ATTESTATION_MAX_AGE_DAYS :: int where
  "DEFAULT_ATTESTATION_MAX_AGE_DAYS = 365"

datatype AttestationEvidenceKind =
    AK_INDEPENDENT_LIVE_TELEMETRY | AK_EXTERNAL_SENSOR_FEED | AK_FIXTURE_ORACLE | AK_POST_ACTION_READBACK
  | AK_SELF_REPORTED | AK_UNKNOWN

fun AttestationEvidenceKind_value :: "AttestationEvidenceKind \<Rightarrow> string" where
  "AttestationEvidenceKind_value AK_INDEPENDENT_LIVE_TELEMETRY = ''independent_live_telemetry''"
| "AttestationEvidenceKind_value AK_EXTERNAL_SENSOR_FEED = ''external_sensor_feed''"
| "AttestationEvidenceKind_value AK_FIXTURE_ORACLE = ''fixture_oracle''"
| "AttestationEvidenceKind_value AK_POST_ACTION_READBACK = ''post_action_readback''"
| "AttestationEvidenceKind_value AK_SELF_REPORTED = ''self_reported''"
| "AttestationEvidenceKind_value AK_UNKNOWN = ''unknown''"

definition all_AttestationEvidenceKind :: "AttestationEvidenceKind list" where
  "all_AttestationEvidenceKind =
     [AK_INDEPENDENT_LIVE_TELEMETRY, AK_EXTERNAL_SENSOR_FEED, AK_FIXTURE_ORACLE, AK_POST_ACTION_READBACK,
      AK_SELF_REPORTED, AK_UNKNOWN]"

datatype IndependenceBoundary =
    IB_TOOL | IB_PRINCIPAL | IB_CREDENTIAL | IB_EXECUTION_HOST | IB_NETWORK_PATH | IB_STORAGE_PLANE
  | IB_ADMINISTRATIVE_CONTROL_PLANE

fun IndependenceBoundary_value :: "IndependenceBoundary \<Rightarrow> string" where
  "IndependenceBoundary_value IB_TOOL = ''tool''"
| "IndependenceBoundary_value IB_PRINCIPAL = ''principal''"
| "IndependenceBoundary_value IB_CREDENTIAL = ''credential''"
| "IndependenceBoundary_value IB_EXECUTION_HOST = ''execution_host''"
| "IndependenceBoundary_value IB_NETWORK_PATH = ''network_path''"
| "IndependenceBoundary_value IB_STORAGE_PLANE = ''storage_plane''"
| "IndependenceBoundary_value IB_ADMINISTRATIVE_CONTROL_PLANE = ''administrative_control_plane''"

definition REQUIRED_INDEPENDENCE_BOUNDARIES :: "IndependenceBoundary list" where
  "REQUIRED_INDEPENDENCE_BOUNDARIES =
     [IB_TOOL, IB_PRINCIPAL, IB_CREDENTIAL, IB_EXECUTION_HOST, IB_NETWORK_PATH, IB_STORAGE_PLANE,
      IB_ADMINISTRATIVE_CONTROL_PLANE]"

datatype IndependenceBoundaryStatus = IS_INDEPENDENT | IS_SHARED | IS_UNKNOWN | IS_NOT_APPLICABLE

fun IndependenceBoundaryStatus_value :: "IndependenceBoundaryStatus \<Rightarrow> string" where
  "IndependenceBoundaryStatus_value IS_INDEPENDENT = ''independent''"
| "IndependenceBoundaryStatus_value IS_SHARED = ''shared''"
| "IndependenceBoundaryStatus_value IS_UNKNOWN = ''unknown''"
| "IndependenceBoundaryStatus_value IS_NOT_APPLICABLE = ''not_applicable''"

definition all_IndependenceBoundaryStatus :: "IndependenceBoundaryStatus list" where
  "all_IndependenceBoundaryStatus = [IS_INDEPENDENT, IS_SHARED, IS_UNKNOWN, IS_NOT_APPLICABLE]"

definition all_ResourceType :: "ResourceType list" where
  "all_ResourceType =
     [RT_FILE, RT_URL, RT_NETWORK_DESTINATION, RT_PROCESS, RT_HOST, RT_IDENTITY, RT_CLOUD_RESOURCE,
      RT_DATABASE_RECORD, RT_MESSAGE, RT_SECRET, RT_UNKNOWN]"

record ObserverAttestationDeclaration =
  ad_observer_identity :: string
  ad_producer_identity :: string
  ad_collection_method :: string
  ad_subject_action_types :: "string list"
  ad_resource_types :: "ResourceType list"
  ad_evidence_kind :: AttestationEvidenceKind
  ad_independence_boundaries :: "(IndependenceBoundary \<times> IndependenceBoundaryStatus) list"
  ad_shared_dependencies :: "string list"
  ad_blind_spots :: "string list"
  ad_failure_modes :: "string list"
  ad_tamper_assumptions :: "string list"
  ad_retention :: string
  ad_redaction_scopes :: "string list"
  ad_policy_version :: string
  ad_owner :: string
  ad_reviewed_at :: date
  ad_valid_until :: "date option"
  ad_limitations :: "string list"

text \<open>\<open>StrEnum(text)\<close>: a \<open>ValueError\<close> when no member has that value.\<close>

definition enum_parse :: "string \<Rightarrow> ('a \<Rightarrow> string) \<Rightarrow> 'a list \<Rightarrow> string \<Rightarrow> 'a res" where
  "enum_parse name val members s =
     (case enum_of val members s of
        Some m \<Rightarrow> Inr m
      | None \<Rightarrow> raise ValueError (py_str_repr s @ '' is not a valid '' @ name))"

definition required_string :: "pyv \<Rightarrow> string \<Rightarrow> string res" where
  "required_string value fld =
     (case value of
        VStr s \<Rightarrow> if py_strip s = [] then raise ValueError (fld @ '' must be a nonempty string'')
                  else Inr s
      | _ \<Rightarrow> raise ValueError (fld @ '' must be a nonempty string''))"

definition required_mapping_string :: "pydict \<Rightarrow> string \<Rightarrow> string res" where
  "required_mapping_string data fld = required_string (get_or_none data fld) fld"

definition string_tuple :: "pyv list \<Rightarrow> string \<Rightarrow> bool \<Rightarrow> string list res" where
  "string_tuple value fld allow_empty =
     (if value = [] \<and> \<not> allow_empty
      then raise ValueError (fld @ '' must contain at least one string'')
      else traverse (\<lambda>item. required_string item fld) value)"

definition mapping_string_tuple :: "pydict \<Rightarrow> string \<Rightarrow> bool \<Rightarrow> string list res" where
  "mapping_string_tuple data fld allow_missing =
     (case get_or_none data fld of
        VNone \<Rightarrow>
          if allow_missing then Inr [] else raise ValueError (fld @ '' must be a list of strings'')
      | VList xs \<Rightarrow> string_tuple xs fld allow_missing
      | _ \<Rightarrow> raise ValueError (fld @ '' must be a list of strings''))"

fun boundary_mapping ::
  "pydict \<Rightarrow> (IndependenceBoundary \<times> IndependenceBoundaryStatus) list
     \<Rightarrow> (IndependenceBoundary \<times> IndependenceBoundaryStatus) list res" where
  "boundary_mapping [] mapping = Inr mapping"
| "boundary_mapping ((k, v) # rest) mapping =
     bnd (case k of
            KStr b \<Rightarrow> enum_parse ''IndependenceBoundary'' IndependenceBoundary_value
                        REQUIRED_INDEPENDENCE_BOUNDARIES b
          | KOther t \<Rightarrow> raise ValueError ''independence boundary keys must be strings'') (\<lambda>key.
     bnd (case v of
            VStr s \<Rightarrow> enum_parse ''IndependenceBoundaryStatus'' IndependenceBoundaryStatus_value
                        all_IndependenceBoundaryStatus s
          | _ \<Rightarrow> raise ValueError ''independence boundary values must be strings'') (\<lambda>status.
     boundary_mapping rest (dset mapping key status)))"

definition mapping_boundaries ::
  "pyv \<Rightarrow> (IndependenceBoundary \<times> IndependenceBoundaryStatus) list res" where
  "mapping_boundaries value =
     (case map_items value of
        None \<Rightarrow> raise ValueError ''independence_boundaries must be an object''
      | Some d \<Rightarrow> boundary_mapping d [])"

definition mapping_date :: "pydict \<Rightarrow> string \<Rightarrow> date res" where
  "mapping_date data fld =
     (case get_or_none data fld of
        VStr s \<Rightarrow> date_fromisoformat s
      | _ \<Rightarrow> raise ValueError (fld @ '' must be an ISO date string''))"

definition optional_mapping_date :: "pydict \<Rightarrow> string \<Rightarrow> date option res" where
  "optional_mapping_date data fld =
     (if get_or_none data fld = VNone then Inr None
      else bnd (mapping_date data fld) (\<lambda>d. Inr (Some d)))"

text \<open>The checks of \<open>__post_init__\<close>, in order; the first that fails raises.\<close>

fun run_checks :: "unit res list \<Rightarrow> unit res" where
  "run_checks [] = Inr ()"
| "run_checks (c # cs) = bnd c (\<lambda>_. run_checks cs)"

definition check_string :: "string \<Rightarrow> string \<Rightarrow> unit res" where
  "check_string fld s = bnd (required_string (VStr s) fld) (\<lambda>_. Inr ())"

definition check_tuple :: "string \<Rightarrow> bool \<Rightarrow> string list \<Rightarrow> unit res" where
  "check_tuple fld allow_empty ss =
     bnd (string_tuple (map VStr ss) fld allow_empty) (\<lambda>_. Inr ())"

definition declaration_checks :: "ObserverAttestationDeclaration \<Rightarrow> unit res list" where
  "declaration_checks a =
     [check_string ''observer_identity'' (ad_observer_identity a),
      check_string ''producer_identity'' (ad_producer_identity a),
      check_string ''collection_method'' (ad_collection_method a),
      check_tuple ''subject_action_types'' False (ad_subject_action_types a),
      require (ad_resource_types a \<noteq> []) ValueError
        ''resource_types must contain at least one resource type'',
      check_tuple ''shared_dependencies'' True (ad_shared_dependencies a),
      check_tuple ''blind_spots'' False (ad_blind_spots a),
      check_tuple ''failure_modes'' False (ad_failure_modes a),
      check_tuple ''tamper_assumptions'' False (ad_tamper_assumptions a),
      check_string ''retention'' (ad_retention a),
      check_tuple ''redaction_scopes'' False (ad_redaction_scopes a),
      check_string ''policy_version'' (ad_policy_version a),
      check_string ''owner'' (ad_owner a),
      check_tuple ''limitations'' True (ad_limitations a),
      require (case ad_valid_until a of None \<Rightarrow> True | Some v \<Rightarrow> \<not> date_less v (ad_reviewed_at a))
        ValueError ''valid_until cannot be before reviewed_at'']"

definition ObserverAttestationDeclaration_new ::
  "ObserverAttestationDeclaration \<Rightarrow> ObserverAttestationDeclaration res" where
  "ObserverAttestationDeclaration_new a = bnd (run_checks (declaration_checks a)) (\<lambda>_. Inr a)"

definition ObserverAttestationDeclaration_as_dict :: "ObserverAttestationDeclaration \<Rightarrow> pyv" where
  "ObserverAttestationDeclaration_as_dict a =
     obj ([(''observer_identity'', VStr (ad_observer_identity a)),
           (''producer_identity'', VStr (ad_producer_identity a)),
           (''collection_method'', VStr (ad_collection_method a)),
           (''subject_action_types'', VList (map VStr (ad_subject_action_types a))),
           (''resource_types'', VList (map (VStr \<circ> ResourceType_value) (ad_resource_types a))),
           (''evidence_kind'', VStr (AttestationEvidenceKind_value (ad_evidence_kind a))),
           (''independence_boundaries'',
              VDict (map (\<lambda>(b, s). (KStr (IndependenceBoundary_value b),
                                  VStr (IndependenceBoundaryStatus_value s)))
                (ad_independence_boundaries a))),
           (''shared_dependencies'', VList (map VStr (ad_shared_dependencies a))),
           (''blind_spots'', VList (map VStr (ad_blind_spots a))),
           (''failure_modes'', VList (map VStr (ad_failure_modes a))),
           (''tamper_assumptions'', VList (map VStr (ad_tamper_assumptions a))),
           (''retention'', VStr (ad_retention a)),
           (''redaction_scopes'', VList (map VStr (ad_redaction_scopes a))),
           (''policy_version'', VStr (ad_policy_version a)),
           (''owner'', VStr (ad_owner a)),
           (''reviewed_at'', VStr (iso_date (ad_reviewed_at a))),
           (''limitations'', VList (map VStr (ad_limitations a)))]
          @ (case ad_valid_until a of
               None \<Rightarrow> []
             | Some v \<Rightarrow> [(''valid_until'', VStr (iso_date v))]))"

definition observer_attestation_declaration_from_dict ::
  "pydict \<Rightarrow> ObserverAttestationDeclaration res" where
  "observer_attestation_declaration_from_dict data =
     bnd (required_mapping_string data ''observer_identity'') (\<lambda>observer.
     bnd (required_mapping_string data ''producer_identity'') (\<lambda>producer.
     bnd (required_mapping_string data ''collection_method'') (\<lambda>collection.
     bnd (mapping_string_tuple data ''subject_action_types'' False) (\<lambda>actions.
     bnd (bnd (mapping_string_tuple data ''resource_types'' False)
           (traverse (enum_parse ''ResourceType'' ResourceType_value all_ResourceType))) (\<lambda>resources.
     bnd (bnd (required_mapping_string data ''evidence_kind'')
           (enum_parse ''AttestationEvidenceKind'' AttestationEvidenceKind_value
              all_AttestationEvidenceKind)) (\<lambda>kind.
     bnd (mapping_boundaries (get_or_none data ''independence_boundaries'')) (\<lambda>boundaries.
     bnd (mapping_string_tuple data ''shared_dependencies'' True) (\<lambda>shared.
     bnd (mapping_string_tuple data ''blind_spots'' False) (\<lambda>blind.
     bnd (mapping_string_tuple data ''failure_modes'' False) (\<lambda>failure.
     bnd (mapping_string_tuple data ''tamper_assumptions'' False) (\<lambda>tamper.
     bnd (required_mapping_string data ''retention'') (\<lambda>retention.
     bnd (mapping_string_tuple data ''redaction_scopes'' False) (\<lambda>scopes.
     bnd (required_mapping_string data ''policy_version'') (\<lambda>policy.
     bnd (required_mapping_string data ''owner'') (\<lambda>owner.
     bnd (mapping_date data ''reviewed_at'') (\<lambda>reviewed.
     bnd (optional_mapping_date data ''valid_until'') (\<lambda>valid.
     bnd (mapping_string_tuple data ''limitations'' True) (\<lambda>lims.
     ObserverAttestationDeclaration_new
       \<lparr>ad_observer_identity = observer, ad_producer_identity = producer,
        ad_collection_method = collection, ad_subject_action_types = actions,
        ad_resource_types = resources, ad_evidence_kind = kind,
        ad_independence_boundaries = boundaries, ad_shared_dependencies = shared,
        ad_blind_spots = blind, ad_failure_modes = failure, ad_tamper_assumptions = tamper,
        ad_retention = retention, ad_redaction_scopes = scopes, ad_policy_version = policy,
        ad_owner = owner, ad_reviewed_at = reviewed, ad_valid_until = valid,
        ad_limitations = lims\<rparr>))))))))))))))))))"

section \<open>Independence claims\<close>

definition scope_contains :: "string list \<Rightarrow> string \<Rightarrow> bool" where
  "scope_contains values value \<longleftrightarrow> ''*'' \<in> set values \<or> value \<in> set values"

definition boundary_reasons ::
  "(IndependenceBoundary \<times> IndependenceBoundaryStatus) list \<Rightarrow> IndependenceBoundary \<Rightarrow> string list" where
  "boundary_reasons boundaries b =
     (case dget boundaries b of
        None \<Rightarrow> [''observer attestation is missing '' @ IndependenceBoundary_value b @ '' boundary'']
      | Some s \<Rightarrow>
          if s \<noteq> IS_INDEPENDENT
          then [''observer attestation '' @ IndependenceBoundary_value b @ '' boundary is ''
                @ IndependenceBoundaryStatus_value s]
          else [])"

definition independent_claim_rejection_reasons ::
  "ObserverAttestationDeclaration option \<Rightarrow> ObservationOutcome \<Rightarrow> string option
     \<Rightarrow> ResourceType option \<Rightarrow> date \<Rightarrow> int \<Rightarrow> string list" where
  "independent_claim_rejection_reasons attestation observation action resource today max_age =
     (case attestation of
        None \<Rightarrow> [''missing reviewed observer attestation declaration'']
      | Some a \<Rightarrow>
          (if ad_observer_identity a \<noteq> oo_observer_identity observation
           then [''attestation observer_identity does not match observation observer_identity''] else [])
          @ (if ad_evidence_kind a \<noteq> AK_INDEPENDENT_LIVE_TELEMETRY
             then [''attestation evidence_kind is not independent_live_telemetry''] else [])
          @ (case action of
               None \<Rightarrow> [''subject action type is required for independent observer attestation'']
             | Some t \<Rightarrow>
                 if py_strip t = []
                 then [''subject action type is required for independent observer attestation'']
                 else if \<not> scope_contains (ad_subject_action_types a) t
                 then [''subject action type is outside observer attestation scope''] else [])
          @ (case resource of
               None \<Rightarrow> [''subject resource type is required for independent observer attestation'']
             | Some r \<Rightarrow>
                 if r \<notin> set (ad_resource_types a)
                 then [''subject resource type is outside observer attestation scope''] else [])
          @ (if date_less today (ad_reviewed_at a)
             then [''observer attestation review date is in the future''] else [])
          @ (case ad_valid_until a of
               None \<Rightarrow> []
             | Some v \<Rightarrow> if date_less v today
                 then [''observer attestation declaration is expired''] else [])
          @ (if max_age < date_ord today - date_ord (ad_reviewed_at a)
             then [''observer attestation declaration is stale''] else [])
          @ (if ad_shared_dependencies a \<noteq> []
             then [''observer attestation declares shared dependencies''] else [])
          @ concat (map (boundary_reasons (ad_independence_boundaries a))
              REQUIRED_INDEPENDENCE_BOUNDARIES))"

definition require_independent_observer_attestation ::
  "ObserverAttestationDeclaration option \<Rightarrow> ObservationOutcome \<Rightarrow> string option
     \<Rightarrow> ResourceType option \<Rightarrow> date \<Rightarrow> int \<Rightarrow> unit res" where
  "require_independent_observer_attestation attestation observation action resource today max_age =
     (let reasons = independent_claim_rejection_reasons attestation observation action resource today
                      max_age
      in if reasons \<noteq> []
         then raise ObserverAttestationError
           (''independent observer attestation required: '' @ join_with ''; '' reasons)
         else Inr ())"

section \<open>Verification decisions\<close>

record VerificationDecision =
  vd_event_type :: EventType
  vd_evidence_link :: evidence_link
  vd_outcome :: ObserverOutcome

definition VerificationDecision_as_payload :: "VerificationDecision \<Rightarrow> pyv" where
  "VerificationDecision_as_payload d =
     obj [(''evidence_link'', EvidenceLink_as_payload (vd_evidence_link d))]"

fun verification_status_for_observation :: "ObserverOutcome \<Rightarrow> VerificationStatus" where
  "verification_status_for_observation OC_OBSERVED = VS_VERIFIED"
| "verification_status_for_observation OC_TIMED_OUT = VS_TIMED_OUT"
| "verification_status_for_observation OC_CONFLICTING = VS_CONFLICTING"
| "verification_status_for_observation _ = VS_UNVERIFIED"

fun event_type_for_status :: "VerificationStatus \<Rightarrow> EventType" where
  "event_type_for_status VS_VERIFIED = SIDE_EFFECT_VERIFIED"
| "event_type_for_status VS_TIMED_OUT = SIDE_EFFECT_TIMED_OUT"
| "event_type_for_status VS_CONFLICTING = SIDE_EFFECT_CONFLICT_DETECTED"
| "event_type_for_status _ = SIDE_EFFECT_UNVERIFIED"

definition verify_observation ::
  "string \<Rightarrow> string \<Rightarrow> ObservationOutcome \<Rightarrow> pyfloat \<Rightarrow> CorroborationType
     \<Rightarrow> ObserverAttestationDeclaration option \<Rightarrow> string option \<Rightarrow> ResourceType option \<Rightarrow> date \<Rightarrow> int
     \<Rightarrow> VerificationDecision res" where
  "verify_observation subject_id evidence_id observation conf corroboration attestation action
      resource today max_age =
     bnd (if corroboration = INDEPENDENT_OBSERVER
          then require_independent_observer_attestation attestation observation action resource
                 today max_age
          else Inr ()) (\<lambda>_.
       let status = verification_status_for_observation (oo_outcome observation);
           rel = (if status = VS_CONFLICTING then CONTRADICTS
                  else if status = VS_VERIFIED then CORROBORATES else LIMITS)
       in bnd (EvidenceLink_new subject_id rel evidence_id corroboration
                 (oo_observer_identity observation) conf status (oo_limitations observation)) (\<lambda>link.
          Inr \<lparr>vd_event_type = event_type_for_status status, vd_evidence_link = link,
               vd_outcome = oo_outcome observation\<rparr>))"

definition self_reported_verification ::
  "string \<Rightarrow> string \<Rightarrow> pyfloat \<Rightarrow> string list \<Rightarrow> VerificationDecision res" where
  "self_reported_verification subject_id observer conf lims =
     bnd (EvidenceLink_new subject_id LIMITS subject_id CorroborationType.SELF_REPORTED observer conf
            VS_UNVERIFIED lims) (\<lambda>link.
       Inr \<lparr>vd_event_type = SIDE_EFFECT_UNVERIFIED, vd_evidence_link = link,
            vd_outcome = OC_UNVERIFIED\<rparr>)"

end
