(* ===== verification/AttestationClaims.thy ===== *)
theory AttestationClaims
  imports Attestation
begin

text \<open>
  The properties of \<open>Attestation\<close>: a declaration survives its dictionary form, the claims an
  independent verification rests on, the interval of days on which a declaration is accepted,
  and the meaning of a verification decision.
\<close>

section \<open>Enumerations read back their values\<close>

lemma enum_of_member:
  assumes "m \<in> set ms" "inj_on val (set ms)"
  shows "enum_of val ms (val m) = Some m"
proof -
  obtain x where "enum_of val ms (val m) = Some x"
    using assms(1) by (cases "enum_of val ms (val m)") (auto simp: enum_of_def find_None_iff)
  then show ?thesis
    using assms by (auto simp: enum_of_def find_Some_iff dest: inj_onD)
qed

lemma enum_parse_ResourceType [simp]:
  "enum_parse n ResourceType_value all_ResourceType (ResourceType_value r) = Inr r"
  by (cases r) (simp_all add: enum_parse_def enum_of_def all_ResourceType_def)

lemma enum_parse_kind [simp]:
  "enum_parse n AttestationEvidenceKind_value all_AttestationEvidenceKind
     (AttestationEvidenceKind_value k) = Inr k"
  by (cases k) (simp_all add: enum_parse_def enum_of_def all_AttestationEvidenceKind_def)

lemma enum_parse_boundary [simp]:
  "enum_parse n IndependenceBoundary_value REQUIRED_INDEPENDENCE_BOUNDARIES
     (IndependenceBoundary_value b) = Inr b"
  by (cases b) (simp_all add: enum_parse_def enum_of_def REQUIRED_INDEPENDENCE_BOUNDARIES_def)

lemma enum_parse_status [simp]:
  "enum_parse n IndependenceBoundaryStatus_value all_IndependenceBoundaryStatus
     (IndependenceBoundaryStatus_value s) = Inr s"
  by (cases s) (simp_all add: enum_parse_def enum_of_def all_IndependenceBoundaryStatus_def)

section \<open>The dictionary form of a declaration\<close>

lemma run_checks_Inr_iff: "run_checks cs = Inr () \<longleftrightarrow> (\<forall>c\<in>set cs. c = Inr ())"
  by (induction cs) (auto simp: bnd_Inr_iff)

lemma check_string_Inr [simp]: "check_string f s = Inr () \<longleftrightarrow> py_strip s \<noteq> []"
  by (simp add: check_string_def required_string_def)

lemma required_string_Inr_iff: "required_string v f = Inr s \<longleftrightarrow> v = VStr s \<and> py_strip s \<noteq> []"
  by (auto simp: required_string_def split: pyv.splits)

lemma string_tuple_VStr:
  "string_tuple (map VStr ss) f b = Inr ts \<longleftrightarrow>
     ts = ss \<and> (ss = [] \<longrightarrow> b) \<and> (\<forall>s\<in>set ss. py_strip s \<noteq> [])"
proof -
  have "traverse (\<lambda>item. required_string item f) (map VStr ss) = Inr ts \<longleftrightarrow>
      ts = ss \<and> (\<forall>s\<in>set ss. py_strip s \<noteq> [])" for ts
    by (induction ss arbitrary: ts) (auto simp: bnd_Inr_iff required_string_Inr_iff)
  then show ?thesis by (auto simp: string_tuple_def)
qed

lemmas string_tuple_ok = string_tuple_VStr [THEN iffD2, OF conjI, OF refl]

lemma required_string_ok: "py_strip s \<noteq> [] \<Longrightarrow> required_string (VStr s) f = Inr s"
  by (simp add: required_string_def)

lemma check_tuple_Inr [simp]:
  "check_tuple f b ss = Inr () \<longleftrightarrow> (ss = [] \<longrightarrow> b) \<and> (\<forall>s\<in>set ss. py_strip s \<noteq> [])"
  by (auto simp: check_tuple_def bnd_Inr_iff string_tuple_VStr)

lemma boundary_mapping_values:
  "distinct (keys acc @ keys bs) \<Longrightarrow>
   boundary_mapping (map (\<lambda>(b, s). (KStr (IndependenceBoundary_value b),
                                   VStr (IndependenceBoundaryStatus_value s))) bs) acc = Inr (acc @ bs)"
proof (induction bs arbitrary: acc)
  case (Cons p bs)
  obtain b s where p: "p = (b, s)" by (cases p)
  have "dset acc b s = acc @ [(b, s)]" using Cons.prems p by (intro dset_new) auto
  then show ?case using Cons.IH [of "acc @ [(b, s)]"] Cons.prems p by simp
qed simp

definition dict_items :: "pyv \<Rightarrow> pydict" where
  "dict_items v = (case v of VDict d \<Rightarrow> d | _ \<Rightarrow> [])"

text \<open>A reviewed declaration survives its review artifact: the dictionary \<open>as_dict\<close> writes
  for a declaration the constructor accepts is parsed back to the same declaration.\<close>
theorem attestation_round_trip:
  assumes "ObserverAttestationDeclaration_new a = Inr a"
    and "distinct (keys (ad_independence_boundaries a))"
    and "cal_ok (ad_reviewed_at a)" "\<forall>v. ad_valid_until a = Some v \<longrightarrow> cal_ok v"
  shows "observer_attestation_declaration_from_dict
      (dict_items (ObserverAttestationDeclaration_as_dict a)) = Inr a"
proof -
  have checks: "\<forall>c\<in>set (declaration_checks a). c = Inr ()"
    using assms(1) run_checks_Inr_iff
    by (auto simp: ObserverAttestationDeclaration_new_def bnd_Inr_iff)
  note c = checks [unfolded declaration_checks_def, simplified]
  have "boundary_mapping (map (\<lambda>(b, s). (KStr (IndependenceBoundary_value b),
      VStr (IndependenceBoundaryStatus_value s))) (ad_independence_boundaries a)) []
      = Inr (ad_independence_boundaries a)"
    using boundary_mapping_values [of "[]"] assms(2) by simp
  moreover have "traverse (enum_parse ''ResourceType'' ResourceType_value all_ResourceType)
      (map ResourceType_value (ad_resource_types a)) = Inr (ad_resource_types a)"
    by (simp add: traverse_map) (simp add: traverse_all_Inr [where g = "\<lambda>x. x"])
  moreover have "py_strip (ResourceType_value r) \<noteq> []" for r
    by (cases r) (simp_all add: py_strip_def is_space_def byte_def)
  moreover have "py_strip (AttestationEvidenceKind_value k) \<noteq> []" for k
    by (cases k) (simp_all add: py_strip_def is_space_def byte_def)
  moreover have "date_fromisoformat (iso_date d) = Inr d" if "cal_ok d" for d :: date
    using date_fromisoformat_iso [OF that] by (cases d) (simp add: date.truncate_def)
  moreover have "string_tuple (map (\<lambda>r. VStr (ResourceType_value r)) (ad_resource_types a)) f False
      = Inr (map ResourceType_value (ad_resource_types a))" for f
    using c string_tuple_ok [of "map ResourceType_value (ad_resource_types a)" False f] calculation(3)
    by (simp add: comp_def)
  ultimately show ?thesis
    using c assms(1,3,4)
    by (cases a) (simp add: ObserverAttestationDeclaration_as_dict_def dict_items_def
        observer_attestation_declaration_from_dict_def required_mapping_string_def
        mapping_string_tuple_def mapping_boundaries_def mapping_date_def
        optional_mapping_date_def required_string_ok string_tuple_ok get_or_none_def
        comp_def split: option.splits)
qed

definition sample_declaration :: ObserverAttestationDeclaration where
  "sample_declaration =
     \<lparr>ad_observer_identity = ''observer'', ad_producer_identity = ''producer'',
      ad_collection_method = ''poll'', ad_subject_action_types = [''http.send'', ''*''],
      ad_resource_types = [RT_URL, RT_FILE], ad_evidence_kind = AK_INDEPENDENT_LIVE_TELEMETRY,
      ad_independence_boundaries = map (\<lambda>b. (b, IS_INDEPENDENT)) REQUIRED_INDEPENDENCE_BOUNDARIES,
      ad_shared_dependencies = [], ad_blind_spots = [''dns''], ad_failure_modes = [''outage''],
      ad_tamper_assumptions = [''host''], ad_retention = ''30d'', ad_redaction_scopes = [''body''],
      ad_policy_version = ''1'', ad_owner = ''team'',
      ad_reviewed_at = \<lparr>d_year = 2026, d_month = 1, d_day = 31\<rparr>,
      ad_valid_until = Some \<lparr>d_year = 2026, d_month = 12, d_day = 1\<rparr>, ad_limitations = []\<rparr>"

definition sample_observation :: ObservationOutcome where
  "sample_observation =
     \<lparr>oo_observer_identity = ''observer'', oo_resource_type = RT_URL,
      oo_resource_identifier = ''https://example.test'', oo_outcome = OC_OBSERVED,
      oo_observed_state = VDict [], oo_limitations = [''sampled''], oo_trust = TR_LOCAL\<rparr>"

theorem attestation_round_trip_witness:
  "observer_attestation_declaration_from_dict
      (dict_items (ObserverAttestationDeclaration_as_dict sample_declaration)) = Inr sample_declaration"
proof (rule attestation_round_trip)
  show "ObserverAttestationDeclaration_new sample_declaration = Inr sample_declaration" by code_simp
  show "distinct (keys (ad_independence_boundaries sample_declaration))" by code_simp
  show "cal_ok (ad_reviewed_at sample_declaration)" by code_simp
  show "\<forall>v. ad_valid_until sample_declaration = Some v \<longrightarrow> cal_ok v"
    by (simp add: sample_declaration_def cal_ok_def date_ok_def days_in_month_def)
qed

section \<open>When an independence claim is accepted\<close>

lemma boundary_reasons_Nil_iff: "boundary_reasons bs b = [] \<longleftrightarrow> dget bs b = Some IS_INDEPENDENT"
  by (auto simp: boundary_reasons_def split: option.splits)

lemma required_all: "set REQUIRED_INDEPENDENCE_BOUNDARIES = UNIV"
proof -
  have "b \<in> set REQUIRED_INDEPENDENCE_BOUNDARIES" for b
    by (cases b) (simp_all add: REQUIRED_INDEPENDENCE_BOUNDARIES_def)
  then show ?thesis by blast
qed

text \<open>What does not depend on the day, and the days on which the declaration is in force.\<close>

definition claim_in_scope ::
  "ObserverAttestationDeclaration \<Rightarrow> ObservationOutcome \<Rightarrow> string option \<Rightarrow> ResourceType option \<Rightarrow> bool" where
  "claim_in_scope a observation action resource \<longleftrightarrow>
     ad_observer_identity a = oo_observer_identity observation
     \<and> ad_evidence_kind a = AK_INDEPENDENT_LIVE_TELEMETRY
     \<and> (\<exists>t. action = Some t \<and> py_strip t \<noteq> [] \<and> scope_contains (ad_subject_action_types a) t)
     \<and> (\<exists>r. resource = Some r \<and> r \<in> set (ad_resource_types a))
     \<and> ad_shared_dependencies a = []
     \<and> (\<forall>b. dget (ad_independence_boundaries a) b = Some IS_INDEPENDENT)"

definition last_day :: "ObserverAttestationDeclaration \<Rightarrow> int \<Rightarrow> int" where
  "last_day a max_age =
     (case ad_valid_until a of
        None \<Rightarrow> date_ord (ad_reviewed_at a) + max_age
      | Some v \<Rightarrow> min (date_ord v) (date_ord (ad_reviewed_at a) + max_age))"

lemma reasons_Nil_iff:
  assumes "cal_ok (ad_reviewed_at a)" "\<forall>v. ad_valid_until a = Some v \<longrightarrow> cal_ok v" "cal_ok today"
  shows "independent_claim_rejection_reasons (Some a) observation action resource today max_age = []
    \<longleftrightarrow> claim_in_scope a observation action resource
       \<and> date_ord (ad_reviewed_at a) \<le> date_ord today \<and> date_ord today \<le> last_day a max_age"
proof -
  have "date_less today (ad_reviewed_at a) \<longleftrightarrow> date_ord today < date_ord (ad_reviewed_at a)"
    using assms by (simp add: date_less_ord)
  moreover have "date_less v today \<longleftrightarrow> date_ord v < date_ord today" if "ad_valid_until a = Some v" for v
    using assms that by (simp add: date_less_ord)
  ultimately show ?thesis
    by (auto simp: independent_claim_rejection_reasons_def claim_in_scope_def last_day_def
        boundary_reasons_Nil_iff required_all split: option.splits)
qed

text \<open>C16. A reviewed declaration supports an independence claim exactly on the days from its review
  to its expiry, at most \<open>max_review_age_days\<close> after the review, and only when observer, evidence
  kind, action type, resource type, dependencies and all seven boundaries allow it.\<close>
theorem independent_claim_window:
  assumes "cal_ok (ad_reviewed_at a)" "\<forall>v. ad_valid_until a = Some v \<longrightarrow> cal_ok v" "cal_ok today"
  shows "require_independent_observer_attestation (Some a) observation action resource today max_age
      = Inr ()
    \<longleftrightarrow> claim_in_scope a observation action resource
       \<and> date_ord today \<in> {date_ord (ad_reviewed_at a)..last_day a max_age}"
    (is "?req \<longleftrightarrow> _")
proof -
  have "?req \<longleftrightarrow>
      independent_claim_rejection_reasons (Some a) observation action resource today max_age = []"
    by (simp add: require_independent_observer_attestation_def Let_def)
  then show ?thesis using reasons_Nil_iff [OF assms] by auto
qed

theorem independent_claim_window_witness:
  "require_independent_observer_attestation (Some sample_declaration) sample_observation
     (Some ''http.send'') (Some RT_URL) \<lparr>d_year = 2026, d_month = 12, d_day = 1\<rparr> 365 = Inr ()
   \<and> require_independent_observer_attestation (Some sample_declaration) sample_observation
     (Some ''http.send'') (Some RT_URL) \<lparr>d_year = 2026, d_month = 12, d_day = 2\<rparr> 365 \<noteq> Inr ()"
proof -
  have ok: "cal_ok (ad_reviewed_at sample_declaration)"
    "\<forall>v. ad_valid_until sample_declaration = Some v \<longrightarrow> cal_ok v"
    "cal_ok (\<lparr>d_year = 2026, d_month = 12, d_day = 1\<rparr> :: date)"
    "cal_ok (\<lparr>d_year = 2026, d_month = 12, d_day = 2\<rparr> :: date)"
    by (simp_all add: sample_declaration_def cal_ok_def date_ok_def days_in_month_def)
  have s: "claim_in_scope sample_declaration sample_observation (Some ''http.send'') (Some RT_URL)"
    by (simp add: claim_in_scope_def sample_declaration_def sample_observation_def
        scope_contains_def py_strip_def is_space_def byte_def dget_map_of required_all
        map_of_map_restrict [of "\<lambda>_. IS_INDEPENDENT"])
  have w: "date_ord (\<lparr>d_year = 2026, d_month = 12, d_day = 1\<rparr> :: date)
        \<in> {date_ord (ad_reviewed_at sample_declaration)..last_day sample_declaration 365}"
    "date_ord (\<lparr>d_year = 2026, d_month = 12, d_day = 2\<rparr> :: date)
        \<notin> {date_ord (ad_reviewed_at sample_declaration)..last_day sample_declaration 365}"
    by code_simp+
  show ?thesis
    using independent_claim_window [OF ok(1-3)] independent_claim_window [OF ok(1,2,4)] s w by blast
qed

text \<open>C17. The meaning of a verification decision: it says \<open>verified\<close>, and carries the event type
  of a verified side effect, exactly when the observer observed the side effect; it claims an
  independent observer only when the attestation was accepted; its link is a valid evidence link
  about the subject, with the limitations of the observation.\<close>
theorem verification_decision_sound:
  assumes "verify_observation subject evidence observation conf corroboration attestation action
      resource today max_age = Inr d"
  shows "(verification_status (vd_evidence_link d) = VS_VERIFIED \<longleftrightarrow> oo_outcome observation = OC_OBSERVED)
    \<and> (vd_event_type d = SIDE_EFFECT_VERIFIED \<longleftrightarrow> oo_outcome observation = OC_OBSERVED)
    \<and> (relationship (vd_evidence_link d) = CORROBORATES \<longleftrightarrow> oo_outcome observation = OC_OBSERVED)
    \<and> (relationship (vd_evidence_link d) = CONTRADICTS \<longleftrightarrow> oo_outcome observation = OC_CONFLICTING)
    \<and> (corroboration_type (vd_evidence_link d) = INDEPENDENT_OBSERVER \<longrightarrow>
         (\<exists>a. attestation = Some a
            \<and> independent_claim_rejection_reasons attestation observation action resource today max_age = []))
    \<and> wf_link (vd_evidence_link d) \<and> subject_event_id (vd_evidence_link d) = subject
    \<and> limitations (vd_evidence_link d) = oo_limitations observation"
proof -
  let ?st = "verification_status_for_observation (oo_outcome observation)"
  let ?rel = "if ?st = VS_CONFLICTING then CONTRADICTS
    else if ?st = VS_VERIFIED then CORROBORATES else LIMITS"
  obtain l where l: "EvidenceLink_new subject ?rel evidence corroboration
      (oo_observer_identity observation) conf ?st (oo_limitations observation) = Inr l"
    and d: "d = \<lparr>vd_event_type = event_type_for_status ?st, vd_evidence_link = l,
               vd_outcome = oo_outcome observation\<rparr>"
    and req: "corroboration = INDEPENDENT_OBSERVER \<longrightarrow>
      require_independent_observer_attestation attestation observation action resource today max_age
        = Inr ()"
    using assms by (auto simp: verify_observation_def bnd_Inr_iff Let_def split: if_split_asm)
  have lf: "subject_event_id l = subject" "relationship l = ?rel" "verification_status l = ?st"
    "corroboration_type l = corroboration" "limitations l = oo_limitations observation"
    using l by (auto simp: EvidenceLink_new_def validation_error_def split: if_split_asm)
  have "corroboration = INDEPENDENT_OBSERVER \<longrightarrow> (\<exists>a. attestation = Some a
      \<and> independent_claim_rejection_reasons attestation observation action resource today max_age = [])"
    using req by (cases attestation)
      (auto simp: require_independent_observer_attestation_def independent_claim_rejection_reasons_def
        Let_def split: if_split_asm)
  then show ?thesis
    using lf EvidenceLink_new_wf [OF l] d by (cases "oo_outcome observation") auto
qed

theorem verification_decision_sound_witness:
  "\<exists>d. verify_observation ''s'' ''e'' sample_observation (PFin False 1 0) INDEPENDENT_OBSERVER
      (Some sample_declaration) (Some ''http.send'') (Some RT_URL)
      \<lparr>d_year = 2026, d_month = 3, d_day = 1\<rparr> 365 = Inr d
    \<and> verification_status (vd_evidence_link d) = VS_VERIFIED \<and> wf_link (vd_evidence_link d)"
proof -
  let ?v = "verify_observation ''s'' ''e'' sample_observation (PFin False 1 0) INDEPENDENT_OBSERVER
      (Some sample_declaration) (Some ''http.send'') (Some RT_URL)
      \<lparr>d_year = 2026, d_month = 3, d_day = 1\<rparr> 365"
  have "case ?v of Inr d \<Rightarrow> True | Inl err \<Rightarrow> False" by code_simp
  then obtain d where d: "?v = Inr d" by (auto split: sum.splits)
  have "oo_outcome sample_observation = OC_OBSERVED" by (simp add: sample_observation_def)
  then show ?thesis using verification_decision_sound [OF d] d by blast
qed

end
