(* ===== verification/Journal.thy ===== *)
theory Journal
  imports Serialization
begin

text \<open>
  The append-only journal: \<open>journal/hashing.py\<close>, \<open>journal/verify.py\<close> and \<open>journal/local.py\<close>.

  A journal is the content of its file, \<open>None\<close> when the file does not exist. What the operating
  system answers (is the directory private, does the write succeed, the metadata \<open>fstat\<close> reads
  before and after) is an argument. The redaction policy is the argument \<open>apply_policy\<close>.
\<close>

section \<open>Hashing\<close>

definition sha256_digest :: "bytes \<Rightarrow> string" where
  "sha256_digest value = ''sha256:'' @ sha256_hex value"

definition event_with_integrity ::
  "pydantic \<Rightarrow> event \<Rightarrow> string option \<Rightarrow> string option \<Rightarrow> event res" where
  "event_with_integrity pd e previous_hash hash =
     bnd (IntegrityMetadata_new (canonicalization (ev_integrity e)) previous_hash hash)
       (model_copy_integrity pd e)"

definition compute_event_hash :: "pydantic \<Rightarrow> event \<Rightarrow> string res" where
  "compute_event_hash pd e =
     bnd (require_supported_persisted_event_canonicalization (canonicalization (ev_integrity e))) (\<lambda>_.
     bnd (event_with_integrity pd e (previous_event_hash (ev_integrity e)) None) (\<lambda>hash_event.
     bnd (serialize_event pd hash_event) (\<lambda>bs. Inr (sha256_digest bs))))"

definition prepare_event_for_append ::
  "pydantic \<Rightarrow> (pyv \<Rightarrow> pyv res) \<Rightarrow> event \<Rightarrow> string option \<Rightarrow> (event \<times> bytes) res" where
  "prepare_event_for_append pd apply_policy e previous_hash =
     bnd (require_supported_persisted_event_canonicalization (canonicalization (ev_integrity e))) (\<lambda>_.
     bnd (event_with_integrity pd e previous_hash None) (\<lambda>event_for_hash.
     bnd (serialize_event_for_persistence pd apply_policy event_for_hash) (\<lambda>bs.
     bnd (event_from_json pd bs) (\<lambda>redacted_hash_event.
     bnd (compute_event_hash pd redacted_hash_event) (\<lambda>hash.
     bnd (event_with_integrity pd redacted_hash_event previous_hash (Some hash)) (\<lambda>redacted_event.
     bnd (serialize_event pd redacted_event) (\<lambda>line. Inr (redacted_event, line))))))))"

section \<open>Verification results\<close>

datatype VerificationCode =
    VC_empty_record | VC_truncated_record | VC_parse_error | VC_unsupported_canonicalization
  | VC_sequence_mismatch | VC_previous_hash_mismatch | VC_event_hash_missing
  | VC_event_hash_mismatch | VC_noncanonical_record | VC_journal_changed_during_read
  | VC_expected_record_count_mismatch | VC_expected_last_hash_mismatch

fun VerificationCode_value :: "VerificationCode \<Rightarrow> string" where
  "VerificationCode_value VC_empty_record = ''empty_record''"
| "VerificationCode_value VC_truncated_record = ''truncated_record''"
| "VerificationCode_value VC_parse_error = ''parse_error''"
| "VerificationCode_value VC_unsupported_canonicalization = ''unsupported_canonicalization''"
| "VerificationCode_value VC_sequence_mismatch = ''sequence_mismatch''"
| "VerificationCode_value VC_previous_hash_mismatch = ''previous_hash_mismatch''"
| "VerificationCode_value VC_event_hash_missing = ''event_hash_missing''"
| "VerificationCode_value VC_event_hash_mismatch = ''event_hash_mismatch''"
| "VerificationCode_value VC_noncanonical_record = ''noncanonical_record''"
| "VerificationCode_value VC_journal_changed_during_read = ''journal_changed_during_read''"
| "VerificationCode_value VC_expected_record_count_mismatch = ''expected_record_count_mismatch''"
| "VerificationCode_value VC_expected_last_hash_mismatch = ''expected_last_hash_mismatch''"

record VerificationIssue =
  vi_record_number :: nat
  vi_code :: VerificationCode
  vi_message :: string
  vi_event_id :: "string option"
  vi_expected :: pyv
  vi_actual :: pyv

record VerificationResult =
  vr_ok :: bool
  vr_records_verified :: nat
  vr_last_event_hash :: "string option"
  vr_issues :: "VerificationIssue list"

definition VerificationIssue_dump :: "VerificationIssue \<Rightarrow> pyv" where
  "VerificationIssue_dump i = obj
     [(''record_number'', VInt (int (vi_record_number i))),
      (''code'', VStr (VerificationCode_value (vi_code i))), (''message'', VStr (vi_message i)),
      (''event_id'', opt_str (vi_event_id i)), (''expected'', vi_expected i),
      (''actual'', vi_actual i)]"

definition VerificationResult_as_dict :: "VerificationResult \<Rightarrow> pyv" where
  "VerificationResult_as_dict r = obj
     [(''ok'', VBool (vr_ok r)), (''records_verified'', VInt (int (vr_records_verified r))),
      (''last_event_hash'', opt_str (vr_last_event_hash r)),
      (''issues'', VList (map VerificationIssue_dump (vr_issues r)))]"

definition issue :: "nat \<Rightarrow> VerificationCode \<Rightarrow> string \<Rightarrow> VerificationIssue" where
  "issue n code message =
     \<lparr>vi_record_number = n, vi_code = code, vi_message = message, vi_event_id = None,
      vi_expected = VNone, vi_actual = VNone\<rparr>"

definition event_issue ::
  "nat \<Rightarrow> event \<Rightarrow> VerificationCode \<Rightarrow> string \<Rightarrow> pyv \<Rightarrow> pyv \<Rightarrow> VerificationIssue" where
  "event_issue n e code message expected actual =
     \<lparr>vi_record_number = n, vi_code = code, vi_message = message, vi_event_id = Some (event_id e),
      vi_expected = expected, vi_actual = actual\<rparr>"

section \<open>One pass over the journal\<close>

text \<open>Iterating over a binary file: lines end after each newline, the last may have none.\<close>

fun file_lines :: "bytes \<Rightarrow> bytes list" where
  "file_lines [] = []"
| "file_lines (c # cs) =
     (if c = CHR 0x0A then [c] # file_lines cs
      else (case file_lines cs of [] \<Rightarrow> [[c]] | l # ls \<Rightarrow> (c # l) # ls))"

text \<open>\<open>line.rstrip(b"\\n")\<close>.\<close>

definition rstrip_newlines :: "bytes \<Rightarrow> bytes" where
  "rstrip_newlines s = rev (dropWhile (\<lambda>c. c = CHR 0x0A) (rev s))"

text \<open>The checks on a parsed record, in the order of the code: an issue or nothing.\<close>

definition check_hash :: "pydantic \<Rightarrow> nat \<Rightarrow> event \<Rightarrow> string \<Rightarrow> VerificationIssue option res" where
  "check_hash pd record_number e hash =
     (case compute_event_hash pd e of
        Inl err \<Rightarrow>
          if is_a (exn_kind err) CanonicalizationError
          then Inr (Some (event_issue record_number e VC_unsupported_canonicalization
                 ''event canonicalization label is not supported for persisted journal hash verification''
                 (VStr ''supported_persisted_event_canonicalization'')
                 (VStr (canonicalization (ev_integrity e)))))
          else Inl err
      | Inr computed_hash \<Rightarrow>
          if hash \<noteq> computed_hash
          then Inr (Some (event_issue record_number e VC_event_hash_mismatch
                 ''event_hash does not match canonical event bytes''
                 (VStr computed_hash) (VStr hash)))
          else Inr None)"

definition check_event ::
  "pydantic \<Rightarrow> nat \<Rightarrow> string option \<Rightarrow> bytes \<Rightarrow> event \<Rightarrow> VerificationIssue option res" where
  "check_event pd index expected_previous_hash raw_line e =
     bnd (serialize_event pd e) (\<lambda>expected_line.
       if raw_line \<noteq> expected_line @ [CHR 0x0A] then
         Inr (Some (event_issue (index + 1) e VC_noncanonical_record
           ''journal record bytes do not exactly match canonical serialization''
           (VStr ''canonical_event_line'') (VStr ''journal_record_line'')))
       else if sequence (ev_causality e) \<noteq> int index then
         Inr (Some (event_issue (index + 1) e VC_sequence_mismatch
           ''event sequence does not match journal record order''
           (VInt (int index)) (VInt (sequence (ev_causality e)))))
       else if previous_event_hash (ev_integrity e) \<noteq> expected_previous_hash then
         Inr (Some (event_issue (index + 1) e VC_previous_hash_mismatch
           ''previous_event_hash does not match prior record hash''
           (opt_str expected_previous_hash) (opt_str (previous_event_hash (ev_integrity e)))))
       else
         (case event_hash (ev_integrity e) of
            None \<Rightarrow>
              Inr (Some (event_issue (index + 1) e VC_event_hash_missing
                ''event_hash is required for journal verification'' VNone VNone))
          | Some hash \<Rightarrow> check_hash pd (index + 1) e hash))"

definition check_record ::
  "pydantic \<Rightarrow> nat \<Rightarrow> string option \<Rightarrow> bytes \<Rightarrow> (VerificationIssue + event) res" where
  "check_record pd index expected_previous_hash raw_line =
     (if raw_line = [] \<or> last raw_line \<noteq> CHR 0x0A then
        Inr (Inl (issue (index + 1) VC_truncated_record
          ''journal record is missing its newline terminator''))
      else if rstrip_newlines raw_line = [] then
        Inr (Inl (issue (index + 1) VC_empty_record ''journal record is empty''))
      else
        (case parse_event pd (rstrip_newlines raw_line) of
           Inl err \<Rightarrow>
             if is_a (exn_kind err) ActionLineageError \<or> is_a (exn_kind err) ValueError
             then Inr (Inl (issue (index + 1) VC_parse_error ''journal record is not a valid event''))
             else Inl err
         | Inr e \<Rightarrow>
             bnd (check_event pd index expected_previous_hash raw_line e) (\<lambda>r.
               case r of Some i \<Rightarrow> Inr (Inl i) | None \<Rightarrow> Inr (Inr e))))"

record scan_state =
  ss_issues :: "VerificationIssue list"
  ss_expected_previous_hash :: "string option"
  ss_last_event_hash :: "string option"
  ss_records_verified :: nat
  ss_events :: "event list"

definition scan_start :: scan_state where
  "scan_start =
     \<lparr>ss_issues = [], ss_expected_previous_hash = None, ss_last_event_hash = None,
      ss_records_verified = 0, ss_events = []\<rparr>"

definition scan_accept :: "scan_state \<Rightarrow> event \<Rightarrow> scan_state" where
  "scan_accept st e =
     st\<lparr>ss_events := ss_events st @ [e], ss_records_verified := ss_records_verified st + 1,
        ss_last_event_hash := event_hash (ev_integrity e),
        ss_expected_previous_hash := event_hash (ev_integrity e)\<rparr>"

fun scan_records :: "pydantic \<Rightarrow> nat \<Rightarrow> scan_state \<Rightarrow> bytes list \<Rightarrow> scan_state res" where
  "scan_records pd index st [] = Inr st"
| "scan_records pd index st (raw_line # rest) =
     bnd (check_record pd index (ss_expected_previous_hash st) raw_line) (\<lambda>r.
       case r of
         Inl i \<Rightarrow> Inr (st\<lparr>ss_issues := ss_issues st @ [i]\<rparr>)
       | Inr e \<Rightarrow> scan_records pd (Suc index) (scan_accept st e) rest)"

record JournalFileMetadata =
  jm_device :: int
  jm_inode :: int
  jm_size :: int
  jm_modified_ns :: int

record VerifiedJournalSnapshot =
  js_events :: "event list"
  js_verification :: VerificationResult
  js_metadata_before :: "JournalFileMetadata option"
  js_metadata_after :: "JournalFileMetadata option"
  js_journal_sha256 :: "string option"

definition snapshot_ok :: "VerifiedJournalSnapshot \<Rightarrow> bool" where
  "snapshot_ok s = vr_ok (js_verification s)"

definition snapshot_record_count :: "VerifiedJournalSnapshot \<Rightarrow> nat" where
  "snapshot_record_count s = vr_records_verified (js_verification s)"

definition snapshot_terminal_hash :: "VerifiedJournalSnapshot \<Rightarrow> string option" where
  "snapshot_terminal_hash s = vr_last_event_hash (js_verification s)"

definition metadata_issues ::
  "nat \<Rightarrow> JournalFileMetadata option \<Rightarrow> JournalFileMetadata option \<Rightarrow> VerificationIssue list" where
  "metadata_issues n before after =
     (if before \<noteq> None \<and> after \<noteq> None \<and> before \<noteq> after
      then [issue n VC_journal_changed_during_read
              ''journal file metadata changed during snapshot capture'']
      else [])"

definition expectation_issues ::
  "nat \<Rightarrow> string option \<Rightarrow> int option \<Rightarrow> string option \<Rightarrow> VerificationIssue list" where
  "expectation_issues n last_hash expected_record_count expected_last_event_hash =
     (case expected_record_count of
        Some c \<Rightarrow>
          if int n \<noteq> c
          then [\<lparr>vi_record_number = n, vi_code = VC_expected_record_count_mismatch,
                  vi_message = ''verified record count does not match expected trusted count'',
                  vi_event_id = None, vi_expected = VInt c, vi_actual = VInt (int n)\<rparr>]
          else []
      | None \<Rightarrow> []) @
     (case expected_last_event_hash of
        Some h \<Rightarrow>
          if last_hash \<noteq> Some h
          then [\<lparr>vi_record_number = n, vi_code = VC_expected_last_hash_mismatch,
                  vi_message = ''last event hash does not match expected trusted hash'',
                  vi_event_id = None, vi_expected = VStr h, vi_actual = opt_str last_hash\<rparr>]
          else []
      | None \<Rightarrow> [])"

text \<open>
  \<open>verified_journal_snapshot(path, lock=False)\<close>. \<open>before\<close> and \<open>after\<close> are what \<open>fstat\<close> reads
  when the file exists.
\<close>

definition verified_journal_snapshot ::
  "pydantic \<Rightarrow> JournalFileMetadata \<times> JournalFileMetadata \<Rightarrow> int option \<Rightarrow> string option
     \<Rightarrow> bytes option \<Rightarrow> VerifiedJournalSnapshot res" where
  "verified_journal_snapshot pd stat expected_record_count expected_last_event_hash file =
     bnd (case file of
            None \<Rightarrow> Inr scan_start
          | Some content \<Rightarrow> scan_records pd 0 scan_start (file_lines content)) (\<lambda>st.
       let before = map_option (\<lambda>_. fst stat) file;
           after = map_option (\<lambda>_. snd stat) file;
           n = ss_records_verified st;
           issues = ss_issues st @ metadata_issues n before after
             @ expectation_issues n (ss_last_event_hash st) expected_record_count
                 expected_last_event_hash;
           verification =
             \<lparr>vr_ok = (issues = []), vr_records_verified = n,
              vr_last_event_hash = ss_last_event_hash st, vr_issues = issues\<rparr>
       in Inr \<lparr>js_events = ss_events st, js_verification = verification,
               js_metadata_before = before, js_metadata_after = after,
               js_journal_sha256 =
                 (if vr_ok verification
                  then map_option (\<lambda>content. ''sha256:'' @ sha256_hex content) file
                  else None)\<rparr>)"

definition verify_journal ::
  "pydantic \<Rightarrow> JournalFileMetadata \<times> JournalFileMetadata \<Rightarrow> int option \<Rightarrow> string option
     \<Rightarrow> bytes option \<Rightarrow> VerificationResult res" where
  "verify_journal pd stat expected_record_count expected_last_event_hash file =
     bnd (verified_journal_snapshot pd stat expected_record_count expected_last_event_hash file)
       (\<lambda>s. Inr (js_verification s))"

definition JOURNAL_SOURCE_IDENTITY_VERSION :: string where
  "JOURNAL_SOURCE_IDENTITY_VERSION = ''actionlineage.dev/journal-source-identity-v1''"

definition source_identity_preimage :: "VerifiedJournalSnapshot \<Rightarrow> pyv" where
  "source_identity_preimage s = obj
     [(''journal_sha256'', opt_str (js_journal_sha256 s)),
      (''record_count'', VInt (int (snapshot_record_count s))),
      (''terminal_hash'', opt_str (snapshot_terminal_hash s)),
      (''version'', VStr JOURNAL_SOURCE_IDENTITY_VERSION)]"

definition journal_source_identity :: "VerifiedJournalSnapshot \<Rightarrow> string res" where
  "journal_source_identity s =
     (if \<not> snapshot_ok s
      then raise ValueError ''cannot compute source identity for an invalid journal snapshot''
      else
        bnd (deterministic_json_bytes (source_identity_preimage s)) (\<lambda>bs.
          Inr (JOURNAL_SOURCE_IDENTITY_VERSION @ '':sha256:'' @ sha256_hex bs)))"

definition VerifiedJournalSnapshot_as_dict :: "string \<Rightarrow> VerifiedJournalSnapshot \<Rightarrow> pyv res" where
  "VerifiedJournalSnapshot_as_dict path s =
     bnd (journal_source_identity s) (\<lambda>identity.
       Inr (obj
         [(''ok'', VBool (snapshot_ok s)), (''path'', VStr path),
          (''record_count'', VInt (int (snapshot_record_count s))),
          (''terminal_hash'', opt_str (snapshot_terminal_hash s)),
          (''journal_sha256'', opt_str (js_journal_sha256 s)),
          (''source_identity'', VStr identity),
          (''verification'', VerificationResult_as_dict (js_verification s))]))"

text \<open>\<open>iter_events\<close>: parsing without verification; empty lines are skipped.\<close>

fun parse_lines :: "pydantic \<Rightarrow> bytes list \<Rightarrow> event list res" where
  "parse_lines pd [] = Inr []"
| "parse_lines pd (raw_line # rest) =
     (if rstrip_newlines raw_line = [] then parse_lines pd rest
      else bnd (parse_event pd (rstrip_newlines raw_line)) (\<lambda>e.
             bnd (parse_lines pd rest) (\<lambda>es. Inr (e # es))))"

definition unsafe_iter_events :: "pydantic \<Rightarrow> bytes option \<Rightarrow> event list res" where
  "unsafe_iter_events pd file =
     (case file of None \<Rightarrow> Inr [] | Some content \<Rightarrow> parse_lines pd (file_lines content))"

section \<open>Appending\<close>

text \<open>What the file system answers during an append.\<close>

datatype dir_outcome = DirPrivate | DirError | DirNotPrivate string
datatype read_outcome = ReadOk | ReadError
datatype write_outcome =
    WriteOk
  | WriteInsecure string   \<comment> \<open>the file is not private: \<open>JournalStoragePermissionError\<close>\<close>
  | WriteError nat         \<comment> \<open>an \<open>OSError\<close> after this many bytes reached the file\<close>

record append_env =
  ae_dir :: dir_outcome
  ae_read :: read_outcome
  ae_write :: write_outcome
  ae_stat :: "JournalFileMetadata \<times> JournalFileMetadata"

definition ensure_private_directory :: "dir_outcome \<Rightarrow> unit res" where
  "ensure_private_directory d =
     (case d of
        DirPrivate \<Rightarrow> Inr ()
      | DirError \<Rightarrow> raise JournalAppendError ''failed to prepare journal directory''
      | DirNotPrivate detail \<Rightarrow> raise JournalAppendError detail)"

definition file_bytes :: "bytes option \<Rightarrow> bytes" where
  "file_bytes file = (case file of None \<Rightarrow> [] | Some content \<Rightarrow> content)"

text \<open>
  \<open>_append_line\<close>: the record and its newline are appended; opening the file creates it, even
  when the permission check then fails.
\<close>

definition append_line :: "write_outcome \<Rightarrow> bytes option \<Rightarrow> bytes \<Rightarrow> unit res \<times> bytes option" where
  "append_line w file canonical_bytes =
     (case w of
        WriteOk \<Rightarrow> (Inr (), Some (file_bytes file @ canonical_bytes @ [CHR 0x0A]))
      | WriteInsecure detail \<Rightarrow>
          (raise JournalStoragePermissionError detail, Some (file_bytes file))
      | WriteError n \<Rightarrow>
          (raise OSError [], Some (file_bytes file @ take n (canonical_bytes @ [CHR 0x0A]))))"

definition next_record ::
  "pydantic \<Rightarrow> (pyv \<Rightarrow> pyv res) \<Rightarrow> append_env \<Rightarrow> bytes option \<Rightarrow> event \<Rightarrow> (event \<times> bytes) res" where
  "next_record pd apply_policy env file e =
     bnd (ensure_private_directory (ae_dir env)) (\<lambda>_.
     bnd (case ae_read env of
            ReadError \<Rightarrow> raise JournalAppendError ''failed to verify existing journal before append''
          | ReadOk \<Rightarrow> verified_journal_snapshot pd (ae_stat env) None None file) (\<lambda>snapshot.
     if \<not> snapshot_ok snapshot then
       raise JournalAppendError ''cannot append to a journal that fails verification''
     else if sequence (ev_causality e) \<noteq> int (snapshot_record_count snapshot) then
       raise JournalAppendError
         (''event sequence '' @ int_repr (sequence (ev_causality e))
          @ '' does not match next journal sequence '' @ nat_repr (snapshot_record_count snapshot))
     else prepare_event_for_append pd apply_policy e (snapshot_terminal_hash snapshot)))"

definition append_event ::
  "pydantic \<Rightarrow> (pyv \<Rightarrow> pyv res) \<Rightarrow> append_env \<Rightarrow> bytes option \<Rightarrow> event \<Rightarrow> event res \<times> bytes option" where
  "append_event pd apply_policy env file e =
     (case next_record pd apply_policy env file e of
        Inl err \<Rightarrow> (Inl err, file)
      | Inr (redacted_event, canonical_bytes) \<Rightarrow>
          (case append_line (ae_write env) file canonical_bytes of
             (Inr _, file') \<Rightarrow> (Inr redacted_event, file')
           | (Inl err, file') \<Rightarrow>
               (if is_a (exn_kind err) OSError
                then raise JournalAppendError ''failed to append event to journal''
                else Inl err, file')))"

end
