(* ===== verification/Normalization.thy ===== *)
theory Normalization
  imports Journal Support
begin

text \<open>
  \<open>evidence/normalization.py\<close>: the event factory that numbers events and fills in their causality.

  The clock and the identifier generator are interfaces (\<open>Clock\<close>, \<open>IdGenerator\<close>): \<open>now\<close> and
  \<open>new_id\<close> are parameters that return a value or an exception and their next state. The
  model instances the normalizer holds (\<open>Source\<close>, \<open>Correlation\<close>, ...) are passed to
  \<open>EventEnvelope(...)\<close> as their fields.
\<close>

record ('g, 'c) EvidenceNormalizer =
  nz_correlation :: correlation
  nz_source :: source
  nz_principal :: principal
  nz_classification :: classification
  nz_clock :: 'c
  nz_id_generator :: 'g
  nz_initial_sequence :: int
  nz_sequence :: int
  nz_root_event_id :: "string option"
  nz_last_event_id :: "string option"

definition EvidenceNormalizer_new ::
  "correlation \<Rightarrow> source \<Rightarrow> principal \<Rightarrow> classification \<Rightarrow> 'c \<Rightarrow> 'g \<Rightarrow> int
     \<Rightarrow> ('g, 'c) EvidenceNormalizer res" where
  "EvidenceNormalizer_new cor src prin cla clock ids initial_sequence =
     (if initial_sequence < 0 then raise ValueError ''initial_sequence must be non-negative''
      else Inr \<lparr>nz_correlation = cor, nz_source = src, nz_principal = prin, nz_classification = cla,
                nz_clock = clock, nz_id_generator = ids, nz_initial_sequence = initial_sequence,
                nz_sequence = initial_sequence, nz_root_event_id = None, nz_last_event_id = None\<rparr>)"

definition rebase_initial_sequence ::
  "('g, 'c) EvidenceNormalizer \<Rightarrow> int \<Rightarrow> ('g, 'c) EvidenceNormalizer res" where
  "rebase_initial_sequence nz initial_sequence =
     (if initial_sequence < 0 then raise ValueError ''initial_sequence must be non-negative''
      else if nz_sequence nz \<noteq> nz_initial_sequence nz \<or> nz_root_event_id nz \<noteq> None
      then raise ValueError ''cannot rebase a normalizer after records have been emitted''
      else Inr (nz\<lparr>nz_initial_sequence := initial_sequence, nz_sequence := initial_sequence\<rparr>))"

definition resolve_root_event_id ::
  "('g, 'c) EvidenceNormalizer \<Rightarrow> string \<Rightarrow> string option \<Rightarrow> bool \<Rightarrow> string res" where
  "resolve_root_event_id nz event_id1 rid is_root =
     (if is_root then Inr event_id1
      else (case rid of
              Some r \<Rightarrow> Inr r
            | None \<Rightarrow>
                (case nz_root_event_id nz of
                   Some r \<Rightarrow> Inr r
                 | None \<Rightarrow> raise ValueError
                     ''root_event_id is required when the first event is not a root event'')))"

text \<open>\<open>EventEnvelope(event_id=..., ..., payload=...)\<close>, called with the resolved values.\<close>

definition EventEnvelope_new ::
  "pydantic \<Rightarrow> string \<Rightarrow> string \<Rightarrow> datetime \<Rightarrow> datetime \<Rightarrow> source \<Rightarrow> correlation \<Rightarrow> causality
     \<Rightarrow> principal \<Rightarrow> classification \<Rightarrow> pyv \<Rightarrow> event res" where
  "EventEnvelope_new pd i t occ obs src cor cau prin cla pay =
     model_validate pd (obj
       [(''event_id'', VStr i), (''event_type'', VStr t), (''occurred_at'', VDatetime occ),
        (''observed_at'', VDatetime obs), (''source'', obj (source_dump src)),
        (''correlation'', obj (correlation_dump cor)), (''causality'', obj (causality_dump cau)),
        (''principal'', obj (principal_dump prin)),
        (''classification'', obj (classification_dump cla)), (''payload'', pay)])"

text \<open>\<open>parent_event_id or self._last_event_id\<close>\<close>

definition or_else :: "string option \<Rightarrow> string option \<Rightarrow> string option" where
  "or_else a b = (if a = None \<or> a = Some [] then b else a)"

definition Causality_new :: "pydantic \<Rightarrow> string \<Rightarrow> string option \<Rightarrow> int \<Rightarrow> causality res" where
  "Causality_new pd rid parent sequence1 =
     (case validate_causality_fields pd (obj (causality_dump
             \<lparr>root_event_id = rid, sequence = sequence1, parent_event_id = parent\<rparr>)) of
        None \<Rightarrow> validation_error
      | Some c \<Rightarrow> Inr c)"

text \<open>The optional arguments of \<open>record\<close>.\<close>

record record_args =
  ra_source :: "source option"
  ra_principal :: "principal option"
  ra_classification :: "classification option"
  ra_parent_event_id :: "string option"
  ra_root_event_id :: "string option"

definition no_args :: record_args where
  "no_args = \<lparr>ra_source = None, ra_principal = None, ra_classification = None,
     ra_parent_event_id = None, ra_root_event_id = None\<rparr>"

definition or_default :: "'a option \<Rightarrow> 'a \<Rightarrow> 'a" where
  "or_default a d = (case a of None \<Rightarrow> d | Some x \<Rightarrow> x)"

definition normalized_event ::
  "pydantic \<Rightarrow> ('g, 'c) EvidenceNormalizer \<Rightarrow> record_args \<Rightarrow> string \<Rightarrow> pyv \<Rightarrow> string \<Rightarrow> string
     \<Rightarrow> string option \<Rightarrow> datetime \<Rightarrow> datetime \<Rightarrow> event res" where
  "normalized_event pd nz args event_type1 pay event_id1 rid parent occ obs =
     bnd (Causality_new pd rid parent (nz_sequence nz)) (\<lambda>causality.
       EventEnvelope_new pd event_id1 event_type1 occ obs
         (or_default (ra_source args) (nz_source nz)) (nz_correlation nz) causality
         (or_default (ra_principal args) (nz_principal nz))
         (or_default (ra_classification args) (nz_classification nz)) pay)"

definition record_emitted ::
  "('g, 'c) EvidenceNormalizer \<Rightarrow> event \<Rightarrow> ('g, 'c) EvidenceNormalizer" where
  "record_emitted nz e =
     nz\<lparr>nz_sequence := nz_sequence nz + 1,
        nz_root_event_id := Some (root_event_id (ev_causality e)),
        nz_last_event_id := Some (event_id e)\<rparr>"

text \<open>
  \<open>record\<close>: the identifier is drawn and the clock is read even when the event is refused; the
  sequence number, the root and the last event change only when it is not.
\<close>

definition EvidenceNormalizer_record ::
  "pydantic \<Rightarrow> ('g \<Rightarrow> string \<Rightarrow> string res \<times> 'g) \<Rightarrow> ('c \<Rightarrow> datetime res \<times> 'c)
     \<Rightarrow> ('g, 'c) EvidenceNormalizer \<Rightarrow> string \<Rightarrow> pyv \<Rightarrow> record_args
     \<Rightarrow> event res \<times> ('g, 'c) EvidenceNormalizer" where
  "EvidenceNormalizer_record pd new_id now nz event_type1 pay args =
     (case new_id (nz_id_generator nz) ''evt'' of (i, g) \<Rightarrow>
        let nz1 = nz\<lparr>nz_id_generator := g\<rparr> in
        (case i of
           Inl err \<Rightarrow> (Inl err, nz1)
         | Inr event_id1 \<Rightarrow>
             let is_root = nz_root_event_id nz = None \<and> ra_parent_event_id args = None
                           \<and> ra_root_event_id args = None in
             (case resolve_root_event_id nz event_id1 (ra_root_event_id args) is_root of
                Inl err \<Rightarrow> (Inl err, nz1)
              | Inr rid \<Rightarrow>
                  let parent = (if is_root then None
                                else or_else (ra_parent_event_id args) (nz_last_event_id nz)) in
                  (case now (nz_clock nz) of (t1, c1) \<Rightarrow>
                   (case t1 of
                      Inl err \<Rightarrow> (Inl err, nz1\<lparr>nz_clock := c1\<rparr>)
                    | Inr occ \<Rightarrow>
                   (case now c1 of (t2, c2) \<Rightarrow>
                     let nz2 = nz1\<lparr>nz_clock := c2\<rparr> in
                   (case t2 of
                      Inl err \<Rightarrow> (Inl err, nz2)
                    | Inr obs \<Rightarrow>
                        (case normalized_event pd nz args event_type1 pay event_id1 rid parent occ obs of
                           Inl err \<Rightarrow> (Inl err, nz2)
                         | Inr e \<Rightarrow> (Inr e, record_emitted nz2 e)))))))))"

section \<open>What the events of a normalizer are\<close>

text \<open>The configuration of a normalizer never changes; its counters change with an event only.\<close>

definition same_config :: "('g, 'c) EvidenceNormalizer \<Rightarrow> ('g, 'c) EvidenceNormalizer \<Rightarrow> bool" where
  "same_config a b \<longleftrightarrow> nz_correlation a = nz_correlation b \<and> nz_source a = nz_source b
     \<and> nz_principal a = nz_principal b \<and> nz_classification a = nz_classification b"

lemma record_config:
  "EvidenceNormalizer_record pd new_id now nz t pay args = (r, nz') \<Longrightarrow> same_config nz' nz"
  by (auto simp: EvidenceNormalizer_record_def same_config_def Let_def record_emitted_def
      split: prod.splits sum.splits if_split_asm)

lemma record_failed:
  "EvidenceNormalizer_record pd new_id now nz t pay args = (Inl err, nz') \<Longrightarrow>
   nz_sequence nz' = nz_sequence nz \<and> nz_root_event_id nz' = nz_root_event_id nz
   \<and> nz_last_event_id nz' = nz_last_event_id nz"
  by (auto simp: EvidenceNormalizer_record_def Let_def split: prod.splits sum.splits if_split_asm)

lemma record_returned:
  assumes "EvidenceNormalizer_record pd new_id now nz t pay args = (Inr e, nz')"
  shows "\<exists>i g rid parent occ obs c0 c.
    new_id (nz_id_generator nz) ''evt'' = (Inr i, g)
    \<and> resolve_root_event_id nz i (ra_root_event_id args)
        (nz_root_event_id nz = None \<and> ra_parent_event_id args = None \<and> ra_root_event_id args = None)
       = Inr rid
    \<and> parent = (if nz_root_event_id nz = None \<and> ra_parent_event_id args = None
                   \<and> ra_root_event_id args = None then None
                else or_else (ra_parent_event_id args) (nz_last_event_id nz))
    \<and> now (nz_clock nz) = (Inr occ, c0) \<and> now c0 = (Inr obs, c)
    \<and> normalized_event pd nz args t pay i rid parent occ obs = Inr e
    \<and> nz' = record_emitted (nz\<lparr>nz_id_generator := g, nz_clock := c\<rparr>) e"
  using assms
  by (auto simp: EvidenceNormalizer_record_def Let_def split: prod.splits sum.splits if_split_asm)

end
