(* ===== verification/Ingestion.thy ===== *)
theory Ingestion
  imports Normalization
begin

text \<open>
  \<open>evidence/ingestion.py\<close>: source-neutral evidence records, their idempotency fingerprints and the
  import of a batch into a journal, with and without the journal lock held for the whole batch.

  The attributes of a resource or an action are JSON values, which the model dump leaves as they
  are. The fields of the pydantic models are given with their declared types; what \<open>_new\<close> functions
  check are the declared lengths. The lock, the directory and the file system answer through
  parameters, as in \<open>Journal\<close>.
\<close>

section \<open>Records\<close>

definition INGEST_RECORD_FINGERPRINT_VERSION :: string where
  "INGEST_RECORD_FINGERPRINT_VERSION = ''actionlineage.dev/ingest-record-fingerprint-v1''"

definition INGESTION_PROVENANCE_VERSION :: string where
  "INGESTION_PROVENANCE_VERSION = ''actionlineage.dev/ingestion-provenance-v1''"

datatype EvidenceSourceKind =
  SK_LOCAL_FUNCTION | SK_FILE | SK_HTTP | SK_MCP | SK_EXTERNAL_JSON | SK_FIXTURE | SK_UNKNOWN

fun EvidenceSourceKind_value :: "EvidenceSourceKind \<Rightarrow> string" where
  "EvidenceSourceKind_value SK_LOCAL_FUNCTION = ''local_function''"
| "EvidenceSourceKind_value SK_FILE = ''file''"
| "EvidenceSourceKind_value SK_HTTP = ''http''"
| "EvidenceSourceKind_value SK_MCP = ''mcp''"
| "EvidenceSourceKind_value SK_EXTERNAL_JSON = ''external_json''"
| "EvidenceSourceKind_value SK_FIXTURE = ''fixture''"
| "EvidenceSourceKind_value SK_UNKNOWN = ''unknown''"

datatype IngestOutcomeStatus = IO_IMPORTED | IO_DUPLICATE | IO_CONFLICT | IO_FAILED

fun IngestOutcomeStatus_value :: "IngestOutcomeStatus \<Rightarrow> string" where
  "IngestOutcomeStatus_value IO_IMPORTED = ''imported''"
| "IngestOutcomeStatus_value IO_DUPLICATE = ''duplicate''"
| "IngestOutcomeStatus_value IO_CONFLICT = ''conflict''"
| "IngestOutcomeStatus_value IO_FAILED = ''failed''"

text \<open>A member that is left out of the dump when it is \<open>None\<close> (\<open>exclude_none=True\<close>).\<close>

definition unless_none :: "string \<Rightarrow> pyv option \<Rightarrow> (string \<times> pyv) list" where
  "unless_none k v = (case v of None \<Rightarrow> [] | Some x \<Rightarrow> [(k, x)])"

record ToolIdentity =
  ti_name :: string
  ti_descriptor_hash :: "string option"
  ti_adapter :: "string option"
  ti_version :: "string option"

definition ToolIdentity_new :: "ToolIdentity \<Rightarrow> ToolIdentity res" where
  "ToolIdentity_new t =
     (if ti_name t = [] \<or> [] \<in> set_option (ti_descriptor_hash t) \<or> [] \<in> set_option (ti_adapter t)
         \<or> [] \<in> set_option (ti_version t)
      then validation_error else Inr t)"

definition ToolIdentity_as_payload :: "ToolIdentity \<Rightarrow> pyv" where
  "ToolIdentity_as_payload t =
     obj ([(''name'', VStr (ti_name t))]
          @ unless_none ''descriptor_hash'' (map_option VStr (ti_descriptor_hash t))
          @ unless_none ''adapter'' (map_option VStr (ti_adapter t))
          @ unless_none ''version'' (map_option VStr (ti_version t)))"

record DelegatedIdentity =
  di_initiating_principal_id :: string
  di_executing_principal_id :: string
  di_credential_id :: "string option"
  di_scopes :: "string list"

definition DelegatedIdentity_new :: "DelegatedIdentity \<Rightarrow> DelegatedIdentity res" where
  "DelegatedIdentity_new d =
     (if di_initiating_principal_id d = [] \<or> di_executing_principal_id d = []
         \<or> [] \<in> set_option (di_credential_id d) \<or> [] \<in> set (di_scopes d)
      then validation_error else Inr d)"

definition DelegatedIdentity_as_payload :: "DelegatedIdentity \<Rightarrow> pyv" where
  "DelegatedIdentity_as_payload d =
     obj ([(''initiating_principal_id'', VStr (di_initiating_principal_id d)),
           (''executing_principal_id'', VStr (di_executing_principal_id d))]
          @ unless_none ''credential_id'' (map_option VStr (di_credential_id d))
          @ [(''scopes'', VList (map VStr (di_scopes d)))])"

record NormalizedResource =
  nr_resource_type :: ResourceType
  nr_identifier :: string
  nr_attributes :: pydict

definition NormalizedResource_new :: "NormalizedResource \<Rightarrow> NormalizedResource res" where
  "NormalizedResource_new r = (if nr_identifier r = [] then validation_error else Inr r)"

definition NormalizedResource_as_payload :: "NormalizedResource \<Rightarrow> pyv" where
  "NormalizedResource_as_payload r =
     obj [(''resource_type'', VStr (ResourceType_value (nr_resource_type r))),
          (''identifier'', VStr (nr_identifier r)), (''attributes'', VDict (nr_attributes r))]"

record NormalizedAction =
  na_action_type :: string
  na_resources :: "NormalizedResource list"
  na_tool_identity :: "ToolIdentity option"
  na_delegated_identity :: "DelegatedIdentity option"
  na_attributes :: pydict

definition NormalizedAction_new :: "NormalizedAction \<Rightarrow> NormalizedAction res" where
  "NormalizedAction_new a = (if na_action_type a = [] then validation_error else Inr a)"

definition NormalizedAction_as_payload :: "NormalizedAction \<Rightarrow> pyv" where
  "NormalizedAction_as_payload a =
     obj ([(''action_type'', VStr (na_action_type a)),
           (''resources'', VList (map NormalizedResource_as_payload (na_resources a)))]
          @ unless_none ''tool_identity'' (map_option ToolIdentity_as_payload (na_tool_identity a))
          @ unless_none ''delegated_identity''
              (map_option DelegatedIdentity_as_payload (na_delegated_identity a))
          @ [(''attributes'', VDict (na_attributes a))])"

record ObservationRecord =
  or_observer_identity :: string
  or_resource :: NormalizedResource
  or_observed_state :: pydict
  or_verification_status :: VerificationStatus
  or_limitations :: "string list"

definition ObservationRecord_new :: "ObservationRecord \<Rightarrow> ObservationRecord res" where
  "ObservationRecord_new r = (if or_observer_identity r = [] then validation_error else Inr r)"

definition ObservationRecord_as_payload :: "ObservationRecord \<Rightarrow> pydict" where
  "ObservationRecord_as_payload r = obj_items
     [(''observer_identity'', VStr (or_observer_identity r)),
      (''resource'', NormalizedResource_as_payload (or_resource r)),
      (''observed_state'', VDict (or_observed_state r)),
      (''verification_status'', VStr (VerificationStatus_value (or_verification_status r))),
      (''limitations'', VList (map VStr (or_limitations r)))]"

record VerificationRecord =
  vr_evidence_link :: evidence_link

definition VerificationRecord_verified ::
  "string \<Rightarrow> string \<Rightarrow> string \<Rightarrow> pyfloat \<Rightarrow> string list \<Rightarrow> CorroborationType \<Rightarrow> VerificationRecord res" where
  "VerificationRecord_verified subject evidence observer conf limits corroboration =
     bnd (EvidenceLink_new subject CORROBORATES evidence corroboration observer conf VS_VERIFIED limits)
       (\<lambda>l. Inr \<lparr>vr_evidence_link = l\<rparr>)"

definition VerificationRecord_as_payload :: "VerificationRecord \<Rightarrow> pydict" where
  "VerificationRecord_as_payload r =
     obj_items [(''evidence_link'', EvidenceLink_as_payload (vr_evidence_link r))]"

record EvidenceRecord =
  er_idempotency_key :: string
  er_event_type :: string
  er_payload :: pydict
  er_source_kind :: EvidenceSourceKind
  er_sort_key :: string
  er_source :: "source option"
  er_principal :: "principal option"
  er_classification :: "classification option"

definition EvidenceRecord_new :: "EvidenceRecord \<Rightarrow> EvidenceRecord res" where
  "EvidenceRecord_new r = (if er_idempotency_key r = [] then validation_error else Inr r)"

definition plain_record :: "string \<Rightarrow> string \<Rightarrow> pydict \<Rightarrow> EvidenceSourceKind \<Rightarrow> string \<Rightarrow> EvidenceRecord res" where
  "plain_record key t pay kind sortk =
     EvidenceRecord_new \<lparr>er_idempotency_key = key, er_event_type = t, er_payload = pay,
       er_source_kind = kind, er_sort_key = sortk, er_source = None, er_principal = None,
       er_classification = None\<rparr>"

definition EvidenceRecord_from_action ::
  "string \<Rightarrow> NormalizedAction \<Rightarrow> EvidenceSourceKind \<Rightarrow> string \<Rightarrow> string \<Rightarrow> EvidenceRecord res" where
  "EvidenceRecord_from_action key action kind t sortk =
     plain_record key t (obj_items [(''action'', NormalizedAction_as_payload action)]) kind sortk"

definition EvidenceRecord_from_observation ::
  "string \<Rightarrow> ObservationRecord \<Rightarrow> EvidenceSourceKind \<Rightarrow> string \<Rightarrow> string \<Rightarrow> EvidenceRecord res" where
  "EvidenceRecord_from_observation key observation kind t sortk =
     plain_record key t (ObservationRecord_as_payload observation) kind sortk"

definition EvidenceRecord_from_verification ::
  "string \<Rightarrow> VerificationRecord \<Rightarrow> EvidenceSourceKind \<Rightarrow> string \<Rightarrow> string \<Rightarrow> EvidenceRecord res" where
  "EvidenceRecord_from_verification key verification kind t sortk =
     plain_record key t (VerificationRecord_as_payload verification) kind sortk"

definition collect_records :: "EvidenceRecord list list \<Rightarrow> EvidenceRecord list" where
  "collect_records adapters = concat adapters"

section \<open>Outcomes\<close>

record IngestOutcome =
  oc_idempotency_key :: string
  oc_status :: IngestOutcomeStatus
  oc_event_id :: "string option"
  oc_error :: "string option"

definition IngestOutcome_as_dict :: "IngestOutcome \<Rightarrow> pyv" where
  "IngestOutcome_as_dict o1 =
     obj [(''idempotency_key'', VStr (oc_idempotency_key o1)),
          (''status'', VStr (IngestOutcomeStatus_value (oc_status o1))),
          (''event_id'', opt_str (oc_event_id o1)), (''error'', opt_str (oc_error o1))]"

record BatchImportResult =
  br_outcomes :: "IngestOutcome list"

definition outcome_count :: "BatchImportResult \<Rightarrow> IngestOutcomeStatus \<Rightarrow> nat" where
  "outcome_count r status = length (filter (\<lambda>o1. oc_status o1 = status) (br_outcomes r))"

definition imported_count :: "BatchImportResult \<Rightarrow> nat" where
  "imported_count r = outcome_count r IO_IMPORTED"

definition duplicate_count :: "BatchImportResult \<Rightarrow> nat" where
  "duplicate_count r = outcome_count r IO_DUPLICATE"

definition conflict_count :: "BatchImportResult \<Rightarrow> nat" where
  "conflict_count r = outcome_count r IO_CONFLICT"

definition failed_count :: "BatchImportResult \<Rightarrow> nat" where
  "failed_count r = outcome_count r IO_FAILED"

definition BatchImportResult_ok :: "BatchImportResult \<Rightarrow> bool" where
  "BatchImportResult_ok r \<longleftrightarrow> failed_count r = 0 \<and> conflict_count r = 0"

definition BatchImportResult_as_dict :: "BatchImportResult \<Rightarrow> pyv" where
  "BatchImportResult_as_dict r =
     obj [(''ok'', VBool (BatchImportResult_ok r)),
          (''imported_count'', VInt (int (imported_count r))),
          (''duplicate_count'', VInt (int (duplicate_count r))),
          (''conflict_count'', VInt (int (conflict_count r))),
          (''failed_count'', VInt (int (failed_count r))),
          (''outcomes'', VList (map IngestOutcome_as_dict (br_outcomes r)))]"

section \<open>Idempotency\<close>

record IdempotencyEntry =
  ie_event_id :: string
  ie_record_fingerprint :: "string option"

definition payload_with_ingest_metadata :: "EvidenceRecord \<Rightarrow> string \<Rightarrow> pydict" where
  "payload_with_ingest_metadata r fingerprint =
     dset (er_payload r) (KStr ''ingest'') (obj
       [(''fingerprint_version'', VStr INGEST_RECORD_FINGERPRINT_VERSION),
        (''idempotency_key'', VStr (er_idempotency_key r)),
        (''record_fingerprint'', VStr fingerprint),
        (''source_kind'', VStr (EvidenceSourceKind_value (er_source_kind r)))])"

text \<open>\<open>value.get(key)\<close> of a value that is a mapping, when it is non-empty text.\<close>

definition mapping_text :: "pyv \<Rightarrow> string \<Rightarrow> string option" where
  "mapping_text v key =
     (case map_items v of
        None \<Rightarrow> None
      | Some d \<Rightarrow> (case get_or_none d key of VStr s \<Rightarrow> if s = [] then None else Some s | _ \<Rightarrow> None))"

definition event_idempotency_key_from_ingest :: "pyv \<Rightarrow> string option" where
  "event_idempotency_key_from_ingest ingest = mapping_text ingest ''idempotency_key''"

definition event_idempotency_fingerprint_from_ingest :: "pyv \<Rightarrow> string option" where
  "event_idempotency_fingerprint_from_ingest ingest = mapping_text ingest ''record_fingerprint''"

definition event_ingest :: "event \<Rightarrow> pyv" where
  "event_ingest e = (case map_items (payload e) of None \<Rightarrow> VNone | Some d \<Rightarrow> get_or_none d ''ingest'')"

definition event_idempotency_key :: "event \<Rightarrow> string option" where
  "event_idempotency_key e = event_idempotency_key_from_ingest (event_ingest e)"

fun scan_entries :: "(string \<times> IdempotencyEntry) list \<Rightarrow> event list \<Rightarrow> (string \<times> IdempotencyEntry) list" where
  "scan_entries entries [] = entries"
| "scan_entries entries (e # es) =
     scan_entries
       (case event_idempotency_key_from_ingest (event_ingest e) of
          None \<Rightarrow> entries
        | Some key \<Rightarrow>
            dset entries key
              \<lparr>ie_event_id = event_id e,
               ie_record_fingerprint = event_idempotency_fingerprint_from_ingest (event_ingest e)\<rparr>) es"

definition existing_idempotency_entries ::
  "VerifiedJournalSnapshot option \<Rightarrow> (string \<times> IdempotencyEntry) list res" where
  "existing_idempotency_entries existing =
     (case existing of
        None \<Rightarrow> Inr []
      | Some snapshot \<Rightarrow>
          if \<not> snapshot_ok snapshot
          then raise JournalError ''cannot scan idempotency keys from an unverified journal''
          else Inr (scan_entries [] (js_events snapshot)))"

definition matched_idempotency_outcome ::
  "EvidenceRecord \<Rightarrow> IdempotencyEntry \<Rightarrow> string \<Rightarrow> IngestOutcome" where
  "matched_idempotency_outcome r entry fingerprint =
     (if ie_record_fingerprint entry = None \<or> ie_record_fingerprint entry = Some fingerprint
      then \<lparr>oc_idempotency_key = er_idempotency_key r, oc_status = IO_DUPLICATE,
            oc_event_id = Some (ie_event_id entry), oc_error = None\<rparr>
      else \<lparr>oc_idempotency_key = er_idempotency_key r, oc_status = IO_CONFLICT,
            oc_event_id = Some (ie_event_id entry),
            oc_error = Some ''idempotency key already used for different evidence record''\<rparr>)"

definition is_service_ingestion_provenance :: "pyv \<Rightarrow> bool" where
  "is_service_ingestion_provenance v =
     (case map_items v of
        None \<Rightarrow> False
      | Some d \<Rightarrow> py_eq (get_or_none d ''schema_version'') (VStr INGESTION_PROVENANCE_VERSION))"

definition pop_key :: "pydict \<Rightarrow> string \<Rightarrow> pydict" where
  "pop_key d key = filter (\<lambda>p. fst p \<noteq> KStr key) d"

definition fingerprint_payload :: "pydict \<Rightarrow> pydict" where
  "fingerprint_payload d =
     (let pay = map (\<lambda>(k, v). (k, thaw_json_value v)) d;
          pay = (if is_service_ingestion_provenance (get_or_none pay ''ingested_by'')
                 then pop_key pay ''ingested_by'' else pay)
      in pop_key pay ''ingest'')"

definition fingerprint_preimage :: "EvidenceRecord \<Rightarrow> ('g, 'c) EvidenceNormalizer \<Rightarrow> pyv" where
  "fingerprint_preimage r nz = obj
     [(''classification'', obj (classification_dump (or_default (er_classification r) (nz_classification nz)))),
      (''correlation'', obj (correlation_dump (nz_correlation nz))),
      (''event_type'', VStr (er_event_type r)),
      (''idempotency_key'', VStr (er_idempotency_key r)),
      (''payload'', VDict (fingerprint_payload (er_payload r))),
      (''principal'', obj (principal_dump (or_default (er_principal r) (nz_principal nz)))),
      (''sort_key'', VStr (er_sort_key r)),
      (''source'', obj (source_dump (or_default (er_source r) (nz_source nz)))),
      (''source_kind'', VStr (EvidenceSourceKind_value (er_source_kind r))),
      (''version'', VStr INGEST_RECORD_FINGERPRINT_VERSION)]"

definition record_idempotency_fingerprint ::
  "EvidenceRecord \<Rightarrow> ('g, 'c) EvidenceNormalizer \<Rightarrow> string res" where
  "record_idempotency_fingerprint r nz =
     bnd (deterministic_json_bytes (fingerprint_preimage r nz)) (\<lambda>bs. Inr (sha256_digest bs))"

text \<open>\<open>type(exc).__name__\<close> of a journal error.\<close>

fun journal_error_name :: "exn_class \<Rightarrow> string" where
  "journal_error_name JournalAppendError = ''JournalAppendError''"
| "journal_error_name JournalLockError = ''JournalLockError''"
| "journal_error_name JournalStoragePermissionError = ''JournalStoragePermissionError''"
| "journal_error_name _ = ''JournalError''"

definition safe_error_message :: "exn \<Rightarrow> string" where
  "safe_error_message err =
     (if is_a (exn_kind err) JournalError then journal_error_name (exn_kind err)
      else ''evidence record could not be imported'')"

definition failed_outcome :: "EvidenceRecord \<Rightarrow> exn \<Rightarrow> IngestOutcome" where
  "failed_outcome r err =
     \<lparr>oc_idempotency_key = er_idempotency_key r, oc_status = IO_FAILED, oc_event_id = None,
      oc_error = Some (safe_error_message err)\<rparr>"

definition imported_outcome :: "EvidenceRecord \<Rightarrow> event \<Rightarrow> IngestOutcome" where
  "imported_outcome r persisted =
     \<lparr>oc_idempotency_key = er_idempotency_key r, oc_status = IO_IMPORTED,
      oc_event_id = Some (event_id persisted), oc_error = None\<rparr>"

definition record_order :: "EvidenceRecord list \<Rightarrow> EvidenceRecord list" where
  "record_order records = sort_key (\<lambda>r. (er_sort_key r, er_idempotency_key r)) records"

definition matched_entry ::
  "(string \<times> IdempotencyEntry) list \<Rightarrow> (string \<times> IdempotencyEntry) list \<Rightarrow> EvidenceRecord
     \<Rightarrow> IdempotencyEntry option" where
  "matched_entry seen batch_seen r =
     (case dget seen (er_idempotency_key r) of
        Some m \<Rightarrow> Some m | None \<Rightarrow> dget batch_seen (er_idempotency_key r))"

definition record_event ::
  "pydantic \<Rightarrow> ('g \<Rightarrow> string \<Rightarrow> string res \<times> 'g) \<Rightarrow> ('c \<Rightarrow> datetime res \<times> 'c)
     \<Rightarrow> ('g, 'c) EvidenceNormalizer \<Rightarrow> EvidenceRecord \<Rightarrow> string
     \<Rightarrow> event res \<times> ('g, 'c) EvidenceNormalizer" where
  "record_event pd new_id now nz r fingerprint =
     EvidenceNormalizer_record pd new_id now nz (er_event_type r)
       (VDict (payload_with_ingest_metadata r fingerprint))
       (no_args\<lparr>ra_source := er_source r, ra_principal := er_principal r,
                ra_classification := er_classification r\<rparr>)"

section \<open>Import into any journal\<close>

text \<open>
  \<open>import_evidence_batch\<close>: \<open>append\<close> is the \<open>append\<close> of the journal writer, with its state.
  An exception that is not a \<open>JournalError\<close> or a \<open>ValueError\<close>, and any exception of the
  fingerprint, leaves the function; the events appended before stay in the journal.
\<close>

record ('g, 'c, 'j) batch_state =
  bs_normalizer :: "('g, 'c) EvidenceNormalizer"
  bs_journal :: 'j
  bs_batch_seen :: "(string \<times> IdempotencyEntry) list"
  bs_outcomes :: "IngestOutcome list"

definition add_outcome ::
  "IngestOutcome \<Rightarrow> ('g, 'c, 'j) batch_state \<Rightarrow> ('g, 'c, 'j) batch_state" where
  "add_outcome o1 st = st\<lparr>bs_outcomes := bs_outcomes st @ [o1]\<rparr>"

definition is_import_error :: "exn \<Rightarrow> bool" where
  "is_import_error err \<longleftrightarrow> is_a (exn_kind err) JournalError \<or> is_a (exn_kind err) ValueError"

definition batch_entry :: "event \<Rightarrow> string \<Rightarrow> IdempotencyEntry" where
  "batch_entry persisted fingerprint =
     \<lparr>ie_event_id = event_id persisted, ie_record_fingerprint = Some fingerprint\<rparr>"

definition import_record ::
  "pydantic \<Rightarrow> ('g \<Rightarrow> string \<Rightarrow> string res \<times> 'g) \<Rightarrow> ('c \<Rightarrow> datetime res \<times> 'c)
     \<Rightarrow> ('j \<Rightarrow> event \<Rightarrow> event res \<times> 'j) \<Rightarrow> (string \<times> IdempotencyEntry) list
     \<Rightarrow> ('g, 'c, 'j) batch_state \<Rightarrow> EvidenceRecord \<Rightarrow> unit res \<times> ('g, 'c, 'j) batch_state" where
  "import_record pd new_id now append1 seen st r =
     (case record_idempotency_fingerprint r (bs_normalizer st) of
        Inl err \<Rightarrow> (Inl err, st)
      | Inr fingerprint \<Rightarrow>
          (case matched_entry seen (bs_batch_seen st) r of
             Some m \<Rightarrow> (Inr (), add_outcome (matched_idempotency_outcome r m fingerprint) st)
           | None \<Rightarrow>
               (case record_event pd new_id now (bs_normalizer st) r fingerprint of (res, nz) \<Rightarrow>
                  let st1 = st\<lparr>bs_normalizer := nz\<rparr> in
                  (case (case res of
                           Inl err \<Rightarrow> (Inl err, bs_journal st1)
                         | Inr e \<Rightarrow> append1 (bs_journal st1) e) of (res, j) \<Rightarrow>
                     let st2 = st1\<lparr>bs_journal := j\<rparr> in
                     (case res of
                        Inl err \<Rightarrow>
                          if is_import_error err then (Inr (), add_outcome (failed_outcome r err) st2)
                          else (Inl err, st2)
                      | Inr persisted \<Rightarrow>
                          (Inr (), add_outcome (imported_outcome r persisted)
                             (st2\<lparr>bs_batch_seen :=
                                dset (bs_batch_seen st2) (er_idempotency_key r)
                                  (batch_entry persisted fingerprint)\<rparr>)))))))"

fun import_records ::
  "pydantic \<Rightarrow> ('g \<Rightarrow> string \<Rightarrow> string res \<times> 'g) \<Rightarrow> ('c \<Rightarrow> datetime res \<times> 'c)
     \<Rightarrow> ('j \<Rightarrow> event \<Rightarrow> event res \<times> 'j) \<Rightarrow> (string \<times> IdempotencyEntry) list
     \<Rightarrow> ('g, 'c, 'j) batch_state \<Rightarrow> EvidenceRecord list \<Rightarrow> unit res \<times> ('g, 'c, 'j) batch_state" where
  "import_records pd new_id now append1 seen st [] = (Inr (), st)"
| "import_records pd new_id now append1 seen st (r # rs) =
     (case import_record pd new_id now append1 seen st r of
        (Inl err, st') \<Rightarrow> (Inl err, st')
      | (Inr _, st') \<Rightarrow> import_records pd new_id now append1 seen st' rs)"

definition import_evidence_batch ::
  "pydantic \<Rightarrow> ('g \<Rightarrow> string \<Rightarrow> string res \<times> 'g) \<Rightarrow> ('c \<Rightarrow> datetime res \<times> 'c)
     \<Rightarrow> ('j \<Rightarrow> event \<Rightarrow> event res \<times> 'j) \<Rightarrow> EvidenceRecord list \<Rightarrow> ('g, 'c) EvidenceNormalizer \<Rightarrow> 'j
     \<Rightarrow> VerifiedJournalSnapshot res option
     \<Rightarrow> BatchImportResult res \<times> ('g, 'c) EvidenceNormalizer \<times> 'j" where
  "import_evidence_batch pd new_id now append1 records nz journal existing =
     (case (case existing of
              None \<Rightarrow> existing_idempotency_entries None
            | Some s \<Rightarrow> bnd s (\<lambda>s. existing_idempotency_entries (Some s))) of
        Inl err \<Rightarrow> (Inl err, nz, journal)
      | Inr seen \<Rightarrow>
          (case import_records pd new_id now append1 seen
                  \<lparr>bs_normalizer = nz, bs_journal = journal, bs_batch_seen = [], bs_outcomes = []\<rparr>
                  (record_order records) of
             (res, st) \<Rightarrow>
               (bnd res (\<lambda>_. Inr \<lparr>br_outcomes = bs_outcomes st\<rparr>), bs_normalizer st, bs_journal st)))"

section \<open>Import under the journal lock\<close>

text \<open>
  \<open>import_evidence_batch_atomically\<close>. What the environment answers: the directory, the lock, the
  read of the journal, and each write, counted from 0.
\<close>

record batch_env =
  be_dir :: dir_outcome
  be_lock :: "unit res"
  be_read :: read_outcome
  be_stat :: "JournalFileMetadata \<times> JournalFileMetadata"
  be_write :: "nat \<Rightarrow> write_outcome"

record ('g, 'c) locked_state =
  lk_normalizer :: "('g, 'c) EvidenceNormalizer"
  lk_file :: "bytes option"
  lk_writes :: nat
  lk_batch_seen :: "(string \<times> IdempotencyEntry) list"
  lk_next_sequence :: int
  lk_previous_event_hash :: "string option"
  lk_outcomes :: "IngestOutcome list"

definition append_event_inside_lock ::
  "pydantic \<Rightarrow> (pyv \<Rightarrow> pyv res) \<Rightarrow> write_outcome \<Rightarrow> bytes option \<Rightarrow> event \<Rightarrow> string option
     \<Rightarrow> event res \<times> bytes option" where
  "append_event_inside_lock pd apply_policy w file e previous =
     (case prepare_event_for_append pd apply_policy e previous of
        Inl err \<Rightarrow> (Inl err, file)
      | Inr (redacted, canonical_bytes) \<Rightarrow>
          (case append_line w file canonical_bytes of
             (Inr _, file') \<Rightarrow> (Inr redacted, file')
           | (Inl err, file') \<Rightarrow>
               (if is_a (exn_kind err) OSError
                then raise JournalAppendError ''failed to append event to journal''
                else Inl err, file')))"

definition append_checked ::
  "pydantic \<Rightarrow> (pyv \<Rightarrow> pyv res) \<Rightarrow> batch_env \<Rightarrow> ('g, 'c) locked_state \<Rightarrow> event
     \<Rightarrow> event res \<times> ('g, 'c) locked_state" where
  "append_checked pd apply_policy env st e =
     (if sequence (ev_causality e) \<noteq> lk_next_sequence st
      then (raise JournalAppendError
              (''event sequence '' @ int_repr (sequence (ev_causality e))
               @ '' does not match next journal sequence '' @ int_repr (lk_next_sequence st)), st)
      else
        (case append_event_inside_lock pd apply_policy (be_write env (lk_writes st)) (lk_file st) e
                (lk_previous_event_hash st) of
           (res, file) \<Rightarrow> (res, st\<lparr>lk_file := file, lk_writes := lk_writes st + 1\<rparr>)))"

definition lock_outcome :: "IngestOutcome \<Rightarrow> ('g, 'c) locked_state \<Rightarrow> ('g, 'c) locked_state" where
  "lock_outcome o1 st = st\<lparr>lk_outcomes := lk_outcomes st @ [o1]\<rparr>"

definition record_persisted ::
  "EvidenceRecord \<Rightarrow> string \<Rightarrow> event \<Rightarrow> ('g, 'c) locked_state \<Rightarrow> ('g, 'c) locked_state" where
  "record_persisted r fingerprint persisted st =
     lock_outcome (imported_outcome r persisted)
       (st\<lparr>lk_next_sequence := lk_next_sequence st + 1,
           lk_previous_event_hash := event_hash (ev_integrity persisted),
           lk_batch_seen := dset (lk_batch_seen st) (er_idempotency_key r)
             (batch_entry persisted fingerprint)\<rparr>)"

text \<open>One record: whether the loop goes on, or the exception that leaves it.\<close>

definition import_locked_record ::
  "pydantic \<Rightarrow> (pyv \<Rightarrow> pyv res) \<Rightarrow> ('g \<Rightarrow> string \<Rightarrow> string res \<times> 'g) \<Rightarrow> ('c \<Rightarrow> datetime res \<times> 'c)
     \<Rightarrow> batch_env \<Rightarrow> (string \<times> IdempotencyEntry) list \<Rightarrow> ('g, 'c) locked_state \<Rightarrow> EvidenceRecord
     \<Rightarrow> bool res \<times> ('g, 'c) locked_state" where
  "import_locked_record pd apply_policy new_id now env seen st r =
     (case record_idempotency_fingerprint r (lk_normalizer st) of
        Inl err \<Rightarrow> (Inl err, st)
      | Inr fingerprint \<Rightarrow>
          (case matched_entry seen (lk_batch_seen st) r of
             Some m \<Rightarrow> (Inr True, lock_outcome (matched_idempotency_outcome r m fingerprint) st)
           | None \<Rightarrow>
               (case record_event pd new_id now (lk_normalizer st) r fingerprint of (res, nz) \<Rightarrow>
                  let st1 = st\<lparr>lk_normalizer := nz\<rparr> in
                  (case (case res of
                           Inl err \<Rightarrow> (Inl err, st1)
                         | Inr e \<Rightarrow> append_checked pd apply_policy env st1 e) of (res, st2) \<Rightarrow>
                     (case res of
                        Inl err \<Rightarrow>
                          if is_a (exn_kind err) JournalError
                          then (if lk_batch_seen st2 = [] then (Inl err, st2)
                                else (Inr False, lock_outcome (failed_outcome r err) st2))
                          else if is_a (exn_kind err) ValueError
                          then (Inr True, lock_outcome (failed_outcome r err) st2)
                          else (Inl err, st2)
                      | Inr persisted \<Rightarrow> (Inr True, record_persisted r fingerprint persisted st2))))))"

fun import_locked_records ::
  "pydantic \<Rightarrow> (pyv \<Rightarrow> pyv res) \<Rightarrow> ('g \<Rightarrow> string \<Rightarrow> string res \<times> 'g) \<Rightarrow> ('c \<Rightarrow> datetime res \<times> 'c)
     \<Rightarrow> batch_env \<Rightarrow> (string \<times> IdempotencyEntry) list \<Rightarrow> ('g, 'c) locked_state
     \<Rightarrow> EvidenceRecord list \<Rightarrow> unit res \<times> ('g, 'c) locked_state" where
  "import_locked_records pd apply_policy new_id now env seen st [] = (Inr (), st)"
| "import_locked_records pd apply_policy new_id now env seen st (r # rs) =
     (case import_locked_record pd apply_policy new_id now env seen st r of
        (Inl err, st') \<Rightarrow> (Inl err, st')
      | (Inr go_on, st') \<Rightarrow>
          if go_on then import_locked_records pd apply_policy new_id now env seen st' rs
          else (Inr (), st'))"

definition locked_snapshot ::
  "pydantic \<Rightarrow> batch_env \<Rightarrow> bytes option \<Rightarrow> VerifiedJournalSnapshot res" where
  "locked_snapshot pd env file =
     bnd (ensure_private_directory (be_dir env)) (\<lambda>_.
     bnd (be_lock env) (\<lambda>_.
     bnd (case be_read env of
            ReadError \<Rightarrow> raise JournalAppendError ''failed to verify existing journal before append''
          | ReadOk \<Rightarrow> verified_journal_snapshot pd (be_stat env) None None file) (\<lambda>snapshot.
     if \<not> snapshot_ok snapshot
     then raise JournalAppendError ''cannot append to a journal that fails verification''
     else Inr snapshot)))"

definition locked_start ::
  "('g, 'c) EvidenceNormalizer \<Rightarrow> VerifiedJournalSnapshot \<Rightarrow> bytes option
     \<Rightarrow> ((string \<times> IdempotencyEntry) list \<times> ('g, 'c) locked_state) res" where
  "locked_start nz snapshot file =
     bnd (rebase_initial_sequence nz (int (snapshot_record_count snapshot))) (\<lambda>nz.
     bnd (existing_idempotency_entries (Some snapshot)) (\<lambda>seen.
       Inr (seen, \<lparr>lk_normalizer = nz, lk_file = file, lk_writes = 0, lk_batch_seen = [],
                   lk_next_sequence = int (snapshot_record_count snapshot),
                   lk_previous_event_hash = snapshot_terminal_hash snapshot, lk_outcomes = []\<rparr>)))"

definition import_evidence_batch_atomically ::
  "pydantic \<Rightarrow> (pyv \<Rightarrow> pyv res) \<Rightarrow> ('g \<Rightarrow> string \<Rightarrow> string res \<times> 'g) \<Rightarrow> ('c \<Rightarrow> datetime res \<times> 'c)
     \<Rightarrow> batch_env \<Rightarrow> EvidenceRecord list \<Rightarrow> ('g, 'c) EvidenceNormalizer \<Rightarrow> bytes option
     \<Rightarrow> BatchImportResult res \<times> bytes option" where
  "import_evidence_batch_atomically pd apply_policy new_id now env records nz file =
     (case bnd (locked_snapshot pd env file) (\<lambda>snapshot. locked_start nz snapshot file) of
        Inl err \<Rightarrow> (Inl err, file)
      | Inr (seen, st) \<Rightarrow>
          (case import_locked_records pd apply_policy new_id now env seen st (record_order records) of
             (res, st') \<Rightarrow> (bnd res (\<lambda>_. Inr \<lparr>br_outcomes = lk_outcomes st'\<rparr>), lk_file st')))"

end
