(* ===== verification/Anchors.thy ===== *)
theory Anchors
  imports Journal PyOps
begin

text \<open>
  \<open>journal/anchors.py\<close>: trusted anchors of a journal, their HMAC signatures, the append-only
  anchor log, segment manifests and the export of the verified prefix of a journal.

  A file is its bytes (\<open>None\<close>: it does not exist). Fields the code only casts
  (\<open>last_event_hash\<close>, \<open>signature\<close>, the hashes of a log entry) keep whatever JSON value the file
  holds, and integer fields may be booleans, which Python counts as integers. \<open>local_utc\<close> is
  \<open>astimezone(UTC)\<close> of a naive datetime, which depends on the time zone of the host.
\<close>

section \<open>Data\<close>

definition JOURNAL_ANCHOR_VERSION :: string where
  "JOURNAL_ANCHOR_VERSION = ''actionlineage.dev/journal-anchor-v1''"

definition JOURNAL_ANCHOR_LOG_VERSION :: string where
  "JOURNAL_ANCHOR_LOG_VERSION = ''actionlineage.dev/journal-anchor-log-v1''"

definition JOURNAL_SEGMENT_MANIFEST_VERSION :: string where
  "JOURNAL_SEGMENT_MANIFEST_VERSION = ''actionlineage.dev/journal-segment-manifest-v1''"

definition ANCHOR_SIGNATURE_ALGORITHM :: string where
  "ANCHOR_SIGNATURE_ALGORITHM = ''hmac-sha256''"

record JournalAnchor =
  ja_journal_path :: string
  ja_record_count :: pyv
  ja_last_event_hash :: pyv
  ja_created_at :: datetime
  ja_anchor_version :: string
  ja_signature_algorithm :: pyv
  ja_signature :: pyv

record JournalSegmentManifest =
  sm_segment_path :: string
  sm_segment_index :: pyv
  sm_anchor :: JournalAnchor
  sm_manifest_version :: string

record JournalAnchorLogEntry =
  le_sequence :: pyv
  le_anchor :: JournalAnchor
  le_previous_entry_hash :: pyv
  le_entry_hash :: pyv
  le_created_at :: datetime
  le_log_version :: string

datatype AnchorIssueCode =
  AI_journal_verification_failed | AI_signature_key_missing | AI_signature_mismatch

fun AnchorIssueCode_value :: "AnchorIssueCode \<Rightarrow> string" where
  "AnchorIssueCode_value AI_journal_verification_failed = ''journal_verification_failed''"
| "AnchorIssueCode_value AI_signature_key_missing = ''signature_key_missing''"
| "AnchorIssueCode_value AI_signature_mismatch = ''signature_mismatch''"

datatype AnchorLogIssueCode =
    AL_empty_record | AL_parse_error | AL_sequence_mismatch | AL_previous_hash_mismatch
  | AL_entry_hash_missing | AL_entry_hash_mismatch | AL_expected_record_count_mismatch
  | AL_expected_last_hash_mismatch

fun AnchorLogIssueCode_value :: "AnchorLogIssueCode \<Rightarrow> string" where
  "AnchorLogIssueCode_value AL_empty_record = ''empty_record''"
| "AnchorLogIssueCode_value AL_parse_error = ''parse_error''"
| "AnchorLogIssueCode_value AL_sequence_mismatch = ''sequence_mismatch''"
| "AnchorLogIssueCode_value AL_previous_hash_mismatch = ''previous_hash_mismatch''"
| "AnchorLogIssueCode_value AL_entry_hash_missing = ''entry_hash_missing''"
| "AnchorLogIssueCode_value AL_entry_hash_mismatch = ''entry_hash_mismatch''"
| "AnchorLogIssueCode_value AL_expected_record_count_mismatch = ''expected_record_count_mismatch''"
| "AnchorLogIssueCode_value AL_expected_last_hash_mismatch = ''expected_last_hash_mismatch''"

record AnchorVerificationIssue =
  ai_code :: AnchorIssueCode
  ai_message :: string

record AnchorLogVerificationIssue =
  al_record_number :: nat
  al_code :: AnchorLogIssueCode
  al_message :: string
  al_expected :: pyv
  al_actual :: pyv

record AnchorVerificationResult =
  av_ok :: bool
  av_journal_verification :: VerificationResult
  av_issues :: "AnchorVerificationIssue list"

record AnchorLogVerificationResult =
  lv_ok :: bool
  lv_records_verified :: nat
  lv_last_entry_hash :: "string option"
  lv_issues :: "AnchorLogVerificationIssue list"

record VerifiedPrefixExport =
  vp_source_path :: string
  vp_output_path :: string
  vp_records_exported :: nat
  vp_verification :: VerificationResult

section \<open>Dictionaries\<close>

definition anchor_timestamp :: "datetime \<Rightarrow> string res" where
  "anchor_timestamp value =
     (case dt_offset value of
        None \<Rightarrow> raise JournalAnchorError ''anchor timestamps must be timezone-aware''
      | Some off \<Rightarrow>
          bnd (utc_of_aware value off) (\<lambda>utc. Inr (py_replace ''+00:00'' ''Z'' (isoformat utc))))"

definition anchor_items :: "JournalAnchor \<Rightarrow> string \<Rightarrow> (string \<times> pyv) list" where
  "anchor_items a ts =
     [(''anchor_version'', VStr (ja_anchor_version a)), (''created_at'', VStr ts),
      (''journal_path'', VStr (ja_journal_path a)), (''last_event_hash'', ja_last_event_hash a),
      (''record_count'', ja_record_count a), (''signature'', ja_signature a),
      (''signature_algorithm'', ja_signature_algorithm a)]"

definition JournalAnchor_as_dict :: "JournalAnchor \<Rightarrow> pyv res" where
  "JournalAnchor_as_dict a = bnd (anchor_timestamp (ja_created_at a)) (\<lambda>ts. Inr (obj (anchor_items a ts)))"

definition JournalAnchor_unsigned_dict :: "JournalAnchor \<Rightarrow> pyv res" where
  "JournalAnchor_unsigned_dict a = JournalAnchor_as_dict (a\<lparr>ja_signature := VNone\<rparr>)"

definition JournalSegmentManifest_as_dict :: "JournalSegmentManifest \<Rightarrow> pyv res" where
  "JournalSegmentManifest_as_dict m =
     bnd (JournalAnchor_as_dict (sm_anchor m)) (\<lambda>anchor.
       Inr (obj [(''anchor'', anchor), (''manifest_version'', VStr (sm_manifest_version m)),
                 (''segment_index'', sm_segment_index m), (''segment_path'', VStr (sm_segment_path m))]))"

definition JournalAnchorLogEntry_as_dict :: "JournalAnchorLogEntry \<Rightarrow> pyv res" where
  "JournalAnchorLogEntry_as_dict e =
     bnd (JournalAnchor_as_dict (le_anchor e)) (\<lambda>anchor.
     bnd (anchor_timestamp (le_created_at e)) (\<lambda>ts.
       Inr (obj [(''anchor'', anchor), (''created_at'', VStr ts), (''entry_hash'', le_entry_hash e),
                 (''log_version'', VStr (le_log_version e)),
                 (''previous_entry_hash'', le_previous_entry_hash e), (''sequence'', le_sequence e)])))"

definition JournalAnchorLogEntry_hash_input_dict :: "JournalAnchorLogEntry \<Rightarrow> pyv res" where
  "JournalAnchorLogEntry_hash_input_dict e = JournalAnchorLogEntry_as_dict (e\<lparr>le_entry_hash := VNone\<rparr>)"

definition AnchorVerificationIssue_as_dict :: "AnchorVerificationIssue \<Rightarrow> pyv" where
  "AnchorVerificationIssue_as_dict i =
     obj [(''code'', VStr (AnchorIssueCode_value (ai_code i))), (''message'', VStr (ai_message i))]"

definition AnchorLogVerificationIssue_as_dict :: "AnchorLogVerificationIssue \<Rightarrow> pyv" where
  "AnchorLogVerificationIssue_as_dict i =
     obj [(''actual'', al_actual i), (''code'', VStr (AnchorLogIssueCode_value (al_code i))),
          (''expected'', al_expected i), (''message'', VStr (al_message i)),
          (''record_number'', VInt (int (al_record_number i)))]"

definition AnchorVerificationResult_as_dict :: "AnchorVerificationResult \<Rightarrow> pyv" where
  "AnchorVerificationResult_as_dict r =
     obj [(''ok'', VBool (av_ok r)),
          (''journal_verification'', VerificationResult_as_dict (av_journal_verification r)),
          (''issues'', VList (map AnchorVerificationIssue_as_dict (av_issues r)))]"

definition AnchorLogVerificationResult_as_dict :: "AnchorLogVerificationResult \<Rightarrow> pyv" where
  "AnchorLogVerificationResult_as_dict r =
     obj [(''ok'', VBool (lv_ok r)), (''records_verified'', VInt (int (lv_records_verified r))),
          (''last_entry_hash'', opt_str (lv_last_entry_hash r)),
          (''issues'', VList (map AnchorLogVerificationIssue_as_dict (lv_issues r)))]"

definition VerifiedPrefixExport_as_dict :: "VerifiedPrefixExport \<Rightarrow> pyv" where
  "VerifiedPrefixExport_as_dict r =
     obj [(''ok'', VBool True), (''source_path'', VStr (vp_source_path r)),
          (''output_path'', VStr (vp_output_path r)),
          (''records_exported'', VInt (int (vp_records_exported r))),
          (''verification'', VerificationResult_as_dict (vp_verification r))]"

section \<open>Parsing\<close>

definition required_str :: "pydict \<Rightarrow> string \<Rightarrow> string res" where
  "required_str raw key =
     (case get_or_none raw key of
        VStr s \<Rightarrow> if s = [] then raise JournalAnchorError (''anchor field is required: '' @ key) else Inr s
      | _ \<Rightarrow> raise JournalAnchorError (''anchor field is required: '' @ key))"

fun is_py_int :: "pyv \<Rightarrow> bool" where
  "is_py_int (VInt i) = True"
| "is_py_int (VBool b) = True"
| "is_py_int _ = False"

definition required_int :: "pydict \<Rightarrow> string \<Rightarrow> pyv res" where
  "required_int raw key =
     (if is_py_int (get_or_none raw key) then Inr (get_or_none raw key)
      else raise JournalAnchorError (''anchor integer field is required: '' @ key))"

text \<open>\<open>datetime.fromisoformat(text.replace("Z", "+00:00")).astimezone(UTC)\<close>\<close>

definition anchor_datetime :: "(datetime \<Rightarrow> datetime res) \<Rightarrow> string \<Rightarrow> datetime res" where
  "anchor_datetime local_utc text1 =
     bnd (fromisoformat (py_replace ''Z'' ''+00:00'' text1)) (\<lambda>t.
       case dt_offset t of None \<Rightarrow> local_utc t | Some off \<Rightarrow> utc_of_aware t off)"

definition anchor_from_dict :: "(datetime \<Rightarrow> datetime res) \<Rightarrow> pydict \<Rightarrow> JournalAnchor res" where
  "anchor_from_dict local_utc raw =
     bnd (bnd (required_str raw ''created_at'') (anchor_datetime local_utc)) (\<lambda>created_at.
     bnd (required_str raw ''anchor_version'') (\<lambda>anchor_version.
     bnd (required_str raw ''journal_path'') (\<lambda>journal_path.
     bnd (required_int raw ''record_count'') (\<lambda>record_count.
       Inr \<lparr>ja_journal_path = journal_path, ja_record_count = record_count,
            ja_last_event_hash = get_or_none raw ''last_event_hash'', ja_created_at = created_at,
            ja_anchor_version = anchor_version,
            ja_signature_algorithm = get_or_none raw ''signature_algorithm'',
            ja_signature = get_or_none raw ''signature''\<rparr>))))"

definition anchor_log_entry_from_dict ::
  "(datetime \<Rightarrow> datetime res) \<Rightarrow> pydict \<Rightarrow> JournalAnchorLogEntry res" where
  "anchor_log_entry_from_dict local_utc raw =
     bnd (bnd (required_str raw ''created_at'') (anchor_datetime local_utc)) (\<lambda>created_at.
     (case get_or_none raw ''anchor'' of
        VDict anchor_raw \<Rightarrow>
          bnd (anchor_from_dict local_utc anchor_raw) (\<lambda>anchor.
          bnd (required_str raw ''log_version'') (\<lambda>log_version.
          bnd (required_int raw ''sequence'') (\<lambda>sequence1.
            Inr \<lparr>le_sequence = sequence1, le_anchor = anchor,
                 le_previous_entry_hash = get_or_none raw ''previous_entry_hash'',
                 le_entry_hash = get_or_none raw ''entry_hash'', le_created_at = created_at,
                 le_log_version = log_version\<rparr>)))
      | _ \<Rightarrow> raise JournalAnchorError ''anchor log record missing anchor object''))"

text \<open>\<open>path.read_text(encoding="utf-8")\<close>, then \<open>json.loads\<close>.\<close>

definition load_json_text :: "bytes \<Rightarrow> pyv res" where
  "load_json_text content =
     (if utf8_ok False content then loads False content
      else raise UnicodeDecodeError ''invalid utf-8'')"

definition load_journal_anchor :: "(datetime \<Rightarrow> datetime res) \<Rightarrow> bytes \<Rightarrow> JournalAnchor res" where
  "load_journal_anchor local_utc content =
     bnd (load_json_text content) (\<lambda>raw.
       case raw of
         VDict d \<Rightarrow> anchor_from_dict local_utc d
       | _ \<Rightarrow> raise JournalAnchorError ''journal anchor must be a JSON object'')"

definition load_segment_manifest :: "(datetime \<Rightarrow> datetime res) \<Rightarrow> bytes \<Rightarrow> JournalSegmentManifest res" where
  "load_segment_manifest local_utc content =
     bnd (load_json_text content) (\<lambda>raw.
       case raw of
         VDict d \<Rightarrow>
           (case get_or_none d ''anchor'' of
              VDict anchor_raw \<Rightarrow>
                bnd (required_str d ''segment_path'') (\<lambda>segment_path.
                bnd (required_int d ''segment_index'') (\<lambda>segment_index.
                bnd (required_str d ''manifest_version'') (\<lambda>manifest_version.
                bnd (anchor_from_dict local_utc anchor_raw) (\<lambda>anchor.
                  Inr \<lparr>sm_segment_path = segment_path, sm_segment_index = segment_index,
                       sm_anchor = anchor, sm_manifest_version = manifest_version\<rparr>))))
            | _ \<Rightarrow> raise JournalAnchorError ''journal segment manifest missing anchor object'')
       | _ \<Rightarrow> raise JournalAnchorError ''journal segment manifest must be a JSON object'')"

section \<open>Anchors\<close>

definition anchor_signature :: "JournalAnchor \<Rightarrow> bytes \<Rightarrow> string res" where
  "anchor_signature a signing_key =
     bnd (JournalAnchor_unsigned_dict a) (\<lambda>d.
     bnd (deterministic_json_bytes d) (\<lambda>bs.
       Inr (ANCHOR_SIGNATURE_ALGORITHM @ '':'' @ hexdigest (hmac_sha256 signing_key bs))))"

definition create_journal_anchor ::
  "pydantic \<Rightarrow> JournalFileMetadata \<times> JournalFileMetadata \<Rightarrow> string \<Rightarrow> bytes option \<Rightarrow> bytes option
     \<Rightarrow> datetime \<Rightarrow> JournalAnchor res" where
  "create_journal_anchor pd stat path file signing_key created_at =
     bnd (verify_journal pd stat None None file) (\<lambda>verification.
     if \<not> vr_ok verification
     then raise JournalAnchorError ''cannot anchor a journal that fails verification''
     else
       let anchor = \<lparr>ja_journal_path = path,
                     ja_record_count = VInt (int (vr_records_verified verification)),
                     ja_last_event_hash = opt_str (vr_last_event_hash verification),
                     ja_created_at = created_at, ja_anchor_version = JOURNAL_ANCHOR_VERSION,
                     ja_signature_algorithm = VNone, ja_signature = VNone\<rparr>
       in (case signing_key of
             None \<Rightarrow> Inr anchor
           | Some key \<Rightarrow>
               let signing_anchor = anchor\<lparr>ja_signature_algorithm := VStr ANCHOR_SIGNATURE_ALGORITHM\<rparr>
               in bnd (anchor_signature signing_anchor key) (\<lambda>signature.
                    Inr (signing_anchor\<lparr>ja_signature := VStr signature\<rparr>))))"

definition write_journal_anchor :: "JournalAnchor \<Rightarrow> bytes res" where
  "write_journal_anchor a =
     bnd (JournalAnchor_as_dict a) (\<lambda>d. bnd (deterministic_json_bytes d) (\<lambda>bs. Inr (bs @ [CHR 0x0A])))"

definition create_segment_manifest ::
  "pydantic \<Rightarrow> JournalFileMetadata \<times> JournalFileMetadata \<Rightarrow> string \<Rightarrow> bytes option \<Rightarrow> int \<Rightarrow> bytes option
     \<Rightarrow> datetime \<Rightarrow> JournalSegmentManifest res" where
  "create_segment_manifest pd stat path file segment_index signing_key created_at =
     bnd (create_journal_anchor pd stat path file signing_key created_at) (\<lambda>anchor.
       Inr \<lparr>sm_segment_path = path, sm_segment_index = VInt segment_index, sm_anchor = anchor,
            sm_manifest_version = JOURNAL_SEGMENT_MANIFEST_VERSION\<rparr>)"

definition write_segment_manifest :: "JournalSegmentManifest \<Rightarrow> bytes res" where
  "write_segment_manifest m =
     bnd (JournalSegmentManifest_as_dict m) (\<lambda>d.
       bnd (deterministic_json_bytes d) (\<lambda>bs. Inr (bs @ [CHR 0x0A])))"

definition signature_issues :: "JournalAnchor \<Rightarrow> bytes option \<Rightarrow> AnchorVerificationIssue list res" where
  "signature_issues a signing_key =
     (if ja_signature a = VNone then Inr []
      else
        (case signing_key of
           None \<Rightarrow> Inr [\<lparr>ai_code = AI_signature_key_missing,
                         ai_message = ''signed anchor verification requires a signing key''\<rparr>]
         | Some key \<Rightarrow>
             bnd (anchor_signature a key) (\<lambda>expected.
               Inr (if ja_signature a \<noteq> VStr expected
                    then [\<lparr>ai_code = AI_signature_mismatch,
                           ai_message = ''anchor signature does not match trusted key''\<rparr>]
                    else []))))"

text \<open>
  \<open>verify_journal(..., expected_last_event_hash=v)\<close> for a value that is not text: no hash equals
  it, and the issue holds it as pydantic reads a \<open>str | int | None\<close> field.
\<close>

definition issue_value :: "pydantic \<Rightarrow> pyv \<Rightarrow> pyv res" where
  "issue_value pd v =
     (case v of
        VNone \<Rightarrow> Inr v
      | VStr s \<Rightarrow> Inr v
      | _ \<Rightarrow> (case pd_int pd v of Some i \<Rightarrow> Inr (VInt i) | None \<Rightarrow> validation_error))"

definition int_of_py :: "pyv \<Rightarrow> int" where
  "int_of_py v = (case v of VInt i \<Rightarrow> i | VBool b \<Rightarrow> (if b then 1 else 0) | _ \<Rightarrow> 0)"

definition verify_expected ::
  "pydantic \<Rightarrow> JournalFileMetadata \<times> JournalFileMetadata \<Rightarrow> pyv \<Rightarrow> pyv \<Rightarrow> bytes option
     \<Rightarrow> VerificationResult res" where
  "verify_expected pd stat count hash file =
     (case hash of
        VNone \<Rightarrow> verify_journal pd stat (Some (int_of_py count)) None file
      | VStr h \<Rightarrow> verify_journal pd stat (Some (int_of_py count)) (Some h) file
      | _ \<Rightarrow>
          bnd (verify_journal pd stat (Some (int_of_py count)) None file) (\<lambda>r.
          bnd (issue_value pd hash) (\<lambda>expected.
            Inr (r\<lparr>vr_ok := False, vr_issues := vr_issues r @
              [\<lparr>vi_record_number = vr_records_verified r, vi_code = VC_expected_last_hash_mismatch,
                vi_message = ''last event hash does not match expected trusted hash'',
                vi_event_id = None, vi_expected = expected,
                vi_actual = opt_str (vr_last_event_hash r)\<rparr>]\<rparr>))))"

definition verify_journal_anchor ::
  "pydantic \<Rightarrow> JournalFileMetadata \<times> JournalFileMetadata \<Rightarrow> bytes option \<Rightarrow> JournalAnchor
     \<Rightarrow> bytes option \<Rightarrow> AnchorVerificationResult res" where
  "verify_journal_anchor pd stat file a signing_key =
     bnd (signature_issues a signing_key) (\<lambda>issues.
     bnd (verify_expected pd stat (ja_record_count a) (ja_last_event_hash a) file) (\<lambda>verification.
       let issues = issues @
             (if \<not> vr_ok verification
              then [\<lparr>ai_code = AI_journal_verification_failed,
                     ai_message = ''journal does not match trusted anchor''\<rparr>]
              else [])
       in Inr \<lparr>av_ok = (issues = []), av_journal_verification = verification, av_issues = issues\<rparr>))"

definition locate_first_corrupt_record ::
  "pydantic \<Rightarrow> JournalFileMetadata \<times> JournalFileMetadata \<Rightarrow> int option \<Rightarrow> string option \<Rightarrow> bytes option
     \<Rightarrow> VerificationIssue option res" where
  "locate_first_corrupt_record pd stat count hash file =
     bnd (verify_journal pd stat count hash file) (\<lambda>result.
       if vr_ok result then Inr None
       else (case vr_issues result of
               [] \<Rightarrow> raise IndexError ''tuple index out of range''
             | i # is \<Rightarrow> Inr (Some i)))"

text \<open>
  \<open>export_verified_prefix\<close>: the bytes of the output file and the result; \<open>same_path\<close> is whether
  the two paths resolve to one file. The output file is opened (and so emptied) before the events
  are written.
\<close>

fun export_bytes :: "pydantic \<Rightarrow> event list \<Rightarrow> bytes res" where
  "export_bytes pd [] = Inr []"
| "export_bytes pd (e # es) =
     bnd (serialize_event pd e) (\<lambda>bs. bnd (export_bytes pd es) (\<lambda>r. Inr (bs @ [CHR 0x0A] @ r)))"

definition export_verified_prefix ::
  "pydantic \<Rightarrow> JournalFileMetadata \<times> JournalFileMetadata \<Rightarrow> bool \<Rightarrow> string \<Rightarrow> string \<Rightarrow> int option
     \<Rightarrow> string option \<Rightarrow> bytes option \<Rightarrow> (VerifiedPrefixExport \<times> bytes) res" where
  "export_verified_prefix pd stat same_path source output count hash file =
     (if same_path
      then raise JournalAnchorError ''verified-prefix output path must differ from source journal''
      else
        bnd (verified_journal_snapshot pd stat count hash file) (\<lambda>snapshot.
        bnd (export_bytes pd (js_events snapshot)) (\<lambda>out.
          Inr (\<lparr>vp_source_path = source, vp_output_path = output,
                vp_records_exported = snapshot_record_count snapshot,
                vp_verification = js_verification snapshot\<rparr>, out))))"

section \<open>The anchor log\<close>

text \<open>\<open>bytes.splitlines()\<close>: lines end at \<open>\\n\<close>, \<open>\\r\<close> or \<open>\\r\\n\<close>.\<close>

fun splitlines_from :: "bytes \<Rightarrow> bytes \<Rightarrow> bytes list" where
  "splitlines_from acc [] = (if acc = [] then [] else [rev acc])"
| "splitlines_from acc (c # cs) =
     (if c = CHR 0x0A \<or> c = CHR 0x0D \<and> (cs = [] \<or> hd cs \<noteq> CHR 0x0A) then rev acc # splitlines_from [] cs
      else if c = CHR 0x0D then rev acc # splitlines_from [] (tl cs)
      else splitlines_from (c # acc) cs)"

definition splitlines :: "bytes \<Rightarrow> bytes list" where
  "splitlines = splitlines_from []"

definition anchor_log_entry_hash :: "JournalAnchorLogEntry \<Rightarrow> string res" where
  "anchor_log_entry_hash e =
     bnd (JournalAnchorLogEntry_hash_input_dict e) (\<lambda>d.
     bnd (deterministic_json_bytes d) (\<lambda>bs. Inr (sha256_digest bs)))"

definition log_issue :: "nat \<Rightarrow> AnchorLogIssueCode \<Rightarrow> string \<Rightarrow> pyv \<Rightarrow> pyv \<Rightarrow> AnchorLogVerificationIssue" where
  "log_issue n code message expected actual =
     \<lparr>al_record_number = n, al_code = code, al_message = message, al_expected = expected,
      al_actual = actual\<rparr>"

text \<open>
  One record of the log: parsing, where a \<open>JSONDecodeError\<close>, then a \<open>JournalAnchorError\<close> or a
  \<open>ValueError\<close>, is an issue and any other exception leaves the function; then the checks.
\<close>

definition parse_log_record ::
  "(datetime \<Rightarrow> datetime res) \<Rightarrow> nat \<Rightarrow> bytes \<Rightarrow> (AnchorLogVerificationIssue + JournalAnchorLogEntry) res" where
  "parse_log_record local_utc n raw_line =
     (if raw_line = [] then Inr (Inl (log_issue n AL_empty_record ''anchor log record is empty'' VNone VNone))
      else
        (case loads_bytes False raw_line of
           Inl err \<Rightarrow>
             if is_a (exn_kind err) JSONDecodeError
             then Inr (Inl (log_issue n AL_parse_error ''anchor log record is not valid JSON'' VNone VNone))
             else Inl err
         | Inr (VDict raw) \<Rightarrow>
             (case anchor_log_entry_from_dict local_utc raw of
                Inl err \<Rightarrow>
                  if is_a (exn_kind err) JournalAnchorError \<or> is_a (exn_kind err) ValueError
                  then Inr (Inl (log_issue n AL_parse_error ''anchor log record is malformed'' VNone VNone))
                  else Inl err
              | Inr entry \<Rightarrow> Inr (Inr entry))
         | Inr _ \<Rightarrow>
             Inr (Inl (log_issue n AL_parse_error ''anchor log record must be a JSON object'' VNone VNone))))"

definition check_log_entry ::
  "nat \<Rightarrow> nat \<Rightarrow> string option \<Rightarrow> JournalAnchorLogEntry \<Rightarrow> (AnchorLogVerificationIssue + string) res" where
  "check_log_entry n records_verified last_entry_hash entry =
     (if \<not> py_eq (le_sequence entry) (VInt (int (records_verified + 1)))
      then Inr (Inl (log_issue n AL_sequence_mismatch ''anchor log sequence does not match record order''
             (VInt (int (records_verified + 1))) (le_sequence entry)))
      else if \<not> py_eq (le_previous_entry_hash entry) (opt_str last_entry_hash)
      then Inr (Inl (log_issue n AL_previous_hash_mismatch
             ''anchor log previous hash does not match prior record''
             (opt_str last_entry_hash) (le_previous_entry_hash entry)))
      else if le_entry_hash entry = VNone
      then Inr (Inl (log_issue n AL_entry_hash_missing ''anchor log record is missing entry hash'' VNone VNone))
      else
        bnd (anchor_log_entry_hash entry) (\<lambda>expected_entry_hash.
          if \<not> py_eq (le_entry_hash entry) (VStr expected_entry_hash)
          then Inr (Inl (log_issue n AL_entry_hash_mismatch
                 ''anchor log entry hash does not match record bytes''
                 (VStr expected_entry_hash) (le_entry_hash entry)))
          else Inr (Inr expected_entry_hash)))"

record log_state =
  ls_issues :: "AnchorLogVerificationIssue list"
  ls_records_verified :: nat
  ls_last_entry_hash :: "string option"
  ls_entries :: "JournalAnchorLogEntry list"   \<comment> \<open>the entries verified so far\<close>

fun scan_log :: "(datetime \<Rightarrow> datetime res) \<Rightarrow> log_state \<Rightarrow> bytes list \<Rightarrow> log_state res" where
  "scan_log local_utc st [] = Inr st"
| "scan_log local_utc st (raw_line # rest) =
     bnd (parse_log_record local_utc (ls_records_verified st + 1) raw_line) (\<lambda>p.
       case p of
         Inl i \<Rightarrow> Inr (st\<lparr>ls_issues := ls_issues st @ [i]\<rparr>)
       | Inr entry \<Rightarrow>
           bnd (check_log_entry (ls_records_verified st + 1) (ls_records_verified st)
                  (ls_last_entry_hash st) entry) (\<lambda>c.
             case c of
               Inl i \<Rightarrow> Inr (st\<lparr>ls_issues := ls_issues st @ [i]\<rparr>)
             | Inr hash \<Rightarrow>
                 scan_log local_utc
                   (st\<lparr>ls_records_verified := ls_records_verified st + 1,
                       ls_last_entry_hash := Some hash, ls_entries := ls_entries st @ [entry]\<rparr>) rest))"

definition log_start :: log_state where
  "log_start = \<lparr>ls_issues = [], ls_records_verified = 0, ls_last_entry_hash = None, ls_entries = []\<rparr>"

definition log_lines :: "bytes option \<Rightarrow> bytes list" where
  "log_lines file = (case file of None \<Rightarrow> [] | Some content \<Rightarrow> splitlines content)"

definition log_expectations ::
  "log_state \<Rightarrow> int option \<Rightarrow> string option \<Rightarrow> AnchorLogVerificationIssue list" where
  "log_expectations st expected_record_count expected_last_entry_hash =
     (case expected_record_count of
        None \<Rightarrow> []
      | Some c \<Rightarrow>
          if int (ls_records_verified st) \<noteq> c
          then [log_issue (ls_records_verified st + 1) AL_expected_record_count_mismatch
                  ''anchor log does not match trusted record count''
                  (VInt c) (VInt (int (ls_records_verified st)))]
          else [])
     @ (case expected_last_entry_hash of
          None \<Rightarrow> []
        | Some h \<Rightarrow>
            if ls_last_entry_hash st \<noteq> Some h
            then [log_issue (ls_records_verified st) AL_expected_last_hash_mismatch
                    ''anchor log does not match trusted last entry hash''
                    (VStr h) (opt_str (ls_last_entry_hash st))]
            else [])"

definition verify_journal_anchor_log ::
  "(datetime \<Rightarrow> datetime res) \<Rightarrow> int option \<Rightarrow> string option \<Rightarrow> bytes option
     \<Rightarrow> AnchorLogVerificationResult res" where
  "verify_journal_anchor_log local_utc expected_record_count expected_last_entry_hash file =
     bnd (scan_log local_utc log_start (log_lines file)) (\<lambda>st.
       let issues = ls_issues st @ log_expectations st expected_record_count expected_last_entry_hash
       in Inr \<lparr>lv_ok = (issues = []), lv_records_verified = ls_records_verified st,
               lv_last_entry_hash = ls_last_entry_hash st, lv_issues = issues\<rparr>)"

definition next_log_entry ::
  "AnchorLogVerificationResult \<Rightarrow> JournalAnchor \<Rightarrow> datetime \<Rightarrow> JournalAnchorLogEntry" where
  "next_log_entry verification anchor created_at =
     \<lparr>le_sequence = VInt (int (lv_records_verified verification + 1)), le_anchor = anchor,
      le_previous_entry_hash = opt_str (lv_last_entry_hash verification), le_entry_hash = VNone,
      le_created_at = created_at, le_log_version = JOURNAL_ANCHOR_LOG_VERSION\<rparr>"

definition append_journal_anchor_log ::
  "(datetime \<Rightarrow> datetime res) \<Rightarrow> bytes option \<Rightarrow> JournalAnchor \<Rightarrow> datetime
     \<Rightarrow> (JournalAnchorLogEntry \<times> bytes) res" where
  "append_journal_anchor_log local_utc file anchor created_at =
     bnd (verify_journal_anchor_log local_utc None None file) (\<lambda>verification.
     if \<not> lv_ok verification
     then raise JournalAnchorError ''cannot append to an anchor log that fails verification''
     else
       let unsigned_entry = next_log_entry verification anchor created_at
       in bnd (anchor_log_entry_hash unsigned_entry) (\<lambda>hash.
          let entry = unsigned_entry\<lparr>le_entry_hash := VStr hash\<rparr>
          in bnd (JournalAnchorLogEntry_as_dict entry) (\<lambda>d.
             bnd (deterministic_json_bytes d) (\<lambda>bs.
               Inr (entry, file_bytes file @ bs @ [CHR 0x0A])))))"

definition load_log_record :: "(datetime \<Rightarrow> datetime res) \<Rightarrow> bytes \<Rightarrow> JournalAnchorLogEntry res" where
  "load_log_record local_utc raw_line =
     bnd (loads_bytes False raw_line) (\<lambda>raw.
       case raw of
         VDict d \<Rightarrow> anchor_log_entry_from_dict local_utc d
       | _ \<Rightarrow> raise JournalAnchorError ''anchor log record must be a JSON object'')"

definition load_journal_anchor_log ::
  "(datetime \<Rightarrow> datetime res) \<Rightarrow> bytes option \<Rightarrow> JournalAnchorLogEntry list res" where
  "load_journal_anchor_log local_utc file =
     bnd (verify_journal_anchor_log local_utc None None file) (\<lambda>verification.
     if \<not> lv_ok verification
     then raise JournalAnchorError ''cannot load an anchor log that fails verification''
     else traverse (load_log_record local_utc) (log_lines file))"

end
