(* ===== verification/HashChain.thy ===== *)
theory HashChain
  imports PyHash
begin

text \<open>
  The interface of a hash chain: records that carry their own digest and the digest of their
  predecessor. The journal (\<open>JournalChain\<close>) and the anchor log (\<open>Anchors\<close>) provide it. The client lemma is tamper
  evidence: the last digest fixes the whole chain, unless two different contents have one digest.
\<close>

fun chained :: "('r \<Rightarrow> string option) \<Rightarrow> ('r \<Rightarrow> string) \<Rightarrow> string option \<Rightarrow> 'r list \<Rightarrow> bool" where
  "chained prev own p [] = True"
| "chained prev own p (r # rs) \<longleftrightarrow> prev r = p \<and> chained prev own (Some (own r)) rs"

definition last_hash :: "('r \<Rightarrow> string) \<Rightarrow> string option \<Rightarrow> 'r list \<Rightarrow> string option" where
  "last_hash own p rs = (if rs = [] then p else Some (own (last rs)))"

lemma last_hash_simps [simp]:
  "last_hash own p [] = p"
  "last_hash own p (r # rs) = last_hash own (Some (own r)) rs"
  "last_hash own p (rs @ [r]) = Some (own r)"
  by (simp_all add: last_hash_def)

lemma chained_append [simp]:
  "chained prev own p (rs @ ss) \<longleftrightarrow>
     chained prev own p rs \<and> chained prev own (last_hash own p rs) ss"
  by (induction rs arbitrary: p) auto

text \<open>Two different byte strings with one digest, both hashed by the chains at hand.\<close>

definition collision :: "(bytes \<Rightarrow> string) \<Rightarrow> bytes set \<Rightarrow> bytes set \<Rightarrow> bool" where
  "collision digest A B \<longleftrightarrow> (\<exists>x\<in>A. \<exists>y\<in>B. x \<noteq> y \<and> digest x = digest y)"

lemma collision_mono: "collision digest A B \<Longrightarrow> A \<subseteq> A' \<Longrightarrow> B \<subseteq> B' \<Longrightarrow> collision digest A' B'"
  by (auto simp: collision_def)

locale hash_chain =
  fixes digest :: "bytes \<Rightarrow> string"
    and prev :: "'r \<Rightarrow> string option"
    and own :: "'r \<Rightarrow> string"
    and content :: "'r \<Rightarrow> bytes"
    and ok :: "'r \<Rightarrow> bool"
  assumes own_digest: "ok r \<Longrightarrow> own r = digest (content r)"
    and content_inj: "ok r \<Longrightarrow> ok s \<Longrightarrow> content r = content s \<Longrightarrow> r = s"
begin

lemma same_own:
  assumes "ok r" "ok s" "own r = own s"
  shows "r = s \<or> collision digest {content r} {content s}"
  using assms own_digest content_inj by (auto simp: collision_def)

lemma terminal_hash_fixes_chain:
  assumes "chained prev own None rs" "chained prev own None ss"
    and "\<forall>r\<in>set rs. ok r" "\<forall>s\<in>set ss. ok s"
    and "last_hash own None rs = last_hash own None ss"
  shows "rs = ss \<or> collision digest (content ` set rs) (content ` set ss)"
  using assms
proof (induction rs arbitrary: ss rule: rev_induct)
  case Nil
  then show ?case by (auto simp: last_hash_def split: if_splits)
next
  case (snoc r rs)
  then obtain ts s where ss: "ss = ts @ [s]"
    by (cases ss rule: rev_cases) auto
  from snoc.prems ss have "ok r" "ok s" "own r = own s" by auto
  then consider "r = s" | "collision digest {content r} {content s}" using same_own by blast
  then show ?case
  proof cases
    case 1
    then have "last_hash own None rs = last_hash own None ts"
      using snoc.prems(1,2) ss by simp
    then have "rs = ts \<or> collision digest (content ` set rs) (content ` set ts)"
      using snoc.prems ss by (intro snoc.IH) auto
    then show ?thesis using 1 ss by (auto intro: collision_mono)
  next
    case 2
    then show ?thesis using ss by (auto intro: collision_mono)
  qed
qed

end

end
