(* ===== verification/JournalChain.thy ===== *)
theory JournalChain
  imports Journal HashChain
begin

text \<open>
  What verification and appending guarantee: a verified journal is the serialization of its
  events, which form a hash chain; an append to a verified journal gives a verified journal with
  one more record; the terminal hash of a verified journal fixes its bytes, unless two different
  records have one SHA-256 digest.
\<close>

section \<open>Lines\<close>

abbreviation newline :: char where "newline \<equiv> CHR 0x0A"

lemma concat_file_lines [simp]: "concat (file_lines s) = s"
  by (induction s) (auto split: list.splits)

lemma file_lines_Nil_iff [simp]: "file_lines s = [] \<longleftrightarrow> s = []"
  by (metis concat.simps(1) concat_file_lines file_lines.simps(1))

lemma file_lines_newline: "file_lines (s @ newline # t) = file_lines (s @ [newline]) @ file_lines t"
proof (induction s)
  case (Cons c s)
  obtain l ls where "file_lines (s @ [newline]) = l # ls"
    by (cases "file_lines (s @ [newline])") auto
  then show ?case using Cons by auto
qed simp

lemma file_lines_complete:
  assumes "s = [] \<or> last s = newline"
  shows "file_lines (s @ t) = file_lines s @ file_lines t"
proof (cases s rule: rev_cases)
  case (snoc u c)
  then show ?thesis using assms file_lines_newline [of u t] by simp
qed simp

lemma file_lines_one: "newline \<notin> set l \<Longrightarrow> file_lines (l @ [newline]) = [l @ [newline]]"
  by (induction l) auto

lemma file_lines_partial: "newline \<notin> set l \<Longrightarrow> l \<noteq> [] \<Longrightarrow> file_lines l = [l]"
proof (induction l)
  case (Cons c l)
  then show ?case by (cases "l = []") auto
qed simp

lemma rstrip_line [simp]: "newline \<notin> set l \<Longrightarrow> rstrip_newlines (l @ [newline]) = l"
  by (cases l rule: rev_cases) (auto simp: rstrip_newlines_def)

lemma serialize_event_line:
  assumes "wf_event e" "serialize_event pd e = Inr bs"
  shows "newline \<notin> set bs" and "bs \<noteq> []"
proof -
  have d: "dumps (model_json pd e) = Inr bs" using assms serialize_event_iff by blast
  then have "printable bs" by (rule printable_dumps)
  then show "newline \<notin> set bs" by (auto simp: printable_def byte_def)
  have "dumps (obj kvs) = Inr bs \<Longrightarrow> bs \<noteq> []" for kvs by (auto simp: bnd_Inr_iff)
  then show "bs \<noteq> []" using d unfolding model_json_def by blast
qed

section \<open>Verified records\<close>

definition record_line :: "pydantic \<Rightarrow> event \<Rightarrow> bytes" where
  "record_line pd e = (case serialize_event pd e of Inr bs \<Rightarrow> bs | Inl _ \<Rightarrow> []) @ [newline]"

definition journal_bytes :: "pydantic \<Rightarrow> event list \<Rightarrow> bytes" where
  "journal_bytes pd es = concat (map (record_line pd) es)"

lemma journal_bytes_snoc [simp]: "journal_bytes pd (es @ [e]) = journal_bytes pd es @ record_line pd e"
  by (simp add: journal_bytes_def)

definition good_record :: "pydantic \<Rightarrow> nat \<Rightarrow> string option \<Rightarrow> event \<Rightarrow> bool" where
  "good_record pd i prev e \<longleftrightarrow>
     (\<exists>bs. serialize_event pd e = Inr bs \<and> event_from_json pd bs = Inr e)
     \<and> sequence (ev_causality e) = int i \<and> previous_event_hash (ev_integrity e) = prev
     \<and> (\<exists>h. event_hash (ev_integrity e) = Some h \<and> compute_event_hash pd e = Inr h)"

fun good_records :: "pydantic \<Rightarrow> nat \<Rightarrow> string option \<Rightarrow> event list \<Rightarrow> bool" where
  "good_records pd i prev [] = True"
| "good_records pd i prev (e # es) \<longleftrightarrow>
     good_record pd i prev e \<and> good_records pd (Suc i) (event_hash (ev_integrity e)) es"

fun terminal :: "string option \<Rightarrow> event list \<Rightarrow> string option" where
  "terminal prev [] = prev"
| "terminal prev (e # es) = terminal (event_hash (ev_integrity e)) es"

lemma terminal_append [simp]: "terminal prev (es @ es') = terminal (terminal prev es) es'"
  by (induction es arbitrary: prev) auto

lemma good_records_append [simp]:
  "good_records pd i prev (es @ es') \<longleftrightarrow>
     good_records pd i prev es \<and> good_records pd (i + length es) (terminal prev es) es'"
  by (induction es arbitrary: i prev) auto

lemma check_hash_None_iff:
  "check_hash pd n e h = Inr None \<longleftrightarrow> compute_event_hash pd e = Inr h"
  by (auto simp: check_hash_def split: sum.splits)

lemma check_event_None_iff:
  "check_event pd i prev l e = Inr None \<longleftrightarrow>
     (\<exists>bs. serialize_event pd e = Inr bs \<and> l = bs @ [newline])
     \<and> sequence (ev_causality e) = int i \<and> previous_event_hash (ev_integrity e) = prev
     \<and> (\<exists>h. event_hash (ev_integrity e) = Some h \<and> compute_event_hash pd e = Inr h)"
  by (cases "serialize_event pd e")
     (auto simp: check_event_def check_hash_None_iff split: option.splits)

lemma check_record_Inr_iff:
  "check_record pd i prev l = Inr (Inr e) \<longleftrightarrow>
     l \<noteq> [] \<and> last l = newline \<and> rstrip_newlines l \<noteq> []
     \<and> event_from_json pd (rstrip_newlines l) = Inr e \<and> check_event pd i prev l e = Inr None"
  by (cases "parse_event pd (rstrip_newlines l)")
     (auto simp: check_record_def bnd_Inr_iff split: option.splits simp flip: parse_event_Inr_iff)

context pydantic_laws begin

lemma check_record_iff:
  "check_record pd i prev l = Inr (Inr e) \<longleftrightarrow> good_record pd i prev e \<and> l = record_line pd e"
proof
  assume c: "check_record pd i prev l = Inr (Inr e)"
  then obtain bs where bs: "serialize_event pd e = Inr bs" "l = bs @ [newline]"
    by (auto simp: check_record_Inr_iff check_event_None_iff)
  have e: "event_from_json pd (rstrip_newlines l) = Inr e"
    using c by (simp add: check_record_Inr_iff)
  then have "newline \<notin> set bs"
    using serialize_event_line [OF event_from_json_wf bs(1)] by blast
  then show "good_record pd i prev e \<and> l = record_line pd e"
    using c bs e by (auto simp: good_record_def record_line_def check_record_Inr_iff
        check_event_None_iff)
next
  assume g: "good_record pd i prev e \<and> l = record_line pd e"
  then obtain bs where bs: "serialize_event pd e = Inr bs" "event_from_json pd bs = Inr e"
    by (auto simp: good_record_def)
  note line = serialize_event_line [OF event_from_json_wf [OF bs(2)] bs(1)]
  show "check_record pd i prev l = Inr (Inr e)"
    using g bs line
    by (simp add: check_record_Inr_iff check_event_None_iff good_record_def record_line_def)
qed

text \<open>What the scan leaves: the verified prefix, and the issue that stopped it, if any.\<close>

lemma scan_records_Inr:
  assumes "scan_records pd i st ls = Inr st'"
  obtains es rest where "ls = map (record_line pd) es @ rest"
    and "good_records pd i (ss_expected_previous_hash st) es"
    and "ss_events st' = ss_events st @ es"
    and "ss_records_verified st' = ss_records_verified st + length es"
    and "ss_last_event_hash st' = (if es = [] then ss_last_event_hash st else terminal None es)"
    and "rest = [] \<and> ss_issues st' = ss_issues st
      \<or> (\<exists>l r x. rest = l # r \<and> ss_issues st' = ss_issues st @ [x]
           \<and> check_record pd (i + length es) (terminal (ss_expected_previous_hash st) es) l = Inr (Inl x))"
proof -
  have "\<exists>es rest. ls = map (record_line pd) es @ rest
    \<and> good_records pd i (ss_expected_previous_hash st) es
    \<and> ss_events st' = ss_events st @ es
    \<and> ss_records_verified st' = ss_records_verified st + length es
    \<and> ss_last_event_hash st' = (if es = [] then ss_last_event_hash st else terminal None es)
    \<and> (rest = [] \<and> ss_issues st' = ss_issues st
       \<or> (\<exists>l r x. rest = l # r \<and> ss_issues st' = ss_issues st @ [x]
           \<and> check_record pd (i + length es) (terminal (ss_expected_previous_hash st) es) l = Inr (Inl x)))"
    using assms
  proof (induction ls arbitrary: i st)
    case (Cons l ls)
    from Cons.prems obtain r where r: "check_record pd i (ss_expected_previous_hash st) l = Inr r"
      by (auto simp: bnd_Inr_iff)
    show ?case
    proof (cases r)
      case (Inl x)
      then show ?thesis using Cons.prems r by (intro exI [of _ "[]"] exI [of _ "l # ls"]) auto
    next
      case (Inr e)
      then have s: "scan_records pd (Suc i) (scan_accept st e) ls = Inr st'"
        using Cons.prems r Inr by simp
      have *: "good_record pd i (ss_expected_previous_hash st) e" "l = record_line pd e"
        using r Inr check_record_iff by auto
      from Cons.IH [OF s] obtain es rest where es:
        "ls = map (record_line pd) es @ rest"
        "good_records pd (Suc i) (event_hash (ev_integrity e)) es"
        "ss_events st' = ss_events st @ e # es"
        "ss_records_verified st' = ss_records_verified st + 1 + length es"
        "ss_last_event_hash st' = (if es = [] then event_hash (ev_integrity e) else terminal None es)"
        "rest = [] \<and> ss_issues st' = ss_issues st
         \<or> (\<exists>l r x. rest = l # r \<and> ss_issues st' = ss_issues st @ [x]
             \<and> check_record pd (Suc i + length es) (terminal (event_hash (ev_integrity e)) es) l
               = Inr (Inl x))"
        by (auto simp: scan_accept_def)
      then show ?thesis using *
        by (intro exI [of _ "e # es"] exI [of _ rest]) (cases es; auto)
    qed
  qed auto
  then show ?thesis using that by blast
qed

lemma scan_records_good:
  "good_records pd i (ss_expected_previous_hash st) es \<Longrightarrow>
   scan_records pd i st (map (record_line pd) es @ rest)
     = scan_records pd (i + length es) (foldl scan_accept st es) rest"
proof (induction es arbitrary: i st)
  case (Cons e es)
  then have "check_record pd i (ss_expected_previous_hash st) (record_line pd e) = Inr (Inr e)"
    by (simp add: check_record_iff)
  then show ?case
    using Cons.IH [of "Suc i" "scan_accept st e"] Cons.prems by (simp add: scan_accept_def)
qed simp

lemma scan_accept_all:
  "foldl scan_accept st es =
     st\<lparr>ss_events := ss_events st @ es, ss_records_verified := ss_records_verified st + length es,
        ss_last_event_hash := terminal (ss_last_event_hash st) es,
        ss_expected_previous_hash := terminal (ss_expected_previous_hash st) es\<rparr>"
  by (induction es arbitrary: st) (simp_all add: scan_accept_def)

lemma file_lines_journal:
  assumes "good_records pd i prev es"
  shows "file_lines (journal_bytes pd es) = map (record_line pd) es"
  using assms
proof (induction es arbitrary: i prev)
  case Nil
  then show ?case by (simp add: journal_bytes_def)
next
  case (Cons e es)
  then obtain bs where bs: "serialize_event pd e = Inr bs" "event_from_json pd bs = Inr e"
    by (auto simp: good_record_def)
  then have l: "newline \<notin> set bs" using serialize_event_line(1) event_from_json_wf by blast
  have "journal_bytes pd (e # es) = bs @ newline # journal_bytes pd es"
    by (simp add: journal_bytes_def record_line_def bs)
  moreover have "file_lines (journal_bytes pd es) = map (record_line pd) es"
    using Cons.IH [of "Suc i" "event_hash (ev_integrity e)"] Cons.prems by simp
  ultimately show ?case
    using file_lines_newline [of bs "journal_bytes pd es"] file_lines_one [OF l] bs
    by (simp add: record_line_def)
qed

text \<open>Every snapshot: its events are the verified prefix of the file.\<close>

lemma snapshot_prefix:
  assumes "verified_journal_snapshot pd stat ec eh file = Inr s"
  obtains rest where "file_bytes file = journal_bytes pd (js_events s) @ rest"
    and "good_records pd 0 None (js_events s)"
    and "snapshot_record_count s = length (js_events s)"
    and "snapshot_terminal_hash s = terminal None (js_events s)"
    and "snapshot_ok s \<Longrightarrow> rest = []"
proof -
  have "\<exists>rest. file_bytes file = journal_bytes pd (js_events s) @ rest
    \<and> good_records pd 0 None (js_events s)
    \<and> snapshot_record_count s = length (js_events s)
    \<and> snapshot_terminal_hash s = terminal None (js_events s)
    \<and> (snapshot_ok s \<longrightarrow> rest = [])"
  proof (cases "file")
    case None
    then show ?thesis
      using assms by (auto simp: verified_journal_snapshot_def scan_start_def Let_def file_bytes_def
          journal_bytes_def snapshot_record_count_def snapshot_terminal_hash_def)
  next
    case (Some content)
    then obtain st where st: "scan_records pd 0 scan_start (file_lines content) = Inr st"
      using assms by (auto simp: verified_journal_snapshot_def bnd_Inr_iff)
    obtain es rest where raw: "file_lines content = map (record_line pd) es @ rest"
      "good_records pd 0 (ss_expected_previous_hash scan_start) es"
      "ss_events st = ss_events scan_start @ es"
      "ss_records_verified st = ss_records_verified scan_start + length es"
      "ss_last_event_hash st = (if es = [] then ss_last_event_hash scan_start else terminal None es)"
      "rest = [] \<and> ss_issues st = ss_issues scan_start \<or>
       (\<exists>l r x. rest = l # r \<and> ss_issues st = ss_issues scan_start @ [x]
          \<and> check_record pd (0 + length es) (terminal (ss_expected_previous_hash scan_start) es) l
             = Inr (Inl x))"
      using scan_records_Inr [OF st] by metis
    then have es: "file_lines content = map (record_line pd) es @ rest"
      "good_records pd 0 None es" "ss_events st = es" "ss_records_verified st = length es"
      "ss_last_event_hash st = terminal None es" "rest = [] \<or> ss_issues st \<noteq> []"
      by (auto simp: scan_start_def)
    have "content = journal_bytes pd es @ concat rest"
      using concat_file_lines [of content] es(1) by (simp add: journal_bytes_def)
    then show ?thesis
      using assms st es Some
      by (auto simp: verified_journal_snapshot_def Let_def file_bytes_def
          snapshot_record_count_def snapshot_terminal_hash_def snapshot_ok_def)
  qed
  then show ?thesis using that by blast
qed

text \<open>A journal made of good records verifies, and yields them.\<close>

lemma snapshot_of_good_records:
  assumes "good_records pd 0 None es" "fst stat = snd stat"
  shows "verified_journal_snapshot pd stat None None (Some (journal_bytes pd es)) =
    Inr \<lparr>js_events = es,
         js_verification = \<lparr>vr_ok = True, vr_records_verified = length es,
           vr_last_event_hash = terminal None es, vr_issues = []\<rparr>,
         js_metadata_before = Some (fst stat), js_metadata_after = Some (snd stat),
         js_journal_sha256 = Some (sha256_digest (journal_bytes pd es))\<rparr>"
proof -
  have "scan_records pd 0 scan_start (map (record_line pd) es) = Inr (foldl scan_accept scan_start es)"
    using scan_records_good [of 0 scan_start es "[]"] assms(1) by (simp add: scan_start_def)
  then show ?thesis
    using assms(2)
    by (simp add: verified_journal_snapshot_def file_lines_journal [OF assms(1)] scan_start_def
      scan_accept_all metadata_issues_def expectation_issues_def sha256_digest_def Let_def)
qed

end

section \<open>Hashes\<close>

text \<open>The event a hash is computed over: the hash field unset, the payload frozen.\<close>

definition unsealed :: "event \<Rightarrow> event" where
  "unsealed e =
     e\<lparr>ev_integrity := (ev_integrity e)\<lparr>event_hash := None\<rparr>, payload := refreeze (payload e)\<rparr>"

definition hash_content :: "pydantic \<Rightarrow> event \<Rightarrow> bytes" where
  "hash_content pd e = (case serialize_event pd (unsealed e) of Inr bs \<Rightarrow> bs | Inl _ \<Rightarrow> [])"

definition own_hash :: "event \<Rightarrow> string" where
  "own_hash e = (case event_hash (ev_integrity e) of Some h \<Rightarrow> h | None \<Rightarrow> [])"

definition sealed :: "pydantic \<Rightarrow> event \<Rightarrow> bool" where
  "sealed pd e \<longleftrightarrow> wf_event e \<and> event_canon e = e
     \<and> (\<exists>h. event_hash (ev_integrity e) = Some h \<and> compute_event_hash pd e = Inr h)"

lemma wf_opt_simps [simp]: "wf_opt None" "wf_opt (Some s) \<longleftrightarrow> wf_str s"
  by (simp_all add: wf_opt_def)

lemma wf_unsealed: "wf_event e \<Longrightarrow> wf_event (unsealed e)"
  by (simp add: unsealed_def wf_event_def wf_integrity_def validate_causality_def)

lemma canon_payload_refreeze [simp]: "wf_payload w \<Longrightarrow> canon_payload (refreeze w) = canon_payload w"
  using canon_payload_wf(1) [of w] canon_payload_wf(1) [of "refreeze w"] by auto

lemma refreeze_canon_payload [simp]: "wf_payload w \<Longrightarrow> refreeze (canon_payload w) = canon_payload w"
proof -
  assume w: "wf_payload w"
  then obtain d where "require_json_payload d = Some (canon_payload w)"
    using canon_payload_wf(1) by blast
  then have "canon_payload w \<noteq> VDict []"
    by (auto simp: require_json_payload_def bnd_Inr_iff split: sum.splits)
  then show ?thesis by (simp add: refreeze_def)
qed

lemma unsealed_canon: "wf_event e \<Longrightarrow> unsealed (event_canon e) = event_canon (unsealed e)"
  by (simp add: unsealed_def event_canon_def wf_event_def)

lemma wf_str_digest: "wf_str (sha256_digest bs)"
proof -
  have "\<forall>c\<in>set (sha256_digest bs). byte c < 128"
    by (auto simp: sha256_digest_def is_hex_char_def dest!: sha256_hex_hex) (auto simp: byte_def)
  then show ?thesis
    using utf8_ok_ascii by (auto simp: wf_str_def sha256_digest_def simp del: utf8_ok.simps)
qed

context pydantic_laws begin

lemma event_with_integrity_eq:
  assumes "wf_event e" "wf_opt p" "wf_opt h"
  shows "event_with_integrity pd e p h =
    Inr (e\<lparr>ev_integrity := \<lparr>canonicalization = canonicalization (ev_integrity e),
            previous_event_hash = p, event_hash = h\<rparr>, payload := refreeze (payload e)\<rparr>)"
  using assms model_copy_integrity_eq [of e]
  by (auto simp: event_with_integrity_def IntegrityMetadata_new_def wf_integrity_def wf_str_def
      split: option.splits)

lemma compute_event_hash_iff:
  assumes "wf_event e"
  shows "compute_event_hash pd e = Inr h \<longleftrightarrow>
    is_supported_persisted_event_canonicalization (canonicalization (ev_integrity e))
    \<and> (\<exists>bs. serialize_event pd (unsealed e) = Inr bs \<and> h = sha256_digest bs)"
proof -
  have "wf_opt (previous_event_hash (ev_integrity e))"
    using assms by (simp add: wf_event_def wf_integrity_def)
  then have "event_with_integrity pd e (previous_event_hash (ev_integrity e)) None = Inr (unsealed e)"
    using assms by (simp add: event_with_integrity_eq unsealed_def)
  then show ?thesis
    by (auto simp: compute_event_hash_def bnd_Inr_iff
        require_supported_persisted_event_canonicalization_def)
qed

lemma compute_event_hash_canon:
  "wf_event e \<Longrightarrow> compute_event_hash pd (event_canon e) = Inr h \<longleftrightarrow> compute_event_hash pd e = Inr h"
  by (simp add: compute_event_hash_iff event_canon_wf unsealed_canon serialize_event_canon
      wf_unsealed) (simp add: event_canon_def)

lemma good_record_sealed: "good_record pd i prev e \<Longrightarrow> sealed pd e"
proof -
  assume g: "good_record pd i prev e"
  then obtain bs where bs: "serialize_event pd e = Inr bs" "event_from_json pd bs = Inr e"
    by (auto simp: good_record_def)
  have wf: "wf_event e" using bs(2) by (rule event_from_json_wf)
  then have "event_canon e = e"
    using event_from_json_serialize [OF wf bs(1)] bs(2) by simp
  then show ?thesis using g wf by (auto simp: sealed_def good_record_def)
qed

lemma sealed_own_hash:
  "sealed pd e \<Longrightarrow> event_hash (ev_integrity e) = Some (own_hash e) \<and> own_hash e = sha256_digest (hash_content pd e)
     \<and> serialize_event pd (unsealed e) = Inr (hash_content pd e)"
  by (auto simp: sealed_def own_hash_def compute_event_hash_iff hash_content_def)

lemma sealed_content_inj:
  assumes "sealed pd e" "sealed pd f" "hash_content pd e = hash_content pd f"
  shows "e = f"
proof -
  note h = sealed_own_hash [OF assms(1)] sealed_own_hash [OF assms(2)]
  have wf: "wf_event e" "wf_event f" and c: "event_canon e = e" "event_canon f = f"
    using assms by (simp_all add: sealed_def)
  have "event_canon (unsealed e) = event_canon (unsealed f)"
    using event_from_json_serialize [OF wf_unsealed [OF wf(1)]]
      event_from_json_serialize [OF wf_unsealed [OF wf(2)]] h assms(3) by simp
  then have "unsealed e = unsealed f"
    using unsealed_canon [OF wf(1)] unsealed_canon [OF wf(2)] c by simp
  moreover have "event_hash (ev_integrity e) = event_hash (ev_integrity f)" using h assms(3) by simp
  moreover have "payload e = refreeze (payload e)" "payload f = refreeze (payload f)"
    using c wf refreeze_canon_payload
    by (metis event.select_convs(11) event.simps event.surjective event.update_convs(11)
        event_canon_def wf_event_def)+
  ultimately show ?thesis
    by (cases e; cases f; cases "ev_integrity e"; cases "ev_integrity f") (simp add: unsealed_def)
qed

end

section \<open>The journal is a hash chain\<close>

abbreviation link_of :: "event \<Rightarrow> string option" where
  "link_of e \<equiv> previous_event_hash (ev_integrity e)"

sublocale pydantic_laws \<subseteq> chain: hash_chain sha256_digest link_of own_hash "hash_content pd" "sealed pd"
  by unfold_locales (auto simp: sealed_own_hash intro: sealed_content_inj)

context pydantic_laws begin

lemma good_records_chained:
  "good_records pd i prev es \<Longrightarrow>
   chained link_of own_hash prev es \<and> (\<forall>e\<in>set es. sealed pd e)
   \<and> terminal prev es = last_hash own_hash prev es"
proof (induction es arbitrary: i prev)
  case (Cons e es)
  have s: "sealed pd e" using Cons.prems good_record_sealed by auto
  then have h: "event_hash (ev_integrity e) = Some (own_hash e)" using sealed_own_hash by blast
  show ?case
    using Cons.IH [of "Suc i" "Some (own_hash e)"] Cons.prems h s
    by (auto simp: good_record_def)
qed simp

lemma terminal_hash_fixes_journal:
  assumes "good_records pd 0 None es" "good_records pd 0 None fs"
    and "terminal None es = terminal None fs"
  shows "es = fs \<or> collision sha256_digest (hash_content pd ` set es) (hash_content pd ` set fs)"
  using good_records_chained [OF assms(1)] good_records_chained [OF assms(2)] assms(3)
  by (intro chain.terminal_hash_fixes_chain) auto

end

section \<open>Appending\<close>

text \<open>
  The redaction boundary the journal is given. What appending relies on: redacting an event that
  is about to be hashed leaves its sequence number and the hash of its predecessor alone.
  (Otherwise the hash would be computed over a predecessor other than the one that is written.)
\<close>

definition chain_text :: "string option \<Rightarrow> bool" where
  "chain_text p \<longleftrightarrow> (\<forall>h. p = Some h \<longrightarrow> (\<exists>bs. h = sha256_digest bs))"

definition redacted_event :: "pydantic \<Rightarrow> (pyv \<Rightarrow> pyv res) \<Rightarrow> event \<Rightarrow> event res" where
  "redacted_event pd apply_policy e =
     bnd (serialize_event_for_persistence pd apply_policy e) (event_from_json pd)"

locale redaction_boundary = pydantic_laws +
  fixes apply_policy :: "pyv \<Rightarrow> pyv res"
  assumes keeps_chain_fields:
    "wf_event e \<Longrightarrow> chain_text (link_of e) \<Longrightarrow> redacted_event pd apply_policy e = Inr r \<Longrightarrow>
     sequence (ev_causality r) = sequence (ev_causality e) \<and> link_of r = link_of e"
begin

lemma prepare_event_good:
  assumes wf: "wf_event e" and p: "wf_opt p" "chain_text p"
    and seq: "sequence (ev_causality e) = int i"
    and prep: "prepare_event_for_append pd apply_policy e p = Inr (r, bs)"
  shows "good_record pd i p (event_canon r)" "wf_event r" "record_line pd (event_canon r) = bs @ [newline]"
    "serialize_event pd r = Inr bs"
proof -
  let ?h = "e\<lparr>ev_integrity := \<lparr>canonicalization = canonicalization (ev_integrity e),
            previous_event_hash = p, event_hash = None\<rparr>, payload := refreeze (payload e)\<rparr>"
  have wfh: "wf_event ?h"
    using wf p by (simp add: wf_event_def wf_integrity_def validate_causality_def)
  have h: "event_with_integrity pd e p None = Inr ?h"
    using wf p by (simp add: event_with_integrity_eq)
  from prep h obtain rh hash where
    rh: "redacted_event pd apply_policy ?h = Inr rh" and
    hash: "compute_event_hash pd rh = Inr hash" and
    r: "event_with_integrity pd rh p (Some hash) = Inr r" and
    bs: "serialize_event pd r = Inr bs"
    by (auto simp: prepare_event_for_append_def bnd_Inr_iff redacted_event_def)
  have wfr: "wf_event rh"
    using rh event_from_json_wf by (auto simp: redacted_event_def bnd_Inr_iff)
  have keep: "sequence (ev_causality rh) = int i" "link_of rh = p"
    using keeps_chain_fields [OF wfh _ rh] p(2) seq by auto
  obtain ub where ub: "serialize_event pd (unsealed rh) = Inr ub" "hash = sha256_digest ub"
    and sup: "is_supported_persisted_event_canonicalization (canonicalization (ev_integrity rh))"
    using hash compute_event_hash_iff [OF wfr] by auto
  have wfo: "wf_opt (Some hash)" by (simp add: ub(2) wf_str_digest)
  have req: "r = rh\<lparr>ev_integrity := \<lparr>canonicalization = canonicalization (ev_integrity rh),
            previous_event_hash = p, event_hash = Some hash\<rparr>, payload := refreeze (payload rh)\<rparr>"
    using r event_with_integrity_eq [OF wfr p(1) wfo] by simp
  show wfr': "wf_event r"
    using wfr p wfo by (simp add: req wf_event_def wf_integrity_def validate_causality_def)
  have us: "unsealed r = unsealed rh"
    using keep(2) by (simp add: unsealed_def req refreeze_def)
  have "compute_event_hash pd r = Inr hash"
    unfolding compute_event_hash_iff [OF wfr'] us using ub sup by (simp add: req)
  then have "compute_event_hash pd (event_canon r) = Inr hash"
    using compute_event_hash_canon [OF wfr'] by simp
  moreover have "serialize_event pd (event_canon r) = Inr bs"
    using serialize_event_canon [OF wfr'] bs by simp
  moreover have "event_from_json pd bs = Inr (event_canon r)"
    using event_from_json_serialize [OF wfr' bs] .
  moreover have "sequence (ev_causality (event_canon r)) = int i" "link_of (event_canon r) = p"
    "event_hash (ev_integrity (event_canon r)) = Some hash"
    using keep(1) by (simp_all add: event_canon_def req)
  ultimately show "good_record pd i p (event_canon r)"
    "record_line pd (event_canon r) = bs @ [newline]" "serialize_event pd r = Inr bs"
    using bs by (auto simp: good_record_def record_line_def)
qed

lemma good_terminal:
  assumes "good_records pd i None es"
  shows "wf_opt (terminal None es)" "chain_text (terminal None es)"
proof -
  have "es \<noteq> [] \<Longrightarrow> own_hash (last es) = sha256_digest (hash_content pd (last es))"
    using good_records_chained [OF assms] sealed_own_hash last_in_set by blast
  then show "wf_opt (terminal None es)" "chain_text (terminal None es)"
    using good_records_chained [OF assms] wf_str_digest
    by (auto simp: last_hash_def chain_text_def)
qed

lemma next_record_good:
  assumes "wf_event e" "next_record pd apply_policy env file e = Inr (r, bs)"
  obtains es where "file_bytes file = journal_bytes pd es"
    and "good_records pd 0 None (es @ [event_canon r])"
    and "record_line pd (event_canon r) = bs @ [newline]" "newline \<notin> set bs" "wf_event r"
proof -
  from assms(2) obtain s where s:
    "verified_journal_snapshot pd (ae_stat env) None None file = Inr s" "snapshot_ok s"
    "sequence (ev_causality e) = int (snapshot_record_count s)"
    "prepare_event_for_append pd apply_policy e (snapshot_terminal_hash s) = Inr (r, bs)"
    by (auto simp: next_record_def bnd_Inr_iff split: read_outcome.splits if_splits)
  obtain rest where es: "file_bytes file = journal_bytes pd (js_events s) @ rest"
    "good_records pd 0 None (js_events s)" "snapshot_record_count s = length (js_events s)"
    "snapshot_terminal_hash s = terminal None (js_events s)" "rest = []"
    using snapshot_prefix [OF s(1)] s(2) by metis
  have "wf_opt (snapshot_terminal_hash s)" "chain_text (snapshot_terminal_hash s)"
    using good_terminal [OF es(2)] es(4) by simp_all
  note g = prepare_event_good [OF assms(1) this s(3,4)]
  have "newline \<notin> set bs" using serialize_event_line(1) [OF g(2,4)] .
  then show ?thesis using that [of "js_events s"] g es by simp
qed

text \<open>A successful append extends a verified journal by the record it returns.\<close>

lemma append_event_good:
  assumes "wf_event e" "append_event pd apply_policy env file e = (Inr r, file')"
  obtains es where "file_bytes file = journal_bytes pd es"
    and "good_records pd 0 None (es @ [event_canon r])"
    and "file' = Some (journal_bytes pd (es @ [event_canon r]))"
proof -
  obtain bs where n: "next_record pd apply_policy env file e = Inr (r, bs)"
    and w: "ae_write env = WriteOk" "file' = Some (file_bytes file @ bs @ [newline])"
    using assms(2)
    by (auto simp: append_event_def append_line_def split: sum.splits prod.splits
        write_outcome.splits if_splits)
  show ?thesis
    using next_record_good [OF assms(1) n] that w(2) by (metis append.assoc journal_bytes_snoc)
qed

text \<open>
  Whatever an append returns, the file is unchanged, or it was a verified journal and is now
  followed by a part of one line.
\<close>

lemma append_event_file:
  assumes "wf_event e" "append_event pd apply_policy env file e = (res, file')"
  shows "file_bytes file' = file_bytes file
    \<or> (\<exists>es r n. file_bytes file = journal_bytes pd es
         \<and> good_records pd 0 None (es @ [event_canon r])
         \<and> file_bytes file' = file_bytes file @ take n (record_line pd (event_canon r)))"
proof (cases "next_record pd apply_policy env file e")
  case (Inl err)
  then show ?thesis using assms(2) by (simp add: append_event_def)
next
  case (Inr p)
  then obtain r bs where n: "next_record pd apply_policy env file e = Inr (r, bs)" by (cases p) auto
  obtain es where es: "file_bytes file = journal_bytes pd es"
    "good_records pd 0 None (es @ [event_canon r])"
    "record_line pd (event_canon r) = bs @ [newline]"
    using next_record_good [OF assms(1) n] by metis
  have "\<exists>m. file' = Some (file_bytes file @ take m (bs @ [newline]))"
  proof (cases "ae_write env")
    case WriteOk
    then show ?thesis
      using assms(2) n by (auto simp: append_event_def append_line_def intro: exI [of _ "Suc (length bs)"])
  next
    case (WriteInsecure d)
    then show ?thesis
      using assms(2) n by (auto simp: append_event_def append_line_def intro: exI [of _ 0])
  next
    case (WriteError m)
    then show ?thesis
      using assms(2) n by (auto simp: append_event_def append_line_def)
  qed
  then show ?thesis using es by (metis file_bytes_def option.simps(5))
qed

end

section \<open>Reachable journals\<close>

text \<open>
  The states a journal file can reach from its absence through appends of well-formed events,
  each with any answers of the file system: refused directories, failed reads, writes cut off
  after any number of bytes.
\<close>

inductive journal_step :: "pydantic \<Rightarrow> (pyv \<Rightarrow> pyv res) \<Rightarrow> bytes option \<Rightarrow> bytes option \<Rightarrow> bool"
  for pd apply_policy where
  append: "wf_event e \<Longrightarrow> append_event pd apply_policy env file e = (res, file') \<Longrightarrow>
    journal_step pd apply_policy file file'"

inductive journal_reachable :: "pydantic \<Rightarrow> (pyv \<Rightarrow> pyv res) \<Rightarrow> bytes option \<Rightarrow> bool"
  for pd apply_policy where
  absent: "journal_reachable pd apply_policy None"
| step: "journal_reachable pd apply_policy file \<Longrightarrow> journal_step pd apply_policy file file' \<Longrightarrow>
    journal_reachable pd apply_policy file'"

inductive_cases journal_stepE: "journal_step pd apply_policy file file'"

text \<open>The invariant: good records, then at most a part of one line.\<close>

definition journal_inv :: "pydantic \<Rightarrow> bytes option \<Rightarrow> bool" where
  "journal_inv pd file \<longleftrightarrow>
     (\<exists>es rest. file_bytes file = journal_bytes pd es @ rest \<and> good_records pd 0 None es
        \<and> newline \<notin> set rest)"

context redaction_boundary begin

lemma take_line:
  assumes "newline \<notin> set bs"
  shows "take n (bs @ [newline]) = bs @ [newline] \<or> newline \<notin> set (take n (bs @ [newline]))"
  using assms by (cases "n \<le> length bs") (auto dest: in_set_takeD)

lemma good_record_line:
  assumes "good_record pd i prev e"
  obtains bs where "record_line pd e = bs @ [newline]" "newline \<notin> set bs"
proof -
  obtain bs where bs: "serialize_event pd e = Inr bs" "event_from_json pd bs = Inr e"
    using assms by (auto simp: good_record_def)
  then have "newline \<notin> set bs" using serialize_event_line(1) event_from_json_wf by blast
  then show ?thesis using that bs by (simp add: record_line_def)
qed

lemma journal_step_inv:
  assumes "journal_step pd apply_policy file file'" "journal_inv pd file"
  shows "journal_inv pd file'"
  using assms(1)
proof (rule journal_stepE)
  fix e env res
  assume a: "wf_event e" "append_event pd apply_policy env file e = (res, file')"
  from append_event_file [OF a] consider "file_bytes file' = file_bytes file"
    | es r n where "file_bytes file = journal_bytes pd es"
      "good_records pd 0 None (es @ [event_canon r])"
      "file_bytes file' = file_bytes file @ take n (record_line pd (event_canon r))" by blast
  then show ?thesis
  proof cases
    case 1
    then show ?thesis using assms(2) by (simp add: journal_inv_def)
  next
    case 2
    then obtain bs where bs: "record_line pd (event_canon r) = bs @ [newline]" "newline \<notin> set bs"
      using good_record_line [of "length es" "terminal None es" "event_canon r"] by auto
    from take_line [OF bs(2), of n] show ?thesis
    proof
      assume "take n (bs @ [newline]) = bs @ [newline]"
      then have "file_bytes file' = journal_bytes pd (es @ [event_canon r]) @ []"
        using 2 bs by simp
      then show ?thesis using 2(2) unfolding journal_inv_def by (metis empty_iff empty_set)
    next
      assume "newline \<notin> set (take n (bs @ [newline]))"
      moreover have "good_records pd 0 None es" using 2(2) by simp
      ultimately show ?thesis using 2(1,3) bs(1) unfolding journal_inv_def by metis
    qed
  qed
qed

lemma journal_reachable_inv: "journal_reachable pd apply_policy file \<Longrightarrow> journal_inv pd file"
proof (induction rule: journal_reachable.induct)
  case absent
  have "file_bytes None = journal_bytes pd [] @ []" by (simp add: file_bytes_def journal_bytes_def)
  then show ?case unfolding journal_inv_def by (metis empty_iff empty_set good_records.simps(1))
next
  case (step f f')
  then show ?case using journal_step_inv by blast
qed

end

section \<open>Verifying reachable journals\<close>

lemma truncated_line:
  "newline \<notin> set l \<Longrightarrow> check_record pd i prev l =
     Inr (Inl (issue (i + 1) VC_truncated_record ''journal record is missing its newline terminator''))"
  by (auto simp: check_record_def dest: last_in_set)

lemma journal_bytes_complete: "journal_bytes pd es = [] \<or> last (journal_bytes pd es) = newline"
  by (cases es rule: rev_cases) (simp_all add: record_line_def, simp add: journal_bytes_def)

context pydantic_laws begin

lemma file_lines_partial_journal:
  assumes "good_records pd 0 None es" "newline \<notin> set rest" "rest \<noteq> []"
  shows "file_lines (journal_bytes pd es @ rest) = map (record_line pd) es @ [rest]"
  using file_lines_complete [OF journal_bytes_complete] file_lines_journal [OF assms(1)]
    file_lines_partial [OF assms(2,3)] by simp

text \<open>A journal cut off in the middle of a line: its complete records, and one issue.\<close>

lemma snapshot_of_partial:
  assumes "good_records pd 0 None es" "newline \<notin> set rest" "rest \<noteq> []" "fst stat = snd stat"
  shows "\<exists>s. verified_journal_snapshot pd stat None None (Some (journal_bytes pd es @ rest)) = Inr s
    \<and> js_events s = es
    \<and> vr_issues (js_verification s) = [issue (length es + 1) VC_truncated_record
          ''journal record is missing its newline terminator'']
    \<and> \<not> snapshot_ok s"
proof -
  have "scan_records pd 0 scan_start (map (record_line pd) es @ [rest])
      = scan_records pd (length es) (foldl scan_accept scan_start es) [rest]"
    using scan_records_good [of 0 scan_start es "[rest]"] assms(1) by (simp add: scan_start_def)
  then show ?thesis
    using assms(4)
    by (simp add: verified_journal_snapshot_def file_lines_partial_journal [OF assms(1-3)]
        truncated_line [OF assms(2)] scan_accept_all scan_start_def metadata_issues_def
        expectation_issues_def Let_def snapshot_ok_def)
qed

lemma snapshot_of_inv:
  assumes "journal_inv pd file" "fst stat = snd stat"
  shows "\<exists>s. verified_journal_snapshot pd stat None None file = Inr s
    \<and> (snapshot_ok s \<or> (\<exists>n. vr_issues (js_verification s) = [issue n VC_truncated_record
          ''journal record is missing its newline terminator'']))"
proof (cases "file")
  case None
  then show ?thesis
    by (simp add: verified_journal_snapshot_def scan_start_def metadata_issues_def
        expectation_issues_def Let_def snapshot_ok_def)
next
  case (Some content)
  obtain es rest where es: "content = journal_bytes pd es @ rest" "good_records pd 0 None es"
    "newline \<notin> set rest"
    using assms(1) Some by (auto simp: journal_inv_def file_bytes_def)
  show ?thesis
  proof (cases "rest = []")
    case True
    then show ?thesis
      using snapshot_of_good_records [OF es(2) assms(2)] Some es(1) by (simp add: snapshot_ok_def)
  next
    case False
    then show ?thesis using snapshot_of_partial [OF es(2,3) _ assms(2)] Some es(1) by blast
  qed
qed

section \<open>When an append succeeds\<close>

lemma serializable_integrity:
  "serializable e \<Longrightarrow>
   serializable (e\<lparr>ev_integrity := \<lparr>canonicalization = canonicalization (ev_integrity e),
      previous_event_hash = p, event_hash = h\<rparr>, payload := refreeze (payload e)\<rparr>)"
  by (simp add: serializable_def)

lemma prepare_event_succeeds:
  assumes wf: "wf_event e" "wf_opt p"
    and label: "is_supported_persisted_event_canonicalization (canonicalization (ev_integrity e))"
    and red: "redacted_event pd apply_policy
      (e\<lparr>ev_integrity := \<lparr>canonicalization = canonicalization (ev_integrity e),
          previous_event_hash = p, event_hash = None\<rparr>, payload := refreeze (payload e)\<rparr>) = Inr rh"
    and rh: "is_supported_persisted_event_canonicalization (canonicalization (ev_integrity rh))"
      "serializable rh"
  obtains r bs where "prepare_event_for_append pd apply_policy e p = Inr (r, bs)"
proof -
  have wfr: "wf_event rh"
    using red event_from_json_wf by (auto simp: redacted_event_def bnd_Inr_iff)
  have su: "serializable (unsealed rh)" using rh(2) by (simp add: serializable_def unsealed_def)
  obtain ub where "serialize_event pd (unsealed rh) = Inr ub"
    using serializable_bytes [OF wf_unsealed [OF wfr] su] by blast
  then have h: "compute_event_hash pd rh = Inr (sha256_digest ub)"
    using rh(1) compute_event_hash_iff [OF wfr] by auto
  let ?r = "rh\<lparr>ev_integrity := \<lparr>canonicalization = canonicalization (ev_integrity rh),
      previous_event_hash = p, event_hash = Some (sha256_digest ub)\<rparr>,
      payload := refreeze (payload rh)\<rparr>"
  have r: "event_with_integrity pd rh p (Some (sha256_digest ub)) = Inr ?r"
    using event_with_integrity_eq [OF wfr wf(2)] by (simp add: wf_str_digest)
  have "wf_event ?r"
    using wfr wf(2) by (simp add: wf_event_def wf_integrity_def validate_causality_def wf_str_digest)
  then obtain bs where "serialize_event pd ?r = Inr bs"
    using serializable_bytes serializable_integrity [OF rh(2)] by blast
  then have "prepare_event_for_append pd apply_policy e p = Inr (?r, bs)"
    using label red h r event_with_integrity_eq [OF wf, of None]
    by (auto simp: prepare_event_for_append_def redacted_event_def bnd_Inr_iff
        require_supported_persisted_event_canonicalization_def)
  then show ?thesis using that by blast
qed

lemma append_event_succeeds:
  assumes wf: "wf_event e"
    and s: "verified_journal_snapshot pd (ae_stat env) None None file = Inr s" "snapshot_ok s"
    and env: "ae_dir env = DirPrivate" "ae_read env = ReadOk" "ae_write env = WriteOk"
    and seq: "sequence (ev_causality e) = int (snapshot_record_count s)"
    and prep: "prepare_event_for_append pd apply_policy e (snapshot_terminal_hash s) = Inr (r, bs)"
  shows "append_event pd apply_policy env file e = (Inr r, Some (file_bytes file @ bs @ [newline]))"
  using assms by (simp add: append_event_def next_record_def ensure_private_directory_def
      append_line_def)

lemma snapshot_terminal_wf:
  assumes "verified_journal_snapshot pd stat ec eh file = Inr s"
  shows "wf_opt (snapshot_terminal_hash s)" "chain_text (snapshot_terminal_hash s)"
proof -
  have g: "good_records pd 0 None (js_events s)"
    "snapshot_terminal_hash s = terminal None (js_events s)"
    using snapshot_prefix [OF assms] by metis+
  have "js_events s \<noteq> [] \<Longrightarrow>
      own_hash (last (js_events s)) = sha256_digest (hash_content pd (last (js_events s)))"
    using good_records_chained [OF g(1)] sealed_own_hash last_in_set by blast
  then show "wf_opt (snapshot_terminal_hash s)" "chain_text (snapshot_terminal_hash s)"
    using good_records_chained [OF g(1)] wf_str_digest g(2)
    by (auto simp: last_hash_def chain_text_def)
qed

text \<open>Without redaction, an event is hashed as it stands, its payload normalised.\<close>

lemma redacted_event_identity:
  assumes "wf_event e" "serializable e"
  shows "redacted_event pd Inr e = Inr (event_canon e)"
proof -
  obtain bs where bs: "serialize_event pd e = Inr bs" using serializable_bytes [OF assms] by blast
  then have "event_to_dict pd e = Inr (model_json pd e)"
    using assms(1) serialize_event_iff event_to_dict_iff by blast
  then have "serialize_event_for_persistence pd Inr e = serialize_event pd e"
    by (simp add: serialize_event_for_persistence_def redact_event_dict_def serialize_event_def
        model_json_def)
  then show ?thesis
    using bs event_from_json_serialize [OF assms(1) bs] by (simp add: redacted_event_def)
qed

end

lemma encodable_canon: "is_json v \<Longrightarrow> encodable v \<Longrightarrow> encodable (canon v)"
proof (induction v rule: is_json.induct)
  case (3 d)
  have "\<forall>p\<in>set d. case p of (KStr k, v) \<Rightarrow> utf8_ok False k \<and> encodable (canon v) | _ \<Rightarrow> False"
  proof
    fix p assume p: "p \<in> set d"
    then obtain s v where v: "p = (KStr s, v)" "is_json v"
      using 3(2) by (metis prod.collapse str_members_iff is_json.simps(3))
    moreover have "utf8_ok False s \<and> encodable v"
      using 3(3) p v by (auto simp: list_all_iff)
    ultimately show "case p of (KStr k, v) \<Rightarrow> utf8_ok False k \<and> encodable (canon v) | _ \<Rightarrow> False"
      using 3(1) [OF p, of "KStr s" v s] by simp
  qed
  then show ?case by (fastforce simp: list_all_iff split: pykey.splits)
qed (auto simp: list_all_iff)

lemma serializable_canon: "wf_event e \<Longrightarrow> serializable e \<Longrightarrow> serializable (event_canon e)"
  using wf_payload_is_json [of "payload e"]
  by (simp add: serializable_def event_canon_def thaw_canon_payload wf_event_def encodable_canon
      validate_canon_iff)

end

