(* ===== verification/JournalClaims.thy ===== *)
theory JournalClaims
  imports JournalChain DomainClaims
begin

text \<open>
  The properties of the journal, stated on the definitions of \<open>Journal\<close>. The hypotheses
  \<open>pydantic_laws\<close> and \<open>redaction_boundary\<close> are the interfaces of \<open>Envelope\<close> and
  \<open>JournalChain\<close>; the witnesses discharge them for strict validation and no redaction, the
  default redaction policy is in \<open>Redaction\<close>.
\<close>

section \<open>An instance\<close>

lemma redaction_boundary_identity: "redaction_boundary strict_pydantic Inr"
proof
  fix e r
  assume a: "wf_event e" "redacted_event strict_pydantic Inr e = Inr r"
  then obtain bs where bs: "serialize_event_for_persistence strict_pydantic Inr e = Inr bs"
    "event_from_json strict_pydantic bs = Inr r"
    by (auto simp: redacted_event_def bnd_Inr_iff)
  then have "serialize_event strict_pydantic e = Inr bs"
    by (auto simp: serialize_event_for_persistence_def redact_event_dict_def serialize_event_def
        bnd_Inr_iff split: sum.splits pyv.splits)
  then have "r = event_canon e"
    using strict.event_from_json_serialize [OF a(1)] bs(2) by simp
  then show "sequence (ev_causality r) = sequence (ev_causality e) \<and> link_of r = link_of e"
    by (simp add: event_canon_def)
qed

interpretation identity_boundary: redaction_boundary strict_pydantic Inr
  by (rule redaction_boundary_identity)

definition sample_time :: datetime where
  "sample_time = \<lparr>d_year = 2026, d_month = 1, d_day = 2, dt_hour = 3, dt_minute = 4, dt_second = 5,
     dt_micro = 0, dt_offset = Some 0\<rparr>"

definition sample_event :: event where
  "sample_event =
     \<lparr>spec_version = SPEC_VERSION, event_id = ''e1'', event_type = ''agent.run.started'',
      occurred_at = sample_time, observed_at = sample_time,
      ev_source = \<lparr>src_component = ''c'', src_instance_id = ''i'', src_version = ''1''\<rparr>,
      ev_correlation = \<lparr>trace_id = ''t'', run_id = ''r'', span_id = None, session_id = None\<rparr>,
      ev_causality = \<lparr>root_event_id = ''e1'', sequence = 0, parent_event_id = None\<rparr>,
      ev_principal = \<lparr>principal_id = ''p'', principal_type = PT_AGENT, on_behalf_of = None,
        model_id = None, credential_id = None\<rparr>,
      ev_classification = \<lparr>sensitivity = SE_INTERNAL, trust = TR_LOCAL\<rparr>,
      payload = VFrozenDict [(KStr ''k'', VFrozenList [VInt 1, VStr ''v''])],
      ev_integrity = default_integrity\<rparr>"

lemma wf_sample_event: "wf_event sample_event"
  by code_simp

lemma serializable_sample_event: "serializable sample_event"
  by code_simp

definition sample_stat :: "JournalFileMetadata \<times> JournalFileMetadata" where
  "sample_stat =
     (let m = \<lparr>jm_device = 1, jm_inode = 2, jm_size = 3, jm_modified_ns = 4\<rparr> in (m, m))"

definition sample_env :: append_env where
  "sample_env = \<lparr>ae_dir = DirPrivate, ae_read = ReadOk, ae_write = WriteOk, ae_stat = sample_stat\<rparr>"

lemma sample_stat_same [simp]: "fst sample_stat = snd sample_stat"
  by (simp add: sample_stat_def Let_def)

lemma sample_prepare:
  "\<exists>r bs. prepare_event_for_append strict_pydantic Inr sample_event None = Inr (r, bs)"
proof -
  let ?h = "sample_event\<lparr>ev_integrity :=
      \<lparr>canonicalization = canonicalization (ev_integrity sample_event), previous_event_hash = None,
       event_hash = None\<rparr>, payload := refreeze (payload sample_event)\<rparr>"
  have wf: "wf_event ?h"
    using wf_sample_event by (simp add: wf_event_def wf_integrity_def validate_causality_def)
  have se: "serializable ?h"
    by (rule strict.serializable_integrity [OF serializable_sample_event])
  have label: "is_supported_persisted_event_canonicalization
      (canonicalization (ev_integrity sample_event))"
    by code_simp
  have red: "redacted_event strict_pydantic Inr ?h = Inr (event_canon ?h)"
    using wf se by (rule strict.redacted_event_identity)
  have "canonicalization (ev_integrity (event_canon ?h)) = canonicalization (ev_integrity sample_event)"
    by (simp add: event_canon_def)
  then show ?thesis
    using strict.prepare_event_succeeds [OF wf_sample_event wf_opt_simps(1) label red _
        serializable_canon [OF wf se]] label by metis
qed

lemma sample_empty:
  "\<exists>s. verified_journal_snapshot strict_pydantic sample_stat None None None = Inr s
    \<and> snapshot_ok s \<and> js_events s = [] \<and> snapshot_record_count s = 0
    \<and> snapshot_terminal_hash s = None"
  by (simp add: verified_journal_snapshot_def scan_start_def metadata_issues_def
      expectation_issues_def Let_def snapshot_ok_def snapshot_record_count_def
      snapshot_terminal_hash_def)

lemma sample_append:
  "\<exists>r f. append_event strict_pydantic Inr sample_env None sample_event = (Inr r, f)"
proof -
  obtain r bs where p: "prepare_event_for_append strict_pydantic Inr sample_event None = Inr (r, bs)"
    using sample_prepare by blast
  obtain s where s: "verified_journal_snapshot strict_pydantic sample_stat None None None = Inr s"
    "snapshot_ok s" "snapshot_record_count s = 0" "snapshot_terminal_hash s = None"
    using sample_empty by blast
  have "append_event strict_pydantic Inr sample_env None sample_event
      = (Inr r, Some (file_bytes None @ bs @ [newline]))"
  proof (rule strict.append_event_succeeds [OF wf_sample_event _ s(2)])
    show "verified_journal_snapshot strict_pydantic (ae_stat sample_env) None None None = Inr s"
      using s(1) by (simp add: sample_env_def)
    show "sequence (ev_causality sample_event) = int (snapshot_record_count s)"
      using s(3) by (simp add: sample_event_def)
    show "prepare_event_for_append strict_pydantic Inr sample_event (snapshot_terminal_hash s)
        = Inr (r, bs)"
      using p s(4) by simp
  qed (simp_all add: sample_env_def)
  then show ?thesis by blast
qed

section \<open>Lemmas the properties share\<close>

lemma snapshot_events:
  assumes "pydantic_laws pd" "file_bytes file = journal_bytes pd es @ rest"
    and "good_records pd 0 None es" "newline \<notin> set rest" "fst stat = snd stat"
  shows "\<exists>s. verified_journal_snapshot pd stat None None file = Inr s \<and> js_events s = es"
proof (cases "file")
  case None
  then have "es = []" using assms(2) by (cases es) (auto simp: file_bytes_def journal_bytes_def record_line_def)
  then show ?thesis using None
    by (simp add: verified_journal_snapshot_def scan_start_def Let_def)
next
  case (Some content)
  then have c: "content = journal_bytes pd es @ rest" using assms(2) by (simp add: file_bytes_def)
  show ?thesis
  proof (cases "rest = []")
    case True
    then show ?thesis
      using pydantic_laws.snapshot_of_good_records [OF assms(1,3,5)] Some c by simp
  next
    case False
    then show ?thesis
      using pydantic_laws.snapshot_of_partial [OF assms(1,3,4) _ assms(5)] Some c by blast
  qed
qed

lemma snapshot_okD:
  assumes "pydantic_laws pd" "verified_journal_snapshot pd stat c h file = Inr s" "snapshot_ok s"
  shows "file_bytes file = journal_bytes pd (js_events s)" "good_records pd 0 None (js_events s)"
    "snapshot_record_count s = length (js_events s)"
    "snapshot_terminal_hash s = terminal None (js_events s)"
  using pydantic_laws.snapshot_prefix [OF assms(1,2)] assms(3) by (metis append_Nil2)+

text \<open>The line of a good record determines the record.\<close>

lemma good_record_line_inj:
  "good_record pd i p e \<Longrightarrow> good_record pd j q f \<Longrightarrow> record_line pd e = record_line pd f \<Longrightarrow> e = f"
  by (auto simp: good_record_def record_line_def)

lemma good_records_lines:
  "good_records pd i p es \<Longrightarrow> good_records pd j q fs \<Longrightarrow>
   map (record_line pd) es = map (record_line pd) fs \<Longrightarrow> es = fs"
proof (induction es arbitrary: i j p q fs)
  case (Cons e es)
  then obtain f fs' where fs: "fs = f # fs'" by (cases fs) auto
  then have "e = f" using Cons.prems good_record_line_inj by auto
  then show ?case using Cons.IH Cons.prems fs by auto
qed simp

lemma good_records_nth:
  "good_records pd i p es \<Longrightarrow> k < length es \<Longrightarrow> \<exists>q. good_record pd (i + k) q (es ! k)"
proof (induction es arbitrary: i p k)
  case (Cons e es)
  then show ?case by (cases k) (auto, fastforce)
qed simp

lemma good_record_own:
  "good_record pd i q e \<Longrightarrow>
   sequence (ev_causality e) = int i \<and> compute_event_hash pd e = Inr (own_hash e)"
  by (auto simp: good_record_def own_hash_def)

lemma is_json_preimage: "is_json (source_identity_preimage s)"
  unfolding source_identity_preimage_def by (rule is_json_obj) auto

lemma preimage_bytes_inj:
  assumes "deterministic_json_bytes (source_identity_preimage s) = Inr bs"
    and "deterministic_json_bytes (source_identity_preimage t) = Inr bs"
  shows "js_journal_sha256 s = js_journal_sha256 t"
proof -
  have "dumps (source_identity_preimage s) = Inr bs" "dumps (source_identity_preimage t) = Inr bs"
    using assms by (auto simp: deterministic_json_bytes_def bnd_Inr_iff)
  then have c: "canon (source_identity_preimage s) = canon (source_identity_preimage t)"
    using loads_dumps [of "source_identity_preimage s" bs True]
      loads_dumps [of "source_identity_preimage t" bs True] is_json_preimage by simp
  obtain d where d: "canon (source_identity_preimage s) = VDict d"
    "get_item d ''journal_sha256'' = Some (opt_str (js_journal_sha256 s))"
    unfolding source_identity_preimage_def
    by (rule canon_obj_same [of "[(''journal_sha256'', opt_str (js_journal_sha256 s)),
      (''record_count'', VInt (int (snapshot_record_count s))),
      (''terminal_hash'', opt_str (snapshot_terminal_hash s)),
      (''version'', VStr JOURNAL_SOURCE_IDENTITY_VERSION)]"]) (auto simp: same_dict_def)
  obtain e where e: "canon (source_identity_preimage t) = VDict e"
    "get_item e ''journal_sha256'' = Some (opt_str (js_journal_sha256 t))"
    unfolding source_identity_preimage_def
    by (rule canon_obj_same [of "[(''journal_sha256'', opt_str (js_journal_sha256 t)),
      (''record_count'', VInt (int (snapshot_record_count t))),
      (''terminal_hash'', opt_str (snapshot_terminal_hash t)),
      (''version'', VStr JOURNAL_SOURCE_IDENTITY_VERSION)]"]) (auto simp: same_dict_def)
  have "opt_str (js_journal_sha256 s) = opt_str (js_journal_sha256 t)" using c d e by simp
  then show ?thesis by (cases "js_journal_sha256 s"; cases "js_journal_sha256 t") auto
qed

lemma preimage_bytes_exist:
  assumes "\<forall>h. js_journal_sha256 s = Some h \<longrightarrow> utf8_ok False h"
    and "\<forall>h. snapshot_terminal_hash s = Some h \<longrightarrow> utf8_ok False h"
    and "length (nat_repr (snapshot_record_count s)) \<le> max_int_digits"
  shows "\<exists>bs. deterministic_json_bytes (source_identity_preimage s) = Inr bs"
proof -
  have "encodable (source_identity_preimage s)"
    unfolding source_identity_preimage_def encodable_obj
    using assms by (cases "js_journal_sha256 s"; cases "snapshot_terminal_hash s")
      (simp_all add: byte_def JOURNAL_SOURCE_IDENTITY_VERSION_def)
  then obtain bs where "dumps (source_identity_preimage s) = Inr bs" "utf8_ok False bs"
    using encodable_encodes encodes_def by blast
  then show ?thesis by (simp add: deterministic_json_bytes_def)
qed

section \<open>Properties\<close>

text \<open>C1. A successful append to the journal leaves a journal that verifies: its records are the
  records that verified before, followed by the event the append returned (its payload in normal
  form); the record count grows by one and the terminal hash is the returned event's hash.\<close>
theorem append_then_verify:
  assumes "redaction_boundary pd apply_policy" "wf_event e"
    and "append_event pd apply_policy env file e = (Inr r, file')" "fst stat = snd stat"
  shows "\<exists>old s. file_bytes file = journal_bytes pd old
    \<and> verified_journal_snapshot pd stat None None file' = Inr s \<and> snapshot_ok s
    \<and> js_events s = old @ [event_canon r]
    \<and> snapshot_record_count s = length old + 1
    \<and> snapshot_terminal_hash s = event_hash (ev_integrity r)"
proof -
  have laws: "pydantic_laws pd" by (rule redaction_boundary.axioms(1) [OF assms(1)])
  obtain old where old: "file_bytes file = journal_bytes pd old"
    "good_records pd 0 None (old @ [event_canon r])"
    "file' = Some (journal_bytes pd (old @ [event_canon r]))"
    using redaction_boundary.append_event_good [OF assms(1-3)] by blast
  show ?thesis
    using pydantic_laws.snapshot_of_good_records [OF laws old(2) assms(4)] old(1,3)
    by (intro exI [of _ old]) (simp add: snapshot_ok_def snapshot_record_count_def
        snapshot_terminal_hash_def event_canon_def)
qed

theorem append_then_verify_witness:
  "\<exists>r file' s. append_event strict_pydantic Inr sample_env None sample_event = (Inr r, file')
    \<and> verified_journal_snapshot strict_pydantic sample_stat None None file' = Inr s
    \<and> snapshot_ok s \<and> snapshot_terminal_hash s = event_hash (ev_integrity r)"
  using append_then_verify [OF redaction_boundary_identity wf_sample_event _ sample_stat_same]
    sample_append by metis

text \<open>C2. Tamper evidence: two journals that both verify and have the same terminal hash are the
  same bytes, unless two different records of theirs have the same SHA-256 digest. (A verifier
  that knows the terminal hash detects every change, insertion, removal and reordering.)\<close>
theorem journal_tamper_evident:
  assumes "pydantic_laws pd"
    and "verified_journal_snapshot pd stat c h file = Inr s" "snapshot_ok s"
    and "verified_journal_snapshot pd stat' c' h' other = Inr t" "snapshot_ok t"
    and "snapshot_terminal_hash s = snapshot_terminal_hash t"
  shows "file_bytes file = file_bytes other \<and> js_events s = js_events t
    \<or> collision sha256_digest (hash_content pd ` set (js_events s)) (hash_content pd ` set (js_events t))"
proof -
  have s: "file_bytes file = journal_bytes pd (js_events s)" "good_records pd 0 None (js_events s)"
    "snapshot_terminal_hash s = terminal None (js_events s)"
    using pydantic_laws.snapshot_prefix [OF assms(1,2)] assms(3) by (metis append_Nil2)+
  have t: "file_bytes other = journal_bytes pd (js_events t)" "good_records pd 0 None (js_events t)"
    "snapshot_terminal_hash t = terminal None (js_events t)"
    using pydantic_laws.snapshot_prefix [OF assms(1,4)] assms(5) by (metis append_Nil2)+
  show ?thesis
    using pydantic_laws.terminal_hash_fixes_journal [OF assms(1) s(2) t(2)] s t assms(6) by auto
qed

theorem journal_tamper_evident_witness:
  "\<exists>file' s. verified_journal_snapshot strict_pydantic sample_stat None None file' = Inr s
    \<and> snapshot_ok s \<and> file' \<noteq> None
    \<and> (file_bytes file' = file_bytes file' \<and> js_events s = js_events s
       \<or> collision sha256_digest (hash_content strict_pydantic ` set (js_events s))
            (hash_content strict_pydantic ` set (js_events s)))"
proof -
  obtain r f where a: "append_event strict_pydantic Inr sample_env None sample_event = (Inr r, f)"
    using sample_append by blast
  obtain old where old: "good_records strict_pydantic 0 None (old @ [event_canon r])"
    "f = Some (journal_bytes strict_pydantic (old @ [event_canon r]))"
    using identity_boundary.append_event_good [OF wf_sample_event a] by blast
  obtain s where s: "verified_journal_snapshot strict_pydantic sample_stat None None f = Inr s"
    "snapshot_ok s"
    using strict.snapshot_of_good_records [OF old(1) sample_stat_same] old(2)
    by (simp add: snapshot_ok_def)
  then show ?thesis
    using journal_tamper_evident [OF strict.pydantic_laws_axioms s s refl] old(2) by blast
qed

text \<open>C3. Every journal reachable from an absent file by appends, whatever the file system
  answers and wherever a write is cut off, is verified without an exception: it verifies
  completely, or its only issue is a truncated last record.\<close>
theorem reachable_journal_verifies:
  assumes "redaction_boundary pd apply_policy" "journal_reachable pd apply_policy file"
    and "fst stat = snd stat"
  shows "\<exists>s. verified_journal_snapshot pd stat None None file = Inr s
    \<and> (snapshot_ok s \<or> (\<exists>n. vr_issues (js_verification s) = [issue n VC_truncated_record
          ''journal record is missing its newline terminator'']))"
  using redaction_boundary.journal_reachable_inv [OF assms(1,2)]
  by (intro pydantic_laws.snapshot_of_inv assms(3) redaction_boundary.axioms(1) [OF assms(1)])

theorem reachable_journal_verifies_witness:
  "\<exists>file' s. journal_reachable strict_pydantic Inr file' \<and> file' \<noteq> None
    \<and> verified_journal_snapshot strict_pydantic sample_stat None None file' = Inr s"
proof -
  obtain r f where a: "append_event strict_pydantic Inr sample_env None sample_event = (Inr r, f)"
    using sample_append by blast
  then have "journal_reachable strict_pydantic Inr f"
    using journal_reachable.absent journal_reachable.step journal_step.append wf_sample_event by blast
  moreover have "f \<noteq> None"
    using identity_boundary.append_event_good [OF wf_sample_event a] by blast
  ultimately show ?thesis
    using reachable_journal_verifies [OF redaction_boundary_identity _ sample_stat_same] by blast
qed

text \<open>C4. An append never loses verified records: whatever it returns and however its write is
  cut off, the journal afterwards yields the records that verified before, and at most the new
  one after them.\<close>
theorem append_keeps_verified_records:
  assumes "redaction_boundary pd apply_policy" "wf_event e" "fst stat = snd stat"
    and "verified_journal_snapshot pd stat None None file = Inr s" "snapshot_ok s"
    and "append_event pd apply_policy env file e = (res, file')"
  shows "\<exists>t. verified_journal_snapshot pd stat None None file' = Inr t
    \<and> (js_events t = js_events s \<or> (\<exists>r. js_events t = js_events s @ [r]))"
proof -
  have laws: "pydantic_laws pd" by (rule redaction_boundary.axioms(1) [OF assms(1)])
  note old = snapshot_okD [OF laws assms(4,5)]
  consider "file_bytes file' = journal_bytes pd (js_events s) @ []"
    | es r n where "journal_bytes pd (js_events s) = journal_bytes pd es"
      "good_records pd 0 None (es @ [event_canon r])"
      "file_bytes file' = journal_bytes pd es @ take n (record_line pd (event_canon r))"
    using redaction_boundary.append_event_file [OF assms(1,2,6)] old(1) by auto
  then show ?thesis
  proof cases
    case 1
    then show ?thesis using snapshot_events [OF laws 1 old(2) _ assms(3)] by auto
  next
    case 2
    have es: "good_records pd 0 None es" using 2(2) by simp
    have same: "map (record_line pd) es = map (record_line pd) (js_events s)"
      using pydantic_laws.file_lines_journal [OF laws es] 2(1)
        pydantic_laws.file_lines_journal [OF laws old(2)] by simp
    have eq: "es = js_events s" by (rule good_records_lines [OF es old(2) same])
    obtain bs where bs: "record_line pd (event_canon r) = bs @ [newline]" "newline \<notin> set bs"
      using redaction_boundary.good_record_line [OF assms(1),
        of "length es" "terminal None es" "event_canon r"] 2(2) by auto
    from redaction_boundary.take_line [OF assms(1) bs(2), of n] show ?thesis
    proof
      assume "take n (bs @ [newline]) = bs @ [newline]"
      then have "file_bytes file' = journal_bytes pd (es @ [event_canon r]) @ []"
        using 2(3) bs(1) by simp
      then show ?thesis using snapshot_events [OF laws _ 2(2) _ assms(3)] eq by force
    next
      assume "newline \<notin> set (take n (bs @ [newline]))"
      then show ?thesis using snapshot_events [OF laws 2(3) es _ assms(3)] bs(1) eq by auto
    qed
  qed
qed

theorem append_keeps_verified_records_witness:
  "\<exists>t. verified_journal_snapshot strict_pydantic sample_stat None None
      (snd (append_event strict_pydantic Inr (sample_env\<lparr>ae_write := WriteError 7\<rparr>) None sample_event))
      = Inr t
    \<and> (js_events t = [] \<or> (\<exists>r. js_events t = [] @ [r]))"
proof -
  obtain s where s: "verified_journal_snapshot strict_pydantic sample_stat None None None = Inr s"
    "snapshot_ok s" "js_events s = []"
    using sample_empty by blast
  show ?thesis
    using append_keeps_verified_records [OF redaction_boundary_identity wf_sample_event
        sample_stat_same s(1,2) prod.collapse [symmetric]] s(3) by simp
qed

text \<open>C7. An append to a journal that verifies succeeds when the file system cooperates, the
  event carries the next sequence number and a supported canonicalization label, and redaction
  yields an event that has one too and can be serialized.\<close>
theorem append_succeeds:
  assumes "pydantic_laws pd" "wf_event e"
    and "verified_journal_snapshot pd (ae_stat env) None None file = Inr s" "snapshot_ok s"
    and "ae_dir env = DirPrivate" "ae_read env = ReadOk" "ae_write env = WriteOk"
    and "sequence (ev_causality e) = int (snapshot_record_count s)"
    and "is_supported_persisted_event_canonicalization (canonicalization (ev_integrity e))"
    and "redacted_event pd apply_policy
      (e\<lparr>ev_integrity := \<lparr>canonicalization = canonicalization (ev_integrity e),
          previous_event_hash = snapshot_terminal_hash s, event_hash = None\<rparr>,
         payload := refreeze (payload e)\<rparr>) = Inr rh"
    and "is_supported_persisted_event_canonicalization (canonicalization (ev_integrity rh))"
    and "serializable rh"
  shows "\<exists>r line. append_event pd apply_policy env file e
    = (Inr r, Some (file_bytes file @ line @ [newline]))"
proof -
  have p: "wf_opt (snapshot_terminal_hash s)"
    by (rule pydantic_laws.snapshot_terminal_wf(1) [OF assms(1,3)])
  obtain r bs where "prepare_event_for_append pd apply_policy e (snapshot_terminal_hash s) = Inr (r, bs)"
    by (rule pydantic_laws.prepare_event_succeeds [OF assms(1,2) p assms(9-12)])
  then show ?thesis
    using pydantic_laws.append_event_succeeds [OF assms(1-8)] by blast
qed

theorem append_succeeds_witness:
  "\<exists>r line. append_event strict_pydantic Inr sample_env None sample_event
    = (Inr r, Some (line @ [newline]))"
proof -
  let ?h = "sample_event\<lparr>ev_integrity :=
      \<lparr>canonicalization = canonicalization (ev_integrity sample_event), previous_event_hash = None,
       event_hash = None\<rparr>, payload := refreeze (payload sample_event)\<rparr>"
  obtain s where s: "verified_journal_snapshot strict_pydantic sample_stat None None None = Inr s"
    "snapshot_ok s" "snapshot_record_count s = 0" "snapshot_terminal_hash s = None"
    using sample_empty by blast
  have wf: "wf_event ?h"
    using wf_sample_event by (simp add: wf_event_def wf_integrity_def validate_causality_def)
  have se: "serializable ?h"
    by (rule strict.serializable_integrity [OF serializable_sample_event])
  have label: "is_supported_persisted_event_canonicalization
      (canonicalization (ev_integrity sample_event))"
    by code_simp
  have "canonicalization (ev_integrity (event_canon ?h)) = canonicalization (ev_integrity sample_event)"
    by (simp add: event_canon_def)
  then show ?thesis
    using append_succeeds [OF strict.pydantic_laws_axioms wf_sample_event, of sample_env None s Inr
        "event_canon ?h"] s label strict.redacted_event_identity [OF wf se]
      serializable_canon [OF wf se]
    by (simp add: sample_env_def sample_event_def file_bytes_def)
qed

text \<open>C8. Whatever bytes a journal file holds, a snapshot that returns has captured the records
  of a prefix of the file, each canonical, in sequence and chained by hash from the first; a
  snapshot that verifies has captured the whole file.\<close>
theorem snapshot_verified_prefix:
  assumes "pydantic_laws pd" "verified_journal_snapshot pd stat c h file = Inr s"
  shows "\<exists>rest. file_bytes file = journal_bytes pd (js_events s) @ rest
    \<and> (snapshot_ok s \<longrightarrow> rest = [])
    \<and> chained link_of own_hash None (js_events s)
    \<and> (\<forall>i < length (js_events s).
         sequence (ev_causality (js_events s ! i)) = int i
         \<and> compute_event_hash pd (js_events s ! i) = Inr (own_hash (js_events s ! i)))"
proof -
  obtain rest where r: "file_bytes file = journal_bytes pd (js_events s) @ rest"
    "good_records pd 0 None (js_events s)" "snapshot_ok s \<longrightarrow> rest = []"
    using pydantic_laws.snapshot_prefix [OF assms] by metis
  show ?thesis
    using r pydantic_laws.good_records_chained [OF assms(1) r(2)] good_records_nth [OF r(2)]
      good_record_own by fastforce
qed

theorem snapshot_verified_prefix_witness:
  "\<exists>s rest. verified_journal_snapshot strict_pydantic sample_stat None None (Some ''x'') = Inr s
    \<and> ''x'' = journal_bytes strict_pydantic (js_events s) @ rest \<and> \<not> snapshot_ok s"
proof -
  have l: "file_lines ''x'' = [''x'']" "newline \<notin> set ''x''" by simp_all
  obtain s where s: "verified_journal_snapshot strict_pydantic sample_stat None None (Some ''x'') = Inr s"
    "\<not> snapshot_ok s"
    by (simp add: verified_journal_snapshot_def truncated_line Let_def snapshot_ok_def)
  then show ?thesis
    using snapshot_verified_prefix [OF strict.pydantic_laws_axioms s(1)]
    by (auto simp: file_bytes_def)
qed

text \<open>The source identity binds the journal: two journals that verify and have the same
  identity are the same bytes, unless SHA-256 collides on the two files or on the two identity
  preimages.\<close>
theorem source_identity_binds_bytes:
  assumes "verified_journal_snapshot pd stat c h (Some x) = Inr s"
    and "verified_journal_snapshot pd stat' c' h' (Some y) = Inr t"
    and "journal_source_identity s = Inr i" "journal_source_identity t = Inr i"
  shows "x = y
    \<or> collision sha256_hex {x} {y}
    \<or> collision sha256_hex {bs. deterministic_json_bytes (source_identity_preimage s) = Inr bs}
        {bs. deterministic_json_bytes (source_identity_preimage t) = Inr bs}"
proof -
  obtain bs where bs: "deterministic_json_bytes (source_identity_preimage s) = Inr bs"
    "i = JOURNAL_SOURCE_IDENTITY_VERSION @ '':sha256:'' @ sha256_hex bs" and ok: "snapshot_ok s"
    using assms(3) by (auto simp: journal_source_identity_def bnd_Inr_iff split: if_splits)
  obtain cs where cs: "deterministic_json_bytes (source_identity_preimage t) = Inr cs"
    "i = JOURNAL_SOURCE_IDENTITY_VERSION @ '':sha256:'' @ sha256_hex cs" and ok': "snapshot_ok t"
    using assms(4) by (auto simp: journal_source_identity_def bnd_Inr_iff split: if_splits)
  have hex: "sha256_hex bs = sha256_hex cs" using bs(2) cs(2) by simp
  have j: "js_journal_sha256 s = Some (''sha256:'' @ sha256_hex x)"
    "js_journal_sha256 t = Some (''sha256:'' @ sha256_hex y)"
    using assms(1,2) ok ok'
    by (auto simp: verified_journal_snapshot_def bnd_Inr_iff Let_def snapshot_ok_def)
  show ?thesis
  proof (cases "bs = cs")
    case True
    then have "js_journal_sha256 s = js_journal_sha256 t"
      using preimage_bytes_inj bs(1) cs(1) by blast
    then show ?thesis using j by (auto simp: collision_def)
  next
    case False
    then show ?thesis using hex bs(1) cs(1) by (auto simp: collision_def)
  qed
qed

theorem source_identity_binds_bytes_witness:
  "\<exists>f s i. verified_journal_snapshot strict_pydantic sample_stat None None (Some f) = Inr s
    \<and> journal_source_identity s = Inr i
    \<and> (f = f \<or> collision sha256_hex {f} {f}
       \<or> collision sha256_hex {bs. deterministic_json_bytes (source_identity_preimage s) = Inr bs}
           {bs. deterministic_json_bytes (source_identity_preimage s) = Inr bs})"
proof -
  have "verified_journal_snapshot strict_pydantic sample_stat None None (Some []) =
      Inr \<lparr>js_events = [], js_verification = \<lparr>vr_ok = True, vr_records_verified = 0,
           vr_last_event_hash = None, vr_issues = []\<rparr>,
         js_metadata_before = Some (fst sample_stat), js_metadata_after = Some (snd sample_stat),
         js_journal_sha256 = Some (sha256_digest [])\<rparr>" (is "_ = Inr ?s")
    using strict.snapshot_of_good_records [of "[]" sample_stat] by (simp add: journal_bytes_def)
  moreover obtain i where "journal_source_identity ?s = Inr i"
  proof -
    have "length (nat_repr 0) \<le> max_int_digits" by code_simp
    then obtain bs where "deterministic_json_bytes (source_identity_preimage ?s) = Inr bs"
      using preimage_bytes_exist [of ?s] by (auto simp: snapshot_terminal_hash_def
          snapshot_record_count_def wf_str_digest [unfolded wf_str_def])
    then have "journal_source_identity ?s =
        Inr (JOURNAL_SOURCE_IDENTITY_VERSION @ '':sha256:'' @ sha256_hex bs)"
      by (simp add: journal_source_identity_def snapshot_ok_def)
    then show ?thesis using that by blast
  qed
  ultimately show ?thesis using source_identity_binds_bytes by blast
qed

text \<open>A record that parses but cannot be serialized again makes the verification of the
  journal raise, with the exception of the serializer; no issue is reported. (The payload is
  validated as its own document and serialized one level below the root of the event, and strings
  with lone surrogates parse but have no UTF-8 bytes, so such records exist.)\<close>
theorem unserializable_record_raises:
  assumes "pydantic_laws pd" "wf_event e" "dumps (model_json pd e) = Inr s" "utf8_ok True s"
    and "serialize_event pd (event_canon e) = Inl err"
  shows "verified_journal_snapshot pd stat c h (Some (s @ [newline])) = Inl err"
proof -
  have "printable s" using assms(3) by (rule printable_dumps)
  then have nl: "newline \<notin> set s" by (auto simp: printable_def byte_def)
  have "s \<noteq> []" using assms(3) by (auto simp: model_json_def bnd_Inr_iff)
  moreover have "parse_event pd s = Inr (event_canon e)"
    using pydantic_laws.event_from_json_dumps [OF assms(1-4)] by simp
  ultimately have "check_record pd 0 None (s @ [newline]) = Inl err"
    using nl assms(5) by (simp add: check_record_def check_event_def del: parse_event_Inr_iff)
  then show ?thesis
    by (simp add: verified_journal_snapshot_def file_lines_one [OF nl] scan_start_def)
qed

definition nested_list :: "nat \<Rightarrow> pyv" where
  "nested_list n = ((\<lambda>v. VFrozenList [v]) ^^ n) VNone"

definition deep_event :: event where
  "deep_event = root_event (VFrozenDict [(KStr ''k'', nested_list 63)])"

theorem unserializable_record_raises_witness:
  "wf_event deep_event
    \<and> (\<exists>s. verified_journal_snapshot strict_pydantic sample_stat None None (Some (s @ [newline]))
         = raise TypeError ''JSON depth exceeds 64'')"
proof -
  have "wf_payload (VFrozenDict [(KStr ''k'', nested_list 63)])" by code_simp
  then have wf: "wf_event deep_event" unfolding deep_event_def by (rule wf_root_event)
  have "encodable (model_json strict_pydantic deep_event)" by code_simp
  then obtain s where s: "dumps (model_json strict_pydantic deep_event) = Inr s" "utf8_ok False s"
    using encodable_encodes encodes_def by blast
  have "event_to_dict strict_pydantic (event_canon deep_event) = raise TypeError ''JSON depth exceeds 64''"
    by code_simp
  then have "serialize_event strict_pydantic (event_canon deep_event)
      = raise TypeError ''JSON depth exceeds 64''"
    by (simp add: serialize_event_def)
  then show ?thesis
    using unserializable_record_raises [OF strict.pydantic_laws_axioms wf s(1)
        utf8_ok_surrogatepass [OF s(2)]] wf by blast
qed

definition overflow_line :: bytes where
  "overflow_line = ''{'' @ dquote # ''occurred_at'' @ dquote # '':'' @ dquote
     # ''0001-01-01T00:00:00+05:00'' @ dquote # ''}'' @ [newline]"

text \<open>A record whose timestamp leaves the years 1 to 9999 in UTC makes the verification of
  the journal raise \<open>OverflowError\<close> instead of reporting a parse error.\<close>
theorem overflow_record_raises:
  "verified_journal_snapshot strict_pydantic stat c h (Some overflow_line)
     = raise OverflowError ''date value out of range''"
proof -
  have "check_record strict_pydantic 0 None overflow_line
      = raise OverflowError ''date value out of range''"
    by code_simp
  moreover have "file_lines overflow_line = [overflow_line]" by code_simp
  ultimately show ?thesis by (simp add: verified_journal_snapshot_def scan_start_def)
qed

end
