(* ===== verification/AnchorClaims.thy ===== *)
theory AnchorClaims
  imports Anchors JournalClaims
begin

text \<open>
  The properties of \<open>Anchors\<close>: printed anchors and log entries parse back, an append keeps the log
  verifying, the last entry hash fixes the log, an anchor fixes the journal, and what a stripped
  signature or a missing newline can hide.
\<close>

section \<open>Timestamps\<close>

lemma py_replace_last:
  "c \<notin> set s \<Longrightarrow> py_replace (c # p) new (s @ c # p) = s @ new"
proof (induction s)
  case Nil
  then show ?case
    by (simp add: py_replace.simps [of _ _ "c # p"] py_replace.simps [of _ _ "[]"] py_startswith_def)
next
  case (Cons d s)
  then have "d \<noteq> c" by auto
  with Cons show ?case by (simp add: py_replace.simps [of _ _ "d # s @ c # p"])
qed

lemma no_Z_pad: "CHR ''Z'' \<notin> set (pad_repr w n)"
  using pad_repr_digits [of "CHR ''Z''" w n] by (auto simp: is_digit_def byte_def)

lemma anchor_timestamp_utc: "is_utc t \<Longrightarrow> anchor_timestamp t = Inr (iso_z t)"
  using canonical_timestamp_utc [of t] by (simp add: anchor_timestamp_def canonical_timestamp_def is_utc_def)

lemma anchor_datetime_iso: "is_utc t \<Longrightarrow> anchor_datetime lu (iso_z t) = Inr t"
proof -
  assume t: "is_utc t"
  have "py_replace ''Z'' ''+00:00'' (iso_z t) = isoformat t"
    using py_replace_last [of "CHR ''Z''" "iso_date t @ ''T'' @ iso_time t" "[]"] t
    by (simp add: iso_z_def isoformat_def is_utc_def iso_offset_0 iso_date_def iso_time_def no_Z_pad)
  then show ?thesis
    using t fromisoformat_isoformat [OF t] by (simp add: anchor_datetime_def is_utc_def)
qed

lemma utf8_ok_iso_z: "is_utc t \<Longrightarrow> iso_z t \<noteq> []"
  by (simp add: iso_z_def)

section \<open>Anchors and entries read back\<close>

definition ok_anchor :: "JournalAnchor \<Rightarrow> bool" where
  "ok_anchor a \<longleftrightarrow> ja_journal_path a \<noteq> [] \<and> ja_anchor_version a \<noteq> [] \<and> is_utc (ja_created_at a)
     \<and> is_py_int (ja_record_count a) \<and> is_json (ja_last_event_hash a)
     \<and> is_json (ja_signature_algorithm a) \<and> is_json (ja_signature a)"

definition ok_entry :: "JournalAnchorLogEntry \<Rightarrow> bool" where
  "ok_entry e \<longleftrightarrow> ok_anchor (le_anchor e) \<and> le_log_version e \<noteq> [] \<and> is_utc (le_created_at e)
     \<and> is_py_int (le_sequence e) \<and> is_json (le_previous_entry_hash e) \<and> is_json (le_entry_hash e)"

definition canon_anchor :: "JournalAnchor \<Rightarrow> JournalAnchor" where
  "canon_anchor a = a\<lparr>ja_last_event_hash := canon (ja_last_event_hash a),
     ja_signature_algorithm := canon (ja_signature_algorithm a), ja_signature := canon (ja_signature a)\<rparr>"

definition canon_entry :: "JournalAnchorLogEntry \<Rightarrow> JournalAnchorLogEntry" where
  "canon_entry e = e\<lparr>le_anchor := canon_anchor (le_anchor e),
     le_previous_entry_hash := canon (le_previous_entry_hash e), le_entry_hash := canon (le_entry_hash e)\<rparr>"

lemma is_py_int_json: "is_py_int v \<Longrightarrow> is_json v \<and> canon v = v"
  by (cases v) auto

lemma same_dict_get: "same_dict d kvs \<Longrightarrow> get_or_none d k = (case dget kvs k of None \<Rightarrow> VNone | Some v \<Rightarrow> v)"
  by (simp add: same_dict_def get_or_none_def)

lemma anchor_from_same:
  assumes "ok_anchor a" "same_dict d (map (\<lambda>(k, v). (k, canon v)) (anchor_items a (iso_z (ja_created_at a))))"
  shows "anchor_from_dict lu d = Inr (canon_anchor a)"
  using assms(1) anchor_datetime_iso [of "ja_created_at a" lu] is_py_int_json [of "ja_record_count a"]
    utf8_ok_iso_z [of "ja_created_at a"]
  by (simp add: anchor_from_dict_def required_str_def required_int_def same_dict_get [OF assms(2)]
      anchor_items_def ok_anchor_def canon_anchor_def)

lemma is_json_anchor: "ok_anchor a \<Longrightarrow> is_json (obj (anchor_items a ts))"
  by (auto simp: ok_anchor_def anchor_items_def is_py_int_json)

lemma anchor_as_dict: "ok_anchor a \<Longrightarrow>
    JournalAnchor_as_dict a = Inr (obj (anchor_items a (iso_z (ja_created_at a))))"
  by (simp add: JournalAnchor_as_dict_def ok_anchor_def anchor_timestamp_utc)

definition entry_items :: "JournalAnchorLogEntry \<Rightarrow> (string \<times> pyv) list" where
  "entry_items e =
     [(''anchor'', obj (anchor_items (le_anchor e) (iso_z (ja_created_at (le_anchor e))))),
      (''created_at'', VStr (iso_z (le_created_at e))), (''entry_hash'', le_entry_hash e),
      (''log_version'', VStr (le_log_version e)),
      (''previous_entry_hash'', le_previous_entry_hash e), (''sequence'', le_sequence e)]"

lemma entry_as_dict: "ok_entry e \<Longrightarrow> JournalAnchorLogEntry_as_dict e = Inr (obj (entry_items e))"
  by (simp add: JournalAnchorLogEntry_as_dict_def ok_entry_def anchor_as_dict anchor_timestamp_utc
      entry_items_def)

lemma is_json_entry: "ok_entry e \<Longrightarrow> is_json (obj (entry_items e))"
  using is_json_anchor [of "le_anchor e"]
  by (auto simp: ok_entry_def entry_items_def is_py_int_json)

lemma entry_from_canon:
  assumes "ok_entry e"
  obtains d where "canon (obj (entry_items e)) = VDict d"
    "anchor_log_entry_from_dict lu d = Inr (canon_entry e)"
proof -
  have "distinct (map fst (entry_items e))" by (simp add: entry_items_def)
  then obtain d where d: "canon (obj (entry_items e)) = VDict d"
    "same_dict d (map (\<lambda>(k, v). (k, canon v)) (entry_items e))" by (rule canon_obj_same)
  let ?kvs = "anchor_items (le_anchor e) (iso_z (ja_created_at (le_anchor e)))"
  have "distinct (map fst ?kvs)" by (simp add: anchor_items_def)
  then obtain ad where ad: "canon (obj ?kvs) = VDict ad"
    "same_dict ad (map (\<lambda>(k, v). (k, canon v)) ?kvs)" by (rule canon_obj_same)
  have "anchor_from_dict lu ad = Inr (canon_anchor (le_anchor e))"
    using assms ad(2) by (intro anchor_from_same) (auto simp: ok_entry_def)
  moreover have vs: "canon (VStr s) = VStr s" for s by simp
  ultimately have "anchor_log_entry_from_dict lu d = Inr (canon_entry e)"
    using assms ad(1) anchor_datetime_iso [of "le_created_at e" lu] is_py_int_json [of "le_sequence e"]
    by (simp add: anchor_log_entry_from_dict_def required_str_def required_int_def
        same_dict_get [OF d(2)] entry_items_def ok_entry_def canon_entry_def utf8_ok_iso_z vs del: canon.simps)
  then show ?thesis using d(1) that by blast
qed


section \<open>The printed entry\<close>

lemma canon_obj_cong:
  "map (\<lambda>(k, v). (k, canon v)) kvs = map (\<lambda>(k, v). (k, canon v)) kvs' \<Longrightarrow> canon (obj kvs) = canon (obj kvs')"
  by (simp only: canon.simps map_obj_items)

lemma canon_anchor_items: "canon (obj (anchor_items (canon_anchor a) ts)) = canon (obj (anchor_items a ts))"
  by (rule canon_obj_cong) (simp add: anchor_items_def canon_anchor_def)

lemma canon_entry_items: "canon (obj (entry_items (canon_entry e))) = canon (obj (entry_items e))"
proof (rule canon_obj_cong)
  show "map (\<lambda>(k, v). (k, canon v)) (entry_items (canon_entry e))
      = map (\<lambda>(k, v). (k, canon v)) (entry_items e)"
    using canon_anchor_items [of "le_anchor e"]
    by (simp add: entry_items_def canon_entry_def canon_anchor_def del: canon.simps)
qed

lemma ok_canon_entry: "ok_entry e \<Longrightarrow> ok_entry (canon_entry e)"
  by (auto simp: ok_entry_def canon_entry_def ok_anchor_def canon_anchor_def is_json_canon)

lemma canon_entry_idem [simp]: "canon_entry (canon_entry e) = canon_entry e"
  by (simp add: canon_entry_def canon_anchor_def)

text \<open>The bytes an entry hash covers: the entry with its own hash left out.\<close>

definition unhashed :: "JournalAnchorLogEntry \<Rightarrow> JournalAnchorLogEntry" where
  "unhashed e = e\<lparr>le_entry_hash := VNone\<rparr>"

lemma ok_unhashed: "ok_entry e \<Longrightarrow> ok_entry (unhashed e)"
  by (simp add: ok_entry_def unhashed_def)

lemma unhashed_canon: "unhashed (canon_entry e) = canon_entry (unhashed e)"
  by (simp add: unhashed_def canon_entry_def)

definition log_content :: "JournalAnchorLogEntry \<Rightarrow> bytes" where
  "log_content e =
     (case bnd (JournalAnchorLogEntry_hash_input_dict e) deterministic_json_bytes of Inr bs \<Rightarrow> bs | Inl _ \<Rightarrow> [])"

lemma det_bytes_iff: "deterministic_json_bytes v = Inr bs \<longleftrightarrow> dumps v = Inr bs \<and> utf8_ok False bs"
  by (auto simp only: deterministic_json_bytes_def bnd_Inr_iff py_encode_Inr)

lemma entry_hash_iff:
  assumes "ok_entry e"
  shows "anchor_log_entry_hash e = Inr h \<longleftrightarrow>
    (\<exists>bs. deterministic_json_bytes (obj (entry_items (unhashed e))) = Inr bs \<and> h = sha256_digest bs
       \<and> log_content e = bs)"
proof -
  obtain v where v: "v = obj (entry_items (unhashed e))" by simp
  have "JournalAnchorLogEntry_hash_input_dict e = Inr v"
    using entry_as_dict [OF ok_unhashed [OF assms]]
    by (simp only: JournalAnchorLogEntry_hash_input_dict_def unhashed_def v)
  then show ?thesis
    unfolding v [symmetric] anchor_log_entry_hash_def log_content_def
    by (auto simp: bnd_Inr_iff)
qed

lemma dumps_canon_entry:
  assumes "ok_entry e"
  shows "deterministic_json_bytes (obj (entry_items (canon_entry e))) = Inr bs
    \<longleftrightarrow> deterministic_json_bytes (obj (entry_items e)) = Inr bs"
  using dumps_canon_iff [OF is_json_entry [OF assms], of bs]
    dumps_canon_iff [OF is_json_entry [OF ok_canon_entry [OF assms]], of bs]
  by (simp only: canon_entry_items det_bytes_iff)

lemma entry_hash_canon:
  assumes "ok_entry e"
  shows "anchor_log_entry_hash (canon_entry e) = Inr h \<longleftrightarrow> anchor_log_entry_hash e = Inr h"
    and "anchor_log_entry_hash e = Inr h \<Longrightarrow> log_content (canon_entry e) = log_content e"
proof -
  have d: "deterministic_json_bytes (obj (entry_items (unhashed (canon_entry e)))) = Inr bs
      \<longleftrightarrow> deterministic_json_bytes (obj (entry_items (unhashed e))) = Inr bs" for bs
    using dumps_canon_entry [OF ok_unhashed [OF assms]] by (simp only: unhashed_canon)
  obtain v w where vw: "v = obj (entry_items (unhashed (canon_entry e)))" "w = obj (entry_items (unhashed e))"
    by simp
  have i: "JournalAnchorLogEntry_hash_input_dict (canon_entry e) = Inr v"
    "JournalAnchorLogEntry_hash_input_dict e = Inr w"
    using entry_as_dict [OF ok_unhashed [OF ok_canon_entry [OF assms]]]
      entry_as_dict [OF ok_unhashed [OF assms]]
    by (simp_all only: JournalAnchorLogEntry_hash_input_dict_def unhashed_def vw)
  have d': "deterministic_json_bytes v = Inr bs \<longleftrightarrow> deterministic_json_bytes w = Inr bs" for bs
    using d by (simp only: vw)
  show "anchor_log_entry_hash (canon_entry e) = Inr h \<longleftrightarrow> anchor_log_entry_hash e = Inr h"
    using d' by (simp add: anchor_log_entry_hash_def i bnd_Inr_iff)
  show "anchor_log_entry_hash e = Inr h \<Longrightarrow> log_content (canon_entry e) = log_content e"
    using d' [of "log_content e"] by (auto simp: anchor_log_entry_hash_def log_content_def i bnd_Inr_iff)
qed

section \<open>The appended line\<close>

lemma splitlines_from_LF:
  "splitlines_from acc (cs @ CHR 0x0A # ds) = splitlines_from acc (cs @ [CHR 0x0A]) @ splitlines_from [] ds"
proof (induction acc cs rule: splitlines_from.induct)
  case (2 acc c cs)
  then show ?case by (cases cs) auto
qed simp

lemma splitlines_from_plain:
  "CHR 0x0A \<notin> set cs \<Longrightarrow> CHR 0x0D \<notin> set cs \<Longrightarrow>
   splitlines_from acc (cs @ [CHR 0x0A]) = [rev acc @ cs]
   \<and> splitlines_from acc cs = (if acc = [] \<and> cs = [] then [] else [rev acc @ cs])"
  by (induction cs arbitrary: acc) auto

definition complete_log :: "bytes option \<Rightarrow> bool" where
  "complete_log file \<longleftrightarrow> file_bytes file = [] \<or> last (file_bytes file) = CHR 0x0A"

lemma log_lines_append:
  assumes "complete_log file" "printable bs"
  shows "log_lines (Some (file_bytes file @ bs @ [CHR 0x0A])) = log_lines file @ [bs]"
proof -
  have bs: "CHR 0x0A \<notin> set bs" "CHR 0x0D \<notin> set bs"
    using assms(2) by (auto simp: printable_def byte_def)
  have "splitlines (file_bytes file @ bs @ [CHR 0x0A]) = splitlines (file_bytes file) @ [bs]"
  proof (cases "file_bytes file = []")
    case True
    then show ?thesis using splitlines_from_plain [OF bs, of "[]"] by (simp add: splitlines_def)
  next
    case False
    then obtain cs where cs: "file_bytes file = cs @ [CHR 0x0A]"
      using assms(1) by (metis append_butlast_last_id complete_log_def)
    show ?thesis
      using splitlines_from_LF [of "[]" cs "bs @ [CHR 0x0A]"] splitlines_from_plain [OF bs, of "[]"]
      by (simp add: splitlines_def cs)
  qed
  then show ?thesis
    by (cases "file") (simp_all add: log_lines_def file_bytes_def splitlines_def)
qed

lemma scan_log_Cons_ok:
  "scan_log lu st (l # ls) = Inr st' \<and> ls_issues st' = [] \<longleftrightarrow>
     (\<exists>e h. parse_log_record lu (ls_records_verified st + 1) l = Inr (Inr e)
        \<and> check_log_entry (ls_records_verified st + 1) (ls_records_verified st) (ls_last_entry_hash st) e
            = Inr (Inr h)
        \<and> scan_log lu (st\<lparr>ls_records_verified := ls_records_verified st + 1,
             ls_last_entry_hash := Some h, ls_entries := ls_entries st @ [e]\<rparr>) ls = Inr st'
        \<and> ls_issues st' = [])"
  by (auto simp: bnd_Inr_iff split: sum.split_asm) (case_tac xa, auto)

lemma scan_log_append:
  "scan_log lu st ls = Inr st' \<Longrightarrow> ls_issues st' = [] \<Longrightarrow> scan_log lu st (ls @ ms) = scan_log lu st' ms"
proof (induction ls arbitrary: st)
  case (Cons l ls)
  then obtain e c where
    "parse_log_record lu (ls_records_verified st + 1) l = Inr (Inr e)"
    "check_log_entry (ls_records_verified st + 1) (ls_records_verified st) (ls_last_entry_hash st) e = Inr (Inr c)"
    "scan_log lu (st\<lparr>ls_records_verified := ls_records_verified st + 1,
       ls_last_entry_hash := Some c, ls_entries := ls_entries st @ [e]\<rparr>) ls = Inr st'"
    using scan_log_Cons_ok by blast
  then show ?case using Cons.IH Cons.prems(2) by simp
qed simp

lemma parse_printed_entry:
  assumes "ok_entry e" "dumps (obj (entry_items e)) = Inr bs" "utf8_ok False bs"
  shows "parse_log_record lu n bs = Inr (Inr (canon_entry e))"
    and "load_log_record lu bs = Inr (canon_entry e)" and "printable bs"
proof -
  obtain d where d: "canon (obj (entry_items e)) = VDict d"
    "anchor_log_entry_from_dict lu d = Inr (canon_entry e)"
    using entry_from_canon [OF assms(1)] by blast
  have l: "loads_bytes False bs = Inr (VDict d)"
    using loads_bytes_dumps [of "obj_items (entry_items e)" bs False] assms is_json_entry [OF assms(1)] d(1)
      utf8_ok_surrogatepass by simp
  have "bs \<noteq> []" using dumps_start [OF assms(2) is_json_entry [OF assms(1)]] by simp
  then show "parse_log_record lu n bs = Inr (Inr (canon_entry e))"
    using l d(2) by (simp add: parse_log_record_def)
  show "load_log_record lu bs = Inr (canon_entry e)" using l d(2) by (simp add: load_log_record_def)
  show "printable bs" using printable_dumps(1) [OF assms(2)] .
qed

section \<open>Verified logs\<close>

definition closed_utc :: "(datetime \<Rightarrow> datetime res) \<Rightarrow> bool" where
  "closed_utc lu \<longleftrightarrow> (\<forall>t u. lu t = Inr u \<longrightarrow> is_utc u)"

text \<open>What a verified record is, whatever text it was read from.\<close>

definition log_record :: "JournalAnchorLogEntry \<Rightarrow> bool" where
  "log_record e \<longleftrightarrow> ok_entry e \<and> canon_entry e = e
     \<and> (\<exists>h. anchor_log_entry_hash e = Inr h \<and> le_entry_hash e = VStr h)"

definition own_entry_hash :: "JournalAnchorLogEntry \<Rightarrow> string" where
  "own_entry_hash e = (case le_entry_hash e of VStr h \<Rightarrow> h | _ \<Rightarrow> [])"

definition prev_entry_hash :: "JournalAnchorLogEntry \<Rightarrow> string option" where
  "prev_entry_hash e = (case le_previous_entry_hash e of VStr h \<Rightarrow> Some h | _ \<Rightarrow> None)"

lemma log_record_hash:
  "log_record e \<Longrightarrow> own_entry_hash e = sha256_digest (log_content e)
     \<and> le_entry_hash e = VStr (own_entry_hash e)
     \<and> deterministic_json_bytes (obj (entry_items (unhashed e))) = Inr (log_content e)"
  using entry_hash_iff [of e] by (auto simp: log_record_def own_entry_hash_def)

lemma log_content_inj:
  assumes "log_record e" "log_record f" "log_content e = log_content f"
  shows "e = f"
proof -
  have ok: "ok_entry (unhashed e)" "ok_entry (unhashed f)"
    using assms(1,2) by (auto simp: log_record_def ok_unhashed)
  obtain v w where vw: "v = obj (entry_items (unhashed e))" "w = obj (entry_items (unhashed f))" by simp
  have "dumps v = Inr (log_content e)" "dumps w = Inr (log_content e)"
    using log_record_hash [OF assms(1)] log_record_hash [OF assms(2)] assms(3)
    by (simp_all only: vw det_bytes_iff)
  moreover have "is_json v" "is_json w" using is_json_entry [OF ok(1)] is_json_entry [OF ok(2)] by (simp_all only: vw)
  ultimately have c: "canon v = canon w"
    using loads_dumps [of v _ False] loads_dumps [of w _ False] by simp
  obtain d where d: "canon v = VDict d"
    "anchor_log_entry_from_dict Inr d = Inr (canon_entry (unhashed e))"
    using entry_from_canon [OF ok(1)] vw(1) by blast
  obtain d' where d': "canon w = VDict d'"
    "anchor_log_entry_from_dict Inr d' = Inr (canon_entry (unhashed f))"
    using entry_from_canon [OF ok(2)] vw(2) by blast
  have "canon_entry (unhashed e) = canon_entry (unhashed f)"
    using c d d' by simp
  then have "unhashed e = unhashed f"
    using assms(1,2) by (metis log_record_def unhashed_canon)
  moreover have "le_entry_hash e = le_entry_hash f"
    using log_record_hash [OF assms(1)] log_record_hash [OF assms(2)] assms(3) by simp
  ultimately show ?thesis by (cases e; cases f) (simp add: unhashed_def)
qed

interpretation anchor_log: hash_chain sha256_digest prev_entry_hash own_entry_hash log_content log_record
  by unfold_locales (auto simp: log_record_hash intro: log_content_inj)

lemma is_json_get:
  assumes "is_json (VDict d)"
  shows "is_json (get_or_none d k)"
proof -
  have "is_json v" if "dget d (KStr k) = Some v" for v
  proof -
    have "(KStr k, v) \<in> set d" using that by (induction d "KStr k" rule: dget.induct) (auto split: if_splits)
    then show ?thesis using assms by (auto simp: list_all_iff)
  qed
  then show ?thesis by (auto simp: get_or_none_def get_item_def split: option.split)
qed

lemma anchor_datetime_utc:
  "closed_utc lu \<Longrightarrow> anchor_datetime lu s = Inr u \<Longrightarrow> is_utc u"
  using iso_parse_ok utc_of_aware_is_utc
  by (fastforce simp: anchor_datetime_def bnd_Inr_iff fromisoformat_def closed_utc_def split: option.splits)

lemma required_str_Inr: "required_str d k = Inr s \<Longrightarrow> s \<noteq> []"
  by (auto simp: required_str_def split: pyv.splits if_splits)

lemma required_int_Inr: "required_int d k = Inr v \<Longrightarrow> is_py_int v"
  by (auto simp: required_int_def split: if_splits)

lemma anchor_from_dict_ok:
  assumes "closed_utc lu" "is_json (VDict d)" "anchor_from_dict lu d = Inr a"
  shows "ok_anchor a"
  using assms(3)
  by (auto simp: anchor_from_dict_def bnd_Inr_iff ok_anchor_def is_json_get [OF assms(2)]
      anchor_datetime_utc [OF assms(1)] dest: required_str_Inr required_int_Inr simp del: is_json.simps)

lemma entry_from_dict_ok:
  assumes "closed_utc lu" "is_json (VDict d)" "anchor_log_entry_from_dict lu d = Inr e"
  shows "ok_entry e"
proof -
  obtain ad where ad: "get_or_none d ''anchor'' = VDict ad"
    using assms(3) by (cases "get_or_none d ''anchor''") (auto simp: anchor_log_entry_from_dict_def bnd_Inr_iff)
  have "is_json (VDict ad)" using is_json_get [OF assms(2), of "''anchor''"] ad by metis
  note a = anchor_from_dict_ok [OF assms(1) this]
  show ?thesis
    using assms(3) a
    by (auto simp: anchor_log_entry_from_dict_def bnd_Inr_iff ok_entry_def ad is_json_get [OF assms(2)]
        anchor_datetime_utc [OF assms(1)] dest: required_str_Inr required_int_Inr simp del: is_json.simps)
qed

lemma parse_log_record_ok:
  assumes "closed_utc lu" "parse_log_record lu n l = Inr (Inr e)"
  shows "load_log_record lu l = Inr e \<and> ok_entry e"
proof -
  obtain v where v: "loads_bytes False l = Inr v"
    using assms(2) by (auto simp: parse_log_record_def split: if_splits sum.splits)
  then obtain d where d: "loads_bytes False l = Inr (VDict d)" "anchor_log_entry_from_dict lu d = Inr e"
    using assms(2) by (cases v) (auto simp: parse_log_record_def split: if_splits sum.splits)
  then show ?thesis
    using entry_from_dict_ok [OF assms(1) loads_bytes_is_json d(2)] by (simp add: load_log_record_def)
qed

lemma py_eq_opt_str: "py_eq v (opt_str x) \<Longrightarrow> v = opt_str x"
  by (cases x; cases v) (auto simp: scalar_eq_def split: pyfloat.splits if_splits option.splits)

lemma py_eq_str: "py_eq v (VStr x) \<Longrightarrow> v = VStr x"
  using py_eq_opt_str [of v "Some x"] by simp

lemma opt_str_case: "(case opt_str x of VStr s \<Rightarrow> Some s | _ \<Rightarrow> None) = x"
  by (cases x) auto

lemma check_log_entry_ok:
  assumes "ok_entry e" "check_log_entry n k p e = Inr (Inr h)"
  shows "log_record (canon_entry e) \<and> own_entry_hash (canon_entry e) = h
    \<and> prev_entry_hash (canon_entry e) = p"
proof -
  have c: "py_eq (le_previous_entry_hash e) (opt_str p)" "anchor_log_entry_hash e = Inr h"
    "py_eq (le_entry_hash e) (VStr h)"
    using assms(2) by (auto simp: check_log_entry_def bnd_Inr_iff split: if_splits)
  have "le_previous_entry_hash e = opt_str p" "le_entry_hash e = VStr h"
    using py_eq_opt_str [OF c(1)] py_eq_str [OF c(3)] by auto
  then show ?thesis
    using c(2) assms(1) entry_hash_canon(1) [OF assms(1), of h] ok_canon_entry [OF assms(1)]
    by (auto simp: log_record_def own_entry_hash_def prev_entry_hash_def canon_entry_def
        canon_anchor_def opt_str_case)
qed

lemma scan_log_ok:
  assumes "closed_utc lu" "scan_log lu st ls = Inr st'" "ls_issues st' = []"
  shows "\<exists>es. traverse (load_log_record lu) ls = Inr es \<and> ls_entries st' = ls_entries st @ es
    \<and> ls_records_verified st' = ls_records_verified st + length es
    \<and> chained prev_entry_hash own_entry_hash (ls_last_entry_hash st) (map canon_entry es)
    \<and> (\<forall>e\<in>set es. log_record (canon_entry e))
    \<and> ls_last_entry_hash st' = last_hash own_entry_hash (ls_last_entry_hash st) (map canon_entry es)"
  using assms(2,3)
proof (induction ls arbitrary: st)
  case (Cons l ls)
  then obtain e h where eh:
    "parse_log_record lu (ls_records_verified st + 1) l = Inr (Inr e)"
    "check_log_entry (ls_records_verified st + 1) (ls_records_verified st) (ls_last_entry_hash st) e = Inr (Inr h)"
    "scan_log lu (st\<lparr>ls_records_verified := ls_records_verified st + 1,
       ls_last_entry_hash := Some h, ls_entries := ls_entries st @ [e]\<rparr>) ls = Inr st'"
    using scan_log_Cons_ok by blast
  have p: "load_log_record lu l = Inr e" "ok_entry e" using parse_log_record_ok [OF assms(1) eh(1)] by auto
  show ?case
    using Cons.IH [OF eh(3) Cons.prems(2)] p check_log_entry_ok [OF p(2) eh(2)] by auto
qed simp

lemma verify_log_ok:
  assumes "verify_journal_anchor_log lu c h file = Inr r" "lv_ok r"
  shows "\<exists>st. scan_log lu log_start (log_lines file) = Inr st \<and> ls_issues st = []
    \<and> lv_records_verified r = ls_records_verified st \<and> lv_last_entry_hash r = ls_last_entry_hash st
    \<and> verify_journal_anchor_log lu None None file = Inr (r\<lparr>lv_issues := []\<rparr>)"
  using assms by (auto simp: verify_journal_anchor_log_def bnd_Inr_iff log_expectations_def Let_def)

lemma verified_log_records:
  assumes "closed_utc lu" "verify_journal_anchor_log lu c h file = Inr r" "lv_ok r"
  shows "\<exists>es. load_journal_anchor_log lu file = Inr es \<and> lv_records_verified r = length es
    \<and> chained prev_entry_hash own_entry_hash None (map canon_entry es)
    \<and> (\<forall>e\<in>set es. log_record (canon_entry e))
    \<and> lv_last_entry_hash r = last_hash own_entry_hash None (map canon_entry es)"
proof -
  obtain st where st: "scan_log lu log_start (log_lines file) = Inr st" "ls_issues st = []"
    "lv_records_verified r = ls_records_verified st" "lv_last_entry_hash r = ls_last_entry_hash st"
    "verify_journal_anchor_log lu None None file = Inr (r\<lparr>lv_issues := []\<rparr>)"
    using verify_log_ok [OF assms(2,3)] by blast
  show ?thesis
    using scan_log_ok [OF assms(1) st(1,2)] st(3-) assms(3)
    by (auto simp: load_journal_anchor_log_def log_start_def)
qed

lemma appended_log_verifies:
  assumes "append_journal_anchor_log lu file a t = Inr (e, content)"
    and "complete_log file" "ok_anchor a" "is_utc t"
  shows "\<exists>old r. verify_journal_anchor_log lu None None file = Inr old
    \<and> verify_journal_anchor_log lu None None (Some content) = Inr r \<and> lv_ok r
    \<and> lv_records_verified r = lv_records_verified old + 1
    \<and> Some (own_entry_hash e) = lv_last_entry_hash r
    \<and> complete_log (Some content)"
proof -
  obtain old h bs where old: "verify_journal_anchor_log lu None None file = Inr old" "lv_ok old"
    and h: "anchor_log_entry_hash (next_log_entry old a t) = Inr h"
    and e: "e = (next_log_entry old a t)\<lparr>le_entry_hash := VStr h\<rparr>"
    and bs: "bnd (JournalAnchorLogEntry_as_dict e) deterministic_json_bytes = Inr bs"
      "content = file_bytes file @ bs @ [CHR 0x0A]"
    using assms(1) by (auto simp: append_journal_anchor_log_def Let_def bnd_Inr_iff split: if_splits)
  obtain st where st: "scan_log lu log_start (log_lines file) = Inr st" "ls_issues st = []"
    "lv_records_verified old = ls_records_verified st" "lv_last_entry_hash old = ls_last_entry_hash st"
    using verify_log_ok [OF old] by blast
  have ok: "ok_entry e"
    using assms(3,4) by (cases "lv_last_entry_hash old")
      (auto simp: e ok_entry_def next_log_entry_def JOURNAL_ANCHOR_LOG_VERSION_def)
  obtain v where v: "v = obj (entry_items e)" by simp
  have "deterministic_json_bytes v = Inr bs" using bs(1) entry_as_dict [OF ok] by (simp add: v)
  then have p: "parse_log_record lu n bs = Inr (Inr (canon_entry e))" "printable bs" for n
    using parse_printed_entry [OF ok] by (auto simp: det_bytes_iff v simp del: dumps.simps utf8_ok.simps)
  have he: "anchor_log_entry_hash e = Inr h"
    using h by (simp add: e anchor_log_entry_hash_def JournalAnchorLogEntry_hash_input_dict_def
        next_log_entry_def)
  have "check_log_entry (ls_records_verified st + 1) (ls_records_verified st) (ls_last_entry_hash st)
      (canon_entry e) = Inr (Inr h)"
    using entry_hash_canon(1) [OF ok, of h] he st(3,4)
    by (cases "ls_last_entry_hash st")
      (auto simp: check_log_entry_def canon_entry_def e next_log_entry_def scalar_eq_def)
  then have "scan_log lu log_start (log_lines (Some content))
      = Inr (st\<lparr>ls_records_verified := ls_records_verified st + 1,
          ls_last_entry_hash := Some h, ls_entries := ls_entries st @ [canon_entry e]\<rparr>)"
    using log_lines_append [OF assms(2) p(2)] scan_log_append [OF st(1,2)] p(1) bs(2) by simp
  then show ?thesis
    using old(1) st(2,3) bs(2)
    by (auto simp: verify_journal_anchor_log_def log_expectations_def Let_def own_entry_hash_def e
        complete_log_def file_bytes_def)
qed

section \<open>Properties\<close>

text \<open>C20. Appending to an anchor log that ends with a newline (or is empty) keeps it verifying:
  one more record is verified, the last entry hash is the hash of the returned entry, and the log
  ends with a newline again.\<close>
theorem anchor_append_verifies:
  assumes "append_journal_anchor_log lu file a t = Inr (e, content)"
    and "complete_log file" "ok_anchor a" "is_utc t"
  shows "\<exists>old r. verify_journal_anchor_log lu None None file = Inr old
    \<and> verify_journal_anchor_log lu None None (Some content) = Inr r \<and> lv_ok r
    \<and> lv_records_verified r = lv_records_verified old + 1
    \<and> Some (own_entry_hash e) = lv_last_entry_hash r
    \<and> complete_log (Some content)"
  by (rule appended_log_verifies [OF assms])

text \<open>C21. Two anchor logs that verify with the same last entry hash hold the same entries (up to
  the order of the members of JSON objects), unless two different records collide under
  SHA-256.\<close>
theorem anchor_log_tamper_evident:
  assumes "closed_utc lu"
    and "verify_journal_anchor_log lu c h file = Inr r" "lv_ok r"
    and "verify_journal_anchor_log lu c' h' other = Inr r'" "lv_ok r'"
    and "lv_last_entry_hash r = lv_last_entry_hash r'"
  shows "\<exists>es fs. load_journal_anchor_log lu file = Inr es \<and> load_journal_anchor_log lu other = Inr fs
    \<and> (map canon_entry es = map canon_entry fs
       \<or> collision sha256_digest (log_content ` canon_entry ` set es) (log_content ` canon_entry ` set fs))"
proof -
  obtain es where es: "load_journal_anchor_log lu file = Inr es"
    "chained prev_entry_hash own_entry_hash None (map canon_entry es)"
    "\<forall>e\<in>set (map canon_entry es). log_record e"
    "lv_last_entry_hash r = last_hash own_entry_hash None (map canon_entry es)"
    using verified_log_records [OF assms(1-3)] by auto
  obtain fs where fs: "load_journal_anchor_log lu other = Inr fs"
    "chained prev_entry_hash own_entry_hash None (map canon_entry fs)"
    "\<forall>e\<in>set (map canon_entry fs). log_record e"
    "lv_last_entry_hash r' = last_hash own_entry_hash None (map canon_entry fs)"
    using verified_log_records [OF assms(1,4,5)] by auto
  show ?thesis
    using anchor_log.terminal_hash_fixes_chain [OF es(2) fs(2) es(3) fs(3)] es(1,4) fs(1,4) assms(6)
    by simp
qed

section \<open>Anchors of journals\<close>

lemma no_expectations [simp]: "expectation_issues n l None None = []"
  by (simp add: expectation_issues_def)

lemma snapshot_expectations:
  assumes "snapshot_ok s"
  shows "verified_journal_snapshot pd stat c h file = Inr s \<longleftrightarrow>
    verified_journal_snapshot pd stat None None file = Inr s
    \<and> expectation_issues (snapshot_record_count s) (snapshot_terminal_hash s) c h = []"
proof (cases "case file of None \<Rightarrow> Inr scan_start
    | Some content \<Rightarrow> scan_records pd 0 scan_start (file_lines content)")
  case (Inr st)
  show ?thesis
    using assms
    by (auto simp: verified_journal_snapshot_def Inr Let_def snapshot_ok_def snapshot_record_count_def
        snapshot_terminal_hash_def)
qed (simp add: verified_journal_snapshot_def)

lemma expectations_Nil_iff:
  "expectation_issues n l c h = [] \<longleftrightarrow>
     (\<forall>x. c = Some x \<longrightarrow> x = int n) \<and> (\<forall>x. h = Some x \<longrightarrow> l = Some x)"
  by (cases c; cases h) (auto simp: expectation_issues_def)

lemma verify_journal_okD:
  assumes "pydantic_laws pd" "verify_journal pd stat c h file = Inr v" "vr_ok v"
  shows "\<exists>es. file_bytes file = journal_bytes pd es \<and> good_records pd 0 None es
    \<and> vr_records_verified v = length es \<and> vr_last_event_hash v = terminal None es
    \<and> (\<forall>x. c = Some x \<longrightarrow> x = int (length es)) \<and> (\<forall>x. h = Some x \<longrightarrow> terminal None es = Some x)"
proof -
  obtain s where s: "verified_journal_snapshot pd stat c h file = Inr s" "v = js_verification s"
    using assms(2) by (auto simp: verify_journal_def bnd_Inr_iff)
  then have ok: "snapshot_ok s" using assms(3) by (simp add: snapshot_ok_def)
  have "(\<forall>x. c = Some x \<longrightarrow> x = int (snapshot_record_count s))
    \<and> (\<forall>x. h = Some x \<longrightarrow> snapshot_terminal_hash s = Some x)"
    using s(1) snapshot_expectations [OF ok] expectations_Nil_iff by blast
  then show ?thesis
    using snapshot_okD [OF assms(1) s(1) ok] s(2)
    by (auto simp: snapshot_record_count_def snapshot_terminal_hash_def)
qed

lemma verify_journal_good:
  assumes "pydantic_laws pd" "file_bytes file = journal_bytes pd es" "good_records pd 0 None es"
    and "fst stat = snd stat" "c = None \<or> c = Some (int (length es))" "h = None \<or> h = terminal None es"
  shows "\<exists>v. verify_journal pd stat c h file = Inr v \<and> vr_ok v
    \<and> vr_records_verified v = length es \<and> vr_last_event_hash v = terminal None es"
proof -
  have "\<exists>s. verified_journal_snapshot pd stat None None file = Inr s \<and> snapshot_ok s
    \<and> snapshot_record_count s = length es \<and> snapshot_terminal_hash s = terminal None es"
  proof (cases "file")
    case None
    then have "es = []"
      using assms(2) by (cases es) (auto simp: file_bytes_def journal_bytes_def record_line_def)
    then show ?thesis
      using None by (simp add: verified_journal_snapshot_def scan_start_def metadata_issues_def
          expectation_issues_def Let_def snapshot_ok_def snapshot_record_count_def snapshot_terminal_hash_def)
  next
    case (Some content)
    then show ?thesis
      using pydantic_laws.snapshot_of_good_records [OF assms(1,3,4)] assms(2)
      by (simp add: file_bytes_def snapshot_ok_def snapshot_record_count_def snapshot_terminal_hash_def)
  qed
  then obtain s where s: "verified_journal_snapshot pd stat None None file = Inr s" "snapshot_ok s"
    "snapshot_record_count s = length es" "snapshot_terminal_hash s = terminal None es" by blast
  show ?thesis
    using snapshot_expectations [OF s(2), of pd stat c h "file"] s assms(5,6)
    by (auto simp: expectations_Nil_iff verify_journal_def snapshot_ok_def snapshot_record_count_def snapshot_terminal_hash_def)
qed

lemma created_anchor:
  assumes "pydantic_laws pd" "create_journal_anchor pd stat path file key t = Inr a"
  shows "\<exists>es. file_bytes file = journal_bytes pd es \<and> good_records pd 0 None es
    \<and> ja_record_count a = VInt (int (length es)) \<and> ja_last_event_hash a = opt_str (terminal None es)
    \<and> signature_issues a key = Inr [] \<and> (key = None \<longrightarrow> ja_signature a = VNone)"
proof -
  obtain v where v: "verify_journal pd stat None None file = Inr v" "vr_ok v"
    using assms(2) by (auto simp: create_journal_anchor_def bnd_Inr_iff split: if_splits)
  obtain es where es: "file_bytes file = journal_bytes pd es" "good_records pd 0 None es"
    "vr_records_verified v = length es" "vr_last_event_hash v = terminal None es"
    using verify_journal_okD [OF assms(1) v] by blast
  have a: "ja_record_count a = VInt (int (length es)) \<and> ja_last_event_hash a = opt_str (terminal None es)
    \<and> (key = None \<longrightarrow> ja_signature a = VNone)"
    using assms(2) v es(3,4)
    by (auto simp: create_journal_anchor_def Let_def bnd_Inr_iff split: option.splits)
  have "signature_issues a key = Inr []"
  proof (cases key)
    case None
    then show ?thesis using a by (simp add: signature_issues_def)
  next
    case (Some k)
    obtain b sig where b: "anchor_signature b k = Inr sig" "a = b\<lparr>ja_signature := VStr sig\<rparr>"
      using assms(2) v Some by (auto simp: create_journal_anchor_def Let_def bnd_Inr_iff)
    then have "anchor_signature a k = Inr sig"
      by (simp add: anchor_signature_def JournalAnchor_unsigned_dict_def)
    then show ?thesis using Some b(2) by (simp add: signature_issues_def)
  qed
  then show ?thesis using es a by blast
qed

lemma verify_expected_opt:
  "verify_expected pd stat (VInt n) (opt_str h) file = verify_journal pd stat (Some n) h file"
  by (cases h) (simp_all add: verify_expected_def int_of_py_def)

lemma verify_journal_anchor_ok:
  assumes "ja_record_count a = VInt n" "ja_last_event_hash a = opt_str h"
  shows "(\<exists>r. verify_journal_anchor pd stat file a key = Inr r \<and> av_ok r) \<longleftrightarrow>
    signature_issues a key = Inr []
    \<and> (\<exists>v. verify_journal pd stat (Some n) h file = Inr v \<and> vr_ok v)"
proof
  assume "\<exists>r. verify_journal_anchor pd stat file a key = Inr r \<and> av_ok r"
  then show "signature_issues a key = Inr []
    \<and> (\<exists>v. verify_journal pd stat (Some n) h file = Inr v \<and> vr_ok v)"
    using assms by (auto simp: verify_journal_anchor_def bnd_Inr_iff Let_def verify_expected_opt split: if_splits)
qed (use assms in \<open>auto simp: verify_journal_anchor_def Let_def verify_expected_opt\<close>)

text \<open>A created anchor verifies: against the journal it was made of, with the key it was signed
  with (or without one).\<close>
theorem created_anchor_verifies:
  assumes "pydantic_laws pd" "create_journal_anchor pd stat path file key t = Inr a"
    and "fst stat' = snd stat'"
  shows "\<exists>r. verify_journal_anchor pd stat' file a key = Inr r \<and> av_ok r"
proof -
  obtain es where es: "file_bytes file = journal_bytes pd es" "good_records pd 0 None es"
    "ja_record_count a = VInt (int (length es))" "ja_last_event_hash a = opt_str (terminal None es)"
    "signature_issues a key = Inr []"
    using created_anchor [OF assms(1,2)] by blast
  then show ?thesis
    using verify_journal_good [OF assms(1) es(1,2) assms(3), of "Some (int (length es))" "terminal None es"]
    by (auto simp: verify_journal_anchor_ok [OF es(3,4)])
qed

text \<open>C19. A created anchor fixes the journal: any journal that verifies against it is the same
  bytes, unless two different records collide under SHA-256. This holds whatever the key.\<close>
theorem anchor_fixes_journal:
  assumes "pydantic_laws pd" "create_journal_anchor pd stat path file key t = Inr a"
    and "verify_journal_anchor pd stat' other a key' = Inr r" "av_ok r"
  shows "file_bytes other = file_bytes file
    \<or> (\<exists>es fs. file_bytes file = journal_bytes pd es \<and> file_bytes other = journal_bytes pd fs
         \<and> collision sha256_digest (hash_content pd ` set es) (hash_content pd ` set fs))"
proof -
  obtain es where es: "file_bytes file = journal_bytes pd es" "good_records pd 0 None es"
    "ja_record_count a = VInt (int (length es))" "ja_last_event_hash a = opt_str (terminal None es)"
    using created_anchor [OF assms(1,2)] by blast
  obtain v where v: "verify_journal pd stat' (Some (int (length es))) (terminal None es) other = Inr v"
    "vr_ok v"
    using verify_journal_anchor_ok [OF es(3,4)] assms(3,4) by blast
  obtain fs where fs: "file_bytes other = journal_bytes pd fs" "good_records pd 0 None fs"
    "length fs = length es" "\<forall>x. terminal None es = Some x \<longrightarrow> terminal None fs = Some x"
    using verify_journal_okD [OF assms(1) v] by auto
  have "terminal None es = terminal None fs"
  proof (cases "terminal None es")
    case None
    then have "es = []" using pydantic_laws.good_records_chained [OF assms(1) es(2)]
      by (cases es) (auto simp: last_hash_def split: if_splits)
    then show ?thesis using fs(3) by simp
  qed (use fs(4) in auto)
  then show ?thesis
    using pydantic_laws.terminal_hash_fixes_journal [OF assms(1) es(2) fs(2)] es(1) fs(1) by auto
qed

text \<open>An unsigned anchor is accepted whatever signing key the verifier trusts: an anchor
  created without a key for a replaced journal verifies against that journal with every key.\<close>
theorem unsigned_anchor_accepted:
  assumes "pydantic_laws pd" "create_journal_anchor pd stat path file None t = Inr a"
    and "fst stat' = snd stat'"
  shows "\<exists>r. verify_journal_anchor pd stat' file a (Some key) = Inr r \<and> av_ok r"
proof -
  obtain es where es: "file_bytes file = journal_bytes pd es" "good_records pd 0 None es"
    "ja_record_count a = VInt (int (length es))" "ja_last_event_hash a = opt_str (terminal None es)"
    "ja_signature a = VNone"
    using created_anchor [OF assms(1,2)] by blast
  then have "signature_issues a (Some key) = Inr []" by (simp add: signature_issues_def)
  then show ?thesis
    using verify_journal_good [OF assms(1) es(1,2) assms(3), of "Some (int (length es))" "terminal None es"]
    by (auto simp: verify_journal_anchor_ok [OF es(3,4)])
qed

lemma export_bytes_good:
  "good_records pd i p es \<Longrightarrow> export_bytes pd es = Inr (journal_bytes pd es)"
  by (induction es arbitrary: i p)
    (auto simp: good_record_def journal_bytes_def record_line_def bnd_Inr_iff)

text \<open>The exported prefix of any journal that can be read, valid or not, is a journal that
  verifies: it holds the events the snapshot of the source verified, and is a prefix of the
  source's bytes.\<close>
theorem exported_prefix_verifies:
  assumes "pydantic_laws pd"
    and "export_verified_prefix pd stat same_path source output c h file = Inr (r, out)"
    and "fst stat' = snd stat'"
  shows "\<exists>s t rest. verified_journal_snapshot pd stat c h file = Inr s
    \<and> verified_journal_snapshot pd stat' None None (Some out) = Inr t \<and> snapshot_ok t
    \<and> js_events t = js_events s \<and> snapshot_record_count t = vp_records_exported r
    \<and> file_bytes file = out @ rest"
proof -
  obtain s where s: "verified_journal_snapshot pd stat c h file = Inr s"
    "export_bytes pd (js_events s) = Inr out" "vp_records_exported r = snapshot_record_count s"
    using assms(2) by (auto simp: export_verified_prefix_def bnd_Inr_iff split: if_splits)
  obtain rest where g: "file_bytes file = journal_bytes pd (js_events s) @ rest"
    "good_records pd 0 None (js_events s)" "snapshot_record_count s = length (js_events s)"
    using pydantic_laws.snapshot_prefix [OF assms(1) s(1)] by metis
  then have "out = journal_bytes pd (js_events s)" using export_bytes_good s(2) by simp
  then show ?thesis
    using pydantic_laws.snapshot_of_good_records [OF assms(1) g(2) assms(3)] s g
    by (auto simp: snapshot_ok_def snapshot_record_count_def)
qed

text \<open>The anchor log does not notice a lost final newline: without it the log verifies with the
  same result, and the next append continues the last record's line.\<close>
theorem missing_newline_unnoticed:
  assumes "s \<noteq> []" "last s \<notin> {CHR 0x0A, CHR 0x0D}"
  shows "verify_journal_anchor_log lu c h (Some (s @ [CHR 0x0A])) = verify_journal_anchor_log lu c h (Some s)"
proof -
  have "splitlines_from acc (s @ [CHR 0x0A]) = splitlines_from acc s" for acc
    using assms
  proof (induction acc s rule: splitlines_from.induct)
    case (2 acc c cs)
    then show ?case by (cases cs) (auto split: if_splits)
  qed simp
  then show ?thesis by (simp add: verify_journal_anchor_log_def log_lines_def splitlines_def)
qed

section \<open>Witnesses\<close>

definition utc_host :: "datetime \<Rightarrow> datetime res" where
  "utc_host t = (if dt_ok t then Inr (t\<lparr>dt_offset := Some 0\<rparr>) else raise ValueError ''out of range'')"

lemma closed_utc_host: "closed_utc utc_host"
  by (auto simp: closed_utc_def utc_host_def is_utc_def dt_ok_def time_ok_def split: if_splits)

definition sample_anchor :: JournalAnchor where
  "sample_anchor = \<lparr>ja_journal_path = ''j'', ja_record_count = VInt 0, ja_last_event_hash = VNone,
     ja_created_at = sample_time, ja_anchor_version = JOURNAL_ANCHOR_VERSION,
     ja_signature_algorithm = VNone, ja_signature = VNone\<rparr>"

lemma sample_time_utc: "is_utc sample_time"
  by code_simp

lemma ok_sample_anchor: "ok_anchor sample_anchor"
  using sample_time_utc by (simp add: ok_anchor_def sample_anchor_def JOURNAL_ANCHOR_VERSION_def)

lemma encodable_bytes: "encodable v \<Longrightarrow> \<exists>bs. deterministic_json_bytes v = Inr bs"
  using encodable_encodes by (auto simp: det_bytes_iff encodes_def)

lemma wf_str_utf8: "wf_str s \<Longrightarrow> utf8_ok False s"
  by (simp add: wf_str_def)

lemma sample_iso: "iso_z sample_time = ''2026-01-02T03:04:05Z''"
  by code_simp

lemma first_append:
  "\<exists>e content. append_journal_anchor_log utc_host None sample_anchor sample_time = Inr (e, content)"
proof -
  define r where "r = \<lparr>lv_ok = True, lv_records_verified = 0, lv_last_entry_hash = None, lv_issues = []\<rparr>"
  have v: "verify_journal_anchor_log utc_host None None None = Inr r"
    by (simp add: verify_journal_anchor_log_def log_lines_def log_start_def log_expectations_def r_def)
  let ?u = "next_log_entry r sample_anchor sample_time"
  let ?e = "\<lambda>h. ?u\<lparr>le_entry_hash := h\<rparr>"
  have ok: "is_json h \<Longrightarrow> ok_entry (?e h)" for h
    using ok_sample_anchor sample_time_utc
    by (simp add: ok_entry_def next_log_entry_def r_def JOURNAL_ANCHOR_LOG_VERSION_def)
  have enc: "encodable h \<Longrightarrow> encodable (obj (entry_items (?e h)))" for h
    unfolding encodable_obj entry_items_def
    by (simp add: next_log_entry_def r_def sample_anchor_def encodable_obj anchor_items_def sample_iso
        JOURNAL_ANCHOR_VERSION_def JOURNAL_ANCHOR_LOG_VERSION_def byte_def nat_repr.simps
        max_int_digits_def)
  have u: "?e VNone = ?u" by (simp add: next_log_entry_def)
  obtain bs where "deterministic_json_bytes (obj (entry_items (?e VNone))) = Inr bs"
    using encodable_bytes [OF enc [of VNone]] by auto
  then have h: "anchor_log_entry_hash ?u = Inr (sha256_digest bs)"
    using entry_as_dict [OF ok [of VNone]]
    by (simp add: anchor_log_entry_hash_def JournalAnchorLogEntry_hash_input_dict_def)
  let ?f = "?e (VStr (sha256_digest bs))"
  obtain cs where "deterministic_json_bytes (obj (entry_items ?f)) = Inr cs"
    using encodable_bytes [OF enc [of "VStr (sha256_digest bs)"]] wf_str_utf8 [OF wf_str_digest] by auto
  then show ?thesis
    using v h entry_as_dict [OF ok [of "VStr (sha256_digest bs)"]]
    by (simp add: append_journal_anchor_log_def Let_def r_def)
qed

lemma sample_journal:
  "\<exists>f es. good_records strict_pydantic 0 None es \<and> f = Some (journal_bytes strict_pydantic es)
    \<and> es \<noteq> []"
proof -
  obtain r f where a: "append_event strict_pydantic Inr sample_env None sample_event = (Inr r, f)"
    using sample_append by blast
  show ?thesis using identity_boundary.append_event_good [OF wf_sample_event a] by blast
qed

lemma sample_created:
  "\<exists>f a. f \<noteq> None \<and> create_journal_anchor strict_pydantic sample_stat ''j'' f None sample_time = Inr a"
proof -
  obtain es where es: "good_records strict_pydantic 0 None es" using sample_journal by blast
  have "\<exists>v. verify_journal strict_pydantic sample_stat None None
      (Some (journal_bytes strict_pydantic es)) = Inr v \<and> vr_ok v"
    using verify_journal_good [OF strict.pydantic_laws_axioms _ es sample_stat_same,
      of "Some (journal_bytes strict_pydantic es)" None None]
    by (auto simp: file_bytes_def)
  then obtain v where v: "verify_journal strict_pydantic sample_stat None None
      (Some (journal_bytes strict_pydantic es)) = Inr v" "vr_ok v" by blast
  obtain a where "create_journal_anchor strict_pydantic sample_stat ''j''
      (Some (journal_bytes strict_pydantic es)) None sample_time = Inr a"
    using v by (simp add: create_journal_anchor_def Let_def)
  then show ?thesis by blast
qed

theorem anchor_append_verifies_witness:
  "\<exists>e content r. append_journal_anchor_log utc_host None sample_anchor sample_time = Inr (e, content)
    \<and> verify_journal_anchor_log utc_host None None (Some content) = Inr r \<and> lv_ok r
    \<and> Some (own_entry_hash e) = lv_last_entry_hash r"
  using first_append anchor_append_verifies [OF _ _ ok_sample_anchor sample_time_utc]
  by (metis complete_log_def file_bytes_def option.simps(4))

theorem anchor_log_tamper_evident_witness:
  "\<exists>content e r es. verify_journal_anchor_log utc_host None None (Some content) = Inr r \<and> lv_ok r
    \<and> lv_last_entry_hash r = Some (own_entry_hash e)
    \<and> load_journal_anchor_log utc_host (Some content) = Inr es"
proof -
  obtain e content where a: "append_journal_anchor_log utc_host None sample_anchor sample_time = Inr (e, content)"
    using first_append by blast
  obtain r where r: "verify_journal_anchor_log utc_host None None (Some content) = Inr r" "lv_ok r"
    "Some (own_entry_hash e) = lv_last_entry_hash r"
    using appended_log_verifies [OF a _ ok_sample_anchor sample_time_utc]
    by (metis complete_log_def file_bytes_def option.simps(4))
  show ?thesis
    using anchor_log_tamper_evident [OF closed_utc_host r(1,2) r(1,2) refl] r by metis
qed

theorem created_anchor_verifies_witness:
  "\<exists>f a r. f \<noteq> None \<and> create_journal_anchor strict_pydantic sample_stat ''j'' f None sample_time = Inr a
    \<and> verify_journal_anchor strict_pydantic sample_stat f a None = Inr r \<and> av_ok r"
  using created_anchor_verifies [OF strict.pydantic_laws_axioms _ sample_stat_same] sample_created by metis

theorem anchor_fixes_journal_witness:
  "\<exists>f a r. f \<noteq> None \<and> create_journal_anchor strict_pydantic sample_stat ''j'' f None sample_time = Inr a
    \<and> verify_journal_anchor strict_pydantic sample_stat f a None = Inr r \<and> av_ok r
    \<and> (file_bytes f = file_bytes f
       \<or> (\<exists>es fs. file_bytes f = journal_bytes strict_pydantic es
            \<and> file_bytes f = journal_bytes strict_pydantic fs
            \<and> collision sha256_digest (hash_content strict_pydantic ` set es)
                (hash_content strict_pydantic ` set fs)))"
proof -
  obtain f a where a: "f \<noteq> None" "create_journal_anchor strict_pydantic sample_stat ''j'' f None sample_time = Inr a"
    using sample_created by blast
  obtain r where r: "verify_journal_anchor strict_pydantic sample_stat f a None = Inr r" "av_ok r"
    using created_anchor_verifies [OF strict.pydantic_laws_axioms a(2) sample_stat_same] by blast
  show ?thesis using anchor_fixes_journal [OF strict.pydantic_laws_axioms a(2) r] a r by metis
qed

theorem unsigned_anchor_accepted_witness:
  "\<exists>f a r. f \<noteq> None \<and> create_journal_anchor strict_pydantic sample_stat ''j'' f None sample_time = Inr a
    \<and> verify_journal_anchor strict_pydantic sample_stat f a (Some ''trusted key'') = Inr r \<and> av_ok r"
  using unsigned_anchor_accepted [OF strict.pydantic_laws_axioms _ sample_stat_same] sample_created by metis

theorem exported_prefix_verifies_witness:
  "\<exists>f r out t. export_verified_prefix strict_pydantic sample_stat False ''a'' ''b'' None None f = Inr (r, out)
    \<and> out \<noteq> [] \<and> verified_journal_snapshot strict_pydantic sample_stat None None (Some out) = Inr t
    \<and> snapshot_ok t"
proof -
  obtain es where es: "good_records strict_pydantic 0 None es" "es \<noteq> []" using sample_journal by blast
  have "journal_bytes strict_pydantic es \<noteq> []"
    using es(2) by (cases es) (auto simp: journal_bytes_def record_line_def)
  moreover obtain r where "export_verified_prefix strict_pydantic sample_stat False ''a'' ''b'' None None
      (Some (journal_bytes strict_pydantic es)) = Inr (r, journal_bytes strict_pydantic es)"
    using strict.snapshot_of_good_records [OF es(1) sample_stat_same] export_bytes_good [OF es(1)]
    by (auto simp: export_verified_prefix_def)
  ultimately show ?thesis
    using exported_prefix_verifies [OF strict.pydantic_laws_axioms _ sample_stat_same] by blast
qed

theorem missing_newline_unnoticed_witness:
  "verify_journal_anchor_log utc_host None None (Some (''{}'' @ [CHR 0x0A]))
    = verify_journal_anchor_log utc_host None None (Some ''{}'')"
  by (rule missing_newline_unnoticed) simp_all

end
