(* ===== verification/IngestionClaims.thy ===== *)
theory IngestionClaims
  imports Ingestion AnchorClaims
begin

text \<open>
  The properties of \<open>Normalization\<close> and \<open>Ingestion\<close>: the causality of normalized events, the journal
  after a batch, and that importing a batch twice imports it once.
\<close>

section \<open>Normalized events\<close>

lemma min1_VStr: "pydantic_laws pd \<Longrightarrow> min1_str pd (VStr s) = Some t \<Longrightarrow> t = s"
  by (auto simp: min1_str_def pydantic_laws.pd_str_str split: if_splits)

lemma opt_min1_opt: "pydantic_laws pd \<Longrightarrow> opt_min1_str pd (opt_str p) = Some q \<Longrightarrow> q = p"
  by (cases p) (auto simp: opt_min1_str_def dest: min1_VStr)

lemma Causality_new_Inr:
  assumes "pydantic_laws pd" "Causality_new pd rid parent n = Inr c"
  shows "c = \<lparr>root_event_id = rid, sequence = n, parent_event_id = parent\<rparr> \<and> wf_causality c"
proof -
  let ?c = "\<lparr>root_event_id = rid, sequence = n, parent_event_id = parent\<rparr>"
  have v: "validate_causality_fields pd (obj (causality_dump ?c)) = Some c"
    using assms(2) by (auto simp: Causality_new_def validation_error_def split: option.splits)
  then have "wf_causality c" by (rule validate_causality_fields_wf)
  moreover have "c = ?c"
    using v min1_VStr [OF assms(1)] opt_min1_opt [OF assms(1)]
    by (auto simp: validate_causality_fields_def model_fields_def causality_dump_def
        pydantic_laws.pd_fields_dict [OF assms(1)] bind_eq_Some_conv field_def field_default_def
        nonneg_int_def pydantic_laws.pd_int_int [OF assms(1)] split: if_splits option.splits)
  ultimately show ?thesis by simp
qed

lemma EventEnvelope_new_Inr:
  assumes laws: "pydantic_laws pd"
    and new: "EventEnvelope_new pd i t occ obs src cor cau prin cla (VDict d) = Inr e"
    and cau: "wf_causality cau" and keys: "\<forall>p\<in>set d. \<exists>s. fst p = KStr s"
  shows "event_id e = i \<and> event_type e = t \<and> ev_causality e = cau
    \<and> require_json_payload d = Some (payload e) \<and> ev_integrity e = default_integrity"
proof -
  note p = pydantic_laws.pd_fields_dict [OF laws] pydantic_laws.pd_mapping_dict [OF laws]
  have c: "validate_causality_fields pd (obj (causality_dump cau)) = Some cau"
    using pydantic_laws.validate_causality_reads [OF laws cau same_dict_obj] .
  obtain occ' obs' where b: "build_event pd occ' obs' (obj_items
       [(''event_id'', VStr i), (''event_type'', VStr t), (''occurred_at'', VDatetime occ),
        (''observed_at'', VDatetime obs), (''source'', obj (source_dump src)),
        (''correlation'', obj (correlation_dump cor)), (''causality'', obj (causality_dump cau)),
        (''principal'', obj (principal_dump prin)),
        (''classification'', obj (classification_dump cla)), (''payload'', VDict d)]) = Some e"
    using new
    by (auto simp: EventEnvelope_new_def model_validate_def p(1) bnd_Inr_iff validation_error_def
        split: if_splits option.splits)
  show ?thesis
    using b c keys min1_VStr [OF laws]
    by (auto simp: build_event_def bind_eq_Some_conv field_def field_default_def validate_payload_def
        p(2))
qed

lemma EventEnvelope_new_wf:
  assumes laws: "pydantic_laws pd" and wf: "wf_event e" and int: "ev_integrity e = default_integrity"
    and keys: "\<forall>p\<in>set d. \<exists>s. fst p = KStr s" and pay: "require_json_payload d = Some (payload e)"
  shows "EventEnvelope_new pd (event_id e) (event_type e) (occurred_at e) (observed_at e) (ev_source e)
    (ev_correlation e) (ev_causality e) (ev_principal e) (ev_classification e) (VDict d) = Inr e"
proof -
  note w = wf [unfolded wf_event_def]
  let ?d = "obj_items
       [(''event_id'', VStr (event_id e)), (''event_type'', VStr (event_type e)),
        (''occurred_at'', VDatetime (occurred_at e)), (''observed_at'', VDatetime (observed_at e)),
        (''source'', obj (source_dump (ev_source e))),
        (''correlation'', obj (correlation_dump (ev_correlation e))),
        (''causality'', obj (causality_dump (ev_causality e))),
        (''principal'', obj (principal_dump (ev_principal e))),
        (''classification'', obj (classification_dump (ev_classification e))), (''payload'', VDict d)]"
  have nested: "validate_source pd (obj (source_dump (ev_source e))) = Some (ev_source e)"
    "validate_correlation pd (obj (correlation_dump (ev_correlation e))) = Some (ev_correlation e)"
    "validate_causality_fields pd (obj (causality_dump (ev_causality e))) = Some (ev_causality e)"
    "validate_principal pd (obj (principal_dump (ev_principal e))) = Some (ev_principal e)"
    "validate_classification pd (obj (classification_dump (ev_classification e))) = Some (ev_classification e)"
    using w same_dict_obj
    by (auto intro!: pydantic_laws.validate_source_reads [OF laws] pydantic_laws.validate_correlation_reads [OF laws]
        pydantic_laws.validate_causality_reads [OF laws] pydantic_laws.validate_principal_reads [OF laws]
        pydantic_laws.validate_classification_reads [OF laws])
  have ts: "timestamp_field pd ?d ''occurred_at'' = Inr (Some (occurred_at e))"
    "timestamp_field pd ?d ''observed_at'' = Inr (Some (observed_at e))"
    using w by (simp_all add: timestamp_field_def field_def is_utc_def require_aware_utc_def
        pydantic_laws.pd_datetime_datetime [OF laws])
  have "build_event pd (Some (occurred_at e)) (Some (observed_at e)) ?d = Some e"
    using w nested pay pydantic_laws.min1_wf [OF laws] pydantic_laws.pd_mapping_dict [OF laws keys]
    by (simp add: build_event_def field_def field_default_def validate_payload_def int [symmetric])
  moreover have "only_fields event_fields ?d" by (simp add: only_fields_def event_fields_def)
  ultimately show ?thesis
    using ts w by (simp add: EventEnvelope_new_def model_validate_def pydantic_laws.pd_fields_dict [OF laws])
qed

section \<open>What a record leaves in the journal\<close>

text \<open>The texts under \<open>ingest\<close> in a payload, whatever the form of its containers.\<close>

definition ingest_text :: "pyv \<Rightarrow> string \<Rightarrow> string option" where
  "ingest_text w k =
     mapping_text (case map_items w of None \<Rightarrow> VNone | Some d \<Rightarrow> get_or_none d ''ingest'') k"

lemma ingest_text_event:
  "event_idempotency_key_from_ingest (event_ingest e) = ingest_text (payload e) ''idempotency_key''"
  "event_idempotency_fingerprint_from_ingest (event_ingest e) = ingest_text (payload e) ''record_fingerprint''"
  by (simp_all add: event_idempotency_key_from_ingest_def event_idempotency_fingerprint_from_ingest_def
      event_ingest_def ingest_text_def)

lemma get_or_none_map:
  "f VNone = VNone \<Longrightarrow> get_or_none (map (\<lambda>(k, v). (k, f v)) d) k = f (get_or_none d k)"
  by (simp add: get_or_none_def get_item_def map_snd_dget split: option.split)

lemma map_items_thaw:
  "map_items (thaw_json_value v) = map_option (map (\<lambda>(k, v). (k, thaw_json_value v))) (map_items v)"
  by (cases v) auto

lemma text_thaw:
  "(case thaw_json_value v of VStr s \<Rightarrow> if s = [] then None else Some s | _ \<Rightarrow> None)
   = (case v of VStr s \<Rightarrow> if s = [] then None else Some s | _ \<Rightarrow> None)"
  by (cases v) auto

lemma mapping_text_thaw: "mapping_text (thaw_json_value v) k = mapping_text v k"
  by (simp add: mapping_text_def map_items_thaw get_or_none_map text_thaw split: option.split)

lemma ingest_text_thaw: "ingest_text (thaw_json_value w) k = ingest_text w k"
proof (cases "map_items w")
  case None
  then show ?thesis by (simp add: ingest_text_def map_items_thaw)
next
  case (Some d)
  then show ?thesis
    using mapping_text_thaw [of "get_or_none d ''ingest''" k]
    by (simp add: ingest_text_def map_items_thaw get_or_none_map)
qed

lemma get_or_none_canon:
  assumes "is_json (VDict d)"
  shows "canon (VDict d) = VDict c \<Longrightarrow> get_or_none c k = canon (get_or_none d k)"
proof -
  assume "canon (VDict d) = VDict c"
  then have c: "c = sort_key (\<lambda>p. key_str (fst p)) (map (\<lambda>(k, v). (k, canon v)) d)" by simp
  have "distinct (keys (map (\<lambda>(k, v). (k, canon v)) d))" using assms by (simp add: comp_def split_beta)
  then have "get_or_none c k = get_or_none (map (\<lambda>(k, v). (k, canon v)) d) k"
    using dget_sort_key [of "map (\<lambda>(k, v). (k, canon v)) d" "\<lambda>p. key_str (fst p)" "KStr k"]
    by (simp only: c get_or_none_def get_item_def)
  then show ?thesis by (simp add: get_or_none_map)
qed

lemma map_items_json: "is_json v \<Longrightarrow> map_items v = Some d \<Longrightarrow> v = VDict d"
  by (cases v) auto

lemma mapping_text_canon:
  assumes "is_json v"
  shows "mapping_text (canon v) k = mapping_text v k"
proof (cases "map_items v")
  case None
  then have "map_items (canon v) = None" by (cases v) auto
  then show ?thesis using None by (simp add: mapping_text_def)
next
  case (Some d)
  then have v: "v = VDict d" using map_items_json [OF assms] by simp
  obtain c where c: "canon (VDict d) = VDict c" by simp
  have g: "get_or_none c k = canon (get_or_none d k)"
    using get_or_none_canon [OF _ c] assms v by simp
  show ?thesis
    unfolding v c mapping_text_def map_items.simps option.simps g by (cases "get_or_none d k") auto
qed

lemma is_json_get_or_none: "is_json (VDict d) \<Longrightarrow> is_json (get_or_none d k)"
  by (auto simp: get_or_none_def get_item_def list_all_iff split: option.split dest!: dget_Some_in)

lemma ingest_text_canon:
  assumes "is_json v"
  shows "ingest_text (canon v) k = ingest_text v k"
proof (cases "map_items v")
  case None
  then have "map_items (canon v) = None" by (cases v) auto
  then show ?thesis using None by (simp add: ingest_text_def)
next
  case (Some d)
  then have v: "v = VDict d" using map_items_json [OF assms] by simp
  obtain c where c: "canon (VDict d) = VDict c" by simp
  have "get_or_none c ''ingest'' = canon (get_or_none d ''ingest'')"
    using get_or_none_canon [OF _ c] assms v by simp
  moreover have "is_json (get_or_none d ''ingest'')" using is_json_get_or_none assms v by simp
  ultimately show ?thesis
    using mapping_text_canon by (simp only: v c ingest_text_def map_items.simps option.simps)
qed

lemma ingest_text_event_canon:
  assumes "wf_event e"
  shows "ingest_text (payload (event_canon e)) k = ingest_text (payload e) k"
proof -
  have w: "wf_payload (payload e)" using assms by (simp add: wf_event_def)
  obtain d where d: "thaw_json_value (payload e) = VDict d" "is_json (VDict d)"
    using wf_payload_thaw [OF w] by blast
  have "ingest_text (canon_payload (payload e)) k = ingest_text (canon (thaw_json_value (payload e))) k"
    using ingest_text_thaw [of "canon_payload (payload e)"] thaw_canon_payload [OF w] by simp
  also have "\<dots> = ingest_text (payload e) k"
    using ingest_text_canon [OF d(2)] ingest_text_thaw d(1) by metis
  finally show ?thesis by (simp add: event_canon_def)
qed

lemma ingest_text_refreeze [simp]: "ingest_text (refreeze w) k = ingest_text w k"
  by (simp add: refreeze_def ingest_text_def)

lemma ingest_text_new:
  "ingest_text (VDict (payload_with_ingest_metadata r fp)) ''idempotency_key''
     = (if er_idempotency_key r = [] then None else Some (er_idempotency_key r))"
  "ingest_text (VDict (payload_with_ingest_metadata r fp)) ''record_fingerprint''
     = (if fp = [] then None else Some fp)"
  by (simp_all add: ingest_text_def payload_with_ingest_metadata_def get_or_none_def get_item_def
      mapping_text_def)

lemma payload_ingest_text:
  assumes "require_json_payload d = Some w"
  shows "ingest_text w k = ingest_text (VDict d) k"
proof -
  have "freeze_json_value (VDict d) = Inr w"
    using assms by (auto simp: require_json_payload_def split: sum.splits)
  then show ?thesis using thaw_frozen_eq ingest_text_thaw by metis
qed

definition ok_clock :: "('c \<Rightarrow> datetime res \<times> 'c) \<Rightarrow> bool" where
  "ok_clock now \<longleftrightarrow> (\<forall>c t c'. now c = (Inr t, c') \<longrightarrow> dt_ok t)"

text \<open>A record as its model validates it: a non-empty key, a payload Python can build.\<close>

definition ok_record :: "EvidenceRecord \<Rightarrow> bool" where
  "ok_record r \<longleftrightarrow> er_idempotency_key r \<noteq> [] \<and> py_ok (VDict (er_payload r))
     \<and> (\<forall>p\<in>set (er_payload r). \<exists>s. fst p = KStr s)"

lemma ok_record_payload:
  assumes "ok_record r"
  shows "\<forall>p\<in>set (payload_with_ingest_metadata r fp). \<exists>s. fst p = KStr s"
    and "py_ok (VDict (payload_with_ingest_metadata r fp))"
proof -
  have all: "\<forall>p\<in>set d. P p \<Longrightarrow> P (k, v) \<Longrightarrow> \<forall>p\<in>set (dset d k v). P p" for P d k and v :: pyv
    using dset_subset [of d k v] by blast
  note r = assms [unfolded ok_record_def]
  show s: "\<forall>p\<in>set (payload_with_ingest_metadata r fp). \<exists>s. fst p = KStr s"
    unfolding payload_with_ingest_metadata_def using r by (intro all) simp_all
  have "distinct (keys (payload_with_ingest_metadata r fp))"
    unfolding payload_with_ingest_metadata_def
    using r str_keys_all [of "er_payload r"] by (intro distinct_dset) simp
  moreover have "list_all (\<lambda>(k, v). py_ok v) (payload_with_ingest_metadata r fp)"
    unfolding payload_with_ingest_metadata_def list_all_iff
    using r by (intro all) (simp_all add: str_keys_def list_all_iff)
  ultimately show "py_ok (VDict (payload_with_ingest_metadata r fp))"
    using str_keys_distinct by simp
qed

lemma record_event_Inr:
  assumes "pydantic_laws pd" "ok_clock now" "ok_record r"
    and "record_event pd new_id now nz r fp = (Inr e, nz')"
  shows "wf_event e" "sequence (ev_causality e) = nz_sequence nz"
    "nz_sequence nz' = nz_sequence nz + 1"
    "ingest_text (payload e) ''idempotency_key'' = Some (er_idempotency_key r)"
    "ingest_text (payload e) ''record_fingerprint'' = (if fp = [] then None else Some fp)"
proof -
  let ?args = "no_args\<lparr>ra_source := er_source r, ra_principal := er_principal r,
                ra_classification := er_classification r\<rparr>"
  let ?d = "payload_with_ingest_metadata r fp"
  obtain i rid parent occ obs g c where n:
    "normalized_event pd nz ?args (er_event_type r) (VDict ?d) i rid parent occ obs = Inr e"
    "nz' = record_emitted (nz\<lparr>nz_id_generator := g, nz_clock := c\<rparr>) e" "dt_ok occ" "dt_ok obs"
    using record_returned [OF assms(4) [unfolded record_event_def]] assms(2) unfolding ok_clock_def
    by metis
  obtain cau where cau: "Causality_new pd rid parent (nz_sequence nz) = Inr cau"
    and new: "EventEnvelope_new pd i (er_event_type r) occ obs
         (or_default (ra_source ?args) (nz_source nz)) (nz_correlation nz) cau
         (or_default (ra_principal ?args) (nz_principal nz))
         (or_default (ra_classification ?args) (nz_classification nz)) (VDict ?d) = Inr e"
    using n(1) by (auto simp: normalized_event_def bnd_Inr_iff)
  note c = Causality_new_Inr [OF assms(1) cau]
  note e = EventEnvelope_new_Inr [OF assms(1) new conjunct2 [OF c] ok_record_payload(1) [OF assms(3)]]
  show "sequence (ev_causality e) = nz_sequence nz" "nz_sequence nz' = nz_sequence nz + 1"
    using c e n(2) by (auto simp: record_emitted_def)
  have opt: "py_ok (opt_str x)" for x by (cases x) auto
  show "wf_event e"
    using pydantic_laws.model_validate_wf [OF assms(1) new [unfolded EventEnvelope_new_def]]
      ok_record_payload(2) [OF assms(3)] n(3,4)
    by (simp add: source_dump_def correlation_dump_def causality_dump_def principal_dump_def
        classification_dump_def str_keys_def opt)
  have "require_json_payload ?d = Some (payload e)" using e by blast
  from payload_ingest_text [OF this] show
    "ingest_text (payload e) ''idempotency_key'' = Some (er_idempotency_key r)"
    "ingest_text (payload e) ''record_fingerprint'' = (if fp = [] then None else Some fp)"
    using assms(3) by (simp_all add: ingest_text_new ok_record_def)
qed

section \<open>Appending under the lock\<close>

context redaction_boundary begin

lemma append_locked_returned:
  assumes "wf_event e" "good_records pd 0 None es" "sequence (ev_causality e) = int (length es)"
    and "file_bytes file = journal_bytes pd es"
    and "append_event_inside_lock pd apply_policy w file e (terminal None es) = (Inr r, file')"
  shows "file_bytes file' = journal_bytes pd (es @ [event_canon r])"
    "good_records pd 0 None (es @ [event_canon r])" "wf_event r"
proof -
  obtain bs where p: "prepare_event_for_append pd apply_policy e (terminal None es) = Inr (r, bs)"
    "file' = Some (file_bytes file @ bs @ [newline])"
    using assms(5) by (auto simp: append_event_inside_lock_def append_line_def
        split: sum.splits prod.splits write_outcome.splits if_splits)
  note g = prepare_event_good [OF assms(1) good_terminal [OF assms(2)] assms(3) p(1)]
  show "file_bytes file' = journal_bytes pd (es @ [event_canon r])"
    "good_records pd 0 None (es @ [event_canon r])" "wf_event r"
    using g p(2) assms(2,4) by (simp_all add: file_bytes_def)
qed

lemma append_locked_failed:
  assumes "wf_event e" "good_records pd 0 None es" "sequence (ev_causality e) = int (length es)"
    and "file_bytes file = journal_bytes pd es"
    and "append_event_inside_lock pd apply_policy w file e (terminal None es) = (Inl err, file')"
  shows "file_bytes file' = file_bytes file
    \<or> is_a (exn_kind err) JournalError \<and> (\<exists>r n. good_records pd 0 None (es @ [event_canon r])
         \<and> file_bytes file' = file_bytes file @ take n (record_line pd (event_canon r)))"
proof (cases "prepare_event_for_append pd apply_policy e (terminal None es)")
  case (Inl err')
  then show ?thesis using assms(5) by (auto simp: append_event_inside_lock_def)
next
  case (Inr p)
  then obtain r bs where p: "prepare_event_for_append pd apply_policy e (terminal None es) = Inr (r, bs)"
    by (cases p) auto
  note g = prepare_event_good [OF assms(1) good_terminal [OF assms(2)] assms(3) p]
  have good: "good_records pd 0 None (es @ [event_canon r])" using g assms(2) by simp
  show ?thesis
  proof (cases w)
    case (WriteError n)
    then have "file_bytes file' = file_bytes file @ take n (record_line pd (event_canon r))"
      "is_a (exn_kind err) JournalError"
      using assms(5) p by (auto simp: append_event_inside_lock_def append_line_def file_bytes_def g(3))
    then show ?thesis using good by blast
  qed (use assms(5) p in \<open>auto simp: append_event_inside_lock_def append_line_def file_bytes_def\<close>)
qed

end

section \<open>The journal during a batch\<close>

definition imported_ids :: "IngestOutcome list \<Rightarrow> string option list" where
  "imported_ids os = map oc_event_id (filter (\<lambda>o1. oc_status o1 = IO_IMPORTED) os)"

lemma imported_ids_simps [simp]:
  "imported_ids [] = []"
  "imported_ids (os @ [o1]) = imported_ids os @ (if oc_status o1 = IO_IMPORTED then [oc_event_id o1] else [])"
  by (simp_all add: imported_ids_def)

lemma outcome_fields [simp]:
  "oc_status (failed_outcome r err) = IO_FAILED"
  "oc_status (imported_outcome r e) = IO_IMPORTED" "oc_event_id (imported_outcome r e) = Some (event_id e)"
  "oc_status (matched_idempotency_outcome r m fp) \<noteq> IO_IMPORTED"
  "oc_status (matched_idempotency_outcome r m fp) \<noteq> IO_FAILED"
  by (simp_all add: failed_outcome_def imported_outcome_def matched_idempotency_outcome_def)

text \<open>Between two records the file is a verified journal: the old records, then the imported ones.\<close>

definition locked_inv :: "pydantic \<Rightarrow> event list \<Rightarrow> ('g, 'c) locked_state \<Rightarrow> event list \<Rightarrow> bool" where
  "locked_inv pd old st new \<longleftrightarrow>
     file_bytes (lk_file st) = journal_bytes pd (old @ new) \<and> good_records pd 0 None (old @ new)
     \<and> lk_next_sequence st = int (length (old @ new))
     \<and> lk_previous_event_hash st = terminal None (old @ new)
     \<and> imported_ids (lk_outcomes st) = map (\<lambda>e. Some (event_id e)) new"

text \<open>What a failed write leaves behind a journal: nothing, or a part of the next line.\<close>

definition cut_off :: "pydantic \<Rightarrow> event list \<Rightarrow> bytes \<Rightarrow> bool" where
  "cut_off pd es tail \<longleftrightarrow> tail = []
     \<or> (\<exists>r n. good_records pd 0 None (es @ [event_canon r]) \<and> tail = take n (record_line pd (event_canon r)))"

definition batch_file ::
  "pydantic \<Rightarrow> event list \<Rightarrow> ('g, 'c) locked_state \<Rightarrow> event list \<Rightarrow> bytes \<Rightarrow> bool" where
  "batch_file pd old st new tail \<longleftrightarrow>
     file_bytes (lk_file st) = journal_bytes pd (old @ new) @ tail \<and> good_records pd 0 None (old @ new)
     \<and> imported_ids (lk_outcomes st) = map (\<lambda>e. Some (event_id e)) new \<and> cut_off pd (old @ new) tail"

lemma locked_inv_file: "locked_inv pd old st new \<Longrightarrow> batch_file pd old st new []"
  by (simp add: locked_inv_def batch_file_def cut_off_def)

lemma terminal_snoc: "terminal p (es @ [e]) = event_hash (ev_integrity e)"
  by (induction es arbitrary: p) auto

context redaction_boundary begin

lemma append_checked_step:
  assumes "locked_inv pd old st new" "wf_event e"
    and "append_checked pd apply_policy env st e = (res, st')"
  shows "(\<forall>r fp k. res = Inr r \<longrightarrow>
            locked_inv pd old (record_persisted k fp r st') (new @ [event_canon r]) \<and> wf_event r)
    \<and> (\<forall>err. res = Inl err \<longrightarrow> locked_inv pd old st' new
         \<or> is_a (exn_kind err) JournalError \<and> (\<exists>tail. batch_file pd old st' new tail))
    \<and> lk_outcomes st' = lk_outcomes st \<and> lk_batch_seen st' = lk_batch_seen st"
proof (cases "sequence (ev_causality e) = lk_next_sequence st")
  case False
  then show ?thesis using assms(1,3) by (auto simp: append_checked_def)
next
  case True
  note inv = assms(1) [unfolded locked_inv_def]
  obtain w file' where a: "append_event_inside_lock pd apply_policy w (lk_file st) e
      (terminal None (old @ new)) = (res, file')"
    "st' = st\<lparr>lk_file := file', lk_writes := lk_writes st + 1\<rparr>"
    using assms(3) True inv by (auto simp: append_checked_def split: prod.splits)
  have seq: "sequence (ev_causality e) = int (length (old @ new))" using True inv by simp
  show ?thesis
  proof (cases res)
    case (Inl err)
    then show ?thesis
      using append_locked_failed [OF assms(2) _ seq _ a(1) [unfolded Inl]] inv a(2)
      by (auto simp: locked_inv_def batch_file_def cut_off_def)
  next
    case (Inr r)
    note g = append_locked_returned [OF assms(2) _ seq _ a(1) [unfolded Inr]]
    show ?thesis
      using g inv a(2) Inr
      by (auto simp: locked_inv_def record_persisted_def lock_outcome_def terminal_snoc event_canon_def
          simp del: journal_bytes_snoc)
  qed
qed

lemma import_locked_record_step:
  assumes inv: "locked_inv pd old st new" and ok: "ok_clock now" "ok_record r"
    and step: "import_locked_record pd apply_policy new_id now env seen st r = (res, st')"
  shows "(\<exists>new'. locked_inv pd old st' new')
    \<or> res \<noteq> Inr True \<and> (\<exists>tail. batch_file pd old st' new tail)
      \<and> (res = Inr False \<longrightarrow> IO_FAILED \<in> oc_status ` set (lk_outcomes st'))"
proof (cases "record_idempotency_fingerprint r (lk_normalizer st)")
  case (Inl err)
  then show ?thesis using inv step by (auto simp: import_locked_record_def)
next
  case fp: (Inr fp)
  show ?thesis
  proof (cases "matched_entry seen (lk_batch_seen st) r")
    case (Some m)
    then have "st' = lock_outcome (matched_idempotency_outcome r m fp) st"
      using step fp by (simp add: import_locked_record_def)
    then show ?thesis using inv by (auto simp: locked_inv_def lock_outcome_def)
  next
    case None
    obtain re nz where re: "record_event pd new_id now (lk_normalizer st) r fp = (re, nz)" by force
    define st1 where "st1 = st\<lparr>lk_normalizer := nz\<rparr>"
    have inv1: "locked_inv pd old st1 new" using inv by (simp add: st1_def locked_inv_def)
    define app where "app = (case re of Inl err \<Rightarrow> (Inl err, st1)
        | Inr e \<Rightarrow> append_checked pd apply_policy env st1 e)"
    obtain ra st2 where ra: "app = (ra, st2)" by force
    have st': "(res, st') = (case ra of
        Inl err \<Rightarrow>
          if is_a (exn_kind err) JournalError
          then (if lk_batch_seen st2 = [] then (Inl err, st2)
                else (Inr False, lock_outcome (failed_outcome r err) st2))
          else if is_a (exn_kind err) ValueError
          then (Inr True, lock_outcome (failed_outcome r err) st2)
          else (Inl err, st2)
      | Inr persisted \<Rightarrow> (Inr True, record_persisted r fp persisted st2))"
      using step fp None re ra unfolding app_def st1_def
      by (simp add: import_locked_record_def Let_def)
    show ?thesis
    proof (cases re)
      case (Inl err)
      then have "ra = Inl err" "st2 = st1" using ra by (simp_all add: app_def)
      then show ?thesis
        using st' inv1 by (auto simp: locked_inv_def lock_outcome_def split: if_splits)
    next
      case (Inr e)
      have wf: "wf_event e" using record_event_Inr(1) [OF pydantic_laws_axioms ok re [unfolded Inr]] .
      have a: "append_checked pd apply_policy env st1 e = (ra, st2)" using ra Inr by (simp add: app_def)
      note s = append_checked_step [OF inv1 wf a]
      show ?thesis
      proof (cases ra)
        case (Inr x)
        then show ?thesis using s st' by auto
      next
        case ra: (Inl err)
        then consider "locked_inv pd old st2 new"
          | "is_a (exn_kind err) JournalError" "\<exists>tail. batch_file pd old st2 new tail" using s by blast
        then show ?thesis
        proof cases
          case 1
          then show ?thesis using st' ra by (auto simp: locked_inv_def lock_outcome_def split: if_splits)
        next
          case 2
          then show ?thesis using st' ra by (auto simp: batch_file_def lock_outcome_def split: if_splits)
        qed
      qed
    qed
  qed
qed

lemma import_locked_records_file:
  assumes "locked_inv pd old st new" "ok_clock now" "\<forall>r\<in>set rs. ok_record r"
    and "import_locked_records pd apply_policy new_id now env seen st rs = (res, st')"
  shows "\<exists>new' tail. batch_file pd old st' new' tail
    \<and> (res = Inr () \<and> IO_FAILED \<notin> oc_status ` set (lk_outcomes st') \<longrightarrow> tail = [])"
  using assms
proof (induction rs arbitrary: st new)
  case Nil
  then show ?case using locked_inv_file by fastforce
next
  case (Cons r rs)
  obtain r1 st1 where s: "import_locked_record pd apply_policy new_id now env seen st r = (r1, st1)"
    by force
  from Cons.prems have "ok_record r" by simp
  note step = import_locked_record_step [OF Cons.prems(1,2) this s]
  show ?case
  proof (cases "r1 = Inr True")
    case True
    then obtain new' where "locked_inv pd old st1 new'" using step by blast
    then show ?thesis using Cons.IH Cons.prems s True by simp
  next
    case False
    then have e: "st' = st1" "res = Inr () \<Longrightarrow> r1 = Inr False"
      using Cons.prems(4) s by (auto split: sum.splits if_splits)
    then show ?thesis using step False locked_inv_file by blast
  qed
qed

end

section \<open>The idempotency entries during a batch\<close>

lemma fingerprint_config:
  "same_config a b \<Longrightarrow> record_idempotency_fingerprint r a = record_idempotency_fingerprint r b"
  by (simp add: record_idempotency_fingerprint_def fingerprint_preimage_def same_config_def)

lemma same_config_refl [simp]: "same_config a a"
  by (simp add: same_config_def)

lemma same_config_trans: "same_config a b \<Longrightarrow> same_config b c \<Longrightarrow> same_config a c"
  by (simp add: same_config_def)

text \<open>A record is settled when its key is known with its own fingerprint, or without one.\<close>

definition settled ::
  "('g, 'c) EvidenceNormalizer \<Rightarrow> (EvidenceRecord \<Rightarrow> IdempotencyEntry option) \<Rightarrow> EvidenceRecord \<Rightarrow> bool" where
  "settled nz known r \<longleftrightarrow> (\<exists>fp m. record_idempotency_fingerprint r nz = Inr fp \<and> known r = Some m
     \<and> (ie_record_fingerprint m = None \<or> ie_record_fingerprint m = Some fp))"

lemma settled_mono: "settled nz f r \<Longrightarrow> \<forall>m. f r = Some m \<longrightarrow> g r = Some m \<Longrightarrow> settled nz g r"
  unfolding settled_def by blast

lemma settled_config: "settled a f r \<Longrightarrow> same_config a b \<Longrightarrow> settled b f r"
  using fingerprint_config unfolding settled_def by metis

definition good_outcome :: "IngestOutcome \<Rightarrow> bool" where
  "good_outcome o1 \<longleftrightarrow> oc_status o1 \<in> {IO_IMPORTED, IO_DUPLICATE}"

lemma good_outcomes_ok: "BatchImportResult_ok r \<longleftrightarrow> list_all good_outcome (br_outcomes r)"
proof -
  have "good_outcome o1 \<longleftrightarrow> oc_status o1 \<noteq> IO_FAILED \<and> oc_status o1 \<noteq> IO_CONFLICT" for o1
    by (cases "oc_status o1") (auto simp: good_outcome_def)
  then show ?thesis
    by (auto simp: BatchImportResult_ok_def failed_count_def conflict_count_def outcome_count_def
        list_all_iff filter_empty_conv)
qed

lemma lock_outcomes_grow:
  assumes "import_locked_record pd' ap new_id now env seen st r = (res, st')"
  shows "\<exists>os. lk_outcomes st' = lk_outcomes st @ os"
  using assms
  by (auto simp: import_locked_record_def append_checked_def lock_outcome_def record_persisted_def
      Let_def split: sum.splits option.splits prod.splits if_splits)

lemma append_checked_state:
  "append_checked pd ap env st e = (res, st') \<Longrightarrow>
   lk_normalizer st' = lk_normalizer st \<and> lk_batch_seen st' = lk_batch_seen st \<and> lk_outcomes st' = lk_outcomes st"
  by (auto simp: append_checked_def split: prod.splits if_splits)

text \<open>One record, when the batch goes on: a match, a failure, or an append.\<close>

lemma import_locked_record_cases:
  assumes "import_locked_record pd ap new_id now env seen st r = (Inr True, st')"
  obtains (matched) fp m where "record_idempotency_fingerprint r (lk_normalizer st) = Inr fp"
    "matched_entry seen (lk_batch_seen st) r = Some m"
    "st' = lock_outcome (matched_idempotency_outcome r m fp) st"
  | (failed) err st2 where "same_config (lk_normalizer st2) (lk_normalizer st)"
    "lk_batch_seen st2 = lk_batch_seen st" "lk_outcomes st2 = lk_outcomes st"
    "st' = lock_outcome (failed_outcome r err) st2"
  | (appended) fp e nz x st2 where "record_idempotency_fingerprint r (lk_normalizer st) = Inr fp"
    "matched_entry seen (lk_batch_seen st) r = None"
    "record_event pd new_id now (lk_normalizer st) r fp = (Inr e, nz)"
    "append_checked pd ap env (st\<lparr>lk_normalizer := nz\<rparr>) e = (Inr x, st2)"
    "st' = record_persisted r fp x st2"
proof -
  obtain fp where fp: "record_idempotency_fingerprint r (lk_normalizer st) = Inr fp"
    using assms by (auto simp: import_locked_record_def split: sum.splits)
  show ?thesis
  proof (cases "matched_entry seen (lk_batch_seen st) r")
    case (Some m)
    then show ?thesis using assms fp matched by (auto simp: import_locked_record_def)
  next
    case None
    obtain re nz where re: "record_event pd new_id now (lk_normalizer st) r fp = (re, nz)" by force
    then have cfg: "same_config nz (lk_normalizer st)" by (simp add: record_event_def record_config)
    show ?thesis
    proof (cases re)
      case (Inl err)
      then show ?thesis
        using assms fp None re cfg failed [of "st\<lparr>lk_normalizer := nz\<rparr>" err]
        by (auto simp: import_locked_record_def Let_def split: if_splits)
    next
      case (Inr e)
      obtain ra st2 where a: "append_checked pd ap env (st\<lparr>lk_normalizer := nz\<rparr>) e = (ra, st2)" by force
      note st2 = append_checked_state [OF a]
      show ?thesis
      proof (cases ra)
        case (Inl err)
        then show ?thesis
          using assms fp None re cfg Inr a st2 failed [of st2 err]
          by (auto simp: import_locked_record_def Let_def split: if_splits)
      next
        case ra: (Inr x)
        then show ?thesis
          using assms fp None re Inr a appended [of fp e nz x st2]
          by (auto simp: import_locked_record_def Let_def)
      qed
    qed
  qed
qed

lemma matched_entry_other:
  "matched_entry seen batch r = Some m \<Longrightarrow> matched_entry seen batch k = None \<Longrightarrow>
   matched_entry seen (dset batch (er_idempotency_key k) x) r = Some m"
  by (auto simp: matched_entry_def split: option.splits)

lemma record_persisted_fields [simp]:
  "lk_normalizer (record_persisted r fp x st) = lk_normalizer st"
  "lk_outcomes (record_persisted r fp x st) = lk_outcomes st @ [imported_outcome r x]"
  "lk_batch_seen (record_persisted r fp x st) =
     dset (lk_batch_seen st) (er_idempotency_key r) (batch_entry x fp)"
  "lk_file (record_persisted r fp x st) = lk_file st"
  by (simp_all add: record_persisted_def lock_outcome_def)

lemma lock_outcome_fields [simp]:
  "lk_normalizer (lock_outcome o1 st) = lk_normalizer st" "lk_outcomes (lock_outcome o1 st) = lk_outcomes st @ [o1]"
  "lk_batch_seen (lock_outcome o1 st) = lk_batch_seen st" "lk_file (lock_outcome o1 st) = lk_file st"
  "lk_next_sequence (lock_outcome o1 st) = lk_next_sequence st"
  "lk_previous_event_hash (lock_outcome o1 st) = lk_previous_event_hash st"
  by (simp_all add: lock_outcome_def)

lemma import_locked_record_settles:
  assumes "import_locked_record pd ap new_id now env seen st r = (Inr True, st')"
  shows "same_config (lk_normalizer st') (lk_normalizer st)
    \<and> (\<exists>o1. lk_outcomes st' = lk_outcomes st @ [o1] \<and>
      (good_outcome o1 \<longrightarrow> settled (lk_normalizer st) (matched_entry seen (lk_batch_seen st')) r))
    \<and> (\<forall>k m. matched_entry seen (lk_batch_seen st) k = Some m \<longrightarrow>
         matched_entry seen (lk_batch_seen st') k = Some m)"
  using assms
proof (cases rule: import_locked_record_cases)
  case (matched fp m')
  then show ?thesis by (auto simp: settled_def matched_idempotency_outcome_def good_outcome_def)
next
  case (failed err st2)
  then show ?thesis by (auto simp: good_outcome_def)
next
  case (appended fp e nz x st2)
  note st2 = append_checked_state [OF appended(4)]
  have cfg: "same_config nz (lk_normalizer st)"
    using appended(3) by (simp add: record_event_def record_config)
  have "matched_entry seen (lk_batch_seen st') r = Some (batch_entry x fp)"
    using appended st2 by (auto simp: matched_entry_def split: option.splits)
  then show ?thesis
    using appended st2 cfg matched_entry_other by (auto simp: settled_def batch_entry_def)
qed

lemma import_locked_records_settle:
  assumes "import_locked_records pd ap new_id now env seen st rs = (Inr (), st')"
    and "list_all good_outcome (lk_outcomes st')"
  shows "(\<forall>r\<in>set rs. settled (lk_normalizer st) (matched_entry seen (lk_batch_seen st')) r)
    \<and> (\<forall>k m. matched_entry seen (lk_batch_seen st) k = Some m \<longrightarrow>
         matched_entry seen (lk_batch_seen st') k = Some m)
    \<and> (\<exists>os. lk_outcomes st' = lk_outcomes st @ os)"
  using assms
proof (induction rs arbitrary: st)
  case (Cons r rs)
  obtain go st1 where s: "import_locked_record pd ap new_id now env seen st r = (Inr go, st1)"
    using Cons.prems(1) by (auto split: prod.splits sum.splits)
  obtain os1 where os1: "lk_outcomes st1 = lk_outcomes st @ os1"
    using lock_outcomes_grow [OF s] by blast
  show ?case
  proof (cases go)
    case True
    have rest: "import_locked_records pd ap new_id now env seen st1 rs = (Inr (), st')"
      using Cons.prems(1) s True by simp
    note ih = Cons.IH [OF rest Cons.prems(2)]
    have s': "import_locked_record pd ap new_id now env seen st r = (Inr True, st1)" using s True by simp
    note st1 = import_locked_record_settles [OF s']
    note cfg = conjunct1 [OF st1]
    obtain o1 os where o1: "lk_outcomes st1 = lk_outcomes st @ [o1]"
      "good_outcome o1 \<longrightarrow> settled (lk_normalizer st) (matched_entry seen (lk_batch_seen st1)) r"
      "lk_outcomes st' = lk_outcomes st1 @ os"
      using st1 ih by blast
    then have "settled (lk_normalizer st) (matched_entry seen (lk_batch_seen st1)) r"
      using Cons.prems(2) by simp
    then have "settled (lk_normalizer st) (matched_entry seen (lk_batch_seen st')) r"
      using settled_mono ih by blast
    moreover have "\<forall>r\<in>set rs. settled (lk_normalizer st) (matched_entry seen (lk_batch_seen st')) r"
      using ih settled_config [OF _ cfg] by blast
    ultimately show ?thesis using ih st1 o1 by auto
  next
    case False
    then have "st' = st1" using Cons.prems(1) s by simp
    moreover have "\<exists>o1\<in>set (lk_outcomes st1). oc_status o1 = IO_FAILED"
      using s False
      by (auto simp: import_locked_record_def Let_def split: sum.splits option.splits prod.splits if_splits)
    ultimately show ?thesis
      using Cons.prems(2) by (auto simp: list_all_iff good_outcome_def)
  qed
qed auto

section \<open>The event that is hashed and the one that is stored\<close>

definition unhashed_event :: "event \<Rightarrow> string option \<Rightarrow> event" where
  "unhashed_event e p = e\<lparr>ev_integrity := \<lparr>canonicalization = canonicalization (ev_integrity e),
     previous_event_hash = p, event_hash = None\<rparr>, payload := refreeze (payload e)\<rparr>"

lemma unhashed_event_fields [simp]:
  "link_of (unhashed_event e p) = p" "payload (unhashed_event e p) = refreeze (payload e)"
  by (simp_all add: unhashed_event_def)

lemma wf_unhashed_event: "wf_event e \<Longrightarrow> wf_opt p \<Longrightarrow> wf_event (unhashed_event e p)"
  by (simp add: unhashed_event_def wf_event_def wf_integrity_def validate_causality_def)

context pydantic_laws begin

lemma prepare_payload:
  assumes wf: "wf_event e" and p: "wf_opt p"
    and prep: "prepare_event_for_append pd apply_policy e p = Inr (r, bs)"
  obtains rh where "redacted_event pd apply_policy (unhashed_event e p) = Inr rh"
    "payload r = refreeze (payload rh)" "event_type r = event_type rh"
proof -
  obtain rh hash where
    rh: "redacted_event pd apply_policy (unhashed_event e p) = Inr rh" and
    hash: "compute_event_hash pd rh = Inr hash" and
    r: "event_with_integrity pd rh p (Some hash) = Inr r"
    using prep wf p by (auto simp: prepare_event_for_append_def bnd_Inr_iff redacted_event_def
        event_with_integrity_eq unhashed_event_def)
  have wfr: "wf_event rh"
    using rh event_from_json_wf by (auto simp: redacted_event_def bnd_Inr_iff)
  have "\<exists>b. hash = sha256_digest b" using hash compute_event_hash_iff [OF wfr] by auto
  then have "wf_opt (Some hash)" using wf_str_digest by auto
  then have "payload r = refreeze (payload rh)" "event_type r = event_type rh"
    using r event_with_integrity_eq [OF wfr p] by auto
  then show ?thesis using that rh by blast
qed

end

section \<open>The interface of idempotent imports\<close>

text \<open>
  What idempotency needs of the redaction boundary, beyond the journal's contract: the ingest
  metadata the importer wrote is still there, unchanged, in the redacted event. A policy promises
  that for the texts it leaves alone (\<open>kept\<close>), which digests always are.
\<close>

locale ingest_boundary = redaction_boundary +
  fixes kept :: "string \<Rightarrow> bool"
  assumes keeps_ingest:
    "wf_event e \<Longrightarrow> chain_text (link_of e) \<Longrightarrow> redacted_event pd apply_policy e = Inr r \<Longrightarrow>
     k \<in> {''idempotency_key'', ''record_fingerprint''} \<Longrightarrow>
     ingest_text (payload e) k = Some s \<Longrightarrow> kept s \<Longrightarrow> ingest_text (payload r) k = Some s"
    and kept_digest: "kept (sha256_digest bs)"
begin

lemma prepare_keeps_ingest:
  assumes wf: "wf_event e" and p: "wf_opt p" "chain_text p"
    and prep: "prepare_event_for_append pd apply_policy e p = Inr (r, bs)"
    and k: "k \<in> {''idempotency_key'', ''record_fingerprint''}" "ingest_text (payload e) k = Some s" "kept s"
  shows "ingest_text (payload r) k = Some s"
proof -
  obtain rh where rh: "redacted_event pd apply_policy (unhashed_event e p) = Inr rh"
    "payload r = refreeze (payload rh)"
    using prepare_payload [OF wf p(1) prep] by blast
  show ?thesis
    using keeps_ingest [OF wf_unhashed_event [OF wf p(1)] _ rh(1) k(1) _ k(3)] k(2) p(2) rh(2) by simp
qed

text \<open>The entries found in the file are the ones seen before the batch and the ones of the batch.\<close>

definition entries_inv ::
  "event list \<Rightarrow> (string \<times> IdempotencyEntry) list \<Rightarrow> ('g, 'c) locked_state \<Rightarrow> event list \<Rightarrow> bool" where
  "entries_inv old seen st new \<longleftrightarrow> locked_inv pd old st new
     \<and> (\<forall>r. dget (scan_entries [] (old @ new)) (er_idempotency_key r) = matched_entry seen (lk_batch_seen st) r)"

lemma scan_entries_append: "scan_entries s (es @ fs) = scan_entries (scan_entries s es) fs"
  by (induction es arbitrary: s) auto

lemma append_checked_text:
  assumes "locked_inv pd old st new" "wf_event e"
    and "append_checked pd apply_policy env st e = (Inr r, st')"
    and "k \<in> {''idempotency_key'', ''record_fingerprint''}" "ingest_text (payload e) k = Some s" "kept s"
  shows "ingest_text (payload r) k = Some s"
proof -
  note inv = assms(1) [unfolded locked_inv_def]
  obtain bs where "prepare_event_for_append pd apply_policy e (terminal None (old @ new)) = Inr (r, bs)"
    using assms(3) inv by (auto simp: append_checked_def append_event_inside_lock_def
        split: prod.splits sum.splits if_splits)
  then show ?thesis
    using prepare_keeps_ingest [OF assms(2) good_terminal _ assms(4-6)] inv by blast
qed

lemma import_locked_record_entries:
  assumes inv: "entries_inv old seen st new" and ok: "ok_clock now" "ok_record r"
    and key: "kept (er_idempotency_key r)"
    and step: "import_locked_record pd apply_policy new_id now env seen st r = (Inr True, st')"
    and good: "list_all good_outcome (lk_outcomes st')"
  shows "\<exists>new'. entries_inv old seen st' new'"
  using step
proof (cases rule: import_locked_record_cases)
  case (matched fp m)
  then show ?thesis using inv by (intro exI [of _ new]) (auto simp: entries_inv_def locked_inv_def)
next
  case (failed err st2)
  then show ?thesis using good by (simp add: good_outcome_def)
next
  case (appended fp e nz x st2)
  let ?st1 = "st\<lparr>lk_normalizer := nz\<rparr>"
  have inv1: "locked_inv pd old ?st1 new" using inv by (simp add: entries_inv_def locked_inv_def)
  note e = record_event_Inr [OF pydantic_laws_axioms ok appended(3)]
  have l: "locked_inv pd old st' (new @ [event_canon x])" and wfx: "wf_event x"
    and b: "lk_batch_seen st2 = lk_batch_seen st"
    using append_checked_step [OF inv1 e(1) appended(4)] appended(5) by auto
  have fp: "fp \<noteq> []" "kept fp"
    using appended(1) kept_digest by (auto simp: record_idempotency_fingerprint_def bnd_Inr_iff sha256_digest_def)
  have t: "ingest_text (payload (event_canon x)) ''idempotency_key'' = Some (er_idempotency_key r)"
    "ingest_text (payload (event_canon x)) ''record_fingerprint'' = Some fp"
    using append_checked_text [OF inv1 e(1) appended(4)] e(4,5) fp key
    by (simp_all add: ingest_text_event_canon [OF wfx])
  have "scan_entries [] (old @ new @ [event_canon x])
      = dset (scan_entries [] (old @ new)) (er_idempotency_key r) (batch_entry x fp)"
    using t by (simp add: scan_entries_append ingest_text_event batch_entry_def event_canon_def)
  then have "dget (scan_entries [] (old @ new @ [event_canon x])) (er_idempotency_key k)
      = matched_entry seen (lk_batch_seen st') k" for k
    using inv appended(2,5) b
    by (auto simp: entries_inv_def matched_entry_def split: option.splits)
  then show ?thesis using l by (auto simp: entries_inv_def)
qed

lemma import_locked_records_entries:
  assumes "entries_inv old seen st new" "ok_clock now" "\<forall>r\<in>set rs. ok_record r \<and> kept (er_idempotency_key r)"
    and "import_locked_records pd apply_policy new_id now env seen st rs = (Inr (), st')"
    and "list_all good_outcome (lk_outcomes st')"
  shows "\<exists>new'. entries_inv old seen st' new'"
  using assms
proof (induction rs arbitrary: st new)
  case (Cons r rs)
  obtain go st1 where s: "import_locked_record pd apply_policy new_id now env seen st r = (Inr go, st1)"
    using Cons.prems(4) by (auto split: prod.splits sum.splits)
  show ?case
  proof (cases go)
    case True
    then have s': "import_locked_record pd apply_policy new_id now env seen st r = (Inr True, st1)"
      using s by simp
    have rest: "import_locked_records pd apply_policy new_id now env seen st1 rs = (Inr (), st')"
      using Cons.prems(4) s True by simp
    then obtain os where "lk_outcomes st' = lk_outcomes st1 @ os"
      using import_locked_records_settle [OF _ Cons.prems(5)] by blast
    then have "list_all good_outcome (lk_outcomes st1)" using Cons.prems(5) by simp
    then obtain new' where "entries_inv old seen st1 new'"
      using import_locked_record_entries [OF Cons.prems(1,2) _ _ s'] Cons.prems(3) by auto
    then show ?thesis using Cons.IH [OF _ Cons.prems(2) _ rest Cons.prems(5)] Cons.prems(3) by auto
  next
    case False
    then have "st' = st1" "\<exists>o1\<in>set (lk_outcomes st1). oc_status o1 = IO_FAILED"
      using s Cons.prems(4)
      by (auto simp: import_locked_record_def Let_def split: sum.splits option.splits prod.splits if_splits)
    then show ?thesis using Cons.prems(5) by (auto simp: list_all_iff good_outcome_def)
  qed
qed auto

end

text \<open>A batch of settled records changes nothing: every record is a duplicate.\<close>

lemma import_settled:
  assumes "\<forall>r\<in>set rs. settled (lk_normalizer st) (matched_entry seen (lk_batch_seen st)) r"
  shows "\<exists>os. import_locked_records pd ap new_id now env seen st rs = (Inr (), st\<lparr>lk_outcomes := lk_outcomes st @ os\<rparr>)
    \<and> map oc_status os = replicate (length rs) IO_DUPLICATE
    \<and> map oc_idempotency_key os = map er_idempotency_key rs"
  using assms
proof (induction rs arbitrary: st)
  case Nil
  then show ?case by (intro exI [of _ "[]"]) simp
next
  case (Cons r rs)
  from Cons.prems obtain fp m where m: "record_idempotency_fingerprint r (lk_normalizer st) = Inr fp"
    "matched_entry seen (lk_batch_seen st) r = Some m"
    "ie_record_fingerprint m = None \<or> ie_record_fingerprint m = Some fp"
    by (auto simp: settled_def)
  let ?o = "matched_idempotency_outcome r m fp"
  have o1: "oc_status ?o = IO_DUPLICATE" "oc_idempotency_key ?o = er_idempotency_key r"
    using m(3) by (auto simp: matched_idempotency_outcome_def)
  let ?st1 = "lock_outcome ?o st"
  obtain os where os: "import_locked_records pd ap new_id now env seen ?st1 rs
      = (Inr (), ?st1\<lparr>lk_outcomes := lk_outcomes ?st1 @ os\<rparr>)"
    "map oc_status os = replicate (length rs) IO_DUPLICATE"
    "map oc_idempotency_key os = map er_idempotency_key rs"
    using Cons.IH [of ?st1] Cons.prems by auto
  have "import_locked_record pd ap new_id now env seen st r = (Inr True, ?st1)"
    using m by (simp add: import_locked_record_def)
  then show ?case
    using os o1 by (intro exI [of _ "?o # os"]) (simp add: lock_outcome_def)
qed

section \<open>From the start of a batch\<close>

lemma journal_bytes_inj:
  assumes "pydantic_laws pd" "good_records pd 0 None es" "good_records pd 0 None fs"
    and "journal_bytes pd es = journal_bytes pd fs"
  shows "es = fs"
  using pydantic_laws.file_lines_journal [OF assms(1,2)] pydantic_laws.file_lines_journal [OF assms(1,3)]
    assms(4) good_records_lines [OF assms(2,3)] by simp

lemma verified_file:
  assumes "pydantic_laws pd" "file_bytes file = journal_bytes pd es" "good_records pd 0 None es" "fst stat = snd stat"
  shows "\<exists>s. verified_journal_snapshot pd stat None None file = Inr s \<and> snapshot_ok s
    \<and> js_events s = es \<and> snapshot_record_count s = length es"
proof -
  obtain v where "verify_journal pd stat None None file = Inr v" "vr_ok v"
    using verify_journal_good [OF assms, of None None] by blast
  then obtain s where s: "verified_journal_snapshot pd stat None None file = Inr s" "snapshot_ok s"
    by (auto simp: verify_journal_def bnd_Inr_iff snapshot_ok_def)
  have "js_events s = es"
    using journal_bytes_inj [OF assms(1) snapshot_okD(2) [OF assms(1) s] assms(3)] snapshot_okD(1) [OF assms(1) s] assms(2)
    by simp
  then show ?thesis using s snapshot_okD(3) [OF assms(1) s] by simp
qed

context redaction_boundary begin

text \<open>A journal followed by a cut off line yields its records, at most one more.\<close>

lemma cut_off_events:
  assumes "file_bytes file = journal_bytes pd es @ tail" "good_records pd 0 None es" "cut_off pd es tail"
    and "fst stat = snd stat"
  shows "\<exists>t more. verified_journal_snapshot pd stat None None file = Inr t \<and> js_events t = es @ more"
proof (cases "newline \<in> set tail")
  case False
  then show ?thesis using snapshot_events [OF pydantic_laws_axioms assms(1,2) _ assms(4)] by fastforce
next
  case True
  then obtain r n where r: "good_records pd 0 None (es @ [event_canon r])"
    "tail = take n (record_line pd (event_canon r))"
    using assms(3) by (auto simp: cut_off_def)
  obtain bs where bs: "record_line pd (event_canon r) = bs @ [newline]" "newline \<notin> set bs"
    using good_record_line [of "length es" "terminal None es" "event_canon r"] r(1) by auto
  then have "tail = record_line pd (event_canon r)" using take_line [OF bs(2), of n] r(2) True by auto
  then have "file_bytes file = journal_bytes pd (es @ [event_canon r]) @ []" using assms(1) by simp
  then show ?thesis
    using snapshot_events [OF pydantic_laws_axioms _ r(1) _ assms(4), of "file" "[]"] by fastforce
qed

end


lemma locked_start_inv:
  assumes laws: "pydantic_laws pd"
    and s: "bnd (locked_snapshot pd env file) (\<lambda>snapshot. locked_start nz snapshot file) = Inr (seen, st)"
  shows "\<exists>old. file_bytes file = journal_bytes pd old \<and> locked_inv pd old st []
    \<and> seen = scan_entries [] old \<and> same_config (lk_normalizer st) nz
    \<and> lk_batch_seen st = [] \<and> lk_outcomes st = [] \<and> lk_file st = file"
proof -
  obtain snap where snap: "verified_journal_snapshot pd (be_stat env) None None file = Inr snap"
    "snapshot_ok snap" "locked_start nz snap file = Inr (seen, st)"
    using s by (auto simp: locked_snapshot_def bnd_Inr_iff split: read_outcome.splits if_splits)
  note o = snapshot_okD [OF laws snap(1,2)]
  show ?thesis
    using snap(2,3) o
    by (intro exI [of _ "js_events snap"])
      (auto simp: locked_start_def bnd_Inr_iff rebase_initial_sequence_def existing_idempotency_entries_def
        locked_inv_def same_config_def split: if_splits)
qed

lemma locked_start_ready:
  assumes "pydantic_laws pd" "file_bytes file = journal_bytes pd es" "good_records pd 0 None es"
    and "be_dir env = DirPrivate" "be_lock env = Inr ()" "be_read env = ReadOk" "fst (be_stat env) = snd (be_stat env)"
    and "nz_sequence nz = nz_initial_sequence nz" "nz_root_event_id nz = None"
  shows "\<exists>st. bnd (locked_snapshot pd env file) (\<lambda>snapshot. locked_start nz snapshot file)
      = Inr (scan_entries [] es, st) \<and> same_config (lk_normalizer st) nz
    \<and> lk_batch_seen st = [] \<and> lk_outcomes st = [] \<and> lk_file st = file"
proof -
  obtain v where v: "verify_journal pd (be_stat env) None None file = Inr v" "vr_ok v"
    using verify_journal_good [OF assms(1,2,3,7), of None None] by blast
  then obtain snap where snap: "verified_journal_snapshot pd (be_stat env) None None file = Inr snap"
    "snapshot_ok snap"
    by (auto simp: verify_journal_def bnd_Inr_iff snapshot_ok_def)
  have "journal_bytes pd (js_events snap) = journal_bytes pd es"
    using snapshot_okD(1) [OF assms(1) snap] assms(2) by simp
  then have "js_events snap = es"
    using journal_bytes_inj [OF assms(1) snapshot_okD(2) [OF assms(1) snap] assms(3)] by blast
  then show ?thesis
    using snap assms(4-6,8,9)
    by (simp add: locked_snapshot_def ensure_private_directory_def locked_start_def
        rebase_initial_sequence_def existing_idempotency_entries_def same_config_def)
qed

section \<open>Properties\<close>

text \<open>C22. A batch imported under the journal lock without failed records leaves a journal that
  verifies: the old records, then one record for each imported outcome, in the order of the
  outcomes and with their event ids.\<close>
theorem batch_import_verifies:
  assumes "redaction_boundary pd apply_policy" "ok_clock now" "\<forall>r\<in>set records. ok_record r"
    and "import_evidence_batch_atomically pd apply_policy new_id now env records nz file = (Inr r, file')"
    and "failed_count r = 0" "fst stat = snd stat"
  shows "\<exists>old new s. file_bytes file = journal_bytes pd old
    \<and> verified_journal_snapshot pd stat None None file' = Inr s \<and> snapshot_ok s
    \<and> js_events s = old @ new
    \<and> map (\<lambda>e. Some (event_id e)) new = imported_ids (br_outcomes r)
    \<and> snapshot_record_count s = length old + imported_count r"
proof -
  have laws: "pydantic_laws pd" by (rule redaction_boundary.axioms(1) [OF assms(1)])
  obtain seen st st' where b:
    "bnd (locked_snapshot pd env file) (\<lambda>snapshot. locked_start nz snapshot file) = Inr (seen, st)"
    "import_locked_records pd apply_policy new_id now env seen st (record_order records) = (Inr (), st')"
    "r = \<lparr>br_outcomes = lk_outcomes st'\<rparr>" "file' = lk_file st'"
    using assms(4) by (auto simp: import_evidence_batch_atomically_def bnd_Inr_iff
        split: sum.splits prod.splits)
  obtain old where old: "file_bytes file = journal_bytes pd old" "locked_inv pd old st []"
    using locked_start_inv [OF laws b(1)] by blast
  have recs: "\<forall>r\<in>set (record_order records). ok_record r" using assms(3) by (simp add: record_order_def)
  have "IO_FAILED \<notin> oc_status ` set (lk_outcomes st')"
    using assms(5) b(3) by (auto simp: failed_count_def outcome_count_def filter_empty_conv)
  then obtain new where "batch_file pd old st' new []"
    using redaction_boundary.import_locked_records_file [OF assms(1) old(2) assms(2) recs b(2)] by blast
  then have n: "file_bytes file' = journal_bytes pd (old @ new)" "good_records pd 0 None (old @ new)"
    "imported_ids (br_outcomes r) = map (\<lambda>e. Some (event_id e)) new"
    using b(3,4) by (simp_all add: batch_file_def)
  have "length new = imported_count r"
    using arg_cong [OF n(3), of length] by (simp add: imported_ids_def imported_count_def outcome_count_def)
  then show ?thesis
    using verified_file [OF laws n(1,2) assms(6)] old(1) n(3) by fastforce
qed

text \<open>C24. Whatever stops a batch (a refusal, an exception, a write cut off after any number of
  bytes), the journal afterwards yields the records that verified before, followed by records of
  the batch.\<close>
theorem batch_import_keeps_journal:
  assumes "redaction_boundary pd apply_policy" "ok_clock now" "\<forall>r\<in>set records. ok_record r"
    and "verified_journal_snapshot pd stat None None file = Inr s" "snapshot_ok s" "fst stat = snd stat"
    and "import_evidence_batch_atomically pd apply_policy new_id now env records nz file = (res, file')"
  shows "\<exists>t new. verified_journal_snapshot pd stat None None file' = Inr t \<and> js_events t = js_events s @ new"
proof (cases "bnd (locked_snapshot pd env file) (\<lambda>snapshot. locked_start nz snapshot file)")
  case (Inl err)
  then have "file' = file" using assms(7) by (simp add: import_evidence_batch_atomically_def)
  then show ?thesis using assms(4) by auto
next
  case (Inr p)
  have laws: "pydantic_laws pd" by (rule redaction_boundary.axioms(1) [OF assms(1)])
  obtain seen st st' rs where b: "p = (seen, st)"
    "import_locked_records pd apply_policy new_id now env seen st (record_order records) = (rs, st')"
    "file' = lk_file st'"
    using assms(7) Inr by (auto simp: import_evidence_batch_atomically_def split: prod.splits)
  obtain old where old: "file_bytes file = journal_bytes pd old" "locked_inv pd old st []"
    using locked_start_inv [OF laws Inr [unfolded b(1)]] by blast
  have recs: "\<forall>r\<in>set (record_order records). ok_record r" using assms(3) by (simp add: record_order_def)
  obtain new tail where n: "batch_file pd old st' new tail"
    using redaction_boundary.import_locked_records_file [OF assms(1) old(2) assms(2) recs b(2)] by blast
  have "js_events s = old"
    using journal_bytes_inj [OF laws snapshot_okD(2) [OF laws assms(4,5)], of old] old
      snapshot_okD(1) [OF laws assms(4,5)] by (simp add: locked_inv_def)
  then show ?thesis
    using redaction_boundary.cut_off_events [OF assms(1) _ _ _ assms(6), of "file'" "old @ new" tail]
      n b(3) by (fastforce simp: batch_file_def)
qed

text \<open>C23. Importing a batch again is safe: when every record of a batch was imported or was a
  duplicate, a second import by a fresh normalizer of the same configuration appends nothing and
  reports every record as a duplicate, provided the redaction leaves the idempotency keys alone, the
  lock is granted and the journal can be read.\<close>
theorem batch_import_idempotent:
  assumes "ingest_boundary pd apply_policy kept" "ok_clock now"
    and "\<forall>r\<in>set records. ok_record r \<and> kept (er_idempotency_key r)"
    and "import_evidence_batch_atomically pd apply_policy new_id now env records nz file = (Inr r, file')"
    and "BatchImportResult_ok r"
    and "be_dir env' = DirPrivate" "be_lock env' = Inr ()" "be_read env' = ReadOk"
    and "fst (be_stat env') = snd (be_stat env')"
    and "same_config nz' nz" "nz_sequence nz' = nz_initial_sequence nz'" "nz_root_event_id nz' = None"
  shows "\<exists>r'. import_evidence_batch_atomically pd apply_policy new_id' now' env' records nz' file' = (Inr r', file')
    \<and> map oc_status (br_outcomes r') = replicate (length records) IO_DUPLICATE"
proof -
  have rb: "redaction_boundary pd apply_policy" by (rule ingest_boundary.axioms(1) [OF assms(1)])
  have laws: "pydantic_laws pd" by (rule redaction_boundary.axioms(1) [OF rb])
  obtain seen st st' where b:
    "bnd (locked_snapshot pd env file) (\<lambda>snapshot. locked_start nz snapshot file) = Inr (seen, st)"
    "import_locked_records pd apply_policy new_id now env seen st (record_order records) = (Inr (), st')"
    "r = \<lparr>br_outcomes = lk_outcomes st'\<rparr>" "file' = lk_file st'"
    using assms(4) by (auto simp: import_evidence_batch_atomically_def bnd_Inr_iff
        split: sum.splits prod.splits)
  obtain old where old: "locked_inv pd old st []" "seen = scan_entries [] old"
    "same_config (lk_normalizer st) nz" "lk_batch_seen st = []"
    using locked_start_inv [OF laws b(1)] by blast
  have recs: "\<forall>r\<in>set (record_order records). ok_record r \<and> kept (er_idempotency_key r)" using assms(3) by (simp add: record_order_def)
  have good: "list_all good_outcome (lk_outcomes st')" using assms(5) b(3) by (simp add: good_outcomes_ok)
  have inv: "ingest_boundary.entries_inv pd old seen st []"
    using old by (simp add: ingest_boundary.entries_inv_def [OF assms(1)] matched_entry_def
        split: option.split)
  obtain new where new: "ingest_boundary.entries_inv pd old seen st' new"
    using ingest_boundary.import_locked_records_entries [OF assms(1) inv assms(2) recs b(2) good] by blast
  note e = new [unfolded ingest_boundary.entries_inv_def [OF assms(1)] locked_inv_def]
  obtain st2 where st2:
    "bnd (locked_snapshot pd env' file') (\<lambda>snapshot. locked_start nz' snapshot file')
      = Inr (scan_entries [] (old @ new), st2)" "same_config (lk_normalizer st2) nz'"
    "lk_batch_seen st2 = []" "lk_outcomes st2 = []" "lk_file st2 = file'"
    using locked_start_ready [OF laws _ _ assms(6-9,11,12), of "file'" "old @ new"] e b(4) by blast
  have "settled (lk_normalizer st2) (matched_entry (scan_entries [] (old @ new)) (lk_batch_seen st2)) k"
    if "k \<in> set (record_order records)" for k
  proof -
    have "settled (lk_normalizer st) (matched_entry seen (lk_batch_seen st')) k"
      using import_locked_records_settle [OF b(2) good] that by blast
    then have "settled (lk_normalizer st) (matched_entry (scan_entries [] (old @ new)) []) k"
      using e by (rule_tac settled_mono) (auto simp: matched_entry_def)
    moreover have "same_config (lk_normalizer st) (lk_normalizer st2)"
      using old(3) st2(2) assms(10) by (simp add: same_config_def)
    ultimately show ?thesis using settled_config st2(3) by metis
  qed
  then obtain os where "import_locked_records pd apply_policy new_id' now' env' (scan_entries [] (old @ new)) st2
      (record_order records) = (Inr (), st2\<lparr>lk_outcomes := lk_outcomes st2 @ os\<rparr>)"
    "map oc_status os = replicate (length (record_order records)) IO_DUPLICATE"
    using import_settled by blast
  then show ?thesis
    using st2 by (simp add: import_evidence_batch_atomically_def record_order_def)
qed

section \<open>Witnesses\<close>

definition sample_record :: EvidenceRecord where
  "sample_record = \<lparr>er_idempotency_key = ''k1'', er_event_type = ''agent.run.started'',
     er_payload = obj_items [(''a'', VInt 1)], er_source_kind = SK_FIXTURE, er_sort_key = [],
     er_source = None, er_principal = None, er_classification = None\<rparr>"

definition sample_normalizer :: "(FixedIdGenerator, unit) EvidenceNormalizer" where
  "sample_normalizer =
     \<lparr>nz_correlation = ev_correlation sample_event, nz_source = ev_source sample_event,
      nz_principal = ev_principal sample_event, nz_classification = ev_classification sample_event,
      nz_clock = (), nz_id_generator = \<lparr>ig_values = [''evt_1''], ig_index = 0\<rparr>,
      nz_initial_sequence = 0, nz_sequence = 0, nz_root_event_id = None, nz_last_event_id = None\<rparr>"

definition sample_now :: "unit \<Rightarrow> datetime res \<times> unit" where
  "sample_now c = (Inr sample_time, c)"

definition sample_batch_env :: batch_env where
  "sample_batch_env = \<lparr>be_dir = DirPrivate, be_lock = Inr (), be_read = ReadOk, be_stat = sample_stat,
     be_write = (\<lambda>n. WriteOk)\<rparr>"

definition imported_event :: "string \<Rightarrow> event" where
  "imported_event fp =
     sample_event\<lparr>event_id := ''evt_1'', ev_causality := \<lparr>root_event_id = ''evt_1'', sequence = 0, parent_event_id = None\<rparr>,
       payload := VFrozenDict [(KStr ''a'', VInt 1), (KStr ''ingest'', VFrozenDict
        [(KStr ''fingerprint_version'', VStr INGEST_RECORD_FINGERPRINT_VERSION),
         (KStr ''idempotency_key'', VStr ''k1''), (KStr ''record_fingerprint'', VStr fp),
         (KStr ''source_kind'', VStr ''fixture'')])]\<rparr>"

lemma imported_event_fields:
  "event_id (imported_event fp) = ''evt_1''" "event_type (imported_event fp) = ''agent.run.started''"
  "occurred_at (imported_event fp) = sample_time" "observed_at (imported_event fp) = sample_time"
  "ev_source (imported_event fp) = ev_source sample_event"
  "ev_correlation (imported_event fp) = ev_correlation sample_event"
  "ev_causality (imported_event fp) = \<lparr>root_event_id = ''evt_1'', sequence = 0, parent_event_id = None\<rparr>"
  "ev_principal (imported_event fp) = ev_principal sample_event"
  "ev_classification (imported_event fp) = ev_classification sample_event"
  "ev_integrity (imported_event fp) = default_integrity"
  by (simp_all add: imported_event_def sample_event_def)

lemma sample_payload:
  "require_json_payload (payload_with_ingest_metadata sample_record fp) = Some (payload (imported_event fp))"
  by (simp add: require_json_payload_def payload_with_ingest_metadata_def sample_record_def imported_event_def
      validate_json_value.simps default_limits_def DEFAULT_JSON_MAX_DEPTH_def
      DEFAULT_JSON_MAX_OBJECT_MEMBERS_def)

lemma wf_imported_event: "wf_event (imported_event fp)"
proof -
  have "wf_payload (payload (imported_event fp))"
    by (simp add: imported_event_def wf_payload_def default_limits_def validate_json_value.simps
        DEFAULT_JSON_MAX_DEPTH_def DEFAULT_JSON_MAX_OBJECT_MEMBERS_def)
  then show ?thesis
    using wf_sample_event
    by (simp add: wf_event_def imported_event_fields wf_str_def byte_def wf_causality_def wf_opt_def
        validate_causality_def documented_root_event_types_def wf_integrity_def default_integrity_def)
      (simp add: imported_event_def sample_event_def)
qed

lemma ok_sample_record: "ok_record sample_record"
  by (simp add: ok_record_def sample_record_def str_keys_def)

lemma sample_record_event:
  "\<exists>nz. record_event strict_pydantic FixedIdGenerator_new_id sample_now sample_normalizer sample_record fp
    = (Inr (imported_event fp), nz)"
proof -
  let ?c = "\<lparr>root_event_id = ''evt_1'', sequence = 0, parent_event_id = None\<rparr>"
  have "Causality_new strict_pydantic ''evt_1'' None 0 = Inr ?c"
    using strict.validate_causality_reads [of ?c "obj_items (causality_dump ?c)"] same_dict_obj
    by (simp add: Causality_new_def wf_causality_def wf_str_def wf_opt_def byte_def)
  then have "normalized_event strict_pydantic sample_normalizer no_args ''agent.run.started''
      (VDict (payload_with_ingest_metadata sample_record fp)) ''evt_1'' ''evt_1'' None sample_time sample_time
      = Inr (imported_event fp)"
    using EventEnvelope_new_wf [OF strict.pydantic_laws_axioms wf_imported_event imported_event_fields(10)
        ok_record_payload(1) [OF ok_sample_record] sample_payload, of fp]
    by (simp add: normalized_event_def imported_event_fields no_args_def or_default_def sample_normalizer_def)
  then show ?thesis
    by (simp add: record_event_def EvidenceNormalizer_record_def sample_normalizer_def FixedIdGenerator_new_id_def
        no_args_def resolve_root_event_id_def sample_now_def sample_record_def Let_def py_startswith_def)
qed

lemma sample_fingerprint:
  "\<exists>fp. record_idempotency_fingerprint sample_record sample_normalizer = Inr fp \<and> utf8_ok False fp"
proof -
  have "encodable (fingerprint_preimage sample_record sample_normalizer)"
    unfolding fingerprint_preimage_def encodable_obj
    by (simp add: sample_record_def sample_normalizer_def sample_event_def or_default_def fingerprint_payload_def
        pop_key_def get_or_none_def is_service_ingestion_provenance_def classification_dump_def
        correlation_dump_def principal_dump_def source_dump_def INGEST_RECORD_FINGERPRINT_VERSION_def
        byte_def nat_repr.simps max_int_digits_def)
  then obtain bs where "deterministic_json_bytes (fingerprint_preimage sample_record sample_normalizer) = Inr bs"
    using encodable_bytes by blast
  then show ?thesis using wf_str_utf8 [OF wf_str_digest] by (simp add: record_idempotency_fingerprint_def)
qed

lemma identity_prepare:
  assumes "wf_event e" "serializable e"
    and "is_supported_persisted_event_canonicalization (canonicalization (ev_integrity e))"
  shows "\<exists>r bs. prepare_event_for_append strict_pydantic Inr e None = Inr (r, bs)"
proof -
  let ?h = "e\<lparr>ev_integrity :=
      \<lparr>canonicalization = canonicalization (ev_integrity e), previous_event_hash = None,
       event_hash = None\<rparr>, payload := refreeze (payload e)\<rparr>"
  have wf: "wf_event ?h"
    using assms(1) by (simp add: wf_event_def wf_integrity_def validate_causality_def)
  have se: "serializable ?h" by (rule strict.serializable_integrity [OF assms(2)])
  have red: "redacted_event strict_pydantic Inr ?h = Inr (event_canon ?h)"
    using wf se by (rule strict.redacted_event_identity)
  have "canonicalization (ev_integrity (event_canon ?h)) = canonicalization (ev_integrity e)"
    by (simp add: event_canon_def)
  then show ?thesis
    using strict.prepare_event_succeeds [OF assms(1) wf_opt_simps(1) assms(3) red _
        serializable_canon [OF wf se]] assms(3) by metis
qed

lemma serializable_imported: "utf8_ok False fp \<Longrightarrow> serializable (imported_event fp)"
  by (simp add: serializable_def imported_event_fields default_integrity_def)
    (simp add: imported_event_def validate_json_value.simps default_limits_def DEFAULT_JSON_MAX_DEPTH_def
      DEFAULT_JSON_MAX_OBJECT_MEMBERS_def INGEST_RECORD_FINGERPRINT_VERSION_def byte_def nat_repr.simps
      max_int_digits_def CANONICALIZATION_VERSION_def)

lemma sample_import:
  "\<exists>r f. import_evidence_batch_atomically strict_pydantic Inr FixedIdGenerator_new_id sample_now sample_batch_env
      [sample_record] sample_normalizer None = (Inr r, f) \<and> BatchImportResult_ok r \<and> failed_count r = 0
    \<and> imported_count r = 1"
proof -
  obtain fp where fp: "record_idempotency_fingerprint sample_record sample_normalizer = Inr fp" "utf8_ok False fp"
    using sample_fingerprint by blast
  obtain nz where nz: "record_event strict_pydantic FixedIdGenerator_new_id sample_now sample_normalizer
      sample_record fp = (Inr (imported_event fp), nz)"
    using sample_record_event by blast
  have label: "is_supported_persisted_event_canonicalization (canonicalization (ev_integrity (imported_event fp)))"
    by (simp add: imported_event_fields) code_simp
  obtain x bs where p: "prepare_event_for_append strict_pydantic Inr (imported_event fp) None = Inr (x, bs)"
    using identity_prepare [OF wf_imported_event serializable_imported [OF fp(2)] label] by blast
  have snap: "\<exists>s. verified_journal_snapshot strict_pydantic sample_stat None None None = Inr s
    \<and> snapshot_ok s \<and> js_events s = [] \<and> snapshot_record_count s = 0 \<and> snapshot_terminal_hash s = None"
    by (rule sample_empty)
  let ?st = "\<lparr>lk_normalizer = sample_normalizer, lk_file = None, lk_writes = 0, lk_batch_seen = [],
     lk_next_sequence = 0, lk_previous_event_hash = None, lk_outcomes = []\<rparr>"
  have start: "bnd (locked_snapshot strict_pydantic sample_batch_env None)
      (\<lambda>snapshot. locked_start sample_normalizer snapshot None) = Inr ([], ?st)"
    using snap
    by (auto simp: locked_snapshot_def sample_batch_env_def ensure_private_directory_def locked_start_def
        rebase_initial_sequence_def existing_idempotency_entries_def sample_normalizer_def)
  have "append_checked strict_pydantic Inr sample_batch_env (?st\<lparr>lk_normalizer := nz\<rparr>) (imported_event fp)
      = (Inr x, ?st\<lparr>lk_normalizer := nz, lk_file := Some (bs @ [newline]), lk_writes := 1\<rparr>)"
    using p by (simp add: append_checked_def imported_event_fields append_event_inside_lock_def
        append_line_def sample_batch_env_def file_bytes_def)
  then have "import_locked_record strict_pydantic Inr FixedIdGenerator_new_id sample_now sample_batch_env [] ?st
      sample_record = (Inr True, record_persisted sample_record fp x
        (?st\<lparr>lk_normalizer := nz, lk_file := Some (bs @ [newline]), lk_writes := 1\<rparr>))"
    using fp nz by (simp add: import_locked_record_def matched_entry_def Let_def)
  then show ?thesis
    using start by (simp add: import_evidence_batch_atomically_def record_order_def BatchImportResult_ok_def
        failed_count_def conflict_count_def imported_count_def outcome_count_def)
qed

lemma ok_sample_now: "ok_clock sample_now"
  using sample_time_utc by (simp add: ok_clock_def sample_now_def is_utc_def)

lemma ingest_boundary_identity: "ingest_boundary strict_pydantic Inr (\<lambda>s. True)"
proof (intro ingest_boundary.intro redaction_boundary_identity ingest_boundary_axioms.intro)
  fix e r k s
  assume a: "wf_event e" "redacted_event strict_pydantic Inr e = Inr r" "ingest_text (payload e) k = Some s"
  then obtain bs where bs: "serialize_event_for_persistence strict_pydantic Inr e = Inr bs"
    "event_from_json strict_pydantic bs = Inr r"
    by (auto simp: redacted_event_def bnd_Inr_iff)
  then have "serialize_event strict_pydantic e = Inr bs"
    by (auto simp: serialize_event_for_persistence_def redact_event_dict_def serialize_event_def
        bnd_Inr_iff split: sum.splits pyv.splits)
  then have "r = event_canon e"
    using strict.event_from_json_serialize [OF a(1)] bs(2) by simp
  then show "ingest_text (payload r) k = Some s"
    using ingest_text_event_canon [OF a(1)] a(3) by simp
qed simp

interpretation identity_ingest: ingest_boundary strict_pydantic Inr "\<lambda>s. True"
  by (rule ingest_boundary_identity)

theorem batch_import_verifies_witness:
  "\<exists>r f s. import_evidence_batch_atomically strict_pydantic Inr FixedIdGenerator_new_id sample_now
      sample_batch_env [sample_record] sample_normalizer None = (Inr r, f) \<and> imported_count r = 1
    \<and> verified_journal_snapshot strict_pydantic sample_stat None None f = Inr s \<and> snapshot_ok s"
proof -
  obtain r f where i: "import_evidence_batch_atomically strict_pydantic Inr FixedIdGenerator_new_id sample_now
      sample_batch_env [sample_record] sample_normalizer None = (Inr r, f)" "failed_count r = 0" "imported_count r = 1"
    using sample_import by blast
  have "\<forall>r\<in>set [sample_record]. ok_record r" using ok_sample_record by simp
  then show ?thesis
    using batch_import_verifies [OF redaction_boundary_identity ok_sample_now _ i(1,2) sample_stat_same] i
    by blast
qed

theorem batch_import_keeps_journal_witness:
  "\<exists>res f t. import_evidence_batch_atomically strict_pydantic Inr FixedIdGenerator_new_id sample_now
      (sample_batch_env\<lparr>be_write := \<lambda>n. WriteError 7\<rparr>) [sample_record] sample_normalizer None = (res, f)
    \<and> verified_journal_snapshot strict_pydantic sample_stat None None f = Inr t"
proof -
  obtain s where s: "verified_journal_snapshot strict_pydantic sample_stat None None None = Inr s" "snapshot_ok s"
    using sample_empty by blast
  obtain res f where i: "import_evidence_batch_atomically strict_pydantic Inr FixedIdGenerator_new_id sample_now
      (sample_batch_env\<lparr>be_write := \<lambda>n. WriteError 7\<rparr>) [sample_record] sample_normalizer None = (res, f)"
    by force
  have "\<forall>r\<in>set [sample_record]. ok_record r" using ok_sample_record by simp
  then show ?thesis
    using batch_import_keeps_journal [OF redaction_boundary_identity ok_sample_now _ s sample_stat_same i] i
    by blast
qed

theorem batch_import_idempotent_witness:
  "\<exists>r f r'. import_evidence_batch_atomically strict_pydantic Inr FixedIdGenerator_new_id sample_now
      sample_batch_env [sample_record] sample_normalizer None = (Inr r, f) \<and> imported_count r = 1
    \<and> import_evidence_batch_atomically strict_pydantic Inr FixedIdGenerator_new_id sample_now
      sample_batch_env [sample_record] sample_normalizer f = (Inr r', f)
    \<and> map oc_status (br_outcomes r') = [IO_DUPLICATE]"
proof -
  obtain r f where i: "import_evidence_batch_atomically strict_pydantic Inr FixedIdGenerator_new_id sample_now
      sample_batch_env [sample_record] sample_normalizer None = (Inr r, f)" "BatchImportResult_ok r"
    "imported_count r = 1"
    using sample_import by blast
  have env: "be_dir sample_batch_env = DirPrivate" "be_lock sample_batch_env = Inr ()"
    "be_read sample_batch_env = ReadOk" "fst (be_stat sample_batch_env) = snd (be_stat sample_batch_env)"
    by (simp_all add: sample_batch_env_def)
  have nz: "nz_sequence sample_normalizer = nz_initial_sequence sample_normalizer"
    "nz_root_event_id sample_normalizer = None"
    by (simp_all add: sample_normalizer_def)
  have "\<forall>r\<in>set [sample_record]. ok_record r \<and> True" using ok_sample_record by simp
  from batch_import_idempotent [OF ingest_boundary_identity ok_sample_now this i(1,2) env same_config_refl nz,
      of FixedIdGenerator_new_id sample_now]
  show ?thesis using i by (auto simp: replicate_Suc)
qed

end
