(* ===== verification/TimelineClaims.thy ===== *)
theory TimelineClaims
  imports IngestionClaims
begin

text \<open>
  The causality of normalized events (\<open>evidence/normalization.py\<close>) and what a refused record does to the
  rest of its batch (\<open>evidence/ingestion.py\<close>).
\<close>

section \<open>Timelines\<close>

text \<open>The events of a run of \<open>record\<close> calls, each with its type, its payload and its optional arguments;
  a call that raises gives no event.\<close>

fun emit ::
  "pydantic \<Rightarrow> ('g \<Rightarrow> string \<Rightarrow> string res \<times> 'g) \<Rightarrow> ('c \<Rightarrow> datetime res \<times> 'c)
     \<Rightarrow> ('g, 'c) EvidenceNormalizer \<Rightarrow> (string \<times> pyv \<times> record_args) list
     \<Rightarrow> event list \<times> ('g, 'c) EvidenceNormalizer" where
  "emit pd new_id now nz [] = ([], nz)"
| "emit pd new_id now nz ((t, pay, args) # rest) =
     (case EvidenceNormalizer_record pd new_id now nz t pay args of
        (Inl err, nz') \<Rightarrow> emit pd new_id now nz' rest
      | (Inr e, nz') \<Rightarrow> (case emit pd new_id now nz' rest of (es, nz'') \<Rightarrow> (e # es, nz'')))"

text \<open>The sequence numbers count up from \<open>n\<close>.\<close>

fun numbered :: "int \<Rightarrow> event list \<Rightarrow> bool" where
  "numbered n [] = True"
| "numbered n (e # es) \<longleftrightarrow> sequence (ev_causality e) = n \<and> numbered (n + 1) es"

text \<open>A call that names neither a parent nor a root.\<close>

definition unlinked :: "record_args \<Rightarrow> bool" where
  "unlinked args \<longleftrightarrow> ra_parent_event_id args = None \<and> ra_root_event_id args = None"

text \<open>A timeline: one root, each event the child of the event before it, consecutive numbers.\<close>

fun timeline :: "string option \<Rightarrow> string option \<Rightarrow> int \<Rightarrow> event list \<Rightarrow> bool" where
  "timeline rid last1 n [] = True"
| "timeline rid last1 n (e # es) \<longleftrightarrow>
     sequence (ev_causality e) = n
     \<and> parent_event_id (ev_causality e) = (if rid = None then None else last1)
     \<and> root_event_id (ev_causality e) = (case rid of None \<Rightarrow> event_id e | Some r \<Rightarrow> r)
     \<and> timeline (Some (root_event_id (ev_causality e))) (Some (event_id e)) (n + 1) es"

lemma record_linked:
  assumes "pydantic_laws pd" "EvidenceNormalizer_record pd new_id now nz t pay args = (Inr e, nz')"
    and "pay = VDict d" "\<forall>p\<in>set d. \<exists>s. fst p = KStr s"
  shows "new_id (nz_id_generator nz) ''evt'' = (Inr (event_id e), nz_id_generator nz')"
    "sequence (ev_causality e) = nz_sequence nz" "nz_sequence nz' = nz_sequence nz + 1"
    "nz_last_event_id nz' = Some (event_id e)"
    "nz_root_event_id nz' = Some (root_event_id (ev_causality e))"
    "unlinked args \<Longrightarrow> parent_event_id (ev_causality e) = (if nz_root_event_id nz = None then None else nz_last_event_id nz)"
    "unlinked args \<Longrightarrow> root_event_id (ev_causality e) = (case nz_root_event_id nz of None \<Rightarrow> event_id e | Some r \<Rightarrow> r)"
proof -
  obtain i g rid parent occ obs c where r:
    "new_id (nz_id_generator nz) ''evt'' = (Inr i, g)"
    "resolve_root_event_id nz i (ra_root_event_id args)
        (nz_root_event_id nz = None \<and> ra_parent_event_id args = None \<and> ra_root_event_id args = None)
       = Inr rid"
    "parent = (if nz_root_event_id nz = None \<and> ra_parent_event_id args = None
                   \<and> ra_root_event_id args = None then None
                else or_else (ra_parent_event_id args) (nz_last_event_id nz))"
    "normalized_event pd nz args t pay i rid parent occ obs = Inr e"
    "nz' = record_emitted (nz\<lparr>nz_id_generator := g, nz_clock := c\<rparr>) e"
    using record_returned [OF assms(2)] by blast
  obtain cau where cau: "Causality_new pd rid parent (nz_sequence nz) = Inr cau"
    and new: "EventEnvelope_new pd i t occ obs
         (or_default (ra_source args) (nz_source nz)) (nz_correlation nz) cau
         (or_default (ra_principal args) (nz_principal nz))
         (or_default (ra_classification args) (nz_classification nz)) (VDict d) = Inr e"
    using r(4) assms(3) by (auto simp: normalized_event_def bnd_Inr_iff)
  note c = Causality_new_Inr [OF assms(1) cau]
  note e = EventEnvelope_new_Inr [OF assms(1) new conjunct2 [OF c] assms(4)]
  show "new_id (nz_id_generator nz) ''evt'' = (Inr (event_id e), nz_id_generator nz')"
    "sequence (ev_causality e) = nz_sequence nz" "nz_sequence nz' = nz_sequence nz + 1"
    "nz_last_event_id nz' = Some (event_id e)"
    "nz_root_event_id nz' = Some (root_event_id (ev_causality e))"
    using r c e by (auto simp: record_emitted_def)
  show "unlinked args \<Longrightarrow> parent_event_id (ev_causality e) = (if nz_root_event_id nz = None then None else nz_last_event_id nz)"
    "unlinked args \<Longrightarrow> root_event_id (ev_causality e) = (case nz_root_event_id nz of None \<Rightarrow> event_id e | Some r \<Rightarrow> r)"
    using r c e by (auto simp: unlinked_def or_else_def resolve_root_event_id_def split: option.splits)
qed

definition plain_payloads :: "(string \<times> pyv \<times> record_args) list \<Rightarrow> bool" where
  "plain_payloads reqs \<longleftrightarrow> (\<forall>(t, pay, args)\<in>set reqs. \<exists>d. pay = VDict d \<and> (\<forall>p\<in>set d. \<exists>s. fst p = KStr s))"

lemma emit_timeline:
  assumes "pydantic_laws pd" "plain_payloads reqs" "emit pd new_id now nz reqs = (es, nz')"
  shows "numbered (nz_sequence nz) es \<and> ((\<forall>(t, pay, args)\<in>set reqs. unlinked args) \<longrightarrow>
    timeline (nz_root_event_id nz) (nz_last_event_id nz) (nz_sequence nz) es)"
  using assms(2,3)
proof (induction reqs arbitrary: nz es)
  case (Cons q reqs)
  obtain t pay args where q: "q = (t, pay, args)" by (cases q)
  obtain d where d: "pay = VDict d" "\<forall>p\<in>set d. \<exists>s. fst p = KStr s" and rest: "plain_payloads reqs"
    using Cons.prems(1) q by (auto simp: plain_payloads_def)
  obtain re nz1 where re: "EvidenceNormalizer_record pd new_id now nz t pay args = (re, nz1)" by force
  show ?case
  proof (cases re)
    case (Inl err)
    then show ?thesis
      using Cons.IH [OF rest, of nz1 es] Cons.prems(2) re q
        record_failed [OF re [unfolded Inl]] by simp
  next
    case (Inr e)
    obtain fs where fs: "emit pd new_id now nz1 reqs = (fs, nz')" and "es = e # fs"
      using Cons.prems(2) re q Inr by (auto split: prod.splits)
    then show ?thesis
      using Cons.IH [OF rest fs] record_linked [OF assms(1) re [unfolded Inr] d] q by auto
  qed
qed simp

lemma record_ids_failed:
  "EvidenceNormalizer_record pd new_id now nz t pay args = (Inl err, nz') \<Longrightarrow>
   \<exists>x. new_id (nz_id_generator nz) ''evt'' = (x, nz_id_generator nz')"
  by (auto simp: EvidenceNormalizer_record_def Let_def split: prod.splits sum.splits if_split_asm)

lemma emit_ids:
  assumes laws: "pydantic_laws pd" and f: "fresh_ids new_id used ok"
    and "plain_payloads reqs" "emit pd new_id now nz reqs = (es, nz')" "ok (nz_id_generator nz)"
  shows "distinct (map event_id es) \<and> set (map event_id es) \<inter> used (nz_id_generator nz) = {}"
  using assms(3-)
proof (induction reqs arbitrary: nz es)
  case (Cons q reqs)
  obtain t pay args where q: "q = (t, pay, args)" by (cases q)
  obtain d where d: "pay = VDict d" "\<forall>p\<in>set d. \<exists>s. fst p = KStr s" and rest: "plain_payloads reqs"
    using Cons.prems(1) q by (auto simp: plain_payloads_def)
  obtain re nz1 where re: "EvidenceNormalizer_record pd new_id now nz t pay args = (re, nz1)" by force
  show ?case
  proof (cases re)
    case (Inl err)
    obtain x where x: "new_id (nz_id_generator nz) ''evt'' = (x, nz_id_generator nz1)"
      using record_ids_failed [OF re [unfolded Inl]] by blast
    then have "ok (nz_id_generator nz1)" "used (nz_id_generator nz) \<subseteq> used (nz_id_generator nz1)"
      using fresh_ids.new_id_ok [OF f Cons.prems(3) x] fresh_ids.new_id_failed [OF f Cons.prems(3)]
        fresh_ids.new_id_fresh [OF f Cons.prems(3)] by (cases x; auto)+
    then show ?thesis
      using Cons.IH [OF rest, of nz1 es] Cons.prems(2) re q Inl by auto
  next
    case (Inr e)
    obtain fs where fs: "emit pd new_id now nz1 reqs = (fs, nz')" and es: "es = e # fs"
      using Cons.prems(2) re q Inr by (auto split: prod.splits)
    have n: "new_id (nz_id_generator nz) ''evt'' = (Inr (event_id e), nz_id_generator nz1)"
      using record_linked(1) [OF laws re [unfolded Inr] d] .
    show ?thesis
      using Cons.IH [OF rest fs] es fresh_ids.new_id_ok [OF f Cons.prems(3) n]
        fresh_ids.new_id_fresh [OF f Cons.prems(3) n] by auto
  qed
qed simp

text \<open>C25. The events of a normalizer: whatever types, payloads and arguments its calls have, the
  events it returns carry consecutive sequence numbers from the initial one, refused calls leave no
  gap, and with a generator that does not repeat identifiers no event id occurs twice. When no call
  names a parent or a root they form one timeline: the first event is its own root and has no parent,
  every later event is a child of the event before it under that root.\<close>
theorem normalizer_timeline:
  assumes "pydantic_laws pd" "fresh_ids new_id used ok" "plain_payloads reqs"
    and "EvidenceNormalizer_new cor src prin cla clock ids n = Inr nz" "ok ids"
    and "emit pd new_id now nz reqs = (es, nz')"
  shows "numbered n es \<and> distinct (map event_id es)
    \<and> ((\<forall>(t, pay, args)\<in>set reqs. unlinked args) \<longrightarrow> timeline None None n es)"
proof -
  have nz: "nz_root_event_id nz = None" "nz_last_event_id nz = None" "nz_sequence nz = n" "nz_id_generator nz = ids"
    using assms(4) by (auto simp: EvidenceNormalizer_new_def split: if_splits)
  then show ?thesis
    using emit_timeline [OF assms(1,3,6)] emit_ids [OF assms(1-3,6)] assms(5) by simp
qed

section \<open>A gap in the sequence\<close>

text \<open>
  A record whose event was built but not appended leaves the normalizer one number ahead of the
  journal; from then on nothing is imported.
\<close>

definition gap :: "('g, 'c) locked_state \<Rightarrow> bool" where
  "gap st \<longleftrightarrow> lk_next_sequence st < nz_sequence (lk_normalizer st)"

lemma append_in_gap:
  assumes "sequence (ev_causality e) \<noteq> lk_next_sequence st"
  shows "\<exists>m. append_checked pd ap env st e = (raise JournalAppendError m, st)"
  using assms by (auto simp: append_checked_def)

lemma import_record_in_gap:
  assumes "pydantic_laws pd" "ok_clock now" "ok_record r" "gap st"
    and "import_locked_record pd ap new_id now env seen st r = (res, st')"
  shows "lk_file st' = lk_file st \<and> imported_ids (lk_outcomes st') = imported_ids (lk_outcomes st)
    \<and> (res = Inr True \<longrightarrow> gap st')"
proof (cases "record_idempotency_fingerprint r (lk_normalizer st)")
  case (Inl err)
  then show ?thesis using assms(5) by (auto simp: import_locked_record_def)
next
  case fp: (Inr fp)
  show ?thesis
  proof (cases "matched_entry seen (lk_batch_seen st) r")
    case (Some m)
    then show ?thesis using assms(4,5) fp by (auto simp: import_locked_record_def gap_def)
  next
    case None
    obtain re nz where re: "record_event pd new_id now (lk_normalizer st) r fp = (re, nz)" by force
    show ?thesis
    proof (cases re)
      case (Inl err)
      then have "nz_sequence nz = nz_sequence (lk_normalizer st)"
        using record_failed [OF re [unfolded Inl record_event_def]] by blast
      then show ?thesis
        using assms(4,5) fp None re Inl
        by (auto simp: import_locked_record_def Let_def gap_def split: if_splits)
    next
      case (Inr e)
      have "sequence (ev_causality e) = nz_sequence (lk_normalizer st)"
        using record_event_Inr(2) [OF assms(1-3) re [unfolded Inr]] .
      then obtain m where "append_checked pd ap env (st\<lparr>lk_normalizer := nz\<rparr>) e
          = (raise JournalAppendError m, st\<lparr>lk_normalizer := nz\<rparr>)"
        using append_in_gap [of e "st\<lparr>lk_normalizer := nz\<rparr>" pd ap env] assms(4) by (auto simp: gap_def)
      then show ?thesis
        using assms(5) fp None re Inr by (auto simp: import_locked_record_def Let_def split: if_splits)
    qed
  qed
qed

text \<open>A failed append blocks its batch: once the sequence number of the normalizer is ahead of
  the journal's (a record was refused after its event was numbered), none of the remaining records is
  imported and the file stays as it is.\<close>
theorem gap_blocks_batch:
  assumes "pydantic_laws pd" "ok_clock now" "\<forall>r\<in>set rs. ok_record r"
    and "lk_next_sequence st < nz_sequence (lk_normalizer st)"
    and "import_locked_records pd apply_policy new_id now env seen st rs = (res, st')"
  shows "lk_file st' = lk_file st \<and> imported_ids (lk_outcomes st') = imported_ids (lk_outcomes st)"
proof -
  have "gap st" using assms(4) by (simp add: gap_def)
  then show ?thesis
    using assms(3,5)
  proof (induction rs arbitrary: st)
    case (Cons r rs)
    obtain r1 st1 where s: "import_locked_record pd apply_policy new_id now env seen st r = (r1, st1)" by force
    from Cons.prems have "ok_record r" by simp
    note step = import_record_in_gap [OF assms(1,2) this Cons.prems(1) s]
    then show ?case
      using Cons.IH [of st1] Cons.prems s by (auto split: sum.splits if_splits)
  qed simp
qed

section \<open>Witnesses for timelines\<close>

lemma sample_root_emitted:
  "\<exists>nz. EvidenceNormalizer_record strict_pydantic FixedIdGenerator_new_id sample_now sample_normalizer
     ''agent.run.started'' (VDict (payload_with_ingest_metadata sample_record ''x'')) no_args
     = (Inr (imported_event ''x''), nz)"
proof -
  have "no_args\<lparr>ra_source := None, ra_principal := None, ra_classification := None\<rparr> = no_args"
    by (simp add: no_args_def)
  then show ?thesis
    using sample_record_event [of "''x''"] by (simp add: record_event_def sample_record_def)
qed

theorem normalizer_timeline_witness:
  "\<exists>e nz'. emit strict_pydantic FixedIdGenerator_new_id sample_now sample_normalizer
      [(''agent.run.started'', VDict (payload_with_ingest_metadata sample_record ''x''), no_args)] = ([e], nz')
    \<and> timeline None None 0 [e]"
proof -
  let ?reqs = "[(''agent.run.started'', VDict (payload_with_ingest_metadata sample_record ''x''), no_args)]"
  obtain nz where e: "emit strict_pydantic FixedIdGenerator_new_id sample_now sample_normalizer ?reqs
      = ([imported_event ''x''], nz)"
    using sample_root_emitted by auto
  have "plain_payloads ?reqs"
    using ok_record_payload(1) [OF ok_sample_record] by (simp add: plain_payloads_def)
  moreover have "EvidenceNormalizer_new (nz_correlation sample_normalizer) (nz_source sample_normalizer)
      (nz_principal sample_normalizer) (nz_classification sample_normalizer) ()
      (nz_id_generator sample_normalizer) 0 = Inr sample_normalizer"
    by (simp add: EvidenceNormalizer_new_def sample_normalizer_def)
  moreover have "distinct (ig_values (nz_id_generator sample_normalizer))" by (simp add: sample_normalizer_def)
  moreover have "\<forall>(t, pay, args)\<in>set ?reqs. unlinked args" by (simp add: unlinked_def no_args_def)
  ultimately show ?thesis
    using normalizer_timeline [OF strict.pydantic_laws_axioms fixed_ids.fresh_ids_axioms _ _ _ e] e by blast
qed

theorem gap_blocks_batch_witness:
  "lk_file (snd (import_locked_records strict_pydantic Inr FixedIdGenerator_new_id sample_now sample_batch_env []
      \<lparr>lk_normalizer = sample_normalizer\<lparr>nz_sequence := 1\<rparr>, lk_file = None, lk_writes = 0,
       lk_batch_seen = [], lk_next_sequence = 0, lk_previous_event_hash = None, lk_outcomes = []\<rparr>
      [sample_record])) = None"
proof -
  let ?st = "\<lparr>lk_normalizer = sample_normalizer\<lparr>nz_sequence := 1\<rparr>, lk_file = None, lk_writes = 0,
       lk_batch_seen = [], lk_next_sequence = 0, lk_previous_event_hash = None, lk_outcomes = []\<rparr>"
  obtain res st' where i: "import_locked_records strict_pydantic Inr FixedIdGenerator_new_id sample_now
      sample_batch_env [] ?st [sample_record] = (res, st')" by force
  have "lk_file st' = lk_file ?st"
    using gap_blocks_batch [OF strict.pydantic_laws_axioms ok_sample_now _ _ i] ok_sample_record by simp
  then show ?thesis using i by simp
qed

end
