(* ===== verification/Policy.thy ===== *)
theory Policy
  imports Serialization Support
begin

text \<open>
  \<open>adapters/policy.py\<close>: policy decisions, approvals and the cache that makes an approval nonce good
  for one use. \<open>local_utc\<close> is \<open>astimezone(UTC)\<close> of a naive datetime, which depends on the time
  zone of the host.
\<close>

section \<open>Decisions\<close>

datatype PolicyDecisionOutcome = PO_ALLOW | PO_DENY | PO_REQUIRE_APPROVAL | PO_DRY_RUN | PO_ERROR

fun PolicyDecisionOutcome_value :: "PolicyDecisionOutcome \<Rightarrow> string" where
  "PolicyDecisionOutcome_value PO_ALLOW = ''allow''"
| "PolicyDecisionOutcome_value PO_DENY = ''deny''"
| "PolicyDecisionOutcome_value PO_REQUIRE_APPROVAL = ''require_approval''"
| "PolicyDecisionOutcome_value PO_DRY_RUN = ''dry_run''"
| "PolicyDecisionOutcome_value PO_ERROR = ''error''"

datatype PolicyFailureMode = FAIL_OPEN | FAIL_CLOSED

fun PolicyFailureMode_value :: "PolicyFailureMode \<Rightarrow> string" where
  "PolicyFailureMode_value FAIL_OPEN = ''fail_open''"
| "PolicyFailureMode_value FAIL_CLOSED = ''fail_closed''"

datatype RiskClass = RC_LOW | RC_MEDIUM | RC_HIGH | RC_CRITICAL

fun RiskClass_value :: "RiskClass \<Rightarrow> string" where
  "RiskClass_value RC_LOW = ''low''"
| "RiskClass_value RC_MEDIUM = ''medium''"
| "RiskClass_value RC_HIGH = ''high''"
| "RiskClass_value RC_CRITICAL = ''critical''"

datatype ApprovalStatus = AS_ACCEPTED | AS_REJECTED

fun ApprovalStatus_value :: "ApprovalStatus \<Rightarrow> string" where
  "ApprovalStatus_value AS_ACCEPTED = ''accepted''"
| "ApprovalStatus_value AS_REJECTED = ''rejected''"

record PolicyDecision =
  po_outcome :: PolicyDecisionOutcome
  po_policy_id :: string
  po_policy_version :: string
  po_reason :: string
  po_risk_class :: RiskClass
  po_evaluator_identity :: string
  po_decision_id :: "string option"

definition dispatch_allowed :: "PolicyDecision \<Rightarrow> PolicyFailureMode \<Rightarrow> bool \<Rightarrow> bool" where
  "dispatch_allowed d failure_mode approval_accepted =
     (if po_outcome d \<in> {PO_ALLOW, PO_DRY_RUN} then True
      else if po_outcome d = PO_REQUIRE_APPROVAL then approval_accepted
      else if po_outcome d = PO_ERROR then failure_mode = FAIL_OPEN
      else False)"

definition PolicyDecision_as_payload :: "PolicyDecision \<Rightarrow> pyv" where
  "PolicyDecision_as_payload d =
     obj [(''outcome'', VStr (PolicyDecisionOutcome_value (po_outcome d))),
          (''policy_id'', VStr (po_policy_id d)), (''policy_version'', VStr (po_policy_version d)),
          (''reason'', VStr (po_reason d)), (''risk_class'', VStr (RiskClass_value (po_risk_class d))),
          (''evaluator_identity'', VStr (po_evaluator_identity d)),
          (''decision_id'', opt_str (po_decision_id d))]"

section \<open>Approvals\<close>

record ApprovalArtifact =
  ap_approval_id :: string
  ap_subject_event_id :: string
  ap_scope :: string
  ap_expires_at :: datetime
  ap_nonce :: string
  ap_approved_by :: string
  ap_decision_event_id :: "string option"

definition astimezone_utc :: "(datetime \<Rightarrow> datetime res) \<Rightarrow> datetime \<Rightarrow> datetime res" where
  "astimezone_utc local_utc t =
     (case dt_offset t of None \<Rightarrow> local_utc t | Some off \<Rightarrow> utc_of_aware t off)"

text \<open>The three conditions of \<open>is_valid_for\<close> are evaluated from the left; the expiry is converted
  only when the first two hold.\<close>

definition is_valid_for ::
  "(datetime \<Rightarrow> datetime res) \<Rightarrow> ApprovalArtifact \<Rightarrow> datetime \<Rightarrow> string \<Rightarrow> string \<Rightarrow> bool res" where
  "is_valid_for local_utc a now subject scope =
     bnd (astimezone_utc local_utc now) (\<lambda>now.
       if ap_subject_event_id a = subject \<and> ap_scope a = scope
       then bnd (astimezone_utc local_utc (ap_expires_at a)) (\<lambda>expires.
              Inr (dt_instant now \<le> dt_instant expires))
       else Inr False)"

definition ApprovalArtifact_as_payload :: "(datetime \<Rightarrow> datetime res) \<Rightarrow> ApprovalArtifact \<Rightarrow> pyv res" where
  "ApprovalArtifact_as_payload local_utc a =
     bnd (astimezone_utc local_utc (ap_expires_at a)) (\<lambda>expires.
       Inr (obj [(''approval_id'', VStr (ap_approval_id a)),
                 (''subject_event_id'', VStr (ap_subject_event_id a)), (''scope'', VStr (ap_scope a)),
                 (''expires_at'', VStr (py_replace ''+00:00'' ''Z'' (isoformat expires))),
                 (''nonce'', VStr (ap_nonce a)), (''approved_by'', VStr (ap_approved_by a)),
                 (''decision_event_id'', opt_str (ap_decision_event_id a))]))"

record ApprovalValidationResult =
  av_status :: ApprovalStatus
  av_reason :: string
  av_approval_id :: "string option"

definition ApprovalValidationResult_accepted :: "ApprovalValidationResult \<Rightarrow> bool" where
  "ApprovalValidationResult_accepted r = (av_status r = AS_ACCEPTED)"

definition ApprovalValidationResult_as_payload :: "ApprovalValidationResult \<Rightarrow> pyv" where
  "ApprovalValidationResult_as_payload r =
     obj [(''status'', VStr (ApprovalStatus_value (av_status r))), (''reason'', VStr (av_reason r)),
          (''approval_id'', opt_str (av_approval_id r))]"

section \<open>The replay cache\<close>

record ApprovalReplayCache =
  used_nonces :: "string set"

definition ApprovalReplayCache_empty :: ApprovalReplayCache where
  "ApprovalReplayCache_empty = \<lparr>used_nonces = {}\<rparr>"

definition claim ::
  "(datetime \<Rightarrow> datetime res) \<Rightarrow> ApprovalReplayCache \<Rightarrow> ApprovalArtifact \<Rightarrow> datetime \<Rightarrow> string
     \<Rightarrow> string \<Rightarrow> ApprovalValidationResult res \<times> ApprovalReplayCache" where
  "claim local_utc cache a now subject scope =
     (if ap_nonce a \<in> used_nonces cache
      then (Inr \<lparr>av_status = AS_REJECTED, av_reason = ''approval nonce was already used'',
                 av_approval_id = Some (ap_approval_id a)\<rparr>, cache)
      else
        (case is_valid_for local_utc a now subject scope of
           Inl err \<Rightarrow> (Inl err, cache)
         | Inr valid \<Rightarrow>
             if \<not> valid
             then (Inr \<lparr>av_status = AS_REJECTED,
                        av_reason = ''approval scope, subject, or expiry is invalid'',
                        av_approval_id = Some (ap_approval_id a)\<rparr>, cache)
             else (Inr \<lparr>av_status = AS_ACCEPTED, av_reason = ''approval accepted'',
                        av_approval_id = Some (ap_approval_id a)\<rparr>,
                   cache\<lparr>used_nonces := insert (ap_nonce a) (used_nonces cache)\<rparr>)))"

text \<open>One request to the cache, as the adapter makes it.\<close>

record approval_request =
  rq_artifact :: ApprovalArtifact
  rq_now :: datetime
  rq_subject :: string
  rq_scope :: string

definition claim_nonce ::
  "(datetime \<Rightarrow> datetime res) \<Rightarrow> ApprovalReplayCache \<Rightarrow> approval_request
     \<Rightarrow> string res \<times> ApprovalReplayCache" where
  "claim_nonce lu cache rq =
     (case claim lu cache (rq_artifact rq) (rq_now rq) (rq_subject rq) (rq_scope rq) of
        (Inl err, cache') \<Rightarrow> (Inl err, cache')
      | (Inr r, cache') \<Rightarrow>
          (if ApprovalValidationResult_accepted r then Inr (ap_nonce (rq_artifact rq))
           else raise ValueError (av_reason r), cache'))"

end
