(* ===== verification/PolicyClaims.thy ===== *)
theory PolicyClaims
  imports Policy AnchorClaims
begin

text \<open>The properties of \<open>Policy\<close>: what a dispatch needs, and that a nonce is accepted once.\<close>

lemma claim_nonce_Inr:
  "claim_nonce lu c rq = (Inr i, c') \<Longrightarrow>
   i \<notin> used_nonces c \<and> used_nonces c' = insert i (used_nonces c) \<and> i = ap_nonce (rq_artifact rq)"
  by (auto simp: claim_nonce_def claim_def ApprovalValidationResult_accepted_def
      split: prod.splits sum.splits if_splits)

lemma claim_nonce_Inl: "claim_nonce lu c rq = (Inl err, c') \<Longrightarrow> used_nonces c' = used_nonces c"
  by (auto simp: claim_nonce_def claim_def ApprovalValidationResult_accepted_def
      split: prod.splits sum.splits if_splits)

text \<open>The nonces a run of requests gets accepted.\<close>

fun claims ::
  "(datetime \<Rightarrow> datetime res) \<Rightarrow> ApprovalReplayCache \<Rightarrow> approval_request list
     \<Rightarrow> string list \<times> ApprovalReplayCache" where
  "claims lu c [] = ([], c)"
| "claims lu c (rq # rqs) =
     (case claim_nonce lu c rq of
        (Inl err, c') \<Rightarrow> claims lu c' rqs
      | (Inr i, c') \<Rightarrow> (case claims lu c' rqs of (is, h) \<Rightarrow> (i # is, h)))"

text \<open>The interface of a registry that accepts a key at most once.\<close>

locale once_only =
  fixes attempt :: "'s \<Rightarrow> 'r \<Rightarrow> 'e + 'k \<times> 's"
    and spent :: "'s \<Rightarrow> 'k set"
  assumes accepted_new: "attempt s r = Inr (k, s') \<Longrightarrow> k \<notin> spent s \<and> spent s' = insert k (spent s)"
begin

fun accepted :: "'s \<Rightarrow> 'r list \<Rightarrow> 'k list \<times> 's" where
  "accepted s [] = ([], s)"
| "accepted s (r # rs) =
     (case attempt s r of
        Inl err \<Rightarrow> accepted s rs
      | Inr (k, s') \<Rightarrow> (case accepted s' rs of (ks, t) \<Rightarrow> (k # ks, t)))"

lemma accepted_once:
  "accepted s rs = (ks, t) \<Longrightarrow> distinct ks \<and> set ks \<inter> spent s = {} \<and> spent t = spent s \<union> set ks"
proof (induction rs arbitrary: s ks)
  case (Cons r rs)
  show ?case
  proof (cases "attempt s r")
    case (Inl err)
    then show ?thesis using Cons by simp
  next
    case (Inr p)
    obtain k s' where p: "p = (k, s')" by force
    obtain ks' where ks: "accepted s' rs = (ks', t)" "ks = k # ks'"
      using Cons.prems Inr p by (auto split: prod.splits)
    show ?thesis using Cons.IH [OF ks(1)] accepted_new [OF Inr [unfolded p]] ks(2) by auto
  qed
qed simp

end

definition attempt_claim ::
  "(datetime \<Rightarrow> datetime res) \<Rightarrow> ApprovalReplayCache \<Rightarrow> approval_request \<Rightarrow> exn + string \<times> ApprovalReplayCache" where
  "attempt_claim lu c rq =
     (case claim_nonce lu c rq of (Inl err, c') \<Rightarrow> Inl err | (Inr i, c') \<Rightarrow> Inr (i, c'))"

interpretation replay_cache: once_only "attempt_claim lu" used_nonces for lu
  by unfold_locales (auto simp: attempt_claim_def split: prod.splits sum.splits dest: claim_nonce_Inr)

lemma claim_nonce_keeps: "claim_nonce lu c rq = (Inl err, c') \<Longrightarrow> c' = c"
  by (auto simp: claim_nonce_def claim_def ApprovalValidationResult_accepted_def
      split: prod.splits sum.splits if_splits)

lemma claims_accepted: "claims lu c rqs = replay_cache.accepted lu c rqs"
proof (induction rqs arbitrary: c)
  case (Cons rq rqs)
  obtain r c' where n: "claim_nonce lu c rq = (r, c')" by force
  show ?case
  proof (cases r)
    case (Inl err)
    then have "attempt_claim lu c rq = Inl err" "c' = c"
      using n claim_nonce_keeps by (auto simp: attempt_claim_def)
    then show ?thesis using Cons n Inl by simp
  next
    case (Inr i)
    then have "attempt_claim lu c rq = Inr (i, c')" using n by (simp add: attempt_claim_def)
    then show ?thesis using Cons n Inr by simp
  qed
qed simp

text \<open>Replay protection: over any run of requests to a cache, whatever their times, subjects and
  scopes, no nonce is accepted twice and none that was used before, and the cache remembers exactly
  the nonces used before and the accepted ones.\<close>
theorem nonce_accepted_once:
  assumes "claims lu c rqs = (nonces, c')"
  shows "distinct nonces \<and> set nonces \<inter> used_nonces c = {}
    \<and> used_nonces c' = used_nonces c \<union> set nonces"
  using replay_cache.accepted_once [of lu c rqs nonces c'] assms by (simp add: claims_accepted)

text \<open>What a dispatch needs: for a decision that requires approval, dispatching after a claim is
  allowed exactly when the nonce was not used, the approval names the subject and the scope, and it
  has not expired; the claim then spends the nonce. Failing closed, any other decision dispatches
  only when it allows or is a dry run.\<close>
theorem dispatch_needs_approval:
  assumes "claim lu c a now subject scope = (Inr r, c')"
    and "astimezone_utc lu now = Inr n" "astimezone_utc lu (ap_expires_at a) = Inr x"
  shows "(po_outcome d = PO_REQUIRE_APPROVAL \<longrightarrow>
        (dispatch_allowed d mode (ApprovalValidationResult_accepted r) \<longleftrightarrow>
           ap_nonce a \<notin> used_nonces c \<and> ap_subject_event_id a = subject \<and> ap_scope a = scope
           \<and> dt_instant n \<le> dt_instant x)
        \<and> (dispatch_allowed d mode (ApprovalValidationResult_accepted r) \<longrightarrow> ap_nonce a \<in> used_nonces c'))
    \<and> (dispatch_allowed d FAIL_CLOSED False \<longleftrightarrow> po_outcome d = PO_ALLOW \<or> po_outcome d = PO_DRY_RUN)"
proof -
  have "ApprovalValidationResult_accepted r \<longleftrightarrow>
      ap_nonce a \<notin> used_nonces c \<and> ap_subject_event_id a = subject \<and> ap_scope a = scope
      \<and> dt_instant n \<le> dt_instant x"
    and "ApprovalValidationResult_accepted r \<Longrightarrow> ap_nonce a \<in> used_nonces c'"
    using assms by (auto simp: claim_def is_valid_for_def ApprovalValidationResult_accepted_def
        split: sum.splits if_splits)
  then show ?thesis by (cases "po_outcome d") (auto simp: dispatch_allowed_def)
qed

section \<open>Witnesses\<close>

definition sample_approval :: "string \<Rightarrow> ApprovalArtifact" where
  "sample_approval nonce = \<lparr>ap_approval_id = ''a1'', ap_subject_event_id = ''e1'', ap_scope = ''s'',
     ap_expires_at = sample_time, ap_nonce = nonce, ap_approved_by = ''p'', ap_decision_event_id = None\<rparr>"

lemma sample_time_offset: "dt_offset sample_time = Some 0"
  by (simp add: sample_time_def)

definition sample_request :: "string \<Rightarrow> approval_request" where
  "sample_request nonce = \<lparr>rq_artifact = sample_approval nonce, rq_now = sample_time, rq_subject = ''e1'',
     rq_scope = ''s''\<rparr>"

lemma sample_claims:
  "claims utc_host ApprovalReplayCache_empty [sample_request ''n1'', sample_request ''n1'', sample_request ''n2'']
    = ([''n1'', ''n2''], \<lparr>used_nonces = {''n1'', ''n2''}\<rparr>)"
  by (auto simp: claim_nonce_def claim_def is_valid_for_def astimezone_utc_def sample_request_def
      sample_approval_def sample_time_offset ApprovalReplayCache_empty_def ApprovalValidationResult_accepted_def)

theorem nonce_accepted_once_witness:
  "claims utc_host ApprovalReplayCache_empty [sample_request ''n1'', sample_request ''n1'', sample_request ''n2'']
     = ([''n1'', ''n2''], \<lparr>used_nonces = {''n1'', ''n2''}\<rparr>)
   \<and> distinct [''n1'', ''n2'']"
  using sample_claims nonce_accepted_once [OF sample_claims] by simp

theorem dispatch_needs_approval_witness:
  "dispatch_allowed \<lparr>po_outcome = PO_REQUIRE_APPROVAL, po_policy_id = ''p'', po_policy_version = ''1'',
      po_reason = [], po_risk_class = RC_HIGH, po_evaluator_identity = ''e'', po_decision_id = None\<rparr> FAIL_CLOSED
      (ApprovalValidationResult_accepted \<lparr>av_status = AS_ACCEPTED, av_reason = ''approval accepted'',
         av_approval_id = Some ''a1''\<rparr>)"
proof -
  have c: "claim utc_host ApprovalReplayCache_empty (sample_approval ''n'') sample_time ''e1'' ''s''
      = (Inr \<lparr>av_status = AS_ACCEPTED, av_reason = ''approval accepted'', av_approval_id = Some ''a1''\<rparr>,
         \<lparr>used_nonces = {''n''}\<rparr>)"
    by (simp add: claim_def is_valid_for_def astimezone_utc_def sample_approval_def sample_time_offset
        ApprovalReplayCache_empty_def)
  have t: "astimezone_utc utc_host sample_time = Inr sample_time"
    "astimezone_utc utc_host (ap_expires_at (sample_approval ''n'')) = Inr sample_time"
    by (simp_all add: astimezone_utc_def sample_time_offset sample_approval_def)
  show ?thesis
    using dispatch_needs_approval [OF c t, of "\<lparr>po_outcome = PO_REQUIRE_APPROVAL, po_policy_id = ''p'',
        po_policy_version = ''1'', po_reason = [], po_risk_class = RC_HIGH, po_evaluator_identity = ''e'',
        po_decision_id = None\<rparr>" FAIL_CLOSED]
    by (simp add: sample_approval_def ApprovalReplayCache_empty_def)
qed

end
