(* ===== verification/PyRegex.thy ===== *)
theory PyRegex
  imports PyText
begin

text \<open>
  Python's \<open>re\<close> as \<open>domain/redaction.py\<close> uses it: compiled patterns over the code points of a
  text, matched by backtracking, and \<open>Pattern.sub\<close>. A match gives all its results in the order in
  which backtracking tries them, so the first one is the one Python takes. The patterns have one
  group at most; every repetition in them is of a single character class.
\<close>

section \<open>Code points\<close>

fun decode_cps :: "string \<Rightarrow> nat list" where
  "decode_cps [] = []"
| "decode_cps (c # cs) =
     (let b = byte c in
      if b < 128 then b # decode_cps cs
      else if b < 224 then
        (case cs of c1 # r \<Rightarrow> ((b - 192) * 64 + (byte c1 - 128)) # decode_cps r | _ \<Rightarrow> [])
      else if b < 240 then
        (case cs of c1 # c2 # r \<Rightarrow>
             ((b - 224) * 4096 + (byte c1 - 128) * 64 + (byte c2 - 128)) # decode_cps r
         | _ \<Rightarrow> [])
      else
        (case cs of c1 # c2 # c3 # r \<Rightarrow>
             ((b - 240) * 262144 + (byte c1 - 128) * 4096 + (byte c2 - 128) * 64 + (byte c3 - 128))
             # decode_cps r
         | _ \<Rightarrow> []))"

definition encode_cps :: "nat list \<Rightarrow> string" where
  "encode_cps ns = concat (map utf8_of_cp ns)"

lemma encode_cps_simps [simp]:
  "encode_cps [] = []" "encode_cps (n # ns) = utf8_of_cp n @ encode_cps ns"
  "encode_cps (ns @ ms) = encode_cps ns @ encode_cps ms"
  by (simp_all add: encode_cps_def)

lemma char_eq_byte: "n < 256 \<Longrightarrow> byte c = n \<Longrightarrow> char_of n = c"
  by (metis char_of_byte)

lemma char_ofI: "n = byte c \<Longrightarrow> char_of n = c"
  by simp

lemma digit64: "z < 64 \<Longrightarrow> (k * 64 + z) div 64 = k" "z < 64 \<Longrightarrow> (k * 64 + z) mod 64 = (z :: nat)"
  by simp_all

lemma div_4096: "n div 4096 = n div 64 div (64 :: nat)"
  using div_mult2_eq [of n 64 64] by simp

lemma div_262144: "n div 262144 = n div 64 div 64 div (64 :: nat)"
  using div_mult2_eq [of n 4096 64] by (simp add: div_4096)

lemma utf8_of_cp_2:
  assumes "194 \<le> byte c" "byte c < 224" "cont_byte d"
  shows "utf8_of_cp ((byte c - 192) * 64 + (byte d - 128)) = [c, d]"
proof -
  obtain x y where xy: "byte c = 192 + x" "byte d = 128 + y" "2 \<le> x" "x < 32" "y < 64"
    using assms nat_le_iff_add [of 192 "byte c"] nat_le_iff_add [of 128 "byte d"]
    by (auto simp: cont_byte_def)
  have "char_of (192 + (x * 64 + y) div 64) = c" "char_of (128 + (x * 64 + y) mod 64) = d"
    by (rule char_ofI; use xy in simp)+
  then show ?thesis using xy by (simp add: utf8_of_cp_def)
qed

lemma utf8_of_cp_3:
  assumes "224 \<le> byte c" "byte c < 240" "cont_byte d" "cont_byte e" "byte c = 224 \<longrightarrow> 160 \<le> byte d"
  shows "utf8_of_cp ((byte c - 224) * 4096 + (byte d - 128) * 64 + (byte e - 128)) = [c, d, e]"
proof -
  obtain x y z where xy: "byte c = 224 + x" "byte d = 128 + y" "byte e = 128 + z"
    "x < 16" "y < 64" "z < 64" "x = 0 \<longrightarrow> 32 \<le> y"
    using assms nat_le_iff_add [of 224 "byte c"] nat_le_iff_add [of 128 "byte d"]
      nat_le_iff_add [of 128 "byte e"] by (auto simp: cont_byte_def)
  let ?n = "x * 4096 + y * 64 + z"
  have n: "?n = (x * 64 + y) * 64 + z" by simp
  have d: "?n div 4096 = x" "?n div 64 mod 64 = y" "?n mod 64 = z"
    unfolding div_4096 n using xy(5,6) by (simp_all only: digit64)
  have b: "2048 \<le> ?n" "?n < 65536"
    using xy(4-7) by auto
  have "char_of (224 + ?n div 4096) = c" "char_of (128 + ?n div 64 mod 64) = d" "char_of (128 + ?n mod 64) = e"
    by (rule char_ofI; simp only: d xy)+
  then show ?thesis using xy(1-3) b by (simp add: utf8_of_cp_def)
qed

lemma utf8_of_cp_4:
  assumes "240 \<le> byte c" "byte c < 245" "cont_byte d" "cont_byte e" "cont_byte f"
    and "byte c = 240 \<longrightarrow> 144 \<le> byte d"
  shows "utf8_of_cp ((byte c - 240) * 262144 + (byte d - 128) * 4096 + (byte e - 128) * 64 + (byte f - 128))
    = [c, d, e, f]"
proof -
  obtain x y z w where xy: "byte c = 240 + x" "byte d = 128 + y" "byte e = 128 + z" "byte f = 128 + w"
    "x < 5" "y < 64" "z < 64" "w < 64" "x = 0 \<longrightarrow> 16 \<le> y"
    using assms nat_le_iff_add [of 240 "byte c"] nat_le_iff_add [of 128 "byte d"]
      nat_le_iff_add [of 128 "byte e"] nat_le_iff_add [of 128 "byte f"] by (auto simp: cont_byte_def)
  let ?n = "x * 262144 + y * 4096 + z * 64 + w"
  have n: "?n = ((x * 64 + y) * 64 + z) * 64 + w" by simp
  have d: "?n div 262144 = x" "?n div 4096 mod 64 = y" "?n div 64 mod 64 = z" "?n mod 64 = w"
    unfolding div_4096 div_262144 n using xy(6-8) by (simp_all only: digit64)
  have b: "65536 \<le> ?n" using xy(5,9) by auto
  have "char_of (240 + ?n div 262144) = c" "char_of (128 + ?n div 4096 mod 64) = d"
    "char_of (128 + ?n div 64 mod 64) = e" "char_of (128 + ?n mod 64) = f"
    by (rule char_ofI; simp only: d xy)+
  then show ?thesis using xy(1-4) b by (simp add: utf8_of_cp_def)
qed

lemma encode_decode: "utf8_ok True s \<Longrightarrow> encode_cps (decode_cps s) = s"
proof (induction "True" s rule: utf8_ok.induct)
  case (2 c cs)
  define b where "b = byte c"
  have ok: "utf8_ok True (c # cs)" by fact
  consider "b < 128" | "194 \<le> b" "b < 224" | "224 \<le> b" "b < 240" | "240 \<le> b" "b < 245"
    | "\<not> b < 128" "\<not> (194 \<le> b \<and> b < 224)" "\<not> (224 \<le> b \<and> b < 240)" "\<not> (240 \<le> b \<and> b < 245)"
    by linarith
  then show ?case
  proof cases
    case 1
    with ok "2.hyps" [OF refl] show ?thesis by (simp add: b_def utf8_of_cp_def)
  next
    case 2
    with ok "2.hyps" [OF refl] utf8_of_cp_2 show ?thesis
      by (auto simp: b_def Let_def split: list.splits)
  next
    case 3
    with ok "2.hyps" [OF refl] utf8_of_cp_3 show ?thesis
      by (auto simp: b_def Let_def split: list.splits)
  next
    case 4
    with ok "2.hyps" [OF refl] utf8_of_cp_4 show ?thesis
      by (auto simp: b_def Let_def split: list.splits)
  next
    case 5
    with ok show ?thesis by (auto simp: b_def Let_def split: if_split_asm)
  qed
qed simp

lemma decode_ascii: "\<forall>c\<in>set s. byte c < 128 \<Longrightarrow> decode_cps s = map byte s"
  by (induction s) auto

section \<open>Patterns\<close>

type_synonym cset = "nat \<Rightarrow> bool"

datatype regex =
    Eps
  | Chars cset
  | Seq regex regex
  | Alt regex regex
  | Rep bool cset nat        \<comment> \<open>\<open>p*\<close> (lazy when \<open>True\<close>) with a least number of characters\<close>
  | Grp regex                \<comment> \<open>group 1\<close>
  | Bound cset               \<comment> \<open>\<open>\b\<close> for the given word characters\<close>
  | NotBehind cset           \<comment> \<open>\<open>(?<![...])\<close>\<close>
  | NotAhead cset            \<comment> \<open>\<open>(?![...])\<close>\<close>

record mstate =
  m_prev :: "nat option"
  m_rest :: "nat list"
  m_group :: "nat list option"

definition at_end :: "cset \<Rightarrow> nat option \<Rightarrow> bool" where
  "at_end p o1 \<longleftrightarrow> (case o1 of None \<Rightarrow> False | Some c \<Rightarrow> p c)"

definition next_cp :: "mstate \<Rightarrow> nat option" where
  "next_cp st = (case m_rest st of [] \<Rightarrow> None | c # cs \<Rightarrow> Some c)"

text \<open>The states after 0, 1, 2, ... characters of the class.\<close>

fun runs :: "cset \<Rightarrow> nat option \<Rightarrow> nat list \<Rightarrow> (nat option \<times> nat list) list" where
  "runs p prev [] = [(prev, [])]"
| "runs p prev (c # cs) = (prev, c # cs) # (if p c then runs p (Some c) cs else [])"

primrec rmatch :: "regex \<Rightarrow> mstate \<Rightarrow> mstate list" where
  "rmatch Eps st = [st]"
| "rmatch (Chars p) st =
     (case m_rest st of
        [] \<Rightarrow> []
      | c # cs \<Rightarrow> if p c then [st\<lparr>m_prev := Some c, m_rest := cs\<rparr>] else [])"
| "rmatch (Seq a b) st = concat (map (rmatch b) (rmatch a st))"
| "rmatch (Alt a b) st = rmatch a st @ rmatch b st"
| "rmatch (Rep lazy p n) st =
     (let rs = map (\<lambda>(q, cs). st\<lparr>m_prev := q, m_rest := cs\<rparr>) (drop n (runs p (m_prev st) (m_rest st)))
      in if lazy then rs else rev rs)"
| "rmatch (Grp r) st =
     map (\<lambda>s. s\<lparr>m_group := Some (take (length (m_rest st) - length (m_rest s)) (m_rest st))\<rparr>)
       (rmatch r st)"
| "rmatch (Bound w) st = (if at_end w (m_prev st) \<noteq> at_end w (next_cp st) then [st] else [])"
| "rmatch (NotBehind p) st = (if at_end p (m_prev st) then [] else [st])"
| "rmatch (NotAhead p) st = (if at_end p (next_cp st) then [] else [st])"

section \<open>Substitution\<close>

text \<open>A replacement template: literal text and \<open>\1\<close>, which is empty when the group is not set.\<close>

datatype template = TLit string | TGroup

definition expand :: "template list \<Rightarrow> mstate \<Rightarrow> string" where
  "expand repl st = concat (map (\<lambda>t. case t of TLit s \<Rightarrow> s
     | TGroup \<Rightarrow> (case m_group st of None \<Rightarrow> [] | Some g \<Rightarrow> encode_cps g)) repl)"

text \<open>
  The scan of \<open>sub\<close>: after an empty match the next one at the same place must not be empty
  (\<open>advance\<close>).
\<close>

definition first_match :: "regex \<Rightarrow> bool \<Rightarrow> nat option \<Rightarrow> nat list \<Rightarrow> mstate option" where
  "first_match r advance prev cs =
     List.find (\<lambda>s. length (m_rest s) < length cs \<or> \<not> advance \<and> m_rest s = cs)
       (rmatch r \<lparr>m_prev = prev, m_rest = cs, m_group = None\<rparr>)"

lemma first_match_rest:
  "first_match r advance prev cs = Some s \<Longrightarrow>
   length (m_rest s) < length cs \<or> \<not> advance \<and> m_rest s = cs"
  by (auto simp: first_match_def find_Some_iff)

function sub_scan :: "regex \<Rightarrow> template list \<Rightarrow> bool \<Rightarrow> nat option \<Rightarrow> nat list \<Rightarrow> string" where
  "sub_scan r repl advance prev cs =
     (case first_match r advance prev cs of
        Some s \<Rightarrow>
          expand repl s @
          (if m_rest s = cs then sub_scan r repl True prev cs
           else sub_scan r repl False (m_prev s) (m_rest s))
      | None \<Rightarrow>
          (case cs of
             [] \<Rightarrow> []
           | c # cs \<Rightarrow> utf8_of_cp c @ sub_scan r repl False (Some c) cs))"
  by pat_completeness auto
termination
  by (relation "measures [\<lambda>(r, repl, advance, prev, cs). length cs,
      \<lambda>(r, repl, advance, prev, cs). if advance then 0 else 1]")
     (auto dest: first_match_rest)

declare sub_scan.simps [simp del]

definition re_sub :: "regex \<Rightarrow> template list \<Rightarrow> string \<Rightarrow> string" where
  "re_sub r repl s = sub_scan r repl False None (decode_cps s)"

section \<open>Texts a pattern leaves alone\<close>

lemma runs_rest: "(q, cs) \<in> set (runs p prev ds) \<Longrightarrow> set cs \<subseteq> set ds"
  by (induction p prev ds rule: runs.induct) (auto split: if_splits)

lemma rmatch_rest: "s \<in> set (rmatch r st) \<Longrightarrow> set (m_rest s) \<subseteq> set (m_rest st)"
proof (induction r arbitrary: st s)
  case (Chars p)
  then show ?case by (cases "m_rest st") (auto split: if_splits)
next
  case (Seq a b)
  then show ?case by (auto; meson subset_iff)
next
  case (Rep lazy p n)
  then show ?case
    using runs_rest by (fastforce simp: Let_def dest!: in_set_dropD split: if_splits)
next
  case (Alt a b)
  then show ?case by (auto; meson subset_iff)
next
  case (Grp r)
  then show ?case by (auto; meson subset_iff)
qed (auto split: if_splits)

text \<open>\<open>needs q r\<close>: every match of the pattern consumes a character of the class \<open>q\<close>.\<close>

primrec needs :: "cset \<Rightarrow> regex \<Rightarrow> bool" where
  "needs q Eps \<longleftrightarrow> False"
| "needs q (Chars p) \<longleftrightarrow> (\<forall>c. p c \<longrightarrow> q c)"
| "needs q (Seq a b) \<longleftrightarrow> needs q a \<or> needs q b"
| "needs q (Alt a b) \<longleftrightarrow> needs q a \<and> needs q b"
| "needs q (Rep lazy p n) \<longleftrightarrow> 0 < n \<and> (\<forall>c. p c \<longrightarrow> q c)"
| "needs q (Grp r) \<longleftrightarrow> needs q r"
| "needs q (Bound w) \<longleftrightarrow> False"
| "needs q (NotBehind p) \<longleftrightarrow> False"
| "needs q (NotAhead p) \<longleftrightarrow> False"

lemma needs_no_match:
  "needs q r \<Longrightarrow> \<forall>c\<in>set (m_rest st). \<not> q c \<Longrightarrow> rmatch r st = []"
proof (induction r arbitrary: st)
  case (Chars p)
  then show ?case by (cases "m_rest st") auto
next
  case (Seq a b)
  have "rmatch b s = []" if "needs q b" "s \<in> set (rmatch a st)" for s
    using Seq.IH(2) [OF that(1)] rmatch_rest [OF that(2)] Seq.prems(2) by blast
  then show ?case using Seq by auto
next
  case (Rep lazy p n)
  then show ?case by (cases "m_rest st"; cases n) (auto simp: Let_def)
qed auto

text \<open>The same for a text over an alphabet, as a computation.\<close>

primrec needs_other :: "nat list \<Rightarrow> regex \<Rightarrow> bool" where
  "needs_other A Eps \<longleftrightarrow> False"
| "needs_other A (Chars p) \<longleftrightarrow> list_all (\<lambda>c. \<not> p c) A"
| "needs_other A (Seq a b) \<longleftrightarrow> needs_other A a \<or> needs_other A b"
| "needs_other A (Alt a b) \<longleftrightarrow> needs_other A a \<and> needs_other A b"
| "needs_other A (Rep lazy p n) \<longleftrightarrow> 0 < n \<and> list_all (\<lambda>c. \<not> p c) A"
| "needs_other A (Grp r) \<longleftrightarrow> needs_other A r"
| "needs_other A (Bound w) \<longleftrightarrow> False"
| "needs_other A (NotBehind p) \<longleftrightarrow> False"
| "needs_other A (NotAhead p) \<longleftrightarrow> False"

lemma needs_other_iff: "needs_other A r \<longleftrightarrow> needs (\<lambda>c. c \<notin> set A) r"
  by (induction r) (auto simp: list_all_iff)

lemma re_sub_no_match:
  assumes "\<And>prev cs. set cs \<subseteq> set (decode_cps s) \<Longrightarrow> rmatch r \<lparr>m_prev = prev, m_rest = cs, m_group = None\<rparr> = []"
    and "utf8_ok True s"
  shows "re_sub r repl s = s"
proof -
  have "sub_scan r repl False prev cs = encode_cps cs" if "set cs \<subseteq> set (decode_cps s)" for prev cs
    using that
  proof (induction cs arbitrary: prev)
    case (Cons c cs)
    then show ?case
      using assms(1) [OF Cons.prems, of prev]
      by (subst sub_scan.simps) (simp add: first_match_def)
  qed (subst sub_scan.simps, simp add: first_match_def assms(1))
  then show ?thesis using encode_decode [OF assms(2)] by (simp add: re_sub_def)
qed

lemma re_sub_needs:
  assumes "needs q r" "\<forall>c\<in>set (decode_cps s). \<not> q c" "utf8_ok True s"
  shows "re_sub r repl s = s"
  by (rule re_sub_no_match [OF needs_no_match [OF assms(1)] assms(3)])
     (use assms(2) in auto)

section \<open>Classes of characters\<close>

definition cp :: "char \<Rightarrow> nat" where
  "cp c = byte c"

definition one_of :: "string \<Rightarrow> cset" where
  "one_of s c \<longleftrightarrow> c \<in> byte ` set s"

definition in_range :: "char \<Rightarrow> char \<Rightarrow> cset" where
  "in_range a b c \<longleftrightarrow> byte a \<le> c \<and> c \<le> byte b"

definition ascii_alnum :: cset where
  "ascii_alnum c \<longleftrightarrow> in_range (CHR ''A'') (CHR ''Z'') c \<or> in_range (CHR ''a'') (CHR ''z'') c
     \<or> in_range (CHR ''0'') (CHR ''9'') c"

text \<open>
  \<open>re.IGNORECASE\<close>: beside its two cases, \<open>i\<close> matches U+0130 and U+0131, \<open>s\<close> matches U+017F and \<open>k\<close>
  matches U+212A, and the ranges of ASCII letters match all four.
\<close>

definition fold_extra :: "nat \<Rightarrow> nat list" where
  "fold_extra n = (if n = byte (CHR ''i'') then [304, 305] else if n = byte (CHR ''s'') then [383]
     else if n = byte (CHR ''k'') then [8490] else [])"

definition lower_cp :: "nat \<Rightarrow> nat" where
  "lower_cp n = (if 65 \<le> n \<and> n \<le> 90 then n + 32 else n)"

definition same_letter :: "char \<Rightarrow> cset" where
  "same_letter c n \<longleftrightarrow> lower_cp n = lower_cp (byte c) \<or> n \<in> set (fold_extra (lower_cp (byte c)))"

definition alnum_ci :: cset where
  "alnum_ci c \<longleftrightarrow> ascii_alnum c \<or> c \<in> {304, 305, 383, 8490}"

text \<open>\<open>\s\<close> on \<open>str\<close>: the characters of \<open>str.isspace\<close>.\<close>

definition space_cp :: cset where
  "space_cp c \<longleftrightarrow> c = 32 \<or> 9 \<le> c \<and> c \<le> 13 \<or> 28 \<le> c \<and> c \<le> 31 \<or> c = 133 \<or> c = 160 \<or> c = 5760
     \<or> 8192 \<le> c \<and> c \<le> 8202 \<or> c = 8232 \<or> c = 8233 \<or> c = 8239 \<or> c = 8287 \<or> c = 12288"

text \<open>
  \<open>\w\<close>: ASCII letters, digits and the underscore; which other code points are alphanumeric is the
  argument \<open>alnum\<close>, a table of the Unicode database.
\<close>

definition word_cp :: "cset \<Rightarrow> cset" where
  "word_cp alnum c \<longleftrightarrow> (if c < 128 then ascii_alnum c \<or> c = 95 else alnum c)"

fun lit :: "string \<Rightarrow> regex" where
  "lit [] = Eps"
| "lit (c # cs) = Seq (Chars (\<lambda>n. n = byte c)) (lit cs)"

fun lit_ci :: "string \<Rightarrow> regex" where
  "lit_ci [] = Eps"
| "lit_ci (c # cs) = Seq (Chars (same_letter c)) (lit_ci cs)"

fun alts :: "regex list \<Rightarrow> regex" where
  "alts [] = Eps"
| "alts [r] = r"
| "alts (r # rs) = Alt r (alts rs)"

fun seqs :: "regex list \<Rightarrow> regex" where
  "seqs [] = Eps"
| "seqs (r # rs) = Seq r (seqs rs)"

definition opt :: "regex \<Rightarrow> regex" where
  "opt r = Alt r Eps"

end
