(* ===== verification/Redaction.thy ===== *)
theory Redaction
  imports PyRegex Events PyHash
begin

text \<open>
  \<open>domain/redaction.py\<close>: the redaction policy that runs before anything is hashed or written, and
  the redaction of structured log fields. Lower case is that of ASCII. An exception raised inside a
  policy ends as one \<open>RedactionError\<close>.
\<close>

section \<open>Constants\<close>

definition REDACTED_VALUE :: string where
  "REDACTED_VALUE = ''[REDACTED:sensitive]''"

definition CAPTURE_DIGEST_SCOPE :: string where
  "CAPTURE_DIGEST_SCOPE = ''actionlineage.capture.v1/redaction-boundary''"

definition STRUCTURED_LOG_CAPTURE_MARKER :: string where
  "STRUCTURED_LOG_CAPTURE_MARKER = ''actionlineage.structured_log.capture.v1''"

definition STRUCTURED_LOG_REDACTION_FAILURE_MARKER :: string where
  "STRUCTURED_LOG_REDACTION_FAILURE_MARKER = ''actionlineage.structured_log.redaction_failed.v1''"

definition STRUCTURED_LOG_CAPTURE_VALUE :: string where
  "STRUCTURED_LOG_CAPTURE_VALUE = ''[OMITTED:bounded-capture]''"

definition STRUCTURED_LOG_DIGEST_UNAVAILABLE :: string where
  "STRUCTURED_LOG_DIGEST_UNAVAILABLE = ''[UNAVAILABLE:missing-or-unsupported-digest-scope]''"

definition DEFAULT_MAX_STRING_LENGTH :: int where "DEFAULT_MAX_STRING_LENGTH = 4096"
definition DEFAULT_MAX_BYTES_LENGTH :: int where "DEFAULT_MAX_BYTES_LENGTH = 4096"
definition DEFAULT_STRUCTURED_LOG_MAX_STRING_LENGTH :: int where
  "DEFAULT_STRUCTURED_LOG_MAX_STRING_LENGTH = 512"
definition DEFAULT_STRUCTURED_LOG_MAX_BYTES_LENGTH :: int where
  "DEFAULT_STRUCTURED_LOG_MAX_BYTES_LENGTH = 512"
definition DEFAULT_MAX_CAPTURE_COUNT :: int where "DEFAULT_MAX_CAPTURE_COUNT = 128"
definition DEFAULT_MAX_CAPTURE_BYTES :: int where "DEFAULT_MAX_CAPTURE_BYTES = 65536"

definition DEFAULT_SENSITIVE_FIELD_NAMES :: "string list" where
  "DEFAULT_SENSITIVE_FIELD_NAMES =
     [''access_token'', ''api_key'', ''apikey'', ''auth_token'', ''authorization'',
      ''aws_access_key_id'', ''aws_secret_access_key'', ''aws_session_token'', ''bearer_token'',
      ''client_secret'', ''client_secret_value'', ''cloud_session_token'', ''connection_string'',
      ''cookie'', ''database_dsn'', ''database_url'', ''db_url'', ''dsn'', ''id_token'',
      ''oauth_token'', ''password'', ''pre_signed_url'', ''presigned_url'', ''private_key_pem'',
      ''private_key'', ''proxy_authorization'', ''refresh_token'', ''secret'', ''security_token'',
      ''set_cookie'', ''signed_url'', ''signing_secret'', ''session_cookie'', ''session_token'',
      ''ssh_private_key'', ''token'', ''webhook_secret'', ''webhook_signature'', ''webhook_token'',
      ''x_api_key'']"

definition DEFAULT_CAPTURE_EXEMPT_PATHS :: "string list list" where
  "DEFAULT_CAPTURE_EXEMPT_PATHS =
     [[''spec_version''], [''event_id''], [''event_type''], [''occurred_at''], [''observed_at''],
      [''source'', ''component''], [''source'', ''instance_id''], [''source'', ''version''],
      [''correlation'', ''trace_id''], [''correlation'', ''run_id''],
      [''correlation'', ''span_id''], [''correlation'', ''session_id''],
      [''causality'', ''root_event_id''], [''causality'', ''parent_event_id''],
      [''principal'', ''principal_id''], [''principal'', ''principal_type''],
      [''principal'', ''on_behalf_of''], [''principal'', ''model_id''],
      [''principal'', ''credential_id''], [''classification'', ''sensitivity''],
      [''classification'', ''trust''], [''integrity'', ''canonicalization''],
      [''integrity'', ''previous_event_hash''], [''integrity'', ''event_hash''],
      [''payload'', ''evidence_link'', ''subject_event_id''],
      [''payload'', ''evidence_link'', ''relationship''],
      [''payload'', ''evidence_link'', ''evidence_event_id''],
      [''payload'', ''evidence_link'', ''corroboration_type''],
      [''payload'', ''evidence_link'', ''observer_identity''],
      [''payload'', ''evidence_link'', ''verification_status''],
      [''payload'', ''subject_event_id''], [''payload'', ''evidence_event_id''],
      [''payload'', ''verification_status'']]"

section \<open>Patterns\<close>

record RedactionPattern =
  rx_name :: string
  rx_pattern :: regex
  rx_replacement :: "template list"

definition RedactionPattern_apply :: "RedactionPattern \<Rightarrow> string \<Rightarrow> string" where
  "RedactionPattern_apply p value = re_sub (rx_pattern p) (rx_replacement p) value"

definition quote_chars :: string where
  "quote_chars = [CHR 0x27, CHR 0x22]"

definition secret_char :: "cset \<Rightarrow> cset" where
  "secret_char alnum c \<longleftrightarrow> alnum c \<or> one_of ''._~+/=-'' c"

definition private_key_pattern :: RedactionPattern where
  "private_key_pattern =
     (let upper = (\<lambda>c. in_range (CHR ''A'') (CHR ''Z'') c \<or> c = 32) in
      \<lparr>rx_name = ''private_key'',
       rx_pattern = seqs
         [lit ''-----BEGIN '', Rep False upper 0, lit ''PRIVATE KEY-----'', Rep True (\<lambda>c. True) 0,
          lit ''-----END '', Rep False upper 0, lit ''PRIVATE KEY-----''],
       rx_replacement = [TLit ''[REDACTED:private_key]'']\<rparr>)"

definition bearer_token_pattern :: "cset \<Rightarrow> RedactionPattern" where
  "bearer_token_pattern alnum =
     \<lparr>rx_name = ''bearer_token'',
      rx_pattern = seqs
        [Bound (word_cp alnum), lit ''Bearer'', Rep False space_cp 1,
         Rep False (secret_char ascii_alnum) 8, Bound (word_cp alnum)],
      rx_replacement = [TLit ''Bearer [REDACTED:bearer_token]'']\<rparr>"

definition database_url_pattern :: "cset \<Rightarrow> RedactionPattern" where
  "database_url_pattern alnum =
     \<lparr>rx_name = ''database_url'',
      rx_pattern = seqs
        [Bound (word_cp alnum),
         alts [Seq (lit_ci ''postgres'') (opt (lit_ci ''ql'')), lit_ci ''mysql'', lit_ci ''mariadb'',
           Seq (lit_ci ''mongodb'') (opt (lit_ci ''+srv'')), lit_ci ''redis'', lit_ci ''rediss'',
           lit_ci ''amqp'', lit_ci ''amqps''],
         lit ''://'', Rep False (\<lambda>c. \<not> space_cp c \<and> \<not> one_of (quote_chars @ ''<>'') c) 1],
      rx_replacement = [TLit ''[REDACTED:database_url]'']\<rparr>"

definition signed_url_parameter_pattern :: "cset \<Rightarrow> RedactionPattern" where
  "signed_url_parameter_pattern alnum =
     \<lparr>rx_name = ''signed_url_parameter'',
      rx_pattern = seqs
        [Bound (word_cp alnum),
         Grp (alts [lit_ci ''x-amz-signature'', lit_ci ''x-amz-credential'',
           lit_ci ''x-amz-security-token'', lit_ci ''signature'', lit_ci ''sig'',
           lit_ci ''access_token'', lit_ci ''refresh_token'', lit_ci ''client_secret'',
           lit_ci ''token'']),
         lit ''='', Rep False (\<lambda>c. \<not> space_cp c \<and> \<not> one_of (quote_chars @ ''&<>'') c) 8],
      rx_replacement = [TGroup, TLit ''=[REDACTED:secret]'']\<rparr>"

definition dashed :: "string list \<Rightarrow> regex" where
  "dashed ws =
     (case ws of [] \<Rightarrow> Eps
      | w # ws \<Rightarrow> seqs (lit_ci w # map (\<lambda>w. Seq (opt (Chars (one_of ''_-''))) (lit_ci w)) ws))"

definition key_value_secret_pattern :: RedactionPattern where
  "key_value_secret_pattern =
     \<lparr>rx_name = ''key_value_secret'',
      rx_pattern = seqs
        [NotBehind alnum_ci,
         Grp (alts [dashed [''api'', ''key''], dashed [''access'', ''token''],
           dashed [''refresh'', ''token''], dashed [''id'', ''token''], dashed [''client'', ''secret''],
           seqs [lit_ci ''webhook'', opt (Chars (one_of ''_-'')),
             alts [lit_ci ''secret'', lit_ci ''token'', lit_ci ''signature'']],
           dashed [''signing'', ''secret''], dashed [''session'', ''token''],
           dashed [''security'', ''token''], dashed [''aws'', ''secret'', ''access'', ''key''],
           dashed [''aws'', ''session'', ''token''], dashed [''private'', ''key''], lit_ci ''token'',
           lit_ci ''password'', lit_ci ''secret'']),
         NotAhead alnum_ci, Rep False space_cp 0, Chars (one_of '':=''), Rep False space_cp 0,
         opt (Chars (one_of quote_chars)), Rep False (secret_char alnum_ci) 8,
         opt (Chars (one_of quote_chars))],
      rx_replacement = [TGroup, TLit ''=[REDACTED:secret]'']\<rparr>"

definition DEFAULT_PATTERNS :: "cset \<Rightarrow> RedactionPattern list" where
  "DEFAULT_PATTERNS alnum =
     [private_key_pattern, bearer_token_pattern alnum, database_url_pattern alnum,
      signed_url_parameter_pattern alnum, key_value_secret_pattern]"

section \<open>Policies\<close>

record RedactionPolicy =
  sensitive_paths :: "string list list"
  sensitive_field_names :: "string list"
  max_string_length :: int
  max_bytes_length :: int
  max_capture_count :: int
  max_capture_bytes :: int
  rp_max_json_depth :: int
  rp_max_object_members :: int
  rp_max_array_length :: int
  capture_exempt_paths :: "string list list"
  redaction_patterns :: "RedactionPattern list"

definition default_policy :: "cset \<Rightarrow> RedactionPolicy" where
  "default_policy alnum =
     \<lparr>sensitive_paths = [], sensitive_field_names = DEFAULT_SENSITIVE_FIELD_NAMES,
      max_string_length = DEFAULT_MAX_STRING_LENGTH, max_bytes_length = DEFAULT_MAX_BYTES_LENGTH,
      max_capture_count = DEFAULT_MAX_CAPTURE_COUNT, max_capture_bytes = DEFAULT_MAX_CAPTURE_BYTES,
      rp_max_json_depth = int DEFAULT_JSON_MAX_DEPTH,
      rp_max_object_members = int DEFAULT_JSON_MAX_OBJECT_MEMBERS,
      rp_max_array_length = int DEFAULT_JSON_MAX_ARRAY_LENGTH,
      capture_exempt_paths = DEFAULT_CAPTURE_EXEMPT_PATHS,
      redaction_patterns = DEFAULT_PATTERNS alnum\<rparr>"

text \<open>A path as configured: dotted text or a sequence of names.\<close>

datatype path_spec = Dotted string | Names "string list"

definition normalize_path :: "path_spec \<Rightarrow> string list res" where
  "normalize_path path =
     (let parts = (case path of
          Dotted s \<Rightarrow> filter (\<lambda>part. part \<noteq> []) (split_on (CHR ''.'') s)
        | Names ns \<Rightarrow> ns)
      in if parts = [] then raise ValueError ''sensitive path cannot be empty''
         else Inr (map py_lower parts))"

definition from_paths ::
  "cset \<Rightarrow> path_spec list \<Rightarrow> int \<Rightarrow> int \<Rightarrow> int \<Rightarrow> int \<Rightarrow> int \<Rightarrow> int \<Rightarrow> int
   \<Rightarrow> path_spec list option \<Rightarrow> RedactionPolicy res" where
  "from_paths alnum paths string_length bytes_length capture_count captured json_depth members items exempt =
     bnd (traverse normalize_path paths) (\<lambda>ps.
     bnd (case exempt of None \<Rightarrow> Inr DEFAULT_CAPTURE_EXEMPT_PATHS
          | Some es \<Rightarrow> traverse normalize_path es) (\<lambda>es.
     Inr ((default_policy alnum)\<lparr>sensitive_paths := ps, max_string_length := string_length,
       max_bytes_length := bytes_length, max_capture_count := capture_count,
       max_capture_bytes := captured, rp_max_json_depth := json_depth,
       rp_max_object_members := members, rp_max_array_length := items,
       capture_exempt_paths := es\<rparr>)))"

section \<open>The capture budget\<close>

record CaptureBudget =
  cb_max_count :: int
  cb_max_bytes :: int
  cb_count :: int
  cb_captured_bytes :: int

definition CaptureBudget_record :: "CaptureBudget \<Rightarrow> int \<Rightarrow> CaptureBudget res" where
  "CaptureBudget_record b captured_bytes =
     (if captured_bytes < 0 then raise RedactionError ''captured byte count cannot be negative''
      else
        let next_count = cb_count b + 1 in
        if next_count > cb_max_count b
        then raise RedactionError (''captured value count exceeds '' @ int_repr (cb_max_count b))
        else
          let next_bytes = cb_captured_bytes b + captured_bytes in
          if next_bytes > cb_max_bytes b
          then raise RedactionError (''captured bytes exceed '' @ int_repr (cb_max_bytes b))
          else Inr (b\<lparr>cb_count := next_count, cb_captured_bytes := next_bytes\<rparr>))"

definition capture_budget :: "RedactionPolicy \<Rightarrow> CaptureBudget res" where
  "capture_budget policy =
     (if max_capture_count policy < 0
      then raise RedactionError ''max_capture_count must be non-negative''
      else if max_capture_bytes policy < 0
      then raise RedactionError ''max_capture_bytes must be non-negative''
      else Inr \<lparr>cb_max_count = max_capture_count policy, cb_max_bytes = max_capture_bytes policy,
                cb_count = 0, cb_captured_bytes = 0\<rparr>)"

section \<open>Bounded capture\<close>

definition sha256_bytes :: "bytes \<Rightarrow> string" where
  "sha256_bytes value = ''sha256:'' @ sha256_hex value"

definition sha256_text :: "string \<Rightarrow> string res" where
  "sha256_text value = bnd (py_encode value) (\<lambda>bs. Inr (sha256_bytes bs))"

definition sha256_scoped_capture_bytes :: "string \<Rightarrow> bytes \<Rightarrow> string" where
  "sha256_scoped_capture_bytes encoding value =
     sha256_bytes (join_with [CHR 0x00] [CAPTURE_DIGEST_SCOPE, encoding, value])"

definition sha256_capture_text :: "string \<Rightarrow> string res" where
  "sha256_capture_text value =
     bnd (py_encode value) (\<lambda>bs. Inr (sha256_scoped_capture_bytes ''text'' bs))"

definition sha256_capture_bytes :: "bytes \<Rightarrow> string" where
  "sha256_capture_bytes value = sha256_scoped_capture_bytes ''base64'' value"

record CaptureMetadata =
  cm_marker :: string
  cm_encoding :: string
  cm_value :: string
  cm_original_length :: nat
  cm_captured_length :: nat
  cm_truncated :: bool
  cm_digest :: string
  cm_digest_scope :: string

definition CaptureMetadata_as_json :: "CaptureMetadata \<Rightarrow> pyv" where
  "CaptureMetadata_as_json m =
     obj [(''marker'', VStr (cm_marker m)), (''encoding'', VStr (cm_encoding m)),
          (''value'', VStr (cm_value m)), (''original_length'', VInt (int (cm_original_length m))),
          (''captured_length'', VInt (int (cm_captured_length m))),
          (''truncated'', VBool (cm_truncated m)), (''digest'', VStr (cm_digest m)),
          (''digest_scope'', VStr (cm_digest_scope m))]"

definition capture_string :: "string \<Rightarrow> int \<Rightarrow> pyv res" where
  "capture_string value max_length =
     (if max_length < 0 then raise ValueError ''max_length must be non-negative''
      else if int (py_len value) \<le> max_length then Inr (VStr value)
      else
        let captured = py_take (nat max_length) value in
        bnd (sha256_capture_text value) (\<lambda>digest.
        Inr (CaptureMetadata_as_json
          \<lparr>cm_marker = ''actionlineage.capture.v1'', cm_encoding = ''text'', cm_value = captured,
           cm_original_length = py_len value, cm_captured_length = py_len captured,
           cm_truncated = True, cm_digest = digest, cm_digest_scope = CAPTURE_DIGEST_SCOPE\<rparr>)))"

definition capture_bytes :: "bytes \<Rightarrow> int \<Rightarrow> pyv res" where
  "capture_bytes value max_length =
     (if max_length < 0 then raise ValueError ''max_length must be non-negative''
      else
        let captured = take (nat max_length) value in
        Inr (CaptureMetadata_as_json
          \<lparr>cm_marker = ''actionlineage.capture.v1'', cm_encoding = ''base64'',
           cm_value = b64encode captured, cm_original_length = length value,
           cm_captured_length = length captured, cm_truncated = (max_length < int (length value)),
           cm_digest = sha256_capture_bytes value, cm_digest_scope = CAPTURE_DIGEST_SCOPE\<rparr>))"

definition record_capture :: "pyv \<Rightarrow> CaptureBudget option \<Rightarrow> CaptureBudget option res" where
  "record_capture value budget =
     (case (budget, value) of
        (Some b, VDict d) \<Rightarrow>
          if get_or_none d ''marker'' \<noteq> VStr ''actionlineage.capture.v1'' then Inr budget
          else
            (case get_or_none d ''value'' of
               VStr captured \<Rightarrow>
                 if get_or_none d ''encoding'' = VStr ''text'' then
                   bnd (py_encode captured) (\<lambda>bs.
                   bnd (CaptureBudget_record b (int (length bs))) (\<lambda>b. Inr (Some b)))
                 else if get_or_none d ''encoding'' = VStr ''base64'' then
                   bnd (CaptureBudget_record b (int (py_len captured))) (\<lambda>b. Inr (Some b))
                 else raise RedactionError ''capture metadata encoding is invalid''
             | _ \<Rightarrow> raise RedactionError ''capture metadata value must be a string'')
      | _ \<Rightarrow> Inr budget)"

section \<open>Redaction\<close>

definition redact_text :: "string \<Rightarrow> RedactionPolicy \<Rightarrow> string" where
  "redact_text value policy =
     foldl (\<lambda>redacted pattern. RedactionPattern_apply pattern redacted) value (redaction_patterns policy)"

definition is_sensitive_path :: "string list \<Rightarrow> RedactionPolicy \<Rightarrow> bool" where
  "is_sensitive_path path policy \<longleftrightarrow> path \<in> set (sensitive_paths policy)"

definition is_sensitive_field :: "string list \<Rightarrow> RedactionPolicy \<Rightarrow> bool" where
  "is_sensitive_field path policy \<longleftrightarrow>
     path \<noteq> []
     \<and> py_lower (replace_char (CHR ''-'') (CHR ''_'') (last path)) \<in> set (sensitive_field_names policy)"

definition is_capture_exempt_path :: "string list \<Rightarrow> RedactionPolicy \<Rightarrow> bool" where
  "is_capture_exempt_path path policy \<longleftrightarrow> path \<in> set (capture_exempt_paths policy)"

definition redacted_marker :: "string \<Rightarrow> pyv" where
  "redacted_marker reason =
     obj [(''marker'', VStr ''actionlineage.redacted.v1''), (''reason'', VStr reason),
          (''value'', VStr REDACTED_VALUE)]"

definition redact_string ::
  "RedactionPolicy \<Rightarrow> string list \<Rightarrow> string \<Rightarrow> CaptureBudget option \<Rightarrow> (pyv \<times> CaptureBudget option) res" where
  "redact_string policy path value budget =
     (let redacted_text = redact_text value policy in
      if is_capture_exempt_path path policy then Inr (VStr redacted_text, budget)
      else
        bnd (capture_string redacted_text (max_string_length policy)) (\<lambda>captured.
        bnd (record_capture captured budget) (\<lambda>budget. Inr (captured, budget))))"

definition redact_byte_string ::
  "RedactionPolicy \<Rightarrow> bytes \<Rightarrow> CaptureBudget option \<Rightarrow> (pyv \<times> CaptureBudget option) res" where
  "redact_byte_string policy value budget =
     bnd (capture_bytes value (max_bytes_length policy)) (\<lambda>captured.
     bnd (record_capture captured budget) (\<lambda>budget. Inr (captured, budget)))"

definition too_deep :: "RedactionPolicy \<Rightarrow> exn" where
  "too_deep policy = Raise RedactionError (''JSON depth exceeds '' @ int_repr (rp_max_json_depth policy))"

definition too_many_members :: "RedactionPolicy \<Rightarrow> exn" where
  "too_many_members policy =
     Raise RedactionError (''JSON object exceeds '' @ int_repr (rp_max_object_members policy) @ '' members'')"

definition too_many_items :: "RedactionPolicy \<Rightarrow> exn" where
  "too_many_items policy =
     Raise RedactionError (''JSON array exceeds '' @ int_repr (rp_max_array_length policy) @ '' items'')"

fun redact_value ::
    "RedactionPolicy \<Rightarrow> string list \<Rightarrow> int \<Rightarrow> pyv \<Rightarrow> CaptureBudget option
     \<Rightarrow> (pyv \<times> CaptureBudget option) res"
  and redact_items ::
    "RedactionPolicy \<Rightarrow> string list \<Rightarrow> int \<Rightarrow> pyv list \<Rightarrow> CaptureBudget option
     \<Rightarrow> (pyv list \<times> CaptureBudget option) res"
  and redact_members ::
    "RedactionPolicy \<Rightarrow> string list \<Rightarrow> int \<Rightarrow> pydict \<Rightarrow> CaptureBudget option
     \<Rightarrow> (pydict \<times> CaptureBudget option) res" where
  "redact_value policy path depth v budget =
     (if is_sensitive_path path policy \<or> is_sensitive_field path policy
      then Inr (redacted_marker ''sensitive'', budget)
      else if rp_max_json_depth policy < depth then Inl (too_deep policy)
      else
        (case v of
           VStr s \<Rightarrow> redact_string policy path s budget
         | VBytes s \<Rightarrow> redact_byte_string policy s budget
         | VFloat f \<Rightarrow>
             if is_finite f then Inr (v, budget) else raise RedactionError ''JSON numbers must be finite''
         | VNone \<Rightarrow> Inr (v, budget)
         | VBool b \<Rightarrow> Inr (v, budget)
         | VInt i \<Rightarrow> Inr (v, budget)
         | VDict d \<Rightarrow>
             if rp_max_object_members policy < int (length d) then Inl (too_many_members policy)
             else bnd (redact_members policy path depth d budget) (\<lambda>(e, b). Inr (VDict e, b))
         | VFrozenDict d \<Rightarrow>
             if rp_max_object_members policy < int (length d) then Inl (too_many_members policy)
             else bnd (redact_members policy path depth d budget) (\<lambda>(e, b). Inr (VDict e, b))
         | VList xs \<Rightarrow>
             if rp_max_array_length policy < int (length xs) then Inl (too_many_items policy)
             else bnd (redact_items policy path depth xs budget) (\<lambda>(ys, b). Inr (VList ys, b))
         | VTuple xs \<Rightarrow>
             if rp_max_array_length policy < int (length xs) then Inl (too_many_items policy)
             else bnd (redact_items policy path depth xs budget) (\<lambda>(ys, b). Inr (VList ys, b))
         | VFrozenList xs \<Rightarrow>
             if rp_max_array_length policy < int (length xs) then Inl (too_many_items policy)
             else bnd (redact_items policy path depth xs budget) (\<lambda>(ys, b). Inr (VList ys, b))
         | _ \<Rightarrow> raise RedactionError (''unsupported value type for redaction: '' @ type_name v)))"
| "redact_items policy path depth [] budget = Inr ([], budget)"
| "redact_items policy path depth (x # xs) budget =
     bnd (redact_value policy path (depth + 1) x budget) (\<lambda>(y, b).
     bnd (redact_items policy path depth xs b) (\<lambda>(ys, b). Inr (y # ys, b)))"
| "redact_members policy path depth [] budget = Inr ([], budget)"
| "redact_members policy path depth ((k, v) # d) budget =
     (case k of
        KOther t \<Rightarrow> raise RedactionError ''redaction only supports string object keys''
      | KStr s \<Rightarrow>
          bnd (redact_value policy (path @ [py_lower s]) (depth + 1) v budget) (\<lambda>(w, b).
          bnd (redact_members policy path depth d b) (\<lambda>(e, b). Inr ((KStr s, w) # e, b))))"

declare redact_value.simps [simp del]

definition redact_from_root :: "RedactionPolicy \<Rightarrow> pyv \<Rightarrow> pyv res" where
  "redact_from_root policy v =
     bnd (capture_budget policy) (\<lambda>budget.
     bnd (redact_value policy [] 0 v (Some budget)) (\<lambda>(w, b). Inr w))"

definition RedactionPolicy_apply :: "RedactionPolicy \<Rightarrow> pyv \<Rightarrow> pyv res" where
  "RedactionPolicy_apply policy v =
     (case redact_from_root policy v of
        Inl err \<Rightarrow> raise RedactionError ''redaction failed before persistence''
      | Inr w \<Rightarrow> Inr w)"

lemma RedactionPolicy_apply_Inr [simp]:
  "RedactionPolicy_apply policy v = Inr w \<longleftrightarrow> redact_from_root policy v = Inr w"
  by (auto simp: RedactionPolicy_apply_def split: sum.splits)

section \<open>Structured logs\<close>

definition string_or_unknown :: "pyv \<Rightarrow> pyv" where
  "string_or_unknown v = (case v of VStr s \<Rightarrow> VStr s | _ \<Rightarrow> VStr ''unknown'')"

definition int_or_unknown :: "pyv \<Rightarrow> pyv" where
  "int_or_unknown v = (case v of VInt i \<Rightarrow> VInt i | _ \<Rightarrow> VStr ''unknown'')"

definition bool_or_unknown :: "pyv \<Rightarrow> pyv" where
  "bool_or_unknown v = (case v of VBool b \<Rightarrow> VBool b | _ \<Rightarrow> VStr ''unknown'')"

definition structured_log_capture_summary :: "pydict \<Rightarrow> pyv" where
  "structured_log_capture_summary metadata =
     (let digest_scope = get_or_none metadata ''digest_scope''; digest = get_or_none metadata ''digest'' in
      obj [(''marker'', VStr STRUCTURED_LOG_CAPTURE_MARKER),
           (''value'', VStr STRUCTURED_LOG_CAPTURE_VALUE),
           (''encoding'', string_or_unknown (get_or_none metadata ''encoding'')),
           (''original_length'', int_or_unknown (get_or_none metadata ''original_length'')),
           (''captured_length'', int_or_unknown (get_or_none metadata ''captured_length'')),
           (''truncated'', bool_or_unknown (get_or_none metadata ''truncated'')),
           (''digest_scope'', string_or_unknown digest_scope),
           (''digest'',
            if digest_scope = VStr CAPTURE_DIGEST_SCOPE \<and> is_str digest then digest
            else VStr STRUCTURED_LOG_DIGEST_UNAVAILABLE)])"

fun summarize_capture_markers :: "pyv \<Rightarrow> pyv" where
  "summarize_capture_markers (VDict d) =
     (if get_or_none d ''marker'' = VStr ''actionlineage.capture.v1'' then structured_log_capture_summary d
      else VDict (map (\<lambda>(k, v). (k, summarize_capture_markers v)) d))"
| "summarize_capture_markers (VList xs) = VList (map summarize_capture_markers xs)"
| "summarize_capture_markers v = v"

definition redaction_failed :: "string \<Rightarrow> pyv" where
  "redaction_failed reason =
     obj [(''marker'', VStr STRUCTURED_LOG_REDACTION_FAILURE_MARKER), (''reason'', VStr reason),
          (''value'', VStr ''[REDACTION_FAILED]'')]"

definition structured_log_policy :: "cset \<Rightarrow> RedactionPolicy" where
  "structured_log_policy alnum =
     (default_policy alnum)\<lparr>max_string_length := DEFAULT_STRUCTURED_LOG_MAX_STRING_LENGTH,
       max_bytes_length := DEFAULT_STRUCTURED_LOG_MAX_BYTES_LENGTH\<rparr>"

definition redact_structured_log_value :: "(pyv \<Rightarrow> pyv res) option \<Rightarrow> cset \<Rightarrow> pyv \<Rightarrow> pyv" where
  "redact_structured_log_value redaction_policy alnum v =
     (let apply_policy = (case redaction_policy of Some p \<Rightarrow> p
          | None \<Rightarrow> RedactionPolicy_apply (structured_log_policy alnum))
      in case apply_policy v of
           Inl err \<Rightarrow> redaction_failed ''redaction_failed''
         | Inr redacted \<Rightarrow> summarize_capture_markers redacted)"

definition redact_structured_log_fields :: "(pyv \<Rightarrow> pyv res) option \<Rightarrow> cset \<Rightarrow> pydict \<Rightarrow> pyv" where
  "redact_structured_log_fields redaction_policy alnum log_fields =
     (case redact_structured_log_value redaction_policy alnum (VDict log_fields) of
        VDict d \<Rightarrow> VDict d
      | _ \<Rightarrow> redaction_failed ''redaction_produced_non_object'')"

end
