(* ===== verification/RedactionBoundary.thy ===== *)
theory RedactionBoundary
  imports Redaction JournalChain
begin

text \<open>
  What a redaction policy guarantees to the journal: which texts the default patterns leave alone,
  what happens to the members of an event, and that a policy which does not touch the chain fields
  is a \<open>redaction_boundary\<close>. The default policy is one.
\<close>

section \<open>Structure of a redacted value\<close>

lemma redact_members_keys:
  "redact_members policy path depth d b = Inr (e, b') \<Longrightarrow> keys e = keys d"
  by (induction d arbitrary: b e b') (auto simp: bnd_Inr_iff split: pykey.splits)

lemma redact_members_get:
  "redact_members policy path depth d b = Inr (e, b') \<Longrightarrow> get_item d s = Some v \<Longrightarrow>
   \<exists>w b1 b2. get_item e s = Some w \<and> redact_value policy (path @ [py_lower s]) (depth + 1) v b1 = Inr (w, b2)"
proof (induction d arbitrary: b e b')
  case (Cons p d)
  obtain k v1 where p: "p = (k, v1)" by force
  then obtain t where k: "k = KStr t" using Cons.prems(1) by (cases k) auto
  obtain w b1 e1 where step: "redact_value policy (path @ [py_lower t]) (depth + 1) v1 b = Inr (w, b1)"
    "redact_members policy path depth d b1 = Inr (e1, b')" "e = (KStr t, w) # e1"
    using Cons.prems(1) by (auto simp: p k bnd_Inr_iff)
  show ?case
    using Cons.prems(2) Cons.IH [OF step(2)] step(1,3) by (cases "t = s") (auto simp: p k)
qed simp

lemma redact_members_none:
  "redact_members policy path depth d b = Inr (e, b') \<Longrightarrow> get_item e s = None \<longleftrightarrow> get_item d s = None"
  using redact_members_keys [of policy path depth d b e b'] by (simp add: get_item_def dget_None_iff)

lemma redact_dict:
  assumes "redact_value policy path depth (VDict d) b = Inr (w, b')"
    and "\<not> is_sensitive_path path policy" "\<not> is_sensitive_field path policy"
  obtains e where "w = VDict e" "redact_members policy path depth d b = Inr (e, b')"
  using assms by (auto simp: redact_value.simps [of policy path depth "VDict d"] bnd_Inr_iff split: if_splits)

lemma redact_scalar:
  assumes "redact_value policy path depth v b = Inr (w, b')"
    and "\<not> is_sensitive_path path policy" "\<not> is_sensitive_field path policy"
  shows "v = VNone \<Longrightarrow> w = VNone" "v = VInt i \<Longrightarrow> w = VInt i" "v = VBool c \<Longrightarrow> w = VBool c"
    and "v = VStr s \<Longrightarrow> redact_string policy path s b = Inr (w, b')"
  using assms by (auto simp: redact_value.simps [of policy path depth "VNone"]
      redact_value.simps [of policy path depth "VInt i"] redact_value.simps [of policy path depth "VBool c"]
      redact_value.simps [of policy path depth "VStr s"] split: if_splits)

lemma is_json_capture [simp]: "is_json (CaptureMetadata_as_json m)"
  unfolding CaptureMetadata_as_json_def by (rule is_json_obj) simp_all

lemma is_json_marker [simp]: "is_json (redacted_marker r)"
  unfolding redacted_marker_def by (rule is_json_obj) simp_all

lemma capture_string_cases:
  "capture_string s n = Inr w \<Longrightarrow>
   w = VStr s \<and> int (py_len s) \<le> n
   \<or> (\<exists>m. w = CaptureMetadata_as_json m \<and> cm_encoding m = ''text'' \<and> int (py_len (cm_value m)) \<le> n
        \<and> n < int (py_len s))"
  by (auto simp: capture_string_def Let_def bnd_Inr_iff py_len_take split: if_splits)

lemma redact_string_json: "redact_string policy path s b = Inr (w, b') \<Longrightarrow> is_json w"
  by (auto simp: redact_string_def Let_def bnd_Inr_iff split: if_splits dest!: capture_string_cases)

lemma redact_bytes_json: "redact_byte_string policy s b = Inr (w, b') \<Longrightarrow> is_json w"
  by (auto simp: redact_byte_string_def capture_bytes_def Let_def bnd_Inr_iff split: if_splits)

lemma redact_json:
  "is_json v \<Longrightarrow> redact_value policy path depth v b = Inr (w, b') \<Longrightarrow> is_json w"
  "list_all is_json xs \<Longrightarrow> redact_items policy path depth xs b = Inr (ys, b') \<Longrightarrow> list_all is_json ys"
  "list_all (\<lambda>p. case p of (KStr k, v) \<Rightarrow> is_json v | _ \<Rightarrow> False) d \<Longrightarrow>
   redact_members policy path depth d b = Inr (e, b') \<Longrightarrow>
   list_all (\<lambda>p. case p of (KStr k, v) \<Rightarrow> is_json v | _ \<Rightarrow> False) e"
proof (induction policy path depth v b and policy path depth xs b and policy path depth d b
    arbitrary: w b' and ys b' and e b'
    rule: redact_value_redact_items_redact_members.induct)
  case (1 policy path depth v budget)
  show ?case
  proof (cases "is_sensitive_path path policy \<or> is_sensitive_field path policy")
    case True
    then show ?thesis using "1.prems" by (auto simp: redact_value.simps [of policy path depth v])
  next
    case False
    note s = "1.prems"(2) [unfolded redact_value.simps [of policy path depth v]]
    show ?thesis
    proof (cases v)
      case (VStr t)
      then show ?thesis using False s by (auto split: if_splits dest: redact_string_json)
    next
      case (VList xs)
      then obtain ys where e: "w = VList ys" "redact_items policy path depth xs budget = Inr (ys, b')"
        "\<not> rp_max_array_length policy < int (length xs)" "\<not> rp_max_json_depth policy < depth"
        using False s by (auto simp: bnd_Inr_iff split: if_splits)
      then show ?thesis using "1.IH"(1) [OF False e(4) VList e(3) _ e(2)] "1.prems"(1) VList by simp
    next
      case (VDict d)
      then obtain e where e: "w = VDict e" "redact_members policy path depth d budget = Inr (e, b')"
        "\<not> rp_max_object_members policy < int (length d)" "\<not> rp_max_json_depth policy < depth"
        using False s by (auto simp: bnd_Inr_iff split: if_splits)
      have "list_all (\<lambda>p. case p of (KStr k, v) \<Rightarrow> is_json v | _ \<Rightarrow> False) e"
        using "1.IH"(4) [OF False e(4) VDict e(3) _ e(2)] "1.prems"(1) VDict by simp
      then show ?thesis using e redact_members_keys [OF e(2)] "1.prems"(1) VDict by simp
    qed (use False s "1.prems"(1) in \<open>auto split: if_splits\<close>)
  qed
next
  case (5 policy path depth k v d budget)
  then show ?case by (cases k) (auto simp: bnd_Inr_iff)
qed (auto simp: bnd_Inr_iff)

section \<open>Digests\<close>

definition digest_alphabet :: "nat list" where
  "digest_alphabet = [48, 49, 50, 51, 52, 53, 54, 55, 56, 57, 58, 97, 98, 99, 100, 101, 102, 104, 115]"

lemma hex_char_ascii: "is_hex_char c \<Longrightarrow> byte c < 128"
  by (auto simp: is_hex_char_def)

lemma digest_text: "set (decode_cps (sha256_digest bs)) \<subseteq> set digest_alphabet"
proof -
  have hex: "byte c \<in> set digest_alphabet" if "is_hex_char c" for c
  proof -
    have "byte c \<in> {48..57} \<union> {97..102}" using that by (simp add: is_hex_char_def)
    moreover have "{48..57} \<union> {97..102} \<subseteq> set digest_alphabet" by code_simp
    ultimately show ?thesis by blast
  qed
  have "\<forall>c\<in>set ''sha256:''. byte c < 128 \<and> byte c \<in> set digest_alphabet"
    by (simp add: byte_def digest_alphabet_def)
  then have "\<forall>c\<in>set (sha256_digest bs). byte c < 128 \<and> byte c \<in> set digest_alphabet"
    unfolding sha256_digest_def set_append using hex hex_char_ascii sha256_hex_hex by blast
  then show ?thesis using decode_ascii [of "sha256_digest bs"] by auto
qed

lemmas pattern_defs = private_key_pattern_def bearer_token_pattern_def database_url_pattern_def
  signed_url_parameter_pattern_def key_value_secret_pattern_def dashed_def opt_def

lemma default_patterns_digest:
  "list_all (\<lambda>p. needs_other digest_alphabet (rx_pattern p)) (DEFAULT_PATTERNS alnum)"
  by (simp add: DEFAULT_PATTERNS_def pattern_defs Let_def digest_alphabet_def same_letter_def
      lower_cp_def fold_extra_def in_range_def one_of_def space_cp_def ascii_alnum_def byte_def)

lemma redact_text_unneeded:
  assumes "list_all (\<lambda>p. needs q (rx_pattern p)) (redaction_patterns policy)"
    and "\<forall>c\<in>set (decode_cps s). \<not> q c" "utf8_ok True s"
  shows "redact_text s policy = s"
proof -
  have "foldl (\<lambda>t p. RedactionPattern_apply p t) s ps = s" if "list_all (\<lambda>p. needs q (rx_pattern p)) ps" for ps
    using that by (induction ps) (simp_all add: RedactionPattern_apply_def re_sub_needs [OF _ assms(2,3)])
  then show ?thesis using assms(1) by (simp add: redact_text_def)
qed

lemma utf8_ok_digest: "utf8_ok sp (sha256_digest bs)"
  by (rule utf8_ok_ascii) (use hex_char_ascii sha256_hex_hex in \<open>auto simp: sha256_digest_def, auto simp: byte_def\<close>)

lemma default_redact_digest:
  "redaction_patterns policy = DEFAULT_PATTERNS alnum \<Longrightarrow>
   redact_text (sha256_digest bs) policy = sha256_digest bs"
  using digest_text [of bs] default_patterns_digest [of alnum]
  by (intro redact_text_unneeded [where q = "\<lambda>c. c \<notin> set digest_alphabet"] utf8_ok_digest)
     (auto simp: needs_other_iff)

section \<open>The members of a redacted event\<close>

lemma get_item_canon:
  assumes "is_json (VDict d)" "canon (VDict d) = VDict c"
  shows "get_item c k = map_option canon (get_item d k)"
proof -
  have c: "c = sort_key (\<lambda>p. key_str (fst p)) (map (\<lambda>(k, v). (k, canon v)) d)" using assms(2) by simp
  have "distinct (keys (map (\<lambda>(k, v). (k, canon v)) d))" using assms(1) by (simp add: comp_def split_beta)
  then show ?thesis
    using dget_sort_key [of "map (\<lambda>(k, v). (k, canon v)) d" "\<lambda>p. key_str (fst p)" "KStr k"]
    by (simp add: c get_item_def map_snd_dget)
qed

lemma json_get_item: "is_json (VDict d) \<Longrightarrow> get_item d k = Some v \<Longrightarrow> is_json v"
  by (auto simp: get_item_def list_all_iff dest!: dget_Some_in)

lemma redacted_event_members:
  assumes "wf_event e" "redacted_event pd (RedactionPolicy_apply policy) e = Inr r"
    and "\<not> is_sensitive_path [] policy"
  obtains d b b' where "is_json (VDict d)" "model_validate pd (canon (VDict d)) = Inr r"
    "redact_members policy [] 0 (obj_items (event_dump (\<lambda>t. VStr (pd_dump_datetime pd t)) e)) b = Inr (d, b')"
proof -
  let ?m = "model_json pd e"
  have j: "is_json ?m" by (rule is_json_model_json [OF assms(1)])
  obtain w bs where w: "RedactionPolicy_apply policy ?m = Inr w" "deterministic_json_bytes w = Inr bs"
    "event_from_json pd bs = Inr r"
    using assms(1,2)
    by (auto simp: redacted_event_def serialize_event_for_persistence_def redact_event_dict_def
        bnd_Inr_iff event_to_dict_iff simp del: RedactionPolicy_apply_Inr split: sum.splits pyv.splits)
  obtain b b' where rv: "redact_value policy [] 0 ?m (Some b) = Inr (w, b')"
    using w(1) by (auto simp: redact_from_root_def bnd_Inr_iff)
  have "\<not> is_sensitive_field [] policy" by (simp add: is_sensitive_field_def)
  then obtain d where d: "w = VDict d"
    "redact_members policy [] 0 (obj_items (event_dump (\<lambda>t. VStr (pd_dump_datetime pd t)) e)) (Some b) = Inr (d, b')"
    using redact_dict [OF rv [unfolded model_json_def] assms(3)] by blast
  have jd: "is_json (VDict d)" using redact_json(1) [OF j rv] d(1) by simp
  have "dumps (VDict d) = Inr bs" "utf8_ok False bs"
    using w(2) d(1) by (simp_all add: deterministic_json_bytes_def bnd_Inr_iff)
  then have "strict_json_loads bs = Inr (canon (VDict d))"
    using loads_bytes_dumps [OF _ jd] utf8_ok_surrogatepass by (simp add: strict_json_loads_def)
  then have "model_validate pd (canon (VDict d)) = Inr r" using w(3) by (simp add: event_from_json_def)
  then show ?thesis using that jd d(2) by blast
qed

context pydantic_laws begin

lemma validated_fields:
  assumes "model_validate pd (canon (VDict d)) = Inr r" "is_json (VDict d)"
  shows "get_item d ''causality'' = Some v \<Longrightarrow> validate_causality_fields pd (canon v) = Some (ev_causality r)"
    and "get_item d ''integrity'' = Some v \<Longrightarrow> validate_integrity pd (canon v) = Some (ev_integrity r)"
    and "get_item d ''payload'' = Some v \<Longrightarrow> validate_payload pd (canon v) = Some (payload r)"
proof -
  obtain c where c: "canon (VDict d) = VDict c" by simp
  note g = get_item_canon [OF assms(2) c]
  obtain occ obs where "build_event pd occ obs c = Some r"
    using assms(1) by (auto simp: c model_validate_def validation_error_def pd_fields_dict bnd_Inr_iff
        simp del: canon.simps split: option.splits if_splits)
  then show "get_item d ''causality'' = Some v \<Longrightarrow> validate_causality_fields pd (canon v) = Some (ev_causality r)"
    "get_item d ''integrity'' = Some v \<Longrightarrow> validate_integrity pd (canon v) = Some (ev_integrity r)"
    "get_item d ''payload'' = Some v \<Longrightarrow> validate_payload pd (canon v) = Some (payload r)"
    by (auto simp: build_event_def bind_eq_Some_conv field_def field_default_def g)
qed

lemma validated_sequence:
  assumes "validate_causality_fields pd (canon (VDict d)) = Some u" "is_json (VDict d)"
    and "get_item d ''sequence'' = Some (VInt i)"
  shows "sequence u = i"
proof -
  obtain c where c: "canon (VDict d) = VDict c" by simp
  have i: "canon (VInt i) = VInt i" by simp
  show ?thesis
    using assms get_item_canon [OF assms(2) c] i
    by (auto simp: c validate_causality_fields_def bind_eq_Some_conv field_def nonneg_int_def pd_int_int
        simp del: canon.simps split: if_splits)
qed

lemma validated_link:
  assumes "validate_integrity pd (canon (VDict d)) = Some u" "is_json (VDict d)"
    and "get_item d ''previous_event_hash'' = Some (opt_str p)"
  shows "previous_event_hash u = p"
proof -
  obtain c where c: "canon (VDict d) = VDict c" by simp
  have "get_item c ''previous_event_hash'' = Some (opt_str p)"
    using get_item_canon [OF assms(2) c] assms(3) by simp
  then show ?thesis
    using assms(1)
    by (cases p) (auto simp: c validate_integrity_def bind_eq_Some_conv field_default_def opt_min1_str_def
        min1_str_def pd_str_str simp del: canon.simps split: if_splits)
qed

end

section \<open>Policies that keep the chain\<close>

definition open_path :: "RedactionPolicy \<Rightarrow> string list \<Rightarrow> bool" where
  "open_path policy path \<longleftrightarrow> \<not> is_sensitive_path path policy \<and> \<not> is_sensitive_field path policy"

definition chain_policy :: "RedactionPolicy \<Rightarrow> bool" where
  "chain_policy policy \<longleftrightarrow>
     list_all (open_path policy) [[], [''causality''], [''causality'', ''sequence''], [''integrity''],
       [''integrity'', ''previous_event_hash'']]
     \<and> is_capture_exempt_path [''integrity'', ''previous_event_hash''] policy
     \<and> (\<forall>bs. redact_text (sha256_digest bs) policy = sha256_digest bs)"

lemma lower_names [simp]:
  "py_lower ''causality'' = ''causality''" "py_lower ''sequence'' = ''sequence''"
  "py_lower ''integrity'' = ''integrity''" "py_lower ''previous_event_hash'' = ''previous_event_hash''"
  "py_lower ''payload'' = ''payload''" "py_lower ''ingest'' = ''ingest''"
  "py_lower ''idempotency_key'' = ''idempotency_key''" "py_lower ''record_fingerprint'' = ''record_fingerprint''"
  by (simp_all add: py_lower_def lower_char_def byte_def)

lemma redact_member_dict:
  assumes "redact_members policy path depth d b = Inr (e, b')" "is_json (VDict e)"
    and "get_item d s = Some (VDict f)" "open_path policy (path @ [py_lower s])"
  obtains g b1 b2 where "get_item e s = Some (VDict g)" "is_json (VDict g)"
    "redact_members policy (path @ [py_lower s]) (depth + 1) f b1 = Inr (g, b2)"
proof -
  obtain w b1 b2 where w: "get_item e s = Some w"
    "redact_value policy (path @ [py_lower s]) (depth + 1) (VDict f) b1 = Inr (w, b2)"
    using redact_members_get [OF assms(1,3)] by blast
  obtain g where g: "w = VDict g" "redact_members policy (path @ [py_lower s]) (depth + 1) f b1 = Inr (g, b2)"
    using redact_dict [OF w(2)] assms(4) by (auto simp: open_path_def)
  have "is_json (VDict g)" using json_get_item [OF assms(2) w(1)] g(1) by simp
  then show ?thesis using that w(1) g by blast
qed

lemma redaction_boundary_policy:
  assumes "pydantic_laws pd" "chain_policy policy"
  shows "redaction_boundary pd (RedactionPolicy_apply policy)"
proof (intro redaction_boundary.intro redaction_boundary_axioms.intro assms(1))
  fix e r
  assume e: "wf_event e" "chain_text (link_of e)" "redacted_event pd (RedactionPolicy_apply policy) e = Inr r"
  note pol = assms(2) [unfolded chain_policy_def list.pred_inject]
  let ?d = "obj_items (event_dump (\<lambda>t. VStr (pd_dump_datetime pd t)) e)"
  obtain d b b' where d: "is_json (VDict d)" "model_validate pd (canon (VDict d)) = Inr r"
    "redact_members policy [] 0 ?d b = Inr (d, b')"
    using redacted_event_members [OF e(1,3)] pol by (auto simp: open_path_def)
  note fields = pydantic_laws.validated_fields [OF assms(1) d(2,1)]
  have "get_item ?d ''causality'' = Some (VDict (obj_items (causality_dump (ev_causality e))))"
    "get_item ?d ''integrity'' = Some (VDict (obj_items (integrity_dump (ev_integrity e))))"
    by (simp_all add: event_dump_def)
  note gi = this
  obtain c b1 b2 where c: "get_item d ''causality'' = Some (VDict c)" "is_json (VDict c)"
    "redact_members policy [''causality''] 1 (obj_items (causality_dump (ev_causality e))) b1 = Inr (c, b2)"
    using redact_member_dict [OF d(3,1) gi(1)] pol by auto
  obtain i b3 b4 where i: "get_item d ''integrity'' = Some (VDict i)" "is_json (VDict i)"
    "redact_members policy [''integrity''] 1 (obj_items (integrity_dump (ev_integrity e))) b3 = Inr (i, b4)"
    using redact_member_dict [OF d(3,1) gi(2)] pol by auto
  have "get_item (obj_items (causality_dump (ev_causality e))) ''sequence'' = Some (VInt (sequence (ev_causality e)))"
    by (simp add: causality_dump_def)
  from redact_members_get [OF c(3) this] obtain w b5 b6 where w: "get_item c ''sequence'' = Some w"
    "redact_value policy [''causality'', ''sequence''] 2 (VInt (sequence (ev_causality e))) b5 = Inr (w, b6)"
    by auto
  have s: "sequence (ev_causality r) = sequence (ev_causality e)"
    using pydantic_laws.validated_sequence [OF assms(1) fields(1) [OF c(1)] c(2)] w(1)
      redact_scalar(2) [OF w(2)] pol by (auto simp: open_path_def)
  have "get_item (obj_items (integrity_dump (ev_integrity e))) ''previous_event_hash'' = Some (opt_str (link_of e))"
    by (simp add: integrity_dump_def)
  from redact_members_get [OF i(3) this] obtain x b7 b8 where x: "get_item i ''previous_event_hash'' = Some x"
    "redact_value policy [''integrity'', ''previous_event_hash''] 2 (opt_str (link_of e)) b7 = Inr (x, b8)"
    by auto
  have "x = opt_str (link_of e)"
  proof (cases "link_of e")
    case None
    then show ?thesis using redact_scalar(1) [OF x(2)] pol by (auto simp: open_path_def)
  next
    case (Some h)
    then have "redact_string policy [''integrity'', ''previous_event_hash''] h b7 = Inr (x, b8)"
      using redact_scalar(4) [OF x(2)] pol by (auto simp: open_path_def)
    moreover have "redact_text h policy = h" using e(2) Some pol by (auto simp: chain_text_def)
    ultimately show ?thesis using pol Some by (simp add: redact_string_def)
  qed
  then have "link_of r = link_of e"
    using pydantic_laws.validated_link [OF assms(1) fields(2) [OF i(1)] i(2)] x(1) by auto
  then show "sequence (ev_causality r) = sequence (ev_causality e) \<and> link_of r = link_of e"
    using s by simp
qed

lemma chain_policy_default: "chain_policy (default_policy alnum)"
  using default_redact_digest [of "default_policy alnum" alnum]
  by (simp add: chain_policy_def default_policy_def open_path_def is_sensitive_path_def
      is_sensitive_field_def is_capture_exempt_path_def DEFAULT_CAPTURE_EXEMPT_PATHS_def
      DEFAULT_SENSITIVE_FIELD_NAMES_def replace_char_def py_lower_def lower_char_def byte_def)

interpretation default_boundary: redaction_boundary strict_pydantic "RedactionPolicy_apply (default_policy alnum)"
  for alnum
  by (rule redaction_boundary_policy [OF strict.pydantic_laws_axioms chain_policy_default])

end
