(* ===== verification/RedactionClaims.thy ===== *)
theory RedactionClaims
  imports RedactionBoundary IngestionClaims
begin

text \<open>
  The properties of the redaction policy: what a redacted value looks like, that appending does not
  depend on secrets, what the default policy does to idempotency keys, and what structured logs
  leave out.
\<close>

section \<open>Idempotency keys under a policy\<close>

definition ingest_policy :: "RedactionPolicy \<Rightarrow> bool" where
  "ingest_policy policy \<longleftrightarrow> chain_policy policy \<and> 71 \<le> max_string_length policy
     \<and> list_all (open_path policy) [[''payload''], [''payload'', ''ingest''],
         [''payload'', ''ingest'', ''idempotency_key''], [''payload'', ''ingest'', ''record_fingerprint'']]"

lemma ingest_policy_default: "ingest_policy (default_policy alnum)"
  using chain_policy_default [of alnum]
  by (simp add: ingest_policy_def default_policy_def open_path_def is_sensitive_path_def
      is_sensitive_field_def DEFAULT_MAX_STRING_LENGTH_def
      DEFAULT_SENSITIVE_FIELD_NAMES_def replace_char_def py_lower_def lower_char_def byte_def)

lemma ingest_text_Some:
  assumes "is_json v" "ingest_text v k = Some s"
  obtains d f where "v = VDict d" "get_item d ''ingest'' = Some (VDict f)" "get_item f k = Some (VStr s)" "s \<noteq> []"
proof -
  obtain d where d: "v = VDict d" using assms by (cases v) (auto simp: ingest_text_def mapping_text_def)
  obtain f where f: "map_items (get_or_none d ''ingest'') = Some f" "get_or_none f k = VStr s" "s \<noteq> []"
    using assms(2) by (auto simp: d ingest_text_def mapping_text_def split: option.splits pyv.splits if_splits)
  have "is_json (get_or_none d ''ingest'')" using is_json_get_or_none assms(1) d by simp
  then have "get_or_none d ''ingest'' = VDict f" using map_items_json f(1) by blast
  then show ?thesis
    using that [of d f] d f(2,3) by (auto simp: get_or_none_def split: option.splits)
qed

lemma redacted_ingest_text:
  assumes "pydantic_laws pd" "ingest_policy policy" "wf_event e"
    and "redacted_event pd (RedactionPolicy_apply policy) e = Inr r"
    and k: "k \<in> {''idempotency_key'', ''record_fingerprint''}" and s: "ingest_text (payload e) k = Some s"
  obtains b w b' where "redact_string policy [''payload'', ''ingest'', k] s b = Inr (w, b')"
    "ingest_text (payload r) k = (case w of VStr t \<Rightarrow> if t = [] then None else Some t | _ \<Rightarrow> None)"
proof -
  note pol = assms(2) [unfolded ingest_policy_def chain_policy_def list.pred_inject]
  let ?d = "obj_items (event_dump (\<lambda>t. VStr (pd_dump_datetime pd t)) e)"
  obtain d b b' where d: "is_json (VDict d)" "model_validate pd (canon (VDict d)) = Inr r"
    "redact_members policy [] 0 ?d b = Inr (d, b')"
    using redacted_event_members [OF assms(3,4)] pol by (auto simp: open_path_def)
  have "wf_payload (payload e)" using assms(3) by (simp add: wf_event_def)
  then have "is_json (thaw_json_value (payload e))" using wf_payload_thaw by metis
  then obtain p f where p: "thaw_json_value (payload e) = VDict p" "get_item p ''ingest'' = Some (VDict f)"
    "get_item f k = Some (VStr s)" "s \<noteq> []"
    using ingest_text_Some [of "thaw_json_value (payload e)" k s] s by (auto simp: ingest_text_thaw)
  have "get_item ?d ''payload'' = Some (VDict p)" by (simp add: event_dump_def p(1))
  from redact_member_dict [OF d(3,1) this] pol obtain q b1 b2 where
    q: "get_item d ''payload'' = Some (VDict q)" "is_json (VDict q)"
    "redact_members policy [''payload''] 1 p b1 = Inr (q, b2)" by auto
  from redact_member_dict [OF q(3,2) p(2)] pol obtain g b3 b4 where
    g: "get_item q ''ingest'' = Some (VDict g)" "is_json (VDict g)"
    "redact_members policy [''payload'', ''ingest''] 2 f b3 = Inr (g, b4)" by auto
  have "py_lower k = k" using k by auto
  with redact_members_get [OF g(3) p(3)] obtain w b5 b6 where
    w: "get_item g k = Some w" "redact_value policy [''payload'', ''ingest'', k] 3 (VStr s) b5 = Inr (w, b6)"
    by auto
  have "redact_string policy [''payload'', ''ingest'', k] s b5 = Inr (w, b6)"
    using redact_scalar(4) [OF w(2)] pol k by (auto simp: open_path_def)
  moreover have "ingest_text (payload r) k = (case w of VStr t \<Rightarrow> if t = [] then None else Some t | _ \<Rightarrow> None)"
  proof -
    have v: "validate_payload pd (canon (VDict q)) = Some (payload r)"
      using pydantic_laws.validated_fields(3) [OF assms(1) d(2,1) q(1)] .
    obtain c where c: "canon (VDict q) = VDict c" by simp
    have "is_json (VDict c)" using q(2) c by (metis is_json_canon)
    then have "\<forall>p\<in>set c. \<exists>s. fst p = KStr s"
      by (auto simp: is_json_dict_iff json_members_def simp del: is_json.simps)
    then have "require_json_payload c = Some (payload r)"
      using v pydantic_laws.pd_mapping_dict [OF assms(1)] by (simp add: c validate_payload_def del: canon.simps)
    then have "ingest_text (payload r) k = ingest_text (VDict q) k"
      using payload_ingest_text ingest_text_canon [OF q(2)] c by metis
    then show ?thesis
      using g(1) w(1) by (simp add: ingest_text_def mapping_text_def get_or_none_def)
  qed
  ultimately show ?thesis using that by blast
qed

definition kept_text :: "RedactionPolicy \<Rightarrow> string \<Rightarrow> bool" where
  "kept_text policy s \<longleftrightarrow> redact_text s policy = s \<and> int (py_len s) \<le> max_string_length policy"

lemma py_len_digest: "py_len (sha256_digest bs) \<le> 71"
  using py_len_le_length [of "sha256_digest bs"] by (simp add: sha256_digest_def)

lemma ingest_boundary_policy:
  assumes "pydantic_laws pd" "ingest_policy policy"
  shows "ingest_boundary pd (RedactionPolicy_apply policy) (kept_text policy)"
proof (intro ingest_boundary.intro ingest_boundary_axioms.intro)
  have chain: "chain_policy policy" using assms(2) by (simp add: ingest_policy_def)
  then show "redaction_boundary pd (RedactionPolicy_apply policy)"
    by (rule redaction_boundary_policy [OF assms(1)])
  show "kept_text policy (sha256_digest bs)" for bs
    using chain assms(2) py_len_digest [of bs] by (simp add: kept_text_def chain_policy_def ingest_policy_def)
  fix e r k s
  assume a: "wf_event e" "redacted_event pd (RedactionPolicy_apply policy) e = Inr r"
    "k \<in> {''idempotency_key'', ''record_fingerprint''}" "ingest_text (payload e) k = Some s" "kept_text policy s"
  obtain b w b' where w: "redact_string policy [''payload'', ''ingest'', k] s b = Inr (w, b')"
    "ingest_text (payload r) k = (case w of VStr t \<Rightarrow> if t = [] then None else Some t | _ \<Rightarrow> None)"
    using redacted_ingest_text [OF assms a(1-4)] by blast
  have "w = VStr s"
    using w(1) a(5) by (auto simp: redact_string_def kept_text_def capture_string_def bnd_Inr_iff split: if_splits)
  moreover have "s \<noteq> []" using a(4) by (auto simp: ingest_text_def mapping_text_def split: option.splits pyv.splits if_splits)
  ultimately show "ingest_text (payload r) k = Some s" using w(2) by simp
qed

interpretation default_ingest:
  ingest_boundary strict_pydantic "RedactionPolicy_apply (default_policy alnum)" "kept_text (default_policy alnum)"
  for alnum
  by (rule ingest_boundary_policy [OF strict.pydantic_laws_axioms ingest_policy_default])

section \<open>Secrets\<close>

text \<open>Two values that differ only below sensitive paths and under sensitive names.\<close>

fun same_public :: "RedactionPolicy \<Rightarrow> string list \<Rightarrow> pyv \<Rightarrow> pyv \<Rightarrow> bool"
  and same_public_items :: "RedactionPolicy \<Rightarrow> string list \<Rightarrow> pyv list \<Rightarrow> pyv list \<Rightarrow> bool"
  and same_public_members :: "RedactionPolicy \<Rightarrow> string list \<Rightarrow> pydict \<Rightarrow> pydict \<Rightarrow> bool" where
  "same_public policy path v w \<longleftrightarrow>
     \<not> open_path policy path
     \<or> (case v of
          VDict d \<Rightarrow> (case w of VDict e \<Rightarrow> same_public_members policy path d e | _ \<Rightarrow> False)
        | VList xs \<Rightarrow> (case w of VList ys \<Rightarrow> same_public_items policy path xs ys | _ \<Rightarrow> False)
        | _ \<Rightarrow> v = w)"
| "same_public_items policy path [] ys \<longleftrightarrow> ys = []"
| "same_public_items policy path (x # xs) ys \<longleftrightarrow>
     (case ys of [] \<Rightarrow> False | y # ys \<Rightarrow> same_public policy path x y \<and> same_public_items policy path xs ys)"
| "same_public_members policy path [] e \<longleftrightarrow> e = []"
| "same_public_members policy path ((k, v) # d) e \<longleftrightarrow>
     (case e of
        [] \<Rightarrow> False
      | (l, w) # e \<Rightarrow> k = l \<and> same_public policy (path @ [py_lower (key_str k)]) v w
          \<and> same_public_members policy path d e)"

declare same_public.simps [simp del]

lemma same_public_length:
  "same_public_items policy path xs ys \<Longrightarrow> length ys = length xs"
  "same_public_members policy path d e \<Longrightarrow> length e = length d"
proof -
  show "same_public_items policy path xs ys \<Longrightarrow> length ys = length xs"
    by (induction xs arbitrary: ys) (auto split: list.splits)
  show "same_public_members policy path d e \<Longrightarrow> length e = length d"
    by (induction d arbitrary: e) (auto split: list.splits)
qed

lemma redact_same_public:
  "same_public policy path v w \<Longrightarrow> redact_value policy path depth v b = redact_value policy path depth w b"
  "same_public_items policy path xs ys \<Longrightarrow>
   redact_items policy path depth xs b = redact_items policy path depth ys b"
  "same_public_members policy path d e \<Longrightarrow>
   redact_members policy path depth d b = redact_members policy path depth e b"
proof (induction policy path v w and policy path xs ys and policy path d e
    arbitrary: depth b and depth b and depth b
    rule: same_public_same_public_items_same_public_members.induct)
  case (1 policy path v w)
  show ?case
  proof (cases "open_path policy path")
    case False
    then show ?thesis
      by (simp add: redact_value.simps [of policy path depth v] redact_value.simps [of policy path depth w]
          open_path_def)
  next
    case True
    note sp = "1.prems" [unfolded same_public.simps [of policy path v w]]
    consider (d) d e where "v = VDict d" "w = VDict e" "same_public_members policy path d e"
      | (l) xs ys where "v = VList xs" "w = VList ys" "same_public_items policy path xs ys" | "v = w"
      using sp True by (cases v; cases w) auto
    then show ?thesis
    proof cases
      case d
      then show ?thesis
        using "1.IH"(2) [of d e depth b] True same_public_length(2) [OF d(3)]
        by (simp add: redact_value.simps [of policy path depth "VDict d"]
            redact_value.simps [of policy path depth "VDict e"])
    next
      case l
      then show ?thesis
        using "1.IH"(1) [of xs ys depth b] True same_public_length(1) [OF l(3)]
        by (simp add: redact_value.simps [of policy path depth "VList xs"]
            redact_value.simps [of policy path depth "VList ys"])
    qed simp
  qed
next
  case (3 policy path x xs ys)
  then show ?case by (cases ys) (auto intro!: bnd_cong)
next
  case (5 policy path k v d e)
  then show ?case
    by (cases k; cases e) (auto intro!: bnd_cong)
qed auto

lemma same_public_refl: "same_public policy path v v"
proof (induction v arbitrary: path)
  case (VList xs)
  then have "same_public_items policy path xs xs" by (induction xs) auto
  then show ?case by (simp add: same_public.simps)
next
  case (VDict d)
  then have "\<forall>p\<in>set d. \<forall>path. same_public policy path (snd p) (snd p)" by (metis snds.intros)
  then have "same_public_members policy path d d" by (induction d) auto
  then show ?case by (simp add: same_public.simps)
qed (simp_all add: same_public.simps)

lemma apply_same_public:
  "same_public policy [] v w \<Longrightarrow> RedactionPolicy_apply policy v = RedactionPolicy_apply policy w"
  by (simp add: RedactionPolicy_apply_def redact_from_root_def redact_same_public(1) [of policy "[]" v w])

lemma same_public_event:
  assumes "same_public policy [''payload''] (thaw_json_value (payload e)) (thaw_json_value p)"
  shows "same_public policy [] (model_json pd e) (model_json pd (e\<lparr>payload := p\<rparr>))"
  using assms
  by (simp add: same_public.simps [of policy "[]"] model_json_def event_dump_def same_public_refl)

text \<open>What appending depends on is the redacted event.\<close>

lemma append_event_redacted:
  assumes "pydantic_laws pd" "wf_event e" "wf_event e'" "sequence (ev_causality e') = sequence (ev_causality e)"
    and "canonicalization (ev_integrity e') = canonicalization (ev_integrity e)"
    and "\<And>p. wf_opt p \<Longrightarrow> serialize_event_for_persistence pd apply_policy (unhashed_event e p)
      = serialize_event_for_persistence pd apply_policy (unhashed_event e' p)"
  shows "append_event pd apply_policy env file e = append_event pd apply_policy env file e'"
proof -
  have "prepare_event_for_append pd apply_policy e p = prepare_event_for_append pd apply_policy e' p"
    if "wf_opt p" for p
    using pydantic_laws.event_with_integrity_eq [OF assms(1,2) that]
      pydantic_laws.event_with_integrity_eq [OF assms(1,3) that] assms(5) assms(6) [OF that]
    by (simp add: prepare_event_for_append_def unhashed_event_def)
  moreover have "wf_opt (snapshot_terminal_hash s)"
    if "verified_journal_snapshot pd (ae_stat env) None None file = Inr s" for s
    using pydantic_laws.snapshot_terminal_wf(1) [OF assms(1)] that by (cases "ae_stat env") metis
  ultimately have "next_record pd apply_policy env file e = next_record pd apply_policy env file e'"
    using assms(4)
    by (auto simp: next_record_def intro!: bnd_cong split: read_outcome.split)
  then show ?thesis by (simp add: append_event_def)
qed

text \<open>C27. Secrets never reach the journal: two events whose payloads differ only below sensitive
  paths and under sensitive names, at any depth, leave the same journal bytes and the same result,
  whatever the file holds and the file system does.\<close>
theorem append_ignores_secrets:
  assumes "pydantic_laws pd" "wf_event e" "wf_event (e\<lparr>payload := p\<rparr>)"
    and "same_public policy [''payload''] (thaw_json_value (payload e)) (thaw_json_value p)"
    and "validate_json_value default_limits 1 (thaw_json_value (payload e)) = Inr ()"
    and "validate_json_value default_limits 1 (thaw_json_value p) = Inr ()"
  shows "append_event pd (RedactionPolicy_apply policy) env file e
    = append_event pd (RedactionPolicy_apply policy) env file (e\<lparr>payload := p\<rparr>)"
proof (rule append_event_redacted [OF assms(1-3)])
  let ?f = "e\<lparr>payload := p\<rparr>"
  fix h :: "string option"
  assume h: "wf_opt h"
  have d: "event_to_dict pd (unhashed_event x h) = Inr (model_json pd (unhashed_event x h))"
    if "wf_event x" "validate_json_value default_limits 1 (thaw_json_value (payload x)) = Inr ()" for x
    using event_to_dict_iff [OF wf_unhashed_event [OF that(1) h]] that(2) by simp
  have "same_public policy [] (model_json pd (unhashed_event e h))
      (model_json pd ((unhashed_event e h)\<lparr>payload := refreeze p\<rparr>))"
    using assms(4) by (intro same_public_event) simp
  moreover have "(unhashed_event e h)\<lparr>payload := refreeze p\<rparr> = unhashed_event ?f h"
    by (simp add: unhashed_event_def)
  ultimately show "serialize_event_for_persistence pd (RedactionPolicy_apply policy) (unhashed_event e h)
      = serialize_event_for_persistence pd (RedactionPolicy_apply policy) (unhashed_event ?f h)"
    using d [OF assms(2,5)] d [of ?f] assms(3,6) apply_same_public
    by (simp add: serialize_event_for_persistence_def redact_event_dict_def)
qed simp_all

section \<open>Bounds\<close>

text \<open>
  The limits are read beside the value that was given, so that only what a policy captured itself
  counts as capture metadata: a dict of the input that merely looks like it is bounded as any other
  dict. The metadata of a text says that it is too long and shows the beginning that the policy
  allows; the metadata of a byte string shows the base64 of at most that many bytes.
\<close>

definition text_captured :: "RedactionPolicy \<Rightarrow> string \<Rightarrow> pydict \<Rightarrow> bool" where
  "text_captured policy t d \<longleftrightarrow>
     max_string_length policy < int (py_len t)
     \<and> get_or_none d ''marker'' = VStr ''actionlineage.capture.v1''
     \<and> get_or_none d ''encoding'' = VStr ''text''
     \<and> get_or_none d ''value'' = VStr (py_take (nat (max_string_length policy)) t)
     \<and> int (py_len (py_take (nat (max_string_length policy)) t)) \<le> max_string_length policy
     \<and> get_or_none d ''original_length'' = VInt (int (py_len t))
     \<and> get_or_none d ''truncated'' = VBool True
     \<and> Inr (get_or_none d ''digest'') = bnd (sha256_capture_text t) (\<lambda>h. Inr (VStr h))
     \<and> length d = 8"

definition bytes_captured :: "RedactionPolicy \<Rightarrow> bytes \<Rightarrow> pydict \<Rightarrow> bool" where
  "bytes_captured policy t d \<longleftrightarrow>
     get_or_none d ''marker'' = VStr ''actionlineage.capture.v1''
     \<and> get_or_none d ''encoding'' = VStr ''base64''
     \<and> get_or_none d ''value'' = VStr (b64encode (take (nat (max_bytes_length policy)) t))
     \<and> int (length (b64encode (take (nat (max_bytes_length policy)) t)))
         \<le> 4 * ((max_bytes_length policy + 2) div 3)
     \<and> get_or_none d ''original_length'' = VInt (int (length t))
     \<and> get_or_none d ''truncated'' = VBool (max_bytes_length policy < int (length t))
     \<and> get_or_none d ''digest'' = VStr (sha256_capture_bytes t)
     \<and> length d = 8"

text \<open>
  \<open>bounded_as policy path depth v w\<close>: \<open>w\<close> shows of the value \<open>v\<close>, found at \<open>path\<close> and
  \<open>depth\<close>, no more than the policy allows.
\<close>

fun bounded_as :: "RedactionPolicy \<Rightarrow> string list \<Rightarrow> int \<Rightarrow> pyv \<Rightarrow> pyv \<Rightarrow> bool"
  and bounded_items :: "RedactionPolicy \<Rightarrow> string list \<Rightarrow> int \<Rightarrow> pyv list \<Rightarrow> pyv list \<Rightarrow> bool"
  and bounded_members :: "RedactionPolicy \<Rightarrow> string list \<Rightarrow> int \<Rightarrow> pydict \<Rightarrow> pydict \<Rightarrow> bool" where
  "bounded_as policy path depth v w \<longleftrightarrow>
     (if \<not> open_path policy path then w = redacted_marker ''sensitive''
      else
        depth \<le> rp_max_json_depth policy
        \<and> (case v of
             VStr s \<Rightarrow>
               (case w of
                  VStr t \<Rightarrow> t = redact_text s policy
                    \<and> (is_capture_exempt_path path policy \<or> int (py_len t) \<le> max_string_length policy)
                | VDict e \<Rightarrow> \<not> is_capture_exempt_path path policy \<and> text_captured policy (redact_text s policy) e
                | _ \<Rightarrow> False)
           | VBytes s \<Rightarrow> (case w of VDict e \<Rightarrow> bytes_captured policy s e | _ \<Rightarrow> False)
           | VDict d \<Rightarrow>
               (case w of VDict e \<Rightarrow> int (length e) \<le> rp_max_object_members policy
                  \<and> bounded_members policy path depth d e | _ \<Rightarrow> False)
           | VFrozenDict d \<Rightarrow>
               (case w of VDict e \<Rightarrow> int (length e) \<le> rp_max_object_members policy
                  \<and> bounded_members policy path depth d e | _ \<Rightarrow> False)
           | VList xs \<Rightarrow>
               (case w of VList ys \<Rightarrow> int (length ys) \<le> rp_max_array_length policy
                  \<and> bounded_items policy path depth xs ys | _ \<Rightarrow> False)
           | VTuple xs \<Rightarrow>
               (case w of VList ys \<Rightarrow> int (length ys) \<le> rp_max_array_length policy
                  \<and> bounded_items policy path depth xs ys | _ \<Rightarrow> False)
           | VFrozenList xs \<Rightarrow>
               (case w of VList ys \<Rightarrow> int (length ys) \<le> rp_max_array_length policy
                  \<and> bounded_items policy path depth xs ys | _ \<Rightarrow> False)
           | VFloat f \<Rightarrow> is_finite f \<and> w = v
           | VNone \<Rightarrow> w = v
           | VBool b \<Rightarrow> w = v
           | VInt i \<Rightarrow> w = v
           | _ \<Rightarrow> False))"
| "bounded_items policy path depth [] ys \<longleftrightarrow> ys = []"
| "bounded_items policy path depth (x # xs) ys \<longleftrightarrow>
     (case ys of
        [] \<Rightarrow> False
      | y # ys \<Rightarrow> bounded_as policy path (depth + 1) x y \<and> bounded_items policy path depth xs ys)"
| "bounded_members policy path depth [] e \<longleftrightarrow> e = []"
| "bounded_members policy path depth ((k, v) # d) e \<longleftrightarrow>
     (case (k, e) of
        (KStr s, (KStr t, w) # e) \<Rightarrow>
          t = s \<and> bounded_as policy (path @ [py_lower s]) (depth + 1) v w \<and> bounded_members policy path depth d e
      | _ \<Rightarrow> False)"

declare bounded_as.simps [simp del]

lemma length_b64encode: "length (b64encode s) = 4 * ((length s + 2) div 3)"
  by (induction s rule: b64encode.induct) (auto, presburger)

text \<open>A redacted value is made of plain dicts and lists only.\<close>

fun plain_containers :: "pyv \<Rightarrow> bool" where
  "plain_containers (VDict d) \<longleftrightarrow> list_all (\<lambda>(k, v). plain_containers v) d"
| "plain_containers (VList xs) \<longleftrightarrow> list_all plain_containers xs"
| "plain_containers (VTuple xs) \<longleftrightarrow> False"
| "plain_containers (VFrozenList xs) \<longleftrightarrow> False"
| "plain_containers (VFrozenDict d) \<longleftrightarrow> False"
| "plain_containers v \<longleftrightarrow> True"

lemma capture_string_bounded:
  assumes "capture_string s (max_string_length policy) = Inr w"
  shows "w = VStr s \<and> int (py_len s) \<le> max_string_length policy
    \<or> (\<exists>d. w = VDict d \<and> text_captured policy s d \<and> plain_containers w)"
  using assms
  by (auto simp: capture_string_def Let_def bnd_Inr_iff text_captured_def CaptureMetadata_as_json_def
      get_or_none_def py_len_take split: if_splits)

lemma b64encode_bound:
  assumes "0 \<le> n"
  shows "int (length (b64encode (take (nat n) s))) \<le> 4 * ((n + 2) div 3)"
proof -
  have "length (b64encode (take (nat n) s)) \<le> 4 * ((nat n + 2) div 3)"
    unfolding length_b64encode by (intro mult_le_mono2 div_le_mono) simp
  then have "int (length (b64encode (take (nat n) s))) \<le> int (4 * ((nat n + 2) div 3))"
    by (rule of_nat_mono)
  also have "\<dots> = 4 * ((n + 2) div 3)"
    using assms by (simp only: of_nat_mult zdiv_int of_nat_add) simp
  finally show ?thesis .
qed

lemma capture_bytes_bounded:
  assumes "capture_bytes s (max_bytes_length policy) = Inr w"
  shows "\<exists>d. w = VDict d \<and> bytes_captured policy s d \<and> plain_containers w"
  using assms b64encode_bound [of "max_bytes_length policy" s]
  by (auto simp: capture_bytes_def Let_def bytes_captured_def CaptureMetadata_as_json_def get_or_none_def
      split: if_splits)

lemma redact_bounded:
  "redact_value policy path depth v b = Inr (w, b') \<Longrightarrow> bounded_as policy path depth v w \<and> plain_containers w"
  "redact_items policy path depth xs b = Inr (ys, b') \<Longrightarrow>
   bounded_items policy path depth xs ys \<and> length ys = length xs \<and> list_all plain_containers ys"
  "redact_members policy path depth d b = Inr (e, b') \<Longrightarrow>
   bounded_members policy path depth d e \<and> length e = length d \<and> list_all (\<lambda>(k, v). plain_containers v) e"
proof (induction policy path depth v b and policy path depth xs b and policy path depth d b
    arbitrary: w b' and ys b' and e b'
    rule: redact_value_redact_items_redact_members.induct)
  case (1 policy path depth v budget)
  show ?case
  proof (cases "is_sensitive_path path policy \<or> is_sensitive_field path policy")
    case True
    then show ?thesis
      using "1.prems" by (auto simp: redact_value.simps [of policy path depth v] bounded_as.simps open_path_def
          redacted_marker_def)
  next
    case False
    note s = "1.prems" [unfolded redact_value.simps [of policy path depth v]]
    have o: "open_path policy path" "\<not> rp_max_json_depth policy < depth"
      using False s by (auto simp: open_path_def split: if_splits)
    note IH = "1.IH" [OF False o(2)]
    show ?thesis
    proof (cases v)
      case (VStr t)
      then have "redact_string policy path t budget = Inr (w, b')" using False s o by (simp split: if_splits)
      then show ?thesis
        using o VStr by (auto simp: redact_string_def Let_def bnd_Inr_iff bounded_as.simps
            split: if_splits dest!: capture_string_bounded)
    next
      case (VBytes t)
      then have "redact_byte_string policy t budget = Inr (w, b')" using False s o by (simp split: if_splits)
      then show ?thesis
        using o VBytes by (auto simp: redact_byte_string_def bnd_Inr_iff bounded_as.simps dest!: capture_bytes_bounded)
    next
      case (VList xs)
      then obtain ys where r: "\<not> rp_max_array_length policy < int (length xs)"
        "redact_items policy path depth xs budget = Inr (ys, b')" "w = VList ys"
        using s False o by (auto simp: bnd_Inr_iff split: if_splits)
      from IH(1) [OF VList r(1,2)] show ?thesis using r o VList by (auto simp: bounded_as.simps)
    next
      case (VTuple xs)
      then obtain ys where r: "\<not> rp_max_array_length policy < int (length xs)"
        "redact_items policy path depth xs budget = Inr (ys, b')" "w = VList ys"
        using s False o by (auto simp: bnd_Inr_iff split: if_splits)
      from IH(2) [OF VTuple r(1,2)] show ?thesis using r o VTuple by (auto simp: bounded_as.simps)
    next
      case (VFrozenList xs)
      then obtain ys where r: "\<not> rp_max_array_length policy < int (length xs)"
        "redact_items policy path depth xs budget = Inr (ys, b')" "w = VList ys"
        using s False o by (auto simp: bnd_Inr_iff split: if_splits)
      from IH(3) [OF VFrozenList r(1,2)] show ?thesis using r o VFrozenList by (auto simp: bounded_as.simps)
    next
      case (VDict d)
      then obtain e where r: "\<not> rp_max_object_members policy < int (length d)"
        "redact_members policy path depth d budget = Inr (e, b')" "w = VDict e"
        using s False o by (auto simp: bnd_Inr_iff split: if_splits)
      from IH(4) [OF VDict r(1,2)] show ?thesis using r o VDict by (auto simp: bounded_as.simps)
    next
      case (VFrozenDict d)
      then obtain e where r: "\<not> rp_max_object_members policy < int (length d)"
        "redact_members policy path depth d budget = Inr (e, b')" "w = VDict e"
        using s False o by (auto simp: bnd_Inr_iff split: if_splits)
      from IH(5) [OF VFrozenDict r(1,2)] show ?thesis using r o VFrozenDict by (auto simp: bounded_as.simps)
    qed (use s False o in \<open>auto simp: bounded_as.simps split: if_splits\<close>)
  qed
next
  case (5 policy path depth k v d budget)
  then show ?case by (cases k) (auto simp: bnd_Inr_iff)
qed (auto simp: bnd_Inr_iff)

text \<open>C28. What a policy returns shows of the value it was given no more than its limits allow,
  member by member and item by item. Whatever stands under a sensitive name or at a sensitive path
  is the redaction marker. Elsewhere depth, members and items stay within the limits; a text is the
  given text with the patterns replaced, and outside the capture-exempt paths it is within the length
  limit or replaced by the metadata of its capture, which shows its permitted beginning; a byte
  string is always replaced by bounded capture metadata; numbers are finite. Only a text or a byte
  string is replaced by capture metadata: a dict that looks like it is redacted member by member.\<close>
theorem redacted_value_bounded:
  assumes "RedactionPolicy_apply policy v = Inr w"
  shows "bounded_as policy [] 0 v w"
  using assms redact_bounded(1) by (auto simp: redact_from_root_def bnd_Inr_iff)

section \<open>Idempotency keys that are redacted\<close>

text \<open>The idempotency key of a record that the policy redacts is lost: the event that is
  stored does not carry the record's key, so a later import does not find it and imports the record
  again (the default policy redacts a key like \<open>token=abcdefgh\<close>).\<close>
theorem redacted_key_forgotten:
  assumes "pydantic_laws pd" "ingest_policy policy" "wf_event e"
    and "ingest_text (payload e) ''idempotency_key'' = Some key" "redact_text key policy \<noteq> key"
    and "append_event pd (RedactionPolicy_apply policy) env file e = (Inr r, file')"
  shows "event_idempotency_key_from_ingest (event_ingest r) \<noteq> Some key"
proof -
  obtain s bs where s: "verified_journal_snapshot pd (ae_stat env) None None file = Inr s"
    "prepare_event_for_append pd (RedactionPolicy_apply policy) e (snapshot_terminal_hash s) = Inr (r, bs)"
    using assms(6)
    by (auto simp: append_event_def next_record_def bnd_Inr_iff append_line_def
        split: sum.splits prod.splits read_outcome.splits write_outcome.splits if_splits)
  have p: "wf_opt (snapshot_terminal_hash s)"
    using pydantic_laws.snapshot_terminal_wf(1) [OF assms(1)] s(1) by (cases "ae_stat env") metis
  obtain rh where rh: "redacted_event pd (RedactionPolicy_apply policy)
      (unhashed_event e (snapshot_terminal_hash s)) = Inr rh" "payload r = refreeze (payload rh)"
    using pydantic_laws.prepare_payload [OF assms(1,3) p s(2)] by blast
  obtain b w b' where w: "redact_string policy [''payload'', ''ingest'', ''idempotency_key''] key b = Inr (w, b')"
    "ingest_text (payload rh) ''idempotency_key''
      = (case w of VStr t \<Rightarrow> if t = [] then None else Some t | _ \<Rightarrow> None)"
    using redacted_ingest_text [OF assms(1,2) wf_unhashed_event [OF assms(3) p] rh(1), of "''idempotency_key''" key]
      assms(4) by auto
  have "w \<noteq> VStr key"
    using w(1) assms(5)
    by (auto simp: redact_string_def Let_def bnd_Inr_iff CaptureMetadata_as_json_def
        split: if_splits dest!: capture_string_cases)
  then show ?thesis
    using w(2) rh(2) by (auto simp: ingest_text_event split: pyv.splits if_splits)
qed

section \<open>Structured logs\<close>

fun no_capture_marker :: "pyv \<Rightarrow> bool" where
  "no_capture_marker (VDict d) \<longleftrightarrow>
     get_or_none d ''marker'' \<noteq> VStr ''actionlineage.capture.v1'' \<and> list_all (\<lambda>(k, v). no_capture_marker v) d"
| "no_capture_marker (VFrozenDict d) \<longleftrightarrow>
     get_or_none d ''marker'' \<noteq> VStr ''actionlineage.capture.v1'' \<and> list_all (\<lambda>(k, v). no_capture_marker v) d"
| "no_capture_marker (VList xs) \<longleftrightarrow> list_all no_capture_marker xs"
| "no_capture_marker (VTuple xs) \<longleftrightarrow> list_all no_capture_marker xs"
| "no_capture_marker (VFrozenList xs) \<longleftrightarrow> list_all no_capture_marker xs"
| "no_capture_marker v \<longleftrightarrow> True"

lemma summary_no_capture: "no_capture_marker (structured_log_capture_summary d)"
proof -
  have "no_capture_marker (string_or_unknown v)" "no_capture_marker (int_or_unknown v)"
    "no_capture_marker (bool_or_unknown v)" "is_str v \<Longrightarrow> no_capture_marker v" for v
    by (cases v; simp add: string_or_unknown_def int_or_unknown_def bool_or_unknown_def)+
  then show ?thesis
    by (simp add: structured_log_capture_summary_def Let_def get_or_none_def STRUCTURED_LOG_CAPTURE_MARKER_def)
qed

lemma summarized_no_capture: "plain_containers v \<Longrightarrow> no_capture_marker (summarize_capture_markers v)"
proof (induction v rule: summarize_capture_markers.induct)
  case (1 d)
  show ?case
  proof (cases "get_or_none d ''marker'' = VStr ''actionlineage.capture.v1''")
    case True
    then show ?thesis by (simp add: summary_no_capture)
  next
    case False
    have "get_or_none (map (\<lambda>(k, v). (k, summarize_capture_markers v)) d) ''marker''
        = summarize_capture_markers (get_or_none d ''marker'')"
      by (rule get_or_none_map) simp
    moreover have "summarize_capture_markers x = VStr t \<Longrightarrow> x = VStr t" for x t
      by (cases x rule: summarize_capture_markers.cases)
        (auto simp: structured_log_capture_summary_def Let_def split: if_splits)
    ultimately show ?thesis using False 1 by (auto simp: list_all_iff)
  qed
qed (auto simp: list_all_iff)

text \<open>Structured logs never carry captured content: under any redaction policy, the default one
  included, the value that is logged contains no capture metadata at any depth.\<close>
theorem log_omits_captures:
  "no_capture_marker (redact_structured_log_value None alnum v)
   \<and> no_capture_marker (redact_structured_log_value (Some (RedactionPolicy_apply policy)) alnum v)"
proof -
  have f: "no_capture_marker (redaction_failed ''redaction_failed'')"
    by (simp add: redaction_failed_def get_or_none_def STRUCTURED_LOG_REDACTION_FAILURE_MARKER_def)
  have "no_capture_marker (summarize_capture_markers w)" if "RedactionPolicy_apply pol v = Inr w" for pol w
    using that redact_bounded(1) summarized_no_capture by (auto simp: redact_from_root_def bnd_Inr_iff)
  then show ?thesis using f by (auto simp: redact_structured_log_value_def Let_def split: sum.split)
qed

section \<open>Witnesses\<close>

definition ascii_policy :: RedactionPolicy where
  "ascii_policy = default_policy (\<lambda>c. False)"

definition secret_event :: "string \<Rightarrow> event" where
  "secret_event s = sample_event\<lparr>payload := VFrozenDict [(KStr ''API-Key'', VStr s), (KStr ''n'', VInt 1)]\<rparr>"

theorem append_ignores_secrets_witness:
  "append_event strict_pydantic (RedactionPolicy_apply ascii_policy) sample_env None (secret_event ''a'')
   = append_event strict_pydantic (RedactionPolicy_apply ascii_policy) sample_env None (secret_event ''b'')"
proof -
  let ?p = "payload (secret_event ''b'')"
  have e: "secret_event ''b'' = (secret_event ''a'')\<lparr>payload := ?p\<rparr>" by (simp add: secret_event_def)
  have wf: "wf_event (secret_event ''a'')" "wf_event ((secret_event ''a'')\<lparr>payload := ?p\<rparr>)"
    unfolding e [symmetric] by code_simp+
  have same: "same_public ascii_policy [''payload''] (thaw_json_value (payload (secret_event ''a''))) (thaw_json_value ?p)"
    by code_simp
  have "validate_json_value default_limits 1 (thaw_json_value (payload (secret_event ''a''))) = Inr ()"
    "validate_json_value default_limits 1 (thaw_json_value ?p) = Inr ()"
    by code_simp+
  from append_ignores_secrets [OF strict.pydantic_laws_axioms wf same this, of sample_env None] e
  show ?thesis by simp
qed

theorem redacted_value_bounded_witness:
  "bounded_as ascii_policy [] 0
    (VDict [(KStr ''Token'', VStr ''x''),
            (KStr ''note'', VDict [(KStr ''marker'', VStr ''actionlineage.capture.v1''), (KStr ''value'', VStr ''token=abcdefgh'')]),
            (KStr ''n'', VFrozenList [VStr ''v'', VInt 1])])
    (VDict [(KStr ''Token'', redacted_marker ''sensitive''),
            (KStr ''note'', VDict [(KStr ''marker'', VStr ''actionlineage.capture.v1''),
                                  (KStr ''value'', VStr ''token=[REDACTED:secret]'')]),
            (KStr ''n'', VList [VStr ''v'', VInt 1])])"
proof -
  have "RedactionPolicy_apply ascii_policy
      (VDict [(KStr ''Token'', VStr ''x''),
              (KStr ''note'', VDict [(KStr ''marker'', VStr ''actionlineage.capture.v1''), (KStr ''value'', VStr ''token=abcdefgh'')]),
              (KStr ''n'', VFrozenList [VStr ''v'', VInt 1])])
    = Inr (VDict [(KStr ''Token'', redacted_marker ''sensitive''),
            (KStr ''note'', VDict [(KStr ''marker'', VStr ''actionlineage.capture.v1''),
                                  (KStr ''value'', VStr ''token=[REDACTED:secret]'')]),
            (KStr ''n'', VList [VStr ''v'', VInt 1])])"
    by code_simp
  then show ?thesis by (rule redacted_value_bounded)
qed

definition keyed_event :: "string \<Rightarrow> event" where
  "keyed_event key = sample_event\<lparr>payload :=
     VFrozenDict [(KStr ''ingest'', VFrozenDict [(KStr ''idempotency_key'', VStr key)])]\<rparr>"

lemma keyed_event_redacted:
  "RedactionPolicy_apply ascii_policy (model_json strict_pydantic (keyed_event ''token=abcdefgh''))
   = Inr (model_json strict_pydantic (keyed_event ''token=[REDACTED:secret]''))"
  by code_simp

lemma unhashed_keyed_event: "unhashed_event (keyed_event k) None = keyed_event k"
  by (simp add: unhashed_event_def keyed_event_def sample_event_def default_integrity_def refreeze_def)

lemma redacted_as:
  assumes "wf_event e" "event_to_dict strict_pydantic e = Inr (model_json strict_pydantic e)"
    and "RedactionPolicy_apply policy (model_json strict_pydantic e) = Inr (model_json strict_pydantic f)"
    and "wf_event f" "serializable f"
  shows "redacted_event strict_pydantic (RedactionPolicy_apply policy) e = Inr (event_canon f)"
proof -
  obtain bs where bs: "serialize_event strict_pydantic f = Inr bs"
    using strict.serializable_bytes [OF assms(4,5)] by blast
  then have d: "deterministic_json_bytes (model_json strict_pydantic f) = Inr bs"
    using assms(4) by (auto simp: serialize_event_def bnd_Inr_iff event_to_dict_iff)
  obtain m where m: "model_json strict_pydantic f = VDict m" by (simp add: model_json_def)
  have "redact_event_dict strict_pydantic (RedactionPolicy_apply policy) e = Inr (VDict m)"
    using assms(2,3) m by (simp add: redact_event_dict_def del: RedactionPolicy_apply_Inr)
  then have "serialize_event_for_persistence strict_pydantic (RedactionPolicy_apply policy) e = Inr bs"
    using d m by (simp add: serialize_event_for_persistence_def)
  then show ?thesis
    using strict.event_from_json_serialize [OF assms(4) bs] by (simp add: redacted_event_def)
qed

theorem redacted_key_forgotten_witness:
  "\<exists>r f. append_event strict_pydantic (RedactionPolicy_apply ascii_policy) sample_env None
      (keyed_event ''token=abcdefgh'') = (Inr r, f)
    \<and> event_idempotency_key_from_ingest (event_ingest r) \<noteq> Some ''token=abcdefgh''"
proof -
  let ?e = "keyed_event ''token=abcdefgh''" and ?f = "keyed_event ''token=[REDACTED:secret]''"
  have wf: "wf_event ?e" "wf_event ?f" "serializable ?f" by code_simp+
  have v: "validate_json_value default_limits 1 (thaw_json_value (payload ?e)) = Inr ()" by code_simp
  have red: "redacted_event strict_pydantic (RedactionPolicy_apply ascii_policy) ?e = Inr (event_canon ?f)"
    using redacted_as [OF wf(1) _ keyed_event_redacted wf(2,3)] v event_to_dict_iff [OF wf(1)] by simp
  have label: "is_supported_persisted_event_canonicalization (canonicalization (ev_integrity ?e))"
    "is_supported_persisted_event_canonicalization (canonicalization (ev_integrity (event_canon ?f)))"
    by (simp add: event_canon_def keyed_event_def sample_event_def, code_simp)+
  obtain s where s: "verified_journal_snapshot strict_pydantic sample_stat None None None = Inr s"
    "snapshot_ok s" "snapshot_record_count s = 0" "snapshot_terminal_hash s = None"
    using sample_empty by blast
  obtain r bs where p: "prepare_event_for_append strict_pydantic (RedactionPolicy_apply ascii_policy) ?e None = Inr (r, bs)"
    using strict.prepare_event_succeeds [OF wf(1) wf_opt_simps(1) label(1), of "RedactionPolicy_apply ascii_policy" "event_canon ?f"]
      red unhashed_keyed_event [of "''token=abcdefgh''"] label(2) serializable_canon [OF wf(2,3)]
    by (auto simp: unhashed_event_def)
  have "append_event strict_pydantic (RedactionPolicy_apply ascii_policy) sample_env None ?e
      = (Inr r, Some (file_bytes None @ bs @ [newline]))"
  proof (rule strict.append_event_succeeds [OF wf(1) _ s(2)])
    show "verified_journal_snapshot strict_pydantic (ae_stat sample_env) None None None = Inr s"
      using s(1) by (simp add: sample_env_def)
    show "sequence (ev_causality ?e) = int (snapshot_record_count s)"
      using s(3) by (simp add: keyed_event_def sample_event_def)
    show "prepare_event_for_append strict_pydantic (RedactionPolicy_apply ascii_policy) ?e
        (snapshot_terminal_hash s) = Inr (r, bs)"
      using p s(4) by simp
  qed (simp_all add: sample_env_def)
  then obtain r f where a: "append_event strict_pydantic (RedactionPolicy_apply ascii_policy) sample_env None ?e
      = (Inr r, f)" by blast
  have "ingest_text (payload ?e) ''idempotency_key'' = Some ''token=abcdefgh''"
    "redact_text ''token=abcdefgh'' ascii_policy \<noteq> ''token=abcdefgh''"
    by code_simp+
  from a redacted_key_forgotten [OF strict.pydantic_laws_axioms _ wf(1) this a] ingest_policy_default
  show ?thesis by (auto simp: ascii_policy_def)
qed

end
