(* ===== verification/JournalLock.thy ===== *)
theory JournalLock
  imports JournalClaims
begin

text \<open>
  The lock of the journal (\<open>journal/local.py\<close>): one attempt to take it, the polling loop with its
  deadline, and processes that append and read under it. What the operating system answers to an
  attempt and what the clock reads are arguments; \<open>flock\<close> itself (shared and exclusive, never
  blocking) is part of the step relation. Clock readings are rationals, seconds.

  On a platform without \<open>fcntl\<close> the code takes no lock at all: every attempt is then granted
  (\<open>FlockGranted\<close>). \<open>lock_file\<close> and \<open>lock_loop\<close> cover that, the processes under the lock do not: their
  step relation is about platforms where \<open>flock\<close> excludes.
\<close>

section \<open>One attempt\<close>

datatype lock_mode = Shared | Exclusive

datatype flock_outcome = FlockGranted | FlockBlocked | FlockError

record lock_attempt =
  la_content :: "bytes option"        \<comment> \<open>the lock file before the attempt\<close>
  la_open :: bool                     \<comment> \<open>does \<open>os.open\<close> succeed\<close>
  la_insecure :: "string option"      \<comment> \<open>the file stays readable by others after \<open>fchmod\<close>\<close>
  la_flock :: flock_outcome
  la_written :: "nat option"          \<comment> \<open>writing the metadata fails after this many bytes\<close>
  la_read :: "bytes option"           \<comment> \<open>the lock file when the loop gives up, if it can be read\<close>

text \<open>\<open>_lock_file\<close>: \<open>metadata\<close> is what \<open>_lock_metadata(operation)\<close> returns.\<close>

definition lock_file :: "lock_mode \<Rightarrow> bytes \<Rightarrow> lock_attempt \<Rightarrow> unit res \<times> bytes option" where
  "lock_file mode metadata a =
     (if \<not> la_open a then (raise OSError [], la_content a)
      else
        let content = Some (file_bytes (la_content a)) in
        (case la_insecure a of
           Some detail \<Rightarrow> (raise JournalStoragePermissionError detail, content)
         | None \<Rightarrow>
             (case la_flock a of
                FlockBlocked \<Rightarrow> (raise BlockingIOError [], content)
              | FlockError \<Rightarrow> (raise OSError [], content)
              | FlockGranted \<Rightarrow>
                  if mode = Exclusive then
                    (case la_written a of
                       None \<Rightarrow> (Inr (), Some metadata)
                     | Some n \<Rightarrow> (raise OSError [], Some (take n metadata)))
                  else (Inr (), content))))"

text \<open>
  \<open>_read_lock_metadata\<close>: \<open>read_text\<close> decodes the file, and a file that is not UTF-8 raises
  \<open>UnicodeDecodeError\<close>, which is not an \<open>OSError\<close>.
\<close>

definition read_lock_metadata :: "bytes option \<Rightarrow> string res" where
  "read_lock_metadata file =
     (case file of
        None \<Rightarrow> Inr ''unavailable''
      | Some bs \<Rightarrow> if utf8_ok False bs then Inr (py_take 800 bs)
                   else raise UnicodeDecodeError ''invalid utf-8'')"

section \<open>The polling loop\<close>

definition blocked :: "lock_mode \<Rightarrow> bytes \<Rightarrow> lock_attempt \<Rightarrow> bool" where
  "blocked mode metadata a \<longleftrightarrow>
     (case fst (lock_file mode metadata a) of Inl err \<Rightarrow> is_a (exn_kind err) BlockingIOError | Inr _ \<Rightarrow> False)"

text \<open>What the loop does after a blocked attempt when it does not try again.\<close>

definition lock_timeout :: "string \<Rightarrow> lock_attempt \<Rightarrow> unit res" where
  "lock_timeout path a =
     bnd (read_lock_metadata (la_read a)) (\<lambda>metadata.
       raise JournalLockError (''timed out acquiring journal lock: '' @ path @ ''; owner='' @ metadata))"

text \<open>
  \<open>while True\<close> of \<open>_journal_lock\<close>, from attempt \<open>n\<close>: \<open>clock n\<close> is \<open>time.monotonic()\<close> after the
  attempt, and \<open>time.sleep\<close> refuses a negative time. \<open>None\<close>: the loop never ends.
\<close>

partial_function (option) lock_loop ::
  "lock_mode \<Rightarrow> bytes \<Rightarrow> string \<Rightarrow> (nat \<Rightarrow> lock_attempt) \<Rightarrow> (nat \<Rightarrow> rat) \<Rightarrow> rat \<Rightarrow> rat \<Rightarrow> nat
   \<Rightarrow> unit res option" where
  "lock_loop mode metadata path attempts clock deadline poll_seconds n =
     (if \<not> blocked mode metadata (attempts n) then Some (fst (lock_file mode metadata (attempts n)))
      else if deadline \<le> clock n then Some (lock_timeout path (attempts n))
      else if poll_seconds < 0 then Some (raise ValueError ''sleep length must be non-negative'')
      else lock_loop mode metadata path attempts clock deadline poll_seconds (Suc n))"

text \<open>The attempt after which the loop stops.\<close>

definition stops ::
  "lock_mode \<Rightarrow> bytes \<Rightarrow> (nat \<Rightarrow> lock_attempt) \<Rightarrow> (nat \<Rightarrow> rat) \<Rightarrow> rat \<Rightarrow> rat \<Rightarrow> nat \<Rightarrow> bool" where
  "stops mode metadata attempts clock deadline poll_seconds k \<longleftrightarrow>
     \<not> blocked mode metadata (attempts k) \<or> deadline \<le> clock k \<or> poll_seconds < 0"

lemma lock_loop_Some:
  assumes "stops mode metadata attempts clock deadline poll_seconds (n + k)"
  shows "\<exists>r. lock_loop mode metadata path attempts clock deadline poll_seconds n = Some r"
  using assms
proof (induction k arbitrary: n)
  case 0
  then show ?case by (subst lock_loop.simps) (auto simp: stops_def)
next
  case (Suc k)
  then have "stops mode metadata attempts clock deadline poll_seconds (Suc n + k)" by simp
  then show ?case using Suc.IH by (subst lock_loop.simps) auto
qed

lemma lock_loop_stops:
  assumes "lock_loop mode metadata path attempts clock deadline poll_seconds n = Some r"
  shows "\<exists>k\<ge>n. stops mode metadata attempts clock deadline poll_seconds k"
  by (rule lock_loop.raw_induct [OF _ assms, where P = "\<lambda>mode metadata path attempts clock deadline poll n r.
        \<exists>k\<ge>n. stops mode metadata attempts clock deadline poll k"])
     (auto simp: stops_def split: if_splits; meson Suc_leD)

lemma lock_loop_first:
  assumes "stops mode metadata attempts clock deadline poll_seconds (n + k)"
    and "\<forall>i<k. \<not> stops mode metadata attempts clock deadline poll_seconds (n + i)"
  shows "lock_loop mode metadata path attempts clock deadline poll_seconds n
    = lock_loop mode metadata path attempts clock deadline poll_seconds (n + k)"
  using assms
proof (induction k arbitrary: n)
  case (Suc k)
  have "\<not> stops mode metadata attempts clock deadline poll_seconds n" using Suc.prems(2) by force
  moreover have "\<forall>i<k. \<not> stops mode metadata attempts clock deadline poll_seconds (Suc n + i)"
    using Suc.prems(2) by (metis Suc_less_eq add_Suc add_Suc_right)
  ultimately show ?case
    using Suc.IH [of "Suc n"] Suc.prems(1) by (subst lock_loop.simps) (auto simp: stops_def)
qed simp

lemma clock_advances:
  assumes "\<And>n. clock n + poll \<le> clock (Suc n)"
  shows "clock 0 + of_nat n * poll \<le> (clock n :: rat)"
proof (induction n)
  case (Suc n)
  then show ?case using assms [of n] by (simp add: algebra_simps)
qed simp

section \<open>Processes under the lock\<close>

text \<open>
  Where a process is: waiting in \<open>_journal_lock\<close>, holding the lock before its snapshot, ready to
  write the record it prepared, or done with the result it returned. A reader
  (\<open>verified_journal_snapshot(lock=True)\<close>) holds the lock in shared mode.
\<close>

datatype phase =
    Idle
  | WaitAppend append_env event
  | HoldAppend append_env event
  | ReadyAppend append_env event event bytes
  | Appended "event res"
  | WaitSnapshot
  | HoldSnapshot
  | Captured "VerifiedJournalSnapshot res"

record lock_system =
  sy_file :: "bytes option"
  sy_exclusive :: "nat set"
  sy_shared :: "nat set"
  sy_phase :: "nat \<Rightarrow> phase"

abbreviation move :: "nat \<Rightarrow> phase \<Rightarrow> lock_system \<Rightarrow> lock_system" where
  "move p ph s \<equiv> s\<lparr>sy_phase := (sy_phase s)(p := ph)\<rparr>"

definition release :: "nat \<Rightarrow> lock_system \<Rightarrow> lock_system" where
  "release p s = s\<lparr>sy_exclusive := sy_exclusive s - {p}, sy_shared := sy_shared s - {p}\<rparr>"

lemma release_fields [simp]:
  "sy_file (release p s) = sy_file s" "sy_phase (release p s) = sy_phase s"
  "sy_exclusive (release p s) = sy_exclusive s - {p}" "sy_shared (release p s) = sy_shared s - {p}"
  by (simp_all add: release_def)

text \<open>
  The steps of \<open>append_event\<close> and of a locked snapshot. \<open>flock\<close> grants an exclusive lock when nobody
  holds the file and a shared one when nobody holds it exclusively. A process may die anywhere; the
  system then releases its lock.
\<close>

inductive lock_step :: "pydantic \<Rightarrow> (pyv \<Rightarrow> pyv res) \<Rightarrow> lock_system \<Rightarrow> lock_system \<Rightarrow> bool"
  for pd apply_policy where
  call_append: "sy_phase s p = Idle \<Longrightarrow> wf_event e \<Longrightarrow> ensure_private_directory (ae_dir env) = Inr () \<Longrightarrow>
    lock_step pd apply_policy s (move p (WaitAppend env e) s)"
| append_dir: "sy_phase s p = Idle \<Longrightarrow> ensure_private_directory d = Inl err \<Longrightarrow>
    lock_step pd apply_policy s (move p (Appended (Inl err)) s)"
| lock_append: "sy_phase s p = WaitAppend env e \<Longrightarrow> sy_exclusive s = {} \<Longrightarrow> sy_shared s = {} \<Longrightarrow>
    lock_step pd apply_policy s (move p (HoldAppend env e) (s\<lparr>sy_exclusive := {p}\<rparr>))"
| fail_append: "sy_phase s p = WaitAppend env e \<Longrightarrow>
    lock_step pd apply_policy s (move p (Appended (Inl err)) s)"
| refuse: "sy_phase s p = HoldAppend env e \<Longrightarrow> next_record pd apply_policy env (sy_file s) e = Inl err \<Longrightarrow>
    lock_step pd apply_policy s (move p (Appended (Inl err)) (release p s))"
| prepare: "sy_phase s p = HoldAppend env e \<Longrightarrow> next_record pd apply_policy env (sy_file s) e = Inr (r, bs) \<Longrightarrow>
    lock_step pd apply_policy s (move p (ReadyAppend env e r bs) s)"
| append_write: "sy_phase s p = ReadyAppend env e r bs \<Longrightarrow> append_line (ae_write env) (sy_file s) bs = (res, file') \<Longrightarrow>
    lock_step pd apply_policy s
      (move p (Appended (case res of Inr _ \<Rightarrow> Inr r | Inl err \<Rightarrow>
          if is_a (exn_kind err) OSError then raise JournalAppendError ''failed to append event to journal''
          else Inl err))
        (release p (s\<lparr>sy_file := file'\<rparr>)))"
| call_snapshot: "sy_phase s p = Idle \<Longrightarrow> lock_step pd apply_policy s (move p WaitSnapshot s)"
| lock_snapshot: "sy_phase s p = WaitSnapshot \<Longrightarrow> sy_exclusive s = {} \<Longrightarrow>
    lock_step pd apply_policy s (move p HoldSnapshot (s\<lparr>sy_shared := insert p (sy_shared s)\<rparr>))"
| fail_snapshot: "sy_phase s p = WaitSnapshot \<Longrightarrow> lock_step pd apply_policy s (move p (Captured (Inl err)) s)"
| capture: "sy_phase s p = HoldSnapshot \<Longrightarrow>
    lock_step pd apply_policy s
      (move p (Captured (verified_journal_snapshot pd stat c h (sy_file s))) (release p s))"
| die: "lock_step pd apply_policy s (move p Idle (release p s))"

definition idle_system :: lock_system where
  "idle_system = \<lparr>sy_file = None, sy_exclusive = {}, sy_shared = {}, sy_phase = (\<lambda>p. Idle)\<rparr>"

inductive lock_reachable :: "pydantic \<Rightarrow> (pyv \<Rightarrow> pyv res) \<Rightarrow> lock_system \<Rightarrow> bool"
  for pd apply_policy where
  start: "lock_reachable pd apply_policy idle_system"
| step: "lock_reachable pd apply_policy s \<Longrightarrow> lock_step pd apply_policy s t \<Longrightarrow> lock_reachable pd apply_policy t"

inductive_cases lock_stepE: "lock_step pd apply_policy s t"

section \<open>Mutual exclusion\<close>

fun writing :: "phase \<Rightarrow> bool" where
  "writing (HoldAppend env e) = True"
| "writing (ReadyAppend env e r bs) = True"
| "writing _ = False"

text \<open>
  The invariant: who is between acquiring and releasing holds the lock in that mode, an exclusive
  holder is alone, and a prepared record is still the next record of the file.
\<close>

fun phase_ok :: "pydantic \<Rightarrow> (pyv \<Rightarrow> pyv res) \<Rightarrow> bytes option \<Rightarrow> phase \<Rightarrow> bool" where
  "phase_ok pd apply_policy file (WaitAppend env e) \<longleftrightarrow> wf_event e"
| "phase_ok pd apply_policy file (HoldAppend env e) \<longleftrightarrow> wf_event e"
| "phase_ok pd apply_policy file (ReadyAppend env e r bs) \<longleftrightarrow>
     wf_event e \<and> next_record pd apply_policy env file e = Inr (r, bs)"
| "phase_ok pd apply_policy file _ \<longleftrightarrow> True"

definition lock_inv :: "pydantic \<Rightarrow> (pyv \<Rightarrow> pyv res) \<Rightarrow> lock_system \<Rightarrow> bool" where
  "lock_inv pd apply_policy s \<longleftrightarrow>
     sy_exclusive s = {p. writing (sy_phase s p)} \<and> sy_shared s = {p. sy_phase s p = HoldSnapshot}
     \<and> (\<forall>p q. writing (sy_phase s p) \<and> (writing (sy_phase s q) \<or> sy_phase s q = HoldSnapshot) \<longrightarrow> q = p)
     \<and> (\<forall>p. phase_ok pd apply_policy (sy_file s) (sy_phase s p))"

lemma phase_ok_idle: "\<not> writing ph \<Longrightarrow> phase_ok pd apply_policy file ph \<Longrightarrow> phase_ok pd apply_policy file' ph"
  by (cases ph) auto

lemma lock_inv_move:
  assumes inv: "lock_inv pd apply_policy s" and ok: "phase_ok pd apply_policy file ph"
    and alone: "writing ph \<or> file \<noteq> sy_file s \<Longrightarrow>
      \<forall>q. q \<noteq> p \<longrightarrow> \<not> writing (sy_phase s q) \<and> sy_phase s q \<noteq> HoldSnapshot"
    and reader: "ph = HoldSnapshot \<Longrightarrow> \<forall>q. q \<noteq> p \<longrightarrow> \<not> writing (sy_phase s q)"
    and t: "sy_file t = file" "sy_phase t = (sy_phase s)(p := ph)"
      "sy_exclusive t = (if writing ph then insert p (sy_exclusive s) else sy_exclusive s - {p})"
      "sy_shared t = (if ph = HoldSnapshot then insert p (sy_shared s) else sy_shared s - {p})"
  shows "lock_inv pd apply_policy t"
proof -
  have "sy_exclusive t = {q. writing (sy_phase t q)}" "sy_shared t = {q. sy_phase t q = HoldSnapshot}"
    using inv by (auto simp: lock_inv_def t)
  moreover have "phase_ok pd apply_policy file (sy_phase s q)" if "q \<noteq> p" for q
  proof (cases "file = sy_file s")
    case True
    then show ?thesis using inv by (simp add: lock_inv_def)
  next
    case False
    then have "\<not> writing (sy_phase s q)" using alone that by blast
    then show ?thesis using phase_ok_idle inv unfolding lock_inv_def by blast
  qed
  then have "\<forall>q. phase_ok pd apply_policy (sy_file t) (sy_phase t q)" using ok by (simp add: t)
  moreover have "\<forall>r q. writing (sy_phase t r) \<and> (writing (sy_phase t q) \<or> sy_phase t q = HoldSnapshot) \<longrightarrow> q = r"
  proof (intro allI impI)
    fix r q
    assume that: "writing (sy_phase t r) \<and> (writing (sy_phase t q) \<or> sy_phase t q = HoldSnapshot)"
    show "q = r"
    proof (cases "q = p")
      case True
      then show ?thesis using that alone reader unfolding t by (cases "r = p") auto
    next
      case q: False
      show ?thesis
      proof (cases "r = p")
        case True
        then show ?thesis using that alone q unfolding t by auto
      next
        case False
        then have "writing (sy_phase s r)" "writing (sy_phase s q) \<or> sy_phase s q = HoldSnapshot"
          using that q unfolding t by auto
        then show ?thesis using inv unfolding lock_inv_def by blast
      qed
    qed
  qed
  ultimately show ?thesis unfolding lock_inv_def by blast
qed

lemma lock_inv_holder:
  "lock_inv pd apply_policy s \<Longrightarrow> writing (sy_phase s p) \<Longrightarrow>
   \<forall>q. q \<noteq> p \<longrightarrow> \<not> writing (sy_phase s q) \<and> sy_phase s q \<noteq> HoldSnapshot"
  by (auto simp: lock_inv_def)

lemma lock_inv_free:
  "lock_inv pd apply_policy s \<Longrightarrow> sy_exclusive s = {} \<Longrightarrow> \<not> writing (sy_phase s q)"
  "lock_inv pd apply_policy s \<Longrightarrow> sy_shared s = {} \<Longrightarrow> sy_phase s q \<noteq> HoldSnapshot"
  by (auto simp: lock_inv_def)

lemma lock_inv_phase: "lock_inv pd apply_policy s \<Longrightarrow> phase_ok pd apply_policy (sy_file s) (sy_phase s p)"
  by (simp add: lock_inv_def)

lemma lock_step_inv:
  assumes "lock_step pd apply_policy s t" and inv: "lock_inv pd apply_policy s"
  shows "lock_inv pd apply_policy t"
  using assms(1)
proof (cases rule: lock_step.cases)
  case (call_append p e env)
  then show ?thesis
    using inv by (intro lock_inv_move [OF inv, of "sy_file s" "WaitAppend env e" p]) (auto simp: lock_inv_def)
next
  case (append_dir p d err)
  then show ?thesis
    using inv by (intro lock_inv_move [OF inv, of "sy_file s" "Appended (Inl err)" p]) (auto simp: lock_inv_def)
next
  case (lock_append p env e)
  then show ?thesis
    using inv lock_inv_free [OF inv] lock_inv_phase [OF inv, of p]
    by (intro lock_inv_move [OF inv, of "sy_file s" "HoldAppend env e" p]) auto
next
  case (fail_append p env e err)
  then show ?thesis
    using inv by (intro lock_inv_move [OF inv, of "sy_file s" "Appended (Inl err)" p]) (auto simp: lock_inv_def)
next
  case (refuse p env e err)
  then show ?thesis
    by (intro lock_inv_move [OF inv, of "sy_file s" "Appended (Inl err)" p]) auto
next
  case (prepare p env e r bs)
  then have "p \<in> sy_exclusive s" "p \<notin> sy_shared s" using inv by (auto simp: lock_inv_def)
  then show ?thesis
    using prepare lock_inv_phase [OF inv, of p] lock_inv_holder [OF inv, of p]
    by (intro lock_inv_move [OF inv, of "sy_file s" "ReadyAppend env e r bs" p]) auto
next
  case (append_write p env e r bs res file')
  then show ?thesis
    using lock_inv_holder [OF inv, of p]
    by (intro lock_inv_move [OF inv, of file' "sy_phase t p" p]) auto
next
  case (call_snapshot p)
  then show ?thesis
    using inv by (intro lock_inv_move [OF inv, of "sy_file s" WaitSnapshot p]) (auto simp: lock_inv_def)
next
  case (lock_snapshot p)
  then show ?thesis
    using inv lock_inv_free [OF inv]
    by (intro lock_inv_move [OF inv, of "sy_file s" HoldSnapshot p]) auto
next
  case (fail_snapshot p err)
  then show ?thesis
    using inv by (intro lock_inv_move [OF inv, of "sy_file s" "Captured (Inl err)" p]) (auto simp: lock_inv_def)
next
  case (capture p stat c h)
  then show ?thesis
    by (intro lock_inv_move [OF inv, of "sy_file s"
        "Captured (verified_journal_snapshot pd stat c h (sy_file s))" p]) auto
next
  case (die p)
  then show ?thesis by (intro lock_inv_move [OF inv, of "sy_file s" Idle p]) auto
qed

lemma lock_reachable_inv: "lock_reachable pd apply_policy s \<Longrightarrow> lock_inv pd apply_policy s"
proof (induction rule: lock_reachable.induct)
  case start
  then show ?case by (simp add: lock_inv_def idle_system_def)
next
  case (step s t)
  then show ?case using lock_step_inv by blast
qed

section \<open>The journal of a locked system\<close>

text \<open>A write under the lock is an append to the file as it is now.\<close>

lemma append_write_is_append:
  assumes "next_record pd apply_policy env file e = Inr (r, bs)" "append_line (ae_write env) file bs = (res, file')"
  shows "append_event pd apply_policy env file e
    = (case res of Inr _ \<Rightarrow> Inr r | Inl err \<Rightarrow>
          if is_a (exn_kind err) OSError then raise JournalAppendError ''failed to append event to journal''
          else Inl err, file')"
  using assms by (cases res) (simp_all add: append_event_def)

lemma lock_step_file:
  assumes "lock_step pd apply_policy s t" "lock_inv pd apply_policy s"
  shows "sy_file t = sy_file s \<or> journal_step pd apply_policy (sy_file s) (sy_file t)"
  using assms(1)
proof (cases rule: lock_step.cases)
  case (append_write p env e r bs res file')
  then have "wf_event e" "next_record pd apply_policy env (sy_file s) e = Inr (r, bs)"
    using lock_inv_phase [OF assms(2), of p] by auto
  then show ?thesis
    using append_write append_write_is_append journal_step.append by (auto; blast)
qed auto

lemma lock_reachable_file:
  "lock_reachable pd apply_policy s \<Longrightarrow> journal_reachable pd apply_policy (sy_file s)"
proof (induction rule: lock_reachable.induct)
  case start
  then show ?case by (simp add: idle_system_def journal_reachable.absent)
next
  case (step s t)
  then show ?case
    using lock_step_file [OF step.hyps(2) lock_reachable_inv [OF step.hyps(1)]] journal_reachable.step by metis
qed

section \<open>Properties\<close>

lemma lock_loop_never:
  "(\<And>k. \<not> stops mode metadata attempts clock deadline poll_seconds k) \<Longrightarrow>
   lock_loop mode metadata path attempts clock deadline poll_seconds n = None"
  using lock_loop_stops by (metis option.exhaust)

text \<open>C6. Waiting for the lock ends: with a positive polling time and on a clock that advances by at
  least that time with every round, the loop returns, after fewer than remaining / poll + 2 attempts,
  where remaining is the time left until the deadline after the first attempt. It goes on only after a blocked
  attempt before the deadline, and returns the result of the first attempt that is not blocked, or
  the timeout error of the first one that ends past the deadline.\<close>
theorem lock_loop_ends:
  assumes "0 < poll_seconds" "\<And>n. clock n + poll_seconds \<le> clock (Suc n)"
  shows "\<exists>k r. lock_loop mode metadata path attempts clock deadline poll_seconds 0 = Some r
    \<and> of_nat (Suc k) * poll_seconds < max 0 (deadline - clock 0) + 2 * poll_seconds
    \<and> (\<forall>i<k. blocked mode metadata (attempts i) \<and> clock i < deadline)
    \<and> (if blocked mode metadata (attempts k)
       then deadline \<le> clock k \<and> r = lock_timeout path (attempts k)
       else r = fst (lock_file mode metadata (attempts k)))"
proof -
  let ?stops = "stops mode metadata attempts clock deadline poll_seconds"
  have ex_less_of_nat_rat: "\<exists>n :: nat. x < of_nat n" for x :: rat by (rule reals_Archimedean2)
  obtain n :: nat where n: "(deadline - clock 0) / poll_seconds < of_nat n" using ex_less_of_nat_rat by blast
  then have "deadline \<le> clock n"
    using clock_advances [of clock poll_seconds n] assms by (simp add: pos_divide_less_eq)
  then have ex: "?stops n" by (simp add: stops_def)
  define k where "k = (LEAST k. ?stops k)"
  have k: "?stops k" using ex unfolding k_def by (rule LeastI)
  have before: "\<forall>i<k. \<not> ?stops i" unfolding k_def by (blast dest: not_less_Least)
  have eq: "lock_loop mode metadata path attempts clock deadline poll_seconds 0
      = lock_loop mode metadata path attempts clock deadline poll_seconds k"
    using lock_loop_first [of mode metadata attempts clock deadline poll_seconds 0 k] k before by simp
  have "of_nat (Suc k) * poll_seconds < max 0 (deadline - clock 0) + 2 * poll_seconds"
  proof (cases k)
    case 0
    then show ?thesis using assms(1) by simp
  next
    case (Suc i)
    then have "clock i < deadline" using before by (auto simp: stops_def not_le)
    then show ?thesis
      using clock_advances [of clock poll_seconds i] assms(2) Suc by (simp add: algebra_simps max_def)
  qed
  moreover have "\<forall>i<k. blocked mode metadata (attempts i) \<and> clock i < deadline"
    using before by (auto simp: stops_def)
  ultimately show ?thesis
    using k assms(1) unfolding eq
    by (intro exI [of _ k], subst lock_loop.simps) (auto simp: stops_def)
qed

text \<open>C5. Appending under the lock refines the sequential journal: whatever processes append, read,
  time out and die in whatever interleaving, a step leaves the file alone or is one append of one
  process to the file as it is at that moment, with that append's result, at most one process is
  between its snapshot and its write, and the file is one that appends in sequence can reach.\<close>
theorem locked_system_refines:
  assumes "lock_reachable pd apply_policy s" "lock_step pd apply_policy s t"
  shows "(sy_file t = sy_file s
       \<or> (\<exists>p env e res. wf_event e \<and> append_event pd apply_policy env (sy_file s) e = (res, sy_file t)
            \<and> sy_phase t p = Appended res))
    \<and> (\<forall>p q. writing (sy_phase t p) \<and> writing (sy_phase t q) \<longrightarrow> p = q)
    \<and> journal_reachable pd apply_policy (sy_file t)"
proof (intro conjI)
  have inv: "lock_inv pd apply_policy s" by (rule lock_reachable_inv [OF assms(1)])
  show "sy_file t = sy_file s
       \<or> (\<exists>p env e res. wf_event e \<and> append_event pd apply_policy env (sy_file s) e = (res, sy_file t)
            \<and> sy_phase t p = Appended res)"
    using assms(2)
  proof (cases rule: lock_step.cases)
    case (append_write p env e r bs res file')
    then have n: "wf_event e" "next_record pd apply_policy env (sy_file s) e = Inr (r, bs)"
      using lock_inv_phase [OF inv, of p] by auto
    show ?thesis
      using append_write n(1) append_write_is_append [OF n(2) append_write(3)] by (intro disjI2) auto
  qed auto
  have t: "lock_reachable pd apply_policy t" by (rule lock_reachable.step [OF assms])
  show "\<forall>p q. writing (sy_phase t p) \<and> writing (sy_phase t q) \<longrightarrow> p = q"
    using lock_reachable_inv [OF t] unfolding lock_inv_def by blast
  show "journal_reachable pd apply_policy (sy_file t)" by (rule lock_reachable_file [OF t])
qed

section \<open>Witnesses\<close>

definition busy_attempt :: lock_attempt where
  "busy_attempt = \<lparr>la_content = Some ''x'', la_open = True, la_insecure = None, la_flock = FlockBlocked,
     la_written = None, la_read = Some ''x''\<rparr>"

theorem lock_loop_ends_witness:
  "\<exists>k r. lock_loop Exclusive ''m'' ''j.lock'' (\<lambda>n. busy_attempt) of_nat 2 1 0 = Some r \<and> k < (3 :: nat)
    \<and> r = lock_timeout ''j.lock'' busy_attempt"
proof -
  have b: "blocked Exclusive ''m'' busy_attempt" by code_simp
  obtain k r where "lock_loop Exclusive ''m'' ''j.lock'' (\<lambda>n. busy_attempt) of_nat 2 1 0 = Some r"
    "of_nat (Suc k) * (1::rat) < max 0 (2 - of_nat 0) + 2 * 1" "r = lock_timeout ''j.lock'' busy_attempt"
    using lock_loop_ends [of 1 of_nat Exclusive "''m''" "''j.lock''" "\<lambda>n. busy_attempt" 2] b by auto
  then show ?thesis by auto
qed

theorem locked_system_refines_witness:
  "\<exists>s t. lock_reachable strict_pydantic Inr s \<and> lock_step strict_pydantic Inr s t \<and> sy_file t \<noteq> sy_file s
    \<and> journal_reachable strict_pydantic Inr (sy_file t)"
proof -
  obtain r f where a: "append_event strict_pydantic Inr sample_env None sample_event = (Inr r, f)"
    using sample_append by blast
  obtain bs where n: "next_record strict_pydantic Inr sample_env None sample_event = Inr (r, bs)"
    using a by (auto simp: append_event_def split: sum.splits prod.splits if_splits)
  let ?s1 = "move 0 (WaitAppend sample_env sample_event) idle_system"
  let ?s2 = "move 0 (HoldAppend sample_env sample_event) (?s1\<lparr>sy_exclusive := {0}\<rparr>)"
  let ?s3 = "move 0 (ReadyAppend sample_env sample_event r bs) ?s2"
  have "lock_step strict_pydantic Inr idle_system ?s1"
    by (rule lock_step.call_append [OF _ wf_sample_event])
       (simp_all add: idle_system_def sample_env_def ensure_private_directory_def)
  moreover have "lock_step strict_pydantic Inr ?s1 ?s2"
    by (rule lock_step.lock_append) (simp_all add: idle_system_def)
  moreover have "lock_step strict_pydantic Inr ?s2 ?s3"
    by (rule lock_step.prepare) (use n in \<open>simp_all add: idle_system_def\<close>)
  ultimately have reach: "lock_reachable strict_pydantic Inr ?s3"
    using lock_reachable.start lock_reachable.step by metis
  let ?f = "Some (bs @ [newline])"
  have w: "append_line (ae_write sample_env) (sy_file ?s3) bs = (Inr (), ?f)"
    by (simp add: append_line_def sample_env_def idle_system_def file_bytes_def)
  obtain t where t: "lock_step strict_pydantic Inr ?s3 t" "sy_file t = ?f"
    using lock_step.append_write [OF _ w, of 0 sample_event r strict_pydantic Inr] by fastforce
  have "sy_file ?s3 = None" by (simp add: idle_system_def)
  with t have "sy_file t \<noteq> sy_file ?s3" by simp
  then show ?thesis using locked_system_refines [OF reach t(1)] reach t(1) by blast
qed

end
