(* ===== verification/PyPath.thy ===== *)
theory PyPath
  imports PyText "HOL-Library.Sublist"
begin

text \<open>
  \<open>pathlib\<close> on a POSIX system, as the service uses it: parsing a path from text, joining,
  \<open>is_relative_to\<close>, \<open>str\<close>, and \<open>resolve(strict=False)\<close> over the symbolic links of the file system.
  Python 3.12 is modelled, where a loop of links makes \<open>resolve\<close> raise \<open>RuntimeError\<close>. The locale
  \<open>resolver\<close> is what callers rely on: a resolved path is canonical and resolves to itself.
\<close>

section \<open>Pure paths\<close>

text \<open>The root is empty, \<open>/\<close> or (for exactly two leading slashes) \<open>//\<close>.\<close>

record path =
  pt_root :: string
  pt_parts :: "string list"

definition slash :: char where
  "slash = CHR ''/''"

fun path_root :: "string \<Rightarrow> string" where
  "path_root (a # b # c # s) =
     (if a \<noteq> slash then []
      else if b \<noteq> slash then [slash] else if c \<noteq> slash then [slash, slash] else [slash])"
| "path_root [a, b] =
     (if a \<noteq> slash then [] else if b \<noteq> slash then [slash] else [slash, slash])"
| "path_root [a] = (if a = slash then [slash] else [])"
| "path_root [] = []"

definition Path :: "string \<Rightarrow> path" where
  "Path s = \<lparr>pt_root = path_root s,
             pt_parts = filter (\<lambda>p. p \<noteq> [] \<and> p \<noteq> ''.'') (split_on slash s)\<rparr>"

definition is_absolute :: "path \<Rightarrow> bool" where
  "is_absolute p \<longleftrightarrow> pt_root p \<noteq> []"

text \<open>\<open>p / q\<close>: an absolute \<open>q\<close> replaces \<open>p\<close>.\<close>

definition path_join :: "path \<Rightarrow> path \<Rightarrow> path" where
  "path_join p q = (if is_absolute q then q else p\<lparr>pt_parts := pt_parts p @ pt_parts q\<rparr>)"

definition join_all :: "path \<Rightarrow> string list \<Rightarrow> path" where
  "join_all p ss = foldl (\<lambda>q s. path_join q (Path s)) p ss"

definition path_parts :: "path \<Rightarrow> string list" where
  "path_parts p = (if is_absolute p then pt_root p # pt_parts p else pt_parts p)"

definition is_relative_to :: "path \<Rightarrow> path \<Rightarrow> bool" where
  "is_relative_to p q \<longleftrightarrow> pt_root p = pt_root q \<and> prefix (pt_parts q) (pt_parts p)"

definition path_str :: "path \<Rightarrow> string" where
  "path_str p = (if pt_root p = [] \<and> pt_parts p = [] then ''.'' else pt_root p @ join_with [slash] (pt_parts p))"

text \<open>One name: what a single component of a path may be.\<close>

definition is_name :: "string \<Rightarrow> bool" where
  "is_name s \<longleftrightarrow> s \<noteq> [] \<and> s \<noteq> ''.'' \<and> s \<noteq> ''..'' \<and> slash \<notin> set s"

lemma split_on_none: "d \<notin> set s \<Longrightarrow> split_on d s = [s]"
  by (induction s) auto

lemma path_root_name: "slash \<notin> set s \<Longrightarrow> path_root s = []"
  by (cases s rule: path_root.cases) auto

lemma Path_name [simp]: "is_name s \<Longrightarrow> Path s = \<lparr>pt_root = [], pt_parts = [s]\<rparr>"
  by (simp add: Path_def is_name_def split_on_none path_root_name)

lemma path_join_rel [simp]:
  "path_join p \<lparr>pt_root = [], pt_parts = ps\<rparr> = p\<lparr>pt_parts := pt_parts p @ ps\<rparr>"
  by (simp add: path_join_def is_absolute_def)

lemma join_all_names:
  "list_all is_name ss \<Longrightarrow> join_all p ss = p\<lparr>pt_parts := pt_parts p @ ss\<rparr>"
proof (induction ss arbitrary: p)
  case (Cons s ss)
  then show ?case by (simp add: join_all_def)
qed (simp add: join_all_def)

lemma split_on_no_sep: "p \<in> set (split_on d s) \<Longrightarrow> d \<notin> set p"
proof (induction s arbitrary: p)
  case (Cons c cs)
  then show ?case by (cases "split_on d cs") (auto split: if_split_asm)
qed simp

lemma Path_parts_name:
  "p \<in> set (pt_parts (Path s)) \<Longrightarrow> p \<noteq> ''..'' \<Longrightarrow> is_name p"
  using split_on_no_sep by (auto simp: Path_def is_name_def)

lemma is_relative_to_refl [simp]: "is_relative_to p p"
  by (simp add: is_relative_to_def)

lemma is_relative_to_trans:
  "is_relative_to p q \<Longrightarrow> is_relative_to q r \<Longrightarrow> is_relative_to p r"
  by (auto simp: is_relative_to_def intro: prefix_order.trans)

text \<open>Two paths of which neither contains the other: a file below one is not below the other.\<close>

definition apart :: "path \<Rightarrow> path \<Rightarrow> bool" where
  "apart p q \<longleftrightarrow> \<not> is_relative_to p q \<and> \<not> is_relative_to q p"

lemma apart_sym: "apart p q \<Longrightarrow> apart q p"
  by (simp add: apart_def)

lemma apart_below:
  assumes "apart p q" "is_relative_to p' p" "is_relative_to q' q"
  shows "apart p' q'"
proof -
  obtain a b where ab: "pt_parts p' = pt_parts p @ a" "pt_parts q' = pt_parts q @ b"
    "pt_root p' = pt_root p" "pt_root q' = pt_root q"
    using assms(2,3) by (auto simp: is_relative_to_def prefix_def)
  have "prefix (pt_parts q) (pt_parts p) \<or> prefix (pt_parts p) (pt_parts q)"
    if "prefix (pt_parts q @ b) (pt_parts p @ a) \<or> prefix (pt_parts p @ a) (pt_parts q @ b)"
    using that append_prefixD prefix_same_cases prefixI by blast
  with assms(1) show ?thesis
    by (auto simp: apart_def is_relative_to_def ab)
qed

lemma apart_branch:
  "a \<noteq> b \<Longrightarrow> apart (p\<lparr>pt_parts := ps @ a # as\<rparr>) (p\<lparr>pt_parts := ps @ b # bs\<rparr>)"
  by (auto simp: apart_def is_relative_to_def)

section \<open>Resolving links\<close>

text \<open>
  The symbolic links of the file system by the parts of their absolute location, each with its
  target, and the current directory. Everything else, present or not, is no link.
\<close>

record filesystem =
  fs_links :: "(string list \<times> path) list"
  fs_cwd :: "string list"

text \<open>
  \<open>os.path.realpath\<close>: \<open>res\<close> is resolved already, \<open>rest\<close> is left to do, \<open>following\<close> are the links that
  are being followed. \<open>None\<close> is a loop.
\<close>

definition unfollowed :: "(string list \<times> path) list \<Rightarrow> string list list \<Rightarrow> nat" where
  "unfollowed links following = card (set (keys links) - set following)"

lemma unfollowed_less:
  assumes "dget links new = Some target" "new \<notin> set following"
  shows "unfollowed links (new # following) < unfollowed links following"
proof -
  have "new \<in> set (keys links) - set following"
    using assms dget_None_iff [of links new] by auto
  then have "set (keys links) - set (new # following) \<subset> set (keys links) - set following"
    by auto
  then show ?thesis
    unfolding unfollowed_def by (intro psubset_card_mono) simp_all
qed

function realpath :: "(string list \<times> path) list \<Rightarrow> string list list \<Rightarrow> string list \<Rightarrow> string list
    \<Rightarrow> string list option" where
  "realpath links following res [] = Some res"
| "realpath links following res (name # rest) =
     (if name = ''..'' then realpath links following (butlast res) rest
      else
        (case dget links (res @ [name]) of
           None \<Rightarrow> realpath links following (res @ [name]) rest
         | Some target \<Rightarrow>
             if res @ [name] \<in> set following then None
             else
               (case realpath links ((res @ [name]) # following)
                       (if is_absolute target then [] else res) (pt_parts target) of
                  None \<Rightarrow> None
                | Some r \<Rightarrow> realpath links following r rest)))"
  by pat_completeness auto
termination
  by (relation "measures [\<lambda>(links, following, res, rest). unfollowed links following,
                          \<lambda>(links, following, res, rest). length rest]")
    (auto simp: unfollowed_less)

definition resolve_path :: "filesystem \<Rightarrow> path \<Rightarrow> path res" where
  "resolve_path fs p =
     (case realpath (fs_links fs) [] [] (if is_absolute p then pt_parts p else fs_cwd fs @ pt_parts p) of
        None \<Rightarrow> raise RuntimeError (''Symlink loop from '' @ path_str p)
      | Some r \<Rightarrow> Inr \<lparr>pt_root = (if is_absolute p then pt_root p else [slash]), pt_parts = r\<rparr>)"

text \<open>A canonical list of parts: no \<open>..\<close>, and no link on the way.\<close>

definition link_free :: "(string list \<times> path) list \<Rightarrow> string list \<Rightarrow> bool" where
  "link_free links ps \<longleftrightarrow>
     ''..'' \<notin> set ps \<and> (\<forall>n < length ps. dget links (take (Suc n) ps) = None)"

lemma link_free_Nil [simp]: "link_free links []"
  by (simp add: link_free_def)

lemma link_free_snoc:
  "link_free links (ps @ [p]) \<longleftrightarrow> link_free links ps \<and> p \<noteq> ''..'' \<and> dget links (ps @ [p]) = None"
  by (auto simp: link_free_def less_Suc_eq)

lemma link_free_butlast: "link_free links ps \<Longrightarrow> link_free links (butlast ps)"
  by (cases ps rule: rev_cases) (simp_all add: link_free_snoc)

lemma realpath_link_free:
  "realpath links following res rest = Some r \<Longrightarrow> link_free links res \<Longrightarrow> link_free links r"
proof (induction links following res rest arbitrary: r rule: realpath.induct)
  case (2 links following res name rest)
  show ?case
  proof (cases "name = ''..''")
    case True
    with 2 show ?thesis by (simp add: link_free_butlast)
  next
    case name: False
    show ?thesis
    proof (cases "dget links (res @ [name])")
      case None
      with name 2 show ?thesis by (simp add: link_free_snoc)
    next
      case (Some target)
      with name "2.prems" obtain m where m: "res @ [name] \<notin> set following"
        "realpath links ((res @ [name]) # following) (if is_absolute target then [] else res)
           (pt_parts target) = Some m" "realpath links following m rest = Some r"
        by (auto split: if_split_asm option.splits)
      have "link_free links m"
        using "2.IH"(3) [OF name Some m(1) m(2)] "2.prems"(2) by simp
      then show ?thesis using "2.IH"(4) [OF name Some m(1) m(2) m(3)] by simp
    qed
  qed
qed simp

lemma realpath_append_free:
  "link_free links (res @ rest) \<Longrightarrow> realpath links following res rest = Some (res @ rest)"
proof (induction rest arbitrary: res)
  case (Cons p rest)
  have "p \<noteq> ''..''" "dget links (res @ [p]) = None"
    using Cons.prems by (auto simp: link_free_def dest!: spec [of _ "length res"])
  then show ?case using Cons by simp
qed simp

lemma link_free_no_links [simp]: "link_free [] ps \<longleftrightarrow> ''..'' \<notin> set ps"
  by (simp add: link_free_def)

text \<open>Without links and \<open>..\<close> an absolute path resolves to itself.\<close>

lemma resolve_no_links:
  "fs_links fs = [] \<Longrightarrow> is_absolute p \<Longrightarrow> ''..'' \<notin> set (pt_parts p) \<Longrightarrow> resolve_path fs p = Inr p"
  by (simp add: resolve_path_def realpath_append_free)

section \<open>What callers rely on\<close>

locale resolver =
  fixes resolve :: "path \<Rightarrow> path res"
  assumes resolved_absolute: "resolve p = Inr q \<Longrightarrow> is_absolute q"
    and resolved_canonical: "resolve p = Inr q \<Longrightarrow> ''..'' \<notin> set (pt_parts q)"
    and resolved_again: "resolve p = Inr q \<Longrightarrow> resolve q = Inr q"

interpretation links: resolver "resolve_path fs"
proof
  fix p q
  assume r: "resolve_path fs p = Inr q"
  show "is_absolute q"
    using r by (auto simp: resolve_path_def is_absolute_def split: option.splits if_splits)
  have q: "link_free (fs_links fs) (pt_parts q)"
    using r realpath_link_free by (fastforce simp: resolve_path_def split: option.splits)
  then show "''..'' \<notin> set (pt_parts q)" by (simp add: link_free_def)
  show "resolve_path fs q = Inr q"
    using q \<open>is_absolute q\<close> by (simp add: resolve_path_def realpath_append_free)
qed

end
