(* ===== verification/ServiceAuth.thy ===== *)
theory ServiceAuth
  imports PyValue PyRegex Events
begin

text \<open>
  \<open>service/auth.py\<close>: roles, capabilities and principals of the service, and the authenticators
  that turn a bearer token into a principal. PyJWT is a parameter: the module, when it can be
  imported, with its \<open>decode\<close> and its JWKS client. Sets of roles and capabilities are HOL sets.
\<close>

section \<open>Splitting at white space\<close>

text \<open>\<open>str.isspace\<close> on code points, \<open>str.split()\<close> and \<open>str.strip()\<close>.\<close>

definition space_cp :: "nat \<Rightarrow> bool" where
  "space_cp n \<longleftrightarrow> (9 \<le> n \<and> n \<le> 13) \<or> (28 \<le> n \<and> n \<le> 32) \<or> n = 133 \<or> n = 160 \<or> n = 5760
     \<or> (8192 \<le> n \<and> n \<le> 8202) \<or> n = 8232 \<or> n = 8233 \<or> n = 8239 \<or> n = 8287 \<or> n = 12288"

fun cp_words :: "nat list \<Rightarrow> nat list \<Rightarrow> nat list list" where
  "cp_words w [] = (if w = [] then [] else [w])"
| "cp_words w (c # cs) =
     (if space_cp c then (if w = [] then cp_words [] cs else w # cp_words [] cs)
      else cp_words (w @ [c]) cs)"

definition py_split :: "string \<Rightarrow> string list" where
  "py_split s = map encode_cps (cp_words [] (decode_cps s))"

definition is_blank :: "string \<Rightarrow> bool" where
  "is_blank s \<longleftrightarrow> list_all space_cp (decode_cps s)"

definition strip_text :: "string \<Rightarrow> string" where
  "strip_text s =
     encode_cps (rev (dropWhile space_cp (rev (dropWhile space_cp (decode_cps s)))))"

section \<open>Roles and capabilities\<close>

datatype ServiceRole = SR_READ | SR_WRITE | SR_EXPORT | SR_ADMIN

fun ServiceRole_value :: "ServiceRole \<Rightarrow> string" where
  "ServiceRole_value SR_READ = ''read''"
| "ServiceRole_value SR_WRITE = ''write''"
| "ServiceRole_value SR_EXPORT = ''export''"
| "ServiceRole_value SR_ADMIN = ''admin''"

definition all_ServiceRole :: "ServiceRole list" where
  "all_ServiceRole = [SR_READ, SR_WRITE, SR_EXPORT, SR_ADMIN]"

datatype ServiceCapability =
    EVENTS_READ | EVENTS_WRITE | JOURNAL_VERIFY | PROJECTIONS_REBUILD | DETECTIONS_RUN
  | CASES_READ | CASES_EXPORT | ADMIN_CONFIGURE | TENANTS_MANAGE

fun ServiceCapability_value :: "ServiceCapability \<Rightarrow> string" where
  "ServiceCapability_value EVENTS_READ = ''events:read''"
| "ServiceCapability_value EVENTS_WRITE = ''events:write''"
| "ServiceCapability_value JOURNAL_VERIFY = ''journal:verify''"
| "ServiceCapability_value PROJECTIONS_REBUILD = ''projections:rebuild''"
| "ServiceCapability_value DETECTIONS_RUN = ''detections:run''"
| "ServiceCapability_value CASES_READ = ''cases:read''"
| "ServiceCapability_value CASES_EXPORT = ''cases:export''"
| "ServiceCapability_value ADMIN_CONFIGURE = ''admin:configure''"
| "ServiceCapability_value TENANTS_MANAGE = ''tenants:manage''"

definition all_ServiceCapability :: "ServiceCapability list" where
  "all_ServiceCapability =
     [EVENTS_READ, EVENTS_WRITE, JOURNAL_VERIFY, PROJECTIONS_REBUILD, DETECTIONS_RUN, CASES_READ,
      CASES_EXPORT, ADMIN_CONFIGURE, TENANTS_MANAGE]"

lemma all_ServiceCapability_set: "set all_ServiceCapability = UNIV"
proof -
  have "c \<in> set all_ServiceCapability" for c
    by (cases c) (simp_all add: all_ServiceCapability_def)
  then show ?thesis by auto
qed

text \<open>Both enumerations are finite: sets over them can be compared and their complements taken.\<close>

instantiation ServiceRole :: enum
begin

definition enum_ServiceRole :: "ServiceRole list" where
  "enum_ServiceRole = all_ServiceRole"

definition enum_all_ServiceRole :: "(ServiceRole \<Rightarrow> bool) \<Rightarrow> bool" where
  "enum_all_ServiceRole P \<longleftrightarrow> list_all P all_ServiceRole"

definition enum_ex_ServiceRole :: "(ServiceRole \<Rightarrow> bool) \<Rightarrow> bool" where
  "enum_ex_ServiceRole P \<longleftrightarrow> list_ex P all_ServiceRole"

instance
proof
  have all: "r \<in> set all_ServiceRole" for r
    by (cases r) (simp_all add: all_ServiceRole_def)
  then show "(UNIV :: ServiceRole set) = set enum_class.enum"
    by (auto simp: enum_ServiceRole_def)
  show "distinct (enum_class.enum :: ServiceRole list)"
    by (simp add: enum_ServiceRole_def all_ServiceRole_def)
  show "enum_class.enum_all P \<longleftrightarrow> Ball UNIV P" for P :: "ServiceRole \<Rightarrow> bool"
    using all by (auto simp: enum_all_ServiceRole_def list_all_iff)
  show "enum_class.enum_ex P \<longleftrightarrow> Bex UNIV P" for P :: "ServiceRole \<Rightarrow> bool"
    using all by (auto simp: enum_ex_ServiceRole_def list_ex_iff)
qed

end

fun ROLE_CAPABILITIES :: "ServiceRole \<Rightarrow> ServiceCapability set" where
  "ROLE_CAPABILITIES SR_READ = {EVENTS_READ, JOURNAL_VERIFY, CASES_READ}"
| "ROLE_CAPABILITIES SR_WRITE = {EVENTS_WRITE, JOURNAL_VERIFY, PROJECTIONS_REBUILD}"
| "ROLE_CAPABILITIES SR_EXPORT = {CASES_EXPORT}"
| "ROLE_CAPABILITIES SR_ADMIN = set all_ServiceCapability"

definition roles_grant :: "ServiceRole set \<Rightarrow> ServiceRole \<Rightarrow> bool" where
  "roles_grant roles required \<longleftrightarrow> ROLE_CAPABILITIES required \<subseteq> (\<Union>role\<in>roles. ROLE_CAPABILITIES role)"

record ServicePrincipal =
  sp_principal_id :: string
  sp_roles :: "ServiceRole set"
  sp_capabilities :: "ServiceCapability set"

definition has_role :: "ServicePrincipal \<Rightarrow> ServiceRole \<Rightarrow> bool" where
  "has_role p required = roles_grant (sp_roles p) required"

definition effective_capabilities :: "ServicePrincipal \<Rightarrow> ServiceCapability set" where
  "effective_capabilities p = sp_capabilities p \<union> (\<Union>role\<in>sp_roles p. ROLE_CAPABILITIES role)"

definition has_capability :: "ServicePrincipal \<Rightarrow> ServiceCapability \<Rightarrow> bool" where
  "has_capability p required \<longleftrightarrow> required \<in> effective_capabilities p"

definition require_role :: "ServicePrincipal \<Rightarrow> ServiceRole \<Rightarrow> unit res" where
  "require_role p role =
     require (has_role p role) ServiceAuthError (''service role required: '' @ ServiceRole_value role)"

definition require_capability :: "ServicePrincipal \<Rightarrow> ServiceCapability \<Rightarrow> unit res" where
  "require_capability p capability =
     require (has_capability p capability) ServiceAuthError
       (''service capability required: '' @ ServiceCapability_value capability)"

section \<open>Claims\<close>

text \<open>The words of a claim: a text of words or a list of texts; \<open>err\<close> is what the caller raises.\<close>

definition raw_words :: "string \<Rightarrow> pyv \<Rightarrow> string list res" where
  "raw_words err value =
     (case value of
        VNone \<Rightarrow> Inr []
      | VStr s \<Rightarrow> Inr (filter (\<lambda>part. part \<noteq> []) (py_split s))
      | VList xs \<Rightarrow>
          if \<not> list_all is_str xs then raise ServiceAuthError err
          else Inr (concat (map (\<lambda>x. case x of VStr s \<Rightarrow> [s] | _ \<Rightarrow> []) xs))
      | _ \<Rightarrow> raise ServiceAuthError err)"

definition enum_member :: "string \<Rightarrow> ('a \<Rightarrow> string) \<Rightarrow> 'a list \<Rightarrow> string \<Rightarrow> 'a res" where
  "enum_member err val members raw =
     (case enum_of val members raw of None \<Rightarrow> raise ServiceAuthError err | Some m \<Rightarrow> Inr m)"

definition roles_from_claim :: "pyv \<Rightarrow> bool \<Rightarrow> ServiceRole list res" where
  "roles_from_claim value required =
     bnd (raw_words ''invalid service JWT roles'' value) (\<lambda>raw_roles.
     bnd (traverse (enum_member ''invalid service JWT roles'' ServiceRole_value all_ServiceRole)
            raw_roles) (\<lambda>roles.
     if required \<and> roles = [] then raise ServiceAuthError ''invalid service JWT roles''
     else Inr roles))"

definition capabilities_from_claim :: "pyv \<Rightarrow> ServiceCapability list res" where
  "capabilities_from_claim value =
     bnd (raw_words ''invalid service JWT capabilities'' value) (\<lambda>raw_capabilities.
       traverse (enum_member ''invalid service JWT capabilities'' ServiceCapability_value
                   all_ServiceCapability) raw_capabilities)"

definition principal_from_claims :: "pyv \<Rightarrow> string \<Rightarrow> string \<Rightarrow> string \<Rightarrow> ServicePrincipal res" where
  "principal_from_claims claims principal_claim roles_claim capabilities_claim =
     (case claims of
        VDict d \<Rightarrow>
          (case get_or_none d principal_claim of
             VStr principal_id \<Rightarrow>
               if principal_id = [] then raise ServiceAuthError ''invalid service JWT principal''
               else
                 bnd (capabilities_from_claim (get_or_none d capabilities_claim)) (\<lambda>capabilities.
                 bnd (roles_from_claim (get_or_none d roles_claim) (capabilities = [])) (\<lambda>roles.
                   Inr \<lparr>sp_principal_id = principal_id, sp_roles = set roles,
                        sp_capabilities = set capabilities\<rparr>))
           | _ \<Rightarrow> raise ServiceAuthError ''invalid service JWT principal'')
      | _ \<Rightarrow> raise ServiceAuthError ''invalid service JWT claims'')"

section \<open>Authenticators\<close>

definition StaticToken_authenticate ::
  "(string \<times> ServicePrincipal) list \<Rightarrow> string option \<Rightarrow> ServicePrincipal res" where
  "StaticToken_authenticate tokens token =
     (case token of
        None \<Rightarrow> raise ServiceAuthError ''invalid service token''
      | Some t \<Rightarrow>
          (case dget tokens t of
             None \<Rightarrow> raise ServiceAuthError ''invalid service token''
           | Some p \<Rightarrow> Inr p))"

text \<open>
  PyJWT: \<open>decode token key algorithms issuer audience verify_aud\<close>, and \<open>PyJWKClient(url)\<close>, whose
  \<open>get_signing_key_from_jwt(token).key\<close> is the key.
\<close>

type_synonym 'k jwk_client = "string \<Rightarrow> 'k res"

record 'k jwt_module =
  jm_decode :: "string \<Rightarrow> 'k \<Rightarrow> string list \<Rightarrow> string option \<Rightarrow> string option \<Rightarrow> bool option \<Rightarrow> pyv res"
  jm_PyJWKClient :: "string \<Rightarrow> 'k jwk_client res"

definition import_jwt :: "'k jwt_module option \<Rightarrow> 'k jwt_module res" where
  "import_jwt installed =
     (case installed of
        None \<Rightarrow> raise JwtLibraryUnavailable
                 ''install actionlineage[service] to use JWT service authentication''
      | Some m \<Rightarrow> Inr m)"

text \<open>\<open>except Exception\<close>: whatever is raised becomes the given error.\<close>

definition any_error :: "string \<Rightarrow> 'a res \<Rightarrow> 'a res" where
  "any_error msg r = (case r of Inl e \<Rightarrow> raise ServiceAuthError msg | Inr x \<Rightarrow> Inr x)"

record 'k JwtAuthenticator =
  ja_verification_key :: 'k
  ja_algorithms :: "string list"
  ja_issuer :: "string option"
  ja_audience :: "string option"
  ja_principal_claim :: string
  ja_roles_claim :: string
  ja_capabilities_claim :: string

definition Jwt_authenticate ::
  "'k jwt_module option \<Rightarrow> 'k JwtAuthenticator \<Rightarrow> string option \<Rightarrow> ServicePrincipal res" where
  "Jwt_authenticate installed a token =
     (case token of
        None \<Rightarrow> raise ServiceAuthError ''invalid service JWT''
      | Some t \<Rightarrow>
          bnd (import_jwt installed) (\<lambda>m.
          bnd (any_error ''invalid service JWT''
                 (jm_decode m t (ja_verification_key a) (ja_algorithms a) (ja_issuer a) (ja_audience a)
                    (Some (ja_audience a \<noteq> None)))) (\<lambda>claims.
            principal_from_claims claims (ja_principal_claim a) (ja_roles_claim a)
              (ja_capabilities_claim a))))"

record 'k OidcJwtAuthenticator =
  oa_jwks_url :: string
  oa_algorithms :: "string list"
  oa_issuer :: string
  oa_audience :: string
  oa_principal_claim :: string
  oa_roles_claim :: string
  oa_capabilities_claim :: string
  oa_jwk_client_factory :: "(string \<Rightarrow> 'k jwk_client res) option"

definition oidc_jwk_client :: "'k OidcJwtAuthenticator \<Rightarrow> 'k jwt_module \<Rightarrow> 'k jwk_client res" where
  "oidc_jwk_client a m =
     (case oa_jwk_client_factory a of
        Some factory \<Rightarrow> factory (oa_jwks_url a)
      | None \<Rightarrow> jm_PyJWKClient m (oa_jwks_url a))"

definition Oidc_authenticate ::
  "'k jwt_module option \<Rightarrow> 'k OidcJwtAuthenticator \<Rightarrow> string option \<Rightarrow> ServicePrincipal res" where
  "Oidc_authenticate installed a token =
     (case token of
        None \<Rightarrow> raise ServiceAuthError ''invalid service OIDC JWT''
      | Some t \<Rightarrow>
          bnd (import_jwt installed) (\<lambda>m.
          bnd (any_error ''invalid service OIDC JWT''
                 (bnd (oidc_jwk_client a m) (\<lambda>client.
                  bnd (client t) (\<lambda>key.
                    jm_decode m t key (oa_algorithms a) (Some (oa_issuer a)) (Some (oa_audience a)) None))))
            (\<lambda>claims.
            principal_from_claims claims (oa_principal_claim a) (oa_roles_claim a)
              (oa_capabilities_claim a))))"

section \<open>Lemmas\<close>

lemma roles_grant_iff: "roles_grant roles required \<longleftrightarrow> required \<in> roles \<or> SR_ADMIN \<in> roles"
proof
  assume g: "roles_grant roles required"
  show "required \<in> roles \<or> SR_ADMIN \<in> roles"
  proof (rule ccontr)
    assume n: "\<not> (required \<in> roles \<or> SR_ADMIN \<in> roles)"
    have "\<exists>c \<in> ROLE_CAPABILITIES required. \<forall>r. c \<in> ROLE_CAPABILITIES r \<longrightarrow> r = required \<or> r = SR_ADMIN"
    proof (cases required)
      case SR_READ
      have "EVENTS_READ \<in> ROLE_CAPABILITIES r \<longrightarrow> r = SR_READ \<or> r = SR_ADMIN" for r by (cases r) auto
      then show ?thesis using SR_READ by auto
    next
      case SR_WRITE
      have "EVENTS_WRITE \<in> ROLE_CAPABILITIES r \<longrightarrow> r = SR_WRITE \<or> r = SR_ADMIN" for r by (cases r) auto
      then show ?thesis using SR_WRITE by auto
    next
      case SR_EXPORT
      have "CASES_EXPORT \<in> ROLE_CAPABILITIES r \<longrightarrow> r = SR_EXPORT \<or> r = SR_ADMIN" for r by (cases r) auto
      then show ?thesis using SR_EXPORT by auto
    next
      case SR_ADMIN
      have "ADMIN_CONFIGURE \<in> ROLE_CAPABILITIES r \<longrightarrow> r = SR_ADMIN" for r by (cases r) auto
      then show ?thesis using SR_ADMIN by (auto simp: all_ServiceCapability_set)
    qed
    with g n show False by (auto simp: roles_grant_def)
  qed
next
  assume "required \<in> roles \<or> SR_ADMIN \<in> roles"
  then show "roles_grant roles required"
    by (auto simp: roles_grant_def all_ServiceCapability_set)
qed

text \<open>The words of a claim as an option: what \<open>raw_words\<close> returns when it returns.\<close>

definition claim_words :: "pyv \<Rightarrow> string list option" where
  "claim_words v =
     (case v of
        VNone \<Rightarrow> Some []
      | VStr s \<Rightarrow> Some (filter (\<lambda>w. w \<noteq> []) (py_split s))
      | VList xs \<Rightarrow> those (map (\<lambda>x. case x of VStr s \<Rightarrow> Some s | _ \<Rightarrow> None) xs)
      | _ \<Rightarrow> None)"

lemma those_strings:
  "those (map (\<lambda>x. case x of VStr s \<Rightarrow> Some s | _ \<Rightarrow> None) xs) =
     (if list_all is_str xs then Some (concat (map (\<lambda>x. case x of VStr s \<Rightarrow> [s] | _ \<Rightarrow> []) xs)) else None)"
proof (induction xs)
  case (Cons x xs)
  then show ?case by (cases x) auto
qed simp

lemma raw_words_claim: "raw_words err v = (case claim_words v of None \<Rightarrow> raise ServiceAuthError err | Some ws \<Rightarrow> Inr ws)"
  by (cases v) (simp_all add: raw_words_def claim_words_def those_strings)

lemma enum_of_ServiceRole [simp]:
  "enum_of ServiceRole_value all_ServiceRole s = Some r \<longleftrightarrow> s = ServiceRole_value r"
  by (cases r) (auto simp: enum_of_def all_ServiceRole_def split: if_splits)

lemma enum_of_ServiceCapability [simp]:
  "enum_of ServiceCapability_value all_ServiceCapability s = Some c \<longleftrightarrow> s = ServiceCapability_value c"
  by (cases c) (auto simp: enum_of_def all_ServiceCapability_def split: if_splits)

lemma enum_member_Inr: "enum_member err val members s = Inr m \<longleftrightarrow> enum_of val members s = Some m"
  by (auto simp: enum_member_def split: option.splits)

lemma traverse_enum:
  assumes "\<And>s m. enum_of val members s = Some m \<longleftrightarrow> s = val m"
  shows "traverse (enum_member err val members) ws = Inr ms \<longleftrightarrow> ws = map val ms"
  by (auto simp: traverse_Inr_iff enum_member_Inr assms list_all2_conv_all_nth intro!: nth_equalityI)

lemmas traverse_roles = traverse_enum [of ServiceRole_value all_ServiceRole, OF enum_of_ServiceRole]
lemmas traverse_capabilities =
  traverse_enum [of ServiceCapability_value all_ServiceCapability, OF enum_of_ServiceCapability]

lemma capabilities_from_claim_Inr:
  "capabilities_from_claim v = Inr cs \<longleftrightarrow> claim_words v = Some (map ServiceCapability_value cs)"
  by (auto simp: capabilities_from_claim_def raw_words_claim bnd_Inr_iff traverse_capabilities split: option.splits)

lemma roles_from_claim_Inr:
  "roles_from_claim v req = Inr rs \<longleftrightarrow>
     claim_words v = Some (map ServiceRole_value rs) \<and> (req \<longrightarrow> rs \<noteq> [])"
  by (auto simp: roles_from_claim_def raw_words_claim bnd_Inr_iff traverse_roles split: option.splits)

text \<open>The errors of the claim parsers are authentication errors.\<close>

definition auth_errors :: "'a res \<Rightarrow> bool" where
  "auth_errors r \<longleftrightarrow> (case r of Inl e \<Rightarrow> is_a (exn_kind e) ServiceAuthError | Inr x \<Rightarrow> True)"

lemma auth_errors_simps [simp]:
  "auth_errors (Inr x)" "auth_errors (Inl e) \<longleftrightarrow> is_a (exn_kind e) ServiceAuthError"
  by (simp_all add: auth_errors_def)

lemma auth_errors_bnd [intro]:
  "auth_errors r \<Longrightarrow> (\<And>x. r = Inr x \<Longrightarrow> auth_errors (f x)) \<Longrightarrow> auth_errors (bnd r f)"
  by (cases r) auto

lemma auth_errors_traverse: "(\<And>x. auth_errors (f x)) \<Longrightarrow> auth_errors (traverse f xs)"
  by (induction xs) (auto intro!: auth_errors_bnd)

lemma auth_errors_parts:
  "auth_errors (raw_words err v)" "auth_errors (enum_member err val members s)"
  "auth_errors (any_error err r)" "auth_errors (import_jwt installed)"
  by (auto simp: raw_words_def enum_member_def any_error_def import_jwt_def
      split: pyv.splits option.splits sum.splits)

lemma auth_errors_principal: "auth_errors (principal_from_claims claims p r c)"
  by (auto simp: principal_from_claims_def capabilities_from_claim_def roles_from_claim_def
      intro!: auth_errors_bnd auth_errors_parts auth_errors_traverse split: pyv.splits)

end
