(* ===== verification/Tenancy.thy ===== *)
theory Tenancy
  imports PyPath ServiceAuth
begin

text \<open>
  \<open>service/tenancy.py\<close>: tenants, role bindings, the storage scope of a tenant below configured roots
  and the confinement of requested paths. \<open>resolve\<close> is \<open>Path.resolve(strict=False)\<close> over the file
  system at that moment (\<open>resolve_path fs\<close>).
\<close>

section \<open>Tenants and bindings\<close>

definition TENANT_STORAGE_LAYOUT_VERSION :: string where
  "TENANT_STORAGE_LAYOUT_VERSION = ''actionlineage.dev/tenant-storage-layout-v1''"

definition TENANT_ID_MAX_LENGTH :: nat where
  "TENANT_ID_MAX_LENGTH = 128"

definition TENANT_ID_ALLOWED_CHARS :: "char set" where
  "TENANT_ID_ALLOWED_CHARS =
     set ''ABCDEFGHIJKLMNOPQRSTUVWXYZabcdefghijklmnopqrstuvwxyz0123456789_-''"

record ServiceTenant =
  st_tenant_id :: string
  st_display_name :: string
  st_tags :: "string list"

definition ServiceTenant_as_dict :: "ServiceTenant \<Rightarrow> pyv" where
  "ServiceTenant_as_dict t =
     obj [(''tenant_id'', VStr (st_tenant_id t)), (''display_name'', VStr (st_display_name t)),
          (''tags'', VList (map VStr (st_tags t)))]"

record TenantRoleBinding =
  tb_tenant_id :: string
  tb_principal_id :: string
  tb_roles :: "ServiceRole set"

definition binding_has_role :: "TenantRoleBinding \<Rightarrow> ServiceRole \<Rightarrow> bool" where
  "binding_has_role b required = roles_grant (tb_roles b) required"

text \<open>\<open>sorted(role.value for role in roles)\<close>\<close>

definition sorted_role_values :: "ServiceRole set \<Rightarrow> string list" where
  "sorted_role_values roles = sort (map ServiceRole_value (filter (\<lambda>r. r \<in> roles) all_ServiceRole))"

definition TenantRoleBinding_as_dict :: "TenantRoleBinding \<Rightarrow> pyv" where
  "TenantRoleBinding_as_dict b =
     obj [(''tenant_id'', VStr (tb_tenant_id b)), (''principal_id'', VStr (tb_principal_id b)),
          (''roles'', VList (map VStr (sorted_role_values (tb_roles b))))]"

record TenantAccessDecision =
  td_tenant_id :: string
  td_principal_id :: string
  td_required_role :: ServiceRole
  td_allowed :: bool
  td_reason :: string

definition TenantAccessDecision_as_dict :: "TenantAccessDecision \<Rightarrow> pyv" where
  "TenantAccessDecision_as_dict d =
     obj [(''tenant_id'', VStr (td_tenant_id d)), (''principal_id'', VStr (td_principal_id d)),
          (''required_role'', VStr (ServiceRole_value (td_required_role d))),
          (''allowed'', VBool (td_allowed d)), (''reason'', VStr (td_reason d))]"

record TenantRegistry =
  tr_tenants :: "ServiceTenant list"
  tr_bindings :: "TenantRoleBinding list"

definition tenant_ids :: "TenantRegistry \<Rightarrow> string set" where
  "tenant_ids reg = set (map st_tenant_id (tr_tenants reg))"

definition TenantRegistry_as_dict :: "TenantRegistry \<Rightarrow> pyv" where
  "TenantRegistry_as_dict reg =
     obj [(''tenants'', VList (map ServiceTenant_as_dict (tr_tenants reg))),
          (''bindings'', VList (map TenantRoleBinding_as_dict (tr_bindings reg)))]"

section \<open>Decisions\<close>

fun scan_bindings :: "TenantRoleBinding list \<Rightarrow> string \<Rightarrow> string \<Rightarrow> ServiceRole \<Rightarrow> bool" where
  "scan_bindings [] tenant_id principal_id required = False"
| "scan_bindings (b # bs) tenant_id principal_id required =
     (if tb_tenant_id b \<noteq> tenant_id \<or> tb_principal_id b \<noteq> principal_id
      then scan_bindings bs tenant_id principal_id required
      else if binding_has_role b required then True
      else scan_bindings bs tenant_id principal_id required)"

definition decide :: "TenantRegistry \<Rightarrow> ServicePrincipal \<Rightarrow> string \<Rightarrow> ServiceRole \<Rightarrow> TenantAccessDecision" where
  "decide reg p tenant_id required =
     (let answer = (\<lambda>allowed reason.
        \<lparr>td_tenant_id = tenant_id, td_principal_id = sp_principal_id p, td_required_role = required,
         td_allowed = allowed, td_reason = reason\<rparr>)
      in if tenant_id \<notin> tenant_ids reg then answer False ''tenant_unknown''
         else if \<not> has_role p required then answer False ''principal_role_missing''
         else if scan_bindings (tr_bindings reg) tenant_id (sp_principal_id p) required
         then answer True ''tenant_role_granted''
         else answer False ''tenant_binding_missing'')"

definition require_tenant_role ::
  "TenantRegistry \<Rightarrow> ServicePrincipal \<Rightarrow> string \<Rightarrow> ServiceRole \<Rightarrow> TenantAccessDecision res" where
  "require_tenant_role reg p tenant_id role =
     (let decision = decide reg p tenant_id role
      in if \<not> td_allowed decision
         then raise ServiceAuthError (''tenant service role required: '' @ tenant_id @ '':''
                @ ServiceRole_value role @ '' ('' @ td_reason decision @ '')'')
         else Inr decision)"

section \<open>Confined paths\<close>

definition validate_tenant_id :: "string \<Rightarrow> string res" where
  "validate_tenant_id tenant_id =
     (if tenant_id = [] then raise TenantIsolationError ''tenant_id is required''
      else if TENANT_ID_MAX_LENGTH < py_len tenant_id
      then raise TenantIsolationError ''tenant_id is too long''
      else if tenant_id \<in> {''.'', ''..''}
      then raise TenantIsolationError ''tenant_id must be a single path segment''
      else if \<not> list_all (\<lambda>c. c \<in> TENANT_ID_ALLOWED_CHARS) tenant_id
      then raise TenantIsolationError ''tenant_id contains unsupported characters''
      else Inr tenant_id)"

definition validated_relative_path_parts :: "string \<Rightarrow> string \<Rightarrow> string list res" where
  "validated_relative_path_parts requested_relative_path field_name =
     (let err = raise ValueError (field_name @ '' must be a relative path under its configured root'')
      in if is_blank requested_relative_path then err
         else
           (let requested = Path requested_relative_path
            in if is_absolute requested
                  \<or> list_ex (\<lambda>part. part \<in> {[], ''.'', ''..''}) (path_parts requested)
               then err
               else Inr (path_parts requested)))"

definition confined_service_path ::
  "(path \<Rightarrow> path res) \<Rightarrow> path \<Rightarrow> string \<Rightarrow> string \<Rightarrow> path res" where
  "confined_service_path resolve rootdir requested_relative_path field_name =
     bnd (validated_relative_path_parts requested_relative_path field_name) (\<lambda>requested_parts.
     bnd (resolve rootdir) (\<lambda>root_path.
     bnd (resolve (join_all root_path requested_parts)) (\<lambda>candidate.
     if candidate = root_path \<or> \<not> is_relative_to candidate root_path
     then raise ValueError (field_name @ '' must stay under its configured root'')
     else Inr candidate)))"

definition tenant_child :: "(path \<Rightarrow> path res) \<Rightarrow> path \<Rightarrow> string \<Rightarrow> string list \<Rightarrow> path res" where
  "tenant_child resolve rootdir tenant_id parts =
     bnd (resolve rootdir) (\<lambda>root_path.
     bnd (resolve (path_join root_path (Path tenant_id))) (\<lambda>tenant_root.
     bnd (if parts \<noteq> [] then resolve (path_join tenant_root (join_all (Path []) parts)) else Inr tenant_root)
       (\<lambda>candidate.
     if \<not> is_relative_to candidate tenant_root
     then raise TenantIsolationError ''tenant path escaped tenant storage root''
     else Inr candidate)))"

section \<open>Storage\<close>

record TenantStorageScope =
  ts_tenant_id :: string
  ts_journal_path :: path
  ts_database_path :: path
  ts_export_root :: path
  ts_service_log_path :: path
  ts_cache_root :: path
  ts_anchor_root :: path
  ts_anchor_path :: path
  ts_anchor_log_path :: path
  ts_layout_version :: string

definition export_dir :: "(path \<Rightarrow> path res) \<Rightarrow> TenantStorageScope \<Rightarrow> string \<Rightarrow> path res" where
  "export_dir resolve s requested_output_dir =
     confined_service_path resolve (ts_export_root s) requested_output_dir ''output_dir''"

definition TenantStorageScope_as_dict :: "TenantStorageScope \<Rightarrow> pyv" where
  "TenantStorageScope_as_dict s =
     obj [(''layout_version'', VStr (ts_layout_version s)), (''tenant_id'', VStr (ts_tenant_id s)),
          (''journal_path'', VStr (path_str (ts_journal_path s))),
          (''database_path'', VStr (path_str (ts_database_path s))),
          (''export_root'', VStr (path_str (ts_export_root s))),
          (''service_log_path'', VStr (path_str (ts_service_log_path s))),
          (''cache_root'', VStr (path_str (ts_cache_root s))),
          (''anchor_root'', VStr (path_str (ts_anchor_root s))),
          (''anchor_path'', VStr (path_str (ts_anchor_path s))),
          (''anchor_log_path'', VStr (path_str (ts_anchor_log_path s)))]"

record TenantStorageLayout =
  tl_journal_root :: path
  tl_database_root :: path
  tl_export_root :: path
  tl_log_root :: path
  tl_cache_root :: path
  tl_anchor_root :: path

definition under_base :: "path \<Rightarrow> TenantStorageLayout" where
  "under_base base_path =
     \<lparr>tl_journal_root = path_join base_path (Path ''journals''),
      tl_database_root = path_join base_path (Path ''projections''),
      tl_export_root = path_join base_path (Path ''exports''),
      tl_log_root = path_join base_path (Path ''logs''),
      tl_cache_root = path_join base_path (Path ''caches''),
      tl_anchor_root = path_join base_path (Path ''anchors'')\<rparr>"

definition scope_for :: "(path \<Rightarrow> path res) \<Rightarrow> TenantStorageLayout \<Rightarrow> string \<Rightarrow> TenantStorageScope res" where
  "scope_for resolve lay tenant_id =
     bnd (validate_tenant_id tenant_id) (\<lambda>tenant_segment.
     bnd (tenant_child resolve (tl_anchor_root lay) tenant_segment []) (\<lambda>anchor_root.
     bnd (tenant_child resolve (tl_journal_root lay) tenant_segment [''actionlineage.journal'']) (\<lambda>journal.
     bnd (tenant_child resolve (tl_database_root lay) tenant_segment [''projection.sqlite'']) (\<lambda>database.
     bnd (tenant_child resolve (tl_export_root lay) tenant_segment []) (\<lambda>exports.
     bnd (tenant_child resolve (tl_log_root lay) tenant_segment [''service.ndjson'']) (\<lambda>log.
     bnd (tenant_child resolve (tl_cache_root lay) tenant_segment []) (\<lambda>cache.
     Inr \<lparr>ts_tenant_id = tenant_segment, ts_journal_path = journal, ts_database_path = database,
          ts_export_root = exports, ts_service_log_path = log, ts_cache_root = cache,
          ts_anchor_root = anchor_root,
          ts_anchor_path = path_join anchor_root (Path ''journal-anchor.json''),
          ts_anchor_log_path = path_join anchor_root (Path ''anchor-log.jsonl''),
          ts_layout_version = TENANT_STORAGE_LAYOUT_VERSION\<rparr>)))))))"

definition TenantStorageLayout_as_dict :: "TenantStorageLayout \<Rightarrow> pyv" where
  "TenantStorageLayout_as_dict l =
     obj [(''layout_version'', VStr TENANT_STORAGE_LAYOUT_VERSION),
          (''journal_root'', VStr (path_str (tl_journal_root l))),
          (''database_root'', VStr (path_str (tl_database_root l))),
          (''export_root'', VStr (path_str (tl_export_root l))),
          (''log_root'', VStr (path_str (tl_log_root l))),
          (''cache_root'', VStr (path_str (tl_cache_root l))),
          (''anchor_root'', VStr (path_str (tl_anchor_root l)))]"

definition storage_scope ::
  "(path \<Rightarrow> path res) \<Rightarrow> TenantRegistry \<Rightarrow> TenantStorageLayout \<Rightarrow> string \<Rightarrow> TenantStorageScope res" where
  "storage_scope resolve reg lay tenant_id =
     bnd (validate_tenant_id tenant_id) (\<lambda>tenant_segment.
     if tenant_segment \<notin> tenant_ids reg
     then raise ServiceAuthError (''tenant storage scope required: '' @ tenant_segment)
     else scope_for resolve lay tenant_segment)"

definition require_tenant_storage_scope ::
  "(path \<Rightarrow> path res) \<Rightarrow> TenantRegistry \<Rightarrow> ServicePrincipal \<Rightarrow> string \<Rightarrow> ServiceRole \<Rightarrow> TenantStorageLayout
     \<Rightarrow> TenantStorageScope res" where
  "require_tenant_storage_scope resolve reg p tenant_id role lay =
     bnd (require_tenant_role reg p tenant_id role) (\<lambda>decision.
       storage_scope resolve reg lay tenant_id)"

section \<open>Lemmas\<close>

lemma validate_tenant_id_Inr:
  "validate_tenant_id t = Inr s \<longleftrightarrow>
     s = t \<and> t \<noteq> [] \<and> py_len t \<le> TENANT_ID_MAX_LENGTH \<and> set t \<subseteq> TENANT_ID_ALLOWED_CHARS"
proof -
  have "CHR ''.'' \<notin> TENANT_ID_ALLOWED_CHARS" by (simp add: TENANT_ID_ALLOWED_CHARS_def)
  then show ?thesis
    by (auto simp: validate_tenant_id_def list_all_iff split: if_splits)
qed

lemma valid_tenant_name: "validate_tenant_id t = Inr s \<Longrightarrow> is_name t \<and> s = t"
proof -
  have "CHR ''.'' \<notin> TENANT_ID_ALLOWED_CHARS" "slash \<notin> TENANT_ID_ALLOWED_CHARS"
    by (simp_all add: TENANT_ID_ALLOWED_CHARS_def slash_def)
  then show "validate_tenant_id t = Inr s \<Longrightarrow> is_name t \<and> s = t"
    by (auto simp: validate_tenant_id_Inr is_name_def)
qed

lemma validated_parts_Inr:
  assumes "validated_relative_path_parts req fld = Inr ps"
  shows "ps = pt_parts (Path req) \<and> list_all is_name ps"
proof -
  from assms have "ps = pt_parts (Path req)" "''..'' \<notin> set ps"
    by (auto simp: validated_relative_path_parts_def Let_def path_parts_def list_ex_iff split: if_splits)
  then show ?thesis using Path_parts_name by (auto simp: list_all_iff)
qed

lemma scan_bindings_iff:
  "scan_bindings bs t p r \<longleftrightarrow>
     (\<exists>b\<in>set bs. tb_tenant_id b = t \<and> tb_principal_id b = p \<and> binding_has_role b r)"
  by (induction bs) auto

lemma tenant_child_below:
  "tenant_child resolve rootdir t parts = Inr p \<Longrightarrow>
     \<exists>r tr. resolve rootdir = Inr r \<and> resolve (path_join r (Path t)) = Inr tr \<and> is_relative_to p tr"
  by (auto simp: tenant_child_def bnd_Inr_iff split: if_splits)

context resolver
begin

text \<open>Paths the service hands out are canonical: opening one follows no link any more.\<close>

lemma confined_resolved: "confined_service_path resolve rootdir req fld = Inr c \<Longrightarrow> resolve c = Inr c"
  by (auto simp: confined_service_path_def bnd_Inr_iff resolved_again split: if_splits)

lemma tenant_child_resolved: "tenant_child resolve rootdir t parts = Inr p \<Longrightarrow> resolve p = Inr p"
  by (auto simp: tenant_child_def bnd_Inr_iff resolved_again split: if_splits)

end

end
