(* ===== verification/TenancyClaims.thy ===== *)
theory TenancyClaims
  imports Tenancy
begin

text \<open>
  Properties of the service's authentication and of its tenants: who gets a principal and with what,
  who is allowed what in a tenant, where the paths that the service opens lie, and when the storage
  of two tenants is apart.
\<close>

section \<open>Resolving below a directory\<close>

lemma realpath_append:
  "realpath links following res (a @ b) =
     (case realpath links following res a of None \<Rightarrow> None | Some r \<Rightarrow> realpath links following r b)"
  by (induction a arbitrary: res) (auto split: option.splits)

lemma resolve_child:
  assumes "resolve_path fs p = Inr q" "is_name k" "dget (fs_links fs) (pt_parts q @ [k]) = None"
  shows "resolve_path fs (p\<lparr>pt_parts := pt_parts p @ [k]\<rparr>) = Inr (q\<lparr>pt_parts := pt_parts q @ [k]\<rparr>)"
proof -
  let ?parts = "if is_absolute p then pt_parts p else fs_cwd fs @ pt_parts p"
  let ?r = "if is_absolute p then pt_root p else [slash]"
  obtain r where r: "realpath (fs_links fs) [] [] ?parts = Some r" "q = \<lparr>pt_root = ?r, pt_parts = r\<rparr>"
    using assms(1) by (auto simp: resolve_path_def split: option.splits)
  have "realpath (fs_links fs) [] [] (?parts @ [k]) = Some (r @ [k])"
    using r assms(2,3) by (simp only: realpath_append) (simp add: is_name_def)
  then show ?thesis
    using r(2) by (cases "is_absolute p") (simp_all add: resolve_path_def is_absolute_def)
qed

text \<open>The directories that the standard layout has for a tenant: one below each root.\<close>

definition root_names :: "string list" where
  "root_names = [''journals'', ''projections'', ''exports'', ''logs'', ''caches'', ''anchors'']"

definition tenant_dir :: "path \<Rightarrow> string \<Rightarrow> string \<Rightarrow> path" where
  "tenant_dir b k t = b\<lparr>pt_parts := pt_parts b @ [k, t]\<rparr>"

text \<open>Neither the root directories of the layout nor the tenant's directories in them are links; above
  and below there may be links.\<close>

definition plain_dirs :: "filesystem \<Rightarrow> path \<Rightarrow> string \<Rightarrow> bool" where
  "plain_dirs fs b t \<longleftrightarrow>
     list_all (\<lambda>k. dget (fs_links fs) (pt_parts b @ [k]) = None
                 \<and> dget (fs_links fs) (pt_parts b @ [k, t]) = None) root_names"

lemma root_names_name: "k \<in> set root_names \<Longrightarrow> is_name k"
  by (auto simp: root_names_def is_name_def slash_def)

lemma tenant_dirs_apart: "t \<noteq> u \<Longrightarrow> apart (tenant_dir b j t) (tenant_dir b k u)"
  using apart_branch [of t u "pt_parts b @ [j]" "[]" b "[]"]
    apart_branch [of j k "pt_parts b" "[t]" b "[u]"]
  by (cases "j = k") (simp_all add: tenant_dir_def)

lemma tenant_child_dir:
  assumes b: "resolve_path fs base = Inr b" and p: "plain_dirs fs b t" and k: "k \<in> set root_names"
    and t: "is_name t"
    and c: "tenant_child (resolve_path fs) (path_join base (Path k)) t parts = Inr c"
  shows "is_relative_to c (tenant_dir b k t)"
proof -
  have n: "is_name k" using k by (rule root_names_name)
  have none: "dget (fs_links fs) (pt_parts b @ [k]) = None" "dget (fs_links fs) (pt_parts b @ [k, t]) = None"
    using p k by (auto simp: plain_dirs_def list_all_iff)
  have r: "resolve_path fs (path_join base (Path k)) = Inr (b\<lparr>pt_parts := pt_parts b @ [k]\<rparr>)"
    using resolve_child [OF b n none(1)] n by simp
  have "resolve_path fs (tenant_dir b k t) = Inr (tenant_dir b k t)"
    using resolve_child [OF links.resolved_again [OF r] t] none(2) t by (simp add: tenant_dir_def)
  then show ?thesis
    using tenant_child_below [OF c] r t by (auto simp: tenant_dir_def)
qed

section \<open>The paths of a scope\<close>

definition scope_paths :: "TenantStorageScope \<Rightarrow> path list" where
  "scope_paths s =
     [ts_journal_path s, ts_database_path s, ts_export_root s, ts_service_log_path s, ts_cache_root s,
      ts_anchor_root s, ts_anchor_path s, ts_anchor_log_path s]"

lemma below_child: "is_relative_to p d \<Longrightarrow> is_name s \<Longrightarrow> is_relative_to (path_join p (Path s)) d"
  by (auto simp: is_relative_to_def intro: prefix_order.trans)

lemma scope_paths_below:
  assumes b: "resolve_path fs base = Inr b" and p: "plain_dirs fs b t"
    and s: "scope_for (resolve_path fs) (under_base base) t = Inr s" and q: "q \<in> set (scope_paths s)"
  shows "\<exists>k. is_relative_to q (tenant_dir b k t)"
proof -
  have t: "is_name t" using s valid_tenant_name by (auto simp: scope_for_def bnd_Inr_iff)
  note child = tenant_child_dir [OF b p _ t]
  have n: "is_name ''journal-anchor.json''" "is_name ''anchor-log.jsonl''"
    by (simp_all add: is_name_def slash_def)
  have k: "set [''journals'', ''projections'', ''exports'', ''logs'', ''caches'', ''anchors''] \<subseteq> set root_names"
    by (simp add: root_names_def)
  obtain seg a j d e l c where
    "validate_tenant_id t = Inr seg"
    and a: "tenant_child (resolve_path fs) (path_join base (Path ''anchors'')) seg [] = Inr a"
    and j: "tenant_child (resolve_path fs) (path_join base (Path ''journals'')) seg [''actionlineage.journal''] = Inr j"
    and d: "tenant_child (resolve_path fs) (path_join base (Path ''projections'')) seg [''projection.sqlite''] = Inr d"
    and e: "tenant_child (resolve_path fs) (path_join base (Path ''exports'')) seg [] = Inr e"
    and l: "tenant_child (resolve_path fs) (path_join base (Path ''logs'')) seg [''service.ndjson''] = Inr l"
    and c: "tenant_child (resolve_path fs) (path_join base (Path ''caches'')) seg [] = Inr c"
    and paths: "scope_paths s = [j, d, e, l, c, a, path_join a (Path ''journal-anchor.json''),
        path_join a (Path ''anchor-log.jsonl'')]"
    using s by (auto simp: scope_for_def bnd_Inr_iff under_base_def scope_paths_def simp del: Path_name)
  then have seg: "seg = t" using valid_tenant_name by blast
  show ?thesis
    using q child [OF _ a [unfolded seg]] child [OF _ j [unfolded seg]] child [OF _ d [unfolded seg]]
      child [OF _ e [unfolded seg]] child [OF _ l [unfolded seg]] child [OF _ c [unfolded seg]] k
      below_child [OF _ n(1)] below_child [OF _ n(2)]
    unfolding paths by (auto simp del: Path_name) blast+
qed

section \<open>Properties\<close>

text \<open>What the JWT authenticator accepts: it returns a principal exactly when a token is
  given, PyJWT is installed and decodes it for the configured key, algorithms, issuer and audience to
  an object whose principal claim is non-empty text and whose roles and capabilities claims name
  known roles and capabilities, at least one of both; the principal has exactly these.\<close>

theorem jwt_principal_iff:
  "Jwt_authenticate installed a token = Inr p \<longleftrightarrow>
     (\<exists>t m d roles capabilities.
        token = Some t \<and> installed = Some m
        \<and> jm_decode m t (ja_verification_key a) (ja_algorithms a) (ja_issuer a) (ja_audience a)
            (Some (ja_audience a \<noteq> None)) = Inr (VDict d)
        \<and> get_or_none d (ja_principal_claim a) = VStr (sp_principal_id p) \<and> sp_principal_id p \<noteq> []
        \<and> claim_words (get_or_none d (ja_capabilities_claim a))
            = Some (map ServiceCapability_value capabilities)
        \<and> claim_words (get_or_none d (ja_roles_claim a)) = Some (map ServiceRole_value roles)
        \<and> 0 < length roles + length capabilities
        \<and> sp_roles p = set roles \<and> sp_capabilities p = set capabilities)"
proof -
  have "principal_from_claims claims pc rc cc = Inr p \<longleftrightarrow>
     (\<exists>d roles capabilities. claims = VDict d
        \<and> get_or_none d pc = VStr (sp_principal_id p) \<and> sp_principal_id p \<noteq> []
        \<and> claim_words (get_or_none d cc) = Some (map ServiceCapability_value capabilities)
        \<and> claim_words (get_or_none d rc) = Some (map ServiceRole_value roles)
        \<and> 0 < length roles + length capabilities
        \<and> sp_roles p = set roles \<and> sp_capabilities p = set capabilities)" for claims pc rc cc
    by (cases p) (auto simp: principal_from_claims_def bnd_Inr_iff capabilities_from_claim_Inr
        roles_from_claim_Inr split: pyv.splits if_splits)
  moreover have "any_error msg r = Inr x \<longleftrightarrow> r = Inr x" for msg and r :: "pyv res" and x
    by (cases r) (simp_all add: any_error_def)
  ultimately show ?thesis
    by (auto simp: Jwt_authenticate_def import_jwt_def bnd_Inr_iff split: option.splits)
qed

text \<open>Whatever PyJWT, the JWKS client or the claims do, a refused token leaves the OIDC
  authenticator as an authentication error (or the missing library), which is what the service turns
  into a 401 answer.\<close>

theorem oidc_errors: "auth_errors (Oidc_authenticate installed a token)"
  by (auto simp: Oidc_authenticate_def intro!: auth_errors_bnd auth_errors_parts auth_errors_principal
      split: option.splits)

text \<open>Who is allowed a role in a tenant: the tenant is registered, the principal has the role
  itself or is an administrator, and one binding of the principal in that tenant has the role or is
  that of an administrator. Roles do not imply one another otherwise, and a binding alone, or a role
  of the principal alone, is not enough.\<close>

theorem decide_allowed_iff:
  "td_allowed (decide reg p t r) \<longleftrightarrow>
     t \<in> tenant_ids reg \<and> sp_roles p \<inter> {r, SR_ADMIN} \<noteq> {}
     \<and> (\<exists>b\<in>set (tr_bindings reg). tb_tenant_id b = t \<and> tb_principal_id b = sp_principal_id p
          \<and> tb_roles b \<inter> {r, SR_ADMIN} \<noteq> {})"
  by (auto simp: decide_def has_role_def binding_has_role_def roles_grant_iff scan_bindings_iff)

text \<open>C32. A requested path stays inside: what the service opens for a requested relative path lies
  strictly below the resolved root, whatever links are inside of the root, and following links any
  further does not lead away from it.\<close>

theorem confined_path_inside:
  assumes "confined_service_path (resolve_path fs) rootdir requested field_name = Inr c"
  shows "\<exists>r ps. resolve_path fs rootdir = Inr r \<and> ps \<noteq> [] \<and> ''..'' \<notin> set ps
           \<and> c = r\<lparr>pt_parts := pt_parts r @ ps\<rparr> \<and> resolve_path fs c = Inr c"
proof -
  obtain r where r: "resolve_path fs rootdir = Inr r" "c \<noteq> r" "is_relative_to c r"
    using assms by (auto simp: confined_service_path_def bnd_Inr_iff split: if_splits)
  note c = links.confined_resolved [OF assms]
  obtain ps where ps: "c = r\<lparr>pt_parts := pt_parts r @ ps\<rparr>"
    using r(3) by (cases c, cases r) (auto simp: is_relative_to_def prefix_def)
  have "ps \<noteq> []" using ps r(2) by auto
  moreover have "''..'' \<notin> set ps" using links.resolved_canonical [OF c] ps by simp
  ultimately show ?thesis using r(1) ps c by blast
qed

text \<open>C31. Tenants are apart: under the standard layout, when neither the root directories of the layout
  (journals, databases, exports and so on under the base) nor the directories of two different tenants
  in them are links, no path of the storage scope of one tenant lies inside or above a path of the
  scope of the other, whatever other links there are.\<close>

theorem tenants_apart:
  assumes "resolve_path fs base = Inr b" "plain_dirs fs b t" "plain_dirs fs b u" "t \<noteq> u"
    and "scope_for (resolve_path fs) (under_base base) t = Inr s"
    and "scope_for (resolve_path fs) (under_base base) u = Inr s'"
    and "p \<in> set (scope_paths s)" "q \<in> set (scope_paths s')"
  shows "apart p q"
  using scope_paths_below [OF assms(1,2,5,7)] scope_paths_below [OF assms(1,3,6,8)]
    tenant_dirs_apart [OF assms(4)] apart_below by blast

text \<open>The condition is needed, and the code does not check it: when the journal directory of
  bob is a link to that of alice, a principal that is bound to bob's tenant alone is given alice's
  journal, and nothing is raised.\<close>

definition alice :: ServiceTenant where
  "alice = \<lparr>st_tenant_id = ''alice'', st_display_name = ''Alice'', st_tags = []\<rparr>"

definition bob :: ServiceTenant where
  "bob = \<lparr>st_tenant_id = ''bob'', st_display_name = ''Bob'', st_tags = []\<rparr>"

definition bobs_reader :: ServicePrincipal where
  "bobs_reader = \<lparr>sp_principal_id = ''reader'', sp_roles = {SR_READ}, sp_capabilities = {}\<rparr>"

definition sample_registry :: TenantRegistry where
  "sample_registry = \<lparr>tr_tenants = [alice, bob],
     tr_bindings = [\<lparr>tb_tenant_id = ''bob'', tb_principal_id = ''reader'', tb_roles = {SR_READ}\<rparr>]\<rparr>"

definition sample_fs :: "(string list \<times> path) list \<Rightarrow> filesystem" where
  "sample_fs ls = \<lparr>fs_links = ls, fs_cwd = []\<rparr>"

theorem linked_tenant_shares_journal:
  "let fs = sample_fs [([''data'', ''journals'', ''bob''], Path ''alice'')];
       scope = (\<lambda>t. scope_for (resolve_path fs) (under_base (Path ''/data'')) t)
   in map_sum id ts_journal_path (require_tenant_storage_scope (resolve_path fs) sample_registry
        bobs_reader ''bob'' SR_READ (under_base (Path ''/data'')))
      = map_sum id ts_journal_path (scope ''alice'')
    \<and> \<not> td_allowed (decide sample_registry bobs_reader ''alice'' SR_READ)
    \<and> map_sum id ts_journal_path (scope ''alice'') = Inr (Path ''/data/journals/alice/actionlineage.journal'')"
  by code_simp

theorem confined_path_inside_witness:
  "confined_service_path (resolve_path (sample_fs [([''srv'', ''x''], Path ''a/b'')])) (Path ''/srv'')
     ''x/case'' ''output_dir'' = Inr (Path ''/srv/a/b/case'')
   \<and> (\<exists>r ps. resolve_path (sample_fs [([''srv'', ''x''], Path ''a/b'')]) (Path ''/srv'') = Inr r
        \<and> ps \<noteq> [] \<and> ''..'' \<notin> set ps
        \<and> Path ''/srv/a/b/case'' = r\<lparr>pt_parts := pt_parts r @ ps\<rparr>
        \<and> resolve_path (sample_fs [([''srv'', ''x''], Path ''a/b'')]) (Path ''/srv/a/b/case'')
            = Inr (Path ''/srv/a/b/case''))"
proof -
  have c: "confined_service_path (resolve_path (sample_fs [([''srv'', ''x''], Path ''a/b'')])) (Path ''/srv'')
     ''x/case'' ''output_dir'' = Inr (Path ''/srv/a/b/case'')" by code_simp
  show ?thesis using c confined_path_inside [OF c] by blast
qed

theorem tenants_apart_witness:
  "apart (Path ''/data/journals/alice/actionlineage.journal'') (Path ''/data/exports/bob'')"
proof -
  let ?fs = "sample_fs [([''data'', ''journals'', ''carol''], Path ''alice'')]"
  let ?scope = "\<lambda>t. projr (scope_for (resolve_path ?fs) (under_base (Path ''/data'')) t)"
  have "resolve_path ?fs (Path ''/data'') = Inr (Path ''/data'')"
    "plain_dirs ?fs (Path ''/data'') ''alice''" "plain_dirs ?fs (Path ''/data'') ''bob''"
    "''alice'' \<noteq> ''bob''"
    "scope_for (resolve_path ?fs) (under_base (Path ''/data'')) ''alice'' = Inr (?scope ''alice'')"
    "scope_for (resolve_path ?fs) (under_base (Path ''/data'')) ''bob'' = Inr (?scope ''bob'')"
    "Path ''/data/journals/alice/actionlineage.journal'' \<in> set (scope_paths (?scope ''alice''))"
    "Path ''/data/exports/bob'' \<in> set (scope_paths (?scope ''bob''))"
    by code_simp+
  then show ?thesis by (rule tenants_apart)
qed

end
