(* ===== verification/Contracts.thy ===== *)
theory Contracts
  imports Journal Detection
begin

text \<open>
  \<open>contracts/validation.py\<close>: evidence contracts as records, their JSON form, and the validation of a
  tuple of events against a contract.

  Every helper of the code calls \<open>event_to_dict\<close> again on the events it looks at. The dump of an
  event is a function of the event and \<open>validate_contract\<close> dumps all events first, so here an event
  travels together with its dump as a \<open>view\<close>. What can still raise is the text of an integer of more
  than 4300 digits.
\<close>

section \<open>Requirements\<close>

definition CONTRACT_SCHEMA_VERSION :: string where
  "CONTRACT_SCHEMA_VERSION = ''actionlineage.dev/contract/v1''"

record ContractEventRequirement =
  cer_event_type :: string
  cer_required_fields :: "string list"

record ContractRelationshipRequirement =
  crr_child_event_type :: string
  crr_parent_event_type :: string
  crr_reference_field :: "string option"

record ContractEvidenceLinkRequirement =
  cel_event_type :: string
  cel_subject_event_type :: "string option"
  cel_evidence_event_type :: "string option"
  cel_relationship :: "string option"
  cel_verification_status :: "string option"
  cel_corroboration_types :: "string list"
  cel_observer_identity :: "string option"

record ContractLatencyRequirement =
  clr_start_event_type :: string
  clr_end_event_type :: string
  clr_max_seconds :: pyfloat
  clr_group_by :: "string list"

record ContractDescriptorRequirement =
  cdr_event_type :: string
  cdr_descriptor_hash_field :: string
  cdr_tool_name_field :: string
  cdr_hash_prefix :: string

record ContractDetectionRequirement =
  cxr_rule_id :: string
  cxr_required :: bool
  cxr_required_event_types :: "string list"
  cxr_required_verification_statuses :: "string list"

record LineageContract =
  lc_name :: string
  lc_events :: "ContractEventRequirement list"
  lc_relationships :: "ContractRelationshipRequirement list"
  lc_evidence_links :: "ContractEvidenceLinkRequirement list"
  lc_latency_requirements :: "ContractLatencyRequirement list"
  lc_descriptor_requirements :: "ContractDescriptorRequirement list"
  lc_detection_requirements :: "ContractDetectionRequirement list"
  lc_allowed_verification_statuses :: "string set"
  lc_required_verification_status :: "string option"
  lc_hash_chain_required :: bool

section \<open>Violations\<close>

record ContractViolation =
  cv_code :: string
  cv_message :: string
  cv_event_id :: "string option"
  cv_event_type :: "string option"
  cv_field :: "string option"
  cv_severity :: string
  cv_remediation :: "string option"

definition violation :: "string \<Rightarrow> string \<Rightarrow> string \<Rightarrow> ContractViolation" where
  "violation code message remediation =
     \<lparr>cv_code = code, cv_message = message, cv_event_id = None, cv_event_type = None, cv_field = None,
      cv_severity = ''error'', cv_remediation = Some remediation\<rparr>"

definition ContractViolation_as_dict :: "ContractViolation \<Rightarrow> pyv" where
  "ContractViolation_as_dict v =
     obj [(''code'', VStr (cv_code v)), (''message'', VStr (cv_message v)),
          (''event_id'', opt_str (cv_event_id v)), (''event_type'', opt_str (cv_event_type v)),
          (''field'', opt_str (cv_field v)), (''severity'', VStr (cv_severity v)),
          (''remediation'', opt_str (cv_remediation v))]"

record ContractResult =
  cr_contract_name :: string
  cr_ok :: bool
  cr_violations :: "ContractViolation list"

definition ContractResult_as_dict :: "ContractResult \<Rightarrow> pyv" where
  "ContractResult_as_dict r =
     obj [(''contract_name'', VStr (cr_contract_name r)), (''ok'', VBool (cr_ok r)),
          (''violations'', VList (map ContractViolation_as_dict (cr_violations r)))]"

section \<open>Looking at events\<close>

type_synonym view = "event \<times> pyv"

definition string_or_none :: "pyv \<Rightarrow> string option" where
  "string_or_none v = (case v of VStr s \<Rightarrow> if s = [] then None else Some s | _ \<Rightarrow> None)"

text \<open>\<open>_get_path\<close>; the walk itself is the one of the detection engine.\<close>

definition contract_path :: "pyv \<Rightarrow> string \<Rightarrow> pyv res" where
  "contract_path v path = get_path v (split_on (CHR ''.'') path)"

definition has_nonempty_field :: "pyv \<Rightarrow> string \<Rightarrow> bool res" where
  "has_nonempty_field event_object path =
     bnd (contract_path event_object path) (\<lambda>v.
       if v = VNone then Inr False
       else if py_eq v (VStr []) then Inr False
       else Inr (\<not> (py_eq v (VList []) \<or> py_eq v (VDict []))))"

definition events_of_type :: "view list \<Rightarrow> string \<Rightarrow> view list" where
  "events_of_type vs t = filter (\<lambda>v. event_type (fst v) = t) vs"

text \<open>\<open>events_by_id\<close>: a dict comprehension, so a later event replaces an earlier one of the same id.\<close>

definition events_by_id :: "view list \<Rightarrow> (string \<times> event) list" where
  "events_by_id vs = foldl (\<lambda>d (e, v). dset d (event_id e) e) [] vs"

definition dict_get :: "pyv \<Rightarrow> string \<Rightarrow> pyv" where
  "dict_get v k = (case v of VDict d \<Rightarrow> get_or_none d k | _ \<Rightarrow> VNone)"

text \<open>The statuses that one event carries.\<close>

definition object_statuses :: "pyv \<Rightarrow> string list" where
  "object_statuses event_object =
     (case dict_get event_object ''payload'' of
        VDict d \<Rightarrow>
          (case get_or_none d ''evidence_link'' of
             VDict link \<Rightarrow>
               (case string_or_none (get_or_none link ''verification_status'') of None \<Rightarrow> [] | Some s \<Rightarrow> [s])
           | _ \<Rightarrow> [])
          @ (case string_or_none (get_or_none d ''verification_status'') of None \<Rightarrow> [] | Some s \<Rightarrow> [s])
      | _ \<Rightarrow> [])"

definition verification_statuses :: "pyv list \<Rightarrow> string set" where
  "verification_statuses objects = set (concat (map object_statuses objects))"

text \<open>\<open>sorted\<close> of a set of strings, and its text in a message.\<close>

definition sorted_texts :: "string set \<Rightarrow> string list" where
  "sorted_texts A = sorted_list_of_set A"

definition repr_list :: "string list \<Rightarrow> string" where
  "repr_list ss = ''['' @ join_with '', '' (map py_str_repr ss) @ '']''"

definition repr_tuple :: "string list \<Rightarrow> string" where
  "repr_tuple ss =
     (case ss of [s] \<Rightarrow> ''('' @ py_str_repr s @ '',)''
      | _ \<Rightarrow> ''('' @ join_with '', '' (map py_str_repr ss) @ '')'')"

definition str_opt :: "string option \<Rightarrow> string" where
  "str_opt x = (case x of None \<Rightarrow> ''None'' | Some s \<Rightarrow> s)"

text \<open>\<open>f"{x:.3f}"\<close>: the exact value rounded to thousandths, half to even.\<close>

definition thousandths :: "nat \<Rightarrow> string" where
  "thousandths n = nat_repr (n div 1000) @ ''.'' @ pad_repr 3 (n mod 1000)"

fun format_3f :: "pyfloat \<Rightarrow> string" where
  "format_3f PNan = ''nan''"
| "format_3f (PInf s) = (if s then ''-inf'' else ''inf'')"
| "format_3f (PFin s m e) =
     (if s then ''-'' else []) @ thousandths (nat (round_half_even (pos_val m e * 1000)))"

text \<open>A loop over items that collects violations and stops at the first exception.\<close>

definition collect :: "('a \<Rightarrow> 'b list res) \<Rightarrow> 'a list \<Rightarrow> 'b list res" where
  "collect f xs = bnd (traverse f xs) (\<lambda>vs. Inr (concat vs))"

fun any_res :: "('a \<Rightarrow> bool res) \<Rightarrow> 'a list \<Rightarrow> bool res" where
  "any_res f [] = Inr False"
| "any_res f (x # xs) = bnd (f x) (\<lambda>b. if b then Inr True else any_res f xs)"

section \<open>The checks\<close>

definition validate_journal_integrity_requirement ::
  "event list \<Rightarrow> VerificationResult option \<Rightarrow> ContractViolation list" where
  "validate_journal_integrity_requirement events verification =
     (case verification of
        None \<Rightarrow>
          [(violation ''journal_integrity_unverified'' ''contract requires a verified journal hash chain''
              ''validate a VerifiedJournalSnapshot instead of unverified events'')
             \<lparr>cv_field := Some ''journal.integrity''\<rparr>]
      | Some r \<Rightarrow>
          if \<not> vr_ok r then
            (let issue = (case vr_issues r of [] \<Rightarrow> None | i # is \<Rightarrow> Some i)
             in [(violation ''journal_integrity_violation''
                    (''contract requires a verified journal hash chain''
                      @ (case issue of None \<Rightarrow> []
                         | Some i \<Rightarrow> ''; verifier reported '' @ VerificationCode_value (vi_code i)))
                    ''run journal verification and repair or replace the invalid journal'')
                  \<lparr>cv_event_id := Option.bind issue vi_event_id, cv_field := Some ''journal.integrity''\<rparr>])
          else if vr_records_verified r \<noteq> length events then
            [(violation ''journal_integrity_snapshot_mismatch''
                ''verified record count does not match supplied event tuple''
                ''consume the immutable events from the verified journal snapshot'')
               \<lparr>cv_field := Some ''journal.integrity''\<rparr>]
          else if vr_last_event_hash r
                  \<noteq> (if events = [] then None else event_hash (ev_integrity (last events))) then
            [(violation ''journal_integrity_snapshot_mismatch''
                ''verified terminal hash does not match supplied event tuple''
                ''consume the immutable events from the verified journal snapshot'')
               \<lparr>cv_field := Some ''journal.integrity''\<rparr>]
          else [])"

definition validate_event_requirement ::
  "view list \<Rightarrow> ContractEventRequirement \<Rightarrow> ContractViolation list res" where
  "validate_event_requirement vs r =
     (let matches = events_of_type vs (cer_event_type r)
      in if matches = [] then
           Inr [(violation ''required_event_missing''
                   (''required event type is missing: '' @ cer_event_type r)
                   ''emit the required lifecycle event before evaluating this contract'')
                 \<lparr>cv_event_type := Some (cer_event_type r)\<rparr>]
         else
           collect (\<lambda>fld.
             bnd (any_res (\<lambda>v. has_nonempty_field (snd v) fld) matches) (\<lambda>present.
               Inr (if present then []
                    else [(violation ''required_field_missing'' (''required field is missing: '' @ fld)
                             ''populate this field at the redaction boundary'')
                           \<lparr>cv_event_type := Some (cer_event_type r), cv_field := Some fld\<rparr>])))
             (cer_required_fields r))"

definition related_child ::
  "(string \<times> event) list \<Rightarrow> ContractRelationshipRequirement \<Rightarrow> view \<Rightarrow> bool res" where
  "related_child by_id r child =
     bnd (case crr_reference_field r of
            None \<Rightarrow> Inr (parent_event_id (ev_causality (fst child)))
          | Some fld \<Rightarrow> bnd (contract_path (snd child) fld) (\<lambda>v. Inr (string_or_none v))) (\<lambda>parent_id.
     Inr (case parent_id of
            None \<Rightarrow> False
          | Some i \<Rightarrow>
              (case dget by_id i of
                 None \<Rightarrow> False
               | Some parent \<Rightarrow> event_type parent = crr_parent_event_type r)))"

definition relationship_exists ::
  "view list \<Rightarrow> (string \<times> event) list \<Rightarrow> ContractRelationshipRequirement \<Rightarrow> bool res" where
  "relationship_exists vs by_id r =
     any_res (related_child by_id r) (events_of_type vs (crr_child_event_type r))"

definition validate_relationship ::
  "view list \<Rightarrow> (string \<times> event) list \<Rightarrow> ContractRelationshipRequirement \<Rightarrow> ContractViolation list res" where
  "validate_relationship vs by_id r =
     bnd (relationship_exists vs by_id r) (\<lambda>found.
       Inr (if found then []
            else [(violation ''relationship_missing''
                     (''missing relationship '' @ crr_parent_event_type r @ '' -> '' @ crr_child_event_type r)
                     ''record a causal parent or explicit reference field'')
                   \<lparr>cv_event_type := Some (crr_child_event_type r), cv_field := crr_reference_field r\<rparr>]))"

definition event_violation :: "event \<Rightarrow> string \<Rightarrow> string \<Rightarrow> string \<Rightarrow> string \<Rightarrow> ContractViolation" where
  "event_violation e fld code message remediation =
     (violation code message remediation)
       \<lparr>cv_event_id := Some (event_id e), cv_event_type := Some (event_type e), cv_field := Some fld\<rparr>"

definition evidence_link_checks ::
  "ContractEvidenceLinkRequirement \<Rightarrow> pydict \<Rightarrow> event \<Rightarrow> event
     \<Rightarrow> (string option \<times> string option \<times> string) list" where
  "evidence_link_checks r link subject evidence =
     [(cel_subject_event_type r, Some (event_type subject), ''subjectEventType''),
      (cel_evidence_event_type r, Some (event_type evidence), ''evidenceEventType''),
      (cel_relationship r, string_or_none (get_or_none link ''relationship''), ''relationship''),
      (cel_verification_status r, string_or_none (get_or_none link ''verification_status''),
         ''verificationStatus''),
      (cel_observer_identity r, string_or_none (get_or_none link ''observer_identity''),
         ''observerIdentity'')]"

definition validate_evidence_link_types ::
  "event \<Rightarrow> ContractEvidenceLinkRequirement \<Rightarrow> pydict \<Rightarrow> event \<Rightarrow> event \<Rightarrow> ContractViolation list" where
  "validate_evidence_link_types e r link subject evidence =
     concat (map (\<lambda>(expected, actual, name).
       if expected \<noteq> None \<and> actual \<noteq> expected
       then [event_violation e (''payload.evidence_link.'' @ name) ''evidence_link_requirement_mismatch''
               (''evidence link '' @ name @ '' expected '' @ str_opt expected @ '', got '' @ str_opt actual)
               ''emit corroboration metadata that matches the contract'']
       else []) (evidence_link_checks r link subject evidence))
     @ (let corroboration_type = string_or_none (get_or_none link ''corroboration_type'')
        in if cel_corroboration_types r \<noteq> [] \<and> corroboration_type \<notin> Some ` set (cel_corroboration_types r)
           then [event_violation e ''payload.evidence_link.corroboration_type''
                   ''evidence_link_requirement_mismatch''
                   (''evidence link corroboration type expected one of ''
                     @ repr_list (sort (cel_corroboration_types r)) @ '', got '' @ str_opt corroboration_type)
                   ''use an approved corroboration source for this contract'']
           else [])"

definition validate_evidence_link ::
  "(string \<times> event) list \<Rightarrow> ContractEvidenceLinkRequirement \<Rightarrow> view \<Rightarrow> ContractViolation list res" where
  "validate_evidence_link by_id r view =
     bnd (contract_path (snd view) ''payload.evidence_link'') (\<lambda>evidence_link.
     Inr (case evidence_link of
        VDict link \<Rightarrow>
          (case (string_or_none (get_or_none link ''subject_event_id''),
                 string_or_none (get_or_none link ''evidence_event_id'')) of
             (Some subject_id, Some evidence_id) \<Rightarrow>
               (case (dget by_id subject_id, dget by_id evidence_id) of
                  (Some subject, Some evidence) \<Rightarrow>
                    validate_evidence_link_types (fst view) r link subject evidence
                | (subject, evidence) \<Rightarrow>
                    [event_violation (fst view) ''payload.evidence_link'' ''evidence_link_reference_missing''
                       (''evidence link references missing event: ''
                         @ (if subject = None then subject_id else evidence_id))
                       ''persist referenced subject and evidence events in the journal''])
           | _ \<Rightarrow>
               [event_violation (fst view) ''payload.evidence_link'' ''evidence_link_field_missing''
                  ''evidence link must identify subject_event_id and evidence_event_id''
                  ''record both sides of the corroboration relationship''])
      | _ \<Rightarrow>
          [event_violation (fst view) ''payload.evidence_link'' ''evidence_link_missing''
             ''event does not include payload.evidence_link''
             ''attach an explicit evidence link to verification events'']))"

definition validate_evidence_link_requirement ::
  "view list \<Rightarrow> (string \<times> event) list \<Rightarrow> ContractEvidenceLinkRequirement \<Rightarrow> ContractViolation list res" where
  "validate_evidence_link_requirement vs by_id r =
     (let matches = events_of_type vs (cel_event_type r)
      in if matches = [] then
           Inr [(violation ''evidence_link_event_missing''
                   (''no event found for evidence-link requirement: '' @ cel_event_type r)
                   ''emit an event carrying a payload.evidence_link object'')
                 \<lparr>cv_event_type := Some (cel_event_type r)\<rparr>]
         else collect (validate_evidence_link by_id r) matches)"

text \<open>\<open>_group_key\<close>: the text of the value at each path, empty for a missing or false value.\<close>

definition contract_key_value :: "pyv \<Rightarrow> string \<Rightarrow> string res" where
  "contract_key_value event_object path =
     bnd (contract_path event_object path) (\<lambda>v. if truthy v then py_str v else Inr [])"

definition contract_group_key :: "string list \<Rightarrow> view \<Rightarrow> string list res" where
  "contract_group_key paths v = traverse (contract_key_value (snd v)) paths"

fun contract_group_by ::
  "string list \<Rightarrow> view list \<Rightarrow> (string list \<times> event list) list \<Rightarrow> (string list \<times> event list) list res" where
  "contract_group_by paths [] grouped = Inr grouped"
| "contract_group_by paths (v # vs) grouped =
     bnd (contract_group_key paths v) (\<lambda>key.
       contract_group_by paths vs (group_append grouped key (fst v)))"

text \<open>\<open>abs(a.occurred_at - b.occurred_at)\<close> in microseconds, and \<open>min\<close> with that key: the first of
  the nearest.\<close>

definition time_apart :: "event \<Rightarrow> event \<Rightarrow> int" where
  "time_apart a b = \<bar>dt_instant (occurred_at a) - dt_instant (occurred_at b)\<bar>"

fun nearest :: "event \<Rightarrow> event \<Rightarrow> event list \<Rightarrow> event" where
  "nearest target best [] = best"
| "nearest target best (e # es) =
     nearest target (if time_apart target e < time_apart target best then e else best) es"

definition seconds_apart :: "event \<Rightarrow> event \<Rightarrow> pyfloat" where
  "seconds_apart a b = float_of_rat (of_int (time_apart a b) / 1000000)"

definition validate_latency_end ::
  "ContractLatencyRequirement \<Rightarrow> (string list \<times> event list) list \<Rightarrow> view \<Rightarrow> ContractViolation list res" where
  "validate_latency_end r starts_by_group view =
     bnd (contract_group_key (clr_group_by r) view) (\<lambda>end_group.
     Inr (case dget starts_by_group end_group of
        Some (s # ss) \<Rightarrow>
          (let start = nearest (fst view) s ss; observed = seconds_apart (fst view) start
           in if fl_less (clr_max_seconds r) observed
              then [event_violation (fst view) ''occurred_at'' ''latency_breach''
                      (''latency '' @ format_3f observed @ ''s exceeds max ''
                        @ format_3f (clr_max_seconds r) @ ''s'')
                      ''lower telemetry delay or relax the documented contract threshold'']
              else [])
      | _ \<Rightarrow>
          [(violation ''latency_start_missing'' (''no start event for latency group '' @ repr_tuple end_group)
              ''preserve correlation fields across lifecycle events'')
            \<lparr>cv_event_id := Some (event_id (fst view)), cv_event_type := Some (event_type (fst view))\<rparr>]))"

definition validate_latency_requirement ::
  "view list \<Rightarrow> ContractLatencyRequirement \<Rightarrow> ContractViolation list res" where
  "validate_latency_requirement vs r =
     (let start_events = events_of_type vs (clr_start_event_type r);
          end_events = events_of_type vs (clr_end_event_type r)
      in if start_events = [] \<or> end_events = [] then
           Inr [(violation ''latency_event_missing''
                   (''latency requirement needs '' @ clr_start_event_type r @ '' and '' @ clr_end_event_type r)
                   ''emit both lifecycle states before validating latency'')
                 \<lparr>cv_event_type := Some (clr_end_event_type r)\<rparr>]
         else
           bnd (contract_group_by (clr_group_by r) start_events []) (\<lambda>starts_by_group.
             collect (validate_latency_end r starts_by_group) end_events))"

definition validate_descriptor ::
  "ContractDescriptorRequirement \<Rightarrow> view \<Rightarrow> ContractViolation list res" where
  "validate_descriptor r view =
     bnd (contract_path (snd view) (cdr_tool_name_field r)) (\<lambda>tool.
     bnd (contract_path (snd view) (cdr_descriptor_hash_field r)) (\<lambda>hash.
     Inr (case (string_or_none tool, string_or_none hash) of
        (Some tool_name, Some descriptor_hash) \<Rightarrow>
          if \<not> py_startswith descriptor_hash (cdr_hash_prefix r)
          then [event_violation (fst view) (cdr_descriptor_hash_field r) ''descriptor_hash_invalid''
                  (''descriptor hash must start with '' @ cdr_hash_prefix r)
                  ''hash canonical descriptors with the configured algorithm prefix'']
          else []
      | _ \<Rightarrow>
          [event_violation (fst view) (cdr_descriptor_hash_field r) ''descriptor_identity_missing''
             ''tool name and descriptor hash are required''
             ''record a canonical descriptor hash at tool discovery or request time''])))"

definition validate_descriptor_requirement ::
  "view list \<Rightarrow> ContractDescriptorRequirement \<Rightarrow> ContractViolation list res" where
  "validate_descriptor_requirement vs r =
     (let matches = events_of_type vs (cdr_event_type r)
      in if matches = [] then
           Inr [(violation ''descriptor_event_missing''
                   (''no event found for descriptor requirement: '' @ cdr_event_type r)
                   ''emit the event that should carry tool descriptor identity'')
                 \<lparr>cv_event_type := Some (cdr_event_type r)\<rparr>]
         else collect (validate_descriptor r) matches)"

definition validate_detection_requirement ::
  "pyv list \<Rightarrow> DetectionMatch list \<Rightarrow> ContractDetectionRequirement \<Rightarrow> ContractViolation list" where
  "validate_detection_requirement objects detection_results r =
     (let matches = filter (\<lambda>m. dm_rule_id m = Some (cxr_rule_id r)) detection_results
      in if cxr_required r \<and> matches = [] then
           [violation ''required_detection_missing''
              (''required detection result is missing: '' @ cxr_rule_id r)
              ''run the required detection rule against this evidence set in CI'']
         else if matches = [] then []
         else
           (let present_event_types = (\<Union>v\<in>set objects. set_option (string_or_none (dict_get v ''event_type'')));
                missing_event_types = set (cxr_required_event_types r) - present_event_types;
                missing_statuses = set (cxr_required_verification_statuses r) - verification_statuses objects
            in (if missing_event_types = {} then []
                else [violation ''detection_control_dependency_missing''
                        (''detection '' @ cxr_rule_id r @ '' depends on missing events: ''
                          @ repr_list (sorted_texts missing_event_types))
                        ''ensure the detection is only considered covered with required telemetry''])
               @ (if missing_statuses = {} then []
                  else [(violation ''detection_control_dependency_missing''
                           (''detection '' @ cxr_rule_id r @ '' depends on missing statuses: ''
                             @ repr_list (sorted_texts missing_statuses))
                           ''ensure detection coverage includes required verification states'')
                         \<lparr>cv_field := Some ''payload.evidence_link.verification_status''\<rparr>])))"

definition validate_statuses :: "LineageContract \<Rightarrow> string set \<Rightarrow> ContractViolation list" where
  "validate_statuses c statuses =
     (case lc_required_verification_status c of
        None \<Rightarrow> []
      | Some required \<Rightarrow>
          if required \<in> statuses then []
          else [(violation ''verification_status_missing''
                   (''required verification status is missing: '' @ required)
                   ''emit explicit verification evidence before satisfying this contract'')
                 \<lparr>cv_field := Some ''payload.evidence_link.verification_status''\<rparr>])
     @ (if lc_allowed_verification_statuses c = {} then []
        else map (\<lambda>status.
               (violation ''verification_status_not_allowed''
                  (''verification status is not allowed: '' @ status)
                  ''update the contract or emit a supported verification outcome'')
                \<lparr>cv_field := Some ''payload.evidence_link.verification_status''\<rparr>)
               (sorted_texts (statuses - lc_allowed_verification_statuses c)))"

definition validate_contract ::
  "pydantic \<Rightarrow> event list \<Rightarrow> LineageContract \<Rightarrow> DetectionMatch list \<Rightarrow> VerificationResult option
     \<Rightarrow> ContractResult res" where
  "validate_contract pd events c detection_results verification =
     bnd (traverse (event_to_dict pd) events) (\<lambda>objects.
     let vs = zip events objects; by_id = events_by_id vs;
         integrity = (if lc_hash_chain_required c
                      then validate_journal_integrity_requirement events verification else [])
     in bnd (collect (validate_event_requirement vs) (lc_events c)) (\<lambda>event_violations.
        bnd (collect (validate_relationship vs by_id) (lc_relationships c)) (\<lambda>relationship_violations.
        bnd (collect (validate_evidence_link_requirement vs by_id) (lc_evidence_links c)) (\<lambda>link_violations.
        bnd (collect (validate_latency_requirement vs) (lc_latency_requirements c)) (\<lambda>latency_violations.
        bnd (collect (validate_descriptor_requirement vs) (lc_descriptor_requirements c)) (\<lambda>descriptor_violations.
        let violations = integrity @ event_violations @ relationship_violations @ link_violations
              @ latency_violations @ descriptor_violations
              @ concat (map (validate_detection_requirement objects detection_results)
                  (lc_detection_requirements c))
              @ validate_statuses c (verification_statuses objects)
        in Inr \<lparr>cr_contract_name = lc_name c, cr_ok = (violations = []), cr_violations = violations\<rparr>))))))"

definition contract_result_annotations :: "ContractResult \<Rightarrow> string list" where
  "contract_result_annotations r =
     (if cr_ok r then [''contract '' @ cr_contract_name r @ '': ok'']
      else map (\<lambda>v.
        map (\<lambda>c. if CHR ''a'' \<le> c \<and> c \<le> CHR ''z'' then char_of (byte c - 32) else c) (cv_severity v)
        @ '' '' @ cr_contract_name r @ '' '' @ cv_code v
        @ '' event_id='' @ (case cv_event_id v of None \<Rightarrow> ''-'' | Some i \<Rightarrow> if i = [] then ''-'' else i)
        @ '' field='' @ (case cv_field v of None \<Rightarrow> ''-'' | Some f \<Rightarrow> if f = [] then ''-'' else f)
        @ '' message='' @ cv_message v) (cr_violations r))"

end
