(* ===== verification/ContractForms.thy ===== *)
theory ContractForms
  imports Contracts
begin

text \<open>
  The JSON form of contracts in \<open>contracts/validation.py\<close>: loading, printing, the template and the
  summary. Sets of statuses are printed sorted.
\<close>

abbreviation contract_error :: "string \<Rightarrow> 'a res" where
  "contract_error m \<equiv> raise ActionLineageValidationError m"

section \<open>Fields\<close>

definition object_value :: "pyv \<Rightarrow> string \<Rightarrow> pydict res" where
  "object_value v fld =
     (case v of
        VNone \<Rightarrow> Inr []
      | VDict d \<Rightarrow> Inr d
      | _ \<Rightarrow> contract_error (fld @ '' must be an object''))"

definition object_item :: "string \<Rightarrow> nat \<times> pyv \<Rightarrow> pydict res" where
  "object_item fld p =
     (case snd p of
        VDict d \<Rightarrow> Inr d
      | _ \<Rightarrow> contract_error (fld @ ''.'' @ nat_repr (fst p) @ '' must be an object''))"

definition objects_value :: "pyv \<Rightarrow> string \<Rightarrow> pydict list res" where
  "objects_value v fld =
     (let items = (\<lambda>xs. traverse (object_item fld) (enumerate 0 xs))
      in case v of
           VNone \<Rightarrow> Inr []
         | VList xs \<Rightarrow> items xs
         | VTuple xs \<Rightarrow> items xs
         | _ \<Rightarrow> contract_error (fld @ '' must be a list''))"

definition strings_value :: "pyv \<Rightarrow> string list res" where
  "strings_value v =
     (let items = traverse (\<lambda>item. case string_or_none item of
          None \<Rightarrow> contract_error ''expected a list of nonempty strings'' | Some s \<Rightarrow> Inr s)
      in case v of
           VNone \<Rightarrow> Inr []
         | VStr s \<Rightarrow> Inr [s]
         | VList xs \<Rightarrow> items xs
         | VTuple xs \<Rightarrow> items xs
         | _ \<Rightarrow> contract_error ''expected a list of strings'')"

definition contract_string :: "pydict \<Rightarrow> string \<Rightarrow> string res" where
  "contract_string d fld =
     (case string_or_none (get_or_none d fld) of
        None \<Rightarrow> contract_error (fld @ '' is required'') | Some s \<Rightarrow> Inr s)"

text \<open>\<open>_required_number\<close> and the \<open>float\<close> around it; a bool is an int.\<close>

definition contract_number :: "pydict \<Rightarrow> string \<Rightarrow> pyfloat res" where
  "contract_number d fld =
     (case get_or_none d fld of
        VInt i \<Rightarrow> float_of_int i
      | VBool b \<Rightarrow> float_of_int (if b then 1 else 0)
      | VFloat f \<Rightarrow> Inr f
      | _ \<Rightarrow> contract_error (fld @ '' must be a number''))"

definition or_text :: "string option \<Rightarrow> string \<Rightarrow> string" where
  "or_text x dflt = (case x of None \<Rightarrow> dflt | Some s \<Rightarrow> s)"

text \<open>\<open>d.get(k, dflt)\<close>\<close>

definition get_default :: "pydict \<Rightarrow> string \<Rightarrow> pyv \<Rightarrow> pyv" where
  "get_default d k dflt = (case get_item d k of None \<Rightarrow> dflt | Some v \<Rightarrow> v)"

section \<open>Loading\<close>

definition event_requirement_from :: "pydict \<Rightarrow> ContractEventRequirement res" where
  "event_requirement_from item =
     bnd (contract_string item ''type'') (\<lambda>t.
     bnd (strings_value (get_default item ''requiredFields'' (VTuple []))) (\<lambda>fs.
     Inr \<lparr>cer_event_type = t, cer_required_fields = fs\<rparr>))"

definition relationship_from :: "pydict \<Rightarrow> ContractRelationshipRequirement res" where
  "relationship_from item =
     bnd (contract_string item ''child'') (\<lambda>child.
     bnd (contract_string item ''parent'') (\<lambda>parent.
     Inr \<lparr>crr_child_event_type = child, crr_parent_event_type = parent,
          crr_reference_field = string_or_none (get_or_none item ''referenceField'')\<rparr>))"

definition evidence_link_from :: "pydict \<Rightarrow> ContractEvidenceLinkRequirement res" where
  "evidence_link_from item =
     bnd (strings_value (get_default item ''corroborationTypes'' (VTuple []))) (\<lambda>types.
     Inr \<lparr>cel_event_type = or_text (string_or_none (get_or_none item ''eventType'')) ''side_effect.verified'',
          cel_subject_event_type = string_or_none (get_or_none item ''subjectEventType''),
          cel_evidence_event_type = string_or_none (get_or_none item ''evidenceEventType''),
          cel_relationship = string_or_none (get_or_none item ''relationship''),
          cel_verification_status = string_or_none (get_or_none item ''verificationStatus''),
          cel_corroboration_types = types,
          cel_observer_identity = string_or_none (get_or_none item ''observerIdentity'')\<rparr>)"

definition latency_from :: "pydict \<Rightarrow> ContractLatencyRequirement res" where
  "latency_from item =
     bnd (contract_string item ''startEventType'') (\<lambda>s.
     bnd (contract_string item ''endEventType'') (\<lambda>e.
     bnd (contract_number item ''maxSeconds'') (\<lambda>m.
     bnd (strings_value (get_default item ''groupBy'' (VTuple [VStr ''correlation.run_id'']))) (\<lambda>g.
     Inr \<lparr>clr_start_event_type = s, clr_end_event_type = e, clr_max_seconds = m, clr_group_by = g\<rparr>))))"

definition descriptor_from :: "pydict \<Rightarrow> ContractDescriptorRequirement res" where
  "descriptor_from item =
     bnd (contract_string item ''eventType'') (\<lambda>t.
     Inr \<lparr>cdr_event_type = t,
          cdr_descriptor_hash_field =
            or_text (string_or_none (get_or_none item ''descriptorHashField''))
              ''payload.tool_identity.descriptor_hash'',
          cdr_tool_name_field =
            or_text (string_or_none (get_or_none item ''toolNameField'')) ''payload.tool_identity.name'',
          cdr_hash_prefix = or_text (string_or_none (get_or_none item ''hashPrefix'')) ''sha256:''\<rparr>)"

definition detection_from :: "pydict \<Rightarrow> ContractDetectionRequirement res" where
  "detection_from item =
     bnd (contract_string item ''ruleId'') (\<lambda>i.
     bnd (strings_value (get_default item ''requiredEventTypes'' (VTuple []))) (\<lambda>ts.
     bnd (strings_value (get_default item ''requiredVerificationStatuses'' (VTuple []))) (\<lambda>ss.
     Inr \<lparr>cxr_rule_id = i, cxr_required = truthy (get_default item ''required'' (VBool True)),
          cxr_required_event_types = ts, cxr_required_verification_statuses = ss\<rparr>)))"

definition section_from ::
  "pydict \<Rightarrow> string \<Rightarrow> (pydict \<Rightarrow> 'a res) \<Rightarrow> 'a list res" where
  "section_from requirements name f =
     bnd (objects_value (get_default requirements name (VTuple [])) (''requirements.'' @ name)) (traverse f)"

definition requirements_from :: "string \<Rightarrow> pydict \<Rightarrow> LineageContract res" where
  "requirements_from name requirements =
     bnd (object_value (get_or_none requirements ''verification'') ''requirements.verification'') (\<lambda>verification.
     bnd (object_value (get_or_none requirements ''integrity'') ''requirements.integrity'') (\<lambda>integrity.
     bnd (section_from requirements ''events'' event_requirement_from) (\<lambda>events.
     bnd (section_from requirements ''relationships'' relationship_from) (\<lambda>relationships.
     bnd (section_from requirements ''evidenceLinks'' evidence_link_from) (\<lambda>links.
     bnd (section_from requirements ''latency'' latency_from) (\<lambda>latencies.
     bnd (section_from requirements ''descriptors'' descriptor_from) (\<lambda>descriptors.
     bnd (section_from requirements ''detections'' detection_from) (\<lambda>detections.
     bnd (strings_value (get_default verification ''allowedStatuses'' (VTuple []))) (\<lambda>allowed.
     Inr \<lparr>lc_name = name, lc_events = events, lc_relationships = relationships,
          lc_evidence_links = links, lc_latency_requirements = latencies,
          lc_descriptor_requirements = descriptors, lc_detection_requirements = detections,
          lc_allowed_verification_statuses = set allowed,
          lc_required_verification_status = string_or_none (get_or_none verification ''requiredStatus''),
          lc_hash_chain_required = truthy (get_default integrity ''hashChainRequired'' (VBool True))\<rparr>)))))))))"

definition contract_from_dict :: "pydict \<Rightarrow> LineageContract res" where
  "contract_from_dict data =
     bnd (case get_item data ''spec'' of None \<Rightarrow> Inr data | Some v \<Rightarrow> object_value v ''spec'') (\<lambda>spec.
     bnd (case get_item data ''metadata'' of None \<Rightarrow> Inr [] | Some v \<Rightarrow> object_value v ''metadata'') (\<lambda>metadata.
     bnd (case get_item spec ''requirements'' of
            None \<Rightarrow> Inr spec | Some v \<Rightarrow> object_value v ''spec.requirements'') (\<lambda>requirements.
     case (string_or_none (get_or_none metadata ''name''), string_or_none (get_or_none spec ''name''),
           string_or_none (get_or_none data ''name'')) of
       (Some name, _, _) \<Rightarrow> requirements_from name requirements
     | (None, Some name, _) \<Rightarrow> requirements_from name requirements
     | (None, None, Some name) \<Rightarrow> requirements_from name requirements
     | _ \<Rightarrow> contract_error ''contract metadata.name is required'')))"

text \<open>
  \<open>load_contract\<close> of the bytes of a file: \<open>lineno\<close> is the line that the \<open>JSONDecodeError\<close> of a text
  names.
\<close>

definition load_contract :: "(string \<Rightarrow> nat) \<Rightarrow> bytes \<Rightarrow> LineageContract res" where
  "load_contract lineno file =
     (if \<not> utf8_ok False file then raise UnicodeDecodeError ''invalid utf-8''
      else
        bnd (case loads False file of
               Inl err \<Rightarrow>
                 if is_a (exn_kind err) JSONDecodeError
                 then contract_error (''contract file is not valid JSON; first invalid field: line ''
                        @ nat_repr (lineno file))
                 else Inl err
             | Inr raw \<Rightarrow> Inr raw) (\<lambda>raw.
        case raw of
          VDict d \<Rightarrow> contract_from_dict d
        | _ \<Rightarrow> contract_error ''contract file must contain a JSON object''))"

section \<open>Printing\<close>

definition texts :: "string list \<Rightarrow> pyv" where
  "texts ss = VList (map VStr ss)"

definition event_requirement_dict :: "ContractEventRequirement \<Rightarrow> pyv" where
  "event_requirement_dict r =
     obj [(''type'', VStr (cer_event_type r)), (''requiredFields'', texts (cer_required_fields r))]"

definition relationship_dict :: "ContractRelationshipRequirement \<Rightarrow> pyv" where
  "relationship_dict r =
     obj [(''child'', VStr (crr_child_event_type r)), (''parent'', VStr (crr_parent_event_type r)),
          (''referenceField'', opt_str (crr_reference_field r))]"

definition evidence_link_dict :: "ContractEvidenceLinkRequirement \<Rightarrow> pyv" where
  "evidence_link_dict r =
     obj [(''eventType'', VStr (cel_event_type r)),
          (''subjectEventType'', opt_str (cel_subject_event_type r)),
          (''evidenceEventType'', opt_str (cel_evidence_event_type r)),
          (''relationship'', opt_str (cel_relationship r)),
          (''verificationStatus'', opt_str (cel_verification_status r)),
          (''corroborationTypes'', texts (cel_corroboration_types r)),
          (''observerIdentity'', opt_str (cel_observer_identity r))]"

definition latency_dict :: "ContractLatencyRequirement \<Rightarrow> pyv" where
  "latency_dict r =
     obj [(''startEventType'', VStr (clr_start_event_type r)), (''endEventType'', VStr (clr_end_event_type r)),
          (''maxSeconds'', VFloat (clr_max_seconds r)), (''groupBy'', texts (clr_group_by r))]"

definition descriptor_dict :: "ContractDescriptorRequirement \<Rightarrow> pyv" where
  "descriptor_dict r =
     obj [(''eventType'', VStr (cdr_event_type r)),
          (''descriptorHashField'', VStr (cdr_descriptor_hash_field r)),
          (''toolNameField'', VStr (cdr_tool_name_field r)), (''hashPrefix'', VStr (cdr_hash_prefix r))]"

definition detection_dict :: "ContractDetectionRequirement \<Rightarrow> pyv" where
  "detection_dict r =
     obj [(''ruleId'', VStr (cxr_rule_id r)), (''required'', VBool (cxr_required r)),
          (''requiredEventTypes'', texts (cxr_required_event_types r)),
          (''requiredVerificationStatuses'', texts (cxr_required_verification_statuses r))]"

definition requirements_dict :: "LineageContract \<Rightarrow> pyv" where
  "requirements_dict c =
     obj [(''events'', VList (map event_requirement_dict (lc_events c))),
          (''relationships'', VList (map relationship_dict (lc_relationships c))),
          (''evidenceLinks'', VList (map evidence_link_dict (lc_evidence_links c))),
          (''latency'', VList (map latency_dict (lc_latency_requirements c))),
          (''descriptors'', VList (map descriptor_dict (lc_descriptor_requirements c))),
          (''detections'', VList (map detection_dict (lc_detection_requirements c))),
          (''verification'', obj
             [(''allowedStatuses'', texts (sorted_texts (lc_allowed_verification_statuses c))),
              (''requiredStatus'', opt_str (lc_required_verification_status c))]),
          (''integrity'', obj [(''hashChainRequired'', VBool (lc_hash_chain_required c))])]"

definition contract_to_dict :: "LineageContract \<Rightarrow> pydict" where
  "contract_to_dict c = obj_items
     [(''apiVersion'', VStr CONTRACT_SCHEMA_VERSION), (''kind'', VStr ''LineageContract''),
      (''metadata'', obj [(''name'', VStr (lc_name c))]),
      (''spec'', obj [(''requirements'', requirements_dict c)])]"

definition explain_contract :: "LineageContract \<Rightarrow> pyv" where
  "explain_contract c =
     obj [(''name'', VStr (lc_name c)),
          (''event_requirements'', VInt (int (length (lc_events c)))),
          (''relationship_requirements'', VInt (int (length (lc_relationships c)))),
          (''evidence_link_requirements'', VInt (int (length (lc_evidence_links c)))),
          (''latency_requirements'', VInt (int (length (lc_latency_requirements c)))),
          (''descriptor_requirements'', VInt (int (length (lc_descriptor_requirements c)))),
          (''detection_requirements'', VInt (int (length (lc_detection_requirements c)))),
          (''hash_chain_required'', VBool (lc_hash_chain_required c)),
          (''required_verification_status'', opt_str (lc_required_verification_status c)),
          (''allowed_verification_statuses'', texts (sorted_texts (lc_allowed_verification_statuses c)))]"

text \<open>The contract that \<open>write_contract_template\<close> writes.\<close>

definition contract_template :: "string \<Rightarrow> LineageContract" where
  "contract_template name =
     \<lparr>lc_name = name,
      lc_events =
        [\<lparr>cer_event_type = ''tool.execution.requested'',
          cer_required_fields = [''payload.tool_identity.name'']\<rparr>,
         \<lparr>cer_event_type = ''tool.execution.acknowledged'',
          cer_required_fields = [''payload.acknowledgement.status'']\<rparr>,
         \<lparr>cer_event_type = ''side_effect.verified'',
          cer_required_fields =
            [''payload.evidence_link.subject_event_id'', ''payload.evidence_link.evidence_event_id'',
             ''payload.evidence_link.verification_status'']\<rparr>],
      lc_relationships =
        [\<lparr>crr_child_event_type = ''tool.execution.acknowledged'',
          crr_parent_event_type = ''tool.execution.dispatched'', crr_reference_field = None\<rparr>],
      lc_evidence_links =
        [\<lparr>cel_event_type = ''side_effect.verified'', cel_subject_event_type = None,
          cel_evidence_event_type = None, cel_relationship = None,
          cel_verification_status = Some ''verified'', cel_corroboration_types = [],
          cel_observer_identity = None\<rparr>],
      lc_latency_requirements = [],
      lc_descriptor_requirements =
        [\<lparr>cdr_event_type = ''tool.execution.requested'',
          cdr_descriptor_hash_field = ''payload.tool_identity.descriptor_hash'',
          cdr_tool_name_field = ''payload.tool_identity.name'', cdr_hash_prefix = ''sha256:''\<rparr>],
      lc_detection_requirements = [],
      lc_allowed_verification_statuses =
        {''verified'', ''unverified'', ''timed_out'', ''conflicting'', ''observed''},
      lc_required_verification_status = None, lc_hash_chain_required = True\<rparr>"

end
