(* ===== verification/ContractClaims.thy ===== *)
theory ContractClaims
  imports ContractForms IngestionClaims
begin

text \<open>
  Properties of evidence contracts: what a passing result means, stated without the code's loops
  (\<open>contract_holds\<close>), and the round trip of the JSON form.
\<close>

section \<open>Collecting violations\<close>

lemma collect_Nil: "collect f xs = Inr vs \<Longrightarrow> vs = [] \<longleftrightarrow> (\<forall>x\<in>set xs. f x = Inr [])"
  by (induction xs arbitrary: vs) (fastforce simp: collect_def bnd_Inr_iff)+

lemma any_res_iff: "any_res f xs = Inr b \<Longrightarrow> b \<longleftrightarrow> (\<exists>x\<in>set xs. f x = Inr True)"
proof (induction xs arbitrary: b)
  case (Cons x xs)
  then show ?case by (cases "f x") (auto split: if_splits)
qed simp

lemma collect_any_cong:
  "collect f xs = Inr vs \<Longrightarrow> (\<And>x l. x \<in> set xs \<Longrightarrow> f x = Inr l \<Longrightarrow> l = [] \<longleftrightarrow> P x) \<Longrightarrow>
     vs = [] \<longleftrightarrow> (\<forall>x\<in>set xs. P x)"
proof (induction xs arbitrary: vs)
  case (Cons x xs)
  from Cons.prems(1) obtain l ls where "f x = Inr l" "collect f xs = Inr ls" "vs = l @ ls"
    by (auto simp: collect_def bnd_Inr_iff)
  with Cons.IH [of ls] Cons.prems(2) show ?case by auto
qed (simp add: collect_def)

section \<open>What a contract demands\<close>

text \<open>The event that an identifier names: the last one with it.\<close>

definition named_event :: "view list \<Rightarrow> string \<Rightarrow> event option" where
  "named_event vs i = List.find (\<lambda>e. event_id e = i) (rev (map fst vs))"

definition filled :: "pyv \<Rightarrow> bool" where
  "filled x \<longleftrightarrow> x \<noteq> VNone \<and> \<not> py_eq x (VStr []) \<and> \<not> py_eq x (VList []) \<and> \<not> py_eq x (VDict [])"

definition demands :: "'a option \<Rightarrow> 'a option \<Rightarrow> bool" where
  "demands expected actual \<longleftrightarrow> expected = None \<or> actual = expected"

definition integrity_holds :: "event list \<Rightarrow> VerificationResult option \<Rightarrow> bool" where
  "integrity_holds events verification \<longleftrightarrow>
     (\<exists>r. verification = Some r \<and> vr_ok r \<and> vr_records_verified r = length events
        \<and> vr_last_event_hash r = (if events = [] then None else event_hash (ev_integrity (last events))))"

definition event_holds :: "view list \<Rightarrow> ContractEventRequirement \<Rightarrow> bool" where
  "event_holds vs r \<longleftrightarrow>
     events_of_type vs (cer_event_type r) \<noteq> []
     \<and> (\<forall>fld\<in>set (cer_required_fields r). \<exists>v\<in>set (events_of_type vs (cer_event_type r)).
          \<exists>x. contract_path (snd v) fld = Inr x \<and> filled x)"

definition reference :: "ContractRelationshipRequirement \<Rightarrow> view \<Rightarrow> string option" where
  "reference r v =
     (case crr_reference_field r of
        None \<Rightarrow> parent_event_id (ev_causality (fst v))
      | Some fld \<Rightarrow> (case contract_path (snd v) fld of Inl e \<Rightarrow> None | Inr x \<Rightarrow> string_or_none x))"

definition relationship_holds :: "view list \<Rightarrow> ContractRelationshipRequirement \<Rightarrow> bool" where
  "relationship_holds vs r \<longleftrightarrow>
     (\<exists>child\<in>set vs. \<exists>i parent. event_type (fst child) = crr_child_event_type r
        \<and> reference r child = Some i \<and> named_event vs i = Some parent
        \<and> event_type parent = crr_parent_event_type r)"

definition link_holds :: "view list \<Rightarrow> ContractEvidenceLinkRequirement \<Rightarrow> view \<Rightarrow> bool" where
  "link_holds vs r v \<longleftrightarrow>
     (\<exists>link i j subject evidence.
        contract_path (snd v) ''payload.evidence_link'' = Inr (VDict link)
        \<and> string_or_none (get_or_none link ''subject_event_id'') = Some i
        \<and> string_or_none (get_or_none link ''evidence_event_id'') = Some j
        \<and> named_event vs i = Some subject \<and> named_event vs j = Some evidence
        \<and> demands (cel_subject_event_type r) (Some (event_type subject))
        \<and> demands (cel_evidence_event_type r) (Some (event_type evidence))
        \<and> demands (cel_relationship r) (string_or_none (get_or_none link ''relationship''))
        \<and> demands (cel_verification_status r) (string_or_none (get_or_none link ''verification_status''))
        \<and> demands (cel_observer_identity r) (string_or_none (get_or_none link ''observer_identity''))
        \<and> (cel_corroboration_types r = []
           \<or> string_or_none (get_or_none link ''corroboration_type'') \<in> Some ` set (cel_corroboration_types r)))"

definition evidence_link_holds :: "view list \<Rightarrow> ContractEvidenceLinkRequirement \<Rightarrow> bool" where
  "evidence_link_holds vs r \<longleftrightarrow>
     events_of_type vs (cel_event_type r) \<noteq> []
     \<and> (\<forall>v\<in>set (events_of_type vs (cel_event_type r)). link_holds vs r v)"

text \<open>Each end event has a start event of its group that is nearest to it and near enough.\<close>

definition latency_holds :: "view list \<Rightarrow> ContractLatencyRequirement \<Rightarrow> bool" where
  "latency_holds vs r \<longleftrightarrow>
     events_of_type vs (clr_start_event_type r) \<noteq> [] \<and> events_of_type vs (clr_end_event_type r) \<noteq> []
     \<and> (\<forall>v\<in>set (events_of_type vs (clr_end_event_type r)).
          \<exists>s\<in>set (events_of_type vs (clr_start_event_type r)).
            contract_group_key (clr_group_by r) s = contract_group_key (clr_group_by r) v
            \<and> (\<forall>s'\<in>set (events_of_type vs (clr_start_event_type r)).
                 contract_group_key (clr_group_by r) s' = contract_group_key (clr_group_by r) v \<longrightarrow>
                 time_apart (fst v) (fst s) \<le> time_apart (fst v) (fst s'))
            \<and> \<not> fl_less (clr_max_seconds r) (seconds_apart (fst v) (fst s)))"

definition descriptor_holds :: "view list \<Rightarrow> ContractDescriptorRequirement \<Rightarrow> bool" where
  "descriptor_holds vs r \<longleftrightarrow>
     events_of_type vs (cdr_event_type r) \<noteq> []
     \<and> (\<forall>v\<in>set (events_of_type vs (cdr_event_type r)).
          \<exists>tool hash. contract_path (snd v) (cdr_tool_name_field r) = Inr (VStr tool) \<and> tool \<noteq> []
            \<and> contract_path (snd v) (cdr_descriptor_hash_field r) = Inr (VStr hash) \<and> hash \<noteq> []
            \<and> py_startswith hash (cdr_hash_prefix r))"

definition detection_holds ::
  "pyv list \<Rightarrow> DetectionMatch list \<Rightarrow> ContractDetectionRequirement \<Rightarrow> bool" where
  "detection_holds objects matches r \<longleftrightarrow>
     (if \<exists>m\<in>set matches. dm_rule_id m = Some (cxr_rule_id r)
      then (\<forall>t\<in>set (cxr_required_event_types r).
              \<exists>x\<in>set objects. string_or_none (dict_get x ''event_type'') = Some t)
           \<and> set (cxr_required_verification_statuses r) \<subseteq> verification_statuses objects
      else \<not> cxr_required r)"

definition statuses_hold :: "LineageContract \<Rightarrow> string set \<Rightarrow> bool" where
  "statuses_hold c statuses \<longleftrightarrow>
     set_option (lc_required_verification_status c) \<subseteq> statuses
     \<and> (lc_allowed_verification_statuses c = {} \<or> statuses \<subseteq> lc_allowed_verification_statuses c)"

definition contract_holds ::
  "LineageContract \<Rightarrow> view list \<Rightarrow> DetectionMatch list \<Rightarrow> VerificationResult option \<Rightarrow> bool" where
  "contract_holds c vs matches verification \<longleftrightarrow>
     (lc_hash_chain_required c \<longrightarrow> integrity_holds (map fst vs) verification)
     \<and> (\<forall>r\<in>set (lc_events c). event_holds vs r)
     \<and> (\<forall>r\<in>set (lc_relationships c). relationship_holds vs r)
     \<and> (\<forall>r\<in>set (lc_evidence_links c). evidence_link_holds vs r)
     \<and> (\<forall>r\<in>set (lc_latency_requirements c). latency_holds vs r)
     \<and> (\<forall>r\<in>set (lc_descriptor_requirements c). descriptor_holds vs r)
     \<and> (\<forall>r\<in>set (lc_detection_requirements c). detection_holds (map snd vs) matches r)
     \<and> statuses_hold c (verification_statuses (map snd vs))"

section \<open>The checks decide the demands\<close>

lemma foldl_dset_find:
  "dget (foldl (\<lambda>d (e, v). dset d (event_id e) e) d0 vs) i =
     (case named_event vs i of Some e \<Rightarrow> Some e | None \<Rightarrow> dget d0 i)"
proof (induction vs rule: rev_induct)
  case (snoc p vs)
  then show ?case by (cases p) (auto simp: named_event_def split: option.splits)
qed (simp add: named_event_def)

lemma events_by_id_named: "dget (events_by_id vs) i = named_event vs i"
  by (simp add: events_by_id_def foldl_dset_find split: option.split)

lemma integrity_iff: "validate_journal_integrity_requirement events v = [] \<longleftrightarrow> integrity_holds events v"
  by (auto simp: validate_journal_integrity_requirement_def integrity_holds_def Let_def split: option.splits)

lemma has_nonempty_field_iff:
  "has_nonempty_field x fld = Inr True \<longleftrightarrow> (\<exists>y. contract_path x fld = Inr y \<and> filled y)"
  by (auto simp: has_nonempty_field_def filled_def bnd_Inr_iff)

lemma event_requirement_iff:
  assumes "validate_event_requirement vs r = Inr l"
  shows "l = [] \<longleftrightarrow> event_holds vs r"
proof (cases "events_of_type vs (cer_event_type r) = []")
  case True
  with assms show ?thesis by (auto simp: validate_event_requirement_def event_holds_def)
next
  case False
  with assms have "collect (\<lambda>fld.
      bnd (any_res (\<lambda>v. has_nonempty_field (snd v) fld) (events_of_type vs (cer_event_type r))) (\<lambda>present.
        Inr (if present then []
             else [(violation ''required_field_missing'' (''required field is missing: '' @ fld)
                      ''populate this field at the redaction boundary'')
                    \<lparr>cv_event_type := Some (cer_event_type r), cv_field := Some fld\<rparr>])))
      (cer_required_fields r) = Inr l"
    by (simp add: validate_event_requirement_def)
  then have "l = [] \<longleftrightarrow> (\<forall>fld\<in>set (cer_required_fields r). \<exists>v\<in>set (events_of_type vs (cer_event_type r)).
       has_nonempty_field (snd v) fld = Inr True)"
  proof (rule collect_any_cong)
    fix fld l
    assume "bnd (any_res (\<lambda>v. has_nonempty_field (snd v) fld) (events_of_type vs (cer_event_type r))) (\<lambda>present.
        Inr (if present then []
             else [(violation ''required_field_missing'' (''required field is missing: '' @ fld)
                      ''populate this field at the redaction boundary'')
                    \<lparr>cv_event_type := Some (cer_event_type r), cv_field := Some fld\<rparr>])) = Inr l"
    then obtain b where b: "any_res (\<lambda>v. has_nonempty_field (snd v) fld) (events_of_type vs (cer_event_type r)) = Inr b"
      "l = [] \<longleftrightarrow> b" by (auto simp: bnd_Inr_iff split: if_splits)
    show "l = [] \<longleftrightarrow> (\<exists>v\<in>set (events_of_type vs (cer_event_type r)). has_nonempty_field (snd v) fld = Inr True)"
      using any_res_iff [OF b(1)] b(2) by simp
  qed
  then show ?thesis using False by (simp add: event_holds_def has_nonempty_field_iff)
qed

lemma related_child_iff:
  "related_child (events_by_id vs) r child = Inr True \<longleftrightarrow>
     (\<exists>i parent. reference r child = Some i \<and> named_event vs i = Some parent
        \<and> event_type parent = crr_parent_event_type r)"
proof -
  have "related_child (events_by_id vs) r child = Inr True \<longleftrightarrow>
     (case reference r child of None \<Rightarrow> False
      | Some i \<Rightarrow> (case named_event vs i of None \<Rightarrow> False
          | Some parent \<Rightarrow> event_type parent = crr_parent_event_type r))"
    by (cases "crr_reference_field r"; cases "contract_path (snd child) (the (crr_reference_field r))")
      (simp_all add: related_child_def reference_def events_by_id_named cong: option.case_cong)
  then show ?thesis by (auto split: option.splits)
qed

lemma bex_filter: "(\<exists>x\<in>set (filter P xs). Q x) \<longleftrightarrow> (\<exists>x\<in>set xs. P x \<and> Q x)"
  by auto

lemma relationship_iff:
  assumes "validate_relationship vs (events_by_id vs) r = Inr l"
  shows "l = [] \<longleftrightarrow> relationship_holds vs r"
proof -
  from assms obtain b where b: "relationship_exists vs (events_by_id vs) r = Inr b" "l = [] \<longleftrightarrow> b"
    by (auto simp: validate_relationship_def bnd_Inr_iff split: if_splits)
  have "b \<longleftrightarrow> relationship_holds vs r"
    unfolding any_res_iff [OF b(1) [unfolded relationship_exists_def]] relationship_holds_def
      related_child_iff events_of_type_def bex_filter by blast
  with b(2) show ?thesis by simp
qed

lemma link_types_iff:
  "validate_evidence_link_types e r link subject evidence = [] \<longleftrightarrow>
     demands (cel_subject_event_type r) (Some (event_type subject))
     \<and> demands (cel_evidence_event_type r) (Some (event_type evidence))
     \<and> demands (cel_relationship r) (string_or_none (get_or_none link ''relationship''))
     \<and> demands (cel_verification_status r) (string_or_none (get_or_none link ''verification_status''))
     \<and> demands (cel_observer_identity r) (string_or_none (get_or_none link ''observer_identity''))
     \<and> (cel_corroboration_types r = []
        \<or> string_or_none (get_or_none link ''corroboration_type'') \<in> Some ` set (cel_corroboration_types r))"
  by (simp add: validate_evidence_link_types_def evidence_link_checks_def demands_def Let_def)

lemma evidence_link_iff:
  assumes "validate_evidence_link (events_by_id vs) r v = Inr l"
  shows "l = [] \<longleftrightarrow> link_holds vs r v"
proof -
  obtain x where x: "contract_path (snd v) ''payload.evidence_link'' = Inr x"
    using assms by (auto simp: validate_evidence_link_def bnd_Inr_iff)
  show ?thesis
    using assms unfolding validate_evidence_link_def link_holds_def x
    by (cases x) (auto simp: events_by_id_named link_types_iff split: option.splits)
qed

lemma evidence_link_requirement_iff:
  assumes "validate_evidence_link_requirement vs (events_by_id vs) r = Inr l"
  shows "l = [] \<longleftrightarrow> evidence_link_holds vs r"
proof (cases "events_of_type vs (cel_event_type r) = []")
  case True
  with assms show ?thesis by (auto simp: validate_evidence_link_requirement_def evidence_link_holds_def)
next
  case False
  with assms have "collect (validate_evidence_link (events_by_id vs) r)
      (events_of_type vs (cel_event_type r)) = Inr l"
    by (simp add: validate_evidence_link_requirement_def)
  then have "l = [] \<longleftrightarrow> (\<forall>v\<in>set (events_of_type vs (cel_event_type r)). link_holds vs r v)"
    by (rule collect_any_cong) (rule evidence_link_iff)
  then show ?thesis using False by (simp add: evidence_link_holds_def)
qed

text \<open>Grouping keeps the events of a key, in order.\<close>

lemma dget_group_append:
  "dget (group_append g k e) k' =
     (if k' = k then Some ((case dget g k of None \<Rightarrow> [] | Some es \<Rightarrow> es) @ [e]) else dget g k')"
  by (induction g k e rule: group_append.induct) auto

lemma contract_group_by_dget:
  "contract_group_by paths vs g = Inr g' \<Longrightarrow>
     (case dget g' k of None \<Rightarrow> [] | Some es \<Rightarrow> es)
       = (case dget g k of None \<Rightarrow> [] | Some es \<Rightarrow> es)
         @ map fst (filter (\<lambda>v. contract_group_key paths v = Inr k) vs)"
proof (induction paths vs g rule: contract_group_by.induct)
  case (2 paths v vs g)
  then obtain k0 where "contract_group_key paths v = Inr k0"
    "contract_group_by paths vs (group_append g k0 (fst v)) = Inr g'"
    by (auto simp: bnd_Inr_iff)
  with "2.IH" [of k0] show ?case by (auto simp: dget_group_append)
qed simp

lemma nearest_in: "nearest t b es \<in> insert b (set es)"
  by (induction t b es rule: nearest.induct) auto

lemma nearest_least: "e \<in> insert b (set es) \<Longrightarrow> time_apart t (nearest t b es) \<le> time_apart t e"
proof (induction t b es arbitrary: e rule: nearest.induct)
  case (2 t b x es)
  show ?case
    using "2.IH" [of e] "2.IH" [of "if time_apart t x < time_apart t b then x else b"] "2.prems"
    by (auto split: if_splits)
qed simp

lemma latency_end_iff:
  assumes l: "validate_latency_end r g v = Inr l"
    and g: "contract_group_by (clr_group_by r) starts [] = Inr g"
  shows "l = [] \<longleftrightarrow>
     (\<exists>s\<in>set starts. contract_group_key (clr_group_by r) s = contract_group_key (clr_group_by r) v
        \<and> (\<forall>s'\<in>set starts. contract_group_key (clr_group_by r) s' = contract_group_key (clr_group_by r) v \<longrightarrow>
             time_apart (fst v) (fst s) \<le> time_apart (fst v) (fst s'))
        \<and> \<not> fl_less (clr_max_seconds r) (seconds_apart (fst v) (fst s)))"
proof -
  obtain k where k: "contract_group_key (clr_group_by r) v = Inr k"
    using l by (auto simp: validate_latency_end_def bnd_Inr_iff)
  define mine where "mine = filter (\<lambda>s. contract_group_key (clr_group_by r) s = Inr k) starts"
  have m: "(case dget g k of None \<Rightarrow> [] | Some es \<Rightarrow> es) = map fst mine"
    using contract_group_by_dget [OF g, of k] by (simp add: mine_def)
  show ?thesis
  proof (cases "map fst mine")
    case Nil
    then have "l \<noteq> []"
      using l m unfolding validate_latency_end_def k by (auto split: option.splits list.splits)
    moreover have "\<forall>s\<in>set starts. contract_group_key (clr_group_by r) s \<noteq> Inr k"
      using Nil by (auto simp: mine_def filter_empty_conv)
    ultimately show ?thesis unfolding k by auto
  next
    case (Cons e es)
    with m have d: "dget g k = Some (e # es)" by (auto split: option.splits)
    let ?n = "nearest (fst v) e es"
    have l': "l = [] \<longleftrightarrow> \<not> fl_less (clr_max_seconds r) (seconds_apart (fst v) ?n)"
      using l unfolding validate_latency_end_def k by (auto simp: d Let_def)
    have "?n \<in> set (map fst mine)" using nearest_in [of "fst v" e es] unfolding Cons by simp
    then obtain s where s: "s \<in> set mine" "fst s = ?n" by auto
    have least: "time_apart (fst v) ?n \<le> time_apart (fst v) (fst s')" if "s' \<in> set mine" for s'
    proof (rule nearest_least)
      have "fst s' \<in> set (map fst mine)" using that by simp
      then show "fst s' \<in> insert e (set es)" unfolding Cons by simp
    qed
    have same: "seconds_apart (fst v) (fst t) = seconds_apart (fst v) ?n"
      if "t \<in> set mine" "\<forall>s'\<in>set mine. time_apart (fst v) (fst t) \<le> time_apart (fst v) (fst s')" for t
    proof -
      have "time_apart (fst v) (fst t) \<le> time_apart (fst v) ?n" using that(2) s by force
      then show ?thesis using least [OF that(1)] by (simp add: seconds_apart_def)
    qed
    show ?thesis
      (is "_ \<longleftrightarrow> ?rhs")
    proof
      have mem: "t \<in> set mine \<longleftrightarrow> t \<in> set starts \<and> contract_group_key (clr_group_by r) t
          = contract_group_key (clr_group_by r) v" for t by (auto simp: mine_def k)
      {
        assume "l = []"
        then have "\<not> fl_less (clr_max_seconds r) (seconds_apart (fst v) (fst s))" using l' s(2) by simp
        moreover have "\<forall>s'\<in>set starts. contract_group_key (clr_group_by r) s' = contract_group_key (clr_group_by r) v
            \<longrightarrow> time_apart (fst v) (fst s) \<le> time_apart (fst v) (fst s')"
          using least mem s(2) by simp
        ultimately show ?rhs using s(1) mem by blast
      next
        assume ?rhs
        then obtain t where u: "t \<in> set starts"
          "contract_group_key (clr_group_by r) t = contract_group_key (clr_group_by r) v"
          "\<forall>s'\<in>set starts. contract_group_key (clr_group_by r) s' = contract_group_key (clr_group_by r) v
             \<longrightarrow> time_apart (fst v) (fst t) \<le> time_apart (fst v) (fst s')"
          "\<not> fl_less (clr_max_seconds r) (seconds_apart (fst v) (fst t))" by (elim bexE conjE)
        have t: "t \<in> set mine" "\<forall>s'\<in>set mine. time_apart (fst v) (fst t) \<le> time_apart (fst v) (fst s')"
          using u(1-3) by (simp_all add: mem)
        show "l = []" using u(4) unfolding l' same [OF t] .
      }
    qed
  qed
qed

lemma latency_requirement_iff:
  assumes "validate_latency_requirement vs r = Inr l"
  shows "l = [] \<longleftrightarrow> latency_holds vs r"
proof (cases "events_of_type vs (clr_start_event_type r) = [] \<or> events_of_type vs (clr_end_event_type r) = []")
  case True
  with assms show ?thesis by (auto simp: validate_latency_requirement_def latency_holds_def Let_def)
next
  case False
  with assms obtain g where
    g: "contract_group_by (clr_group_by r) (events_of_type vs (clr_start_event_type r)) [] = Inr g"
    and c: "collect (validate_latency_end r g) (events_of_type vs (clr_end_event_type r)) = Inr l"
    by (auto simp: validate_latency_requirement_def bnd_Inr_iff Let_def)
  have "l = [] \<longleftrightarrow> (\<forall>v\<in>set (events_of_type vs (clr_end_event_type r)).
      \<exists>s\<in>set (events_of_type vs (clr_start_event_type r)).
        contract_group_key (clr_group_by r) s = contract_group_key (clr_group_by r) v
        \<and> (\<forall>s'\<in>set (events_of_type vs (clr_start_event_type r)).
             contract_group_key (clr_group_by r) s' = contract_group_key (clr_group_by r) v \<longrightarrow>
             time_apart (fst v) (fst s) \<le> time_apart (fst v) (fst s'))
        \<and> \<not> fl_less (clr_max_seconds r) (seconds_apart (fst v) (fst s)))"
    using c by (rule collect_any_cong) (rule latency_end_iff [OF _ g])
  then show ?thesis using False by (simp add: latency_holds_def)
qed

lemma string_or_none_Some: "string_or_none v = Some s \<longleftrightarrow> v = VStr s \<and> s \<noteq> []"
  by (auto simp: string_or_none_def split: pyv.splits)

lemma descriptor_requirement_iff:
  assumes "validate_descriptor_requirement vs r = Inr l"
  shows "l = [] \<longleftrightarrow> descriptor_holds vs r"
proof (cases "events_of_type vs (cdr_event_type r) = []")
  case True
  with assms show ?thesis by (auto simp: validate_descriptor_requirement_def descriptor_holds_def)
next
  case False
  with assms have "collect (validate_descriptor r) (events_of_type vs (cdr_event_type r)) = Inr l"
    by (simp add: validate_descriptor_requirement_def)
  then have "l = [] \<longleftrightarrow> (\<forall>v\<in>set (events_of_type vs (cdr_event_type r)).
      \<exists>tool hash. contract_path (snd v) (cdr_tool_name_field r) = Inr (VStr tool) \<and> tool \<noteq> []
        \<and> contract_path (snd v) (cdr_descriptor_hash_field r) = Inr (VStr hash) \<and> hash \<noteq> []
        \<and> py_startswith hash (cdr_hash_prefix r))"
  proof (rule collect_any_cong)
    fix v l
    assume "validate_descriptor r v = Inr l"
    then obtain tool hash where "contract_path (snd v) (cdr_tool_name_field r) = Inr tool"
      "contract_path (snd v) (cdr_descriptor_hash_field r) = Inr hash"
      "l = [] \<longleftrightarrow> (\<exists>t h. string_or_none tool = Some t \<and> string_or_none hash = Some h
           \<and> py_startswith h (cdr_hash_prefix r))"
      by (auto simp: validate_descriptor_def bnd_Inr_iff split: option.splits if_splits)
    then show "l = [] \<longleftrightarrow> (\<exists>tool hash. contract_path (snd v) (cdr_tool_name_field r) = Inr (VStr tool)
        \<and> tool \<noteq> [] \<and> contract_path (snd v) (cdr_descriptor_hash_field r) = Inr (VStr hash) \<and> hash \<noteq> []
        \<and> py_startswith hash (cdr_hash_prefix r))"
      by (auto simp: string_or_none_Some)
  qed
  then show ?thesis using False by (simp add: descriptor_holds_def)
qed

lemma detection_requirement_iff:
  "validate_detection_requirement objects matches r = [] \<longleftrightarrow> detection_holds objects matches r"
  by (auto simp: validate_detection_requirement_def detection_holds_def Let_def filter_empty_conv)

lemma finite_statuses: "finite (verification_statuses objects)"
  by (simp add: verification_statuses_def)

lemma statuses_iff: "validate_statuses c (verification_statuses objects) = []
    \<longleftrightarrow> statuses_hold c (verification_statuses objects)"
  using finite_statuses [of objects]
  by (auto simp: validate_statuses_def statuses_hold_def sorted_texts_def split: option.splits)

text \<open>What a loaded contract looks like: the texts that the JSON form cannot tell from a missing
  member do not occur.\<close>

definition wf_texts :: "string list \<Rightarrow> bool" where
  "wf_texts ss \<longleftrightarrow> [] \<notin> set ss"

lemma strings_texts: "wf_texts ss \<Longrightarrow> strings_value (texts ss) = Inr ss"
proof -
  assume w: "wf_texts ss"
  have "traverse (\<lambda>x. case string_or_none x of None \<Rightarrow> contract_error ''expected a list of nonempty strings''
      | Some s \<Rightarrow> Inr s) (map VStr ss) = Inr ss"
    using w by (induction ss) (auto simp: wf_texts_def string_or_none_def)
  then show ?thesis by (simp add: strings_value_def texts_def)
qed

definition wf_opt_text :: "string option \<Rightarrow> bool" where
  "wf_opt_text x \<longleftrightarrow> x \<noteq> Some []"

definition wf_evidence_link :: "ContractEvidenceLinkRequirement \<Rightarrow> bool" where
  "wf_evidence_link r \<longleftrightarrow>
     cel_event_type r \<noteq> [] \<and> wf_opt_text (cel_subject_event_type r) \<and> wf_opt_text (cel_evidence_event_type r)
     \<and> wf_opt_text (cel_relationship r) \<and> wf_opt_text (cel_verification_status r)
     \<and> wf_texts (cel_corroboration_types r) \<and> wf_opt_text (cel_observer_identity r)"

definition wf_contract :: "LineageContract \<Rightarrow> bool" where
  "wf_contract c \<longleftrightarrow>
     lc_name c \<noteq> []
     \<and> (\<forall>r\<in>set (lc_events c). cer_event_type r \<noteq> [] \<and> wf_texts (cer_required_fields r))
     \<and> (\<forall>r\<in>set (lc_relationships c). crr_child_event_type r \<noteq> [] \<and> crr_parent_event_type r \<noteq> []
          \<and> wf_opt_text (crr_reference_field r))
     \<and> (\<forall>r\<in>set (lc_evidence_links c). wf_evidence_link r)
     \<and> (\<forall>r\<in>set (lc_latency_requirements c). clr_start_event_type r \<noteq> [] \<and> clr_end_event_type r \<noteq> []
          \<and> wf_texts (clr_group_by r))
     \<and> (\<forall>r\<in>set (lc_descriptor_requirements c). cdr_event_type r \<noteq> [] \<and> cdr_descriptor_hash_field r \<noteq> []
          \<and> cdr_tool_name_field r \<noteq> [] \<and> cdr_hash_prefix r \<noteq> [])
     \<and> (\<forall>r\<in>set (lc_detection_requirements c). cxr_rule_id r \<noteq> [] \<and> wf_texts (cxr_required_event_types r)
          \<and> wf_texts (cxr_required_verification_statuses r))
     \<and> finite (lc_allowed_verification_statuses c) \<and> [] \<notin> lc_allowed_verification_statuses c
     \<and> wf_opt_text (lc_required_verification_status c)"

lemma string_or_none_opt: "wf_opt_text x \<Longrightarrow> string_or_none (opt_str x) = x"
  by (cases x) (simp_all add: string_or_none_def wf_opt_text_def)

lemma string_or_none_VStr: "string_or_none (VStr s) = (if s = [] then None else Some s)"
  by (simp add: string_or_none_def)

lemmas form_simps = contract_string_def get_or_none_def get_default_def strings_texts string_or_none_opt
  string_or_none_VStr or_text_def contract_number_def

lemma requirement_round_trips:
  "cer_event_type e \<noteq> [] \<Longrightarrow> wf_texts (cer_required_fields e) \<Longrightarrow>
     event_requirement_dict e = VDict d \<Longrightarrow> event_requirement_from d = Inr e"
  "crr_child_event_type r \<noteq> [] \<Longrightarrow> crr_parent_event_type r \<noteq> [] \<Longrightarrow> wf_opt_text (crr_reference_field r) \<Longrightarrow>
     relationship_dict r = VDict d \<Longrightarrow> relationship_from d = Inr r"
  "wf_evidence_link l \<Longrightarrow> evidence_link_dict l = VDict d \<Longrightarrow> evidence_link_from d = Inr l"
  "clr_start_event_type t \<noteq> [] \<Longrightarrow> clr_end_event_type t \<noteq> [] \<Longrightarrow> wf_texts (clr_group_by t) \<Longrightarrow>
     latency_dict t = VDict d \<Longrightarrow> latency_from d = Inr t"
  "cdr_event_type x \<noteq> [] \<Longrightarrow> cdr_descriptor_hash_field x \<noteq> [] \<Longrightarrow> cdr_tool_name_field x \<noteq> [] \<Longrightarrow>
     cdr_hash_prefix x \<noteq> [] \<Longrightarrow> descriptor_dict x = VDict d \<Longrightarrow> descriptor_from d = Inr x"
  "cxr_rule_id y \<noteq> [] \<Longrightarrow> wf_texts (cxr_required_event_types y) \<Longrightarrow>
     wf_texts (cxr_required_verification_statuses y) \<Longrightarrow>
     detection_dict y = VDict d \<Longrightarrow> detection_from d = Inr y"
  by (auto simp: event_requirement_dict_def event_requirement_from_def relationship_dict_def
      relationship_from_def evidence_link_dict_def evidence_link_from_def latency_dict_def latency_from_def
      descriptor_dict_def descriptor_from_def detection_dict_def detection_from_def wf_evidence_link_def
      form_simps)

text \<open>A section that was printed from requirements is read back.\<close>

lemma section_round_trip:
  assumes "get_item d name = Some (VList (map f rs))"
    and "\<And>r. r \<in> set rs \<Longrightarrow> \<exists>e. f r = VDict e \<and> g e = Inr r"
  shows "section_from d name g = Inr rs"
proof -
  have "\<exists>ds. traverse (object_item fld) (enumerate n (map f rs)) = Inr ds \<and> traverse g ds = Inr rs" for n fld
    using assms(2)
  proof (induction rs arbitrary: n)
    case (Cons r rs)
    obtain e where e: "f r = VDict e" "g e = Inr r" using Cons.prems by fastforce
    obtain ds where "traverse (object_item fld) (enumerate (Suc n) (map f rs)) = Inr ds" "traverse g ds = Inr rs"
      using Cons.IH [of "Suc n"] Cons.prems by fastforce
    moreover have "object_item fld (n, VDict e) = Inr e" by (simp add: object_item_def)
    ultimately show ?case using e by simp
  qed simp
  from this [of "''requirements.'' @ name" 0] show ?thesis
    using assms(1) by (auto simp: section_from_def get_default_def objects_value_def)
qed

lemma requirement_sections:
  assumes "wf_contract c" "requirements_dict c = VDict d"
  shows "section_from d ''events'' event_requirement_from = Inr (lc_events c)"
    and "section_from d ''relationships'' relationship_from = Inr (lc_relationships c)"
    and "section_from d ''evidenceLinks'' evidence_link_from = Inr (lc_evidence_links c)"
    and "section_from d ''latency'' latency_from = Inr (lc_latency_requirements c)"
    and "section_from d ''descriptors'' descriptor_from = Inr (lc_descriptor_requirements c)"
    and "section_from d ''detections'' detection_from = Inr (lc_detection_requirements c)"
proof -
  note w = assms(1) [unfolded wf_contract_def]
  have d: "get_item d ''events'' = Some (VList (map event_requirement_dict (lc_events c)))"
    "get_item d ''relationships'' = Some (VList (map relationship_dict (lc_relationships c)))"
    "get_item d ''evidenceLinks'' = Some (VList (map evidence_link_dict (lc_evidence_links c)))"
    "get_item d ''latency'' = Some (VList (map latency_dict (lc_latency_requirements c)))"
    "get_item d ''descriptors'' = Some (VList (map descriptor_dict (lc_descriptor_requirements c)))"
    "get_item d ''detections'' = Some (VList (map detection_dict (lc_detection_requirements c)))"
    using assms(2) by (auto simp: requirements_dict_def)
  show "section_from d ''events'' event_requirement_from = Inr (lc_events c)"
    using w requirement_round_trips(1)
    by (intro section_round_trip [OF d(1)]) (auto simp: event_requirement_dict_def)
  show "section_from d ''relationships'' relationship_from = Inr (lc_relationships c)"
    using w requirement_round_trips(2)
    by (intro section_round_trip [OF d(2)]) (auto simp: relationship_dict_def)
  show "section_from d ''evidenceLinks'' evidence_link_from = Inr (lc_evidence_links c)"
    using w requirement_round_trips(3)
    by (intro section_round_trip [OF d(3)]) (auto simp: evidence_link_dict_def)
  show "section_from d ''latency'' latency_from = Inr (lc_latency_requirements c)"
    using w requirement_round_trips(4)
    by (intro section_round_trip [OF d(4)]) (auto simp: latency_dict_def)
  show "section_from d ''descriptors'' descriptor_from = Inr (lc_descriptor_requirements c)"
    using w requirement_round_trips(5)
    by (intro section_round_trip [OF d(5)]) (auto simp: descriptor_dict_def)
  show "section_from d ''detections'' detection_from = Inr (lc_detection_requirements c)"
    using w requirement_round_trips(6)
    by (intro section_round_trip [OF d(6)]) (auto simp: detection_dict_def)
qed

lemma requirements_round_trip:
  assumes "wf_contract c" "requirements_dict c = VDict d"
  shows "requirements_from (lc_name c) d = Inr c"
proof -
  note w = assms(1) [unfolded wf_contract_def]
  let ?A = "lc_allowed_verification_statuses c"
  have a: "wf_texts (sorted_texts ?A)" "set (sorted_texts ?A) = ?A"
    using w by (simp_all add: wf_texts_def sorted_texts_def)
  have v: "get_item d ''verification'' = Some (obj [(''allowedStatuses'', texts (sorted_texts ?A)),
      (''requiredStatus'', opt_str (lc_required_verification_status c))])"
    "get_item d ''integrity'' = Some (obj [(''hashChainRequired'', VBool (lc_hash_chain_required c))])"
    using assms(2) by (auto simp: requirements_dict_def)
  show ?thesis
    using w a unfolding requirements_from_def requirement_sections [OF assms]
    by (simp add: v form_simps object_value_def)
qed

section \<open>Properties\<close>

text \<open>C29. What a passing contract means: when the validation returns, it is ok exactly when the
  declarative reading of the contract holds of the events and their dumps. Every requirement is
  spelled out there with quantifiers over events: present types and filled fields, a child whose
  reference names an event of the parent type, evidence links of every event of the type with both
  ends present and the demanded attributes, for every end event a nearest start event of its group
  within the limit, descriptor hashes, detections with their dependencies, and the statuses.\<close>

theorem contract_ok_iff:
  assumes "validate_contract pd events c matches verification = Inr r"
  shows "\<exists>objects. list_all2 (\<lambda>e x. event_to_dict pd e = Inr x) events objects
           \<and> cr_ok r = contract_holds c (zip events objects) matches verification"
proof -
  obtain objects ev rel link lat desc where o: "traverse (event_to_dict pd) events = Inr objects"
    and ev: "collect (validate_event_requirement (zip events objects)) (lc_events c) = Inr ev"
    and rel: "collect (validate_relationship (zip events objects) (events_by_id (zip events objects)))
        (lc_relationships c) = Inr rel"
    and link: "collect (validate_evidence_link_requirement (zip events objects)
        (events_by_id (zip events objects))) (lc_evidence_links c) = Inr link"
    and lat: "collect (validate_latency_requirement (zip events objects)) (lc_latency_requirements c) = Inr lat"
    and desc: "collect (validate_descriptor_requirement (zip events objects))
        (lc_descriptor_requirements c) = Inr desc"
    and r: "cr_ok r = ((if lc_hash_chain_required c
               then validate_journal_integrity_requirement events verification else [])
             @ ev @ rel @ link @ lat @ desc
             @ concat (map (validate_detection_requirement objects matches) (lc_detection_requirements c))
             @ validate_statuses c (verification_statuses objects) = [])"
    using assms by (auto simp: validate_contract_def bnd_Inr_iff Let_def)
  have l: "list_all2 (\<lambda>e x. event_to_dict pd e = Inr x) events objects"
    using o by (simp add: traverse_Inr_iff)
  have z: "map fst (zip events objects) = events" "map snd (zip events objects) = objects"
    using list_all2_lengthD [OF l] by simp_all
  have v: "ev = [] \<longleftrightarrow> (\<forall>r\<in>set (lc_events c). event_holds (zip events objects) r)"
    "rel = [] \<longleftrightarrow> (\<forall>r\<in>set (lc_relationships c). relationship_holds (zip events objects) r)"
    "link = [] \<longleftrightarrow> (\<forall>r\<in>set (lc_evidence_links c). evidence_link_holds (zip events objects) r)"
    "lat = [] \<longleftrightarrow> (\<forall>r\<in>set (lc_latency_requirements c). latency_holds (zip events objects) r)"
    "desc = [] \<longleftrightarrow> (\<forall>r\<in>set (lc_descriptor_requirements c). descriptor_holds (zip events objects) r)"
    by (rule collect_any_cong [OF ev], rule event_requirement_iff, assumption)
      (rule collect_any_cong [OF rel], rule relationship_iff, assumption,
       rule collect_any_cong [OF link], rule evidence_link_requirement_iff, assumption,
       rule collect_any_cong [OF lat], rule latency_requirement_iff, assumption,
       rule collect_any_cong [OF desc], rule descriptor_requirement_iff, assumption)
  have "cr_ok r = contract_holds c (zip events objects) matches verification"
    unfolding r contract_holds_def z
    by (simp add: integrity_iff v statuses_iff detection_requirement_iff)
  with l show ?thesis by blast
qed

text \<open>The integrity requirement of a contract compares the events with the verification of a
  journal: for the events of one verified journal and the verification of another it is met
  exactly when both journals are the same bytes, up to a SHA-256 collision of their records.\<close>

theorem contract_integrity_iff:
  assumes "pydantic_laws pd"
    and "verified_journal_snapshot pd stat n h file = Inr s" "snapshot_ok s"
    and "verified_journal_snapshot pd stat' n' h' other = Inr t" "snapshot_ok t"
    and "\<not> collision sha256_digest (hash_content pd ` set (js_events s)) (hash_content pd ` set (js_events t))"
  shows "validate_journal_integrity_requirement (js_events t) (Some (js_verification s)) = []
           \<longleftrightarrow> file_bytes file = file_bytes other"
proof -
  have laws: "pydantic_laws pd" by (rule assms(1))
  note s = snapshot_okD [OF laws assms(2,3)]
  note t = snapshot_okD [OF laws assms(4,5)]
  have last: "terminal None es = (if es = [] then None else event_hash (ev_integrity (last es)))" for es
    by (cases es rule: rev_cases) simp_all
  have "validate_journal_integrity_requirement (js_events t) (Some (js_verification s)) = []
      \<longleftrightarrow> length (js_events s) = length (js_events t)
          \<and> terminal None (js_events s) = terminal None (js_events t)"
    using s(3,4) assms(3)
    by (auto simp: integrity_iff integrity_holds_def snapshot_ok_def snapshot_record_count_def
        snapshot_terminal_hash_def last)
  also have "\<dots> \<longleftrightarrow> file_bytes file = file_bytes other"
  proof
    assume "length (js_events s) = length (js_events t)
          \<and> terminal None (js_events s) = terminal None (js_events t)"
    then show "file_bytes file = file_bytes other"
      using pydantic_laws.terminal_hash_fixes_journal [OF laws s(2) t(2)] assms(6) s(1) t(1) by auto
  next
    assume "file_bytes file = file_bytes other"
    then have "js_events s = js_events t"
      using journal_bytes_inj [OF laws s(2) t(2)] s(1) t(1) by simp
    then show "length (js_events s) = length (js_events t)
          \<and> terminal None (js_events s) = terminal None (js_events t)" by simp
  qed
  finally show ?thesis .
qed

text \<open>C30. A contract whose texts are not empty survives its JSON form: reading what was printed gives
  the same contract, with every requirement and threshold.\<close>

theorem contract_round_trip:
  assumes "wf_contract c"
  shows "contract_from_dict (contract_to_dict c) = Inr c"
proof -
  obtain d where d: "requirements_dict c = VDict d" by (simp add: requirements_dict_def)
  have n: "lc_name c \<noteq> []" using assms by (simp add: wf_contract_def)
  show ?thesis
    using requirements_round_trip [OF assms d] d n
    by (simp add: contract_from_dict_def contract_to_dict_def object_value_def get_or_none_def
        string_or_none_def)
qed

section \<open>Witnesses and flaws\<close>

definition dispatched :: "nat \<Rightarrow> event" where
  "dispatched seconds =
     sample_event\<lparr>event_id := ''d'', event_type := ''tool.execution.dispatched'',
       occurred_at := (occurred_at sample_event)\<lparr>dt_second := seconds\<rparr>\<rparr>"

definition acknowledged :: "nat \<Rightarrow> event" where
  "acknowledged seconds =
     sample_event\<lparr>event_id := ''a'', event_type := ''tool.execution.acknowledged'',
       occurred_at := (occurred_at sample_event)\<lparr>dt_second := seconds\<rparr>,
       ev_causality := \<lparr>root_event_id = ''d'', sequence = 1, parent_event_id = Some ''d''\<rparr>\<rparr>"

definition no_demands :: LineageContract where
  "no_demands =
     \<lparr>lc_name = ''c'', lc_events = [], lc_relationships = [], lc_evidence_links = [],
      lc_latency_requirements = [], lc_descriptor_requirements = [], lc_detection_requirements = [],
      lc_allowed_verification_statuses = {}, lc_required_verification_status = None,
      lc_hash_chain_required = False\<rparr>"

definition latency_contract :: "pyfloat \<Rightarrow> LineageContract" where
  "latency_contract limit = no_demands
     \<lparr>lc_relationships := [\<lparr>crr_child_event_type = ''tool.execution.acknowledged'',
        crr_parent_event_type = ''tool.execution.dispatched'', crr_reference_field = None\<rparr>],
      lc_latency_requirements := [\<lparr>clr_start_event_type = ''tool.execution.dispatched'',
        clr_end_event_type = ''tool.execution.acknowledged'', clr_max_seconds = limit,
        clr_group_by = [''correlation.run_id'']\<rparr>]\<rparr>"

theorem contract_ok_iff_witness:
  "\<exists>objects. list_all2 (\<lambda>e x. event_to_dict strict_pydantic e = Inr x) [dispatched 1, acknowledged 30] objects
     \<and> \<not> contract_holds (latency_contract (float_of_rat 5)) (zip [dispatched 1, acknowledged 30] objects) [] None"
proof -
  have "map_sum id cr_ok (validate_contract strict_pydantic [dispatched 1, acknowledged 30]
      (latency_contract (float_of_rat 5)) [] None) = Inr False" by code_simp
  then obtain r where r: "validate_contract strict_pydantic [dispatched 1, acknowledged 30]
      (latency_contract (float_of_rat 5)) [] None = Inr r" "\<not> cr_ok r"
    by (cases "validate_contract strict_pydantic [dispatched 1, acknowledged 30]
      (latency_contract (float_of_rat 5)) [] None") auto
  from contract_ok_iff [OF r(1)] r(2) show ?thesis by simp
qed

theorem contract_round_trip_witness:
  "contract_from_dict (contract_to_dict (contract_template ''local'')) = Inr (contract_template ''local'')"
  by (rule contract_round_trip)
    (simp add: wf_contract_def contract_template_def wf_texts_def wf_evidence_link_def wf_opt_text_def)

text \<open>The events of a journal and its own verification: the integrity requirement is met.\<close>

theorem contract_integrity_iff_witness:
  "\<exists>f s. verified_journal_snapshot strict_pydantic sample_stat None None f = Inr s \<and> js_events s \<noteq> []
     \<and> validate_journal_integrity_requirement (js_events s) (Some (js_verification s)) = []"
proof -
  obtain r f where a: "append_event strict_pydantic Inr sample_env None sample_event = (Inr r, f)"
    using sample_append by blast
  obtain old where old: "file_bytes None = journal_bytes strict_pydantic old"
    "good_records strict_pydantic 0 None (old @ [event_canon r])"
    "f = Some (journal_bytes strict_pydantic (old @ [event_canon r]))"
    using identity_boundary.append_event_good [OF wf_sample_event a] by blast
  have "good_records strict_pydantic 0 None old" "good_records strict_pydantic 0 None []"
    using old(2) by simp_all
  then have "old = []"
    using journal_bytes_inj [OF strict.pydantic_laws_axioms, of old "[]"] old(1)
    by (simp add: file_bytes_def journal_bytes_def)
  then obtain s where s: "verified_journal_snapshot strict_pydantic sample_stat None None f = Inr s"
    "snapshot_ok s" "js_events s = [event_canon r]"
    using strict.snapshot_of_good_records [OF old(2) sample_stat_same] old(3)
    by (simp add: snapshot_ok_def)
  have "\<not> collision sha256_digest (hash_content strict_pydantic ` set (js_events s))
      (hash_content strict_pydantic ` set (js_events s))"
    by (simp add: s(3) collision_def)
  then have "validate_journal_integrity_requirement (js_events s) (Some (js_verification s)) = []"
    using contract_integrity_iff [OF strict.pydantic_laws_axioms s(1,2) s(1,2)] by simp
  then show ?thesis using s(1,3) by (intro exI [of _ f] exI [of _ s]) simp
qed

text \<open>A limit that is not a number loads and is never exceeded: a contract file with
  \<open>maxSeconds: NaN\<close> is accepted, and a latency of 29 seconds passes it.\<close>

theorem nan_limit_accepted:
  "map_sum id lc_latency_requirements (load_contract (\<lambda>s. 1)
     (concat [''{'', [dquote], ''name'', [dquote], '':'', [dquote], ''n'', [dquote], '','', [dquote],
        ''latency'', [dquote], '':[{'', [dquote], ''startEventType'', [dquote], '':'', [dquote], ''a'', [dquote],
        '','', [dquote], ''endEventType'', [dquote], '':'', [dquote], ''b'', [dquote], '','', [dquote],
        ''maxSeconds'', [dquote], '':NaN}]}'']))
     = Inr [\<lparr>clr_start_event_type = ''a'', clr_end_event_type = ''b'', clr_max_seconds = PNan,
             clr_group_by = [''correlation.run_id'']\<rparr>]
   \<and> map_sum id cr_ok (validate_contract strict_pydantic [dispatched 1, acknowledged 30]
        (latency_contract PNan) [] None) = Inr True"
  by (rule conjI; code_simp)

text \<open>The nonempty check of text lists is skipped for a bare text: \<open>requiredFields: ""\<close> loads as
  one empty field, which the loader refuses to read back after printing.\<close>

theorem empty_text_not_reloaded:
  "(case contract_from_dict (obj_items [(''name'', VStr ''n''),
       (''events'', VList [obj [(''type'', VStr ''t''), (''requiredFields'', VStr [])]])]) of
      Inl e \<Rightarrow> None
    | Inr c \<Rightarrow> Some (contract_from_dict (contract_to_dict c)))
   = Some (contract_error ''expected a list of nonempty strings'')"
  by code_simp

text \<open>The integrity requirement looks at the number of events and at the last one only: any
  earlier event can be replaced, with the verification of the true journal beside it.\<close>

theorem integrity_ignores_earlier_events:
  "validate_journal_integrity_requirement (es @ [e]) v
     = validate_journal_integrity_requirement (map f es @ [e]) v"
  by (cases v) (simp_all add: validate_journal_integrity_requirement_def)

end
