(* ===== verification/ErrorText.thy ===== *)
theory ErrorText
  imports RedactionBoundary PyOps
begin

text \<open>
  \<open>errors.py\<close>: the texts of errors that leave the program. A message is redacted and cut to 512
  code points before it is shown; what is cut is replaced by a note with its length and digest.
  Also here is \<open>json.dumps\<close> with its default separators and ASCII escapes, which this module and the
  projection use.
\<close>

section \<open>JSON text with ASCII escapes\<close>

definition hex4_of :: "nat \<Rightarrow> string" where
  "hex4_of n = [hex_char (n div 4096 mod 16), hex_char (n div 256 mod 16), hex_char (n div 16 mod 16),
     hex_char (n mod 16)]"

definition ascii_escape :: "nat \<Rightarrow> string" where
  "ascii_escape n =
     (if n < 127 then json_char (char_of n)
      else if n < 65536 then [bslash, CHR ''u''] @ hex4_of n
      else [bslash, CHR ''u''] @ hex4_of (55296 + (n - 65536) div 1024)
           @ [bslash, CHR ''u''] @ hex4_of (56320 + (n - 65536) mod 1024))"

definition ascii_json_str :: "string \<Rightarrow> string" where
  "ascii_json_str s = dquote # concat (map ascii_escape (decode_cps s)) @ [dquote]"

text \<open>\<open>json.dumps(v, sort_keys=True)\<close>.\<close>

fun ascii_dumps :: "pyv \<Rightarrow> string res"
  and ascii_dumps_list :: "pyv list \<Rightarrow> string list res"
  and ascii_dumps_members :: "pydict \<Rightarrow> (string \<times> string) list res" where
  "ascii_dumps VNone = Inr ''null''"
| "ascii_dumps (VBool b) = Inr (if b then ''true'' else ''false'')"
| "ascii_dumps (VInt i) = py_int_str i"
| "ascii_dumps (VFloat f) =
     Inr (case f of PNan \<Rightarrow> ''NaN'' | PInf s \<Rightarrow> (if s then ''-Infinity'' else ''Infinity'')
          | PFin s m e \<Rightarrow> float_repr f)"
| "ascii_dumps (VStr s) = Inr (ascii_json_str s)"
| "ascii_dumps (VList xs) = bnd (ascii_dumps_list xs) (\<lambda>ss. Inr (''['' @ join_with '', '' ss @ '']''))"
| "ascii_dumps (VTuple xs) = bnd (ascii_dumps_list xs) (\<lambda>ss. Inr (''['' @ join_with '', '' ss @ '']''))"
| "ascii_dumps (VDict d) =
     bnd (ascii_dumps_members d) (\<lambda>ps.
       Inr (''{'' @ join_with '', '' (map (\<lambda>(k, s). ascii_json_str k @ '': '' @ s) (key_sort ps)) @ ''}''))"
| "ascii_dumps v = raise TypeError (''Object of type '' @ type_name v @ '' is not JSON serializable'')"
| "ascii_dumps_list [] = Inr []"
| "ascii_dumps_list (x # xs) =
     bnd (ascii_dumps x) (\<lambda>s. bnd (ascii_dumps_list xs) (\<lambda>ss. Inr (s # ss)))"
| "ascii_dumps_members [] = Inr []"
| "ascii_dumps_members ((k, v) # d) =
     (case k of
        KStr k' \<Rightarrow> bnd (ascii_dumps v) (\<lambda>s. bnd (ascii_dumps_members d) (\<lambda>ps. Inr ((k', s) # ps)))
      | KOther t \<Rightarrow> raise TypeError (''keys must be str, not '' @ t))"

section \<open>Error texts\<close>

definition is_capture_marker :: "pyv \<Rightarrow> bool" where
  "is_capture_marker v =
     (case map_items v of
        Some d \<Rightarrow> get_or_none d ''marker'' = VStr ''actionlineage.capture.v1''
      | None \<Rightarrow> False)"

text \<open>\<open>d.get(k, "unknown")\<close> inside an f-string.\<close>

definition noted :: "pydict \<Rightarrow> string \<Rightarrow> string res" where
  "noted d k = (case get_item d k of None \<Rightarrow> Inr ''unknown'' | Some v \<Rightarrow> py_str v)"

definition capture_limit_note :: "pydict \<Rightarrow> string res" where
  "capture_limit_note metadata =
     bnd (noted metadata ''original_length'') (\<lambda>original_length.
     bnd (noted metadata ''digest'') (\<lambda>digest.
     bnd (noted metadata ''digest_scope'') (\<lambda>digest_scope.
     Inr (''[TRUNCATED original_length='' @ original_length @ '' digest='' @ digest
          @ '' digest_scope='' @ digest_scope @ '']''))))"

definition redact_error_text :: "cset \<Rightarrow> string \<Rightarrow> string res" where
  "redact_error_text alnum message =
     (case RedactionPolicy_apply ((default_policy alnum)\<lparr>max_string_length := 512\<rparr>) (VStr message) of
        Inl e \<Rightarrow> Inr ''error detail could not be redacted safely''
      | Inr redacted \<Rightarrow>
          (case redacted of
             VStr s \<Rightarrow> Inr s
           | VDict d \<Rightarrow>
               if is_capture_marker redacted then capture_limit_note d else ascii_dumps redacted
           | _ \<Rightarrow> ascii_dumps redacted))"

definition safe_error_detail :: "cset \<Rightarrow> string \<Rightarrow> exn \<Rightarrow> string res" where
  "safe_error_detail alnum validation_message err =
     (if is_a (exn_kind err) ValidationError then Inr validation_message
      else redact_error_text alnum (exn_message err))"

definition default_validation_message :: string where
  "default_validation_message = ''request validation failed''"

section \<open>Error texts exist and are bounded\<close>

text \<open>
  A message ends in one of three ways: redacted and at most 512 code points long, replaced by the
  note that names its length, or replaced by a fixed text when it has no bytes to digest.
\<close>

lemma error_policy:
  "is_sensitive_path [] ((default_policy alnum)\<lparr>max_string_length := n\<rparr>) = False"
  "is_sensitive_field [] ((default_policy alnum)\<lparr>max_string_length := n\<rparr>) = False"
  "is_capture_exempt_path [] ((default_policy alnum)\<lparr>max_string_length := n\<rparr>) = False"
  by (simp_all add: is_sensitive_path_def is_sensitive_field_def is_capture_exempt_path_def
      default_policy_def DEFAULT_CAPTURE_EXEMPT_PATHS_def)

lemma error_redaction:
  assumes "RedactionPolicy_apply ((default_policy alnum)\<lparr>max_string_length := 512\<rparr>) (VStr s) = Inr v"
  defines "t \<equiv> redact_text s ((default_policy alnum)\<lparr>max_string_length := 512\<rparr>)"
  shows "py_len t \<le> 512 \<and> v = VStr t
     \<or> 512 < py_len t \<and> (\<exists>digest. v = CaptureMetadata_as_json
            \<lparr>cm_marker = ''actionlineage.capture.v1'', cm_encoding = ''text'', cm_value = py_take 512 t,
             cm_original_length = py_len t, cm_captured_length = py_len (py_take 512 t),
             cm_truncated = True, cm_digest = digest, cm_digest_scope = CAPTURE_DIGEST_SCOPE\<rparr>)"
proof -
  let ?p = "(default_policy alnum)\<lparr>max_string_length := 512\<rparr>"
  obtain b b' where "redact_value ?p [] 0 (VStr s) (Some b) = Inr (v, b')"
    using assms(1) by (auto simp: RedactionPolicy_apply_def redact_from_root_def bnd_Inr_iff
        split: sum.splits)
  moreover have "\<not> rp_max_json_depth ?p < 0" by (simp add: default_policy_def)
  ultimately have "redact_string ?p [] s (Some b) = Inr (v, b')"
    by (simp add: redact_value.simps error_policy)
  then have "capture_string t 512 = Inr v"
    by (auto simp: redact_string_def error_policy bnd_Inr_iff Let_def t_def)
  then show ?thesis
    by (auto simp: capture_string_def Let_def bnd_Inr_iff split: if_split_asm)
qed

lemma error_text_cases:
  assumes "redact_error_text alnum s = Inr t"
  shows "py_len t \<le> 512
     \<or> (\<exists>n digest. 512 < n \<and> t = ''[TRUNCATED original_length='' @ int_repr (int n) @ '' digest='' @ digest
          @ '' digest_scope='' @ CAPTURE_DIGEST_SCOPE @ '']'')"
proof (cases "RedactionPolicy_apply ((default_policy alnum)\<lparr>max_string_length := 512\<rparr>) (VStr s)")
  case (Inl e)
  then have "t = ''error detail could not be redacted safely''"
    using assms by (simp add: redact_error_text_def)
  then show ?thesis by (simp add: py_len_def byte_def cont_byte_def)
next
  case (Inr v)
  from error_redaction [OF this] show ?thesis
  proof (elim disjE conjE exE)
    fix digest
    let ?t = "redact_text s ((default_policy alnum)\<lparr>max_string_length := 512\<rparr>)"
    assume m: "512 < py_len ?t" "v = CaptureMetadata_as_json
            \<lparr>cm_marker = ''actionlineage.capture.v1'', cm_encoding = ''text'', cm_value = py_take 512 ?t,
             cm_original_length = py_len ?t, cm_captured_length = py_len (py_take 512 ?t),
             cm_truncated = True, cm_digest = digest, cm_digest_scope = CAPTURE_DIGEST_SCOPE\<rparr>"
    then have "t = ''[TRUNCATED original_length='' @ int_repr (int (py_len ?t)) @ '' digest='' @ digest
          @ '' digest_scope='' @ CAPTURE_DIGEST_SCOPE @ '']''"
      using assms Inr
      by (auto simp: redact_error_text_def CaptureMetadata_as_json_def is_capture_marker_def
          get_or_none_def capture_limit_note_def noted_def py_str_def py_int_str_def bnd_Inr_iff
          split: if_split_asm)
    then show ?thesis using m(1) by blast
  qed (use assms Inr in \<open>auto simp: redact_error_text_def\<close>)
qed

end
