(* ===== verification/Sqlite.thy ===== *)
theory Sqlite
  imports PyOps
begin

text \<open>
  The part of \<open>sqlite3\<close> (the standard library's module and the SQL it runs) the projection uses:
  tables whose columns may be \<open>NOT NULL\<close> or \<open>UNIQUE\<close>, the order and the type of stored values,
  the statements, and a connection with Python's implicit transactions: a statement that changes
  rows opens one, schema statements run in autocommit mode when none is open, \<open>executescript\<close> commits
  first, and leaving \<open>with connection:\<close> commits or rolls back.

  A column keeps the type of the value it is given: the schema declares \<open>TEXT\<close> columns, which get
  texts, and \<open>INTEGER\<close> columns, which get integers. A cell is one of the five storage classes, written as
  \<open>None\<close>, an integer, a float, a text or bytes.
\<close>

section \<open>Values\<close>

fun sql_typeof :: "pyv \<Rightarrow> string" where
  "sql_typeof VNone = ''null''"
| "sql_typeof (VInt i) = ''integer''"
| "sql_typeof (VFloat f) = ''real''"
| "sql_typeof (VStr s) = ''text''"
| "sql_typeof v = ''blob''"

text \<open>
  The order of \<open>ORDER BY\<close>: nulls, then numbers, then texts and blobs by their bytes. A text is its
  UTF-8 bytes.
\<close>

fun sql_key :: "pyv \<Rightarrow> nat \<times> rat \<times> string" where
  "sql_key VNone = (0, 0, [])"
| "sql_key (VInt i) = (2, of_int i, [])"
| "sql_key (VFloat f) =
     (case f of PFin s m e \<Rightarrow> (2, float_val f, []) | PInf s \<Rightarrow> (if s then 1 else 3, 0, [])
      | PNan \<Rightarrow> (0, 0, []))"
| "sql_key (VStr s) = (4, 0, s)"
| "sql_key (VBytes s) = (5, 0, s)"
| "sql_key v = (5, 0, [])"

definition sql_eq :: "pyv \<Rightarrow> pyv \<Rightarrow> bool" where
  "sql_eq v w \<longleftrightarrow> v \<noteq> VNone \<and> w \<noteq> VNone \<and> sql_key v = sql_key w"

lemma sql_eq_text [simp]: "sql_eq (VStr s) (VStr t) \<longleftrightarrow> s = t"
  by (simp add: sql_eq_def)

lemma sql_eq_int [simp]: "sql_eq (VInt i) (VInt j) \<longleftrightarrow> i = j"
  by (simp add: sql_eq_def)

text \<open>What binding a parameter does: integers have 64 bits, a text needs its UTF-8 bytes.\<close>

definition bind_value :: "pyv \<Rightarrow> unit res" where
  "bind_value v =
     (case v of
        VInt i \<Rightarrow>
          require (- (2 ^ 63) \<le> i \<and> i < 2 ^ 63) OverflowError
            ''Python int too large to convert to SQLite INTEGER''
      | VStr s \<Rightarrow> require (utf8_ok False s) UnicodeEncodeError ''surrogates not allowed''
      | VNone \<Rightarrow> Inr ()
      | VFloat f \<Rightarrow> Inr ()
      | VBytes b \<Rightarrow> Inr ()
      | _ \<Rightarrow> raise SqliteDatabaseError (''type is not supported: '' @ type_name v))"

definition bind_values :: "pyv list \<Rightarrow> unit res" where
  "bind_values vs = bnd (traverse bind_value vs) (\<lambda>_. Inr ())"

text \<open>Reading a cell: a text that is no UTF-8 cannot be fetched.\<close>

definition fetch_value :: "pyv \<Rightarrow> pyv res" where
  "fetch_value v =
     (case v of
        VStr s \<Rightarrow> if utf8_ok False s then Inr v
                  else raise SqliteOperationalError ''Could not decode to UTF-8 column''
      | _ \<Rightarrow> Inr v)"

section \<open>Tables\<close>

record sql_table =
  tb_columns :: "string list"
  tb_not_null :: "string list"
  tb_unique :: "string list"        \<comment> \<open>primary keys and \<open>UNIQUE\<close> columns\<close>
  tb_rows :: "pyv list list"

record database =
  db_user_version :: int
  db_tables :: "(string \<times> sql_table) list"
  db_indexes :: "string list"

definition empty_database :: database where
  "empty_database = \<lparr>db_user_version = 0, db_tables = [], db_indexes = []\<rparr>"

definition cell :: "sql_table \<Rightarrow> pyv list \<Rightarrow> string \<Rightarrow> pyv" where
  "cell t row c = (case dget (zip (tb_columns t) row) c of None \<Rightarrow> VNone | Some v \<Rightarrow> v)"

definition table_info :: "database \<Rightarrow> string \<Rightarrow> string list" where
  "table_info db name = (case dget (db_tables db) name of None \<Rightarrow> [] | Some t \<Rightarrow> tb_columns t)"

definition find_table :: "database \<Rightarrow> string \<Rightarrow> string list \<Rightarrow> sql_table res" where
  "find_table db name columns =
     (case dget (db_tables db) name of
        None \<Rightarrow> raise SqliteOperationalError (''no such table: '' @ name)
      | Some t \<Rightarrow>
          (case find (\<lambda>c. c \<notin> set (tb_columns t)) columns of
             Some c \<Rightarrow> raise SqliteOperationalError (''no such column: '' @ c)
           | None \<Rightarrow> Inr t))"

text \<open>
  \<open>SELECT columns FROM name WHERE c1 = ? AND ... ORDER BY order\<close>. Rows that the order does not
  separate keep the order in which they were inserted.
\<close>

definition sql_select ::
  "database \<Rightarrow> string \<Rightarrow> string list \<Rightarrow> (string \<times> pyv) list \<Rightarrow> string list \<Rightarrow> pyv list list res" where
  "sql_select db name columns conditions order =
     bnd (find_table db name (columns @ map fst conditions @ order)) (\<lambda>t.
     bnd (bind_values (map snd conditions)) (\<lambda>_.
       traverse (\<lambda>row. traverse (\<lambda>c. fetch_value (cell t row c)) columns)
         (sort_key (\<lambda>row. map (\<lambda>c. sql_key (cell t row c)) order)
           (filter (\<lambda>row. list_all (\<lambda>(c, v). sql_eq (cell t row c) v) conditions) (tb_rows t)))))"

definition put_table :: "string \<Rightarrow> sql_table \<Rightarrow> database \<Rightarrow> database" where
  "put_table name t db = db\<lparr>db_tables := dset (db_tables db) name t\<rparr>"

lemma map_cell: "distinct (tb_columns t) \<Longrightarrow> length row = length (tb_columns t) \<Longrightarrow>
    map (cell t row) (tb_columns t) = row"
proof (rule nth_equalityI)
  fix i assume a: "distinct (tb_columns t)" "length row = length (tb_columns t)"
    and "i < length (map (cell t row) (tb_columns t))"
  then have i: "i < length (tb_columns t)" by simp
  then have "map_of (zip (tb_columns t) row) (tb_columns t ! i) = Some (row ! i)"
    using a by (intro map_of_zip_nth) simp_all
  then show "map (cell t row) (tb_columns t) ! i = row ! i"
    using i by (simp add: cell_def dget_map_of)
qed simp

section \<open>Statements\<close>

text \<open>The row of an \<open>INSERT\<close>, in the order of the table's columns, and the constraints on it.\<close>

definition new_row :: "sql_table \<Rightarrow> string list \<Rightarrow> pyv list \<Rightarrow> pyv list" where
  "new_row t columns vals =
     map (\<lambda>c. case dget (zip columns vals) c of None \<Rightarrow> VNone | Some v \<Rightarrow> v) (tb_columns t)"

definition check_constraints :: "string \<Rightarrow> sql_table \<Rightarrow> pyv list \<Rightarrow> unit res" where
  "check_constraints name t row =
     (case find (\<lambda>c. cell t row c = VNone) (tb_not_null t) of
        Some c \<Rightarrow> raise SqliteIntegrityError (''NOT NULL constraint failed: '' @ name @ ''.'' @ c)
      | None \<Rightarrow>
          (case find (\<lambda>c. list_ex (\<lambda>r. sql_eq (cell t r c) (cell t row c)) (tb_rows t)) (tb_unique t) of
             Some c \<Rightarrow> raise SqliteIntegrityError (''UNIQUE constraint failed: '' @ name @ ''.'' @ c)
           | None \<Rightarrow> Inr ()))"

definition sql_insert :: "string \<Rightarrow> string list \<Rightarrow> pyv list \<Rightarrow> database \<Rightarrow> database res" where
  "sql_insert name columns vals db =
     bnd (find_table db name columns) (\<lambda>t.
     bnd (bind_values vals) (\<lambda>_.
       let row = new_row t columns vals in
       bnd (check_constraints name t row) (\<lambda>_.
         Inr (put_table name (t\<lparr>tb_rows := tb_rows t @ [row]\<rparr>) db))))"

text \<open>
  \<open>INSERT INTO name(k, v) VALUES (?, ?) ON CONFLICT(k) DO UPDATE SET v = excluded.v\<close>.
\<close>

definition set_cell :: "sql_table \<Rightarrow> string \<Rightarrow> pyv \<Rightarrow> pyv list \<Rightarrow> pyv list" where
  "set_cell t c v row = map (\<lambda>(c', v'). if c' = c then v else v') (zip (tb_columns t) row)"

definition sql_upsert :: "string \<Rightarrow> string \<Rightarrow> string \<Rightarrow> pyv \<Rightarrow> pyv \<Rightarrow> database \<Rightarrow> database res" where
  "sql_upsert name k v key value db =
     bnd (find_table db name [k, v]) (\<lambda>t.
     if k \<notin> set (tb_unique t)
     then raise SqliteOperationalError
            ''ON CONFLICT clause does not match any PRIMARY KEY or UNIQUE constraint''
     else
       bnd (bind_values [key, value]) (\<lambda>_.
         if list_ex (\<lambda>row. sql_eq (cell t row k) key) (tb_rows t) then
           if value = VNone \<and> v \<in> set (tb_not_null t)
           then raise SqliteIntegrityError (''NOT NULL constraint failed: '' @ name @ ''.'' @ v)
           else
             Inr (put_table name
               (t\<lparr>tb_rows := map (\<lambda>row. if sql_eq (cell t row k) key then set_cell t v value row else row)
                     (tb_rows t)\<rparr>) db)
         else sql_insert name [k, v] [key, value] db))"

definition sql_delete_all :: "string \<Rightarrow> database \<Rightarrow> database res" where
  "sql_delete_all name db =
     bnd (find_table db name []) (\<lambda>t. Inr (put_table name (t\<lparr>tb_rows := []\<rparr>) db))"

definition sql_create_table :: "string \<Rightarrow> sql_table \<Rightarrow> database \<Rightarrow> database res" where
  "sql_create_table name t db =
     (if name \<in> set (keys (db_tables db)) then Inr db else Inr (put_table name t db))"

definition sql_create_index :: "string \<Rightarrow> string \<Rightarrow> string list \<Rightarrow> database \<Rightarrow> database res" where
  "sql_create_index index name columns db =
     (if index \<in> set (db_indexes db) then Inr db
      else bnd (find_table db name columns) (\<lambda>t. Inr (db\<lparr>db_indexes := db_indexes db @ [index]\<rparr>)))"

definition sql_add_column :: "string \<Rightarrow> string \<Rightarrow> database \<Rightarrow> database res" where
  "sql_add_column name c db =
     bnd (find_table db name []) (\<lambda>t.
     if c \<in> set (tb_columns t) then raise SqliteOperationalError (''duplicate column name: '' @ c)
     else Inr (put_table name
            (t\<lparr>tb_columns := tb_columns t @ [c], tb_rows := map (\<lambda>row. row @ [VNone]) (tb_rows t)\<rparr>) db))"

definition sql_set_user_version :: "int \<Rightarrow> database \<Rightarrow> database res" where
  "sql_set_user_version version db = Inr (db\<lparr>db_user_version := version\<rparr>)"

lemma new_row_all: "distinct (tb_columns t) \<Longrightarrow> length vals = length (tb_columns t) \<Longrightarrow>
    new_row t (tb_columns t) vals = vals"
  using map_cell [of t vals] by (simp add: new_row_def cell_def [abs_def])

section \<open>Connections\<close>

text \<open>
  What is committed, what the connection sees, and whether a transaction is open. A program on a
  connection returns a value or an exception, and the connection as it then is.
\<close>

record connection =
  cn_committed :: database
  cn_current :: database
  cn_open :: bool

type_synonym 'a sql = "connection \<Rightarrow> 'a res \<times> connection"

definition sql_return :: "'a \<Rightarrow> 'a sql" where
  "sql_return x c = (Inr x, c)"

definition sql_lift :: "'a res \<Rightarrow> 'a sql" where
  "sql_lift r c = (r, c)"

definition sql_bind :: "'a sql \<Rightarrow> ('a \<Rightarrow> 'b sql) \<Rightarrow> 'b sql" where
  "sql_bind m f c = (case m c of (Inl e, c') \<Rightarrow> (Inl e, c') | (Inr x, c') \<Rightarrow> f x c')"

definition sql_read :: "(database \<Rightarrow> 'a res) \<Rightarrow> 'a sql" where
  "sql_read g c = (g (cn_current c), c)"

definition sql_commit :: "connection \<Rightarrow> connection" where
  "sql_commit c = c\<lparr>cn_committed := cn_current c, cn_open := False\<rparr>"

text \<open>A schema statement, and a statement that changes rows.\<close>

definition sql_ddl :: "(database \<Rightarrow> database res) \<Rightarrow> unit sql" where
  "sql_ddl g c =
     (case g (cn_current c) of
        Inl e \<Rightarrow> (Inl e, c)
      | Inr db \<Rightarrow>
          (Inr (), if cn_open c then c\<lparr>cn_current := db\<rparr> else c\<lparr>cn_current := db, cn_committed := db\<rparr>))"

definition sql_dml :: "(database \<Rightarrow> database res) \<Rightarrow> unit sql" where
  "sql_dml g c =
     (case g (cn_current c) of
        Inl e \<Rightarrow> (Inl e, c\<lparr>cn_open := True\<rparr>)
      | Inr db \<Rightarrow> (Inr (), c\<lparr>cn_current := db, cn_open := True\<rparr>))"

fun sql_each :: "('a \<Rightarrow> unit sql) \<Rightarrow> 'a list \<Rightarrow> unit sql" where
  "sql_each f [] = sql_return ()"
| "sql_each f (x # xs) = sql_bind (f x) (\<lambda>_. sql_each f xs)"

definition sql_script :: "(database \<Rightarrow> database res) list \<Rightarrow> unit sql" where
  "sql_script statements c = sql_each sql_ddl statements (sql_commit c)"

definition sql_connect :: "database \<Rightarrow> connection" where
  "sql_connect db = \<lparr>cn_committed = db, cn_current = db, cn_open = False\<rparr>"

text \<open>
  \<open>with connection:\<close> around a program: what the database file holds afterwards. \<open>commit\<close> is what
  the final commit answers.
\<close>

definition sql_with :: "unit res \<Rightarrow> 'a sql \<Rightarrow> database \<Rightarrow> 'a res \<times> database" where
  "sql_with commit m db =
     (case m (sql_connect db) of
        (Inl e, c) \<Rightarrow> (Inl e, cn_committed c)
      | (Inr x, c) \<Rightarrow>
          (case commit of
             Inl e \<Rightarrow> (Inl e, cn_committed c)
           | Inr _ \<Rightarrow> (Inr x, cn_current c)))"

section \<open>Programs that succeed\<close>

text \<open>A program that returns, with the database it leaves: how successful runs are composed.\<close>

definition sql_runs :: "'a sql \<Rightarrow> database \<Rightarrow> 'a \<Rightarrow> database \<Rightarrow> bool" where
  "sql_runs m db x db' \<longleftrightarrow> (\<forall>c. cn_current c = db \<longrightarrow> (\<exists>c'. m c = (Inr x, c') \<and> cn_current c' = db'))"

named_theorems sql_runs \<open>composition of successful programs\<close>

lemma sql_runsI: "(\<And>c. cn_current c = db \<Longrightarrow> \<exists>c'. m c = (Inr x, c') \<and> cn_current c' = db') \<Longrightarrow> sql_runs m db x db'"
  by (simp add: sql_runs_def)

lemma sql_runs_return [sql_runs]: "sql_runs (sql_return x) db x db"
  by (simp add: sql_runs_def sql_return_def)

lemma sql_runs_lift [sql_runs]: "r = Inr x \<Longrightarrow> sql_runs (sql_lift r) db x db"
  by (simp add: sql_runs_def sql_lift_def)

lemma sql_runs_read [sql_runs]: "g db = Inr x \<Longrightarrow> sql_runs (sql_read g) db x db"
  by (simp add: sql_runs_def sql_read_def)

lemma sql_runs_bind [sql_runs]:
  "sql_runs m db x db' \<Longrightarrow> sql_runs (f x) db' y db'' \<Longrightarrow> sql_runs (sql_bind m f) db y db''"
  by (fastforce simp: sql_runs_def sql_bind_def)

lemma sql_runs_ddl [sql_runs]: "g db = Inr db' \<Longrightarrow> sql_runs (sql_ddl g) db () db'"
  by (simp add: sql_runs_def sql_ddl_def)

lemma sql_runs_dml [sql_runs]: "g db = Inr db' \<Longrightarrow> sql_runs (sql_dml g) db () db'"
  by (simp add: sql_runs_def sql_dml_def)

lemma sql_runs_script [sql_runs]:
  "sql_runs (sql_each sql_ddl statements) db () db' \<Longrightarrow> sql_runs (sql_script statements) db () db'"
  by (simp add: sql_runs_def sql_script_def sql_commit_def)

lemma sql_runs_each_Nil [sql_runs]: "sql_runs (sql_each f []) db () db"
  by (simp add: sql_runs_return)

lemma sql_runs_each_Cons [sql_runs]:
  "sql_runs (f x) db () db' \<Longrightarrow> sql_runs (sql_each f xs) db' () db'' \<Longrightarrow> sql_runs (sql_each f (x # xs)) db () db''"
  by (simp add: sql_runs_bind)

lemma sql_with_runs: "sql_runs m db x db' \<Longrightarrow> sql_with (Inr ()) m db = (Inr x, db')"
  unfolding sql_runs_def sql_with_def
  by (drule spec [of _ "sql_connect db"]) (auto simp: sql_connect_def)

lemma sql_with_Inr:
  "sql_with commit m db = (Inr x, db') \<Longrightarrow>
     \<exists>c. m (sql_connect db) = (Inr x, c) \<and> cn_current c = db' \<and> commit = Inr ()"
  by (auto simp: sql_with_def split: prod.splits sum.splits)

text \<open>How a program that returned got there.\<close>

lemma sql_bind_Inr:
  "sql_bind m f c = (Inr y, c'') \<longleftrightarrow> (\<exists>x c'. m c = (Inr x, c') \<and> f x c' = (Inr y, c''))"
  by (auto simp: sql_bind_def split: prod.splits sum.splits)

lemma sql_return_Inr: "sql_return x c = (Inr y, c') \<longleftrightarrow> y = x \<and> c' = c"
  by (auto simp: sql_return_def)

lemma sql_lift_Inr: "sql_lift r c = (Inr y, c') \<longleftrightarrow> r = Inr y \<and> c' = c"
  by (auto simp: sql_lift_def)

lemma sql_read_Inr: "sql_read g c = (Inr y, c') \<longleftrightarrow> g (cn_current c) = Inr y \<and> c' = c"
  by (auto simp: sql_read_def)

lemma sql_dml_Inr:
  "sql_dml g c = (Inr u, c') \<Longrightarrow> g (cn_current c) = Inr (cn_current c')"
  by (auto simp: sql_dml_def split: sum.splits)

lemma sql_ddl_Inr:
  "sql_ddl g c = (Inr u, c') \<Longrightarrow> g (cn_current c) = Inr (cn_current c')"
  by (auto simp: sql_ddl_def split: sum.splits if_split_asm)

end
