(* ===== verification/Projection.thy ===== *)
theory Projection
  imports Journal ErrorText Sqlite PyPath
begin

text \<open>
  The SQLite projection (\<open>projection/sqlite.py\<close>): the rows of an event, the schema, rebuilding the
  database from a verified journal, and the proof that a database corresponds to a journal. The
  database is a value of \<open>Sqlite\<close>; the file system's answers are arguments. A statement whose text
  never changes cannot fail by itself, so \<open>PRAGMA user_version\<close> always has its row.
\<close>

section \<open>Constants\<close>

definition PROJECTION_SCHEMA_VERSION :: int where "PROJECTION_SCHEMA_VERSION = 2"

definition PROJECTION_PROOF_VERSION :: string where
  "PROJECTION_PROOF_VERSION = ''actionlineage.dev/projection-proof-v1''"

definition PROJECTION_DIAGNOSTICS_VERSION :: string where
  "PROJECTION_DIAGNOSTICS_VERSION = ''actionlineage.dev/projection-diagnostics-v1''"

definition PROJECTION_IDENTITY_VERSION :: string where
  "PROJECTION_IDENTITY_VERSION = ''actionlineage.dev/sqlite-projection-identity-v1''"

definition PROJECTED_EVENT_COLUMNS :: "string list" where
  "PROJECTED_EVENT_COLUMNS =
     [''event_id'', ''spec_version'', ''event_type'', ''occurred_at'', ''observed_at'', ''trace_id'',
      ''run_id'', ''span_id'', ''session_id'', ''root_event_id'', ''parent_event_id'', ''sequence'',
      ''event_hash'', ''previous_event_hash'', ''verification_status'', ''evidence_subject_event_id'',
      ''evidence_event_id'', ''journal_record_number'', ''event_json'']"

section \<open>Errors\<close>

datatype ProjectionStateCode =
    PS_HEALTHY | PS_JOURNAL_INVALID | PS_PROJECTION_MISSING | PS_PROJECTION_UNAVAILABLE
  | PS_PROJECTION_STALE | PS_PROJECTION_MISMATCH | PS_PROJECTION_REBUILD_REQUIRED

fun ProjectionStateCode_value :: "ProjectionStateCode \<Rightarrow> string" where
  "ProjectionStateCode_value PS_HEALTHY = ''healthy''"
| "ProjectionStateCode_value PS_JOURNAL_INVALID = ''journal_invalid''"
| "ProjectionStateCode_value PS_PROJECTION_MISSING = ''projection_missing''"
| "ProjectionStateCode_value PS_PROJECTION_UNAVAILABLE = ''projection_unavailable''"
| "ProjectionStateCode_value PS_PROJECTION_STALE = ''projection_stale''"
| "ProjectionStateCode_value PS_PROJECTION_MISMATCH = ''projection_mismatch''"
| "ProjectionStateCode_value PS_PROJECTION_REBUILD_REQUIRED = ''projection_rebuild_required''"

text \<open>
  \<open>ProjectionStateError\<close> and \<open>ProjectionVerificationError\<close> carry data, every other exception is a
  \<open>Failure\<close>.
\<close>

datatype projection_error =
    StateError (se_code: ProjectionStateCode) (se_message: string) (se_details: pyv)
  | JournalUnverified path VerificationResult
  | Failure exn

type_synonym 'a pres = "projection_error + 'a"

definition plain :: "'a res \<Rightarrow> 'a pres" where
  "plain r = (case r of Inl e \<Rightarrow> Inl (Failure e) | Inr x \<Rightarrow> Inr x)"

lemma plain_simps [simp]:
  "plain (Inl e) = Inl (Failure e)" "plain (Inr x) = Inr x"
  "plain r = Inr x \<longleftrightarrow> r = Inr x"
  by (simp_all add: plain_def split: sum.splits)

abbreviation state_error :: "ProjectionStateCode \<Rightarrow> string \<Rightarrow> (string \<times> pyv) list \<Rightarrow> 'a pres" where
  "state_error code message details \<equiv> Inl (StateError code message (obj details))"

section \<open>The row of an event\<close>

definition string_or_none :: "pyv \<Rightarrow> string option" where
  "string_or_none v = (case v of VStr s \<Rightarrow> if s \<noteq> [] then Some s else None | _ \<Rightarrow> None)"

definition evidence_projection_values :: "pydict \<Rightarrow> string option \<times> string option \<times> string option" where
  "evidence_projection_values event_object =
     (case get_or_none event_object ''payload'' of
        VDict p \<Rightarrow>
          (case get_or_none p ''evidence_link'' of
             VDict l \<Rightarrow>
               (string_or_none (get_or_none l ''verification_status''),
                string_or_none (get_or_none l ''subject_event_id''),
                string_or_none (get_or_none l ''evidence_event_id''))
           | _ \<Rightarrow>
               (string_or_none (get_or_none p ''verification_status''),
                string_or_none (get_or_none p ''subject_event_id''),
                string_or_none (get_or_none p ''evidence_event_id'')))
      | _ \<Rightarrow> (None, None, None))"

definition py_getitem :: "pydict \<Rightarrow> string \<Rightarrow> pyv res" where
  "py_getitem d k = (case get_item d k of None \<Rightarrow> raise KeyError k | Some v \<Rightarrow> Inr v)"

definition event_projection_values :: "pydantic \<Rightarrow> event \<Rightarrow> nat \<Rightarrow> pyv list res" where
  "event_projection_values pd e journal_record_number =
     bnd (event_to_dict pd e) (\<lambda>v.
       let d = (case v of VDict d \<Rightarrow> d | _ \<Rightarrow> []);
           (status, subject, evidence) = evidence_projection_values d in
       bnd (py_getitem d ''occurred_at'') (\<lambda>occurred.
       bnd (py_getitem d ''observed_at'') (\<lambda>observed.
       bnd (serialize_event pd e) (\<lambda>event_json.
       Inr [VStr (event_id e), VStr (spec_version e), VStr (event_type e), occurred, observed,
            VStr (trace_id (ev_correlation e)), VStr (run_id (ev_correlation e)),
            opt_str (span_id (ev_correlation e)), opt_str (session_id (ev_correlation e)),
            VStr (root_event_id (ev_causality e)), opt_str (parent_event_id (ev_causality e)),
            VInt (sequence (ev_causality e)), opt_str (event_hash (ev_integrity e)),
            opt_str (previous_event_hash (ev_integrity e)), opt_str status, opt_str subject,
            opt_str evidence, VInt (int journal_record_number), VStr event_json]))))"

definition expected_sqlite_type :: "pyv \<Rightarrow> string pres" where
  "expected_sqlite_type v =
     (case v of
        VNone \<Rightarrow> Inr ''null''
      | VInt i \<Rightarrow> Inr ''integer''
      | VStr s \<Rightarrow> Inr ''text''
      | _ \<Rightarrow> state_error PS_PROJECTION_MISMATCH ''projection expected value has unsupported SQLite type''
               [(''value_type'', VStr (type_name v))])"

section \<open>Schema\<close>

definition metadata_table :: sql_table where
  "metadata_table =
     \<lparr>tb_columns = [''key'', ''value''], tb_not_null = [''value''], tb_unique = [''key''], tb_rows = []\<rparr>"

definition events_table :: sql_table where
  "events_table =
     \<lparr>tb_columns = PROJECTED_EVENT_COLUMNS,
      tb_not_null = [''spec_version'', ''event_type'', ''occurred_at'', ''observed_at'', ''trace_id'',
        ''run_id'', ''root_event_id'', ''sequence'', ''event_hash'', ''journal_record_number'',
        ''event_json''],
      tb_unique = [''event_id'', ''journal_record_number''], tb_rows = []\<rparr>"

definition set_metadata :: "(string \<times> string) list \<Rightarrow> unit sql" where
  "set_metadata kvs =
     sql_each (\<lambda>(k, v). sql_dml (sql_upsert ''projection_metadata'' ''key'' ''value'' (VStr k) (VStr v))) kvs"

definition set_user_version :: "int \<Rightarrow> unit sql" where
  "set_user_version version = sql_ddl (sql_set_user_version version)"

definition timeline_order :: "string list" where
  "timeline_order = [''occurred_at'', ''sequence'', ''journal_record_number'', ''event_id'']"

definition schema_script :: "(database \<Rightarrow> database res) list" where
  "schema_script =
     [sql_create_table ''projection_metadata'' metadata_table,
      sql_create_table ''events'' events_table,
      sql_create_index ''idx_events_trace_timeline'' ''events'' (''trace_id'' # timeline_order),
      sql_create_index ''idx_events_run_timeline'' ''events'' (''run_id'' # timeline_order)]"

definition migrate_v1_to_v2 :: "unit sql" where
  "migrate_v1_to_v2 =
     sql_bind (sql_script
       [sql_add_column ''events'' ''verification_status'',
        sql_add_column ''events'' ''evidence_subject_event_id'',
        sql_add_column ''events'' ''evidence_event_id'']) (\<lambda>_.
     sql_bind (set_user_version PROJECTION_SCHEMA_VERSION) (\<lambda>_.
     set_metadata [(''schema_version'', int_repr PROJECTION_SCHEMA_VERSION)]))"

definition unsupported_schema :: "int \<Rightarrow> 'a res" where
  "unsupported_schema version =
     raise ProjectionSchemaError
       (''unsupported projection schema version '' @ int_repr version @ ''; expected ''
        @ int_repr PROJECTION_SCHEMA_VERSION)"

definition ensure_schema :: "unit sql" where
  "ensure_schema =
     sql_bind (sql_read (\<lambda>db. Inr (db_user_version db))) (\<lambda>version.
       if version = 0 then
         sql_bind (sql_script schema_script) (\<lambda>_.
         sql_bind (set_user_version PROJECTION_SCHEMA_VERSION) (\<lambda>_.
         set_metadata [(''schema_version'', int_repr PROJECTION_SCHEMA_VERSION)]))
       else if version = 1 then migrate_v1_to_v2
       else if version \<noteq> PROJECTION_SCHEMA_VERSION then sql_lift (unsupported_schema version)
       else sql_return ())"

definition validate_schema :: "database \<Rightarrow> unit res" where
  "validate_schema db =
     (let version = db_user_version db in
      if version = 0 then raise ProjectionSchemaError ''projection schema is missing; rebuild required''
      else if version \<noteq> PROJECTION_SCHEMA_VERSION then unsupported_schema version
      else if \<not> set [''key'', ''value''] \<subseteq> set (table_info db ''projection_metadata'')
      then raise ProjectionSchemaError ''projection metadata table is missing required columns''
      else
        let missing = sort (filter (\<lambda>c. c \<notin> set (table_info db ''events'')) PROJECTED_EVENT_COLUMNS) in
        require (missing = []) ProjectionSchemaError
          (''projection events table is missing columns: '' @ join_with '', '' missing))"

section \<open>Indexing\<close>

definition index_event :: "pydantic \<Rightarrow> event \<Rightarrow> nat \<Rightarrow> bool sql" where
  "index_event pd e journal_record_number =
     (if event_hash (ev_integrity e) = None
      then sql_lift (raise ProjectionIndexError ''cannot index event without integrity.event_hash'')
      else
        sql_bind (sql_lift (event_projection_values pd e journal_record_number)) (\<lambda>vals.
        sql_bind (sql_read (\<lambda>db. sql_select db ''events'' [''journal_record_number'', ''event_json'']
                   [(''event_id'', VStr (event_id e))] [])) (\<lambda>existing.
          case existing of
            [] \<Rightarrow>
              sql_bind (sql_dml (sql_insert ''events'' PROJECTED_EVENT_COLUMNS vals)) (\<lambda>_.
              sql_return True)
          | row # _ \<Rightarrow>
              if py_eq (row ! 0) (VInt (int journal_record_number)) \<and> py_eq (row ! 1) (last vals)
              then sql_return False
              else sql_lift (raise ProjectionIndexError
                     (''event_id already indexed with different content: '' @ event_id e)))))"

fun index_events :: "pydantic \<Rightarrow> nat \<Rightarrow> event list \<Rightarrow> nat sql" where
  "index_events pd indexed_count [] = sql_return indexed_count"
| "index_events pd indexed_count (e # es) =
     sql_bind (index_event pd e (indexed_count + 1)) (\<lambda>_. index_events pd (indexed_count + 1) es)"

section \<open>Identity\<close>

definition projection_identity_payload :: "pyv \<Rightarrow> pyv \<Rightarrow> int \<Rightarrow> pyv \<Rightarrow> int \<Rightarrow> pyv" where
  "projection_identity_payload source_identity source_sha256 records_indexed last_event_hash schema_version =
     obj [(''version'', VStr PROJECTION_IDENTITY_VERSION), (''engine'', VStr ''sqlite''),
          (''schema_version'', VInt schema_version),
          (''source_journal_identity_version'', VStr JOURNAL_SOURCE_IDENTITY_VERSION),
          (''source_journal_identity'', source_identity), (''source_journal_sha256'', source_sha256),
          (''records_indexed'', VInt records_indexed), (''last_event_hash'', last_event_hash)]"

definition projection_identity :: "pyv \<Rightarrow> pyv \<Rightarrow> int \<Rightarrow> pyv \<Rightarrow> int \<Rightarrow> string res" where
  "projection_identity source_identity source_sha256 records_indexed last_event_hash schema_version =
     bnd (deterministic_json_bytes (projection_identity_payload source_identity source_sha256
            records_indexed last_event_hash schema_version)) (\<lambda>bs.
     Inr (PROJECTION_IDENTITY_VERSION @ '':sha256:'' @ sha256_hex bs))"

text \<open>\<open>identity.partition(":")\<close>: the text before the first colon, when there is one.\<close>

definition projection_identity_version :: "string \<Rightarrow> string" where
  "projection_identity_version identity =
     (if py_startswith identity (PROJECTION_IDENTITY_VERSION @ '':'') then PROJECTION_IDENTITY_VERSION
      else if py_startswith identity ''sqlite-file:'' then ''legacy_path_based''
      else
        let version = takeWhile (\<lambda>c. c \<noteq> CHR '':'') identity in
        if CHR '':'' \<in> set identity \<and> version \<noteq> [] then version else ''unknown'')"

section \<open>Snapshots and paths\<close>

text \<open>
  Reading the journal under its lock: \<open>sn_access\<close> is what taking the lock and opening the file
  answer, \<open>sn_stat\<close> the metadata before and after, \<open>sn_file\<close> the content.
\<close>

record snapshot_env =
  sn_access :: "unit res"
  sn_stat :: "JournalFileMetadata \<times> JournalFileMetadata"
  sn_file :: "bytes option"

definition locked_snapshot ::
  "pydantic \<Rightarrow> snapshot_env \<Rightarrow> int option \<Rightarrow> string option \<Rightarrow> VerifiedJournalSnapshot res" where
  "locked_snapshot pd env expected_record_count expected_last_event_hash =
     bnd (sn_access env) (\<lambda>_.
       verified_journal_snapshot pd (sn_stat env) expected_record_count expected_last_event_hash
         (sn_file env))"

definition normalize_journal_path :: "filesystem \<Rightarrow> path \<Rightarrow> path res" where
  "normalize_journal_path fs p = resolve_path fs p"

text \<open>\<open>last_event_hash or ""\<close>.\<close>

definition text_or_empty :: "string option \<Rightarrow> string" where
  "text_or_empty h = (case h of None \<Rightarrow> [] | Some s \<Rightarrow> s)"

section \<open>Rebuilding\<close>

datatype db_file = NoFile | NotADatabase | Db database

record rebuild_env =
  rb_posix :: bool
  rb_fs :: filesystem
  rb_snapshot :: snapshot_env
  rb_parent :: dir_outcome             \<comment> \<open>\<open>mkdir\<close> and the mode of the directory\<close>
  rb_open :: "unit res"                \<comment> \<open>\<open>os.open\<close> of the database file\<close>
  rb_private :: bool                   \<comment> \<open>its mode is 0600 or stricter\<close>
  rb_connect :: "unit res"
  rb_commit :: "unit res"

record RebuildResult =
  rr_journal_path :: path
  rr_database_path :: path
  rr_records_indexed :: nat
  rr_last_event_hash :: "string option"
  rr_schema_version :: int

definition RebuildResult_as_dict :: "RebuildResult \<Rightarrow> pyv" where
  "RebuildResult_as_dict r = obj
     [(''ok'', VBool True), (''journal_path'', VStr (path_str (rr_journal_path r))),
      (''database_path'', VStr (path_str (rr_database_path r))),
      (''records_indexed'', VInt (int (rr_records_indexed r))),
      (''last_event_hash'', opt_str (rr_last_event_hash r)),
      (''schema_version'', VInt (rr_schema_version r))]"

definition path_parent :: "path \<Rightarrow> path" where
  "path_parent p = p\<lparr>pt_parts := butlast (pt_parts p)\<rparr>"

definition prepare_projection_path :: "rebuild_env \<Rightarrow> path \<Rightarrow> db_file \<Rightarrow> unit res \<times> db_file" where
  "prepare_projection_path env database_path file =
     (case rb_parent env of
        DirError \<Rightarrow> (raise OSError [], file)
      | parent \<Rightarrow>
          if \<not> rb_posix env then (Inr (), file)
          else if parent \<noteq> DirPrivate then
            (raise ProjectionRebuildError
               (''projection directory is not private: '' @ path_str (path_parent database_path)
                @ ''; expected mode 0700 or stricter''), file)
          else
            (case rb_open env of
               Inl e \<Rightarrow> (Inl e, file)
             | Inr _ \<Rightarrow>
                 (require (rb_private env) ProjectionRebuildError
                    (''projection file is not private: '' @ path_str database_path
                     @ ''; expected mode 0600 or stricter''),
                  if file = NoFile then Db empty_database else file)))"

definition rebuild_body :: "pydantic \<Rightarrow> path \<Rightarrow> VerifiedJournalSnapshot \<Rightarrow> nat sql" where
  "rebuild_body pd journal_path snapshot =
     sql_bind ensure_schema (\<lambda>_.
     sql_bind (sql_dml (sql_delete_all ''events'')) (\<lambda>_.
     sql_bind (index_events pd 0 (js_events snapshot)) (\<lambda>indexed_count.
     sql_bind (sql_lift (require (indexed_count = snapshot_record_count snapshot) ProjectionRebuildError
       ''indexed record count does not match verified journal snapshot'')) (\<lambda>_.
     sql_bind (sql_lift (journal_source_identity snapshot)) (\<lambda>source_identity.
     let source_sha256 = text_or_empty (js_journal_sha256 snapshot) in
     sql_bind (sql_lift (py_int_str (int indexed_count))) (\<lambda>count_text.
     sql_bind (sql_lift (projection_identity (VStr source_identity) (VStr source_sha256)
       (int indexed_count) (opt_str (snapshot_terminal_hash snapshot)) PROJECTION_SCHEMA_VERSION))
       (\<lambda>identity.
     sql_bind (set_metadata
       [(''schema_version'', int_repr PROJECTION_SCHEMA_VERSION),
        (''source_journal_path'', path_str journal_path),
        (''source_journal_identity'', source_identity),
        (''source_journal_identity_version'', JOURNAL_SOURCE_IDENTITY_VERSION),
        (''source_journal_sha256'', source_sha256),
        (''projection_identity'', identity),
        (''records_indexed'', count_text),
        (''last_event_hash'', text_or_empty (snapshot_terminal_hash snapshot))]) (\<lambda>_.
     sql_return indexed_count))))))))"

text \<open>\<open>except sqlite3.Error\<close> around the whole connection.\<close>

definition rebuild_error :: "exn \<Rightarrow> projection_error" where
  "rebuild_error e =
     (if is_a (exn_kind e) SqliteDatabaseError
      then Failure (Raise ProjectionRebuildError ''sqlite projection rebuild failed'')
      else Failure e)"

definition rebuild_projection ::
  "pydantic \<Rightarrow> rebuild_env \<Rightarrow> path \<Rightarrow> path \<Rightarrow> db_file \<Rightarrow> RebuildResult pres \<times> db_file" where
  "rebuild_projection pd env journal_path database_path file =
     (case bnd (normalize_journal_path (rb_fs env) journal_path) (\<lambda>p.
             bnd (locked_snapshot pd (rb_snapshot env) None None) (\<lambda>s. Inr (p, s))) of
        Inl e \<Rightarrow> (Inl (Failure e), file)
      | Inr (p, snapshot) \<Rightarrow>
          if \<not> snapshot_ok snapshot then (Inl (JournalUnverified p (js_verification snapshot)), file)
          else
            (case prepare_projection_path env database_path file of
               (Inl e, file') \<Rightarrow> (Inl (Failure e), file')
             | (Inr _, file') \<Rightarrow>
                 (case rb_connect env of
                    Inl e \<Rightarrow> (Inl (rebuild_error e), file')
                  | Inr _ \<Rightarrow>
                      (case (case file' of NoFile \<Rightarrow> Some empty_database | Db db \<Rightarrow> Some db
                             | NotADatabase \<Rightarrow> None) of
                         None \<Rightarrow>
                           (Inl (rebuild_error (Raise SqliteDatabaseError ''file is not a database'')),
                            file')
                       | Some db \<Rightarrow>
                           (case sql_with (rb_commit env) (rebuild_body pd p snapshot) db of
                              (Inl e, db') \<Rightarrow> (Inl (rebuild_error e), Db db')
                            | (Inr n, db') \<Rightarrow>
                                (Inr \<lparr>rr_journal_path = p, rr_database_path = database_path,
                                      rr_records_indexed = n,
                                      rr_last_event_hash = snapshot_terminal_hash snapshot,
                                      rr_schema_version = PROJECTION_SCHEMA_VERSION\<rparr>, Db db'))))))"

end
