(* ===== verification/ProjectionState.thy ===== *)
theory ProjectionState
  imports Projection
begin

text \<open>
  Does a projection correspond to the journal (\<open>projection/sqlite.py\<close>): the metadata and every row
  of the database are compared with a fresh verification of the journal, and the journal is verified
  once more when the reader is done.
\<close>

section \<open>Metadata\<close>

text \<open>
  \<open>_get_metadata\<close>: a dict of the rows, so the last row of a key counts. The casts check nothing; the
  operations of \<open>str\<close> raise on another type.
\<close>

type_synonym metadata = "(pyv \<times> pyv) list"

definition get_metadata :: "database \<Rightarrow> metadata res" where
  "get_metadata db =
     bnd (sql_select db ''projection_metadata'' [''key'', ''value''] [] []) (\<lambda>rows.
       Inr (rev (map (\<lambda>row. (row ! 0, row ! 1)) rows)))"

definition metadata_get :: "metadata \<Rightarrow> string \<Rightarrow> pyv" where
  "metadata_get metadata key =
     (case dget metadata (VStr key) of None \<Rightarrow> VNone | Some v \<Rightarrow> v)"

definition obj_startswith :: "pyv \<Rightarrow> string \<Rightarrow> bool res" where
  "obj_startswith v start =
     (case v of
        VStr s \<Rightarrow> Inr (py_startswith s start)
      | VBytes s \<Rightarrow> raise TypeError ''startswith first arg must be bytes or a tuple of bytes, not str''
      | _ \<Rightarrow> raise AttributeError (type_name v @ '' object has no attribute startswith''))"

text \<open>\<open>int(value)\<close>: signs, white space and single underscores between digits are accepted.\<close>

definition int_of_text :: "string \<Rightarrow> int res" where
  "int_of_text text =
     (let t = py_strip text;
          (negative, u) =
            (case t of
               [] \<Rightarrow> (False, [])
             | c # r \<Rightarrow> if c = CHR ''-'' then (True, r) else if c = CHR ''+'' then (False, r) else (False, t));
          groups = split_on (CHR ''_'') u;
          digits = concat groups
      in if list_all (\<lambda>g. g \<noteq> [] \<and> list_all is_digit g) groups \<and> length digits \<le> max_int_digits
         then Inr (if negative then - int (nat_of_digits digits) else int (nat_of_digits digits))
         else raise ValueError ''invalid literal for int() with base 10'')"

definition int_of_value :: "pyv \<Rightarrow> int res" where
  "int_of_value v =
     (case v of
        VStr s \<Rightarrow> int_of_text s
      | VBytes s \<Rightarrow> int_of_text s
      | VInt i \<Rightarrow> Inr i
      | VFloat f \<Rightarrow>
          (case f of
             PFin s m e \<Rightarrow>
               Inr (if float_val f < 0 then \<lceil>float_val f\<rceil> else \<lfloor>float_val f\<rfloor>)
           | PInf s \<Rightarrow> raise OverflowError ''cannot convert float infinity to integer''
           | PNan \<Rightarrow> raise ValueError ''cannot convert float NaN to integer'')
      | _ \<Rightarrow> raise TypeError (''int() argument must be a string or a number, not '' @ type_name v))"

definition metadata_int :: "metadata \<Rightarrow> string \<Rightarrow> int res" where
  "metadata_int metadata key =
     (let v = metadata_get metadata key in
      if v = VNone then raise ValueError (''projection metadata is missing '' @ key)
      else
        (case int_of_value v of
           Inl e \<Rightarrow>
             if is_a (exn_kind e) ValueError
             then raise ValueError (''projection metadata '' @ key @ '' is not an integer'')
             else Inl e
         | Inr parsed \<Rightarrow>
             if parsed < 0 then raise ValueError (''projection metadata '' @ key @ '' cannot be negative'')
             else Inr parsed))"

definition metadata_hash :: "metadata \<Rightarrow> string \<Rightarrow> pyv res" where
  "metadata_hash metadata key =
     (let v = metadata_get metadata key in
      if v = VNone then raise ValueError (''projection metadata is missing '' @ key)
      else Inr (if truthy v then v else VNone))"

definition projection_source_path_hint :: "filesystem \<Rightarrow> metadata \<Rightarrow> string res" where
  "projection_source_path_hint fs metadata =
     (let v = metadata_get metadata ''source_journal_path'' in
      if \<not> truthy v then raise ValueError ''projection metadata is missing source_journal_path''
      else
        (case v of
           VStr s \<Rightarrow> bnd (normalize_journal_path fs (Path s)) (\<lambda>p. Inr (path_str p))
         | _ \<Rightarrow> raise TypeError ''argument should be a str or an os.PathLike object''))"

section \<open>Rows\<close>

text \<open>\<open>_projected_row_values_and_types\<close>: the values of each row with their storage classes.\<close>

definition projected_row_values_and_types :: "database \<Rightarrow> (pyv list \<times> string list) list res" where
  "projected_row_values_and_types db =
     bnd (sql_select db ''events'' PROJECTED_EVENT_COLUMNS [] [''journal_record_number'']) (\<lambda>rows.
       Inr (map (\<lambda>row. (row, map sql_typeof row)) rows))"

definition same_values :: "pyv list \<Rightarrow> pyv list \<Rightarrow> bool" where
  "same_values xs ys \<longleftrightarrow> list_all2 py_eq xs ys"

definition mismatched :: "('a \<Rightarrow> 'a \<Rightarrow> bool) \<Rightarrow> 'a list \<Rightarrow> 'a list \<Rightarrow> string list" where
  "mismatched same actual expected =
     map fst (filter (\<lambda>(c, a, b). \<not> same a b) (zip PROJECTED_EVENT_COLUMNS (zip actual expected)))"

definition verify_row :: "pydantic \<Rightarrow> nat \<Rightarrow> event \<Rightarrow> pyv list \<times> string list \<Rightarrow> unit pres" where
  "verify_row pd record_number e row =
     (let (actual_values, actual_types) = row in
      bnd (plain (event_projection_values pd e record_number)) (\<lambda>expected_values.
      bnd (traverse expected_sqlite_type expected_values) (\<lambda>expected_types.
      if \<not> same_values actual_values expected_values \<or> actual_types \<noteq> expected_types then
        state_error PS_PROJECTION_MISMATCH ''projection row content does not match the verified journal''
          [(''record_number'', VInt (int record_number)), (''event_id'', actual_values ! 0),
           (''expected_event_id'', VStr (event_id e)),
           (''mismatched_columns'',
            VList (map VStr (mismatched py_eq actual_values expected_values))),
           (''type_mismatched_columns'',
            VList (map VStr (mismatched (=) actual_types expected_types)))]
      else Inr ())))"

fun verify_rows :: "pydantic \<Rightarrow> nat \<Rightarrow> event list \<Rightarrow> (pyv list \<times> string list) list \<Rightarrow> unit pres" where
  "verify_rows pd record_number (e # es) (row # rows) =
     bnd (verify_row pd record_number e row) (\<lambda>_. verify_rows pd (record_number + 1) es rows)"
| "verify_rows pd record_number es rows = Inr ()"

definition verify_projected_row_values ::
  "pydantic \<Rightarrow> (pyv list \<times> string list) list \<Rightarrow> VerifiedJournalSnapshot \<Rightarrow> nat \<Rightarrow> unit pres" where
  "verify_projected_row_values pd rows snapshot record_count =
     (if length rows \<noteq> record_count then
        state_error (if length rows < record_count then PS_PROJECTION_STALE else PS_PROJECTION_MISMATCH)
          ''projection row count does not match the verified journal''
          [(''rows'', VInt (int (length rows))), (''record_count'', VInt (int record_count))]
      else verify_rows pd 1 (take record_count (js_events snapshot)) rows)"

definition verify_projected_rows :: "pydantic \<Rightarrow> database \<Rightarrow> VerifiedJournalSnapshot \<Rightarrow> unit pres" where
  "verify_projected_rows pd db snapshot =
     bnd (plain (projected_row_values_and_types db)) (\<lambda>rows.
       verify_projected_row_values pd rows snapshot (snapshot_record_count snapshot))"

text \<open>
  Does the projection hold the first \<open>records_indexed\<close> records of the journal? Only a
  \<open>ProjectionStateError\<close> means no, any other exception is passed on.
\<close>

definition projection_matches_verified_journal_prefix ::
  "pydantic \<Rightarrow> database \<Rightarrow> VerifiedJournalSnapshot \<Rightarrow> int \<Rightarrow> pyv \<Rightarrow> bool pres" where
  "projection_matches_verified_journal_prefix pd db snapshot records_indexed last_event_hash =
     (if records_indexed > int (snapshot_record_count snapshot) then Inr False
      else
        let n = nat records_indexed;
            expected_last_hash =
              (if n = 0 then None else event_hash (ev_integrity (js_events snapshot ! (n - 1)))) in
        if \<not> py_eq last_event_hash (opt_str expected_last_hash) then Inr False
        else
          bnd (plain (projected_row_values_and_types db)) (\<lambda>rows.
            if length rows \<noteq> n then Inr False
            else
              (case verify_projected_row_values pd rows snapshot n of
                 Inr _ \<Rightarrow> Inr True
               | Inl (StateError code message details) \<Rightarrow> Inr False
               | Inl e \<Rightarrow> Inl e)))"

section \<open>The projection's identity\<close>

definition verify_projection_identity ::
  "pyv \<Rightarrow> pyv \<Rightarrow> pyv \<Rightarrow> int \<Rightarrow> pyv \<Rightarrow> int \<Rightarrow> unit pres" where
  "verify_projection_identity stored source_identity source_sha256 records_indexed last_event_hash
     schema_version =
     bnd (plain (obj_startswith stored ''sqlite-file:'')) (\<lambda>legacy.
     if legacy then
       state_error PS_PROJECTION_REBUILD_REQUIRED
         ''projection uses legacy path-based projection identity; rebuild required''
         [(''projection_identity_version'', VStr ''legacy_path_based''),
          (''expected_projection_identity_version'', VStr PROJECTION_IDENTITY_VERSION)]
     else
       bnd (plain (projection_identity source_identity source_sha256 records_indexed last_event_hash
              schema_version)) (\<lambda>expected.
       if \<not> py_eq stored (VStr expected) then
         (case stored of
            VStr s \<Rightarrow>
              bnd (plain (py_encode s)) (\<lambda>bs.
              state_error PS_PROJECTION_MISMATCH
                ''projection identity metadata does not match verified projection contents''
                [(''projection_identity_version'', VStr (projection_identity_version s)),
                 (''expected_projection_identity_version'', VStr PROJECTION_IDENTITY_VERSION),
                 (''projection_identity_sha256'', VStr (sha256_hex bs))])
          | _ \<Rightarrow> plain (raise AttributeError (type_name stored @ '' object has no attribute partition'')))
       else Inr ()))"

section \<open>Verification\<close>

record VerifiedProjectionSnapshot =
  vp_journal_path :: path
  vp_database_path :: path
  vp_journal_snapshot :: VerifiedJournalSnapshot
  vp_records_indexed :: int
  vp_last_event_hash :: pyv
  vp_source_journal_path :: string
  vp_source_journal_identity :: pyv
  vp_source_journal_sha256 :: pyv
  vp_projection_identity :: pyv
  vp_schema_version :: int
  vp_state :: ProjectionStateCode

definition vp_record_count :: "VerifiedProjectionSnapshot \<Rightarrow> nat" where
  "vp_record_count v = snapshot_record_count (vp_journal_snapshot v)"

definition vp_terminal_hash :: "VerifiedProjectionSnapshot \<Rightarrow> string option" where
  "vp_terminal_hash v = snapshot_terminal_hash (vp_journal_snapshot v)"

definition VerifiedProjectionSnapshot_as_dict :: "VerifiedProjectionSnapshot \<Rightarrow> pyv res" where
  "VerifiedProjectionSnapshot_as_dict v =
     (let s = vp_journal_snapshot v in
      bnd (journal_source_identity s) (\<lambda>source_identity.
      Inr (obj
        [(''ok'', VBool True), (''proof_version'', VStr PROJECTION_PROOF_VERSION),
         (''state'', VStr (ProjectionStateCode_value (vp_state v))),
         (''source_journal_identity'', vp_source_journal_identity v),
         (''source_journal_sha256'', vp_source_journal_sha256 v),
         (''projection_identity'', vp_projection_identity v),
         (''records_indexed'', VInt (vp_records_indexed v)),
         (''record_count'', VInt (int (vp_record_count v))),
         (''last_event_hash'', vp_last_event_hash v),
         (''terminal_hash'', opt_str (vp_terminal_hash v)),
         (''schema_version'', VInt (vp_schema_version v)),
         (''journal'', obj
            [(''ok'', VBool (snapshot_ok s)),
             (''record_count'', VInt (int (snapshot_record_count s))),
             (''terminal_hash'', opt_str (snapshot_terminal_hash s)),
             (''journal_sha256'', opt_str (js_journal_sha256 s)),
             (''source_identity'', VStr source_identity),
             (''verification'', VerificationResult_as_dict (js_verification s))])])))"

text \<open>\<open>journal_path\<close> is what the snapshot was taken of, as text.\<close>

definition VerifiedProjectionSnapshot_diagnostics :: "VerifiedProjectionSnapshot \<Rightarrow> pyv res" where
  "VerifiedProjectionSnapshot_diagnostics v =
     bnd (VerifiedJournalSnapshot_as_dict (path_str (vp_journal_path v)) (vp_journal_snapshot v)) (\<lambda>journal.
     Inr (obj
       [(''diagnostics_version'', VStr PROJECTION_DIAGNOSTICS_VERSION),
        (''journal_path'', VStr (path_str (vp_journal_path v))),
        (''database_path'', VStr (path_str (vp_database_path v))),
        (''source_journal_path'', VStr (vp_source_journal_path v)), (''journal'', journal)]))"

definition check_identity_metadata ::
  "pydantic \<Rightarrow> database \<Rightarrow> metadata \<Rightarrow> VerifiedJournalSnapshot \<Rightarrow> int \<Rightarrow> pyv \<Rightarrow> pyv pres" where
  "check_identity_metadata pd db metadata snapshot records_indexed last_event_hash =
     bnd (plain (journal_source_identity snapshot)) (\<lambda>expected_identity.
     let stored_identity = metadata_get metadata ''source_journal_identity'' in
     if \<not> truthy stored_identity
     then plain (raise ValueError ''projection metadata is missing source_journal_identity'')
     else
       bnd (plain (obj_startswith stored_identity ''local-file:'')) (\<lambda>legacy.
       if legacy then
         state_error PS_PROJECTION_REBUILD_REQUIRED
           ''projection uses legacy path-based source journal identity; rebuild required''
           [(''source_journal_identity'', stored_identity),
            (''expected_source_journal_identity'', VStr expected_identity)]
       else
         let stored_version = metadata_get metadata ''source_journal_identity_version'' in
         if stored_version = VNone
         then plain (raise ValueError ''projection metadata is missing source_journal_identity_version'')
         else if \<not> py_eq stored_version (VStr JOURNAL_SOURCE_IDENTITY_VERSION) then
           state_error PS_PROJECTION_REBUILD_REQUIRED
             ''projection source journal identity version is unsupported; rebuild required''
             [(''source_journal_identity_version'', stored_version),
              (''expected_source_journal_identity_version'', VStr JOURNAL_SOURCE_IDENTITY_VERSION)]
         else if \<not> py_eq stored_identity (VStr expected_identity) then
           bnd (projection_matches_verified_journal_prefix pd db snapshot records_indexed last_event_hash)
             (\<lambda>matches_prefix.
             if matches_prefix then
               state_error PS_PROJECTION_STALE
                 ''projection matches a verified prefix of the source journal; rebuild required''
                 [(''records_indexed'', VInt records_indexed),
                  (''record_count'', VInt (int (snapshot_record_count snapshot))),
                  (''last_event_hash'', last_event_hash),
                  (''terminal_hash'', opt_str (snapshot_terminal_hash snapshot))]
             else
               state_error PS_PROJECTION_MISMATCH
                 ''projection source journal identity does not match the verified journal''
                 [(''source_journal_identity'', stored_identity),
                  (''expected_source_journal_identity'', VStr expected_identity)])
         else Inr stored_identity))"

definition check_journal_metadata ::
  "metadata \<Rightarrow> VerifiedJournalSnapshot \<Rightarrow> int \<Rightarrow> pyv \<Rightarrow> pyv pres" where
  "check_journal_metadata metadata snapshot records_indexed last_event_hash =
     (let stored_sha256 = metadata_get metadata ''source_journal_sha256'';
          expected_sha256 = text_or_empty (js_journal_sha256 snapshot) in
      if stored_sha256 = VNone
      then plain (raise ValueError ''projection metadata is missing source_journal_sha256'')
      else if \<not> py_eq stored_sha256 (VStr expected_sha256) then
        state_error PS_PROJECTION_MISMATCH
          ''projection source journal byte digest does not match the verified journal''
          [(''source_journal_sha256'', stored_sha256),
           (''expected_source_journal_sha256'', VStr expected_sha256)]
      else if \<not> (records_indexed = int (snapshot_record_count snapshot)
               \<and> py_eq last_event_hash (opt_str (snapshot_terminal_hash snapshot))) then
        state_error
          (if records_indexed \<le> int (snapshot_record_count snapshot) then PS_PROJECTION_STALE
           else PS_PROJECTION_MISMATCH)
          ''projection metadata does not match the verified journal''
          [(''records_indexed'', VInt records_indexed),
           (''record_count'', VInt (int (snapshot_record_count snapshot))),
           (''last_event_hash'', last_event_hash),
           (''terminal_hash'', opt_str (snapshot_terminal_hash snapshot))]
      else Inr stored_sha256)"

definition verify_projection_state_on_connection ::
  "pydantic \<Rightarrow> filesystem \<Rightarrow> snapshot_env \<Rightarrow> path \<Rightarrow> path \<Rightarrow> database \<Rightarrow> VerifiedProjectionSnapshot pres" where
  "verify_projection_state_on_connection pd fs env database_path journal_path db =
     bnd (plain (validate_schema db)) (\<lambda>_.
     bnd (plain (get_metadata db)) (\<lambda>metadata.
     bnd (plain (projection_source_path_hint fs metadata)) (\<lambda>source_path.
     let stored_projection_identity = metadata_get metadata ''projection_identity'' in
     if \<not> truthy stored_projection_identity
     then plain (raise ValueError ''projection metadata is missing projection_identity'')
     else
       bnd (plain (locked_snapshot pd env None None)) (\<lambda>snapshot.
       if \<not> snapshot_ok snapshot then
         state_error PS_JOURNAL_INVALID ''source journal verification failed''
           [(''verification'', VerificationResult_as_dict (js_verification snapshot))]
       else
         bnd (plain (metadata_int metadata ''records_indexed'')) (\<lambda>records_indexed.
         bnd (plain (metadata_hash metadata ''last_event_hash'')) (\<lambda>last_event_hash.
         bnd (check_identity_metadata pd db metadata snapshot records_indexed last_event_hash)
           (\<lambda>stored_identity.
         bnd (check_journal_metadata metadata snapshot records_indexed last_event_hash) (\<lambda>stored_sha256.
         bnd (verify_projection_identity stored_projection_identity stored_identity
                (if truthy stored_sha256 then stored_sha256 else VStr []) records_indexed last_event_hash
                PROJECTION_SCHEMA_VERSION) (\<lambda>_.
         bnd (verify_projected_rows pd db snapshot) (\<lambda>_.
         Inr \<lparr>vp_journal_path = journal_path, vp_database_path = database_path,
              vp_journal_snapshot = snapshot, vp_records_indexed = records_indexed,
              vp_last_event_hash = last_event_hash, vp_source_journal_path = source_path,
              vp_source_journal_identity = stored_identity,
              vp_source_journal_sha256 = (if truthy stored_sha256 then stored_sha256 else VNone),
              vp_projection_identity = stored_projection_identity,
              vp_schema_version = PROJECTION_SCHEMA_VERSION, vp_state = PS_HEALTHY\<rparr>))))))))))"

section \<open>Readers\<close>

definition sqlite_error_name :: "exn_class \<Rightarrow> string" where
  "sqlite_error_name c =
     (if c = SqliteIntegrityError then ''IntegrityError''
      else if c = SqliteOperationalError then ''OperationalError'' else ''DatabaseError'')"

text \<open>The \<open>except\<close> clauses around the verification.\<close>

definition reader_error :: "cset \<Rightarrow> projection_error \<Rightarrow> projection_error" where
  "reader_error alnum err =
     (case err of
        Failure e \<Rightarrow>
          let rebuild_required = (\<lambda>message.
                case safe_error_detail alnum default_validation_message e of
                  Inl e' \<Rightarrow> Failure e'
                | Inr detail \<Rightarrow>
                    StateError PS_PROJECTION_REBUILD_REQUIRED message (obj [(''error'', VStr detail)])) in
          if is_a (exn_kind e) SqliteDatabaseError then
            StateError PS_PROJECTION_UNAVAILABLE ''sqlite projection could not be verified''
              (obj [(''error_type'', VStr (sqlite_error_name (exn_kind e)))])
          else if exn_kind e = ProjectionSchemaError then
            rebuild_required ''projection schema is unsupported or incomplete''
          else if is_a (exn_kind e) OSError \<or> is_a (exn_kind e) ValueError then
            rebuild_required ''projection metadata is incomplete or invalid''
          else Failure e
      | _ \<Rightarrow> err)"

text \<open>\<open>_recheck_terminal_journal_state\<close>, with the journal as it is then.\<close>

definition recheck_terminal_journal_state ::
  "pydantic \<Rightarrow> snapshot_env \<Rightarrow> VerifiedProjectionSnapshot \<Rightarrow> unit pres" where
  "recheck_terminal_journal_state pd env verification =
     bnd (plain (locked_snapshot pd env (Some (int (vp_record_count verification)))
                   (vp_terminal_hash verification))) (\<lambda>snapshot.
     if snapshot_ok snapshot then Inr ()
     else
       let codes = map vi_code (vr_issues (js_verification snapshot));
           details = [(''verification'', VerificationResult_as_dict (js_verification snapshot))] in
       if codes \<noteq> []
          \<and> set codes \<subseteq> {VC_expected_record_count_mismatch, VC_expected_last_hash_mismatch}
       then state_error PS_PROJECTION_STALE
              ''source journal changed while the projection read was in progress'' details
       else state_error PS_JOURNAL_INVALID
              ''source journal verification failed after projection read'' details)"

text \<open>
  What a reader meets: the database file, the answer to opening it, the journal when the projection
  is verified and when the reader is done.
\<close>

record reader_env =
  rd_alnum :: cset
  rd_fs :: filesystem
  rd_file :: db_file
  rd_open :: "unit res"
  rd_before :: snapshot_env
  rd_after :: snapshot_env

definition open_database :: "db_file \<Rightarrow> database res" where
  "open_database file =
     (case file of Db db \<Rightarrow> Inr db | _ \<Rightarrow> raise SqliteDatabaseError ''file is not a database'')"

text \<open>
  \<open>with _verified_projection_reader(...)\<close> around a body that reads the database: what the body
  raises leaves without the final check.
\<close>

definition verified_projection_reader ::
  "pydantic \<Rightarrow> reader_env \<Rightarrow> path \<Rightarrow> path \<Rightarrow> (database \<Rightarrow> VerifiedProjectionSnapshot \<Rightarrow> 'a pres) \<Rightarrow> 'a pres"
  where
  "verified_projection_reader pd env database_path journal_path body =
     (if rd_file env = NoFile then
        state_error PS_PROJECTION_MISSING
          (''projection database does not exist: '' @ path_str database_path) []
      else
        bnd (plain (normalize_journal_path (rd_fs env) journal_path)) (\<lambda>normalized.
        bnd (plain (resolve_path (rd_fs env) database_path)) (\<lambda>_.
        bnd (plain (rd_open env)) (\<lambda>_.
        case bnd (plain (open_database (rd_file env))) (\<lambda>db.
               bnd (verify_projection_state_on_connection pd (rd_fs env) (rd_before env) database_path
                      normalized db) (\<lambda>verification. Inr (db, verification))) of
          Inl err \<Rightarrow> Inl (reader_error (rd_alnum env) err)
        | Inr (db, verification) \<Rightarrow>
            bnd (body db verification) (\<lambda>x.
            bnd (recheck_terminal_journal_state pd (rd_after env) verification) (\<lambda>_. Inr x))))))"

definition verify_projection_state ::
  "pydantic \<Rightarrow> reader_env \<Rightarrow> path \<Rightarrow> path \<Rightarrow> VerifiedProjectionSnapshot pres" where
  "verify_projection_state pd env database_path journal_path =
     verified_projection_reader pd env database_path journal_path (\<lambda>db verification. Inr verification)"

end
