(* ===== verification/ProjectionChain.thy ===== *)
theory ProjectionChain
  imports ProjectionState JournalClaims
begin

text \<open>
  What a rebuild leaves in the database and what a verification has compared: the lemmas behind the
  properties of the projection.
\<close>

section \<open>The row of an event\<close>

definition event_row :: "pydantic \<Rightarrow> event \<Rightarrow> nat \<Rightarrow> bytes \<Rightarrow> pyv list" where
  "event_row pd e n event_json =
     (let (status, subject, evidence) =
            evidence_projection_values [(KStr ''payload'', thaw_json_value (payload e))] in
      [VStr (event_id e), VStr (spec_version e), VStr (event_type e),
       VStr (pd_dump_datetime pd (occurred_at e)), VStr (pd_dump_datetime pd (observed_at e)),
       VStr (trace_id (ev_correlation e)), VStr (run_id (ev_correlation e)),
       opt_str (span_id (ev_correlation e)), opt_str (session_id (ev_correlation e)),
       VStr (root_event_id (ev_causality e)), opt_str (parent_event_id (ev_causality e)),
       VInt (sequence (ev_causality e)), opt_str (event_hash (ev_integrity e)),
       opt_str (previous_event_hash (ev_integrity e)), opt_str status, opt_str subject,
       opt_str evidence, VInt (int n), VStr event_json])"

lemma evidence_values_payload:
  "evidence_projection_values (obj_items (event_dump tm e)) =
   evidence_projection_values [(KStr ''payload'', thaw_json_value (payload e))]"
  unfolding evidence_projection_values_def get_or_none_def get_item_obj by (simp add: event_dump_def)

lemma projection_values_iff:
  assumes "wf_event e"
  shows "event_projection_values pd e n = Inr vals \<longleftrightarrow>
     (\<exists>bs. serialize_event pd e = Inr bs \<and> vals = event_row pd e n bs)"
proof (cases "event_to_dict pd e")
  case (Inl err)
  then show ?thesis by (simp add: event_projection_values_def serialize_event_def)
next
  case (Inr w)
  then have w: "w = obj (event_dump (\<lambda>t. VStr (pd_dump_datetime pd t)) e)"
    using event_to_dict_iff [OF assms] by (simp add: model_json_def)
  have g: "py_getitem (obj_items (event_dump (\<lambda>t. VStr (pd_dump_datetime pd t)) e)) ''occurred_at''
      = Inr (VStr (pd_dump_datetime pd (occurred_at e)))"
    "py_getitem (obj_items (event_dump (\<lambda>t. VStr (pd_dump_datetime pd t)) e)) ''observed_at''
      = Inr (VStr (pd_dump_datetime pd (observed_at e)))"
    unfolding py_getitem_def get_item_obj by (simp_all add: event_dump_def)
  show ?thesis
    using Inr by (auto simp: event_projection_values_def w g evidence_values_payload event_row_def
        bnd_Inr_iff Let_def split: prod.splits)
qed

lemma event_row_cells [simp]:
  "length (event_row pd e n bs) = 19" "event_row pd e n bs ! 0 = VStr (event_id e)"
  "event_row pd e n bs ! 17 = VInt (int n)" "event_row pd e n bs ! 18 = VStr bs"
  "last (event_row pd e n bs) = VStr bs"
  by (simp_all add: event_row_def split: prod.split)

lemma ex_traverse: "(\<exists>ys. traverse f xs = Inr ys) \<longleftrightarrow> (\<forall>x\<in>set xs. \<exists>y. f x = Inr y)"
  by (induction xs) (auto simp: bnd_Inr_iff)

lemma opt_str_kinds: "opt_str x = VNone \<or> (\<exists>s. opt_str x = VStr s)"
  by (cases x) auto

lemma event_row_kinds:
  "v \<in> set (event_row pd e n bs) \<Longrightarrow> v = VNone \<or> (\<exists>s. v = VStr s) \<or> (\<exists>i. v = VInt i)"
  using opt_str_kinds by (simp add: event_row_def split: prod.splits) metis

lemma event_row_types: "\<exists>ts. traverse expected_sqlite_type (event_row pd e n bs) = Inr ts"
  unfolding ex_traverse by (auto simp: expected_sqlite_type_def dest!: event_row_kinds)

section \<open>Compared values are equal\<close>

lemma sql_typeof_cases:
  "sql_typeof v = ''null'' \<longleftrightarrow> v = VNone"
  "sql_typeof v = ''integer'' \<longleftrightarrow> (\<exists>i. v = VInt i)"
  "sql_typeof v = ''text'' \<longleftrightarrow> (\<exists>s. v = VStr s)"
  by (cases v; simp)+

lemma expected_type_eq:
  "expected_sqlite_type y = Inr (sql_typeof x) \<Longrightarrow> py_eq x y \<longleftrightarrow> x = y"
  by (cases y; cases x) (auto simp: expected_sqlite_type_def scalar_eq_def)

lemma expected_type_typeof:
  "expected_sqlite_type y = Inr t \<Longrightarrow> t = sql_typeof y"
  by (cases y) (auto simp: expected_sqlite_type_def)

lemma verify_row_iff:
  "verify_row pd n e (vals, map sql_typeof vals) = Inr u \<longleftrightarrow>
     event_projection_values pd e n = Inr vals
     \<and> (\<exists>ts. traverse expected_sqlite_type vals = Inr ts)"
proof
  assume "verify_row pd n e (vals, map sql_typeof vals) = Inr u"
  then obtain expected where x: "event_projection_values pd e n = Inr expected"
    "traverse expected_sqlite_type expected = Inr (map sql_typeof vals)"
    "list_all2 py_eq vals expected"
    by (auto simp: verify_row_def bnd_Inr_iff same_values_def split: if_split_asm)
  have "list_all2 (=) vals expected"
  proof (rule list_all2_all_nthI)
    show "length vals = length expected" using x(3) by (rule list_all2_lengthD)
    fix i assume i: "i < length vals"
    then have "expected_sqlite_type (expected ! i) = Inr (sql_typeof (vals ! i))"
      using x(2,3) by (auto simp: traverse_Inr_iff list_all2_conv_all_nth)
    moreover have "py_eq (vals ! i) (expected ! i)" using list_all2_nthD [OF x(3) i] .
    ultimately show "vals ! i = expected ! i" by (simp add: expected_type_eq)
  qed
  then have "vals = expected" by (simp add: list.rel_eq)
  then show "event_projection_values pd e n = Inr vals
     \<and> (\<exists>ts. traverse expected_sqlite_type vals = Inr ts)" using x by auto
next
  assume a: "event_projection_values pd e n = Inr vals
     \<and> (\<exists>ts. traverse expected_sqlite_type vals = Inr ts)"
  then obtain ts where ts: "traverse expected_sqlite_type vals = Inr ts" by blast
  have t: "list_all2 (\<lambda>v t. expected_sqlite_type v = Inr t) vals ts"
    using ts by (simp add: traverse_Inr_iff)
  then have "ts = map sql_typeof vals"
    by (induction rule: list_all2_induct) (auto dest: expected_type_typeof)
  moreover have "list_all2 py_eq vals vals"
    using t by (induction rule: list_all2_induct)
      (auto simp: expected_sqlite_type_def scalar_eq_def split: pyv.splits)
  ultimately show "verify_row pd n e (vals, map sql_typeof vals) = Inr u"
    using a ts by (simp add: verify_row_def same_values_def)
qed

lemma verify_rows_iff:
  "length rows = length es \<Longrightarrow>
   verify_rows pd n es (map (\<lambda>r. (r, map sql_typeof r)) rows) = Inr u \<longleftrightarrow>
     (\<forall>i < length es. event_projection_values pd (es ! i) (n + i) = Inr (rows ! i)
        \<and> (\<exists>ts. traverse expected_sqlite_type (rows ! i) = Inr ts))"
proof (induction es arbitrary: n rows)
  case (Cons e es)
  then obtain r rs where rows: "rows = r # rs" by (cases rows) auto
  have "verify_rows pd n (e # es) (map (\<lambda>r. (r, map sql_typeof r)) rows) = Inr u \<longleftrightarrow>
      (\<exists>v. verify_row pd n e (r, map sql_typeof r) = Inr v)
      \<and> verify_rows pd (n + 1) es (map (\<lambda>r. (r, map sql_typeof r)) rs) = Inr u"
    by (auto simp: rows bnd_Inr_iff)
  also have "\<dots> \<longleftrightarrow> event_projection_values pd e n = Inr r \<and> (\<exists>ts. traverse expected_sqlite_type r = Inr ts)
      \<and> (\<forall>i < length es. event_projection_values pd (es ! i) (Suc n + i) = Inr (rs ! i)
          \<and> (\<exists>ts. traverse expected_sqlite_type (rs ! i) = Inr ts))"
    using Cons by (simp add: rows verify_row_iff)
  finally show ?case by (simp add: rows All_less_Suc2)
qed simp

text \<open>The rows of a database in the order of their record numbers.\<close>

definition projected_rows :: "database \<Rightarrow> pyv list list res" where
  "projected_rows db = sql_select db ''events'' PROJECTED_EVENT_COLUMNS [] [''journal_record_number'']"

definition rows_of :: "pydantic \<Rightarrow> event list \<Rightarrow> pyv list list \<Rightarrow> bool" where
  "rows_of pd es rows \<longleftrightarrow>
     length rows = length es
     \<and> (\<forall>i < length es. event_projection_values pd (es ! i) (i + 1) = Inr (rows ! i))"

lemma verified_rows:
  assumes "verify_projected_rows pd db s = Inr u" "snapshot_record_count s = length (js_events s)"
  obtains rows where "projected_rows db = Inr rows" "rows_of pd (js_events s) rows"
proof -
  obtain rows where rows: "projected_rows db = Inr rows"
    "verify_projected_row_values pd (map (\<lambda>r. (r, map sql_typeof r)) rows) s (length (js_events s)) = Inr u"
    using assms by (auto simp: verify_projected_rows_def projected_row_values_and_types_def
        projected_rows_def bnd_Inr_iff)
  then have "length rows = length (js_events s)"
    "verify_rows pd 1 (js_events s) (map (\<lambda>r. (r, map sql_typeof r)) rows) = Inr u"
    by (auto simp: verify_projected_row_values_def split: if_split_asm)
  then show ?thesis using that rows(1) verify_rows_iff [of rows "js_events s" pd 1 u]
    by (simp add: rows_of_def)
qed

lemma verification_Inr:
  assumes "verify_projection_state_on_connection pd fs env dbp jp db = Inr v"
  shows "locked_snapshot pd env None None = Inr (vp_journal_snapshot v)"
    and "snapshot_ok (vp_journal_snapshot v)"
    and "\<exists>u. verify_projected_rows pd db (vp_journal_snapshot v) = Inr u"
  using assms
  by (auto simp: verify_projection_state_on_connection_def bnd_Inr_iff Let_def split: if_split_asm)

lemma reader_Inr:
  assumes "verified_projection_reader pd env dbp jp body = Inr x"
  obtains db v normalized where "rd_file env = Db db"
    "normalize_journal_path (rd_fs env) jp = Inr normalized"
    "verify_projection_state_on_connection pd (rd_fs env) (rd_before env) dbp normalized db = Inr v"
    "body db v = Inr x" "recheck_terminal_journal_state pd (rd_after env) v = Inr ()"
proof -
  have f: "rd_file env \<noteq> NoFile" using assms by (auto simp: verified_projection_reader_def)
  obtain n where n: "normalize_journal_path (rd_fs env) jp = Inr n"
    "(case bnd (plain (open_database (rd_file env))) (\<lambda>db.
        bnd (verify_projection_state_on_connection pd (rd_fs env) (rd_before env) dbp n db) (\<lambda>v.
          Inr (db, v))) of
        Inl err \<Rightarrow> Inl (reader_error (rd_alnum env) err)
      | Inr (db, v) \<Rightarrow>
          bnd (body db v) (\<lambda>x.
          bnd (recheck_terminal_journal_state pd (rd_after env) v) (\<lambda>_. Inr x))) = Inr x"
    using assms f by (auto simp: verified_projection_reader_def bnd_Inr_iff)
  then obtain db v where "open_database (rd_file env) = Inr db"
    "verify_projection_state_on_connection pd (rd_fs env) (rd_before env) dbp n db = Inr v"
    "body db v = Inr x" "recheck_terminal_journal_state pd (rd_after env) v = Inr ()"
    by (auto simp: bnd_Inr_iff split: sum.splits)
  then show ?thesis
    using that n(1) by (auto simp: open_database_def split: db_file.splits)
qed

end
