(* ===== verification/ProjectionRebuild.thy ===== *)
theory ProjectionRebuild
  imports ProjectionChain
begin

text \<open>
  Rebuilding the projection: what the schema statements, the insertions and the metadata leave in the
  database, and exactly when a rebuild succeeds.
\<close>

section \<open>Databases of the program\<close>

definition REQUIRED_COLUMNS :: "string list" where
  "REQUIRED_COLUMNS =
     [''event_id'', ''spec_version'', ''event_type'', ''occurred_at'', ''observed_at'', ''trace_id'',
      ''run_id'', ''root_event_id'', ''sequence'', ''event_hash'', ''journal_record_number'',
      ''event_json'']"

definition ADDED_COLUMNS :: "string list" where
  "ADDED_COLUMNS = [''verification_status'', ''evidence_subject_event_id'', ''evidence_event_id'']"

definition rows_ok :: "sql_table \<Rightarrow> bool" where
  "rows_ok t \<longleftrightarrow>
     (\<forall>row\<in>set (tb_rows t). length row = length (tb_columns t) \<and> (\<forall>v\<in>set row. fetch_value v = Inr v))"

definition metadata_ok :: "sql_table \<Rightarrow> bool" where
  "metadata_ok t \<longleftrightarrow>
     tb_columns t = [''key'', ''value''] \<and> tb_not_null t = [''value''] \<and> tb_unique t = [''key'']
     \<and> rows_ok t"

definition events_ok :: "string set \<Rightarrow> sql_table \<Rightarrow> bool" where
  "events_ok columns t \<longleftrightarrow>
     distinct (tb_columns t) \<and> set (tb_columns t) = columns
     \<and> set (tb_not_null t) \<subseteq> set REQUIRED_COLUMNS
     \<and> set (tb_unique t) = {''event_id'', ''journal_record_number''}
     \<and> rows_ok t"

definition schema_db :: "int \<Rightarrow> string set \<Rightarrow> database \<Rightarrow> bool" where
  "schema_db version columns db \<longleftrightarrow>
     db_user_version db = version
     \<and> (\<exists>m. dget (db_tables db) ''projection_metadata'' = Some m \<and> metadata_ok m)
     \<and> (\<exists>t. dget (db_tables db) ''events'' = Some t \<and> events_ok columns t)"

text \<open>An empty file, a database of the first schema, or one of the current schema.\<close>

definition projection_db :: "database \<Rightarrow> bool" where
  "projection_db db \<longleftrightarrow>
     db = empty_database
     \<or> schema_db 1 (set PROJECTED_EVENT_COLUMNS - set ADDED_COLUMNS) db
     \<or> schema_db 2 (set PROJECTED_EVENT_COLUMNS) db"

section \<open>Tables\<close>

lemma dset_dset [simp]: "dset (dset d k v) k w = dset d k w"
  by (induction d k v rule: dset.induct) auto

lemma dset_same: "dget d k = Some v \<Longrightarrow> dset d k v = d"
  by (induction d k v rule: dset.induct) (auto split: if_split_asm)

lemma put_table_simps [simp]:
  "dget (db_tables (put_table n t db)) n' = (if n' = n then Some t else dget (db_tables db) n')"
  "db_user_version (put_table n t db) = db_user_version db"
  "db_indexes (put_table n t db) = db_indexes db"
  "put_table n t' (put_table n t db) = put_table n t' db"
  by (simp_all add: put_table_def)

lemma put_table_same: "dget (db_tables db) n = Some t \<Longrightarrow> put_table n t db = db"
  by (simp add: put_table_def dset_same)

lemma find_table_ok:
  "dget (db_tables db) n = Some t \<Longrightarrow> set cs \<subseteq> set (tb_columns t) \<Longrightarrow> find_table db n cs = Inr t"
  by (auto simp: find_table_def find_None_iff split: option.splits)

text \<open>The value of a column in a list of values, and in the row that was made of them.\<close>

definition column :: "pyv list \<Rightarrow> string \<Rightarrow> pyv" where
  "column vals c = (case dget (zip PROJECTED_EVENT_COLUMNS vals) c of None \<Rightarrow> VNone | Some v \<Rightarrow> v)"

abbreviation place :: "sql_table \<Rightarrow> pyv list \<Rightarrow> pyv list" where
  "place t vals \<equiv> new_row t PROJECTED_EVENT_COLUMNS vals"

lemma place_def: "place t vals = map (column vals) (tb_columns t)"
  by (simp add: new_row_def column_def [abs_def])

lemma cell_place: "c \<in> set (tb_columns t) \<Longrightarrow> cell t (place t vals) c = column vals c"
  by (simp add: cell_def place_def dget_map_of map_of_zip_map)

lemma column_nth: "i < 19 \<Longrightarrow> length vals = 19 \<Longrightarrow> column vals (PROJECTED_EVENT_COLUMNS ! i) = vals ! i"
proof -
  assume "i < 19" "length vals = 19"
  moreover have "distinct PROJECTED_EVENT_COLUMNS" "length PROJECTED_EVENT_COLUMNS = 19"
    by (simp_all add: PROJECTED_EVENT_COLUMNS_def)
  ultimately have "map_of (zip PROJECTED_EVENT_COLUMNS vals) (PROJECTED_EVENT_COLUMNS ! i) = Some (vals ! i)"
    by (intro map_of_zip_nth) simp_all
  then show ?thesis by (simp add: column_def dget_map_of)
qed

lemma map_column: "length vals = 19 \<Longrightarrow> map (column vals) PROJECTED_EVENT_COLUMNS = vals"
proof (rule nth_equalityI)
  assume "length vals = 19"
  moreover show "length (map (column vals) PROJECTED_EVENT_COLUMNS) = length vals"
    using calculation by (simp add: PROJECTED_EVENT_COLUMNS_def)
  ultimately show "map (column vals) PROJECTED_EVENT_COLUMNS ! i = vals ! i"
    if "i < length (map (column vals) PROJECTED_EVENT_COLUMNS)" for i
    using that column_nth [of i vals] by simp
qed

lemma column_names:
  "''event_id'' = PROJECTED_EVENT_COLUMNS ! 0" "''journal_record_number'' = PROJECTED_EVENT_COLUMNS ! 17"
  "''event_json'' = PROJECTED_EVENT_COLUMNS ! 18"
  by (simp_all add: PROJECTED_EVENT_COLUMNS_def)

lemma event_row_columns [simp]:
  "column (event_row pd e n bs) ''event_id'' = VStr (event_id e)"
  "column (event_row pd e n bs) ''journal_record_number'' = VInt (int n)"
  "column (event_row pd e n bs) ''event_json'' = VStr bs"
  unfolding column_names by (simp_all add: column_nth)

lemma required_columns:
  "REQUIRED_COLUMNS = map ((!) PROJECTED_EVENT_COLUMNS) [0, 1, 2, 3, 4, 5, 6, 9, 11, 12, 17, 18]"
  by (simp add: REQUIRED_COLUMNS_def PROJECTED_EVENT_COLUMNS_def)

lemma event_row_required:
  assumes "event_hash (ev_integrity e) = Some h" "c \<in> set REQUIRED_COLUMNS"
  shows "column (event_row pd e n bs) c \<noteq> VNone"
proof -
  have "\<exists>i\<in>set [0, 1, 2, 3, 4, 5, 6, 9, 11, 12, 17, 18]. c = PROJECTED_EVENT_COLUMNS ! i"
    using assms(2) unfolding required_columns by auto
  then obtain i where i: "i \<in> set [0, 1, 2, 3, 4, 5, 6, 9, 11, 12, 17, 18]"
    "c = PROJECTED_EVENT_COLUMNS ! i" by blast
  have "event_row pd e n bs ! i \<noteq> VNone"
    using i(1) assms(1) by (cases "evidence_projection_values [(KStr ''payload'', thaw_json_value (payload e))]")
      (auto simp: event_row_def)
  moreover have "i < 19" using i(1) by auto
  ultimately show ?thesis unfolding i(2) by (simp add: column_nth)
qed

lemma bound_fetch: "bind_value v = Inr u \<Longrightarrow> fetch_value v = Inr v"
  by (auto simp: bind_value_def fetch_value_def split: pyv.splits)

lemma bind_values_iff: "bind_values vs = Inr u \<longleftrightarrow> (\<forall>v\<in>set vs. bind_value v = Inr ())"
  using ex_traverse [of bind_value vs] by (auto simp: bind_values_def bnd_Inr_iff)

section \<open>Inserting one event\<close>

text \<open>The events table holds the rows of these events, numbered from one.\<close>

definition row_bytes :: "pydantic \<Rightarrow> event \<Rightarrow> bytes" where
  "row_bytes pd e = (case serialize_event pd e of Inr bs \<Rightarrow> bs | Inl _ \<Rightarrow> [])"

definition event_rows :: "pydantic \<Rightarrow> nat \<Rightarrow> event list \<Rightarrow> pyv list list" where
  "event_rows pd n es = map (\<lambda>(i, e). event_row pd e (n + i) (row_bytes pd e)) (enumerate 0 es)"

lemma event_rows_Nil [simp]: "event_rows pd n [] = []"
  by (simp add: event_rows_def)

lemma enumerate_shift: "enumerate (Suc k) es = map (\<lambda>(i, e). (Suc i, e)) (enumerate k es)"
  by (induction es arbitrary: k) auto

lemma event_rows_Cons:
  "event_rows pd n (e # es) = event_row pd e n (row_bytes pd e) # event_rows pd (Suc n) es"
  by (simp add: event_rows_def enumerate_shift split_beta)

lemma event_rows_append [simp]:
  "event_rows pd n (es @ fs) = event_rows pd n es @ event_rows pd (n + length es) fs"
  by (induction es arbitrary: n) (simp_all add: event_rows_Cons)

lemma length_event_rows [simp]: "length (event_rows pd n es) = length es"
  by (simp add: event_rows_def)

lemma event_rows_nth: "i < length es \<Longrightarrow>
    event_rows pd n es ! i = event_row pd (es ! i) (n + i) (row_bytes pd (es ! i))"
  by (simp add: event_rows_def nth_enumerate_eq)

definition table_with :: "pydantic \<Rightarrow> event list \<Rightarrow> sql_table \<Rightarrow> sql_table" where
  "table_with pd es t = t\<lparr>tb_rows := map (place t) (event_rows pd 1 es)\<rparr>"

lemma place_rows [simp]: "place (t\<lparr>tb_rows := rs\<rparr>) vals = place t vals"
  by (simp add: new_row_def)

lemma cell_rows [simp]: "cell (t\<lparr>tb_rows := rs\<rparr>) row c = cell t row c"
  by (simp add: cell_def)

lemma table_with_simps [simp]:
  "tb_columns (table_with pd es t) = tb_columns t" "tb_unique (table_with pd es t) = tb_unique t"
  "tb_not_null (table_with pd es t) = tb_not_null t"
  "cell (table_with pd es t) row c = cell t row c"
  "place (table_with pd es t) vals = place t vals"
  by (simp_all add: table_with_def)

definition recorded :: "pydantic \<Rightarrow> event \<Rightarrow> bool" where
  "recorded pd e \<longleftrightarrow>
     wf_event e \<and> (\<exists>bs. serialize_event pd e = Inr bs) \<and> (\<exists>h. event_hash (ev_integrity e) = Some h)"

lemma recorded_values:
  "recorded pd e \<Longrightarrow> event_projection_values pd e n = Inr (event_row pd e n (row_bytes pd e))"
  by (auto simp: recorded_def projection_values_iff row_bytes_def)

lemma list_ex_rows:
  "list_ex (\<lambda>r. P (cell t r c)) (map (place t) (event_rows pd n es)) \<longleftrightarrow>
     list_ex (\<lambda>vals. P (column vals c)) (event_rows pd n es)" if "c \<in> set (tb_columns t)"
  using that by (simp add: list_ex_iff cell_place)

lemma rows_have_id:
  "(\<exists>r\<in>set (event_rows pd n es). sql_eq (column r ''event_id'') (VStr i)) \<longleftrightarrow> i \<in> event_id ` set es"
  by (induction es arbitrary: n) (auto simp: event_rows_Cons)

lemma rows_have_number:
  "(\<exists>r\<in>set (event_rows pd n es). sql_eq (column r ''journal_record_number'') (VInt (int k)))
     \<longleftrightarrow> n \<le> k \<and> k < n + length es"
  by (induction es arbitrary: n) (auto simp: event_rows_Cons)

definition holds_events :: "pydantic \<Rightarrow> event list \<Rightarrow> sql_table \<Rightarrow> database \<Rightarrow> bool" where
  "holds_events pd es t db \<longleftrightarrow>
     dget (db_tables db) ''events'' = Some (table_with pd es t)
     \<and> events_ok (set PROJECTED_EVENT_COLUMNS) t"

definition bindable :: "pydantic \<Rightarrow> nat \<Rightarrow> event \<Rightarrow> bool" where
  "bindable pd n e \<longleftrightarrow> bind_values (event_row pd e n (row_bytes pd e)) = Inr ()"

lemma projected_column_sets:
  "set [''journal_record_number'', ''event_json''] \<subseteq> set PROJECTED_EVENT_COLUMNS"
  "''event_id'' \<in> set PROJECTED_EVENT_COLUMNS" "''journal_record_number'' \<in> set PROJECTED_EVENT_COLUMNS"
  "''event_json'' \<in> set PROJECTED_EVENT_COLUMNS"
  "set REQUIRED_COLUMNS \<subseteq> set PROJECTED_EVENT_COLUMNS" "length PROJECTED_EVENT_COLUMNS = 19"
  "distinct PROJECTED_EVENT_COLUMNS"
  by (simp_all add: PROJECTED_EVENT_COLUMNS_def REQUIRED_COLUMNS_def)

lemma wf_event_id: "recorded pd e \<Longrightarrow> bind_values [VStr (event_id e)] = Inr ()"
  by (simp add: recorded_def wf_event_def wf_str_def bind_values_def bind_value_def)

lemma select_by_id:
  assumes "holds_events pd es t db" "recorded pd e"
    and b: "list_all (\<lambda>r. list_all (\<lambda>v. fetch_value v = Inr v) r) (event_rows pd 1 es)"
  shows "sql_select db ''events'' [''journal_record_number'', ''event_json'']
      [(''event_id'', VStr (event_id e))] [] =
    Inr (map (\<lambda>r. [column r ''journal_record_number'', column r ''event_json''])
      (filter (\<lambda>r. sql_eq (column r ''event_id'') (VStr (event_id e))) (event_rows pd 1 es)))"
proof -
  let ?t = "table_with pd es t"
  have c: "set (tb_columns t) = set PROJECTED_EVENT_COLUMNS"
    using assms(1) by (simp add: holds_events_def events_ok_def)
  have f: "find_table db ''events'' [''journal_record_number'', ''event_json'', ''event_id''] = Inr ?t"
    using assms(1) c projected_column_sets by (intro find_table_ok) (auto simp: holds_events_def)
  have cells: "cell t (place t r) ''event_id'' = column r ''event_id''"
    "cell t (place t r) ''journal_record_number'' = column r ''journal_record_number''"
    "cell t (place t r) ''event_json'' = column r ''event_json''" for r
    using c projected_column_sets by (simp_all add: cell_place)
  have fetch: "fetch_value (column r x) = Inr (column r x)"
    if r: "r \<in> set (event_rows pd 1 es)" and x: "x \<in> set PROJECTED_EVENT_COLUMNS" for r x
  proof -
    obtain i where i: "i < 19" "x = PROJECTED_EVENT_COLUMNS ! i"
      using x by (auto simp: in_set_conv_nth projected_column_sets)
    have "length r = 19" using r by (auto simp: event_rows_def)
    then show ?thesis using i b r by (auto simp: column_nth list_all_iff)
  qed
  have s: "sort_key (\<lambda>row. [] :: (nat \<times> rat \<times> string) list) xs = xs" for xs :: "pyv list list"
    by (rule sorted_sort_key_id) (simp add: sorted_map)
  have "sql_select db ''events'' [''journal_record_number'', ''event_json'']
      [(''event_id'', VStr (event_id e))] [] =
    traverse (\<lambda>row. traverse (\<lambda>c. fetch_value (cell t row c)) [''journal_record_number'', ''event_json''])
      (filter (\<lambda>row. sql_eq (cell t row ''event_id'') (VStr (event_id e))) (map (place t) (event_rows pd 1 es)))"
    using f wf_event_id [OF assms(2)] by (simp add: sql_select_def s) (simp add: table_with_def)
  also have "\<dots> = traverse (\<lambda>r. traverse (\<lambda>c. fetch_value (column r c)) [''journal_record_number'', ''event_json''])
      (filter (\<lambda>r. sql_eq (column r ''event_id'') (VStr (event_id e))) (event_rows pd 1 es))"
    by (simp add: filter_map traverse_map o_def cells)
  also have "\<dots> = Inr (map (\<lambda>r. [column r ''journal_record_number'', column r ''event_json''])
      (filter (\<lambda>r. sql_eq (column r ''event_id'') (VStr (event_id e))) (event_rows pd 1 es)))"
    using fetch projected_column_sets(3,4) by (intro traverse_all_Inr) simp
  finally show ?thesis .
qed

lemma insert_event:
  assumes h: "holds_events pd es t db" "recorded pd e" and new: "event_id e \<notin> event_id ` set es"
  defines "vals \<equiv> event_row pd e (length es + 1) (row_bytes pd e)"
  shows "sql_insert ''events'' PROJECTED_EVENT_COLUMNS vals db =
     (case bind_values vals of
        Inl err \<Rightarrow> Inl err
      | Inr u \<Rightarrow> Inr (put_table ''events'' (table_with pd (es @ [e]) t) db))"
proof -
  let ?t = "table_with pd es t"
  have ok: "events_ok (set PROJECTED_EVENT_COLUMNS) t"
    and d: "dget (db_tables db) ''events'' = Some ?t"
    using h(1) by (auto simp: holds_events_def)
  have f: "find_table db ''events'' PROJECTED_EVENT_COLUMNS = Inr ?t"
    using d ok by (intro find_table_ok) (auto simp: events_ok_def)
  have nn: "find (\<lambda>c. cell t (place t vals) c = VNone) (tb_not_null t) = None"
  proof -
    have "cell t (place t vals) c \<noteq> VNone" if "c \<in> set (tb_not_null t)" for c
    proof -
      have "c \<in> set REQUIRED_COLUMNS" "c \<in> set (tb_columns t)"
        using that ok projected_column_sets(5) by (auto simp: events_ok_def)
      then show ?thesis using h(2) event_row_required
        by (auto simp: cell_place vals_def recorded_def)
    qed
    then show ?thesis by (auto simp: find_None_iff)
  qed
  have un: "find (\<lambda>c. list_ex (\<lambda>r. sql_eq (cell t r c) (cell t (place t vals) c))
      (tb_rows ?t)) (tb_unique t) = None"
  proof -
    have "\<not> list_ex (\<lambda>r. sql_eq (cell t r c) (cell t (place t vals) c)) (tb_rows ?t)"
      if "c \<in> set (tb_unique t)" for c
    proof -
      have c: "c \<in> {''event_id'', ''journal_record_number''}" using that ok unfolding events_ok_def by metis
      then have m: "c \<in> set (tb_columns t)" using ok projected_column_sets by (auto simp: events_ok_def)
      have "list_ex (\<lambda>r. sql_eq (cell t r c) (cell t (place t vals) c)) (tb_rows ?t) \<longleftrightarrow>
          (\<exists>r\<in>set (event_rows pd 1 es). sql_eq (column r c) (column vals c))"
        using m by (simp add: table_with_def list_ex_iff cell_place)
      then show ?thesis
        using c new rows_have_id [of pd 1 es "event_id e"] rows_have_number [of pd 1 es "length es + 1"]
        by (auto simp: vals_def)
    qed
    then show ?thesis by (auto simp: find_None_iff)
  qed
  have "check_constraints ''events'' ?t (place t vals) = Inr ()"
    using nn un by (simp add: check_constraints_def)
  then show ?thesis
    using f by (auto simp: sql_insert_def Let_def table_with_def event_rows_Cons vals_def split: sum.splits)
qed

definition fetchable :: "pyv list list \<Rightarrow> bool" where
  "fetchable rows \<longleftrightarrow> list_all (\<lambda>r. list_all (\<lambda>v. fetch_value v = Inr v) r) rows"

lemma bindable_fetchable: "bindable pd n e \<Longrightarrow> list_all (\<lambda>v. fetch_value v = Inr v) (event_row pd e n (row_bytes pd e))"
  by (auto simp: bindable_def bind_values_iff list_all_iff intro: bound_fetch)

lemma index_event_iff:
  assumes h: "holds_events pd es t (cn_current c)" "recorded pd e" "fetchable (event_rows pd 1 es)"
  shows "index_event pd e (length es + 1) c = (Inr b, c') \<longleftrightarrow>
     event_id e \<notin> event_id ` set es \<and> bindable pd (length es + 1) e \<and> b
     \<and> c' = c\<lparr>cn_current := put_table ''events'' (table_with pd (es @ [e]) t) (cn_current c), cn_open := True\<rparr>"
proof -
  let ?vals = "event_row pd e (length es + 1) (row_bytes pd e)"
  let ?match = "filter (\<lambda>r. sql_eq (column r ''event_id'') (VStr (event_id e))) (event_rows pd 1 es)"
  have hash: "event_hash (ev_integrity e) \<noteq> None" using h(2) by (auto simp: recorded_def)
  have sel: "sql_select (cn_current c) ''events'' [''journal_record_number'', ''event_json'']
      [(''event_id'', VStr (event_id e))] [] =
      Inr (map (\<lambda>r. [column r ''journal_record_number'', column r ''event_json'']) ?match)"
    using select_by_id [OF h(1,2)] h(3) by (simp add: fetchable_def)
  show ?thesis
  proof (cases ?match)
    case Nil
    then have new: "event_id e \<notin> event_id ` set es"
      using rows_have_id [of pd 1 es "event_id e"] by (auto simp: filter_empty_conv)
    show ?thesis
      using hash recorded_values [OF h(2)] sel Nil insert_event [OF h(1,2) new] new
      by (auto simp: index_event_def sql_bind_def sql_lift_def sql_read_def sql_dml_def sql_return_def
          bindable_def split: sum.splits)
  next
    case (Cons r rs)
    then have r: "r \<in> set (event_rows pd 1 es)" "sql_eq (column r ''event_id'') (VStr (event_id e))"
      by (auto simp: filter_eq_Cons_iff)
    then have old: "event_id e \<in> event_id ` set es"
      using rows_have_id [of pd 1 es "event_id e"] by auto
    obtain i where i: "i < length es" "r = event_row pd (es ! i) (1 + i) (row_bytes pd (es ! i))"
      using r(1) event_rows_nth by (auto simp: in_set_conv_nth)
    then have "\<not> py_eq (column r ''journal_record_number'') (VInt (int (length es + 1)))"
      by (simp add: scalar_eq_def)
    then show ?thesis
      using hash recorded_values [OF h(2)] sel Cons old
      by (auto simp: index_event_def sql_bind_def sql_lift_def sql_read_def)
  qed
qed

lemma index_events_iff:
  assumes "holds_events pd es t (cn_current c)" "\<forall>e\<in>set fs. recorded pd e"
    and "fetchable (event_rows pd 1 es)" "cn_open c" "distinct (map event_id es)"
  shows "index_events pd (length es) fs c = (Inr n, c') \<longleftrightarrow>
     distinct (map event_id (es @ fs))
     \<and> (\<forall>i < length fs. bindable pd (length es + i + 1) (fs ! i))
     \<and> n = length es + length fs
     \<and> c' = c\<lparr>cn_current := put_table ''events'' (table_with pd (es @ fs) t) (cn_current c)\<rparr>"
  using assms
proof (induction fs arbitrary: es c)
  case Nil
  then show ?case
    by (auto simp: sql_return_def holds_events_def put_table_same)
next
  case (Cons e fs)
  let ?c = "c\<lparr>cn_current := put_table ''events'' (table_with pd (es @ [e]) t) (cn_current c), cn_open := True\<rparr>"
  have step: "index_event pd e (length es + 1) c = (Inr b, c'') \<longleftrightarrow>
     event_id e \<notin> event_id ` set es \<and> bindable pd (length es + 1) e \<and> b \<and> c'' = ?c" for b c''
    using Cons.prems by (intro index_event_iff) simp_all
  have IH: "index_events pd (length (es @ [e])) fs ?c = (Inr n, c') \<longleftrightarrow>
     distinct (map event_id ((es @ [e]) @ fs))
     \<and> (\<forall>i < length fs. bindable pd (length (es @ [e]) + i + 1) (fs ! i))
     \<and> n = length (es @ [e]) + length fs
     \<and> c' = ?c\<lparr>cn_current := put_table ''events'' (table_with pd ((es @ [e]) @ fs) t) (cn_current ?c)\<rparr>"
    if new: "event_id e \<notin> event_id ` set es" "bindable pd (length es + 1) e"
  proof (rule Cons.IH)
    show "holds_events pd (es @ [e]) t (cn_current ?c)"
      using Cons.prems(1) by (simp add: holds_events_def)
    show "fetchable (event_rows pd 1 (es @ [e]))"
      using Cons.prems(3) bindable_fetchable [OF new(2)]
      by (simp add: fetchable_def event_rows_Cons)
  qed (use Cons.prems new in auto)
  show ?case
  proof (cases "event_id e \<notin> event_id ` set es \<and> bindable pd (length es + 1) e")
    case True
    have "index_events pd (length es) (e # fs) c = (Inr n, c') \<longleftrightarrow>
        index_events pd (length (es @ [e])) fs ?c = (Inr n, c')"
      using step True by (auto simp: sql_bind_Inr)
    also have "\<dots> \<longleftrightarrow> distinct (map event_id ((es @ [e]) @ fs))
     \<and> (\<forall>i < length fs. bindable pd (length (es @ [e]) + i + 1) (fs ! i))
     \<and> n = length (es @ [e]) + length fs
     \<and> c' = ?c\<lparr>cn_current := put_table ''events'' (table_with pd ((es @ [e]) @ fs) t) (cn_current ?c)\<rparr>"
      using IH True by blast
    moreover have "c\<lparr>cn_open := True, cn_current := db\<rparr> = c\<lparr>cn_current := db\<rparr>" for db
      using Cons.prems(4) by (cases c) simp
    ultimately show ?thesis
      using True by (simp add: All_less_Suc2)
  next
    case False
    have "index_events pd (length es) (e # fs) c \<noteq> (Inr n, c')"
      using step False by (auto simp: sql_bind_Inr)
    then show ?thesis using False by (auto simp: All_less_Suc2)
  qed
qed

section \<open>Metadata\<close>

lemma sql_eq_VStr: "sql_eq v (VStr k) \<longleftrightarrow> v = VStr k"
  by (cases v) (auto simp: sql_eq_def split: pyfloat.splits)

definition meta_put :: "string \<Rightarrow> string \<Rightarrow> pyv list list \<Rightarrow> pyv list list" where
  "meta_put k v rows =
     (if \<exists>row\<in>set rows. row ! 0 = VStr k
      then map (\<lambda>row. if row ! 0 = VStr k then [VStr k, VStr v] else row) rows
      else rows @ [[VStr k, VStr v]])"

definition meta_lookup :: "pyv list list \<Rightarrow> string \<Rightarrow> pyv option" where
  "meta_lookup rows k = dget (rev (map (\<lambda>row. (row ! 0, row ! 1)) rows)) (VStr k)"

lemma meta_lookup_snoc:
  "meta_lookup (rows @ [row]) k = (if row ! 0 = VStr k then Some (row ! 1) else meta_lookup rows k)"
  by (simp add: meta_lookup_def)

lemma meta_lookup_map:
  "meta_lookup (map (\<lambda>row. if row ! 0 = VStr k then [VStr k, VStr v] else row) rows) k' =
     (if k' = k then (if \<exists>row\<in>set rows. row ! 0 = VStr k then Some (VStr v) else None)
      else meta_lookup rows k')"
proof (induction rows rule: rev_induct)
  case Nil
  then show ?case by (simp add: meta_lookup_def)
next
  case (snoc row rows)
  then show ?case by (auto simp: meta_lookup_snoc)
qed

lemma meta_lookup_put: "meta_lookup (meta_put k v rows) k' = (if k' = k then Some (VStr v) else meta_lookup rows k')"
  by (auto simp: meta_put_def meta_lookup_map meta_lookup_snoc)

definition meta_rows_ok :: "pyv list list \<Rightarrow> bool" where
  "meta_rows_ok rows \<longleftrightarrow> (\<forall>row\<in>set rows. length row = 2 \<and> (\<forall>v\<in>set row. fetch_value v = Inr v))"

lemma meta_put_ok: "meta_rows_ok rows \<Longrightarrow> utf8_ok False k \<Longrightarrow> utf8_ok False v \<Longrightarrow> meta_rows_ok (meta_put k v rows)"
  by (auto simp: meta_rows_ok_def meta_put_def fetch_value_def)

lemma metadata_ok_rows: "metadata_ok m \<Longrightarrow> meta_rows_ok (tb_rows m)"
  by (simp add: metadata_ok_def rows_ok_def meta_rows_ok_def)

lemma metadata_ok_set: "metadata_ok m \<Longrightarrow> meta_rows_ok rows \<Longrightarrow> metadata_ok (m\<lparr>tb_rows := rows\<rparr>)"
  by (simp add: metadata_ok_def rows_ok_def meta_rows_ok_def)

lemma metadata_cells:
  assumes "metadata_ok m" "length row = 2"
  shows "cell m row ''key'' = row ! 0" "cell m row ''value'' = row ! 1"
    "set_cell m ''value'' v row = [row ! 0, v]"
proof -
  obtain a b where "row = [a, b]" using assms(2) by (auto simp: length_Suc_conv numeral_2_eq_2)
  then show "cell m row ''key'' = row ! 0" "cell m row ''value'' = row ! 1"
    "set_cell m ''value'' v row = [row ! 0, v]"
    using assms(1) by (simp_all add: metadata_ok_def cell_def set_cell_def)
qed

lemma upsert_metadata:
  assumes "dget (db_tables db) ''projection_metadata'' = Some m" "metadata_ok m"
  shows "sql_upsert ''projection_metadata'' ''key'' ''value'' (VStr k) (VStr v) db =
     (case bind_values [VStr k, VStr v] of
        Inl err \<Rightarrow> Inl err
      | Inr u \<Rightarrow> Inr (put_table ''projection_metadata'' (m\<lparr>tb_rows := meta_put k v (tb_rows m)\<rparr>) db))"
proof -
  have m: "tb_columns m = [''key'', ''value'']" "tb_unique m = [''key'']" "tb_not_null m = [''value'']"
    using assms(2) by (simp_all add: metadata_ok_def)
  have f: "find_table db ''projection_metadata'' [''key'', ''value''] = Inr m"
    using assms(1) m by (intro find_table_ok) simp_all
  have rows: "\<forall>row\<in>set (tb_rows m). length row = 2"
    using metadata_ok_rows [OF assms(2)] by (simp add: meta_rows_ok_def)
  have ex: "list_ex (\<lambda>row. sql_eq (cell m row ''key'') (VStr k)) (tb_rows m) \<longleftrightarrow>
      (\<exists>row\<in>set (tb_rows m). row ! 0 = VStr k)"
    using rows metadata_cells [OF assms(2)] by (auto simp: list_ex_iff sql_eq_VStr)
  have mp: "map (\<lambda>row. if sql_eq (cell m row ''key'') (VStr k) then set_cell m ''value'' (VStr v) row else row)
      (tb_rows m) = map (\<lambda>row. if row ! 0 = VStr k then [VStr k, VStr v] else row) (tb_rows m)"
    using rows metadata_cells [OF assms(2)] by (auto simp: sql_eq_VStr)
  have nr: "new_row m [''key'', ''value''] [VStr k, VStr v] = [VStr k, VStr v]"
    using new_row_all [of m "[VStr k, VStr v]"] m by simp
  have ch: "check_constraints ''projection_metadata'' m [VStr k, VStr v] = Inr ()"
    if "\<not> (\<exists>row\<in>set (tb_rows m). row ! 0 = VStr k)"
  proof -
    have "cell m [VStr k, VStr v] ''value'' = VStr v" "cell m [VStr k, VStr v] ''key'' = VStr k"
      using metadata_cells [OF assms(2), of "[VStr k, VStr v]"] by simp_all
    then show ?thesis using that ex by (simp add: check_constraints_def m)
  qed
  show ?thesis
  proof (cases "\<exists>row\<in>set (tb_rows m). row ! 0 = VStr k")
    case True
    then show ?thesis
      using f ex m by (simp add: sql_upsert_def mp meta_put_def split: sum.split)
  next
    case False
    then show ?thesis
      using f ex nr ch [OF False] m
      by (auto simp: sql_upsert_def sql_insert_def meta_put_def Let_def split: sum.splits)
  qed
qed

definition meta_put_all :: "(string \<times> string) list \<Rightarrow> pyv list list \<Rightarrow> pyv list list" where
  "meta_put_all kvs rows = foldl (\<lambda>rows (k, v). meta_put k v rows) rows kvs"

lemma meta_put_all_simps [simp]:
  "meta_put_all [] rows = rows"
  "meta_put_all ((k, v) # kvs) rows = meta_put_all kvs (meta_put k v rows)"
  by (simp_all add: meta_put_all_def)

definition texts_ok :: "(string \<times> string) list \<Rightarrow> bool" where
  "texts_ok kvs \<longleftrightarrow> list_all (\<lambda>(k, v). utf8_ok False k \<and> utf8_ok False v) kvs"

lemma meta_put_all_ok: "meta_rows_ok rows \<Longrightarrow> texts_ok kvs \<Longrightarrow> meta_rows_ok (meta_put_all kvs rows)"
  by (induction kvs arbitrary: rows) (auto simp: texts_ok_def meta_put_ok)

lemma meta_lookup_put_all:
  "distinct (keys kvs) \<Longrightarrow> (k, v) \<in> set kvs \<Longrightarrow> meta_lookup (meta_put_all kvs rows) k = Some (VStr v)"
proof -
  have other: "k \<notin> set (keys kvs) \<Longrightarrow> meta_lookup (meta_put_all kvs rows) k = meta_lookup rows k" for kvs rows
    by (induction kvs arbitrary: rows) (auto simp: meta_lookup_put)
  show "distinct (keys kvs) \<Longrightarrow> (k, v) \<in> set kvs \<Longrightarrow>
      meta_lookup (meta_put_all kvs rows) k = Some (VStr v)"
  proof (induction kvs arbitrary: rows)
    case (Cons p kvs)
    then show ?case using other by (cases p) (auto simp: meta_lookup_put)
  qed simp
qed

lemma set_metadata_iff:
  assumes "dget (db_tables (cn_current c)) ''projection_metadata'' = Some m" "metadata_ok m"
  shows "set_metadata kvs c = (Inr u, c') \<longleftrightarrow>
     texts_ok kvs
     \<and> c' = c\<lparr>cn_current := put_table ''projection_metadata'' (m\<lparr>tb_rows := meta_put_all kvs (tb_rows m)\<rparr>)
               (cn_current c), cn_open := cn_open c \<or> kvs \<noteq> []\<rparr>"
  using assms
proof (induction kvs arbitrary: c m)
  case Nil
  then show ?case by (auto simp: set_metadata_def sql_return_def texts_ok_def put_table_same)
next
  case (Cons p kvs)
  obtain k v where p: "p = (k, v)" by fastforce
  let ?m = "m\<lparr>tb_rows := meta_put k v (tb_rows m)\<rparr>"
  let ?c = "c\<lparr>cn_current := put_table ''projection_metadata'' ?m (cn_current c), cn_open := True\<rparr>"
  have b: "bind_values [VStr k, VStr v] = Inr () \<longleftrightarrow> utf8_ok False k \<and> utf8_ok False v"
    by (simp add: bind_values_iff bind_value_def)
  have step: "sql_dml (sql_upsert ''projection_metadata'' ''key'' ''value'' (VStr k) (VStr v)) c = (Inr w, c'') \<longleftrightarrow>
      utf8_ok False k \<and> utf8_ok False v \<and> c'' = ?c" for w c''
    using upsert_metadata [OF Cons.prems, of k v] b
    by (auto simp: sql_dml_def split: sum.splits)
  show ?case
  proof (cases "utf8_ok False k \<and> utf8_ok False v")
    case True
    have "metadata_ok ?m"
      using True metadata_ok_set [OF Cons.prems(2)] meta_put_ok [OF metadata_ok_rows [OF Cons.prems(2)]]
      by blast
    then have "set_metadata kvs ?c = (Inr u, c') \<longleftrightarrow> texts_ok kvs
     \<and> c' = ?c\<lparr>cn_current := put_table ''projection_metadata'' (?m\<lparr>tb_rows := meta_put_all kvs (tb_rows ?m)\<rparr>)
               (cn_current ?c), cn_open := cn_open ?c \<or> kvs \<noteq> []\<rparr>"
      using Cons.IH [of ?c ?m] by simp
    then show ?thesis
      using step True by (auto simp: set_metadata_def p sql_bind_Inr texts_ok_def)
  next
    case False
    then show ?thesis
      using step by (auto simp: set_metadata_def p sql_bind_Inr texts_ok_def)
  qed
qed

lemma get_metadata_ok:
  assumes "dget (db_tables db) ''projection_metadata'' = Some m" "metadata_ok m"
  shows "get_metadata db = Inr (rev (map (\<lambda>row. (row ! 0, row ! 1)) (tb_rows m)))"
proof -
  have f: "find_table db ''projection_metadata'' [''key'', ''value''] = Inr m"
    using assms by (intro find_table_ok) (simp_all add: metadata_ok_def)
  have s: "sort_key (\<lambda>row. [] :: (nat \<times> rat \<times> string) list) xs = xs" for xs :: "pyv list list"
    by (rule sorted_sort_key_id) (simp add: sorted_map)
  have "traverse (\<lambda>row. traverse (\<lambda>c. fetch_value (cell m row c)) [''key'', ''value'']) (tb_rows m)
      = Inr (map (\<lambda>row. [row ! 0, row ! 1]) (tb_rows m))"
    using metadata_ok_rows [OF assms(2)] metadata_cells [OF assms(2)]
    by (intro traverse_all_Inr) (simp add: meta_rows_ok_def)
  then have "sql_select db ''projection_metadata'' [''key'', ''value''] [] []
      = Inr (map (\<lambda>row. [row ! 0, row ! 1]) (tb_rows m))"
    using f by (simp add: sql_select_def s bind_values_def)
  then show ?thesis by (simp add: get_metadata_def o_def)
qed

section \<open>Schema\<close>

lemma set_metadata_runs:
  assumes "dget (db_tables db) ''projection_metadata'' = Some m" "metadata_ok m" "texts_ok kvs"
  shows "sql_runs (set_metadata kvs) db ()
     (put_table ''projection_metadata'' (m\<lparr>tb_rows := meta_put_all kvs (tb_rows m)\<rparr>) db)"
  using set_metadata_iff [of _ m kvs "()"] assms by (auto simp: sql_runs_def)

lemma metadata_stays:
  assumes "schema_db n cols db" "texts_ok kvs"
  obtains db' where "sql_runs (set_metadata kvs) db () db'" "schema_db n cols db'"
proof -
  obtain m where m: "dget (db_tables db) ''projection_metadata'' = Some m" "metadata_ok m"
    using assms(1) by (auto simp: schema_db_def)
  let ?m = "m\<lparr>tb_rows := meta_put_all kvs (tb_rows m)\<rparr>"
  have "metadata_ok ?m"
    using metadata_ok_set [OF m(2)] meta_put_all_ok [OF metadata_ok_rows [OF m(2)] assms(2)] by blast
  then show ?thesis
    using that [OF set_metadata_runs [OF m assms(2)]] assms(1) by (simp add: schema_db_def)
qed

lemma add_column:
  assumes "schema_db n cols db" "c \<notin> cols"
  obtains db' where "sql_add_column ''events'' c db = Inr db'" "schema_db n (insert c cols) db'"
proof -
  obtain t where t: "dget (db_tables db) ''events'' = Some t" "events_ok cols t"
    using assms(1) by (auto simp: schema_db_def)
  let ?t = "t\<lparr>tb_columns := tb_columns t @ [c], tb_rows := map (\<lambda>row. row @ [VNone]) (tb_rows t)\<rparr>"
  have "events_ok (insert c cols) ?t"
    using t(2) assms(2) by (auto simp: events_ok_def rows_ok_def fetch_value_def)
  moreover have "sql_add_column ''events'' c db = Inr (put_table ''events'' ?t db)"
    using t assms(2) by (simp add: sql_add_column_def find_table_ok events_ok_def)
  ultimately show ?thesis using that assms(1) by (simp add: schema_db_def)
qed

lemma added_projected: "set ADDED_COLUMNS \<subseteq> set PROJECTED_EVENT_COLUMNS"
  by (simp add: ADDED_COLUMNS_def PROJECTED_EVENT_COLUMNS_def)

lemma insert_three: "{a, b, c} \<subseteq> C \<Longrightarrow> insert c (insert b (insert a (C - {a, b, c}))) = C"
  by auto

fun run_all :: "(database \<Rightarrow> database res) list \<Rightarrow> database \<Rightarrow> database res" where
  "run_all [] db = Inr db"
| "run_all (g # gs) db = bnd (g db) (run_all gs)"

lemma script_runs: "run_all gs db = Inr db' \<Longrightarrow> sql_runs (sql_script gs) db () db'"
proof -
  have "run_all gs db = Inr db' \<Longrightarrow> sql_runs (sql_each sql_ddl gs) db () db'"
    by (induction gs arbitrary: db) (auto simp: bnd_Inr_iff intro!: sql_runs_return sql_runs_bind sql_runs_ddl)
  then show "run_all gs db = Inr db' \<Longrightarrow> sql_runs (sql_script gs) db () db'"
    by (rule sql_runs_script)
qed

lemma version_text: "texts_ok [(''schema_version'', int_repr PROJECTION_SCHEMA_VERSION)]"
  using ascii_utf8 [OF ascii_int_repr] by (simp add: texts_ok_def byte_def)

lemma set_version_runs:
  "schema_db n cols db \<Longrightarrow> sql_runs (set_user_version k) db () (db\<lparr>db_user_version := k\<rparr>)"
  "schema_db n cols db \<Longrightarrow> schema_db k cols (db\<lparr>db_user_version := k\<rparr>)"
  by (auto simp: set_user_version_def sql_set_user_version_def schema_db_def intro: sql_runs)

lemma finish_schema:
  assumes "schema_db n cols db"
  obtains db' where "sql_runs (sql_bind (set_user_version PROJECTION_SCHEMA_VERSION) (\<lambda>_.
      set_metadata [(''schema_version'', int_repr PROJECTION_SCHEMA_VERSION)])) db () db'"
    "schema_db 2 cols db'"
  using metadata_stays [OF set_version_runs(2) [OF assms] version_text]
    sql_runs_bind [OF set_version_runs(1) [OF assms]]
  by (metis PROJECTION_SCHEMA_VERSION_def)

lemma ensure_schema_runs:
  assumes "projection_db db"
  obtains db' where "sql_runs ensure_schema db () db'" "schema_db 2 (set PROJECTED_EVENT_COLUMNS) db'"
proof -
  let ?cols = "set PROJECTED_EVENT_COLUMNS"
  have read: "sql_runs ensure_schema db x db'" if "sql_runs (if db_user_version db = 0 then
         sql_bind (sql_script schema_script) (\<lambda>_.
         sql_bind (set_user_version PROJECTION_SCHEMA_VERSION) (\<lambda>_.
         set_metadata [(''schema_version'', int_repr PROJECTION_SCHEMA_VERSION)]))
       else if db_user_version db = 1 then migrate_v1_to_v2
       else if db_user_version db \<noteq> PROJECTION_SCHEMA_VERSION
       then sql_lift (unsupported_schema (db_user_version db))
       else sql_return ()) db x db'" for x db'
    using that unfolding ensure_schema_def by (simp add: sql_runs_def sql_bind_def sql_read_def)
  consider "db = empty_database" | "schema_db 1 (?cols - set ADDED_COLUMNS) db" | "schema_db 2 ?cols db"
    using assms by (auto simp: projection_db_def)
  then show ?thesis
  proof cases
    case 1
    define db1 where "db1 = \<lparr>db_user_version = 0,
      db_tables = [(''projection_metadata'', metadata_table), (''events'', events_table)],
      db_indexes = [''idx_events_trace_timeline'', ''idx_events_run_timeline'']\<rparr>"
    have "sql_runs (sql_script schema_script) empty_database () db1"
      by (rule script_runs) (simp add: schema_script_def sql_create_table_def sql_create_index_def
          put_table_def empty_database_def find_table_def events_table_def timeline_order_def
          PROJECTED_EVENT_COLUMNS_def db1_def)
    moreover have "schema_db 0 ?cols db1"
      by (simp add: schema_db_def db1_def metadata_ok_def metadata_table_def rows_ok_def
          events_ok_def events_table_def projected_column_sets REQUIRED_COLUMNS_def)
    moreover obtain db' where "sql_runs (sql_bind (set_user_version PROJECTION_SCHEMA_VERSION) (\<lambda>_.
        set_metadata [(''schema_version'', int_repr PROJECTION_SCHEMA_VERSION)])) db1 () db'"
      "schema_db 2 ?cols db'"
      using finish_schema [OF calculation(2)] by blast
    ultimately have "sql_runs (sql_bind (sql_script schema_script) (\<lambda>_.
         sql_bind (set_user_version PROJECTION_SCHEMA_VERSION) (\<lambda>_.
         set_metadata [(''schema_version'', int_repr PROJECTION_SCHEMA_VERSION)]))) db () db'"
      "schema_db 2 ?cols db'"
      using 1 by (auto intro: sql_runs_bind)
    then show ?thesis
      using 1 that read [of "()" db'] by (simp add: empty_database_def)
  next
    case 2
    obtain d1 where d1: "sql_add_column ''events'' ''verification_status'' db = Inr d1"
      "schema_db 1 (insert ''verification_status'' (?cols - set ADDED_COLUMNS)) d1"
      using add_column [OF 2] by (auto simp: ADDED_COLUMNS_def)
    obtain d2 where d2: "sql_add_column ''events'' ''evidence_subject_event_id'' d1 = Inr d2"
      "schema_db 1 (insert ''evidence_subject_event_id''
         (insert ''verification_status'' (?cols - set ADDED_COLUMNS))) d2"
      using add_column [OF d1(2), of "''evidence_subject_event_id''"] by (auto simp: ADDED_COLUMNS_def)
    obtain d3 where d3: "sql_add_column ''events'' ''evidence_event_id'' d2 = Inr d3"
      "schema_db 1 (insert ''evidence_event_id'' (insert ''evidence_subject_event_id''
         (insert ''verification_status'' (?cols - set ADDED_COLUMNS)))) d3"
      using add_column [OF d2(2), of "''evidence_event_id''"] by (auto simp: ADDED_COLUMNS_def)
    have c: "insert ''evidence_event_id'' (insert ''evidence_subject_event_id''
         (insert ''verification_status'' (?cols - set ADDED_COLUMNS))) = ?cols"
      using insert_three added_projected by (simp only: ADDED_COLUMNS_def list.set)
    have "sql_runs (sql_script [sql_add_column ''events'' ''verification_status'',
        sql_add_column ''events'' ''evidence_subject_event_id'',
        sql_add_column ''events'' ''evidence_event_id'']) db () d3"
      by (rule script_runs) (simp add: d1(1) d2(1) d3(1))
    moreover obtain db' where "sql_runs (sql_bind (set_user_version PROJECTION_SCHEMA_VERSION) (\<lambda>_.
        set_metadata [(''schema_version'', int_repr PROJECTION_SCHEMA_VERSION)])) d3 () db'"
      "schema_db 2 ?cols db'"
      using finish_schema [OF d3(2)] c by metis
    ultimately have "sql_runs migrate_v1_to_v2 db () db'" "schema_db 2 ?cols db'"
      unfolding migrate_v1_to_v2_def by (auto intro: sql_runs_bind)
    then show ?thesis
      using 2 that read [of "()" db'] by (simp add: schema_db_def)
  next
    case 3
    then show ?thesis
      using that [of db] read [of "()" db] sql_runs_return [of "()" db]
      by (simp add: schema_db_def PROJECTION_SCHEMA_VERSION_def)
  qed
qed

section \<open>The whole rebuild\<close>

definition rebuild_metadata :: "path \<Rightarrow> VerifiedJournalSnapshot \<Rightarrow> string \<Rightarrow> string \<Rightarrow> string \<Rightarrow> (string \<times> string) list" where
  "rebuild_metadata p s source_identity identity count_text =
     [(''schema_version'', int_repr PROJECTION_SCHEMA_VERSION),
      (''source_journal_path'', path_str p),
      (''source_journal_identity'', source_identity),
      (''source_journal_identity_version'', JOURNAL_SOURCE_IDENTITY_VERSION),
      (''source_journal_sha256'', text_or_empty (js_journal_sha256 s)),
      (''projection_identity'', identity),
      (''records_indexed'', count_text),
      (''last_event_hash'', text_or_empty (snapshot_terminal_hash s))]"

text \<open>What a rebuild leaves: the rows of the journal's events and the metadata that bind them.\<close>

definition rebuilt ::
  "pydantic \<Rightarrow> path \<Rightarrow> VerifiedJournalSnapshot \<Rightarrow> database \<Rightarrow> bool" where
  "rebuilt pd p s db \<longleftrightarrow>
     schema_db 2 (set PROJECTED_EVENT_COLUMNS) db
     \<and> (\<exists>t. holds_events pd (js_events s) t db)
     \<and> fetchable (event_rows pd 1 (js_events s))
     \<and> (\<exists>source_identity identity m.
          journal_source_identity s = Inr source_identity
          \<and> projection_identity (VStr source_identity) (VStr (text_or_empty (js_journal_sha256 s)))
              (int (snapshot_record_count s)) (opt_str (snapshot_terminal_hash s)) PROJECTION_SCHEMA_VERSION
            = Inr identity
          \<and> py_int_str (int (snapshot_record_count s)) = Inr (int_repr (int (snapshot_record_count s)))
          \<and> dget (db_tables db) ''projection_metadata'' = Some m
          \<and> (\<forall>(k, v)\<in>set (rebuild_metadata p s source_identity identity
                 (int_repr (int (snapshot_record_count s)))).
               meta_lookup (tb_rows m) k = Some (VStr v)))"

text \<open>When it succeeds.\<close>

definition rebuildable :: "pydantic \<Rightarrow> path \<Rightarrow> VerifiedJournalSnapshot \<Rightarrow> bool" where
  "rebuildable pd p s \<longleftrightarrow>
     distinct (map event_id (js_events s))
     \<and> (\<forall>i < length (js_events s). bindable pd (i + 1) (js_events s ! i))
     \<and> (\<exists>source_identity identity count_text.
          journal_source_identity s = Inr source_identity
          \<and> py_int_str (int (length (js_events s))) = Inr count_text
          \<and> projection_identity (VStr source_identity) (VStr (text_or_empty (js_journal_sha256 s)))
              (int (length (js_events s))) (opt_str (snapshot_terminal_hash s)) PROJECTION_SCHEMA_VERSION
            = Inr identity
          \<and> texts_ok (rebuild_metadata p s source_identity identity count_text))"

lemma delete_events:
  assumes "schema_db 2 (set PROJECTED_EVENT_COLUMNS) db"
  obtains t where "sql_delete_all ''events'' db = Inr (put_table ''events'' (table_with pd [] t) db)"
    "holds_events pd [] t (put_table ''events'' (table_with pd [] t) db)"
proof -
  obtain t where t: "dget (db_tables db) ''events'' = Some t" "events_ok (set PROJECTED_EVENT_COLUMNS) t"
    using assms by (auto simp: schema_db_def)
  then have "sql_delete_all ''events'' db = Inr (put_table ''events'' (table_with pd [] t) db)"
    by (simp add: sql_delete_all_def find_table_ok table_with_def)
  then show ?thesis using that t(2) by (simp add: holds_events_def)
qed

lemma fetchable_bound:
  assumes "\<forall>i < length es. bindable pd (i + 1) (es ! i)"
  shows "fetchable (event_rows pd 1 es)"
  unfolding fetchable_def list_all_iff [of _ "event_rows pd 1 es"]
  using assms bindable_fetchable by (auto simp: in_set_conv_nth event_rows_nth)

lemma rebuild_body_iff:
  assumes "projection_db (cn_current c)" "\<forall>e\<in>set (js_events s). recorded pd e"
    and "snapshot_record_count s = length (js_events s)"
  shows "(\<exists>c'. rebuild_body pd p s c = (Inr n, c')) \<longleftrightarrow> rebuildable pd p s \<and> n = length (js_events s)"
    and "rebuild_body pd p s c = (Inr n, c') \<Longrightarrow> rebuilt pd p s (cn_current c')"
proof -
  let ?es = "js_events s"
  obtain db1 where db1: "sql_runs ensure_schema (cn_current c) () db1"
    "schema_db 2 (set PROJECTED_EVENT_COLUMNS) db1"
    using ensure_schema_runs [OF assms(1)] by blast
  obtain c1 where c1: "ensure_schema c = (Inr (), c1)" "cn_current c1 = db1"
    using db1(1) by (auto simp: sql_runs_def)
  obtain t where t: "sql_delete_all ''events'' db1 = Inr (put_table ''events'' (table_with pd [] t) db1)"
    "holds_events pd [] t (put_table ''events'' (table_with pd [] t) db1)"
    using delete_events [OF db1(2)] by blast
  define c2 where "c2 = c1\<lparr>cn_current := put_table ''events'' (table_with pd [] t) db1, cn_open := True\<rparr>"
  have c2: "sql_dml (sql_delete_all ''events'') c1 = (Inr (), c2)"
    using t(1) c1(2) by (simp add: sql_dml_def c2_def)
  define c3 where "c3 = c2\<lparr>cn_current := put_table ''events'' (table_with pd ?es t) db1\<rparr>"
  have loop: "index_events pd 0 ?es c2 = (Inr k, c'') \<longleftrightarrow>
      distinct (map event_id ?es) \<and> (\<forall>i < length ?es. bindable pd (i + 1) (?es ! i))
      \<and> k = length ?es \<and> c'' = c3" for k c''
    using index_events_iff [of pd "[]" t c2 ?es k c''] t(2) assms(2)
    by (simp add: c2_def c3_def fetchable_def)
  obtain m where m: "dget (db_tables db1) ''projection_metadata'' = Some m" "metadata_ok m"
    using db1(2) by (auto simp: schema_db_def)
  have m3: "dget (db_tables (cn_current c3)) ''projection_metadata'' = Some m"
    using m by (simp add: c3_def)
  define after where "after = (\<lambda>kvs. c3\<lparr>cn_current :=
      put_table ''projection_metadata'' (m\<lparr>tb_rows := meta_put_all kvs (tb_rows m)\<rparr>) (cn_current c3)\<rparr>)"
  have opened: "c3\<lparr>cn_current := x, cn_open := cn_open c3 \<or> b\<rparr> = c3\<lparr>cn_current := x\<rparr>" for x b
    by (cases c1) (simp add: c3_def c2_def)
  have meta: "set_metadata kvs c3 = (Inr u, c'') \<longleftrightarrow> texts_ok kvs \<and> c'' = after kvs" for kvs u c''
    using set_metadata_iff [OF m3 m(2), of kvs u c''] opened by (simp add: after_def)
  have body: "rebuild_body pd p s c = (Inr n, c') \<longleftrightarrow>
      distinct (map event_id ?es) \<and> (\<forall>i < length ?es. bindable pd (i + 1) (?es ! i)) \<and> n = length ?es
      \<and> (\<exists>source_identity identity count_text.
          journal_source_identity s = Inr source_identity
          \<and> py_int_str (int (length ?es)) = Inr count_text
          \<and> projection_identity (VStr source_identity) (VStr (text_or_empty (js_journal_sha256 s)))
              (int (length ?es)) (opt_str (snapshot_terminal_hash s)) PROJECTION_SCHEMA_VERSION
            = Inr identity
          \<and> texts_ok (rebuild_metadata p s source_identity identity count_text)
          \<and> c' = after (rebuild_metadata p s source_identity identity count_text))" for n c'
    unfolding rebuild_body_def
    by (auto simp: sql_bind_Inr sql_return_Inr sql_lift_Inr c1 c2 loop assms(3) Let_def
        meta rebuild_metadata_def [symmetric])
  show "(\<exists>c'. rebuild_body pd p s c = (Inr n, c')) \<longleftrightarrow> rebuildable pd p s \<and> n = length ?es"
    unfolding body rebuildable_def by blast
  assume "rebuild_body pd p s c = (Inr n, c')"
  then obtain source_identity identity count_text where
    b: "\<forall>i < length ?es. bindable pd (i + 1) (?es ! i)"
    and i: "journal_source_identity s = Inr source_identity"
      "py_int_str (int (length ?es)) = Inr count_text"
      "projection_identity (VStr source_identity) (VStr (text_or_empty (js_journal_sha256 s)))
        (int (length ?es)) (opt_str (snapshot_terminal_hash s)) PROJECTION_SCHEMA_VERSION = Inr identity"
      "texts_ok (rebuild_metadata p s source_identity identity count_text)"
    and c': "c' = after (rebuild_metadata p s source_identity identity count_text)"
    unfolding body by blast
  let ?kvs = "rebuild_metadata p s source_identity identity count_text"
  let ?m = "m\<lparr>tb_rows := meta_put_all ?kvs (tb_rows m)\<rparr>"
  have count: "count_text = int_repr (int (length ?es))"
    using i(2) by (simp add: py_int_str_def split: if_split_asm)
  have "metadata_ok ?m"
    using metadata_ok_set [OF m(2)] meta_put_all_ok [OF metadata_ok_rows [OF m(2)] i(4)] by blast
  moreover have f: "fetchable (event_rows pd 1 ?es)" using b by (rule fetchable_bound)
  have ok: "events_ok (set PROJECTED_EVENT_COLUMNS) (table_with pd ?es t)"
  proof -
    have "fetch_value v = Inr v" if "v \<in> set (place t r)" "r \<in> set (event_rows pd 1 ?es)" for v r
    proof -
      have "set (place t r) = column r ` set PROJECTED_EVENT_COLUMNS"
        using t(2) by (simp add: place_def holds_events_def events_ok_def)
      moreover have "map (column r) PROJECTED_EVENT_COLUMNS = r"
        using that(2) by (intro map_column) (auto simp: event_rows_def)
      ultimately have "v \<in> set r" using that(1) by (metis list.set_map)
      then show ?thesis using f that(2) by (auto simp: fetchable_def list_all_iff)
    qed
    then show ?thesis
      using t(2) by (auto simp: holds_events_def events_ok_def rows_ok_def table_with_def place_def)
  qed
  moreover have "cn_current c' = put_table ''projection_metadata'' ?m (put_table ''events'' (table_with pd ?es t) db1)"
    by (simp add: c' after_def c3_def)
  moreover have "\<forall>(k, v)\<in>set ?kvs. meta_lookup (tb_rows ?m) k = Some (VStr v)"
  proof -
    have "distinct (keys ?kvs)" by (simp add: rebuild_metadata_def)
    then show ?thesis using meta_lookup_put_all by fastforce
  qed
  ultimately show "rebuilt pd p s (cn_current c')"
    using db1(2) t(2) i(1-3) f assms(3) count
    by (auto simp: rebuilt_def schema_db_def holds_events_def)
qed

end
