(* ===== verification/ProjectionVerify.thy ===== *)
theory ProjectionVerify
  imports ProjectionRebuild
begin

text \<open>
  A rebuilt database passes the verification: the two halves of the projection agree.
\<close>

section \<open>Numbers in the metadata\<close>

lemma dropWhile_none: "\<forall>x\<in>set xs. \<not> P x \<Longrightarrow> dropWhile P xs = xs"
  by (cases xs) auto

lemma int_of_nat_text:
  assumes "length (nat_repr n) \<le> max_int_digits"
  shows "int_of_text (int_repr (int n)) = Inr (int n)"
proof -
  have d: "list_all is_digit (nat_repr n)" "nat_repr n \<noteq> []"
    using nat_repr_digits [of _ n] by (auto simp: list_all_iff)
  obtain c r where c: "nat_repr n = c # r" "is_digit c" using d by (cases "nat_repr n") auto
  have nsp: "\<not> is_space x" "x \<noteq> CHR ''_''" if "is_digit x" for x
    using that by (auto simp: is_digit_def is_space_def byte_def)
  have st: "py_strip (nat_repr n) = nat_repr n"
    using d nsp dropWhile_none [of "nat_repr n" is_space] dropWhile_none [of "rev (nat_repr n)" is_space]
    by (auto simp: py_strip_def list_all_iff)
  have "CHR ''_'' \<notin> set (nat_repr n)" using d(1) nsp(2) by (auto simp: list_all_iff)
  then have sp: "split_on (CHR ''_'') (nat_repr n) = [nat_repr n]" by (rule split_on_none)
  have "c \<noteq> CHR ''-''" "c \<noteq> CHR ''+''" using c(2) by (auto simp: is_digit_def byte_def)
  then show ?thesis
    using assms d st sp c nat_of_digits_repr [of n] by (simp add: int_of_text_def int_repr_def Let_def)
qed

section \<open>Rows\<close>

lemma rebuilt_rows:
  assumes "holds_events pd es t db" "fetchable (event_rows pd 1 es)"
  shows "projected_rows db = Inr (event_rows pd 1 es)"
proof -
  let ?t = "table_with pd es t"
  have cols: "set (tb_columns t) = set PROJECTED_EVENT_COLUMNS"
    using assms(1) by (simp add: holds_events_def events_ok_def)
  have f: "find_table db ''events'' (PROJECTED_EVENT_COLUMNS @ [''journal_record_number'']) = Inr ?t"
    using assms(1) cols projected_column_sets by (intro find_table_ok) (auto simp: holds_events_def)
  have len: "length r = 19" if "r \<in> set (event_rows pd 1 es)" for r
    using that by (auto simp: event_rows_def)
  have key: "map (\<lambda>c. sql_key (cell t row c)) [''journal_record_number'']
      = [sql_key (cell t row ''journal_record_number'')]" for row
    by simp
  have sorted: "sort_key (\<lambda>row. map (\<lambda>c. sql_key (cell t row c)) [''journal_record_number''])
      (map (place t) (event_rows pd 1 es)) = map (place t) (event_rows pd 1 es)"
  proof (rule sorted_sort_key_id)
    have "map (\<lambda>row. map (\<lambda>c. sql_key (cell t row c)) [''journal_record_number'']) (map (place t) (event_rows pd n es))
        = map (\<lambda>i. [sql_key (VInt (int i))]) [n ..< n + length es]" for n
    proof (induction es arbitrary: n)
      case (Cons e es)
      have "[n ..< n + length (e # es)] = n # [Suc n ..< Suc n + length es]"
        using upt_conv_Cons [of n "n + length (e # es)"] by (simp del: upt_Suc)
      moreover have "''journal_record_number'' \<in> set (tb_columns t)" using cols projected_column_sets by simp
      ultimately show ?case using Cons [of "Suc n"] by (simp add: event_rows_Cons cell_place)
    qed simp
    moreover have "sorted (map (\<lambda>i. [sql_key (VInt (int i))]) [1 ..< 1 + length es])"
    proof -
      have "[sql_key (VInt (int i))] \<le> [sql_key (VInt (int j))]" if "i \<le> j" for i j
        using that by (cases "i = j") (simp_all add: less_prod_def)
      then show ?thesis
        unfolding sorted_map by (intro sorted_wrt_mono_rel [OF _ sorted_upt]) simp
    qed
    ultimately show "sorted (map (\<lambda>row. map (\<lambda>c. sql_key (cell t row c)) [''journal_record_number''])
        (map (place t) (event_rows pd 1 es)))" by metis
  qed
  have "projected_rows db = traverse (\<lambda>row. traverse (\<lambda>c. fetch_value (cell t row c)) PROJECTED_EVENT_COLUMNS)
      (map (place t) (event_rows pd 1 es))"
    using f sorted by (simp add: projected_rows_def sql_select_def bind_values_def table_with_def)
  also have "\<dots> = Inr (event_rows pd 1 es)"
  proof -
    have "traverse (\<lambda>c. fetch_value (cell t (place t r) c)) PROJECTED_EVENT_COLUMNS = Inr r"
      if r: "r \<in> set (event_rows pd 1 es)" for r
    proof -
      have "traverse (\<lambda>c. fetch_value (cell t (place t r) c)) PROJECTED_EVENT_COLUMNS
          = traverse fetch_value (map (column r) PROJECTED_EVENT_COLUMNS)"
        unfolding traverse_map using cols by (intro traverse_cong) (simp_all add: cell_place)
      also have "\<dots> = traverse fetch_value r" using map_column [OF len [OF r]] by simp
      also have "\<dots> = Inr (map (\<lambda>v. v) r)"
        using assms(2) r by (intro traverse_all_Inr) (auto simp: fetchable_def list_all_iff)
      finally show ?thesis by simp
    qed
    then have "traverse (\<lambda>row. traverse (\<lambda>c. fetch_value (cell t row c)) PROJECTED_EVENT_COLUMNS)
      (map (place t) (event_rows pd 1 es)) = Inr (map (\<lambda>r. r) (event_rows pd 1 es))"
      unfolding traverse_map by (intro traverse_all_Inr)
    then show ?thesis by simp
  qed
  finally show ?thesis .
qed

lemma rebuilt_rows_verify:
  assumes "holds_events pd (js_events s) t db" "fetchable (event_rows pd 1 (js_events s))"
    and "\<forall>e\<in>set (js_events s). recorded pd e" "snapshot_record_count s = length (js_events s)"
  shows "verify_projected_rows pd db s = Inr ()"
proof -
  have "projected_row_values_and_types db
      = Inr (map (\<lambda>row. (row, map sql_typeof row)) (event_rows pd 1 (js_events s)))"
    using rebuilt_rows [OF assms(1,2)] by (simp add: projected_row_values_and_types_def projected_rows_def)
  moreover have "verify_rows pd 1 (js_events s)
      (map (\<lambda>row. (row, map sql_typeof row)) (event_rows pd 1 (js_events s))) = Inr ()"
    using assms(3) recorded_values event_row_types by (subst verify_rows_iff) (simp_all add: event_rows_nth)
  ultimately show ?thesis
    using assms(4) by (simp add: verify_projected_rows_def verify_projected_row_values_def)
qed

section \<open>The verification succeeds\<close>

lemma rebuilt_validates: "rebuilt pd p s db \<Longrightarrow> validate_schema db = Inr ()"
  by (auto simp: rebuilt_def schema_db_def validate_schema_def table_info_def metadata_ok_def
      events_ok_def PROJECTION_SCHEMA_VERSION_def Let_def filter_empty_conv)

lemma metadata_get_lookup:
  assumes "dget (db_tables db) ''projection_metadata'' = Some m" "metadata_ok m"
  obtains md where "get_metadata db = Inr md"
    "\<And>k. metadata_get md k = (case meta_lookup (tb_rows m) k of None \<Rightarrow> VNone | Some v \<Rightarrow> v)"
  using get_metadata_ok [OF assms] by (metis metadata_get_def meta_lookup_def)

lemma terminal_text: "snapshot_terminal_hash s = Some h \<Longrightarrow> h \<noteq> [] \<Longrightarrow>
    metadata_get md ''last_event_hash'' = VStr (text_or_empty (snapshot_terminal_hash s)) \<Longrightarrow>
    metadata_hash md ''last_event_hash'' = Inr (opt_str (snapshot_terminal_hash s))"
  by (simp add: metadata_hash_def text_or_empty_def)

lemma py_eq_opt_strs [simp]: "py_eq (opt_str a) (opt_str a)"
  by (cases a) (simp_all add: scalar_eq_def)

definition snapshot_proof :: "path \<Rightarrow> path \<Rightarrow> string \<Rightarrow> VerifiedJournalSnapshot \<Rightarrow> VerifiedProjectionSnapshot \<Rightarrow> bool" where
  "snapshot_proof dbp jp source_path s v \<longleftrightarrow>
     vp_journal_path v = jp \<and> vp_database_path v = dbp \<and> vp_journal_snapshot v = s
     \<and> vp_records_indexed v = int (snapshot_record_count s)
     \<and> vp_last_event_hash v = opt_str (snapshot_terminal_hash s)
     \<and> vp_source_journal_path v = source_path \<and> vp_state v = PS_HEALTHY"

text \<open>The metadata a rebuild writes, as the verification reads them.\<close>

lemma rebuilt_metadata:
  assumes r: "rebuilt pd p s db" and h: "\<And>h. snapshot_terminal_hash s = Some h \<Longrightarrow> h \<noteq> []"
  obtains md source_identity identity where "get_metadata db = Inr md"
    "journal_source_identity s = Inr source_identity"
    "projection_identity (VStr source_identity) (VStr (text_or_empty (js_journal_sha256 s)))
       (int (snapshot_record_count s)) (opt_str (snapshot_terminal_hash s)) PROJECTION_SCHEMA_VERSION
     = Inr identity"
    "metadata_get md ''source_journal_path'' = VStr (path_str p)"
    "metadata_get md ''source_journal_identity'' = VStr source_identity"
    "metadata_get md ''source_journal_identity_version'' = VStr JOURNAL_SOURCE_IDENTITY_VERSION"
    "metadata_get md ''source_journal_sha256'' = VStr (text_or_empty (js_journal_sha256 s))"
    "metadata_get md ''projection_identity'' = VStr identity"
    "metadata_int md ''records_indexed'' = Inr (int (snapshot_record_count s))"
    "metadata_hash md ''last_event_hash'' = Inr (opt_str (snapshot_terminal_hash s))"
    "source_identity \<noteq> []" "\<not> py_startswith source_identity ''local-file:''"
    "identity \<noteq> []" "\<not> py_startswith identity ''sqlite-file:''"
proof -
  obtain source_identity identity m where i: "journal_source_identity s = Inr source_identity"
    "projection_identity (VStr source_identity) (VStr (text_or_empty (js_journal_sha256 s)))
       (int (snapshot_record_count s)) (opt_str (snapshot_terminal_hash s)) PROJECTION_SCHEMA_VERSION
     = Inr identity"
    "py_int_str (int (snapshot_record_count s)) = Inr (int_repr (int (snapshot_record_count s)))"
    and m: "dget (db_tables db) ''projection_metadata'' = Some m"
    and kv: "\<forall>(k, v)\<in>set (rebuild_metadata p s source_identity identity
        (int_repr (int (snapshot_record_count s)))). meta_lookup (tb_rows m) k = Some (VStr v)"
    using r unfolding rebuilt_def by blast
  have "metadata_ok m" using r m by (auto simp: rebuilt_def schema_db_def)
  then obtain md where md: "get_metadata db = Inr md"
    "\<And>k. metadata_get md k = (case meta_lookup (tb_rows m) k of None \<Rightarrow> VNone | Some v \<Rightarrow> v)"
    using metadata_get_lookup [OF m] by blast
  have g: "metadata_get md ''source_journal_path'' = VStr (path_str p)"
    "metadata_get md ''source_journal_identity'' = VStr source_identity"
    "metadata_get md ''source_journal_identity_version'' = VStr JOURNAL_SOURCE_IDENTITY_VERSION"
    "metadata_get md ''source_journal_sha256'' = VStr (text_or_empty (js_journal_sha256 s))"
    "metadata_get md ''projection_identity'' = VStr identity"
    "metadata_get md ''records_indexed'' = VStr (int_repr (int (snapshot_record_count s)))"
    "metadata_get md ''last_event_hash'' = VStr (text_or_empty (snapshot_terminal_hash s))"
    using kv by (simp_all add: rebuild_metadata_def md(2))
  have ids: "source_identity \<noteq> []" "\<not> py_startswith source_identity ''local-file:''"
    "identity \<noteq> []" "\<not> py_startswith identity ''sqlite-file:''"
    using i(1,2) by (auto simp: journal_source_identity_def projection_identity_def bnd_Inr_iff
        JOURNAL_SOURCE_IDENTITY_VERSION_def PROJECTION_IDENTITY_VERSION_def py_startswith_def
        split: if_split_asm)
  have count: "metadata_int md ''records_indexed'' = Inr (int (snapshot_record_count s))"
    using i(3) int_of_nat_text [of "snapshot_record_count s"]
    by (simp add: metadata_int_def g int_of_value_def py_int_str_def split: if_split_asm)
  have last: "metadata_hash md ''last_event_hash'' = Inr (opt_str (snapshot_terminal_hash s))"
    using h by (cases "snapshot_terminal_hash s") (auto simp: metadata_hash_def g text_or_empty_def)
  show ?thesis by (rule that [OF md(1) i(1,2) g(1-5) count last ids])
qed

lemma same_text [simp]: "py_eq (VStr x) (VStr y) \<longleftrightarrow> x = y"
  by (simp add: scalar_eq_def)

lemma rebuilt_verifies:
  assumes r: "rebuilt pd p s db" and e: "\<forall>e\<in>set (js_events s). recorded pd e"
    and s: "locked_snapshot pd env None None = Inr s" "snapshot_ok s"
      "snapshot_record_count s = length (js_events s)"
      "\<And>h. snapshot_terminal_hash s = Some h \<Longrightarrow> h \<noteq> []"
    and p: "path_str p \<noteq> []" "normalize_journal_path fs (Path (path_str p)) = Inr q"
  obtains v where "verify_projection_state_on_connection pd fs env dbp jp db = Inr v"
    "snapshot_proof dbp jp (path_str q) s v"
proof -
  obtain t where t: "holds_events pd (js_events s) t db" "fetchable (event_rows pd 1 (js_events s))"
    using r by (auto simp: rebuilt_def)
  obtain md source_identity identity where md: "get_metadata db = Inr md"
    and i: "journal_source_identity s = Inr source_identity"
    "projection_identity (VStr source_identity) (VStr (text_or_empty (js_journal_sha256 s)))
       (int (snapshot_record_count s)) (opt_str (snapshot_terminal_hash s)) PROJECTION_SCHEMA_VERSION
     = Inr identity"
    and g: "metadata_get md ''source_journal_path'' = VStr (path_str p)"
    "metadata_get md ''source_journal_identity'' = VStr source_identity"
    "metadata_get md ''source_journal_identity_version'' = VStr JOURNAL_SOURCE_IDENTITY_VERSION"
    "metadata_get md ''source_journal_sha256'' = VStr (text_or_empty (js_journal_sha256 s))"
    "metadata_get md ''projection_identity'' = VStr identity"
    and count: "metadata_int md ''records_indexed'' = Inr (int (snapshot_record_count s))"
    and last: "metadata_hash md ''last_event_hash'' = Inr (opt_str (snapshot_terminal_hash s))"
    and ids: "source_identity \<noteq> []" "\<not> py_startswith source_identity ''local-file:''"
    "identity \<noteq> []" "\<not> py_startswith identity ''sqlite-file:''"
    by (rule rebuilt_metadata [OF r s(4)])
  have hint: "projection_source_path_hint fs md = Inr (path_str q)"
    using p by (simp add: projection_source_path_hint_def g)
  have ident: "check_identity_metadata pd db md s n h = Inr (VStr source_identity)" for n h
    using ids by (simp add: check_identity_metadata_def i(1) g obj_startswith_def del: py_eq.simps)
  have jm: "check_journal_metadata md s (int (snapshot_record_count s)) (opt_str (snapshot_terminal_hash s))
      = Inr (VStr (text_or_empty (js_journal_sha256 s)))"
    by (simp add: check_journal_metadata_def g del: py_eq.simps)
  have pi: "verify_projection_identity (VStr identity) (VStr source_identity)
      (if truthy (VStr (text_or_empty (js_journal_sha256 s))) then VStr (text_or_empty (js_journal_sha256 s))
       else VStr []) (int (snapshot_record_count s)) (opt_str (snapshot_terminal_hash s))
      PROJECTION_SCHEMA_VERSION = Inr ()"
    using ids i(2) by (cases "text_or_empty (js_journal_sha256 s) = []")
      (simp_all add: verify_projection_identity_def obj_startswith_def del: py_eq.simps)
  show ?thesis
  proof (rule that)
    show "verify_projection_state_on_connection pd fs env dbp jp db = Inr
      \<lparr>vp_journal_path = jp, vp_database_path = dbp, vp_journal_snapshot = s,
       vp_records_indexed = int (snapshot_record_count s),
       vp_last_event_hash = opt_str (snapshot_terminal_hash s), vp_source_journal_path = path_str q,
       vp_source_journal_identity = VStr source_identity,
       vp_source_journal_sha256 =
         (if text_or_empty (js_journal_sha256 s) \<noteq> [] then VStr (text_or_empty (js_journal_sha256 s))
          else VNone),
       vp_projection_identity = VStr identity, vp_schema_version = PROJECTION_SCHEMA_VERSION,
       vp_state = PS_HEALTHY\<rparr>"
      by (simp add: verify_projection_state_on_connection_def rebuilt_validates [OF r] md hint g(5)
          ids(3) s(1,2) count last ident jm pi [simplified] rebuilt_rows_verify [OF t e s(3)])
  qed (simp add: snapshot_proof_def)
qed

text \<open>The projection of a journal that has grown since is recognized as stale.\<close>

lemma rebuilt_stale:
  assumes r: "rebuilt pd p s db" and e: "\<forall>e\<in>set (js_events s). recorded pd e"
    and s: "snapshot_record_count s = length (js_events s)"
      "\<And>h. snapshot_terminal_hash s = Some h \<Longrightarrow> h \<noteq> []"
      "snapshot_terminal_hash s =
         (if js_events s = [] then None else event_hash (ev_integrity (last (js_events s))))"
    and t: "locked_snapshot pd env None None = Inr t" "snapshot_ok t"
      "js_events t = js_events s @ fs" "snapshot_record_count t = length (js_events t)"
      "journal_source_identity t = Inr other" "journal_source_identity s \<noteq> Inr other"
    and p: "path_str p \<noteq> []" "normalize_journal_path fs' (Path (path_str p)) = Inr q"
  shows "\<exists>message details. verify_projection_state_on_connection pd fs' env dbp jp db
    = Inl (StateError PS_PROJECTION_STALE message details)"
proof -
  obtain u where u: "holds_events pd (js_events s) u db" "fetchable (event_rows pd 1 (js_events s))"
    using r by (auto simp: rebuilt_def)
  obtain md source_identity identity where md: "get_metadata db = Inr md"
    and i: "journal_source_identity s = Inr source_identity"
    and g: "metadata_get md ''source_journal_path'' = VStr (path_str p)"
    "metadata_get md ''source_journal_identity'' = VStr source_identity"
    "metadata_get md ''source_journal_identity_version'' = VStr JOURNAL_SOURCE_IDENTITY_VERSION"
    "metadata_get md ''projection_identity'' = VStr identity"
    and count: "metadata_int md ''records_indexed'' = Inr (int (snapshot_record_count s))"
    and last: "metadata_hash md ''last_event_hash'' = Inr (opt_str (snapshot_terminal_hash s))"
    and ids: "source_identity \<noteq> []" "\<not> py_startswith source_identity ''local-file:''" "identity \<noteq> []"
    by (rule rebuilt_metadata [OF r s(2)])
  have hint: "projection_source_path_hint fs' md = Inr (path_str q)"
    using p by (simp add: projection_source_path_hint_def g)
  have rows: "projected_row_values_and_types db
      = Inr (map (\<lambda>row. (row, map sql_typeof row)) (event_rows pd 1 (js_events s)))"
    using rebuilt_rows [OF u] by (simp add: projected_row_values_and_types_def projected_rows_def)
  have "verify_rows pd 1 (js_events s)
      (map (\<lambda>row. (row, map sql_typeof row)) (event_rows pd 1 (js_events s))) = Inr ()"
    using e recorded_values event_row_types by (subst verify_rows_iff) (simp_all add: event_rows_nth)
  then have vals: "verify_projected_row_values pd
      (map (\<lambda>row. (row, map sql_typeof row)) (event_rows pd 1 (js_events s))) t (length (js_events s)) = Inr ()"
    using t(3) by (simp add: verify_projected_row_values_def)
  have "projection_matches_verified_journal_prefix pd db t (int (length (js_events s)))
      (opt_str (snapshot_terminal_hash s)) = Inr True"
    using rows vals t(3,4) s(3)
    by (cases "js_events s = []")
      (simp_all add: projection_matches_verified_journal_prefix_def nth_append last_conv_nth scalar_eq_def)
  then show ?thesis
    using ids t i g count last md hint rebuilt_validates [OF r] s(1)
    by (simp add: verify_projection_state_on_connection_def check_identity_metadata_def
        obj_startswith_def del: py_eq.simps)
qed

end
