(* ===== verification/PyEncodes.thy ===== *)
theory PyEncodes
  imports Serialization
begin

text \<open>
  The converse of \<open>encodable_encodes\<close>: what is encoded has encodable parts. A text that JSON prints
  into well-formed UTF-8 is well-formed itself.
\<close>

section \<open>Cutting UTF-8 at an ASCII byte\<close>

lemma utf8_split:
  assumes c: "byte c < 128"
  shows "utf8_ok sp (a @ c # b) \<Longrightarrow> utf8_ok sp a \<and> utf8_ok sp b"
proof (induction "length a" arbitrary: a rule: less_induct)
  case less
  have n: "\<not> cont_byte c" using c cont_byte_high by blast
  show ?case
  proof (cases a)
    case Nil
    then show ?thesis using less.prems c by simp
  next
    case (Cons d cs)
    define k where "k = byte d"
    have ok: "utf8_ok sp (d # (cs @ c # b))" using less.prems Cons by simp
    have step: "utf8_ok sp r \<and> utf8_ok sp b" if "utf8_ok sp (r @ c # b)" "length r \<le> length cs" for r
      using less.hyps [of r] that Cons by simp
    consider "k < 128" | "194 \<le> k" "k < 224" | "224 \<le> k" "k < 240" | "240 \<le> k" "k < 245"
      | "\<not> k < 128" "\<not> (194 \<le> k \<and> k < 224)" "\<not> (224 \<le> k \<and> k < 240)" "\<not> (240 \<le> k \<and> k < 245)"
      by linarith
    then show ?thesis
    proof cases
      case 1
      then have "utf8_ok sp (cs @ c # b)" using ok by (simp add: k_def)
      with 1 step [of cs] Cons show ?thesis by (simp add: k_def)
    next
      case 2
      with ok n obtain d1 r where r: "cs = d1 # r" by (cases cs) (auto simp: k_def)
      with 2 ok have "utf8_ok sp (r @ c # b)" by (simp add: k_def)
      with 2 ok r step [of r] Cons show ?thesis by (simp add: k_def)
    next
      case 3
      with ok n obtain d1 d2 r where r: "cs = d1 # d2 # r"
        by (cases cs rule: remdups_adj.cases) (auto simp: k_def Let_def split: list.splits)
      with 3 ok have "utf8_ok sp (r @ c # b)" by (simp add: k_def Let_def)
      with 3 ok r step [of r] Cons show ?thesis by (simp add: k_def Let_def)
    next
      case 4
      with ok n have "\<exists>d1 d2 d3 r. cs = d1 # d2 # d3 # r"
        by (cases cs; cases "tl cs"; cases "tl (tl cs)") (auto simp: k_def Let_def split: list.splits)
      then obtain d1 d2 d3 r where r: "cs = d1 # d2 # d3 # r" by blast
      with 4 ok have "utf8_ok sp (r @ c # b)" by (simp add: k_def Let_def)
      with 4 ok r step [of r] Cons show ?thesis by (simp add: k_def Let_def)
    next
      case 5
      with ok show ?thesis by (auto simp: k_def Let_def split: if_split_asm)
    qed
  qed
qed

lemma json_chars_cont:
  assumes "concat (map json_char s) @ [dquote] = d # x" "cont_byte d"
  obtains r where "s = d # r" "x = concat (map json_char r) @ [dquote]"
proof (cases s)
  case Nil
  then have "d = dquote" using assms by simp
  then show ?thesis using assms(2) by (simp add: cont_byte_def dquote_def byte_def)
next
  case (Cons c r)
  show ?thesis
  proof (cases "byte c < 128")
    case True
    then have "\<forall>e\<in>set (json_char c). \<not> cont_byte e"
      using json_char_ascii cont_byte_high by blast
    moreover have "json_char c \<noteq> []" by (simp add: json_char_def)
    then have "d \<in> set (json_char c)" using assms(1) Cons by (cases "json_char c") auto
    ultimately show ?thesis using assms(2) by blast
  next
    case False
    then show ?thesis using assms(1) Cons that by (simp add: json_char_high)
  qed
qed

lemma json_chars_utf8: "utf8_ok sp (concat (map json_char s) @ [dquote]) \<Longrightarrow> utf8_ok sp s"
proof (induction sp s rule: utf8_ok.induct)
  case (2 sp c cs)
  define b where "b = byte c"
  let ?t = "concat (map json_char cs) @ [dquote]"
  have ok: "utf8_ok sp (json_char c @ ?t)" using 2(5) by simp
  consider "b < 128" | "194 \<le> b" "b < 224" | "224 \<le> b" "b < 240" | "240 \<le> b" "b < 245"
    | "\<not> b < 128" "\<not> (194 \<le> b \<and> b < 224)" "\<not> (224 \<le> b \<and> b < 240)" "\<not> (240 \<le> b \<and> b < 245)"
    by linarith
  then show ?case
  proof cases
    case 1
    have "utf8_ok sp (json_char c)" using 1 json_char_ascii utf8_ok_ascii by (simp add: b_def)
    with 1 ok "2.IH" show ?thesis by (simp add: b_def utf8_ok_append)
  next
    case 2
    then have c: "json_char c = [c]" by (simp add: b_def json_char_high)
    from ok 2 obtain d x where x: "?t = d # x" "cont_byte d" "utf8_ok sp x"
      by (auto simp: c b_def split: list.splits)
    obtain r where "cs = d # r" "x = concat (map json_char r) @ [dquote]"
      using json_chars_cont [OF x(1,2)] .
    with 2 x "2.IH" show ?thesis by (simp add: b_def)
  next
    case 3
    then have c: "json_char c = [c]" by (simp add: b_def json_char_high)
    from ok 3 obtain d e x where x: "?t = d # e # x" "cont_byte d" "cont_byte e" "utf8_ok sp x"
      "b = 224 \<longrightarrow> 160 \<le> byte d" "b = 237 \<and> \<not> sp \<longrightarrow> byte d < 160"
      by (auto simp: c b_def Let_def split: list.splits)
    obtain r where r: "cs = d # r" "e # x = concat (map json_char r) @ [dquote]"
      using json_chars_cont [OF x(1,2)] .
    obtain r' where "r = e # r'" "x = concat (map json_char r') @ [dquote]"
      using json_chars_cont [OF r(2) [symmetric] x(3)] .
    with 3 x r "2.IH" show ?thesis by (simp add: b_def Let_def)
  next
    case 4
    then have c: "json_char c = [c]" by (simp add: b_def json_char_high)
    from ok 4 obtain d e f x where x: "?t = d # e # f # x" "cont_byte d" "cont_byte e" "cont_byte f"
      "utf8_ok sp x" "b = 240 \<longrightarrow> 144 \<le> byte d" "b = 244 \<longrightarrow> byte d < 144"
      by (auto simp: c b_def Let_def split: list.splits)
    obtain r where r: "cs = d # r" "e # f # x = concat (map json_char r) @ [dquote]"
      using json_chars_cont [OF x(1,2)] .
    obtain r' where r': "r = e # r'" "f # x = concat (map json_char r') @ [dquote]"
      using json_chars_cont [OF r(2) [symmetric] x(3)] .
    obtain r'' where "r' = f # r''" "x = concat (map json_char r'') @ [dquote]"
      using json_chars_cont [OF r'(2) [symmetric] x(4)] .
    with 4 x r r' "2.IH" show ?thesis by (simp add: b_def Let_def)
  next
    case 5
    then have "json_char c = [c]" by (simp add: b_def json_char_high)
    with 5 ok show ?thesis by (auto simp: b_def Let_def split: if_split_asm)
  qed
qed simp

lemma dquote_ascii: "byte dquote < 128"
  by (simp add: dquote_def byte_def)

lemma json_str_utf8:
  assumes "utf8_ok sp (json_str s @ t)"
  shows "utf8_ok sp s" "utf8_ok sp t"
proof -
  have "utf8_ok sp ((concat (map json_char s)) @ dquote # t)"
    using assms dquote_ascii by (simp add: json_str_def)
  then have x: "utf8_ok sp (concat (map json_char s))" "utf8_ok sp t"
    using utf8_split [OF dquote_ascii] by blast+
  then have "utf8_ok sp (concat (map json_char s) @ [dquote])"
    using dquote_ascii by (simp add: utf8_ok_append)
  then show "utf8_ok sp s" by (rule json_chars_utf8)
  show "utf8_ok sp t" using x(2) .
qed

lemma join_utf8: "utf8_ok sp (join_with '','' ss) \<Longrightarrow> s \<in> set ss \<Longrightarrow> utf8_ok sp s"
proof (induction "'',''" ss rule: join_with.induct)
  case (3 x y ys)
  then have "utf8_ok sp (x @ CHR '','' # join_with '','' (y # ys))" by simp
  then have "utf8_ok sp x \<and> utf8_ok sp (join_with '','' (y # ys))"
    by (intro utf8_split [of "CHR '',''"]) (simp_all add: byte_def)
  then show ?case using 3 by auto
qed simp_all

section \<open>Values\<close>

lemma member_utf8:
  assumes "utf8_ok False (json_member (k, s))"
  shows "utf8_ok False k" "utf8_ok False s"
  using json_str_utf8 [of False k "'':'' @ s"] assms
  by (simp_all add: json_member_def byte_def)

lemma encodes_encodable: "encodes v \<Longrightarrow> encodable v"
proof (induction v rule: encodable.induct)
  case (3 i)
  then show ?case by (simp add: encodes_def py_int_str_def split: if_split_asm)
next
  case (4 f)
  then show ?case by (simp add: encodes_def split: if_split_asm)
next
  case (5 s)
  then show ?case using json_str_utf8(1) [of False s "[]"] by (simp add: encodes_def)
next
  case (6 xs)
  then obtain ss where ss: "dumps_list xs = Inr ss" "utf8_ok False (''['' @ join_with '','' ss @ '']'')"
    by (auto simp: encodes_def bnd_Inr_iff)
  have "utf8_ok False (join_with '','' ss)"
    using ss(2) utf8_split [of "CHR '']''" False "join_with '','' ss" "[]"] by (simp add: byte_def)
  then have "\<forall>x\<in>set xs. encodes x"
    using ss(1) join_utf8 [of False ss] nth_mem [of _ ss]
    by (auto simp: dumps_list_Inr_iff list_all2_conv_all_nth in_set_conv_nth [of _ xs] encodes_def)
  then show ?case using 6(1) by (simp add: list_all_iff)
next
  case (7 xs)
  then obtain ss where ss: "dumps_list xs = Inr ss" "utf8_ok False (''['' @ join_with '','' ss @ '']'')"
    by (auto simp: encodes_def bnd_Inr_iff)
  have "utf8_ok False (join_with '','' ss)"
    using ss(2) utf8_split [of "CHR '']''" False "join_with '','' ss" "[]"] by (simp add: byte_def)
  then have "\<forall>x\<in>set xs. encodes x"
    using ss(1) join_utf8 [of False ss] nth_mem [of _ ss]
    by (auto simp: dumps_list_Inr_iff list_all2_conv_all_nth in_set_conv_nth [of _ xs] encodes_def)
  then show ?case using 7(1) by (simp add: list_all_iff)
next
  case (8 d)
  then obtain ps where ps: "dumps_members d = Inr ps"
    "utf8_ok False (''{'' @ join_with '','' (map json_member (key_sort ps)) @ ''}'')"
    by (auto simp: encodes_def bnd_Inr_iff)
  have "utf8_ok False (join_with '','' (map json_member (key_sort ps)))"
    using ps(2) utf8_split [of "CHR ''}''" False "join_with '','' (map json_member (key_sort ps))" "[]"]
    by (simp add: byte_def)
  then have "\<forall>p\<in>set ps. utf8_ok False (json_member p)"
    using join_utf8 [of False "map json_member (key_sort ps)"] by (auto simp: key_sort_def)
  then have q: "\<forall>p\<in>set ps. utf8_ok False (fst p) \<and> utf8_ok False (snd p)"
    using member_utf8 by (metis prod.collapse)
  have all: "list_all2 dumps_member d ps" using ps(1) by (simp add: dumps_members_Inr_iff)
  have "case p of (KStr k, v) \<Rightarrow> utf8_ok False k \<and> encodable v | _ \<Rightarrow> False" if p: "p \<in> set d" for p
  proof -
    obtain r where r: "r \<in> set ps" "dumps_member p r"
      using all p by (metis in_set_conv_nth list_all2_conv_all_nth)
    then obtain k v where kv: "p = (KStr k, v)" "fst r = k" "dumps v = Inr (snd r)"
      by (cases p) (auto simp: dumps_member_def)
    then have "encodes v" using q r(1) by (auto simp: encodes_def)
    then have "encodable v" using 8(1) p kv(1) by blast
    then show ?thesis using q r(1) kv by auto
  qed
  then show ?case by (simp add: list_all_iff)
qed (simp_all add: encodes_def)

lemma encodes_iff: "encodes v \<longleftrightarrow> encodable v"
  using encodes_encodable encodable_encodes by blast

end
