(* ===== verification/ProjectionFacts.thy ===== *)
theory ProjectionFacts
  imports ProjectionVerify PyEncodes
begin

text \<open>
  The lemmas the properties of the projection rest on: verified journals and their identities, the
  rows of a verified journal, what a successful rebuild leaves, paths read back from their text, the
  journal read again, and the instances of the witnesses.
\<close>

section \<open>Verified journals\<close>

lemma good_recorded:
  assumes "pydantic_laws pd" "good_records pd i p es"
  shows "\<forall>e\<in>set es. recorded pd e"
proof
  fix e assume "e \<in> set es"
  then obtain k where "k < length es" "e = es ! k" by (auto simp: in_set_conv_nth)
  then obtain q where "good_record pd (i + k) q e" using good_records_nth [OF assms(2)] by blast
  then show "recorded pd e"
    using pydantic_laws.event_from_json_wf [OF assms(1)]
    by (auto simp: good_record_def recorded_def)
qed

lemma terminal_last: "terminal prev es = (if es = [] then prev else event_hash (ev_integrity (last es)))"
  by (induction es arbitrary: prev) auto

lemma recorded_hash:
  assumes "recorded pd e"
  obtains h where "event_hash (ev_integrity e) = Some h" "h \<noteq> []" "utf8_ok False h"
  using assms by (auto simp: recorded_def wf_event_def wf_integrity_def wf_str_def)

text \<open>A verified snapshot in the terms of the projection.\<close>

definition verified_snapshot :: "pydantic \<Rightarrow> bytes option \<Rightarrow> VerifiedJournalSnapshot \<Rightarrow> bool" where
  "verified_snapshot pd file s \<longleftrightarrow>
     snapshot_ok s \<and> file_bytes file = journal_bytes pd (js_events s)
     \<and> good_records pd 0 None (js_events s) \<and> (\<forall>e\<in>set (js_events s). recorded pd e)
     \<and> snapshot_record_count s = length (js_events s)
     \<and> snapshot_terminal_hash s = terminal None (js_events s)
     \<and> js_journal_sha256 s = map_option (\<lambda>content. sha256_digest content) file"

lemma locked_snapshot_verified:
  assumes "pydantic_laws pd" "locked_snapshot pd env c h = Inr s" "snapshot_ok s"
  shows "verified_snapshot pd (sn_file env) s"
proof -
  have v: "verified_journal_snapshot pd (sn_stat env) c h (sn_file env) = Inr s"
    using assms(2) by (auto simp: locked_snapshot_def bnd_Inr_iff)
  have "js_journal_sha256 s = map_option (\<lambda>content. sha256_digest content) (sn_file env)"
    using v assms(3) by (auto simp: verified_journal_snapshot_def bnd_Inr_iff Let_def snapshot_ok_def
        sha256_digest_def)
  then show ?thesis
    using snapshot_okD [OF assms(1) v assms(3)] good_recorded [OF assms(1)] assms(3)
    by (simp add: verified_snapshot_def)
qed

lemma verified_terminal:
  assumes "verified_snapshot pd file s" "snapshot_terminal_hash s = Some h"
  shows "h \<noteq> []" "utf8_ok False h"
proof -
  have "js_events s \<noteq> []" "event_hash (ev_integrity (last (js_events s))) = Some h"
    using assms by (auto simp: verified_snapshot_def terminal_last split: if_split_asm)
  then show "h \<noteq> []" "utf8_ok False h"
    using assms(1) recorded_hash [of pd "last (js_events s)"]
    by (auto simp: verified_snapshot_def)
qed

section \<open>Identities exist\<close>

lemma length_nat_repr: "0 < k \<Longrightarrow> n < 10 ^ k \<Longrightarrow> length (nat_repr n) \<le> k"
proof (induction k arbitrary: n)
  case (Suc k)
  show ?case
  proof (cases "n < 10")
    case False
    then have "n div 10 < 10 ^ k" "0 < k"
      using Suc.prems by (auto simp: div_less_iff_less_mult mult.commute intro: Suc_leI gr0I)
    then show ?thesis using Suc.IH [of "n div 10"] False by (simp add: nat_repr.simps [of n])
  qed (simp add: nat_repr.simps [of n])
qed simp

lemma fits_digits: "n < 2 ^ 63 \<Longrightarrow> length (nat_repr n) \<le> max_int_digits"
proof -
  assume "n < 2 ^ 63"
  also have "(2 :: nat) ^ 63 < 10 ^ 19" by simp
  finally show ?thesis using length_nat_repr [of 19 n] by (simp add: max_int_digits_def)
qed

lemma ascii_sha256: "ascii (sha256_hex bs)"
  by (auto simp: ascii_def is_hex_char_def dest!: sha256_hex_hex)

lemma encodable_serialized: "encodable v \<Longrightarrow> \<exists>bs. deterministic_json_bytes v = Inr bs"
  using encodable_encodes [of v] by (auto simp: encodes_def deterministic_json_bytes_def py_encode_def)

lemma identity_exists:
  assumes v: "verified_snapshot pd file s" and n: "snapshot_record_count s < 2 ^ 63"
  obtains source_identity identity where "journal_source_identity s = Inr source_identity"
    "projection_identity (VStr source_identity) (VStr (text_or_empty (js_journal_sha256 s)))
       (int (snapshot_record_count s)) (opt_str (snapshot_terminal_hash s)) PROJECTION_SCHEMA_VERSION
     = Inr identity"
    "utf8_ok False source_identity" "utf8_ok False identity"
    "utf8_ok False (text_or_empty (js_journal_sha256 s))"
proof -
  have sha: "utf8_ok False h" if "js_journal_sha256 s = Some h" for h
    using that v wf_str_digest by (cases "file") (auto simp: verified_snapshot_def wf_str_def)
  then have sha': "utf8_ok False (text_or_empty (js_journal_sha256 s))"
    by (cases "js_journal_sha256 s") (simp_all add: text_or_empty_def)
  obtain bs where bs: "deterministic_json_bytes (source_identity_preimage s) = Inr bs"
    using preimage_bytes_exist [of s] sha verified_terminal(2) [OF v] fits_digits [OF n] by auto
  define i where "i = JOURNAL_SOURCE_IDENTITY_VERSION @ '':sha256:'' @ sha256_hex bs"
  have i: "journal_source_identity s = Inr i"
    using v bs by (simp add: journal_source_identity_def verified_snapshot_def i_def)
  have "ascii i" unfolding i_def by (simp add: ascii_sha256 JOURNAL_SOURCE_IDENTITY_VERSION_def byte_def)
  then have ui: "utf8_ok False i" by (rule ascii_utf8)
  have "encodable (opt_str (snapshot_terminal_hash s))"
    using verified_terminal(2) [OF v] by (cases "snapshot_terminal_hash s") simp_all
  moreover have "length (nat_repr (nat \<bar>PROJECTION_SCHEMA_VERSION\<bar>)) \<le> max_int_digits"
    by (rule fits_digits) (simp add: PROJECTION_SCHEMA_VERSION_def)
  ultimately have "encodable (projection_identity_payload (VStr i) (VStr (text_or_empty (js_journal_sha256 s)))
      (int (snapshot_record_count s)) (opt_str (snapshot_terminal_hash s)) PROJECTION_SCHEMA_VERSION)"
    unfolding projection_identity_payload_def encodable_obj
    using ui sha' fits_digits [OF n]
    by (simp add: byte_def JOURNAL_SOURCE_IDENTITY_VERSION_def PROJECTION_IDENTITY_VERSION_def)
  then obtain ps where "deterministic_json_bytes (projection_identity_payload (VStr i)
      (VStr (text_or_empty (js_journal_sha256 s))) (int (snapshot_record_count s))
      (opt_str (snapshot_terminal_hash s)) PROJECTION_SCHEMA_VERSION) = Inr ps"
    using encodable_serialized by blast
  then have "projection_identity (VStr i) (VStr (text_or_empty (js_journal_sha256 s)))
       (int (snapshot_record_count s)) (opt_str (snapshot_terminal_hash s)) PROJECTION_SCHEMA_VERSION
     = Inr (PROJECTION_IDENTITY_VERSION @ '':sha256:'' @ sha256_hex ps)"
    by (simp add: projection_identity_def)
  moreover have "utf8_ok False (PROJECTION_IDENTITY_VERSION @ '':sha256:'' @ sha256_hex ps)"
    by (rule ascii_utf8) (simp add: ascii_sha256 PROJECTION_IDENTITY_VERSION_def byte_def)
  ultimately show ?thesis using that i ui sha' by blast
qed

section \<open>The rows of a verified journal fit\<close>

definition utf8_opt :: "string option \<Rightarrow> bool" where
  "utf8_opt x = (case x of None \<Rightarrow> True | Some s \<Rightarrow> utf8_ok False s)"

lemma utf8_opt_simps [simp]: "utf8_opt None" "utf8_opt (Some s) \<longleftrightarrow> utf8_ok False s"
  by (simp_all add: utf8_opt_def)

lemma encodable_member:
  "encodable (VDict d) \<Longrightarrow> encodable (get_or_none d k)"
  by (auto simp: get_or_none_def get_item_def list_all_iff split: option.split dest!: dget_Some_in)

lemma utf8_string_or_none: "encodable v \<Longrightarrow> utf8_opt (string_or_none v)"
  by (cases v) (auto simp: string_or_none_def)

lemma evidence_values_utf8:
  assumes "encodable (VDict d)" "evidence_projection_values d = (status, subject, evidence)"
  shows "utf8_opt status" "utf8_opt subject" "utf8_opt evidence"
proof -
  have "utf8_opt status \<and> utf8_opt subject \<and> utf8_opt evidence"
  proof (cases "get_or_none d ''payload''")
    case (VDict p)
    then have p: "encodable (VDict p)" using encodable_member [OF assms(1), of "''payload''"] by simp
    have a: "utf8_opt (string_or_none (get_or_none q k))" if "encodable (VDict q)" for q k
      by (rule utf8_string_or_none [OF encodable_member [OF that]])
    show ?thesis
    proof (cases "get_or_none p ''evidence_link''")
      case (VDict l)
      then have l: "encodable (VDict l)" using encodable_member [OF p, of "''evidence_link''"] by simp
      show ?thesis
        using assms(2) \<open>get_or_none d ''payload'' = VDict p\<close> VDict a [OF l]
        by (auto simp: evidence_projection_values_def)
    qed (use assms(2) \<open>get_or_none d ''payload'' = VDict p\<close> a [OF p] in
        \<open>auto simp: evidence_projection_values_def\<close>)
  qed (use assms(2) in \<open>auto simp: evidence_projection_values_def\<close>)
  then show "utf8_opt status" "utf8_opt subject" "utf8_opt evidence" by simp_all
qed

lemma recorded_payload:
  assumes "recorded pd e"
  shows "encodable (thaw_json_value (payload e))" "utf8_ok False (row_bytes pd e)"
proof -
  obtain bs where bs: "serialize_event pd e = Inr bs" and wf: "wf_event e"
    using assms by (auto simp: recorded_def)
  then have d: "dumps (model_json pd e) = Inr bs" "utf8_ok False bs"
    using serialize_event_iff [OF wf] by blast+
  then have "encodable (obj (event_dump (\<lambda>t. VStr (pd_dump_datetime pd t)) e))"
    using encodes_encodable by (auto simp: encodes_def model_json_def simp del: encodable.simps)
  then show "encodable (thaw_json_value (payload e))"
    unfolding encodable_obj by (simp add: event_dump_def)
  show "utf8_ok False (row_bytes pd e)" using bs d(2) by (simp add: row_bytes_def)
qed

lemma bind_opt_str: "bind_value (opt_str x) = Inr () \<longleftrightarrow> utf8_opt x"
  by (cases x) (simp_all add: bind_value_def)

lemma bind_simps: "bind_value (VStr s) = Inr () \<longleftrightarrow> utf8_ok False s"
  "bind_value (VInt i) = Inr () \<longleftrightarrow> - (2 ^ 63) \<le> i \<and> i < 2 ^ 63"
  by (simp_all add: bind_value_def)

lemma wf_opt_utf8: "wf_opt x \<Longrightarrow> utf8_opt x"
  by (cases x) (simp_all add: wf_opt_def wf_str_def)

lemma recorded_bindable:
  assumes "pydantic_laws pd" "recorded pd e" "sequence (ev_causality e) < 2 ^ 63" "n < 2 ^ 63"
  shows "bindable pd n e"
proof -
  have wf: "wf_event e" using assms(2) by (simp add: recorded_def)
  obtain status subject evidence where ev: "evidence_projection_values
      [(KStr ''payload'', thaw_json_value (payload e))] = (status, subject, evidence)"
    by (metis prod_cases3)
  have "encodable (VDict [(KStr ''payload'', thaw_json_value (payload e))])"
    using recorded_payload(1) [OF assms(2)] by (simp add: byte_def)
  note v = evidence_values_utf8 [OF this ev]
  have t: "utf8_ok False (pd_dump_datetime pd (occurred_at e))"
    "utf8_ok False (pd_dump_datetime pd (observed_at e))"
    using pydantic_laws.pd_dump_utf8 [OF assms(1)] wf by (auto simp: wf_event_def)
  have i: "- (2 ^ 63) \<le> sequence (ev_causality e)" "- (2 ^ 63) \<le> int n" "int n < 2 ^ 63"
    using wf assms(4) by (simp_all add: wf_event_def wf_causality_def)
  show ?thesis
    unfolding bindable_def bind_values_iff event_row_def ev
    using wf v t i assms(3) recorded_payload(2) [OF assms(2)]
    by (simp add: bind_opt_str bind_simps wf_event_def wf_str_def wf_correlation_def
        wf_causality_def wf_integrity_def wf_opt_utf8 SPEC_VERSION_def byte_def)
qed

lemma good_sequences:
  "good_records pd i p es \<Longrightarrow> k < length es \<Longrightarrow> sequence (ev_causality (es ! k)) = int (i + k)"
  using good_records_nth by (auto simp: good_record_def)

lemma journal_bindable:
  assumes "pydantic_laws pd" "good_records pd 0 None es" "length es < 2 ^ 63" "k < length es"
  shows "bindable pd (k + 1) (es ! k)"
proof (rule recorded_bindable [OF assms(1)])
  show "recorded pd (es ! k)" using good_recorded [OF assms(1,2)] assms(4) by simp
  have "int k < 2 ^ 63" using assms(3,4) by simp
  then show "sequence (ev_causality (es ! k)) < 2 ^ 63"
    using good_sequences [OF assms(2,4)] by simp
qed (use assms(3,4) in simp)

text \<open>Without repeated event ids, a verified journal can be projected.\<close>

lemma rebuildable_iff:
  assumes laws: "pydantic_laws pd" and v: "verified_snapshot pd file s"
    and p: "utf8_ok False (path_str p)" and n: "length (js_events s) < 2 ^ 63"
  shows "rebuildable pd p s \<longleftrightarrow> distinct (map event_id (js_events s))"
proof -
  have b: "\<forall>i < length (js_events s). bindable pd (i + 1) (js_events s ! i)"
    using journal_bindable [OF laws _ n] v by (simp add: verified_snapshot_def)
  have count: "snapshot_record_count s = length (js_events s)"
    using v by (simp add: verified_snapshot_def)
  obtain source_identity identity where i: "journal_source_identity s = Inr source_identity"
    "projection_identity (VStr source_identity) (VStr (text_or_empty (js_journal_sha256 s)))
       (int (length (js_events s))) (opt_str (snapshot_terminal_hash s)) PROJECTION_SCHEMA_VERSION
     = Inr identity"
    "utf8_ok False source_identity" "utf8_ok False identity"
    "utf8_ok False (text_or_empty (js_journal_sha256 s))"
    using identity_exists [OF v] n unfolding count by metis
  have t: "utf8_ok False (text_or_empty (snapshot_terminal_hash s))"
    using verified_terminal(2) [OF v] by (cases "snapshot_terminal_hash s") (simp_all add: text_or_empty_def)
  have c: "py_int_str (int (length (js_events s))) = Inr (int_repr (int (length (js_events s))))"
    using fits_digits [OF n] by (simp add: py_int_str_def)
  have "texts_ok (rebuild_metadata p s source_identity identity (int_repr (int (length (js_events s)))))"
    using p i(3-5) t ascii_utf8 [OF ascii_int_repr]
    by (simp add: texts_ok_def rebuild_metadata_def byte_def JOURNAL_SOURCE_IDENTITY_VERSION_def)
  then show ?thesis using b i(1,2) c by (auto simp: rebuildable_def)
qed

section \<open>Rebuilding\<close>

definition rebuild_ready :: "rebuild_env \<Rightarrow> bool" where
  "rebuild_ready env \<longleftrightarrow>
     rb_parent env = DirPrivate \<and> rb_open env = Inr () \<and> rb_private env
     \<and> rb_connect env = Inr () \<and> rb_commit env = Inr ()"

definition projection_file :: "db_file \<Rightarrow> bool" where
  "projection_file file \<longleftrightarrow> file = NoFile \<or> (\<exists>db. file = Db db \<and> projection_db db)"

definition start_database :: "db_file \<Rightarrow> database" where
  "start_database file = (case file of Db db \<Rightarrow> db | _ \<Rightarrow> empty_database)"

lemma start_projection: "projection_file file \<Longrightarrow> projection_db (start_database file)"
  by (auto simp: projection_file_def start_database_def projection_db_def)

lemma prepared_file:
  assumes "prepare_projection_path env dbp file = (Inr u, file')" "projection_file file"
  shows "file' \<noteq> NotADatabase" "start_database file' = start_database file"
  using assms by (auto simp: prepare_projection_path_def projection_file_def start_database_def
      split: dir_outcome.splits sum.splits if_split_asm)

lemma rebuild_projection_Inr:
  assumes "rebuild_projection pd env jp dbp file = (Inr r, file')" "projection_file file"
  obtains p s c where "normalize_journal_path (rb_fs env) jp = Inr p"
    "locked_snapshot pd (rb_snapshot env) None None = Inr s" "snapshot_ok s"
    "rebuild_body pd p s (sql_connect (start_database file)) = (Inr (rr_records_indexed r), c)"
    "file' = Db (cn_current c)" "rr_last_event_hash r = snapshot_terminal_hash s"
proof -
  obtain p s f where ps: "normalize_journal_path (rb_fs env) jp = Inr p"
    "locked_snapshot pd (rb_snapshot env) None None = Inr s" "snapshot_ok s"
    and f: "prepare_projection_path env dbp file = (Inr (), f)"
    and c: "(case (case f of NoFile \<Rightarrow> Some empty_database | Db db \<Rightarrow> Some db | NotADatabase \<Rightarrow> None) of
        None \<Rightarrow> (Inl (rebuild_error (Raise SqliteDatabaseError ''file is not a database'')), f)
      | Some db \<Rightarrow>
          (case sql_with (rb_commit env) (rebuild_body pd p s) db of
             (Inl e, db') \<Rightarrow> (Inl (rebuild_error e), Db db')
           | (Inr n, db') \<Rightarrow>
               (Inr \<lparr>rr_journal_path = p, rr_database_path = dbp, rr_records_indexed = n,
                     rr_last_event_hash = snapshot_terminal_hash s,
                     rr_schema_version = PROJECTION_SCHEMA_VERSION\<rparr>, Db db'))) = (Inr r, file')"
    using assms(1) by (auto simp: rebuild_projection_def bnd_Inr_iff split: sum.splits prod.splits if_split_asm)
  have "(case f of NoFile \<Rightarrow> Some empty_database | Db db \<Rightarrow> Some db | NotADatabase \<Rightarrow> None)
      = Some (start_database file)"
    using prepared_file [OF f assms(2)] by (cases f) (auto simp: start_database_def)
  then obtain n db' where w: "sql_with (rb_commit env) (rebuild_body pd p s) (start_database file) = (Inr n, db')"
    and r: "r = \<lparr>rr_journal_path = p, rr_database_path = dbp, rr_records_indexed = n,
        rr_last_event_hash = snapshot_terminal_hash s, rr_schema_version = PROJECTION_SCHEMA_VERSION\<rparr>"
      "file' = Db db'"
    using c by (auto split: sum.splits prod.splits)
  then obtain c' where "rebuild_body pd p s (sql_connect (start_database file)) = (Inr n, c')"
    "cn_current c' = db'"
    using sql_with_Inr [OF w] by blast
  then show ?thesis using that [OF ps] r by simp
qed

lemma rebuild_projection_ready:
  assumes env: "rebuild_ready env" and f: "projection_file file"
    and p: "normalize_journal_path (rb_fs env) jp = Inr p"
    and s: "locked_snapshot pd (rb_snapshot env) None None = Inr s" "snapshot_ok s"
    and b: "rebuild_body pd p s (sql_connect (start_database file)) = (Inr n, c)"
  shows "\<exists>r file'. rebuild_projection pd env jp dbp file = (Inr r, file')"
proof -
  obtain f' where f': "prepare_projection_path env dbp file = (Inr (), f')"
    using env by (cases "rb_posix env") (auto simp: prepare_projection_path_def rebuild_ready_def)
  have d: "(case f' of NoFile \<Rightarrow> Some empty_database | Db db \<Rightarrow> Some db | NotADatabase \<Rightarrow> None)
      = Some (start_database file)"
    using prepared_file [OF f' f] by (cases f') (auto simp: start_database_def)
  have w: "sql_with (rb_commit env) (rebuild_body pd p s) (start_database file) = (Inr n, cn_current c)"
    using b env by (simp add: sql_with_def rebuild_ready_def)
  show ?thesis
    using env p s f' d w by (auto simp: rebuild_projection_def rebuild_ready_def)
qed

lemma cn_current_connect [simp]: "cn_current (sql_connect db) = db"
  by (simp add: sql_connect_def)

lemma rebuild_rebuilt:
  assumes "pydantic_laws pd" "rebuild_projection pd env jp dbp file = (Inr r, file')" "projection_file file"
  obtains p s db where "normalize_journal_path (rb_fs env) jp = Inr p"
    "locked_snapshot pd (rb_snapshot env) None None = Inr s" "snapshot_ok s"
    "verified_snapshot pd (sn_file (rb_snapshot env)) s" "file' = Db db" "rebuilt pd p s db"
    "rr_records_indexed r = length (js_events s)" "rr_last_event_hash r = snapshot_terminal_hash s"
proof -
  obtain p s c where x: "normalize_journal_path (rb_fs env) jp = Inr p"
    "locked_snapshot pd (rb_snapshot env) None None = Inr s" "snapshot_ok s"
    "rebuild_body pd p s (sql_connect (start_database file)) = (Inr (rr_records_indexed r), c)"
    "file' = Db (cn_current c)" "rr_last_event_hash r = snapshot_terminal_hash s"
    by (rule rebuild_projection_Inr [OF assms(2,3)])
  have v: "verified_snapshot pd (sn_file (rb_snapshot env)) s"
    using locked_snapshot_verified [OF assms(1) x(2,3)] .
  have body: "rebuilt pd p s (cn_current c)" "rr_records_indexed r = length (js_events s)"
    using rebuild_body_iff [OF _ _ _, of "sql_connect (start_database file)" s pd p "rr_records_indexed r"]
      start_projection [OF assms(3)] v x(4) by (auto simp: verified_snapshot_def)
  show ?thesis by (rule that [OF x(1-3) v x(5) body x(6)])
qed

section \<open>Paths as text\<close>

lemma split_join:
  "ps \<noteq> [] \<Longrightarrow> \<forall>p\<in>set ps. d \<notin> set p \<Longrightarrow> split_on d (join_with [d] ps) = ps"
proof (induction ps rule: induct_list012)
  case (2 p)
  then show ?case by (simp add: split_on_none)
next
  case (3 p q ps)
  have "split_on d (a @ d # r) = a # split_on d r" if "d \<notin> set a" for a r
    using that by (induction a) auto
  then show ?case using 3 by simp
qed simp

definition plain_path :: "path \<Rightarrow> bool" where
  "plain_path p \<longleftrightarrow> (pt_root p = [slash] \<or> pt_root p = [slash, slash]) \<and> list_all is_name (pt_parts p)"

lemma plain_path_text:
  assumes "plain_path p"
  shows "Path (path_str p) = p"
proof -
  have names: "\<forall>q\<in>set (pt_parts p). q \<noteq> [] \<and> q \<noteq> ''.'' \<and> slash \<notin> set q"
    using assms by (auto simp: plain_path_def list_all_iff is_name_def)
  let ?t = "join_with [slash] (pt_parts p)"
  have split: "filter (\<lambda>q. q \<noteq> [] \<and> q \<noteq> ''.'') (split_on slash ?t) = pt_parts p"
  proof (cases "pt_parts p = []")
    case False
    then have "split_on slash ?t = pt_parts p" using names by (intro split_join) auto
    then show ?thesis using names by (simp add: filter_id_conv)
  qed simp
  have hd: "?t = [] \<or> (\<exists>c r. ?t = c # r \<and> c \<noteq> slash)"
    using names by (cases "pt_parts p" rule: remdups_adj.cases) (auto simp: neq_Nil_conv)
  have root: "path_root (pt_root p @ ?t) = pt_root p"
    using assms hd by (cases ?t rule: remdups_adj.cases) (auto simp: plain_path_def)
  have "filter (\<lambda>q. q \<noteq> [] \<and> q \<noteq> ''.'') (split_on slash (pt_root p @ ?t)) = pt_parts p"
    using assms split by (auto simp: plain_path_def)
  then show ?thesis
    using assms root by (auto simp: Path_def path_str_def plain_path_def)
qed

section \<open>Reading the journal again\<close>

definition quiet_snapshot :: "snapshot_env \<Rightarrow> bool" where
  "quiet_snapshot env \<longleftrightarrow> sn_access env = Inr () \<and> fst (sn_stat env) = snd (sn_stat env)"

lemma good_snapshot:
  assumes "pydantic_laws pd" "quiet_snapshot env" "file_bytes (sn_file env) = journal_bytes pd es"
    and "good_records pd 0 None es"
  obtains s where "locked_snapshot pd env None None = Inr s" "snapshot_ok s" "js_events s = es"
    "verified_snapshot pd (sn_file env) s"
proof -
  have "\<exists>s. verified_journal_snapshot pd (sn_stat env) None None (sn_file env) = Inr s
      \<and> js_events s = es \<and> snapshot_ok s"
  proof (cases "sn_file env")
    case None
    then have "es = []" using assms(3) by (cases es) (auto simp: file_bytes_def journal_bytes_def record_line_def)
    then show ?thesis using None
      by (simp add: verified_journal_snapshot_def scan_start_def metadata_issues_def
          expectation_issues_def Let_def snapshot_ok_def)
  next
    case (Some content)
    then show ?thesis
      using pydantic_laws.snapshot_of_good_records [OF assms(1,4)] assms(2,3)
      by (simp add: file_bytes_def quiet_snapshot_def snapshot_ok_def)
  qed
  then obtain s where s: "locked_snapshot pd env None None = Inr s" "js_events s = es" "snapshot_ok s"
    using assms(2) by (auto simp: locked_snapshot_def quiet_snapshot_def)
  then show ?thesis using that locked_snapshot_verified [OF assms(1)] by blast
qed

lemma same_journal_snapshot:
  assumes "pydantic_laws pd" "verified_snapshot pd file s" "quiet_snapshot env" "sn_file env = file"
  obtains t where "locked_snapshot pd env None None = Inr t" "snapshot_ok t"
    "verified_snapshot pd file t" "js_events t = js_events s"
  using good_snapshot [OF assms(1,3), of "js_events s"] assms(2,4)
  by (auto simp: verified_snapshot_def)

lemma expected_snapshot:
  assumes "locked_snapshot pd env None None = Inr s" "snapshot_ok s"
  shows "locked_snapshot pd env (Some (int (snapshot_record_count s))) (snapshot_terminal_hash s) = Inr s"
  using assms
  by (auto simp: locked_snapshot_def verified_journal_snapshot_def bnd_Inr_iff Let_def
      expectation_issues_def snapshot_ok_def snapshot_record_count_def snapshot_terminal_hash_def
      split: option.splits)

lemma verified_same_identity:
  assumes "verified_snapshot pd file s" "verified_snapshot pd file t" "js_events t = js_events s"
  shows "snapshot_record_count t = snapshot_record_count s"
    "snapshot_terminal_hash t = snapshot_terminal_hash s"
    "js_journal_sha256 t = js_journal_sha256 s"
    "journal_source_identity t = journal_source_identity s"
proof -
  show eq: "snapshot_record_count t = snapshot_record_count s"
    "snapshot_terminal_hash t = snapshot_terminal_hash s" "js_journal_sha256 t = js_journal_sha256 s"
    using assms by (simp_all add: verified_snapshot_def)
  then show "journal_source_identity t = journal_source_identity s"
    using assms(1,2) by (simp add: journal_source_identity_def source_identity_preimage_def verified_snapshot_def)
qed

lemma rebuilt_same:
  assumes "rebuilt pd p s db" "verified_snapshot pd file s" "verified_snapshot pd file t"
    and "js_events t = js_events s"
  shows "rebuilt pd p t db"
  using assms(1) verified_same_identity [OF assms(2-4)] assms(4)
  by (simp add: rebuilt_def rebuild_metadata_def)

text \<open>The reader's environment after a rebuild, when nothing touched the journal or the database.\<close>

definition reads_after :: "rebuild_env \<Rightarrow> db_file \<Rightarrow> reader_env \<Rightarrow> bool" where
  "reads_after renv file env \<longleftrightarrow>
     rd_file env = file \<and> rd_fs env = rb_fs renv \<and> rd_open env = Inr ()
     \<and> quiet_snapshot (rd_before env) \<and> sn_file (rd_before env) = sn_file (rb_snapshot renv)
     \<and> quiet_snapshot (rd_after env) \<and> sn_file (rd_after env) = sn_file (rb_snapshot renv)"

lemma plain_path_text_ne: "plain_path p \<Longrightarrow> path_str p \<noteq> []"
  by (auto simp: path_str_def plain_path_def)

lemma rebuild_verifies:
  assumes "pydantic_laws pd" "rebuild_projection pd renv jp dbp file = (Inr r, file')"
    and "projection_file file" "normalize_journal_path (rb_fs renv) jp = Inr p" "plain_path p"
    and "reads_after renv file' env" "resolve_path (rb_fs renv) dbp = Inr q"
  shows "\<exists>v. verify_projection_state pd env dbp jp = Inr v \<and> vp_state v = PS_HEALTHY
    \<and> vp_records_indexed v = int (rr_records_indexed r)
    \<and> vp_last_event_hash v = opt_str (rr_last_event_hash r)"
proof -
  obtain s db where s: "verified_snapshot pd (sn_file (rb_snapshot renv)) s"
    and f: "file' = Db db" and reb: "rebuilt pd p s db"
    and r: "rr_records_indexed r = length (js_events s)" "rr_last_event_hash r = snapshot_terminal_hash s"
    using rebuild_rebuilt [OF assms(1-3)] assms(4) by (metis Inr_inject)
  note env = assms(6) [unfolded reads_after_def f]
  obtain t where t: "locked_snapshot pd (rd_before env) None None = Inr t" "snapshot_ok t"
    "verified_snapshot pd (sn_file (rb_snapshot renv)) t" "js_events t = js_events s"
    using same_journal_snapshot [OF assms(1) s, of "rd_before env"] env by blast
  obtain u where u: "locked_snapshot pd (rd_after env) None None = Inr u" "snapshot_ok u"
    "verified_snapshot pd (sn_file (rb_snapshot renv)) u" "js_events u = js_events s"
    using same_journal_snapshot [OF assms(1) s, of "rd_after env"] env by blast
  have again: "normalize_journal_path (rb_fs renv) (Path (path_str p)) = Inr p"
    using links.resolved_again [of "rb_fs renv" jp p] assms(4) plain_path_text [OF assms(5)]
    by (simp add: normalize_journal_path_def)
  obtain v where v: "verify_projection_state_on_connection pd (rb_fs renv) (rd_before env) dbp p db = Inr v"
    "snapshot_proof dbp p (path_str p) t v"
  proof (rule rebuilt_verifies [OF rebuilt_same [OF reb s t(3,4)] _ t(1,2) _ _ _ again])
    show "\<forall>e\<in>set (js_events t). recorded pd e" "snapshot_record_count t = length (js_events t)"
      using t(3) by (simp_all add: verified_snapshot_def)
    show "snapshot_terminal_hash t = Some h \<Longrightarrow> h \<noteq> []" for h
      using verified_terminal(1) [OF t(3)] .
    show "path_str p \<noteq> []" using plain_path_text_ne [OF assms(5)] .
  qed
  have same: "snapshot_record_count t = snapshot_record_count u" "snapshot_terminal_hash t = snapshot_terminal_hash u"
    using verified_same_identity [OF u(3) t(3)] t(4) u(4) by simp_all
  have "recheck_terminal_journal_state pd (rd_after env) v = Inr ()"
    using expected_snapshot [OF u(1,2)] u(2) v(2) same
    by (simp add: recheck_terminal_journal_state_def vp_record_count_def vp_terminal_hash_def snapshot_proof_def)
  then have "verify_projection_state pd env dbp jp = Inr v"
    using env assms(4,7) v(1)
    by (simp add: verify_projection_state_def verified_projection_reader_def open_database_def)
  moreover have "snapshot_record_count t = length (js_events s)"
    "snapshot_terminal_hash t = snapshot_terminal_hash s"
    using verified_same_identity [OF s t(3,4)] s by (simp_all add: verified_snapshot_def)
  ultimately show ?thesis using v(2) r by (simp add: snapshot_proof_def)
qed

lemma preimage_count_inj:
  assumes "deterministic_json_bytes (source_identity_preimage s) = Inr bs"
    and "deterministic_json_bytes (source_identity_preimage t) = Inr bs"
  shows "snapshot_record_count s = snapshot_record_count t"
proof -
  have c: "canon (source_identity_preimage s) = canon (source_identity_preimage t)"
    using assms loads_dumps [OF _ is_json_preimage, of s bs True] loads_dumps [OF _ is_json_preimage, of t bs True]
    by (auto simp: deterministic_json_bytes_def bnd_Inr_iff)
  have count: "\<exists>d. canon (source_identity_preimage u) = VDict d
      \<and> get_item d ''record_count'' = Some (VInt (int (snapshot_record_count u)))" for u
    unfolding source_identity_preimage_def
    by (rule canon_obj_same [of "[(''journal_sha256'', opt_str (js_journal_sha256 u)),
      (''record_count'', VInt (int (snapshot_record_count u))),
      (''terminal_hash'', opt_str (snapshot_terminal_hash u)),
      (''version'', VStr JOURNAL_SOURCE_IDENTITY_VERSION)]"]) (auto simp: same_dict_def)
  from count [of s] count [of t] c show ?thesis by auto
qed

lemma grown_identity:
  assumes "journal_source_identity s = journal_source_identity t" "journal_source_identity s = Inr i"
    and "snapshot_record_count s \<noteq> snapshot_record_count t"
  shows "collision sha256_hex {bs. deterministic_json_bytes (source_identity_preimage s) = Inr bs}
    {bs. deterministic_json_bytes (source_identity_preimage t) = Inr bs}"
proof -
  have "journal_source_identity t = Inr i" using assms(1,2) by metis
  then obtain cs where cs: "deterministic_json_bytes (source_identity_preimage t) = Inr cs"
    "i = JOURNAL_SOURCE_IDENTITY_VERSION @ '':sha256:'' @ sha256_hex cs"
    by (auto simp: journal_source_identity_def bnd_Inr_iff split: if_splits)
  obtain bs where bs: "deterministic_json_bytes (source_identity_preimage s) = Inr bs"
    "i = JOURNAL_SOURCE_IDENTITY_VERSION @ '':sha256:'' @ sha256_hex bs"
    using assms(2) by (auto simp: journal_source_identity_def bnd_Inr_iff split: if_splits)
  have "sha256_hex bs = sha256_hex cs" using bs(2) cs(2) by simp
  moreover have "bs \<noteq> cs"
    using preimage_count_inj [OF bs(1)] cs(1) assms(3) by metis
  ultimately show ?thesis
    unfolding collision_def using bs(1) cs(1) by (intro bexI [of _ bs] bexI [of _ cs] conjI) simp_all
qed

section \<open>Instances\<close>

text \<open>A journal of one record, and the paths and environments of its projection.\<close>

lemma sample_record: "\<exists>e. good_records strict_pydantic 0 None [e]"
proof -
  obtain r f where a: "append_event strict_pydantic Inr sample_env None sample_event = (Inr r, f)"
    using sample_append by blast
  obtain old where "file_bytes None = journal_bytes strict_pydantic old"
    "good_records strict_pydantic 0 None (old @ [event_canon r])"
    using identity_boundary.append_event_good [OF wf_sample_event a] by blast
  moreover have "old = []"
    using calculation(1) by (cases old) (auto simp: file_bytes_def journal_bytes_def record_line_def)
  ultimately show ?thesis by auto
qed

definition sample_fs :: filesystem where
  "sample_fs = \<lparr>fs_links = [], fs_cwd = []\<rparr>"

definition sample_journal_path :: path where
  "sample_journal_path = \<lparr>pt_root = ''/'', pt_parts = [''j'']\<rparr>"

definition sample_database_path :: path where
  "sample_database_path = \<lparr>pt_root = ''/'', pt_parts = [''d'']\<rparr>"

definition sample_snapshot_env :: "event list \<Rightarrow> snapshot_env" where
  "sample_snapshot_env es =
     \<lparr>sn_access = Inr (), sn_stat = sample_stat, sn_file = Some (journal_bytes strict_pydantic es)\<rparr>"

definition sample_rebuild_env :: "event list \<Rightarrow> rebuild_env" where
  "sample_rebuild_env es =
     \<lparr>rb_posix = True, rb_fs = sample_fs, rb_snapshot = sample_snapshot_env es, rb_parent = DirPrivate,
      rb_open = Inr (), rb_private = True, rb_connect = Inr (), rb_commit = Inr ()\<rparr>"

definition sample_reader_env :: "event list \<Rightarrow> db_file \<Rightarrow> reader_env" where
  "sample_reader_env es file =
     \<lparr>rd_alnum = (\<lambda>n. False), rd_fs = sample_fs, rd_file = file, rd_open = Inr (),
      rd_before = sample_snapshot_env es, rd_after = sample_snapshot_env es\<rparr>"

lemma sample_paths:
  "normalize_journal_path sample_fs sample_journal_path = Inr sample_journal_path"
  "resolve_path sample_fs sample_database_path = Inr sample_database_path"
  "plain_path sample_journal_path" "utf8_ok False (path_str sample_journal_path)"
proof -
  show "normalize_journal_path sample_fs sample_journal_path = Inr sample_journal_path"
    unfolding normalize_journal_path_def
    by (rule resolve_no_links) (simp_all add: sample_fs_def sample_journal_path_def is_absolute_def)
  show "resolve_path sample_fs sample_database_path = Inr sample_database_path"
    by (rule resolve_no_links) (simp_all add: sample_fs_def sample_database_path_def is_absolute_def)
  show "plain_path sample_journal_path" "utf8_ok False (path_str sample_journal_path)"
    by code_simp+
qed

lemma sample_envs [simp]:
  "rebuild_ready (sample_rebuild_env es)" "projection_file NoFile"
  "rb_fs (sample_rebuild_env es) = sample_fs" "rb_snapshot (sample_rebuild_env es) = sample_snapshot_env es"
  "quiet_snapshot (sample_snapshot_env es)"
  "sn_file (sample_snapshot_env es) = Some (journal_bytes strict_pydantic es)"
  "rd_fs (sample_reader_env es file) = sample_fs" "rd_file (sample_reader_env es file) = file"
  "rd_open (sample_reader_env es file) = Inr ()"
  "rd_before (sample_reader_env es file) = sample_snapshot_env es"
  "rd_after (sample_reader_env es file) = sample_snapshot_env es"
  by (simp_all add: sample_rebuild_env_def sample_snapshot_env_def sample_reader_env_def
      rebuild_ready_def projection_file_def quiet_snapshot_def)

lemma sample_reads_after: "reads_after (sample_rebuild_env es) file (sample_reader_env es file)"
  by (simp add: reads_after_def)

lemma sample_snapshot:
  assumes "good_records strict_pydantic 0 None es"
  obtains s where "locked_snapshot strict_pydantic (sample_snapshot_env es) None None = Inr s"
    "snapshot_ok s" "js_events s = es"
    "verified_snapshot strict_pydantic (Some (journal_bytes strict_pydantic es)) s"
  using good_snapshot [OF strict.pydantic_laws_axioms, of "sample_snapshot_env es" es] assms
  by (auto simp: file_bytes_def)

lemma sample_rebuild:
  assumes "good_records strict_pydantic 0 None es" "distinct (map event_id es)" "length es < 2 ^ 63"
  shows "\<exists>r file. rebuild_projection strict_pydantic (sample_rebuild_env es) sample_journal_path
    sample_database_path NoFile = (Inr r, file)"
proof -
  obtain s where s: "locked_snapshot strict_pydantic (sample_snapshot_env es) None None = Inr s"
    "snapshot_ok s" "js_events s = es"
    "verified_snapshot strict_pydantic (Some (journal_bytes strict_pydantic es)) s"
    by (rule sample_snapshot [OF assms(1)])
  have "rebuildable strict_pydantic sample_journal_path s"
    using rebuildable_iff [OF strict.pydantic_laws_axioms s(4) sample_paths(4)] assms(2,3) s(3) by simp
  then have "\<exists>n c. rebuild_body strict_pydantic sample_journal_path s (sql_connect (start_database NoFile))
      = (Inr n, c)"
    using rebuild_body_iff(1) [of "sql_connect (start_database NoFile)" s strict_pydantic sample_journal_path]
      start_projection [of NoFile] s(4) by (auto simp: verified_snapshot_def)
  then show ?thesis
    using rebuild_projection_ready [of "sample_rebuild_env es" NoFile sample_journal_path
        sample_journal_path strict_pydantic s] sample_paths(1) s(1,2) by auto
qed

lemma sample_verifies:
  assumes "rebuild_projection strict_pydantic (sample_rebuild_env es) sample_journal_path
      sample_database_path NoFile = (Inr r, file)"
  shows "\<exists>v. verify_projection_state strict_pydantic (sample_reader_env es file) sample_database_path
      sample_journal_path = Inr v \<and> vp_state v = PS_HEALTHY"
  using rebuild_verifies [OF strict.pydantic_laws_axioms assms _ _ _ sample_reads_after,
      of sample_journal_path sample_database_path] sample_paths by auto

end
