(* ===== verification/ProjectionClaims.thy ===== *)
theory ProjectionClaims
  imports ProjectionFacts
begin

text \<open>
  The properties of the projection: when a rebuild succeeds, that what it leaves verifies, that a
  grown journal is noticed, and what a reader of a verified projection sees.
\<close>

text \<open>C33. A rebuild of the projection from a verified journal succeeds exactly when no two records
  of the journal have the same event id: a journal that repeats an id verifies, and can never be
  projected.\<close>
theorem rebuild_succeeds_iff:
  assumes "pydantic_laws pd" "rebuild_ready env" "projection_file file"
    and "normalize_journal_path (rb_fs env) jp = Inr p" "utf8_ok False (path_str p)"
    and "locked_snapshot pd (rb_snapshot env) None None = Inr s" "snapshot_ok s"
    and "length (js_events s) < 2 ^ 63"
  shows "(\<exists>r file'. rebuild_projection pd env jp dbp file = (Inr r, file'))
    \<longleftrightarrow> distinct (map event_id (js_events s))"
proof -
  have v: "verified_snapshot pd (sn_file (rb_snapshot env)) s"
    using locked_snapshot_verified [OF assms(1,6,7)] .
  let ?c = "sql_connect (start_database file)"
  have iff: "(\<exists>c'. rebuild_body pd p s ?c = (Inr n, c')) \<longleftrightarrow> rebuildable pd p s \<and> n = length (js_events s)" for n
    using v start_projection [OF assms(3)] by (intro rebuild_body_iff(1)) (simp_all add: verified_snapshot_def)
  have "(\<exists>r file'. rebuild_projection pd env jp dbp file = (Inr r, file'))
      \<longleftrightarrow> (\<exists>n c'. rebuild_body pd p s ?c = (Inr n, c'))"
  proof
    assume "\<exists>r file'. rebuild_projection pd env jp dbp file = (Inr r, file')"
    then show "\<exists>n c'. rebuild_body pd p s ?c = (Inr n, c')"
      using assms(4,6) by (auto elim!: rebuild_projection_Inr [OF _ assms(3)])
  next
    assume "\<exists>n c'. rebuild_body pd p s ?c = (Inr n, c')"
    then show "\<exists>r file'. rebuild_projection pd env jp dbp file = (Inr r, file')"
      using rebuild_projection_ready [OF assms(2,3,4,6,7)] by blast
  qed
  also have "\<dots> \<longleftrightarrow> rebuildable pd p s" using iff by blast
  also have "\<dots> \<longleftrightarrow> distinct (map event_id (js_events s))"
    using rebuildable_iff [OF assms(1) v assms(5,8)] .
  finally show ?thesis .
qed

theorem rebuild_succeeds_iff_witness:
  "\<exists>e r file. rebuild_projection strict_pydantic (sample_rebuild_env [e]) sample_journal_path
    sample_database_path NoFile = (Inr r, file)"
proof -
  obtain e where e: "good_records strict_pydantic 0 None [e]" using sample_record by blast
  obtain s where s: "locked_snapshot strict_pydantic (sample_snapshot_env [e]) None None = Inr s"
    "snapshot_ok s" "js_events s = [e]"
    by (rule sample_snapshot [OF e])
  have "(\<exists>r file. rebuild_projection strict_pydantic (sample_rebuild_env [e]) sample_journal_path
      sample_database_path NoFile = (Inr r, file)) \<longleftrightarrow> distinct (map event_id (js_events s))"
    by (rule rebuild_succeeds_iff [OF strict.pydantic_laws_axioms _ _ _ sample_paths(4)])
      (use s sample_paths(1) in simp_all)
  then show ?thesis using s(3) by auto
qed

text \<open>C34. What a rebuild leaves verifies: after a successful rebuild, and as long as the journal and
  the database are not touched, the projection is healthy and its proof names the number of records
  and the terminal hash the rebuild returned.\<close>
theorem rebuild_then_verify:
  assumes "pydantic_laws pd" "rebuild_projection pd renv jp dbp file = (Inr r, file')"
    and "projection_file file" "normalize_journal_path (rb_fs renv) jp = Inr p" "plain_path p"
    and "reads_after renv file' env" "resolve_path (rb_fs renv) dbp = Inr q"
  shows "\<exists>v. verify_projection_state pd env dbp jp = Inr v \<and> vp_state v = PS_HEALTHY
    \<and> vp_records_indexed v = int (rr_records_indexed r)
    \<and> vp_last_event_hash v = opt_str (rr_last_event_hash r)"
  by (rule rebuild_verifies [OF assms])

theorem rebuild_then_verify_witness:
  "\<exists>e r file v. rebuild_projection strict_pydantic (sample_rebuild_env [e]) sample_journal_path
      sample_database_path NoFile = (Inr r, file)
    \<and> verify_projection_state strict_pydantic (sample_reader_env [e] file) sample_database_path
        sample_journal_path = Inr v
    \<and> vp_state v = PS_HEALTHY"
proof -
  obtain e where e: "good_records strict_pydantic 0 None [e]" using sample_record by blast
  obtain r f where r: "rebuild_projection strict_pydantic (sample_rebuild_env [e])
      sample_journal_path sample_database_path NoFile = (Inr r, f)"
    using sample_rebuild [OF e] by auto
  show ?thesis
    using rebuild_then_verify [OF strict.pydantic_laws_axioms r _ _ _ sample_reads_after,
        of sample_journal_path sample_database_path] r sample_paths by auto
qed

text \<open>C35. A projection is recognized as stale when its journal has grown: after a rebuild, and once
  the journal verifies with more records behind those that were projected, verifying the projection
  raises the \<open>projection_stale\<close> state error, unless SHA-256 collides on the two identity preimages.\<close>
theorem grown_journal_is_stale:
  assumes "pydantic_laws pd" "rebuild_projection pd renv jp dbp file = (Inr r, file')"
    and "projection_file file" "normalize_journal_path (rb_fs renv) jp = Inr p" "plain_path p"
    and "locked_snapshot pd (rb_snapshot renv) None None = Inr s"
    and "rd_file env = file'" "rd_fs env = rb_fs renv" "rd_open env = Inr ()"
    and "resolve_path (rb_fs renv) dbp = Inr q" "quiet_snapshot (rd_before env)"
    and "file_bytes (sn_file (rd_before env)) = journal_bytes pd (js_events s @ fs)" "fs \<noteq> []"
    and "good_records pd 0 None (js_events s @ fs)" "length (js_events s @ fs) < 2 ^ 63"
    and "locked_snapshot pd (rd_before env) None None = Inr t"
  shows "(\<exists>message details. verify_projection_state pd env dbp jp
      = Inl (StateError PS_PROJECTION_STALE message details))
    \<or> collision sha256_hex {bs. deterministic_json_bytes (source_identity_preimage s) = Inr bs}
        {bs. deterministic_json_bytes (source_identity_preimage t) = Inr bs}"
proof -
  obtain db where s: "verified_snapshot pd (sn_file (rb_snapshot renv)) s"
    and f: "file' = Db db" and reb: "rebuilt pd p s db"
    using rebuild_rebuilt [OF assms(1-3)] assms(4,6) by (metis Inr_inject)
  have t: "snapshot_ok t" "js_events t = js_events s @ fs" "verified_snapshot pd (sn_file (rd_before env)) t"
    using good_snapshot [OF assms(1,11,12,14)] assms(16) by (metis Inr_inject)+
  then have n: "snapshot_record_count t = length (js_events t)" by (simp add: verified_snapshot_def)
  obtain other where other: "journal_source_identity t = Inr other"
    using identity_exists [OF t(3)] n t(2) assms(15) by (metis (no_types))
  have again: "normalize_journal_path (rb_fs renv) (Path (path_str p)) = Inr p"
    using links.resolved_again [of "rb_fs renv" jp p] assms(4) plain_path_text [OF assms(5)]
    by (simp add: normalize_journal_path_def)
  show ?thesis
  proof (cases "journal_source_identity s = Inr other")
    case True
    have "snapshot_record_count s \<noteq> snapshot_record_count t"
      using s n t(2) assms(13) by (simp add: verified_snapshot_def)
    then show ?thesis using grown_identity [of s t other] True other by simp
  next
    case False
    have "\<exists>message details. verify_projection_state_on_connection pd (rb_fs renv) (rd_before env) dbp p db
        = Inl (StateError PS_PROJECTION_STALE message details)"
    proof (rule rebuilt_stale [OF reb _ _ _ _ assms(16) t(1,2) n other _ _ again])
      show "\<forall>e\<in>set (js_events s). recorded pd e" "snapshot_record_count s = length (js_events s)"
        using s by (simp_all add: verified_snapshot_def)
      show "snapshot_terminal_hash s = Some h \<Longrightarrow> h \<noteq> []" for h
        using verified_terminal(1) [OF s] .
      show "snapshot_terminal_hash s
          = (if js_events s = [] then None else event_hash (ev_integrity (last (js_events s))))"
        using s by (simp add: verified_snapshot_def terminal_last)
      show "journal_source_identity s \<noteq> Inr other" using False .
      show "path_str p \<noteq> []" using plain_path_text_ne [OF assms(5)] .
    qed
    then show ?thesis
      using assms(4,7-10) f
      by (auto simp: verify_projection_state_def verified_projection_reader_def open_database_def
          reader_error_def)
  qed
qed

theorem grown_journal_is_stale_witness:
  "\<exists>e r file s t. rebuild_projection strict_pydantic (sample_rebuild_env []) sample_journal_path
      sample_database_path NoFile = (Inr r, file)
    \<and> locked_snapshot strict_pydantic (sample_snapshot_env []) None None = Inr s
    \<and> locked_snapshot strict_pydantic (sample_snapshot_env [e]) None None = Inr t
    \<and> ((\<exists>message details. verify_projection_state strict_pydantic (sample_reader_env [e] file)
           sample_database_path sample_journal_path
         = Inl (StateError PS_PROJECTION_STALE message details))
       \<or> collision sha256_hex {bs. deterministic_json_bytes (source_identity_preimage s) = Inr bs}
           {bs. deterministic_json_bytes (source_identity_preimage t) = Inr bs})"
proof -
  obtain e where e: "good_records strict_pydantic 0 None [e]" using sample_record by blast
  obtain s where s: "locked_snapshot strict_pydantic (sample_snapshot_env []) None None = Inr s"
    "js_events s = []"
    by (rule sample_snapshot [of "[]"]) simp_all
  obtain t where t: "locked_snapshot strict_pydantic (sample_snapshot_env [e]) None None = Inr t"
    by (rule sample_snapshot [OF e])
  obtain r f where r: "rebuild_projection strict_pydantic (sample_rebuild_env [])
      sample_journal_path sample_database_path NoFile = (Inr r, f)"
    using sample_rebuild [of "[]"] by auto
  have "(\<exists>message details. verify_projection_state strict_pydantic (sample_reader_env [e] f)
           sample_database_path sample_journal_path
         = Inl (StateError PS_PROJECTION_STALE message details))
       \<or> collision sha256_hex {bs. deterministic_json_bytes (source_identity_preimage s) = Inr bs}
           {bs. deterministic_json_bytes (source_identity_preimage t) = Inr bs}"
    by (rule grown_journal_is_stale [OF strict.pydantic_laws_axioms r, of sample_journal_path s _ _ "[e]"])
      (use s t e sample_paths in \<open>simp_all add: file_bytes_def\<close>)
  then show ?thesis using r s(1) t by blast
qed

text \<open>C36. What a reader of the projection sees is the journal: when any read of the projection
  returns, the database held, in the order of the records, exactly one row for each event of a journal
  that verified before the read, and the journal still verified after it with the same number of
  records and the same terminal hash.\<close>
theorem reader_sees_journal:
  assumes "pydantic_laws pd" "verified_projection_reader pd env dbp jp body = Inr x"
  shows "\<exists>db v es fs. rd_file env = Db db \<and> body db v = Inr x
    \<and> file_bytes (sn_file (rd_before env)) = journal_bytes pd es \<and> good_records pd 0 None es
    \<and> (\<exists>rows. projected_rows db = Inr rows \<and> rows_of pd es rows)
    \<and> file_bytes (sn_file (rd_after env)) = journal_bytes pd fs \<and> good_records pd 0 None fs
    \<and> length fs = length es \<and> terminal None fs = terminal None es"
proof -
  obtain db v normalized where r: "rd_file env = Db db" "body db v = Inr x"
    "verify_projection_state_on_connection pd (rd_fs env) (rd_before env) dbp normalized db = Inr v"
    "recheck_terminal_journal_state pd (rd_after env) v = Inr ()"
    using reader_Inr [OF assms(2)] by metis
  let ?s = "vp_journal_snapshot v"
  obtain u where s: "locked_snapshot pd (rd_before env) None None = Inr ?s" "snapshot_ok ?s"
    "verify_projected_rows pd db ?s = Inr u"
    using verification_Inr [OF r(3)] by blast
  have vs: "verified_snapshot pd (sn_file (rd_before env)) ?s"
    using locked_snapshot_verified [OF assms(1) s(1,2)] .
  then obtain rows where rows: "projected_rows db = Inr rows" "rows_of pd (js_events ?s) rows"
    using verified_rows [OF s(3)] by (auto simp: verified_snapshot_def)
  obtain t where t: "locked_snapshot pd (rd_after env) (Some (int (snapshot_record_count ?s)))
      (snapshot_terminal_hash ?s) = Inr t" "snapshot_ok t"
    using r(4) by (auto simp: recheck_terminal_journal_state_def bnd_Inr_iff vp_record_count_def
        vp_terminal_hash_def Let_def split: if_split_asm)
  have vt: "verified_snapshot pd (sn_file (rd_after env)) t"
    using locked_snapshot_verified [OF assms(1) t] .
  have "snapshot_record_count t = snapshot_record_count ?s"
    "snapshot_terminal_hash ?s \<noteq> None \<Longrightarrow> snapshot_terminal_hash t = snapshot_terminal_hash ?s"
    using t by (auto simp: locked_snapshot_def verified_journal_snapshot_def bnd_Inr_iff Let_def
        expectation_issues_def snapshot_ok_def snapshot_record_count_def snapshot_terminal_hash_def
        split: option.splits if_split_asm)
  then have len: "length (js_events t) = length (js_events ?s)"
    and tmh: "terminal None (js_events ?s) \<noteq> None \<Longrightarrow> terminal None (js_events t) = terminal None (js_events ?s)"
    using vs vt by (simp_all add: verified_snapshot_def)
  have "terminal None (js_events t) = terminal None (js_events ?s)"
  proof (cases "js_events ?s = []")
    case True
    then show ?thesis using len by simp
  next
    case False
    then have "recorded pd (last (js_events ?s))" using vs by (simp add: verified_snapshot_def)
    then show ?thesis using False tmh by (auto simp: terminal_last recorded_def)
  qed
  then show ?thesis
    using r(1,2) rows len vs vt unfolding verified_snapshot_def by blast
qed

theorem reader_sees_journal_witness:
  "\<exists>e r db. rebuild_projection strict_pydantic (sample_rebuild_env [e]) sample_journal_path
      sample_database_path NoFile = (Inr r, Db db)
    \<and> (\<exists>es rows. journal_bytes strict_pydantic [e] = journal_bytes strict_pydantic es
         \<and> projected_rows db = Inr rows \<and> rows_of strict_pydantic es rows)"
proof -
  obtain e where e: "good_records strict_pydantic 0 None [e]" using sample_record by blast
  obtain r f where r: "rebuild_projection strict_pydantic (sample_rebuild_env [e])
      sample_journal_path sample_database_path NoFile = (Inr r, f)"
    using sample_rebuild [OF e] by auto
  obtain p s db where g: "f = Db db"
    "locked_snapshot strict_pydantic (sample_snapshot_env [e]) None None = Inr s" "snapshot_ok s"
    by (rule rebuild_rebuilt [OF strict.pydantic_laws_axioms r]) simp_all
  obtain v where v: "verified_projection_reader strict_pydantic (sample_reader_env [e] f)
      sample_database_path sample_journal_path (\<lambda>db v. Inr v) = Inr v"
    using sample_verifies [OF r] by (auto simp: verify_projection_state_def)
  from reader_sees_journal [OF strict.pydantic_laws_axioms v] obtain es rows
    where "journal_bytes strict_pydantic [e] = journal_bytes strict_pydantic es"
      "projected_rows db = Inr rows" "rows_of strict_pydantic es rows"
    unfolding sample_envs g(1) by (auto simp: file_bytes_def)
  then show ?thesis using r unfolding g(1) by blast
qed

end

