(* ===== verification/ProjectionQueries.thy ===== *)
theory ProjectionQueries
  imports ProjectionState
begin

text \<open>
  Reading the projection (\<open>projection/sqlite.py\<close>): timelines and their filters, the incident export
  and its summary, the explanation of an event. Values that the code casts without a check are kept
  as Python values.
\<close>

section \<open>Timelines\<close>

definition TIMELINE_ORDER_DESCRIPTION :: string where
  "TIMELINE_ORDER_DESCRIPTION = ''occurred_at, causality.sequence, journal_record_number, event_id''"

definition INCIDENT_EXPORT_VERSION :: string where
  "INCIDENT_EXPORT_VERSION = ''actionlineage.dev/incident-export-v0''"

definition TIMELINE_SELECT_COLUMNS :: "string list" where
  "TIMELINE_SELECT_COLUMNS =
     [''journal_record_number'', ''event_id'', ''event_type'', ''occurred_at'', ''observed_at'',
      ''trace_id'', ''run_id'', ''sequence'', ''event_hash'', ''verification_status'',
      ''evidence_subject_event_id'', ''evidence_event_id'', ''event_json'']"

text \<open>Objects of frozen results.\<close>

definition freeze_json_object :: "pyv \<Rightarrow> pyv res" where
  "freeze_json_object v =
     bnd (freeze_json_value v) (\<lambda>frozen.
       if map_items frozen = None then raise TypeError ''expected a JSON object'' else Inr frozen)"

definition thaw_json_object :: "pyv \<Rightarrow> pyv res" where
  "thaw_json_object v =
     (case thaw_json_value v of
        VDict d \<Rightarrow> Inr (VDict d)
      | _ \<Rightarrow> raise TypeError ''expected a JSON object'')"

record TimelineEvent =
  te_journal_record_number :: pyv
  te_event_id :: pyv
  te_event_type :: pyv
  te_occurred_at :: pyv
  te_observed_at :: pyv
  te_trace_id :: pyv
  te_run_id :: pyv
  te_sequence :: pyv
  te_event_hash :: pyv
  te_verification_status :: pyv
  te_evidence_subject_event_id :: pyv
  te_evidence_event_id :: pyv
  te_event :: pyv

definition timeline_event_from_row :: "pyv list \<Rightarrow> TimelineEvent res" where
  "timeline_event_from_row row =
     bnd (case row ! 12 of
            VStr s \<Rightarrow> loads False s
          | VBytes s \<Rightarrow> loads_bytes False s
          | v \<Rightarrow> raise TypeError (''the JSON object must be str, bytes or bytearray, not '' @ type_name v))
       (\<lambda>event_data.
     case event_data of
       VDict d \<Rightarrow>
         bnd (freeze_json_object event_data) (\<lambda>frozen.
         Inr \<lparr>te_journal_record_number = row ! 0, te_event_id = row ! 1, te_event_type = row ! 2,
              te_occurred_at = row ! 3, te_observed_at = row ! 4, te_trace_id = row ! 5,
              te_run_id = row ! 6, te_sequence = row ! 7, te_event_hash = row ! 8,
              te_verification_status = row ! 9, te_evidence_subject_event_id = row ! 10,
              te_evidence_event_id = row ! 11, te_event = frozen\<rparr>)
     | _ \<Rightarrow> raise ProjectionQueryError ''projected event_json is not a JSON object'')"

definition TimelineEvent_as_dict :: "TimelineEvent \<Rightarrow> pyv res" where
  "TimelineEvent_as_dict e =
     bnd (thaw_json_object (te_event e)) (\<lambda>thawed.
     Inr (obj
       [(''journal_record_number'', te_journal_record_number e), (''event_id'', te_event_id e),
        (''event_type'', te_event_type e), (''occurred_at'', te_occurred_at e),
        (''observed_at'', te_observed_at e), (''trace_id'', te_trace_id e), (''run_id'', te_run_id e),
        (''sequence'', te_sequence e), (''event_hash'', te_event_hash e),
        (''verification_status'', te_verification_status e),
        (''evidence_subject_event_id'', te_evidence_subject_event_id e),
        (''evidence_event_id'', te_evidence_event_id e), (''event'', thawed)]))"

record TimelineResult =
  tr_selector_type :: string
  tr_selector_value :: string
  tr_events :: "TimelineEvent list"
  tr_verification :: "VerifiedProjectionSnapshot option"
  tr_order :: string

definition selector_object :: "TimelineResult \<Rightarrow> pyv" where
  "selector_object t =
     obj [(''type'', VStr (tr_selector_type t)), (''value'', VStr (tr_selector_value t))]"

definition verification_member :: "TimelineResult \<Rightarrow> (string \<times> pyv) list res" where
  "verification_member t =
     (case tr_verification t of
        None \<Rightarrow> Inr []
      | Some v \<Rightarrow> bnd (VerifiedProjectionSnapshot_as_dict v) (\<lambda>d. Inr [(''verification'', d)]))"

definition TimelineResult_as_dict :: "TimelineResult \<Rightarrow> pyv res" where
  "TimelineResult_as_dict t =
     bnd (traverse TimelineEvent_as_dict (tr_events t)) (\<lambda>events.
     bnd (verification_member t) (\<lambda>verification.
     Inr (obj
       ([(''ok'', VBool True), (''selector'', selector_object t),
         (''event_count'', VInt (int (length (tr_events t)))), (''order'', VStr (tr_order t)),
         (''events'', VList events)] @ verification))))"

definition require_one_selector :: "string option \<Rightarrow> string option \<Rightarrow> (string \<times> string) res" where
  "require_one_selector trace run =
     (case (trace, run) of
        (Some t, None) \<Rightarrow> Inr (''trace_id'', t)
      | (None, Some r) \<Rightarrow> Inr (''run_id'', r)
      | _ \<Rightarrow> raise ProjectionQueryError ''provide exactly one of trace_id or run_id'')"

text \<open>\<open>except sqlite3.Error\<close> of the queries.\<close>

definition query_error :: "projection_error \<Rightarrow> projection_error" where
  "query_error err =
     (case err of
        Failure e \<Rightarrow>
          if is_a (exn_kind e) SqliteDatabaseError
          then Failure (Raise ProjectionQueryError ''sqlite projection query failed'') else err
      | _ \<Rightarrow> err)"

definition as_query :: "'a pres \<Rightarrow> 'a pres" where
  "as_query r = (case r of Inl err \<Rightarrow> Inl (query_error err) | Inr x \<Rightarrow> Inr x)"

definition timeline_rows :: "database \<Rightarrow> (string \<times> pyv) list \<Rightarrow> pyv list list res" where
  "timeline_rows db conditions = sql_select db ''events'' TIMELINE_SELECT_COLUMNS conditions timeline_order"

definition query_timeline ::
  "pydantic \<Rightarrow> reader_env \<Rightarrow> path \<Rightarrow> path \<Rightarrow> string option \<Rightarrow> string option \<Rightarrow> TimelineResult pres" where
  "query_timeline pd env database_path journal_path trace run =
     bnd (plain (require_one_selector trace run)) (\<lambda>(selector_type, selector_value).
     bnd (as_query (verified_projection_reader pd env database_path journal_path (\<lambda>db verification.
            bnd (plain (timeline_rows db [(selector_type, VStr selector_value)])) (\<lambda>rows.
            bnd (plain (traverse timeline_event_from_row rows)) (\<lambda>events.
            Inr (events, verification)))))) (\<lambda>(events, verification).
     Inr \<lparr>tr_selector_type = selector_type, tr_selector_value = selector_value, tr_events = events,
          tr_verification = Some verification, tr_order = TIMELINE_ORDER_DESCRIPTION\<rparr>))"

section \<open>Filters\<close>

definition is_json_sequence :: "pyv \<Rightarrow> pyv list option" where
  "is_json_sequence v = map_option snd (seq_kind v)"

text \<open>
  \<open>_payload_values_for_keys\<close> and \<open>_string_values\<close>: sets as lists, only membership matters.
\<close>

fun payload_values_for_keys :: "pyv \<Rightarrow> string list \<Rightarrow> string list"
  and payload_values_items :: "pyv list \<Rightarrow> string list \<Rightarrow> string list"
  and payload_values_members :: "pydict \<Rightarrow> string list \<Rightarrow> string list" where
  "payload_values_for_keys (VDict d) ks = payload_values_members d ks"
| "payload_values_for_keys (VFrozenDict d) ks = payload_values_members d ks"
| "payload_values_for_keys (VList xs) ks = payload_values_items xs ks"
| "payload_values_for_keys (VTuple xs) ks = payload_values_items xs ks"
| "payload_values_for_keys (VFrozenList xs) ks = payload_values_items xs ks"
| "payload_values_for_keys v ks = []"
| "payload_values_items [] ks = []"
| "payload_values_items (x # xs) ks = payload_values_for_keys x ks @ payload_values_items xs ks"
| "payload_values_members [] ks = []"
| "payload_values_members ((k, v) # d) ks =
     (case (k, v) of (KStr s, VStr t) \<Rightarrow> if s \<in> set ks then [t] else [] | _ \<Rightarrow> [])
     @ payload_values_for_keys v ks @ payload_values_members d ks"

fun string_values :: "pyv \<Rightarrow> string list"
  and string_values_items :: "pyv list \<Rightarrow> string list"
  and string_values_members :: "pydict \<Rightarrow> string list" where
  "string_values (VStr s) = [s]"
| "string_values (VDict d) = string_values_members d"
| "string_values (VFrozenDict d) = string_values_members d"
| "string_values (VList xs) = string_values_items xs"
| "string_values (VTuple xs) = string_values_items xs"
| "string_values (VFrozenList xs) = string_values_items xs"
| "string_values v = []"
| "string_values_items [] = []"
| "string_values_items (x # xs) = string_values x @ string_values_items xs"
| "string_values_members [] = []"
| "string_values_members ((k, v) # d) = string_values v @ string_values_members d"

record timeline_filters =
  tf_descriptor_hash :: "string option"
  tf_event_type :: "string option"
  tf_principal_id :: "string option"
  tf_resource :: "string option"
  tf_run_id :: "string option"
  tf_sensitivity :: "string option"
  tf_tool_name :: "string option"
  tf_trace_id :: "string option"
  tf_trust :: "string option"
  tf_verification_status :: "string option"

definition no_filters :: timeline_filters where
  "no_filters =
     \<lparr>tf_descriptor_hash = None, tf_event_type = None, tf_principal_id = None, tf_resource = None,
      tf_run_id = None, tf_sensitivity = None, tf_tool_name = None, tf_trace_id = None,
      tf_trust = None, tf_verification_status = None\<rparr>"

definition wants :: "string option \<Rightarrow> (string \<Rightarrow> bool) \<Rightarrow> bool" where
  "wants filter_value holds = (case filter_value of None \<Rightarrow> True | Some v \<Rightarrow> holds v)"

definition mapping_get :: "pyv \<Rightarrow> string \<Rightarrow> pyv" where
  "mapping_get v k = (case map_items v of None \<Rightarrow> VNone | Some d \<Rightarrow> get_or_none d k)"

definition timeline_event_matches :: "TimelineEvent \<Rightarrow> timeline_filters \<Rightarrow> bool" where
  "timeline_event_matches e f \<longleftrightarrow>
     wants (tf_trace_id f) (\<lambda>v. py_eq (te_trace_id e) (VStr v))
     \<and> wants (tf_run_id f) (\<lambda>v. py_eq (te_run_id e) (VStr v))
     \<and> wants (tf_event_type f) (\<lambda>v. py_eq (te_event_type e) (VStr v))
     \<and> wants (tf_verification_status f) (\<lambda>v. py_eq (te_verification_status e) (VStr v))
     \<and> wants (tf_principal_id f)
         (\<lambda>v. py_eq (mapping_get (mapping_get (te_event e) ''principal'') ''principal_id'') (VStr v))
     \<and> wants (tf_sensitivity f)
         (\<lambda>v. py_eq (mapping_get (mapping_get (te_event e) ''classification'') ''sensitivity'') (VStr v))
     \<and> wants (tf_trust f)
         (\<lambda>v. py_eq (mapping_get (mapping_get (te_event e) ''classification'') ''trust'') (VStr v))
     \<and> wants (tf_tool_name f)
         (\<lambda>v. v \<in> set (payload_values_for_keys (mapping_get (te_event e) ''payload'')
                          [''name'', ''tool'', ''tool_name'']))
     \<and> wants (tf_descriptor_hash f)
         (\<lambda>v. v \<in> set (payload_values_for_keys (mapping_get (te_event e) ''payload'')
                          [''descriptor_hash'']))
     \<and> wants (tf_resource f) (\<lambda>v. v \<in> set (string_values (mapping_get (te_event e) ''payload'')))"

definition filter_members :: "timeline_filters \<Rightarrow> (string \<times> string option) list" where
  "filter_members f =
     [(''descriptor_hash'', tf_descriptor_hash f), (''event_type'', tf_event_type f),
      (''principal_id'', tf_principal_id f), (''resource'', tf_resource f), (''run_id'', tf_run_id f),
      (''sensitivity'', tf_sensitivity f), (''tool_name'', tf_tool_name f),
      (''trace_id'', tf_trace_id f), (''trust'', tf_trust f),
      (''verification_status'', tf_verification_status f)]"

definition selector_text :: "timeline_filters \<Rightarrow> string res" where
  "selector_text f =
     ascii_dumps (obj (concat (map (\<lambda>(k, v). case v of None \<Rightarrow> [] | Some s \<Rightarrow> [(k, VStr s)])
       (filter_members f))))"

definition query_filtered_timeline ::
  "pydantic \<Rightarrow> reader_env \<Rightarrow> path \<Rightarrow> path \<Rightarrow> timeline_filters \<Rightarrow> TimelineResult pres" where
  "query_filtered_timeline pd env database_path journal_path filters =
     bnd (as_query (verified_projection_reader pd env database_path journal_path (\<lambda>db verification.
            bnd (plain (timeline_rows db [])) (\<lambda>rows. Inr (rows, verification))))) (\<lambda>(rows, verification).
     bnd (plain (traverse timeline_event_from_row rows)) (\<lambda>events.
     bnd (plain (selector_text filters)) (\<lambda>selector_value.
     Inr \<lparr>tr_selector_type = ''filters'', tr_selector_value = selector_value,
          tr_events = filter (\<lambda>e. timeline_event_matches e filters) events,
          tr_verification = Some verification, tr_order = TIMELINE_ORDER_DESCRIPTION\<rparr>)))"

section \<open>Facts of an event\<close>

text \<open>\<open>event.get(key)\<close> of an event that is a dict.\<close>

definition dict_get :: "pyv \<Rightarrow> string \<Rightarrow> pyv" where
  "dict_get v k = (case v of VDict d \<Rightarrow> get_or_none d k | _ \<Rightarrow> VNone)"

definition event_parent_id :: "pyv \<Rightarrow> string option" where
  "event_parent_id e = string_or_none (dict_get (dict_get e ''causality'') ''parent_event_id'')"

definition event_principal_id :: "pyv \<Rightarrow> string option" where
  "event_principal_id e = string_or_none (dict_get (dict_get e ''principal'') ''principal_id'')"

definition event_verification_status :: "pyv \<Rightarrow> string option" where
  "event_verification_status e =
     (case dict_get e ''payload'' of
        VDict p \<Rightarrow>
          (case get_or_none p ''evidence_link'' of
             VDict l \<Rightarrow> string_or_none (get_or_none l ''verification_status'')
           | _ \<Rightarrow> string_or_none (get_or_none p ''verification_status''))
      | _ \<Rightarrow> None)"

definition summary_text :: "pyv \<Rightarrow> string option res" where
  "summary_text v =
     (case v of
        VStr s \<Rightarrow> Inr (Some s)
      | _ \<Rightarrow>
          if is_capture_marker v
          then bnd (capture_limit_note (case map_items v of Some d \<Rightarrow> d | None \<Rightarrow> [])) (\<lambda>s. Inr (Some s))
          else Inr None)"

definition evidence_limitations :: "pyv \<Rightarrow> string list res" where
  "evidence_limitations e =
     (case dict_get (dict_get (dict_get e ''payload'') ''evidence_link'') ''limitations'' of
        VList xs \<Rightarrow> bnd (traverse summary_text xs) (\<lambda>os. Inr (map the (filter (\<lambda>x. x \<noteq> None) os)))
      | _ \<Rightarrow> Inr [])"

text \<open>Sorted sets of texts: \<open>sorted({...})\<close>.\<close>

definition sorted_set :: "string list \<Rightarrow> string list" where
  "sorted_set xs = sort (remdups xs)"

fun summary_values :: "pyv \<Rightarrow> string list \<Rightarrow> string list res"
  and summary_values_items :: "pyv list \<Rightarrow> string list \<Rightarrow> string list res"
  and summary_values_members :: "pydict \<Rightarrow> string list \<Rightarrow> string list res" where
  "summary_values (VDict d) ks =
     (if is_capture_marker (VDict d) then Inr [] else summary_values_members d ks)"
| "summary_values (VFrozenDict d) ks =
     (if is_capture_marker (VFrozenDict d) then Inr [] else summary_values_members d ks)"
| "summary_values (VList xs) ks = summary_values_items xs ks"
| "summary_values (VTuple xs) ks = summary_values_items xs ks"
| "summary_values (VFrozenList xs) ks = summary_values_items xs ks"
| "summary_values v ks = Inr []"
| "summary_values_items [] ks = Inr []"
| "summary_values_items (x # xs) ks =
     bnd (summary_values x ks) (\<lambda>a. bnd (summary_values_items xs ks) (\<lambda>b. Inr (a @ b)))"
| "summary_values_members [] ks = Inr []"
| "summary_values_members ((k, v) # d) ks =
     bnd (if k \<in> KStr ` set ks then summary_text v else Inr None) (\<lambda>t.
     bnd (summary_values v ks) (\<lambda>a.
     bnd (summary_values_members d ks) (\<lambda>b.
     Inr ((case t of None \<Rightarrow> [] | Some s \<Rightarrow> [s]) @ a @ b))))"

definition payload_summary_values_for_keys :: "pyv \<Rightarrow> string list \<Rightarrow> string list res" where
  "payload_summary_values_for_keys v ks = bnd (summary_values v ks) (\<lambda>xs. Inr (sorted_set xs))"

definition tool_names :: "pyv \<Rightarrow> string list res" where
  "tool_names e = payload_summary_values_for_keys (dict_get e ''payload'') [''name'', ''tool'', ''tool_name'']"

definition resource_identifiers :: "pyv \<Rightarrow> string list res" where
  "resource_identifiers e =
     payload_summary_values_for_keys (dict_get e ''payload'') [''identifier'', ''path'', ''uri'', ''url'']"

text \<open>The evidence links, thawed; the events may be frozen.\<close>

definition event_evidence_link :: "pyv \<Rightarrow> pyv list" where
  "event_evidence_link e =
     (let link = mapping_get (mapping_get e ''payload'') ''evidence_link'' in
      if map_items link = None then [] else [thaw_json_value link])"

definition evidence_links_from_event_objects :: "pyv list \<Rightarrow> pyv list" where
  "evidence_links_from_event_objects events = concat (map event_evidence_link events)"

section \<open>The incident summary\<close>

definition count_statuses :: "pyv list \<Rightarrow> (string \<times> int) list" where
  "count_statuses events =
     foldl (\<lambda>counts e.
        case event_verification_status e of
          None \<Rightarrow> counts
        | Some status \<Rightarrow>
            dset counts status ((case dget counts status of None \<Rightarrow> 0 | Some n \<Rightarrow> n) + 1)) [] events"

definition claims_language :: string where
  "claims_language = ''No observation recorded is not proof that a side effect did not occur.''"

definition strs :: "string list \<Rightarrow> pyv" where
  "strs xs = VList (map VStr xs)"

definition event_id_member :: "pyv \<Rightarrow> pyv res" where
  "event_id_member e =
     (case e of VDict d \<Rightarrow> py_getitem d ''event_id'' | _ \<Rightarrow> raise TypeError ''not a dict'')"

definition incident_summary :: "pyv list \<Rightarrow> pyv res" where
  "incident_summary events =
     bnd (traverse tool_names events) (\<lambda>tools.
     bnd (traverse resource_identifiers events) (\<lambda>resources.
     bnd (traverse event_id_member
       (filter (\<lambda>e. py_eq (dict_get e ''event_type'') (VStr ''side_effect.conflict_detected'')) events)) (\<lambda>conflicting.
     bnd (traverse event_id_member
       (filter (\<lambda>e. event_verification_status e = Some ''unknown'') events)) (\<lambda>unknown.
     bnd (traverse evidence_limitations events) (\<lambda>limitations.
     bnd (traverse event_id_member
       (filter (\<lambda>e. py_eq (dict_get e ''event_type'') (VStr ''lineage.alert.created'')) events)) (\<lambda>hits.
     Inr (obj
       [(''principals'', strs (sorted_set (map the (filter (\<lambda>x. x \<noteq> None) (map event_principal_id events))))),
        (''tools'', strs (sorted_set (concat tools))),
        (''resources'', strs (sorted_set (concat resources))),
        (''verification_statuses'', obj (map (\<lambda>(k, n). (k, VInt n)) (count_statuses events))),
        (''evidence_links'', VList (evidence_links_from_event_objects events)),
        (''conflicting_event_ids'', VList conflicting),
        (''unknown_event_ids'', VList unknown),
        (''limitations'', strs (sorted_set (concat limitations))),
        (''detection_hit_event_ids'', VList hits),
        (''claims_language'', VStr claims_language)])))))))"

definition IncidentExport_as_dict :: "TimelineResult \<Rightarrow> pyv res" where
  "IncidentExport_as_dict t =
     bnd (traverse (\<lambda>e. thaw_json_object (te_event e)) (tr_events t)) (\<lambda>events.
     bnd (incident_summary events) (\<lambda>summary.
     bnd (verification_member t) (\<lambda>verification.
     Inr (obj
       ([(''export_version'', VStr INCIDENT_EXPORT_VERSION), (''selector'', selector_object t),
         (''event_count'', VInt (int (length (tr_events t)))), (''summary'', summary),
         (''timeline_order'', VStr (tr_order t)), (''events'', VList events)] @ verification)))))"

section \<open>Explaining an event\<close>

record EventExplanation =
  ee_event_id :: string
  ee_event :: pyv
  ee_parent_event_id :: pyv
  ee_child_event_ids :: "pyv list"
  ee_links_as_subject :: "pyv list"
  ee_links_as_evidence :: "pyv list"

text \<open>
  \<open>event.get("causality", {}).get("parent_event_id")\<close>: a causality that is no mapping has no \<open>get\<close>.
\<close>

definition causality_parent :: "pyv \<Rightarrow> pyv res" where
  "causality_parent e =
     (case map_items e of
        None \<Rightarrow> raise AttributeError ''no attribute get''
      | Some d \<Rightarrow>
          (case get_item d ''causality'' of
             None \<Rightarrow> Inr VNone
           | Some c \<Rightarrow>
               (case map_items c of
                  None \<Rightarrow> raise AttributeError ''no attribute get''
                | Some m \<Rightarrow> Inr (get_or_none m ''parent_event_id''))))"

definition explain_events :: "TimelineEvent list \<Rightarrow> string \<Rightarrow> EventExplanation res" where
  "explain_events events wanted =
     (case find (\<lambda>e. te_event_id e = VStr wanted) (rev events) of
        None \<Rightarrow> raise ProjectionQueryError (''event does not exist in projection: '' @ wanted)
      | Some found \<Rightarrow>
          bnd (traverse (\<lambda>e. bnd (causality_parent (te_event e)) (\<lambda>p. Inr (te_event_id e, p))) events) (\<lambda>parents.
          let links = concat (map (\<lambda>e. event_evidence_link (te_event e)) events) in
          bnd (causality_parent (te_event found)) (\<lambda>parent.
          bnd (traverse freeze_json_object
            (filter (\<lambda>l. py_eq (dict_get l ''subject_event_id'') (VStr wanted)) links)) (\<lambda>as_subject.
          bnd (traverse freeze_json_object
            (filter (\<lambda>l. py_eq (dict_get l ''evidence_event_id'') (VStr wanted)) links)) (\<lambda>as_evidence.
          Inr \<lparr>ee_event_id = wanted, ee_event = te_event found, ee_parent_event_id = parent,
               ee_child_event_ids =
                 map fst (filter (\<lambda>(i, p). py_eq p (VStr wanted)) parents),
               ee_links_as_subject = as_subject, ee_links_as_evidence = as_evidence\<rparr>)))))"

definition EventExplanation_as_dict :: "EventExplanation \<Rightarrow> pyv res" where
  "EventExplanation_as_dict x =
     bnd (thaw_json_object (ee_event x)) (\<lambda>event.
     bnd (traverse thaw_json_object (ee_links_as_subject x)) (\<lambda>as_subject.
     bnd (traverse thaw_json_object (ee_links_as_evidence x)) (\<lambda>as_evidence.
     Inr (obj
       [(''ok'', VBool True), (''event_id'', VStr (ee_event_id x)), (''event'', event),
        (''parent_event_id'', ee_parent_event_id x),
        (''child_event_ids'', VList (ee_child_event_ids x)),
        (''evidence_links_as_subject'', VList as_subject),
        (''evidence_links_as_evidence'', VList as_evidence)]))))"

definition explain_event ::
  "pydantic \<Rightarrow> reader_env \<Rightarrow> path \<Rightarrow> path \<Rightarrow> string \<Rightarrow> EventExplanation pres" where
  "explain_event pd env database_path journal_path wanted =
     bnd (query_filtered_timeline pd env database_path journal_path no_filters) (\<lambda>timeline.
       plain (explain_events (tr_events timeline) wanted))"

end
