(* ===== verification/ProjectionExports.thy ===== *)
theory ProjectionExports
  imports ProjectionQueries
begin

text \<open>
  What is derived from an incident (\<open>projection/sqlite.py\<close>): the investigation graph and the grounded
  summary of a case. The members of an event that name it (\<open>event_id\<close>, \<open>event_type\<close>) are texts, as
  in every row the reader has verified.
\<close>

section \<open>The incident\<close>

definition member_text :: "pyv \<Rightarrow> string \<Rightarrow> string res" where
  "member_text v k =
     (case v of
        VDict d \<Rightarrow> bnd (py_getitem d k) (\<lambda>m. case m of VStr s \<Rightarrow> Inr s | _ \<Rightarrow> raise TypeError ''expected a text'')
      | _ \<Rightarrow> raise TypeError ''expected a dict'')"

definition member_value :: "pyv \<Rightarrow> string \<Rightarrow> pyv res" where
  "member_value v k = (case v of VDict d \<Rightarrow> py_getitem d k | _ \<Rightarrow> raise TypeError ''expected a dict'')"

definition list_items :: "pyv \<Rightarrow> pyv list" where
  "list_items v = (case v of VList xs \<Rightarrow> xs | _ \<Rightarrow> [])"

section \<open>The investigation graph\<close>

definition INVESTIGATION_GRAPH_VERSION :: string where
  "INVESTIGATION_GRAPH_VERSION = ''actionlineage.dev/investigation-graph-v0''"

record InvestigationGraphNode =
  gn_id :: string
  gn_kind :: string
  gn_label :: string
  gn_attributes :: pyv

record InvestigationGraphEdge =
  ge_id :: string
  ge_source :: string
  ge_target :: string
  ge_relationship :: string
  ge_attributes :: pyv

record InvestigationGraphExport =
  gx_selector :: pyv
  gx_nodes :: "InvestigationGraphNode list"
  gx_edges :: "InvestigationGraphEdge list"

text \<open>The dictionaries \<open>nodes\<close> and \<open>edges\<close> of the construction.\<close>

record graph =
  gr_nodes :: "(string \<times> InvestigationGraphNode) list"
  gr_edges :: "(string \<times> InvestigationGraphEdge) list"

definition event_node_id :: "string \<Rightarrow> string" where
  "event_node_id i = ''event:'' @ i"

definition entity_node_id :: "string \<Rightarrow> string \<Rightarrow> string" where
  "entity_node_id kind value = kind @ '':'' @ value"

definition edge_id :: "string \<Rightarrow> string \<Rightarrow> string \<Rightarrow> string" where
  "edge_id source target rel = ''edge:'' @ rel @ '':'' @ source @ '':'' @ target"

definition graph_node :: "string \<Rightarrow> string \<Rightarrow> string \<Rightarrow> (string \<times> pyv) list \<Rightarrow> InvestigationGraphNode res" where
  "graph_node i kind label attributes =
     bnd (freeze_json_object (obj attributes)) (\<lambda>frozen.
     Inr \<lparr>gn_id = i, gn_kind = kind, gn_label = label, gn_attributes = frozen\<rparr>)"

definition set_default :: "('k \<times> 'v) list \<Rightarrow> 'k \<Rightarrow> 'v \<Rightarrow> ('k \<times> 'v) list" where
  "set_default d k v = (case dget d k of None \<Rightarrow> d @ [(k, v)] | Some w \<Rightarrow> d)"

definition put_node :: "InvestigationGraphNode \<Rightarrow> graph \<Rightarrow> graph" where
  "put_node n g = g\<lparr>gr_nodes := dset (gr_nodes g) (gn_id n) n\<rparr>"

definition add_node :: "InvestigationGraphNode \<Rightarrow> graph \<Rightarrow> graph" where
  "add_node n g = g\<lparr>gr_nodes := set_default (gr_nodes g) (gn_id n) n\<rparr>"

definition add_edge :: "string \<Rightarrow> string \<Rightarrow> string \<Rightarrow> pyv \<Rightarrow> graph \<Rightarrow> graph res" where
  "add_edge source target rel attributes g =
     bnd (freeze_json_object attributes) (\<lambda>frozen.
     let i = edge_id source target rel in
     Inr (g\<lparr>gr_edges := set_default (gr_edges g) i
            \<lparr>ge_id = i, ge_source = source, ge_target = target, ge_relationship = rel,
             ge_attributes = frozen\<rparr>\<rparr>))"

definition ensure_event_reference_node :: "string list \<Rightarrow> string \<Rightarrow> graph \<Rightarrow> graph res" where
  "ensure_event_reference_node event_ids i g =
     (if event_node_id i \<in> set (keys (gr_nodes g)) then Inr g
      else
        bnd (graph_node (event_node_id i)
               (if i \<in> set event_ids then ''event'' else ''event_reference'') i
               [(''event_id'', VStr i), (''in_selected_timeline'', VBool (i \<in> set event_ids))]) (\<lambda>n.
        Inr (g\<lparr>gr_nodes := gr_nodes g @ [(event_node_id i, n)]\<rparr>)))"

text \<open>An entity an event refers to: its node, unless it is there, and the edge to it.\<close>

definition link_entity ::
  "string \<Rightarrow> string \<Rightarrow> string \<Rightarrow> string \<Rightarrow> string \<Rightarrow> graph \<Rightarrow> graph res" where
  "link_entity source kind attribute rel value g =
     bnd (graph_node (entity_node_id kind value) kind value [(attribute, VStr value)]) (\<lambda>n.
     add_edge source (entity_node_id kind value) rel (obj []) (add_node n g))"

fun link_entities ::
  "string \<Rightarrow> string \<Rightarrow> string \<Rightarrow> string \<Rightarrow> string list \<Rightarrow> graph \<Rightarrow> graph res" where
  "link_entities source kind attribute rel [] g = Inr g"
| "link_entities source kind attribute rel (v # vs) g =
     bnd (link_entity source kind attribute rel v g) (\<lambda>g. link_entities source kind attribute rel vs g)"

definition opt_list :: "'a option \<Rightarrow> 'a list" where
  "opt_list x = (case x of None \<Rightarrow> [] | Some y \<Rightarrow> [y])"

definition link_parent :: "string list \<Rightarrow> string \<Rightarrow> string option \<Rightarrow> graph \<Rightarrow> graph res" where
  "link_parent event_ids node parent g =
     (case parent of
        None \<Rightarrow> Inr g
      | Some p \<Rightarrow>
          bnd (ensure_event_reference_node event_ids p g) (\<lambda>g.
          add_edge (event_node_id p) node ''causal_parent'' (obj []) g))"

definition graph_event :: "string list \<Rightarrow> pyv \<Rightarrow> graph \<Rightarrow> graph res" where
  "graph_event event_ids e g =
     bnd (member_text e ''event_id'') (\<lambda>i.
     let node = event_node_id i; status = event_verification_status e in
     bnd (member_text e ''event_type'') (\<lambda>event_type.
     bnd (member_value e ''occurred_at'') (\<lambda>occurred.
     bnd (member_value e ''causality'') (\<lambda>causality.
     bnd (member_value causality ''sequence'') (\<lambda>sequence.
     bnd (graph_node node ''event'' event_type
            ([(''event_id'', VStr i), (''event_type'', VStr event_type), (''occurred_at'', occurred),
              (''sequence'', sequence)]
             @ (case status of None \<Rightarrow> [] | Some s \<Rightarrow> [(''verification_status'', VStr s)]))) (\<lambda>n.
     bnd (link_parent event_ids node (event_parent_id e) (put_node n g)) (\<lambda>g.
     bnd (link_entities node ''principal'' ''principal_id'' ''performed_by''
            (opt_list (event_principal_id e)) g) (\<lambda>g.
     bnd (tool_names e) (\<lambda>tools.
     bnd (link_entities node ''tool'' ''name'' ''uses_tool'' tools g) (\<lambda>g.
     bnd (resource_identifiers e) (\<lambda>resources.
     bnd (link_entities node ''resource'' ''identifier'' ''references_resource'' resources g) (\<lambda>g.
     link_entities node ''verification_status'' ''status'' ''has_verification_status''
       (opt_list status) g))))))))))))"

fun graph_events :: "string list \<Rightarrow> pyv list \<Rightarrow> graph \<Rightarrow> graph res" where
  "graph_events event_ids [] g = Inr g"
| "graph_events event_ids (e # es) g = bnd (graph_event event_ids e g) (\<lambda>g. graph_events event_ids es g)"

definition is_scalar :: "pyv \<Rightarrow> bool" where
  "is_scalar v = (case v of VStr s \<Rightarrow> True | VInt i \<Rightarrow> True | VFloat f \<Rightarrow> True | VBool b \<Rightarrow> True | _ \<Rightarrow> False)"

definition evidence_edge_attributes :: "pyv \<Rightarrow> pyv" where
  "evidence_edge_attributes link =
     obj (concat (map (\<lambda>key.
       let value = dict_get link key in
       if is_scalar value then [(key, value)]
       else
         (case value of
            VList xs \<Rightarrow> (let safe = filter is_scalar xs in if safe \<noteq> [] then [(key, VList safe)] else [])
          | _ \<Rightarrow> []))
       [''corroboration_type'', ''observer_identity'', ''confidence'', ''verification_status'',
        ''limitations'']))"

definition graph_link :: "string list \<Rightarrow> pyv \<Rightarrow> graph \<Rightarrow> graph res" where
  "graph_link event_ids link g =
     (case (string_or_none (dict_get link ''subject_event_id''),
            string_or_none (dict_get link ''evidence_event_id'')) of
        (Some subject, Some evidence) \<Rightarrow>
          bnd (ensure_event_reference_node event_ids subject g) (\<lambda>g.
          bnd (ensure_event_reference_node event_ids evidence g) (\<lambda>g.
          let rel = (case string_or_none (dict_get link ''relationship'') of
                       None \<Rightarrow> ''evidence_link'' | Some r \<Rightarrow> r) in
          add_edge (event_node_id evidence) (event_node_id subject) (''evidence_link:'' @ rel)
            (evidence_edge_attributes link) g))
      | _ \<Rightarrow> Inr g)"

fun graph_links :: "string list \<Rightarrow> pyv list \<Rightarrow> graph \<Rightarrow> graph res" where
  "graph_links event_ids [] g = Inr g"
| "graph_links event_ids (l # ls) g = bnd (graph_link event_ids l g) (\<lambda>g. graph_links event_ids ls g)"

definition graph_of_events :: "pyv \<Rightarrow> pyv list \<Rightarrow> InvestigationGraphExport res" where
  "graph_of_events selector events =
     bnd (traverse (\<lambda>e. member_text e ''event_id'') events) (\<lambda>event_ids.
     bnd (graph_events event_ids events \<lparr>gr_nodes = [], gr_edges = []\<rparr>) (\<lambda>g.
     bnd (graph_links event_ids (evidence_links_from_event_objects events) g) (\<lambda>g.
     bnd (freeze_json_object selector) (\<lambda>frozen.
     Inr \<lparr>gx_selector = frozen, gx_nodes = map snd (sort_key fst (gr_nodes g)),
          gx_edges = map snd (sort_key fst (gr_edges g))\<rparr>))))"

definition investigation_graph_from_incident :: "TimelineResult \<Rightarrow> InvestigationGraphExport res" where
  "investigation_graph_from_incident timeline =
     bnd (IncidentExport_as_dict timeline) (\<lambda>data.
       graph_of_events (dict_get data ''selector'') (list_items (dict_get data ''events'')))"

definition InvestigationGraphNode_as_dict :: "InvestigationGraphNode \<Rightarrow> pyv res" where
  "InvestigationGraphNode_as_dict n =
     bnd (thaw_json_object (gn_attributes n)) (\<lambda>attributes.
     Inr (obj [(''id'', VStr (gn_id n)), (''kind'', VStr (gn_kind n)), (''label'', VStr (gn_label n)),
               (''attributes'', attributes)]))"

definition InvestigationGraphEdge_as_dict :: "InvestigationGraphEdge \<Rightarrow> pyv res" where
  "InvestigationGraphEdge_as_dict e =
     bnd (thaw_json_object (ge_attributes e)) (\<lambda>attributes.
     Inr (obj [(''id'', VStr (ge_id e)), (''source'', VStr (ge_source e)),
               (''target'', VStr (ge_target e)), (''relationship'', VStr (ge_relationship e)),
               (''attributes'', attributes)]))"

definition InvestigationGraphExport_as_dict :: "InvestigationGraphExport \<Rightarrow> pyv res" where
  "InvestigationGraphExport_as_dict x =
     bnd (thaw_json_object (gx_selector x)) (\<lambda>selector.
     bnd (traverse InvestigationGraphNode_as_dict (gx_nodes x)) (\<lambda>nodes.
     bnd (traverse InvestigationGraphEdge_as_dict (gx_edges x)) (\<lambda>edges.
     Inr (obj
       [(''graph_version'', VStr INVESTIGATION_GRAPH_VERSION), (''selector'', selector),
        (''node_count'', VInt (int (length (gx_nodes x)))),
        (''edge_count'', VInt (int (length (gx_edges x)))), (''nodes'', VList nodes),
        (''edges'', VList edges), (''canonical_source'', VStr ''append-only local journal''),
        (''limitations'', strs
           [''Graph nodes and edges are derived from redacted projected evidence.'',
            claims_language])]))))"

definition export_investigation_graph ::
  "pydantic \<Rightarrow> reader_env \<Rightarrow> path \<Rightarrow> path \<Rightarrow> string option \<Rightarrow> string option \<Rightarrow> InvestigationGraphExport pres" where
  "export_investigation_graph pd env database_path journal_path trace run =
     bnd (query_timeline pd env database_path journal_path trace run) (\<lambda>timeline.
       plain (investigation_graph_from_incident timeline))"

section \<open>The grounded summary\<close>

definition GROUNDED_SUMMARY_VERSION :: string where
  "GROUNDED_SUMMARY_VERSION = ''actionlineage.dev/grounded-summary-v0''"

record GroundedInvestigationSummary =
  gs_selector :: pyv
  gs_headline :: string
  gs_key_findings :: "string list"
  gs_limitations :: "string list"
  gs_grounded_event_ids :: "string list"

definition text_of :: "pyv \<Rightarrow> string" where
  "text_of v = (case v of VStr s \<Rightarrow> s | _ \<Rightarrow> [])"

definition texts_of :: "pyv \<Rightarrow> string list" where
  "texts_of v = map text_of (list_items v)"

definition joined_or_none :: "string list \<Rightarrow> string" where
  "joined_or_none vs = (if vs = [] then ''none recorded'' else join_with '', '' vs)"

definition finding :: "string \<Rightarrow> string list \<Rightarrow> string" where
  "finding label vs = label @ '': '' @ joined_or_none vs"

definition status_counts :: "pyv \<Rightarrow> (string \<times> int) list" where
  "status_counts v =
     (case v of
        VDict d \<Rightarrow> map (\<lambda>(k, n). (key_str k, case n of VInt i \<Rightarrow> i | _ \<Rightarrow> 0)) d
      | _ \<Rightarrow> [])"

definition format_counts :: "(string \<times> int) list \<Rightarrow> string" where
  "format_counts counts =
     joined_or_none (map (\<lambda>(k, n). k @ ''='' @ int_repr n) (key_sort counts))"

definition count_of :: "(string \<times> int) list \<Rightarrow> string \<Rightarrow> int" where
  "count_of counts status = (case dget counts status of None \<Rightarrow> 0 | Some n \<Rightarrow> n)"

definition grounded_summary_from_incident :: "TimelineResult \<Rightarrow> GroundedInvestigationSummary res" where
  "grounded_summary_from_incident timeline =
     bnd (IncidentExport_as_dict timeline) (\<lambda>data.
     let selector = dict_get data ''selector''; summary = dict_get data ''summary'';
         events = list_items (dict_get data ''events'');
         counts = status_counts (dict_get summary ''verification_statuses'');
         uncertain = sum_list (map (count_of counts) [''unknown'', ''unverified'', ''timed_out'', ''conflicting'']) in
     bnd (traverse (\<lambda>e. member_text e ''event_id'') events) (\<lambda>ids.
     bnd (freeze_json_object selector) (\<lambda>frozen.
     Inr \<lparr>gs_selector = frozen,
          gs_headline =
            int_repr (int (length (tr_events timeline))) @ '' events for ''
            @ text_of (dict_get selector ''type'') @ ''='' @ text_of (dict_get selector ''value'') @ ''; ''
            @ int_repr (count_of counts ''verified'') @ '' verified and '' @ int_repr uncertain
            @ '' uncertain outcomes recorded.'',
          gs_key_findings =
            [finding ''Principals'' (texts_of (dict_get summary ''principals'')),
             finding ''Tools'' (texts_of (dict_get summary ''tools'')),
             finding ''Resources'' (texts_of (dict_get summary ''resources'')),
             ''Verification statuses: '' @ format_counts counts,
             ''Evidence links: '' @ int_repr (int (length (list_items (dict_get summary ''evidence_links'')))),
             ''Conflicting events: '' @ joined_or_none (texts_of (dict_get summary ''conflicting_event_ids''))],
          gs_limitations =
            texts_of (dict_get summary ''limitations'') @ [text_of (dict_get summary ''claims_language''),
             ''This deterministic summary is derived from projected evidence; verify against the append-only local journal.''],
          gs_grounded_event_ids = ids\<rparr>)))"

definition GroundedInvestigationSummary_as_dict :: "GroundedInvestigationSummary \<Rightarrow> pyv res" where
  "GroundedInvestigationSummary_as_dict s =
     bnd (thaw_json_object (gs_selector s)) (\<lambda>selector.
     Inr (obj
       [(''summary_version'', VStr GROUNDED_SUMMARY_VERSION), (''model_provider'', VNone),
        (''selector'', selector), (''headline'', VStr (gs_headline s)),
        (''key_findings'', strs (gs_key_findings s)), (''limitations'', strs (gs_limitations s)),
        (''grounded_event_ids'', strs (gs_grounded_event_ids s)),
        (''canonical_source'', VStr ''append-only local journal'')]))"

definition summarize_incident ::
  "pydantic \<Rightarrow> reader_env \<Rightarrow> path \<Rightarrow> path \<Rightarrow> string option \<Rightarrow> string option
   \<Rightarrow> GroundedInvestigationSummary pres" where
  "summarize_incident pd env database_path journal_path trace run =
     bnd (query_timeline pd env database_path journal_path trace run) (\<lambda>timeline.
       plain (grounded_summary_from_incident timeline))"

end
