(* ===== verification/GraphClaims.thy ===== *)
theory GraphClaims
  imports ProjectionExports "HOL-Library.Multiset"
begin

text \<open>
  The investigation graph is closed: its edges join its nodes, and every event of the incident has
  its node. The identifiers of its edges do not determine what they join.
\<close>

section \<open>The invariant of the construction\<close>

abbreviation node_ids :: "graph \<Rightarrow> string set" where
  "node_ids g \<equiv> fst ` set (gr_nodes g)"

definition closed_graph :: "graph \<Rightarrow> bool" where
  "closed_graph g \<longleftrightarrow>
     distinct (keys (gr_nodes g)) \<and> distinct (keys (gr_edges g))
     \<and> (\<forall>(k, n)\<in>set (gr_nodes g). gn_id n = k)
     \<and> (\<forall>(k, e)\<in>set (gr_edges g). ge_id e = k
          \<and> ge_source e \<in> node_ids g \<and> ge_target e \<in> node_ids g)"

text \<open>\<open>grows g h\<close>: \<open>h\<close> is closed when \<open>g\<close> is, and keeps its nodes.\<close>

definition grows :: "graph \<Rightarrow> graph \<Rightarrow> bool" where
  "grows g h \<longleftrightarrow>
     (closed_graph g \<longrightarrow> closed_graph h) \<and> node_ids g \<subseteq> node_ids h"

lemma grows_refl [simp]: "grows g g"
  by (simp add: grows_def)

lemma grows_trans: "grows g h \<Longrightarrow> grows h k \<Longrightarrow> grows g k"
  by (auto simp: grows_def)

lemma keys_set_default: "fst ` set (set_default d k v) = insert k (fst ` set d)"
proof (cases "dget d k")
  case (Some w)
  then have "k \<in> fst ` set d" using dget_Some_in [OF Some] by force
  then show ?thesis by (auto simp: set_default_def Some)
qed (simp add: set_default_def)

lemma distinct_set_default: "distinct (keys d) \<Longrightarrow> distinct (keys (set_default d k v))"
  by (auto simp: set_default_def dget_None_iff split: option.split)

lemma set_set_default: "set (set_default d k v) \<subseteq> insert (k, v) (set d)"
  by (auto simp: set_default_def split: option.split_asm)

lemma keys_put: "fst ` set (dset d k v) = insert k (fst ` set d)"
  by (induction d k v rule: dset.induct) auto

lemma distinct_put: "distinct (keys d) \<Longrightarrow> distinct (keys (dset d k v))"
  by (induction d k v rule: dset.induct) (auto simp: keys_put)

lemma set_put: "set (dset d k v) \<subseteq> insert (k, v) (set d)"
  by (induction d k v rule: dset.induct) auto

lemma closed_nodes:
  assumes g: "closed_graph g" and ns: "distinct (keys ns)"
    "set ns \<subseteq> insert (gn_id n, n) (set (gr_nodes g))" "node_ids g \<subseteq> fst ` set ns"
  shows "closed_graph (g\<lparr>gr_nodes := ns\<rparr>)"
  unfolding closed_graph_def
proof (intro conjI)
  show "\<forall>(k, n)\<in>set (gr_nodes (g\<lparr>gr_nodes := ns\<rparr>)). gn_id n = k"
    using g ns(2) by (auto simp: closed_graph_def)
  show "\<forall>(k, e)\<in>set (gr_edges (g\<lparr>gr_nodes := ns\<rparr>)). ge_id e = k
      \<and> ge_source e \<in> node_ids (g\<lparr>gr_nodes := ns\<rparr>) \<and> ge_target e \<in> node_ids (g\<lparr>gr_nodes := ns\<rparr>)"
    using g ns(3) unfolding closed_graph_def by (simp add: split_beta subset_iff)
qed (use g ns in \<open>simp_all add: closed_graph_def\<close>)

lemma grows_nodes:
  assumes "closed_graph g \<Longrightarrow> distinct (keys ns)" "set ns \<subseteq> insert (gn_id n, n) (set (gr_nodes g))"
    and "node_ids g \<subseteq> fst ` set ns"
  shows "grows g (g\<lparr>gr_nodes := ns\<rparr>)"
  using closed_nodes assms by (simp add: grows_def)

lemma grows_put_node: "grows g (put_node n g)"
  unfolding put_node_def
  by (rule grows_nodes [OF _ set_put]) (simp_all add: keys_put distinct_put closed_graph_def subset_insertI)

lemma grows_add_node: "grows g (add_node n g)"
  unfolding add_node_def
  by (rule grows_nodes [OF _ set_set_default])
    (simp_all add: keys_set_default distinct_set_default closed_graph_def subset_insertI)

lemma put_node_in: "gn_id n \<in> node_ids (put_node n g)"
  by (simp add: put_node_def keys_put)

lemma add_node_in: "gn_id n \<in> node_ids (add_node n g)"
  by (simp add: add_node_def keys_set_default)

lemma graph_node_id: "graph_node i kind label attributes = Inr n \<Longrightarrow> gn_id n = i"
  by (auto simp: graph_node_def bnd_Inr_iff)

lemma grows_add_edge:
  assumes "add_edge source target rel attributes g = Inr h"
    and "source \<in> node_ids g" "target \<in> node_ids g"
  shows "grows g h"
proof -
  obtain frozen where frozen: "freeze_json_object attributes = Inr frozen"
    using assms(1) by (auto simp: add_edge_def bnd_Inr_iff)
  define ed where "ed = \<lparr>ge_id = edge_id source target rel, ge_source = source, ge_target = target,
    ge_relationship = rel, ge_attributes = frozen\<rparr>"
  have h: "h = g\<lparr>gr_edges := set_default (gr_edges g) (ge_id ed) ed\<rparr>"
    "ge_source ed = source" "ge_target ed = target"
    using assms(1) frozen by (simp_all add: add_edge_def ed_def Let_def)
  let ?ok = "\<lambda>(k, e). ge_id e = k \<and> ge_source e \<in> node_ids g \<and> ge_target e \<in> node_ids g"
  have "closed_graph g \<Longrightarrow> \<forall>p\<in>insert (ge_id ed, ed) (set (gr_edges g)). ?ok p"
    using assms(2,3) h(2,3) by (simp add: closed_graph_def)
  then have "closed_graph g \<Longrightarrow> \<forall>p\<in>set (set_default (gr_edges g) (ge_id ed) ed). ?ok p"
    using set_set_default by (metis (no_types, lifting) subsetD)
  then show ?thesis by (simp add: grows_def h(1) closed_graph_def distinct_set_default)
qed

lemma grows_reference:
  assumes "ensure_event_reference_node event_ids i g = Inr h"
  shows "grows g h \<and> event_node_id i \<in> node_ids h"
proof (cases "event_node_id i \<in> node_ids g")
  case False
  then obtain n where n: "gn_id n = event_node_id i"
    "h = g\<lparr>gr_nodes := gr_nodes g @ [(event_node_id i, n)]\<rparr>"
    using assms by (auto simp: ensure_event_reference_node_def bnd_Inr_iff dest: graph_node_id)
  have "closed_graph g \<Longrightarrow> closed_graph h"
    unfolding n(2) using False n(1) by (intro closed_nodes [where n = n]) (simp_all add: closed_graph_def, auto)
  then show ?thesis using n(2) by (auto simp: grows_def)
qed (use assms in \<open>simp add: ensure_event_reference_node_def\<close>)

lemma grows_link_entity:
  assumes "link_entity source kind attribute rel value g = Inr h"
    and "source \<in> node_ids g"
  shows "grows g h"
proof -
  obtain n where n: "gn_id n = entity_node_id kind value"
    "add_edge source (entity_node_id kind value) rel (obj []) (add_node n g) = Inr h"
    using assms(1) by (auto simp: link_entity_def bnd_Inr_iff dest: graph_node_id)
  have "grows (add_node n g) h"
    using grows_add_edge [OF n(2)] assms(2) grows_add_node [of g n] add_node_in [of n g] n(1)
    by (auto simp: grows_def)
  then show ?thesis by (rule grows_trans [OF grows_add_node])
qed

lemma grows_link_entities:
  "link_entities source kind attribute rel vs g = Inr h \<Longrightarrow> source \<in> node_ids g \<Longrightarrow> grows g h"
proof (induction vs arbitrary: g)
  case (Cons v vs)
  then obtain k where k: "link_entity source kind attribute rel v g = Inr k"
    "link_entities source kind attribute rel vs k = Inr h"
    by (auto simp: bnd_Inr_iff)
  have "grows g k" using grows_link_entity [OF k(1) Cons.prems(2)] .
  moreover have "grows k h" using Cons.IH [OF k(2)] calculation Cons.prems(2) by (auto simp: grows_def)
  ultimately show ?case by (rule grows_trans)
qed simp

lemma grows_link_parent:
  assumes "link_parent event_ids node parent g = Inr h" "node \<in> node_ids g"
  shows "grows g h"
proof (cases parent)
  case (Some p)
  then obtain k where k: "ensure_event_reference_node event_ids p g = Inr k"
    "add_edge (event_node_id p) node ''causal_parent'' (obj []) k = Inr h"
    using assms(1) by (auto simp: link_parent_def bnd_Inr_iff)
  have g: "grows g k" "event_node_id p \<in> node_ids k" using grows_reference [OF k(1)] by auto
  then have "grows k h" using grows_add_edge [OF k(2)] assms(2) by (auto simp: grows_def)
  with g(1) show ?thesis by (rule grows_trans)
qed (use assms in \<open>simp add: link_parent_def\<close>)

lemma graph_event_grows:
  assumes "graph_event event_ids e g = Inr h" "member_text e ''event_id'' = Inr i"
  shows "grows g h \<and> event_node_id i \<in> node_ids h"
proof -
  obtain n k1 k2 k3 k4 tools resources where n: "gn_id n = event_node_id i"
    and k1: "link_parent event_ids (event_node_id i) (event_parent_id e) (put_node n g) = Inr k1"
    and k2: "link_entities (event_node_id i) ''principal'' ''principal_id'' ''performed_by''
      (opt_list (event_principal_id e)) k1 = Inr k2"
    and k3: "link_entities (event_node_id i) ''tool'' ''name'' ''uses_tool'' tools k2 = Inr k3"
    and k4: "link_entities (event_node_id i) ''resource'' ''identifier'' ''references_resource''
      resources k3 = Inr k4"
    and h: "link_entities (event_node_id i) ''verification_status'' ''status''
      ''has_verification_status'' (opt_list (event_verification_status e)) k4 = Inr h"
    using assms by (auto simp: graph_event_def bnd_Inr_iff Let_def dest: graph_node_id)
  let ?in = "\<lambda>g. event_node_id i \<in> node_ids g"
  have 0: "?in (put_node n g)" using put_node_in [of n g] n by simp
  have 1: "grows (put_node n g) k1" using grows_link_parent [OF k1 0] .
  then have 2: "?in k1" using 0 by (auto simp: grows_def)
  have 3: "grows k1 k2" using grows_link_entities [OF k2 2] .
  then have 4: "?in k2" using 2 by (auto simp: grows_def)
  have 5: "grows k2 k3" using grows_link_entities [OF k3 4] .
  then have 6: "?in k3" using 4 by (auto simp: grows_def)
  have 7: "grows k3 k4" using grows_link_entities [OF k4 6] .
  then have 8: "?in k4" using 6 by (auto simp: grows_def)
  have 9: "grows k4 h" using grows_link_entities [OF h 8] .
  then have "?in h" using 8 by (auto simp: grows_def)
  then show ?thesis using grows_put_node [of g n] 1 3 5 7 9 by (meson grows_trans)
qed

lemma graph_events_grow:
  assumes "graph_events event_ids es g = Inr h" "traverse (\<lambda>e. member_text e ''event_id'') es = Inr ids"
  shows "grows g h \<and> event_node_id ` set ids \<subseteq> node_ids h"
  using assms
proof (induction es arbitrary: g ids)
  case (Cons e es)
  then obtain k i js where k: "graph_event event_ids e g = Inr k" "graph_events event_ids es k = Inr h"
    and i: "member_text e ''event_id'' = Inr i" "traverse (\<lambda>e. member_text e ''event_id'') es = Inr js"
      "ids = i # js"
    by (auto simp: bnd_Inr_iff)
  have "grows g k \<and> event_node_id i \<in> node_ids k" using graph_event_grows [OF k(1) i(1)] .
  moreover have "grows k h \<and> event_node_id ` set js \<subseteq> node_ids h"
    using Cons.IH [OF k(2) i(2)] .
  moreover have "node_ids k \<subseteq> node_ids h" using calculation by (simp add: grows_def)
  ultimately show ?case using i(3) grows_trans [of g k h] by auto
qed simp

lemma graph_link_grows:
  assumes "graph_link event_ids l g = Inr h"
  shows "grows g h"
proof (cases "(string_or_none (dict_get l ''subject_event_id''),
    string_or_none (dict_get l ''evidence_event_id''))")
  case (Pair subject evidence)
  show ?thesis
  proof (cases "subject = None \<or> evidence = None")
    case True
    then show ?thesis using assms Pair by (auto simp: graph_link_def split: option.splits)
  next
    case False
    then obtain s v where sv: "subject = Some s" "evidence = Some v" by auto
    obtain k1 k2 rel attributes where k: "ensure_event_reference_node event_ids s g = Inr k1"
      "ensure_event_reference_node event_ids v k1 = Inr k2"
      "add_edge (event_node_id v) (event_node_id s) rel attributes k2 = Inr h"
      using assms Pair sv by (auto simp: graph_link_def bnd_Inr_iff Let_def)
    have "grows g k1" "grows k1 k2" "event_node_id s \<in> node_ids k2"
      "event_node_id v \<in> node_ids k2"
      using grows_reference [OF k(1)] grows_reference [OF k(2)] by (auto simp: grows_def)
    moreover have "grows k2 h" using grows_add_edge [OF k(3)] calculation by simp
    ultimately show ?thesis by (meson grows_trans)
  qed
qed

lemma graph_links_grow: "graph_links event_ids ls g = Inr h \<Longrightarrow> grows g h"
proof (induction ls arbitrary: g)
  case (Cons l ls)
  then show ?case using graph_link_grows grows_trans by (fastforce simp: bnd_Inr_iff)
qed simp

section \<open>Properties\<close>

lemma map_snd_ids:
  assumes "\<forall>(k, n)\<in>set d. f n = k"
  shows "map f (map snd (sort_key fst d)) = sort (map fst d)"
proof -
  have "map f (map snd (sort_key fst d)) = map fst (sort_key fst d)"
    using assms by (auto intro!: map_cong)
  also have "\<dots> = sort (map fst d)"
    by (rule properties_for_sort [symmetric]) simp_all
  finally show ?thesis .
qed

lemma snd_sort_key: "set (map snd (sort_key fst d)) = snd ` set d"
  by simp

text \<open>C37. The investigation graph of an incident is closed: its nodes have different ids in
  ascending order and so have its edges, both ends of every edge are nodes of the graph, and every
  event of the incident has its node.\<close>
theorem investigation_graph_closed:
  assumes "graph_of_events selector events = Inr x"
    and "traverse (\<lambda>e. member_text e ''event_id'') events = Inr ids"
  shows "sorted (map gn_id (gx_nodes x)) \<and> distinct (map gn_id (gx_nodes x))
    \<and> sorted (map ge_id (gx_edges x)) \<and> distinct (map ge_id (gx_edges x))
    \<and> ge_source ` set (gx_edges x) \<union> ge_target ` set (gx_edges x) \<subseteq> gn_id ` set (gx_nodes x)
    \<and> event_node_id ` set ids \<subseteq> gn_id ` set (gx_nodes x)"
proof -
  let ?e = "\<lparr>gr_nodes = [], gr_edges = []\<rparr>"
  obtain g h where g: "graph_events ids events ?e = Inr g"
    and h: "graph_links ids (evidence_links_from_event_objects events) g = Inr h"
    and x: "gx_nodes x = map snd (sort_key fst (gr_nodes h))" "gx_edges x = map snd (sort_key fst (gr_edges h))"
    using assms by (auto simp: graph_of_events_def bnd_Inr_iff)
  have e: "grows ?e g" "event_node_id ` set ids \<subseteq> node_ids g"
    using graph_events_grow [OF g assms(2)] by auto
  have gh: "grows g h" using graph_links_grow [OF h] .
  have c: "closed_graph h" and n: "event_node_id ` set ids \<subseteq> node_ids h"
    using e gh unfolding grows_def by (simp_all add: closed_graph_def [of ?e]) blast
  note c' = c [unfolded closed_graph_def]
  have a: "\<forall>(k, n)\<in>set (gr_nodes h). gn_id n = k" "\<forall>(k, e)\<in>set (gr_edges h). ge_id e = k"
    using c' by auto
  have ids: "map gn_id (gx_nodes x) = sort (map fst (gr_nodes h))"
    "map ge_id (gx_edges x) = sort (map fst (gr_edges h))"
    unfolding x by (rule map_snd_ids [OF a(1)], rule map_snd_ids [OF a(2)])
  then have nodes: "gn_id ` set (gx_nodes x) = node_ids h"
    by (metis list.set_map set_sort)
  have "set (gx_edges x) = snd ` set (gr_edges h)" unfolding x by simp
  then have "ge_source ` set (gx_edges x) \<union> ge_target ` set (gx_edges x) \<subseteq> node_ids h"
    using c' by auto
  then show ?thesis using ids c' n nodes by simp
qed

text \<open>Two events whose ids and tools share a text: the first with the tool of the second.\<close>

definition tool_event :: "string \<Rightarrow> string \<Rightarrow> pyv" where
  "tool_event i tool = obj
     [(''event_id'', VStr i), (''event_type'', VStr ''t''), (''occurred_at'', VStr ''o''),
      (''causality'', obj [(''sequence'', VInt 0)]), (''payload'', obj [(''tool'', VStr tool)])]"

theorem investigation_graph_closed_witness:
  "\<exists>x. graph_of_events (obj []) [tool_event ''a'' ''b''] = Inr x
    \<and> ge_source ` set (gx_edges x) \<union> ge_target ` set (gx_edges x) \<subseteq> gn_id ` set (gx_nodes x)
    \<and> length (gx_edges x) = 1"
proof -
  let ?es = "[tool_event ''a'' ''b'']"
  have "(case graph_of_events (obj []) ?es of Inr x \<Rightarrow> length (gx_edges x) = 1 | Inl _ \<Rightarrow> False)"
    by code_simp
  then have "\<exists>x. graph_of_events (obj []) ?es = Inr x \<and> length (gx_edges x) = 1"
    by (auto split: sum.splits)
  moreover have "traverse (\<lambda>e. member_text e ''event_id'') ?es = Inr [''a'']" by code_simp
  ultimately show ?thesis using investigation_graph_closed by blast
qed

text \<open>The id of an edge does not determine its ends: the edge from the second of two events
  to its tool is dropped, because the first event and its tool have the same edge id.\<close>
theorem investigation_graph_drops_edge:
  "map_option (\<lambda>x. (map ge_source (gx_edges x), map ge_target (gx_edges x)))
     (case graph_of_events (obj []) [tool_event ''a'' ''b:tool:c'', tool_event ''a:tool:b'' ''c''] of
        Inr x \<Rightarrow> Some x | Inl _ \<Rightarrow> None)
   = Some ([''event:a''], [''tool:b:tool:c''])"
  by code_simp

end
