(* ===== verification/CaseBundle.thy ===== *)
theory CaseBundle
  imports ProjectionExports
begin

text \<open>
  The case bundle (\<open>projection/sqlite.py\<close>): the files of an incident, the manifest that lists their
  digests, and the publication of the directory: everything is written to a staging directory that
  is renamed at the end. What the file system answers at each step is an argument.
\<close>

section \<open>Contents\<close>

definition CASE_BUNDLE_VERSION :: string where
  "CASE_BUNDLE_VERSION = ''actionlineage.dev/case-bundle-v0''"

definition CASE_BUNDLE_MANIFEST_VERSION :: string where
  "CASE_BUNDLE_MANIFEST_VERSION = ''actionlineage.dev/case-bundle-manifest-v0''"

definition CASE_BUNDLE_FILENAMES :: "string list" where
  "CASE_BUNDLE_FILENAMES = [''case.json'', ''events.ndjson'', ''report.md'']"

definition CASE_BUNDLE_MANIFEST_FILENAME :: string where
  "CASE_BUNDLE_MANIFEST_FILENAME = ''manifest.json''"

definition newline_text :: string where "newline_text = [CHR 0x0A]"

definition code_quote :: string where "code_quote = [CHR 0x60]"

definition case_markdown :: "pyv \<Rightarrow> string res" where
  "case_markdown data =
     (let selector = dict_get data ''selector''; summary = dict_get data ''summary'';
          listed = (\<lambda>label key.
            let joined = join_with '', '' (texts_of (dict_get summary key)) in
            ''- '' @ label @ '': '' @ (if joined = [] then ''none recorded'' else joined)) in
      bnd (py_str (dict_get selector ''type'')) (\<lambda>type_text.
      bnd (py_str (dict_get selector ''value'')) (\<lambda>value_text.
      bnd (py_str (dict_get data ''event_count'')) (\<lambda>count_text.
      bnd (py_str (dict_get data ''timeline_order'')) (\<lambda>order_text.
      bnd (py_str (dict_get summary ''verification_statuses'')) (\<lambda>statuses.
      Inr (join_with newline_text
        [''# ActionLineage Case Report'', [],
         ''- Selector: '' @ code_quote @ type_text @ ''='' @ value_text @ code_quote,
         ''- Event count: '' @ count_text,
         ''- Timeline order: '' @ order_text,
         listed ''Principals'' ''principals'', listed ''Tools'' ''tools'',
         listed ''Resources'' ''resources'', [], ''## Verification'', [], claims_language,
         ''Verification statuses: '' @ statuses, []])))))))"

definition case_bundle_file_manifest :: "string \<Rightarrow> bytes \<Rightarrow> pyv" where
  "case_bundle_file_manifest filename data =
     obj [(''path'', VStr filename), (''size_bytes'', VInt (int (length data))),
          (''sha256'', VStr (''sha256:'' @ sha256_hex data))]"

definition case_bundle_manifest ::
  "pyv \<Rightarrow> (string \<times> bytes) list \<Rightarrow> string option \<Rightarrow> string option \<Rightarrow> pyv res" where
  "case_bundle_manifest data artifacts trace run =
     (case dict_get data ''verification'' of
        VDict v \<Rightarrow>
          (case get_or_none v ''journal'' of
             VDict j \<Rightarrow>
               Inr (obj
                 [(''manifest_version'', VStr CASE_BUNDLE_MANIFEST_VERSION),
                  (''bundle_version'', VStr CASE_BUNDLE_VERSION),
                  (''incident_export_version'', dict_get data ''export_version''),
                  (''canonicalization'', VStr CANONICALIZATION_VERSION),
                  (''selector'', dict_get data ''selector''),
                  (''query'', obj [(''trace_id'', opt_str trace), (''run_id'', opt_str run)]),
                  (''journal'', obj
                     [(''source_identity'', get_or_none v ''source_journal_identity''),
                      (''record_count'', get_or_none j ''record_count''),
                      (''terminal_hash'', get_or_none j ''terminal_hash''),
                      (''journal_sha256'', get_or_none j ''journal_sha256''),
                      (''verification'', get_or_none j ''verification'')]),
                  (''projection'', obj
                     [(''schema_version'', get_or_none v ''schema_version''),
                      (''state'', get_or_none v ''state''),
                      (''projection_identity'', get_or_none v ''projection_identity''),
                      (''records_indexed'', get_or_none v ''records_indexed''),
                      (''source_journal_identity'', get_or_none v ''source_journal_identity''),
                      (''source_journal_sha256'', get_or_none v ''source_journal_sha256'')]),
                  (''files'', VList (map (\<lambda>f.
                     case_bundle_file_manifest f (case dget artifacts f of None \<Rightarrow> [] | Some d \<Rightarrow> d))
                     CASE_BUNDLE_FILENAMES)),
                  (''external_signature'', VNone), (''external_checkpoint'', VNone)])
           | _ \<Rightarrow> raise ProjectionQueryError ''case bundle export requires verified journal binding'')
      | _ \<Rightarrow> raise ProjectionQueryError ''case bundle export requires verified projection binding'')"

definition json_line :: "pyv \<Rightarrow> bytes res" where
  "json_line v = bnd (deterministic_json_bytes v) (\<lambda>bs. Inr (bs @ newline_text))"

definition artifact_payloads :: "pyv \<Rightarrow> (string \<times> bytes) list res" where
  "artifact_payloads data =
     bnd (json_line data) (\<lambda>case_json.
     bnd (traverse json_line (list_items (dict_get data ''events''))) (\<lambda>lines.
     bnd (case_markdown data) (\<lambda>report.
     bnd (py_encode report) (\<lambda>report_bytes.
     Inr [(''case.json'', case_json), (''events.ndjson'', concat lines), (''report.md'', report_bytes)]))))"

definition bundle_payloads :: "pyv \<Rightarrow> string option \<Rightarrow> string option \<Rightarrow> (string \<times> bytes) list res" where
  "bundle_payloads data trace run =
     bnd (artifact_payloads data) (\<lambda>artifacts.
     bnd (case_bundle_manifest data artifacts trace run) (\<lambda>manifest.
     bnd (json_line manifest) (\<lambda>manifest_bytes.
     Inr (artifacts @ [(CASE_BUNDLE_MANIFEST_FILENAME, manifest_bytes)]))))"

section \<open>Publication\<close>

datatype mkdir_outcome =
    MkdirOk
  | MkdirNotPrivate   \<comment> \<open>the mode stays readable by others after \<open>chmod\<close>\<close>
  | MkdirExists | MkdirError

datatype file_outcome = FileOk | FileExists | FileError

text \<open>
  What publishing meets: does the destination exist (before staging and before the rename), the
  answers to creating the parent, to each attempt to create a staging directory, to each file, to
  the synchronizations and to the rename.
\<close>

record bundle_env =
  be_posix :: bool
  be_exists :: bool
  be_parent :: "unit res"
  be_attempts :: "nat \<Rightarrow> mkdir_outcome"
  be_files :: "string \<Rightarrow> file_outcome"
  be_sync :: "unit res"
  be_exists_late :: bool
  be_replace :: "unit res"
  be_parent_sync :: "unit res"

text \<open>
  The directories that matter: the published bundle and the staging directory, each with its files.
\<close>

record bundle_dirs =
  bd_output :: "(string \<times> bytes) list option"
  bd_staging :: "(string \<times> bytes) list option"

abbreviation query_error_of :: "string \<Rightarrow> 'a res" where
  "query_error_of message \<equiv> raise ProjectionQueryError message"

text \<open>Ten attempts to create the staging directory, and the last one's answer.\<close>

fun staging_attempts :: "bundle_env \<Rightarrow> path \<Rightarrow> nat \<Rightarrow> nat \<Rightarrow> unit res" where
  "staging_attempts env d n 0 = query_error_of ''failed to allocate unique case bundle staging directory''"
| "staging_attempts env d n (Suc k) =
     (case be_attempts env n of
        MkdirOk \<Rightarrow> Inr ()
      | MkdirExists \<Rightarrow> staging_attempts env d (Suc n) k
      | MkdirError \<Rightarrow> query_error_of ''failed to create case bundle staging directory''
      | MkdirNotPrivate \<Rightarrow>
          if be_posix env
          then query_error_of (''case bundle directory is not private: '' @ path_str d @ ''; expected mode 0700 or stricter'')
          else Inr ())"

definition path_name :: "path \<Rightarrow> string" where
  "path_name p = (if pt_parts p = [] then [] else last (pt_parts p))"

text \<open>
  \<open>_create_case_bundle_staging_dir\<close> with the resolved destination; a directory that was created but
  is not private is left behind, empty.
\<close>

definition create_staging_dir :: "bundle_env \<Rightarrow> path \<Rightarrow> bundle_dirs \<Rightarrow> unit res \<times> bundle_dirs" where
  "create_staging_dir env final_dir dirs =
     (if pt_parts final_dir = []
      then (query_error_of ''case bundle output directory must be below a parent directory'', dirs)
      else if be_exists env
      then (query_error_of (''case bundle output already exists: '' @ path_name final_dir), dirs)
      else
        (case be_parent env of
           Inl e \<Rightarrow>
             (if is_a (exn_kind e) OSError
              then query_error_of ''failed to prepare case bundle parent directory'' else Inl e, dirs)
         | Inr _ \<Rightarrow>
             (case staging_attempts env final_dir 0 10 of
                Inl e \<Rightarrow> (Inl e, dirs)
              | Inr _ \<Rightarrow> (Inr (), dirs\<lparr>bd_staging := Some []\<rparr>))))"

fun write_files :: "bundle_env \<Rightarrow> (string \<times> bytes) list \<Rightarrow> bundle_dirs \<Rightarrow> unit res \<times> bundle_dirs" where
  "write_files env [] dirs = (Inr (), dirs)"
| "write_files env ((name, data) # files) dirs =
     (case be_files env name of
        FileExists \<Rightarrow> (query_error_of (''case bundle output already exists: '' @ name), dirs)
      | FileError \<Rightarrow> (query_error_of (''failed to write case bundle output: '' @ name), dirs)
      | FileOk \<Rightarrow>
          write_files env files
            (dirs\<lparr>bd_staging := map_option (\<lambda>fs. fs @ [(name, data)]) (bd_staging dirs)\<rparr>))"

definition os_error_as :: "string \<Rightarrow> unit res \<Rightarrow> unit res" where
  "os_error_as message r =
     (case r of
        Inl e \<Rightarrow> if is_a (exn_kind e) OSError then query_error_of message else Inl e
      | Inr _ \<Rightarrow> Inr ())"

definition publish_directory :: "bundle_env \<Rightarrow> path \<Rightarrow> bundle_dirs \<Rightarrow> unit res \<times> bundle_dirs" where
  "publish_directory env final_dir dirs =
     (if be_exists_late env
      then (query_error_of (''case bundle output already exists: '' @ path_name final_dir), dirs)
      else
        (case be_replace env of
           Inl e \<Rightarrow>
             (if exn_kind e = FileExistsError
              then query_error_of (''case bundle output already exists: '' @ path_name final_dir)
              else if is_a (exn_kind e) OSError
              then query_error_of ''failed to publish completed case bundle'' else Inl e, dirs)
         | Inr _ \<Rightarrow>
             (os_error_as ''failed to sync case bundle parent directory'' (be_parent_sync env),
              dirs\<lparr>bd_output := bd_staging dirs, bd_staging := None\<rparr>)))"

text \<open>The body of the \<open>try\<close>; any exception removes the staging directory.\<close>

definition write_and_publish ::
  "bundle_env \<Rightarrow> path \<Rightarrow> (string \<times> bytes) list \<Rightarrow> bundle_dirs \<Rightarrow> unit res \<times> bundle_dirs" where
  "write_and_publish env final_dir payloads dirs =
     (case write_files env payloads dirs of
        (Inl e, dirs) \<Rightarrow> (Inl e, dirs\<lparr>bd_staging := None\<rparr>)
      | (Inr _, dirs) \<Rightarrow>
          (case os_error_as ''failed to sync case bundle staging directory'' (be_sync env) of
             Inl e \<Rightarrow> (Inl e, dirs\<lparr>bd_staging := None\<rparr>)
           | Inr _ \<Rightarrow>
               (case publish_directory env final_dir dirs of
                  (Inl e, dirs) \<Rightarrow> (Inl e, dirs\<lparr>bd_staging := None\<rparr>)
                | (Inr _, dirs) \<Rightarrow> (Inr (), dirs))))"

record CaseBundleExport =
  cb_output_dir :: path
  cb_incident :: TimelineResult

text \<open>
  \<open>export_case_bundle\<close> after the query: the staging directory is created before the payloads are
  computed, outside of the \<open>try\<close>, so an exception while they are computed leaves it behind.
\<close>

definition publish_case_bundle ::
  "bundle_env \<Rightarrow> path res \<Rightarrow> string option \<Rightarrow> string option \<Rightarrow> TimelineResult \<Rightarrow> bundle_dirs
   \<Rightarrow> CaseBundleExport res \<times> bundle_dirs" where
  "publish_case_bundle env resolved trace run incident dirs =
     (case resolved of
        Inl e \<Rightarrow> (Inl e, dirs)
      | Inr final_dir \<Rightarrow>
          (case create_staging_dir env final_dir dirs of
             (Inl e, dirs) \<Rightarrow> (Inl e, dirs)
           | (Inr _, dirs) \<Rightarrow>
               (case bnd (IncidentExport_as_dict incident) (\<lambda>data. bundle_payloads data trace run) of
                  Inl e \<Rightarrow> (Inl e, dirs)
                | Inr payloads \<Rightarrow>
                    (case write_and_publish env final_dir payloads dirs of
                       (Inl e, dirs) \<Rightarrow> (Inl e, dirs)
                     | (Inr _, dirs) \<Rightarrow>
                         (Inr \<lparr>cb_output_dir = final_dir, cb_incident = incident\<rparr>, dirs)))))"

definition CaseBundleExport_as_dict :: "CaseBundleExport \<Rightarrow> pyv res" where
  "CaseBundleExport_as_dict b =
     bnd (IncidentExport_as_dict (cb_incident b)) (\<lambda>incident.
     Inr (obj
       [(''ok'', VBool True), (''bundle_version'', VStr CASE_BUNDLE_VERSION),
        (''files'', obj
           [(''case_json'', VStr ''case.json''), (''events_ndjson'', VStr ''events.ndjson''),
            (''report_markdown'', VStr ''report.md''),
            (''manifest'', VStr CASE_BUNDLE_MANIFEST_FILENAME)]),
        (''incident'', incident)]))"

definition CaseBundleExport_diagnostics :: "CaseBundleExport \<Rightarrow> pyv" where
  "CaseBundleExport_diagnostics b =
     (let file = (\<lambda>n. VStr (path_str (path_join (cb_output_dir b) (Path n)))) in
      obj
        [(''ok'', VBool True), (''bundle_version'', VStr CASE_BUNDLE_VERSION),
         (''output_dir'', VStr (path_str (cb_output_dir b))), (''json_path'', file ''case.json''),
         (''ndjson_path'', file ''events.ndjson''), (''markdown_path'', file ''report.md''),
         (''manifest_path'', file CASE_BUNDLE_MANIFEST_FILENAME)])"

end
