(* ===== verification/BundleClaims.thy ===== *)
theory BundleClaims
  imports CaseBundle
begin

text \<open>
  Publishing a case bundle is atomic: the output directory is left as it was, or holds every file of
  the bundle under a manifest with their digests.
\<close>

section \<open>Writing and renaming\<close>

lemma write_files_ok:
  "write_files env files dirs = (Inr (), dirs') \<Longrightarrow>
     dirs' = dirs\<lparr>bd_staging := map_option (\<lambda>fs. fs @ files) (bd_staging dirs)\<rparr>"
proof (induction env files dirs rule: write_files.induct)
  case (1 env dirs)
  then show ?case by (cases dirs) (simp add: option.map_ident)
next
  case (2 env name data files dirs)
  then show ?case by (auto split: file_outcome.splits simp: option.map_comp o_def)
qed

lemma write_files_output: "write_files env files dirs = (r, dirs') \<Longrightarrow> bd_output dirs' = bd_output dirs"
  by (induction env files dirs rule: write_files.induct) (auto split: file_outcome.splits)

lemma publish_directory_output:
  assumes "publish_directory env final_dir dirs = (r, dirs')"
  shows "bd_output dirs' = bd_output dirs \<and> (\<exists>e. r = Inl e) \<or> bd_output dirs' = bd_staging dirs"
proof (cases "be_replace env")
  case (Inl e)
  then show ?thesis using assms by (auto simp: publish_directory_def split: if_split_asm) metis
next
  case (Inr u)
  then show ?thesis using assms by (auto simp: publish_directory_def split: if_split_asm)
qed

lemma write_and_publish_output:
  assumes "write_and_publish env final_dir payloads dirs = (r, dirs')" "bd_staging dirs = Some []"
  shows "bd_output dirs' = bd_output dirs \<and> (\<exists>e. r = Inl e) \<or> bd_output dirs' = Some payloads"
proof (cases "write_files env payloads dirs")
  case (Pair r1 d1)
  then show ?thesis
    using assms write_files_output [OF Pair] write_files_ok [of env payloads dirs d1]
    by (auto simp: write_and_publish_def split: sum.splits prod.splits dest!: publish_directory_output)
      metis
qed

lemma create_staging_dir_output:
  "create_staging_dir env final_dir dirs = (r, dirs') \<Longrightarrow>
     bd_output dirs' = bd_output dirs \<and> (r = Inr () \<longrightarrow> bd_staging dirs' = Some [])"
  by (auto simp: create_staging_dir_def split: sum.splits if_split_asm)

section \<open>The manifest\<close>

definition bundle_holds :: "pyv \<Rightarrow> (string \<times> bytes) list \<Rightarrow> bool" where
  "bundle_holds data payloads \<longleftrightarrow>
     (\<exists>files manifest manifest_bytes.
        payloads = files @ [(CASE_BUNDLE_MANIFEST_FILENAME, manifest_bytes)]
        \<and> map fst files = CASE_BUNDLE_FILENAMES
        \<and> artifact_payloads data = Inr files
        \<and> json_line manifest = Inr manifest_bytes
        \<and> dict_get manifest ''files'' = VList (map (\<lambda>(n, d). case_bundle_file_manifest n d) files))"

lemma manifest_files:
  assumes "case_bundle_manifest data artifacts trace run = Inr manifest"
  shows "dict_get manifest ''files'' = VList (map (\<lambda>f.
    case_bundle_file_manifest f (case dget artifacts f of None \<Rightarrow> [] | Some d \<Rightarrow> d)) CASE_BUNDLE_FILENAMES)"
  using assms by (auto simp: case_bundle_manifest_def dict_get_def get_or_none_def get_item_def
      split: pyv.splits)

lemma payloads_hold:
  assumes "bundle_payloads data trace run = Inr payloads"
  shows "bundle_holds data payloads"
proof -
  obtain artifacts manifest bs where a: "artifact_payloads data = Inr artifacts"
    "case_bundle_manifest data artifacts trace run = Inr manifest" "json_line manifest = Inr bs"
    "payloads = artifacts @ [(CASE_BUNDLE_MANIFEST_FILENAME, bs)]"
    using assms by (auto simp: bundle_payloads_def bnd_Inr_iff)
  obtain c l r where n: "artifacts = [(''case.json'', c), (''events.ndjson'', l), (''report.md'', r)]"
    using a(1) by (auto simp: artifact_payloads_def bnd_Inr_iff)
  have "dict_get manifest ''files'' = VList (map (\<lambda>(n, d). case_bundle_file_manifest n d) artifacts)"
    using manifest_files [OF a(2)] by (simp add: n CASE_BUNDLE_FILENAMES_def)
  then show ?thesis
    using a n by (auto simp: bundle_holds_def CASE_BUNDLE_FILENAMES_def)
qed

section \<open>Properties\<close>

text \<open>C38. Publication of a case bundle is atomic: whatever the file system answers, either it fails
  and the output directory is left as it was, or the output directory holds the files of the bundle
  and a manifest that lists the name, the size and the SHA-256 digest of each of them.\<close>
theorem case_bundle_atomic:
  "case publish_case_bundle env resolved trace run incident dirs of (r, dirs') \<Rightarrow>
     (\<exists>e. r = Inl e) \<and> bd_output dirs' = bd_output dirs
     \<or> (\<exists>data payloads. IncidentExport_as_dict incident = Inr data
          \<and> bd_output dirs' = Some payloads \<and> bundle_holds data payloads)"
proof (cases "publish_case_bundle env resolved trace run incident dirs")
  case (Pair r dirs')
  have "(\<exists>e. r = Inl e) \<and> bd_output dirs' = bd_output dirs
     \<or> (\<exists>data payloads. IncidentExport_as_dict incident = Inr data
          \<and> bundle_payloads data trace run = Inr payloads \<and> bd_output dirs' = Some payloads)"
    using Pair by (auto simp: publish_case_bundle_def bnd_Inr_iff split: sum.splits prod.splits
        dest!: create_staging_dir_output dest: write_and_publish_output)
  then show ?thesis using Pair payloads_hold by auto
qed

end
