(* ===== verification/Service.thy ===== *)
theory Service
  imports Ingestion Tenancy ContractForms DetectionRules CaseBundle
begin

text \<open>
  The HTTP service: \<open>service/health.py\<close>, the handlers of \<open>service/api.py\<close> and the configuration of
  \<open>service/runtime.py\<close>. FastAPI routes a request to its handler and prints what the handler gives
  it; a reply is what the handler hands over: a status with its content, an \<open>HTTPException\<close>, or an
  exception that no handler catches. A body is a parsed JSON object.

  What a handler finds in the journal and in the database may differ from what the request before it
  left there, since other processes work on them: the environment says what each access meets.
\<close>

section \<open>Health\<close>

datatype HealthState = HS_OK | HS_DEGRADED

fun HealthState_value :: "HealthState \<Rightarrow> string" where
  "HealthState_value HS_OK = ''ok''"
| "HealthState_value HS_DEGRADED = ''degraded''"

record HealthIssue =
  hi_code :: string
  hi_message :: string
  hi_details :: "pyv option"

record HealthReport =
  hr_state :: HealthState
  hr_issues :: "HealthIssue list"

definition HealthReport_ok :: "HealthReport \<Rightarrow> bool" where
  "HealthReport_ok r \<longleftrightarrow> hr_state r = HS_OK"

definition safe_issue_details :: "cset \<Rightarrow> pyv option \<Rightarrow> pyv" where
  "safe_issue_details alnum details =
     (case details of
        None \<Rightarrow> VDict []
      | Some d \<Rightarrow>
          (case RedactionPolicy_apply ((default_policy alnum)\<lparr>max_string_length := 512\<rparr>) d of
             Inl e \<Rightarrow> obj [(''error'', VStr ''health issue detail could not be redacted safely'')]
           | Inr redacted \<Rightarrow>
               (case redacted of
                  VDict r \<Rightarrow> VDict r
                | _ \<Rightarrow> obj [(''detail'', redacted)])))"

definition HealthIssue_as_dict :: "cset \<Rightarrow> HealthIssue \<Rightarrow> pyv res" where
  "HealthIssue_as_dict alnum i =
     bnd (redact_error_text alnum (hi_message i)) (\<lambda>message.
     Inr (obj [(''code'', VStr (hi_code i)), (''message'', VStr message),
               (''details'', safe_issue_details alnum (hi_details i))]))"

definition HealthReport_as_dict :: "cset \<Rightarrow> HealthReport \<Rightarrow> pyv res" where
  "HealthReport_as_dict alnum r =
     bnd (traverse (HealthIssue_as_dict alnum) (hr_issues r)) (\<lambda>issues.
     Inr (obj [(''ok'', VBool (HealthReport_ok r)), (''state'', VStr (HealthState_value (hr_state r))),
               (''issues'', VList issues)]))"

definition health_report :: "HealthIssue list \<Rightarrow> HealthReport" where
  "health_report issues =
     \<lparr>hr_state = (if issues = [] then HS_OK else HS_DEGRADED), hr_issues = issues\<rparr>"

definition journal_issues :: "VerifiedJournalSnapshot res \<Rightarrow> HealthIssue list res" where
  "journal_issues r =
     (case r of
        Inl e \<Rightarrow>
          if is_a (exn_kind e) JournalError
          then Inr [\<lparr>hi_code = ''journal_unavailable'',
                     hi_message = ''local journal could not be locked or read for verification'',
                     hi_details = Some (obj [(''error_type'', VStr (journal_error_name (exn_kind e)))])\<rparr>]
          else Inl e
      | Inr s \<Rightarrow>
          if snapshot_ok s then Inr []
          else Inr [\<lparr>hi_code = ProjectionStateCode_value PS_JOURNAL_INVALID,
                     hi_message = ''local journal verification failed'',
                     hi_details = Some (obj
                       [(''verification'', VerificationResult_as_dict (js_verification s))])\<rparr>])"

definition projection_issues :: "cset \<Rightarrow> 'a pres \<Rightarrow> HealthIssue list pres" where
  "projection_issues alnum r =
     (case r of
        Inr x \<Rightarrow> Inr []
      | Inl (StateError code message details) \<Rightarrow>
          bnd (plain (redact_error_text alnum message)) (\<lambda>text1.
          Inr [\<lparr>hi_code = ProjectionStateCode_value code, hi_message = text1,
                hi_details = Some (safe_issue_details alnum (Some details))\<rparr>])
      | Inl e \<Rightarrow> Inl e)"

definition check_local_health ::
  "pydantic \<Rightarrow> cset \<Rightarrow> snapshot_env \<Rightarrow> reader_env \<Rightarrow> path \<Rightarrow> path option \<Rightarrow> HealthReport pres" where
  "check_local_health pd alnum senv renv journal_path database_path =
     bnd (plain (journal_issues (Projection.locked_snapshot pd senv None None))) (\<lambda>issues.
     bnd (case database_path of
            None \<Rightarrow> Inr []
          | Some db \<Rightarrow>
              if issues \<noteq> [] then Inr []
              else projection_issues alnum (verify_projection_state pd renv db journal_path)) (\<lambda>more.
     Inr (health_report (issues @ more))))"

section \<open>Replies\<close>

datatype reply =
    Reply int pyv            \<comment> \<open>\<open>JSONResponse\<close>, or a dict with status 200\<close>
  | HttpError int pyv        \<comment> \<open>\<open>HTTPException(status_code, detail)\<close>\<close>
  | Crash projection_error   \<comment> \<open>an exception that leaves the handler\<close>

fun is_projection_error :: "projection_error \<Rightarrow> bool" where
  "is_projection_error (StateError code message details) = True"
| "is_projection_error (JournalUnverified p verification) = True"
| "is_projection_error (Failure e) = is_a (exn_kind e) ProjectionError"

fun failure_is :: "exn_class \<Rightarrow> projection_error \<Rightarrow> bool" where
  "failure_is k (Failure e) = is_a (exn_kind e) k"
| "failure_is k err = False"

definition safe_detail :: "cset \<Rightarrow> projection_error \<Rightarrow> string res" where
  "safe_detail alnum err =
     (case err of
        Failure e \<Rightarrow> safe_error_detail alnum ''service request validation failed'' e
      | StateError code message details \<Rightarrow> redact_error_text alnum message
      | JournalUnverified p verification \<Rightarrow>
          redact_error_text alnum ''cannot rebuild projection from a journal that fails verification'')"

definition detail_error :: "cset \<Rightarrow> int \<Rightarrow> projection_error \<Rightarrow> reply" where
  "detail_error alnum status err =
     (case safe_detail alnum err of
        Inl e \<Rightarrow> Crash (Failure e)
      | Inr detail \<Rightarrow> HttpError status (VStr detail))"

definition integrity_detail_from_error :: "exn \<Rightarrow> pyv" where
  "integrity_detail_from_error e =
     obj [(''error'', VStr ''journal_integrity_error''),
          (''message'', VStr ''internal journal could not be safely consumed''),
          (''error_type'', VStr (journal_error_name (exn_kind e)))]"

text \<open>\<open>except ServiceAuthError\<close>\<close>

definition auth_error :: "int \<Rightarrow> exn \<Rightarrow> reply" where
  "auth_error status e =
     (if is_a (exn_kind e) ServiceAuthError then HttpError status (VStr (exn_message e))
      else Crash (Failure e))"

type_synonym 'a handled = "reply + 'a"

text \<open>What a handler's result is when its exceptions are turned into replies by \<open>f\<close>.\<close>

definition catching :: "('e \<Rightarrow> reply) \<Rightarrow> 'e + 'a \<Rightarrow> 'a handled" where
  "catching f r = (case r of Inl e \<Rightarrow> Inl (f e) | Inr x \<Rightarrow> Inr x)"

definition replied :: "pyv handled \<Rightarrow> reply" where
  "replied r = (case r of Inl p \<Rightarrow> p | Inr content \<Rightarrow> Reply 200 content)"

section \<open>What requests meet\<close>

record service_config =
  sc_journal_path :: path
  sc_database_path :: path
  sc_export_root :: path
  sc_authenticate :: "string option \<Rightarrow> ServicePrincipal res"
  sc_instance_id :: string

record service_state =
  st_journal :: "bytes option"
  st_database :: db_file
  st_exports :: bundle_dirs

text \<open>
  \<open>sv_snapshot\<close>, \<open>sv_reader\<close> and \<open>sv_rebuild\<close> say what the accesses meet when the state is as given;
  \<open>sv_ids\<close> and \<open>sv_clock\<close> are the generator and the clock of a new normalizer, \<open>sv_uuid\<close> and
  \<open>sv_received\<close> the identifier and the time drawn for the provenance.
\<close>

record ('g, 'c) service_env =
  sv_alnum :: cset
  sv_regex :: regex_search
  sv_fs :: filesystem
  sv_snapshot :: "service_state \<Rightarrow> snapshot_env"
  sv_reader :: "service_state \<Rightarrow> reader_env"
  sv_batch :: batch_env
  sv_rebuild :: "bytes option \<Rightarrow> rebuild_env"
  sv_bundle :: bundle_env
  sv_ids :: 'g
  sv_clock :: 'c
  sv_uuid :: string
  sv_received :: datetime

section \<open>Authentication\<close>

definition removeprefix :: "string \<Rightarrow> string \<Rightarrow> string" where
  "removeprefix s start = (if py_startswith s start then drop (length start) s else s)"

definition bearer_token :: "string option \<Rightarrow> string option" where
  "bearer_token authorization =
     (case authorization of
        None \<Rightarrow> None
      | Some s \<Rightarrow> if s = [] then None else Some (strip_text (removeprefix s ''Bearer '')))"

definition request_principal :: "service_config \<Rightarrow> string option \<Rightarrow> ServicePrincipal handled" where
  "request_principal cfg authorization =
     catching (auth_error 401) (sc_authenticate cfg (bearer_token authorization))"

section \<open>Reading\<close>

definition live :: reply where
  "live = Reply 200 (obj [(''ok'', VBool True), (''state'', VStr ''live'')])"

text \<open>\<open>/ready\<close> and \<open>/health\<close> are the same.\<close>

definition ready :: "pydantic \<Rightarrow> ('g, 'c) service_env \<Rightarrow> service_config \<Rightarrow> service_state \<Rightarrow> reply" where
  "ready pd env cfg st =
     (case check_local_health pd (sv_alnum env) (sv_snapshot env st) (sv_reader env st)
             (sc_journal_path cfg) (Some (sc_database_path cfg)) of
        Inl e \<Rightarrow> Crash e
      | Inr report \<Rightarrow>
          (case HealthReport_as_dict (sv_alnum env) report of
             Inl e \<Rightarrow> Crash (Failure e)
           | Inr content \<Rightarrow> Reply (if HealthReport_ok report then 200 else 503) content))"

definition timeline ::
  "pydantic \<Rightarrow> ('g, 'c) service_env \<Rightarrow> service_config \<Rightarrow> service_state \<Rightarrow> ServicePrincipal
     \<Rightarrow> string option \<Rightarrow> string option \<Rightarrow> reply" where
  "timeline pd env cfg st principal1 trace run =
     replied
       (bnd (catching (auth_error 403) (require_capability principal1 EVENTS_READ)) (\<lambda>_.
        catching (\<lambda>err. if is_projection_error err then detail_error (sv_alnum env) 503 err else Crash err)
          (bnd (query_timeline pd (sv_reader env st) (sc_database_path cfg) (sc_journal_path cfg) trace run)
             (\<lambda>t. plain (TimelineResult_as_dict t)))))"

definition verified_snapshot_or_503 ::
  "pydantic \<Rightarrow> ('g, 'c) service_env \<Rightarrow> service_state \<Rightarrow> VerifiedJournalSnapshot handled" where
  "verified_snapshot_or_503 pd env st =
     bnd (catching (\<lambda>e. if is_a (exn_kind e) JournalError
                       then HttpError 503 (integrity_detail_from_error e) else Crash (Failure e))
            (Projection.locked_snapshot pd (sv_snapshot env st) None None)) (\<lambda>snapshot.
     if snapshot_ok snapshot then Inr snapshot
     else Inl (HttpError 503 (obj
            [(''error'', VStr ''journal_integrity_error''),
             (''verification'', VerificationResult_as_dict (js_verification snapshot))])))"

definition event_provenance :: "event \<Rightarrow> pyv" where
  "event_provenance e =
     obj [(''event_id'', VStr (event_id e)),
          (''ingestion_provenance'',
           VStr (if map_items (mapping_get (payload e) ''ingested_by'') \<noteq> None
                 then ''service_authenticated'' else ''legacy_no_ingested_by''))]"

definition list_events ::
  "pydantic \<Rightarrow> ('g, 'c) service_env \<Rightarrow> service_state \<Rightarrow> ServicePrincipal \<Rightarrow> reply" where
  "list_events pd env st principal1 =
     replied
       (bnd (catching (auth_error 403) (require_capability principal1 EVENTS_READ)) (\<lambda>_.
        bnd (verified_snapshot_or_503 pd env st) (\<lambda>snapshot.
        Inr (obj
          [(''ok'', VBool True),
           (''events'', VList (map event_provenance (js_events snapshot))),
           (''verification'', VerificationResult_as_dict (js_verification snapshot))]))))"

definition object_body_field :: "pydict \<Rightarrow> string \<Rightarrow> pydict res" where
  "object_body_field body name =
     (case get_or_none body name of
        VDict d \<Rightarrow> Inr d
      | _ \<Rightarrow> raise ValueError (''request body must include '' @ name @ '' object''))"

definition built_in_detection_results ::
  "pydantic \<Rightarrow> regex_search \<Rightarrow> event list \<Rightarrow> DetectionMatch list res" where
  "built_in_detection_results pd rx events =
     bnd (traverse (evaluate_sequence_rule pd rx events) built_in_sequence_rules) (\<lambda>ms. Inr (concat ms))"

text \<open>\<open>except ServiceAuthError\<close>, \<open>except (ActionLineageValidationError, ValueError)\<close>\<close>

definition request_error :: "cset \<Rightarrow> exn \<Rightarrow> reply" where
  "request_error alnum e =
     (if is_a (exn_kind e) ServiceAuthError then HttpError 403 (VStr (exn_message e))
      else if is_a (exn_kind e) ActionLineageValidationError \<or> is_a (exn_kind e) ValueError
      then detail_error alnum 400 (Failure e)
      else Crash (Failure e))"

definition validate_contract_endpoint ::
  "pydantic \<Rightarrow> ('g, 'c) service_env \<Rightarrow> service_state \<Rightarrow> ServicePrincipal \<Rightarrow> pydict \<Rightarrow> reply" where
  "validate_contract_endpoint pd env st principal1 body =
     (replied
        (bnd (catching (request_error (sv_alnum env)) (require_capability principal1 EVENTS_READ)) (\<lambda>_.
         bnd (catching (request_error (sv_alnum env))
                (bnd (object_body_field body ''contract'') contract_from_dict)) (\<lambda>contract.
         bnd (verified_snapshot_or_503 pd env st) (\<lambda>snapshot.
         catching (request_error (sv_alnum env))
           (bnd (built_in_detection_results pd (sv_regex env) (js_events snapshot)) (\<lambda>detections.
            bnd (validate_contract pd (js_events snapshot) contract detections
                   (Some (js_verification snapshot))) (\<lambda>result.
            Inr (ContractResult_as_dict result)))))))))"

definition requested_rule_ids :: "pydict \<Rightarrow> string list res" where
  "requested_rule_ids body =
     (case get_or_none body ''rule_ids'' of
        VNone \<Rightarrow> Inr []
      | VList xs \<Rightarrow>
          if list_all is_str xs
          then Inr (concat (map (\<lambda>x. case x of VStr s \<Rightarrow> [s] | _ \<Rightarrow> []) xs))
          else raise ValueError ''rule_ids must be an array of strings''
      | _ \<Rightarrow> raise ValueError ''rule_ids must be an array of strings'')"

definition rule_requested :: "string list \<Rightarrow> SequenceRule \<Rightarrow> bool" where
  "rule_requested ids rule \<longleftrightarrow>
     ids = [] \<or> (case sr_rule_id rule of None \<Rightarrow> False | Some i \<Rightarrow> i \<in> set ids)"

definition detections_evaluate ::
  "pydantic \<Rightarrow> ('g, 'c) service_env \<Rightarrow> service_state \<Rightarrow> ServicePrincipal \<Rightarrow> pydict option \<Rightarrow> reply" where
  "detections_evaluate pd env st principal1 body =
     replied
       (bnd (catching (\<lambda>e. if is_a (exn_kind e) ValueError then detail_error (sv_alnum env) 400 (Failure e)
                       else auth_error 403 e)
               (bnd (require_capability principal1 DETECTIONS_RUN) (\<lambda>_.
                requested_rule_ids (or_default body [])))) (\<lambda>ids.
        bnd (verified_snapshot_or_503 pd env st) (\<lambda>snapshot.
        let rules = filter (rule_requested ids) built_in_sequence_rules in
        bnd (catching (\<lambda>e. Crash (Failure e))
               (traverse (evaluate_sequence_rule pd (sv_regex env) (js_events snapshot)) rules)) (\<lambda>ms.
        Inr (obj
          [(''ok'', VBool True),
           (''rules_evaluated'',
            VList (map (\<lambda>r. VStr (case or_else (sr_rule_id r) None of None \<Rightarrow> sr_name r | Some i \<Rightarrow> i)) rules)),
           (''match_count'', VInt (int (length (concat ms)))),
           (''matches'', VList (map DetectionMatch_as_dict (concat ms)))])))))"

section \<open>Exporting\<close>

text \<open>\<open>export_case_bundle\<close>: the query, and what \<open>CaseBundle\<close> publishes.\<close>

definition export_case_bundle ::
  "pydantic \<Rightarrow> reader_env \<Rightarrow> filesystem \<Rightarrow> bundle_env \<Rightarrow> path \<Rightarrow> path \<Rightarrow> path \<Rightarrow> string option \<Rightarrow> string option
     \<Rightarrow> bundle_dirs \<Rightarrow> CaseBundleExport pres \<times> bundle_dirs" where
  "export_case_bundle pd renv fs benv database_path output_dir journal_path trace run dirs =
     (case query_timeline pd renv database_path journal_path trace run of
        Inl e \<Rightarrow> (Inl e, dirs)
      | Inr incident \<Rightarrow>
          (case publish_case_bundle benv (resolve_path fs output_dir) trace run incident dirs of
             (r, dirs') \<Rightarrow> (plain r, dirs')))"

definition service_export_dir :: "filesystem \<Rightarrow> path \<Rightarrow> string \<Rightarrow> path res" where
  "service_export_dir fs export_root requested_output_dir =
     confined_service_path (resolve_path fs) export_root requested_output_dir ''output_dir''"

definition export_error :: "cset \<Rightarrow> projection_error \<Rightarrow> reply" where
  "export_error alnum err =
     (if is_projection_error err \<or> failure_is ValueError err then detail_error alnum 400 err
      else Crash err)"

definition export_case ::
  "pydantic \<Rightarrow> ('g, 'c) service_env \<Rightarrow> service_config \<Rightarrow> ServicePrincipal \<Rightarrow> string \<Rightarrow> string option
     \<Rightarrow> string option \<Rightarrow> service_state \<Rightarrow> reply \<times> service_state" where
  "export_case pd env cfg principal1 output_dir trace run st =
     (case require_capability principal1 CASES_EXPORT of
        Inl e \<Rightarrow> (auth_error 403 e, st)
      | Inr _ \<Rightarrow>
          (case service_export_dir (sv_fs env) (sc_export_root cfg) output_dir of
             Inl e \<Rightarrow> (export_error (sv_alnum env) (Failure e), st)
           | Inr dir \<Rightarrow>
               (case export_case_bundle pd (sv_reader env st) (sv_fs env) (sv_bundle env)
                       (sc_database_path cfg) dir (sc_journal_path cfg) trace run (st_exports st) of
                  (r, dirs) \<Rightarrow>
                    (replied (catching (export_error (sv_alnum env))
                       (bnd r (\<lambda>b. plain (CaseBundleExport_as_dict b)))),
                     st\<lparr>st_exports := dirs\<rparr>))))"

section \<open>Ingesting\<close>

definition classification_is_trusted :: "pyv \<Rightarrow> bool" where
  "classification_is_trusted v =
     (case v of
        VDict d \<Rightarrow> py_eq (get_or_none d ''trust'') (VStr (TrustLevel_value TR_TRUSTED))
      | _ \<Rightarrow> False)"

definition record_has_ingested_by :: "pyv \<Rightarrow> bool" where
  "record_has_ingested_by v =
     (case v of
        VDict r \<Rightarrow>
          get_item r ''ingested_by'' \<noteq> None
          \<or> (case get_or_none r ''payload'' of
               VDict p \<Rightarrow> get_item p ''ingested_by'' \<noteq> None
             | _ \<Rightarrow> False)
      | _ \<Rightarrow> False)"

definition reject_client_ingested_by :: "pydict \<Rightarrow> unit res" where
  "reject_client_ingested_by body =
     (let refused = raise ValueError ''ingested_by is server-controlled and must not be supplied'' in
      if get_item body ''ingested_by'' \<noteq> None then refused
      else
        (case get_or_none body ''records'' of
           VList records \<Rightarrow> if list_ex record_has_ingested_by records then refused else Inr ()
         | _ \<Rightarrow> Inr ()))"

definition record_is_trusted :: "pyv \<Rightarrow> bool" where
  "record_is_trusted v =
     (case v of
        VDict r \<Rightarrow> classification_is_trusted (get_or_none r ''classification'')
      | _ \<Rightarrow> False)"

definition reject_unprivileged_trusted_classification :: "pydict \<Rightarrow> ServicePrincipal \<Rightarrow> unit res" where
  "reject_unprivileged_trusted_classification body p =
     (let refused = raise ServiceAuthError ''admin role required to assert trusted evidence'' in
      if has_capability p ADMIN_CONFIGURE then Inr ()
      else if classification_is_trusted (get_or_none body ''classification'') then refused
      else
        (case get_or_none body ''records'' of
           VList records \<Rightarrow> if list_ex record_is_trusted records then refused else Inr ()
         | _ \<Rightarrow> Inr ()))"

definition ingested_by :: "ServicePrincipal \<Rightarrow> string option \<Rightarrow> string \<Rightarrow> datetime \<Rightarrow> string \<Rightarrow> pyv" where
  "ingested_by p request_id hex received service_instance_id =
     obj [(''schema_version'', VStr INGESTION_PROVENANCE_VERSION),
          (''authenticated_principal'', VStr (sp_principal_id p)),
          (''authenticated_roles'', VList (map VStr (sorted_role_values (sp_roles p)))),
          (''authentication_method'', VStr ''bearer''),
          (''credential_identifier'', VStr (''principal:'' @ sp_principal_id p)),
          (''request_id'',
           VStr (case or_else request_id None of None \<Rightarrow> ''req_'' @ hex | Some i \<Rightarrow> i)),
          (''received_at'', VStr (py_replace ''+00:00'' ''Z'' (isoformat received))),
          (''service_instance_id'', VStr service_instance_id),
          (''legacy'', VBool False)]"

definition or_invalid :: "'a option \<Rightarrow> 'a res" where
  "or_invalid r = (case r of None \<Rightarrow> validation_error | Some x \<Rightarrow> Inr x)"

text \<open>A model of a member of the body when it is an object, the default otherwise.\<close>

definition body_model :: "pydict \<Rightarrow> string \<Rightarrow> (pyv \<Rightarrow> 'a option) \<Rightarrow> 'a option \<Rightarrow> 'a res" where
  "body_model body name validate dflt =
     (case get_or_none body name of
        VDict d \<Rightarrow> or_invalid (validate (VDict d))
      | _ \<Rightarrow> or_invalid dflt)"

definition service_source :: source where
  "service_source =
     \<lparr>src_component = ''service_api'', src_instance_id = ''local_service'', src_version = ''1.0.0''\<rparr>"

definition service_classification :: classification where
  "service_classification = \<lparr>sensitivity = SE_INTERNAL, trust = TR_UNKNOWN\<rparr>"

definition service_event_principal :: "pydantic \<Rightarrow> ServicePrincipal \<Rightarrow> principal option" where
  "service_event_principal pd p =
     map_option (\<lambda>i. \<lparr>principal_id = i, principal_type = PT_SERVICE, on_behalf_of = None, model_id = None,
                      credential_id = None\<rparr>)
       (min1_str pd (VStr (sp_principal_id p)))"

definition normalizer_from_request ::
  "pydantic \<Rightarrow> pydict \<Rightarrow> ServicePrincipal \<Rightarrow> 'c \<Rightarrow> 'g \<Rightarrow> ('g, 'c) EvidenceNormalizer res" where
  "normalizer_from_request pd body p clock ids =
     bnd (object_body_field body ''correlation'') (\<lambda>correlation_data.
     bnd (or_invalid (validate_correlation pd (VDict correlation_data))) (\<lambda>cor.
     bnd (body_model body ''source'' (validate_source pd) (Some service_source)) (\<lambda>src.
     bnd (body_model body ''principal'' (validate_principal pd) (service_event_principal pd p)) (\<lambda>prin.
     bnd (body_model body ''classification'' (validate_classification pd) (Some service_classification)) (\<lambda>cla.
     EvidenceNormalizer_new cor src prin cla clock ids 0)))))"

text \<open>
  \<open>EvidenceRecord.model_validate\<close> of an object. \<open>sort_key\<close> is a constrained text, which pydantic
  reads, so it has to be well-formed; \<open>event_type\<close> is not. The payload of a JSON body is a JSON
  object already.
\<close>

definition text_field :: "pydantic \<Rightarrow> pyv \<Rightarrow> string option" where
  "text_field pd v =
     (case pd_str pd v of None \<Rightarrow> None | Some s \<Rightarrow> if utf8_ok False s then Some s else None)"

definition optional_model :: "(pyv \<Rightarrow> 'a option) \<Rightarrow> pyv \<Rightarrow> 'a option option" where
  "optional_model validate v = (if v = VNone then Some None else map_option Some (validate v))"

definition all_EvidenceSourceKind :: "EvidenceSourceKind list" where
  "all_EvidenceSourceKind =
     [SK_LOCAL_FUNCTION, SK_FILE, SK_HTTP, SK_MCP, SK_EXTERNAL_JSON, SK_FIXTURE, SK_UNKNOWN]"

definition evidence_record_fields :: "string list" where
  "evidence_record_fields =
     [''idempotency_key'', ''event_type'', ''payload'', ''source_kind'', ''sort_key'', ''source'',
      ''principal'', ''classification'']"

definition validate_evidence_record :: "pydantic \<Rightarrow> pyv \<Rightarrow> EvidenceRecord option" where
  "validate_evidence_record pd = model_fields pd evidence_record_fields (\<lambda>d.
     Option.bind (field d ''idempotency_key'' (min1_str pd)) (\<lambda>key.
     Option.bind (field d ''event_type'' (pd_str pd)) (\<lambda>t.
     Option.bind (field d ''payload'' (pd_mapping pd)) (\<lambda>pay.
     Option.bind (field_default d ''source_kind''
       (enum_field pd EvidenceSourceKind_value all_EvidenceSourceKind) SK_UNKNOWN) (\<lambda>kind.
     Option.bind (field_default d ''sort_key'' (text_field pd) []) (\<lambda>sortk.
     Option.bind (field_default d ''source'' (optional_model (validate_source pd)) None) (\<lambda>src.
     Option.bind (field_default d ''principal'' (optional_model (validate_principal pd)) None) (\<lambda>prin.
     Option.bind (field_default d ''classification''
       (optional_model (validate_classification pd)) None) (\<lambda>cla.
       Some \<lparr>er_idempotency_key = key, er_event_type = t, er_payload = pay, er_source_kind = kind,
             er_sort_key = sortk, er_source = src, er_principal = prin,
             er_classification = cla\<rparr>)))))))))"

definition evidence_record_from :: "pydantic \<Rightarrow> pyv \<Rightarrow> pyv \<Rightarrow> EvidenceRecord res" where
  "evidence_record_from pd provenance v =
     (case v of
        VDict r \<Rightarrow>
          (case get_or_none r ''payload'' of
             VDict p \<Rightarrow>
               or_invalid (validate_evidence_record pd
                 (VDict (dset r (KStr ''payload'') (VDict (dset p (KStr ''ingested_by'') provenance)))))
           | _ \<Rightarrow> raise ValueError ''record payload must be an object'')
      | _ \<Rightarrow> raise ValueError ''records must contain objects'')"

definition evidence_records_from_request :: "pydantic \<Rightarrow> pydict \<Rightarrow> pyv \<Rightarrow> EvidenceRecord list res" where
  "evidence_records_from_request pd body provenance =
     (case get_or_none body ''records'' of
        VList records \<Rightarrow> traverse (evidence_record_from pd provenance) records
      | _ \<Rightarrow> raise ValueError ''request body must include records array'')"

text \<open>Everything up to the import: the checks, the normalizer and the records.\<close>

definition ingest_request ::
  "pydantic \<Rightarrow> ('g, 'c) service_env \<Rightarrow> service_config \<Rightarrow> ServicePrincipal \<Rightarrow> pydict \<Rightarrow> string option
     \<Rightarrow> (('g, 'c) EvidenceNormalizer \<times> EvidenceRecord list) res" where
  "ingest_request pd env cfg p body request_id =
     bnd (require_capability p EVENTS_WRITE) (\<lambda>_.
     bnd (require_capability p PROJECTIONS_REBUILD) (\<lambda>_.
     bnd (reject_client_ingested_by body) (\<lambda>_.
     bnd (reject_unprivileged_trusted_classification body p) (\<lambda>_.
     let provenance = ingested_by p request_id (sv_uuid env) (sv_received env) (sc_instance_id cfg) in
     bnd (normalizer_from_request pd body p (sv_clock env) (sv_ids env)) (\<lambda>nz.
     bnd (evidence_records_from_request pd body provenance) (\<lambda>records.
     Inr (nz, records)))))))"

definition ingest_status_code :: "BatchImportResult \<Rightarrow> int" where
  "ingest_status_code r =
     (if imported_count r \<noteq> 0 \<and> \<not> BatchImportResult_ok r then 207
      else if conflict_count r \<noteq> 0 then 409
      else if failed_count r \<noteq> 0 then 400
      else 200)"

definition ingest_response_body :: "BatchImportResult \<Rightarrow> string \<Rightarrow> string option \<Rightarrow> pyv" where
  "ingest_response_body r projection_state projection_error =
     (let body = (case BatchImportResult_as_dict r of VDict d \<Rightarrow> d | _ \<Rightarrow> []);
          body = (if projection_state = ''stale'' then dset body (KStr ''ok'') (VBool False) else body);
          body = dset body (KStr ''journal_committed'') (VBool (imported_count r > 0));
          projection = [(''state'', VStr projection_state)]
            @ (case projection_error of
                 None \<Rightarrow> []
               | Some detail \<Rightarrow>
                   [(''error'', VStr ''projection_rebuild_failed''), (''detail'', VStr detail)]) in
      VDict (dset body (KStr ''projection'') (obj projection)))"

text \<open>The \<open>except\<close> clauses of the whole handler.\<close>

definition ingest_error :: "cset \<Rightarrow> projection_error \<Rightarrow> reply" where
  "ingest_error alnum err =
     (case err of
        Failure e \<Rightarrow>
          if is_a (exn_kind e) ServiceAuthError then HttpError 403 (VStr (exn_message e))
          else if is_a (exn_kind e) JournalError then HttpError 503 (integrity_detail_from_error e)
          else if is_a (exn_kind e) ActionLineageValidationError \<or> is_a (exn_kind e) ValueError
          then detail_error alnum 400 err
          else Crash err
      | _ \<Rightarrow> Crash err)"

definition rebuild_failed_reply :: "cset \<Rightarrow> BatchImportResult \<Rightarrow> projection_error \<Rightarrow> reply" where
  "rebuild_failed_reply alnum r err =
     (if is_projection_error err then
        (case safe_detail alnum err of
           Inl e \<Rightarrow> ingest_error alnum (Failure e)
         | Inr detail \<Rightarrow> Reply 503 (ingest_response_body r ''stale'' (Some detail)))
      else ingest_error alnum err)"

definition ingest ::
  "pydantic \<Rightarrow> ('g \<Rightarrow> string \<Rightarrow> string res \<times> 'g) \<Rightarrow> ('c \<Rightarrow> datetime res \<times> 'c) \<Rightarrow> ('g, 'c) service_env
     \<Rightarrow> service_config \<Rightarrow> ServicePrincipal \<Rightarrow> pydict \<Rightarrow> string option \<Rightarrow> service_state
     \<Rightarrow> reply \<times> service_state" where
  "ingest pd new_id now env cfg p body request_id st =
     (case ingest_request pd env cfg p body request_id of
        Inl e \<Rightarrow> (ingest_error (sv_alnum env) (Failure e), st)
      | Inr (nz, records) \<Rightarrow>
          (case import_evidence_batch_atomically pd (RedactionPolicy_apply (default_policy (sv_alnum env)))
                  new_id now (sv_batch env) records nz (st_journal st) of
             (Inl e, journal) \<Rightarrow>
               (ingest_error (sv_alnum env) (Failure e), st\<lparr>st_journal := journal\<rparr>)
           | (Inr r, journal) \<Rightarrow>
               let done1 = Reply (ingest_status_code r) (ingest_response_body r ''rebuilt'' None);
                   st1 = st\<lparr>st_journal := journal\<rparr> in
               if imported_count r \<noteq> 0 \<or> duplicate_count r \<noteq> 0 then
                 (case rebuild_projection pd (sv_rebuild env journal) (sc_journal_path cfg)
                         (sc_database_path cfg) (st_database st) of
                    (Inl err, db) \<Rightarrow>
                      (rebuild_failed_reply (sv_alnum env) r err, st1\<lparr>st_database := db\<rparr>)
                  | (Inr _, db) \<Rightarrow> (done1, st1\<lparr>st_database := db\<rparr>))
               else (done1, st1)))"

section \<open>The application\<close>

datatype request =
    Live | Ready | Health
  | Timeline "string option" "string option"
  | ListEvents
  | ExportCase string "string option" "string option"
  | Ingest pydict "string option"
  | ValidateContract pydict
  | EvaluateDetections "pydict option"

fun needs_principal :: "request \<Rightarrow> bool" where
  "needs_principal Live = False"
| "needs_principal Ready = False"
| "needs_principal Health = False"
| "needs_principal _ = True"

fun authenticated ::
  "pydantic \<Rightarrow> ('g \<Rightarrow> string \<Rightarrow> string res \<times> 'g) \<Rightarrow> ('c \<Rightarrow> datetime res \<times> 'c) \<Rightarrow> ('g, 'c) service_env
     \<Rightarrow> service_config \<Rightarrow> ServicePrincipal \<Rightarrow> request \<Rightarrow> service_state \<Rightarrow> reply \<times> service_state" where
  "authenticated pd new_id now env cfg p (Timeline trace run) st = (timeline pd env cfg st p trace run, st)"
| "authenticated pd new_id now env cfg p ListEvents st = (list_events pd env st p, st)"
| "authenticated pd new_id now env cfg p (ExportCase output_dir trace run) st =
     export_case pd env cfg p output_dir trace run st"
| "authenticated pd new_id now env cfg p (Ingest body request_id) st =
     ingest pd new_id now env cfg p body request_id st"
| "authenticated pd new_id now env cfg p (ValidateContract body) st =
     (validate_contract_endpoint pd env st p body, st)"
| "authenticated pd new_id now env cfg p (EvaluateDetections body) st =
     (detections_evaluate pd env st p body, st)"
| "authenticated pd new_id now env cfg p _ st = (live, st)"

definition handle ::
  "pydantic \<Rightarrow> ('g \<Rightarrow> string \<Rightarrow> string res \<times> 'g) \<Rightarrow> ('c \<Rightarrow> datetime res \<times> 'c) \<Rightarrow> ('g, 'c) service_env
     \<Rightarrow> service_config \<Rightarrow> string option \<Rightarrow> request \<Rightarrow> service_state \<Rightarrow> reply \<times> service_state" where
  "handle pd new_id now env cfg authorization req st =
     (if \<not> needs_principal req
      then (if req = Live then live else ready pd env cfg st, st)
      else
        (case request_principal cfg authorization of
           Inl r \<Rightarrow> (r, st)
         | Inr p \<Rightarrow> authenticated pd new_id now env cfg p req st))"

section \<open>Configuration\<close>

text \<open>\<open>create_app\<close>; \<open>fastapi\<close> says whether the optional package can be imported.\<close>

definition create_app ::
  "bool \<Rightarrow> path \<Rightarrow> path \<Rightarrow> (string option \<Rightarrow> ServicePrincipal res) \<Rightarrow> path option \<Rightarrow> string
     \<Rightarrow> service_config res" where
  "create_app fastapi journal_path database_path authenticate export_root service_instance_id =
     (if \<not> fastapi
      then raise ServiceDependencyError ''install actionlineage[service] to use service mode''
      else Inr
        \<lparr>sc_journal_path = journal_path, sc_database_path = database_path,
         sc_export_root = (case export_root of
             Some r \<Rightarrow> r
           | None \<Rightarrow> path_join (path_parent database_path) (Path ''exports'')),
         sc_authenticate = authenticate, sc_instance_id = service_instance_id\<rparr>)"

fun env_roles :: "string list \<Rightarrow> ServiceRole list res" where
  "env_roles [] = Inr []"
| "env_roles (item # items) =
     (let normalized = py_lower (strip_text item) in
      if normalized = [] then env_roles items
      else
        (case enum_of ServiceRole_value all_ServiceRole normalized of
           None \<Rightarrow> raise ServiceRuntimeConfigError (''unsupported service role: '' @ normalized)
         | Some r \<Rightarrow> bnd (env_roles items) (\<lambda>rs. Inr (r # rs))))"

definition roles_from_env :: "string \<Rightarrow> ServiceRole set res" where
  "roles_from_env value =
     bnd (env_roles (split_on (CHR '','') value)) (\<lambda>roles.
     if roles = []
     then raise ServiceRuntimeConfigError ''ACTIONLINEAGE_SERVICE_ROLES must include at least one role''
     else Inr (set roles))"

definition environ_get :: "(string \<times> string) list \<Rightarrow> string \<Rightarrow> string \<Rightarrow> string" where
  "environ_get environ name dflt = (case dget environ name of None \<Rightarrow> dflt | Some v \<Rightarrow> v)"

definition create_service_app_from_env ::
  "bool \<Rightarrow> (string \<times> string) list \<Rightarrow> service_config res" where
  "create_service_app_from_env fastapi environ =
     (case or_else (dget environ ''ACTIONLINEAGE_SERVICE_TOKEN'') None of
        None \<Rightarrow> raise ServiceRuntimeConfigError ''ACTIONLINEAGE_SERVICE_TOKEN is required''
      | Some token \<Rightarrow>
          bnd (roles_from_env (environ_get environ ''ACTIONLINEAGE_SERVICE_ROLES'' ''admin'')) (\<lambda>roles.
          create_app fastapi
            (Path (environ_get environ ''ACTIONLINEAGE_JOURNAL_PATH'' ''/data/actionlineage.journal''))
            (Path (environ_get environ ''ACTIONLINEAGE_DATABASE_PATH'' ''/data/projection.sqlite''))
            (StaticToken_authenticate
               [(token, \<lparr>sp_principal_id = environ_get environ ''ACTIONLINEAGE_SERVICE_PRINCIPAL'' ''service-admin'',
                         sp_roles = roles, sp_capabilities = {}\<rparr>)])
            (Some (Path (environ_get environ ''ACTIONLINEAGE_EXPORT_ROOT'' ''/data/exports'')))
            (environ_get environ ''ACTIONLINEAGE_SERVICE_INSTANCE_ID'' ''local_service'')))"

end
