(* ===== verification/ServiceFacts.thy ===== *)
theory ServiceFacts
  imports Service ProjectionFacts IngestionClaims
begin

text \<open>
  The lemmas the properties of the service rest on: refusals, the records a request adds to the
  journal, where ingested records come from, the rebuild behind a successful reply, and the instances
  of the witnesses.
\<close>

section \<open>Access\<close>

text \<open>What a request needs: the access matrix of the endpoints.\<close>

fun required :: "request \<Rightarrow> ServiceCapability set" where
  "required (Timeline trace run) = {EVENTS_READ}"
| "required ListEvents = {EVENTS_READ}"
| "required (ExportCase output_dir trace run) = {CASES_EXPORT}"
| "required (Ingest body request_id) = {EVENTS_WRITE, PROJECTIONS_REBUILD}"
| "required (ValidateContract body) = {EVENTS_READ}"
| "required (EvaluateDetections body) = {DETECTIONS_RUN}"
| "required _ = {}"

definition granted :: "service_config \<Rightarrow> string option \<Rightarrow> request \<Rightarrow> bool" where
  "granted cfg authorization req \<longleftrightarrow>
     (\<exists>p. sc_authenticate cfg (bearer_token authorization) = Inr p
        \<and> (\<forall>c\<in>required req. has_capability p c))"

lemma catching_simps [simp]:
  "catching f (Inl e) = Inl (f e)" "catching f (Inr x) = Inr x"
  "catching f r = Inr x \<longleftrightarrow> r = Inr x"
  by (auto simp: catching_def split: sum.splits)

lemma replied_simps [simp]: "replied (Inl r) = r" "replied (Inr v) = Reply 200 v"
  by (simp_all add: replied_def)

lemma require_capability_cases:
  "require_capability p c = (if has_capability p c then Inr ()
     else raise ServiceAuthError (''service capability required: '' @ ServiceCapability_value c))"
  by (simp add: require_capability_def)

lemma authenticated_refused:
  assumes "c \<in> required req" "\<not> has_capability p c"
  shows "\<exists>m. authenticated pd new_id now env cfg p req st = (HttpError 403 m, st)"
  using assms
  by (cases req) (auto simp: require_capability_cases timeline_def list_events_def
      export_case_def ingest_def ingest_request_def ingest_error_def validate_contract_endpoint_def
      detections_evaluate_def auth_error_def request_error_def)

lemma static_auth_errors: "auth_errors (StaticToken_authenticate tokens token)"
  by (auto simp: StaticToken_authenticate_def split: option.splits)

section \<open>What requests do to the journal\<close>

text \<open>The complete records of a file, and a last line that was cut off.\<close>

definition holds_records :: "pydantic \<Rightarrow> bytes option \<Rightarrow> event list \<Rightarrow> bool" where
  "holds_records pd file es \<longleftrightarrow>
     good_records pd 0 None es
     \<and> (\<exists>rest. file_bytes file = journal_bytes pd es @ rest \<and> newline \<notin> set rest)"

lemma holds_records_inv: "holds_records pd file es \<Longrightarrow> journal_inv pd file"
  by (auto simp: holds_records_def journal_inv_def)

lemma holds_complete:
  assumes "pydantic_laws pd" "holds_records pd file es" "file_bytes file = journal_bytes pd old"
    and "good_records pd 0 None old"
  shows "old = es"
proof -
  obtain rest where r: "journal_bytes pd old = journal_bytes pd es @ rest" "newline \<notin> set rest"
    "good_records pd 0 None es"
    using assms(2,3) by (auto simp: holds_records_def)
  have "rest = []"
  proof (rule ccontr)
    assume "rest \<noteq> []"
    then have "last (journal_bytes pd old) \<in> set rest" "journal_bytes pd old \<noteq> []" using r(1) by simp_all
    then show False using journal_bytes_complete [of pd old] r(2) by auto
  qed
  then show ?thesis using journal_bytes_inj [OF assms(1) assms(4) r(3)] r(1) by simp
qed

lemma holds_cut_off:
  assumes "redaction_boundary pd apply_policy" "good_records pd 0 None es" "cut_off pd es tail"
    and "file_bytes file = journal_bytes pd es @ tail"
  shows "\<exists>more. holds_records pd file (es @ more)"
proof (cases "newline \<in> set tail")
  case True
  then obtain r n where r: "good_records pd 0 None (es @ [event_canon r])"
    "tail = take n (record_line pd (event_canon r))"
    using assms(3) by (auto simp: cut_off_def)
  then have "good_record pd (length es) (terminal None es) (event_canon r)"
    by simp
  then obtain bs where bs: "record_line pd (event_canon r) = bs @ [newline]" "newline \<notin> set bs"
    using redaction_boundary.good_record_line [OF assms(1)] by blast
  have "tail = record_line pd (event_canon r)"
    using redaction_boundary.take_line [OF assms(1) bs(2), of n] r(2) bs(1) True by auto
  then have "file_bytes file = journal_bytes pd (es @ [event_canon r]) @ []"
    using assms(4) by (simp add: journal_bytes_def)
  then show ?thesis using r(1) unfolding holds_records_def by (metis empty_iff empty_set)
next
  case False
  then have "holds_records pd file (es @ [])" using assms(2,4) by (auto simp: holds_records_def)
  then show ?thesis by blast
qed

lemma import_holds:
  assumes "redaction_boundary pd apply_policy" "ok_clock now" "\<forall>r\<in>set records. ok_record r"
    and "import_evidence_batch_atomically pd apply_policy new_id now env records nz file = (res, file')"
    and "holds_records pd file es"
  shows "\<exists>new. holds_records pd file' (es @ new)"
proof (cases "bnd (Ingestion.locked_snapshot pd env file) (\<lambda>snapshot. locked_start nz snapshot file)")
  case (Inl err)
  then have "holds_records pd file' (es @ [])"
    using assms(4,5) by (simp add: import_evidence_batch_atomically_def)
  then show ?thesis by blast
next
  case (Inr p)
  have laws: "pydantic_laws pd" by (rule redaction_boundary.axioms(1) [OF assms(1)])
  obtain seen st st' rs where b: "p = (seen, st)"
    "import_locked_records pd apply_policy new_id now env seen st (record_order records) = (rs, st')"
    "file' = lk_file st'"
    using assms(4) Inr by (auto simp: import_evidence_batch_atomically_def split: prod.splits)
  obtain old where old: "file_bytes file = journal_bytes pd old" "locked_inv pd old st []"
    using locked_start_inv [OF laws Inr [unfolded b(1)]] by blast
  have "\<forall>r\<in>set (record_order records). ok_record r" using assms(3) by (simp add: record_order_def)
  then obtain new tail where n: "batch_file pd old st' new tail"
    using redaction_boundary.import_locked_records_file [OF assms(1) old(2) assms(2) _ b(2)] by blast
  then have g: "good_records pd 0 None (old @ new)" by (simp add: batch_file_def)
  then have "old = es" by (intro holds_complete [OF laws assms(5) old(1)]) simp
  then show ?thesis
    using holds_cut_off [OF assms(1) g, of tail file'] n b(3)
    by (auto simp: batch_file_def simp del: good_records_append)
qed

lemma step_holds:
  assumes "redaction_boundary pd apply_policy" "journal_step pd apply_policy file file'"
    and "holds_records pd file es"
  shows "\<exists>new. holds_records pd file' (es @ new)"
  using assms(2)
proof (rule journal_stepE)
  fix e env res
  assume a: "wf_event e" "append_event pd apply_policy env file e = (res, file')"
  have laws: "pydantic_laws pd" by (rule redaction_boundary.axioms(1) [OF assms(1)])
  from redaction_boundary.append_event_file [OF assms(1) a] consider
      "file_bytes file' = file_bytes file"
    | old r n where "file_bytes file = journal_bytes pd old"
      "good_records pd 0 None (old @ [event_canon r])"
      "file_bytes file' = file_bytes file @ take n (record_line pd (event_canon r))" by blast
  then show ?thesis
  proof cases
    case 1
    then have "holds_records pd file' (es @ [])" using assms(3) by (simp add: holds_records_def)
    then show ?thesis by blast
  next
    case 2
    then have "old = es" by (intro holds_complete [OF laws assms(3) 2(1)]) simp
    moreover have "cut_off pd old (take n (record_line pd (event_canon r)))"
      using 2(2) by (auto simp: cut_off_def)
    ultimately show ?thesis
      using holds_cut_off [OF assms(1), of es _ file'] 2 by simp
  qed
qed

section \<open>What a request makes of its body\<close>

lemma or_invalid_simps [simp]:
  "or_invalid (Some x) = Inr x" "or_invalid r = Inr x \<longleftrightarrow> r = Some x"
  by (auto simp: or_invalid_def validation_error_def split: option.splits)

lemma ingest_request_Inr:
  assumes "ingest_request pd env cfg p body request_id = Inr (nz, records)"
  obtains "has_capability p EVENTS_WRITE" "has_capability p PROJECTIONS_REBUILD"
    "reject_unprivileged_trusted_classification body p = Inr ()"
    "normalizer_from_request pd body p (sv_clock env) (sv_ids env) = Inr nz"
    "evidence_records_from_request pd body
       (ingested_by p request_id (sv_uuid env) (sv_received env) (sc_instance_id cfg)) = Inr records"
  using assms by (auto simp: ingest_request_def bnd_Inr_iff require_capability_def Let_def)

lemma ingested_by_dict: "\<exists>d. ingested_by p rid hex t inst = VDict d"
  by (simp add: ingested_by_def)

lemma ingested_by_json: "is_json (ingested_by p rid hex t inst)"
  by (simp add: ingested_by_def list_all_iff)

lemma json_member: "is_json (VDict d) \<Longrightarrow> get_or_none d k = v \<Longrightarrow> is_json v"
  using is_json_get_or_none by metis

lemma json_dset:
  assumes "is_json (VDict d)" "is_json v"
  shows "is_json (VDict (dset d (KStr k) v))"
  using assms dset_subset [of d "KStr k" v] distinct_dset [of d "KStr k" v]
  by (auto simp: str_members_iff)

text \<open>Where a record of a batch comes from.\<close>

definition posted :: "pydict \<Rightarrow> pydict \<Rightarrow> pydict \<Rightarrow> bool" where
  "posted body r pay \<longleftrightarrow> (\<exists>records. get_or_none body ''records'' = VList records \<and> VDict r \<in> set records)
     \<and> get_or_none r ''payload'' = VDict pay"

lemma posted_json:
  assumes "is_json (VDict body)" "posted body r pay"
  shows "is_json (VDict r)" "is_json (VDict pay)"
proof -
  obtain records where r: "get_or_none body ''records'' = VList records" "VDict r \<in> set records"
    "get_or_none r ''payload'' = VDict pay"
    using assms(2) by (auto simp: posted_def)
  have "is_json (VList records)" using json_member [OF assms(1) r(1)] .
  then have "\<forall>v\<in>set records. is_json v" by (simp add: list_all_iff)
  then show j: "is_json (VDict r)" using r(2) by blast
  show "is_json (VDict pay)" using json_member [OF j r(3)] .
qed

lemma request_records:
  assumes "evidence_records_from_request pd body provenance = Inr records" "x \<in> set records"
  obtains r pay where "posted body r pay"
    "validate_evidence_record pd
       (VDict (dset r (KStr ''payload'') (VDict (dset pay (KStr ''ingested_by'') provenance)))) = Some x"
proof -
  obtain vs where vs: "get_or_none body ''records'' = VList vs"
    "list_all2 (\<lambda>v x. evidence_record_from pd provenance v = Inr x) vs records"
    using assms(1) by (auto simp: evidence_records_from_request_def traverse_Inr_iff split: pyv.splits)
  obtain i where i: "i < length records" "x = records ! i"
    using assms(2) by (auto simp: in_set_conv_nth)
  have "evidence_record_from pd provenance (vs ! i) = Inr x"
    using vs(2) i by (simp add: list_all2_conv_all_nth)
  moreover have "vs ! i \<in> set vs" using vs(2) i(1) by (simp add: list_all2_conv_all_nth)
  ultimately obtain v where "v \<in> set vs" "evidence_record_from pd provenance v = Inr x" by blast
  then show ?thesis
    using that vs(1) by (auto simp: evidence_record_from_def posted_def split: pyv.splits)
qed

context pydantic_laws begin

lemma validated_record:
  assumes "validate_evidence_record pd
      (VDict (dset r (KStr ''payload'') (VDict (dset pay (KStr ''ingested_by'') provenance)))) = Some x"
    and "is_json (VDict pay)" "is_json provenance"
  shows "er_payload x = dset pay (KStr ''ingested_by'') provenance" "er_idempotency_key x \<noteq> []"
    "field_default (dset r (KStr ''payload'') (VDict (dset pay (KStr ''ingested_by'') provenance)))
       ''classification'' (optional_model (validate_classification pd)) None = Some (er_classification x)"
proof -
  let ?pay = "dset pay (KStr ''ingested_by'') provenance"
  have "is_json (VDict ?pay)" using json_dset assms(2,3) by blast
  then have m: "pd_mapping pd (VDict ?pay) = Some ?pay"
    by (intro pd_mapping_dict) (auto simp: str_members_iff)
  show "er_payload x = ?pay" "er_idempotency_key x \<noteq> []"
    "field_default (dset r (KStr ''payload'') (VDict ?pay))
       ''classification'' (optional_model (validate_classification pd)) None = Some (er_classification x)"
    using assms(1) m
    by (auto simp: validate_evidence_record_def bind_eq_Some_conv field_def min1_str_def get_item_def
        split: if_splits option.splits)
qed

end

lemma request_records_ok:
  assumes "pydantic_laws pd" "is_json (VDict body)" "ingest_request pd env cfg p body rid = Inr (nz, records)"
  shows "\<forall>x\<in>set records. ok_record x"
proof
  fix x
  assume "x \<in> set records"
  obtain records' where e: "evidence_records_from_request pd body
      (ingested_by p rid (sv_uuid env) (sv_received env) (sc_instance_id cfg)) = Inr records"
    by (rule ingest_request_Inr [OF assms(3)])
  obtain r pay where r: "posted body r pay"
    "validate_evidence_record pd (VDict (dset r (KStr ''payload'') (VDict (dset pay (KStr ''ingested_by'')
       (ingested_by p rid (sv_uuid env) (sv_received env) (sc_instance_id cfg)))))) = Some x"
    by (rule request_records [OF e \<open>x \<in> set records\<close>])
  note j = posted_json(2) [OF assms(2) r(1)]
  note v = pydantic_laws.validated_record [OF assms(1) r(2) j ingested_by_json]
  have "is_json (VDict (er_payload x))" unfolding v(1) by (rule json_dset [OF j ingested_by_json])
  then show "ok_record x"
    using v(2) is_json_py_ok by (auto simp: ok_record_def str_members_iff simp del: py_ok.simps)
qed

section \<open>Serving\<close>

text \<open>
  A run of the service: it serves requests with JSON bodies, whatever they meet, while other
  processes append to the journal and do anything to the database and the exports.
\<close>

fun json_request :: "request \<Rightarrow> bool" where
  "json_request (Ingest body request_id) = is_json (VDict body)"
| "json_request _ = True"

inductive service_run ::
  "pydantic \<Rightarrow> ('g \<Rightarrow> string \<Rightarrow> string res \<times> 'g) \<Rightarrow> ('c \<Rightarrow> datetime res \<times> 'c) \<Rightarrow> cset
     \<Rightarrow> service_config \<Rightarrow> service_state \<Rightarrow> service_state \<Rightarrow> bool"
  for pd new_id now alnum cfg st0 where
  start: "service_run pd new_id now alnum cfg st0 st0"
| serve: "service_run pd new_id now alnum cfg st0 st \<Longrightarrow> sv_alnum env = alnum \<Longrightarrow> json_request req \<Longrightarrow>
    handle pd new_id now env cfg authorization req st = (reply, st') \<Longrightarrow>
    service_run pd new_id now alnum cfg st0 st'"
| others: "service_run pd new_id now alnum cfg st0 st \<Longrightarrow>
    journal_step pd (RedactionPolicy_apply (default_policy alnum)) (st_journal st) journal \<Longrightarrow>
    service_run pd new_id now alnum cfg st0
      \<lparr>st_journal = journal, st_database = db, st_exports = dirs\<rparr>"

lemma handle_journal:
  assumes "handle pd new_id now env cfg authorization req st = (r, st')" "st_journal st' \<noteq> st_journal st"
  obtains p body rid nz records res where "req = Ingest body rid"
    "ingest_request pd env cfg p body rid = Inr (nz, records)"
    "import_evidence_batch_atomically pd (RedactionPolicy_apply (default_policy (sv_alnum env)))
       new_id now (sv_batch env) records nz (st_journal st) = (res, st_journal st')"
proof (cases req)
  case (Ingest body rid)
  obtain p where p: "ingest pd new_id now env cfg p body rid st = (r, st')"
    using assms Ingest by (auto simp: handle_def split: sum.splits)
  obtain nz records where i: "ingest_request pd env cfg p body rid = Inr (nz, records)"
    using p assms(2) by (auto simp: ingest_def split: sum.splits)
  obtain res j where m: "import_evidence_batch_atomically pd
      (RedactionPolicy_apply (default_policy (sv_alnum env)))
      new_id now (sv_batch env) records nz (st_journal st) = (res, j)"
    by force
  have "st_journal st' = j"
    using p i m by (auto simp: ingest_def Let_def split: sum.splits prod.splits if_split_asm)
  then show ?thesis using that Ingest i m by blast
qed (use assms in \<open>auto simp: handle_def export_case_def split: sum.splits prod.splits if_split_asm\<close>)

lemma service_holds:
  assumes "pydantic_laws pd" "ok_clock now" "service_run pd new_id now alnum cfg st0 st"
    and "holds_records pd (st_journal st0) es"
  shows "\<exists>new. holds_records pd (st_journal st) (es @ new)"
  using assms(3)
proof (induction rule: service_run.induct)
  case start
  have "holds_records pd (st_journal st0) (es @ [])" using assms(4) by simp
  then show ?case by blast
next
  case (serve st env req authorization reply st')
  then obtain new where new: "holds_records pd (st_journal st) (es @ new)" by blast
  show ?case
  proof (cases "st_journal st' = st_journal st")
    case True
    then show ?thesis using new by auto
  next
    case False
    obtain p body rid nz records res where h: "req = Ingest body rid"
      "ingest_request pd env cfg p body rid = Inr (nz, records)"
      "import_evidence_batch_atomically pd (RedactionPolicy_apply (default_policy (sv_alnum env)))
         new_id now (sv_batch env) records nz (st_journal st) = (res, st_journal st')"
      by (rule handle_journal [OF serve.hyps(4) False])
    have "\<forall>x\<in>set records. ok_record x"
      using request_records_ok [OF assms(1) _ h(2)] serve.hyps(3) h(1) by simp
    from import_holds [OF redaction_boundary_policy [OF assms(1) chain_policy_default] assms(2) this h(3) new]
    show ?thesis by auto
  qed
next
  case (others st journal db dirs)
  then obtain new where new: "holds_records pd (st_journal st) (es @ new)" by blast
  from step_holds [OF redaction_boundary_policy [OF assms(1) chain_policy_default] others.hyps(2) new]
  show ?case by auto
qed

section \<open>Who an event comes from\<close>

text \<open>
  What pydantic makes of the values of a JSON body: a field that is declared as text takes text, and
  a nested model takes an object.
\<close>

locale json_pydantic = pydantic_laws +
  assumes str_exact: "is_json v \<Longrightarrow> pd_str pd v = Some s \<Longrightarrow> v = VStr s"
    and fields_exact: "is_json v \<Longrightarrow> pd_fields pd v = Some d \<Longrightarrow> v = VDict d"
begin

lemma trusted_value:
  assumes "validate_classification pd v = Some c" "is_json v" "trust c = TR_TRUSTED"
  shows "classification_is_trusted v"
proof -
  obtain d where f: "pd_fields pd v = Some d" and dt: "field_default d ''trust''
      (enum_field pd TrustLevel_value all_TrustLevel) TR_UNKNOWN = Some TR_TRUSTED"
    using assms(1,3)
    by (auto simp: validate_classification_def model_fields_def bind_eq_Some_conv
        split: option.splits if_splits)
  note d = fields_exact [OF assms(2) f] dt
  then obtain w s where w: "get_item d ''trust'' = Some w" "pd_str pd w = Some s"
    "enum_of TrustLevel_value all_TrustLevel s = Some TR_TRUSTED"
    by (auto simp: field_default_def enum_field_def bind_eq_Some_conv split: option.splits)
  have "is_json w" using json_member [of d "''trust''" w] assms(2) d(1) w(1) by (simp add: get_or_none_def)
  then have "w = VStr s" using str_exact w(2) by blast
  moreover have "s = TrustLevel_value TR_TRUSTED"
    using w(3) by (auto simp: enum_of_def find_Some_iff)
  ultimately show ?thesis using d(1) w(1) by (simp add: classification_is_trusted_def get_or_none_def scalar_eq_def)
qed

lemma normalizer_untrusted:
  assumes "normalizer_from_request pd body p clock ids = Inr nz" "is_json (VDict body)"
    and "\<not> classification_is_trusted (get_or_none body ''classification'')"
  shows "trust (nz_classification nz) \<noteq> TR_TRUSTED"
proof -
  have "body_model body ''classification'' (validate_classification pd) (Some service_classification)
      = Inr (nz_classification nz)"
    using assms(1) by (auto simp: normalizer_from_request_def EvidenceNormalizer_new_def bnd_Inr_iff)
  moreover have "is_json (get_or_none body ''classification'')" using json_member [OF assms(2)] by blast
  ultimately show ?thesis
    using assms(3) trusted_value [of "get_or_none body ''classification''" "nz_classification nz"]
    by (auto simp: body_model_def service_classification_def split: pyv.splits dest!: sym [of _ "nz_classification nz"])
qed

lemma record_untrusted:
  assumes "validate_evidence_record pd
      (VDict (dset r (KStr ''payload'') (VDict (dset pay (KStr ''ingested_by'') provenance)))) = Some x"
    and "is_json (VDict pay)" "is_json provenance" "is_json (VDict r)"
    and "\<not> classification_is_trusted (get_or_none r ''classification'')" "er_classification x = Some c"
  shows "trust c \<noteq> TR_TRUSTED"
proof -
  obtain v where v: "get_item r ''classification'' = Some v" "validate_classification pd v = Some c"
    using validated_record(3) [OF assms(1-3)] assms(6)
    by (auto simp: field_default_def get_item_def optional_model_def split: option.splits if_splits)
  moreover have "is_json v"
    using json_member [OF assms(4), of "''classification''" v] v(1) by (simp add: get_or_none_def)
  ultimately show ?thesis using trusted_value assms(5) by (auto simp: get_or_none_def)
qed

lemma request_untrusted:
  assumes "ingest_request pd env cfg p body rid = Inr (nz, records)" "is_json (VDict body)"
    and "x \<in> set records" "\<not> has_capability p ADMIN_CONFIGURE"
  shows "trust (or_default (er_classification x) (nz_classification nz)) \<noteq> TR_TRUSTED"
proof -
  obtain e: "reject_unprivileged_trusted_classification body p = Inr ()"
    "normalizer_from_request pd body p (sv_clock env) (sv_ids env) = Inr nz"
    "evidence_records_from_request pd body
      (ingested_by p rid (sv_uuid env) (sv_received env) (sc_instance_id cfg)) = Inr records"
    by (rule ingest_request_Inr [OF assms(1)])
  obtain r pay where r: "posted body r pay"
    "validate_evidence_record pd (VDict (dset r (KStr ''payload'') (VDict (dset pay (KStr ''ingested_by'')
       (ingested_by p rid (sv_uuid env) (sv_received env) (sc_instance_id cfg)))))) = Some x"
    by (rule request_records [OF e(3) assms(3)])
  have body: "\<not> classification_is_trusted (get_or_none body ''classification'')"
    and rec: "\<not> classification_is_trusted (get_or_none r ''classification'')"
    using e(1) assms(4) r(1)
    by (auto simp: reject_unprivileged_trusted_classification_def posted_def record_is_trusted_def
        list_ex_iff Let_def split: if_split_asm)
  show ?thesis
    using normalizer_untrusted [OF e(2) assms(2) body]
      record_untrusted [OF r(2) posted_json(2) [OF assms(2) r(1)] ingested_by_json
        posted_json(1) [OF assms(2) r(1)] rec]
    by (cases "er_classification x") (simp_all add: or_default_def)
qed

lemma request_attributed:
  assumes "ingest_request pd env cfg p body rid = Inr (nz, records)" "is_json (VDict body)"
    and "x \<in> set records"
  shows "get_or_none (er_payload x) ''ingested_by''
    = ingested_by p rid (sv_uuid env) (sv_received env) (sc_instance_id cfg)"
proof -
  obtain e: "evidence_records_from_request pd body
      (ingested_by p rid (sv_uuid env) (sv_received env) (sc_instance_id cfg)) = Inr records"
    by (rule ingest_request_Inr [OF assms(1)])
  obtain r pay where r: "posted body r pay"
    "validate_evidence_record pd (VDict (dset r (KStr ''payload'') (VDict (dset pay (KStr ''ingested_by'')
       (ingested_by p rid (sv_uuid env) (sv_received env) (sc_instance_id cfg)))))) = Some x"
    by (rule request_records [OF e assms(3)])
  show ?thesis
    using validated_record(1) [OF r(2) posted_json(2) [OF assms(2) r(1)] ingested_by_json]
    by (simp add: get_or_none_def get_item_def)
qed

end

interpretation strict_json: json_pydantic strict_pydantic
  by unfold_locales (auto simp: strict_pydantic_def split: pyv.splits elim: is_json.elims)

lemma EventEnvelope_new_classification:
  assumes "pydantic_laws pd" "EventEnvelope_new pd i t occ obs src cor cau prin cla pay = Inr e"
  shows "ev_classification e = cla"
proof -
  note p = pydantic_laws.pd_fields_dict [OF assms(1)]
  obtain occ' obs' where "build_event pd occ' obs' (obj_items
       [(''event_id'', VStr i), (''event_type'', VStr t), (''occurred_at'', VDatetime occ),
        (''observed_at'', VDatetime obs), (''source'', obj (source_dump src)),
        (''correlation'', obj (correlation_dump cor)), (''causality'', obj (causality_dump cau)),
        (''principal'', obj (principal_dump prin)),
        (''classification'', obj (classification_dump cla)), (''payload'', pay)]) = Some e"
    using assms(2)
    by (auto simp: EventEnvelope_new_def model_validate_def p bnd_Inr_iff validation_error_def
        split: if_splits option.splits)
  then show ?thesis
    using pydantic_laws.validate_classification_reads [OF assms(1) same_dict_obj, of cla]
    by (auto simp: build_event_def bind_eq_Some_conv field_def)
qed

lemma record_event_parts:
  assumes "pydantic_laws pd" "ok_record r" "record_event pd new_id now nz r fp = (Inr e, nz')"
  shows "ev_classification e = or_default (er_classification r) (nz_classification nz)"
    "require_json_payload (payload_with_ingest_metadata r fp) = Some (payload e)"
proof -
  let ?args = "no_args\<lparr>ra_source := er_source r, ra_principal := er_principal r,
                ra_classification := er_classification r\<rparr>"
  obtain i rid parent occ obs where "normalized_event pd nz ?args (er_event_type r)
      (VDict (payload_with_ingest_metadata r fp)) i rid parent occ obs = Inr e"
    using record_returned [OF assms(3) [unfolded record_event_def]] by metis
  then obtain cau where cau: "Causality_new pd rid parent (nz_sequence nz) = Inr cau"
    and new: "EventEnvelope_new pd i (er_event_type r) occ obs
         (or_default (er_source r) (nz_source nz)) (nz_correlation nz) cau
         (or_default (er_principal r) (nz_principal nz))
         (or_default (er_classification r) (nz_classification nz))
         (VDict (payload_with_ingest_metadata r fp)) = Inr e"
    by (auto simp: normalized_event_def bnd_Inr_iff)
  show "ev_classification e = or_default (er_classification r) (nz_classification nz)"
    using EventEnvelope_new_classification [OF assms(1) new] .
  show "require_json_payload (payload_with_ingest_metadata r fp) = Some (payload e)"
    using EventEnvelope_new_Inr [OF assms(1) new conjunct2 [OF Causality_new_Inr [OF assms(1) cau]]
        ok_record_payload(1) [OF assms(2)]] by blast
qed

section \<open>Ready after ingesting\<close>

lemma import_outcome:
  assumes "import_locked_record pd apply_policy new_id now env seen st r = (Inr go_on, st')"
  shows "\<exists>o1. lk_outcomes st' = lk_outcomes st @ [o1]"
  using assms
  by (auto simp: import_locked_record_def append_checked_def lock_outcome_def record_persisted_def
      Let_def split: sum.splits option.splits prod.splits if_split_asm)

lemma import_outcomes:
  "import_locked_records pd apply_policy new_id now env seen st rs = (Inr (), st') \<Longrightarrow>
   length (lk_outcomes st) \<le> length (lk_outcomes st') \<and> (rs \<noteq> [] \<longrightarrow> lk_outcomes st' \<noteq> [])"
proof (induction rs arbitrary: st)
  case (Cons r rs)
  obtain res st1 where s: "import_locked_record pd apply_policy new_id now env seen st r = (res, st1)"
    by force
  then obtain go_on where g: "res = Inr go_on" using Cons.prems by (cases res) auto
  then obtain o1 where "lk_outcomes st1 = lk_outcomes st @ [o1]" using import_outcome s by blast
  then have l: "length (lk_outcomes st1) = Suc (length (lk_outcomes st))" by simp
  have "length (lk_outcomes st1) \<le> length (lk_outcomes st')"
    using Cons s g by (cases go_on) auto
  then show ?case using l by auto
qed simp

lemma batch_outcomes:
  assumes "import_evidence_batch_atomically pd apply_policy new_id now env records nz file = (Inr r, file')"
    and "records \<noteq> []"
  shows "br_outcomes r \<noteq> []"
proof -
  obtain seen st st' where b:
    "import_locked_records pd apply_policy new_id now env seen st (record_order records) = (Inr (), st')"
    "r = \<lparr>br_outcomes = lk_outcomes st'\<rparr>"
    using assms(1) by (auto simp: import_evidence_batch_atomically_def bnd_Inr_iff
        split: sum.splits prod.splits)
  have "length (record_order records) = length records" by (simp add: record_order_def)
  then have "record_order records \<noteq> []" using assms(2) by (metis length_0_conv)
  then show ?thesis using import_outcomes [OF b(1)] b(2) by simp
qed

lemma all_counted:
  "length os = length (filter (\<lambda>o1. oc_status o1 = IO_IMPORTED) os)
     + length (filter (\<lambda>o1. oc_status o1 = IO_DUPLICATE) os)
     + length (filter (\<lambda>o1. oc_status o1 = IO_CONFLICT) os)
     + length (filter (\<lambda>o1. oc_status o1 = IO_FAILED) os)"
proof (induction os)
  case (Cons o1 os)
  then show ?case by (cases "oc_status o1") auto
qed simp

lemma status_ok:
  assumes "ingest_status_code r = 200" "br_outcomes r \<noteq> []"
  shows "imported_count r \<noteq> 0 \<or> duplicate_count r \<noteq> 0"
proof -
  have "conflict_count r = 0" "failed_count r = 0"
    using assms(1) by (auto simp: ingest_status_code_def split: if_split_asm)
  moreover have "length (br_outcomes r)
      = imported_count r + duplicate_count r + conflict_count r + failed_count r"
    using all_counted [of "br_outcomes r"]
    by (simp add: imported_count_def duplicate_count_def conflict_count_def failed_count_def outcome_count_def)
  ultimately show ?thesis using assms(2) by (metis add_0 length_0_conv)
qed

lemma error_replies [simp]:
  "detail_error alnum status err \<noteq> Reply s content" "ingest_error alnum err \<noteq> Reply s content"
  "auth_error status e \<noteq> Reply s content"
  by (auto simp: detail_error_def ingest_error_def auth_error_def split: sum.splits projection_error.splits)

lemma rebuild_failed_status: "rebuild_failed_reply alnum r err \<noteq> Reply 200 content"
  by (auto simp: rebuild_failed_reply_def split: sum.splits)

text \<open>A reply 200 to a batch with records: the projection has been rebuilt from the journal.\<close>

lemma ingest_rebuilt:
  assumes "handle pd new_id now env cfg authorization (Ingest body rid) st = (Reply 200 content, st')"
    and "get_or_none body ''records'' \<noteq> VList []"
  obtains r where "rebuild_projection pd (sv_rebuild env (st_journal st')) (sc_journal_path cfg)
    (sc_database_path cfg) (st_database st) = (Inr r, st_database st')"
proof -
  obtain p where p: "ingest pd new_id now env cfg p body rid st = (Reply 200 content, st')"
    using assms(1)
    by (auto simp: handle_def request_principal_def catching_def split: sum.splits)
  obtain nz records where i: "ingest_request pd env cfg p body rid = Inr (nz, records)"
    using p by (auto simp: ingest_def split: sum.splits)
  obtain e: "evidence_records_from_request pd body
      (ingested_by p rid (sv_uuid env) (sv_received env) (sc_instance_id cfg)) = Inr records"
    by (rule ingest_request_Inr [OF i])
  have "records \<noteq> []"
    using e assms(2) by (auto simp: evidence_records_from_request_def traverse_Inr_iff split: pyv.splits)
  obtain res j where m: "import_evidence_batch_atomically pd
      (RedactionPolicy_apply (default_policy (sv_alnum env)))
      new_id now (sv_batch env) records nz (st_journal st) = (res, j)"
    by force
  then obtain b where b: "res = Inr b"
    using p i by (cases res) (auto simp: ingest_def)
  obtain x db where x: "rebuild_projection pd (sv_rebuild env j) (sc_journal_path cfg)
      (sc_database_path cfg) (st_database st) = (x, db)"
    by force
  have go: "imported_count b \<noteq> 0 \<or> duplicate_count b \<noteq> 0"
  proof (rule ccontr)
    assume n: "\<not> (imported_count b \<noteq> 0 \<or> duplicate_count b \<noteq> 0)"
    then have "ingest_status_code b = 200" using p i m b by (auto simp: ingest_def Let_def)
    then show False using status_ok batch_outcomes [OF m [unfolded b] \<open>records \<noteq> []\<close>] n by blast
  qed
  then have "x \<noteq> Inl y" for y
    using p i m b x rebuild_failed_status by (auto simp: ingest_def Let_def)
  then obtain r where "x = Inr r" by (cases x) auto
  then have "st_journal st' = j" "st_database st' = db"
    using p i m b x go by (auto simp: ingest_def Let_def)
  then show ?thesis using that x \<open>x = Inr r\<close> by simp
qed

text \<open>What the health check meets when nothing has happened since the rebuild.\<close>

definition quiet_since :: "rebuild_env \<Rightarrow> service_state \<Rightarrow> ('g, 'c) service_env \<Rightarrow> bool" where
  "quiet_since renv st env \<longleftrightarrow>
     sn_file (rb_snapshot renv) = st_journal st
     \<and> quiet_snapshot (sv_snapshot env st) \<and> sn_file (sv_snapshot env st) = st_journal st
     \<and> reads_after renv (st_database st) (sv_reader env st)"

section \<open>Instances\<close>

definition sample_config :: service_config where
  "sample_config =
     \<lparr>sc_journal_path = sample_journal_path, sc_database_path = sample_database_path,
      sc_export_root = sample_database_path,
      sc_authenticate = StaticToken_authenticate
        [(''reader'', \<lparr>sp_principal_id = ''alice'', sp_roles = {SR_READ}, sp_capabilities = {}\<rparr>),
         (''writer'', \<lparr>sp_principal_id = ''bob'', sp_roles = {SR_WRITE}, sp_capabilities = {}\<rparr>)],
      sc_instance_id = ''local_service''\<rparr>"

lemma sample_tokens:
  "bearer_token (Some ''Bearer reader'') = Some ''reader''"
  "bearer_token (Some ''Bearer writer'') = Some ''writer''"
  by code_simp+

definition sample_body :: pydict where
  "sample_body = obj_items
     [(''correlation'', obj [(''trace_id'', VStr ''t1''), (''run_id'', VStr ''r1'')]),
      (''records'', VList [obj
         [(''idempotency_key'', VStr ''k1''), (''event_type'', VStr ''agent.run.started''),
          (''payload'', obj [(''a'', VInt 1)])]])]"

definition sample_bundle_env :: bundle_env where
  "sample_bundle_env =
     \<lparr>be_posix = True, be_exists = False, be_parent = Inr (), be_attempts = (\<lambda>n. MkdirOk),
      be_files = (\<lambda>name. FileOk), be_sync = Inr (), be_exists_late = False, be_replace = Inr (),
      be_parent_sync = Inr ()\<rparr>"

text \<open>An environment in which the service finds what the state says: a journal of the given events.\<close>

definition sample_service_env :: "event list \<Rightarrow> (FixedIdGenerator, unit) service_env" where
  "sample_service_env es =
     \<lparr>sv_alnum = (\<lambda>n. False), sv_regex = (\<lambda>p s. Some False), sv_fs = sample_fs,
      sv_snapshot = (\<lambda>st. sample_snapshot_env es),
      sv_reader = (\<lambda>st. sample_reader_env es (st_database st)), sv_batch = sample_batch_env,
      sv_rebuild = (\<lambda>journal. sample_rebuild_env es), sv_bundle = sample_bundle_env,
      sv_ids = \<lparr>ig_values = [''evt_1''], ig_index = 0\<rparr>, sv_clock = (), sv_uuid = ''0'',
      sv_received = sample_time\<rparr>"

definition sample_writer :: ServicePrincipal where
  "sample_writer = \<lparr>sp_principal_id = ''bob'', sp_roles = {SR_WRITE}, sp_capabilities = {}\<rparr>"

definition sample_provenance :: pyv where
  "sample_provenance = ingested_by sample_writer None ''0'' sample_time ''local_service''"

definition posted_normalizer :: "(FixedIdGenerator, unit) EvidenceNormalizer" where
  "posted_normalizer =
     \<lparr>nz_correlation = \<lparr>trace_id = ''t1'', run_id = ''r1'', span_id = None, session_id = None\<rparr>,
      nz_source = service_source,
      nz_principal = \<lparr>principal_id = ''bob'', principal_type = PT_SERVICE, on_behalf_of = None,
        model_id = None, credential_id = None\<rparr>,
      nz_classification = service_classification, nz_clock = (),
      nz_id_generator = \<lparr>ig_values = [''evt_1''], ig_index = 0\<rparr>, nz_initial_sequence = 0,
      nz_sequence = 0, nz_root_event_id = None, nz_last_event_id = None\<rparr>"

definition posted_record :: EvidenceRecord where
  "posted_record =
     \<lparr>er_idempotency_key = ''k1'', er_event_type = ''agent.run.started'',
      er_payload = [(KStr ''a'', VInt 1), (KStr ''ingested_by'', sample_provenance)],
      er_source_kind = SK_UNKNOWN, er_sort_key = [], er_source = None, er_principal = None,
      er_classification = None\<rparr>"

lemma min1_ascii: "s \<noteq> [] \<Longrightarrow> list_all (\<lambda>c. byte c < 128) s \<Longrightarrow> min1_str strict_pydantic (VStr s) = Some s"
  by (simp add: min1_str_def strict_pydantic_def utf8_ok_ascii list_all_iff)

lemma sample_request:
  "ingest_request strict_pydantic (sample_service_env es) sample_config sample_writer sample_body None
    = Inr (posted_normalizer, [posted_record])"
proof -
  have n: "normalizer_from_request strict_pydantic sample_body sample_writer ()
      \<lparr>ig_values = [''evt_1''], ig_index = 0\<rparr> = Inr posted_normalizer"
    by (simp add: normalizer_from_request_def object_body_field_def sample_body_def get_or_none_def
        validate_correlation_def correlation_fields_def only_fields_def field_def field_default_def
        min1_ascii byte_def body_model_def service_event_principal_def
        sample_writer_def EvidenceNormalizer_new_def posted_normalizer_def)
  have r: "evidence_records_from_request strict_pydantic sample_body sample_provenance = Inr [posted_record]"
    by (simp add: evidence_records_from_request_def sample_body_def get_or_none_def
        evidence_record_from_def validate_evidence_record_def evidence_record_fields_def only_fields_def
        field_def field_default_def min1_ascii byte_def posted_record_def)
      (simp add: strict_pydantic_def)
  have "reject_client_ingested_by sample_body = Inr ()"
    "reject_unprivileged_trusted_classification sample_body sample_writer = Inr ()"
    by (simp_all add: reject_client_ingested_by_def reject_unprivileged_trusted_classification_def
        sample_body_def get_or_none_def record_has_ingested_by_def record_is_trusted_def
        classification_is_trusted_def Let_def)
  then show ?thesis
    using n r by (simp add: ingest_request_def require_capability_def has_capability_def
        effective_capabilities_def sample_writer_def sample_service_env_def sample_config_def
        sample_provenance_def)
qed

text \<open>A journal that holds the record's key with its fingerprint already.\<close>

lemma posted_fingerprint:
  "\<exists>fp. record_idempotency_fingerprint posted_record posted_normalizer = Inr fp \<and> utf8_ok False fp \<and> fp \<noteq> []"
proof -
  have p: "fingerprint_payload (er_payload posted_record) = [(KStr ''a'', VInt 1)]"
    by (simp add: fingerprint_payload_def posted_record_def sample_provenance_def ingested_by_def
        is_service_ingestion_provenance_def get_or_none_def pop_key_def scalar_eq_def)
  have "encodable (fingerprint_preimage posted_record posted_normalizer)"
    unfolding fingerprint_preimage_def encodable_obj p
    by (simp add: posted_record_def posted_normalizer_def service_source_def service_classification_def
        or_default_def classification_dump_def correlation_dump_def principal_dump_def source_dump_def
        INGEST_RECORD_FINGERPRINT_VERSION_def byte_def nat_repr.simps max_int_digits_def)
  then obtain bs where "deterministic_json_bytes (fingerprint_preimage posted_record posted_normalizer) = Inr bs"
    using encodable_bytes by blast
  then show ?thesis
    using wf_str_utf8 [OF wf_str_digest] by (simp add: record_idempotency_fingerprint_def sha256_digest_def)
qed

lemma keyed_journal:
  assumes "utf8_ok False fp" "fp \<noteq> []"
  shows "\<exists>e. good_records strict_pydantic 0 None [e]
    \<and> ingest_text (payload e) ''idempotency_key'' = Some ''k1''
    \<and> ingest_text (payload e) ''record_fingerprint'' = Some fp"
proof -
  let ?e = "imported_event fp"
  have label: "is_supported_persisted_event_canonicalization (canonicalization (ev_integrity ?e))"
    by (simp add: imported_event_fields) code_simp
  obtain r bs where p: "prepare_event_for_append strict_pydantic Inr ?e None = Inr (r, bs)"
    using identity_prepare [OF wf_imported_event serializable_imported [OF assms(1)] label] by blast
  have r: "good_records strict_pydantic 0 None [event_canon r]" "wf_event r"
    using identity_boundary.prepare_event_good(1,2) [OF wf_imported_event _ _ _ p, of 0]
    by (simp_all add: imported_event_fields wf_opt_def chain_text_def)
  have texts: "ingest_text (payload ?e) ''idempotency_key'' = Some ''k1''"
    "ingest_text (payload ?e) ''record_fingerprint'' = Some fp"
    using assms(2)
    by (simp_all add: imported_event_def ingest_text_def get_or_none_def get_item_def mapping_text_def)
  show ?thesis
  proof (intro exI [of _ "event_canon r"] conjI r(1))
    show "ingest_text (payload (event_canon r)) ''idempotency_key'' = Some ''k1''"
      "ingest_text (payload (event_canon r)) ''record_fingerprint'' = Some fp"
      using identity_ingest.prepare_keeps_ingest [OF wf_imported_event _ _ p _ texts(1)]
        identity_ingest.prepare_keeps_ingest [OF wf_imported_event _ _ p _ texts(2)]
      by (simp_all add: ingest_text_event_canon [OF r(2)] wf_opt_def chain_text_def)
  qed
qed

lemma sample_body_json: "is_json (VDict sample_body)"
  by (simp add: sample_body_def)

definition sample_state :: "event list \<Rightarrow> service_state" where
  "sample_state es =
     \<lparr>st_journal = Some (journal_bytes strict_pydantic es), st_database = NoFile,
      st_exports = \<lparr>bd_output = None, bd_staging = None\<rparr>\<rparr>"

text \<open>Posting the record again succeeds and rebuilds the projection.\<close>

lemma sample_ingest:
  "\<exists>e content db. handle strict_pydantic FixedIdGenerator_new_id sample_now (sample_service_env [e]) sample_config
      (Some ''Bearer writer'') (Ingest sample_body None) (sample_state [e])
    = (Reply 200 content, (sample_state [e])\<lparr>st_database := Db db\<rparr>)
    \<and> good_records strict_pydantic 0 None [e]"
proof -
  obtain fp where fp: "record_idempotency_fingerprint posted_record posted_normalizer = Inr fp"
    "utf8_ok False fp" "fp \<noteq> []"
    using posted_fingerprint by blast
  obtain e where e: "good_records strict_pydantic 0 None [e]"
    "ingest_text (payload e) ''idempotency_key'' = Some ''k1''"
    "ingest_text (payload e) ''record_fingerprint'' = Some fp"
    using keyed_journal [OF fp(2,3)] by blast
  let ?file = "Some (journal_bytes strict_pydantic [e])"
  obtain st where st: "bnd (Ingestion.locked_snapshot strict_pydantic sample_batch_env ?file)
      (\<lambda>snapshot. locked_start posted_normalizer snapshot ?file) = Inr (scan_entries [] [e], st)"
    "same_config (lk_normalizer st) posted_normalizer" "lk_batch_seen st = []" "lk_outcomes st = []"
    "lk_file st = ?file"
    using locked_start_ready [OF strict.pydantic_laws_axioms _ e(1), of ?file sample_batch_env posted_normalizer]
    by (auto simp: file_bytes_def sample_batch_env_def posted_normalizer_def)
  have "record_idempotency_fingerprint posted_record (lk_normalizer st) = Inr fp"
    using fp(1) st(2)
    by (simp add: record_idempotency_fingerprint_def fingerprint_preimage_def same_config_def)
  moreover have "matched_entry (scan_entries [] [e]) (lk_batch_seen st) posted_record
      = Some \<lparr>ie_event_id = event_id e, ie_record_fingerprint = Some fp\<rparr>"
    using e(2,3) by (simp add: matched_entry_def ingest_text_event posted_record_def)
  ultimately have s: "import_locked_record strict_pydantic policy FixedIdGenerator_new_id sample_now
      sample_batch_env (scan_entries [] [e]) st posted_record
      = (Inr True, lock_outcome \<lparr>oc_idempotency_key = ''k1'', oc_status = IO_DUPLICATE,
           oc_event_id = Some (event_id e), oc_error = None\<rparr> st)" for policy
    by (simp add: import_locked_record_def matched_idempotency_outcome_def posted_record_def)
  let ?r = "\<lparr>br_outcomes = [\<lparr>oc_idempotency_key = ''k1'', oc_status = IO_DUPLICATE,
           oc_event_id = Some (event_id e), oc_error = None\<rparr>]\<rparr>"
  have i: "import_evidence_batch_atomically strict_pydantic policy FixedIdGenerator_new_id sample_now
      sample_batch_env [posted_record] posted_normalizer ?file = (Inr ?r, ?file)" for policy
    using st(1,4,5) s
    by (simp add: import_evidence_batch_atomically_def record_order_def lock_outcome_def)
  obtain x f where "rebuild_projection strict_pydantic (sample_rebuild_env [e]) sample_journal_path
      sample_database_path NoFile = (Inr x, f)"
    using sample_rebuild [OF e(1)] by auto
  then obtain db where db: "rebuild_projection strict_pydantic (sample_rebuild_env [e]) sample_journal_path
      sample_database_path NoFile = (Inr x, Db db)"
    using rebuild_rebuilt [OF strict.pydantic_laws_axioms] sample_envs(2) by metis
  have p: "request_principal sample_config (Some ''Bearer writer'') = Inr sample_writer"
    by (simp add: request_principal_def sample_config_def sample_tokens StaticToken_authenticate_def
        sample_writer_def)
  have "\<exists>content. ingest strict_pydantic FixedIdGenerator_new_id sample_now (sample_service_env [e])
      sample_config sample_writer sample_body None
      (sample_state [e]) = (Reply 200 content, (sample_state [e])\<lparr>st_database := Db db\<rparr>)"
    using db i sample_request [of "[e]"]
    by (simp add: ingest_def sample_service_env_def sample_config_def sample_state_def imported_count_def
        duplicate_count_def outcome_count_def ingest_status_code_def conflict_count_def failed_count_def
        BatchImportResult_ok_def)
  then show ?thesis using p e(1) by (auto simp: handle_def)
qed

text \<open>The event that is built for the posted record.\<close>

definition posted_event :: "pyv \<Rightarrow> event" where
  "posted_event w = sample_event
     \<lparr>event_id := ''evt_1'', ev_source := service_source,
      ev_correlation := nz_correlation posted_normalizer,
      ev_causality := \<lparr>root_event_id = ''evt_1'', sequence = 0, parent_event_id = None\<rparr>,
      ev_principal := nz_principal posted_normalizer, ev_classification := service_classification,
      payload := w\<rparr>"

lemma posted_event_fields:
  "event_id (posted_event w) = ''evt_1''" "event_type (posted_event w) = ''agent.run.started''"
  "occurred_at (posted_event w) = sample_time" "observed_at (posted_event w) = sample_time"
  "ev_source (posted_event w) = service_source"
  "ev_correlation (posted_event w) = nz_correlation posted_normalizer"
  "ev_causality (posted_event w) = \<lparr>root_event_id = ''evt_1'', sequence = 0, parent_event_id = None\<rparr>"
  "ev_principal (posted_event w) = nz_principal posted_normalizer"
  "ev_classification (posted_event w) = service_classification"
  "payload (posted_event w) = w" "ev_integrity (posted_event w) = default_integrity"
  "spec_version (posted_event w) = SPEC_VERSION"
  by (simp_all add: posted_event_def sample_event_def)

lemma ok_posted_record: "ok_record posted_record"
  by (simp add: ok_record_def posted_record_def sample_provenance_def ingested_by_def str_keys_def
      list_all_iff)

lemma sample_recorded:
  "\<exists>e nz. record_event strict_pydantic FixedIdGenerator_new_id sample_now posted_normalizer posted_record ''f''
    = (Inr e, nz)"
proof -
  have v: "validate_json_value default_limits 0 (VDict (payload_with_ingest_metadata posted_record ''f'')) = Inr ()"
    by (simp add: payload_with_ingest_metadata_def posted_record_def
        sample_provenance_def ingested_by_def sample_writer_def sorted_role_values_def all_ServiceRole_def
        validate_json_value.simps default_limits_def DEFAULT_JSON_MAX_DEPTH_def
        DEFAULT_JSON_MAX_OBJECT_MEMBERS_def DEFAULT_JSON_MAX_ARRAY_LENGTH_def)
  obtain w where w: "require_json_payload (payload_with_ingest_metadata posted_record ''f'') = Some w"
    and pay: "wf_payload w"
    by (rule require_json_payload_ok [OF ok_record_payload(2) [OF ok_posted_record] v])
  have wf: "wf_event (posted_event w)"
    using sample_time_utc pay
    by (simp add: wf_event_def posted_event_fields wf_str_def byte_def wf_causality_def wf_opt_def
        validate_causality_def documented_root_event_types_def wf_integrity_def default_integrity_def
        wf_source_def service_source_def wf_correlation_def wf_principal_def posted_normalizer_def)
  let ?c = "\<lparr>root_event_id = ''evt_1'', sequence = 0, parent_event_id = None\<rparr>"
  have "Causality_new strict_pydantic ''evt_1'' None 0 = Inr ?c"
    using strict.validate_causality_reads [of ?c "obj_items (causality_dump ?c)"] same_dict_obj
    by (simp add: Causality_new_def wf_causality_def wf_str_def wf_opt_def byte_def)
  then have "normalized_event strict_pydantic posted_normalizer no_args ''agent.run.started''
      (VDict (payload_with_ingest_metadata posted_record ''f'')) ''evt_1'' ''evt_1'' None sample_time sample_time
      = Inr (posted_event w)"
    using EventEnvelope_new_wf [OF strict.pydantic_laws_axioms wf posted_event_fields(11)
        ok_record_payload(1) [OF ok_posted_record], of "''f''"] w
    by (simp add: normalized_event_def posted_event_fields no_args_def or_default_def)
      (simp add: posted_normalizer_def)
  then show ?thesis
    by (simp add: record_event_def EvidenceNormalizer_record_def posted_normalizer_def FixedIdGenerator_new_id_def
        no_args_def resolve_root_event_id_def sample_now_def posted_record_def Let_def py_startswith_def)
qed

end
