(* ===== verification/ServiceClaims.thy ===== *)
theory ServiceClaims
  imports ServiceFacts
begin

text \<open>
  The properties of the service: nothing without the right, recorded evidence stays, ingested
  evidence names its source, and a service that has ingested is ready.
\<close>

text \<open>C39. No access without the right: a request that needs a principal is answered by a refusal
  (401 or 403) and changes nothing, unless its token authenticates a principal with every capability
  the endpoint requires.\<close>
theorem refused_without_capability:
  assumes "auth_errors (sc_authenticate cfg (bearer_token authorization))" "needs_principal req"
    and "\<not> granted cfg authorization req"
  shows "\<exists>status detail. handle pd new_id now env cfg authorization req st = (HttpError status detail, st)
    \<and> (status = 401 \<or> status = 403)"
proof (cases "sc_authenticate cfg (bearer_token authorization)")
  case (Inl e)
  then show ?thesis
    using assms(1,2) by (simp add: handle_def request_principal_def auth_error_def)
next
  case (Inr p)
  then obtain c where "c \<in> required req" "\<not> has_capability p c"
    using assms(3) by (auto simp: granted_def)
  then obtain m where "authenticated pd new_id now env cfg p req st = (HttpError 403 m, st)"
    using authenticated_refused by blast
  then show ?thesis
    using assms(2) Inr by (simp add: handle_def request_principal_def)
qed

theorem refused_without_capability_witness:
  "\<exists>status detail. handle strict_pydantic FixedIdGenerator_new_id sample_now (sample_service_env [])
      sample_config (Some ''Bearer reader'') (Ingest [] None) (sample_state [])
      = (HttpError status detail, sample_state []) \<and> (status = 401 \<or> status = 403)"
  by (rule refused_without_capability)
    (simp_all add: sample_config_def sample_tokens static_auth_errors granted_def
      StaticToken_authenticate_def has_capability_def effective_capabilities_def)

text \<open>C9. However the service is used, recorded evidence stays: starting from a journal that verifies,
  after any requests with JSON bodies from anyone, whatever the file system, the locks and the
  database answer, and while other processes append to the same file, the journal is verified without
  an exception, completely or up to a last record that was cut off, and the events it yields are those
  it held before, unchanged and in their order, followed by new ones.\<close>
theorem served_journal_keeps_events:
  assumes "pydantic_laws pd" "ok_clock now" "service_run pd new_id now alnum cfg st0 st"
    and "verified_journal_snapshot pd stat None None (st_journal st0) = Inr s" "snapshot_ok s"
    and "fst stat = snd stat"
  shows "\<exists>t new. verified_journal_snapshot pd stat None None (st_journal st) = Inr t
    \<and> js_events t = js_events s @ new
    \<and> (snapshot_ok t \<or> (\<exists>n. vr_issues (js_verification t) = [issue n VC_truncated_record
          ''journal record is missing its newline terminator'']))"
proof -
  have "holds_records pd (st_journal st0) (js_events s)"
    unfolding holds_records_def
    using snapshot_okD [OF assms(1,4,5)] by (metis append_Nil2 empty_iff empty_set)
  then obtain new where h: "holds_records pd (st_journal st) (js_events s @ new)"
    using service_holds [OF assms(1-3)] by blast
  then obtain rest where "file_bytes (st_journal st) = journal_bytes pd (js_events s @ new) @ rest"
    "newline \<notin> set rest" "good_records pd 0 None (js_events s @ new)"
    by (auto simp: holds_records_def)
  then obtain t where t: "verified_journal_snapshot pd stat None None (st_journal st) = Inr t"
    "js_events t = js_events s @ new"
    using snapshot_events [OF assms(1) _ _ _ assms(6)] by blast
  then show ?thesis
    using pydantic_laws.snapshot_of_inv [OF assms(1) holds_records_inv [OF h] assms(6)] by auto
qed

theorem served_journal_keeps_events_witness:
  "\<exists>e st t new. service_run strict_pydantic FixedIdGenerator_new_id sample_now (\<lambda>n. False) sample_config
      (sample_state [e]) st \<and> st \<noteq> sample_state [e]
    \<and> verified_journal_snapshot strict_pydantic sample_stat None None (st_journal st) = Inr t
    \<and> js_events t = e # new"
proof -
  obtain e content db where h: "handle strict_pydantic FixedIdGenerator_new_id sample_now
      (sample_service_env [e]) sample_config (Some ''Bearer writer'') (Ingest sample_body None)
      (sample_state [e]) = (Reply 200 content, (sample_state [e])\<lparr>st_database := Db db\<rparr>)"
    and e: "good_records strict_pydantic 0 None [e]"
    using sample_ingest by blast
  have run: "service_run strict_pydantic FixedIdGenerator_new_id sample_now (\<lambda>n. False) sample_config
      (sample_state [e]) ((sample_state [e])\<lparr>st_database := Db db\<rparr>)"
    by (rule service_run.serve [OF service_run.start _ _ h])
      (use sample_body_json in \<open>simp_all add: sample_service_env_def\<close>)
  obtain s where s: "verified_journal_snapshot strict_pydantic sample_stat None None
      (st_journal (sample_state [e])) = Inr s" "snapshot_ok s" "js_events s = [e]"
    by (rule sample_snapshot [OF e])
      (auto simp: Projection.locked_snapshot_def sample_snapshot_env_def sample_state_def)
  show ?thesis
    using served_journal_keeps_events [OF strict.pydantic_laws_axioms ok_sample_now run s(1,2) sample_stat_same]
      run s(3)
    by (intro exI [of _ e] exI [of _ "(sample_state [e])\<lparr>st_database := Db db\<rparr>"])
      (auto simp: sample_state_def)
qed

text \<open>C40. Ingested evidence says who sent it, and is trusted only on an administrator's word: every
  event that is built for a record of a request carries, whatever the body holds, the provenance of the
  authenticated principal under \<open>ingested_by\<close>, and its classification claims trust only when that
  principal has the \<open>admin:configure\<close> capability.\<close>
theorem ingested_events_attributed:
  assumes "json_pydantic pd" "is_json (VDict body)"
    and "ingest_request pd env cfg p body rid = Inr (nz, records)" "x \<in> set records"
    and "same_config nz' nz" "record_event pd new_id now nz' x fp = (Inr e, nz'')"
  shows "mapping_get (thaw_json_value (payload e)) ''ingested_by''
      = ingested_by p rid (sv_uuid env) (sv_received env) (sc_instance_id cfg)
    \<and> (trust (ev_classification e) = TR_TRUSTED \<longrightarrow> has_capability p ADMIN_CONFIGURE)"
proof -
  have laws: "pydantic_laws pd" using json_pydantic.axioms(1) [OF assms(1)] .
  have "ok_record x" using request_records_ok [OF laws assms(2,3)] assms(4) by blast
  note e = record_event_parts [OF laws this assms(6)]
  have "or_default (er_classification x) (nz_classification nz')
      = or_default (er_classification x) (nz_classification nz)"
    using assms(5) by (simp add: same_config_def)
  then have trusted: "trust (ev_classification e) = TR_TRUSTED \<longrightarrow> has_capability p ADMIN_CONFIGURE"
    using json_pydantic.request_untrusted [OF assms(1,3,2,4)] e(1) by auto
  have "freeze_json_value (VDict (payload_with_ingest_metadata x fp)) = Inr (payload e)"
    using e(2) by (auto simp: require_json_payload_def split: sum.splits)
  then have t: "thaw_json_value (payload e) = thaw_json_value (VDict (payload_with_ingest_metadata x fp))"
    by (rule thaw_frozen_eq)
  have "get_or_none (payload_with_ingest_metadata x fp) ''ingested_by'' = get_or_none (er_payload x) ''ingested_by''"
    by (simp add: payload_with_ingest_metadata_def get_or_none_def get_item_def)
  then have "mapping_get (thaw_json_value (payload e)) ''ingested_by''
      = thaw_json_value (ingested_by p rid (sv_uuid env) (sv_received env) (sc_instance_id cfg))"
    using json_pydantic.request_attributed [OF assms(1,3,2,4)]
    by (simp add: t mapping_get_def get_or_none_map)
  then show ?thesis using trusted by (simp add: ingested_by_def)
qed

theorem ingested_events_attributed_witness:
  "\<exists>e nz. record_event strict_pydantic FixedIdGenerator_new_id sample_now posted_normalizer posted_record
      ''f'' = (Inr e, nz)
    \<and> mapping_get (thaw_json_value (payload e)) ''ingested_by'' = sample_provenance
    \<and> trust (ev_classification e) \<noteq> TR_TRUSTED"
proof -
  obtain e nz where e: "record_event strict_pydantic FixedIdGenerator_new_id sample_now posted_normalizer
      posted_record ''f'' = (Inr e, nz)"
    using sample_recorded by blast
  have "\<not> has_capability sample_writer ADMIN_CONFIGURE"
    by (simp add: has_capability_def effective_capabilities_def sample_writer_def)
  then show ?thesis
    using ingested_events_attributed [OF strict_json.json_pydantic_axioms sample_body_json sample_request _
        same_config_refl e] e
    by (auto simp: sample_service_env_def sample_config_def sample_provenance_def)
qed

text \<open>C10. A successful ingestion leaves the service ready: when a request with at least one record is
  answered with 200, and nobody touches journal and database in between, the readiness check that
  follows answers 200 without an issue; the database holds the journal with the new records.\<close>
theorem ready_after_ingest:
  assumes "pydantic_laws pd"
    and "handle pd new_id now env cfg authorization (Ingest body rid) st = (Reply 200 content, st')"
    and "get_or_none body ''records'' \<noteq> VList []" "projection_file (st_database st)"
    and "quiet_since (sv_rebuild env (st_journal st')) st' env'"
    and "normalize_journal_path (rb_fs (sv_rebuild env (st_journal st'))) (sc_journal_path cfg) = Inr q"
    and "plain_path q"
    and "resolve_path (rb_fs (sv_rebuild env (st_journal st'))) (sc_database_path cfg) = Inr dq"
  shows "handle pd new_id' now' env' cfg authorization' Ready st'
    = (Reply 200 (obj [(''ok'', VBool True), (''state'', VStr ''ok''), (''issues'', VList [])]), st')"
proof -
  let ?renv = "sv_rebuild env (st_journal st')"
  obtain r where r: "rebuild_projection pd ?renv (sc_journal_path cfg)
      (sc_database_path cfg) (st_database st) = (Inr r, st_database st')"
    by (rule ingest_rebuilt [OF assms(2,3)])
  note quiet = assms(5) [unfolded quiet_since_def]
  obtain v where v: "verify_projection_state pd (sv_reader env' st') (sc_database_path cfg)
      (sc_journal_path cfg) = Inr v"
    using rebuild_verifies [OF assms(1) r assms(4,6,7) _ assms(8)] quiet by blast
  obtain s where s: "verified_snapshot pd (st_journal st') s"
    using rebuild_rebuilt [OF assms(1) r assms(4)] quiet by metis
  obtain t where "Projection.locked_snapshot pd (sv_snapshot env' st') None None = Inr t" "snapshot_ok t"
    using same_journal_snapshot [OF assms(1) s] quiet by metis
  then show ?thesis
    using v by (simp add: handle_def ready_def check_local_health_def journal_issues_def
        projection_issues_def health_report_def HealthReport_as_dict_def HealthReport_ok_def)
qed

theorem ready_after_ingest_witness:
  "\<exists>e content db. handle strict_pydantic FixedIdGenerator_new_id sample_now (sample_service_env [e])
      sample_config (Some ''Bearer writer'') (Ingest sample_body None) (sample_state [e])
      = (Reply 200 content, (sample_state [e])\<lparr>st_database := Db db\<rparr>)
    \<and> fst (handle strict_pydantic FixedIdGenerator_new_id sample_now (sample_service_env [e]) sample_config None
        Ready ((sample_state [e])\<lparr>st_database := Db db\<rparr>))
      = Reply 200 (obj [(''ok'', VBool True), (''state'', VStr ''ok''), (''issues'', VList [])])"
proof -
  obtain e content db where h: "handle strict_pydantic FixedIdGenerator_new_id sample_now
      (sample_service_env [e]) sample_config (Some ''Bearer writer'') (Ingest sample_body None)
      (sample_state [e]) = (Reply 200 content, (sample_state [e])\<lparr>st_database := Db db\<rparr>)"
    using sample_ingest by blast
  have "handle strict_pydantic FixedIdGenerator_new_id sample_now (sample_service_env [e]) sample_config None
      Ready ((sample_state [e])\<lparr>st_database := Db db\<rparr>)
    = (Reply 200 (obj [(''ok'', VBool True), (''state'', VStr ''ok''), (''issues'', VList [])]),
       (sample_state [e])\<lparr>st_database := Db db\<rparr>)"
    by (rule ready_after_ingest [OF strict.pydantic_laws_axioms h, where q = sample_journal_path
          and dq = sample_database_path])
      (use sample_paths in \<open>simp_all add: sample_service_env_def sample_config_def sample_state_def
         sample_body_def get_or_none_def quiet_since_def reads_after_def\<close>)
  then show ?thesis using h by (intro exI [of _ e] exI [of _ content] exI [of _ db]) simp
qed

end
