(* ===== verification/ToolAdapters.thy ===== *)
theory ToolAdapters
  imports Ingestion Policy
begin

text \<open>
  \<open>adapters/mcp/descriptors.py\<close>, \<open>adapters/mcp/runtime.py\<close> and \<open>adapters/frameworks.py\<close>: the identity
  of a tool, one MCP call as evidence before and after the tool runs, and the lifecycle records of
  a framework's tool invocation.

  The tool itself (\<open>downstream\<close>) and the journal writer are parameters that act on one world \<open>'w\<close>: what
  a tool does to the world, the journal included, is not restricted. Exceptions of the tool outside
  \<open>Exception\<close>, such as \<open>KeyboardInterrupt\<close>, are left out, and so is a tool that changes the dicts of
  the descriptor it was given in place.
\<close>

section \<open>MCP tool descriptors\<close>

record McpToolDescriptor =
  md_server_identity :: string
  md_name :: string
  md_description :: string
  md_input_schema :: pydict
  md_output_schema :: "pydict option"
  md_annotations :: pydict
  md_metadata :: pydict

abbreviation valid_json :: "pydict \<Rightarrow> unit res" where
  "valid_json d \<equiv> validate_json_value default_limits 0 (VDict d)"

definition valid_json_option :: "pydict option \<Rightarrow> unit res" where
  "valid_json_option d = (case d of None \<Rightarrow> Inr () | Some x \<Rightarrow> valid_json x)"

definition McpToolDescriptor_new :: "McpToolDescriptor \<Rightarrow> McpToolDescriptor res" where
  "McpToolDescriptor_new d =
     bnd (require (md_server_identity d \<noteq> []) ValueError ''server_identity is required'') (\<lambda>_.
     bnd (require (md_name d \<noteq> []) ValueError ''name is required'') (\<lambda>_.
     bnd (valid_json (md_input_schema d)) (\<lambda>_.
     bnd (valid_json_option (md_output_schema d)) (\<lambda>_.
     bnd (valid_json (md_annotations d)) (\<lambda>_.
     bnd (valid_json (md_metadata d)) (\<lambda>_. Inr d))))))"

definition opt_dict :: "pydict option \<Rightarrow> pyv" where
  "opt_dict d = (case d of None \<Rightarrow> VNone | Some x \<Rightarrow> VDict x)"

definition mcp_canonical_items :: "McpToolDescriptor \<Rightarrow> (string \<times> pyv) list" where
  "mcp_canonical_items d =
     [(''adapter'', VStr ''mcp''), (''server_identity'', VStr (md_server_identity d)),
      (''name'', VStr (md_name d)), (''description'', VStr (md_description d)),
      (''input_schema'', VDict (md_input_schema d)), (''output_schema'', opt_dict (md_output_schema d)),
      (''annotations'', VDict (md_annotations d)), (''metadata'', VDict (md_metadata d))]"

definition McpToolDescriptor_canonical_object :: "McpToolDescriptor \<Rightarrow> pyv" where
  "McpToolDescriptor_canonical_object d = obj (mcp_canonical_items d)"

definition descriptor_hash :: "McpToolDescriptor \<Rightarrow> string res" where
  "descriptor_hash d =
     bnd (deterministic_json_bytes (McpToolDescriptor_canonical_object d)) (\<lambda>canonical_bytes.
       Inr (''sha256:'' @ sha256_hex canonical_bytes))"

definition tool_identity :: "McpToolDescriptor \<Rightarrow> pyv res" where
  "tool_identity d =
     bnd (descriptor_hash d) (\<lambda>h.
       Inr (obj [(''adapter'', VStr ''mcp''), (''server_identity'', VStr (md_server_identity d)),
                 (''name'', VStr (md_name d)), (''descriptor_hash'', VStr h)]))"

definition descriptor_payload :: "McpToolDescriptor \<Rightarrow> string option \<Rightarrow> pydict res" where
  "descriptor_payload d arguments_digest =
     bnd (tool_identity d) (\<lambda>identity.
       Inr (obj_items ([(''tool_identity'', identity), (''descriptor'', McpToolDescriptor_canonical_object d)]
              @ unless_none ''arguments_digest'' (map_option VStr arguments_digest))))"

section \<open>Planning an MCP call\<close>

datatype McpTransportKind = STREAMABLE_HTTP | STDIO

fun McpTransportKind_value :: "McpTransportKind \<Rightarrow> string" where
  "McpTransportKind_value STREAMABLE_HTTP = ''streamable_http''"
| "McpTransportKind_value STDIO = ''stdio''"

record McpExecutionPlan =
  mp_should_dispatch :: bool
  mp_requested_payload :: pydict
  mp_policy_payload :: pydict
  mp_authorized_payload :: "pydict option"
  mp_dispatch_payload :: "pydict option"
  mp_not_dispatched_payload :: "pydict option"
  mp_degraded_payload :: "pydict option"

text \<open>The events of a plan in the order they are appended; a missing payload is no event.\<close>

definition plan_events :: "McpExecutionPlan \<Rightarrow> (EventType \<times> pydict option) list" where
  "plan_events p =
     [(TOOL_EXECUTION_REQUESTED, Some (mp_requested_payload p)),
      (POLICY_DECISION, Some (mp_policy_payload p)),
      (TOOL_EXECUTION_AUTHORIZED, mp_authorized_payload p),
      (TOOL_EXECUTION_DISPATCHED, mp_dispatch_payload p),
      (TOOL_EXECUTION_NOT_DISPATCHED, mp_not_dispatched_payload p),
      (RECORDER_DEGRADED, mp_degraded_payload p)]"

definition event_if :: "EventType \<Rightarrow> pydict option \<Rightarrow> string list" where
  "event_if t pay = (case pay of None \<Rightarrow> [] | Some _ \<Rightarrow> [EventType_value t])"

definition lifecycle_event_types :: "McpExecutionPlan \<Rightarrow> string list" where
  "lifecycle_event_types p =
     [EventType_value TOOL_EXECUTION_REQUESTED, EventType_value POLICY_DECISION]
     @ event_if TOOL_EXECUTION_AUTHORIZED (mp_authorized_payload p)
     @ event_if TOOL_EXECUTION_DISPATCHED (mp_dispatch_payload p)
     @ event_if TOOL_EXECUTION_NOT_DISPATCHED (mp_not_dispatched_payload p)
     @ event_if RECORDER_DEGRADED (mp_degraded_payload p)"

text \<open>\<open>_json_object\<close>: the dict, when it is JSON within the limits.\<close>

definition json_object :: "pydict \<Rightarrow> pydict res" where
  "json_object d = bnd (valid_json d) (\<lambda>_. Inr d)"

definition dict_of :: "pyv \<Rightarrow> pydict" where
  "dict_of v = (case v of VDict d \<Rightarrow> d | _ \<Rightarrow> [])"

definition not_dispatched_reason ::
  "PolicyDecision \<Rightarrow> ApprovalValidationResult option \<Rightarrow> string" where
  "not_dispatched_reason decision approval =
     (if \<exists>a\<in>set_option approval. \<not> ApprovalValidationResult_accepted a then ''approval_rejected''
      else ''policy_'' @ PolicyDecisionOutcome_value (po_outcome decision))"

record mcp_call =
  ca_arguments_digest :: string
  ca_call_id :: string
  ca_transport :: McpTransportKind
  ca_policy_decision :: PolicyDecision
  ca_failure_mode :: PolicyFailureMode
  ca_approval_result :: "ApprovalValidationResult option"

definition approval_accepted :: "mcp_call \<Rightarrow> bool" where
  "approval_accepted c =
     (case ca_approval_result c of None \<Rightarrow> False | Some a \<Rightarrow> ApprovalValidationResult_accepted a)"

definition should_dispatch :: "mcp_call \<Rightarrow> bool" where
  "should_dispatch c = dispatch_allowed (ca_policy_decision c) (ca_failure_mode c) (approval_accepted c)"

definition call_policy_payload :: "mcp_call \<Rightarrow> pydict res" where
  "call_policy_payload c =
     bnd (json_object (dict_of (PolicyDecision_as_payload (ca_policy_decision c)))) (\<lambda>policy_payload.
       case ca_approval_result c of
         None \<Rightarrow> Inr policy_payload
       | Some a \<Rightarrow>
           bnd (json_object (dict_of (ApprovalValidationResult_as_payload a))) (\<lambda>approval.
             Inr (dset policy_payload (KStr ''approval'') (VDict approval))))"

definition authorized_payload :: "McpToolDescriptor \<Rightarrow> mcp_call \<Rightarrow> pydict \<Rightarrow> pydict res" where
  "authorized_payload d c policy_payload =
     bnd (tool_identity d) (\<lambda>identity.
       json_object (obj_items
         [(''tool_identity'', identity),
          (''authorization'', obj
             [(''outcome'', VStr ''authorized''), (''policy_decision'', VDict policy_payload),
              (''approval_accepted'', VBool (approval_accepted c))])]))"

definition dispatch_payload :: "McpToolDescriptor \<Rightarrow> mcp_call \<Rightarrow> pydict res" where
  "dispatch_payload d c =
     bnd (tool_identity d) (\<lambda>identity.
       json_object (obj_items
         [(''tool_identity'', identity),
          (''dispatch'', obj
             [(''state'', VStr ''dispatched''),
              (''transport'', VStr (McpTransportKind_value (ca_transport c))),
              (''call_id'', VStr (ca_call_id c))])]))"

definition not_dispatched_payload :: "McpToolDescriptor \<Rightarrow> mcp_call \<Rightarrow> pydict res" where
  "not_dispatched_payload d c =
     bnd (tool_identity d) (\<lambda>identity.
       json_object (obj_items
         [(''tool_identity'', identity),
          (''not_dispatched'', obj
             [(''reason'', VStr (not_dispatched_reason (ca_policy_decision c) (ca_approval_result c))),
              (''downstream_forwarded'', VBool False), (''call_id'', VStr (ca_call_id c))])]))"

definition degraded_payload :: "mcp_call \<Rightarrow> pydict option res" where
  "degraded_payload c =
     (if po_outcome (ca_policy_decision c) = PO_ERROR
      then bnd (json_object (obj_items
             [(''degraded_component'', VStr ''policy_adapter''),
              (''failure_mode'', VStr (PolicyFailureMode_value (ca_failure_mode c))),
              (''risk_class'', VStr (RiskClass_value (po_risk_class (ca_policy_decision c)))),
              (''reason'', VStr (po_reason (ca_policy_decision c))),
              (''dispatch_allowed'', VBool (should_dispatch c))])) (\<lambda>d. Inr (Some d))
      else Inr None)"

definition requested_payload :: "McpToolDescriptor \<Rightarrow> mcp_call \<Rightarrow> pydict res" where
  "requested_payload d c =
     bnd (descriptor_payload d (Some (ca_arguments_digest c))) (\<lambda>p.
       Inr (dset (dset p (KStr ''call_id'') (VStr (ca_call_id c)))
              (KStr ''transport'') (VStr (McpTransportKind_value (ca_transport c)))))"

definition plan_mcp_tool_execution :: "McpToolDescriptor \<Rightarrow> mcp_call \<Rightarrow> McpExecutionPlan res" where
  "plan_mcp_tool_execution d c =
     bnd (requested_payload d c) (\<lambda>requested.
     bnd (call_policy_payload c) (\<lambda>policy.
     bnd (if should_dispatch c
          then bnd (authorized_payload d c policy) (\<lambda>authorized.
               bnd (dispatch_payload d c) (\<lambda>dispatch. Inr (Some authorized, Some dispatch, None)))
          else bnd (not_dispatched_payload d c) (\<lambda>refused. Inr (None, None, Some refused)))
       (\<lambda>(authorized, dispatch, refused).
     bnd (degraded_payload c) (\<lambda>degraded.
       Inr \<lparr>mp_should_dispatch = should_dispatch c, mp_requested_payload = requested,
            mp_policy_payload = policy, mp_authorized_payload = authorized,
            mp_dispatch_payload = dispatch, mp_not_dispatched_payload = refused,
            mp_degraded_payload = degraded\<rparr>))))"

section \<open>Executing an MCP call\<close>

record McpDownstreamResult =
  dr_status :: string
  dr_result_digest :: "string option"
  dr_result_payload :: "pydict option"

text \<open>What the tool does: it returns, raises a \<open>ValueError\<close>, or raises another exception of a class
  with that name.\<close>

datatype downstream_answer =
  Returned McpDownstreamResult | RaisedValueError | RaisedException string

record McpProxyExecutionResult =
  px_dispatched :: bool
  px_downstream_called :: bool
  px_event_ids :: "string list"
  px_acknowledgement_event_id :: "string option"
  px_acknowledgement_status :: "string option"

definition acknowledgement_payload ::
  "McpToolDescriptor \<Rightarrow> string \<Rightarrow> string \<Rightarrow> string option \<Rightarrow> pydict option \<Rightarrow> pydict res" where
  "acknowledgement_payload d call_id status result_digest result_payload =
     bnd (valid_json_option result_payload) (\<lambda>_.
     bnd (tool_identity d) (\<lambda>identity.
       json_object (obj_items
         [(''tool_identity'', identity),
          (''acknowledgement'', obj
             ([(''status'', VStr status), (''call_id'', VStr call_id),
               (''side_effect_status'', VStr ''unverified''),
               (''note'', VStr ''MCP tool acknowledgement is not side-effect verification'')]
              @ unless_none ''result_digest'' (map_option VStr result_digest)
              @ unless_none ''result'' (map_option VDict result_payload)))])))"

text \<open>The name of a class that the JSON encoder raises besides the \<open>ValueError\<close>s.\<close>

definition encoder_error_name :: "exn_class \<Rightarrow> string" where
  "encoder_error_name k = (if k = TypeError then ''TypeError'' else ''Exception'')"

definition malformed_acknowledgement :: "McpToolDescriptor \<Rightarrow> string \<Rightarrow> pydict res" where
  "malformed_acknowledgement d call_id =
     acknowledgement_payload d call_id ''failed'' None
       (Some (obj_items [(''error'', VStr ''malformed_downstream_result'')]))"

definition failed_acknowledgement :: "McpToolDescriptor \<Rightarrow> string \<Rightarrow> string \<Rightarrow> pydict res" where
  "failed_acknowledgement d call_id error_type =
     acknowledgement_payload d call_id ''failed'' None
       (Some (obj_items [(''error'', VStr ''downstream_execution_failed''),
                         (''error_type'', VStr error_type)]))"

text \<open>\<open>_call_downstream\<close>: the payload for a returned result is built inside the same \<open>try\<close>.\<close>

definition call_downstream ::
  "(McpToolDescriptor \<Rightarrow> pydict \<Rightarrow> 'w \<Rightarrow> downstream_answer \<times> 'w) \<Rightarrow> McpToolDescriptor \<Rightarrow> pydict
     \<Rightarrow> string \<Rightarrow> 'w \<Rightarrow> pydict res \<times> 'w" where
  "call_downstream downstream d arguments call_id w =
     (case downstream d arguments w of (answer, w') \<Rightarrow>
        (case answer of
           Returned r \<Rightarrow>
             (case acknowledgement_payload d call_id (dr_status r) (dr_result_digest r) (dr_result_payload r) of
                Inr a \<Rightarrow> Inr a
              | Inl err \<Rightarrow>
                  if is_a (exn_kind err) ValueError then malformed_acknowledgement d call_id
                  else failed_acknowledgement d call_id (encoder_error_name (exn_kind err)))
         | RaisedValueError \<Rightarrow> malformed_acknowledgement d call_id
         | RaisedException name \<Rightarrow> failed_acknowledgement d call_id name, w'))"

record ('g, 'c, 'w) mcp_state =
  mc_normalizer :: "('g, 'c) EvidenceNormalizer"
  mc_world :: 'w

text \<open>\<open>journal.append(normalizer.record(event_type, payload))\<close>\<close>

definition record_and_append ::
  "pydantic \<Rightarrow> ('g \<Rightarrow> string \<Rightarrow> string res \<times> 'g) \<Rightarrow> ('c \<Rightarrow> datetime res \<times> 'c)
     \<Rightarrow> ('w \<Rightarrow> event \<Rightarrow> event res \<times> 'w) \<Rightarrow> EventType \<Rightarrow> pydict \<Rightarrow> ('g, 'c, 'w) mcp_state
     \<Rightarrow> event res \<times> ('g, 'c, 'w) mcp_state" where
  "record_and_append pd new_id now append1 t pay st =
     (case EvidenceNormalizer_record pd new_id now (mc_normalizer st) (EventType_value t) (VDict pay) no_args of
        (Inl err, nz) \<Rightarrow> (Inl err, st\<lparr>mc_normalizer := nz\<rparr>)
      | (Inr e, nz) \<Rightarrow>
          (case append1 (mc_world st) e of (res, w) \<Rightarrow> (res, st\<lparr>mc_normalizer := nz, mc_world := w\<rparr>)))"

fun append_plan_events ::
  "pydantic \<Rightarrow> ('g \<Rightarrow> string \<Rightarrow> string res \<times> 'g) \<Rightarrow> ('c \<Rightarrow> datetime res \<times> 'c)
     \<Rightarrow> ('w \<Rightarrow> event \<Rightarrow> event res \<times> 'w) \<Rightarrow> (EventType \<times> pydict option) list \<Rightarrow> ('g, 'c, 'w) mcp_state
     \<Rightarrow> string list res \<times> ('g, 'c, 'w) mcp_state" where
  "append_plan_events pd new_id now append1 [] st = (Inr [], st)"
| "append_plan_events pd new_id now append1 ((t, None) # rest) st =
     append_plan_events pd new_id now append1 rest st"
| "append_plan_events pd new_id now append1 ((t, Some pay) # rest) st =
     (case record_and_append pd new_id now append1 t pay st of
        (Inl err, st') \<Rightarrow> (Inl err, st')
      | (Inr e, st') \<Rightarrow>
          (case append_plan_events pd new_id now append1 rest st' of
             (Inl err, st'') \<Rightarrow> (Inl err, st'')
           | (Inr ids, st'') \<Rightarrow> (Inr (event_id e # ids), st'')))"

definition acknowledgement_status :: "pydict \<Rightarrow> string option" where
  "acknowledgement_status acknowledgement =
     (case get_or_none acknowledgement ''acknowledgement'' of
        VDict body \<Rightarrow> (case get_or_none body ''status'' of VStr s \<Rightarrow> Some s | _ \<Rightarrow> None)
      | _ \<Rightarrow> None)"

definition execute_mcp_tool_call ::
  "pydantic \<Rightarrow> ('g \<Rightarrow> string \<Rightarrow> string res \<times> 'g) \<Rightarrow> ('c \<Rightarrow> datetime res \<times> 'c)
     \<Rightarrow> ('w \<Rightarrow> event \<Rightarrow> event res \<times> 'w)
     \<Rightarrow> (McpToolDescriptor \<Rightarrow> pydict \<Rightarrow> 'w \<Rightarrow> downstream_answer \<times> 'w)
     \<Rightarrow> McpToolDescriptor \<Rightarrow> pydict \<Rightarrow> mcp_call \<Rightarrow> ('g, 'c, 'w) mcp_state
     \<Rightarrow> McpProxyExecutionResult res \<times> ('g, 'c, 'w) mcp_state" where
  "execute_mcp_tool_call pd new_id now append1 downstream d arguments c st =
     (case bnd (valid_json arguments) (\<lambda>_. plan_mcp_tool_execution d c) of
        Inl err \<Rightarrow> (Inl err, st)
      | Inr plan \<Rightarrow>
          (case append_plan_events pd new_id now append1 (plan_events plan) st of
             (Inl err, st1) \<Rightarrow> (Inl err, st1)
           | (Inr event_ids, st1) \<Rightarrow>
               if \<not> mp_should_dispatch plan
               then (Inr \<lparr>px_dispatched = False, px_downstream_called = False, px_event_ids = event_ids,
                          px_acknowledgement_event_id = None, px_acknowledgement_status = None\<rparr>, st1)
               else
                 (case call_downstream downstream d arguments (ca_call_id c) (mc_world st1) of
                    (Inl err, w) \<Rightarrow> (Inl err, st1\<lparr>mc_world := w\<rparr>)
                  | (Inr acknowledgement, w) \<Rightarrow>
                      (case record_and_append pd new_id now append1 TOOL_EXECUTION_ACKNOWLEDGED
                              acknowledgement (st1\<lparr>mc_world := w\<rparr>) of
                         (Inl err, st2) \<Rightarrow> (Inl err, st2)
                       | (Inr e, st2) \<Rightarrow>
                           (Inr \<lparr>px_dispatched = True, px_downstream_called = True,
                                 px_event_ids = event_ids @ [event_id e],
                                 px_acknowledgement_event_id = Some (event_id e),
                                 px_acknowledgement_status = acknowledgement_status acknowledgement\<rparr>,
                            st2)))))"

definition descriptor_drift_payload :: "McpToolDescriptor \<Rightarrow> McpToolDescriptor \<Rightarrow> pydict res" where
  "descriptor_drift_payload previous current =
     bnd (descriptor_hash previous) (\<lambda>previous_hash.
     bnd (descriptor_hash current) (\<lambda>current_hash.
     bnd (tool_identity current) (\<lambda>identity.
       Inr (obj_items
         [(''tool_identity'', identity),
          (''descriptor_drift'', obj
             [(''previous_descriptor_hash'', VStr previous_hash),
              (''current_descriptor_hash'', VStr current_hash),
              (''changed'', VBool (previous_hash \<noteq> current_hash)),
              (''server_identity'', VStr (md_server_identity current)),
              (''tool_name'', VStr (md_name current))])]))))"

section \<open>Framework tools\<close>

datatype FrameworkKind =
  FK_OPENAI_AGENTS | FK_LANGCHAIN | FK_LLAMAINDEX | FK_CREWAI | FK_SHELL | FK_BROWSER
  | FK_LOCAL_FUNCTION | FK_UNKNOWN

fun FrameworkKind_value :: "FrameworkKind \<Rightarrow> string" where
  "FrameworkKind_value FK_OPENAI_AGENTS = ''openai_agents''"
| "FrameworkKind_value FK_LANGCHAIN = ''langchain''"
| "FrameworkKind_value FK_LLAMAINDEX = ''llamaindex''"
| "FrameworkKind_value FK_CREWAI = ''crewai''"
| "FrameworkKind_value FK_SHELL = ''shell''"
| "FrameworkKind_value FK_BROWSER = ''browser''"
| "FrameworkKind_value FK_LOCAL_FUNCTION = ''local_function''"
| "FrameworkKind_value FK_UNKNOWN = ''unknown''"

datatype FrameworkAcknowledgementStatus =
  FA_SUCCEEDED | FA_FAILED | FA_TIMED_OUT | FA_CANCELLED | FA_UNKNOWN

fun FrameworkAcknowledgementStatus_value :: "FrameworkAcknowledgementStatus \<Rightarrow> string" where
  "FrameworkAcknowledgementStatus_value FA_SUCCEEDED = ''succeeded''"
| "FrameworkAcknowledgementStatus_value FA_FAILED = ''failed''"
| "FrameworkAcknowledgementStatus_value FA_TIMED_OUT = ''timed_out''"
| "FrameworkAcknowledgementStatus_value FA_CANCELLED = ''cancelled''"
| "FrameworkAcknowledgementStatus_value FA_UNKNOWN = ''unknown''"

record FrameworkToolDescriptor =
  fd_framework :: FrameworkKind
  fd_tool_name :: string
  fd_description :: string
  fd_input_schema :: pydict
  fd_server_identity :: "string option"
  fd_output_schema :: "pydict option"
  fd_version :: "string option"
  fd_annotations :: pydict
  fd_metadata :: pydict

definition FrameworkToolDescriptor_new :: "FrameworkToolDescriptor \<Rightarrow> FrameworkToolDescriptor res" where
  "FrameworkToolDescriptor_new d =
     bnd (require (fd_tool_name d \<noteq> []) ValueError ''tool_name is required'') (\<lambda>_.
     bnd (valid_json (fd_input_schema d)) (\<lambda>_.
     bnd (valid_json_option (fd_output_schema d)) (\<lambda>_.
     bnd (valid_json (fd_annotations d)) (\<lambda>_.
     bnd (valid_json (fd_metadata d)) (\<lambda>_. Inr d)))))"

definition FrameworkToolDescriptor_canonical_object :: "FrameworkToolDescriptor \<Rightarrow> pyv" where
  "FrameworkToolDescriptor_canonical_object d =
     obj ([(''adapter'', VStr ''framework''), (''framework'', VStr (FrameworkKind_value (fd_framework d))),
           (''tool_name'', VStr (fd_tool_name d)), (''description'', VStr (fd_description d)),
           (''input_schema'', VDict (fd_input_schema d)), (''output_schema'', opt_dict (fd_output_schema d)),
           (''annotations'', VDict (fd_annotations d)), (''metadata'', VDict (fd_metadata d))]
          @ unless_none ''server_identity'' (map_option VStr (fd_server_identity d))
          @ unless_none ''version'' (map_option VStr (fd_version d)))"

record FrameworkToolInvocation =
  fi_descriptor :: FrameworkToolDescriptor
  fi_invocation_id :: string
  fi_action_type :: string
  fi_arguments_digest :: string
  fi_resources :: "NormalizedResource list"
  fi_delegated_identity :: "DelegatedIdentity option"
  fi_attributes :: pydict

definition FrameworkToolInvocation_new :: "FrameworkToolInvocation \<Rightarrow> FrameworkToolInvocation res" where
  "FrameworkToolInvocation_new i =
     bnd (require (fi_invocation_id i \<noteq> []) ValueError ''invocation_id is required'') (\<lambda>_.
     bnd (require (fi_action_type i \<noteq> []) ValueError ''action_type is required'') (\<lambda>_.
     bnd (require (fi_arguments_digest i \<noteq> []) ValueError ''arguments_digest is required'') (\<lambda>_.
     bnd (valid_json (fi_attributes i)) (\<lambda>_. Inr i))))"

abbreviation invocation_framework :: "FrameworkToolInvocation \<Rightarrow> string" where
  "invocation_framework i \<equiv> FrameworkKind_value (fd_framework (fi_descriptor i))"

definition idempotency_prefix :: "FrameworkToolInvocation \<Rightarrow> string" where
  "idempotency_prefix i = ''framework:'' @ invocation_framework i @ '':'' @ fi_invocation_id i"

definition framework_descriptor_hash :: "FrameworkToolDescriptor \<Rightarrow> string res" where
  "framework_descriptor_hash d =
     bnd (deterministic_json_bytes (FrameworkToolDescriptor_canonical_object d)) (\<lambda>canonical_bytes.
       Inr (''sha256:'' @ sha256_hex canonical_bytes))"

definition framework_tool_identity :: "FrameworkToolDescriptor \<Rightarrow> pyv res" where
  "framework_tool_identity d =
     bnd (framework_descriptor_hash d) (\<lambda>h.
       Inr (obj ([(''adapter'', VStr ''framework''),
                  (''framework'', VStr (FrameworkKind_value (fd_framework d))),
                  (''name'', VStr (fd_tool_name d)), (''descriptor_hash'', VStr h)]
                 @ unless_none ''server_identity'' (map_option VStr (fd_server_identity d))
                 @ unless_none ''version'' (map_option VStr (fd_version d)))))"

definition framework_descriptor_payload :: "FrameworkToolDescriptor \<Rightarrow> pydict res" where
  "framework_descriptor_payload d =
     bnd (framework_tool_identity d) (\<lambda>identity.
       Inr (obj_items [(''tool_identity'', identity),
                       (''descriptor'', FrameworkToolDescriptor_canonical_object d)]))"

definition invocation_payload :: "FrameworkToolInvocation \<Rightarrow> pyv" where
  "invocation_payload i =
     obj [(''invocation_id'', VStr (fi_invocation_id i)), (''framework'', VStr (invocation_framework i)),
          (''arguments_digest'', VStr (fi_arguments_digest i))]"

definition framework_request_payload :: "FrameworkToolInvocation \<Rightarrow> pydict res" where
  "framework_request_payload i =
     bnd (framework_descriptor_hash (fi_descriptor i)) (\<lambda>h.
     bnd (ToolIdentity_new \<lparr>ti_name = fd_tool_name (fi_descriptor i), ti_descriptor_hash = Some h,
            ti_adapter = Some (''framework:'' @ invocation_framework i),
            ti_version = fd_version (fi_descriptor i)\<rparr>) (\<lambda>tool.
     bnd (NormalizedAction_new \<lparr>na_action_type = fi_action_type i, na_resources = fi_resources i,
            na_tool_identity = Some tool, na_delegated_identity = fi_delegated_identity i,
            na_attributes = fi_attributes i\<rparr>) (\<lambda>action.
     bnd (framework_tool_identity (fi_descriptor i)) (\<lambda>identity.
       Inr (obj_items
         [(''tool_identity'', identity),
          (''descriptor'', FrameworkToolDescriptor_canonical_object (fi_descriptor i)),
          (''framework_invocation'', invocation_payload i),
          (''action'', NormalizedAction_as_payload action)])))))"

definition framework_dispatch_payload :: "FrameworkToolInvocation \<Rightarrow> pydict res" where
  "framework_dispatch_payload i =
     bnd (framework_tool_identity (fi_descriptor i)) (\<lambda>identity.
       Inr (obj_items
         [(''tool_identity'', identity), (''framework_invocation'', invocation_payload i),
          (''dispatch'', obj
             [(''state'', VStr ''dispatched''), (''adapter'', VStr ''framework''),
              (''framework'', VStr (invocation_framework i))])]))"

definition framework_acknowledgement_payload ::
  "FrameworkToolInvocation \<Rightarrow> FrameworkAcknowledgementStatus \<Rightarrow> string option \<Rightarrow> pydict option
     \<Rightarrow> pydict res" where
  "framework_acknowledgement_payload i status result_digest result_summary =
     bnd (framework_tool_identity (fi_descriptor i)) (\<lambda>identity.
       Inr (obj_items
         [(''tool_identity'', identity), (''framework_invocation'', invocation_payload i),
          (''acknowledgement'', obj
             ([(''status'', VStr (FrameworkAcknowledgementStatus_value status)),
               (''side_effect_status'', VStr ''unverified''),
               (''note'', VStr ''Framework tool acknowledgement is not side-effect verification'')]
              @ unless_none ''result_digest'' (map_option VStr result_digest)
              @ unless_none ''result_summary'' (map_option VDict result_summary)))]))"

definition framework_not_dispatched_payload :: "FrameworkToolInvocation \<Rightarrow> string \<Rightarrow> pydict res" where
  "framework_not_dispatched_payload i reason =
     (if reason = [] then raise ValueError ''not_dispatched_reason is required''
      else bnd (framework_tool_identity (fi_descriptor i)) (\<lambda>identity.
        Inr (obj_items
          [(''tool_identity'', identity), (''framework_invocation'', invocation_payload i),
           (''not_dispatched'', obj
              [(''reason'', VStr reason), (''downstream_forwarded'', VBool False)])])))"

definition framework_record ::
  "FrameworkToolInvocation \<Rightarrow> EventType \<Rightarrow> string \<Rightarrow> pydict \<Rightarrow> string \<Rightarrow> EvidenceRecord res" where
  "framework_record i t lifecycle pay sort_key_prefix =
     bnd (valid_json pay) (\<lambda>_.
       EvidenceRecord_new
         \<lparr>er_idempotency_key = idempotency_prefix i @ '':'' @ lifecycle,
          er_event_type = EventType_value t, er_payload = pay, er_source_kind = SK_EXTERNAL_JSON,
          er_sort_key = sort_key_prefix @ fi_invocation_id i @ '':'' @ lifecycle,
          er_source = None, er_principal = None, er_classification = None\<rparr>)"

record lifecycle_args =
  la_acknowledgement_status :: "FrameworkAcknowledgementStatus option"
  la_result_digest :: "string option"
  la_result_summary :: "pydict option"
  la_not_dispatched_reason :: "string option"
  la_sort_key_prefix :: string

definition framework_acknowledged ::
  "FrameworkToolInvocation \<Rightarrow> lifecycle_args \<Rightarrow> EvidenceRecord list res" where
  "framework_acknowledged i args =
     (case la_acknowledgement_status args of
        None \<Rightarrow> Inr []
      | Some status \<Rightarrow>
          bnd (framework_acknowledgement_payload i status (la_result_digest args) (la_result_summary args))
            (\<lambda>pay. bnd (framework_record i TOOL_EXECUTION_ACKNOWLEDGED ''acknowledged'' pay
                          (la_sort_key_prefix args)) (\<lambda>r. Inr [r])))"

definition framework_lifecycle_records ::
  "FrameworkToolInvocation \<Rightarrow> lifecycle_args \<Rightarrow> EvidenceRecord list res" where
  "framework_lifecycle_records i args =
     bnd (valid_json_option (la_result_summary args)) (\<lambda>_.
     bnd (framework_request_payload i) (\<lambda>pay.
     bnd (framework_record i TOOL_EXECUTION_REQUESTED ''requested'' pay (la_sort_key_prefix args)) (\<lambda>requested.
     case la_not_dispatched_reason args of
       Some reason \<Rightarrow>
         bnd (framework_not_dispatched_payload i reason) (\<lambda>pay.
         bnd (framework_record i TOOL_EXECUTION_NOT_DISPATCHED ''not_dispatched'' pay
                (la_sort_key_prefix args)) (\<lambda>refused. Inr [requested, refused]))
     | None \<Rightarrow>
         bnd (framework_dispatch_payload i) (\<lambda>pay.
         bnd (framework_record i TOOL_EXECUTION_DISPATCHED ''dispatched'' pay
                (la_sort_key_prefix args)) (\<lambda>dispatched.
         bnd (framework_acknowledged i args) (\<lambda>acknowledged.
           Inr (requested # dispatched # acknowledged)))))))"

end
