(* ===== verification/ToolAdapterFacts.thy ===== *)
theory ToolAdapterFacts
  imports ToolAdapters IngestionClaims RedactionBoundary
begin

text \<open>
  The library behind the adapters' properties: the records an MCP call leaves in a journal (locale
  \<open>call_journal\<close>, interpreted on the local journal behind a redaction policy that keeps the type of
  an event), and the order of a framework's lifecycle records.
\<close>

section \<open>Policies that keep the type of an event\<close>

locale typed_boundary = redaction_boundary +
  assumes keeps_event_type:
    "wf_event e \<Longrightarrow> event_type e = EventType_value t \<Longrightarrow> redacted_event pd apply_policy e = Inr r \<Longrightarrow>
     event_type r = event_type e"

definition typed_policy :: "RedactionPolicy \<Rightarrow> bool" where
  "typed_policy policy \<longleftrightarrow>
     open_path policy [] \<and> open_path policy [''event_type'']
     \<and> (\<forall>t. redact_text (EventType_value t) policy = EventType_value t
          \<and> int (py_len (EventType_value t)) \<le> max_string_length policy)"

lemma lower_event_type [simp]: "py_lower ''event_type'' = ''event_type''"
  by (simp add: py_lower_def lower_char_def byte_def)



context pydantic_laws begin

lemma validated_event_type:
  assumes "model_validate pd (canon (VDict d)) = Inr r" "is_json (VDict d)"
    and "get_item d ''event_type'' = Some (VStr s)"
  shows "event_type r = s"
proof -
  obtain c where c: "canon (VDict d) = VDict c" by simp
  have "get_item c ''event_type'' = Some (VStr s)"
    using get_item_canon [OF assms(2) c] assms(3) by simp
  moreover obtain occ obs where "build_event pd occ obs c = Some r"
    using assms(1) by (auto simp: c model_validate_def validation_error_def pd_fields_dict bnd_Inr_iff
        simp del: canon.simps split: option.splits if_splits)
  ultimately show ?thesis
    by (auto simp: build_event_def bind_eq_Some_conv field_def min1_str_def pd_str_str split: if_splits)
qed

end

lemma typed_boundary_policy:
  assumes "pydantic_laws pd" "chain_policy policy" "typed_policy policy"
  shows "typed_boundary pd (RedactionPolicy_apply policy)"
proof (intro typed_boundary.intro typed_boundary_axioms.intro redaction_boundary_policy assms(1,2))
  fix e t r
  assume e: "wf_event e" "event_type e = EventType_value t"
    "redacted_event pd (RedactionPolicy_apply policy) e = Inr r"
  note pol = assms(3) [unfolded typed_policy_def]
  let ?d = "obj_items (event_dump (\<lambda>t. VStr (pd_dump_datetime pd t)) e)"
  obtain d b b' where d: "is_json (VDict d)" "model_validate pd (canon (VDict d)) = Inr r"
    "redact_members policy [] 0 ?d b = Inr (d, b')"
    using redacted_event_members [OF e(1,3)] pol by (auto simp: open_path_def)
  have "get_item ?d ''event_type'' = Some (VStr (event_type e))" by (simp add: event_dump_def)
  from redact_members_get [OF d(3) this] obtain w b1 b2 where w: "get_item d ''event_type'' = Some w"
    "redact_value policy [''event_type''] 1 (VStr (event_type e)) b1 = Inr (w, b2)"
    by auto
  have "redact_string policy [''event_type''] (event_type e) b1 = Inr (w, b2)"
    using redact_scalar(4) [OF w(2)] pol by (auto simp: open_path_def)
  moreover have "redact_text (event_type e) policy = event_type e"
    "int (py_len (event_type e)) \<le> max_string_length policy"
    using pol e(2) by simp_all
  ultimately have "w = VStr (event_type e)"
    by (auto simp: redact_string_def capture_string_def bnd_Inr_iff Let_def split: if_splits)
  then show "event_type r = event_type e"
    using pydantic_laws.validated_event_type [OF assms(1) d(2,1)] w(1) by simp
qed

definition type_alphabet :: "nat list" where
  "type_alphabet = [46, 95, 97, 98, 99, 100, 101, 102, 103, 104, 105, 106, 107, 108, 109, 110, 111, 112,
     113, 114, 115, 116, 117, 118, 119, 120, 121, 122]"

lemma type_chars: "\<forall>c\<in>set (EventType_value t). byte c < 128 \<and> byte c \<in> set type_alphabet"
  by (induct t; code_simp)

lemma type_text: "set (decode_cps (EventType_value t)) \<subseteq> set type_alphabet"
  using type_chars [of t] decode_ascii [of "EventType_value t"] by auto

lemma type_length: "py_len (EventType_value t) \<le> 64"
proof -
  have "length (EventType_value t) \<le> 64" by (cases t) simp_all
  then show ?thesis using py_len_le_length [of "EventType_value t"] by linarith
qed

lemma default_patterns_types:
  "list_all (\<lambda>p. needs_other type_alphabet (rx_pattern p)) (DEFAULT_PATTERNS alnum)"
  by (simp add: DEFAULT_PATTERNS_def pattern_defs Let_def type_alphabet_def same_letter_def
      lower_cp_def fold_extra_def in_range_def one_of_def space_cp_def ascii_alnum_def byte_def)

lemma typed_policy_default: "typed_policy (default_policy alnum)"
proof -
  have "redact_text (EventType_value t) (default_policy alnum) = EventType_value t" for t
  proof (rule redact_text_unneeded [where q = "\<lambda>c. c \<notin> set type_alphabet"])
    show "utf8_ok True (EventType_value t)" using type_chars [of t] by (intro utf8_ok_ascii) auto
  qed (use default_patterns_types [of alnum] type_text [of t] in
        \<open>auto simp: needs_other_iff default_policy_def\<close>)
  moreover have "int (py_len (EventType_value t)) \<le> max_string_length (default_policy alnum)" for t
    using type_length [of t] by (simp add: default_policy_def DEFAULT_MAX_STRING_LENGTH_def)
  ultimately show ?thesis
    by (simp add: typed_policy_def default_policy_def open_path_def is_sensitive_path_def
      is_sensitive_field_def DEFAULT_SENSITIVE_FIELD_NAMES_def replace_char_def py_lower_def
      lower_char_def byte_def)
qed


section \<open>The payloads of a call\<close>

definition ok_payload :: "pydict \<Rightarrow> bool" where
  "ok_payload d \<longleftrightarrow> (\<forall>p\<in>set d. \<exists>s. fst p = KStr s) \<and> py_ok (VDict d)"

lemma normalizer_record_wf:
  assumes "pydantic_laws pd" "ok_clock now" "ok_payload pay"
    and "EvidenceNormalizer_record pd new_id now nz t (VDict pay) no_args = (Inr e, nz')"
  shows "wf_event e \<and> event_type e = t"
proof -
  obtain i rid parent occ obs where n:
    "normalized_event pd nz no_args t (VDict pay) i rid parent occ obs = Inr e" "dt_ok occ" "dt_ok obs"
    using record_returned [OF assms(4)] assms(2) unfolding ok_clock_def by metis
  obtain cau where cau: "Causality_new pd rid parent (nz_sequence nz) = Inr cau"
    and new: "EventEnvelope_new pd i t occ obs (nz_source nz) (nz_correlation nz) cau
         (nz_principal nz) (nz_classification nz) (VDict pay) = Inr e"
    using n(1) by (auto simp: normalized_event_def bnd_Inr_iff no_args_def or_default_def)
  have opt: "py_ok (opt_str x)" for x by (cases x) auto
  have "event_type e = t"
    using EventEnvelope_new_Inr [OF assms(1) new conjunct2 [OF Causality_new_Inr [OF assms(1) cau]]]
      assms(3) by (simp add: ok_payload_def)
  moreover have "wf_event e"
    using pydantic_laws.model_validate_wf [OF assms(1) new [unfolded EventEnvelope_new_def]] assms(3) n(2,3)
    by (simp add: source_dump_def correlation_dump_def causality_dump_def principal_dump_def
        classification_dump_def str_keys_def opt ok_payload_def)
  ultimately show ?thesis by simp
qed

definition ok_descriptor :: "McpToolDescriptor \<Rightarrow> bool" where
  "ok_descriptor d \<longleftrightarrow> py_ok (VDict (md_input_schema d)) \<and> py_ok (opt_dict (md_output_schema d))
     \<and> py_ok (VDict (md_annotations d)) \<and> py_ok (VDict (md_metadata d))"

lemma ok_payload_obj:
  "distinct (map fst kvs) \<Longrightarrow> \<forall>p\<in>set kvs. py_ok (snd p) \<Longrightarrow> ok_payload (obj_items kvs)"
  by (auto simp: ok_payload_def str_keys_def list_all_iff comp_def split_beta filter_id_conv distinct_map inj_on_def)

lemma ok_payload_dset:
  assumes "ok_payload d" "py_ok v"
  shows "ok_payload (dset d (KStr k) v)"
proof -
  have all: "\<forall>p\<in>set d. P p \<Longrightarrow> P (KStr k, v) \<Longrightarrow> \<forall>p\<in>set (dset d (KStr k) v). P p" for P
    using dset_subset [of d "KStr k" v] by blast
  have s: "\<forall>p\<in>set (dset d (KStr k) v). \<exists>s. fst p = KStr s"
    using assms(1) by (intro all) (simp_all add: ok_payload_def)
  have "distinct (keys (dset d (KStr k) v))"
    using assms(1) str_keys_all [of d] by (intro distinct_dset) (simp add: ok_payload_def)
  moreover have "list_all (\<lambda>(k, v). py_ok v) (dset d (KStr k) v)"
    unfolding list_all_iff using assms by (intro all) (simp_all add: ok_payload_def list_all_iff)
  ultimately show ?thesis using s str_keys_distinct by (simp add: ok_payload_def)
qed

lemma unless_none_keys: "map fst (unless_none k v) = (if v = None then [] else [k])"
  by (cases v) (simp_all add: unless_none_def)

lemma unless_none_py_ok: "\<forall>p\<in>set (unless_none k (map_option f v)). py_ok (snd p) \<longleftrightarrow> (\<forall>x. v = Some x \<longrightarrow> py_ok (f x))"
  by (cases v) (simp_all add: unless_none_def)

lemma py_ok_obj: "distinct (map fst kvs) \<Longrightarrow> \<forall>p\<in>set kvs. py_ok (snd p) \<Longrightarrow> py_ok (obj kvs)"
  using ok_payload_obj by (simp add: ok_payload_def)

lemma tool_identity_ok: "tool_identity d = Inr v \<Longrightarrow> py_ok v"
  by (auto simp: tool_identity_def bnd_Inr_iff str_keys_def)

lemma canonical_ok: "ok_descriptor d \<Longrightarrow> py_ok (McpToolDescriptor_canonical_object d)"
  unfolding McpToolDescriptor_canonical_object_def
  by (rule py_ok_obj) (auto simp: mcp_canonical_items_def ok_descriptor_def)

lemma opt_str_ok [simp]: "py_ok (opt_str x)"
  by (cases x) auto

lemma json_object_Inr [simp]: "json_object d = Inr e \<longleftrightarrow> valid_json d = Inr () \<and> e = d"
  by (auto simp: json_object_def bnd_Inr_iff)

lemma requested_ok: "ok_descriptor d \<Longrightarrow> requested_payload d c = Inr p \<Longrightarrow> ok_payload p"
  using canonical_ok tool_identity_ok
  by (auto simp: requested_payload_def descriptor_payload_def bnd_Inr_iff unless_none_def ok_payload_def
      str_keys_def)

lemma policy_ok: "call_policy_payload c = Inr p \<Longrightarrow> ok_payload p"
  by (auto simp: call_policy_payload_def bnd_Inr_iff dict_of_def PolicyDecision_as_payload_def
      ApprovalValidationResult_as_payload_def ok_payload_def str_keys_def split: option.splits)

lemma authorized_ok:
  "ok_payload policy \<Longrightarrow> authorized_payload d c policy = Inr p \<Longrightarrow> ok_payload p"
  using tool_identity_ok
  by (auto simp: authorized_payload_def bnd_Inr_iff ok_payload_def str_keys_def)

lemma dispatch_ok:
  "dispatch_payload d c = Inr p \<Longrightarrow> ok_payload p" "not_dispatched_payload d c = Inr p \<Longrightarrow> ok_payload p"
  "degraded_payload c = Inr (Some p) \<Longrightarrow> ok_payload p"
  using tool_identity_ok
  by (auto simp: dispatch_payload_def not_dispatched_payload_def degraded_payload_def bnd_Inr_iff
      ok_payload_def str_keys_def split: if_splits)

lemma acknowledgement_ok:
  "py_ok (opt_dict result) \<Longrightarrow> acknowledgement_payload d i s h result = Inr p \<Longrightarrow> ok_payload p"
  using tool_identity_ok
  by (auto simp: acknowledgement_payload_def bnd_Inr_iff unless_none_def opt_dict_def ok_payload_def
      str_keys_def split: option.splits)

definition degraded_types :: "mcp_call \<Rightarrow> EventType list" where
  "degraded_types c = (if po_outcome (ca_policy_decision c) = PO_ERROR then [RECORDER_DEGRADED] else [])"

definition planned_types :: "mcp_call \<Rightarrow> EventType list" where
  "planned_types c =
     [TOOL_EXECUTION_REQUESTED, POLICY_DECISION]
     @ (if should_dispatch c then [TOOL_EXECUTION_AUTHORIZED, TOOL_EXECUTION_DISPATCHED]
        else [TOOL_EXECUTION_NOT_DISPATCHED])
     @ degraded_types c"

definition present :: "(EventType \<times> pydict option) list \<Rightarrow> EventType list" where
  "present evs = map fst (filter (\<lambda>(t, pay). pay \<noteq> None) evs)"

lemma bnd_InrE: "bnd r f = Inr y \<Longrightarrow> (\<And>x. r = Inr x \<Longrightarrow> f x = Inr y \<Longrightarrow> P) \<Longrightarrow> P"
  by (auto simp: bnd_Inr_iff)

lemma plan_parts:
  assumes "plan_mcp_tool_execution d c = Inr p"
  obtains requested policy a b n g where
    "requested_payload d c = Inr requested" "call_policy_payload c = Inr policy"
    "degraded_payload c = Inr g"
    "p = \<lparr>mp_should_dispatch = should_dispatch c, mp_requested_payload = requested,
       mp_policy_payload = policy, mp_authorized_payload = a, mp_dispatch_payload = b,
       mp_not_dispatched_payload = n, mp_degraded_payload = g\<rparr>"
    "should_dispatch c \<longrightarrow> (\<exists>x y. a = Some x \<and> b = Some y \<and> n = None
       \<and> authorized_payload d c policy = Inr x \<and> dispatch_payload d c = Inr y)"
    "\<not> should_dispatch c \<longrightarrow> (\<exists>z. a = None \<and> b = None \<and> n = Some z \<and> not_dispatched_payload d c = Inr z)"
proof -
  obtain requested policy abn g where p:
    "requested_payload d c = Inr requested" "call_policy_payload c = Inr policy" "degraded_payload c = Inr g"
    "(if should_dispatch c
          then bnd (authorized_payload d c policy) (\<lambda>authorized.
               bnd (dispatch_payload d c) (\<lambda>dispatch. Inr (Some authorized, Some dispatch, None)))
          else bnd (not_dispatched_payload d c) (\<lambda>refused. Inr (None, None, Some refused))) = Inr abn"
    "p = \<lparr>mp_should_dispatch = should_dispatch c, mp_requested_payload = requested,
       mp_policy_payload = policy, mp_authorized_payload = fst abn, mp_dispatch_payload = fst (snd abn),
       mp_not_dispatched_payload = snd (snd abn), mp_degraded_payload = g\<rparr>"
    using assms unfolding plan_mcp_tool_execution_def split_beta
    by (elim bnd_InrE) (simp only: sum.inject)
  show ?thesis
    by (rule that [OF p(1-3,5)]) (use p(4) in \<open>auto simp: bnd_Inr_iff\<close>)
qed

lemma degraded_cases:
  "degraded_payload c = Inr g \<Longrightarrow>
   degraded_types c = (case g of None \<Rightarrow> [] | Some _ \<Rightarrow> [RECORDER_DEGRADED])"
  by (auto simp: degraded_payload_def degraded_types_def bnd_Inr_iff split: if_splits)

lemma plan_ok:
  assumes "plan_mcp_tool_execution d c = Inr p" "ok_descriptor d"
  shows "mp_should_dispatch p = should_dispatch c" "present (plan_events p) = planned_types c"
    "\<forall>(t, pay)\<in>set (plan_events p). \<forall>x\<in>set_option pay. ok_payload x"
    "lifecycle_event_types p = map EventType_value (planned_types c)"
proof -
  obtain requested policy a b n g where p:
    "requested_payload d c = Inr requested" "call_policy_payload c = Inr policy"
    "degraded_payload c = Inr g"
    "p = \<lparr>mp_should_dispatch = should_dispatch c, mp_requested_payload = requested,
       mp_policy_payload = policy, mp_authorized_payload = a, mp_dispatch_payload = b,
       mp_not_dispatched_payload = n, mp_degraded_payload = g\<rparr>"
    "should_dispatch c \<longrightarrow> (\<exists>x y. a = Some x \<and> b = Some y \<and> n = None
       \<and> authorized_payload d c policy = Inr x \<and> dispatch_payload d c = Inr y)"
    "\<not> should_dispatch c \<longrightarrow> (\<exists>z. a = None \<and> b = None \<and> n = Some z \<and> not_dispatched_payload d c = Inr z)"
    by (rule plan_parts [OF assms(1)], rule that)
  show "mp_should_dispatch p = should_dispatch c" by (simp add: p(4))
  have g: "\<forall>x\<in>set_option g. ok_payload x" using p(3) dispatch_ok(3) by (cases g) auto
  have ok: "ok_payload requested" "ok_payload policy"
    using requested_ok [OF assms(2) p(1)] policy_ok [OF p(2)] by blast+
  have abn: "\<forall>x\<in>set_option a. ok_payload x" "\<forall>x\<in>set_option b. ok_payload x" "\<forall>x\<in>set_option n. ok_payload x"
  proof -
    show "\<forall>x\<in>set_option a. ok_payload x" using p(5,6) authorized_ok [OF ok(2)] by (cases a) auto
    show "\<forall>x\<in>set_option b. ok_payload x" using p(5,6) dispatch_ok(1) by (cases b) auto
    show "\<forall>x\<in>set_option n. ok_payload x" using p(5,6) dispatch_ok(2) by (cases n) auto
  qed
  show "\<forall>(t, pay)\<in>set (plan_events p). \<forall>x\<in>set_option pay. ok_payload x"
    unfolding p(4) plan_events_def using g ok abn by simp
  have shape: "a = None \<longleftrightarrow> \<not> should_dispatch c" "b = None \<longleftrightarrow> \<not> should_dispatch c"
    "n = None \<longleftrightarrow> should_dispatch c"
    using p(5,6) by (cases "should_dispatch c"; force)+
  show "present (plan_events p) = planned_types c"
    "lifecycle_event_types p = map EventType_value (planned_types c)"
    using shape degraded_cases [OF p(3)]
    by (cases a; cases b; cases n; cases g; simp add: p(4) plan_events_def present_def planned_types_def
        lifecycle_event_types_def event_if_def)+
qed

section \<open>A call and its journal\<close>

text \<open>
  What a call relies on: \<open>on_journal w es\<close> says that the journal of the world \<open>w\<close> holds exactly the
  events \<open>es\<close>; an append that succeeds adds one event of the given type.
\<close>

locale call_journal =
  fixes append1 :: "'w \<Rightarrow> event \<Rightarrow> event res \<times> 'w" and on_journal :: "'w \<Rightarrow> event list \<Rightarrow> bool"
  assumes appended:
    "on_journal w es \<Longrightarrow> wf_event e \<Longrightarrow> event_type e = EventType_value t \<Longrightarrow> append1 w e = (Inr r, w') \<Longrightarrow>
     \<exists>x. on_journal w' (es @ [x]) \<and> event_type x = EventType_value t"
begin

lemma record_on_journal:
  assumes "pydantic_laws pd" "ok_clock now" "ok_payload pay" "on_journal (mc_world st) es"
    and "record_and_append pd new_id now append1 t pay st = (Inr r, st')"
  shows "\<exists>x. on_journal (mc_world st') (es @ [x]) \<and> event_type x = EventType_value t"
proof -
  obtain e nz where e: "EvidenceNormalizer_record pd new_id now (mc_normalizer st) (EventType_value t) (VDict pay) no_args
      = (Inr e, nz)" "append1 (mc_world st) e = (Inr r, mc_world st')"
    using assms(5) by (auto simp: record_and_append_def split: prod.splits sum.splits)
  note w = normalizer_record_wf [OF assms(1-3) e(1)]
  show ?thesis using appended [OF assms(4) conjunct1 [OF w] conjunct2 [OF w] e(2)] .
qed

lemma plan_on_journal:
  assumes "pydantic_laws pd" "ok_clock now"
  shows "\<forall>(t, pay)\<in>set evs. \<forall>x\<in>set_option pay. ok_payload x \<Longrightarrow> on_journal (mc_world st) es \<Longrightarrow>
    append_plan_events pd new_id now append1 evs st = (Inr ids, st') \<Longrightarrow>
    \<exists>new. on_journal (mc_world st') (es @ new)
      \<and> map event_type new = map EventType_value (present evs)"
proof (induction evs arbitrary: st es ids)
  case (Cons p evs)
  obtain t pay where p: "p = (t, pay)" by force
  show ?case
  proof (cases pay)
    case None
    then show ?thesis using Cons by (simp add: p present_def)
  next
    case (Some d)
    obtain e st1 ids1 where e: "record_and_append pd new_id now append1 t d st = (Inr e, st1)"
      "append_plan_events pd new_id now append1 evs st1 = (Inr ids1, st')"
      using Cons.prems(3) by (auto simp: p Some split: prod.splits sum.splits)
    have "ok_payload d" using Cons.prems(1) by (simp add: p Some)
    then obtain x where x: "on_journal (mc_world st1) (es @ [x])" "event_type x = EventType_value t"
      using record_on_journal [OF assms _ Cons.prems(2) e(1)] by blast
    obtain new where "on_journal (mc_world st') ((es @ [x]) @ new)"
      "map event_type new = map EventType_value (present evs)"
      using Cons.IH [OF _ x(1) e(2)] Cons.prems(1) by auto
    then show ?thesis
      using x(2) by (intro exI [of _ "x # new"]) (simp add: p Some present_def)
  qed
qed (auto simp: present_def)

text \<open>The worlds in which the tool may be called: the call is allowed, and the journal holds the
  events that announce it.\<close>

definition announced :: "mcp_call \<Rightarrow> event list \<Rightarrow> 'w \<Rightarrow> bool" where
  "announced c es w \<longleftrightarrow> should_dispatch c
     \<and> (\<exists>new. on_journal w (es @ new) \<and> map event_type new = map EventType_value (planned_types c))"

lemma tool_only_when_announced:
  assumes "pydantic_laws pd" "ok_clock now" "ok_descriptor d" "on_journal (mc_world st) es"
    and same: "\<And>w. announced c es w \<Longrightarrow> tool1 d arguments w = tool2 d arguments w"
  shows "execute_mcp_tool_call pd new_id now append1 tool1 d arguments c st
    = execute_mcp_tool_call pd new_id now append1 tool2 d arguments c st"
proof (cases "bnd (valid_json arguments) (\<lambda>_. plan_mcp_tool_execution d c)")
  case (Inl err)
  then show ?thesis by (simp add: execute_mcp_tool_call_def)
next
  case (Inr p)
  then have p: "plan_mcp_tool_execution d c = Inr p" by (simp add: bnd_Inr_iff)
  note ok = plan_ok [OF p assms(3)]
  show ?thesis
  proof (cases "append_plan_events pd new_id now append1 (plan_events p) st")
    case (Pair res st1)
    show ?thesis
    proof (cases res)
      case (Inl err)
      then show ?thesis using Inr Pair by (simp add: execute_mcp_tool_call_def)
    next
      case (Inr ids)
      obtain new where "on_journal (mc_world st1) (es @ new)"
        "map event_type new = map EventType_value (planned_types c)"
        using plan_on_journal [OF assms(1,2) ok(3) assms(4) Pair [unfolded Inr]] ok(2) by auto
      then have "mp_should_dispatch p \<Longrightarrow> tool1 d arguments (mc_world st1) = tool2 d arguments (mc_world st1)"
        using same ok(1) by (auto simp: announced_def)
      then show ?thesis
        using \<open>bnd _ _ = Inr p\<close> Pair Inr by (simp add: execute_mcp_tool_call_def call_downstream_def)
    qed
  qed
qed

end

text \<open>Whatever the tool answers, the acknowledgement says that the side effect is unverified.\<close>

lemma acknowledgement_unverified:
  assumes "acknowledgement_payload d i s h result = Inr a"
  shows "get_or_none (dict_of (get_or_none a ''acknowledgement'')) ''side_effect_status'' = VStr ''unverified''
    \<and> acknowledgement_status a = Some s"
  using assms
  by (auto simp: acknowledgement_payload_def bnd_Inr_iff acknowledgement_status_def get_or_none_def
      get_item_def dict_of_def)

lemma call_downstream_acknowledges:
  assumes "call_downstream tool d arguments i w = (Inr a, w')"
  obtains answer s h result where "tool d arguments w = (answer, w')"
    "acknowledgement_payload d i s h result = Inr a"
    "(\<exists>r. answer = Returned r \<and> result = dr_result_payload r) \<or> py_ok (opt_dict result) \<and> s = ''failed''"
proof -
  obtain answer where t: "tool d arguments w = (answer, w')"
    using assms by (auto simp: call_downstream_def split: prod.splits)
  have failed: "malformed_acknowledgement d i = Inr a \<or> failed_acknowledgement d i k = Inr a \<Longrightarrow> thesis" for k
    using that [OF t, of "''failed''" None]
    by (auto simp: malformed_acknowledgement_def failed_acknowledgement_def opt_dict_def str_keys_def)
  show ?thesis
  proof (cases answer)
    case (Returned r)
    then show ?thesis
      using assms failed that [OF t] t
      by (auto simp: call_downstream_def split: sum.splits if_splits)
  qed (use assms failed t in \<open>auto simp: call_downstream_def\<close>)
qed

context call_journal begin

text \<open>What a call that returns leaves in the journal, when the tool does not touch it.\<close>

lemma call_on_journal:
  assumes "pydantic_laws pd" "ok_clock now" "ok_descriptor d" "on_journal (mc_world st) es"
    and tool: "\<And>w a w' es. on_journal w es \<Longrightarrow> tool d arguments w = (a, w') \<Longrightarrow> on_journal w' es"
    and answers: "\<And>w r w'. tool d arguments w = (Returned r, w') \<Longrightarrow> py_ok (opt_dict (dr_result_payload r))"
    and run: "execute_mcp_tool_call pd new_id now append1 tool d arguments c st = (Inr r, st')"
  shows "\<exists>new. on_journal (mc_world st') (es @ new) \<and> px_downstream_called r = should_dispatch c
    \<and> map event_type new = map EventType_value (planned_types c
         @ (if should_dispatch c then [TOOL_EXECUTION_ACKNOWLEDGED] else []))"
proof -
  obtain p ids st1 where p: "plan_mcp_tool_execution d c = Inr p"
    "append_plan_events pd new_id now append1 (plan_events p) st = (Inr ids, st1)"
    using run by (auto simp: execute_mcp_tool_call_def bnd_Inr_iff split: sum.splits prod.splits)
  note ok = plan_ok [OF p(1) assms(3)]
  obtain new where new: "on_journal (mc_world st1) (es @ new)"
    "map event_type new = map EventType_value (planned_types c)"
    using plan_on_journal [OF assms(1,2) ok(3) assms(4) p(2)] ok(2) by auto
  show ?thesis
  proof (cases "should_dispatch c")
    case False
    then show ?thesis
      using run p ok(1) new by (auto simp: execute_mcp_tool_call_def bnd_Inr_iff split: sum.splits)
  next
    case True
    obtain a w e where a: "call_downstream tool d arguments (ca_call_id c) (mc_world st1) = (Inr a, w)"
      "record_and_append pd new_id now append1 TOOL_EXECUTION_ACKNOWLEDGED a (st1\<lparr>mc_world := w\<rparr>) = (Inr e, st')"
      "px_downstream_called r"
      using run p ok(1) True
      by (auto simp: execute_mcp_tool_call_def bnd_Inr_iff split: sum.splits prod.splits)
    obtain answer s h result where d: "tool d arguments (mc_world st1) = (answer, w)"
      "acknowledgement_payload d (ca_call_id c) s h result = Inr a"
      "(\<exists>r. answer = Returned r \<and> result = dr_result_payload r) \<or> py_ok (opt_dict result) \<and> s = ''failed''"
      by (rule call_downstream_acknowledges [OF a(1)], rule that)
    have ok_a: "ok_payload a" using acknowledgement_ok [OF _ d(2)] d(1,3) answers by auto
    have "on_journal (mc_world (st1\<lparr>mc_world := w\<rparr>)) (es @ new)" using tool [OF new(1) d(1)] by simp
    from record_on_journal [OF assms(1,2) ok_a this a(2)]
    obtain x where "on_journal (mc_world st') ((es @ new) @ [x])"
      "event_type x = EventType_value TOOL_EXECUTION_ACKNOWLEDGED"
      by blast
    then show ?thesis
      using a(3) True new(2) by (intro exI [of _ "new @ [x]"]) simp
  qed
qed

end

section \<open>Calls over the local journal\<close>

text \<open>The world of a call: the journal file, and everything else. \<open>answers\<close> is what the file system
  and the locks answer to an append.\<close>

record 'x tool_world =
  tw_journal :: "bytes option"
  tw_other :: 'x

definition world_append ::
  "pydantic \<Rightarrow> (pyv \<Rightarrow> pyv res) \<Rightarrow> ('x \<Rightarrow> append_env \<times> 'x) \<Rightarrow> 'x tool_world \<Rightarrow> event
     \<Rightarrow> event res \<times> 'x tool_world" where
  "world_append pd apply_policy answers w e =
     (case answers (tw_other w) of (env, x) \<Rightarrow>
        (case append_event pd apply_policy env (tw_journal w) e of (res, f) \<Rightarrow>
           (res, \<lparr>tw_journal = f, tw_other = x\<rparr>)))"

definition local_journal :: "pydantic \<Rightarrow> 'x tool_world \<Rightarrow> event list \<Rightarrow> bool" where
  "local_journal pd w es \<longleftrightarrow>
     file_bytes (tw_journal w) = journal_bytes pd es \<and> good_records pd 0 None es"

context typed_boundary begin

lemma prepare_keeps_type:
  assumes "wf_event e" "wf_opt p" "event_type e = EventType_value t"
    and "prepare_event_for_append pd apply_policy e p = Inr (r, bs)"
  shows "event_type r = EventType_value t"
proof -
  obtain rh where rh: "redacted_event pd apply_policy (unhashed_event e p) = Inr rh"
    "event_type r = event_type rh"
    using prepare_payload [OF assms(1,2,4)] by blast
  have "event_type (unhashed_event e p) = EventType_value t" using assms(3) by (simp add: unhashed_event_def)
  from keeps_event_type [OF wf_unhashed_event [OF assms(1,2)] this rh(1)] show ?thesis
    using rh(2) assms(3) by (simp add: unhashed_event_def)
qed

lemma append_on_journal:
  assumes "local_journal pd w es" "wf_event e" "event_type e = EventType_value t"
    and "world_append pd apply_policy answers w e = (Inr r, w')"
  shows "\<exists>x. local_journal pd w' (es @ [x]) \<and> event_type x = EventType_value t"
proof -
  obtain env x f where a: "append_event pd apply_policy env (tw_journal w) e = (Inr r, f)" "w' = \<lparr>tw_journal = f, tw_other = x\<rparr>"
    using assms(4) by (auto simp: world_append_def split: prod.splits)
  obtain old where old: "file_bytes (tw_journal w) = journal_bytes pd old"
    "good_records pd 0 None (old @ [event_canon r])" "f = Some (journal_bytes pd (old @ [event_canon r]))"
    using append_event_good [OF assms(2) a(1)] by blast
  have "old = es"
    using journal_bytes_inj [OF pydantic_laws_axioms, of old es] old(1,2) assms(1)
    by (simp add: local_journal_def)
  moreover obtain s bs where s: "verified_journal_snapshot pd (ae_stat env) None None (tw_journal w) = Inr s"
    "snapshot_ok s" "prepare_event_for_append pd apply_policy e (snapshot_terminal_hash s) = Inr (r, bs)"
    using a(1) by (auto simp: append_event_def next_record_def bnd_Inr_iff
        split: sum.splits prod.splits read_outcome.splits if_splits)
  obtain old' where o: "good_records pd 0 None old'" "snapshot_terminal_hash s = terminal None old'"
    using snapshot_prefix [OF s(1)] by metis
  have "event_type r = EventType_value t"
    using prepare_keeps_type [OF assms(2) _ assms(3) s(3)] good_terminal(1) [OF o(1)] o(2) by simp
  ultimately show ?thesis
    using old(2,3) a(2)
    by (intro exI [of _ "event_canon r"]) (simp add: local_journal_def file_bytes_def event_canon_def)
qed

end

lemma local_call_journal:
  "typed_boundary pd apply_policy \<Longrightarrow> call_journal (world_append pd apply_policy answers) (local_journal pd)"
  using typed_boundary.append_on_journal by unfold_locales blast

lemma typed_boundary_default: "typed_boundary strict_pydantic (RedactionPolicy_apply (default_policy alnum))"
  by (rule typed_boundary_policy [OF strict.pydantic_laws_axioms chain_policy_default typed_policy_default])

interpretation default_call: call_journal
  "world_append strict_pydantic (RedactionPolicy_apply (default_policy alnum)) answers" "local_journal strict_pydantic"
  for alnum answers
  by (rule local_call_journal [OF typed_boundary_default])

section \<open>The import order of lifecycle records\<close>

lemma less_append_iff: "p @ a < p @ b \<longleftrightarrow> a < (b :: string)"
  by (induction p) auto

lemma insort_key_last: "\<forall>y\<in>set ys. f y < f x \<Longrightarrow> insort_key f x ys = ys @ [x]"
  by (induction ys) auto

lemma sort_key_decreasing: "sorted_wrt (\<lambda>a b. f b < f a) xs \<Longrightarrow> sort_key f xs = rev xs"
  by (induction xs) (simp_all add: insort_key_last)

lemma framework_record_Inr:
  "framework_record i t lifecycle pay p = Inr r \<Longrightarrow>
   er_event_type r = EventType_value t \<and> er_sort_key r = p @ fi_invocation_id i @ '':'' @ lifecycle
   \<and> er_idempotency_key r = idempotency_prefix i @ '':'' @ lifecycle"
  by (auto simp: framework_record_def EvidenceRecord_new_def validation_error_def bnd_Inr_iff split: if_splits)

lemma lifecycle_less:
  "er_sort_key r = p @ a \<Longrightarrow> er_sort_key r' = p @ b \<Longrightarrow> b < a \<Longrightarrow>
   (er_sort_key r', er_idempotency_key r') < (er_sort_key r, er_idempotency_key r)"
  by (simp add: less_prod_def' less_append_iff)

end
