(* ===== verification/ToolAdapterClaims.thy ===== *)
theory ToolAdapterClaims
  imports ToolAdapterFacts
begin

text \<open>
  The properties of the tool adapters: a tool runs only when its call is allowed and on record, the
  identity of a tool is its descriptor, and the order in which a framework's records are imported.
\<close>








text \<open>C26. The lifecycle of a framework's tool invocation is imported backwards: the records are made in
  the order requested, dispatched, acknowledged (or requested, not dispatched), but the importer takes
  them in the order of their sort keys, which is the reverse.\<close>
theorem framework_import_reversed:
  assumes "framework_lifecycle_records i args = Inr records"
  shows "record_order records = rev records
    \<and> map er_event_type records = map EventType_value
        (TOOL_EXECUTION_REQUESTED #
         (if la_not_dispatched_reason args \<noteq> None then [TOOL_EXECUTION_NOT_DISPATCHED]
          else TOOL_EXECUTION_DISPATCHED
               # (if la_acknowledgement_status args = None then [] else [TOOL_EXECUTION_ACKNOWLEDGED])))"
proof -
  let ?key = "\<lambda>r. (er_sort_key r, er_idempotency_key r)" and ?p = "la_sort_key_prefix args @ fi_invocation_id i @ '':''"
  note rec = framework_record_Inr
  show ?thesis
  proof (cases "la_not_dispatched_reason args")
    case (Some reason)
    then obtain pay r pay' r' where r: "records = [r, r']"
      "framework_record i TOOL_EXECUTION_REQUESTED ''requested'' pay (la_sort_key_prefix args) = Inr r"
      "framework_record i TOOL_EXECUTION_NOT_DISPATCHED ''not_dispatched'' pay' (la_sort_key_prefix args) = Inr r'"
      using assms by (auto simp: framework_lifecycle_records_def bnd_Inr_iff)
    have "?key r' < ?key r"
      using lifecycle_less [of r ?p "''requested''" r' "''not_dispatched''"] rec [OF r(2)] rec [OF r(3)] by simp
    then have "sort_key ?key records = rev records" unfolding r(1) by (intro sort_key_decreasing) simp
    then show ?thesis using Some r(1) rec [OF r(2)] rec [OF r(3)] by (simp add: record_order_def)
  next
    case None
    then obtain pay r pay' r' rs where r: "records = r # r' # rs"
      "framework_record i TOOL_EXECUTION_REQUESTED ''requested'' pay (la_sort_key_prefix args) = Inr r"
      "framework_record i TOOL_EXECUTION_DISPATCHED ''dispatched'' pay' (la_sort_key_prefix args) = Inr r'"
      "framework_acknowledged i args = Inr rs"
      using assms by (auto simp: framework_lifecycle_records_def bnd_Inr_iff)
    have l: "?key r' < ?key r"
      using lifecycle_less [of r ?p "''requested''" r' "''dispatched''"] rec [OF r(2)] rec [OF r(3)] by simp
    show ?thesis
    proof (cases "la_acknowledgement_status args")
      case None
      then have "rs = []" using r(4) by (simp add: framework_acknowledged_def)
      moreover have "sort_key ?key [r, r'] = rev [r, r']" using l by (intro sort_key_decreasing) simp
      ultimately show ?thesis
        using None \<open>la_not_dispatched_reason args = None\<close> r(1) rec [OF r(2)] rec [OF r(3)]
        by (simp add: record_order_def)
    next
      case (Some status)
      then obtain pay a where a: "rs = [a]"
        "framework_record i TOOL_EXECUTION_ACKNOWLEDGED ''acknowledged'' pay (la_sort_key_prefix args) = Inr a"
        using r(4) by (auto simp: framework_acknowledged_def bnd_Inr_iff)
      have m: "?key a < ?key r'"
        using lifecycle_less [of r' ?p "''dispatched''" a "''acknowledged''"] rec [OF r(3)] rec [OF a(2)] by simp
      have "sort_key ?key [r, r', a] = rev [r, r', a]"
        using l m less_trans [OF m l] by (intro sort_key_decreasing) simp
      then show ?thesis
        using Some \<open>la_not_dispatched_reason args = None\<close> r(1) a(1) rec [OF r(2)] rec [OF r(3)] rec [OF a(2)]
        by (simp add: record_order_def)
    qed
  qed
qed

definition sample_invocation :: FrameworkToolInvocation where
  "sample_invocation = \<lparr>fi_descriptor = \<lparr>fd_framework = FK_SHELL, fd_tool_name = ''run'', fd_description = [],
     fd_input_schema = [], fd_server_identity = None, fd_output_schema = None, fd_version = None,
     fd_annotations = [], fd_metadata = []\<rparr>, fi_invocation_id = ''i1'', fi_action_type = ''shell'',
     fi_arguments_digest = ''sha256:0'', fi_resources = [], fi_delegated_identity = None, fi_attributes = []\<rparr>"

definition sample_lifecycle :: lifecycle_args where
  "sample_lifecycle = \<lparr>la_acknowledgement_status = Some FA_SUCCEEDED, la_result_digest = None,
     la_result_summary = None, la_not_dispatched_reason = None, la_sort_key_prefix = []\<rparr>"

lemma sample_framework_hash: "\<exists>h. framework_descriptor_hash (fi_descriptor sample_invocation) = Inr h \<and> h \<noteq> []"
proof -
  have "encodable (FrameworkToolDescriptor_canonical_object (fi_descriptor sample_invocation))"
    unfolding FrameworkToolDescriptor_canonical_object_def encodable_obj
    by (simp add: sample_invocation_def unless_none_def opt_dict_def byte_def)
  then show ?thesis using encodable_bytes by (force simp: framework_descriptor_hash_def)
qed

theorem framework_import_reversed_witness:
  "\<exists>records. framework_lifecycle_records sample_invocation sample_lifecycle = Inr records
    \<and> length records = 3 \<and> record_order records = rev records"
proof -
  obtain h where h: "framework_descriptor_hash (fi_descriptor sample_invocation) = Inr h" "h \<noteq> []"
    using sample_framework_hash by blast
  obtain records where r: "framework_lifecycle_records sample_invocation sample_lifecycle = Inr records"
    "length records = 3"
    using h
    by (simp add: framework_lifecycle_records_def sample_lifecycle_def framework_request_payload_def
        framework_dispatch_payload_def framework_acknowledged_def framework_acknowledgement_payload_def
        framework_tool_identity_def framework_record_def EvidenceRecord_new_def ToolIdentity_new_def
        NormalizedAction_new_def NormalizedAction_as_payload_def ToolIdentity_as_payload_def
        FrameworkToolDescriptor_canonical_object_def invocation_payload_def idempotency_prefix_def
        valid_json_option_def unless_none_def opt_dict_def sample_invocation_def validate_json_value.simps
        default_limits_def DEFAULT_JSON_MAX_DEPTH_def DEFAULT_JSON_MAX_OBJECT_MEMBERS_def
        DEFAULT_JSON_MAX_ARRAY_LENGTH_def)
  show ?thesis using framework_import_reversed [OF r(1)] r by blast
qed

end
