(* ===== verification/JournalSidecars.thy ===== *)
theory JournalSidecars
  imports Anchors PyPath
begin

text \<open>
  What lies beside a journal: \<open>journal/archive.py\<close> (manifests of archived journals),
  \<open>journal/attestation.py\<close> (external attestations of anchors) and \<open>journal/durability.py\<close> (the table of
  reviewed failure rules).

  A file is its bytes, as in \<open>Anchors\<close>; fields the code only casts keep whatever JSON value the file
  holds. What the file system answers for a path is a parameter: whether it exists, the bytes
  one read returns, and the journal a later read sees.
\<close>

section \<open>Archive manifests\<close>

definition JOURNAL_ARCHIVE_MANIFEST_VERSION :: string where
  "JOURNAL_ARCHIVE_MANIFEST_VERSION = ''actionlineage.dev/journal-archive-manifest-v1''"

datatype ArchiveRetentionMode = RM_none | RM_governance | RM_compliance | RM_legal_hold

fun ArchiveRetentionMode_value :: "ArchiveRetentionMode \<Rightarrow> string" where
  "ArchiveRetentionMode_value RM_none = ''none''"
| "ArchiveRetentionMode_value RM_governance = ''governance''"
| "ArchiveRetentionMode_value RM_compliance = ''compliance''"
| "ArchiveRetentionMode_value RM_legal_hold = ''legal_hold''"

definition all_ArchiveRetentionMode :: "ArchiveRetentionMode list" where
  "all_ArchiveRetentionMode = [RM_none, RM_governance, RM_compliance, RM_legal_hold]"

datatype ArchiveIssueCode =
  AR_journal_file_missing | AR_journal_hash_mismatch | AR_journal_verification_failed

fun ArchiveIssueCode_value :: "ArchiveIssueCode \<Rightarrow> string" where
  "ArchiveIssueCode_value AR_journal_file_missing = ''journal_file_missing''"
| "ArchiveIssueCode_value AR_journal_hash_mismatch = ''journal_hash_mismatch''"
| "ArchiveIssueCode_value AR_journal_verification_failed = ''journal_verification_failed''"

record JournalArchiveManifest =
  am_journal_path :: string
  am_object_uri :: string
  am_journal_sha256 :: string
  am_size_bytes :: pyv
  am_record_count :: pyv
  am_last_event_hash :: pyv
  am_created_at :: datetime
  am_retention_mode :: ArchiveRetentionMode
  am_storage_class :: pyv
  am_manifest_version :: string

record ArchiveVerificationIssue =
  ri_code :: ArchiveIssueCode
  ri_message :: string
  ri_expected :: "string option"
  ri_actual :: "string option"

record ArchiveVerificationResult =
  rr_ok :: bool
  rr_journal_verification :: "VerificationResult option"
  rr_issues :: "ArchiveVerificationIssue list"

definition archive_timestamp :: "datetime \<Rightarrow> string res" where
  "archive_timestamp value =
     (case dt_offset value of
        None \<Rightarrow> raise JournalAnchorError ''journal archive manifest timestamps must be timezone-aware''
      | Some off \<Rightarrow>
          bnd (utc_of_aware value off) (\<lambda>utc. Inr (py_replace ''+00:00'' ''Z'' (isoformat utc))))"

definition archive_items :: "JournalArchiveManifest \<Rightarrow> string \<Rightarrow> (string \<times> pyv) list" where
  "archive_items m ts =
     [(''created_at'', VStr ts), (''journal_path'', VStr (am_journal_path m)),
      (''journal_sha256'', VStr (am_journal_sha256 m)), (''last_event_hash'', am_last_event_hash m),
      (''manifest_version'', VStr (am_manifest_version m)), (''object_uri'', VStr (am_object_uri m)),
      (''record_count'', am_record_count m),
      (''retention_mode'', VStr (ArchiveRetentionMode_value (am_retention_mode m))),
      (''size_bytes'', am_size_bytes m), (''storage_class'', am_storage_class m)]"

definition JournalArchiveManifest_as_dict :: "JournalArchiveManifest \<Rightarrow> pyv res" where
  "JournalArchiveManifest_as_dict m =
     bnd (archive_timestamp (am_created_at m)) (\<lambda>ts. Inr (obj (archive_items m ts)))"

definition ArchiveVerificationIssue_as_dict :: "ArchiveVerificationIssue \<Rightarrow> pyv" where
  "ArchiveVerificationIssue_as_dict i =
     obj [(''actual'', opt_str (ri_actual i)), (''code'', VStr (ArchiveIssueCode_value (ri_code i))),
          (''expected'', opt_str (ri_expected i)), (''message'', VStr (ri_message i))]"

definition ArchiveVerificationResult_as_dict :: "ArchiveVerificationResult \<Rightarrow> pyv" where
  "ArchiveVerificationResult_as_dict r =
     obj [(''ok'', VBool (rr_ok r)),
          (''journal_verification'',
             case rr_journal_verification r of None \<Rightarrow> VNone | Some v \<Rightarrow> VerificationResult_as_dict v),
          (''issues'', VList (map ArchiveVerificationIssue_as_dict (rr_issues r)))]"

text \<open>\<open>create_journal_archive_manifest\<close>; \<open>current\<close> is what the clock shows when no time is given.\<close>

definition create_journal_archive_manifest ::
  "pydantic \<Rightarrow> JournalFileMetadata \<times> JournalFileMetadata \<Rightarrow> path \<Rightarrow> bytes option \<Rightarrow> string
     \<Rightarrow> ArchiveRetentionMode \<Rightarrow> string option \<Rightarrow> datetime option \<Rightarrow> datetime
     \<Rightarrow> JournalArchiveManifest res" where
  "create_journal_archive_manifest pd stat journal_path file object_uri retention_mode storage_class
       created_at current =
     bnd (verified_journal_snapshot pd stat None None file) (\<lambda>snapshot.
     if \<not> snapshot_ok snapshot
     then raise JournalAnchorError ''cannot archive-manifest a journal that fails verification''
     else
       (case (js_metadata_after snapshot, js_journal_sha256 snapshot) of
          (Some metadata, Some digest) \<Rightarrow>
            if object_uri = [] then raise JournalAnchorError ''archive manifest object_uri is required''
            else Inr \<lparr>am_journal_path = path_str journal_path, am_object_uri = object_uri,
              am_journal_sha256 = digest, am_size_bytes = VInt (jm_size metadata),
              am_record_count = VInt (int (snapshot_record_count snapshot)),
              am_last_event_hash = opt_str (snapshot_terminal_hash snapshot),
              am_created_at = (case created_at of None \<Rightarrow> current | Some t \<Rightarrow> t),
              am_retention_mode = retention_mode, am_storage_class = opt_str storage_class,
              am_manifest_version = JOURNAL_ARCHIVE_MANIFEST_VERSION\<rparr>
        | _ \<Rightarrow> raise JournalAnchorError ''cannot archive-manifest a missing journal file''))"

text \<open>The bytes \<open>write_journal_archive_manifest\<close> writes.\<close>

definition write_journal_archive_manifest :: "JournalArchiveManifest \<Rightarrow> bytes res" where
  "write_journal_archive_manifest m =
     bnd (JournalArchiveManifest_as_dict m) (\<lambda>d.
     bnd (deterministic_json_bytes d) (\<lambda>bs. Inr (bs @ [CHR 0x0A])))"

definition archive_required_str :: "pydict \<Rightarrow> string \<Rightarrow> string res" where
  "archive_required_str raw key =
     (case get_or_none raw key of
        VStr s \<Rightarrow>
          if s = [] then raise JournalAnchorError (''journal archive manifest field is required: '' @ key)
          else Inr s
      | _ \<Rightarrow> raise JournalAnchorError (''journal archive manifest field is required: '' @ key))"

definition archive_required_int :: "pydict \<Rightarrow> string \<Rightarrow> pyv res" where
  "archive_required_int raw key =
     (if is_py_int (get_or_none raw key) then Inr (get_or_none raw key)
      else raise JournalAnchorError (''journal archive manifest integer field is required: '' @ key))"

text \<open>\<open>_retention_mode\<close>: looking up a list or a dict in a set raises, as they have no hash.\<close>

definition archive_retention_mode :: "pyv \<Rightarrow> ArchiveRetentionMode res" where
  "archive_retention_mode v =
     (case v of
        VStr s \<Rightarrow>
          (case enum_of ArchiveRetentionMode_value all_ArchiveRetentionMode s of
             Some m \<Rightarrow> Inr m
           | None \<Rightarrow> raise JournalAnchorError ''journal archive manifest has invalid retention_mode'')
      | VList xs \<Rightarrow> raise TypeError (''unhashable type: '' @ py_str_repr ''list'')
      | VDict d \<Rightarrow> raise TypeError (''unhashable type: '' @ py_str_repr ''dict'')
      | _ \<Rightarrow> raise JournalAnchorError ''journal archive manifest has invalid retention_mode'')"

definition archive_manifest_from_dict ::
  "(datetime \<Rightarrow> datetime res) \<Rightarrow> pydict \<Rightarrow> JournalArchiveManifest res" where
  "archive_manifest_from_dict local_utc raw =
     bnd (bnd (archive_required_str raw ''created_at'') (anchor_datetime local_utc)) (\<lambda>created_at.
     bnd (archive_required_str raw ''journal_path'') (\<lambda>journal_path.
     bnd (archive_required_str raw ''journal_sha256'') (\<lambda>journal_sha256.
     bnd (archive_required_str raw ''manifest_version'') (\<lambda>manifest_version.
     bnd (archive_required_str raw ''object_uri'') (\<lambda>object_uri.
     bnd (archive_required_int raw ''record_count'') (\<lambda>record_count.
     bnd (archive_retention_mode (get_or_none raw ''retention_mode'')) (\<lambda>retention_mode.
     bnd (archive_required_int raw ''size_bytes'') (\<lambda>size_bytes.
       Inr \<lparr>am_journal_path = journal_path, am_object_uri = object_uri,
            am_journal_sha256 = journal_sha256, am_size_bytes = size_bytes,
            am_record_count = record_count, am_last_event_hash = get_or_none raw ''last_event_hash'',
            am_created_at = created_at, am_retention_mode = retention_mode,
            am_storage_class = get_or_none raw ''storage_class'',
            am_manifest_version = manifest_version\<rparr>))))))))"

definition load_journal_archive_manifest ::
  "(datetime \<Rightarrow> datetime res) \<Rightarrow> bytes \<Rightarrow> JournalArchiveManifest res" where
  "load_journal_archive_manifest local_utc content =
     bnd (load_json_text content) (\<lambda>raw.
       case raw of
         VDict d \<Rightarrow> archive_manifest_from_dict local_utc d
       | _ \<Rightarrow> raise JournalAnchorError ''journal archive manifest must be a JSON object'')"

record archive_reads =
  ad_exists :: "bool res"
  ad_bytes :: "bytes res"
  ad_journal :: "bytes option"
  ad_stat :: "JournalFileMetadata \<times> JournalFileMetadata"

definition file_sha256 :: "bytes res \<Rightarrow> string res" where
  "file_sha256 content = bnd content (\<lambda>bs. Inr (''sha256:'' @ sha256_hex bs))"

definition verify_journal_archive_manifest ::
  "pydantic \<Rightarrow> (path \<Rightarrow> archive_reads) \<Rightarrow> JournalArchiveManifest \<Rightarrow> path option
     \<Rightarrow> ArchiveVerificationResult res" where
  "verify_journal_archive_manifest pd reads m journal_path =
     (let effective_journal_path =
            (case journal_path of None \<Rightarrow> Path (am_journal_path m) | Some p \<Rightarrow> p);
          fs = reads effective_journal_path in
      bnd (ad_exists fs) (\<lambda>there.
      if \<not> there
      then Inr \<lparr>rr_ok = False, rr_journal_verification = None,
                rr_issues = [\<lparr>ri_code = AR_journal_file_missing,
                  ri_message = ''journal file referenced by archive manifest is missing'',
                  ri_expected = Some (am_journal_path m),
                  ri_actual = Some (path_str effective_journal_path)\<rparr>]\<rparr>
      else
        bnd (file_sha256 (ad_bytes fs)) (\<lambda>actual_hash.
        bnd (verify_expected pd (ad_stat fs) (am_record_count m) (am_last_event_hash m) (ad_journal fs))
          (\<lambda>verification.
          let issues =
                (if actual_hash \<noteq> am_journal_sha256 m
                 then [\<lparr>ri_code = AR_journal_hash_mismatch,
                        ri_message = ''journal bytes do not match archive manifest'',
                        ri_expected = Some (am_journal_sha256 m), ri_actual = Some actual_hash\<rparr>]
                 else [])
                @ (if \<not> vr_ok verification
                   then [\<lparr>ri_code = AR_journal_verification_failed,
                          ri_message = ''journal does not match archive manifest trusted tail values'',
                          ri_expected = None, ri_actual = None\<rparr>]
                   else [])
          in Inr \<lparr>rr_ok = (issues = []), rr_journal_verification = Some verification,
                  rr_issues = issues\<rparr>))))"

section \<open>External attestations of anchors\<close>

definition EXTERNAL_ANCHOR_ATTESTATION_VERSION :: string where
  "EXTERNAL_ANCHOR_ATTESTATION_VERSION = ''actionlineage.dev/external-anchor-attestation-v1''"

datatype ExternalAttestationType =
  XT_HARDWARE_KEY | XT_REMOTE_ATTESTATION | XT_TIMESTAMP_AUTHORITY | XT_TRANSPARENCY_LOG

fun ExternalAttestationType_value :: "ExternalAttestationType \<Rightarrow> string" where
  "ExternalAttestationType_value XT_HARDWARE_KEY = ''hardware_key''"
| "ExternalAttestationType_value XT_REMOTE_ATTESTATION = ''remote_attestation''"
| "ExternalAttestationType_value XT_TIMESTAMP_AUTHORITY = ''timestamp_authority''"
| "ExternalAttestationType_value XT_TRANSPARENCY_LOG = ''transparency_log''"

definition all_ExternalAttestationType :: "ExternalAttestationType list" where
  "all_ExternalAttestationType =
     [XT_HARDWARE_KEY, XT_REMOTE_ATTESTATION, XT_TIMESTAMP_AUTHORITY, XT_TRANSPARENCY_LOG]"

record ExternalAnchorAttestation =
  xa_anchor_hash :: string
  xa_anchor_version :: string
  xa_attester :: string
  xa_attestation_type :: ExternalAttestationType
  xa_statement_digest :: string
  xa_statement_reference :: "string option"
  xa_created_at :: datetime
  xa_limitations :: "string list"
  xa_attestation_version :: string

record ExternalAnchorAttestationIssue =
  xi_code :: string
  xi_message :: string

record ExternalAnchorAttestationVerificationResult =
  xr_ok :: bool
  xr_issues :: "ExternalAnchorAttestationIssue list"

definition attestation_items :: "ExternalAnchorAttestation \<Rightarrow> (string \<times> pyv) list" where
  "attestation_items a =
     [(''anchor_hash'', VStr (xa_anchor_hash a)), (''anchor_version'', VStr (xa_anchor_version a)),
      (''attestation_type'', VStr (ExternalAttestationType_value (xa_attestation_type a))),
      (''attestation_version'', VStr (xa_attestation_version a)), (''attester'', VStr (xa_attester a)),
      (''created_at'', VStr (py_replace ''+00:00'' ''Z'' (isoformat (xa_created_at a)))),
      (''limitations'', VList (map VStr (xa_limitations a))),
      (''statement_digest'', VStr (xa_statement_digest a)),
      (''statement_reference'', opt_str (xa_statement_reference a))]"

definition ExternalAnchorAttestation_as_dict :: "ExternalAnchorAttestation \<Rightarrow> pyv" where
  "ExternalAnchorAttestation_as_dict a = obj (attestation_items a)"

definition ExternalAnchorAttestationIssue_as_dict :: "ExternalAnchorAttestationIssue \<Rightarrow> pyv" where
  "ExternalAnchorAttestationIssue_as_dict i =
     obj [(''code'', VStr (xi_code i)), (''message'', VStr (xi_message i))]"

definition ExternalAnchorAttestationVerificationResult_as_dict ::
  "ExternalAnchorAttestationVerificationResult \<Rightarrow> pyv" where
  "ExternalAnchorAttestationVerificationResult_as_dict r =
     obj [(''ok'', VBool (xr_ok r)),
          (''issues'', VList (map ExternalAnchorAttestationIssue_as_dict (xr_issues r)))]"

definition anchor_hash :: "JournalAnchor \<Rightarrow> string res" where
  "anchor_hash anchor =
     bnd (JournalAnchor_as_dict anchor) (\<lambda>d.
     bnd (deterministic_json_bytes d) (\<lambda>bs. Inr (sha256_digest bs)))"

definition create_external_anchor_attestation ::
  "JournalAnchor \<Rightarrow> string \<Rightarrow> ExternalAttestationType \<Rightarrow> bytes \<Rightarrow> string option \<Rightarrow> datetime option
     \<Rightarrow> datetime \<Rightarrow> string list \<Rightarrow> ExternalAnchorAttestation res" where
  "create_external_anchor_attestation anchor attester attestation_type statement_bytes
       statement_reference created_at current limits =
     (if py_strip attester = [] then raise ValueError ''attester must be nonempty''
      else
        bnd (anchor_hash anchor) (\<lambda>h.
          Inr \<lparr>xa_anchor_hash = h, xa_anchor_version = ja_anchor_version anchor, xa_attester = attester,
               xa_attestation_type = attestation_type,
               xa_statement_digest = sha256_digest statement_bytes,
               xa_statement_reference = statement_reference,
               xa_created_at = (case created_at of None \<Rightarrow> current | Some t \<Rightarrow> t),
               xa_limitations = limits,
               xa_attestation_version = EXTERNAL_ANCHOR_ATTESTATION_VERSION\<rparr>))"

definition default_limitations :: "string list" where
  "default_limitations = [''external attestation statement is verified outside ActionLineage'']"

definition attestation_issue :: "bool \<Rightarrow> string \<Rightarrow> string \<Rightarrow> ExternalAnchorAttestationIssue list" where
  "attestation_issue found code message =
     (if found then [\<lparr>xi_code = code, xi_message = message\<rparr>] else [])"

definition verify_external_anchor_attestation ::
  "JournalAnchor \<Rightarrow> ExternalAnchorAttestation \<Rightarrow> bytes option
     \<Rightarrow> ExternalAnchorAttestationVerificationResult res" where
  "verify_external_anchor_attestation anchor a statement_bytes =
     bnd (anchor_hash anchor) (\<lambda>h.
       let issues =
         attestation_issue (xa_attestation_version a \<noteq> EXTERNAL_ANCHOR_ATTESTATION_VERSION)
           ''unsupported_attestation_version'' ''external anchor attestation version is unsupported''
         @ attestation_issue (xa_anchor_version a \<noteq> ja_anchor_version anchor)
             ''anchor_version_mismatch'' ''attestation anchor version does not match anchor''
         @ attestation_issue (xa_anchor_hash a \<noteq> h)
             ''anchor_hash_mismatch'' ''attestation anchor hash does not match current anchor bytes''
         @ attestation_issue
             (case statement_bytes of None \<Rightarrow> False | Some bs \<Rightarrow> xa_statement_digest a \<noteq> sha256_digest bs)
             ''statement_digest_mismatch''
             ''external attestation statement digest does not match local bytes''
       in Inr \<lparr>xr_ok = (issues = []), xr_issues = issues\<rparr>)"

definition write_external_anchor_attestation :: "ExternalAnchorAttestation \<Rightarrow> bytes res" where
  "write_external_anchor_attestation a =
     bnd (deterministic_json_bytes (ExternalAnchorAttestation_as_dict a)) (\<lambda>bs. Inr (bs @ [CHR 0x0A]))"

definition attestation_required_string :: "pydict \<Rightarrow> string \<Rightarrow> string res" where
  "attestation_required_string d name =
     (case get_or_none d name of
        VStr s \<Rightarrow>
          if py_strip s = []
          then raise ValueError (''external anchor attestation field must be a nonempty string: '' @ name)
          else Inr s
      | _ \<Rightarrow> raise ValueError (''external anchor attestation field must be a nonempty string: '' @ name))"

definition attestation_optional_string :: "pydict \<Rightarrow> string \<Rightarrow> string option res" where
  "attestation_optional_string d name =
     (case get_or_none d name of
        VNone \<Rightarrow> Inr None
      | VStr s \<Rightarrow>
          if py_strip s = []
          then raise ValueError (''external anchor attestation field must be a string: '' @ name)
          else Inr (Some s)
      | _ \<Rightarrow> raise ValueError (''external anchor attestation field must be a string: '' @ name))"

definition attestation_type_of :: "string \<Rightarrow> ExternalAttestationType res" where
  "attestation_type_of s =
     (case enum_of ExternalAttestationType_value all_ExternalAttestationType s of
        Some t \<Rightarrow> Inr t
      | None \<Rightarrow> raise ValueError (py_str_repr s @ '' is not a valid ExternalAttestationType''))"

definition strings_of :: "pyv list \<Rightarrow> string list" where
  "strings_of xs = concat (map (\<lambda>v. case v of VStr s \<Rightarrow> [s] | _ \<Rightarrow> []) xs)"

definition load_external_anchor_attestation :: "bytes \<Rightarrow> ExternalAnchorAttestation res" where
  "load_external_anchor_attestation content =
     bnd (load_json_text content) (\<lambda>raw.
       case raw of
         VDict d \<Rightarrow>
           bnd (bnd (attestation_required_string d ''created_at'')
                  (\<lambda>s. fromisoformat (py_replace ''Z'' ''+00:00'' s))) (\<lambda>created_at.
           (case get_or_none d ''limitations'' of
              VList limits \<Rightarrow>
                bnd (attestation_required_string d ''anchor_hash'') (\<lambda>h.
                bnd (attestation_required_string d ''anchor_version'') (\<lambda>anchor_version.
                bnd (attestation_required_string d ''attester'') (\<lambda>attester.
                bnd (bnd (attestation_required_string d ''attestation_type'') attestation_type_of) (\<lambda>kind.
                bnd (attestation_required_string d ''statement_digest'') (\<lambda>statement_digest.
                bnd (attestation_optional_string d ''statement_reference'') (\<lambda>statement_reference.
                bnd (attestation_required_string d ''attestation_version'') (\<lambda>attestation_version.
                  Inr \<lparr>xa_anchor_hash = h, xa_anchor_version = anchor_version, xa_attester = attester,
                       xa_attestation_type = kind, xa_statement_digest = statement_digest,
                       xa_statement_reference = statement_reference, xa_created_at = created_at,
                       xa_limitations = strings_of limits,
                       xa_attestation_version = attestation_version\<rparr>)))))))
            | _ \<Rightarrow> raise ValueError ''external anchor attestation limitations must be a list''))
       | _ \<Rightarrow> raise ValueError ''external anchor attestation must be a JSON object'')"

section \<open>Durability rules\<close>

definition LOCAL_DURABILITY_POLICY_VERSION :: string where
  "LOCAL_DURABILITY_POLICY_VERSION = ''actionlineage.dev/local-durability-policy-v1''"

datatype DurabilitySurface =
    DS_JOURNAL_APPEND
  | DS_JOURNAL_VERIFICATION
  | DS_SERVICE_INGEST_BATCH
  | DS_PROJECTION
  | DS_CASE_BUNDLE
  | DS_APPEND_CACHE
  | DS_EXTERNAL_CHECKPOINT

fun DurabilitySurface_value :: "DurabilitySurface \<Rightarrow> string" where
  "DurabilitySurface_value DS_JOURNAL_APPEND = ''journal_append''"
| "DurabilitySurface_value DS_JOURNAL_VERIFICATION = ''journal_verification''"
| "DurabilitySurface_value DS_SERVICE_INGEST_BATCH = ''service_ingest_batch''"
| "DurabilitySurface_value DS_PROJECTION = ''projection''"
| "DurabilitySurface_value DS_CASE_BUNDLE = ''case_bundle''"
| "DurabilitySurface_value DS_APPEND_CACHE = ''append_cache''"
| "DurabilitySurface_value DS_EXTERNAL_CHECKPOINT = ''external_checkpoint''"

datatype DurabilityFault =
    DF_APPEND_PREFLIGHT_FAILURE
  | DF_APPEND_WRITE_FLUSH_FSYNC_FAILURE
  | DF_PARTIAL_RECORD_WITHOUT_NEWLINE
  | DF_PROCESS_CRASH_AFTER_APPEND_BEFORE_PROJECTION
  | DF_BATCH_LATER_APPEND_FAILURE
  | DF_PROJECTION_REBUILD_FAILURE
  | DF_CASE_BUNDLE_STAGING_FAILURE
  | DF_CASE_BUNDLE_PUBLISH_COLLISION
  | DF_FUTURE_APPEND_CACHE_MISMATCH
  | DF_EXTERNAL_CHECKPOINT_VERIFIER_UNAVAILABLE

fun DurabilityFault_value :: "DurabilityFault \<Rightarrow> string" where
  "DurabilityFault_value DF_APPEND_PREFLIGHT_FAILURE = ''append_preflight_failure''"
| "DurabilityFault_value DF_APPEND_WRITE_FLUSH_FSYNC_FAILURE = ''append_write_flush_fsync_failure''"
| "DurabilityFault_value DF_PARTIAL_RECORD_WITHOUT_NEWLINE = ''partial_record_without_newline''"
| "DurabilityFault_value DF_PROCESS_CRASH_AFTER_APPEND_BEFORE_PROJECTION = ''process_crash_after_append_before_projection''"
| "DurabilityFault_value DF_BATCH_LATER_APPEND_FAILURE = ''batch_later_append_failure''"
| "DurabilityFault_value DF_PROJECTION_REBUILD_FAILURE = ''projection_rebuild_failure''"
| "DurabilityFault_value DF_CASE_BUNDLE_STAGING_FAILURE = ''case_bundle_staging_failure''"
| "DurabilityFault_value DF_CASE_BUNDLE_PUBLISH_COLLISION = ''case_bundle_publish_collision''"
| "DurabilityFault_value DF_FUTURE_APPEND_CACHE_MISMATCH = ''future_append_cache_mismatch''"
| "DurabilityFault_value DF_EXTERNAL_CHECKPOINT_VERIFIER_UNAVAILABLE = ''external_checkpoint_verifier_unavailable''"

datatype DurabilityOutcome =
    DO_NO_CANONICAL_APPEND
  | DO_VERIFIED_PREFIX_AVAILABLE
  | DO_CANONICAL_APPEND_COMMITTED
  | DO_CANONICAL_PREFIX_COMMITTED
  | DO_DERIVED_ARTIFACT_NOT_PUBLISHED
  | DO_DERIVED_ARTIFACT_STALE
  | DO_CACHE_IGNORED_OR_REBUILT
  | DO_EXTERNAL_STATUS_UNKNOWN

fun DurabilityOutcome_value :: "DurabilityOutcome \<Rightarrow> string" where
  "DurabilityOutcome_value DO_NO_CANONICAL_APPEND = ''no_canonical_append''"
| "DurabilityOutcome_value DO_VERIFIED_PREFIX_AVAILABLE = ''verified_prefix_available''"
| "DurabilityOutcome_value DO_CANONICAL_APPEND_COMMITTED = ''canonical_append_committed''"
| "DurabilityOutcome_value DO_CANONICAL_PREFIX_COMMITTED = ''canonical_prefix_committed''"
| "DurabilityOutcome_value DO_DERIVED_ARTIFACT_NOT_PUBLISHED = ''derived_artifact_not_published''"
| "DurabilityOutcome_value DO_DERIVED_ARTIFACT_STALE = ''derived_artifact_stale''"
| "DurabilityOutcome_value DO_CACHE_IGNORED_OR_REBUILT = ''cache_ignored_or_rebuilt''"
| "DurabilityOutcome_value DO_EXTERNAL_STATUS_UNKNOWN = ''external_status_unknown''"

record LocalDurabilityRule =
  du_surface :: DurabilitySurface
  du_fault :: DurabilityFault
  du_outcome :: DurabilityOutcome
  du_canonical_journal_state :: string
  du_derived_state :: string
  du_retry_guidance :: string
  du_claim_boundary :: string

definition durability_rule ::
  "DurabilitySurface \<Rightarrow> DurabilityFault \<Rightarrow> DurabilityOutcome \<Rightarrow> string \<Rightarrow> string \<Rightarrow> string \<Rightarrow> string
     \<Rightarrow> LocalDurabilityRule" where
  "durability_rule surface fault outcome journal derived retry boundary =
     \<lparr>du_surface = surface, du_fault = fault, du_outcome = outcome, du_canonical_journal_state = journal,
      du_derived_state = derived, du_retry_guidance = retry, du_claim_boundary = boundary\<rparr>"

definition DEFAULT_LOCAL_DURABILITY_RULES :: "LocalDurabilityRule list" where
  "DEFAULT_LOCAL_DURABILITY_RULES =
     [durability_rule DS_JOURNAL_APPEND DF_APPEND_PREFLIGHT_FAILURE DO_NO_CANONICAL_APPEND
        ''Existing verified journal bytes remain canonical; the candidate event is rejected before it becomes trusted evidence.''
        ''No projection, cache, anchor, or case-bundle update is trusted.''
        ''Fix storage or integrity preflight issues, then retry the same evidence input.''
        ''Do not report a rejected candidate as persisted evidence.'',
      durability_rule DS_JOURNAL_APPEND DF_APPEND_WRITE_FLUSH_FSYNC_FAILURE DO_VERIFIED_PREFIX_AVAILABLE
        ''Verification may stop at an incomplete or corrupt final record; only the prior verified prefix is usable as canonical evidence.''
        ''Derived state must be treated as stale until rebuilt from the verified prefix.''
        ''Do not truncate in place; export the verified prefix or retry after storage repair.''
        ''Do not claim the failed append committed unless it later verifies.'',
      durability_rule DS_JOURNAL_VERIFICATION DF_PARTIAL_RECORD_WITHOUT_NEWLINE DO_VERIFIED_PREFIX_AVAILABLE
        ''Records before the missing newline can verify; the incomplete record and later bytes are not trusted evidence.''
        ''Projection and exports must not include unverified suffix records.''
        ''Use verified-prefix export to create a separate recovery file.''
        ''No in-place repair, deletion, or proof-of-absence claim is implied.'',
      durability_rule DS_PROJECTION DF_PROJECTION_REBUILD_FAILURE DO_DERIVED_ARTIFACT_STALE
        ''A successful journal append remains canonical evidence.''
        ''Projection reads are stale and must fail closed until rebuilt from the journal.''
        ''Retry with the same idempotency key or explicitly rebuild the projection.''
        ''Projection failure must not roll back or hide committed journal evidence.'',
      durability_rule DS_SERVICE_INGEST_BATCH DF_PROCESS_CRASH_AFTER_APPEND_BEFORE_PROJECTION DO_CANONICAL_APPEND_COMMITTED
        ''If the appended record verifies, it remains canonical evidence.''
        ''Projection health is stale until a duplicate retry or rebuild repairs it.''
        ''Retry the same idempotency key; duplicate detection should repair projection state.''
        ''Do not report the retry as a second append.'',
      durability_rule DS_SERVICE_INGEST_BATCH DF_BATCH_LATER_APPEND_FAILURE DO_CANONICAL_PREFIX_COMMITTED
        ''Earlier records that verified remain committed; later failed records do not.''
        ''Projection may represent only the committed prefix until recovery completes.''
        ''Retry the original batch; committed records should resolve as duplicates.''
        ''Do not claim all-or-nothing batch semantics for the local service path.'',
      durability_rule DS_CASE_BUNDLE DF_CASE_BUNDLE_STAGING_FAILURE DO_DERIVED_ARTIFACT_NOT_PUBLISHED
        ''The source journal and verified projection binding are unchanged.''
        ''The failed staging directory is cleanup-only and is not a published case bundle.''
        ''Retry export after storage recovery; preserve any pre-existing valid bundle.''
        ''A case bundle is a derived artifact, not canonical evidence or a signature.'',
      durability_rule DS_CASE_BUNDLE DF_CASE_BUNDLE_PUBLISH_COLLISION DO_DERIVED_ARTIFACT_NOT_PUBLISHED
        ''The source journal remains canonical evidence.''
        ''Existing destination content is preserved and no new bundle is published.''
        ''Choose a new output directory or review the existing bundle.''
        ''Do not overwrite or partially merge case-bundle artifacts.'',
      durability_rule DS_APPEND_CACHE DF_FUTURE_APPEND_CACHE_MISMATCH DO_CACHE_IGNORED_OR_REBUILT
        ''Verified journal bytes, record count, and terminal hash remain authoritative.''
        ''The cache is ignored or rebuilt; it cannot nominate its own trust root.''
        ''Rebuild cache state from a verified journal snapshot.''
        ''A future append cache is never canonical or trusted evidence.'',
      durability_rule DS_EXTERNAL_CHECKPOINT DF_EXTERNAL_CHECKPOINT_VERIFIER_UNAVAILABLE DO_EXTERNAL_STATUS_UNKNOWN
        ''Local journal verification may still succeed under local trust assumptions.''
        ''External checkpoint status is unknown, stale, or unverified.''
        ''Retry external verification or use a caller policy that explicitly accepts local-only evidence.''
        ''Unavailable external verification must not be silently converted to verified.'']"

definition LocalDurabilityRule_as_dict :: "LocalDurabilityRule \<Rightarrow> pyv" where
  "LocalDurabilityRule_as_dict r =
     obj [(''surface'', VStr (DurabilitySurface_value (du_surface r))),
          (''fault'', VStr (DurabilityFault_value (du_fault r))),
          (''outcome'', VStr (DurabilityOutcome_value (du_outcome r))),
          (''canonical_journal_state'', VStr (du_canonical_journal_state r)),
          (''derived_state'', VStr (du_derived_state r)), (''retry_guidance'', VStr (du_retry_guidance r)),
          (''claim_boundary'', VStr (du_claim_boundary r))]"

definition get_local_durability_rule ::
  "DurabilitySurface \<Rightarrow> DurabilityFault \<Rightarrow> LocalDurabilityRule res" where
  "get_local_durability_rule surface fault =
     (case List.find (\<lambda>r. du_surface r = surface \<and> du_fault r = fault) DEFAULT_LOCAL_DURABILITY_RULES of
        Some r \<Rightarrow> Inr r
      | None \<Rightarrow> raise LocalDurabilityPolicyError
          (''no local durability policy for surface='' @ py_str_repr (DurabilitySurface_value surface)
           @ '' fault='' @ py_str_repr (DurabilityFault_value fault)))"

definition local_durability_policy :: pyv where
  "local_durability_policy =
     obj [(''schema_version'', VStr LOCAL_DURABILITY_POLICY_VERSION),
          (''canonical_evidence'', VStr ''append_only_journal''),
          (''projection_boundary'', VStr ''derived_rebuildable_state''),
          (''case_bundle_boundary'', VStr ''derived_export_artifact''),
          (''external_checkpoint_boundary'', VStr ''explicit_unknown_when_unavailable''),
          (''rules'', VList (map LocalDurabilityRule_as_dict DEFAULT_LOCAL_DURABILITY_RULES))]"

end
