(* ===== verification/JournalSidecarFacts.thy ===== *)
theory JournalSidecarFacts
  imports JournalSidecars AnchorClaims
begin

text \<open>
  What the files beside a journal promise: the manifest of an archived journal verifies against the
  journal it was made of and fixes its bytes, and an attestation fixes the anchor and the statement
  it was made for.
\<close>

section \<open>Archive manifests\<close>

lemma snapshot_file:
  assumes "verified_journal_snapshot pd stat None None file = Inr s" "snapshot_ok s"
  shows "js_journal_sha256 s = map_option sha256_digest file"
  using assms
  by (auto simp: verified_journal_snapshot_def Let_def bnd_Inr_iff snapshot_ok_def sha256_digest_def
      split: option.splits if_splits)

lemma archived_journal:
  assumes "pydantic_laws pd"
    and "create_journal_archive_manifest pd stat path file uri mode storage t current = Inr m"
  shows "\<exists>content es. file = Some content \<and> am_journal_sha256 m = sha256_digest content
    \<and> content = journal_bytes pd es \<and> good_records pd 0 None es
    \<and> am_record_count m = VInt (int (length es)) \<and> am_last_event_hash m = opt_str (terminal None es)"
proof -
  obtain s digest where s: "verified_journal_snapshot pd stat None None file = Inr s" "snapshot_ok s"
    and m: "js_journal_sha256 s = Some digest" "am_journal_sha256 m = digest"
      "am_record_count m = VInt (int (snapshot_record_count s))"
      "am_last_event_hash m = opt_str (snapshot_terminal_hash s)"
    using assms(2)
    by (auto simp: create_journal_archive_manifest_def bnd_Inr_iff split: option.splits if_splits)
  obtain content where c: "file = Some content" "digest = sha256_digest content"
    using snapshot_file [OF s] m(1) by (cases "file") auto
  show ?thesis
    using snapshot_okD [OF assms(1) s] c m by (auto simp: file_bytes_def)
qed

text \<open>The manifest of a journal verifies against the file it was made of, whatever the clock shows.\<close>

theorem archive_manifest_verifies:
  assumes "pydantic_laws pd"
    and "create_journal_archive_manifest pd stat path (Some content) uri mode storage t current = Inr m"
    and "reads path' = \<lparr>ad_exists = Inr True, ad_bytes = Inr content, ad_journal = Some content, ad_stat = stat'\<rparr>"
    and "fst stat' = snd stat'"
  shows "\<exists>r. verify_journal_archive_manifest pd reads m (Some path') = Inr r \<and> rr_ok r \<and> rr_issues r = []"
proof -
  obtain es where es: "content = journal_bytes pd es" "good_records pd 0 None es"
    and m: "am_journal_sha256 m = sha256_digest content" "am_record_count m = VInt (int (length es))"
      "am_last_event_hash m = opt_str (terminal None es)"
    using archived_journal [OF assms(1,2)] by auto
  obtain v where "verify_journal pd stat' (Some (int (length es))) (terminal None es) (Some content) = Inr v"
    "vr_ok v"
    using verify_journal_good [OF assms(1) _ es(2) assms(4), of "Some content" "Some (int (length es))" "terminal None es"]
      es(1) by (auto simp: file_bytes_def)
  then have "verify_expected pd stat' (am_record_count m) (am_last_event_hash m) (Some content) = Inr v" "vr_ok v"
    using m by (simp_all add: verify_expected_opt)
  then show ?thesis
    using assms(3) m(1)
    by (simp add: verify_journal_archive_manifest_def Let_def file_sha256_def sha256_digest_def)
qed

text \<open>A file that is accepted for the manifest of a journal is that journal, unless the two files
  collide under SHA-256.\<close>

theorem archive_manifest_fixes_file:
  assumes "pydantic_laws pd"
    and "create_journal_archive_manifest pd stat path (Some content) uri mode storage t current = Inr m"
    and "ad_bytes (reads path') = Inr other"
    and "verify_journal_archive_manifest pd reads m (Some path') = Inr r" "rr_ok r"
  shows "other = content \<or> other \<noteq> content \<and> sha256_digest other = sha256_digest content"
proof -
  have "am_journal_sha256 m = sha256_digest content"
    using archived_journal [OF assms(1,2)] by auto
  then have "sha256_digest other = sha256_digest content"
    using assms(3-5)
    by (auto simp: verify_journal_archive_manifest_def Let_def bnd_Inr_iff file_sha256_def
        sha256_digest_def split: if_splits)
  then show ?thesis by blast
qed

section \<open>External attestations\<close>

text \<open>A created attestation is consistent with its anchor and its statement.\<close>

theorem created_attestation_verifies:
  assumes "create_external_anchor_attestation anchor attester kind statement ref t current limits = Inr a"
  shows "verify_external_anchor_attestation anchor a (Some statement) = Inr \<lparr>xr_ok = True, xr_issues = []\<rparr>"
  using assms
  by (auto simp: create_external_anchor_attestation_def verify_external_anchor_attestation_def
      attestation_issue_def Let_def bnd_Inr_iff split: if_splits)

text \<open>An attestation made for one anchor and statement is accepted for another anchor or statement only
  when the canonical forms of the anchors, or the statements, have the same SHA-256 digest.\<close>

theorem attestation_fixes_anchor_and_statement:
  assumes "create_external_anchor_attestation anchor attester kind statement ref t current limits = Inr a"
    and "verify_external_anchor_attestation anchor' a (Some statement') = Inr r" "xr_ok r"
  shows "anchor_hash anchor' = anchor_hash anchor \<and> sha256_digest statement' = sha256_digest statement
    \<and> ja_anchor_version anchor' = ja_anchor_version anchor"
  using assms
  by (auto simp: create_external_anchor_attestation_def verify_external_anchor_attestation_def
      attestation_issue_def Let_def bnd_Inr_iff split: if_splits)

section \<open>Durability rules\<close>

text \<open>At most one rule is reviewed for a surface and a fault, and every fault has its rule.\<close>

lemma durability_rule_per_fault:
  "distinct (map du_fault DEFAULT_LOCAL_DURABILITY_RULES)"
  "\<exists>s r. get_local_durability_rule s f = Inr r \<and> du_fault r = f \<and> du_surface r = s"
proof -
  show "distinct (map du_fault DEFAULT_LOCAL_DURABILITY_RULES)"
    by (simp add: DEFAULT_LOCAL_DURABILITY_RULES_def durability_rule_def)
  have "\<exists>r\<in>set DEFAULT_LOCAL_DURABILITY_RULES. du_fault r = f"
    by (cases f) (simp_all add: DEFAULT_LOCAL_DURABILITY_RULES_def durability_rule_def)
  then obtain r where "r \<in> set DEFAULT_LOCAL_DURABILITY_RULES" "du_fault r = f" by blast
  then have "List.find (\<lambda>q. du_surface q = du_surface r \<and> du_fault q = f) DEFAULT_LOCAL_DURABILITY_RULES \<noteq> None"
    by (auto simp: find_None_iff)
  then obtain q where q: "List.find (\<lambda>q. du_surface q = du_surface r \<and> du_fault q = f) DEFAULT_LOCAL_DURABILITY_RULES = Some q"
    by blast
  moreover have "du_surface q = du_surface r \<and> du_fault q = f"
    using q by (auto simp: find_Some_iff)
  ultimately have "get_local_durability_rule (du_surface r) f = Inr q \<and> du_fault q = f \<and> du_surface q = du_surface r"
    by (simp add: get_local_durability_rule_def)
  then show "\<exists>s r. get_local_durability_rule s f = Inr r \<and> du_fault r = f \<and> du_surface r = s"
    by blast
qed

end
