(* ===== verification/Spec2Isabelle.thy ===== *)
theory Spec2Isabelle
  imports DomainClaims DetectionClaims AttestationClaims TimelineClaims PolicyClaims RedactionClaims JournalLock TenancyClaims ContractClaims ProjectionClaims GraphClaims BundleClaims ServiceClaims ToolAdapterClaims JournalSidecarFacts
begin

text \<open>
  ActionLineage: the evidence journal of agent actions, its event model and the components that
  read and write it. All paths are relative to \<open>src/src/actionlineage/\<close>.

  \<^bold>\<open>The program.\<close> Adapters and importers turn what an agent did into immutable event envelopes
  (\<open>domain/events.py\<close>). An event is written to a local journal (\<open>journal/local.py\<close>): one
  canonical JSON line for each event (\<open>domain/serialization.py\<close>), redacted before it is hashed
  (\<open>domain/redaction.py\<close>), each line carrying its own SHA-256 digest and that of its predecessor
  (\<open>journal/hashing.py\<close>). Writers and readers of the file exclude each other by a lock. The journal is
  verified by a scan that parses every line, recomputes the hashes and compares sequence numbers.
  Anchors (\<open>journal/anchors.py\<close>) keep the terminal hash of a journal outside of it, in signed records
  and in an append-only log that is a hash chain itself. Evidence enters through a normalizer
  (\<open>evidence/normalization.py\<close>) that numbers events and fixes their causality, and through batch
  imports with idempotency keys (\<open>evidence/ingestion.py\<close>). On top of the events work the sequence
  detection engine (\<open>detection/sequence.py\<close>, \<open>detection/rules.py\<close>), the verification of observations
  (\<open>observers/verification.py\<close>, \<open>observers/attestation.py\<close>), evidence contracts
  (\<open>contracts/validation.py\<close>) and the policy adapter with its approvals (\<open>adapters/policy.py\<close>). A
  SQLite projection (\<open>projection/sqlite.py\<close>) is rebuilt from the verified journal; timelines, graphs
  and case bundles are read from it after it has been compared with the journal again. The service
  (\<open>service/\<close>) authenticates callers, checks their capabilities, confines the paths they name and
  offers ingestion, queries, exports and health over HTTP.

  \<^bold>\<open>The language.\<close> \<open>Prelude\<close> has Python's exceptions as values and the error monad: every raise
  is an \<open>Inl\<close>, \<open>is_a\<close> is the subclass relation of the \<open>except\<close> clauses. \<open>PyText\<close> (UTF-8 text),
  \<open>PyFloat\<close> (doubles and their shortest decimal), \<open>PyTime\<close> (calendar, offsets, ISO text), \<open>PyValue\<close>
  (values and equality), \<open>PyOps\<close> (repr, truth, comparison), \<open>PyJson\<close> (\<open>json.dumps\<close> and
  \<open>json.loads\<close>), \<open>PyHash\<close> (SHA-256, HMAC, base64), \<open>PyRegex\<close> (the regular expressions of the redaction
  policy as trees with a backtracking matcher; \<open>alnum\<close> is Unicode's table of alphanumeric code
  points), \<open>PyPath\<close> (\<open>pathlib\<close> and \<open>resolve\<close> over symbolic links) and \<open>Sqlite\<close> (tables, statements,
  transactions) model what the code uses of the standard library. \<open>PyJsonRound\<close>, \<open>PyJsonLoads\<close> and
  \<open>PyEncodes\<close> prove that \<open>loads\<close> reads back what \<open>dumps\<close> wrote, that its fuel, the length of the text,
  is enough, and exactly which values can be written.

  \<^bold>\<open>The components.\<close>
  \<^item> \<open>Events\<close>, \<open>Envelope\<close>: enumerations, frozen JSON containers, the models of \<open>domain/events.py\<close> as
    records with their validators, dumps and copies; \<open>domain/canonicalization.py\<close>. What pydantic
    does beyond the validators is the parameter \<open>pydantic\<close> with the laws of the locale
    \<open>pydantic_laws\<close>, which the strict mode instance \<open>strict_pydantic\<close> satisfies.
  \<^item> \<open>Serialization\<close>: normalization, canonical bytes, the redaction boundary, parsing;
    \<open>DomainClaims\<close> has the properties of both. \<open>ErrorText\<close>: the texts of errors (\<open>errors.py\<close>).
  \<^item> \<open>Redaction\<close>: the redaction policy and the redaction of log fields; \<open>RedactionBoundary\<close> shows that
    the default policy is a \<open>redaction_boundary\<close> (what the journal assumes of one), with
    \<open>RedactionClaims\<close>.
  \<^item> \<open>Journal\<close>: hashes, snapshots, verification and appending; the file is its bytes, what the
    operating system answers (permissions, reads, the outcome of a write down to the byte where it
    stopped) is an argument. \<open>HashChain\<close> is the interface of a hash chain, its client lemma is tamper
    evidence; \<open>JournalChain\<close> shows that the journal provides it, states the contract of a redaction
    boundary and proves the append lemmas; \<open>JournalClaims\<close> has the properties.
  \<^item> \<open>JournalLock\<close>: one attempt to take the lock, the polling loop with its deadline, and processes
    that append and read under it as a step relation that refines atomic appends and snapshots.
  \<^item> \<open>Anchors\<close>, \<open>AnchorClaims\<close>: anchors, signatures, the anchor log (a second interpretation of
    \<open>hash_chain\<close>), segment manifests and exported prefixes. \<open>JournalSidecars\<close>, \<open>JournalSidecarFacts\<close>:
    archive manifests, external attestations of anchors, the table of durability rules.
  \<^item> \<open>Support\<close>: \<open>domain/ids.py\<close> (locale \<open>fresh_ids\<close>), \<open>domain/time.py\<close>, \<open>compatibility.py\<close>.
  \<^item> \<open>Normalization\<close>, \<open>Ingestion\<close>, \<open>IngestionClaims\<close>, \<open>TimelineClaims\<close>: the normalizer as a record
    with its operations in state passing style, both batch imports with their state, the locale
    \<open>ingest_boundary\<close> and what a batch does to the journal.
  \<^item> \<open>Detection\<close>, \<open>DetectionRules\<close>, \<open>DetectionClaims\<close>: predicates, grouping, the ordered and the
    unordered matcher, suppression, the rule loader and printer. The regular expressions of rules and
    YAML are parameters.
  \<^item> \<open>Attestation\<close>, \<open>AttestationClaims\<close>: observer declarations, what an observation supports.
  \<^item> \<open>Contracts\<close>, \<open>ContractForms\<close>, \<open>ContractClaims\<close>: evidence contracts as records, the validation of
    events against one, their JSON form, and a declarative reading they are compared with.
  \<^item> \<open>Policy\<close>, \<open>PolicyClaims\<close>: decisions, approvals, the replay cache (locale \<open>once_only\<close>).
  \<^item> \<open>ToolAdapters\<close>, \<open>ToolAdapterFacts\<close>, \<open>ToolAdapterClaims\<close>: the descriptors and the proxy of
    \<open>adapters/mcp/\<close> and the lifecycle records of \<open>adapters/frameworks.py\<close>. The tool is a parameter that
    may do anything to the world; the locale \<open>call_journal\<close> is what an execution needs of the journal
    it writes to, the local journal provides it.
  \<^item> \<open>Projection\<close>, \<open>ProjectionState\<close>: the rows of an event, the schema, the rebuild and the proof that a
    database corresponds to a journal. The database is a value; the answers of the file system and of
    the lock are arguments; a column keeps the type of what is stored, and rows with equal sort keys
    keep their insertion order. \<open>ProjectionChain\<close>, \<open>ProjectionRebuild\<close>, \<open>ProjectionVerify\<close> and
    \<open>ProjectionFacts\<close> prove what a rebuild leaves and what a verification has compared;
    \<open>ProjectionClaims\<close> has the properties.
  \<^item> \<open>ProjectionQueries\<close>, \<open>ProjectionExports\<close>, \<open>GraphClaims\<close>: timelines, incidents, the investigation
    graph. \<open>CaseBundle\<close>, \<open>BundleClaims\<close>: the files of a case and their publication by a rename.
  \<^item> \<open>ServiceAuth\<close>, \<open>Tenancy\<close>, \<open>TenancyClaims\<close>: authenticators (PyJWT is a parameter), roles and
    capabilities, tenants, the confinement of paths (locale \<open>resolver\<close>).
  \<^item> \<open>Service\<close>, \<open>ServiceFacts\<close>, \<open>ServiceClaims\<close>: the health report (\<open>service/health.py\<close>), every handler
    of \<open>service/api.py\<close> over the state of journal, database and exports, the configuration of
    \<open>service/runtime.py\<close>, runs of the service beside other processes, the locale \<open>json_pydantic\<close>.

  \<^bold>\<open>What is shown.\<close> Canonical bytes parse back to the same event; what validation guarantees and
  which exceptions parsing raises within the recursion limit. A journal that verifies is a chain of well-formed records, appends
  and partial writes keep it so, two journals with one terminal hash are the same bytes up to a
  collision, and an anchor fixes a journal in the same way. Under the lock every step leaves the file
  alone or is one append, and the polling loop ends. Redacted values show no more than the policy's
  limits allow, and what is appended does not depend on secrets. A batch import appends exactly its imported records
  and a second import appends nothing. Detection reports only sequences that match and, without a
  window, reports one whenever there is one. A contract validates exactly when its declarative reading
  holds. A nonce is accepted once. A tool runs only when its call is allowed and on record. A rebuild of the projection succeeds exactly when the event ids of
  the journal are distinct, what it leaves verifies, a journal that has grown is noticed, and a reader
  sees exactly the events of a journal that verifies. The investigation graph is closed, a case bundle
  is published whole or not at all, requested paths stay below their roots and tenants stay apart. The
  service does nothing without the right, keeps what was recorded however it is used, marks what it
  ingests with the principal that sent it, and is ready after it has ingested.
  The flaws that modelling showed are theorems as well where they have one (a record that makes
  verification raise, a window that hides a match, an unsigned anchor that is accepted, a refused
  record that blocks its batch, an edge of the graph that is lost, a
  framework's records imported backwards).

  \<^bold>\<open>Bounds.\<close> Integers are unbounded, as in Python; the limit of 4300 digits on their text is
  modelled, and the 64 bits of an SQLite integer. Lower case, digits and white space are those of
  ASCII where a component says so. Loops are recursions over the data; the ordered matcher terminates
  since every round drops an event, the path resolver since every symbolic link is followed once, the
  JSON parser runs on fuel that is proved to be enough, the regular expressions repeat single
  characters only.

  \<^bold>\<open>Not modelled.\<close> The interpreter's recursion limit: \<open>json.loads\<close> raises \<open>RecursionError\<close> where a text
  is nested too deeply, here it is parsed at any depth. Platforms without \<open>fcntl\<close>, where
  \<open>journal/local.py\<close> takes no lock: the exclusion of \<open>JournalLock\<close> is that of a working \<open>flock\<close>. An
  \<open>event_type\<close> with a lone surrogate, which is refused here. \<open>fsync\<close> and file modes beyond their
  outcomes; logging; FastAPI, which routes
  requests to the handlers and prints what they give it. The PostgreSQL projection
  (a second database engine behind a driver that is not part of the repository). The observers that
  read files, databases, repositories and cloud services, the exporters, the transport of the MCP
  SDK, the rule packs, anchors in git, the command line, the console, the demo and the
  evaluations: they call external services, print, or move data between the components above.
\<close>

end
